(* ===== verification/Prelude.thy ===== *)
theory Prelude
  imports
    Complex_Main
    "HOL-Library.AList"
    "HOL-Library.Char_ord"
    "HOL-Library.List_Lexorder"
    "HOL-Library.Multiset"
    "HOL-Library.Sublist"
begin

text \<open>
  Shared vocabulary of the development: the Go values the services of AegisFlux compute with
  (strings, 64-bit integers, floats, times, maps, dynamically typed JSON values), the parts of
  Go's standard library the sources call on them, and the generic facts the component theories
  use.

  Conventions. A Go string is its list of bytes (\<^typ>\<open>string\<close>); case mapping, case folding
  and white space are those of the ASCII range (bytes above 127 are left alone). Strings are
  compared as Go compares them, byte by byte (the lexicographic order of
  \<open>HOL-Library.List_Lexorder\<close>). A \<open>time.Time\<close> is its number of nanoseconds since the epoch and a
  \<open>time.Duration\<close> a 64-bit number of nanoseconds, both of type \<^typ>\<open>int\<close>. A Go map is an
  association list with distinct keys: the list is the map together with the order in which a
  \<open>range\<close> statement visits it, which Go leaves open, so a theorem about every such list is a
  theorem about every order of iteration.
\<close>

named_theorems go_defs \<open>definitions of the Go standard library functions of the prelude\<close>
named_theorems go_map_simps \<open>lookups after updates and deletions of Go maps\<close>

section \<open>Integers, durations and floats\<close>

type_synonym time = int
type_synonym duration = int

definition wrap64 :: "int \<Rightarrow> int" where
  "wrap64 x = (x + 2 ^ 63) mod 2 ^ 64 - 2 ^ 63"

definition seconds :: "int \<Rightarrow> duration" where
  "seconds n = wrap64 (n * 1000000000)"

text \<open>The zero \<open>time.Time\<close>, 1 January of the year 1.\<close>

definition zero_time :: time where
  "zero_time = -62135596800 * 1000000000"

definition time_add :: "time \<Rightarrow> duration \<Rightarrow> time" where
  "time_add t d = t + d"

definition time_sub :: "time \<Rightarrow> time \<Rightarrow> duration" where
  "time_sub t u = max (- (2 ^ 63)) (min (2 ^ 63 - 1) (t - u))"

lemma wrap64_id: "- (2 ^ 63) \<le> x \<Longrightarrow> x < 2 ^ 63 \<Longrightarrow> wrap64 x = x"
  by (simp add: wrap64_def)

lemma wrap64_bounds: "- (2 ^ 63) \<le> wrap64 x \<and> wrap64 x < 2 ^ 63"
  unfolding wrap64_def
  using pos_mod_bound [of "2 ^ 64" "x + 2 ^ 63"] pos_mod_sign [of "2 ^ 64" "x + 2 ^ 63"] by simp

lemma seconds_exact: "0 \<le> n \<Longrightarrow> n \<le> 9223372036 \<Longrightarrow> seconds n = n * 1000000000"
  unfolding seconds_def by (rule wrap64_id) auto

text \<open>
  A \<open>float64\<close> as far as the sources compare it: a finite value, an infinity or a NaN, every
  comparison with which is false.
\<close>

datatype float64 = Fin rat | PosInf | NegInf | NaN

fun f_less :: "float64 \<Rightarrow> float64 \<Rightarrow> bool" where
  "f_less (Fin a) (Fin b) = (a < b)"
| "f_less NegInf (Fin b) = True"
| "f_less (Fin a) PosInf = True"
| "f_less NegInf PosInf = True"
| "f_less _ _ = False"

definition f_greater :: "float64 \<Rightarrow> float64 \<Rightarrow> bool" where
  "f_greater a b = f_less b a"

lemma f_less_NaN [simp]: "\<not> f_less NaN x" "\<not> f_less x NaN"
  by (cases x; simp)+

lemma f_in_unit_iff:
  "(\<not> f_less x (Fin 0) \<and> \<not> f_greater x (Fin 1)) \<longleftrightarrow> x = NaN \<or> (\<exists>q. x = Fin q \<and> 0 \<le> q \<and> q \<le> 1)"
  by (cases x) (auto simp: f_greater_def)

section \<open>Strings\<close>

definition lower_char :: "char \<Rightarrow> char" where
  "lower_char c = (let n = (of_char c :: nat) in if 65 \<le> n \<and> n \<le> 90 then char_of (n + 32) else c)"

definition to_lower :: "string \<Rightarrow> string" where
  "to_lower s = map lower_char s"

definition is_space :: "char \<Rightarrow> bool" where
  "is_space c = (let n = (of_char c :: nat) in (9 \<le> n \<and> n \<le> 13) \<or> n = 32)"

definition trim_left :: "string \<Rightarrow> string" where
  "trim_left s = dropWhile is_space s"

definition trim_space :: "string \<Rightarrow> string" where
  "trim_space s = rev (trim_left (rev (trim_left s)))"

definition equal_fold :: "string \<Rightarrow> string \<Rightarrow> bool" where
  "equal_fold a b = (to_lower a = to_lower b)"

definition contains :: "string \<Rightarrow> string \<Rightarrow> bool" where
  "contains s sub = sublist sub s"

fun split_on :: "char \<Rightarrow> string \<Rightarrow> string list" where
  "split_on c [] = [[]]"
| "split_on c (x # xs) =
     (if x = c then [] # split_on c xs
      else (case split_on c xs of [] \<Rightarrow> [[x]] | w # ws \<Rightarrow> (x # w) # ws))"

fun join_with :: "string \<Rightarrow> string list \<Rightarrow> string" where
  "join_with sep [] = []"
| "join_with sep [s] = s"
| "join_with sep (s # ss) = s @ sep @ join_with sep ss"

fun fields_acc :: "string \<Rightarrow> string \<Rightarrow> string list" where
  "fields_acc w [] = (if w = [] then [] else [w])"
| "fields_acc w (x # xs) =
     (if is_space x then (if w = [] then fields_acc [] xs else w # fields_acc [] xs)
      else fields_acc (w @ [x]) xs)"

definition go_fields :: "string \<Rightarrow> string list" where
  "go_fields s = fields_acc [] s"

function replace_from :: "string \<Rightarrow> string \<Rightarrow> string \<Rightarrow> string" where
  "replace_from old new s =
     (if old = [] \<or> s = [] then s
      else if prefix old s then new @ replace_from old new (drop (length old) s)
      else hd s # replace_from old new (tl s))"
  by pat_completeness auto
termination
  by (relation "measure (\<lambda>(old, new, s). length s)") auto

declare replace_from.simps [simp del]

definition replace_all :: "string \<Rightarrow> string \<Rightarrow> string \<Rightarrow> string" where
  "replace_all s old new =
     (if old = [] then new @ concat (map (\<lambda>c. c # new) s) else replace_from old new s)"

fun is_digit :: "char \<Rightarrow> bool" where
  "is_digit c = (let n = (of_char c :: nat) in 48 \<le> n \<and> n \<le> 57)"

definition digits_value :: "string \<Rightarrow> int" where
  "digits_value s = foldl (\<lambda>acc c. acc * 10 + (int (of_char c) - 48)) 0 s"

text \<open>\<open>strconv.Atoi\<close> on a 64-bit platform: an optional sign, at least one decimal digit and
  nothing else, in the range of \<open>int\<close>.\<close>

definition atoi :: "string \<Rightarrow> int option" where
  "atoi s =
     (let neg = (s \<noteq> [] \<and> hd s = CHR ''-'');
          ds = (if s \<noteq> [] \<and> (hd s = CHR ''-'' \<or> hd s = CHR ''+'') then tl s else s);
          v = (if neg then - digits_value ds else digits_value ds)
      in if ds = [] \<or> \<not> list_all is_digit ds then None
         else if - (2 ^ 63) \<le> v \<and> v < 2 ^ 63 then Some v else None)"

fun nat_digits :: "nat \<Rightarrow> string" where
  "nat_digits n = (if n < 10 then [char_of (48 + n)]
                   else nat_digits (n div 10) @ [char_of (48 + n mod 10)])"

declare nat_digits.simps [simp del]

definition itoa :: "int \<Rightarrow> string" where
  "itoa i = (if i < 0 then CHR ''-'' # nat_digits (nat (- i)) else nat_digits (nat i))"

lemma digits_value_snoc: "digits_value (s @ [c]) = digits_value s * 10 + (int (of_char c) - 48)"
  by (simp add: digits_value_def)

lemma digit_char: "d < 10 \<Longrightarrow> (of_char (char_of (48 + d) :: char) :: nat) = 48 + d"
  by (simp add: take_bit_nat_eq_self)

lemma nat_digits_correct: "nat_digits n \<noteq> [] \<and> list_all is_digit (nat_digits n) \<and> digits_value (nat_digits n) = int n"
proof (induction n rule: nat_digits.induct)
  case (1 n)
  show ?case
  proof (cases "n < 10")
    case True
    then show ?thesis
      using digit_char [of n] by (simp add: nat_digits.simps digits_value_def Let_def del: of_char_of)
  next
    case False
    have "n mod 10 < 10" by simp
    note d = digit_char [OF this]
    have "nat_digits n = nat_digits (n div 10) @ [char_of (48 + n mod 10)]" using False by (simp add: nat_digits.simps [of n])
    moreover have "int (n div 10) * 10 + int (n mod 10) = int n"
      by (metis mult.commute mult_div_mod_eq of_nat_add of_nat_mult of_nat_numeral)
    ultimately show ?thesis using 1 False d by (simp add: digits_value_snoc Let_def del: of_char_of)
  qed
qed

lemma atoi_itoa: "0 \<le> n \<Longrightarrow> n < 2 ^ 63 \<Longrightarrow> atoi (itoa n) = Some n"
proof -
  assume n: "0 \<le> n" "n < 2 ^ 63"
  let ?ds = "nat_digits (nat n)"
  note ok = nat_digits_correct [of "nat n"]
  then obtain c cs where c: "?ds = c # cs" "is_digit c" by (cases ?ds) auto
  have "c \<noteq> CHR ''-''" "c \<noteq> CHR ''+''" using c(2) by (auto simp: Let_def)
  then show "atoi (itoa n) = Some n" using n ok c(1) by (simp add: itoa_def atoi_def Let_def)
qed

lemma itoa_not_Nil [simp]: "itoa n \<noteq> []"
  using nat_digits_correct by (simp add: itoa_def)

lemma to_lower_Nil [simp]: "to_lower [] = []"
  by (simp add: to_lower_def)

lemma to_lower_eq_Nil [simp]: "to_lower s = [] \<longleftrightarrow> s = []"
  by (simp add: to_lower_def)

lemma lower_char_idem [simp]: "lower_char (lower_char c) = lower_char c"
proof (cases "65 \<le> (of_char c :: nat) \<and> of_char c \<le> (90 :: nat)")
  case True
  then have "of_char (char_of (of_char c + 32 :: nat)) = (of_char c + 32 :: nat)"
    by (simp add: take_bit_nat_eq_self)
  with True show ?thesis by (simp add: lower_char_def)
next
  case False
  then show ?thesis by (auto simp: lower_char_def Let_def)
qed

lemma to_lower_idem [simp]: "to_lower (to_lower s) = to_lower s"
  by (simp add: to_lower_def)

lemma contains_refl [simp]: "contains s s"
  by (simp add: contains_def)

lemma contains_Nil [simp]: "contains s []"
  by (simp add: contains_def)

lemma contains_trans: "contains a b \<Longrightarrow> contains b c \<Longrightarrow> contains a c"
  unfolding contains_def by (rule sublist_order.order_trans)

lemma split_on_not_Nil [simp]: "split_on c s \<noteq> []"
  by (cases s) (auto split: list.splits)

lemma split_on_no_sep: "w \<in> set (split_on c s) \<Longrightarrow> c \<notin> set w"
proof (induction s arbitrary: w)
  case Nil
  then show ?case by simp
next
  case (Cons x xs)
  then show ?case by (cases "split_on c xs") (auto split: if_splits)
qed

lemma join_split: "join_with [c] (split_on c s) = s"
proof (induction s)
  case Nil
  then show ?case by simp
next
  case (Cons x xs)
  then show ?case
    by (cases "split_on c xs"; cases "tl (split_on c xs)") auto
qed

lemma trim_left_head: "trim_left s \<noteq> [] \<Longrightarrow> \<not> is_space (hd (trim_left s))"
  unfolding trim_left_def by (rule hd_dropWhile)

lemma trim_space_Nil [simp]: "trim_space [] = []"
  by (simp add: trim_space_def trim_left_def)

section \<open>Dynamically typed values\<close>

text \<open>
  What an \<open>interface{}\<close> holds after decoding JSON: null, a boolean, a float64, a string, a slice
  or a map. \<open>fmt_v\<close> is the verb \<open>%v\<close>; the shortest decimal form of a float64 is the argument
  \<open>fmt_g\<close>, and maps are printed in key order.
\<close>

datatype gval =
    VNil
  | VBool bool
  | VNum float64
  | VStr string
  | VArr "gval list"
  | VObj "(string \<times> gval) list"

function (sequential) fmt_v :: "(float64 \<Rightarrow> string) \<Rightarrow> gval \<Rightarrow> string" where
  "fmt_v g VNil = ''<nil>''"
| "fmt_v g (VBool b) = (if b then ''true'' else ''false'')"
| "fmt_v g (VNum x) = g x"
| "fmt_v g (VStr s) = s"
| "fmt_v g (VArr vs) = ''['' @ join_with '' '' (map (fmt_v g) vs) @ '']''"
| "fmt_v g (VObj kvs) =
     ''map['' @ join_with '' ''
       (map (\<lambda>(k, t). k @ '':'' @ t)
         (sort_key fst (map (\<lambda>(k, v). (k, fmt_v g v)) kvs))) @ '']''"
  by pat_completeness auto
termination
proof (relation "measure (\<lambda>(g, v). size v)", goal_cases)
  case (2 g vs v)
  then show ?case by (induction vs) auto
next
  case (3 g kvs p k v)
  then have "size v < Suc (size_list (size_prod (\<lambda>_. 0) size) kvs)"
    by (induction kvs) auto
  then show ?case by simp
qed auto

section \<open>Go maps\<close>

type_synonym ('k, 'v) gomap = "('k \<times> 'v) list"

abbreviation map_ok :: "('k, 'v) gomap \<Rightarrow> bool" where
  "map_ok m \<equiv> distinct (map fst m)"

abbreviation map_get :: "('k, 'v) gomap \<Rightarrow> 'k \<Rightarrow> 'v option" where
  "map_get m k \<equiv> map_of m k"

abbreviation map_set :: "'k \<Rightarrow> 'v \<Rightarrow> ('k, 'v) gomap \<Rightarrow> ('k, 'v) gomap" where
  "map_set k v m \<equiv> AList.update k v m"

abbreviation map_delete :: "'k \<Rightarrow> ('k, 'v) gomap \<Rightarrow> ('k, 'v) gomap" where
  "map_delete k m \<equiv> AList.delete k m"

text \<open>The values of a map in the order of iteration.\<close>

abbreviation map_values :: "('k, 'v) gomap \<Rightarrow> 'v list" where
  "map_values m \<equiv> map snd m"

text \<open>
  The contract of a keyed table: what a lookup returns after a write or a deletion, and that
  both keep the keys distinct. The clients' facts on sequences of writes are proved here once.
\<close>

locale keyed_table =
  fixes get :: "'m \<Rightarrow> 'k \<Rightarrow> 'v option"
    and put :: "'k \<Rightarrow> 'v \<Rightarrow> 'm \<Rightarrow> 'm"
    and del :: "'k \<Rightarrow> 'm \<Rightarrow> 'm"
    and ok :: "'m \<Rightarrow> bool"
  assumes get_put: "get (put k v m) k' = (if k' = k then Some v else get m k')"
    and get_del: "ok m \<Longrightarrow> get (del k m) k' = (if k' = k then None else get m k')"
    and ok_put: "ok m \<Longrightarrow> ok (put k v m)"
    and ok_del: "ok m \<Longrightarrow> ok (del k m)"
begin

lemma get_put_same: "get (put k v m) k = Some v"
  by (simp add: get_put)

lemma get_put_other: "k' \<noteq> k \<Longrightarrow> get (put k v m) k' = get m k'"
  by (simp add: get_put)

lemma get_fold_del:
  "ok m \<Longrightarrow> get (fold del ks m) k = (if k \<in> set ks then None else get m k)"
  by (induction ks arbitrary: m) (auto simp: get_del ok_del)

lemma ok_fold_del: "ok m \<Longrightarrow> ok (fold del ks m)"
  by (induction ks arbitrary: m) (auto simp: ok_del)

end

interpretation gm: keyed_table map_of AList.update AList.delete "\<lambda>m. distinct (map fst m)"
  by unfold_locales
    (auto simp: update_conv' delete_conv' distinct_update distinct_delete)

declare gm.get_put [simp, go_map_simps] gm.get_del [simp, go_map_simps]
declare gm.ok_put [intro] gm.ok_del [intro]

lemma map_get_set_fun: "map_get (map_set k v m) = (map_get m)(k \<mapsto> v)"
  by (rule ext) simp

lemma map_get_delete_fun: "map_get (map_delete k m) = (map_get m)(k := None)"
  by (rule ext) (simp add: delete_conv')

lemma map_of_filter_vals:
  assumes "distinct (map fst m)"
  shows "map_of (filter P m) k =
    (case map_of m k of None \<Rightarrow> None | Some v \<Rightarrow> if P (k, v) then Some v else None)"
  using assms
proof (induction m)
  case Nil
  then show ?case by simp
next
  case (Cons p m)
  obtain a b where p: "p = (a, b)" by (cases p)
  from Cons.prems p have "map_of m a = None"
    by (simp add: map_of_eq_None_iff)
  with Cons p show ?case by (auto split: option.splits)
qed

lemma set_map_set:
  "distinct (map fst m) \<Longrightarrow> set (AList.update k v m) = {p \<in> set m. fst p \<noteq> k} \<union> {(k, v)}"
  by (induction m) (force split: if_splits)+

lemma map_ok_filter: "distinct (map fst m) \<Longrightarrow> distinct (map fst (filter P m))"
  by (rule distinct_map_filter)

lemma length_map_delete:
  "distinct (map fst m) \<Longrightarrow> map_of m k = Some v \<Longrightarrow> Suc (length (AList.delete k m)) = length m"
proof (induction m)
  case Nil
  then show ?case by simp
next
  case (Cons p m)
  show ?case
  proof (cases "fst p = k")
    case True
    with Cons.prems have "AList.delete k m = m"
      by (intro delete_id) auto
    with True show ?thesis by (cases p) (simp add: AList.delete_eq)
  next
    case False
    with Cons have "Suc (length (AList.delete k m)) = length m"
      by (cases p) auto
    with False show ?thesis by (cases p) (simp add: AList.delete_eq)
  qed
qed

lemma length_map_set:
  "length (AList.update k v m) = (if map_of m k = None then Suc (length m) else length m)"
  by (induction m) (auto split: if_splits)

lemma map_set_absent: "map_of m k = None \<Longrightarrow> AList.update k v m = m @ [(k, v)]"
  by (induction m) (auto split: if_splits)

section \<open>Loops that keep the best element\<close>

text \<open>
  Several loops of the sources scan a collection and replace the candidate whenever the next
  element is better. Where \<open>better\<close> is a strict weak order, the element left at the end is one
  no other element beats, whatever the order of the scan.
\<close>

fun keep_best :: "('a \<Rightarrow> 'a \<Rightarrow> bool) \<Rightarrow> 'a option \<Rightarrow> 'a list \<Rightarrow> 'a option" where
  "keep_best better best [] = best"
| "keep_best better best (x # xs) =
     (case best of
        None \<Rightarrow> keep_best better (Some x) xs
      | Some b \<Rightarrow> keep_best better (if better x b then Some x else Some b) xs)"

locale strict_weak_choice =
  fixes better :: "'a \<Rightarrow> 'a \<Rightarrow> bool" and dom :: "'a \<Rightarrow> bool"
  assumes asym: "dom x \<Longrightarrow> dom y \<Longrightarrow> better x y \<Longrightarrow> \<not> better y x"
    and neg_trans: "dom x \<Longrightarrow> dom y \<Longrightarrow> dom z \<Longrightarrow> better x z \<Longrightarrow> better x y \<or> better y z"
begin

lemma trans: "dom x \<Longrightarrow> dom y \<Longrightarrow> dom z \<Longrightarrow> better x y \<Longrightarrow> better y z \<Longrightarrow> better x z"
  by (meson asym neg_trans)

lemma keep_best_Some:
  assumes "dom b" "\<forall>x \<in> set xs. dom x"
  shows "\<exists>r. keep_best better (Some b) xs = Some r \<and> r \<in> insert b (set xs)
           \<and> (\<forall>x \<in> insert b (set xs). \<not> better x r)"
  using assms
proof (induction xs arbitrary: b)
  case Nil
  then show ?case using asym [of b b] by auto
next
  case (Cons x xs)
  then have dx: "dom x" and db: "dom b" and dxs: "\<forall>y \<in> set xs. dom y" by auto
  show ?case
  proof (cases "better x b")
    case True
    from Cons.IH [OF dx dxs] obtain r where r: "keep_best better (Some x) xs = Some r"
      "r \<in> insert x (set xs)" "\<forall>y \<in> insert x (set xs). \<not> better y r" by blast
    then have dr: "dom r" using dx dxs by auto
    have "\<not> better b r"
    proof
      assume "better b r"
      with trans [OF dx db dr True] r(3) show False by blast
    qed
    with r True show ?thesis by auto
  next
    case False
    from Cons.IH [OF db dxs] obtain r where r: "keep_best better (Some b) xs = Some r"
      "r \<in> insert b (set xs)" "\<forall>y \<in> insert b (set xs). \<not> better y r" by blast
    then have dr: "dom r" using db dxs by auto
    have "\<not> better x r"
    proof
      assume "better x r"
      with neg_trans [OF dx db dr] False r(3) show False by blast
    qed
    with r False show ?thesis by auto
  qed
qed

lemma keep_best_None:
  assumes "\<forall>x \<in> set xs. dom x" "xs \<noteq> []"
  shows "\<exists>r. keep_best better None xs = Some r \<and> r \<in> set xs \<and> (\<forall>x \<in> set xs. \<not> better x r)"
  using assms keep_best_Some by (cases xs) auto

end

section \<open>Transition systems\<close>

inductive reach :: "('s \<Rightarrow> bool) \<Rightarrow> ('s \<Rightarrow> 's \<Rightarrow> bool) \<Rightarrow> 's \<Rightarrow> bool"
  for init :: "'s \<Rightarrow> bool" and step :: "'s \<Rightarrow> 's \<Rightarrow> bool" where
  reach_init: "init s \<Longrightarrow> reach init step s"
| reach_step: "reach init step s \<Longrightarrow> step s t \<Longrightarrow> reach init step t"

locale inductive_invariant =
  fixes init :: "'s \<Rightarrow> bool" and step :: "'s \<Rightarrow> 's \<Rightarrow> bool" and inv :: "'s \<Rightarrow> bool"
  assumes inv_init: "init s \<Longrightarrow> inv s"
    and inv_step: "inv s \<Longrightarrow> step s t \<Longrightarrow> inv t"
begin

lemma reach_inv: "reach init step s \<Longrightarrow> inv s"
  by (induction rule: reach.induct) (auto intro: inv_init inv_step)

end

end
