(* ===== verification/Corr_Model.thy ===== *)
theory Corr_Model
  imports Prelude
begin

text \<open>
  The correlator's data model: \<open>internal/model/model.go\<close> (events, findings, evidence) and
  \<open>internal/rules/model.go\<close> (rules and their parts), with the validators of the latter. A
  validator returns \<^term>\<open>None\<close> for Go's nil error. Maps the code compares with nil are
  options.
\<close>

section \<open>Events and findings\<close>

record event =
  ev_Timestamp :: time
  ev_HostID :: string
  ev_EventType :: string
  ev_BinaryPath :: string
  ev_Args :: "(string, gval) gomap option"
  ev_Context :: "(string, gval) gomap option"

datatype evidence_value =
    EvString string
  | EvInt int
  | EvTime time
  | EvMap "(string, gval) gomap option"
  | EvEvents "event list"
  | EvValue gval

record evidence =
  evd_Type :: string
  evd_Description :: string
  evd_Data :: "(string, evidence_value) gomap"
  evd_Timestamp :: time

record finding =
  fd_ID :: string
  fd_Severity :: string
  fd_Confidence :: float64
  fd_Status :: string
  fd_HostID :: string
  fd_CVE :: string
  fd_Evidence :: "evidence list"
  fd_Timestamp :: time
  fd_RuleID :: string
  fd_TTLSeconds :: int

section \<open>Rules\<close>

record selector =
  sel_HostIDs :: "string list"
  sel_HostGlobs :: "string list"
  sel_Labels :: "string list"
  sel_ExcludeHostIDs :: "string list"
  sel_HostPatterns :: "string list"
  sel_Environment :: "string list"
  sel_ServiceTypes :: "string list"
  sel_Regions :: "string list"

record event_pattern =
  pat_EventType :: string
  pat_BinaryPathRegex :: string
  pat_Args :: "(string, string) gomap option"
  pat_Context :: "(string, string) gomap option"

record temporal_window =
  tw_DurationSeconds :: int
  tw_StepSeconds :: int
  tw_OverlapAllowed :: bool
  tw_WindowType :: string

record time_range =
  tr_StartHour :: int
  tr_EndHour :: int
  tr_Days :: "string list"
  tr_Timezone :: string

record frequency =
  fq_MinIntervalSeconds :: int
  fq_MaxIntervalSeconds :: int
  fq_BackoffMultiplier :: float64

text \<open>
  The dynamic value under a key of \<open>when\<close> or \<open>requires_prior\<close>: a \<open>[]EventPattern\<close>, which is what
  the evaluator's type assertions ask for, an \<open>int\<close> (the YAML decoder's type for whole numbers), or
  any other value, such as the generic slices and maps a decoder leaves in an \<open>interface{}\<close>.
\<close>

datatype condition_value = Patterns "event_pattern list" | Integer int | Generic gval

record condition =
  cond_WindowSeconds :: int
  cond_When :: "(string, condition_value) gomap"
  cond_RequiresPrior :: "(string, condition_value) gomap option"
  cond_TemporalWindow :: "temporal_window option"
  cond_TimeRange :: "time_range option"
  cond_Frequency :: "frequency option"

record action =
  act_Type :: string
  act_Parameters :: "(string, gval) gomap"
  act_Priority :: int
  act_Enabled :: bool

record outcome =
  out_Severity :: string
  out_Confidence :: float64
  out_Evidence :: "string list"
  out_Title :: string
  out_Description :: string
  out_Tags :: "string list"
  out_Metadata :: "(string, gval) gomap"
  out_Actions :: "action list"

text \<open>The values that the code itself puts into an \<open>interface{}\<close>, beside decoded ones.\<close>

datatype dyn =
    DynStr string
  | DynBool bool
  | DynInt int
  | DynFloat float64
  | DynStrs "string list"
  | DynMap "(string \<times> dyn) list"

record rules_finding =
  rf_ID :: string
  rf_HostID :: string
  rf_Severity :: string
  rf_Type :: string
  rf_Evidence :: "(string, gval) gomap"
  rf_TS :: string
  rf_RuleID :: string
  rf_RuleName :: string
  rf_Confidence :: float64
  rf_Title :: string
  rf_Description :: string
  rf_Tags :: "string list"
  rf_Metadata :: "(string, dyn) gomap"
  rf_Actions :: "action list"
  rf_CorrelationID :: string
  rf_SourceEvents :: "string list"
  rf_WindowStart :: string
  rf_WindowEnd :: string

record dedupe =
  dd_KeyTemplate :: string
  dd_CooldownSeconds :: int

record rule_metadata =
  md_ID :: string
  md_Name :: string
  md_Version :: string

record rule_spec =
  sp_Enabled :: bool
  sp_Selectors :: selector
  sp_Condition :: condition
  sp_Outcome :: outcome
  sp_Dedupe :: dedupe
  sp_TTLSeconds :: int

record rule =
  ru_APIVersion :: string
  ru_Kind :: string
  ru_Metadata :: rule_metadata
  ru_Spec :: rule_spec
  ru_SourceFile :: string

record rule_snapshot =
  sn_Rules :: "rule list"
  sn_Version :: int

section \<open>Validation\<close>

record validation_error =
  ve_Field :: string
  ve_Message :: string

definition ValidationError_Error :: "validation_error \<Rightarrow> string" where
  "ValidationError_Error e = ve_Field e @ '': '' @ ve_Message e"

definition Rule_Validate :: "rule \<Rightarrow> validation_error option" where
  "Rule_Validate r =
     (let o' = sp_Outcome (ru_Spec r) in
      if md_ID (ru_Metadata r) = '''' then
        Some \<lparr>ve_Field = ''metadata.id'', ve_Message = ''rule ID is required''\<rparr>
      else if md_Name (ru_Metadata r) = '''' then
        Some \<lparr>ve_Field = ''metadata.name'', ve_Message = ''rule name is required''\<rparr>
      else if out_Severity o' = '''' then
        Some \<lparr>ve_Field = ''spec.outcome.severity'', ve_Message = ''severity is required''\<rparr>
      else if out_Severity o' \<notin> {''low'', ''medium'', ''high'', ''critical''} then
        Some \<lparr>ve_Field = ''spec.outcome.severity'',
              ve_Message = ''invalid severity, must be low/medium/high/critical''\<rparr>
      else if f_less (out_Confidence o') (Fin 0) \<or> f_greater (out_Confidence o') (Fin 1) then
        Some \<lparr>ve_Field = ''spec.outcome.confidence'',
              ve_Message = ''confidence must be between 0.0 and 1.0''\<rparr>
      else if sp_TTLSeconds (ru_Spec r) \<le> 0 then
        Some \<lparr>ve_Field = ''spec.ttl_seconds'', ve_Message = ''TTL must be positive''\<rparr>
      else None)"

definition Rule_IsEnabled :: "rule \<Rightarrow> bool" where
  "Rule_IsEnabled r = sp_Enabled (ru_Spec r)"

definition TemporalWindow_Validate :: "temporal_window \<Rightarrow> validation_error option" where
  "TemporalWindow_Validate tw =
     (if tw_DurationSeconds tw \<le> 0 then
        Some \<lparr>ve_Field = ''temporal_window.duration_seconds'', ve_Message = ''duration must be positive''\<rparr>
      else if tw_StepSeconds tw \<le> 0 then
        Some \<lparr>ve_Field = ''temporal_window.step_seconds'', ve_Message = ''step must be positive''\<rparr>
      else if tw_StepSeconds tw > tw_DurationSeconds tw then
        Some \<lparr>ve_Field = ''temporal_window.step_seconds'',
              ve_Message = ''step cannot be greater than duration''\<rparr>
      else if tw_WindowType tw \<noteq> '''' \<and> tw_WindowType tw \<notin> {''sliding'', ''tumbling'', ''session''} then
        Some \<lparr>ve_Field = ''temporal_window.window_type'',
              ve_Message = ''invalid window type, must be sliding/tumbling/session''\<rparr>
      else None)"

definition valid_days :: "string list" where
  "valid_days = [''monday'', ''tuesday'', ''wednesday'', ''thursday'',
                 ''friday'', ''saturday'', ''sunday'']"

definition TimeRange_Validate :: "time_range \<Rightarrow> validation_error option" where
  "TimeRange_Validate tr =
     (if tr_StartHour tr < 0 \<or> tr_StartHour tr > 23 then
        Some \<lparr>ve_Field = ''time_range.start_hour'', ve_Message = ''start hour must be between 0 and 23''\<rparr>
      else if tr_EndHour tr < 0 \<or> tr_EndHour tr > 23 then
        Some \<lparr>ve_Field = ''time_range.end_hour'', ve_Message = ''end hour must be between 0 and 23''\<rparr>
      else (case find (\<lambda>d. d \<notin> set valid_days) (tr_Days tr) of
              Some d \<Rightarrow> Some \<lparr>ve_Field = ''time_range.days'', ve_Message = ''invalid day: '' @ d\<rparr>
            | None \<Rightarrow> None))"

definition Frequency_Validate :: "frequency \<Rightarrow> validation_error option" where
  "Frequency_Validate f =
     (if fq_MinIntervalSeconds f \<le> 0 then
        Some \<lparr>ve_Field = ''frequency.min_interval_seconds'', ve_Message = ''min interval must be positive''\<rparr>
      else if fq_MaxIntervalSeconds f \<le> 0 then
        Some \<lparr>ve_Field = ''frequency.max_interval_seconds'', ve_Message = ''max interval must be positive''\<rparr>
      else if fq_MinIntervalSeconds f > fq_MaxIntervalSeconds f then
        Some \<lparr>ve_Field = ''frequency.min_interval_seconds'',
              ve_Message = ''min interval cannot be greater than max interval''\<rparr>
      else if f_less (fq_BackoffMultiplier f) (Fin 1) then
        Some \<lparr>ve_Field = ''frequency.backoff_multiplier'',
              ve_Message = ''backoff multiplier must be >= 1.0''\<rparr>
      else None)"

definition valid_action_types :: "string list" where
  "valid_action_types = [''alert'', ''block'', ''log'', ''webhook'', ''email'', ''slack'']"

definition Action_Validate :: "action \<Rightarrow> validation_error option" where
  "Action_Validate a =
     (if act_Type a = '''' then
        Some \<lparr>ve_Field = ''action.type'', ve_Message = ''action type is required''\<rparr>
      else if act_Type a \<notin> set valid_action_types then
        Some \<lparr>ve_Field = ''action.type'', ve_Message = ''invalid action type: '' @ act_Type a\<rparr>
      else if act_Priority a < 0 then
        Some \<lparr>ve_Field = ''action.priority'', ve_Message = ''priority must be non-negative''\<rparr>
      else None)"

text \<open>The loop of \<open>Finding.Validate\<close> over its actions, from index \<open>i\<close>.\<close>

fun validate_actions :: "nat \<Rightarrow> action list \<Rightarrow> validation_error option" where
  "validate_actions i [] = None"
| "validate_actions i (a # as) =
     (case Action_Validate a of
        Some err \<Rightarrow> Some \<lparr>ve_Field = ''finding.actions['' @ itoa (int i) @ '']'',
                         ve_Message = ValidationError_Error err\<rparr>
      | None \<Rightarrow> validate_actions (Suc i) as)"

definition Finding_Validate :: "rules_finding \<Rightarrow> validation_error option" where
  "Finding_Validate f =
     (if rf_ID f = '''' then
        Some \<lparr>ve_Field = ''finding.id'', ve_Message = ''finding ID is required''\<rparr>
      else if rf_HostID f = '''' then
        Some \<lparr>ve_Field = ''finding.host_id'', ve_Message = ''host ID is required''\<rparr>
      else if rf_Severity f = '''' then
        Some \<lparr>ve_Field = ''finding.severity'', ve_Message = ''severity is required''\<rparr>
      else if rf_Type f = '''' then
        Some \<lparr>ve_Field = ''finding.type'', ve_Message = ''type is required''\<rparr>
      else if rf_TS f = '''' then
        Some \<lparr>ve_Field = ''finding.ts'', ve_Message = ''timestamp is required''\<rparr>
      else if rf_Severity f \<notin> {''info'', ''low'', ''medium'', ''high'', ''critical''} then
        Some \<lparr>ve_Field = ''finding.severity'', ve_Message = ''invalid severity: '' @ rf_Severity f\<rparr>
      else if f_less (rf_Confidence f) (Fin 0) \<or> f_greater (rf_Confidence f) (Fin 1) then
        Some \<lparr>ve_Field = ''finding.confidence'',
              ve_Message = ''confidence must be between 0.0 and 1.0''\<rparr>
      else validate_actions 0 (rf_Actions f))"

section \<open>What validation guarantees\<close>

lemma validate_actions_None_iff:
  "validate_actions i as = None \<longleftrightarrow> (\<forall>a \<in> set as. Action_Validate a = None)"
  by (induction as arbitrary: i) (auto split: option.splits)

lemma validate_actions_first:
  "validate_actions i as = Some e \<Longrightarrow>
     \<exists>j a err. j < length as \<and> as ! j = a \<and> Action_Validate a = Some err
       \<and> (\<forall>k < j. Action_Validate (as ! k) = None)
       \<and> e = \<lparr>ve_Field = ''finding.actions['' @ itoa (int (i + j)) @ '']'',
              ve_Message = ValidationError_Error err\<rparr>"
proof (induction as arbitrary: i)
  case Nil
  then show ?case by simp
next
  case (Cons a as)
  show ?case
  proof (cases "Action_Validate a")
    case None
    with Cons.prems have "validate_actions (Suc i) as = Some e" by simp
    from Cons.IH [OF this] obtain j b err where "j < length as" "as ! j = b"
      "Action_Validate b = Some err" "\<forall>k < j. Action_Validate (as ! k) = None"
      "e = \<lparr>ve_Field = ''finding.actions['' @ itoa (int (Suc i + j)) @ '']'',
            ve_Message = ValidationError_Error err\<rparr>"
      by blast
    with None show ?thesis
      by (intro exI [of _ "Suc j"]) (auto simp: nth_Cons less_Suc_eq_0_disj split: nat.splits)
  next
    case (Some err)
    with Cons.prems show ?thesis by (intro exI [of _ 0]) auto
  qed
qed

text \<open>
  A rule passes \<open>Rule.Validate\<close> exactly when it has an identifier, a name, one of the four
  severities, a positive TTL and a confidence that is a number between 0 and 1 or a NaN: both
  range comparisons of the code are false on a NaN, so the range check does not exclude it.
\<close>

lemma Rule_Validate_iff:
  "Rule_Validate r = None \<longleftrightarrow>
     md_ID (ru_Metadata r) \<noteq> '''' \<and> md_Name (ru_Metadata r) \<noteq> ''''
     \<and> out_Severity (sp_Outcome (ru_Spec r)) \<in> {''low'', ''medium'', ''high'', ''critical''}
     \<and> (out_Confidence (sp_Outcome (ru_Spec r)) = NaN
        \<or> (\<exists>q. out_Confidence (sp_Outcome (ru_Spec r)) = Fin q \<and> 0 \<le> q \<and> q \<le> 1))
     \<and> 0 < sp_TTLSeconds (ru_Spec r)"
  unfolding f_in_unit_iff [symmetric]
  by (auto simp: Rule_Validate_def Let_def)

end
