(* ===== verification/Corr_Messages.thy ===== *)
theory Corr_Messages
  imports Corr_Model
begin

text \<open>
  What the correlator's enhanced pipeline sends: the messages of \<open>rules/finding_forwarder.go\<close> and
  \<open>rules/decision_integration.go\<close>, their JSON form and the NATS connection. The connection is the
  library's answer to each call in turn (\<open>nats_lib\<close>); its state counts the calls and keeps the
  messages that were sent. \<open>json.Marshal\<close> fails on a message exactly if it holds a float64 that is
  not finite, so the payload of a message stands for its JSON text.
\<close>

section \<open>Errors\<close>

text \<open>\<open>ErrWrap\<close> is \<open>fmt.Errorf\<close> with the verb \<open>%w\<close>, \<open>ErrList\<close> with a slice of errors.\<close>

datatype go_error =
    ErrText string
  | ErrWrap string go_error
  | ErrList string "go_error list"

section \<open>Messages\<close>

record network_edge =
  ne_DstCIDR :: string
  ne_Proto :: string
  ne_Port :: int

record map_snapshot_draft =
  dr_ServiceID :: int
  dr_Edges :: "network_edge list"
  dr_AllowCIDRs :: "network_edge list"
  dr_TTLSeconds :: int
  dr_Meta :: "(string, dyn) gomap"
  dr_Reason :: string
  dr_Confidence :: float64

record adaptive_safeguard =
  sg_ID :: string
  sg_FindingID :: string
  sg_Type :: string
  sg_Severity :: string
  sg_Confidence :: float64
  sg_HostID :: string
  sg_RuleID :: string
  sg_Description :: string
  sg_ProposedAction :: string
  sg_MapSnapshot :: "map_snapshot_draft option"
  sg_Metadata :: "(string, dyn) gomap"
  sg_CreatedAt :: string
  sg_ExpiresAt :: string
  sg_Priority :: int
  sg_AutoApprove :: bool

record map_snapshot_message =
  mm_FindingID :: string
  mm_HostID :: string
  mm_MapSnapshot :: map_snapshot_draft
  mm_Reason :: string
  mm_Confidence :: float64
  mm_CreatedAt :: string
  mm_ExpiresAt :: string

record decision_plan_request =
  dp_FindingID :: string
  dp_HostID :: string
  dp_Severity :: string
  dp_Confidence :: float64
  dp_RuleID :: string
  dp_StrategyMode :: string
  dp_Priority :: int
  dp_AutoApprove :: bool
  dp_CreatedAt :: string
  dp_ExpiresAt :: string

datatype payload =
    FindingMsg rules_finding
  | SafeguardMsg adaptive_safeguard
  | SnapshotMsg map_snapshot_message
  | PlanMsg decision_plan_request

section \<open>Marshalling\<close>

fun f_finite :: "float64 \<Rightarrow> bool" where
  "f_finite (Fin _) = True"
| "f_finite _ = False"

primrec gval_marshals :: "gval \<Rightarrow> bool" where
  "gval_marshals VNil = True"
| "gval_marshals (VBool b) = True"
| "gval_marshals (VNum x) = f_finite x"
| "gval_marshals (VStr s) = True"
| "gval_marshals (VArr vs) = list_all id (map gval_marshals vs)"
| "gval_marshals (VObj kvs) = list_all snd (map (map_prod id gval_marshals) kvs)"

primrec dyn_marshals :: "dyn \<Rightarrow> bool" where
  "dyn_marshals (DynStr s) = True"
| "dyn_marshals (DynBool b) = True"
| "dyn_marshals (DynInt i) = True"
| "dyn_marshals (DynFloat x) = f_finite x"
| "dyn_marshals (DynStrs ss) = True"
| "dyn_marshals (DynMap kvs) = list_all snd (map (map_prod id dyn_marshals) kvs)"

definition gmap_marshals :: "(string, gval) gomap \<Rightarrow> bool" where
  "gmap_marshals m = list_all (\<lambda>(k, v). gval_marshals v) m"

definition dmap_marshals :: "(string, dyn) gomap \<Rightarrow> bool" where
  "dmap_marshals m = list_all (\<lambda>(k, v). dyn_marshals v) m"

definition finding_marshals :: "rules_finding \<Rightarrow> bool" where
  "finding_marshals f =
     (gmap_marshals (rf_Evidence f) \<and> f_finite (rf_Confidence f) \<and> dmap_marshals (rf_Metadata f)
      \<and> list_all (\<lambda>a. gmap_marshals (act_Parameters a)) (rf_Actions f))"

definition draft_marshals :: "map_snapshot_draft \<Rightarrow> bool" where
  "draft_marshals d = (dmap_marshals (dr_Meta d) \<and> f_finite (dr_Confidence d))"

fun payload_marshals :: "payload \<Rightarrow> bool" where
  "payload_marshals (FindingMsg f) = finding_marshals f"
| "payload_marshals (SafeguardMsg s) =
     (f_finite (sg_Confidence s) \<and> dmap_marshals (sg_Metadata s)
      \<and> (case sg_MapSnapshot s of None \<Rightarrow> True | Some d \<Rightarrow> draft_marshals d))"
| "payload_marshals (SnapshotMsg m) = (draft_marshals (mm_MapSnapshot m) \<and> f_finite (mm_Confidence m))"
| "payload_marshals (PlanMsg p) = f_finite (dp_Confidence p)"

section \<open>The connection\<close>

record nats_message =
  nm_Subject :: string
  nm_Data :: payload
  nm_Header :: "(string, string) gomap"

text \<open>
  The answer to the call with a given number: whether the connection is up, the error of
  \<open>PublishMsg\<close>, the reply of \<open>RequestMsg\<close>. \<open>nl_ack\<close> decodes an acknowledgement into its status and
  message.
\<close>

record nats_lib =
  nl_present :: bool
  nl_connected :: "nat \<Rightarrow> bool"
  nl_publish :: "nat \<Rightarrow> string option"
  nl_request :: "nat \<Rightarrow> string + string option"
  nl_ack :: "string \<Rightarrow> string + (string \<times> string)"

record nats_conn =
  nc_calls :: nat
  nc_sent :: "nats_message list"

definition marshal_error :: go_error where
  "marshal_error = ErrText ''json: unsupported value''"

text \<open>\<open>natsConn == nil || !natsConn.IsConnected()\<close>, negated.\<close>

definition conn_available :: "nats_lib \<Rightarrow> nats_conn \<Rightarrow> bool \<times> nats_conn" where
  "conn_available nl c =
     (if \<not> nl_present nl then (False, c)
      else (nl_connected nl (nc_calls c), c\<lparr>nc_calls := Suc (nc_calls c)\<rparr>))"

definition PublishMsg :: "nats_lib \<Rightarrow> nats_message \<Rightarrow> nats_conn \<Rightarrow> go_error option \<times> nats_conn" where
  "PublishMsg nl m c =
     (case nl_publish nl (nc_calls c) of
        Some e \<Rightarrow> (Some (ErrText e), c\<lparr>nc_calls := Suc (nc_calls c)\<rparr>)
      | None \<Rightarrow> (None, c\<lparr>nc_calls := Suc (nc_calls c), nc_sent := nc_sent c @ [m]\<rparr>))"

text \<open>A request is sent as well; whether the message left before an error is the peer's reply.\<close>

definition RequestMsg ::
  "nats_lib \<Rightarrow> nats_message \<Rightarrow> nats_conn \<Rightarrow> (go_error + string option) \<times> nats_conn" where
  "RequestMsg nl m c =
     (case nl_request nl (nc_calls c) of
        Inl e \<Rightarrow> (Inl (ErrText e), c\<lparr>nc_calls := Suc (nc_calls c)\<rparr>)
      | Inr r \<Rightarrow> (Inr r, c\<lparr>nc_calls := Suc (nc_calls c), nc_sent := nc_sent c @ [m]\<rparr>))"

section \<open>What sending guarantees\<close>

text \<open>The messages sent so far stay, and everything that is sent is a message of the given set.\<close>

definition sends_only :: "(nats_message \<Rightarrow> bool) \<Rightarrow> nats_conn \<Rightarrow> nats_conn \<Rightarrow> bool" where
  "sends_only P c c' = (\<exists>ms. nc_sent c' = nc_sent c @ ms \<and> (\<forall>m \<in> set ms. P m))"

lemma sends_only_refl [simp, intro]: "sends_only P c c"
  by (simp add: sends_only_def)

lemma sends_only_trans: "sends_only P c c' \<Longrightarrow> sends_only P c' c'' \<Longrightarrow> sends_only P c c''"
  by (fastforce simp: sends_only_def)

lemma sends_only_mono: "sends_only P c c' \<Longrightarrow> (\<And>m. P m \<Longrightarrow> Q m) \<Longrightarrow> sends_only Q c c'"
  by (auto simp: sends_only_def)

lemma conn_available_sent [simp]: "nc_sent (snd (conn_available nl c)) = nc_sent c"
  by (simp add: conn_available_def)

lemma conn_available_sends: "conn_available nl c = (b, c') \<Longrightarrow> sends_only P c c'"
  by (auto simp: conn_available_def sends_only_def split: if_splits)

lemma PublishMsg_sends: "PublishMsg nl m c = (r, c') \<Longrightarrow> P m \<Longrightarrow> sends_only P c c'"
  by (auto simp: PublishMsg_def sends_only_def split: option.splits)

lemma PublishMsg_outcome:
  "PublishMsg nl m c = (r, c') \<Longrightarrow>
     (if r = None then nc_sent c' = nc_sent c @ [m] else nc_sent c' = nc_sent c)"
  by (auto simp: PublishMsg_def split: option.splits)

end
