(* ===== verification/Corr_Findings.thy ===== *)
theory Corr_Findings
  imports Corr_Messages
begin

text \<open>
  \<open>rules/finding_generator.go\<close> and \<open>rules/finding_publisher.go\<close>: findings from rule matches and
  their publication. The fields of \<open>gen_env\<close> are the random bytes in hexadecimal
  (\<^term>\<open>None\<close> when reading them failed), the fresh UUID, the forms of times and numbers.
\<close>

record gen_env =
  ge_random :: "string option"
  ge_uuid :: string
  ge_rfc3339 :: "time \<Rightarrow> string"
  ge_fmt_g :: "float64 \<Rightarrow> string"

section \<open>Generating a finding\<close>

definition gen_findingID :: "gen_env \<Rightarrow> string \<Rightarrow> string \<Rightarrow> time \<Rightarrow> string option" where
  "gen_findingID ge ruleID hostID now =
     (case ge_random ge of
        None \<Rightarrow> None
      | Some randomStr \<Rightarrow>
          Some (''finding-'' @ ruleID @ ''-'' @ hostID @ ''-'' @ itoa now @ ''-'' @ randomStr))"

definition slug_char :: "char \<Rightarrow> bool" where
  "slug_char c = (let n = (of_char c :: nat) in (97 \<le> n \<and> n \<le> 122) \<or> (48 \<le> n \<and> n \<le> 57))"

text \<open>Replacing every maximal run of characters outside \<open>a-z0-9\<close> by an underscore; the flag says
  whether the last character was part of such a run.\<close>

fun slug_runs :: "bool \<Rightarrow> string \<Rightarrow> string" where
  "slug_runs run [] = []"
| "slug_runs run (c # cs) =
     (if slug_char c then c # slug_runs False cs
      else if run then slug_runs True cs
      else CHR ''_'' # slug_runs True cs)"

definition trim_char :: "char \<Rightarrow> string \<Rightarrow> string" where
  "trim_char c s = rev (dropWhile (\<lambda>x. x = c) (rev (dropWhile (\<lambda>x. x = c) s)))"

definition generateFindingType :: "rule \<Rightarrow> string" where
  "generateFindingType r =
     (if md_Name (ru_Metadata r) \<noteq> '''' then
        trim_char (CHR ''_'') (slug_runs False (to_lower (md_Name (ru_Metadata r))))
      else (let severity = out_Severity (sp_Outcome (ru_Spec r)) in
            if severity = ''critical'' then ''critical_security_incident''
            else if severity = ''high'' then ''high_security_alert''
            else if severity = ''medium'' then ''medium_security_warning''
            else if severity = ''low'' then ''low_security_notice''
            else ''security_finding''))"

definition generateTitle :: "rule \<Rightarrow> string \<Rightarrow> string" where
  "generateTitle r hostID =
     (if out_Title (sp_Outcome (ru_Spec r)) \<noteq> '''' then out_Title (sp_Outcome (ru_Spec r))
      else md_Name (ru_Metadata r) @ '' detected on '' @ hostID)"

definition generateDescription :: "gen_env \<Rightarrow> rule \<Rightarrow> (string, gval) gomap \<Rightarrow> string" where
  "generateDescription ge r evidence =
     (if out_Description (sp_Outcome (ru_Spec r)) \<noteq> '''' then out_Description (sp_Outcome (ru_Spec r))
      else join_with [char_of (10 :: nat)]
        ([''Rule '' @ [char_of (39 :: nat)] @ md_Name (ru_Metadata r) @ [char_of (39 :: nat)] @ '' triggered'']
         @ (if evidence \<noteq> [] then
              ''Evidence:'' # map (\<lambda>(key, v). ''- '' @ key @ '': '' @ fmt_v (ge_fmt_g ge) v) evidence
            else [])))"

definition generateTags :: "rule \<Rightarrow> (string, gval) gomap \<Rightarrow> string list" where
  "generateTags r evidence =
     out_Tags (sp_Outcome (ru_Spec r))
     @ [''severity:'' @ out_Severity (sp_Outcome (ru_Spec r)), ''rule:'' @ md_ID (ru_Metadata r)]
     @ concat (map (\<lambda>(key, v). case v of VStr str \<Rightarrow> if length str < 50 then [key @ '':'' @ str] else []
                                     | _ \<Rightarrow> []) evidence)"

definition generateMetadata :: "rule \<Rightarrow> (string, gval) gomap \<Rightarrow> (string, dyn) gomap" where
  "generateMetadata r evidence =
     [(''rule_version'', DynStr (md_Version (ru_Metadata r))),
      (''rule_source_file'', DynStr (ru_SourceFile r)),
      (''rule_enabled'', DynBool (sp_Enabled (ru_Spec r))),
      (''window_seconds'', DynInt (cond_WindowSeconds (sp_Condition (ru_Spec r))))]
     @ (case cond_TemporalWindow (sp_Condition (ru_Spec r)) of
          None \<Rightarrow> []
        | Some tw \<Rightarrow> [(''temporal_window_duration'', DynInt (tw_DurationSeconds tw)),
                     (''temporal_window_type'', DynStr (tw_WindowType tw))])
     @ [(''evidence_count'', DynInt (int (length evidence))),
        (''evidence_keys'', DynStrs (map fst evidence)),
        (''outcome_confidence'', DynFloat (out_Confidence (sp_Outcome (ru_Spec r)))),
        (''outcome_evidence_count'', DynInt (int (length (out_Evidence (sp_Outcome (ru_Spec r))))))]"

definition GenerateFinding ::
  "gen_env \<Rightarrow> time \<Rightarrow> rule \<Rightarrow> string \<Rightarrow> (string, gval) gomap \<Rightarrow> string list \<Rightarrow> time \<Rightarrow> time
    \<Rightarrow> go_error + rules_finding" where
  "GenerateFinding ge now r hostID evidence sourceEvents windowStart windowEnd =
     (case gen_findingID ge (md_ID (ru_Metadata r)) hostID now of
        None \<Rightarrow> Inl (ErrText ''failed to generate finding ID'')
      | Some findingID \<Rightarrow>
          let finding =
            \<lparr>rf_ID = findingID, rf_HostID = hostID,
             rf_Severity = out_Severity (sp_Outcome (ru_Spec r)), rf_Type = generateFindingType r,
             rf_Evidence = evidence, rf_TS = ge_rfc3339 ge now, rf_RuleID = md_ID (ru_Metadata r),
             rf_RuleName = md_Name (ru_Metadata r), rf_Confidence = out_Confidence (sp_Outcome (ru_Spec r)),
             rf_Title = generateTitle r hostID, rf_Description = generateDescription ge r evidence,
             rf_Tags = generateTags r evidence, rf_Metadata = generateMetadata r evidence,
             rf_Actions = out_Actions (sp_Outcome (ru_Spec r)), rf_CorrelationID = ge_uuid ge,
             rf_SourceEvents = sourceEvents, rf_WindowStart = ge_rfc3339 ge windowStart,
             rf_WindowEnd = ge_rfc3339 ge windowEnd\<rparr>
          in (case Finding_Validate finding of
                Some e \<Rightarrow> Inl (ErrWrap ''invalid finding generated'' (ErrText (ValidationError_Error e)))
              | None \<Rightarrow> Inr finding))"

text \<open>Reading a key of a decoded object: a missing key and a null give nil.\<close>

definition obj_field :: "(string, gval) gomap \<Rightarrow> string \<Rightarrow> gval" where
  "obj_field m k = (case map_get m k of None \<Rightarrow> VNil | Some v \<Rightarrow> v)"

text \<open>An entry for a key that holds an object, or a string.\<close>

definition obj_entry :: "(string, gval) gomap \<Rightarrow> string \<Rightarrow> (string, gval) gomap" where
  "obj_entry m k = (case obj_field m k of VObj c \<Rightarrow> [(k, VObj c)] | _ \<Rightarrow> [])"

definition str_entry :: "(string, gval) gomap \<Rightarrow> string \<Rightarrow> (string, gval) gomap" where
  "str_entry m k = (case obj_field m k of VStr s \<Rightarrow> [(k, VStr s)] | _ \<Rightarrow> [])"

definition enriched_evidence :: "(string, gval) gomap \<Rightarrow> (string, gval) gomap" where
  "enriched_evidence enrichedEvent =
     [(''enriched_event'', VObj enrichedEvent),
      (''event_type'', obj_field enrichedEvent ''type''),
      (''event_source'', obj_field enrichedEvent ''source'')]
     @ obj_entry enrichedEvent ''context'' @ str_entry enrichedEvent ''payload''
     @ obj_entry enrichedEvent ''args''"

definition GenerateFindingFromEnrichedEvent ::
  "gen_env \<Rightarrow> time \<Rightarrow> rule \<Rightarrow> (string, gval) gomap \<Rightarrow> string list \<Rightarrow> time \<Rightarrow> time
    \<Rightarrow> go_error + rules_finding" where
  "GenerateFindingFromEnrichedEvent ge now r enrichedEvent sourceEvents windowStart windowEnd =
     (case obj_field enrichedEvent ''host_id'' of
        VStr hostID \<Rightarrow>
          GenerateFinding ge now r hostID (enriched_evidence enrichedEvent) sourceEvents windowStart windowEnd
      | _ \<Rightarrow> Inl (ErrText ''enriched event missing host_id''))"

text \<open>Entries that are copied from the fields of a nested object, each under a name of its own.\<close>

definition copied_entries ::
  "(string, gval) gomap \<Rightarrow> string \<Rightarrow> (string \<times> string) list \<Rightarrow> (string, gval) gomap" where
  "copied_entries m k names =
     (case obj_field m k of VObj p \<Rightarrow> map (\<lambda>(key, field). (key, obj_field p field)) names | _ \<Rightarrow> [])"

definition cve_evidence :: "(string, gval) gomap \<Rightarrow> (string, gval) gomap" where
  "cve_evidence pkg =
     [(''package_cve_enriched'', VObj pkg)]
     @ copied_entries pkg ''package''
         [(''package_name'', ''name''), (''package_version'', ''version''), (''package_distro'', ''distro'')]
     @ copied_entries pkg ''cve_candidate''
         [(''cve_id'', ''cve_id''), (''cve_score'', ''score''), (''cve_severity'', ''severity''),
          (''cve_cvss_score'', ''cvss_score'')]
     @ copied_entries pkg ''enrichment''
         [(''exploitability_score'', ''exploitability_score''), (''risk_level'', ''risk_level'')]
     @ obj_entry pkg ''cve_data''"

definition GenerateFindingFromPackageCVE ::
  "gen_env \<Rightarrow> time \<Rightarrow> rule \<Rightarrow> (string, gval) gomap \<Rightarrow> string list \<Rightarrow> time \<Rightarrow> time
    \<Rightarrow> go_error + rules_finding" where
  "GenerateFindingFromPackageCVE ge now r pkg sourceEvents windowStart windowEnd =
     (case obj_field pkg ''host_id'' of
        VStr hostID \<Rightarrow>
          GenerateFinding ge now r hostID (cve_evidence pkg) sourceEvents windowStart windowEnd
      | _ \<Rightarrow> Inl (ErrText ''package CVE enriched event missing host_id''))"

section \<open>Publishing\<close>

definition finding_headers :: "rules_finding \<Rightarrow> (string, string) gomap" where
  "finding_headers f =
     [(''x-finding-id'', rf_ID f), (''x-host-id'', rf_HostID f), (''x-rule-id'', rf_RuleID f),
      (''x-severity'', rf_Severity f), (''x-timestamp'', rf_TS f),
      (''x-correlation-id'', rf_CorrelationID f)]"

definition finding_message :: "rules_finding \<Rightarrow> (string, string) gomap \<Rightarrow> nats_message" where
  "finding_message f extra =
     \<lparr>nm_Subject = ''correlator.findings'', nm_Data = FindingMsg f, nm_Header = finding_headers f @ extra\<rparr>"

definition no_connection :: go_error where
  "no_connection = ErrText ''NATS connection not available''"

text \<open>The steps that the publishing functions share: the connection, the JSON form, the message.\<close>

definition publish_payload ::
  "nats_lib \<Rightarrow> nats_message \<Rightarrow> string \<Rightarrow> string \<Rightarrow> nats_conn \<Rightarrow> go_error option \<times> nats_conn" where
  "publish_payload nl m marshalText publishText c =
     (case conn_available nl c of (up, c1) \<Rightarrow>
        if \<not> up then (Some no_connection, c1)
        else if \<not> payload_marshals (nm_Data m) then (Some (ErrWrap marshalText marshal_error), c1)
        else (case PublishMsg nl m c1 of
                (Some e, c2) \<Rightarrow> (Some (ErrWrap publishText e), c2)
              | (None, c2) \<Rightarrow> (None, c2)))"

definition PublishFinding :: "nats_lib \<Rightarrow> rules_finding \<Rightarrow> nats_conn \<Rightarrow> go_error option \<times> nats_conn" where
  "PublishFinding nl f c =
     publish_payload nl (finding_message f []) ''failed to marshal finding'' ''failed to publish finding'' c"

text \<open>The loop of \<open>PublishFindings\<close> collects the errors.\<close>

fun publish_each ::
  "nats_lib \<Rightarrow> rules_finding list \<Rightarrow> go_error list \<Rightarrow> nats_conn \<Rightarrow> go_error list \<times> nats_conn" where
  "publish_each nl [] errs c = (errs, c)"
| "publish_each nl (f # fs) errs c =
     (case PublishFinding nl f c of
        (Some e, c') \<Rightarrow> publish_each nl fs (errs @ [ErrWrap (''finding '' @ rf_ID f) e]) c'
      | (None, c') \<Rightarrow> publish_each nl fs errs c')"

definition PublishFindings :: "nats_lib \<Rightarrow> rules_finding list \<Rightarrow> nats_conn \<Rightarrow> go_error option \<times> nats_conn" where
  "PublishFindings nl fs c =
     (case publish_each nl fs [] c of (errs, c') \<Rightarrow>
        (if errs \<noteq> [] then
           Some (ErrList (''failed to publish '' @ itoa (int (length errs)) @ '' findings'') errs)
         else None, c'))"

text \<open>The attempts of \<open>PublishFindingWithRetry\<close>; \<open>left\<close> attempts remain after this one.\<close>

fun publish_attempts ::
  "nats_lib \<Rightarrow> rules_finding \<Rightarrow> nat \<Rightarrow> nats_conn \<Rightarrow> go_error option \<times> nats_conn" where
  "publish_attempts nl f left c =
     (case PublishFinding nl f c of
        (None, c') \<Rightarrow> (None, c')
      | (Some e, c') \<Rightarrow> (case left of 0 \<Rightarrow> (Some e, c') | Suc n \<Rightarrow> publish_attempts nl f n c'))"

text \<open>With a negative number of retries there is no attempt, and the wrapped error is nil.\<close>

definition PublishFindingWithRetry ::
  "nats_lib \<Rightarrow> rules_finding \<Rightarrow> int \<Rightarrow> nats_conn \<Rightarrow> go_error option \<times> nats_conn" where
  "PublishFindingWithRetry nl f maxRetries c =
     (let text = ''failed to publish finding after '' @ itoa (maxRetries + 1) @ '' attempts''
      in if maxRetries < 0 then (Some (ErrText text), c)
         else (case publish_attempts nl f (nat maxRetries) c of
                 (None, c') \<Rightarrow> (None, c')
               | (Some e, c') \<Rightarrow> (Some (ErrWrap text e), c')))"

text \<open>The request variants; the result of a request is its reply.\<close>

definition request_payload ::
  "nats_lib \<Rightarrow> nats_message \<Rightarrow> string \<Rightarrow> nats_conn \<Rightarrow> (go_error + string option) \<times> nats_conn" where
  "request_payload nl m requestText c =
     (case conn_available nl c of (up, c1) \<Rightarrow>
        if \<not> up then (Inl no_connection, c1)
        else if \<not> payload_marshals (nm_Data m) then
          (Inl (ErrWrap ''failed to marshal finding'' marshal_error), c1)
        else (case RequestMsg nl m c1 of
                (Inl e, c2) \<Rightarrow> (Inl (ErrWrap requestText e), c2)
              | (Inr r, c2) \<Rightarrow> (Inr r, c2)))"

definition PublishFindingWithTimeout ::
  "nats_lib \<Rightarrow> rules_finding \<Rightarrow> nats_conn \<Rightarrow> go_error option \<times> nats_conn" where
  "PublishFindingWithTimeout nl f c =
     (case request_payload nl (finding_message f []) ''failed to publish finding with timeout'' c of
        (Inl e, c') \<Rightarrow> (Some e, c')
      | (Inr reply, c') \<Rightarrow> (None, c'))"

definition PublishFindingWithAck ::
  "nats_lib \<Rightarrow> rules_finding \<Rightarrow> nats_conn \<Rightarrow> go_error option \<times> nats_conn" where
  "PublishFindingWithAck nl f c =
     (case request_payload nl (finding_message f [(''x-require-ack'', ''true'')])
             ''failed to publish finding with ack'' c of
        (Inl e, c') \<Rightarrow> (Some e, c')
      | (Inr None, c') \<Rightarrow> (Some (ErrText (''no acknowledgment received for finding '' @ rf_ID f)), c')
      | (Inr (Some data), c') \<Rightarrow>
          (case nl_ack nl data of
             Inl e \<Rightarrow> (Some (ErrWrap ''failed to parse acknowledgment'' (ErrText e)), c')
           | Inr (status, msg) \<Rightarrow>
               if status \<noteq> ''ok'' then (Some (ErrText (''finding acknowledgment failed: '' @ msg)), c')
               else (None, c')))"

definition PublishFindingWithDeduplication ::
  "nats_lib \<Rightarrow> rules_finding \<Rightarrow> string \<Rightarrow> nats_conn \<Rightarrow> go_error option \<times> nats_conn" where
  "PublishFindingWithDeduplication nl f dedupeKey c =
     publish_payload nl (finding_message f [(''x-dedupe-key'', dedupeKey)])
       ''failed to marshal finding'' ''failed to publish finding with deduplication'' c"

section \<open>What the generator and the publisher guarantee\<close>

lemma publish_payload_sends:
  "publish_payload nl m t u c = (r, c') \<Longrightarrow> P m \<Longrightarrow> sends_only P c c'"
  unfolding publish_payload_def
  by (auto split: prod.splits if_splits option.splits
      intro: conn_available_sends sends_only_trans [OF conn_available_sends PublishMsg_sends])

lemma publish_payload_outcome:
  assumes "publish_payload nl m t u c = (r, c')"
  shows "if r = None then nc_sent c' = nc_sent c @ [m] \<and> payload_marshals (nm_Data m) else nc_sent c' = nc_sent c"
proof -
  have [simp]: "nc_sent c1 = nc_sent c" if "conn_available nl c = (b, c1)" for b c1
    using conn_available_sent [of nl c] that by simp
  show ?thesis
    using assms unfolding publish_payload_def
    by (auto split: prod.splits if_splits option.splits dest: PublishMsg_outcome)
qed

text \<open>An attempt that succeeds is the last one, so a finding is sent at most once.\<close>

lemma publish_attempts_once:
  "publish_attempts nl f n c = (r, c') \<Longrightarrow>
     (if r = None then nc_sent c' = nc_sent c @ [finding_message f []] else nc_sent c' = nc_sent c)"
proof (induction n arbitrary: c)
  case 0
  then show ?case
    by (auto simp: PublishFinding_def split: prod.splits option.splits dest: publish_payload_outcome)
next
  case (Suc n)
  show ?case
  proof (cases "PublishFinding nl f c")
    case (Pair r1 c1)
    note step = publish_payload_outcome [OF Pair [unfolded PublishFinding_def]]
    show ?thesis
    proof (cases r1)
      case None
      with Suc.prems Pair step show ?thesis by auto
    next
      case (Some e)
      with Suc.prems Pair have "publish_attempts nl f n c1 = (r, c')" by simp
      from Suc.IH [OF this] step Some show ?thesis by simp
    qed
  qed
qed

lemma generated_finding_valid:
  "GenerateFinding ge now r hostID evidence src ws we = Inr f \<Longrightarrow>
     Finding_Validate f = None \<and> rf_HostID f = hostID \<and> rf_RuleID f = md_ID (ru_Metadata r)
     \<and> rf_Severity f = out_Severity (sp_Outcome (ru_Spec r))
     \<and> rf_Confidence f = out_Confidence (sp_Outcome (ru_Spec r))
     \<and> rf_Evidence f = evidence \<and> rf_Metadata f = generateMetadata r evidence
     \<and> rf_Type f = generateFindingType r"
  by (auto simp: GenerateFinding_def Let_def split: option.splits)

lemma slug_runs_chars: "c \<in> set (slug_runs b s) \<Longrightarrow> slug_char c \<or> c = CHR ''_''"
  by (induction s arbitrary: b) (auto split: if_splits)

lemma metadata_keys:
  "map_get (generateMetadata r evidence) k \<noteq> None \<Longrightarrow>
     k \<in> {''rule_version'', ''rule_source_file'', ''rule_enabled'', ''window_seconds'',
          ''temporal_window_duration'', ''temporal_window_type'', ''evidence_count'', ''evidence_keys'',
          ''outcome_confidence'', ''outcome_evidence_count''}"
  by (auto simp: generateMetadata_def split: option.splits if_splits)

end
