(* ===== verification/Go_Net.thy ===== *)
theory Go_Net
  imports Prelude
begin

text \<open>
  The parts of Go's package \<open>net\<close> that the correlator and the segmenter use: \<open>ParseIP\<close> on dotted
  decimal and on hexadecimal notation, and \<open>IPNet.Contains\<close> for networks of IPv4. An address
  is the list of its bytes, four for IPv4 and sixteen for IPv6; the method \<open>To4\<close> turns an IPv6
  address that maps an IPv4 address into that address, which \<open>Contains\<close> applies first.
\<close>

section \<open>Parsing\<close>

text \<open>A decimal field of an IPv4 address: no leading zero, at most 255.\<close>

definition ipv4_field :: "string \<Rightarrow> int option" where
  "ipv4_field s =
     (if s = [] \<or> \<not> list_all is_digit s then None
      else if length s > 1 \<and> hd s = CHR ''0'' then None
      else if digits_value s > 255 then None
      else Some (digits_value s))"

fun all_some :: "'a option list \<Rightarrow> 'a list option" where
  "all_some [] = Some []"
| "all_some (None # xs) = None"
| "all_some (Some x # xs) = map_option ((#) x) (all_some xs)"

definition parse_ipv4 :: "string \<Rightarrow> int list option" where
  "parse_ipv4 s =
     (let fs = split_on (CHR ''.'') s
      in if length fs \<noteq> 4 then None else all_some (map ipv4_field fs))"

definition hex_val :: "char \<Rightarrow> int option" where
  "hex_val c =
     (let n = (of_char c :: int)
      in if 48 \<le> n \<and> n \<le> 57 then Some (n - 48)
         else if 97 \<le> n \<and> n \<le> 102 then Some (n - 87)
         else if 65 \<le> n \<and> n \<le> 70 then Some (n - 55)
         else None)"

definition is_hex :: "char \<Rightarrow> bool" where
  "is_hex c = (hex_val c \<noteq> None)"

definition hex_value :: "string \<Rightarrow> int" where
  "hex_value s = foldl (\<lambda>acc c. acc * 16 + the (hex_val c)) 0 s"

text \<open>
  The loop of the parser over the groups: the bytes so far and the position of the ellipsis. The
  result holds the bytes, the position and the rest of the string.
\<close>

function (sequential) ipv6_groups :: "int list \<Rightarrow> nat option \<Rightarrow> string \<Rightarrow> (int list \<times> nat option \<times> string) option" where
  "ipv6_groups bytes ellipsis s =
     (if length bytes \<ge> 16 then Some (bytes, ellipsis, s)
      else let ds = takeWhile is_hex s; rest = dropWhile is_hex s
           in if ds = [] \<or> length ds > 4 then None
              else if rest \<noteq> [] \<and> hd rest = CHR ''.'' then
                (if ellipsis = None \<and> length bytes \<noteq> 12 then None
                 else if length bytes + 4 > 16 then None
                 else (case parse_ipv4 s of
                         None \<Rightarrow> None
                       | Some v4 \<Rightarrow> Some (bytes @ v4, ellipsis, [])))
              else let bytes' = bytes @ [hex_value ds div 256, hex_value ds mod 256]
                   in (case rest of
                         [] \<Rightarrow> Some (bytes', ellipsis, [])
                       | c # rest' \<Rightarrow>
                           if c \<noteq> CHR '':'' \<or> rest' = [] then None
                           else if hd rest' = CHR '':'' then
                             (if ellipsis \<noteq> None then None
                              else if tl rest' = [] then Some (bytes', Some (length bytes'), [])
                              else ipv6_groups bytes' (Some (length bytes')) (tl rest'))
                           else ipv6_groups bytes' ellipsis rest'))"
  by pat_completeness auto
termination
  by (relation "measure (\<lambda>(bytes, ellipsis, s). 16 - length bytes)") (auto simp: Let_def)

declare ipv6_groups.simps [simp del]

definition parse_ipv6 :: "string \<Rightarrow> int list option" where
  "parse_ipv6 s =
     (let leading = prefix ''::'' s;
          s' = (if leading then drop 2 s else s)
      in if leading \<and> s' = [] then Some (replicate 16 0)
         else (case ipv6_groups [] (if leading then Some 0 else None) s' of
                 None \<Rightarrow> None
               | Some (bytes, ellipsis, rest) \<Rightarrow>
                   if rest \<noteq> [] then None
                   else if length bytes < 16 then
                     (case ellipsis of
                        None \<Rightarrow> None
                      | Some e \<Rightarrow> Some (take e bytes @ replicate (16 - length bytes) 0 @ drop e bytes))
                   else if ellipsis \<noteq> None then None
                   else Some bytes))"

text \<open>\<open>net.ParseIP\<close>: the first dot or colon decides; a zone is refused.\<close>

definition ParseIP :: "string \<Rightarrow> int list option" where
  "ParseIP s =
     (case find (\<lambda>c. c = CHR ''.'' \<or> c = CHR '':'' \<or> c = CHR ''%'') s of
        Some c \<Rightarrow> if c = CHR ''.'' then parse_ipv4 s
                  else if c = CHR '':'' \<and> CHR ''%'' \<notin> set s then parse_ipv6 s
                  else None
      | None \<Rightarrow> None)"

section \<open>Networks\<close>

definition To4 :: "int list \<Rightarrow> int list" where
  "To4 ip =
     (if length ip = 16 \<and> take 12 ip = replicate 10 0 @ [255, 255] then drop 12 ip else ip)"

definition ipv4_value :: "int list \<Rightarrow> int" where
  "ipv4_value ip = foldl (\<lambda>acc b. acc * 256 + b) 0 ip"

text \<open>\<open>Contains\<close> for the network of the given address and prefix length.\<close>

definition in_ipv4_net :: "int list \<Rightarrow> nat \<Rightarrow> int list \<Rightarrow> bool" where
  "in_ipv4_net net bits ip =
     (let ip' = To4 ip
      in length ip' = 4 \<and> ipv4_value ip' div 2 ^ (32 - bits) = ipv4_value net div 2 ^ (32 - bits))"

text \<open>The ranges that the sources list as private, which include the loopback network.\<close>

definition private_ranges :: "(int list \<times> nat) list" where
  "private_ranges = [([10, 0, 0, 0], 8), ([172, 16, 0, 0], 12), ([192, 168, 0, 0], 16), ([127, 0, 0, 0], 8)]"

definition in_private_range :: "int list \<Rightarrow> bool" where
  "in_private_range ip = list_ex (\<lambda>(net, bits). in_ipv4_net net bits ip) private_ranges"

section \<open>What the parser returns\<close>

lemma all_some_length: "all_some xs = Some ys \<Longrightarrow> length ys = length xs"
  by (induction xs arbitrary: ys rule: all_some.induct) auto

lemma all_some_in: "all_some xs = Some ys \<Longrightarrow> y \<in> set ys \<Longrightarrow> Some y \<in> set xs"
  by (induction xs arbitrary: ys rule: all_some.induct) auto

lemma digits_value_nonneg: "list_all is_digit s \<Longrightarrow> 0 \<le> digits_value s"
proof (induction s rule: rev_induct)
  case Nil
  then show ?case by (simp add: digits_value_def)
next
  case (snoc c s)
  then have "48 \<le> (of_char c :: nat)" by (simp add: Let_def)
  then have "48 \<le> int (of_char c)" by linarith
  with snoc show ?case by (simp add: digits_value_snoc)
qed

lemma ipv4_field_range: "ipv4_field s = Some n \<Longrightarrow> 0 \<le> n \<and> n \<le> 255"
  using digits_value_nonneg [of s] by (auto simp: ipv4_field_def split: if_splits)

lemma parse_ipv4_ok:
  assumes "parse_ipv4 s = Some ip"
  shows "length ip = 4 \<and> (\<forall>b \<in> set ip. 0 \<le> b \<and> b \<le> 255)"
proof -
  from assms have fs: "length (split_on (CHR ''.'') s) = 4" "all_some (map ipv4_field (split_on (CHR ''.'') s)) = Some ip"
    by (auto simp: parse_ipv4_def Let_def split: if_splits)
  have "0 \<le> b \<and> b \<le> 255" if "b \<in> set ip" for b
    using all_some_in [OF fs(2) that] by (auto dest: sym ipv4_field_range)
  with all_some_length [OF fs(2)] fs(1) show ?thesis by simp
qed

text \<open>An address in dotted notation is private exactly if its first bytes say so.\<close>

lemma private_ipv4_iff:
  assumes "0 \<le> a" "a \<le> 255" "0 \<le> b" "b \<le> 255" "0 \<le> c" "c \<le> 255" "0 \<le> d" "d \<le> 255"
  shows "in_private_range [a, b, c, d] \<longleftrightarrow>
           a = 10 \<or> a = 127 \<or> (a = 172 \<and> 16 \<le> b \<and> b \<le> 31) \<or> (a = 192 \<and> b = 168)"
proof -
  define v where "v = ((a * 256 + b) * 256 + c) * 256 + d"
  have split: "(x * k + r) div k = x" if "0 \<le> r" "r < k" for x k r :: int using that by simp
  have 1: "v div 16777216 = a"
    using split [of "b * 65536 + c * 256 + d" 16777216 a] assms by (simp add: v_def algebra_simps)
  have 2: "v div 65536 = a * 256 + b"
    using split [of "c * 256 + d" 65536 "a * 256 + b"] assms by (simp add: v_def algebra_simps)
  have 3: "v div 1048576 = a * 16 + b div 16"
  proof -
    have "v div 1048576 = v div 65536 div 16" by (simp add: div_mult2_eq [symmetric])
    with 2 show ?thesis using split [of "b mod 16" 16 "a * 16 + b div 16"] by (simp add: algebra_simps)
  qed
  have digits: "x * k + r = n \<longleftrightarrow> x = n div k \<and> r = n mod k" if "0 \<le> r" "r < k" for x k r n :: int
    using that by auto
  have "a * 16 + b div 16 = 2753 \<longleftrightarrow> a = 172 \<and> b div 16 = 1"
    using digits [of "b div 16" 16 a 2753] assms by simp
  moreover have "b div 16 = 1 \<longleftrightarrow> 16 \<le> b \<and> b \<le> 31" by auto
  moreover have "a * 256 + b = 49320 \<longleftrightarrow> a = 192 \<and> b = 168"
    using digits [of b 256 a 49320] assms by simp
  moreover have "in_private_range [a, b, c, d] \<longleftrightarrow>
      v div 16777216 = 10 \<or> v div 1048576 = 2753 \<or> v div 65536 = 49320 \<or> v div 16777216 = 127"
    by (simp add: in_private_range_def private_ranges_def in_ipv4_net_def To4_def ipv4_value_def
        Let_def v_def)
  ultimately show ?thesis using 1 2 3 by auto
qed

end
