(* ===== verification/Corr_Snapshot.thy ===== *)
theory Corr_Snapshot
  imports Corr_Findings Go_Net
begin

text \<open>
  \<open>rules/mapsnapshot_synthesizer.go\<close>: map snapshots, which restrict the network access of a
  service, synthesized from a finding. The tables of the synthesizer are constants, as its only
  constructor sets them. Factors on a lifetime are exact rationals followed by truncation.
\<close>

section \<open>Arithmetic\<close>

fun f_add :: "float64 \<Rightarrow> rat \<Rightarrow> float64" where
  "f_add (Fin a) q = Fin (a + q)"
| "f_add x q = x"

fun f_scale :: "rat \<Rightarrow> float64 \<Rightarrow> float64" where
  "f_scale q (Fin a) = Fin (q * a)"
| "f_scale q NaN = NaN"
| "f_scale q PosInf = (if q = 0 then NaN else if q > 0 then PosInf else NegInf)"
| "f_scale q NegInf = (if q = 0 then NaN else if q > 0 then NegInf else PosInf)"

text \<open>\<open>int(float64(n) * num / den)\<close> for a nonnegative \<open>n\<close>.\<close>

definition scale_int :: "int \<Rightarrow> int \<Rightarrow> int \<Rightarrow> int" where
  "scale_int n num den = n * num div den"

text \<open>Go's remainder takes the sign of the dividend.\<close>

definition go_rem :: "int \<Rightarrow> int \<Rightarrow> int" where
  "go_rem a b = (if a < 0 then - ((- a) mod b) else a mod b)"

section \<open>Network information\<close>

record network_info =
  ni_SourceIP :: string
  ni_DestIP :: string
  ni_SourcePort :: int
  ni_DestPort :: int
  ni_Protocol :: string
  ni_HostID :: string
  ni_RiskLevel :: string
  ni_AttackType :: string
  ni_TimeWindow :: duration

definition suspiciousPorts :: "int set" where
  "suspiciousPorts = {22, 23, 135, 139, 445, 1433, 3389, 5432, 6379, 27017}"

definition knownServices :: "(int, string) gomap" where
  "knownServices =
     [(80, ''http''), (443, ''https''), (22, ''ssh''), (23, ''telnet''), (25, ''smtp''), (53, ''dns''),
      (110, ''pop3''), (143, ''imap''), (993, ''imaps''), (995, ''pop3s''), (1433, ''mssql''),
      (3306, ''mysql''), (5432, ''postgresql''), (6379, ''redis''), (27017, ''mongodb'')]"

definition str_field :: "(string, gval) gomap \<Rightarrow> string \<Rightarrow> string option" where
  "str_field m k = (case map_get m k of Some (VStr s) \<Rightarrow> Some s | _ \<Rightarrow> None)"

definition port_field :: "(string, gval) gomap \<Rightarrow> string \<Rightarrow> int option" where
  "port_field m k = (case str_field m k of None \<Rightarrow> None | Some s \<Rightarrow> atoi s)"

definition or_zero :: "int option \<Rightarrow> int" where
  "or_zero x = (case x of None \<Rightarrow> 0 | Some n \<Rightarrow> n)"

definition or_empty :: "string option \<Rightarrow> string" where
  "or_empty x = (case x of None \<Rightarrow> '''' | Some s \<Rightarrow> s)"

text \<open>The values of the evidence, and those of its arguments where the former are missing.\<close>

definition first_str :: "(string, gval) gomap \<Rightarrow> (string, gval) gomap option \<Rightarrow> string \<Rightarrow> string" where
  "first_str ev args k =
     (let s = or_empty (str_field ev k)
      in case args of None \<Rightarrow> s | Some a \<Rightarrow> if s = '''' then or_empty (str_field a k) else s)"

definition first_port :: "(string, gval) gomap \<Rightarrow> (string, gval) gomap option \<Rightarrow> string \<Rightarrow> int" where
  "first_port ev args k =
     (let n = or_zero (port_field ev k)
      in case args of None \<Rightarrow> n | Some a \<Rightarrow> if n = 0 then or_zero (port_field a k) else n)"

definition dyn_str :: "(string, dyn) gomap \<Rightarrow> string \<Rightarrow> string option" where
  "dyn_str m k = (case map_get m k of Some (DynStr s) \<Rightarrow> Some s | _ \<Rightarrow> None)"

definition time_window :: "(string \<Rightarrow> time option) \<Rightarrow> (string, dyn) gomap \<Rightarrow> duration" where
  "time_window parse m =
     (case (dyn_str m ''window_start'', dyn_str m ''window_end'') of
        (Some ws, Some we) \<Rightarrow>
          (case (parse ws, parse we) of (Some s, Some e) \<Rightarrow> time_sub e s | _ \<Rightarrow> 0)
      | _ \<Rightarrow> 0)"

definition extractNetworkInfo :: "(string \<Rightarrow> time option) \<Rightarrow> rules_finding \<Rightarrow> network_info" where
  "extractNetworkInfo parse f =
     (let ev = rf_Evidence f;
          args = (case map_get ev ''args'' of Some (VObj a) \<Rightarrow> Some a | _ \<Rightarrow> None);
          proto = first_str ev args ''proto'';
          dport = first_port ev args ''dst_port''
      in \<lparr>ni_SourceIP = first_str ev args ''src_ip'', ni_DestIP = first_str ev args ''dst_ip'',
          ni_SourcePort = first_port ev args ''src_port'',
          ni_DestPort = (if dport = 0 then 80 else dport),
          ni_Protocol = (if proto = '''' then ''tcp'' else proto),
          ni_HostID = rf_HostID f, ni_RiskLevel = rf_Severity f, ni_AttackType = rf_Type f,
          ni_TimeWindow = time_window parse (rf_Metadata f)\<rparr>)"

section \<open>The parts of a snapshot\<close>

definition hash_step :: "int \<Rightarrow> int \<Rightarrow> int" where
  "hash_step h n = wrap64 (wrap64 (h * 31) + n)"

definition hash_string :: "int \<Rightarrow> string \<Rightarrow> int" where
  "hash_string h s = foldl (\<lambda>h c. hash_step h (int (of_char c))) h s"

definition snapshot_hash :: "rules_finding \<Rightarrow> network_info \<Rightarrow> int" where
  "snapshot_hash f ni =
     (let h1 = hash_string 0 (rf_HostID f);
          h2 = (if ni_DestPort ni > 0 then hash_step h1 (ni_DestPort ni) else h1)
      in if ni_DestIP ni \<noteq> '''' then hash_string h2 (ni_DestIP ni) else h2)"

definition generateServiceID :: "rules_finding \<Rightarrow> network_info \<Rightarrow> int" where
  "generateServiceID f ni =
     (let h = snapshot_hash f ni
      in go_rem (if h < 0 then wrap64 (- h) else h) 10000)"

definition isPrivateIP :: "string \<Rightarrow> bool" where
  "isPrivateIP ip = (case ParseIP ip of None \<Rightarrow> False | Some a \<Rightarrow> in_private_range a)"

definition any_edge :: "string \<Rightarrow> network_edge" where
  "any_edge cidr = \<lparr>ne_DstCIDR = cidr, ne_Proto = ''any'', ne_Port = 0\<rparr>"

definition tcp_edge :: "int \<Rightarrow> network_edge" where
  "tcp_edge port = \<lparr>ne_DstCIDR = ''0.0.0.0/0'', ne_Proto = ''tcp'', ne_Port = port\<rparr>"

definition createDefaultEdges :: "rules_finding \<Rightarrow> network_edge list" where
  "createDefaultEdges f =
     (if rf_Type f \<in> {''network_scan'', ''port_scan''} then [any_edge ''0.0.0.0/0'']
      else if rf_Type f = ''reconnaissance'' then
        map tcp_edge [22, 23, 25, 53, 80, 443, 135, 139, 445, 1433, 3389]
      else if rf_Type f = ''data_exfiltration'' then
        map tcp_edge [21, 22, 23, 25, 53, 80, 443, 993, 995]
      else if rf_Type f = ''lateral_movement'' then
        map any_edge [''10.0.0.0/8'', ''172.16.0.0/12'', ''192.168.0.0/16'']
      else [any_edge ''0.0.0.0/0''])"

definition maxEdgesPerSnapshot :: nat where
  "maxEdgesPerSnapshot = 50"

definition target_cidr :: "string \<Rightarrow> string" where
  "target_cidr ip =
     (if isPrivateIP ip then
        (case split_on (CHR ''.'') ip of
           [a, b, c, d] \<Rightarrow> a @ ''.'' @ b @ ''.'' @ c @ ''.0/24''
         | _ \<Rightarrow> ip @ ''/32'')
      else ip @ ''/32'')"

definition createNetworkEdges :: "rules_finding \<Rightarrow> network_info \<Rightarrow> go_error + network_edge list" where
  "createNetworkEdges f ni =
     (if ni_DestIP ni \<noteq> '''' \<and> ni_DestPort ni > 0 then
        (if ParseIP (ni_DestIP ni) = None then
           Inl (ErrText (''invalid destination IP: '' @ ni_DestIP ni))
         else Inr (take maxEdgesPerSnapshot
                [\<lparr>ne_DstCIDR = target_cidr (ni_DestIP ni), ne_Proto = ni_Protocol ni,
                  ne_Port = ni_DestPort ni\<rparr>]))
      else Inr (take maxEdgesPerSnapshot (createDefaultEdges f)))"

definition createAllowCIDRs :: "network_info \<Rightarrow> network_edge list" where
  "createAllowCIDRs ni =
     [\<lparr>ne_DstCIDR = ''0.0.0.0/0'', ne_Proto = ''udp'', ne_Port = 53\<rparr>]
     @ (if ni_SourceIP ni \<noteq> '''' \<and> isPrivateIP (ni_SourceIP ni) then
          [\<lparr>ne_DstCIDR = ''0.0.0.0/0'', ne_Proto = ''tcp'', ne_Port = 22\<rparr>]
        else [])"

definition severity_ttl :: "string \<Rightarrow> int" where
  "severity_ttl sev =
     (if sev = ''critical'' then 7200 else if sev = ''high'' then 3600
      else if sev = ''medium'' then 1800 else if sev = ''low'' then 900 else 3600)"

definition confidence_ttl :: "float64 \<Rightarrow> int \<Rightarrow> int" where
  "confidence_ttl conf ttl =
     (if f_greater conf (Fin (9 / 10)) then scale_int ttl 3 2
      else if f_less conf (Fin (8 / 10)) then scale_int ttl 1 2
      else ttl)"

definition snapshot_ttl :: "rules_finding \<Rightarrow> int" where
  "snapshot_ttl f =
     (let ttl = confidence_ttl (rf_Confidence f) (severity_ttl (rf_Severity f))
      in if rf_Type f \<in> {''network_scan'', ''port_scan''} then scale_int ttl 2 1
         else if rf_Type f = ''data_exfiltration'' then scale_int ttl 3 2
         else if rf_Type f = ''reconnaissance'' then scale_int ttl 4 5
         else ttl)"

definition severity_score :: "string \<Rightarrow> rat" where
  "severity_score sev =
     (if sev = ''critical'' then 9 / 10 else if sev = ''high'' then 7 / 10
      else if sev = ''medium'' then 5 / 10 else if sev = ''low'' then 3 / 10 else 0)"

definition calculateRiskScore :: "rules_finding \<Rightarrow> float64" where
  "calculateRiskScore f =
     (let score = f_scale (severity_score (rf_Severity f)) (rf_Confidence f);
          extra = (if rf_Type f = ''data_exfiltration'' then 20 / 100
                   else if rf_Type f = ''lateral_movement'' then 15 / 100
                   else if rf_Type f = ''network_scan'' then 10 / 100
                   else if rf_Type f = ''reconnaissance'' then 5 / 100 else 0);
          score' = f_add score extra
      in if f_greater score' (Fin 1) then Fin 1 else score')"

definition assessRisk :: "rules_finding \<Rightarrow> network_info \<Rightarrow> (string \<times> dyn) list" where
  "assessRisk f ni =
     [(''level'', DynStr (rf_Severity f)), (''score'', DynFloat (calculateRiskScore f)),
      (''factors'', DynStrs
        ((if ni_DestPort ni > 0 \<and> ni_DestPort ni \<in> suspiciousPorts then [''suspicious_port''] else [])
         @ (if ni_DestIP ni \<noteq> '''' \<and> \<not> isPrivateIP (ni_DestIP ni) then [''external_target''] else [])
         @ (if f_greater (rf_Confidence f) (Fin (9 / 10)) then [''high_confidence''] else [])))]"

definition createMetadata ::
  "(time \<Rightarrow> string) \<Rightarrow> time \<Rightarrow> rules_finding \<Rightarrow> network_info \<Rightarrow> (string, dyn) gomap" where
  "createMetadata rfc3339 now f ni =
     [(''finding_id'', DynStr (rf_ID f)), (''rule_id'', DynStr (rf_RuleID f)),
      (''created_by'', DynStr ''correlator''), (''auto_generated'', DynBool True),
      (''severity'', DynStr (rf_Severity f)), (''confidence'', DynFloat (rf_Confidence f)),
      (''attack_type'', DynStr (rf_Type f)), (''host_id'', DynStr (rf_HostID f)),
      (''created_at'', DynStr (rfc3339 now))]
     @ (if ni_DestIP ni \<noteq> '''' then [(''destination_ip'', DynStr (ni_DestIP ni))] else [])
     @ (if ni_DestPort ni > 0 then
          [(''destination_port'', DynInt (ni_DestPort ni)),
           (''destination_service'', DynStr (or_empty (map_get knownServices (ni_DestPort ni))))]
        else [])
     @ (if ni_Protocol ni \<noteq> '''' then [(''protocol'', DynStr (ni_Protocol ni))] else [])
     @ (if ni_TimeWindow ni > 0 then
          [(''time_window_seconds'', DynInt (ni_TimeWindow ni div 1000000000))]
        else [])
     @ [(''risk_assessment'', DynMap (assessRisk f ni))]"

definition generateReason :: "rules_finding \<Rightarrow> network_info \<Rightarrow> string" where
  "generateReason f ni =
     ''Generated from finding '' @ rf_ID f @ '': '' @ rf_Description f
     @ (if ni_DestIP ni \<noteq> '''' \<and> ni_DestPort ni > 0 then
          '' (targeting '' @ ni_DestIP ni @ '':'' @ itoa (ni_DestPort ni) @ '')''
        else '''')
     @ (if rf_Severity f = ''critical'' then
          '' - CRITICAL severity requires immediate network restriction''
        else '''')"

definition calculateConfidence :: "rules_finding \<Rightarrow> network_info \<Rightarrow> float64" where
  "calculateConfidence f ni =
     (let c1 = (if ni_DestIP ni \<noteq> '''' \<and> ni_DestPort ni > 0 then f_add (rf_Confidence f) (10 / 100)
                else rf_Confidence f);
          c2 = (if rf_Type f \<in> {''network_scan'', ''port_scan''} then f_add c1 (5 / 100)
                else if rf_Type f = ''data_exfiltration'' then f_add c1 (10 / 100)
                else if rf_Type f = ''reconnaissance'' then f_add c1 (- 5 / 100)
                else c1);
          c3 = (if f_greater c2 (Fin 1) then Fin 1 else c2)
      in if f_less c3 (Fin 0) then Fin 0 else c3)"

section \<open>Validation and the whole\<close>

fun validate_edges :: "nat \<Rightarrow> network_edge list \<Rightarrow> go_error option" where
  "validate_edges i [] = None"
| "validate_edges i (e # es) =
     (if ne_DstCIDR e = '''' then
        Some (ErrText (''edge '' @ itoa (int i) @ '': empty destination CIDR''))
      else if ne_Proto e = '''' then Some (ErrText (''edge '' @ itoa (int i) @ '': empty protocol''))
      else if ne_Port e < 0 \<or> ne_Port e > 65535 then
        Some (ErrText (''edge '' @ itoa (int i) @ '': invalid port: '' @ itoa (ne_Port e)))
      else validate_edges (Suc i) es)"

definition validateMapSnapshotDraft :: "map_snapshot_draft \<Rightarrow> go_error option" where
  "validateMapSnapshotDraft d =
     (if dr_ServiceID d < 0 then Some (ErrText (''invalid service ID: '' @ itoa (dr_ServiceID d)))
      else if dr_Edges d = [] then Some (ErrText ''no edges specified'')
      else if dr_TTLSeconds d < 60 then
        Some (ErrText (''TTL too short: '' @ itoa (dr_TTLSeconds d) @ '' seconds''))
      else validate_edges 0 (dr_Edges d))"

definition SynthesizeMapSnapshot ::
  "(time \<Rightarrow> string) \<Rightarrow> (string \<Rightarrow> time option) \<Rightarrow> time \<Rightarrow> rules_finding \<Rightarrow> go_error + map_snapshot_draft" where
  "SynthesizeMapSnapshot rfc3339 parse now f =
     (let ni = extractNetworkInfo parse f
      in case createNetworkEdges f ni of
           Inl e \<Rightarrow> Inl (ErrWrap ''failed to create network edges'' e)
         | Inr edges \<Rightarrow>
             let draft =
               \<lparr>dr_ServiceID = generateServiceID f ni, dr_Edges = edges,
                dr_AllowCIDRs = createAllowCIDRs ni, dr_TTLSeconds = snapshot_ttl f,
                dr_Meta = createMetadata rfc3339 now f ni, dr_Reason = generateReason f ni,
                dr_Confidence = calculateConfidence f ni\<rparr>
             in (case validateMapSnapshotDraft draft of
                   Some e \<Rightarrow> Inl (ErrWrap ''invalid MapSnapshot draft'' e)
                 | None \<Rightarrow> Inr draft))"

section \<open>What a snapshot guarantees\<close>

lemma hash_step_range: "- (2 ^ 63) \<le> hash_step h n \<and> hash_step h n < 2 ^ 63"
  unfolding hash_step_def by (rule wrap64_bounds)

lemma hash_string_range:
  "- (2 ^ 63) \<le> h \<Longrightarrow> h < 2 ^ 63 \<Longrightarrow> - (2 ^ 63) \<le> hash_string h s \<and> hash_string h s < 2 ^ 63"
  unfolding hash_string_def by (induction s arbitrary: h) (auto simp: hash_step_range simp del: power_numeral)

lemma snapshot_hash_range: "- (2 ^ 63) \<le> snapshot_hash f ni \<and> snapshot_hash f ni < 2 ^ 63"
proof -
  have zero: "- (2 ^ 63) \<le> (0 :: int)" "(0 :: int) < 2 ^ 63" by simp_all
  define h1 where "h1 = hash_string 0 (rf_HostID f)"
  define h2 where "h2 = (if ni_DestPort ni > 0 then hash_step h1 (ni_DestPort ni) else h1)"
  have 1: "- (2 ^ 63) \<le> h1 \<and> h1 < 2 ^ 63" unfolding h1_def by (rule hash_string_range [OF zero])
  then have 2: "- (2 ^ 63) \<le> h2 \<and> h2 < 2 ^ 63" unfolding h2_def by (simp only: hash_step_range split: if_split) simp
  have "snapshot_hash f ni = (if ni_DestIP ni \<noteq> '''' then hash_string h2 (ni_DestIP ni) else h2)"
    by (simp add: snapshot_hash_def h1_def h2_def Let_def)
  with 2 hash_string_range [of h2 "ni_DestIP ni"] show ?thesis by (simp only: split: if_split) simp
qed

text \<open>The identifier is in range unless the hash is the least integer, whose negation overflows.\<close>

lemma generateServiceID_range:
  "(if snapshot_hash f ni = - (2 ^ 63) then generateServiceID f ni = - 5808
    else 0 \<le> generateServiceID f ni \<and> generateServiceID f ni < 10000)"
proof -
  define h where "h = snapshot_hash f ni"
  have r: "- (2 ^ 63) \<le> h" "h < 2 ^ 63" using snapshot_hash_range [of f ni] by (simp_all add: h_def)
  show ?thesis
  proof (cases "h = - (2 ^ 63)")
    case True
    then show ?thesis by (simp add: generateServiceID_def Let_def h_def [symmetric] go_rem_def wrap64_def)
  next
    case False
    show ?thesis
    proof (cases "h < 0")
      case neg: True
      have "wrap64 (- h) = - h" by (rule wrap64_id) (use r False neg in auto)
      with neg False show ?thesis
        by (simp add: generateServiceID_def Let_def h_def [symmetric] go_rem_def)
    next
      case False
      with \<open>h \<noteq> _\<close> show ?thesis by (simp add: generateServiceID_def Let_def h_def [symmetric] go_rem_def)
    qed
  qed
qed

lemma confidence_ttl_range:
  assumes "900 \<le> t" "t \<le> 7200"
  shows "450 \<le> confidence_ttl c t \<and> confidence_ttl c t \<le> 10800"
proof -
  have "450 \<le> t div 2" "t * 3 div 2 \<le> 10800" "450 \<le> t * 3 div 2" "t div 2 \<le> 10800" using assms by auto
  with assms show ?thesis by (simp add: confidence_ttl_def scale_int_def)
qed

lemma snapshot_ttl_range: "360 \<le> snapshot_ttl f \<and> snapshot_ttl f \<le> 21600"
proof -
  define t where "t = confidence_ttl (rf_Confidence f) (severity_ttl (rf_Severity f))"
  have "900 \<le> severity_ttl (rf_Severity f)" "severity_ttl (rf_Severity f) \<le> 7200"
    by (simp_all add: severity_ttl_def)
  from confidence_ttl_range [OF this] have t: "450 \<le> t" "t \<le> 10800" by (simp_all add: t_def)
  have "360 \<le> t * 4 div 5" "t * 4 div 5 \<le> 21600" "360 \<le> t * 3 div 2" "t * 3 div 2 \<le> 21600" using t by auto
  with t show ?thesis by (simp add: snapshot_ttl_def Let_def t_def [symmetric] scale_int_def)
qed

lemma calculateConfidence_unit:
  "calculateConfidence f ni = NaN \<or> (\<exists>q. calculateConfidence f ni = Fin q \<and> 0 \<le> q \<and> q \<le> 1)"
  unfolding f_in_unit_iff [symmetric]
  by (simp add: calculateConfidence_def Let_def f_greater_def)

lemma validate_edges_None_iff:
  "validate_edges i es = None \<longleftrightarrow>
     (\<forall>e \<in> set es. ne_DstCIDR e \<noteq> '''' \<and> ne_Proto e \<noteq> '''' \<and> 0 \<le> ne_Port e \<and> ne_Port e \<le> 65535)"
  by (induction es arbitrary: i) auto

lemma default_edges_ok:
  "createDefaultEdges f \<noteq> [] \<and> length (createDefaultEdges f) \<le> 11 \<and> validate_edges 0 (createDefaultEdges f) = None"
  by (simp add: createDefaultEdges_def any_edge_def tcp_edge_def)

lemma extracted_port: "ni_DestPort (extractNetworkInfo parse f) \<noteq> 0"
  by (simp add: extractNetworkInfo_def Let_def)

lemma extracted_proto: "ni_Protocol (extractNetworkInfo parse f) \<noteq> ''''"
  by (simp add: extractNetworkInfo_def Let_def)

lemma target_cidr_not_empty: "target_cidr ip \<noteq> ''''"
  by (auto simp: target_cidr_def split: list.splits)

end
