(* ===== verification/Corr_Forward.thy ===== *)
theory Corr_Forward
  imports Corr_Snapshot
begin

text \<open>
  \<open>rules/finding_forwarder.go\<close> and \<open>rules/decision_integration.go\<close>: what the correlator asks of the
  decision engine for a finding, an adaptive safeguard, a map snapshot and a plan. An operation
  takes the services' state and the connection and returns them with its error.
\<close>

record pipe_env =
  pv_rfc3339 :: "time \<Rightarrow> string"
  pv_parse :: "string \<Rightarrow> time option"
  pv_fmt2 :: "float64 \<Rightarrow> string"

section \<open>Criteria\<close>

definition highSeverity :: "string set" where
  "highSeverity = {''high'', ''critical''}"

definition networkRiskTypes :: "string set" where
  "networkRiskTypes =
     {''network'', ''connect'', ''network_scan'', ''port_scan'', ''reconnaissance'', ''data_exfiltration'',
      ''lateral_movement''}"

definition FF_isNetworkRisk :: "rules_finding \<Rightarrow> bool" where
  "FF_isNetworkRisk f =
     (if rf_Type f \<in> networkRiskTypes then True
      else if list_ex (\<lambda>tag. tag \<in> networkRiskTypes) (rf_Tags f) then True
      else (case str_field (rf_Evidence f) ''event_type'' of
              Some e \<Rightarrow> e = ''connect'' \<or> e = ''network''
            | None \<Rightarrow> False))"

definition networkRuleTypes :: "string list" where
  "networkRuleTypes =
     [''network_scan'', ''port_scan'', ''reconnaissance'', ''data_exfiltration'', ''lateral_movement'',
      ''unauthorized_access'', ''privilege_escalation'']"

definition shouldForward :: "rules_finding \<Rightarrow> bool" where
  "shouldForward f =
     (if rf_Severity f \<notin> highSeverity then False
      else if f_less (rf_Confidence f) (Fin (7 / 10)) then False
      else if FF_isNetworkRisk f then True
      else list_ex (\<lambda>t. rf_Type f = t) networkRuleTypes)"

section \<open>The safeguard\<close>

definition determineSafeguardType :: "rules_finding \<Rightarrow> string" where
  "determineSafeguardType f =
     (if FF_isNetworkRisk f then ''network_restriction''
      else if rf_Type f \<in> {''unauthorized_access'', ''privilege_escalation''} then ''service_isolation''
      else if rf_Type f \<in> {''data_exfiltration'', ''lateral_movement''} then ''traffic_blocking''
      else if rf_Type f \<in> {''reconnaissance'', ''network_scan''} then ''network_restriction''
      else ''service_isolation'')"

definition severity_priority :: "string \<Rightarrow> int" where
  "severity_priority sev =
     (if sev = ''critical'' then 1 else if sev = ''high'' then 2 else if sev = ''medium'' then 3
      else if sev = ''low'' then 4 else 5)"

definition finding_priority :: "bool \<Rightarrow> rules_finding \<Rightarrow> int" where
  "finding_priority networkRisk f =
     (let p = severity_priority (rf_Severity f);
          p' = (if f_greater (rf_Confidence f) (Fin (9 / 10)) then p - 1
                else if f_less (rf_Confidence f) (Fin (8 / 10)) then p + 1
                else p)
      in if networkRisk then p' - 1 else p')"

definition FF_calculatePriority :: "rules_finding \<Rightarrow> int" where
  "FF_calculatePriority f = finding_priority (FF_isNetworkRisk f) f"

definition shouldAutoApprove :: "rules_finding \<Rightarrow> bool" where
  "shouldAutoApprove f =
     (rf_Severity f = ''critical'' \<and> f_greater (rf_Confidence f) (Fin (95 / 100)))"

definition generateProposedAction :: "rules_finding \<Rightarrow> string \<Rightarrow> string" where
  "generateProposedAction f safeguardType =
     (if safeguardType = ''network_restriction'' then
        ''Restrict network access for host '' @ rf_HostID f @ '' to prevent '' @ rf_Type f
      else if safeguardType = ''service_isolation'' then
        ''Isolate service on host '' @ rf_HostID f @ '' due to '' @ rf_Type f
      else if safeguardType = ''traffic_blocking'' then
        ''Block suspicious traffic from host '' @ rf_HostID f
      else ''Apply security measures to host '' @ rf_HostID f)"

text \<open>
  \<open>fmt.Sscanf\<close> with the verb \<open>%d\<close>: blanks are skipped, a line break is an error, then follow an
  optional sign and at least one digit; what comes after them is ignored.
\<close>

fun scan_space :: "string \<Rightarrow> string option" where
  "scan_space [] = Some []"
| "scan_space (c # cs) =
     (if (of_char c :: nat) = 10 then None
      else if is_space c then scan_space cs
      else Some (c # cs))"

definition sscanf_d :: "string \<Rightarrow> int option" where
  "sscanf_d s =
     (case scan_space s of
        None \<Rightarrow> None
      | Some t \<Rightarrow>
          let signed = (t \<noteq> [] \<and> (hd t = CHR ''-'' \<or> hd t = CHR ''+''));
              sign = (if signed then [hd t] else []);
              ds = takeWhile is_digit (if signed then tl t else t)
          in atoi (sign @ ds))"

definition extractNetworkEdges :: "rules_finding \<Rightarrow> network_edge list" where
  "extractNetworkEdges f =
     (case (str_field (rf_Evidence f) ''dst_ip'', str_field (rf_Evidence f) ''dst_port'') of
        (Some dstIP, Some dstPort) \<Rightarrow>
          [\<lparr>ne_DstCIDR = dstIP @ ''/32'',
            ne_Proto = (case str_field (rf_Evidence f) ''proto'' of None \<Rightarrow> ''tcp'' | Some p \<Rightarrow> p),
            ne_Port = (case sscanf_d dstPort of None \<Rightarrow> 80 | Some p \<Rightarrow> p)\<rparr>]
      | _ \<Rightarrow> [any_edge ''0.0.0.0/0''])"

definition FF_generateServiceID :: "rules_finding \<Rightarrow> int" where
  "FF_generateServiceID f = go_rem (hash_string 0 (rf_HostID f)) 10000"

definition FF_calculateTTL :: "rules_finding \<Rightarrow> int" where
  "FF_calculateTTL f = confidence_ttl (rf_Confidence f) (severity_ttl (rf_Severity f))"

definition createMapSnapshotDraft :: "rules_finding \<Rightarrow> map_snapshot_draft" where
  "createMapSnapshotDraft f =
     \<lparr>dr_ServiceID = FF_generateServiceID f, dr_Edges = extractNetworkEdges f, dr_AllowCIDRs = [],
      dr_TTLSeconds = FF_calculateTTL f,
      dr_Meta = [(''finding_id'', DynStr (rf_ID f)), (''rule_id'', DynStr (rf_RuleID f)),
                 (''created_by'', DynStr ''correlator''), (''reason'', DynStr (rf_Description f)),
                 (''severity'', DynStr (rf_Severity f)), (''confidence'', DynFloat (rf_Confidence f)),
                 (''auto_generated'', DynBool True)],
      dr_Reason = ''Generated from finding '' @ rf_ID f @ '': '' @ rf_Description f,
      dr_Confidence = rf_Confidence f\<rparr>"

definition createAdaptiveSafeguard :: "pipe_env \<Rightarrow> time \<Rightarrow> rules_finding \<Rightarrow> adaptive_safeguard" where
  "createAdaptiveSafeguard pv now f =
     \<lparr>sg_ID = ''safeguard-'' @ rf_ID f @ ''-'' @ itoa now, sg_FindingID = rf_ID f,
      sg_Type = determineSafeguardType f, sg_Severity = rf_Severity f, sg_Confidence = rf_Confidence f,
      sg_HostID = rf_HostID f, sg_RuleID = rf_RuleID f, sg_Description = rf_Description f,
      sg_ProposedAction = generateProposedAction f (determineSafeguardType f),
      sg_MapSnapshot = (if FF_isNetworkRisk f then Some (createMapSnapshotDraft f) else None),
      sg_Metadata = rf_Metadata f, sg_CreatedAt = pv_rfc3339 pv now,
      sg_ExpiresAt = pv_rfc3339 pv (time_add now (seconds (24 * 3600))),
      sg_Priority = FF_calculatePriority f, sg_AutoApprove = shouldAutoApprove f\<rparr>"

definition fmt_bool :: "bool \<Rightarrow> string" where
  "fmt_bool b = (if b then ''true'' else ''false'')"

definition safeguard_message :: "adaptive_safeguard \<Rightarrow> nats_message" where
  "safeguard_message s =
     \<lparr>nm_Subject = ''decision.adaptive_safeguards'', nm_Data = SafeguardMsg s,
      nm_Header = [(''x-safeguard-id'', sg_ID s), (''x-finding-id'', sg_FindingID s),
                   (''x-severity'', sg_Severity s), (''x-host-id'', sg_HostID s),
                   (''x-priority'', itoa (sg_Priority s)), (''x-auto-approve'', fmt_bool (sg_AutoApprove s))]\<rparr>"

definition forwardToDecisionEngine ::
  "nats_lib \<Rightarrow> adaptive_safeguard \<Rightarrow> nats_conn \<Rightarrow> go_error option \<times> nats_conn" where
  "forwardToDecisionEngine nl s c =
     (if \<not> payload_marshals (SafeguardMsg s) then
        (Some (ErrWrap ''failed to marshal safeguard'' marshal_error), c)
      else (case PublishMsg nl (safeguard_message s) c of
              (Some e, c') \<Rightarrow> (Some (ErrWrap ''failed to publish safeguard'' e), c')
            | (None, c') \<Rightarrow> (None, c')))"

section \<open>The forwarder\<close>

record finding_forwarder =
  ff_forwardedCount :: int
  ff_networkRiskCount :: int
  ff_adaptiveSafeguardCount :: int

definition NewFindingForwarder :: finding_forwarder where
  "NewFindingForwarder = \<lparr>ff_forwardedCount = 0, ff_networkRiskCount = 0, ff_adaptiveSafeguardCount = 0\<rparr>"

definition ForwardFinding ::
  "pipe_env \<Rightarrow> nats_lib \<Rightarrow> time \<Rightarrow> rules_finding \<Rightarrow> finding_forwarder \<times> nats_conn
    \<Rightarrow> go_error option \<times> finding_forwarder \<times> nats_conn" where
  "ForwardFinding pv nl now f s =
     (case s of (ff, c) \<Rightarrow>
        case conn_available nl c of (up, c1) \<Rightarrow>
          if \<not> up then (Some no_connection, ff, c1)
          else if \<not> shouldForward f then (None, ff, c1)
          else (case forwardToDecisionEngine nl (createAdaptiveSafeguard pv now f) c1 of
                  (Some e, c2) \<Rightarrow> (Some (ErrWrap ''failed to forward to decision engine'' e), ff, c2)
                | (None, c2) \<Rightarrow>
                    (None,
                     ff\<lparr>ff_forwardedCount := wrap64 (ff_forwardedCount ff + 1),
                        ff_networkRiskCount :=
                          (if FF_isNetworkRisk f then wrap64 (ff_networkRiskCount ff + 1)
                           else ff_networkRiskCount ff),
                        ff_adaptiveSafeguardCount := wrap64 (ff_adaptiveSafeguardCount ff + 1)\<rparr>, c2)))"

fun forward_each ::
  "pipe_env \<Rightarrow> nats_lib \<Rightarrow> time \<Rightarrow> rules_finding list \<Rightarrow> go_error list \<Rightarrow> finding_forwarder \<times> nats_conn
    \<Rightarrow> go_error list \<times> finding_forwarder \<times> nats_conn" where
  "forward_each pv nl now [] errs s = (errs, s)"
| "forward_each pv nl now (f # fs) errs s =
     (case ForwardFinding pv nl now f s of
        (Some e, s') \<Rightarrow> forward_each pv nl now fs (errs @ [ErrWrap (''finding '' @ rf_ID f) e]) s'
      | (None, s') \<Rightarrow> forward_each pv nl now fs errs s')"

definition ForwardFindingsBatch ::
  "pipe_env \<Rightarrow> nats_lib \<Rightarrow> time \<Rightarrow> rules_finding list \<Rightarrow> finding_forwarder \<times> nats_conn
    \<Rightarrow> go_error option \<times> finding_forwarder \<times> nats_conn" where
  "ForwardFindingsBatch pv nl now fs s =
     (case forward_each pv nl now fs [] s of (errs, s') \<Rightarrow>
        (if errs \<noteq> [] then
           Some (ErrList (''failed to forward '' @ itoa (int (length errs)) @ '' findings'') errs)
         else None, s'))"

section \<open>The decision integration\<close>

record decision_links =
  dg_forwarder :: finding_forwarder
  dg_plansCreated :: int
  dg_safeguardsSent :: int
  dg_mapsnapshotsSent :: int
  dg_errors :: int

definition NewDecisionIntegration :: decision_links where
  "NewDecisionIntegration =
     \<lparr>dg_forwarder = NewFindingForwarder, dg_plansCreated = 0, dg_safeguardsSent = 0,
      dg_mapsnapshotsSent = 0, dg_errors = 0\<rparr>"

definition isNetworkRisk :: "rules_finding \<Rightarrow> bool" where
  "isNetworkRisk f =
     (if rf_Type f \<in> networkRiskTypes then True
      else if list_ex (\<lambda>tag. tag \<in> networkRiskTypes) (rf_Tags f) then True
      else (case str_field (rf_Evidence f) ''event_type'' of
              Some e \<Rightarrow> e = ''connect'' \<or> e = ''network''
            | None \<Rightarrow> False))"

definition processableTypes :: "string list" where
  "processableTypes =
     [''unauthorized_access'', ''privilege_escalation'', ''data_exfiltration'', ''lateral_movement'',
      ''network_scan'', ''port_scan'', ''reconnaissance'']"

definition shouldProcess :: "rules_finding \<Rightarrow> bool" where
  "shouldProcess f =
     (if rf_Severity f \<notin> highSeverity then False
      else if f_less (rf_Confidence f) (Fin (7 / 10)) then False
      else if isNetworkRisk f then True
      else list_ex (\<lambda>t. rf_Type f = t) processableTypes)"

definition shouldCreatePlan :: "rules_finding \<Rightarrow> bool" where
  "shouldCreatePlan f =
     (rf_Severity f = ''critical'' \<or> f_greater (rf_Confidence f) (Fin (9 / 10)))"

definition snapshot_headers :: "pipe_env \<Rightarrow> map_snapshot_message \<Rightarrow> (string, string) gomap" where
  "snapshot_headers pv m =
     [(''x-finding-id'', mm_FindingID m), (''x-host-id'', mm_HostID m),
      (''x-service-id'', itoa (dr_ServiceID (mm_MapSnapshot m))),
      (''x-confidence'', pv_fmt2 pv (mm_Confidence m)), (''x-created-at'', mm_CreatedAt m)]"

definition publishMapSnapshot ::
  "pipe_env \<Rightarrow> nats_lib \<Rightarrow> map_snapshot_message \<Rightarrow> nats_conn \<Rightarrow> go_error option \<times> nats_conn" where
  "publishMapSnapshot pv nl m c =
     publish_payload nl
       \<lparr>nm_Subject = ''orchestrator.mapsnapshots'', nm_Data = SnapshotMsg m, nm_Header = snapshot_headers pv m\<rparr>
       ''failed to marshal MapSnapshot message'' ''failed to publish MapSnapshot'' c"

definition snapshot_message_for ::
  "pipe_env \<Rightarrow> time \<Rightarrow> rules_finding \<Rightarrow> map_snapshot_draft \<Rightarrow> map_snapshot_message" where
  "snapshot_message_for pv now f d =
     \<lparr>mm_FindingID = rf_ID f, mm_HostID = rf_HostID f, mm_MapSnapshot = d, mm_Reason = dr_Reason d,
      mm_Confidence = dr_Confidence d, mm_CreatedAt = pv_rfc3339 pv now,
      mm_ExpiresAt = pv_rfc3339 pv (time_add now (seconds (dr_TTLSeconds d)))\<rparr>"

definition createMapSnapshotForFinding ::
  "pipe_env \<Rightarrow> nats_lib \<Rightarrow> time \<Rightarrow> rules_finding \<Rightarrow> nats_conn \<Rightarrow> go_error option \<times> nats_conn" where
  "createMapSnapshotForFinding pv nl now f c =
     (case SynthesizeMapSnapshot (pv_rfc3339 pv) (pv_parse pv) now f of
        Inl e \<Rightarrow> (Some (ErrWrap ''failed to synthesize MapSnapshot'' e), c)
      | Inr d \<Rightarrow>
          (case publishMapSnapshot pv nl (snapshot_message_for pv now f d) c of
             (Some e, c') \<Rightarrow> (Some (ErrWrap ''failed to publish MapSnapshot'' e), c')
           | (None, c') \<Rightarrow> (None, c')))"

definition determineStrategyMode :: "rules_finding \<Rightarrow> string" where
  "determineStrategyMode f =
     (if rf_Severity f = ''critical'' \<and> f_greater (rf_Confidence f) (Fin (9 / 10)) then ''conservative''
      else if rf_Severity f = ''high'' \<and> f_greater (rf_Confidence f) (Fin (8 / 10)) then ''aggressive''
      else ''balanced'')"

definition DI_calculatePriority :: "rules_finding \<Rightarrow> int" where
  "DI_calculatePriority f = finding_priority (isNetworkRisk f) f"

definition plan_request_for :: "pipe_env \<Rightarrow> time \<Rightarrow> rules_finding \<Rightarrow> decision_plan_request" where
  "plan_request_for pv now f =
     \<lparr>dp_FindingID = rf_ID f, dp_HostID = rf_HostID f, dp_Severity = rf_Severity f,
      dp_Confidence = rf_Confidence f, dp_RuleID = rf_RuleID f, dp_StrategyMode = determineStrategyMode f,
      dp_Priority = DI_calculatePriority f, dp_AutoApprove = shouldAutoApprove f,
      dp_CreatedAt = pv_rfc3339 pv now, dp_ExpiresAt = pv_rfc3339 pv (time_add now (seconds (24 * 3600)))\<rparr>"

definition publishDecisionPlan ::
  "nats_lib \<Rightarrow> decision_plan_request \<Rightarrow> nats_conn \<Rightarrow> go_error option \<times> nats_conn" where
  "publishDecisionPlan nl p c =
     publish_payload nl
       \<lparr>nm_Subject = ''decision.plans'', nm_Data = PlanMsg p,
        nm_Header = [(''x-finding-id'', dp_FindingID p), (''x-host-id'', dp_HostID p),
                     (''x-severity'', dp_Severity p), (''x-priority'', itoa (dp_Priority p)),
                     (''x-strategy-mode'', dp_StrategyMode p), (''x-auto-approve'', fmt_bool (dp_AutoApprove p))]\<rparr>
       ''failed to marshal decision plan'' ''failed to publish decision plan'' c"

definition createDecisionPlan ::
  "pipe_env \<Rightarrow> nats_lib \<Rightarrow> time \<Rightarrow> rules_finding \<Rightarrow> nats_conn \<Rightarrow> go_error option \<times> nats_conn" where
  "createDecisionPlan pv nl now f c =
     (case publishDecisionPlan nl (plan_request_for pv now f) c of
        (Some e, c') \<Rightarrow> (Some (ErrWrap ''failed to publish decision plan'' e), c')
      | (None, c') \<Rightarrow> (None, c'))"

text \<open>The two steps after the safeguard count their errors and go on.\<close>

definition snapshot_step ::
  "pipe_env \<Rightarrow> nats_lib \<Rightarrow> time \<Rightarrow> rules_finding \<Rightarrow> decision_links \<times> nats_conn \<Rightarrow> decision_links \<times> nats_conn" where
  "snapshot_step pv nl now f s =
     (case s of (di, c) \<Rightarrow>
        if isNetworkRisk f then
          (case createMapSnapshotForFinding pv nl now f c of
             (Some e, c') \<Rightarrow> (di\<lparr>dg_errors := wrap64 (dg_errors di + 1)\<rparr>, c')
           | (None, c') \<Rightarrow> (di\<lparr>dg_mapsnapshotsSent := wrap64 (dg_mapsnapshotsSent di + 1)\<rparr>, c'))
        else (di, c))"

definition plan_step ::
  "pipe_env \<Rightarrow> nats_lib \<Rightarrow> time \<Rightarrow> rules_finding \<Rightarrow> decision_links \<times> nats_conn \<Rightarrow> decision_links \<times> nats_conn" where
  "plan_step pv nl now f s =
     (case s of (di, c) \<Rightarrow>
        if shouldCreatePlan f then
          (case createDecisionPlan pv nl now f c of
             (Some e, c') \<Rightarrow> (di\<lparr>dg_errors := wrap64 (dg_errors di + 1)\<rparr>, c')
           | (None, c') \<Rightarrow> (di\<lparr>dg_plansCreated := wrap64 (dg_plansCreated di + 1)\<rparr>, c'))
        else (di, c))"

definition ProcessFinding ::
  "pipe_env \<Rightarrow> nats_lib \<Rightarrow> time \<Rightarrow> rules_finding \<Rightarrow> decision_links \<times> nats_conn
    \<Rightarrow> go_error option \<times> decision_links \<times> nats_conn" where
  "ProcessFinding pv nl now f s =
     (case s of (di, c) \<Rightarrow>
        if \<not> shouldProcess f then (None, di, c)
        else (case ForwardFinding pv nl now f (dg_forwarder di, c) of
                (Some e, ff, c1) \<Rightarrow>
                  (Some (ErrWrap ''failed to forward finding'' e),
                   di\<lparr>dg_forwarder := ff, dg_errors := wrap64 (dg_errors di + 1)\<rparr>, c1)
              | (None, ff, c1) \<Rightarrow>
                  (None, plan_step pv nl now f
                     (snapshot_step pv nl now f
                        (di\<lparr>dg_forwarder := ff, dg_safeguardsSent := wrap64 (dg_safeguardsSent di + 1)\<rparr>, c1)))))"

definition calculateSuccessRate :: "decision_links \<Rightarrow> float64" where
  "calculateSuccessRate di =
     (let t = wrap64 (wrap64 (dg_plansCreated di + dg_safeguardsSent di) + dg_mapsnapshotsSent di)
      in if t = 0 then Fin 1 else Fin (of_int (wrap64 (t - dg_errors di)) / of_int t))"

record link_statistics =
  ls_plans_created :: int
  ls_safeguards_sent :: int
  ls_mapsnapshots_sent :: int
  ls_errors :: int
  ls_success_rate :: float64

definition DI_GetStatistics :: "decision_links \<Rightarrow> link_statistics" where
  "DI_GetStatistics di =
     \<lparr>ls_plans_created = dg_plansCreated di, ls_safeguards_sent = dg_safeguardsSent di,
      ls_mapsnapshots_sent = dg_mapsnapshotsSent di, ls_errors = dg_errors di,
      ls_success_rate = calculateSuccessRate di\<rparr>"

end
