(* ===== verification/Corr_Store.thy ===== *)
theory Corr_Store
  imports Corr_Model
begin

text \<open>
  \<open>internal/store/memory.go\<close>: the findings store, a ring buffer behind an LRU set of dedupe keys.
  The ring of \<open>container/ring\<close> is the list of its values read from the current element; the empty
  list is the nil ring \<open>ring.New\<close> returns for a capacity below one. The cache of
  \<open>hashicorp/golang-lru\<close> is the argument \<open>lru_ops\<close>; its contract is the locale \<open>lru_cache\<close>.
  \<^term>\<open>None\<close> as the result of an operation is the panic of a nil dereference.
\<close>

section \<open>The cache library\<close>

record 'c lru_ops =
  lru_new :: "int \<Rightarrow> 'c option"
  lru_get :: "'c \<Rightarrow> string \<Rightarrow> bool \<times> 'c"
  lru_add :: "'c \<Rightarrow> string \<Rightarrow> 'c"
  lru_purge :: "'c \<Rightarrow> 'c"
  lru_len :: "'c \<Rightarrow> nat"

text \<open>Moving a key to the front of a list ordered from the most to the least recently used.\<close>

definition promote :: "string \<Rightarrow> string list \<Rightarrow> string list" where
  "promote k ks = k # filter (\<lambda>x. x \<noteq> k) ks"

locale lru_cache =
  fixes ops :: "'c lru_ops" and keys :: "'c \<Rightarrow> string list" and cap :: "'c \<Rightarrow> nat"
  assumes new_keys: "lru_new ops n = Some c \<Longrightarrow> keys c = [] \<and> int (cap c) = n"
    and new_fails: "lru_new ops n = None \<longleftrightarrow> n \<le> 0"
    and get_hit: "fst (lru_get ops c k) \<longleftrightarrow> k \<in> set (keys c)"
    and get_keys: "keys (snd (lru_get ops c k)) = (if k \<in> set (keys c) then promote k (keys c) else keys c)"
    and get_cap: "cap (snd (lru_get ops c k)) = cap c"
    and add_keys: "keys (lru_add ops c k) = take (cap c) (promote k (keys c))"
    and add_cap: "cap (lru_add ops c k) = cap c"
    and purge: "keys (lru_purge ops c) = [] \<and> cap (lru_purge ops c) = cap c"
    and len: "lru_len ops c = length (keys c)"

section \<open>The store\<close>

record 'c memory_store =
  ms_findings :: "finding option list"
  ms_dedupe :: "'c option"
  ms_maxFindings :: int
  ms_dedupeCap :: int

definition NewMemoryStore :: "'c lru_ops \<Rightarrow> int \<Rightarrow> int \<Rightarrow> 'c memory_store" where
  "NewMemoryStore ops maxFindings dedupeCap =
     \<lparr>ms_findings = replicate (nat maxFindings) None, ms_dedupe = lru_new ops dedupeCap,
      ms_maxFindings = maxFindings, ms_dedupeCap = dedupeCap\<rparr>"

definition createDedupeKey :: "finding \<Rightarrow> string" where
  "createDedupeKey f = fd_HostID f @ '':'' @ fd_RuleID f @ '':'' @ fd_Severity f"

definition AddFinding ::
  "'c lru_ops \<Rightarrow> 'c memory_store \<Rightarrow> finding option \<Rightarrow> (bool \<times> 'c memory_store) option" where
  "AddFinding ops s fo =
     (case fo of
        None \<Rightarrow> None
      | Some f \<Rightarrow>
          (case ms_dedupe s of
             None \<Rightarrow> None
           | Some c \<Rightarrow>
               let dedupeKey = createDedupeKey f;
                   (exists, c1) = lru_get ops c dedupeKey
               in if exists then Some (False, s\<lparr>ms_dedupe := Some c1\<rparr>)
                  else let c2 = lru_add ops c1 dedupeKey
                       in (case ms_findings s of
                             [] \<Rightarrow> None
                           | _ # rest \<Rightarrow>
                               Some (True, s\<lparr>ms_dedupe := Some c2, ms_findings := rest @ [Some f]\<rparr>))))"

definition GetFindings :: "'c memory_store \<Rightarrow> finding list" where
  "GetFindings s = List.map_filter id (ms_findings s)"

definition GetFindingsByHost :: "'c memory_store \<Rightarrow> string \<Rightarrow> finding list" where
  "GetFindingsByHost s hostID =
     List.map_filter (\<lambda>v. case v of None \<Rightarrow> None | Some f \<Rightarrow> if fd_HostID f = hostID then Some f else None)
       (ms_findings s)"

definition severityLevels :: "string \<Rightarrow> int option" where
  "severityLevels = map_of [(''low'', 1), (''medium'', 2), (''high'', 3), (''critical'', 4)]"

definition GetFindingsBySeverity :: "'c memory_store \<Rightarrow> string \<Rightarrow> finding list" where
  "GetFindingsBySeverity s minSeverity =
     (let minLevel = (case severityLevels minSeverity of None \<Rightarrow> 0 | Some n \<Rightarrow> n)
      in List.map_filter
           (\<lambda>v. case v of
                  None \<Rightarrow> None
                | Some f \<Rightarrow> (case severityLevels (fd_Severity f) of
                               None \<Rightarrow> None
                             | Some level \<Rightarrow> if level \<ge> minLevel then Some f else None))
           (ms_findings s))"

text \<open>The loop of \<open>ClearFindings\<close>: \<open>n\<close> rounds, each of which empties the current element and
  moves on.\<close>

fun clear_ring :: "nat \<Rightarrow> finding option list \<Rightarrow> finding option list" where
  "clear_ring 0 r = r"
| "clear_ring (Suc n) r = clear_ring n (tl r @ [None])"

definition ClearFindings :: "'c lru_ops \<Rightarrow> 'c memory_store \<Rightarrow> 'c memory_store option" where
  "ClearFindings ops s =
     (let r = clear_ring (length (ms_findings s)) (ms_findings s)
      in case ms_dedupe s of
           None \<Rightarrow> None
         | Some c \<Rightarrow> Some (s\<lparr>ms_findings := r, ms_dedupe := Some (lru_purge ops c)\<rparr>))"

record store_stats =
  st_total_findings :: nat
  st_max_findings :: int
  st_dedupe_cap :: int
  st_dedupe_size :: nat

definition MS_GetStats :: "'c lru_ops \<Rightarrow> 'c memory_store \<Rightarrow> store_stats option" where
  "MS_GetStats ops s =
     (case ms_dedupe s of
        None \<Rightarrow> None
      | Some c \<Rightarrow> Some \<lparr>st_total_findings = length (filter (\<lambda>v. v \<noteq> None) (ms_findings s)),
                        st_max_findings = ms_maxFindings s, st_dedupe_cap = ms_dedupeCap s,
                        st_dedupe_size = lru_len ops c\<rparr>)"

text \<open>A run of additions, with the findings it accepted.\<close>

fun add_run :: "'c lru_ops \<Rightarrow> 'c memory_store \<Rightarrow> finding list \<Rightarrow> (finding list \<times> 'c memory_store) option" where
  "add_run ops s [] = Some ([], s)"
| "add_run ops s (f # fs) =
     (case AddFinding ops s (Some f) of
        None \<Rightarrow> None
      | Some (added, s1) \<Rightarrow>
          (case add_run ops s1 fs of
             None \<Rightarrow> None
           | Some (acc, s2) \<Rightarrow> Some (if added then f # acc else acc, s2)))"

section \<open>Ring and queries\<close>

lemma map_filter_id_append [simp]:
  "List.map_filter id (xs @ [Some f]) = List.map_filter id xs @ [f]"
  "List.map_filter id (None # xs) = List.map_filter id xs"
  "List.map_filter id (Some f # xs) = f # List.map_filter id xs"
  "List.map_filter id (replicate n None) = []"
  by (auto simp: List.map_filter_def)

lemma GetFindingsByHost_filter:
  "GetFindingsByHost s h = filter (\<lambda>f. fd_HostID f = h) (GetFindings s)"
proof -
  have "List.map_filter (\<lambda>v. case v of None \<Rightarrow> None | Some f \<Rightarrow> if P f then Some f else None) r
      = filter P (List.map_filter id r)" for P :: "finding \<Rightarrow> bool" and r
    by (induction r) (auto simp: List.map_filter_def split: option.splits)
  then show ?thesis by (simp add: GetFindingsByHost_def GetFindings_def)
qed

text \<open>A ring holding \<open>fs\<close>, oldest first, has its empty elements in front.\<close>

definition ring_holds :: "nat \<Rightarrow> finding option list \<Rightarrow> finding list \<Rightarrow> bool" where
  "ring_holds n r fs \<longleftrightarrow> length fs \<le> n \<and> r = replicate (n - length fs) None @ map Some fs"

lemma ring_holds_GetFindings: "ring_holds n r fs \<Longrightarrow> List.map_filter id r = fs"
  by (induction fs) (auto simp: ring_holds_def List.map_filter_def comp_def)

lemma ring_holds_push:
  assumes "ring_holds n (v # rest) (drop (length acc - n) acc)"
  shows "ring_holds n (rest @ [Some f]) (drop (length (acc @ [f]) - n) (acc @ [f]))"
proof (cases "length acc < n")
  case True
  then have "v # rest = replicate (Suc (n - Suc (length acc))) None @ map Some acc"
    using assms by (simp add: ring_holds_def Suc_diff_Suc)
  with True show ?thesis by (simp add: ring_holds_def)
next
  case False
  with assms have "v # rest = map Some (drop (length acc - n) acc)" by (simp add: ring_holds_def)
  then have "length (v # rest) = length (map Some (drop (length acc - n) acc))"
    and "tl (v # rest) = tl (map Some (drop (length acc - n) acc))" by simp_all
  with False have "0 < n" and "rest = map Some (drop (Suc (length acc) - n) acc)"
    by (auto simp: map_tl [symmetric] tl_drop drop_Suc Suc_diff_le)
  with False show ?thesis by (auto simp: ring_holds_def Suc_diff_le)
qed

section \<open>The recency list\<close>

definition lru_touch :: "nat \<Rightarrow> string \<Rightarrow> string list \<Rightarrow> string list" where
  "lru_touch n k ks = take n (promote k ks)"

lemma distinct_touch: "distinct ks \<Longrightarrow> distinct (lru_touch n k ks)"
  by (auto simp: lru_touch_def promote_def)

lemma length_touch: "length (lru_touch n k ks) \<le> n"
  by (simp add: lru_touch_def)

lemma promote_hit: "distinct ks \<Longrightarrow> k \<in> set ks \<Longrightarrow> length (promote k ks) = length ks"
  using length_remove1 [of k ks] length_pos_if_in_set [of k ks]
  by (auto simp: promote_def distinct_remove1_removeAll removeAll_filter_not_eq eq_commute [of k])

lemma filter_absent: "k \<notin> set ks \<Longrightarrow> filter (\<lambda>x. x \<noteq> k) ks = ks"
  by (induction ks) auto

lemma touch_other:
  assumes "distinct (xs @ k # ys)" "j \<noteq> k" "card (insert j (set xs) - {k}) < n"
  shows "\<exists>zs. lru_touch n j (xs @ k # ys) = (j # filter (\<lambda>x. x \<noteq> j) xs) @ k # zs"
proof -
  let ?xs = "j # filter (\<lambda>x. x \<noteq> j) xs"
  have "distinct ?xs" "set ?xs = insert j (set xs) - {k}" using assms by auto
  then have "length ?xs < n" using distinct_card [of ?xs] assms(3) by simp
  then show ?thesis using assms(2) by (auto simp: lru_touch_def promote_def take_Cons')
qed

lemma touch_keeps:
  assumes "distinct (xs @ k # ys)" "length (xs @ k # ys) \<le> n" "card (set xs \<union> set js - {k}) < n"
  shows "k \<in> set (fold (lru_touch n) js (xs @ k # ys))"
  using assms
proof (induction js arbitrary: xs ys)
  case Nil
  then show ?case by simp
next
  case (Cons j js)
  show ?case
  proof (cases "j = k")
    case True
    have "filter (\<lambda>x. x \<noteq> k) (xs @ k # ys) = xs @ ys"
      using Cons.prems(1) by (simp add: filter_absent)
    with True Cons.prems(2) have "lru_touch n j (xs @ k # ys) = [] @ k # (xs @ ys)"
      by (simp add: lru_touch_def promote_def)
    moreover have "card (set js - {k}) \<le> card (set xs \<union> set (j # js) - {k})"
      by (intro card_mono) auto
    ultimately show ?thesis using Cons.prems Cons.IH [of "[]" "xs @ ys"] by auto
  next
    case False
    have "card (insert j (set xs) - {k}) \<le> card (set xs \<union> set (j # js) - {k})"
      by (intro card_mono) auto
    with touch_other [OF Cons.prems(1) False] Cons.prems(3) obtain zs
      where t: "lru_touch n j (xs @ k # ys) = (j # filter (\<lambda>x. x \<noteq> j) xs) @ k # zs" by force
    have "set (j # filter (\<lambda>x. x \<noteq> j) xs) \<union> set js - {k} = set xs \<union> set (j # js) - {k}" by auto
    with Cons.IH [of "j # filter (\<lambda>x. x \<noteq> j) xs" zs] Cons.prems(3) t
      distinct_touch [OF Cons.prems(1), of n j] length_touch [of n j "xs @ k # ys"]
    show ?thesis by simp
  qed
qed

section \<open>What the store promises\<close>

context lru_cache
begin

text \<open>The cache of a store is a duplicate-free recency list within its capacity.\<close>

lemma AddFinding_cases:
  assumes "ms_dedupe s = Some c" "distinct (keys c)" "length (keys c) \<le> cap c"
    and "AddFinding ops s (Some f) = Some (added, s')"
  shows "\<exists>c'. ms_dedupe s' = Some c' \<and> cap c' = cap c \<and> (added \<longleftrightarrow> createDedupeKey f \<notin> set (keys c))
           \<and> keys c' = lru_touch (cap c) (createDedupeKey f) (keys c)"
proof (cases "createDedupeKey f \<in> set (keys c)")
  case True
  with assms(4) get_hit [of c "createDedupeKey f"]
  have "s' = s\<lparr>ms_dedupe := Some (snd (lru_get ops c (createDedupeKey f)))\<rparr>" "\<not> added"
    by (auto simp: AddFinding_def assms(1) Let_def split: prod.splits)
  moreover have "keys (snd (lru_get ops c (createDedupeKey f))) = lru_touch (cap c) (createDedupeKey f) (keys c)"
    using True assms(3) promote_hit [OF assms(2) True] by (simp add: get_keys lru_touch_def)
  ultimately show ?thesis using True by (simp add: get_cap)
next
  case False
  with assms(4) get_hit [of c "createDedupeKey f"]
  have "ms_dedupe s' = Some (lru_add ops (snd (lru_get ops c (createDedupeKey f))) (createDedupeKey f))" "added"
    by (auto simp: AddFinding_def assms(1) Let_def split: prod.splits list.splits)
  then show ?thesis using False by (simp add: add_cap add_keys get_cap get_keys lru_touch_def)
qed

lemma add_run_keys:
  assumes "ms_dedupe s = Some c" "distinct (keys c)" "length (keys c) \<le> cap c"
    and "add_run ops s fs = Some (acc, s')"
  shows "\<exists>c'. ms_dedupe s' = Some c' \<and> cap c' = cap c \<and> distinct (keys c') \<and> length (keys c') \<le> cap c'
           \<and> keys c' = fold (lru_touch (cap c)) (map createDedupeKey fs) (keys c)"
  using assms
proof (induction fs arbitrary: s c acc)
  case Nil
  then show ?case by auto
next
  case (Cons f fs)
  from Cons.prems(4) obtain added s1 acc1 where
    1: "AddFinding ops s (Some f) = Some (added, s1)" and 2: "add_run ops s1 fs = Some (acc1, s')"
    by (auto split: option.splits prod.splits)
  from AddFinding_cases [OF Cons.prems(1-3) 1] obtain c1 where
    "ms_dedupe s1 = Some c1" "cap c1 = cap c" "keys c1 = lru_touch (cap c) (createDedupeKey f) (keys c)"
    by blast
  with Cons.IH [of s1 c1, OF _ _ _ 2] distinct_touch [OF Cons.prems(2)] length_touch
  show ?case by (simp add: length_touch)
qed

lemma add_run_ring:
  assumes "add_run ops s fs = Some (acc, s')" "ring_holds n (ms_findings s) (drop (length acc0 - n) acc0)"
  shows "ring_holds n (ms_findings s') (drop (length (acc0 @ acc) - n) (acc0 @ acc))"
  using assms
proof (induction fs arbitrary: s acc acc0)
  case Nil
  then show ?case by simp
next
  case (Cons f fs)
  from Cons.prems(1) obtain added s1 acc1 where
    1: "AddFinding ops s (Some f) = Some (added, s1)" and 2: "add_run ops s1 fs = Some (acc1, s')"
    and acc: "acc = (if added then f # acc1 else acc1)"
    by (auto split: option.splits prod.splits)
  show ?case
  proof (cases added)
    case True
    with 1 obtain v rest where r: "ms_findings s = v # rest" "ms_findings s1 = rest @ [Some f]"
      by (auto simp: AddFinding_def Let_def split: option.splits prod.splits if_splits list.splits)
    from Cons.IH [OF 2, of "acc0 @ [f]"] ring_holds_push [of n v rest acc0 f] Cons.prems(2) r True acc
    show ?thesis by simp
  next
    case False
    with 1 have "ms_findings s1 = ms_findings s"
      by (auto simp: AddFinding_def Let_def split: option.splits prod.splits if_splits list.splits)
    with Cons.IH [OF 2] Cons.prems(2) False acc show ?thesis by simp
  qed
qed

lemma AddFinding_total:
  assumes "ms_dedupe s \<noteq> None" "ms_findings s \<noteq> []"
  shows "\<exists>added s'. AddFinding ops s (Some f) = Some (added, s') \<and> ms_dedupe s' \<noteq> None \<and> ms_findings s' \<noteq> []"
  using assms
  by (cases "ms_findings s") (auto simp: AddFinding_def Let_def split: option.splits prod.splits)

lemma add_run_total:
  assumes "ms_dedupe s \<noteq> None" "ms_findings s \<noteq> []"
  shows "\<exists>acc s'. add_run ops s fs = Some (acc, s')"
  using assms
proof (induction fs arbitrary: s)
  case Nil
  then show ?case by simp
next
  case (Cons f fs)
  from AddFinding_total [OF Cons.prems, of f] obtain added s1 where
    "AddFinding ops s (Some f) = Some (added, s1)" "ms_dedupe s1 \<noteq> None" "ms_findings s1 \<noteq> []" by blast
  with Cons.IH [of s1] show ?case by force
qed

lemma new_store:
  assumes "0 < maxFindings" "0 < dedupeCap"
  shows "\<exists>c. ms_dedupe (NewMemoryStore ops maxFindings dedupeCap) = Some c \<and> keys c = []
           \<and> cap c = nat dedupeCap"
    and "ring_holds (nat maxFindings) (ms_findings (NewMemoryStore ops maxFindings dedupeCap)) []"
    and "ms_findings (NewMemoryStore ops maxFindings dedupeCap) \<noteq> []"
  using assms new_fails [of dedupeCap] new_keys [of dedupeCap]
  by (auto simp: NewMemoryStore_def ring_holds_def)

lemma keeps_last:
  assumes "0 < maxFindings" "0 < dedupeCap"
  shows "\<exists>acc s. add_run ops (NewMemoryStore ops maxFindings dedupeCap) fs = Some (acc, s)
           \<and> GetFindings s = drop (length acc - nat maxFindings) acc"
proof -
  let ?s = "NewMemoryStore ops maxFindings dedupeCap"
  obtain acc s where run: "add_run ops ?s fs = Some (acc, s)"
    using add_run_total [of ?s fs] new_store [OF assms] by auto
  have "ring_holds (nat maxFindings) (ms_findings s) (drop (length acc - nat maxFindings) acc)"
    using add_run_ring [OF run, of "nat maxFindings" "[]"] new_store(2) [OF assms] by simp
  then have "GetFindings s = drop (length acc - nat maxFindings) acc"
    unfolding GetFindings_def by (rule ring_holds_GetFindings)
  with run show ?thesis by blast
qed

lemma duplicate_rejected:
  assumes "0 < maxFindings" "0 < dedupeCap"
    and run: "add_run ops (NewMemoryStore ops maxFindings dedupeCap) (fs @ f # gs) = Some (acc, s)"
    and same: "createDedupeKey g = createDedupeKey f"
    and few: "card (createDedupeKey ` set gs - {createDedupeKey f}) < nat dedupeCap"
  shows "\<exists>s'. AddFinding ops s (Some g) = Some (False, s')"
proof -
  let ?s = "NewMemoryStore ops maxFindings dedupeCap" and ?k = "createDedupeKey f"
  obtain c where c: "ms_dedupe ?s = Some c" "keys c = []" "cap c = nat dedupeCap"
    using new_store(1) [OF assms(1,2)] by blast
  let ?ks = "fold (lru_touch (cap c)) (map createDedupeKey fs) []"
  obtain c' where c': "ms_dedupe s = Some c'"
    "keys c' = fold (lru_touch (cap c)) (map createDedupeKey gs) (lru_touch (cap c) ?k ?ks)"
    using add_run_keys [OF c(1) _ _ run] c(2) by auto
  have d: "distinct (fold (lru_touch n) js ks)" if "distinct ks" for n js ks
    using that by (induction js arbitrary: ks) (auto simp: distinct_touch)
  obtain ys where ys: "lru_touch (cap c) ?k ?ks = [] @ ?k # ys"
    using assms(2) c(3) that by (auto simp: lru_touch_def promote_def take_Cons')
  have "distinct ([] @ ?k # ys)" "length ([] @ ?k # ys) \<le> cap c"
    using distinct_touch [OF d, of "[]"] length_touch [of "cap c" ?k ?ks] ys by (metis distinct.simps(1), metis)
  from touch_keeps [OF this, of "map createDedupeKey gs"] few c(3) c'(2) ys
  have "createDedupeKey g \<in> set (keys c')" by (simp add: same)
  with get_hit [of c' "createDedupeKey g"] c'(1) show ?thesis
    by (auto simp: AddFinding_def Let_def split: prod.splits)
qed

end

text \<open>
  With positive capacities the store never panics, and whatever findings are offered it holds
  exactly the last \<open>maxFindings\<close> of those it accepted, oldest first.
\<close>

lemma store_keeps_last:
  assumes "lru_cache ops keys cap" "0 < maxFindings" "0 < dedupeCap"
  shows "\<exists>acc s. add_run ops (NewMemoryStore ops maxFindings dedupeCap) fs = Some (acc, s)
           \<and> GetFindings s = drop (length acc - nat maxFindings) acc"
  by (rule lru_cache.keeps_last [OF assms])

text \<open>
  A finding is rejected as a duplicate whenever one with the same host, rule and severity was
  offered before and fewer than \<open>dedupeCap\<close> other keys were offered in between.
\<close>

lemma store_rejects_duplicate:
  assumes "lru_cache ops keys cap" "0 < maxFindings" "0 < dedupeCap"
    and "add_run ops (NewMemoryStore ops maxFindings dedupeCap) (fs @ f # gs) = Some (acc, s)"
    and "createDedupeKey g = createDedupeKey f"
    and "card (createDedupeKey ` set gs - {createDedupeKey f}) < nat dedupeCap"
  shows "\<exists>s'. AddFinding ops s (Some g) = Some (False, s')"
  by (rule lru_cache.duplicate_rejected [OF assms])

section \<open>A cache that satisfies the contract\<close>

definition list_lru :: "(nat \<times> string list) lru_ops" where
  "list_lru =
     \<lparr>lru_new = (\<lambda>n. if n \<le> 0 then None else Some (nat n, [])),
      lru_get = (\<lambda>(n, ks) k. if k \<in> set ks then (True, (n, promote k ks)) else (False, (n, ks))),
      lru_add = (\<lambda>(n, ks) k. (n, take n (promote k ks))),
      lru_purge = (\<lambda>(n, ks). (n, [])),
      lru_len = (\<lambda>(n, ks). length ks)\<rparr>"

interpretation list_lru: lru_cache list_lru snd fst
  by unfold_locales (auto simp: list_lru_def split: if_splits)

lemma clear_ring_replicate:
  "n \<le> length r \<Longrightarrow> clear_ring n r = drop n r @ replicate n None"
proof (induction n arbitrary: r)
  case 0
  then show ?case by simp
next
  case (Suc n)
  then have "clear_ring (Suc n) r = drop n (tl r @ [None]) @ replicate n None" by simp
  also have "\<dots> = drop (Suc n) r @ None # replicate n None" using Suc.prems by (simp add: drop_Suc)
  finally show ?case by simp
qed

text \<open>Clearing empties the ring and keeps its capacity.\<close>

lemma ClearFindings_empty:
  "ClearFindings ops s = Some s' \<Longrightarrow>
     GetFindings s' = [] \<and> length (ms_findings s') = length (ms_findings s)"
  by (auto simp: ClearFindings_def GetFindings_def clear_ring_replicate split: option.splits)

section \<open>Examples\<close>

definition ex_finding :: "string \<Rightarrow> finding" where
  "ex_finding host = \<lparr>fd_ID = ''f'', fd_Severity = ''high'', fd_Confidence = Fin 1, fd_Status = ''open'',
                      fd_HostID = host, fd_CVE = '''', fd_Evidence = [], fd_Timestamp = 0,
                      fd_RuleID = ''r'', fd_TTLSeconds = 60\<rparr>"

lemma store_keeps_last_witness:
  "\<exists>acc s. add_run list_lru (NewMemoryStore list_lru 2 5) (map ex_finding [''a'', ''b'', ''a'', ''c'']) = Some (acc, s)
     \<and> acc = map ex_finding [''a'', ''b'', ''c''] \<and> GetFindings s = map ex_finding [''b'', ''c'']"
proof -
  let ?fs = "map ex_finding [''a'', ''b'', ''a'', ''c'']"
  have acc: "map_option fst (add_run list_lru (NewMemoryStore list_lru 2 5) ?fs)
      = Some (map ex_finding [''a'', ''b'', ''c''])" by code_simp
  from store_keeps_last [OF list_lru.lru_cache_axioms, of 2 5 ?fs] obtain acc s where
    run: "add_run list_lru (NewMemoryStore list_lru 2 5) ?fs = Some (acc, s)"
    and get: "GetFindings s = drop (length acc - nat 2) acc" by auto
  from acc run have "acc = map ex_finding [''a'', ''b'', ''c'']" by (simp only: option.map fst_conv option.inject)
  with run get show ?thesis by simp
qed

lemma store_rejects_duplicate_witness:
  "\<exists>acc s s'. add_run list_lru (NewMemoryStore list_lru 2 2) [ex_finding ''b'', ex_finding ''a'', ex_finding ''c'']
       = Some (acc, s) \<and> AddFinding list_lru s (Some (ex_finding ''a'')) = Some (False, s')"
proof -
  let ?fs = "[ex_finding ''b''] @ ex_finding ''a'' # [ex_finding ''c'']"
  obtain acc s where run: "add_run list_lru (NewMemoryStore list_lru 2 2) ?fs = Some (acc, s)"
    using list_lru.keeps_last [of 2 2 ?fs] by auto
  have "card (createDedupeKey ` set [ex_finding ''c''] - {createDedupeKey (ex_finding ''a'')}) < nat 2"
    by (simp add: createDedupeKey_def ex_finding_def)
  from store_rejects_duplicate [OF list_lru.lru_cache_axioms _ _ run refl this] run show ?thesis by auto
qed

end
