(* ===== verification/Corr_Loader.thy ===== *)
theory Corr_Loader
  imports Corr_Model
begin

text \<open>
  \<open>internal/rules/loader.go\<close>: building a snapshot of the rules from the rule directory. The file
  system and the YAML decoder (\<open>gopkg.in/yaml.v3\<close>) are the arguments of \<open>rule_source\<close>: the
  regular files a walk of the directory visits (\<^term>\<open>None\<close> when the walk fails), a file's
  contents, and the decoder into one rule and into a slice of rules. Each subscriber channel,
  which holds at most one notification, is the flag saying whether it is full.
\<close>

record rule_source =
  src_walk :: "string list option"
  src_read :: "string \<Rightarrow> string option"
  src_yaml_rule :: "string \<Rightarrow> rule option"
  src_yaml_rules :: "string \<Rightarrow> rule list option"

record loader =
  ld_rulesDir :: string
  ld_hotReload :: bool
  ld_snapshot :: "rule_snapshot option"
  ld_watchers :: "bool list"
  ld_debounceMs :: int

datatype load_error = WalkFailed | ReadFailed | YAMLFailed | JSONNotImplemented | UnsupportedExtension string

definition NewLoader :: "string \<Rightarrow> bool \<Rightarrow> int \<Rightarrow> loader" where
  "NewLoader rulesDir hotReload debounceMs =
     \<lparr>ld_rulesDir = rulesDir, ld_hotReload = hotReload, ld_snapshot = None, ld_watchers = [],
      ld_debounceMs = debounceMs\<rparr>"

text \<open>\<open>filepath.Ext\<close>: the suffix from the last dot of the last path element, dot included.\<close>

fun ext_rev :: "string \<Rightarrow> string \<Rightarrow> string" where
  "ext_rev acc [] = []"
| "ext_rev acc (c # cs) =
     (if c = CHR ''/'' then [] else if c = CHR ''.'' then c # acc else ext_rev (c # acc) cs)"

definition file_ext :: "string \<Rightarrow> string" where
  "file_ext path = ext_rev [] (rev path)"

definition is_rule_file :: "string \<Rightarrow> bool" where
  "is_rule_file path = (to_lower (file_ext path) \<in> {''.yaml'', ''.yml'', ''.json''})"

definition readRuleFiles :: "rule_source \<Rightarrow> string list option" where
  "readRuleFiles src =
     map_option (\<lambda>files. sort (filter is_rule_file files))
       (src_walk src)"

definition loadRulesFromFile :: "rule_source \<Rightarrow> string \<Rightarrow> load_error + rule list" where
  "loadRulesFromFile src filename =
     (case src_read src filename of
        None \<Rightarrow> Inl ReadFailed
      | Some data \<Rightarrow>
          let ext = to_lower (file_ext filename) in
          if ext = ''.yaml'' \<or> ext = ''.yml'' then
            (case src_yaml_rule src data of
               Some r \<Rightarrow> if md_ID (ru_Metadata r) \<noteq> '''' then Inr [r]
                         else (case src_yaml_rules src data of Some rs \<Rightarrow> Inr rs | None \<Rightarrow> Inl YAMLFailed)
             | None \<Rightarrow> (case src_yaml_rules src data of Some rs \<Rightarrow> Inr rs | None \<Rightarrow> Inl YAMLFailed))
          else if ext = ''.json'' then Inl JSONNotImplemented
          else Inl (UnsupportedExtension ext))"

text \<open>The inner loop of \<open>LoadSnapshot\<close>: skip disabled and invalid rules, else the rule replaces
  whatever the table holds under its identifier.\<close>

definition add_rule :: "string \<Rightarrow> rule \<Rightarrow> (string, rule) gomap \<Rightarrow> (string, rule) gomap" where
  "add_rule file r ruleMap =
     (if \<not> Rule_IsEnabled r then ruleMap
      else case Rule_Validate r of
        Some _ \<Rightarrow> ruleMap
      | None \<Rightarrow> map_set (md_ID (ru_Metadata r)) (r\<lparr>ru_SourceFile := file\<rparr>) ruleMap)"

definition add_file :: "rule_source \<Rightarrow> string \<Rightarrow> (string, rule) gomap \<Rightarrow> (string, rule) gomap" where
  "add_file src file ruleMap =
     (case loadRulesFromFile src file of
        Inl _ \<Rightarrow> ruleMap
      | Inr rules \<Rightarrow> fold (add_rule file) rules ruleMap)"

definition notifyWatchers :: "loader \<Rightarrow> loader" where
  "notifyWatchers l = l\<lparr>ld_watchers := map (\<lambda>_. True) (ld_watchers l)\<rparr>"

definition LoadSnapshot :: "rule_source \<Rightarrow> loader \<Rightarrow> time \<Rightarrow> (load_error + rule_snapshot) \<times> loader" where
  "LoadSnapshot src l now =
     (case readRuleFiles src of
        None \<Rightarrow> (Inl WalkFailed, l)
      | Some ruleFiles \<Rightarrow>
          let ruleMap = fold (add_file src) ruleFiles [];
              allRules = sort_key (\<lambda>r. md_ID (ru_Metadata r)) (map_values ruleMap);
              snapshot = \<lparr>sn_Rules = allRules, sn_Version = now\<rparr>
          in (Inr snapshot, notifyWatchers (l\<lparr>ld_snapshot := Some snapshot\<rparr>)))"

definition GetSnapshot :: "loader \<Rightarrow> rule_snapshot" where
  "GetSnapshot l =
     (case ld_snapshot l of
        None \<Rightarrow> \<lparr>sn_Rules = [], sn_Version = 0\<rparr>
      | Some s \<Rightarrow> \<lparr>sn_Rules = sn_Rules s, sn_Version = sn_Version s\<rparr>)"

text \<open>A new subscriber's channel is filled at once.\<close>

definition Subscribe :: "loader \<Rightarrow> loader" where
  "Subscribe l = l\<lparr>ld_watchers := ld_watchers l @ [True]\<rparr>"

text \<open>
  One tick of the polling watcher: the walk over the directory (a file with its modification
  time, or an error, which ends the walk) updates the latest modification time seen; a change is
  signalled on the reload channel of capacity one unless the walk failed.
\<close>

datatype walk_item = WalkFile string time | WalkError

fun watch_scan :: "walk_item list \<Rightarrow> time \<Rightarrow> bool \<Rightarrow> time \<times> bool \<times> bool" where
  "watch_scan [] lastMod changed = (lastMod, changed, True)"
| "watch_scan (WalkError # _) lastMod changed = (lastMod, changed, False)"
| "watch_scan (WalkFile path t # items) lastMod changed =
     (if is_rule_file path \<and> lastMod < t
      then watch_scan items t True else watch_scan items lastMod changed)"

definition watch_tick :: "walk_item list \<Rightarrow> time \<Rightarrow> bool \<Rightarrow> time \<times> bool" where
  "watch_tick items lastMod reloadFull =
     (case watch_scan items lastMod False of (lastMod', changed, walked) \<Rightarrow>
        (lastMod', if walked \<and> changed then True else reloadFull))"

lemma watch_scan_change:
  "watch_scan items lastMod changed = (lastMod', changed', True) \<Longrightarrow>
     lastMod \<le> lastMod' \<and> (changed' \<longleftrightarrow> changed \<or> (\<exists>p t. WalkFile p t \<in> set items \<and> lastMod < t
        \<and> is_rule_file p))"
proof (induction items lastMod changed rule: watch_scan.induct)
  case (3 path t items lastMod changed)
  show ?case
  proof (cases "is_rule_file path \<and> lastMod < t")
    case True
    with 3 show ?thesis by auto
  next
    case False
    have "(\<exists>p u. WalkFile p u \<in> set (WalkFile path t # items) \<and> lastMod < u \<and> is_rule_file p) \<longleftrightarrow>
        (\<exists>p u. WalkFile p u \<in> set items \<and> lastMod < u \<and> is_rule_file p)"
      using False by auto
    with 3 False show ?thesis by simp
  qed
qed auto

section \<open>Well-formed snapshots\<close>

definition rule_table_ok :: "(string, rule) gomap \<Rightarrow> bool" where
  "rule_table_ok m \<longleftrightarrow>
     map_ok m \<and> (\<forall>(k, r) \<in> set m. md_ID (ru_Metadata r) = k \<and> Rule_IsEnabled r \<and> Rule_Validate r = None)"

lemma Rule_source_frame [simp]:
  "Rule_Validate (r\<lparr>ru_SourceFile := f\<rparr>) = Rule_Validate r"
  "Rule_IsEnabled (r\<lparr>ru_SourceFile := f\<rparr>) = Rule_IsEnabled r"
  by (simp_all add: Rule_Validate_def Rule_IsEnabled_def Let_def)

lemma rule_table_ok_add_rule: "rule_table_ok m \<Longrightarrow> rule_table_ok (add_rule f r m)"
  by (auto simp: rule_table_ok_def add_rule_def set_map_set split: option.splits)

lemma rule_table_ok_fold_rules: "rule_table_ok m \<Longrightarrow> rule_table_ok (fold (add_rule f) rs m)"
  by (induction rs arbitrary: m) (auto intro: rule_table_ok_add_rule)

lemma rule_table_ok_add_file: "rule_table_ok m \<Longrightarrow> rule_table_ok (add_file src f m)"
  by (auto simp: add_file_def rule_table_ok_fold_rules split: sum.splits)

lemma rule_table_ok_fold_files: "rule_table_ok m \<Longrightarrow> rule_table_ok (fold (add_file src) fs m)"
  by (induction fs arbitrary: m) (auto intro: rule_table_ok_add_file)

definition snapshot_ok :: "rule_snapshot \<Rightarrow> bool" where
  "snapshot_ok s \<longleftrightarrow>
     sorted (map (\<lambda>r. md_ID (ru_Metadata r)) (sn_Rules s))
     \<and> distinct (map (\<lambda>r. md_ID (ru_Metadata r)) (sn_Rules s))
     \<and> (\<forall>r \<in> set (sn_Rules s). Rule_IsEnabled r \<and> Rule_Validate r = None)"

lemma rule_table_ids:
  assumes "rule_table_ok m"
  shows "map (\<lambda>r. md_ID (ru_Metadata r)) (map_values m) = map fst m"
  using assms by (auto simp: rule_table_ok_def comp_def split_def)

lemma snapshot_of_table:
  assumes "rule_table_ok m"
  shows "snapshot_ok \<lparr>sn_Rules = sort_key (\<lambda>r. md_ID (ru_Metadata r)) (map_values m), sn_Version = v\<rparr>"
proof -
  let ?id = "\<lambda>r. md_ID (ru_Metadata r)"
  have "mset (map ?id (sort_key ?id (map_values m))) = mset (map fst m)"
    using rule_table_ids [OF assms] by (metis mset_map mset_sort)
  then have "distinct (map ?id (sort_key ?id (map_values m)))"
    using assms by (metis mset_eq_imp_distinct_iff rule_table_ok_def)
  moreover have "\<forall>r \<in> set (map_values m). Rule_IsEnabled r \<and> Rule_Validate r = None"
    using assms by (auto simp: rule_table_ok_def)
  ultimately show ?thesis by (simp add: snapshot_ok_def)
qed

text \<open>
  Every snapshot \<open>LoadSnapshot\<close> returns is sorted by rule identifier, has one rule per
  identifier, holds only enabled rules that pass validation, and is what \<open>GetSnapshot\<close> answers
  from then on.
\<close>

lemma LoadSnapshot_ok:
  assumes "LoadSnapshot src l now = (Inr s, l')"
  shows "snapshot_ok s \<and> GetSnapshot l' = s \<and> sn_Version s = now"
proof -
  have "rule_table_ok []" by (simp add: rule_table_ok_def)
  then have "snapshot_ok s"
    using assms by (auto simp: LoadSnapshot_def Let_def split: option.splits
        intro!: snapshot_of_table rule_table_ok_fold_files)
  with assms show ?thesis
    by (auto simp: LoadSnapshot_def Let_def GetSnapshot_def notifyWatchers_def split: option.splits)
qed

end
