(* ===== verification/Corr_Enhanced.thy ===== *)
theory Corr_Enhanced
  imports Corr_Forward Corr_Store Corr_Loader
begin

text \<open>
  \<open>nats/subscriber_enhanced.go\<close>: the subscriber that turns the records of the enrichment service into
  findings, stores and publishes them and passes them to the decision integration. A message is its
  decoded object, \<^term>\<open>None\<close> when decoding failed. The result \<^term>\<open>None\<close> of an operation is a
  panic, which ends the process: a comparison of two values of one type that Go cannot compare, or a
  nil dereference in the store.
\<close>

section \<open>Matching\<close>

fun f_eq :: "float64 \<Rightarrow> float64 \<Rightarrow> bool" where
  "f_eq (Fin a) (Fin b) = (a = b)"
| "f_eq PosInf PosInf = True"
| "f_eq NegInf NegInf = True"
| "f_eq _ _ = False"

text \<open>
  Equality of two \<open>interface{}\<close> values, one from a rule and one from a decoded message. Values of
  different dynamic types differ, also an integer and a float64; comparing two slices or two maps
  panics.
\<close>

fun iface_equal :: "condition_value \<Rightarrow> gval \<Rightarrow> bool option" where
  "iface_equal (Generic VNil) VNil = Some True"
| "iface_equal (Generic (VBool a)) (VBool b) = Some (a = b)"
| "iface_equal (Generic (VNum a)) (VNum b) = Some (f_eq a b)"
| "iface_equal (Generic (VStr a)) (VStr b) = Some (a = b)"
| "iface_equal (Generic (VArr a)) (VArr b) = None"
| "iface_equal (Generic (VObj a)) (VObj b) = None"
| "iface_equal _ _ = Some False"

text \<open>\<open>checkConditions\<close>; the model's \<open>when\<close> map is never nil, and a nil map has no conditions either.\<close>

fun checkConditions :: "(string \<times> condition_value) list \<Rightarrow> (string, gval) gomap \<Rightarrow> bool option" where
  "checkConditions [] ev = Some True"
| "checkConditions ((key, expected) # cs) ev =
     (case map_get ev key of
        None \<Rightarrow> Some False
      | Some actual \<Rightarrow>
          (case iface_equal expected actual of
             None \<Rightarrow> None
           | Some False \<Rightarrow> Some False
           | Some True \<Rightarrow> checkConditions cs ev))"

definition hostMatches :: "selector \<Rightarrow> (string, gval) gomap \<Rightarrow> bool" where
  "hostMatches sel ev =
     (case str_field ev ''host_id'' of
        None \<Rightarrow> False
      | Some hostID \<Rightarrow>
          if sel_HostIDs sel \<noteq> [] \<and> \<not> list_ex (\<lambda>i. i = hostID) (sel_HostIDs sel) then False
          else if list_ex (\<lambda>i. i = hostID) (sel_ExcludeHostIDs sel) then False
          else True)"

definition cond_str :: "(string, condition_value) gomap \<Rightarrow> string \<Rightarrow> string option" where
  "cond_str m k = (case map_get m k of Some (Generic (VStr s)) \<Rightarrow> Some s | _ \<Rightarrow> None)"

definition differ :: "string option \<Rightarrow> string option \<Rightarrow> bool" where
  "differ a b = (case (a, b) of (Some x, Some y) \<Rightarrow> x \<noteq> y | _ \<Rightarrow> False)"

definition ruleMatchesEnriched :: "rule \<Rightarrow> (string, gval) gomap \<Rightarrow> bool option" where
  "ruleMatchesEnriched r ev =
     (let when = cond_When (sp_Condition (ru_Spec r)) in
      if \<not> hostMatches (sp_Selectors (ru_Spec r)) ev then Some False
      else if differ (cond_str when ''event_type'') (str_field ev ''type'') then Some False
      else checkConditions when ev)"

definition ruleMatchesPackageCVE :: "rule \<Rightarrow> (string, gval) gomap \<Rightarrow> bool option" where
  "ruleMatchesPackageCVE r ev =
     (let when = cond_When (sp_Condition (ru_Spec r)) in
      if \<not> hostMatches (sp_Selectors (ru_Spec r)) ev then Some False
      else if differ (cond_str when ''record_type'') (str_field ev ''record_type'') then Some False
      else (case map_get ev ''enrichment'' of
              Some (VObj enrichment) \<Rightarrow> checkConditions when enrichment
            | _ \<Rightarrow> Some True))"

section \<open>The store's form of a finding\<close>

definition toStoreFinding :: "pipe_env \<Rightarrow> time \<Rightarrow> rules_finding \<Rightarrow> finding" where
  "toStoreFinding pv now f =
     (let timestamp = (case pv_parse pv (rf_TS f) of None \<Rightarrow> now | Some t \<Rightarrow> t)
      in \<lparr>fd_ID = rf_ID f, fd_Severity = rf_Severity f, fd_Confidence = rf_Confidence f,
          fd_Status = ''open'', fd_HostID = rf_HostID f, fd_CVE = '''',
          fd_Evidence =
            map (\<lambda>(key, v). \<lparr>evd_Type = key, evd_Description = key, evd_Data = [(''value'', EvValue v)],
                             evd_Timestamp = timestamp\<rparr>) (rf_Evidence f),
          fd_Timestamp = timestamp, fd_RuleID = rf_RuleID f,
          fd_TTLSeconds = (case map_get (rf_Metadata f) ''ttl_seconds'' of Some (DynInt n) \<Rightarrow> n | _ \<Rightarrow> 0)\<rparr>)"

section \<open>The subscriber\<close>

text \<open>
  The environment of one message: the formats, the NATS library, the cache library of the store, and
  the fresh identifiers of the finding that a rule (by its identifier) generates.
\<close>

record 'c sub_env =
  se_pipe :: pipe_env
  se_nats :: nats_lib
  se_lru :: "'c lru_ops"
  se_gen :: "string \<Rightarrow> gen_env"

record 'c enhanced_subscriber =
  es_store :: "'c memory_store"
  es_ruleLoader :: loader
  es_links :: decision_links
  es_nc :: nats_conn
  es_running :: bool
  es_subjects :: "string list"

definition NewEnhancedSubscriber ::
  "'c memory_store \<Rightarrow> loader \<Rightarrow> decision_links \<Rightarrow> nats_conn \<Rightarrow> 'c enhanced_subscriber" where
  "NewEnhancedSubscriber store ruleLoader links nc =
     \<lparr>es_store = store, es_ruleLoader = ruleLoader, es_links = links, es_nc = nc, es_running = False,
      es_subjects = []\<rparr>"

text \<open>Start subscribes in turn and ends at the first error; \<open>subscribes\<close> is the library's answer.\<close>

fun subscribe_all :: "(string \<Rightarrow> bool) \<Rightarrow> string list \<Rightarrow> string list \<Rightarrow> bool \<times> string list" where
  "subscribe_all ok [] done = (True, done)"
| "subscribe_all ok (s # ss) done = (if ok s then subscribe_all ok ss (done @ [s]) else (False, done))"

definition ES_Start :: "(string \<Rightarrow> bool) \<Rightarrow> 'c enhanced_subscriber \<Rightarrow> bool \<times> 'c enhanced_subscriber" where
  "ES_Start subscribes s =
     (case subscribe_all subscribes [''etl.enriched'', ''etl.enriched'', ''feeds.cve.updates'', ''feeds.pkg.cve''] [] of
        (ok, subs) \<Rightarrow> (ok, s\<lparr>es_running := True, es_subjects := subs\<rparr>))"

definition ES_Stop :: "'c enhanced_subscriber \<Rightarrow> 'c enhanced_subscriber" where
  "ES_Stop s = s\<lparr>es_running := False\<rparr>"

text \<open>What happens with a generated finding: the store, the publication, the decision integration.\<close>

definition deliver_finding ::
  "'c sub_env \<Rightarrow> time \<Rightarrow> rules_finding \<Rightarrow> 'c enhanced_subscriber \<Rightarrow> 'c enhanced_subscriber option" where
  "deliver_finding se now f s =
     (case AddFinding (se_lru se) (es_store s) (Some (toStoreFinding (se_pipe se) now f)) of
        None \<Rightarrow> None
      | Some (added, store') \<Rightarrow>
          (case PublishFinding (se_nats se) f (es_nc s) of
             (Some e, c1) \<Rightarrow> Some (s\<lparr>es_store := store', es_nc := c1\<rparr>)
           | (None, c1) \<Rightarrow>
               (case ProcessFinding (se_pipe se) (se_nats se) now f (es_links s, c1) of
                  (err, links', c2) \<Rightarrow>
                    Some (s\<lparr>es_store := store', es_links := links', es_nc := c2\<rparr>))))"

text \<open>The body of the loops over the rules, with the match and the generator of the handler.\<close>

definition apply_rule ::
  "'c sub_env \<Rightarrow> time \<Rightarrow> (rule \<Rightarrow> bool option) \<Rightarrow> (rule \<Rightarrow> go_error + rules_finding)
    \<Rightarrow> rule \<Rightarrow> 'c enhanced_subscriber \<Rightarrow> 'c enhanced_subscriber option" where
  "apply_rule se now matches generate r s =
     (if \<not> Rule_IsEnabled r then Some s
      else (case matches r of
              None \<Rightarrow> None
            | Some False \<Rightarrow> Some s
            | Some True \<Rightarrow>
                (case generate r of
                   Inl e \<Rightarrow> Some s
                 | Inr f \<Rightarrow> deliver_finding se now f s)))"

fun apply_rules ::
  "'c sub_env \<Rightarrow> time \<Rightarrow> (rule \<Rightarrow> bool option) \<Rightarrow> (rule \<Rightarrow> go_error + rules_finding)
    \<Rightarrow> rule list \<Rightarrow> 'c enhanced_subscriber \<Rightarrow> 'c enhanced_subscriber option" where
  "apply_rules se now matches generate [] s = Some s"
| "apply_rules se now matches generate (r # rs) s =
     (case apply_rule se now matches generate r s of
        None \<Rightarrow> None
      | Some s' \<Rightarrow> apply_rules se now matches generate rs s')"

definition window_start :: "time \<Rightarrow> time" where
  "window_start now = time_add now (seconds (- 300))"

definition processEnrichedEvent ::
  "'c sub_env \<Rightarrow> time \<Rightarrow> (string, gval) gomap \<Rightarrow> 'c enhanced_subscriber \<Rightarrow> 'c enhanced_subscriber option" where
  "processEnrichedEvent se now ev s =
     (if str_field ev ''host_id'' = None then Some s
      else apply_rules se now (\<lambda>r. ruleMatchesEnriched r ev)
             (\<lambda>r. GenerateFindingFromEnrichedEvent (se_gen se (md_ID (ru_Metadata r))) now r ev
                    [''enriched-event''] (window_start now) now)
             (sn_Rules (GetSnapshot (es_ruleLoader s))) s)"

definition processPackageCVEEnriched ::
  "'c sub_env \<Rightarrow> time \<Rightarrow> (string, gval) gomap \<Rightarrow> 'c enhanced_subscriber \<Rightarrow> 'c enhanced_subscriber option" where
  "processPackageCVEEnriched se now ev s =
     (if str_field ev ''host_id'' = None then Some s
      else apply_rules se now (\<lambda>r. ruleMatchesPackageCVE r ev)
             (\<lambda>r. GenerateFindingFromPackageCVE (se_gen se (md_ID (ru_Metadata r))) now r ev
                    [''package-cve-enriched''] (window_start now) now)
             (sn_Rules (GetSnapshot (es_ruleLoader s))) s)"

definition handlePackageCVEEnriched ::
  "'c sub_env \<Rightarrow> time \<Rightarrow> (string, gval) gomap option \<Rightarrow> 'c enhanced_subscriber \<Rightarrow> 'c enhanced_subscriber option" where
  "handlePackageCVEEnriched se now msg s =
     (case msg of None \<Rightarrow> Some s | Some ev \<Rightarrow> processPackageCVEEnriched se now ev s)"

definition handleEnrichedEvent ::
  "'c sub_env \<Rightarrow> time \<Rightarrow> (string, gval) gomap option \<Rightarrow> 'c enhanced_subscriber \<Rightarrow> 'c enhanced_subscriber option" where
  "handleEnrichedEvent se now msg s =
     (case msg of
        None \<Rightarrow> Some s
      | Some ev \<Rightarrow>
          if str_field ev ''record_type'' = Some ''pkg_cve_enriched'' then handlePackageCVEEnriched se now msg s
          else processEnrichedEvent se now ev s)"

text \<open>The handlers of \<open>feeds.cve.updates\<close> and \<open>feeds.pkg.cve\<close> only log.\<close>

definition handleCVEUpdate ::
  "(string, gval) gomap option \<Rightarrow> 'c enhanced_subscriber \<Rightarrow> 'c enhanced_subscriber option" where
  "handleCVEUpdate msg s = Some s"

definition handlePackageCVEMapping ::
  "(string, gval) gomap option \<Rightarrow> 'c enhanced_subscriber \<Rightarrow> 'c enhanced_subscriber option" where
  "handlePackageCVEMapping msg s = Some s"

text \<open>
  A message on \<open>etl.enriched\<close> reaches both handlers, as \<open>Start\<close> subscribes each of them; \<open>se1\<close> and
  \<open>se2\<close> give the fresh identifiers of the two runs.
\<close>

definition deliver_enriched ::
  "'c sub_env \<Rightarrow> 'c sub_env \<Rightarrow> time \<Rightarrow> (string, gval) gomap option \<Rightarrow> 'c enhanced_subscriber \<Rightarrow> 'c enhanced_subscriber option" where
  "deliver_enriched se1 se2 now msg s =
     (case handleEnrichedEvent se1 now msg s of
        None \<Rightarrow> None
      | Some s' \<Rightarrow> handlePackageCVEEnriched se2 now msg s')"

end
