(* ===== verification/Corr_PipelineProperties.thy ===== *)
theory Corr_PipelineProperties
  imports Corr_Enhanced
begin

text \<open>
  What the enhanced pipeline guarantees and where it goes wrong: everything it sends is well formed
  and justified by a finding; exactly the matching rules publish; which records match whatever the
  conditions of a rule are, and what is lost between a record and the safeguard made from it.
\<close>

section \<open>Snapshots\<close>

definition snapshot_wf :: "map_snapshot_draft \<Rightarrow> bool" where
  "snapshot_wf d =
     (0 \<le> dr_ServiceID d \<and> dr_ServiceID d < 10000 \<and> dr_Edges d \<noteq> [] \<and> length (dr_Edges d) \<le> 50
      \<and> (\<forall>e \<in> set (dr_Edges d). ne_DstCIDR e \<noteq> '''' \<and> ne_Proto e \<noteq> '''' \<and> 0 \<le> ne_Port e \<and> ne_Port e \<le> 65535)
      \<and> 360 \<le> dr_TTLSeconds d \<and> dr_TTLSeconds d \<le> 21600
      \<and> \<not> f_less (dr_Confidence d) (Fin 0) \<and> \<not> f_greater (dr_Confidence d) (Fin 1))"

text \<open>Why a snapshot is refused.\<close>

definition snapshot_refused :: "rules_finding \<Rightarrow> network_info \<Rightarrow> bool" where
  "snapshot_refused f ni =
     ((ni_DestIP ni \<noteq> '''' \<and> ni_DestPort ni > 0 \<and> (ParseIP (ni_DestIP ni) = None \<or> ni_DestPort ni > 65535))
      \<or> snapshot_hash f ni = - (2 ^ 63))"

lemma take_max_edges: "length es \<le> 11 \<Longrightarrow> take maxEdgesPerSnapshot es = es"
  by (simp add: maxEdgesPerSnapshot_def)

text \<open>The edges: an invalid address is the only error, a port above the range the only invalid edge.\<close>

lemma created_edges:
  fixes f parse
  defines "ni \<equiv> extractNetworkInfo parse f"
  shows "(case createNetworkEdges f ni of
            Inl e \<Rightarrow> ni_DestIP ni \<noteq> '''' \<and> ni_DestPort ni > 0 \<and> ParseIP (ni_DestIP ni) = None
          | Inr es \<Rightarrow> \<not> (ni_DestIP ni \<noteq> '''' \<and> ni_DestPort ni > 0 \<and> ParseIP (ni_DestIP ni) = None)
              \<and> es \<noteq> [] \<and> length es \<le> 50
              \<and> (validate_edges 0 es = None \<longleftrightarrow>
                   \<not> (ni_DestIP ni \<noteq> '''' \<and> ni_DestPort ni > 0 \<and> ni_DestPort ni > 65535)))"
proof (cases "ni_DestIP ni \<noteq> '''' \<and> ni_DestPort ni > 0")
  case True
  then show ?thesis
    using extracted_proto [of parse f] target_cidr_not_empty [of "ni_DestIP ni"]
    by (simp add: createNetworkEdges_def maxEdgesPerSnapshot_def ni_def [symmetric])
next
  case False
  then show ?thesis
    using default_edges_ok [of f] take_max_edges [of "createDefaultEdges f"]
    by (auto simp: createNetworkEdges_def)
qed

lemma synthesize_cases:
  fixes f parse
  defines "ni \<equiv> extractNetworkInfo parse f"
  shows "(case SynthesizeMapSnapshot rfc parse now f of
            Inl e \<Rightarrow> snapshot_refused f ni
          | Inr d \<Rightarrow> \<not> snapshot_refused f ni \<and> snapshot_wf d)"
proof -
  note ttl = snapshot_ttl_range [of f]
  note id = generateServiceID_range [of f ni]
  have conf: "\<not> f_less (calculateConfidence f ni) (Fin 0)" "\<not> f_greater (calculateConfidence f ni) (Fin 1)"
    using calculateConfidence_unit [of f ni] unfolding f_in_unit_iff [symmetric] by auto
  have idok: "0 \<le> generateServiceID f ni \<longleftrightarrow> snapshot_hash f ni \<noteq> - (2 ^ 63)"
    using id by (auto split: if_splits)
  show ?thesis
  proof (cases "createNetworkEdges f ni")
    case (Inl e)
    with created_edges [where f = f and parse = parse] show ?thesis
      by (simp add: SynthesizeMapSnapshot_def Let_def ni_def [symmetric] snapshot_refused_def)
  next
    case (Inr es)
    define d where "d = \<lparr>dr_ServiceID = generateServiceID f ni, dr_Edges = es,
      dr_AllowCIDRs = createAllowCIDRs ni, dr_TTLSeconds = snapshot_ttl f,
      dr_Meta = createMetadata rfc now f ni, dr_Reason = generateReason f ni,
      dr_Confidence = calculateConfidence f ni\<rparr>"
    from created_edges [where f = f and parse = parse] Inr have es: "es \<noteq> []" "length es \<le> 50"
        "snapshot_refused f ni \<longleftrightarrow> validate_edges 0 es \<noteq> None \<or> snapshot_hash f ni = - (2 ^ 63)"
      by (auto simp: ni_def [symmetric] snapshot_refused_def)
    have valid: "validateMapSnapshotDraft d = None \<longleftrightarrow> \<not> snapshot_refused f ni"
      using ttl es idok by (auto simp: validateMapSnapshotDraft_def d_def not_less)
    have wf: "\<not> snapshot_refused f ni \<Longrightarrow> snapshot_wf d"
      using ttl id conf es by (auto simp: snapshot_wf_def d_def validate_edges_None_iff split: if_splits)
    have "SynthesizeMapSnapshot rfc parse now f =
        (case validateMapSnapshotDraft d of
           Some e \<Rightarrow> Inl (ErrWrap ''invalid MapSnapshot draft'' e) | None \<Rightarrow> Inr d)"
      by (simp add: SynthesizeMapSnapshot_def Let_def ni_def [symmetric] Inr d_def [symmetric])
    with valid wf show ?thesis by (auto split: option.splits)
  qed
qed

lemma synthesized_wf: "SynthesizeMapSnapshot rfc parse now f = Inr d \<Longrightarrow> snapshot_wf d"
  using synthesize_cases [where f = f and parse = parse and rfc = rfc and now = now] by simp

text \<open>
  A map snapshot is synthesized exactly unless the finding names a destination that is not an IP
  address or a port above 65535, or the hash of its host overflows to the least integer. A synthesized
  snapshot has a service identifier below 10000, between one and fifty edges with ports in range, a
  lifetime between six minutes and six hours and a confidence that is not outside of 0 to 1.
\<close>

lemma snapshot_bounds:
  "(case SynthesizeMapSnapshot rfc parse now f of
      Inl e \<Rightarrow> snapshot_refused f (extractNetworkInfo parse f)
    | Inr d \<Rightarrow> \<not> snapshot_refused f (extractNetworkInfo parse f) \<and> snapshot_wf d)"
  by (rule synthesize_cases)

section \<open>What is sent\<close>

text \<open>The two copies of the criteria agree.\<close>

lemma criteria_agree: "isNetworkRisk = FF_isNetworkRisk" "shouldProcess = shouldForward"
proof -
  show 1: "isNetworkRisk = FF_isNetworkRisk"
    by (rule ext) (simp only: isNetworkRisk_def FF_isNetworkRisk_def)
  show "shouldProcess = shouldForward"
    by (rule ext) (auto simp: shouldProcess_def shouldForward_def 1 processableTypes_def networkRuleTypes_def)
qed

lemma shouldForward_criteria:
  "shouldForward f \<Longrightarrow> rf_Severity f \<in> {''high'', ''critical''} \<and> \<not> f_less (rf_Confidence f) (Fin (7 / 10))"
  by (auto simp: shouldForward_def highSeverity_def split: if_splits)

lemma forward_priority:
  "shouldForward f \<Longrightarrow> - 1 \<le> finding_priority b f \<and> finding_priority b f \<le> 3"
  using shouldForward_criteria [of f]
  by (auto simp: finding_priority_def severity_priority_def Let_def)

lemma auto_approve_conservative: "shouldAutoApprove f \<Longrightarrow> determineStrategyMode f = ''conservative''"
  by (cases "rf_Confidence f") (auto simp: shouldAutoApprove_def determineStrategyMode_def f_greater_def)

definition finding_header_ok :: "nats_message \<Rightarrow> string \<Rightarrow> string \<Rightarrow> bool" where
  "finding_header_ok m findingID hostID =
     (map_get (nm_Header m) ''x-finding-id'' = Some findingID \<and> map_get (nm_Header m) ''x-host-id'' = Some hostID)"

definition wire_ok :: "nats_message \<Rightarrow> bool" where
  "wire_ok m =
     (payload_marshals (nm_Data m)
      \<and> (case nm_Data m of
           FindingMsg f \<Rightarrow> nm_Subject m = ''correlator.findings'' \<and> Finding_Validate f = None
             \<and> finding_header_ok m (rf_ID f) (rf_HostID f)
         | SafeguardMsg s \<Rightarrow> nm_Subject m = ''decision.adaptive_safeguards''
             \<and> sg_Severity s \<in> {''high'', ''critical''} \<and> \<not> f_less (sg_Confidence s) (Fin (7 / 10))
             \<and> - 1 \<le> sg_Priority s \<and> sg_Priority s \<le> 3
             \<and> finding_header_ok m (sg_FindingID s) (sg_HostID s)
         | SnapshotMsg ms \<Rightarrow> nm_Subject m = ''orchestrator.mapsnapshots'' \<and> snapshot_wf (mm_MapSnapshot ms)
             \<and> finding_header_ok m (mm_FindingID ms) (mm_HostID ms)
         | PlanMsg p \<Rightarrow> nm_Subject m = ''decision.plans''
             \<and> dp_Severity p \<in> {''high'', ''critical''} \<and> - 1 \<le> dp_Priority p \<and> dp_Priority p \<le> 3
             \<and> (dp_AutoApprove p \<longrightarrow> dp_StrategyMode p = ''conservative'')
             \<and> finding_header_ok m (dp_FindingID p) (dp_HostID p)))"

text \<open>Which host a message is about.\<close>

fun message_host :: "payload \<Rightarrow> string" where
  "message_host (FindingMsg f) = rf_HostID f"
| "message_host (SafeguardMsg s) = sg_HostID s"
| "message_host (SnapshotMsg m) = mm_HostID m"
| "message_host (PlanMsg p) = dp_HostID p"

definition wire_ok_for :: "string \<Rightarrow> nats_message \<Rightarrow> bool" where
  "wire_ok_for h m = (wire_ok m \<and> message_host (nm_Data m) = h)"

definition is_finding_msg :: "nats_message \<Rightarrow> bool" where
  "is_finding_msg m = (case nm_Data m of FindingMsg f \<Rightarrow> True | _ \<Rightarrow> False)"

text \<open>What the decision integration sends: well-formed messages about the host, no finding.\<close>

definition link_msg :: "string \<Rightarrow> nats_message \<Rightarrow> bool" where
  "link_msg h m = (wire_ok_for h m \<and> \<not> is_finding_msg m)"

lemma safeguard_wire_ok:
  assumes "shouldForward f" "payload_marshals (SafeguardMsg (createAdaptiveSafeguard pv now f))"
  shows "link_msg (rf_HostID f) (safeguard_message (createAdaptiveSafeguard pv now f))"
  using assms shouldForward_criteria [OF assms(1)] forward_priority [OF assms(1)]
  by (simp add: link_msg_def wire_ok_for_def wire_ok_def is_finding_msg_def safeguard_message_def
      finding_header_ok_def createAdaptiveSafeguard_def FF_calculatePriority_def)

lemma forward_sends:
  assumes "ForwardFinding pv nl now f (ff, c) = (r, ff', c')"
  shows "sends_only (link_msg (rf_HostID f)) c c'"
proof -
  obtain up c1 where up: "conn_available nl c = (up, c1)" by force
  have 1: "sends_only (link_msg (rf_HostID f)) c c1" by (rule conn_available_sends [OF up])
  show ?thesis
  proof (cases "up \<and> shouldForward f \<and> payload_marshals (SafeguardMsg (createAdaptiveSafeguard pv now f))")
    case True
    let ?m = "safeguard_message (createAdaptiveSafeguard pv now f)"
    obtain r2 c2 where p: "PublishMsg nl ?m c1 = (r2, c2)" by force
    have "sends_only (link_msg (rf_HostID f)) c1 c2"
      by (rule PublishMsg_sends [OF p]) (use True safeguard_wire_ok in blast)
    moreover have "c' = c2" using assms up True p
      by (auto simp: ForwardFinding_def forwardToDecisionEngine_def split: option.splits)
    ultimately show ?thesis using 1 sends_only_trans by blast
  next
    case False
    then have "c' = c1" using assms up
      by (auto simp: ForwardFinding_def forwardToDecisionEngine_def split: if_splits)
    with 1 show ?thesis by simp
  qed
qed

text \<open>A message that fails to marshal is not sent, so what is sent marshals.\<close>

lemma publish_payload_marshalled:
  "publish_payload nl m t u c = (r, c') \<Longrightarrow> (payload_marshals (nm_Data m) \<Longrightarrow> P m) \<Longrightarrow> sends_only P c c'"
  unfolding publish_payload_def
  by (auto split: prod.splits if_splits option.splits
      intro: conn_available_sends sends_only_trans [OF conn_available_sends PublishMsg_sends])

lemma snapshot_step_sends:
  assumes "snapshot_step pv nl now f (di, c) = (di', c')"
  shows "sends_only (link_msg (rf_HostID f)) c c'"
proof -
  have pub: "sends_only (link_msg (rf_HostID f)) c c2"
    if s: "SynthesizeMapSnapshot (pv_rfc3339 pv) (pv_parse pv) now f = Inr d"
      and p: "publishMapSnapshot pv nl (snapshot_message_for pv now f d) c = (r, c2)" for d r c2
    by (rule publish_payload_marshalled [OF p [unfolded publishMapSnapshot_def]])
      (use synthesized_wf [OF s] in \<open>simp add: link_msg_def wire_ok_for_def wire_ok_def is_finding_msg_def
          snapshot_message_for_def snapshot_headers_def finding_header_ok_def\<close>)
  show ?thesis
    using assms
    by (auto simp: snapshot_step_def createMapSnapshotForFinding_def
        split: if_splits sum.splits prod.splits option.splits dest: pub)
qed

lemma plan_step_sends:
  assumes "shouldForward f" "plan_step pv nl now f (di, c) = (di', c')"
  shows "sends_only (link_msg (rf_HostID f)) c c'"
proof -
  have pub: "sends_only (link_msg (rf_HostID f)) c c2"
    if p: "publishDecisionPlan nl (plan_request_for pv now f) c = (r, c2)" for r c2
    by (rule publish_payload_marshalled [OF p [unfolded publishDecisionPlan_def]])
      (use shouldForward_criteria [OF assms(1)] forward_priority [OF assms(1)] auto_approve_conservative [of f]
        in \<open>simp add: link_msg_def wire_ok_for_def wire_ok_def is_finding_msg_def
          plan_request_for_def DI_calculatePriority_def finding_header_ok_def\<close>)
  show ?thesis
    using assms(2)
    by (auto simp: plan_step_def createDecisionPlan_def split: if_splits prod.splits option.splits dest: pub)
qed

lemma ProcessFinding_sends:
  assumes "ProcessFinding pv nl now f (di, c) = (r, di', c')"
  shows "sends_only (link_msg (rf_HostID f)) c c'"
proof (cases "shouldProcess f")
  case False
  with assms show ?thesis by (simp add: ProcessFinding_def)
next
  case True
  then have sf: "shouldForward f" by (simp add: criteria_agree)
  obtain r1 ff c1 where fw: "ForwardFinding pv nl now f (dg_forwarder di, c) = (r1, ff, c1)" by (metis prod_cases3)
  note 1 = forward_sends [OF fw]
  show ?thesis
  proof (cases r1)
    case (Some e)
    with assms True fw 1 show ?thesis by (simp add: ProcessFinding_def)
  next
    case None
    let ?d = "di\<lparr>dg_forwarder := ff, dg_safeguardsSent := wrap64 (dg_safeguardsSent di + 1)\<rparr>"
    obtain d2 c2 where s: "snapshot_step pv nl now f (?d, c1) = (d2, c2)" by force
    obtain d3 c3 where p: "plan_step pv nl now f (d2, c2) = (d3, c3)" by force
    have "c' = c3" using assms True fw None s p by (simp add: ProcessFinding_def)
    with 1 snapshot_step_sends [OF s] plan_step_sends [OF sf p] show ?thesis by (metis sends_only_trans)
  qed
qed

end
