(* ===== verification/Corr_EnhancedProperties.thy ===== *)
theory Corr_EnhancedProperties
  imports Corr_PipelineProperties
begin

text \<open>
  The subscriber of enriched records as a whole: the type of every message it sends, as an invariant
  over all sequences of messages and reloads; which rules publish for a record when the connection is
  up; and what follows for records that carry no enrichment and for rules that ask for a record type.
\<close>

section \<open>Everything sent is well formed\<close>

lemma publish_finding_sends:
  assumes "PublishFinding nl f c = (r, c')" "Finding_Validate f = None"
  shows "sends_only (wire_ok_for (rf_HostID f)) c c'"
  by (rule publish_payload_marshalled [OF assms(1) [unfolded PublishFinding_def]])
    (use assms(2) in \<open>simp add: wire_ok_for_def wire_ok_def finding_message_def finding_header_ok_def
        finding_headers_def\<close>)

lemma deliver_sends:
  assumes "Finding_Validate f = None" "deliver_finding se now f s = Some s'"
  shows "sends_only (wire_ok_for (rf_HostID f)) (es_nc s) (es_nc s')"
proof -
  have link: "sends_only (wire_ok_for h) c c'" if "sends_only (link_msg h) c c'" for h c c'
    using sends_only_mono [OF that] by (simp add: link_msg_def)
  obtain r c1 where p: "PublishFinding (se_nats se) f (es_nc s) = (r, c1)" by force
  note 1 = publish_finding_sends [OF p assms(1)]
  obtain e l c2 where q: "ProcessFinding (se_pipe se) (se_nats se) now f (es_links s, c1) = (e, l, c2)"
    by (metis prod_cases3)
  note 2 = link [OF ProcessFinding_sends [OF q]]
  show ?thesis
    using assms(2) p q 1 sends_only_trans [OF 1 2]
    by (auto simp: deliver_finding_def split: option.splits)
qed

lemma apply_rules_sends:
  assumes "\<And>r f. generate r = Inr f \<Longrightarrow> Finding_Validate f = None \<and> rf_HostID f = h"
  shows "apply_rules se now matches generate rs s = Some s' \<Longrightarrow> sends_only (wire_ok_for h) (es_nc s) (es_nc s')"
proof (induction rs arbitrary: s)
  case Nil
  then show ?case by simp
next
  case (Cons r rs)
  then obtain s1 where s1: "apply_rule se now matches generate r s = Some s1"
    and rest: "apply_rules se now matches generate rs s1 = Some s'" by (auto split: option.splits)
  have "sends_only (wire_ok_for h) (es_nc s) (es_nc s1)"
  proof (cases "Rule_IsEnabled r \<and> matches r = Some True")
    case False
    with s1 show ?thesis by (auto simp: apply_rule_def split: if_splits option.splits bool.splits)
  next
    case True
    show ?thesis
    proof (cases "generate r")
      case (Inl e)
      with s1 True show ?thesis by (simp add: apply_rule_def)
    next
      case (Inr f)
      with s1 True have "deliver_finding se now f s = Some s1" by (simp add: apply_rule_def)
      with assms [OF Inr] deliver_sends [of f se now s s1] show ?thesis by simp
    qed
  qed
  with Cons.IH [OF rest] show ?case using sends_only_trans by blast
qed

lemma generated_enriched:
  assumes "str_field ev ''host_id'' = Some h"
    "GenerateFindingFromEnrichedEvent ge now r ev src ws we = Inr f"
  shows "Finding_Validate f = None \<and> rf_HostID f = h"
proof -
  from assms(1) have "obj_field ev ''host_id'' = VStr h"
    by (auto simp: str_field_def obj_field_def split: option.splits gval.splits)
  with assms(2) show ?thesis
    by (auto simp: GenerateFindingFromEnrichedEvent_def Let_def dest: generated_finding_valid)
qed

lemma generated_cve:
  assumes "str_field ev ''host_id'' = Some h"
    "GenerateFindingFromPackageCVE ge now r ev src ws we = Inr f"
  shows "Finding_Validate f = None \<and> rf_HostID f = h"
proof -
  from assms(1) have "obj_field ev ''host_id'' = VStr h"
    by (auto simp: str_field_def obj_field_def split: option.splits gval.splits)
  with assms(2) show ?thesis
    by (auto simp: GenerateFindingFromPackageCVE_def Let_def dest: generated_finding_valid)
qed

lemma process_enriched_sends:
  assumes "processEnrichedEvent se now ev s = Some s'"
  shows "\<exists>h. sends_only (wire_ok_for h) (es_nc s) (es_nc s')"
proof (cases "str_field ev ''host_id''")
  case None
  with assms show ?thesis by (auto simp: processEnrichedEvent_def)
next
  case (Some h)
  note run = assms [unfolded processEnrichedEvent_def]
  have "sends_only (wire_ok_for h) (es_nc s) (es_nc s')"
    by (rule apply_rules_sends [OF generated_enriched [OF Some]]) (use run Some in simp_all)
  then show ?thesis ..
qed

lemma process_cve_sends:
  assumes "processPackageCVEEnriched se now ev s = Some s'"
  shows "\<exists>h. sends_only (wire_ok_for h) (es_nc s) (es_nc s')"
proof (cases "str_field ev ''host_id''")
  case None
  with assms show ?thesis by (auto simp: processPackageCVEEnriched_def)
next
  case (Some h)
  note run = assms [unfolded processPackageCVEEnriched_def]
  have "sends_only (wire_ok_for h) (es_nc s) (es_nc s')"
    by (rule apply_rules_sends [OF generated_cve [OF Some]]) (use run Some in simp_all)
  then show ?thesis ..
qed

definition enh_init :: "'c enhanced_subscriber \<Rightarrow> bool" where
  "enh_init s = (\<exists>store ruleLoader n. s = NewEnhancedSubscriber store ruleLoader NewDecisionIntegration \<lparr>nc_calls = n, nc_sent = []\<rparr>)"

text \<open>The steps: a message to one of the two handlers of enriched records, a reload of the rules.\<close>

inductive enh_step :: "'c enhanced_subscriber \<Rightarrow> 'c enhanced_subscriber \<Rightarrow> bool" where
  enh_event: "handleEnrichedEvent se now msg s = Some t \<Longrightarrow> enh_step s t"
| enh_cve: "handlePackageCVEEnriched se now msg s = Some t \<Longrightarrow> enh_step s t"
| enh_reload: "enh_step s (s\<lparr>es_ruleLoader := l\<rparr>)"

inductive_cases enh_stepE: "enh_step s t"

definition enh_inv :: "'c enhanced_subscriber \<Rightarrow> bool" where
  "enh_inv s = (\<forall>m \<in> set (nc_sent (es_nc s)). wire_ok m)"

lemma handlers_send:
  "handlePackageCVEEnriched se now msg s = Some t \<Longrightarrow> \<exists>h. sends_only (wire_ok_for h) (es_nc s) (es_nc t)"
  "handleEnrichedEvent se now msg s = Some t \<Longrightarrow> \<exists>h. sends_only (wire_ok_for h) (es_nc s) (es_nc t)"
  by (auto simp: handlePackageCVEEnriched_def handleEnrichedEvent_def
      split: option.splits if_splits dest: process_enriched_sends process_cve_sends)

interpretation enhsys: inductive_invariant enh_init enh_step enh_inv
proof
  show "enh_inv s" if "enh_init s" for s :: "'a enhanced_subscriber"
    using that by (auto simp: enh_init_def enh_inv_def NewEnhancedSubscriber_def)
next
  have keep: "enh_inv t" if "enh_inv s" "sends_only (wire_ok_for h) (es_nc s) (es_nc t)"
    for s t :: "'a enhanced_subscriber" and h
    using that by (auto simp: enh_inv_def sends_only_def wire_ok_for_def)
  show "enh_inv t" if "enh_inv s" "enh_step s t" for s t :: "'a enhanced_subscriber"
    using that(2)
  proof (cases rule: enh_step.cases)
    case (enh_event se now msg)
    with handlers_send(2) obtain h where "sends_only (wire_ok_for h) (es_nc s) (es_nc t)" by blast
    with that(1) show ?thesis by (rule keep)
  next
    case (enh_cve se now msg)
    with handlers_send(1) obtain h where "sends_only (wire_ok_for h) (es_nc s) (es_nc t)" by blast
    with that(1) show ?thesis by (rule keep)
  next
    case (enh_reload l)
    with that(1) show ?thesis by (simp add: enh_inv_def)
  qed
qed

text \<open>
  C5. Whatever messages the subscriber receives and however its rules are reloaded, every message it
  sends is well typed: its floats are finite, its subject is that of its payload, its headers name the
  finding and host of the payload; findings are valid, snapshots within their bounds; safeguards and
  plans are for findings of high or critical severity, their priorities are between -1 and 3, and
  a plan that is approved automatically is conservative.
\<close>

theorem sent_messages_well_typed:
  assumes "reach enh_init enh_step s" "m \<in> set (nc_sent (es_nc s))"
  shows "wire_ok m"
  using enhsys.reach_inv [OF assms(1)] assms(2) by (simp add: enh_inv_def)

section \<open>Which rules publish\<close>

definition healthy :: "nats_lib \<Rightarrow> bool" where
  "healthy nl = (nl_present nl \<and> (\<forall>n. nl_connected nl n \<and> nl_publish nl n = None))"

definition store_ready :: "'c memory_store \<Rightarrow> bool" where
  "store_ready st = (ms_dedupe st \<noteq> None \<and> ms_findings st \<noteq> [])"

definition published :: "nats_conn \<Rightarrow> rules_finding list" where
  "published c = List.map_filter (\<lambda>m. case nm_Data m of FindingMsg f \<Rightarrow> Some f | _ \<Rightarrow> None) (nc_sent c)"

lemma published_links: "sends_only (link_msg h) c c' \<Longrightarrow> published c' = published c"
proof -
  assume "sends_only (link_msg h) c c'"
  then obtain ms where ms: "nc_sent c' = nc_sent c @ ms" "\<forall>m \<in> set ms. link_msg h m"
    by (auto simp: sends_only_def)
  from ms(2) have "List.map_filter (\<lambda>m. case nm_Data m of FindingMsg f \<Rightarrow> Some f | _ \<Rightarrow> None) ms = []"
    by (induction ms) (auto simp: List.map_filter_def link_msg_def is_finding_msg_def split: payload.splits)
  with ms(1) show ?thesis by (simp add: published_def List.map_filter_def)
qed

lemma AddFinding_ready:
  assumes "store_ready st"
  shows "\<exists>b st'. AddFinding ops st (Some f) = Some (b, st') \<and> store_ready st'"
  using assms
  by (auto simp: store_ready_def AddFinding_def Let_def split: option.splits list.splits prod.splits)

lemma publish_healthy:
  assumes "healthy nl" "finding_marshals f"
  shows "\<exists>c'. PublishFinding nl f c = (None, c') \<and> published c' = published c @ [f]"
  using assms
  by (auto simp: PublishFinding_def publish_payload_def healthy_def conn_available_def PublishMsg_def
      finding_message_def published_def List.map_filter_def)

lemma deliver_healthy:
  assumes "healthy (se_nats se)" "store_ready (es_store s)" "finding_marshals f"
  shows "\<exists>s'. deliver_finding se now f s = Some s' \<and> store_ready (es_store s')
           \<and> published (es_nc s') = published (es_nc s) @ [f]"
proof -
  obtain b st' where a: "AddFinding (se_lru se) (es_store s) (Some (toStoreFinding (se_pipe se) now f)) = Some (b, st')"
    "store_ready st'" using AddFinding_ready [OF assms(2)] by blast
  obtain c1 where p: "PublishFinding (se_nats se) f (es_nc s) = (None, c1)" "published c1 = published (es_nc s) @ [f]"
    using publish_healthy [OF assms(1,3)] by blast
  obtain e l c2 where q: "ProcessFinding (se_pipe se) (se_nats se) now f (es_links s, c1) = (e, l, c2)"
    by (metis prod_cases3)
  with published_links [OF ProcessFinding_sends [OF q]] a p show ?thesis by (simp add: deliver_finding_def)
qed

definition findings_of ::
  "(rule \<Rightarrow> bool option) \<Rightarrow> (rule \<Rightarrow> go_error + rules_finding) \<Rightarrow> rule list \<Rightarrow> rules_finding list" where
  "findings_of matches generate rs =
     List.map_filter (\<lambda>r. if Rule_IsEnabled r \<and> matches r = Some True
                          then (case generate r of Inl e \<Rightarrow> None | Inr f \<Rightarrow> Some f) else None) rs"

lemma findings_of_simps [simp]:
  "findings_of m g [] = []"
  "findings_of m g (r # rs) =
     (if Rule_IsEnabled r \<and> m r = Some True then (case g r of Inl e \<Rightarrow> [] | Inr f \<Rightarrow> [f]) else []) @ findings_of m g rs"
  by (auto simp: findings_of_def List.map_filter_def split: sum.splits)

lemma apply_rules_healthy:
  assumes "healthy (se_nats se)" "store_ready (es_store s)"
    "\<forall>r \<in> set rs. Rule_IsEnabled r \<longrightarrow> matches r \<noteq> None"
    "\<forall>r \<in> set rs. \<forall>f. generate r = Inr f \<longrightarrow> finding_marshals f"
  shows "\<exists>s'. apply_rules se now matches generate rs s = Some s'
           \<and> published (es_nc s') = published (es_nc s) @ findings_of matches generate rs"
  using assms(2-)
proof (induction rs arbitrary: s)
  case Nil
  then show ?case by simp
next
  case (Cons r rs)
  have "\<exists>s1. apply_rule se now matches generate r s = Some s1 \<and> store_ready (es_store s1)
      \<and> published (es_nc s1) = published (es_nc s) @ findings_of matches generate [r]"
    using Cons.prems deliver_healthy [OF assms(1) Cons.prems(1)]
    by (auto simp: apply_rule_def split: option.splits bool.splits sum.splits)
  then obtain s1 where s1: "apply_rule se now matches generate r s = Some s1" "store_ready (es_store s1)"
    "published (es_nc s1) = published (es_nc s) @ findings_of matches generate [r]" by blast
  from Cons.IH [OF s1(2)] Cons.prems obtain s' where
    "apply_rules se now matches generate rs s1 = Some s'"
    "published (es_nc s') = published (es_nc s1) @ findings_of matches generate rs" by auto
  with s1 show ?case by simp
qed

text \<open>A generated finding has a JSON form if the record and the rule have.\<close>

definition rule_marshals :: "rule \<Rightarrow> bool" where
  "rule_marshals r =
     (f_finite (out_Confidence (sp_Outcome (ru_Spec r)))
      \<and> list_all (\<lambda>a. gmap_marshals (act_Parameters a)) (out_Actions (sp_Outcome (ru_Spec r))))"

lemma field_marshals: "gmap_marshals m \<Longrightarrow> gval_marshals (obj_field m k)"
  by (auto simp: obj_field_def gmap_marshals_def list_all_iff split: option.splits dest: map_of_SomeD)

lemma object_marshals: "gval_marshals (VObj m) \<longleftrightarrow> gmap_marshals m"
  by (auto simp: gmap_marshals_def list_all_iff)

lemma metadata_marshals: "rule_marshals r \<Longrightarrow> dmap_marshals (generateMetadata r ev)"
  by (auto simp: generateMetadata_def dmap_marshals_def rule_marshals_def split: option.splits)

lemma finding_marshalsI:
  assumes "GenerateFinding ge now r h ev src ws we = Inr f" "gmap_marshals ev" "rule_marshals r"
  shows "finding_marshals f"
proof -
  from assms(1) have "rf_Actions f = out_Actions (sp_Outcome (ru_Spec r))"
    by (auto simp: GenerateFinding_def Let_def split: option.splits)
  with generated_finding_valid [OF assms(1)] assms(2,3) metadata_marshals [OF assms(3)] show ?thesis
    by (simp add: finding_marshals_def rule_marshals_def)
qed

lemma gmap_marshals_simps [simp]:
  "gmap_marshals []" "gmap_marshals ((k, v) # m) \<longleftrightarrow> gval_marshals v \<and> gmap_marshals m"
  "gmap_marshals (a @ b) \<longleftrightarrow> gmap_marshals a \<and> gmap_marshals b"
  by (simp_all add: gmap_marshals_def)

lemma nested_marshals: "gmap_marshals m \<Longrightarrow> obj_field m k = VObj x \<Longrightarrow> gmap_marshals x"
  using field_marshals [of m k] by (simp add: object_marshals del: gval_marshals.simps)

lemma entries_marshal:
  assumes "gmap_marshals m"
  shows "gmap_marshals (obj_entry m k)" "gmap_marshals (str_entry m k)" "gmap_marshals (copied_entries m k names)"
proof -
  show "gmap_marshals (obj_entry m k)" "gmap_marshals (str_entry m k)"
    using nested_marshals [OF assms]
    by (auto simp: obj_entry_def str_entry_def object_marshals split: gval.splits simp del: gval_marshals.simps(6))
  show "gmap_marshals (copied_entries m k names)"
  proof (cases "\<exists>p. obj_field m k = VObj p")
    case True
    then obtain p where p: "obj_field m k = VObj p" by blast
    note fields = field_marshals [OF nested_marshals [OF assms p]]
    have "gmap_marshals (map (\<lambda>(key, field). (key, obj_field p field)) names)"
      by (induction names) (auto simp: fields)
    with p show ?thesis by (simp add: copied_entries_def)
  next
    case False
    then show ?thesis by (auto simp: copied_entries_def split: gval.splits)
  qed
qed

lemma enriched_marshals:
  assumes "GenerateFindingFromEnrichedEvent ge now r ev src ws we = Inr f" "gmap_marshals ev" "rule_marshals r"
  shows "finding_marshals f"
proof -
  obtain h where "GenerateFinding ge now r h (enriched_evidence ev) src ws we = Inr f"
    using assms(1) by (auto simp: GenerateFindingFromEnrichedEvent_def split: gval.splits)
  moreover have "gmap_marshals (enriched_evidence ev)"
    by (simp add: enriched_evidence_def entries_marshal [OF assms(2)] field_marshals [OF assms(2)]
        object_marshals assms(2) del: gval_marshals.simps)
  ultimately show ?thesis by (rule finding_marshalsI [OF _ _ assms(3)])
qed

lemma cve_marshals:
  assumes "GenerateFindingFromPackageCVE ge now r ev src ws we = Inr f" "gmap_marshals ev" "rule_marshals r"
  shows "finding_marshals f"
proof -
  obtain h where "GenerateFinding ge now r h (cve_evidence ev) src ws we = Inr f"
    using assms(1) by (auto simp: GenerateFindingFromPackageCVE_def split: gval.splits)
  moreover have "gmap_marshals (cve_evidence ev)"
    by (simp add: cve_evidence_def entries_marshal [OF assms(2)] object_marshals assms(2) del: gval_marshals.simps)
  ultimately show ?thesis by (rule finding_marshalsI [OF _ _ assms(3)])
qed

text \<open>The findings that a record of either kind gives rise to.\<close>

definition enriched_findings :: "'c sub_env \<Rightarrow> time \<Rightarrow> (string, gval) gomap \<Rightarrow> rule list \<Rightarrow> rules_finding list" where
  "enriched_findings se now ev =
     findings_of (\<lambda>r. ruleMatchesEnriched r ev)
       (\<lambda>r. GenerateFindingFromEnrichedEvent (se_gen se (md_ID (ru_Metadata r))) now r ev
              [''enriched-event''] (window_start now) now)"

definition cve_findings :: "'c sub_env \<Rightarrow> time \<Rightarrow> (string, gval) gomap \<Rightarrow> rule list \<Rightarrow> rules_finding list" where
  "cve_findings se now ev =
     findings_of (\<lambda>r. ruleMatchesPackageCVE r ev)
       (\<lambda>r. GenerateFindingFromPackageCVE (se_gen se (md_ID (ru_Metadata r))) now r ev
              [''package-cve-enriched''] (window_start now) now)"

text \<open>What a record and the rules need: a host, finite numbers, values that can be compared.\<close>

definition record_ready ::
  "(rule \<Rightarrow> (string, gval) gomap \<Rightarrow> bool option) \<Rightarrow> (string, gval) gomap \<Rightarrow> rule list \<Rightarrow> bool" where
  "record_ready matches ev rs =
     (str_field ev ''host_id'' \<noteq> None \<and> gmap_marshals ev
      \<and> (\<forall>r \<in> set rs. rule_marshals r \<and> (Rule_IsEnabled r \<longrightarrow> matches r ev \<noteq> None)))"

lemma cve_run:
  assumes "healthy (se_nats se)" "store_ready (es_store s)"
    "record_ready ruleMatchesPackageCVE ev (sn_Rules (GetSnapshot (es_ruleLoader s)))"
  shows "\<exists>s'. handlePackageCVEEnriched se now (Some ev) s = Some s'
           \<and> published (es_nc s') = published (es_nc s)
               @ cve_findings se now ev (sn_Rules (GetSnapshot (es_ruleLoader s)))"
proof -
  let ?rs = "sn_Rules (GetSnapshot (es_ruleLoader s))"
  from assms(3) have host: "str_field ev ''host_id'' \<noteq> None" by (simp add: record_ready_def)
  have g: "\<forall>r \<in> set ?rs. \<forall>f. GenerateFindingFromPackageCVE (se_gen se (md_ID (ru_Metadata r))) now r ev
              [''package-cve-enriched''] (window_start now) now = Inr f \<longrightarrow> finding_marshals f"
    using assms(3) by (auto simp: record_ready_def intro: cve_marshals)
  have m: "\<forall>r \<in> set ?rs. Rule_IsEnabled r \<longrightarrow> ruleMatchesPackageCVE r ev \<noteq> None"
    using assms(3) by (auto simp: record_ready_def)
  from apply_rules_healthy [where now = now and matches = "\<lambda>r. ruleMatchesPackageCVE r ev", OF assms(1,2) m g] host
  show ?thesis by (auto simp: handlePackageCVEEnriched_def processPackageCVEEnriched_def cve_findings_def)
qed

lemma event_run:
  assumes "healthy (se_nats se)" "store_ready (es_store s)"
    "str_field ev ''record_type'' \<noteq> Some ''pkg_cve_enriched''"
    "record_ready ruleMatchesEnriched ev (sn_Rules (GetSnapshot (es_ruleLoader s)))"
  shows "\<exists>s'. handleEnrichedEvent se now (Some ev) s = Some s'
           \<and> published (es_nc s') = published (es_nc s)
               @ enriched_findings se now ev (sn_Rules (GetSnapshot (es_ruleLoader s)))"
proof -
  let ?rs = "sn_Rules (GetSnapshot (es_ruleLoader s))"
  from assms(4) have host: "str_field ev ''host_id'' \<noteq> None" by (simp add: record_ready_def)
  have g: "\<forall>r \<in> set ?rs. \<forall>f. GenerateFindingFromEnrichedEvent (se_gen se (md_ID (ru_Metadata r))) now r ev
              [''enriched-event''] (window_start now) now = Inr f \<longrightarrow> finding_marshals f"
    using assms(4) by (auto simp: record_ready_def intro: enriched_marshals)
  have m: "\<forall>r \<in> set ?rs. Rule_IsEnabled r \<longrightarrow> ruleMatchesEnriched r ev \<noteq> None"
    using assms(4) by (auto simp: record_ready_def)
  from apply_rules_healthy [where now = now and matches = "\<lambda>r. ruleMatchesEnriched r ev", OF assms(1,2) m g] host assms(3)
  show ?thesis by (auto simp: handleEnrichedEvent_def processEnrichedEvent_def enriched_findings_def)
qed

text \<open>
  C6. With a working connection and store, a record that is not a package record publishes, in the
  order of the rules, exactly the findings of the enabled rules that match it and whose finding is
  valid; a package record those of the rules that match it as a package record.
\<close>

theorem record_publishes_matches:
  assumes "healthy (se_nats se)" "store_ready (es_store s)"
    "rs = sn_Rules (GetSnapshot (es_ruleLoader s))"
    "package \<longleftrightarrow> str_field ev ''record_type'' = Some ''pkg_cve_enriched''"
    "record_ready (if package then ruleMatchesPackageCVE else ruleMatchesEnriched) ev rs"
  shows "\<exists>s'. handleEnrichedEvent se now (Some ev) s = Some s'
           \<and> published (es_nc s') = published (es_nc s)
               @ (if package then cve_findings se now ev rs else enriched_findings se now ev rs)"
proof (cases package)
  case True
  with assms have "record_ready ruleMatchesPackageCVE ev (sn_Rules (GetSnapshot (es_ruleLoader s)))" by simp
  from cve_run [OF assms(1,2) this] True assms(3,4) show ?thesis by (simp add: handleEnrichedEvent_def)
next
  case False
  with assms have "str_field ev ''record_type'' \<noteq> Some ''pkg_cve_enriched''"
    "record_ready ruleMatchesEnriched ev (sn_Rules (GetSnapshot (es_ruleLoader s)))" by simp_all
  from event_run [OF assms(1,2) this] False assms(3) show ?thesis by simp
qed

section \<open>Where matching goes wrong\<close>

text \<open>A record without an enrichment object and without a record type matches whatever the conditions are.\<close>

lemma bare_record_matches:
  assumes "\<not> (\<exists>e. map_get ev ''enrichment'' = Some (VObj e))" "str_field ev ''record_type'' = None"
  shows "ruleMatchesPackageCVE r ev = Some (hostMatches (sp_Selectors (ru_Spec r)) ev)"
  using assms by (auto simp: ruleMatchesPackageCVE_def differ_def Let_def split: option.splits gval.splits)


lemma conditions_hold:
  "checkConditions cs ev = Some True \<Longrightarrow> (k, v) \<in> set cs \<Longrightarrow>
     \<exists>x. map_get ev k = Some x \<and> iface_equal v x = Some True"
  by (induction cs ev rule: checkConditions.induct) (auto split: option.splits bool.splits)

text \<open>
  A rule that asks for a record type, as the package rule that the repository ships does, never fires on
  a package record of the enrichment service: its conditions are looked up in the enrichment object,
  which has no record type. The handler goes on as if the rule were not loaded, or panics.
\<close>

lemma record_type_rule_never_fires:
  assumes "map_get ev ''enrichment'' = Some (VObj e)" "map_get e ''record_type'' = None"
    "map_get (cond_When (sp_Condition (ru_Spec r))) ''record_type'' = Some t"
  shows "apply_rule se now (\<lambda>r. ruleMatchesPackageCVE r ev) generate r s \<in> {Some s, None}"
proof -
  have "checkConditions (cond_When (sp_Condition (ru_Spec r))) e \<noteq> Some True"
    using conditions_hold [of "cond_When (sp_Condition (ru_Spec r))" e "''record_type''" t] assms(2,3)
    by (auto dest: map_of_SomeD)
  then have "ruleMatchesPackageCVE r ev \<noteq> Some True"
    using assms(1) by (auto simp: ruleMatchesPackageCVE_def Let_def)
  then show ?thesis by (auto simp: apply_rule_def split: option.splits bool.splits)
qed

section \<open>What is lost on the way\<close>

lemma entry_keys:
  "k' \<noteq> k \<Longrightarrow> map_get (obj_entry m k) k' = None"
  "k' \<noteq> k \<Longrightarrow> map_get (str_entry m k) k' = None"
  by (auto simp: obj_entry_def str_entry_def split: gval.splits)

lemma enriched_evidence_keys:
  assumes "GenerateFindingFromEnrichedEvent ge now r ev src ws we = Inr f"
  shows "map_get (rf_Evidence f) ''dst_ip'' = None \<and> rf_Metadata f = generateMetadata r (rf_Evidence f)"
proof -
  obtain h where g: "GenerateFinding ge now r h (enriched_evidence ev) src ws we = Inr f"
    using assms by (auto simp: GenerateFindingFromEnrichedEvent_def split: gval.splits)
  have "map_get (enriched_evidence ev) ''dst_ip'' = None"
    by (simp add: enriched_evidence_def map_add_def entry_keys)
  with generated_finding_valid [OF g] show ?thesis by simp
qed

lemma metadata_lacks:
  assumes "k \<in> {''window_start'', ''window_end'', ''ttl_seconds''}"
  shows "map_get (generateMetadata r ev) k = None"
proof (rule ccontr)
  assume "map_get (generateMetadata r ev) k \<noteq> None"
  from metadata_keys [OF this] assms show False by auto
qed

text \<open>
  Whatever destination an enriched record names, the snapshot in the safeguard made from it blocks every
  address, protocol and port: the forwarder looks for the destination among the evidence, where the
  generator does not put it. The time window of a synthesized snapshot is zero and the stored
  finding has no lifetime, as the generator's metadata has no such entries.
\<close>

lemma enriched_details_lost:
  assumes "GenerateFindingFromEnrichedEvent ge now r ev src ws we = Inr f"
  shows "extractNetworkEdges f = [\<lparr>ne_DstCIDR = ''0.0.0.0/0'', ne_Proto = ''any'', ne_Port = 0\<rparr>]
    \<and> ni_TimeWindow (extractNetworkInfo parse f) = 0
    \<and> fd_TTLSeconds (toStoreFinding pv t f) = 0"
  using enriched_evidence_keys [OF assms]
  by (simp add: extractNetworkEdges_def str_field_def any_edge_def extractNetworkInfo_def Let_def
      time_window_def dyn_str_def metadata_lacks toStoreFinding_def)

end
