(* ===== verification/Corr_Matcher.thy ===== *)
theory Corr_Matcher
  imports Corr_Model
begin

text \<open>
  \<open>internal/rules/matcher.go\<close>: which rules apply to a host. \<open>filepath.Match\<close> is the argument
  \<open>glob\<close>: \<open>glob p h\<close> is \<^term>\<open>None\<close> for \<open>ErrBadPattern\<close>, else whether the pattern matches.
\<close>

definition isHostExcluded :: "string \<Rightarrow> string list \<Rightarrow> bool" where
  "isHostExcluded hostID excludeHostIDs = list_ex (\<lambda>excludeID. hostID = excludeID) excludeHostIDs"

definition isHostInList :: "string \<Rightarrow> string list \<Rightarrow> bool" where
  "isHostInList hostID hostIDs = list_ex (\<lambda>id'. hostID = id') hostIDs"

definition isHostMatchingGlobs ::
  "(string \<Rightarrow> string \<Rightarrow> bool option) \<Rightarrow> string \<Rightarrow> string list \<Rightarrow> bool" where
  "isHostMatchingGlobs glob hostID hostGlobs = list_ex (\<lambda>g. glob g hostID = Some True) hostGlobs"

definition hasAllLabels :: "(string, bool) gomap \<Rightarrow> string list \<Rightarrow> bool" where
  "hasAllLabels labelMap requiredLabels =
     list_all (\<lambda>l. map_get labelMap l = Some True) requiredLabels"

definition ruleMatches ::
  "(string \<Rightarrow> string \<Rightarrow> bool option) \<Rightarrow> string \<Rightarrow> (string, bool) gomap \<Rightarrow> rule \<Rightarrow> bool" where
  "ruleMatches glob hostID labelMap r =
     (let selectors = sp_Selectors (ru_Spec r) in
      if isHostExcluded hostID (sel_ExcludeHostIDs selectors) then False
      else
        let hasHostSelectors = sel_HostIDs selectors \<noteq> [] \<or> sel_HostGlobs selectors \<noteq> [];
            hasLabelSelectors = sel_Labels selectors \<noteq> []
        in if \<not> hasHostSelectors \<and> \<not> hasLabelSelectors then True
           else
             let hostMatches =
                   (if hasHostSelectors then
                      (sel_HostIDs selectors \<noteq> [] \<and> isHostInList hostID (sel_HostIDs selectors))
                      \<or> (sel_HostGlobs selectors \<noteq> []
                          \<and> isHostMatchingGlobs glob hostID (sel_HostGlobs selectors))
                    else True);
                 labelMatches =
                   (if hasLabelSelectors then hasAllLabels labelMap (sel_Labels selectors) else True)
             in hostMatches \<and> labelMatches)"

text \<open>The label lookup table of \<open>EffectiveRulesFor\<close>.\<close>

definition label_map :: "string list \<Rightarrow> (string, bool) gomap" where
  "label_map labels = fold (\<lambda>l m. map_set l True m) labels []"

definition EffectiveRulesFor ::
  "(string \<Rightarrow> string \<Rightarrow> bool option) \<Rightarrow> string \<Rightarrow> string list \<Rightarrow> rule list \<Rightarrow> rule list" where
  "EffectiveRulesFor glob hostID labels rules =
     filter (\<lambda>r. ruleMatches glob hostID (label_map labels) r) rules"

text \<open>\<open>strings.SplitN(label, ":", 2)\<close>: the part before the first colon and the part after it.\<close>

fun cut_at :: "char \<Rightarrow> string \<Rightarrow> string \<times> string option" where
  "cut_at c [] = ([], None)"
| "cut_at c (x # xs) =
     (if x = c then ([], Some xs) else (case cut_at c xs of (a, b) \<Rightarrow> (x # a, b)))"

definition parseLabels :: "string list \<Rightarrow> (string, string) gomap" where
  "parseLabels labels =
     fold (\<lambda>label m. case cut_at CHR '':'' label of
             (k, Some v) \<Rightarrow> map_set k v m
           | (_, None) \<Rightarrow> map_set label '''' m) labels []"

section \<open>Properties\<close>

lemma fold_set_True:
  "map_get (fold (\<lambda>l m. map_set l True m) labels m) k =
     (if k \<in> set labels then Some True else map_get m k)"
  by (induction labels arbitrary: m) auto

lemma label_map_get: "map_get (label_map labels) k = Some True \<longleftrightarrow> k \<in> set labels"
  by (simp add: label_map_def fold_set_True)

lemma hasAllLabels_iff: "hasAllLabels (label_map labels) req \<longleftrightarrow> set req \<subseteq> set labels"
  by (auto simp: hasAllLabels_def list_all_iff label_map_get)

text \<open>The selection a rule's selectors stand for, independent of how the code checks them.\<close>

definition selects :: "(string \<Rightarrow> string \<Rightarrow> bool option) \<Rightarrow> selector \<Rightarrow> string \<Rightarrow> string set \<Rightarrow> bool" where
  "selects glob sel h labels \<longleftrightarrow>
     h \<notin> set (sel_ExcludeHostIDs sel)
     \<and> (sel_HostIDs sel = [] \<and> sel_HostGlobs sel = []
        \<or> h \<in> set (sel_HostIDs sel)
        \<or> (\<exists>g \<in> set (sel_HostGlobs sel). glob g h = Some True))
     \<and> set (sel_Labels sel) \<subseteq> labels"

lemma ruleMatches_selects:
  "ruleMatches glob h (label_map labels) r \<longleftrightarrow> selects glob (sp_Selectors (ru_Spec r)) h (set labels)"
  by (auto simp: ruleMatches_def selects_def Let_def isHostExcluded_def isHostInList_def
      isHostMatchingGlobs_def list_ex_iff hasAllLabels_iff)

text \<open>
  \<open>EffectiveRulesFor\<close> returns, in their order, exactly the rules whose selectors select the
  host: the host is not excluded, it is listed or matched by a glob (or no host selector is
  given), and it carries every required label.
\<close>

lemma EffectiveRulesFor_selects:
  "EffectiveRulesFor glob h labels rules =
     filter (\<lambda>r. selects glob (sp_Selectors (ru_Spec r)) h (set labels)) rules"
  by (simp add: EffectiveRulesFor_def ruleMatches_selects)

lemma EffectiveRulesFor_subset: "set (EffectiveRulesFor glob h labels rules) \<subseteq> set rules"
  by (auto simp: EffectiveRulesFor_def)

text \<open>
  The selector fields \<open>host_patterns\<close>, \<open>environment\<close>, \<open>service_types\<close> and \<open>regions\<close> have no
  influence on which rules apply, although the rule format documents them as host selection.
\<close>

lemma enhanced_selectors_ignored:
  "EffectiveRulesFor glob h labels
      (map (\<lambda>r. r\<lparr>ru_Spec := (ru_Spec r)\<lparr>sp_Selectors := (sp_Selectors (ru_Spec r))
             \<lparr>sel_HostPatterns := ps, sel_Environment := es, sel_ServiceTypes := ts, sel_Regions := rs\<rparr>\<rparr>\<rparr>)
         rules)
   = map (\<lambda>r. r\<lparr>ru_Spec := (ru_Spec r)\<lparr>sp_Selectors := (sp_Selectors (ru_Spec r))
             \<lparr>sel_HostPatterns := ps, sel_Environment := es, sel_ServiceTypes := ts, sel_Regions := rs\<rparr>\<rparr>\<rparr>)
         (EffectiveRulesFor glob h labels rules)"
  by (simp add: EffectiveRulesFor_def ruleMatches_selects filter_map comp_def selects_def)

end
