(* ===== verification/Corr_Window.thy ===== *)
theory Corr_Window
  imports Corr_Model
begin

text \<open>
  \<open>internal/rules/window.go\<close>: the per-host buffer of recent events and its garbage collection.
  Each operation takes the clock reading of its \<open>time.Now()\<close> as the argument \<open>now\<close>. The
  background routine is the operation \<open>WB_GC\<close> run at the ticks of its ticker.
\<close>

record event_with_timestamp =
  ewt_Event :: event
  ewt_Timestamp :: time

record window_buffer =
  wb_hosts :: "(string, event_with_timestamp list) gomap"
  wb_maxAge :: duration
  wb_gcTicker :: "duration option"
  wb_stopGC :: bool

definition NewWindowBuffer :: "duration \<Rightarrow> window_buffer" where
  "NewWindowBuffer maxAge = \<lparr>wb_hosts = [], wb_maxAge = maxAge, wb_gcTicker = None, wb_stopGC = False\<rparr>"

definition WB_StartGC :: "window_buffer \<Rightarrow> duration \<Rightarrow> window_buffer" where
  "WB_StartGC wb gcInterval =
     (if wb_gcTicker wb \<noteq> None then wb
      else wb\<lparr>wb_gcTicker := Some gcInterval, wb_stopGC := True\<rparr>)"

definition WB_StopGC :: "window_buffer \<Rightarrow> window_buffer" where
  "WB_StopGC wb = wb\<lparr>wb_gcTicker := None, wb_stopGC := False\<rparr>"

definition WB_Add :: "window_buffer \<Rightarrow> time \<Rightarrow> event option \<Rightarrow> window_buffer" where
  "WB_Add wb now ev =
     (case ev of
        None \<Rightarrow> wb
      | Some e \<Rightarrow>
          if ev_HostID e = '''' then wb
          else
            let hostBuffer = (case map_get (wb_hosts wb) (ev_HostID e) of None \<Rightarrow> [] | Some b \<Rightarrow> b)
            in wb\<lparr>wb_hosts := map_set (ev_HostID e)
                     (hostBuffer @ [\<lparr>ewt_Event = e, ewt_Timestamp = now\<rparr>]) (wb_hosts wb)\<rparr>)"

text \<open>The loops of the two queries run from the last event to the first.\<close>

definition WB_RecentByType ::
  "window_buffer \<Rightarrow> time \<Rightarrow> string \<Rightarrow> string \<Rightarrow> duration \<Rightarrow> event list" where
  "WB_RecentByType wb now hostID eventType window =
     (if hostID = '''' \<or> eventType = '''' then []
      else (case map_get (wb_hosts wb) hostID of
              None \<Rightarrow> []
            | Some hostBuffer \<Rightarrow>
                let cutoff = time_add now (wrap64 (- window))
                in map ewt_Event
                     (filter (\<lambda>e. \<not> ewt_Timestamp e < cutoff \<and> ev_EventType (ewt_Event e) = eventType)
                       (rev hostBuffer))))"

definition WB_RecentEvents :: "window_buffer \<Rightarrow> time \<Rightarrow> string \<Rightarrow> duration \<Rightarrow> event list" where
  "WB_RecentEvents wb now hostID window =
     (if hostID = '''' then []
      else (case map_get (wb_hosts wb) hostID of
              None \<Rightarrow> []
            | Some hostBuffer \<Rightarrow>
                let cutoff = time_add now (wrap64 (- window))
                in map ewt_Event (filter (\<lambda>e. \<not> ewt_Timestamp e < cutoff) (rev hostBuffer))))"

definition WB_GC :: "window_buffer \<Rightarrow> time \<Rightarrow> window_buffer" where
  "WB_GC wb now =
     (let cutoff = time_add now (wrap64 (- wb_maxAge wb))
      in wb\<lparr>wb_hosts :=
             filter (\<lambda>p. snd p \<noteq> [])
               (map (\<lambda>(hostID, es). (hostID, filter (\<lambda>e. cutoff < ewt_Timestamp e) es)) (wb_hosts wb))\<rparr>)"

text \<open>One round of the background routine: a tick collects, the stop channel ends it.\<close>

datatype gc_signal = Tick time | Stop

fun WB_gcRoutine :: "window_buffer \<Rightarrow> gc_signal list \<Rightarrow> window_buffer" where
  "WB_gcRoutine wb [] = wb"
| "WB_gcRoutine wb (Tick now # sigs) = WB_gcRoutine (WB_GC wb now) sigs"
| "WB_gcRoutine wb (Stop # sigs) = wb"

record window_stats =
  ws_host_count :: nat
  ws_total_events :: nat
  ws_max_age :: duration

definition WB_GetStats :: "window_buffer \<Rightarrow> window_stats" where
  "WB_GetStats wb =
     \<lparr>ws_host_count = length (wb_hosts wb),
      ws_total_events = sum_list (map length (map_values (wb_hosts wb))),
      ws_max_age = wb_maxAge wb\<rparr>"

record host_stats =
  hs_host_id :: string
  hs_event_count :: nat
  hs_oldest_event :: "time option"
  hs_newest_event :: "time option"

definition WB_GetHostStats :: "window_buffer \<Rightarrow> string \<Rightarrow> host_stats option" where
  "WB_GetHostStats wb hostID =
     (if hostID = '''' then None
      else (case map_get (wb_hosts wb) hostID of
              None \<Rightarrow> Some \<lparr>hs_host_id = hostID, hs_event_count = 0,
                           hs_oldest_event = None, hs_newest_event = None\<rparr>
            | Some es \<Rightarrow>
                Some \<lparr>hs_host_id = hostID, hs_event_count = length es,
                      hs_oldest_event = (if es = [] then None else Some (ewt_Timestamp (hd es))),
                      hs_newest_event = (if es = [] then None else Some (ewt_Timestamp (last es)))\<rparr>))"

definition WB_Clear :: "window_buffer \<Rightarrow> window_buffer" where
  "WB_Clear wb = wb\<lparr>wb_hosts := []\<rparr>"

definition WB_ClearHost :: "window_buffer \<Rightarrow> string \<Rightarrow> window_buffer" where
  "WB_ClearHost wb hostID =
     (if hostID = '''' then wb else wb\<lparr>wb_hosts := map_delete hostID (wb_hosts wb)\<rparr>)"

section \<open>The buffer's invariant\<close>

text \<open>
  Hosts are distinct and have a name, no buffer is empty, every event is stored under its own
  host, arrival times never decrease along a buffer and none is later than the clock.
\<close>

definition wb_inv :: "time \<Rightarrow> window_buffer \<Rightarrow> bool" where
  "wb_inv now wb \<longleftrightarrow>
     map_ok (wb_hosts wb)
     \<and> (\<forall>(h, es) \<in> set (wb_hosts wb).
          h \<noteq> '''' \<and> es \<noteq> [] \<and> sorted (map ewt_Timestamp es)
          \<and> (\<forall>e \<in> set es. ev_HostID (ewt_Event e) = h \<and> ewt_Timestamp e \<le> now))
     \<and> (wb_stopGC wb \<longleftrightarrow> wb_gcTicker wb \<noteq> None)"

lemma wb_inv_new: "wb_inv now (NewWindowBuffer maxAge)"
  by (simp add: wb_inv_def NewWindowBuffer_def)

lemma wb_inv_later: "wb_inv now wb \<Longrightarrow> now \<le> now' \<Longrightarrow> wb_inv now' wb"
  unfolding wb_inv_def by fastforce

lemma wb_inv_lookup:
  assumes "wb_inv now wb" "map_get (wb_hosts wb) h = Some es"
  shows "h \<noteq> ''''" "es \<noteq> []" "sorted (map ewt_Timestamp es)"
    "\<forall>e \<in> set es. ev_HostID (ewt_Event e) = h \<and> ewt_Timestamp e \<le> now"
  using assms by (auto simp: wb_inv_def dest!: map_of_SomeD)

lemma wb_inv_Add:
  assumes "wb_inv now wb"
  shows "wb_inv now (WB_Add wb now ev)"
proof (cases ev)
  case None
  with assms show ?thesis by (simp add: WB_Add_def)
next
  case (Some e)
  show ?thesis
  proof (cases "ev_HostID e = ''''")
    case True
    with Some assms show ?thesis by (simp add: WB_Add_def)
  next
    case False
    define es where "es = (case map_get (wb_hosts wb) (ev_HostID e) of None \<Rightarrow> [] | Some b \<Rightarrow> b)"
    have es: "sorted (map ewt_Timestamp es)"
      "\<forall>x \<in> set es. ev_HostID (ewt_Event x) = ev_HostID e \<and> ewt_Timestamp x \<le> now"
      unfolding es_def using wb_inv_lookup(3,4) [OF assms, of "ev_HostID e"]
      by (cases "map_get (wb_hosts wb) (ev_HostID e)"; simp)+
    have "WB_Add wb now ev = wb\<lparr>wb_hosts := map_set (ev_HostID e)
        (es @ [\<lparr>ewt_Event = e, ewt_Timestamp = now\<rparr>]) (wb_hosts wb)\<rparr>"
      using False by (simp add: Some WB_Add_def es_def)
    with assms False es show ?thesis
      by (auto simp: wb_inv_def set_map_set sorted_append)
  qed
qed

lemma wb_inv_GC: "wb_inv now wb \<Longrightarrow> wb_inv now (WB_GC wb t)"
  unfolding wb_inv_def WB_GC_def Let_def
  by (auto simp: map_ok_filter comp_def split_def intro: sorted_filter)

lemma wb_inv_ClearHost: "wb_inv now wb \<Longrightarrow> wb_inv now (WB_ClearHost wb h)"
  unfolding wb_inv_def WB_ClearHost_def by (auto simp: AList.delete_eq map_ok_filter)

lemma wb_inv_Start_Stop_Clear:
  "wb_inv now wb \<Longrightarrow> wb_inv now (WB_StartGC wb d)"
  "wb_inv now wb \<Longrightarrow> wb_inv now (WB_StopGC wb)"
  "wb_inv now wb \<Longrightarrow> wb_inv now (WB_Clear wb)"
  by (auto simp: wb_inv_def WB_StartGC_def WB_StopGC_def WB_Clear_def)

text \<open>The buffer under its clock: any operation, at any later reading of the clock.\<close>

inductive wb_step :: "time \<times> window_buffer \<Rightarrow> time \<times> window_buffer \<Rightarrow> bool" where
  add: "now \<le> now' \<Longrightarrow> wb_step (now, wb) (now', WB_Add wb now' ev)"
| gc: "now \<le> now' \<Longrightarrow> wb_step (now, wb) (now', WB_GC wb t)"
| start: "now \<le> now' \<Longrightarrow> wb_step (now, wb) (now', WB_StartGC wb d)"
| stop: "now \<le> now' \<Longrightarrow> wb_step (now, wb) (now', WB_StopGC wb)"
| clear: "now \<le> now' \<Longrightarrow> wb_step (now, wb) (now', WB_Clear wb)"
| clear_host: "now \<le> now' \<Longrightarrow> wb_step (now, wb) (now', WB_ClearHost wb h)"

definition wb_init :: "time \<times> window_buffer \<Rightarrow> bool" where
  "wb_init s \<longleftrightarrow> (\<exists>maxAge. snd s = NewWindowBuffer maxAge)"

interpretation wbsys: inductive_invariant wb_init wb_step "\<lambda>(now, wb). wb_inv now wb"
proof (unfold_locales, goal_cases)
  case (1 s)
  then show ?case by (auto simp: wb_init_def wb_inv_new split: prod.splits)
next
  case (2 s t)
  from 2(2,1) show ?case
    by (cases rule: wb_step.cases)
       (auto intro!: wb_inv_Add wb_inv_GC wb_inv_Start_Stop_Clear wb_inv_ClearHost
             intro: wb_inv_later)
qed

text \<open>
  C28. In every state reached by any sequence of adds, collections, starts, stops and clears the
  window buffer is well formed: hosts are distinct and named, no host has an empty buffer, each
  event sits under its own host, and a buffer's arrival times are in order and not in the future.
\<close>

theorem window_buffer_invariant: "reach wb_init wb_step (now, wb) \<Longrightarrow> wb_inv now wb"
  using wbsys.reach_inv by fastforce

section \<open>Queries\<close>

lemma cutoff_exact: "0 \<le> w \<Longrightarrow> w < 2 ^ 63 \<Longrightarrow> time_add now (wrap64 (- w)) = now - w"
  by (simp add: time_add_def wrap64_id)

lemma RecentEvents_host:
  "wb_inv now wb \<Longrightarrow> e \<in> set (WB_RecentEvents wb t h w) \<Longrightarrow> ev_HostID e = h"
  by (auto simp: WB_RecentEvents_def Let_def split: if_splits option.splits
      dest!: wb_inv_lookup(4))

lemma RecentByType_filter:
  "t \<noteq> '''' \<Longrightarrow>
     WB_RecentByType wb now h t w = filter (\<lambda>e. ev_EventType e = t) (WB_RecentEvents wb now h w)"
  by (auto simp: WB_RecentByType_def WB_RecentEvents_def Let_def filter_map comp_def conj_commute
      split: option.splits)

lemma RecentEvents_Add:
  "0 \<le> w \<Longrightarrow> w < 2 ^ 63 \<Longrightarrow>
     WB_RecentEvents (WB_Add wb now (Some e)) now h w =
       (if ev_HostID e = h \<and> h \<noteq> '''' then e # WB_RecentEvents wb now h w
        else WB_RecentEvents wb now h w)"
  by (auto simp: WB_RecentEvents_def WB_Add_def Let_def cutoff_exact split: option.splits)

lemma GC_lookup:
  assumes "map_ok (wb_hosts wb)"
  shows "map_get (wb_hosts (WB_GC wb t)) h =
    (case map_get (wb_hosts wb) h of
       None \<Rightarrow> None
     | Some es \<Rightarrow>
         (let es' = filter (\<lambda>e. time_add t (wrap64 (- wb_maxAge wb)) < ewt_Timestamp e) es
          in if es' = [] then None else Some es'))"
proof -
  let ?c = "time_add t (wrap64 (- wb_maxAge wb))"
  let ?m = "map (\<lambda>(hostID, es). (hostID, filter (\<lambda>e. ?c < ewt_Timestamp e) es)) (wb_hosts wb)"
  have ok: "map_ok ?m" using assms by (simp add: comp_def split_def)
  have get: "map_get ?m h = map_option (filter (\<lambda>e. ?c < ewt_Timestamp e)) (map_get (wb_hosts wb) h)"
    by (simp add: map_of_map)
  show ?thesis
    unfolding WB_GC_def Let_def by (auto simp: map_of_filter_vals [OF ok] get split: option.splits)
qed

text \<open>
  Garbage collection is invisible to the queries the evaluator makes: whenever the window
  asked for is shorter than the buffer's maximum age, collecting at any time up to the query
  leaves the answer of \<open>RecentEvents\<close> unchanged.
\<close>

lemma GC_preserves_RecentEvents:
  assumes "map_ok (wb_hosts wb)" "0 \<le> w" "w < wb_maxAge wb" "wb_maxAge wb < 2 ^ 63" "t \<le> now"
  shows "WB_RecentEvents (WB_GC wb t) now h w = WB_RecentEvents wb now h w"
proof -
  have c: "time_add t (wrap64 (- wb_maxAge wb)) = t - wb_maxAge wb"
          "time_add now (wrap64 (- w)) = now - w"
    using assms by (auto intro: cutoff_exact)
  have sub: "\<And>es. filter (\<lambda>e. \<not> ewt_Timestamp e < now - w) (filter (\<lambda>e. t - wb_maxAge wb < ewt_Timestamp e) es)
                = filter (\<lambda>e. \<not> ewt_Timestamp e < now - w) es"
    unfolding filter_filter using assms by (intro filter_cong) auto
  show ?thesis
  proof (cases "map_get (wb_hosts wb) h")
    case None
    then show ?thesis by (simp add: WB_RecentEvents_def GC_lookup [OF assms(1)])
  next
    case (Some es)
    show ?thesis
      using sub [of "rev es"] assms(3,5)
      by (auto simp: WB_RecentEvents_def GC_lookup [OF assms(1)] Some Let_def c rev_filter
          filter_empty_conv simp del: filter_filter)
  qed
qed

end
