(* ===== verification/Corr_Override.thy ===== *)
theory Corr_Override
  imports Corr_Model
begin

text \<open>
  \<open>internal/rules/override.go\<close>: runtime overrides of rules. The manager's map is visited in the
  order of its association list, which stands for Go's unspecified iteration order. The gauge of
  the optional metrics object is the field \<open>om_gauge\<close>. Formatted error messages are values of
  \<open>override_error\<close>.
\<close>

record rule_override =
  ov_ID :: string
  ov_RuleID :: string
  ov_Enabled :: "bool option"
  ov_Severity :: "string option"
  ov_Confidence :: "float64 option"
  ov_TTLSeconds :: "int option"
  ov_CreatedAt :: time
  ov_UpdatedAt :: time
  ov_Description :: string

record rule_override_summary =
  os_ID :: string
  os_RuleID :: string
  os_Enabled :: "bool option"
  os_Severity :: "string option"
  os_Confidence :: "float64 option"
  os_TTLSeconds :: "int option"
  os_CreatedAt :: time
  os_Description :: string

record override_manager =
  om_overrides :: "(string, rule_override) gomap"
  om_gauge :: "nat option"

datatype override_error =
    RuleIDRequired
  | OverrideNotFound string
  | ParseFailed
  | InvalidSeverity string
  | InvalidConfidence float64
  | InvalidTTL int

definition NewOverrideManager :: override_manager where
  "NewOverrideManager = \<lparr>om_overrides = [], om_gauge = None\<rparr>"

definition NewOverrideManagerWithMetrics :: "nat \<Rightarrow> override_manager" where
  "NewOverrideManagerWithMetrics gauge = \<lparr>om_overrides = [], om_gauge = Some gauge\<rparr>"

definition generateOverrideID :: "time \<Rightarrow> string \<Rightarrow> string" where
  "generateOverrideID now ruleID = ''override-'' @ ruleID @ ''-'' @ itoa now"

definition om_update_metrics :: "override_manager \<Rightarrow> override_manager" where
  "om_update_metrics om =
     (case om_gauge om of None \<Rightarrow> om | Some _ \<Rightarrow> om\<lparr>om_gauge := Some (length (om_overrides om))\<rparr>)"

definition AddOverride ::
  "override_manager \<Rightarrow> time \<Rightarrow> string \<Rightarrow> bool option \<Rightarrow> string option \<Rightarrow> float64 option \<Rightarrow>
   int option \<Rightarrow> string \<Rightarrow> (override_error + rule_override) \<times> override_manager" where
  "AddOverride om now ruleID enabled severity confidence ttlSeconds description =
     (if ruleID = '''' then (Inl RuleIDRequired, om)
      else
        let id' = generateOverrideID now ruleID;
            ov = \<lparr>ov_ID = id', ov_RuleID = ruleID, ov_Enabled = enabled, ov_Severity = severity,
                  ov_Confidence = confidence, ov_TTLSeconds = ttlSeconds, ov_CreatedAt = now,
                  ov_UpdatedAt = now, ov_Description = description\<rparr>
        in (Inr ov, om_update_metrics (om\<lparr>om_overrides := map_set id' ov (om_overrides om)\<rparr>)))"

definition RemoveOverride :: "override_manager \<Rightarrow> string \<Rightarrow> override_error option \<times> override_manager" where
  "RemoveOverride om id' =
     (case map_get (om_overrides om) id' of
        None \<Rightarrow> (Some (OverrideNotFound id'), om)
      | Some _ \<Rightarrow> (None, om_update_metrics (om\<lparr>om_overrides := map_delete id' (om_overrides om)\<rparr>)))"

definition GetOverride :: "override_manager \<Rightarrow> string \<Rightarrow> override_error + rule_override" where
  "GetOverride om id' =
     (case map_get (om_overrides om) id' of
        None \<Rightarrow> Inl (OverrideNotFound id')
      | Some ov \<Rightarrow> Inr ov)"

definition ListOverrides :: "override_manager \<Rightarrow> rule_override_summary list" where
  "ListOverrides om =
     map (\<lambda>ov. \<lparr>os_ID = ov_ID ov, os_RuleID = ov_RuleID ov, os_Enabled = ov_Enabled ov,
                os_Severity = ov_Severity ov, os_Confidence = ov_Confidence ov,
                os_TTLSeconds = ov_TTLSeconds ov, os_CreatedAt = ov_CreatedAt ov,
                os_Description = ov_Description ov\<rparr>)
       (map_values (om_overrides om))"

definition GetOverridesForRule :: "override_manager \<Rightarrow> string \<Rightarrow> rule_override list" where
  "GetOverridesForRule om ruleID = filter (\<lambda>ov. ov_RuleID ov = ruleID) (map_values (om_overrides om))"

text \<open>The body of the loop of \<open>ApplyOverrides\<close>.\<close>

definition apply_override :: "rule_override \<Rightarrow> rule \<Rightarrow> rule" where
  "apply_override ov r =
     (let r1 = (case ov_Enabled ov of None \<Rightarrow> r
                | Some b \<Rightarrow> r\<lparr>ru_Spec := (ru_Spec r)\<lparr>sp_Enabled := b\<rparr>\<rparr>);
          r2 = (case ov_Severity ov of None \<Rightarrow> r1
                | Some s \<Rightarrow> r1\<lparr>ru_Spec := (ru_Spec r1)\<lparr>sp_Outcome :=
                              (sp_Outcome (ru_Spec r1))\<lparr>out_Severity := s\<rparr>\<rparr>\<rparr>);
          r3 = (case ov_Confidence ov of None \<Rightarrow> r2
                | Some c \<Rightarrow> r2\<lparr>ru_Spec := (ru_Spec r2)\<lparr>sp_Outcome :=
                              (sp_Outcome (ru_Spec r2))\<lparr>out_Confidence := c\<rparr>\<rparr>\<rparr>);
          r4 = (case ov_TTLSeconds ov of None \<Rightarrow> r3
                | Some n \<Rightarrow> r3\<lparr>ru_Spec := (ru_Spec r3)\<lparr>sp_TTLSeconds := n\<rparr>\<rparr>)
      in r4)"

definition ApplyOverrides :: "override_manager \<Rightarrow> rule \<Rightarrow> rule" where
  "ApplyOverrides om r =
     (let overrides = GetOverridesForRule om (md_ID (ru_Metadata r))
      in if overrides = [] then r else fold apply_override overrides r)"

record override_stats =
  ost_total_overrides :: nat
  ost_enabled_count :: nat
  ost_disabled_count :: nat

definition OM_GetStats :: "override_manager \<Rightarrow> override_stats" where
  "OM_GetStats om =
     \<lparr>ost_total_overrides = length (om_overrides om),
      ost_enabled_count = length (filter (\<lambda>ov. ov_Enabled ov = Some True) (map_values (om_overrides om))),
      ost_disabled_count = length (filter (\<lambda>ov. ov_Enabled ov = Some False) (map_values (om_overrides om)))\<rparr>"

definition ClearOverrides :: "override_manager \<Rightarrow> override_manager" where
  "ClearOverrides om = om\<lparr>om_overrides := []\<rparr>"

record override_request =
  rq_RuleID :: string
  rq_Enabled :: "bool option"
  rq_Severity :: "string option"
  rq_Confidence :: "float64 option"
  rq_TTLSeconds :: "int option"
  rq_Description :: string

text \<open>\<open>json.Unmarshal\<close> into the request is the argument \<open>decode\<close>.\<close>

definition AddOverrideFromJSON ::
  "(string \<Rightarrow> override_request option) \<Rightarrow> override_manager \<Rightarrow> time \<Rightarrow> string \<Rightarrow>
   (override_error + rule_override) \<times> override_manager" where
  "AddOverrideFromJSON decode om now data =
     (case decode data of
        None \<Rightarrow> (Inl ParseFailed, om)
      | Some rq \<Rightarrow> AddOverride om now (rq_RuleID rq) (rq_Enabled rq) (rq_Severity rq)
                     (rq_Confidence rq) (rq_TTLSeconds rq) (rq_Description rq))"

definition ValidateOverride ::
  "string \<Rightarrow> bool option \<Rightarrow> string option \<Rightarrow> float64 option \<Rightarrow> int option \<Rightarrow> override_error option" where
  "ValidateOverride ruleID enabled severity confidence ttlSeconds =
     (let severity_error =
            (case severity of
               Some s \<Rightarrow> if s \<in> set [''low'', ''medium'', ''high'', ''critical''] then None
                         else Some (InvalidSeverity s)
             | None \<Rightarrow> None);
          confidence_error =
            (case confidence of
               Some c \<Rightarrow> if f_less c (Fin 0) \<or> f_greater c (Fin 1) then Some (InvalidConfidence c) else None
             | None \<Rightarrow> None);
          ttl_error =
            (case ttlSeconds of
               Some n \<Rightarrow> if n < 0 then Some (InvalidTTL n) else None
             | None \<Rightarrow> None)
      in if ruleID = '''' then Some RuleIDRequired
         else if severity_error \<noteq> None then severity_error
         else if confidence_error \<noteq> None then confidence_error
         else ttl_error)"

section \<open>The manager's invariant\<close>

text \<open>Each override is stored under its own identifier and names a rule.\<close>

definition om_inv :: "override_manager \<Rightarrow> bool" where
  "om_inv om \<longleftrightarrow>
     map_ok (om_overrides om)
     \<and> (\<forall>(k, ov) \<in> set (om_overrides om). ov_ID ov = k \<and> ov_RuleID ov \<noteq> '''')"

lemma om_update_metrics_overrides [simp]: "om_overrides (om_update_metrics om) = om_overrides om"
  by (simp add: om_update_metrics_def split: option.splits)

lemma om_inv_new: "om_inv NewOverrideManager"
  by (simp add: om_inv_def NewOverrideManager_def)

lemma om_inv_AddOverride: "om_inv om \<Longrightarrow> om_inv (snd (AddOverride om now rid en sev conf ttl d))"
  by (auto simp: om_inv_def AddOverride_def Let_def set_map_set)

lemma om_inv_RemoveOverride: "om_inv om \<Longrightarrow> om_inv (snd (RemoveOverride om i))"
  by (auto simp: om_inv_def RemoveOverride_def AList.delete_eq map_ok_filter split: option.splits)

lemma om_inv_Clear: "om_inv (ClearOverrides om)"
  by (simp add: om_inv_def ClearOverrides_def)

section \<open>Applying overrides\<close>

lemma apply_override_frame:
  "ru_Metadata (apply_override ov r) = ru_Metadata r"
  "ru_SourceFile (apply_override ov r) = ru_SourceFile r"
  "sp_Selectors (ru_Spec (apply_override ov r)) = sp_Selectors (ru_Spec r)"
  "sp_Condition (ru_Spec (apply_override ov r)) = sp_Condition (ru_Spec r)"
  "sp_Dedupe (ru_Spec (apply_override ov r)) = sp_Dedupe (ru_Spec r)"
  "out_Evidence (sp_Outcome (ru_Spec (apply_override ov r))) = out_Evidence (sp_Outcome (ru_Spec r))"
  by (simp_all add: apply_override_def Let_def split: option.splits)

lemma apply_override_fields:
  "sp_Enabled (ru_Spec (apply_override ov r)) = (case ov_Enabled ov of None \<Rightarrow> sp_Enabled (ru_Spec r) | Some b \<Rightarrow> b)"
  "out_Severity (sp_Outcome (ru_Spec (apply_override ov r))) =
     (case ov_Severity ov of None \<Rightarrow> out_Severity (sp_Outcome (ru_Spec r)) | Some s \<Rightarrow> s)"
  "out_Confidence (sp_Outcome (ru_Spec (apply_override ov r))) =
     (case ov_Confidence ov of None \<Rightarrow> out_Confidence (sp_Outcome (ru_Spec r)) | Some c \<Rightarrow> c)"
  "sp_TTLSeconds (ru_Spec (apply_override ov r)) = (case ov_TTLSeconds ov of None \<Rightarrow> sp_TTLSeconds (ru_Spec r) | Some n \<Rightarrow> n)"
  by (simp_all add: apply_override_def Let_def split: option.splits)

lemma fold_apply_frame:
  "ru_Metadata (fold apply_override ovs r) = ru_Metadata r"
  "sp_Selectors (ru_Spec (fold apply_override ovs r)) = sp_Selectors (ru_Spec r)"
  "sp_Condition (ru_Spec (fold apply_override ovs r)) = sp_Condition (ru_Spec r)"
  "sp_Dedupe (ru_Spec (fold apply_override ovs r)) = sp_Dedupe (ru_Spec r)"
  "out_Evidence (sp_Outcome (ru_Spec (fold apply_override ovs r))) = out_Evidence (sp_Outcome (ru_Spec r))"
  by (induction ovs arbitrary: r) (simp_all add: apply_override_frame)

lemma ApplyOverrides_frame:
  "ru_Metadata (ApplyOverrides om r) = ru_Metadata r"
  "sp_Selectors (ru_Spec (ApplyOverrides om r)) = sp_Selectors (ru_Spec r)"
  "sp_Condition (ru_Spec (ApplyOverrides om r)) = sp_Condition (ru_Spec r)"
  "sp_Dedupe (ru_Spec (ApplyOverrides om r)) = sp_Dedupe (ru_Spec r)"
  "out_Evidence (sp_Outcome (ru_Spec (ApplyOverrides om r))) = out_Evidence (sp_Outcome (ru_Spec r))"
  by (simp_all add: ApplyOverrides_def Let_def fold_apply_frame)

text \<open>The last override of a list that sets a field, else the rule's own value.\<close>

definition last_set :: "(rule_override \<Rightarrow> 'a option) \<Rightarrow> rule_override list \<Rightarrow> 'a \<Rightarrow> 'a" where
  "last_set fld ovs d = fold (\<lambda>ov x. case fld ov of None \<Rightarrow> x | Some y \<Rightarrow> y) ovs d"

lemma fold_apply_fields:
  "sp_Enabled (ru_Spec (fold apply_override ovs r)) = last_set ov_Enabled ovs (sp_Enabled (ru_Spec r))"
  "out_Severity (sp_Outcome (ru_Spec (fold apply_override ovs r))) =
     last_set ov_Severity ovs (out_Severity (sp_Outcome (ru_Spec r)))"
  "out_Confidence (sp_Outcome (ru_Spec (fold apply_override ovs r))) =
     last_set ov_Confidence ovs (out_Confidence (sp_Outcome (ru_Spec r)))"
  "sp_TTLSeconds (ru_Spec (fold apply_override ovs r)) = last_set ov_TTLSeconds ovs (sp_TTLSeconds (ru_Spec r))"
  unfolding last_set_def
  by (induction ovs arbitrary: r) (simp_all add: apply_override_fields)

lemma last_set_None: "(\<forall>ov \<in> set ovs. fld ov = None) \<Longrightarrow> last_set fld ovs d = d"
  unfolding last_set_def by (induction ovs arbitrary: d) auto

lemma last_set_unique:
  assumes "ov \<in> set ovs" "fld ov = Some v"
    and uniq: "\<forall>o' \<in> set ovs. \<forall>v'. fld o' = Some v' \<longrightarrow> v' = v"
  shows "last_set fld ovs d = v"
  using assms unfolding last_set_def
proof (induction ovs arbitrary: d rule: rev_induct)
  case Nil
  then show ?case by simp
next
  case (snoc x xs)
  show ?case
  proof (cases "fld x")
    case None
    with snoc.prems(1,2) have "ov \<in> set xs" by auto
    moreover have "\<forall>o' \<in> set xs. \<forall>v'. fld o' = Some v' \<longrightarrow> v' = v"
      using snoc.prems(3) by simp
    ultimately show ?thesis using snoc.IH [OF _ snoc.prems(2)] None by simp
  next
    case (Some y)
    with snoc.prems(3) show ?thesis by simp
  qed
qed

text \<open>
  What \<open>ApplyOverrides\<close> computes: metadata, selectors, condition, dedupe settings and
  evidence templates stay as they are, and each of the four overridable fields is the value of
  the last override of that rule that sets it, in the order the manager's map is visited.
\<close>

lemma ApplyOverrides_effect:
  "let ovs = GetOverridesForRule om (md_ID (ru_Metadata r)); r' = ApplyOverrides om r in
     ru_Metadata r' = ru_Metadata r
     \<and> sp_Selectors (ru_Spec r') = sp_Selectors (ru_Spec r)
     \<and> sp_Condition (ru_Spec r') = sp_Condition (ru_Spec r)
     \<and> sp_Dedupe (ru_Spec r') = sp_Dedupe (ru_Spec r)
     \<and> out_Evidence (sp_Outcome (ru_Spec r')) = out_Evidence (sp_Outcome (ru_Spec r))
     \<and> sp_Enabled (ru_Spec r') = last_set ov_Enabled ovs (sp_Enabled (ru_Spec r))
     \<and> out_Severity (sp_Outcome (ru_Spec r')) = last_set ov_Severity ovs (out_Severity (sp_Outcome (ru_Spec r)))
     \<and> out_Confidence (sp_Outcome (ru_Spec r'))
         = last_set ov_Confidence ovs (out_Confidence (sp_Outcome (ru_Spec r)))
     \<and> sp_TTLSeconds (ru_Spec r') = last_set ov_TTLSeconds ovs (sp_TTLSeconds (ru_Spec r))"
proof -
  have "ApplyOverrides om r = fold apply_override (GetOverridesForRule om (md_ID (ru_Metadata r))) r"
    by (simp add: ApplyOverrides_def Let_def)
  then show ?thesis by (simp add: Let_def fold_apply_frame fold_apply_fields)
qed

end
