(* ===== verification/Corr_Evaluate.thy ===== *)
theory Corr_Evaluate
  imports Corr_Matcher Corr_Window Corr_Override Corr_Loader
begin

text \<open>
  \<open>internal/rules/evaluate.go\<close>: the rule evaluator. Library functions that are not modelled are
  the fields of \<open>eval_env\<close>: \<open>regexp.MatchString\<close> (\<^term>\<open>None\<close> for a pattern that does not
  compile), \<open>filepath.Match\<close>, the decimal form of a float64 and \<open>Time.Format(RFC3339)\<close>. A handler
  reads the clock once, as its argument \<open>now\<close>. The loop over rules also keeps which rule each
  finding came from; the findings returned are the second components.
\<close>

record eval_env =
  env_regex :: "string \<Rightarrow> string \<Rightarrow> bool option"
  env_glob :: "string \<Rightarrow> string \<Rightarrow> bool option"
  env_fmt_g :: "float64 \<Rightarrow> string"
  env_rfc3339 :: "time \<Rightarrow> string"

section \<open>State\<close>

record cached_labels =
  cl_Labels :: "string list"
  cl_Timestamp :: time

record host_labels_cache =
  hlc_cache :: "(string, cached_labels) gomap"
  hlc_ttlSec :: int

record dedupe_cache =
  dc_cache :: "(string, time) gomap"

record evaluation_metrics =
  m_eventsProcessed :: int
  m_rulesEvaluated :: int
  m_findingsGenerated :: int
  m_findingsDeduplicated :: int
  m_cacheHits :: int
  m_cacheMisses :: int

record evaluator =
  e_windowBuffer :: window_buffer
  e_ruleLoader :: loader
  e_overrideManager :: override_manager
  e_hostLabelsCache :: host_labels_cache
  e_dedupeCache :: dedupe_cache
  e_metrics :: evaluation_metrics

definition NewHostLabelsCache :: "int \<Rightarrow> host_labels_cache" where
  "NewHostLabelsCache ttlSec = \<lparr>hlc_cache = [], hlc_ttlSec = ttlSec\<rparr>"

definition NewDedupeCache :: dedupe_cache where
  "NewDedupeCache = \<lparr>dc_cache = []\<rparr>"

definition NewEvaluator :: "window_buffer \<Rightarrow> loader \<Rightarrow> override_manager \<Rightarrow> int \<Rightarrow> evaluator" where
  "NewEvaluator windowBuffer ruleLoader overrideManager labelTTLSec =
     \<lparr>e_windowBuffer = windowBuffer, e_ruleLoader = ruleLoader, e_overrideManager = overrideManager,
      e_hostLabelsCache = NewHostLabelsCache labelTTLSec, e_dedupeCache = NewDedupeCache,
      e_metrics = \<lparr>m_eventsProcessed = 0, m_rulesEvaluated = 0, m_findingsGenerated = 0,
                   m_findingsDeduplicated = 0, m_cacheHits = 0, m_cacheMisses = 0\<rparr>\<rparr>"

section \<open>Caches and counters\<close>

definition HostLabelsCache_get ::
  "host_labels_cache \<Rightarrow> time \<Rightarrow> string \<Rightarrow> (string list \<times> bool) \<times> host_labels_cache" where
  "HostLabelsCache_get c now hostID =
     (case map_get (hlc_cache c) hostID of
        None \<Rightarrow> (([], False), c)
      | Some cached \<Rightarrow>
          if time_sub now (cl_Timestamp cached) > seconds (hlc_ttlSec c)
          then (([], False), c\<lparr>hlc_cache := map_delete hostID (hlc_cache c)\<rparr>)
          else ((cl_Labels cached, True), c))"

definition HostLabelsCache_set ::
  "host_labels_cache \<Rightarrow> time \<Rightarrow> string \<Rightarrow> string list \<Rightarrow> host_labels_cache" where
  "HostLabelsCache_set c now hostID labels =
     c\<lparr>hlc_cache := map_set hostID \<lparr>cl_Labels = labels, cl_Timestamp = now\<rparr> (hlc_cache c)\<rparr>"

definition HostLabelsCache_clear :: "host_labels_cache \<Rightarrow> host_labels_cache" where
  "HostLabelsCache_clear c = c\<lparr>hlc_cache := []\<rparr>"

definition isWithinCooldown :: "dedupe_cache \<Rightarrow> time \<Rightarrow> string \<Rightarrow> duration \<Rightarrow> bool" where
  "isWithinCooldown c now key cooldown =
     (case map_get (dc_cache c) key of
        None \<Rightarrow> False
      | Some timestamp \<Rightarrow> time_sub now timestamp < cooldown)"

definition DedupeCache_set :: "dedupe_cache \<Rightarrow> string \<Rightarrow> time \<Rightarrow> dedupe_cache" where
  "DedupeCache_set c key timestamp = c\<lparr>dc_cache := map_set key timestamp (dc_cache c)\<rparr>"

definition DedupeCache_clear :: "dedupe_cache \<Rightarrow> dedupe_cache" where
  "DedupeCache_clear c = c\<lparr>dc_cache := []\<rparr>"

definition incrementEventsProcessed :: "evaluation_metrics \<Rightarrow> evaluation_metrics" where
  "incrementEventsProcessed m = m\<lparr>m_eventsProcessed := wrap64 (m_eventsProcessed m + 1)\<rparr>"

definition incrementRulesEvaluated :: "evaluation_metrics \<Rightarrow> evaluation_metrics" where
  "incrementRulesEvaluated m = m\<lparr>m_rulesEvaluated := wrap64 (m_rulesEvaluated m + 1)\<rparr>"

definition incrementFindingsGenerated :: "evaluation_metrics \<Rightarrow> evaluation_metrics" where
  "incrementFindingsGenerated m = m\<lparr>m_findingsGenerated := wrap64 (m_findingsGenerated m + 1)\<rparr>"

definition incrementFindingsDeduplicated :: "evaluation_metrics \<Rightarrow> evaluation_metrics" where
  "incrementFindingsDeduplicated m = m\<lparr>m_findingsDeduplicated := wrap64 (m_findingsDeduplicated m + 1)\<rparr>"

definition incrementCacheHits :: "evaluation_metrics \<Rightarrow> evaluation_metrics" where
  "incrementCacheHits m = m\<lparr>m_cacheHits := wrap64 (m_cacheHits m + 1)\<rparr>"

definition incrementCacheMisses :: "evaluation_metrics \<Rightarrow> evaluation_metrics" where
  "incrementCacheMisses m = m\<lparr>m_cacheMisses := wrap64 (m_cacheMisses m + 1)\<rparr>"

record metrics_report =
  mr_counters :: evaluation_metrics
  mr_cache_hit_ratio :: float64

text \<open>The ratio is a float64 division of two converted int64, up to rounding.\<close>

definition getMetrics :: "evaluation_metrics \<Rightarrow> metrics_report" where
  "getMetrics m =
     (let total = wrap64 (m_cacheHits m + m_cacheMisses m + 1)
      in \<lparr>mr_counters = m,
          mr_cache_hit_ratio =
            (if total = 0 then (if m_cacheHits m = 0 then NaN else if m_cacheHits m > 0 then PosInf else NegInf)
             else Fin (of_int (m_cacheHits m) / of_int total))\<rparr>)"

section \<open>Matching\<close>

text \<open>Reading a key of a map that may be nil.\<close>

definition opt_get :: "('k, 'v) gomap option \<Rightarrow> 'k \<Rightarrow> 'v option" where
  "opt_get m k = (case m of None \<Rightarrow> None | Some m' \<Rightarrow> map_get m' k)"

definition matchArgsPattern ::
  "eval_env \<Rightarrow> (string, gval) gomap option \<Rightarrow> (string, string) gomap \<Rightarrow> bool" where
  "matchArgsPattern env eventArgs patternArgs =
     list_all (\<lambda>(key, expectedValue).
        (case opt_get eventArgs key of
           None \<Rightarrow> False
         | Some actualValue \<Rightarrow> fmt_v (env_fmt_g env) actualValue = expectedValue)) patternArgs"

definition matchContextPattern ::
  "eval_env \<Rightarrow> (string, gval) gomap option \<Rightarrow> (string, string) gomap \<Rightarrow> bool" where
  "matchContextPattern env eventContext patternContext =
     list_all (\<lambda>(key, expectedValue).
        (case opt_get eventContext key of
           None \<Rightarrow> False
         | Some actualValue \<Rightarrow> fmt_v (env_fmt_g env) actualValue = expectedValue)) patternContext"

definition eventMatchesPattern :: "eval_env \<Rightarrow> event \<Rightarrow> event_pattern \<Rightarrow> bool" where
  "eventMatchesPattern env ev pat =
     (if pat_EventType pat \<noteq> '''' \<and> pat_EventType pat \<noteq> ev_EventType ev then False
      else if pat_BinaryPathRegex pat \<noteq> ''''
              \<and> env_regex env (pat_BinaryPathRegex pat) (ev_BinaryPath ev) \<noteq> Some True then False
      else if (case pat_Args pat of None \<Rightarrow> False | Some a \<Rightarrow> \<not> matchArgsPattern env (ev_Args ev) a) then False
      else if (case pat_Context pat of None \<Rightarrow> False
               | Some c \<Rightarrow> \<not> matchContextPattern env (ev_Context ev) c) then False
      else True)"

definition hasPriorEventMatchingPattern ::
  "eval_env \<Rightarrow> window_buffer \<Rightarrow> time \<Rightarrow> event \<Rightarrow> event_pattern \<Rightarrow> duration \<Rightarrow> bool" where
  "hasPriorEventMatchingPattern env wb now ev pat windowDuration =
     list_ex (\<lambda>prior.
        \<not> (ev_Timestamp prior = ev_Timestamp ev \<and> ev_EventType prior = ev_EventType ev)
        \<and> eventMatchesPattern env prior pat)
       (WB_RecentEvents wb now (ev_HostID ev) windowDuration)"

definition evaluateWhenConditions :: "eval_env \<Rightarrow> event \<Rightarrow> condition \<Rightarrow> bool" where
  "evaluateWhenConditions env ev cond =
     (if (case map_get (cond_When cond) ''any_of'' of
            Some (Patterns ps) \<Rightarrow> list_ex (eventMatchesPattern env ev) ps
          | _ \<Rightarrow> False) then True
      else (case map_get (cond_When cond) ''all_of'' of
              Some (Patterns ps) \<Rightarrow> list_all (eventMatchesPattern env ev) ps
            | _ \<Rightarrow> False))"

definition evaluateRequiresPriorConditions ::
  "eval_env \<Rightarrow> window_buffer \<Rightarrow> time \<Rightarrow> event \<Rightarrow> condition \<Rightarrow> bool" where
  "evaluateRequiresPriorConditions env wb now ev cond =
     (case cond_RequiresPrior cond of
        None \<Rightarrow> True
      | Some prior \<Rightarrow>
          let windowDuration = seconds (cond_WindowSeconds cond);
              has = (\<lambda>p. hasPriorEventMatchingPattern env wb now ev p windowDuration)
          in if (case map_get prior ''any_of'' of
                   Some (Patterns ps) \<Rightarrow> list_ex has ps
                 | _ \<Rightarrow> False) then True
             else (case map_get prior ''all_of'' of
                     Some (Patterns ps) \<Rightarrow> list_all has ps
                   | _ \<Rightarrow> True))"

section \<open>Templates and evidence\<close>

definition replace_fields ::
  "eval_env \<Rightarrow> string \<Rightarrow> (string, gval) gomap option \<Rightarrow> string \<Rightarrow> string" where
  "replace_fields env prefix' fields' result =
     (case fields' of
        None \<Rightarrow> result
      | Some m \<Rightarrow> fold (\<lambda>(key, v) s. replace_all s (''{'' @ prefix' @ ''.'' @ key @ ''}'')
                                       (fmt_v (env_fmt_g env) v)) m result)"

definition renderTemplate :: "eval_env \<Rightarrow> string \<Rightarrow> event \<Rightarrow> rule \<Rightarrow> string" where
  "renderTemplate env template ev r =
     (let result1 = replace_all template ''{event_type}'' (ev_EventType ev);
          result2 = replace_all result1 ''{binary_path}'' (ev_BinaryPath ev);
          result3 = replace_all result2 ''{host_id}'' (ev_HostID ev);
          result4 = replace_all result3 ''{timestamp}'' (env_rfc3339 env (ev_Timestamp ev));
          result5 = replace_fields env ''args'' (ev_Args ev) result4;
          result6 = replace_fields env ''context'' (ev_Context ev) result5;
          result7 = replace_all result6 ''{rule.id}'' (md_ID (ru_Metadata r));
          result8 = replace_all result7 ''{rule.name}'' (md_Name (ru_Metadata r))
      in replace_all result8 ''{rule.version}'' (md_Version (ru_Metadata r)))"

definition renderEvidence ::
  "eval_env \<Rightarrow> window_buffer \<Rightarrow> time \<Rightarrow> event \<Rightarrow> rule \<Rightarrow> condition \<Rightarrow> evidence list" where
  "renderEvidence env wb now ev r cond =
     (let current =
            \<lparr>evd_Type = ''event'',
             evd_Description = renderTemplate env ''Rule triggered by {event_type} event'' ev r,
             evd_Data = [(''event_type'', EvString (ev_EventType ev)),
                         (''binary_path'', EvString (ev_BinaryPath ev)),
                         (''args'', EvMap (ev_Args ev)),
                         (''context'', EvMap (ev_Context ev)),
                         (''timestamp'', EvTime (ev_Timestamp ev))],
             evd_Timestamp = ev_Timestamp ev\<rparr>;
          rendered =
            map (\<lambda>t. \<lparr>evd_Type = ''rule'', evd_Description = renderTemplate env t ev r,
                      evd_Data = [(''template'', EvString t),
                                  (''rule_id'', EvString (md_ID (ru_Metadata r)))],
                      evd_Timestamp = now\<rparr>)
              (out_Evidence (sp_Outcome (ru_Spec r)));
          recentEvents = WB_RecentEvents wb now (ev_HostID ev) (seconds (cond_WindowSeconds cond));
          context' =
            (if length recentEvents > 1 then
               [\<lparr>evd_Type = ''context'',
                 evd_Description = ''Found '' @ itoa (int (length recentEvents)) @ '' related events in ''
                   @ itoa (cond_WindowSeconds cond) @ '' second window'',
                 evd_Data = [(''event_count'', EvInt (int (length recentEvents))),
                             (''window_seconds'', EvInt (cond_WindowSeconds cond)),
                             (''related_events'', EvEvents recentEvents)],
                 evd_Timestamp = now\<rparr>]
             else [])
      in current # rendered @ context')"

definition generateFindingID :: "string \<Rightarrow> string \<Rightarrow> time \<Rightarrow> string" where
  "generateFindingID hostID ruleID eventTimestamp =
     hostID @ ''-'' @ ruleID @ ''-'' @ itoa (eventTimestamp div 1000000000)"

definition evaluateRule :: "eval_env \<Rightarrow> window_buffer \<Rightarrow> time \<Rightarrow> event \<Rightarrow> rule \<Rightarrow> finding option" where
  "evaluateRule env wb now ev r =
     (let cond = sp_Condition (ru_Spec r);
          out = sp_Outcome (ru_Spec r)
      in if \<not> evaluateWhenConditions env ev cond then None
         else if \<not> evaluateRequiresPriorConditions env wb now ev cond then None
         else Some \<lparr>fd_ID = generateFindingID (ev_HostID ev) (md_ID (ru_Metadata r)) (ev_Timestamp ev),
                    fd_Severity = out_Severity out,
                    fd_Confidence = out_Confidence out,
                    fd_Status = ''open'',
                    fd_HostID = ev_HostID ev,
                    fd_CVE = '''',
                    fd_Evidence = renderEvidence env wb now ev r cond,
                    fd_Timestamp = now,
                    fd_RuleID = md_ID (ru_Metadata r),
                    fd_TTLSeconds = sp_TTLSeconds (ru_Spec r)\<rparr>)"

section \<open>Labels\<close>

definition label_words :: "(string, gval) gomap \<Rightarrow> string \<Rightarrow> string list" where
  "label_words context' field =
     (case map_get context' field of
        Some (VStr s) \<Rightarrow> if s \<noteq> '''' then go_fields (replace_all s '','' '' '') else []
      | _ \<Rightarrow> [])"

definition extractLabelsFromContext :: "(string, gval) gomap \<Rightarrow> string list" where
  "extractLabelsFromContext context' =
     label_words context' ''labels'' @ label_words context' ''tags''
     @ concat (map (\<lambda>(key, v).
          if key = ''labels'' \<or> key = ''tags'' then []
          else (case v of VStr s \<Rightarrow> if s \<noteq> '''' then [key @ '':'' @ s] else [] | _ \<Rightarrow> [])) context')"

definition updateHostLabelsCache :: "evaluator \<Rightarrow> time \<Rightarrow> event \<Rightarrow> evaluator" where
  "updateHostLabelsCache e now ev =
     (case ev_Context ev of
        None \<Rightarrow> e
      | Some context' \<Rightarrow>
          let labels = extractLabelsFromContext context'
          in if labels \<noteq> [] then
               e\<lparr>e_hostLabelsCache := HostLabelsCache_set (e_hostLabelsCache e) now (ev_HostID ev) labels\<rparr>
             else e)"

definition getHostLabels :: "evaluator \<Rightarrow> time \<Rightarrow> string \<Rightarrow> string list \<times> evaluator" where
  "getHostLabels e now hostID =
     (case HostLabelsCache_get (e_hostLabelsCache e) now hostID of
        ((labels, hit), c) \<Rightarrow>
          (labels, e\<lparr>e_hostLabelsCache := c,
                     e_metrics := (if hit then incrementCacheHits (e_metrics e)
                                   else incrementCacheMisses (e_metrics e))\<rparr>))"

section \<open>Deduplication\<close>

definition renderDedupeKey :: "eval_env \<Rightarrow> finding \<Rightarrow> rule \<Rightarrow> string" where
  "renderDedupeKey env f r =
     renderTemplate env (dd_KeyTemplate (sp_Dedupe (ru_Spec r)))
       \<lparr>ev_Timestamp = zero_time, ev_HostID = fd_HostID f, ev_EventType = '''', ev_BinaryPath = '''',
        ev_Args = None, ev_Context = None\<rparr> r"

definition shouldDedupe :: "eval_env \<Rightarrow> dedupe_cache \<Rightarrow> time \<Rightarrow> finding \<Rightarrow> rule \<Rightarrow> bool" where
  "shouldDedupe env c now f r =
     (if dd_KeyTemplate (sp_Dedupe (ru_Spec r)) = '''' then False
      else isWithinCooldown c now (renderDedupeKey env f r)
             (seconds (dd_CooldownSeconds (sp_Dedupe (ru_Spec r)))))"

definition recordDedupeKey :: "eval_env \<Rightarrow> dedupe_cache \<Rightarrow> time \<Rightarrow> finding \<Rightarrow> rule \<Rightarrow> dedupe_cache" where
  "recordDedupeKey env c now f r =
     (if dd_KeyTemplate (sp_Dedupe (ru_Spec r)) = '''' then c
      else DedupeCache_set c (renderDedupeKey env f r) now)"

section \<open>Processing an event\<close>

text \<open>The body of the loop over the effective rules.\<close>

definition process_rule ::
  "eval_env \<Rightarrow> time \<Rightarrow> event \<Rightarrow> rule \<Rightarrow> evaluator \<times> (rule \<times> finding) list \<Rightarrow>
   evaluator \<times> (rule \<times> finding) list" where
  "process_rule env now ev r s =
     (case s of (e, findings) \<Rightarrow>
        let e1 = e\<lparr>e_metrics := incrementRulesEvaluated (e_metrics e)\<rparr>;
            modifiedRule = ApplyOverrides (e_overrideManager e1) r
        in case evaluateRule env (e_windowBuffer e1) now ev modifiedRule of
             None \<Rightarrow> (e1, findings)
           | Some f \<Rightarrow>
               if shouldDedupe env (e_dedupeCache e1) now f r then
                 (e1\<lparr>e_metrics := incrementFindingsDeduplicated (e_metrics e1)\<rparr>, findings)
               else
                 (e1\<lparr>e_dedupeCache := recordDedupeKey env (e_dedupeCache e1) now f r,
                     e_metrics := incrementFindingsGenerated (e_metrics e1)\<rparr>,
                  findings @ [(r, f)]))"

definition effective_rules :: "eval_env \<Rightarrow> evaluator \<Rightarrow> time \<Rightarrow> event \<Rightarrow> rule list \<times> evaluator" where
  "effective_rules env e now ev =
     (let e1 = e\<lparr>e_metrics := incrementEventsProcessed (e_metrics e)\<rparr>;
          e2 = e1\<lparr>e_windowBuffer := WB_Add (e_windowBuffer e1) now (Some ev)\<rparr>;
          e3 = updateHostLabelsCache e2 now ev
      in case getHostLabels e3 now (ev_HostID ev) of
           (labels, e4) \<Rightarrow>
             (EffectiveRulesFor (env_glob env) (ev_HostID ev) labels
                (sn_Rules (GetSnapshot (e_ruleLoader e4))), e4))"

definition OnEvent_pairs ::
  "eval_env \<Rightarrow> evaluator \<Rightarrow> time \<Rightarrow> event option \<Rightarrow> evaluator \<times> (rule \<times> finding) list" where
  "OnEvent_pairs env e now event =
     (case event of
        None \<Rightarrow> (e, [])
      | Some ev \<Rightarrow>
          (case effective_rules env e now ev of
             (effectiveRules, e4) \<Rightarrow> fold (process_rule env now ev) effectiveRules (e4, [])))"

definition OnEvent :: "eval_env \<Rightarrow> evaluator \<Rightarrow> time \<Rightarrow> event option \<Rightarrow> finding list \<times> evaluator" where
  "OnEvent env e now event =
     (case OnEvent_pairs env e now event of (e', ps) \<Rightarrow> (map snd ps, e'))"

end
