(* ===== verification/Corr_Correctness.thy ===== *)
theory Corr_Correctness
  imports Corr_Evaluate
begin

text \<open>
  What the evaluator guarantees about the findings it emits: each is justified by an effective
  rule whose conditions hold, no effective rule that fires is lost, the cooldown of a rule's
  dedupe key is respected over whole runs, the counters add up; and two facts about what the
  code does not do (rules as the YAML decoder leaves them never fire, and the \<open>enabled\<close> override
  has no effect).
\<close>

section \<open>The loop over rules\<close>

lemma process_rule_frame:
  "e_windowBuffer (fst (process_rule env now ev r s)) = e_windowBuffer (fst s)"
  "e_ruleLoader (fst (process_rule env now ev r s)) = e_ruleLoader (fst s)"
  "e_overrideManager (fst (process_rule env now ev r s)) = e_overrideManager (fst s)"
  "e_hostLabelsCache (fst (process_rule env now ev r s)) = e_hostLabelsCache (fst s)"
  by (auto simp: process_rule_def Let_def split: prod.splits option.splits)

lemma fold_process_frame:
  "e_windowBuffer (fst (fold (process_rule env now ev) rs s)) = e_windowBuffer (fst s)"
  "e_ruleLoader (fst (fold (process_rule env now ev) rs s)) = e_ruleLoader (fst s)"
  "e_overrideManager (fst (fold (process_rule env now ev) rs s)) = e_overrideManager (fst s)"
  "e_hostLabelsCache (fst (fold (process_rule env now ev) rs s)) = e_hostLabelsCache (fst s)"
  by (induction rs arbitrary: s) (simp_all add: process_rule_frame)

lemma process_rule_pairs:
  "snd (process_rule env now ev r s) =
     snd s @ (case evaluateRule env (e_windowBuffer (fst s)) now ev
                     (ApplyOverrides (e_overrideManager (fst s)) r) of
                None \<Rightarrow> []
              | Some f \<Rightarrow> if shouldDedupe env (e_dedupeCache (fst s)) now f r then [] else [(r, f)])"
  by (auto simp: process_rule_def Let_def split: prod.splits option.splits)

lemma process_rule_dedupe:
  "e_dedupeCache (fst (process_rule env now ev r s)) =
     (case evaluateRule env (e_windowBuffer (fst s)) now ev
             (ApplyOverrides (e_overrideManager (fst s)) r) of
        None \<Rightarrow> e_dedupeCache (fst s)
      | Some f \<Rightarrow> if shouldDedupe env (e_dedupeCache (fst s)) now f r then e_dedupeCache (fst s)
                  else recordDedupeKey env (e_dedupeCache (fst s)) now f r)"
  by (auto simp: process_rule_def Let_def split: prod.splits option.splits)

lemma fold_process_pairs_mono: "set (snd s) \<subseteq> set (snd (fold (process_rule env now ev) rs s))"
proof (induction rs arbitrary: s)
  case Nil
  then show ?case by simp
next
  case (Cons r rs)
  have "set (snd s) \<subseteq> set (snd (process_rule env now ev r s))"
    by (simp add: process_rule_pairs)
  also have "\<dots> \<subseteq> set (snd (fold (process_rule env now ev) rs (process_rule env now ev r s)))"
    by (rule Cons.IH)
  finally show ?case by simp
qed

lemma fold_process_sound:
  assumes "(r, f) \<in> set (snd (fold (process_rule env now ev) rs s))"
  shows "(r, f) \<in> set (snd s) \<or>
    r \<in> set rs \<and> evaluateRule env (e_windowBuffer (fst s)) now ev
                    (ApplyOverrides (e_overrideManager (fst s)) r) = Some f"
  using assms
proof (induction rs arbitrary: s)
  case Nil
  then show ?case by simp
next
  case (Cons x rs)
  from Cons.IH [of "process_rule env now ev x s"] Cons.prems
  consider "(r, f) \<in> set (snd (process_rule env now ev x s))"
    | "r \<in> set rs" "evaluateRule env (e_windowBuffer (fst s)) now ev
                    (ApplyOverrides (e_overrideManager (fst s)) r) = Some f"
    by (auto simp: process_rule_frame)
  then show ?case
  proof cases
    case 1
    then show ?thesis
      by (auto simp: process_rule_pairs split: option.splits if_splits)
  next
    case 2
    then show ?thesis by auto
  qed
qed

lemma fold_process_complete:
  assumes "r \<in> set rs" "dd_KeyTemplate (sp_Dedupe (ru_Spec r)) = ''''"
    and "evaluateRule env (e_windowBuffer (fst s)) now ev
           (ApplyOverrides (e_overrideManager (fst s)) r) = Some f"
  shows "(r, f) \<in> set (snd (fold (process_rule env now ev) rs s))"
  using assms
proof (induction rs arbitrary: s)
  case Nil
  then show ?case by simp
next
  case (Cons x rs)
  show ?case
  proof (cases "r = x")
    case True
    have "\<not> shouldDedupe env (e_dedupeCache (fst s)) now f r"
      using Cons.prems(2) by (simp add: shouldDedupe_def)
    with True Cons.prems(3) have "(r, f) \<in> set (snd (process_rule env now ev x s))"
      by (simp add: process_rule_pairs)
    then show ?thesis
      using fold_process_pairs_mono [of "process_rule env now ev x s" env now ev rs] by auto
  next
    case False
    with Cons.prems have "r \<in> set rs" by simp
    from Cons.IH [OF this Cons.prems(2), of "process_rule env now ev x s"] Cons.prems(3)
    show ?thesis by (simp add: process_rule_frame)
  qed
qed

section \<open>The preparation of an event\<close>

lemma effective_rules_frame:
  "e_windowBuffer (snd (effective_rules env e now ev)) = WB_Add (e_windowBuffer e) now (Some ev)"
  "e_ruleLoader (snd (effective_rules env e now ev)) = e_ruleLoader e"
  "e_overrideManager (snd (effective_rules env e now ev)) = e_overrideManager e"
  "e_dedupeCache (snd (effective_rules env e now ev)) = e_dedupeCache e"
  by (simp_all add: effective_rules_def getHostLabels_def updateHostLabelsCache_def Let_def
      split: prod.splits option.splits)

lemma effective_rules_subset:
  "set (fst (effective_rules env e now ev)) \<subseteq> set (sn_Rules (GetSnapshot (e_ruleLoader e)))"
  by (auto simp: effective_rules_def getHostLabels_def updateHostLabelsCache_def Let_def
      EffectiveRulesFor_def split: prod.splits option.splits if_splits)

lemma OnEvent_pairs_Some:
  "OnEvent_pairs env e now (Some ev) =
     fold (process_rule env now ev) (fst (effective_rules env e now ev))
       (snd (effective_rules env e now ev), [])"
  by (simp add: OnEvent_pairs_def split: prod.splits)

lemma OnEvent_pair_sound:
  assumes "(r, f) \<in> set (snd (OnEvent_pairs env e now (Some ev)))"
  shows "r \<in> set (fst (effective_rules env e now ev))"
    "evaluateRule env (WB_Add (e_windowBuffer e) now (Some ev)) now ev
       (ApplyOverrides (e_overrideManager e) r) = Some f"
  using fold_process_sound [of r f env now ev "fst (effective_rules env e now ev)"
      "(snd (effective_rules env e now ev), [])"] assms
  by (simp_all add: OnEvent_pairs_Some effective_rules_frame)

lemma evaluateRule_Some:
  assumes "evaluateRule env wb now ev r = Some f"
  shows "evaluateWhenConditions env ev (sp_Condition (ru_Spec r))"
    "evaluateRequiresPriorConditions env wb now ev (sp_Condition (ru_Spec r))"
    "fd_HostID f = ev_HostID ev" "fd_RuleID f = md_ID (ru_Metadata r)" "fd_Status f = ''open''"
    "fd_Severity f = out_Severity (sp_Outcome (ru_Spec r))"
    "fd_Confidence f = out_Confidence (sp_Outcome (ru_Spec r))"
    "fd_TTLSeconds f = sp_TTLSeconds (ru_Spec r)"
  using assms by (auto simp: evaluateRule_def Let_def split: if_splits)

section \<open>Findings are justified and complete\<close>

text \<open>
  C1. Every finding \<open>OnEvent\<close> returns comes from a rule of the current snapshot that applies to
  the event's host, whose \<open>when\<close> condition the event satisfies and whose prior events are in the
  window buffer (with the event itself already added); it is open, belongs to the event's host
  and carries the severity, confidence and TTL of the rule after overrides.
\<close>

theorem OnEvent_findings_justified:
  assumes "OnEvent env e now (Some ev) = (fs, e')" and "f \<in> set fs"
  shows "\<exists>r \<in> set (fst (effective_rules env e now ev)).
    r \<in> set (sn_Rules (GetSnapshot (e_ruleLoader e)))
    \<and> evaluateWhenConditions env ev (sp_Condition (ru_Spec r))
    \<and> evaluateRequiresPriorConditions env (WB_Add (e_windowBuffer e) now (Some ev)) now ev
        (sp_Condition (ru_Spec r))
    \<and> fd_RuleID f = md_ID (ru_Metadata r) \<and> fd_HostID f = ev_HostID ev \<and> fd_Status f = ''open''
    \<and> fd_Severity f = out_Severity (sp_Outcome (ru_Spec (ApplyOverrides (e_overrideManager e) r)))
    \<and> fd_Confidence f = out_Confidence (sp_Outcome (ru_Spec (ApplyOverrides (e_overrideManager e) r)))
    \<and> fd_TTLSeconds f = sp_TTLSeconds (ru_Spec (ApplyOverrides (e_overrideManager e) r))"
proof -
  from assms obtain r where "(r, f) \<in> set (snd (OnEvent_pairs env e now (Some ev)))"
    by (auto simp: OnEvent_def split: prod.splits)
  note r = OnEvent_pair_sound(1) [OF this] and ev = OnEvent_pair_sound(2) [OF this]
  show ?thesis
    using r subsetD [OF effective_rules_subset [of env e now ev] r] evaluateRule_Some [OF ev]
    by (intro bexI [of _ r]) (simp_all add: ApplyOverrides_frame)
qed

text \<open>
  C2. No match is lost: an effective rule without a dedupe key whose conditions hold for the
  event contributes its finding to the result of \<open>OnEvent\<close>.
\<close>

theorem OnEvent_complete:
  assumes "r \<in> set (fst (effective_rules env e now ev))"
    and "dd_KeyTemplate (sp_Dedupe (ru_Spec r)) = ''''"
    and "evaluateWhenConditions env ev (sp_Condition (ru_Spec r))"
    and "evaluateRequiresPriorConditions env (WB_Add (e_windowBuffer e) now (Some ev)) now ev
           (sp_Condition (ru_Spec r))"
  shows "\<exists>f \<in> set (fst (OnEvent env e now (Some ev))).
           fd_RuleID f = md_ID (ru_Metadata r) \<and> fd_HostID f = ev_HostID ev"
proof -
  let ?r' = "ApplyOverrides (e_overrideManager e) r"
  let ?wb = "WB_Add (e_windowBuffer e) now (Some ev)"
  from assms(3,4) obtain f where f: "evaluateRule env ?wb now ev ?r' = Some f"
    by (simp add: evaluateRule_def Let_def ApplyOverrides_frame)
  have "(r, f) \<in> set (snd (OnEvent_pairs env e now (Some ev)))"
    using fold_process_complete [OF assms(1,2), of env "(snd (effective_rules env e now ev), [])" now ev f] f
    by (simp add: OnEvent_pairs_Some effective_rules_frame)
  then have "f \<in> set (fst (OnEvent env e now (Some ev)))"
    by (force simp: OnEvent_def split: prod.splits)
  with evaluateRule_Some(3,4) [OF f] show ?thesis
    by (auto simp: ApplyOverrides_frame)
qed

section \<open>Cooldown over whole runs\<close>

text \<open>
  Between two events the rules may be reloaded, the overrides changed and the window buffer
  collected; the dedupe cache is written only by \<open>OnEvent\<close> (and emptied by its own \<open>clear\<close>, which
  no code calls).
\<close>

datatype eval_op =
    OpEvent time event
  | OpReload loader
  | OpOverrides override_manager
  | OpGC time

fun run_ops :: "eval_env \<Rightarrow> evaluator \<Rightarrow> eval_op list \<Rightarrow> evaluator" where
  "run_ops env e [] = e"
| "run_ops env e (OpEvent now ev # ops) = run_ops env (snd (OnEvent env e now (Some ev))) ops"
| "run_ops env e (OpReload l # ops) = run_ops env (e\<lparr>e_ruleLoader := l\<rparr>) ops"
| "run_ops env e (OpOverrides om # ops) = run_ops env (e\<lparr>e_overrideManager := om\<rparr>) ops"
| "run_ops env e (OpGC now # ops) =
     run_ops env (e\<lparr>e_windowBuffer := WB_GC (e_windowBuffer e) now\<rparr>) ops"

fun op_not_before :: "time \<Rightarrow> eval_op \<Rightarrow> bool" where
  "op_not_before t (OpEvent now ev) = (t \<le> now)"
| "op_not_before t _ = True"

definition recorded_since :: "time \<Rightarrow> string \<Rightarrow> dedupe_cache \<Rightarrow> bool" where
  "recorded_since t0 k c = (case map_get (dc_cache c) k of None \<Rightarrow> False | Some t \<Rightarrow> t0 \<le> t)"

lemma time_sub_antimono: "t0 \<le> t \<Longrightarrow> time_sub now t \<le> time_sub now t0"
  by (simp add: time_sub_def max_def min_def)

lemma recorded_since_process:
  assumes "t0 \<le> now" "recorded_since t0 k (e_dedupeCache (fst s))"
  shows "recorded_since t0 k (e_dedupeCache (fst (process_rule env now ev r s)))"
  using assms
  by (auto simp: process_rule_dedupe recordDedupeKey_def DedupeCache_set_def recorded_since_def
      split: option.splits)

lemma recorded_since_fold:
  assumes "t0 \<le> now" "recorded_since t0 k (e_dedupeCache (fst s))"
  shows "recorded_since t0 k (e_dedupeCache (fst (fold (process_rule env now ev) rs s)))"
  using assms(2)
  by (induction rs arbitrary: s) (simp_all add: recorded_since_process [OF assms(1)])

lemma recorded_since_not_deduped:
  assumes "recorded_since t0 (renderDedupeKey env f r) c" "\<not> shouldDedupe env c now f r"
    and "dd_KeyTemplate (sp_Dedupe (ru_Spec r)) \<noteq> ''''"
  shows "\<not> time_sub now t0 < seconds (dd_CooldownSeconds (sp_Dedupe (ru_Spec r)))"
proof -
  from assms obtain t where "t0 \<le> t"
    "\<not> time_sub now t < seconds (dd_CooldownSeconds (sp_Dedupe (ru_Spec r)))"
    by (auto simp: recorded_since_def shouldDedupe_def isWithinCooldown_def split: option.splits)
  with time_sub_antimono [of t0 t now] show ?thesis by simp
qed

lemma fold_process_records:
  assumes "(r, f) \<in> set (snd (fold (process_rule env now ev) rs s))" "(r, f) \<notin> set (snd s)"
    and key: "dd_KeyTemplate (sp_Dedupe (ru_Spec r)) \<noteq> ''''"
  shows "recorded_since now (renderDedupeKey env f r)
           (e_dedupeCache (fst (fold (process_rule env now ev) rs s)))"
  using assms(1,2)
proof (induction rs arbitrary: s)
  case Nil
  then show ?case by simp
next
  case (Cons x rs)
  show ?case
  proof (cases "(r, f) \<in> set (snd (process_rule env now ev x s))")
    case True
    with Cons.prems(2) key
    have "recorded_since now (renderDedupeKey env f r) (e_dedupeCache (fst (process_rule env now ev x s)))"
      by (auto simp: process_rule_pairs process_rule_dedupe recordDedupeKey_def DedupeCache_set_def
          recorded_since_def split: option.splits if_splits)
    then show ?thesis using recorded_since_fold [of now now] by simp
  next
    case False
    with Cons show ?thesis by simp
  qed
qed

lemma fold_process_cooldown:
  assumes "(r, f) \<in> set (snd (fold (process_rule env now ev) rs s))" "(r, f) \<notin> set (snd s)"
    and "recorded_since t0 (renderDedupeKey env f r) (e_dedupeCache (fst s))" "t0 \<le> now"
    and key: "dd_KeyTemplate (sp_Dedupe (ru_Spec r)) \<noteq> ''''"
  shows "\<not> time_sub now t0 < seconds (dd_CooldownSeconds (sp_Dedupe (ru_Spec r)))"
  using assms(1-3)
proof (induction rs arbitrary: s)
  case Nil
  then show ?case by simp
next
  case (Cons x rs)
  show ?case
  proof (cases "(r, f) \<in> set (snd (process_rule env now ev x s))")
    case True
    with Cons.prems(2) have "\<not> shouldDedupe env (e_dedupeCache (fst s)) now f r"
      by (auto simp: process_rule_pairs split: option.splits if_splits)
    from recorded_since_not_deduped [OF Cons.prems(3) this key] show ?thesis .
  next
    case False
    from Cons.IH [OF _ False recorded_since_process [OF assms(4) Cons.prems(3)]] Cons.prems(1)
    show ?thesis by simp
  qed
qed

lemma OnEvent_state: "snd (OnEvent env e now ev) = fst (OnEvent_pairs env e now ev)"
  by (simp add: OnEvent_def split: prod.splits)

lemma recorded_since_run:
  assumes "list_all (op_not_before t0) ops" "recorded_since t0 k (e_dedupeCache e)"
  shows "recorded_since t0 k (e_dedupeCache (run_ops env e ops))"
  using assms
proof (induction env e ops rule: run_ops.induct)
  case (2 env e now ev ops)
  then have "recorded_since t0 k (e_dedupeCache (snd (OnEvent env e now (Some ev))))"
    by (simp add: OnEvent_state OnEvent_pairs_Some recorded_since_fold effective_rules_frame)
  with 2 show ?case by simp
qed simp_all

text \<open>
  C3. A rule's cooldown holds over whole runs. If a finding is emitted at time \<open>t1\<close>, then after
  any sequence of further events (not before \<open>t1\<close>), rule reloads, override changes and garbage
  collections, no finding with the same dedupe key is emitted, by whatever rule, until that
  rule's cooldown has passed.
\<close>

theorem cooldown_respected:
  assumes "(r1, f1) \<in> set (snd (OnEvent_pairs env e t1 (Some ev1)))"
    and "list_all (op_not_before t1) ops" "t1 \<le> t2"
    and "(r2, f2) \<in> set (snd (OnEvent_pairs env
           (run_ops env (snd (OnEvent env e t1 (Some ev1))) ops) t2 (Some ev2)))"
    and "dd_KeyTemplate (sp_Dedupe (ru_Spec r1)) \<noteq> ''''"
    and "dd_KeyTemplate (sp_Dedupe (ru_Spec r2)) \<noteq> ''''"
    and same: "renderDedupeKey env f2 r2 = renderDedupeKey env f1 r1"
  shows "\<not> time_sub t2 t1 < seconds (dd_CooldownSeconds (sp_Dedupe (ru_Spec r2)))"
proof -
  let ?e1 = "run_ops env (snd (OnEvent env e t1 (Some ev1))) ops"
  have "recorded_since t1 (renderDedupeKey env f1 r1)
          (e_dedupeCache (snd (OnEvent env e t1 (Some ev1))))"
    using fold_process_records [OF _ _ assms(5)] assms(1) by (simp add: OnEvent_state OnEvent_pairs_Some)
  from recorded_since_run [OF assms(2) this]
  have "recorded_since t1 (renderDedupeKey env f2 r2) (e_dedupeCache ?e1)" by (simp add: same)
  then show ?thesis
    using fold_process_cooldown [OF _ _ _ assms(3,6)] assms(4)
    by (simp add: OnEvent_pairs_Some effective_rules_frame)
qed

section \<open>Rules as the YAML decoder leaves them\<close>

text \<open>
  The type assertion of \<open>evaluateWhenConditions\<close> accepts only a \<open>[]EventPattern\<close>, the
  constructor \<open>Patterns\<close>. The \<open>when\<close> map has values of type \<open>interface{}\<close>, for which a decoder
  builds generic slices and maps.
\<close>

fun is_patterns :: "condition_value \<Rightarrow> bool" where
  "is_patterns (Patterns _) = True"
| "is_patterns _ = False"

definition when_untyped :: "rule \<Rightarrow> bool" where
  "when_untyped r = list_all (\<lambda>(k, v). \<not> is_patterns v) (cond_When (sp_Condition (ru_Spec r)))"

lemma untyped_when_false:
  assumes "when_untyped r"
  shows "\<not> evaluateWhenConditions env ev (sp_Condition (ru_Spec r))"
proof -
  have "map_get (cond_When (sp_Condition (ru_Spec r))) k \<noteq> Some (Patterns ps)" for k ps
  proof
    assume "map_get (cond_When (sp_Condition (ru_Spec r))) k = Some (Patterns ps)"
    from map_of_SomeD [OF this] assms show False by (force simp: when_untyped_def list_all_iff)
  qed
  then show ?thesis
    by (simp add: evaluateWhenConditions_def split: option.splits condition_value.splits)
qed

text \<open>
  The decoder of \<open>gopkg.in/yaml.v3\<close> stores a sequence under a key of type \<open>interface{}\<close> as a
  \<open>[]interface{}\<close>, so no value of a decoded \<open>when\<close> map is a \<open>[]EventPattern\<close>.
\<close>

definition yaml_untyped :: "rule_source \<Rightarrow> bool" where
  "yaml_untyped src \<longleftrightarrow>
     (\<forall>d r. src_yaml_rule src d = Some r \<longrightarrow> when_untyped r)
     \<and> (\<forall>d rs. src_yaml_rules src d = Some rs \<longrightarrow> list_all when_untyped rs)"

definition table_untyped :: "(string, rule) gomap \<Rightarrow> bool" where
  "table_untyped m = list_all (\<lambda>(k, r). when_untyped r) m"

lemma when_untyped_source [simp]: "when_untyped (r\<lparr>ru_SourceFile := f\<rparr>) = when_untyped r"
  by (simp add: when_untyped_def)

lemma table_untyped_set:
  "table_untyped m \<Longrightarrow> when_untyped r \<Longrightarrow> table_untyped (map_set k r m)"
  unfolding table_untyped_def by (induction m) auto

lemma table_untyped_add_rule: "when_untyped r \<Longrightarrow> table_untyped m \<Longrightarrow> table_untyped (add_rule f r m)"
  by (simp add: add_rule_def table_untyped_set split: option.splits)

lemma table_untyped_rules:
  "list_all when_untyped rs \<Longrightarrow> table_untyped m \<Longrightarrow> table_untyped (fold (add_rule f) rs m)"
  by (induction rs arbitrary: m) (simp_all add: table_untyped_add_rule)

lemma loadRules_untyped:
  assumes "yaml_untyped src" "loadRulesFromFile src f = Inr rs"
  shows "list_all when_untyped rs"
  using assms
  by (auto simp: loadRulesFromFile_def yaml_untyped_def Let_def split: option.splits if_splits)

lemma table_untyped_files:
  assumes "yaml_untyped src"
  shows "table_untyped m \<Longrightarrow> table_untyped (fold (add_file src) fs m)"
proof (induction fs arbitrary: m)
  case Nil
  then show ?case by simp
next
  case (Cons f fs)
  then have "table_untyped (add_file src f m)"
    by (auto simp: add_file_def table_untyped_rules loadRules_untyped [OF assms] split: sum.splits)
  with Cons.IH show ?case by simp
qed

lemma LoadSnapshot_untyped:
  assumes "yaml_untyped src" "LoadSnapshot src l now = (Inr s, l')"
  shows "\<forall>r \<in> set (sn_Rules (GetSnapshot l')). when_untyped r"
proof -
  have "table_untyped (fold (add_file src) fs [])" for fs
    by (rule table_untyped_files [OF assms(1)]) (simp add: table_untyped_def)
  then have *: "\<forall>r \<in> snd ` set (fold (add_file src) fs []). when_untyped r" for fs
    by (fastforce simp: table_untyped_def list_all_iff)
  from assms(2) obtain fs where "set (sn_Rules (GetSnapshot l')) = snd ` set (fold (add_file src) fs [])"
    by (auto simp: LoadSnapshot_def Let_def GetSnapshot_def notifyWatchers_def split: option.splits)
  with * [of fs] show ?thesis by simp
qed

text \<open>
  C29. With rules loaded from YAML files the evaluator emits no finding at all, whatever the event
  and the state: the decoder never produces the slice type the evaluator asserts.
\<close>

theorem loaded_rules_never_fire:
  assumes "yaml_untyped src" "LoadSnapshot src l now = (Inr s, l')" "e_ruleLoader e = l'"
  shows "fst (OnEvent env e t ev) = []"
proof (cases ev)
  case None
  then show ?thesis by (simp add: OnEvent_def OnEvent_pairs_def)
next
  case (Some x)
  have "set (snd (OnEvent_pairs env e t (Some x))) = {}"
  proof (rule ccontr)
    assume "set (snd (OnEvent_pairs env e t (Some x))) \<noteq> {}"
    then obtain r f where "(r, f) \<in> set (snd (OnEvent_pairs env e t (Some x)))"
      by (metis ex_in_conv surj_pair)
    note r = OnEvent_pair_sound(1) [OF this] and ev = OnEvent_pair_sound(2) [OF this]
    have "evaluateWhenConditions env x (sp_Condition (ru_Spec r))"
      using evaluateRule_Some(1) [OF ev] by (simp add: ApplyOverrides_frame)
    moreover have "when_untyped r"
      using LoadSnapshot_untyped [OF assms(1,2)] subsetD [OF effective_rules_subset r] assms(3) by simp
    ultimately show False using untyped_when_false by blast
  qed
  with Some show ?thesis by (simp add: OnEvent_def split_def)
qed

section \<open>Counters\<close>

lemma wrap64_add: "wrap64 (wrap64 x + y) = wrap64 (x + y)"
  by (simp add: wrap64_def mod_simps algebra_simps)

lemma wrap64_add_right: "wrap64 (y + wrap64 x) = wrap64 (x + y)"
  using wrap64_add [of x y] by (simp add: add.commute)

lemma process_rule_metrics:
  fixes s env now ev r
  defines "m \<equiv> e_metrics (fst s)" and "m' \<equiv> e_metrics (fst (process_rule env now ev r s))"
  shows "m_eventsProcessed m' = m_eventsProcessed m"
    "m_rulesEvaluated m' = wrap64 (m_rulesEvaluated m + 1)"
    "wrap64 (m_findingsGenerated m' - int (length (snd (process_rule env now ev r s))))
       = wrap64 (m_findingsGenerated m - int (length (snd s)))"
    "m_cacheHits m' = m_cacheHits m" "m_cacheMisses m' = m_cacheMisses m"
  using wrap64_add [of "m_findingsGenerated (e_metrics (fst s)) + 1" "- (1 + int (length (snd s)))"]
  unfolding m_def m'_def
  by (auto simp: process_rule_def Let_def incrementRulesEvaluated_def incrementFindingsDeduplicated_def
      incrementFindingsGenerated_def algebra_simps split: prod.splits option.splits)

lemma fold_process_metrics:
  fixes s env now ev rs
  defines "m \<equiv> e_metrics (fst s)" and "s' \<equiv> fold (process_rule env now ev) rs s"
  shows "m_eventsProcessed (e_metrics (fst s')) = m_eventsProcessed m"
    "wrap64 (m_rulesEvaluated (e_metrics (fst s'))) = wrap64 (m_rulesEvaluated m + int (length rs))"
    "wrap64 (m_findingsGenerated (e_metrics (fst s')) - int (length (snd s')))
       = wrap64 (m_findingsGenerated m - int (length (snd s)))"
    "m_cacheHits (e_metrics (fst s')) = m_cacheHits m"
    "m_cacheMisses (e_metrics (fst s')) = m_cacheMisses m"
  unfolding m_def s'_def
  by (induction rs arbitrary: s) (simp_all add: process_rule_metrics wrap64_add_right algebra_simps)

lemma effective_rules_metrics:
  fixes e env now ev
  defines "m \<equiv> e_metrics e" and "m' \<equiv> e_metrics (snd (effective_rules env e now ev))"
  shows "m_eventsProcessed m' = wrap64 (m_eventsProcessed m + 1)"
    "m_rulesEvaluated m' = m_rulesEvaluated m" "m_findingsGenerated m' = m_findingsGenerated m"
    "wrap64 (m_cacheHits m' + m_cacheMisses m') = wrap64 (m_cacheHits m + m_cacheMisses m + 1)"
  using wrap64_add [of "m_cacheHits (e_metrics e) + 1" "m_cacheMisses (e_metrics e)"]
    wrap64_add [of "m_cacheMisses (e_metrics e) + 1" "m_cacheHits (e_metrics e)"]
  unfolding m_def m'_def
  by (auto simp: effective_rules_def getHostLabels_def updateHostLabelsCache_def Let_def
      incrementEventsProcessed_def incrementCacheHits_def incrementCacheMisses_def algebra_simps
      split: prod.splits option.splits)

text \<open>
  The counters account for every event, up to the wrap-around of their 64 bits: one event
  processed, one evaluation per effective rule, one generated finding per finding returned and
  exactly one cache hit or miss.
\<close>

lemma OnEvent_counters:
  "let m = e_metrics e; (fs, e') = OnEvent env e now (Some ev); m' = e_metrics e' in
     m_eventsProcessed m' = wrap64 (m_eventsProcessed m + 1)
     \<and> wrap64 (m_rulesEvaluated m')
         = wrap64 (m_rulesEvaluated m + int (length (fst (effective_rules env e now ev))))
     \<and> wrap64 (m_findingsGenerated m') = wrap64 (m_findingsGenerated m + int (length fs))
     \<and> wrap64 (m_cacheHits m' + m_cacheMisses m') = wrap64 (m_cacheHits m + m_cacheMisses m + 1)"
proof -
  let ?s = "fold (process_rule env now ev) (fst (effective_rules env e now ev))
              (snd (effective_rules env e now ev), [])"
  have "OnEvent env e now (Some ev) = (map snd (snd ?s), fst ?s)"
    by (simp add: OnEvent_def OnEvent_pairs_Some split: prod.splits)
  moreover have "wrap64 (m_findingsGenerated (e_metrics (fst ?s)))
      = wrap64 (m_findingsGenerated (e_metrics e) + int (length (snd ?s)))"
    using fold_process_metrics(3) [of env now ev _ "(snd (effective_rules env e now ev), [])"]
      wrap64_add [of "m_findingsGenerated (e_metrics (fst ?s)) - int (length (snd ?s))" "int (length (snd ?s))"]
      wrap64_add [of "m_findingsGenerated (e_metrics e)" "int (length (snd ?s))"]
    by (simp add: effective_rules_metrics)
  ultimately show ?thesis
    by (simp add: Let_def fold_process_metrics effective_rules_metrics)
qed

section \<open>The \<open>enabled\<close> override\<close>

definition forget_enabled :: "override_manager \<Rightarrow> override_manager" where
  "forget_enabled om = om\<lparr>om_overrides := map (\<lambda>(k, ov). (k, ov\<lparr>ov_Enabled := None\<rparr>)) (om_overrides om)\<rparr>"

lemma forget_enabled_list:
  "GetOverridesForRule (forget_enabled om) rid = map (\<lambda>ov. ov\<lparr>ov_Enabled := None\<rparr>) (GetOverridesForRule om rid)"
  by (simp add: GetOverridesForRule_def forget_enabled_def filter_map comp_def split_def)

lemma evaluateRule_cong:
  assumes "ru_Metadata r = ru_Metadata r'" "sp_Condition (ru_Spec r) = sp_Condition (ru_Spec r')"
    "out_Severity (sp_Outcome (ru_Spec r)) = out_Severity (sp_Outcome (ru_Spec r'))"
    "out_Confidence (sp_Outcome (ru_Spec r)) = out_Confidence (sp_Outcome (ru_Spec r'))"
    "out_Evidence (sp_Outcome (ru_Spec r)) = out_Evidence (sp_Outcome (ru_Spec r'))"
    "sp_TTLSeconds (ru_Spec r) = sp_TTLSeconds (ru_Spec r')"
  shows "evaluateRule env wb now ev r = evaluateRule env wb now ev r'"
  using assms by (simp add: evaluateRule_def renderEvidence_def renderTemplate_def Let_def)

lemma evaluateRule_forget_enabled:
  "evaluateRule env wb now ev (ApplyOverrides (forget_enabled om) r)
   = evaluateRule env wb now ev (ApplyOverrides om r)"
proof -
  have fold_eq: "ApplyOverrides om r = fold apply_override (GetOverridesForRule om (md_ID (ru_Metadata r))) r"
    for om by (simp add: ApplyOverrides_def Let_def)
  have last_eq: "last_set fld (map (\<lambda>ov. ov\<lparr>ov_Enabled := None\<rparr>) ovs) d = last_set fld ovs d"
    if "\<And>ov. fld (ov\<lparr>ov_Enabled := None\<rparr>) = fld ov" for fld :: "rule_override \<Rightarrow> 'a option" and ovs d
    using that by (simp add: last_set_def fold_map comp_def)
  show ?thesis
    by (rule evaluateRule_cong)
      (simp_all add: ApplyOverrides_frame fold_eq fold_apply_frame fold_apply_fields
        forget_enabled_list last_eq)
qed

lemma process_rule_forget_enabled:
  "process_rule env now ev r (e\<lparr>e_overrideManager := forget_enabled (e_overrideManager e)\<rparr>, fs)
   = (let (e', fs') = process_rule env now ev r (e, fs)
      in (e'\<lparr>e_overrideManager := forget_enabled (e_overrideManager e')\<rparr>, fs'))"
  by (simp add: process_rule_def Let_def evaluateRule_forget_enabled split: option.splits)

lemma fold_process_forget_enabled:
  "snd (fold (process_rule env now ev) rs (e\<lparr>e_overrideManager := forget_enabled (e_overrideManager e)\<rparr>, fs))
   = snd (fold (process_rule env now ev) rs (e, fs))"
proof (induction rs arbitrary: e fs)
  case Nil
  then show ?case by simp
next
  case (Cons r rs)
  obtain e' fs' where "process_rule env now ev r (e, fs) = (e', fs')" by fastforce
  then show ?case using Cons.IH [of e' fs'] by (simp add: process_rule_forget_enabled)
qed

lemma effective_rules_overrides:
  "effective_rules env (e\<lparr>e_overrideManager := om\<rparr>) now ev
   = (fst (effective_rules env e now ev), (snd (effective_rules env e now ev))\<lparr>e_overrideManager := om\<rparr>)"
  by (simp add: effective_rules_def getHostLabels_def updateHostLabelsCache_def Let_def
      split: prod.splits option.splits)

text \<open>
  The \<open>enabled\<close> field of overrides has no influence on the findings: erasing it from every
  override of the manager leaves the result of \<open>OnEvent\<close> unchanged, so a rule an override
  disables keeps firing.
\<close>

lemma enabled_override_ignored:
  "fst (OnEvent env (e\<lparr>e_overrideManager := forget_enabled (e_overrideManager e)\<rparr>) now ev)
   = fst (OnEvent env e now ev)"
proof (cases ev)
  case None
  then show ?thesis by (simp add: OnEvent_def OnEvent_pairs_def)
next
  case (Some x)
  have "snd (OnEvent_pairs env (e\<lparr>e_overrideManager := forget_enabled (e_overrideManager e)\<rparr>) now ev)
      = snd (OnEvent_pairs env e now ev)"
    using fold_process_forget_enabled [of env now x _ "snd (effective_rules env e now x)"] Some
    by (simp add: OnEvent_pairs_Some effective_rules_overrides effective_rules_frame)
  then show ?thesis by (simp add: OnEvent_def split_def)
qed

end
