(* ===== verification/Corr_Subscriber.thy ===== *)
theory Corr_Subscriber
  imports Corr_Correctness Corr_Store
begin

text \<open>
  \<open>nats/subscriber.go\<close>: the subscriber of raw and enriched events, which passes each event to the
  evaluator and puts the findings into the store. The window buffer of the subscriber is that of its
  evaluator. A message is its decoded object, \<^term>\<open>None\<close> when decoding failed; the result
  \<^term>\<open>None\<close> is the panic of the store. The counters of the Prometheus registry are natural numbers.
  The file also holds an earlier evaluation of rules that nothing calls any more.
\<close>

record 'c event_lib =
  el_eval :: eval_env
  el_lru :: "'c lru_ops"
  el_parse :: "string \<Rightarrow> time option"
  el_stamp :: "time \<Rightarrow> string"

record event_counters =
  ct_eventsProcessed :: nat
  ct_eventsInvalid :: nat
  ct_findingsGenerated :: nat
  ct_findingsDeduplicated :: nat

record 'c subscriber =
  su_store :: "'c memory_store"
  su_evaluator :: evaluator
  su_queue :: string
  su_counters :: event_counters
  su_invalidEventsTotal :: int
  su_enrichedSub :: bool
  su_rawSub :: bool

definition NewSubscriber ::
  "'c memory_store \<Rightarrow> string \<Rightarrow> loader \<Rightarrow> override_manager \<Rightarrow> event_counters \<Rightarrow> 'c subscriber" where
  "NewSubscriber store queue ruleLoader overrideManager counters =
     \<lparr>su_store = store,
      su_evaluator = NewEvaluator (NewWindowBuffer (seconds 300)) ruleLoader overrideManager 300,
      su_queue = queue, su_counters = counters, su_invalidEventsTotal = 0,
      su_enrichedSub = False, su_rawSub = False\<rparr>"

text \<open>The two subscriptions of \<open>Subscribe\<close>; when the second fails, the first is given up, but its field
  is set. The rest waits for the shutdown.\<close>

definition subscribe_events :: "bool \<Rightarrow> bool \<Rightarrow> 'c subscriber \<Rightarrow> bool \<times> 'c subscriber" where
  "subscribe_events enrichedOk rawOk s =
     (if \<not> enrichedOk then (False, s)
      else if \<not> rawOk then (False, s\<lparr>su_enrichedSub := True\<rparr>)
      else (True, s\<lparr>su_enrichedSub := True, su_rawSub := True\<rparr>))"

section \<open>Parsing an event\<close>

text \<open>\<open>int64\<close> of a float64: the integer part; outside of the range the least integer, as on amd64.\<close>

fun float_to_int64 :: "float64 \<Rightarrow> int" where
  "float_to_int64 (Fin q) =
     (let n = (if q \<ge> 0 then floor q else ceiling q)
      in if - (2 ^ 63) \<le> n \<and> n < 2 ^ 63 then n else - (2 ^ 63))"
| "float_to_int64 _ = - (2 ^ 63)"

text \<open>Go's integer division truncates toward zero.\<close>

definition go_div :: "int \<Rightarrow> int \<Rightarrow> int" where
  "go_div a b = (if a < 0 then - ((- a) div b) else a div b)"

definition event_time :: "'c event_lib \<Rightarrow> time \<Rightarrow> (string, gval) gomap \<Rightarrow> time" where
  "event_time el now data =
     (case map_get data ''timestamp'' of
        Some (VNum ts) \<Rightarrow> go_div (float_to_int64 ts) 1000 * 1000000000
      | Some (VStr ts) \<Rightarrow> (case el_parse el ts of Some t \<Rightarrow> t | None \<Rightarrow> now)
      | _ \<Rightarrow> now)"

definition string_at :: "(string, gval) gomap \<Rightarrow> string \<Rightarrow> string option" where
  "string_at data k = (case map_get data k of Some (VStr s) \<Rightarrow> Some s | _ \<Rightarrow> None)"

definition object_at :: "(string, gval) gomap \<Rightarrow> string \<Rightarrow> (string, gval) gomap option" where
  "object_at data k = (case map_get data k of Some (VObj m) \<Rightarrow> Some m | _ \<Rightarrow> None)"

definition first_string :: "(string, gval) gomap \<Rightarrow> string \<Rightarrow> string \<Rightarrow> string" where
  "first_string data k k' =
     (case string_at data k of
        Some s \<Rightarrow> s
      | None \<Rightarrow> (case string_at data k' of Some s \<Rightarrow> s | None \<Rightarrow> ''''))"

definition parseEvent :: "'c event_lib \<Rightarrow> time \<Rightarrow> (string, gval) gomap option \<Rightarrow> event option" where
  "parseEvent el now msg =
     (case msg of
        None \<Rightarrow> None
      | Some data \<Rightarrow>
          Some \<lparr>ev_Timestamp = event_time el now data,
                ev_HostID = (case string_at data ''host_id'' of Some h \<Rightarrow> h | None \<Rightarrow> ''''),
                ev_EventType = first_string data ''event_type'' ''type'',
                ev_BinaryPath = first_string data ''binary_path'' ''source'',
                ev_Args = object_at data ''args'', ev_Context = object_at data ''context''\<rparr>)"

section \<open>Processing\<close>

definition count_finding :: "bool \<Rightarrow> event_counters \<Rightarrow> event_counters" where
  "count_finding added ct =
     (if added then ct\<lparr>ct_findingsGenerated := Suc (ct_findingsGenerated ct)\<rparr>
      else ct\<lparr>ct_findingsDeduplicated := Suc (ct_findingsDeduplicated ct)\<rparr>)"

text \<open>The loop over the findings of an event.\<close>

fun store_findings ::
  "'c lru_ops \<Rightarrow> finding list \<Rightarrow> 'c memory_store \<times> event_counters \<Rightarrow> ('c memory_store \<times> event_counters) option" where
  "store_findings ops [] s = Some s"
| "store_findings ops (f # fs) (store, ct) =
     (case AddFinding ops store (Some f) of
        None \<Rightarrow> None
      | Some (added, store') \<Rightarrow> store_findings ops fs (store', count_finding added ct))"

definition Sub_processEvent :: "'c event_lib \<Rightarrow> time \<Rightarrow> event \<Rightarrow> 'c subscriber \<Rightarrow> 'c subscriber option" where
  "Sub_processEvent el now ev s =
     (case OnEvent (el_eval el) (su_evaluator s) now (Some ev) of
        (findings, e') \<Rightarrow>
          (case store_findings (el_lru el) findings (su_store s, su_counters s) of
             None \<Rightarrow> None
           | Some (store', ct') \<Rightarrow>
               Some (s\<lparr>su_evaluator := e', su_store := store', su_counters := ct'\<rparr>)))"

text \<open>\<open>handleEnrichedMessage\<close> and \<open>handleRawMessage\<close>, whose bodies agree.\<close>

definition handle_message ::
  "'c event_lib \<Rightarrow> time \<Rightarrow> (string, gval) gomap option \<Rightarrow> 'c subscriber \<Rightarrow> 'c subscriber option" where
  "handle_message el now msg s =
     (case parseEvent el now msg of
        None \<Rightarrow> Some (s\<lparr>su_counters := (su_counters s)\<lparr>ct_eventsInvalid := Suc (ct_eventsInvalid (su_counters s))\<rparr>\<rparr>)
      | Some ev \<Rightarrow>
          (case Sub_processEvent el now ev s of
             None \<Rightarrow> None
           | Some s' \<Rightarrow>
               Some (s'\<lparr>su_counters := (su_counters s')\<lparr>ct_eventsProcessed := Suc (ct_eventsProcessed (su_counters s'))\<rparr>\<rparr>)))"

definition handleEnrichedMessage ::
  "'c event_lib \<Rightarrow> time \<Rightarrow> (string, gval) gomap option \<Rightarrow> 'c subscriber \<Rightarrow> 'c subscriber option" where
  "handleEnrichedMessage el now msg s = handle_message el now msg s"

definition handleRawMessage ::
  "'c event_lib \<Rightarrow> time \<Rightarrow> (string, gval) gomap option \<Rightarrow> 'c subscriber \<Rightarrow> 'c subscriber option" where
  "handleRawMessage el now msg s = handle_message el now msg s"

definition Sub_StartGC :: "duration \<Rightarrow> 'c subscriber \<Rightarrow> 'c subscriber" where
  "Sub_StartGC gcInterval s =
     s\<lparr>su_evaluator := (su_evaluator s)\<lparr>e_windowBuffer := WB_StartGC (e_windowBuffer (su_evaluator s)) gcInterval\<rparr>\<rparr>"

definition Sub_StopGC :: "'c subscriber \<Rightarrow> 'c subscriber" where
  "Sub_StopGC s =
     s\<lparr>su_evaluator := (su_evaluator s)\<lparr>e_windowBuffer := WB_StopGC (e_windowBuffer (su_evaluator s))\<rparr>\<rparr>"

text \<open>The shutdown drains the subscriptions, an error of which is only logged, and stops the routine.\<close>

definition gracefulShutdown :: "'c subscriber \<Rightarrow> 'c subscriber" where
  "gracefulShutdown s = Sub_StopGC s"

record subscriber_report =
  sr_events_invalid_total :: int
  sr_evaluator_metrics :: metrics_report
  sr_window_buffer_stats :: window_stats

definition Sub_GetMetrics :: "'c subscriber \<Rightarrow> subscriber_report" where
  "Sub_GetMetrics s =
     \<lparr>sr_events_invalid_total = su_invalidEventsTotal s,
      sr_evaluator_metrics = getMetrics (e_metrics (su_evaluator s)),
      sr_window_buffer_stats = WB_GetStats (e_windowBuffer (su_evaluator s))\<rparr>"

section \<open>The earlier evaluation\<close>

definition earlier_ruleMatches :: "event \<Rightarrow> rule \<Rightarrow> bool" where
  "earlier_ruleMatches ev r =
     (let sel = sp_Selectors (ru_Spec r) in
      if sel_HostIDs sel \<noteq> [] \<and> \<not> list_ex (\<lambda>h. ev_HostID ev = h) (sel_HostIDs sel) then False
      else if list_ex (\<lambda>h. ev_HostID ev = h) (sel_ExcludeHostIDs sel) then False
      else True)"

definition earlier_eventMatchesPattern ::
  "eval_env \<Rightarrow> window_buffer \<Rightarrow> time \<Rightarrow> event \<Rightarrow> event_pattern \<Rightarrow> duration \<Rightarrow> bool" where
  "earlier_eventMatchesPattern env wb now ev pat windowDuration =
     (if pat_EventType pat \<noteq> '''' \<and> pat_EventType pat \<noteq> ev_EventType ev then False
      else if pat_BinaryPathRegex pat \<noteq> ''''
              \<and> env_regex env (pat_BinaryPathRegex pat) (ev_BinaryPath ev) \<noteq> Some True then False
      else if pat_EventType pat \<noteq> '''' then
        WB_RecentByType wb now (ev_HostID ev) (pat_EventType pat) windowDuration \<noteq> []
      else True)"

definition eventMatchesCondition ::
  "eval_env \<Rightarrow> window_buffer \<Rightarrow> time \<Rightarrow> event \<Rightarrow> condition \<Rightarrow> duration \<Rightarrow> bool" where
  "eventMatchesCondition env wb now ev cond windowDuration =
     (let m = (\<lambda>p. earlier_eventMatchesPattern env wb now ev p windowDuration) in
      if (case map_get (cond_When cond) ''any_of'' of Some (Patterns ps) \<Rightarrow> list_ex m ps | _ \<Rightarrow> False) then True
      else (case map_get (cond_When cond) ''all_of'' of Some (Patterns ps) \<Rightarrow> list_all m ps | _ \<Rightarrow> False))"

definition buildEvidenceFromWindow ::
  "window_buffer \<Rightarrow> time \<Rightarrow> event \<Rightarrow> rule \<Rightarrow> duration \<Rightarrow> evidence list" where
  "buildEvidenceFromWindow wb now ev r windowDuration =
     (let recentEvents = WB_RecentEvents wb now (ev_HostID ev) windowDuration;
          secs = cond_WindowSeconds (sp_Condition (ru_Spec r))
      in \<lparr>evd_Type = ''event'', evd_Description = ''Current triggering event'',
          evd_Data = [(''event_type'', EvString (ev_EventType ev)),
                      (''binary_path'', EvString (ev_BinaryPath ev)),
                      (''args'', EvMap (ev_Args ev)), (''context'', EvMap (ev_Context ev))],
          evd_Timestamp = ev_Timestamp ev\<rparr>
         # (if length recentEvents > 1 then
              [\<lparr>evd_Type = ''context'',
                evd_Description = ''Related events in '' @ itoa secs @ '' second window'',
                evd_Data = [(''event_count'', EvInt (int (length recentEvents))),
                            (''window_seconds'', EvInt secs), (''related_events'', EvEvents recentEvents)],
                evd_Timestamp = now\<rparr>]
            else []))"

definition earlier_findingID :: "'c event_lib \<Rightarrow> string \<Rightarrow> string \<Rightarrow> time \<Rightarrow> string" where
  "earlier_findingID el hostID ruleType now = hostID @ ''-'' @ ruleType @ ''-'' @ el_stamp el now"

definition earlier_finding :: "'c event_lib \<Rightarrow> time \<Rightarrow> event \<Rightarrow> rule \<Rightarrow> evidence list \<Rightarrow> finding" where
  "earlier_finding el now ev r evidence =
     \<lparr>fd_ID = earlier_findingID el (ev_HostID ev) (md_ID (ru_Metadata r)) now,
      fd_Severity = out_Severity (sp_Outcome (ru_Spec r)),
      fd_Confidence = out_Confidence (sp_Outcome (ru_Spec r)), fd_Status = ''open'',
      fd_HostID = ev_HostID ev, fd_CVE = '''', fd_Evidence = evidence, fd_Timestamp = now,
      fd_RuleID = md_ID (ru_Metadata r), fd_TTLSeconds = sp_TTLSeconds (ru_Spec r)\<rparr>"

definition evaluateRuleWithWindow ::
  "'c event_lib \<Rightarrow> window_buffer \<Rightarrow> time \<Rightarrow> event \<Rightarrow> rule \<Rightarrow> finding option" where
  "evaluateRuleWithWindow el wb now ev r =
     (let windowDuration = seconds (cond_WindowSeconds (sp_Condition (ru_Spec r))) in
      if eventMatchesCondition (el_eval el) wb now ev (sp_Condition (ru_Spec r)) windowDuration
      then Some (earlier_finding el now ev r (buildEvidenceFromWindow wb now ev r windowDuration))
      else None)"

definition applyCorrelationRulesWithWindow ::
  "'c event_lib \<Rightarrow> window_buffer \<Rightarrow> time \<Rightarrow> event \<Rightarrow> rule list \<Rightarrow> finding list" where
  "applyCorrelationRulesWithWindow el wb now ev rs =
     List.map_filter (evaluateRuleWithWindow el wb now ev) rs"

text \<open>The oldest evaluation reads the patterns as the decoder leaves them.\<close>

definition generic_event_type :: "event \<Rightarrow> gval \<Rightarrow> bool" where
  "generic_event_type ev pat =
     (case pat of VObj m \<Rightarrow> map_get m ''event_type'' = Some (VStr (ev_EventType ev)) | _ \<Rightarrow> False)"

definition earlier_evaluateRule :: "'c event_lib \<Rightarrow> time \<Rightarrow> event \<Rightarrow> rule \<Rightarrow> finding option" where
  "earlier_evaluateRule el now ev r =
     (case map_get (cond_When (sp_Condition (ru_Spec r))) ''any_of'' of
        Some (Generic (VArr pats)) \<Rightarrow>
          if list_ex (generic_event_type ev) pats then
            Some (earlier_finding el now ev r
              [\<lparr>evd_Type = ''event'', evd_Description = ''Rule triggered by event'',
                evd_Data = [(''event_type'', EvString (ev_EventType ev)),
                            (''binary_path'', EvString (ev_BinaryPath ev)), (''args'', EvMap (ev_Args ev))],
                evd_Timestamp = ev_Timestamp ev\<rparr>])
          else None
      | _ \<Rightarrow> None)"

definition applyCorrelationRules :: "'c event_lib \<Rightarrow> time \<Rightarrow> event \<Rightarrow> rule list \<Rightarrow> finding list" where
  "applyCorrelationRules el now ev rs =
     List.map_filter (\<lambda>r. if earlier_ruleMatches ev r then earlier_evaluateRule el now ev r else None) rs"

definition extractLabelsFromEvent :: "event \<Rightarrow> string list" where
  "extractLabelsFromEvent ev =
     (case ev_Context ev of
        None \<Rightarrow> []
      | Some ctx \<Rightarrow>
          (case map_get ctx ''tags'' of Some (VStr tags) \<Rightarrow> if tags \<noteq> '''' then go_fields tags else [] | _ \<Rightarrow> [])
          @ concat (map (\<lambda>(key, v). case v of VStr s \<Rightarrow> if s \<noteq> '''' then [key @ '':'' @ s] else [] | _ \<Rightarrow> []) ctx))"

definition isSuspiciousBinary :: "string \<Rightarrow> bool" where
  "isSuspiciousBinary binaryPath =
     list_ex (\<lambda>p. prefix p binaryPath) [''/tmp/'', ''/var/tmp/'', ''/dev/shm/'', ''/home/'', ''/root/'']"

definition isUnusualConnection :: "(string, gval) gomap \<Rightarrow> bool" where
  "isUnusualConnection args =
     (case map_get args ''dst_port'' of
        Some (VNum p) \<Rightarrow> list_ex (\<lambda>u. float_to_int64 p = u) [4444, 5555, 6666, 7777, 8888, 9999]
      | _ \<Rightarrow> False)"

section \<open>Runs\<close>

text \<open>
  The subscriber over a sequence of messages with the times at which they arrive, and the findings that the
  evaluator returned on the way.
\<close>

fun run_messages ::
  "'c event_lib \<Rightarrow> (time \<times> (string, gval) gomap option) list \<Rightarrow> 'c subscriber \<Rightarrow> 'c subscriber option" where
  "run_messages el [] s = Some s"
| "run_messages el ((now, msg) # ms) s =
     (case handle_message el now msg s of None \<Rightarrow> None | Some s' \<Rightarrow> run_messages el ms s')"

definition returned_findings ::
  "'c event_lib \<Rightarrow> time \<Rightarrow> (string, gval) gomap option \<Rightarrow> 'c subscriber \<Rightarrow> finding list" where
  "returned_findings el now msg s =
     (case parseEvent el now msg of
        None \<Rightarrow> [] | Some ev \<Rightarrow> fst (OnEvent (el_eval el) (su_evaluator s) now (Some ev)))"

fun run_findings ::
  "'c event_lib \<Rightarrow> (time \<times> (string, gval) gomap option) list \<Rightarrow> 'c subscriber \<Rightarrow> finding list" where
  "run_findings el [] s = []"
| "run_findings el ((now, msg) # ms) s =
     returned_findings el now msg s
     @ (case handle_message el now msg s of None \<Rightarrow> [] | Some s' \<Rightarrow> run_findings el ms s')"

lemma GetFindings_AddFinding:
  assumes "AddFinding ops st (Some f) = Some (added, st')"
  shows "set (GetFindings st') \<subseteq> insert f (set (GetFindings st))"
  using assms
  by (auto simp: AddFinding_def Let_def GetFindings_def List.map_filter_def
      split: option.splits prod.splits if_splits list.splits)

lemma store_findings_ok:
  "store_findings ops fs (st, ct) = Some (st', ct') \<Longrightarrow>
     set (GetFindings st') \<subseteq> set (GetFindings st) \<union> set fs
     \<and> ct_findingsGenerated ct' + ct_findingsDeduplicated ct'
         = ct_findingsGenerated ct + ct_findingsDeduplicated ct + length fs
     \<and> ct_eventsProcessed ct' = ct_eventsProcessed ct \<and> ct_eventsInvalid ct' = ct_eventsInvalid ct"
proof (induction fs arbitrary: st ct)
  case Nil
  then show ?case by simp
next
  case (Cons f fs)
  then obtain added st1 where a: "AddFinding ops st (Some f) = Some (added, st1)"
    and r: "store_findings ops fs (st1, count_finding added ct) = Some (st', ct')"
    by (auto split: option.splits)
  from Cons.IH [OF r] GetFindings_AddFinding [OF a] show ?case
    by (auto simp: count_finding_def split: if_splits)
qed

lemma handle_message_ok:
  assumes "handle_message el now msg s = Some s'"
  shows "set (GetFindings (su_store s')) \<subseteq> set (GetFindings (su_store s)) \<union> set (returned_findings el now msg s)
     \<and> ct_findingsGenerated (su_counters s') + ct_findingsDeduplicated (su_counters s')
         = ct_findingsGenerated (su_counters s) + ct_findingsDeduplicated (su_counters s)
           + length (returned_findings el now msg s)
     \<and> ct_eventsProcessed (su_counters s') + ct_eventsInvalid (su_counters s')
         = Suc (ct_eventsProcessed (su_counters s) + ct_eventsInvalid (su_counters s))"
proof (cases "parseEvent el now msg")
  case None
  with assms show ?thesis by (auto simp: handle_message_def returned_findings_def)
next
  case (Some ev)
  obtain fs e' where o: "OnEvent (el_eval el) (su_evaluator s) now (Some ev) = (fs, e')" by force
  with assms Some obtain st' ct' where
    "store_findings (el_lru el) fs (su_store s, su_counters s) = Some (st', ct')"
    "s' = s\<lparr>su_evaluator := e', su_store := st',
            su_counters := ct'\<lparr>ct_eventsProcessed := Suc (ct_eventsProcessed ct')\<rparr>\<rparr>"
    by (auto simp: handle_message_def Sub_processEvent_def split: option.splits)
  with store_findings_ok [OF this(1)] o Some show ?thesis by (simp add: returned_findings_def)
qed

text \<open>
  C31. Over any sequence of messages, every message is counted either as processed or as invalid, every
  finding that the evaluator returns is counted either as generated or as deduplicated, and the store
  holds only findings that it held before or that the evaluator returned.
\<close>

theorem subscriber_accounts:
  assumes "run_messages el ms s = Some s'"
  shows "set (GetFindings (su_store s')) \<subseteq> set (GetFindings (su_store s)) \<union> set (run_findings el ms s)
     \<and> ct_findingsGenerated (su_counters s') + ct_findingsDeduplicated (su_counters s')
         = ct_findingsGenerated (su_counters s) + ct_findingsDeduplicated (su_counters s) + length (run_findings el ms s)
     \<and> ct_eventsProcessed (su_counters s') + ct_eventsInvalid (su_counters s')
         = ct_eventsProcessed (su_counters s) + ct_eventsInvalid (su_counters s) + length ms"
  using assms
proof (induction el ms s rule: run_messages.induct)
  case (1 el s)
  then show ?case by simp
next
  case (2 el now msg ms s)
  then obtain s1 where s1: "handle_message el now msg s = Some s1" and r: "run_messages el ms s1 = Some s'"
    by (auto split: option.splits)
  from handle_message_ok [OF s1] "2.IH" [OF s1 r] s1 show ?case by auto
qed

text \<open>The field that the metrics report as the number of invalid events is never written.\<close>

lemma invalid_total_stays: "run_messages el ms s = Some s' \<Longrightarrow> su_invalidEventsTotal s' = su_invalidEventsTotal s"
proof (induction el ms s rule: run_messages.induct)
  case (2 el now msg ms s)
  then obtain s1 where s1: "handle_message el now msg s = Some s1" and r: "run_messages el ms s1 = Some s'"
    by (auto split: option.splits)
  from s1 have "su_invalidEventsTotal s1 = su_invalidEventsTotal s"
    by (auto simp: handle_message_def Sub_processEvent_def split: option.splits prod.splits)
  with "2.IH" [OF s1 r] show ?case by simp
qed simp

end
