(* ===== verification/Corr_Examples.thy ===== *)
theory Corr_Examples
  imports Corr_Correctness
begin

text \<open>
  A small deployment of the correlator, on which the theorems of the other theories are applied:
  one host, one rule that fires on \<open>exec\<close> events with a cooldown of a minute, one without a
  dedupe key, and a rule directory with one YAML file.
\<close>

definition ex_env :: eval_env where
  "ex_env = \<lparr>env_regex = (\<lambda>p s. Some (p = s)), env_glob = (\<lambda>p s. Some (p = s)),
             env_fmt_g = (\<lambda>_. ''1''), env_rfc3339 = (\<lambda>_. ''t'')\<rparr>"

definition ex_selector :: selector where
  "ex_selector = \<lparr>sel_HostIDs = [''h''], sel_HostGlobs = [], sel_Labels = [], sel_ExcludeHostIDs = [],
                  sel_HostPatterns = [], sel_Environment = [], sel_ServiceTypes = [], sel_Regions = []\<rparr>"

definition ex_pattern :: event_pattern where
  "ex_pattern = \<lparr>pat_EventType = ''exec'', pat_BinaryPathRegex = '''', pat_Args = None, pat_Context = None\<rparr>"

definition ex_rule :: "string \<Rightarrow> condition_value \<Rightarrow> string \<Rightarrow> rule" where
  "ex_rule ident when key =
     \<lparr>ru_APIVersion = ''v1'', ru_Kind = ''Rule'',
      ru_Metadata = \<lparr>md_ID = ident, md_Name = ident, md_Version = ''1''\<rparr>,
      ru_Spec = \<lparr>sp_Enabled = True, sp_Selectors = ex_selector,
                 sp_Condition = \<lparr>cond_WindowSeconds = 5, cond_When = [(''any_of'', when)],
                                 cond_RequiresPrior = None, cond_TemporalWindow = None,
                                 cond_TimeRange = None, cond_Frequency = None\<rparr>,
                 sp_Outcome = \<lparr>out_Severity = ''high'', out_Confidence = Fin 1, out_Evidence = [],
                               out_Title = '''', out_Description = '''', out_Tags = [],
                               out_Metadata = [], out_Actions = []\<rparr>,
                 sp_Dedupe = \<lparr>dd_KeyTemplate = key, dd_CooldownSeconds = 60\<rparr>, sp_TTLSeconds = 30\<rparr>,
      ru_SourceFile = ''''\<rparr>"

definition ex_plain :: rule where
  "ex_plain = ex_rule ''r1'' (Patterns [ex_pattern]) ''''"

definition ex_keyed :: rule where
  "ex_keyed = ex_rule ''r2'' (Patterns [ex_pattern]) ''{host_id}''"

definition ex_loader :: "rule list \<Rightarrow> loader" where
  "ex_loader rs = (NewLoader ''rules'' False 100)\<lparr>ld_snapshot := Some \<lparr>sn_Rules = rs, sn_Version = 1\<rparr>\<rparr>"

definition ex_eval :: evaluator where
  "ex_eval = NewEvaluator (NewWindowBuffer (seconds 600)) (ex_loader [ex_plain, ex_keyed])
               NewOverrideManager 300"

definition ex_event :: event where
  "ex_event = \<lparr>ev_Timestamp = 7, ev_HostID = ''h'', ev_EventType = ''exec'', ev_BinaryPath = ''/bin/sh'',
               ev_Args = None, ev_Context = None\<rparr>"

lemmas ex_defs = ex_env_def ex_selector_def ex_pattern_def ex_rule_def ex_plain_def ex_keyed_def
  ex_loader_def ex_eval_def ex_event_def

lemma ex_emits_two: "map fst (snd (OnEvent_pairs ex_env ex_eval 0 (Some ex_event))) = [ex_plain, ex_keyed]"
  by code_simp

theorem OnEvent_findings_justified_witness:
  "\<exists>f \<in> set (fst (OnEvent ex_env ex_eval 0 (Some ex_event))). 
     \<exists>r \<in> set (fst (effective_rules ex_env ex_eval 0 ex_event)).
       r \<in> set (sn_Rules (GetSnapshot (e_ruleLoader ex_eval)))
       \<and> evaluateWhenConditions ex_env ex_event (sp_Condition (ru_Spec r))
       \<and> fd_RuleID f = md_ID (ru_Metadata r) \<and> fd_HostID f = ''h''"
proof -
  let ?p = "OnEvent ex_env ex_eval 0 (Some ex_event)"
  have "length (fst ?p) = 2"
    using arg_cong [OF ex_emits_two, of length] by (simp add: OnEvent_def split_def)
  then have "hd (fst ?p) \<in> set (fst ?p)" by (intro hd_in_set) auto
  from OnEvent_findings_justified [OF surjective_pairing this]
  show ?thesis using \<open>hd (fst ?p) \<in> set (fst ?p)\<close> by (auto simp: ex_event_def)
qed

theorem OnEvent_complete_witness:
  "\<exists>f \<in> set (fst (OnEvent ex_env ex_eval 0 (Some ex_event))).
     fd_RuleID f = ''r1'' \<and> fd_HostID f = ''h''"
proof -
  have 1: "ex_plain \<in> set (fst (effective_rules ex_env ex_eval 0 ex_event))" by code_simp
  have 2: "dd_KeyTemplate (sp_Dedupe (ru_Spec ex_plain)) = ''''" by code_simp
  have 3: "evaluateWhenConditions ex_env ex_event (sp_Condition (ru_Spec ex_plain))" by code_simp
  have 4: "evaluateRequiresPriorConditions ex_env (WB_Add (e_windowBuffer ex_eval) 0 (Some ex_event)) 0
             ex_event (sp_Condition (ru_Spec ex_plain))" by code_simp
  from OnEvent_complete [OF 1 2 3 4] show ?thesis by (simp add: ex_plain_def ex_rule_def ex_event_def)
qed

lemma ex_pair:
  assumes "map fst (snd (OnEvent_pairs env e t ev)) = rs" "r \<in> set rs"
  shows "\<exists>f. (r, f) \<in> set (snd (OnEvent_pairs env e t ev))"
proof -
  from assms obtain p where "p \<in> set (snd (OnEvent_pairs env e t ev))" "fst p = r" by auto
  then have "(r, snd p) \<in> set (snd (OnEvent_pairs env e t ev))" by auto
  then show ?thesis by (rule exI)
qed

text \<open>The state after the first event: it is buffered and the dedupe key is recorded.\<close>

definition ex_after :: evaluator where
  "ex_after = ex_eval
     \<lparr>e_windowBuffer := WB_Add (NewWindowBuffer (seconds 600)) 0 (Some ex_event),
      e_dedupeCache := \<lparr>dc_cache = [(''h'', 0)]\<rparr>,
      e_metrics := \<lparr>m_eventsProcessed = 1, m_rulesEvaluated = 2, m_findingsGenerated = 2,
                    m_findingsDeduplicated = 0, m_cacheHits = 0, m_cacheMisses = 1\<rparr>\<rparr>"

lemma ex_after: "snd (OnEvent ex_env ex_eval 0 (Some ex_event)) = ex_after"
  by code_simp

lemma ex_emits_again:
  "map fst (snd (OnEvent_pairs ex_env (run_ops ex_env ex_after [OpGC 6]) (seconds 60) (Some ex_event)))
   = [ex_plain, ex_keyed]"
  by code_simp

theorem cooldown_respected_witness:
  "\<exists>f1 f2. (ex_keyed, f1) \<in> set (snd (OnEvent_pairs ex_env ex_eval 0 (Some ex_event)))
     \<and> (ex_keyed, f2) \<in> set (snd (OnEvent_pairs ex_env
          (run_ops ex_env (snd (OnEvent ex_env ex_eval 0 (Some ex_event))) [OpGC 6])
          (seconds 60) (Some ex_event)))
     \<and> \<not> time_sub (seconds 60) 0 < seconds 60"
proof -
  let ?e = "run_ops ex_env (snd (OnEvent ex_env ex_eval 0 (Some ex_event))) [OpGC 6]"
  obtain f1 where f1: "(ex_keyed, f1) \<in> set (snd (OnEvent_pairs ex_env ex_eval 0 (Some ex_event)))"
    using ex_pair [OF ex_emits_two, of ex_keyed] by (auto simp only: list.set insert_iff simp_thms)
  obtain f2 where f2: "(ex_keyed, f2) \<in> set (snd (OnEvent_pairs ex_env ?e (seconds 60) (Some ex_event)))"
    using ex_pair [OF ex_emits_again, of ex_keyed] unfolding ex_after
    by (auto simp only: list.set insert_iff simp_thms)
  have host: "fd_HostID f1 = ev_HostID ex_event" "fd_HostID f2 = ev_HostID ex_event"
    using evaluateRule_Some(3) [OF OnEvent_pair_sound(2) [OF f1]]
      evaluateRule_Some(3) [OF OnEvent_pair_sound(2) [OF f2]] by simp_all
  have key: "dd_KeyTemplate (sp_Dedupe (ru_Spec ex_keyed)) \<noteq> ''''"
    and cd: "dd_CooldownSeconds (sp_Dedupe (ru_Spec ex_keyed)) = 60" by code_simp+
  have "list_all (op_not_before 0) [OpGC 6]" "0 \<le> seconds 60" by code_simp+
  from cooldown_respected [OF f1 this f2 key key] have "\<not> time_sub (seconds 60) 0 < seconds 60"
    by (simp add: renderDedupeKey_def host cd)
  with f1 f2 show ?thesis by (intro exI [of _ f1] exI [of _ f2] conjI)
qed

definition ex_source :: rule_source where
  "ex_source = \<lparr>src_walk = Some [''rules/a.yaml'', ''rules/README''], src_read = (\<lambda>_. Some ''x''),
                src_yaml_rule = (\<lambda>_. Some (ex_rule ''r1'' (Generic (VArr [VObj [(''event_type'', VStr ''exec'')]])) '''')),
                src_yaml_rules = (\<lambda>_. None)\<rparr>"

lemma ex_load: "LoadSnapshot ex_source (NewLoader ''rules'' False 100) 3 =
    (Inr \<lparr>sn_Rules = [(ex_rule ''r1'' (Generic (VArr [VObj [(''event_type'', VStr ''exec'')]])) '''')
             \<lparr>ru_SourceFile := ''rules/a.yaml''\<rparr>], sn_Version = 3\<rparr>,
     snd (LoadSnapshot ex_source (NewLoader ''rules'' False 100) 3))"
  by code_simp

theorem loaded_rules_never_fire_witness:
  "sn_Rules (GetSnapshot (snd (LoadSnapshot ex_source (NewLoader ''rules'' False 100) 3))) \<noteq> []
   \<and> fst (OnEvent ex_env (ex_eval\<lparr>e_ruleLoader := snd (LoadSnapshot ex_source (NewLoader ''rules'' False 100) 3)\<rparr>)
            9 (Some ex_event)) = []"
proof -
  have "yaml_untyped ex_source"
    by (auto simp: yaml_untyped_def ex_source_def ex_rule_def when_untyped_def)
  from loaded_rules_never_fire [OF this ex_load, of _ ex_env 9 "Some ex_event"]
  have "fst (OnEvent ex_env (ex_eval\<lparr>e_ruleLoader := snd (LoadSnapshot ex_source (NewLoader ''rules'' False 100) 3)\<rparr>)
            9 (Some ex_event)) = []" by simp
  moreover have "sn_Rules (GetSnapshot (snd (LoadSnapshot ex_source (NewLoader ''rules'' False 100) 3))) \<noteq> []"
    by code_simp
  ultimately show ?thesis by simp
qed

lemma LoadSnapshot_ok_witness:
  "\<exists>s. LoadSnapshot ex_source (NewLoader ''rules'' False 100) 3
         = (Inr s, snd (LoadSnapshot ex_source (NewLoader ''rules'' False 100) 3))
       \<and> snapshot_ok s \<and> length (sn_Rules s) = 1"
  using LoadSnapshot_ok [OF ex_load] ex_load by auto

definition ex_buffer :: window_buffer where
  "ex_buffer = WB_Add (WB_Add (NewWindowBuffer (seconds 600)) 3 (Some ex_event)) 8 (Some ex_event)"

theorem window_buffer_invariant_witness: "wb_inv 3 (WB_Add (NewWindowBuffer (seconds 600)) 3 (Some ex_event))"
proof (rule window_buffer_invariant)
  have "wb_init (3, NewWindowBuffer (seconds 600))" by (auto simp: wb_init_def)
  then show "reach wb_init wb_step (3, WB_Add (NewWindowBuffer (seconds 600)) 3 (Some ex_event))"
    by (auto intro: reach.intros wb_step.intros)
qed

lemma GC_preserves_RecentEvents_witness:
  "WB_RecentEvents (WB_GC ex_buffer (seconds 605)) (seconds 605) ''h'' (seconds 599)
   = WB_RecentEvents ex_buffer (seconds 605) ''h'' (seconds 599)"
proof (rule GC_preserves_RecentEvents)
  show "map_ok (wb_hosts ex_buffer)" by code_simp
  show "0 \<le> seconds 599" "seconds 599 < wb_maxAge ex_buffer" "wb_maxAge ex_buffer < 2 ^ 63"
    "seconds 605 \<le> seconds 605" by code_simp+
qed

end
