(* ===== verification/Corr_PipelineExamples.thy ===== *)
theory Corr_PipelineExamples
  imports Corr_EnhancedProperties Corr_Subscriber Corr_Examples
begin

text \<open>
  A subscriber with one host, an ordinary record of a connection and a package record, on which the
  theorems about the enhanced pipeline are applied, and a run of the subscriber of raw events.
\<close>

definition ex_pipe :: pipe_env where
  "ex_pipe = \<lparr>pv_rfc3339 = (\<lambda>_. ''t''), pv_parse = (\<lambda>_. None), pv_fmt2 = (\<lambda>_. ''1.00'')\<rparr>"

definition ex_link :: nats_lib where
  "ex_link = \<lparr>nl_present = True, nl_connected = (\<lambda>_. True), nl_publish = (\<lambda>_. None),
              nl_request = (\<lambda>_. Inr None), nl_ack = (\<lambda>_. Inl ''?'')\<rparr>"

definition ex_sub :: "(nat \<times> string list) sub_env" where
  "ex_sub = \<lparr>se_pipe = ex_pipe, se_nats = ex_link, se_lru = list_lru,
             se_gen = (\<lambda>r. \<lparr>ge_random = Some ''00'', ge_uuid = ''u'', ge_rfc3339 = (\<lambda>_. ''t''), ge_fmt_g = (\<lambda>_. ''1'')\<rparr>)\<rparr>"

definition ex_scan_rule :: "(string, condition_value) gomap \<Rightarrow> rule" where
  "ex_scan_rule when =
     \<lparr>ru_APIVersion = ''v1'', ru_Kind = ''Rule'',
      ru_Metadata = \<lparr>md_ID = ''r1'', md_Name = ''Port Scan!'', md_Version = ''1''\<rparr>,
      ru_Spec = \<lparr>sp_Enabled = True,
                 sp_Selectors = \<lparr>sel_HostIDs = [], sel_HostGlobs = [], sel_Labels = [], sel_ExcludeHostIDs = [],
                                 sel_HostPatterns = [], sel_Environment = [], sel_ServiceTypes = [], sel_Regions = []\<rparr>,
                 sp_Condition = \<lparr>cond_WindowSeconds = 5, cond_When = when,
                                 cond_RequiresPrior = None, cond_TemporalWindow = None,
                                 cond_TimeRange = None, cond_Frequency = None\<rparr>,
                 sp_Outcome = \<lparr>out_Severity = ''critical'', out_Confidence = Fin 1, out_Evidence = [],
                               out_Title = ''T'', out_Description = ''D'', out_Tags = [],
                               out_Metadata = [], out_Actions = []\<rparr>,
                 sp_Dedupe = \<lparr>dd_KeyTemplate = '''', dd_CooldownSeconds = 60\<rparr>, sp_TTLSeconds = 30\<rparr>,
      ru_SourceFile = ''''\<rparr>"

definition ex_subscriber :: "rule list \<Rightarrow> (nat \<times> string list) enhanced_subscriber" where
  "ex_subscriber rs =
     NewEnhancedSubscriber (NewMemoryStore list_lru 3 3)
       ((NewLoader ''rules'' False 100)\<lparr>ld_snapshot := Some \<lparr>sn_Rules = rs, sn_Version = 1\<rparr>\<rparr>)
       NewDecisionIntegration \<lparr>nc_calls = 0, nc_sent = []\<rparr>"

definition ex_connection :: "(string, gval) gomap" where
  "ex_connection =
     [(''host_id'', VStr ''h''), (''type'', VStr ''connect''),
      (''args'', VObj [(''dst_ip'', VStr ''10.1.2.3''), (''dst_port'', VStr ''22'')])]"

definition ex_pkg_record :: "(string, gval) gomap" where
  "ex_pkg_record =
     [(''record_type'', VStr ''pkg_cve_enriched''), (''host_id'', VStr ''h''),
      (''enrichment'', VObj [(''risk_level'', VStr ''HIGH'')])]"

definition ex_typed :: rule where
  "ex_typed = ex_scan_rule [(''type'', Generic (VStr ''connect''))]"

definition ex_other :: rule where
  "ex_other = ex_scan_rule [(''type'', Generic (VStr ''exec'')), (''port'', Integer 22)]"

definition ex_shipped :: rule where
  "ex_shipped = ex_scan_rule [(''record_type'', Generic (VStr ''pkg_cve_enriched''))]"

lemma ex_link_healthy: "healthy ex_link"
  by (simp add: healthy_def ex_link_def)

lemma ex_store_ready: "store_ready (es_store (ex_subscriber rs))"
  by (simp add: store_ready_def ex_subscriber_def NewEnhancedSubscriber_def NewMemoryStore_def list_lru_def)

theorem sent_messages_well_typed_witness:
  "\<exists>t. handleEnrichedEvent ex_sub 0 (Some ex_connection) (ex_subscriber [ex_typed]) = Some t
     \<and> nc_sent (es_nc t) \<noteq> [] \<and> (\<forall>m \<in> set (nc_sent (es_nc t)). wire_ok m)"
proof -
  let ?s = "ex_subscriber [ex_typed]"
  let ?rs = "sn_Rules (GetSnapshot (es_ruleLoader ?s))"
  have h: "healthy (se_nats ex_sub)" by (simp add: ex_sub_def ex_link_healthy)
  have p: "str_field ex_connection ''record_type'' \<noteq> Some ''pkg_cve_enriched''" by code_simp
  have ready: "record_ready ruleMatchesEnriched ex_connection ?rs" by code_simp
  have n: "length (enriched_findings ex_sub 0 ex_connection ?rs) = 1" by code_simp
  obtain t where t: "handleEnrichedEvent ex_sub 0 (Some ex_connection) ?s = Some t"
    "published (es_nc t) = published (es_nc ?s) @ enriched_findings ex_sub 0 ex_connection ?rs"
    using event_run [where now = 0, OF h ex_store_ready p ready] by blast
  with n have sent: "nc_sent (es_nc t) \<noteq> []" by (auto simp: published_def List.map_filter_def)
  have "enh_init ?s" by (auto simp: enh_init_def ex_subscriber_def)
  then have "reach enh_init enh_step t" by (rule reach_step [OF reach_init]) (rule enh_event [OF t(1)])
  with t sent show ?thesis by (auto intro: sent_messages_well_typed)
qed

theorem record_publishes_matches_witness:
  "\<exists>t. handleEnrichedEvent ex_sub 0 (Some ex_connection) (ex_subscriber [ex_typed, ex_other]) = Some t
     \<and> length (published (es_nc t)) = 1"
proof -
  let ?s = "ex_subscriber [ex_typed, ex_other]"
  let ?rs = "sn_Rules (GetSnapshot (es_ruleLoader ?s))"
  have h: "healthy (se_nats ex_sub)" by (simp add: ex_sub_def ex_link_healthy)
  have p: "False \<longleftrightarrow> str_field ex_connection ''record_type'' = Some ''pkg_cve_enriched''" by code_simp
  have ready: "record_ready ruleMatchesEnriched ex_connection ?rs" by code_simp
  have n: "length (enriched_findings ex_sub 0 ex_connection ?rs) = 1" "length (published (es_nc ?s)) = 0" by code_simp+
  from record_publishes_matches [where now = 0, OF h ex_store_ready refl p] ready
  obtain t where "handleEnrichedEvent ex_sub 0 (Some ex_connection) ?s = Some t"
    "published (es_nc t) = published (es_nc ?s) @ enriched_findings ex_sub 0 ex_connection ?rs" by auto
  with n show ?thesis by auto
qed


lemma record_type_rule_never_fires_witness:
  "ruleMatchesPackageCVE ex_shipped ex_pkg_record = Some False
   \<and> (\<forall>generate s. apply_rule ex_sub 0 (\<lambda>r. ruleMatchesPackageCVE r ex_pkg_record) generate ex_shipped s
        \<in> {Some s, None})"
proof (intro conjI allI)
  show "ruleMatchesPackageCVE ex_shipped ex_pkg_record = Some False" by code_simp
  fix generate s
  show "apply_rule ex_sub 0 (\<lambda>r. ruleMatchesPackageCVE r ex_pkg_record) generate ex_shipped s \<in> {Some s, None}"
    by (rule record_type_rule_never_fires
        [where e = "[(''risk_level'', VStr ''HIGH'')]" and t = "Generic (VStr ''pkg_cve_enriched'')"])
      (simp_all add: ex_pkg_record_def ex_shipped_def ex_scan_rule_def)
qed

lemma enriched_details_lost_witness:
  "\<exists>f. GenerateFindingFromEnrichedEvent (se_gen ex_sub ''r1'') 0 ex_typed ex_connection [] 0 0 = Inr f
     \<and> extractNetworkEdges f = [\<lparr>ne_DstCIDR = ''0.0.0.0/0'', ne_Proto = ''any'', ne_Port = 0\<rparr>]
     \<and> ni_DestIP (extractNetworkInfo (\<lambda>_. None) f) = ''10.1.2.3''"
proof -
  let ?g = "GenerateFindingFromEnrichedEvent (se_gen ex_sub ''r1'') 0 ex_typed ex_connection [] 0 0"
  have r: "(case ?g of Inl e \<Rightarrow> None | Inr f \<Rightarrow> Some (ni_DestIP (extractNetworkInfo (\<lambda>_. None) f))) = Some ''10.1.2.3''"
    by code_simp
  then obtain f where f: "?g = Inr f" "ni_DestIP (extractNetworkInfo (\<lambda>_. None) f) = ''10.1.2.3''"
    by (cases ?g) auto
  with enriched_details_lost [OF f(1)] show ?thesis by blast
qed

text \<open>
  A concrete snapshot: the address is private, so the edge covers its network of 256 addresses. An
  IPv6 address that maps a private IPv4 address gives an edge that is not a network at all.
\<close>

lemma snapshot_example:
  "target_cidr ''10.1.2.3'' = ''10.1.2.0/24'' \<and> target_cidr ''8.8.8.8'' = ''8.8.8.8/32''
   \<and> target_cidr ''2001:db8::1'' = ''2001:db8::1/32'' \<and> target_cidr ''::ffff:10.1.2.3'' = ''::ffff:10.1.2.0/24''"
  by code_simp

lemma parse_examples:
  "ParseIP ''1.2.3.4'' = Some [1, 2, 3, 4] \<and> ParseIP ''1.2.3.04'' = None \<and> ParseIP ''1.2.3'' = None
   \<and> ParseIP ''::'' = Some (replicate 16 0) \<and> ParseIP ''1:2:3:4:5:6:7::'' = Some [0, 1, 0, 2, 0, 3, 0, 4, 0, 5, 0, 6, 0, 7, 0, 0]
   \<and> ParseIP ''fe80::1%eth0'' = None \<and> ParseIP ''1:2'' = None"
  by code_simp


definition ex_event_lib :: "(nat \<times> string list) event_lib" where
  "ex_event_lib = \<lparr>el_eval = ex_env, el_lru = list_lru, el_parse = (\<lambda>_. None), el_stamp = (\<lambda>_. ''s'')\<rparr>"

definition ex_event_sub :: "(nat \<times> string list) subscriber" where
  "ex_event_sub =
     NewSubscriber (NewMemoryStore list_lru 3 3) ''q'' (ex_loader [ex_plain, ex_keyed]) NewOverrideManager
       \<lparr>ct_eventsProcessed = 0, ct_eventsInvalid = 0, ct_findingsGenerated = 0, ct_findingsDeduplicated = 0\<rparr>"

definition ex_messages :: "(time \<times> (string, gval) gomap option) list" where
  "ex_messages = [(0, Some [(''host_id'', VStr ''h''), (''event_type'', VStr ''exec'')]), (5, None)]"

theorem subscriber_accounts_witness:
  "\<exists>s'. run_messages ex_event_lib ex_messages ex_event_sub = Some s'
     \<and> ct_findingsGenerated (su_counters s') + ct_findingsDeduplicated (su_counters s') = 2
     \<and> ct_eventsProcessed (su_counters s') + ct_eventsInvalid (su_counters s') = 2"
proof -
  have "run_messages ex_event_lib ex_messages ex_event_sub \<noteq> None" by code_simp
  then obtain s' where s': "run_messages ex_event_lib ex_messages ex_event_sub = Some s'" by blast
  have n: "length (run_findings ex_event_lib ex_messages ex_event_sub) = 2" by code_simp
  have z: "ct_findingsGenerated (su_counters ex_event_sub) = 0" "ct_findingsDeduplicated (su_counters ex_event_sub) = 0"
    "ct_eventsProcessed (su_counters ex_event_sub) = 0" "ct_eventsInvalid (su_counters ex_event_sub) = 0"
    "length ex_messages = 2"
    by (simp_all add: ex_event_sub_def NewSubscriber_def ex_messages_def)
  from subscriber_accounts [OF s'] s' n z show ?thesis by simp
qed

end
