(* ===== verification/Dec_Guardrails.thy ===== *)
theory Dec_Guardrails
  imports Prelude
begin

text \<open>
  The decision service's guardrails (\<open>internal/guardrails/guardrails.go\<close>) and the configuration
  snapshot they read (\<open>internal/config/client.go\<close>, \<open>internal/config/manager.go\<close>). The process
  environment is the function \<open>getenv\<close> (the empty string for an unset variable), the hour of the
  wall clock the argument \<open>hour\<close>, and \<open>json.Unmarshal\<close> of a raw value into a string, an int or a
  slice of strings the arguments \<open>json_str\<close>, \<open>json_int\<close> and \<open>json_strs\<close>.
\<close>

section \<open>Strategies\<close>

datatype strategy_mode =
    Observe | Suggest | Canary | Enforce | Conservative | Balanced | Aggressive | OtherMode string

fun mode_string :: "strategy_mode \<Rightarrow> string" where
  "mode_string Observe = ''observe''"
| "mode_string Suggest = ''suggest''"
| "mode_string Canary = ''canary''"
| "mode_string Enforce = ''enforce''"
| "mode_string Conservative = ''conservative''"
| "mode_string Balanced = ''balanced''"
| "mode_string Aggressive = ''aggressive''"
| "mode_string (OtherMode s) = s"

definition parseStrategy :: "string \<Rightarrow> strategy_mode" where
  "parseStrategy strategy =
     (let s = to_lower strategy in
      if s = ''observe'' then Observe
      else if s = ''suggest'' then Suggest
      else if s = ''canary'' then Canary
      else if s = ''enforce'' then Enforce
      else if s = ''conservative'' then Conservative
      else if s = ''balanced'' then Balanced
      else if s = ''aggressive'' then Aggressive
      else Suggest)"

section \<open>Configuration\<close>

record config_snapshot =
  cs_DecisionMode :: string
  cs_MaxCanaryHosts :: int
  cs_DefaultTTLSeconds :: int
  cs_NeverBlockLabels :: "string list"
  cs_LastUpdated :: time

record json_lib =
  json_str :: "string \<Rightarrow> string option"
  json_int :: "string \<Rightarrow> int option"
  json_strs :: "string \<Rightarrow> string list option"

record config_change =
  cc_Key :: string
  cc_Value :: string
  cc_Timestamp :: int

definition json_or_atoi :: "json_lib \<Rightarrow> string \<Rightarrow> int option" where
  "json_or_atoi lib raw = (case json_int lib raw of Some n \<Rightarrow> Some n | None \<Rightarrow> atoi raw)"

definition applyConfigChange :: "json_lib \<Rightarrow> config_snapshot \<Rightarrow> string \<Rightarrow> string \<Rightarrow> config_snapshot" where
  "applyConfigChange lib config key raw =
     (if key = ''decision.mode'' then
        (case json_str lib raw of Some m \<Rightarrow> config\<lparr>cs_DecisionMode := m\<rparr> | None \<Rightarrow> config)
      else if key = ''decision.max_canary_hosts'' then
        (case json_or_atoi lib raw of Some n \<Rightarrow> config\<lparr>cs_MaxCanaryHosts := n\<rparr> | None \<Rightarrow> config)
      else if key = ''decision.default_ttl_seconds'' then
        (case json_or_atoi lib raw of Some n \<Rightarrow> config\<lparr>cs_DefaultTTLSeconds := n\<rparr> | None \<Rightarrow> config)
      else if key = ''guardrails.never_block_labels'' then
        (case json_strs lib raw of Some ls \<Rightarrow> config\<lparr>cs_NeverBlockLabels := ls\<rparr> | None \<Rightarrow> config)
      else config)"

definition default_snapshot :: "time \<Rightarrow> config_snapshot" where
  "default_snapshot now =
     \<lparr>cs_DecisionMode = ''suggest'', cs_MaxCanaryHosts = 5, cs_DefaultTTLSeconds = 3600,
      cs_NeverBlockLabels = [''role:db'', ''role:control-plane''], cs_LastUpdated = now\<rparr>"

text \<open>The entries of the configuration service's answer, \<^term>\<open>None\<close> when the request or its
  decoding failed.\<close>

definition Client_GetSnapshot ::
  "json_lib \<Rightarrow> time \<Rightarrow> (string \<times> string) list option \<Rightarrow> config_snapshot option" where
  "Client_GetSnapshot lib now response =
     map_option (\<lambda>entries. fold (\<lambda>(key, raw) s. applyConfigChange lib s key raw) entries (default_snapshot now))
       response"

definition GetSnapshotWithFallback ::
  "json_lib \<Rightarrow> time \<Rightarrow> (string \<times> string) list option \<Rightarrow> config_snapshot \<Rightarrow> config_snapshot" where
  "GetSnapshotWithFallback lib now response envDefaults =
     (case Client_GetSnapshot lib now response of None \<Rightarrow> envDefaults | Some s \<Rightarrow> s)"

definition zero_snapshot :: config_snapshot where
  "zero_snapshot = \<lparr>cs_DecisionMode = '''', cs_MaxCanaryHosts = 0, cs_DefaultTTLSeconds = 0,
                      cs_NeverBlockLabels = [], cs_LastUpdated = zero_time\<rparr>"

text \<open>The manager's state is its current snapshot; subscribers are called with the snapshot the
  operation returns.\<close>

definition handleConfigChange ::
  "json_lib \<Rightarrow> config_change option \<Rightarrow> config_snapshot option \<Rightarrow> config_snapshot option" where
  "handleConfigChange lib msg current =
     (case msg of
        None \<Rightarrow> current
      | Some change \<Rightarrow>
          let base = (case current of None \<Rightarrow> zero_snapshot | Some c \<Rightarrow> c);
              newConfig = applyConfigChange lib base (cc_Key change) (cc_Value change)
          in Some (newConfig\<lparr>cs_LastUpdated := cc_Timestamp change * 1000000000\<rparr>))"

definition Manager_Refresh ::
  "json_lib \<Rightarrow> time \<Rightarrow> (string \<times> string) list option \<Rightarrow> config_snapshot option \<Rightarrow> config_snapshot option" where
  "Manager_Refresh lib now response current =
     Some (GetSnapshotWithFallback lib now response
             (case current of
                None \<Rightarrow> \<lparr>cs_DecisionMode = ''suggest'', cs_MaxCanaryHosts = 5, cs_DefaultTTLSeconds = 3600,
                         cs_NeverBlockLabels = [''role:db'', ''role:control-plane''], cs_LastUpdated = zero_time\<rparr>
              | Some c \<Rightarrow> c))"

section \<open>Guardrails\<close>

record guardrails =
  gr_config :: "config_snapshot option"

definition NewGuardrails :: guardrails where
  "NewGuardrails = \<lparr>gr_config = None\<rparr>"

definition UpdateConfig :: "guardrails \<Rightarrow> config_snapshot \<Rightarrow> guardrails" where
  "UpdateConfig g config = g\<lparr>gr_config := Some config\<rparr>"

record strategy_decision =
  ds_Strategy :: strategy_mode
  ds_CanarySize :: int
  ds_TTLSeconds :: int
  ds_Reasons :: "string list"
  ds_AppliedRules :: "string list"

definition isMaintenanceWindowActive :: "(string \<Rightarrow> string) \<Rightarrow> int \<Rightarrow> bool" where
  "isMaintenanceWindowActive getenv hour =
     (let w = getenv ''DECISION_MAINTENANCE_WINDOW'' in
      if w = '''' then False
      else case split_on (CHR '','') w of
        [p0, p1] \<Rightarrow>
          (case atoi (trim_space p0) of
             None \<Rightarrow> False
           | Some startHour \<Rightarrow>
               (case atoi (trim_space p1) of
                  None \<Rightarrow> False
                | Some endHour \<Rightarrow>
                    if startHour \<le> endHour then hour \<ge> startHour \<and> hour < endHour
                    else hour \<ge> startHour \<or> hour < endHour))
      | _ \<Rightarrow> False)"

fun downgradeForMaintenance :: "strategy_mode \<Rightarrow> strategy_mode" where
  "downgradeForMaintenance Enforce = Canary"
| "downgradeForMaintenance Canary = Suggest"
| "downgradeForMaintenance Suggest = Observe"
| "downgradeForMaintenance Aggressive = Balanced"
| "downgradeForMaintenance Balanced = Conservative"
| "downgradeForMaintenance Conservative = Suggest"
| "downgradeForMaintenance _ = Observe"

definition getNeverBlockLabels :: "guardrails \<Rightarrow> (string \<Rightarrow> string) \<Rightarrow> string list" where
  "getNeverBlockLabels g getenv =
     (case gr_config g of
        Some c \<Rightarrow> cs_NeverBlockLabels c
      | None \<Rightarrow>
          let s = getenv ''DECISION_NEVER_BLOCK_LABELS'' in
          if s = '''' then [''critical'', ''production'', ''database'', ''load-balancer'', ''monitoring'']
          else map (\<lambda>l. trim_space (to_lower l)) (split_on (CHR '','') s))"

definition hasNeverBlockLabels :: "string list \<Rightarrow> string list \<Rightarrow> bool" where
  "hasNeverBlockLabels hostLabels neverBlockLabels =
     list_ex (\<lambda>hostLabel.
        let l = to_lower (trim_space hostLabel)
        in list_ex (\<lambda>nb. contains l nb \<or> contains nb l) neverBlockLabels) hostLabels"

fun capForNeverBlock :: "strategy_mode \<Rightarrow> strategy_mode" where
  "capForNeverBlock Enforce = Canary"
| "capForNeverBlock Aggressive = Canary"
| "capForNeverBlock s = s"

definition getMaxCanaryHosts :: "guardrails \<Rightarrow> (string \<Rightarrow> string) \<Rightarrow> int" where
  "getMaxCanaryHosts g getenv =
     (case gr_config g of
        Some c \<Rightarrow> cs_MaxCanaryHosts c
      | None \<Rightarrow> let s = getenv ''DECISION_MAX_CANARY_HOSTS'' in
                if s \<noteq> '''' then (case atoi s of Some n \<Rightarrow> n | None \<Rightarrow> 5) else 5)"

definition calculateCanarySize :: "guardrails \<Rightarrow> (string \<Rightarrow> string) \<Rightarrow> strategy_mode \<Rightarrow> int \<Rightarrow> int" where
  "calculateCanarySize g getenv strategy numTargets =
     (if strategy \<noteq> Canary then 0
      else let maxCanary = getMaxCanaryHosts g getenv in
           if maxCanary = 0 then 0
           else if numTargets > maxCanary then maxCanary else numTargets)"

definition getDefaultTTL :: "guardrails \<Rightarrow> (string \<Rightarrow> string) \<Rightarrow> int" where
  "getDefaultTTL g getenv =
     (case gr_config g of
        Some c \<Rightarrow> cs_DefaultTTLSeconds c
      | None \<Rightarrow> let s = getenv ''DECISION_DEFAULT_TTL_SECONDS'' in
                if s \<noteq> '''' then (case atoi s of Some n \<Rightarrow> n | None \<Rightarrow> 3600) else 3600)"

definition DecideStrategy ::
  "guardrails \<Rightarrow> (string \<Rightarrow> string) \<Rightarrow> int \<Rightarrow> string \<Rightarrow> int \<Rightarrow> string list \<Rightarrow> strategy_decision" where
  "DecideStrategy g getenv hour desired numTargets hostLabels =
     (let s0 = parseStrategy desired;
          maint = isMaintenanceWindowActive getenv hour;
          s1 = (if maint then downgradeForMaintenance s0 else s0);
          reasons1 = (if maint then [''Maintenance window is active - strategy downgraded for safety''] else []);
          rules1 = (if maint then [''maintenance_window''] else []);
          neverBlockLabels = getNeverBlockLabels g getenv;
          never = hasNeverBlockLabels hostLabels neverBlockLabels;
          s2 = (if never then capForNeverBlock s1 else s1);
          reasons2 = (if never then
                        [''Target has NEVER_BLOCK_LABELS (['' @ join_with '' '' neverBlockLabels
                         @ '']) - strategy capped from '' @ mode_string s1 @ '' to '' @ mode_string s2]
                      else []);
          rules2 = (if never then [''never_block_labels''] else []);
          canarySize = calculateCanarySize g getenv s2 numTargets;
          zero = (canarySize = 0 \<and> (s2 = Enforce \<or> s2 = Canary));
          s3 = (if zero then Suggest else s2);
          reasons3 = (if zero then [''Canary size is 0 in enforce/canary mode - downgraded to suggest''] else []);
          rules3 = (if zero then [''canary_size_zero''] else [])
      in \<lparr>ds_Strategy = s3, ds_CanarySize = (if zero then 0 else canarySize),
          ds_TTLSeconds = getDefaultTTL g getenv,
          ds_Reasons = reasons1 @ reasons2 @ reasons3, ds_AppliedRules = rules1 @ rules2 @ rules3\<rparr>)"

definition ValidateStrategy ::
  "guardrails \<Rightarrow> (string \<Rightarrow> string) \<Rightarrow> int \<Rightarrow> strategy_mode \<Rightarrow> int \<Rightarrow> string list \<Rightarrow> bool \<times> string list" where
  "ValidateStrategy g getenv hour strategy numTargets hostLabels =
     (let hard = (strategy = Enforce \<or> strategy = Aggressive);
          warnings =
            (if strategy = Enforce \<and> numTargets > 10 then
               [''Enforce strategy with many targets (>10) may cause widespread impact''] else [])
            @ (if strategy = Aggressive \<and> numTargets > 5 then
                 [''Aggressive strategy with many targets (>5) may cause significant impact''] else [])
            @ (if hasNeverBlockLabels hostLabels (getNeverBlockLabels g getenv) \<and> hard then
                 [''Strategy may conflict with NEVER_BLOCK_LABELS''] else [])
            @ (if isMaintenanceWindowActive getenv hour \<and> hard then
                 [''Strategy is aggressive during maintenance window''] else [])
      in (warnings = [], warnings))"

definition GetStrategyRecommendation ::
  "guardrails \<Rightarrow> (string \<Rightarrow> string) \<Rightarrow> int \<Rightarrow> int \<Rightarrow> string list \<Rightarrow> string \<Rightarrow> strategy_mode" where
  "GetStrategyRecommendation g getenv hour numTargets hostLabels findingSeverity =
     (let sev = to_lower findingSeverity;
          recommendation =
            (if sev = ''critical'' then (if numTargets \<le> 2 then Enforce else Canary)
             else if sev = ''high'' then Canary
             else if sev = ''medium'' then Suggest
             else if sev = ''low'' then Observe
             else Suggest)
      in ds_Strategy (DecideStrategy g getenv hour (mode_string recommendation) numTargets hostLabels))"

record guardrails_status =
  gs_maintenance_window_active :: bool
  gs_never_block_labels :: "string list"
  gs_max_canary_hosts :: int
  gs_default_ttl_seconds :: int
  gs_maintenance_window :: "string option"

definition GetGuardrailsStatus :: "guardrails \<Rightarrow> (string \<Rightarrow> string) \<Rightarrow> int \<Rightarrow> guardrails_status" where
  "GetGuardrailsStatus g getenv hour =
     \<lparr>gs_maintenance_window_active = isMaintenanceWindowActive getenv hour,
      gs_never_block_labels = getNeverBlockLabels g getenv,
      gs_max_canary_hosts = getMaxCanaryHosts g getenv,
      gs_default_ttl_seconds = getDefaultTTL g getenv,
      gs_maintenance_window =
        (if isMaintenanceWindowActive getenv hour then Some (getenv ''DECISION_MAINTENANCE_WINDOW'')
         else None)\<rparr>"

section \<open>Strategies by risk\<close>

text \<open>Modes compared by how far they may intervene.\<close>

fun risk :: "strategy_mode \<Rightarrow> nat" where
  "risk Observe = 0"
| "risk Suggest = 1"
| "risk Conservative = 2"
| "risk Canary = 2"
| "risk Balanced = 3"
| "risk Enforce = 3"
| "risk Aggressive = 4"
| "risk (OtherMode _) = 0"

instantiation strategy_mode :: preorder
begin

definition less_eq_strategy_mode :: "strategy_mode \<Rightarrow> strategy_mode \<Rightarrow> bool" where
  "a \<le> b \<longleftrightarrow> risk a \<le> risk b"

definition less_strategy_mode :: "strategy_mode \<Rightarrow> strategy_mode \<Rightarrow> bool" where
  "a < b \<longleftrightarrow> risk a < risk b"

instance
  by standard (auto simp: less_eq_strategy_mode_def less_strategy_mode_def)

end

lemma downgrade_le: "downgradeForMaintenance s \<le> s"
  by (cases s) (auto simp: less_eq_strategy_mode_def)

lemma downgrade_less: "Observe < s \<Longrightarrow> downgradeForMaintenance s < s"
  by (cases s) (auto simp: less_strategy_mode_def)

lemma cap_le: "capForNeverBlock s \<le> s"
  by (cases s) (auto simp: less_eq_strategy_mode_def)

lemma cap_not_hard: "capForNeverBlock s \<noteq> Enforce" "capForNeverBlock s \<noteq> Aggressive"
  by (cases s; simp)+

text \<open>The strategy of a decision, as the composition of the three rules.\<close>

definition zero_canary_rule :: "guardrails \<Rightarrow> (string \<Rightarrow> string) \<Rightarrow> int \<Rightarrow> strategy_mode \<Rightarrow> strategy_mode" where
  "zero_canary_rule g getenv n s =
     (if calculateCanarySize g getenv s n = 0 \<and> (s = Enforce \<or> s = Canary) then Suggest else s)"

lemma DecideStrategy_Strategy:
  "ds_Strategy (DecideStrategy g getenv hour desired n labels) =
     zero_canary_rule g getenv n
       ((if hasNeverBlockLabels labels (getNeverBlockLabels g getenv) then capForNeverBlock else id)
         ((if isMaintenanceWindowActive getenv hour then downgradeForMaintenance else id) (parseStrategy desired)))"
  by (cases "isMaintenanceWindowActive getenv hour";
      cases "hasNeverBlockLabels labels (getNeverBlockLabels g getenv)")
     (auto simp: DecideStrategy_def zero_canary_rule_def Let_def)

lemma zero_canary_rule_not_enforce: "zero_canary_rule g getenv n s \<noteq> Enforce"
  by (simp add: zero_canary_rule_def calculateCanarySize_def)

lemma zero_canary_rule_le: "zero_canary_rule g getenv n s \<le> s"
  by (auto simp: zero_canary_rule_def less_eq_strategy_mode_def)

lemma zero_canary_rule_Canary:
  assumes "zero_canary_rule g getenv n s = Canary"
  shows "s = Canary" "calculateCanarySize g getenv s n \<noteq> 0"
  using assms by (auto simp: zero_canary_rule_def split: if_splits)

lemma DecideStrategy_CanarySize:
  "ds_CanarySize (DecideStrategy g getenv hour desired n labels) =
     (let s = ds_Strategy (DecideStrategy g getenv hour desired n labels)
      in if s = Canary then calculateCanarySize g getenv Canary n else 0)"
  by (cases "isMaintenanceWindowActive getenv hour";
      cases "hasNeverBlockLabels labels (getNeverBlockLabels g getenv)")
     (auto simp: DecideStrategy_def calculateCanarySize_def Let_def)

text \<open>
  C4. Safety of a decision: it never enforces; with a protected label among the targets it is
  never aggressive either; a canary decision has a canary size that is not zero and exceeds neither
  the configured maximum nor the number of targets, and every other decision has size zero.
\<close>

theorem DecideStrategy_safe:
  "let d = DecideStrategy g getenv hour desired n labels in
     ds_Strategy d \<noteq> Enforce
     \<and> (hasNeverBlockLabels labels (getNeverBlockLabels g getenv) \<longrightarrow> ds_Strategy d \<noteq> Aggressive)
     \<and> (if ds_Strategy d = Canary
        then ds_CanarySize d \<noteq> 0 \<and> ds_CanarySize d \<le> getMaxCanaryHosts g getenv \<and> ds_CanarySize d \<le> n
        else ds_CanarySize d = 0)
     \<and> ds_TTLSeconds d = getDefaultTTL g getenv"
proof -
  let ?d = "DecideStrategy g getenv hour desired n labels"
  have 1: "ds_Strategy ?d \<noteq> Enforce"
    by (simp add: DecideStrategy_Strategy zero_canary_rule_not_enforce)
  have 2: "ds_Strategy ?d \<noteq> Aggressive" if "hasNeverBlockLabels labels (getNeverBlockLabels g getenv)"
    using that cap_not_hard by (simp add: DecideStrategy_Strategy zero_canary_rule_def)
  have 3: "ds_CanarySize ?d \<noteq> 0 \<and> ds_CanarySize ?d \<le> getMaxCanaryHosts g getenv \<and> ds_CanarySize ?d \<le> n"
    if c: "ds_Strategy ?d = Canary"
  proof -
    from c have z: "zero_canary_rule g getenv n
       ((if hasNeverBlockLabels labels (getNeverBlockLabels g getenv) then capForNeverBlock else id)
         ((if isMaintenanceWindowActive getenv hour then downgradeForMaintenance else id) (parseStrategy desired))) = Canary"
      by (simp only: DecideStrategy_Strategy)
    have "calculateCanarySize g getenv Canary n \<noteq> 0"
      using zero_canary_rule_Canary [OF z] by simp
    with c show ?thesis by (auto simp: DecideStrategy_CanarySize calculateCanarySize_def Let_def split: if_splits)
  qed
  have 4: "ds_CanarySize ?d = 0" if "ds_Strategy ?d \<noteq> Canary"
    using that by (simp add: DecideStrategy_CanarySize)
  have 5: "ds_TTLSeconds ?d = getDefaultTTL g getenv" by (simp add: DecideStrategy_def Let_def)
  show ?thesis using 1 2 3 4 5 by (simp add: Let_def)
qed

text \<open>
  The guardrails only ever lower the risk of the requested mode, and strictly so while a
  maintenance window is active, unless the request was already to observe.
\<close>

lemma DecideStrategy_never_escalates:
  "ds_Strategy (DecideStrategy g getenv hour desired n labels) \<le> parseStrategy desired
   \<and> (isMaintenanceWindowActive getenv hour \<and> Observe < parseStrategy desired \<longrightarrow>
        ds_Strategy (DecideStrategy g getenv hour desired n labels) < parseStrategy desired)"
proof -
  let ?m = "(if isMaintenanceWindowActive getenv hour then downgradeForMaintenance else id) (parseStrategy desired)"
  let ?c = "(if hasNeverBlockLabels labels (getNeverBlockLabels g getenv) then capForNeverBlock else id) ?m"
  have le: "zero_canary_rule g getenv n ?c \<le> ?c" "?c \<le> ?m" "?m \<le> parseStrategy desired"
    using zero_canary_rule_le cap_le downgrade_le by auto
  have "zero_canary_rule g getenv n ?c \<le> ?m" using order_trans [OF le(1,2)] .
  moreover have "?m < parseStrategy desired"
    if "isMaintenanceWindowActive getenv hour" "Observe < parseStrategy desired"
    using that downgrade_less by simp
  ultimately show ?thesis
    unfolding DecideStrategy_Strategy using order_trans [OF _ le(3)] by (auto intro: le_less_trans)
qed

text \<open>
  The maintenance window is the cyclic interval of hours it names: with start and end hours
  between 0 and 23, it is active at exactly those hours that are less than its length after the
  start, modulo 24; equal hours make it empty.
\<close>

lemma maintenance_window_cyclic:
  assumes "split_on (CHR '','') (getenv ''DECISION_MAINTENANCE_WINDOW'') = [a, b]"
    and "atoi (trim_space a) = Some s" "atoi (trim_space b) = Some e"
    and "0 \<le> s" "s < 24" "0 \<le> e" "e < 24" "0 \<le> hour" "hour < 24"
  shows "isMaintenanceWindowActive getenv hour \<longleftrightarrow> (hour - s) mod 24 < (e - s) mod 24"
proof -
  have "getenv ''DECISION_MAINTENANCE_WINDOW'' \<noteq> ''''" using assms(1) by auto
  then have "isMaintenanceWindowActive getenv hour \<longleftrightarrow>
      (if s \<le> e then s \<le> hour \<and> hour < e else s \<le> hour \<or> hour < e)"
    using assms(1-3) by (simp add: isMaintenanceWindowActive_def Let_def)
  moreover have "x mod 24 = (if 0 \<le> x then x else x + 24)" if "-24 < x" "x < 24" for x :: int
    using that by presburger
  ultimately show ?thesis using assms(4-9) by simp
qed

text \<open>
  Outside maintenance, a request to enforce is answered with \<open>suggest\<close> on unprotected
  targets, but with a canary rollout on targets that carry a protected label.
\<close>

lemma enforce_canary_only_on_protected:
  assumes "\<not> isMaintenanceWindowActive getenv hour" "0 < getMaxCanaryHosts g getenv" "0 < n"
  shows "ds_Strategy (DecideStrategy g getenv hour ''enforce'' n labels) =
    (if hasNeverBlockLabels labels (getNeverBlockLabels g getenv) then Canary else Suggest)"
proof -
  have "parseStrategy ''enforce'' = Enforce" by code_simp
  with assms show ?thesis
    by (simp add: DecideStrategy_Strategy zero_canary_rule_def calculateCanarySize_def Let_def)
qed

section \<open>Labels\<close>

lemma blank_label_protected:
  "trim_space l = '''' \<Longrightarrow> l \<in> set labels \<Longrightarrow> nbs \<noteq> [] \<Longrightarrow> hasNeverBlockLabels labels nbs"
  by (cases nbs) (auto simp: hasNeverBlockLabels_def list_ex_iff intro!: bexI [of _ l])

lemma contains_same_length: "length a = length b \<Longrightarrow> contains a b \<longleftrightarrow> a = b"
  unfolding contains_def by (auto simp: sublist_def intro: exI [of _ "[]"])

text \<open>
  Labels from the configuration service are compared as they are written, while host labels
  are lowered: a configured label with an upper-case letter does not protect a host that carries
  that very label.
\<close>

lemma uppercase_config_label_unprotected:
  assumes "gr_config g = Some c" "cs_NeverBlockLabels c = [nb]" "to_lower nb \<noteq> nb" "trim_space l = nb"
  shows "\<not> hasNeverBlockLabels [l] (getNeverBlockLabels g getenv)"
proof -
  have "length (to_lower nb) = length nb" by (simp add: to_lower_def)
  with contains_same_length [of nb "to_lower nb"] contains_same_length [of "to_lower nb" nb] assms
  show ?thesis by (simp add: hasNeverBlockLabels_def getNeverBlockLabels_def Let_def)
qed

section \<open>Examples\<close>

text \<open>A process whose maintenance window runs from 22 to 4 o'clock, and a configuration that
  protects databases.\<close>

definition ex_getenv :: "string \<Rightarrow> string" where
  "ex_getenv v = (if v = ''DECISION_MAINTENANCE_WINDOW'' then ''22, 4'' else '''')"

definition ex_guardrails :: guardrails where
  "ex_guardrails = UpdateConfig NewGuardrails (default_snapshot 0)"

theorem DecideStrategy_safe_witness:
  "let d = DecideStrategy ex_guardrails ex_getenv 9 ''aggressive'' 8 [''role:db'', ''web''] in
     ds_Strategy d = Canary \<and> ds_CanarySize d = 5 \<and> ds_Strategy d \<noteq> Aggressive \<and> ds_CanarySize d \<le> 8"
proof -
  have "hasNeverBlockLabels [''role:db'', ''web''] (getNeverBlockLabels ex_guardrails ex_getenv)"
    by code_simp
  moreover have "ds_Strategy (DecideStrategy ex_guardrails ex_getenv 9 ''aggressive'' 8 [''role:db'', ''web'']) = Canary"
    "ds_CanarySize (DecideStrategy ex_guardrails ex_getenv 9 ''aggressive'' 8 [''role:db'', ''web'']) = 5"
    by code_simp+
  ultimately show ?thesis
    using DecideStrategy_safe [of ex_guardrails ex_getenv 9 "''aggressive''" 8 "[''role:db'', ''web'']"]
    by (simp add: Let_def)
qed

lemma DecideStrategy_never_escalates_witness:
  "ds_Strategy (DecideStrategy ex_guardrails ex_getenv 23 ''canary'' 3 []) < parseStrategy ''canary''"
proof -
  have "isMaintenanceWindowActive ex_getenv 23" "Observe < parseStrategy ''canary''" by code_simp+
  with DecideStrategy_never_escalates [of ex_guardrails ex_getenv 23 "''canary''" 3 "[]"] show ?thesis by simp
qed

lemma maintenance_window_cyclic_witness:
  "isMaintenanceWindowActive ex_getenv 1 \<longleftrightarrow> (1 - 22) mod 24 < (4 - 22) mod (24 :: int)"
  by (rule maintenance_window_cyclic [of _ "''22''" "'' 4''"]) (simp_all, code_simp+)

theorem enforce_canary_only_on_protected_witness:
  "ds_Strategy (DecideStrategy ex_guardrails ex_getenv 9 ''enforce'' 3 [''role:db'']) = Canary
   \<and> hasNeverBlockLabels [''role:db''] (getNeverBlockLabels ex_guardrails ex_getenv)"
proof -
  have "\<not> isMaintenanceWindowActive ex_getenv 9" "0 < getMaxCanaryHosts ex_guardrails ex_getenv"
    "hasNeverBlockLabels [''role:db''] (getNeverBlockLabels ex_guardrails ex_getenv)" by code_simp+
  with enforce_canary_only_on_protected [of ex_getenv 9 ex_guardrails 3 "[''role:db'']"] show ?thesis by simp
qed

theorem uppercase_config_label_unprotected_witness:
  "\<not> hasNeverBlockLabels ['' Prod'']
      (getNeverBlockLabels (UpdateConfig NewGuardrails ((default_snapshot 0)\<lparr>cs_NeverBlockLabels := [''Prod'']\<rparr>)) ex_getenv)"
proof (rule uppercase_config_label_unprotected)
  show "gr_config (UpdateConfig NewGuardrails ((default_snapshot 0)\<lparr>cs_NeverBlockLabels := [''Prod'']\<rparr>))
    = Some ((default_snapshot 0)\<lparr>cs_NeverBlockLabels := [''Prod'']\<rparr>)" by (simp add: UpdateConfig_def)
  show "cs_NeverBlockLabels ((default_snapshot 0)\<lparr>cs_NeverBlockLabels := [''Prod'']\<rparr>) = [''Prod'']" by simp
  show "to_lower ''Prod'' \<noteq> ''Prod''" "trim_space '' Prod'' = ''Prod''" by code_simp+
qed

end
