(* ===== verification/Dec_Store.thy ===== *)
theory Dec_Store
  imports Dec_Guardrails
begin

text \<open>
  The decision service's plans (\<open>internal/model/plan.go\<close>) and their bounded in-memory store
  (\<open>internal/store/memory.go\<close>). The store's map is visited in the order of its association list.
  The publisher is the list of events handed to it; \<^term>\<open>None\<close> is a nil publisher.
\<close>

section \<open>Plans\<close>

datatype plan_status =
    StPending | StProposed | StActive | StCompleted | StFailed | StCancelled | OtherStatus string

fun status_string :: "plan_status \<Rightarrow> string" where
  "status_string StPending = ''pending''"
| "status_string StProposed = ''proposed''"
| "status_string StActive = ''active''"
| "status_string StCompleted = ''completed''"
| "status_string StFailed = ''failed''"
| "status_string StCancelled = ''cancelled''"
| "status_string (OtherStatus s) = s"

record success_criteria =
  sc_MinSuccessRate :: float64
  sc_MaxFailureRate :: float64
  sc_TimeoutSeconds :: int
  sc_RequiredMetrics :: "string list"

record rollback_config =
  rb_Enabled :: bool
  rb_Triggers :: "string list"
  rb_TimeoutSeconds :: int
  rb_Actions :: "string list"

record control =
  ct_ID :: string
  ct_Type :: string
  ct_Description :: string
  ct_ManualApproval :: bool
  ct_Gates :: "string list"
  ct_Escalation :: "string list"

record strategy =
  sy_Mode :: strategy_mode
  sy_SuccessCriteria :: success_criteria
  sy_Rollback :: rollback_config
  sy_Control :: control
  sy_Description :: string

record plan_finding =
  pf_ID :: string
  pf_Severity :: string
  pf_Confidence :: float64
  pf_Status :: string
  pf_HostID :: string
  pf_CVE :: string
  pf_Evidence :: "string list"
  pf_Timestamp :: time
  pf_RuleID :: string
  pf_TTLSeconds :: int
  pf_Metadata :: "(string, gval) gomap"

record plan =
  pl_ID :: string
  pl_FindingID :: string
  pl_Name :: string
  pl_Description :: string
  pl_Status :: plan_status
  pl_Strategy :: strategy
  pl_Steps :: "string list"
  pl_Metadata :: "(string, gval) gomap"
  pl_CreatedAt :: time
  pl_UpdatedAt :: time
  pl_ExpiresAt :: "time option"
  pl_Finding :: plan_finding
  pl_Targets :: "string list"
  pl_Controls :: "control list"
  pl_TTLSeconds :: int
  pl_Notes :: string

section \<open>The store\<close>

record plan_store =
  ps_plans :: "(string, plan) gomap"
  ps_capacity :: int
  ps_published :: "(string \<times> plan) list option"

datatype store_error = PlanNotFound string

definition NewMemoryPlanStore :: "int \<Rightarrow> bool \<Rightarrow> plan_store" where
  "NewMemoryPlanStore capacity withPublisher =
     \<lparr>ps_plans = [], ps_capacity = capacity, ps_published = (if withPublisher then Some [] else None)\<rparr>"

definition publishPlanEvent :: "string \<Rightarrow> plan \<Rightarrow> plan_store \<Rightarrow> plan_store" where
  "publishPlanEvent eventType p s = s\<lparr>ps_published := map_option (\<lambda>es. es @ [(eventType, p)]) (ps_published s)\<rparr>"

text \<open>The loop that looks for the oldest plan: the identifier and creation time found so far.\<close>

definition oldest_step :: "string \<times> plan \<Rightarrow> string \<times> time \<Rightarrow> string \<times> time" where
  "oldest_step entry best =
     (case entry of (ident, p) \<Rightarrow> case best of (oldestID, oldestTime) \<Rightarrow>
        if oldestID = '''' \<or> pl_CreatedAt p < oldestTime then (ident, pl_CreatedAt p)
        else (oldestID, oldestTime))"

definition oldest_id :: "(string, plan) gomap \<Rightarrow> string" where
  "oldest_id plans = fst (fold oldest_step plans ('''', zero_time))"

definition PS_Store :: "plan_store \<Rightarrow> plan \<Rightarrow> plan_store" where
  "PS_Store s p =
     (let plans1 = (if int (length (ps_plans s)) \<ge> ps_capacity s then
                      (let oldestID = oldest_id (ps_plans s)
                       in if oldestID \<noteq> '''' then map_delete oldestID (ps_plans s) else ps_plans s)
                    else ps_plans s)
      in publishPlanEvent ''plan.created'' p (s\<lparr>ps_plans := map_set (pl_ID p) p plans1\<rparr>))"

definition PS_Get :: "plan_store \<Rightarrow> string \<Rightarrow> store_error + plan" where
  "PS_Get s ident = (case map_get (ps_plans s) ident of None \<Rightarrow> Inl (PlanNotFound ident) | Some p \<Rightarrow> Inr p)"

definition PS_List :: "plan_store \<Rightarrow> plan list" where
  "PS_List s = map_values (ps_plans s)"

definition PS_Update :: "plan_store \<Rightarrow> time \<Rightarrow> plan \<Rightarrow> (store_error + unit) \<times> plan_store" where
  "PS_Update s now p =
     (case map_get (ps_plans s) (pl_ID p) of
        None \<Rightarrow> (Inl (PlanNotFound (pl_ID p)), s)
      | Some _ \<Rightarrow>
          let p' = p\<lparr>pl_UpdatedAt := now\<rparr>
          in (Inr (), publishPlanEvent ''plan.updated'' p' (s\<lparr>ps_plans := map_set (pl_ID p) p' (ps_plans s)\<rparr>)))"

definition PS_Delete :: "plan_store \<Rightarrow> string \<Rightarrow> (store_error + unit) \<times> plan_store" where
  "PS_Delete s ident =
     (case map_get (ps_plans s) ident of
        None \<Rightarrow> (Inl (PlanNotFound ident), s)
      | Some p \<Rightarrow> (Inr (), publishPlanEvent ''plan.deleted'' p (s\<lparr>ps_plans := map_delete ident (ps_plans s)\<rparr>)))"

definition PS_GetByStatus :: "plan_store \<Rightarrow> plan_status \<Rightarrow> plan list" where
  "PS_GetByStatus s status = filter (\<lambda>p. pl_Status p = status) (map_values (ps_plans s))"

definition plan_expired :: "time \<Rightarrow> plan \<Rightarrow> bool" where
  "plan_expired now p = (case pl_ExpiresAt p of None \<Rightarrow> False | Some t \<Rightarrow> t < now)"

definition PS_Cleanup :: "plan_store \<Rightarrow> time \<Rightarrow> plan_store" where
  "PS_Cleanup s now =
     (let expiredIDs = map fst (filter (\<lambda>(ident, p). plan_expired now p) (ps_plans s))
      in s\<lparr>ps_plans := fold map_delete expiredIDs (ps_plans s)\<rparr>)"

record plan_stats =
  pst_total_plans :: nat
  pst_capacity :: int
  pst_utilization :: float64
  pst_status_counts :: "(string, nat) gomap"

text \<open>The quotient of two float64 with integral values, up to rounding.\<close>

definition f_quotient :: "int \<Rightarrow> int \<Rightarrow> float64" where
  "f_quotient a b =
     (if b = 0 then (if a = 0 then NaN else if a > 0 then PosInf else NegInf) else Fin (of_int a / of_int b))"

definition PS_GetStats :: "plan_store \<Rightarrow> plan_stats" where
  "PS_GetStats s =
     \<lparr>pst_total_plans = length (ps_plans s), pst_capacity = ps_capacity s,
      pst_utilization = f_quotient (int (length (ps_plans s))) (ps_capacity s),
      pst_status_counts =
        fold (\<lambda>p counts. map_set (status_string (pl_Status p))
                (case map_get counts (status_string (pl_Status p)) of None \<Rightarrow> 1 | Some n \<Rightarrow> n + 1) counts)
          (map_values (ps_plans s)) []\<rparr>"

section \<open>The oldest plan\<close>

text \<open>Among plans with identifiers, the loop keeps the first of those created earliest.\<close>

definition created_before :: "string \<times> plan \<Rightarrow> string \<times> plan \<Rightarrow> bool" where
  "created_before a b \<longleftrightarrow> pl_CreatedAt (snd a) < pl_CreatedAt (snd b)"

interpretation oldest: strict_weak_choice created_before "\<lambda>_. True"
  by unfold_locales (auto simp: created_before_def)

lemma fold_oldest:
  assumes "\<forall>e \<in> set es. fst e \<noteq> ''''" "fst b \<noteq> ''''"
  shows "keep_best created_before (Some b) es = Some r \<Longrightarrow>
    fold oldest_step es (fst b, pl_CreatedAt (snd b)) = (fst r, pl_CreatedAt (snd r))"
  using assms
proof (induction es arbitrary: b)
  case Nil
  then show ?case by simp
next
  case (Cons e es)
  have "oldest_step e (fst b, pl_CreatedAt (snd b)) =
      (if created_before e b then (fst e, pl_CreatedAt (snd e)) else (fst b, pl_CreatedAt (snd b)))"
    using Cons.prems by (simp add: oldest_step_def created_before_def split: prod.splits)
  with Cons show ?case by (simp split: if_splits)
qed

lemma oldest_id_spec:
  assumes "plans \<noteq> []" "\<forall>e \<in> set plans. fst e \<noteq> ''''"
  shows "\<exists>p. (oldest_id plans, p) \<in> set plans \<and> (\<forall>q \<in> set (map_values plans). pl_CreatedAt p \<le> pl_CreatedAt q)"
proof -
  obtain e es where es: "plans = e # es" using assms(1) by (cases plans) auto
  obtain r where r: "keep_best created_before None plans = Some r" "r \<in> set plans"
    "\<forall>x \<in> set plans. \<not> created_before x r" using oldest.keep_best_None [of plans] assms(1) by auto
  have "oldest_step e ('''', zero_time) = (fst e, pl_CreatedAt (snd e))"
    by (simp add: oldest_step_def split: prod.splits)
  moreover have "fold oldest_step es (fst e, pl_CreatedAt (snd e)) = (fst r, pl_CreatedAt (snd r))"
    using fold_oldest [of es e r] r(1) assms(2) es by simp
  ultimately have "oldest_id plans = fst r" by (simp add: oldest_id_def es)
  with r(2,3) show ?thesis
    by (intro exI [of _ "snd r"]) (auto simp: created_before_def not_less)
qed

section \<open>Invariant\<close>

text \<open>Every plan sits under its own non-empty identifier, and the store is within its capacity.\<close>

definition ps_inv :: "plan_store \<Rightarrow> bool" where
  "ps_inv s \<longleftrightarrow> map_ok (ps_plans s) \<and> 1 \<le> ps_capacity s \<and> int (length (ps_plans s)) \<le> ps_capacity s
     \<and> (\<forall>(k, p) \<in> set (ps_plans s). pl_ID p = k \<and> k \<noteq> '''')"

lemma publish_frame [simp]:
  "ps_plans (publishPlanEvent t p s) = ps_plans s" "ps_capacity (publishPlanEvent t p s) = ps_capacity s"
  by (simp_all add: publishPlanEvent_def)

lemma set_fold_delete: "set (fold map_delete ks m) \<subseteq> set m"
  by (induction ks arbitrary: m) (fastforce simp: AList.delete_eq)+

lemma length_fold_delete: "length (fold map_delete ks m) \<le> length m"
proof (induction ks arbitrary: m)
  case (Cons k ks)
  have "length (map_delete k m) \<le> length m" by (simp add: AList.delete_eq)
  with Cons.IH [of "map_delete k m"] show ?case by simp
qed simp

text \<open>What the eviction of \<open>PS_Store\<close> leaves: room for one more plan.\<close>

definition make_room :: "plan_store \<Rightarrow> (string, plan) gomap" where
  "make_room s = (if int (length (ps_plans s)) \<ge> ps_capacity s
                  then map_delete (oldest_id (ps_plans s)) (ps_plans s) else ps_plans s)"

lemma PS_Store_plans:
  assumes "ps_inv s"
  shows "ps_plans (PS_Store s p) = map_set (pl_ID p) p (make_room s)"
proof (cases "int (length (ps_plans s)) \<ge> ps_capacity s")
  case True
  with assms have "ps_plans s \<noteq> []" by (auto simp: ps_inv_def)
  with oldest_id_spec [of "ps_plans s"] assms have "oldest_id (ps_plans s) \<noteq> ''''"
    by (fastforce simp: ps_inv_def)
  with True show ?thesis by (simp add: PS_Store_def make_room_def Let_def)
next
  case False
  then show ?thesis by (simp add: PS_Store_def make_room_def Let_def)
qed

lemma make_room_length:
  assumes "ps_inv s"
  shows "int (length (make_room s)) < ps_capacity s" "map_ok (make_room s)" "set (make_room s) \<subseteq> set (ps_plans s)"
proof -
  have ok: "map_ok (ps_plans s)" using assms by (simp add: ps_inv_def)
  show "map_ok (make_room s)" using ok by (simp add: make_room_def gm.ok_del)
  show "set (make_room s) \<subseteq> set (ps_plans s)" by (auto simp: make_room_def AList.delete_eq)
  show "int (length (make_room s)) < ps_capacity s"
  proof (cases "int (length (ps_plans s)) \<ge> ps_capacity s")
    case True
    with assms have "ps_plans s \<noteq> []" by (auto simp: ps_inv_def)
    then obtain p where "(oldest_id (ps_plans s), p) \<in> set (ps_plans s)"
      using oldest_id_spec [of "ps_plans s"] assms by (fastforce simp: ps_inv_def)
    with ok have "map_of (ps_plans s) (oldest_id (ps_plans s)) = Some p" by simp
    from length_map_delete [OF ok this] True assms show ?thesis by (simp add: make_room_def ps_inv_def)
  qed (simp add: make_room_def)
qed

lemma ps_inv_Store:
  assumes "ps_inv s" "pl_ID p \<noteq> ''''"
  shows "ps_inv (PS_Store s p)"
  unfolding ps_inv_def PS_Store_plans [OF assms(1)]
  using make_room_length [OF assms(1)] assms
  by (auto simp: set_map_set length_map_set gm.ok_put ps_inv_def PS_Store_def Let_def)

lemma ps_inv_Update: "ps_inv s \<Longrightarrow> ps_inv (snd (PS_Update s now p))"
  by (auto simp: PS_Update_def Let_def ps_inv_def set_map_set length_map_set gm.ok_put
      dest: map_of_SomeD split: option.splits)

lemma ps_inv_shrink:
  assumes inv: "ps_inv s" and p: "ps_plans s' = fold map_delete ks (ps_plans s)"
    and c: "ps_capacity s' = ps_capacity s"
  shows "ps_inv s'"
proof -
  have "map_ok (ps_plans s')" using inv by (simp add: ps_inv_def p gm.ok_fold_del)
  moreover have "int (length (ps_plans s')) \<le> ps_capacity s'"
    using inv length_fold_delete [of ks "ps_plans s"] by (simp add: ps_inv_def p c)
  moreover have "\<forall>(k, q) \<in> set (ps_plans s'). pl_ID q = k \<and> k \<noteq> ''''"
    unfolding p
  proof (rule ballI)
    fix e
    assume "e \<in> set (fold map_delete ks (ps_plans s))"
    then have "e \<in> set (ps_plans s)" by (rule subsetD [OF set_fold_delete])
    then show "case e of (k, q) \<Rightarrow> pl_ID q = k \<and> k \<noteq> ''''" using inv by (auto simp: ps_inv_def)
  qed
  ultimately show ?thesis using inv by (simp add: ps_inv_def c)
qed

lemma ps_inv_Delete: "ps_inv s \<Longrightarrow> ps_inv (snd (PS_Delete s ident))"
  by (auto simp: PS_Delete_def split: option.splits intro!: ps_inv_shrink [of s _ "[ident]"])

lemma ps_inv_Cleanup: "ps_inv s \<Longrightarrow> ps_inv (PS_Cleanup s now)"
  by (erule ps_inv_shrink) (simp_all add: PS_Cleanup_def Let_def)

inductive ps_step :: "plan_store \<Rightarrow> plan_store \<Rightarrow> bool" where
  store: "pl_ID p \<noteq> '''' \<Longrightarrow> ps_step s (PS_Store s p)"
| update: "ps_step s (snd (PS_Update s now p))"
| delete: "ps_step s (snd (PS_Delete s ident))"
| cleanup: "ps_step s (PS_Cleanup s now)"

inductive_cases ps_stepE: "ps_step s t"

definition ps_init :: "plan_store \<Rightarrow> bool" where
  "ps_init s \<longleftrightarrow> (\<exists>capacity \<ge> 1. \<exists>b. s = NewMemoryPlanStore capacity b)"

interpretation pssys: inductive_invariant ps_init ps_step ps_inv
proof (unfold_locales, goal_cases)
  case (1 s)
  then show ?case by (auto simp: ps_init_def NewMemoryPlanStore_def ps_inv_def)
next
  case (2 s t)
  from 2(2) show ?case
    by (rule ps_stepE) (use 2(1) in \<open>simp_all add: ps_inv_Store ps_inv_Update ps_inv_Delete ps_inv_Cleanup\<close>)
qed

text \<open>
  In every state reached by any sequence of stores, updates, deletions and cleanups the plan
  store is within its capacity (of at least one) and holds every plan under its own identifier.
\<close>

lemma plan_store_invariant: "reach ps_init ps_step s \<Longrightarrow> ps_inv s"
  by (rule pssys.reach_inv)

section \<open>Behaviour of the operations\<close>

text \<open>
  Storing a plan makes it retrievable under its identifier. A store that is not full keeps
  every other plan; a full one drops exactly one plan, created no later than any other, unless the
  new plan itself takes that plan's identifier.
\<close>

lemma PS_Store_effect:
  assumes "ps_inv s" "pl_ID p \<noteq> ''''"
  shows "PS_Get (PS_Store s p) (pl_ID p) = Inr p
    \<and> (int (length (ps_plans s)) < ps_capacity s \<longrightarrow>
         (\<forall>k. k \<noteq> pl_ID p \<longrightarrow> PS_Get (PS_Store s p) k = PS_Get s k))
    \<and> (int (length (ps_plans s)) = ps_capacity s \<longrightarrow>
         (\<exists>old. PS_Get s (pl_ID old) = Inr old
            \<and> (\<forall>q \<in> set (PS_List s). pl_CreatedAt old \<le> pl_CreatedAt q)
            \<and> (\<forall>k. k \<noteq> pl_ID p \<longrightarrow>
                 PS_Get (PS_Store s p) k = (if k = pl_ID old then Inl (PlanNotFound k) else PS_Get s k))))"
proof -
  have ok: "map_ok (ps_plans s)" using assms by (simp add: ps_inv_def)
  have 1: "PS_Get (PS_Store s p) (pl_ID p) = Inr p"
    by (simp add: PS_Get_def PS_Store_plans [OF assms(1)])
  have 2: "PS_Get (PS_Store s p) k = PS_Get s k"
    if "int (length (ps_plans s)) < ps_capacity s" "k \<noteq> pl_ID p" for k
    using that by (simp add: PS_Get_def PS_Store_plans [OF assms(1)] make_room_def)
  have 3: "\<exists>old. PS_Get s (pl_ID old) = Inr old
            \<and> (\<forall>q \<in> set (PS_List s). pl_CreatedAt old \<le> pl_CreatedAt q)
            \<and> (\<forall>k. k \<noteq> pl_ID p \<longrightarrow>
                 PS_Get (PS_Store s p) k = (if k = pl_ID old then Inl (PlanNotFound k) else PS_Get s k))"
    if full: "int (length (ps_plans s)) = ps_capacity s"
  proof -
    from full assms have "ps_plans s \<noteq> []" by (auto simp: ps_inv_def)
    then obtain old where old: "(oldest_id (ps_plans s), old) \<in> set (ps_plans s)"
      "\<forall>q \<in> set (map_values (ps_plans s)). pl_CreatedAt old \<le> pl_CreatedAt q"
      using oldest_id_spec [of "ps_plans s"] assms by (fastforce simp: ps_inv_def)
    then have ident: "oldest_id (ps_plans s) = pl_ID old" using assms(1) by (auto simp: ps_inv_def)
    have "PS_Get s (pl_ID old) = Inr old"
      using map_of_is_SomeI [OF ok old(1)] by (simp add: PS_Get_def ident)
    moreover have "PS_Get (PS_Store s p) k = (if k = pl_ID old then Inl (PlanNotFound k) else PS_Get s k)"
      if "k \<noteq> pl_ID p" for k
      using that full ok ident by (simp add: PS_Get_def PS_Store_plans [OF assms(1)] make_room_def)
    ultimately show ?thesis using old(2) by (auto simp: PS_List_def)
  qed
  show ?thesis using 1 2 3 by simp
qed

text \<open>
  Overwriting a plan of a full store evicts a plan although no room is needed: unless the
  overwritten plan is the evicted one, the store ends one plan below its capacity.
\<close>

lemma overwrite_at_capacity_loses_plan:
  assumes "ps_inv s" "int (length (ps_plans s)) = ps_capacity s"
    and "map_get (ps_plans s) (pl_ID p) \<noteq> None" "pl_ID p \<noteq> oldest_id (ps_plans s)"
  shows "int (length (ps_plans (PS_Store s p))) = ps_capacity s - 1"
proof -
  have ok: "map_ok (ps_plans s)" using assms(1) by (simp add: ps_inv_def)
  from assms have "ps_plans s \<noteq> []" by auto
  then obtain q where "(oldest_id (ps_plans s), q) \<in> set (ps_plans s)"
    using oldest_id_spec [of "ps_plans s"] assms(1) by (fastforce simp: ps_inv_def)
  then have "map_of (ps_plans s) (oldest_id (ps_plans s)) = Some q" using ok by simp
  from length_map_delete [OF ok this] have "int (length (make_room s)) = ps_capacity s - 1"
    using assms(2) by (simp add: make_room_def)
  moreover have "map_get (make_room s) (pl_ID p) \<noteq> None"
    using assms(2-4) ok by (simp add: make_room_def)
  ultimately show ?thesis by (simp add: PS_Store_plans [OF assms(1)] length_map_set)
qed

lemma PS_Cleanup_get:
  assumes "ps_inv s"
  shows "PS_Get (PS_Cleanup s now) k =
    (case PS_Get s k of Inl e \<Rightarrow> Inl e
     | Inr p \<Rightarrow> if plan_expired now p then Inl (PlanNotFound k) else Inr p)"
proof -
  have ok: "map_ok (ps_plans s)" using assms by (simp add: ps_inv_def)
  have "k \<in> fst ` {e \<in> set (ps_plans s). plan_expired now (snd e)} \<longleftrightarrow>
      (\<exists>p. map_of (ps_plans s) k = Some p \<and> plan_expired now p)"
    using ok by (force simp: map_of_eq_Some_iff [OF ok])
  then show ?thesis
    using gm.get_fold_del [OF ok] by (auto simp: PS_Get_def PS_Cleanup_def Let_def split_def split: option.splits)
qed

text \<open>
  Cleanup removes exactly the plans whose expiry lies before the current time and keeps every
  other plan.
\<close>

lemma PS_Cleanup_effect:
  assumes "ps_inv s"
  shows "PS_Get (PS_Cleanup s now) k =
    (case PS_Get s k of Inl e \<Rightarrow> Inl e
     | Inr p \<Rightarrow> if plan_expired now p then Inl (PlanNotFound k) else Inr p)"
  by (rule PS_Cleanup_get [OF assms])

section \<open>Examples\<close>

definition ex_plan :: "string \<Rightarrow> time \<Rightarrow> plan" where
  "ex_plan ident created =
     \<lparr>pl_ID = ident, pl_FindingID = '''', pl_Name = '''', pl_Description = '''', pl_Status = StProposed,
      pl_Strategy = \<lparr>sy_Mode = Suggest,
        sy_SuccessCriteria = \<lparr>sc_MinSuccessRate = Fin 1, sc_MaxFailureRate = Fin 0, sc_TimeoutSeconds = 300,
                              sc_RequiredMetrics = []\<rparr>,
        sy_Rollback = \<lparr>rb_Enabled = False, rb_Triggers = [], rb_TimeoutSeconds = 0, rb_Actions = []\<rparr>,
        sy_Control = \<lparr>ct_ID = '''', ct_Type = '''', ct_Description = '''', ct_ManualApproval = False,
                      ct_Gates = [], ct_Escalation = []\<rparr>, sy_Description = ''''\<rparr>,
      pl_Steps = [], pl_Metadata = [], pl_CreatedAt = created, pl_UpdatedAt = created, pl_ExpiresAt = None,
      pl_Finding = \<lparr>pf_ID = '''', pf_Severity = '''', pf_Confidence = Fin 0, pf_Status = '''', pf_HostID = '''',
        pf_CVE = '''', pf_Evidence = [], pf_Timestamp = 0, pf_RuleID = '''', pf_TTLSeconds = 0, pf_Metadata = []\<rparr>,
      pl_Targets = [], pl_Controls = [], pl_TTLSeconds = 0, pl_Notes = ''''\<rparr>"

definition ex_full :: plan_store where
  "ex_full = PS_Store (PS_Store (NewMemoryPlanStore 2 True) (ex_plan ''a'' 5)) (ex_plan ''b'' 3)"

lemma ex_reach: "reach ps_init ps_step ex_full"
proof -
  have "ps_init (NewMemoryPlanStore 2 True)"
    unfolding ps_init_def by (intro exI [of _ 2] conjI exI [of _ True]) simp_all
  moreover have "ps_step s (PS_Store s (ex_plan ''a'' t))" "ps_step s (PS_Store s (ex_plan ''b'' t))" for s t
    by (rule ps_step.store, simp add: ex_plan_def)+
  ultimately show ?thesis unfolding ex_full_def by (blast intro: reach.intros)
qed

lemma plan_store_invariant_witness: "ps_inv ex_full"
  by (rule plan_store_invariant [OF ex_reach])

lemma ex_full_inv: "ps_inv ex_full"
  by (rule pssys.reach_inv [OF ex_reach])

lemma ex_full_plans: "ps_plans ex_full = [(''a'', ex_plan ''a'' 5), (''b'', ex_plan ''b'' 3)]"
  "ps_capacity ex_full = 2"
  by code_simp+

lemma PS_Store_effect_witness:
  "PS_Get (PS_Store ex_full (ex_plan ''c'' 9)) ''c'' = Inr (ex_plan ''c'' 9)
   \<and> (\<exists>old. PS_Get ex_full (pl_ID old) = Inr old
        \<and> (\<forall>k. k \<noteq> ''c'' \<longrightarrow> PS_Get (PS_Store ex_full (ex_plan ''c'' 9)) k
                 = (if k = pl_ID old then Inl (PlanNotFound k) else PS_Get ex_full k)))"
proof -
  have ident: "pl_ID (ex_plan ''c'' 9) = ''c''" by (simp add: ex_plan_def)
  have full: "int (length (ps_plans ex_full)) = ps_capacity ex_full" by (simp add: ex_full_plans)
  from PS_Store_effect [OF ex_full_inv, of "ex_plan ''c'' 9"] full
  show ?thesis unfolding ident by blast
qed

lemma overwrite_at_capacity_loses_plan_witness:
  "int (length (ps_plans (PS_Store ex_full (ex_plan ''a'' 9)))) = 1"
proof -
  have "oldest_id (ps_plans ex_full) = ''b''" unfolding ex_full_plans by code_simp
  with overwrite_at_capacity_loses_plan [OF ex_full_inv, of "ex_plan ''a'' 9"]
  show ?thesis by (simp add: ex_full_plans ex_plan_def)
qed

lemma PS_Cleanup_effect_witness:
  "PS_Get (PS_Cleanup ex_full 100) ''a'' = Inr (ex_plan ''a'' 5)"
  using PS_Cleanup_effect [OF ex_full_inv, of 100 "''a''"]
  by (simp add: PS_Get_def ex_full_plans plan_expired_def ex_plan_def)

end
