(* ===== verification/Dec_Api.thy ===== *)
theory Dec_Api
  imports Dec_Store
begin

text \<open>
  The plan pipeline of the decision service: the planner agent (\<open>internal/agents/planner.go\<close>) and
  the handlers of \<open>internal/api/http.go\<close> that create, list and read plans. The other agents are
  fields of \<open>pipeline\<close>: the controls the policy writer generates for a list of intents, the
  identifiers of the related targets the segmenter infers, and the explainer's text, each
  \<^term>\<open>None\<close> for an error. Decoded requests are the handlers' arguments, \<^term>\<open>None\<close> when decoding
  failed.
\<close>

section \<open>Dynamic findings\<close>

text \<open>
  A finding is a map of dynamic values. Those decoded from JSON are generic (\<open>DJson\<close>); the code
  itself also puts typed slices and maps into one.
\<close>

datatype dval = DJson gval | DStrings "string list" | DMap "(string \<times> dval) list"

type_synonym dfinding = "(string, dval) gomap"

definition json_finding :: "(string, gval) gomap \<Rightarrow> dfinding" where
  "json_finding m = map (\<lambda>(k, v). (k, DJson v)) m"

text \<open>The type assertions the code makes.\<close>

fun as_string :: "dval option \<Rightarrow> string option" where
  "as_string (Some (DJson (VStr s))) = Some s"
| "as_string _ = None"

fun as_strings :: "dval option \<Rightarrow> string list option" where
  "as_strings (Some (DStrings ss)) = Some ss"
| "as_strings _ = None"

fun as_map :: "dval option \<Rightarrow> dfinding option" where
  "as_map (Some (DMap m)) = Some m"
| "as_map (Some (DJson (VObj m))) = Some (json_finding m)"
| "as_map _ = None"

fun as_float :: "dval option \<Rightarrow> float64 option" where
  "as_float (Some (DJson (VNum x))) = Some x"
| "as_float _ = None"

function (sequential) fmt_dval :: "(float64 \<Rightarrow> string) \<Rightarrow> dval \<Rightarrow> string" where
  "fmt_dval g (DJson v) = fmt_v g v"
| "fmt_dval g (DStrings ss) = ''['' @ join_with '' '' ss @ '']''"
| "fmt_dval g (DMap m) =
     ''map['' @ join_with '' ''
       (map (\<lambda>(k, t). k @ '':'' @ t) (sort_key fst (map (\<lambda>(k, v). (k, fmt_dval g v)) m))) @ '']''"
  by pat_completeness auto
termination
proof (relation "measure (\<lambda>(g, v). size v)", goal_cases)
  case (2 g m p k v)
  then have "size v < Suc (size_list (size_prod (\<lambda>_. 0) size) m)"
    by (induction m) auto
  then show ?case by simp
qed auto

definition fmt_field :: "(float64 \<Rightarrow> string) \<Rightarrow> dval option \<Rightarrow> string" where
  "fmt_field g v = (case v of None \<Rightarrow> ''<nil>'' | Some d \<Rightarrow> fmt_dval g d)"

section \<open>The planner\<close>

record control_intent =
  ci_action :: string
  ci_target :: string
  ci_reason :: string
  ci_ttl_seconds :: int
  ci_type :: "string option"

record plan_draft =
  dr_Targets :: "string list"
  dr_ControlIntents :: "control_intent list"
  dr_DesiredMode :: strategy_mode
  dr_SuccessCriteria :: "(string, gval) gomap option"
  dr_Notes :: string

definition draft_criteria :: "(string, gval) gomap" where
  "draft_criteria = [(''min_success_rate'', VNum (Fin (95 / 100))), (''timeout_seconds'', VNum (Fin 300))]"

definition createFallbackDraft :: "(float64 \<Rightarrow> string) \<Rightarrow> dfinding \<Rightarrow> plan_draft" where
  "createFallbackDraft fmt finding =
     (let targets = (case as_string (map_get finding ''host_id'') of Some h \<Rightarrow> [h] | None \<Rightarrow> []);
          severity = as_string (map_get finding ''severity'');
          intents = (case severity of
              None \<Rightarrow> []
            | Some sev \<Rightarrow>
                [\<lparr>ci_action = (if sev = ''critical'' then ''block'' else if sev = ''high'' then ''suggest'' else ''observe''),
                  ci_target = ''finding_host'', ci_reason = ''Security finding: '' @ sev,
                  ci_ttl_seconds = 3600, ci_type = None\<rparr>]);
          mode = (case severity of
              None \<Rightarrow> Suggest
            | Some sev \<Rightarrow> if sev = ''critical'' then Enforce else if sev = ''high'' then Canary
                          else if sev = ''medium'' then Suggest else Observe);
          notes = ''Fallback plan for finding: '' @ fmt_field fmt (map_get finding ''id'')
            @ (case as_string (map_get finding ''rule_id'') of None \<Rightarrow> '''' | Some rid \<Rightarrow> '' (Rule: '' @ rid @ '')'')
      in \<lparr>dr_Targets = targets, dr_ControlIntents = intents, dr_DesiredMode = mode,
          dr_SuccessCriteria = Some draft_criteria, dr_Notes = notes\<rparr>)"

definition contains_ci :: "string \<Rightarrow> string \<Rightarrow> bool" where
  "contains_ci s substr =
     (let s' = to_lower s; sub' = to_lower substr
      in length s' \<ge> length sub' \<and> (length s' = length sub' \<and> s' = sub' \<or> contains s' sub'))"

definition createEnhancedFallbackDraft :: "(float64 \<Rightarrow> string) \<Rightarrow> dfinding \<Rightarrow> plan_draft" where
  "createEnhancedFallbackDraft fmt finding =
     (let targets = (case as_string (map_get finding ''host_id'') of Some h \<Rightarrow> [h] | None \<Rightarrow> []);
          connect = (case as_strings (map_get finding ''evidence'') of
              None \<Rightarrow> False
            | Some evs \<Rightarrow> list_ex (\<lambda>ev. contains_ci ev ''connect'' \<or> contains_ci ev ''connection''
                                        \<or> contains_ci ev ''network'') evs);
          intents = (if connect then
                       [\<lparr>ci_action = ''suggest'', ci_target = ''finding_host'',
                         ci_reason = ''Minimal network control for connect evidence'',
                         ci_ttl_seconds = 3600, ci_type = Some ''nft_drop''\<rparr>]
                     else []);
          notes = ''Fallback plan for finding: '' @ fmt_field fmt (map_get finding ''id'')
            @ (if connect then '' (Connect evidence detected - minimal nft_drop control applied)'' else '''')
      in \<lparr>dr_Targets = targets, dr_ControlIntents = intents, dr_DesiredMode = Suggest,
          dr_SuccessCriteria = Some draft_criteria, dr_Notes = notes\<rparr>)"

definition valid_modes :: "strategy_mode list" where
  "valid_modes = [Observe, Suggest, Canary, Enforce, Conservative, Balanced, Aggressive]"

definition validateAndFallback :: "plan_draft \<Rightarrow> dfinding \<Rightarrow> plan_draft" where
  "validateAndFallback draft finding =
     (let d1 = (if dr_Targets draft = [] then
                  draft\<lparr>dr_Targets := (case as_string (map_get finding ''host_id'') of
                                          Some h \<Rightarrow> [h] | None \<Rightarrow> [''unknown-host''])\<rparr>
                else draft);
          d2 = (if dr_ControlIntents d1 = [] then
                  d1\<lparr>dr_ControlIntents := [\<lparr>ci_action = ''observe'', ci_target = ''finding_host'',
                       ci_reason = ''Default fallback control'', ci_ttl_seconds = 3600, ci_type = None\<rparr>]\<rparr>
                else d1);
          d3 = (if length (dr_ControlIntents d2) > 3 then d2\<lparr>dr_ControlIntents := take 3 (dr_ControlIntents d2)\<rparr>
                else d2);
          d4 = (if dr_DesiredMode d3 \<in> set valid_modes then d3 else d3\<lparr>dr_DesiredMode := Suggest\<rparr>)
      in if dr_SuccessCriteria d4 = None then d4\<lparr>dr_SuccessCriteria := Some draft_criteria\<rparr> else d4)"

text \<open>Whether a client for the planner role is available is the argument \<open>client\<close>.\<close>

definition shouldUseFallback :: "(string \<Rightarrow> string) \<Rightarrow> bool \<Rightarrow> bool" where
  "shouldUseFallback getenv client = (getenv ''LLM_FALLBACK_MODE'' = ''true'' \<or> \<not> client)"

definition BuildPlanDraft ::
  "(float64 \<Rightarrow> string) \<Rightarrow> (string \<Rightarrow> string) \<Rightarrow> bool \<Rightarrow> dfinding \<Rightarrow> plan_draft" where
  "BuildPlanDraft fmt getenv client finding =
     (if shouldUseFallback getenv client
      then validateAndFallback (createEnhancedFallbackDraft fmt finding) finding
      else validateAndFallback (createFallbackDraft fmt finding) finding)"

section \<open>Helpers of the pipeline\<close>

record policy_artifact =
  pa_Type :: string
  pa_Content :: string

record policy_control =
  pc_Artifacts :: "policy_artifact list"
  pc_Description :: string

definition getStringFromFinding :: "dfinding \<Rightarrow> string \<Rightarrow> string" where
  "getStringFromFinding finding key = (case as_string (map_get finding key) of Some s \<Rightarrow> s | None \<Rightarrow> '''')"

definition getFloatFromFinding :: "dfinding \<Rightarrow> string \<Rightarrow> float64" where
  "getFloatFromFinding finding key = (case as_float (map_get finding key) of Some x \<Rightarrow> x | None \<Rightarrow> Fin 0)"

fun convertToStringSlice :: "dval option \<Rightarrow> string list" where
  "convertToStringSlice None = []"
| "convertToStringSlice (Some (DJson (VArr vs))) = map (\<lambda>v. case v of VStr s \<Rightarrow> s | _ \<Rightarrow> '''') vs"
| "convertToStringSlice (Some (DStrings ss)) = ss"
| "convertToStringSlice (Some _) = []"

definition extractGatesFromArtifacts :: "policy_artifact list \<Rightarrow> string list" where
  "extractGatesFromArtifacts artifacts =
     fold (\<lambda>gate unique. if gate \<in> set unique then unique else unique @ [gate])
       (map (\<lambda>a. if pa_Type a = ''nftables'' then ''network_filtering''
                 else if pa_Type a = ''cilium'' then ''network_policy''
                 else if pa_Type a = ''ebpf'' then ''runtime_monitoring''
                 else ''generic_control'') artifacts) []"

text \<open>Indexing the first artifact panics when there is none.\<close>

definition convertToModelControls :: "policy_control list \<Rightarrow> control list option" where
  "convertToModelControls pcs =
     (if list_ex (\<lambda>pc. pc_Artifacts pc = []) pcs then None
      else Some (map (\<lambda>(i, pc).
             \<lparr>ct_ID = ''control-'' @ itoa (int i + 1), ct_Type = pa_Type (hd (pc_Artifacts pc)),
              ct_Description = pc_Description pc, ct_ManualApproval = False,
              ct_Gates = extractGatesFromArtifacts (pc_Artifacts pc), ct_Escalation = []\<rparr>)
           (enumerate 0 pcs)))"

section \<open>Handlers\<close>

record create_plan_request =
  rq_FindingID :: "string option"
  rq_Finding :: "(string, gval) gomap option"
  rq_StrategyMode :: "strategy_mode option"

record explain_input =
  ex_id :: string
  ex_mode :: strategy_mode
  ex_targets :: "string list"
  ex_finding_id :: "dval option"
  ex_severity :: "dval option"
  ex_ttl_seconds :: int

record pipeline =
  pp_client :: bool
  pp_fmt_g :: "float64 \<Rightarrow> string"
  pp_controls :: "control_intent list \<Rightarrow> policy_control list option"
  pp_related :: "string \<Rightarrow> int \<Rightarrow> string list option"
  pp_explain :: "explain_input \<Rightarrow> string option"

record api =
  api_store :: plan_store
  api_guardrails :: guardrails
  api_nats :: "(string \<times> plan) list"

datatype response = BadRequest string | Created plan | Panicked

definition mock_finding :: "string \<Rightarrow> dfinding" where
  "mock_finding ident =
     [(''id'', DJson (VStr ident)), (''severity'', DJson (VStr ''high'')), (''host_id'', DJson (VStr ''web-01'')),
      (''rule_id'', DJson (VStr ''bash-exec-after-connect'')),
      (''evidence'', DStrings [''Bash execution detected after network connection'']),
      (''confidence'', DJson (VNum (Fin (8 / 10)))),
      (''context'', DMap [(''labels'', DStrings [''web'', ''frontend''])])]"

definition request_finding :: "create_plan_request \<Rightarrow> dfinding option" where
  "request_finding req =
     (case rq_FindingID req of
        Some ident \<Rightarrow> Some (mock_finding ident)
      | None \<Rightarrow> map_option json_finding (rq_Finding req))"

definition canaryLimit :: nat where
  "canaryLimit = 5"

text \<open>Steps 2 and 4: the draft's targets, extended by related ones up to the canary limit.\<close>

definition expand_targets :: "pipeline \<Rightarrow> plan_draft \<Rightarrow> dfinding \<Rightarrow> string list" where
  "expand_targets pp draft finding =
     (let targets = (if dr_Targets draft = [] then
                       (case as_string (map_get finding ''host_id'') of Some h \<Rightarrow> [h] | None \<Rightarrow> [''unknown-host''])
                     else dr_Targets draft)
      in if targets = [] then targets
         else case pp_related pp (hd targets) (int canaryLimit) of
                None \<Rightarrow> targets
              | Some rel \<Rightarrow> take canaryLimit (targets @ rel))"

text \<open>Step 5: the labels handed to the guardrails.\<close>

definition finding_labels :: "dfinding \<Rightarrow> string list" where
  "finding_labels finding =
     (case as_map (map_get finding ''context'') of
        None \<Rightarrow> []
      | Some context' \<Rightarrow> (case as_strings (map_get context' ''labels'') of None \<Rightarrow> [] | Some ls \<Rightarrow> ls))
     @ (case as_strings (map_get finding ''labels'') of None \<Rightarrow> [] | Some ls \<Rightarrow> ls)"

definition zero_control :: control where
  "zero_control = \<lparr>ct_ID = '''', ct_Type = '''', ct_Description = '''', ct_ManualApproval = False,
                   ct_Gates = [], ct_Escalation = []\<rparr>"

definition assemble_plan ::
  "string \<Rightarrow> time \<Rightarrow> dfinding \<Rightarrow> strategy_decision \<Rightarrow> string list \<Rightarrow> control list \<Rightarrow> string \<Rightarrow> plan" where
  "assemble_plan planID now finding decision targets controls explanation =
     \<lparr>pl_ID = planID, pl_FindingID = '''', pl_Name = '''', pl_Description = '''', pl_Status = StProposed,
      pl_Strategy = \<lparr>sy_Mode = ds_Strategy decision,
        sy_SuccessCriteria = \<lparr>sc_MinSuccessRate = Fin (95 / 100), sc_MaxFailureRate = Fin (5 / 100),
                              sc_TimeoutSeconds = 300, sc_RequiredMetrics = []\<rparr>,
        sy_Rollback = \<lparr>rb_Enabled = False, rb_Triggers = [], rb_TimeoutSeconds = 0, rb_Actions = []\<rparr>,
        sy_Control = zero_control, sy_Description = ''''\<rparr>,
      pl_Steps = [], pl_Metadata = [], pl_CreatedAt = now, pl_UpdatedAt = now, pl_ExpiresAt = None,
      pl_Finding = \<lparr>pf_ID = getStringFromFinding finding ''id'', pf_Severity = getStringFromFinding finding ''severity'',
        pf_Confidence = getFloatFromFinding finding ''confidence'', pf_Status = '''',
        pf_HostID = getStringFromFinding finding ''host_id'', pf_CVE = '''',
        pf_Evidence = convertToStringSlice (map_get finding ''evidence''), pf_Timestamp = now,
        pf_RuleID = getStringFromFinding finding ''rule_id'', pf_TTLSeconds = 0, pf_Metadata = []\<rparr>,
      pl_Targets = targets, pl_Controls = controls, pl_TTLSeconds = ds_TTLSeconds decision, pl_Notes = explanation\<rparr>"

definition plan_id :: "time \<Rightarrow> string" where
  "plan_id now = ''plan-'' @ itoa (now div 1000000000)"

definition handleCreatePlan ::
  "pipeline \<Rightarrow> (string \<Rightarrow> string) \<Rightarrow> int \<Rightarrow> time \<Rightarrow> create_plan_request option \<Rightarrow> api \<Rightarrow> response \<times> api" where
  "handleCreatePlan pp getenv hour now reqo a =
     (case reqo of
        None \<Rightarrow> (BadRequest ''Invalid JSON'', a)
      | Some req \<Rightarrow>
          (case request_finding req of
             None \<Rightarrow> (BadRequest ''Either finding_id or finding must be provided'', a)
           | Some finding \<Rightarrow>
               let planID = plan_id now;
                   draft = BuildPlanDraft (pp_fmt_g pp) getenv (pp_client pp) finding;
                   controls = (case pp_controls pp (dr_ControlIntents draft) of None \<Rightarrow> [] | Some cs \<Rightarrow> cs);
                   targets = expand_targets pp draft finding;
                   desiredMode = (case rq_StrategyMode req of None \<Rightarrow> dr_DesiredMode draft | Some m \<Rightarrow> m);
                   decision = DecideStrategy (api_guardrails a) getenv hour (mode_string desiredMode)
                                (int (length targets)) (finding_labels finding);
                   explanation = (case pp_explain pp \<lparr>ex_id = planID, ex_mode = ds_Strategy decision,
                                         ex_targets = targets, ex_finding_id = map_get finding ''id'',
                                         ex_severity = map_get finding ''severity'',
                                         ex_ttl_seconds = ds_TTLSeconds decision\<rparr> of
                                    None \<Rightarrow> ''Plan explanation could not be generated'' | Some t \<Rightarrow> t)
               in case convertToModelControls controls of
                    None \<Rightarrow> (Panicked, a)
                  | Some cs \<Rightarrow>
                      let p = assemble_plan planID now finding decision targets cs explanation
                      in (Created p, a\<lparr>api_store := PS_Store (api_store a) p,
                                       api_nats := api_nats a @ [(''plans.created'', p)]\<rparr>)))"

definition handleListPlans :: "api \<Rightarrow> plan list" where
  "handleListPlans a = PS_List (api_store a)"

datatype get_response = PlanIDRequired | GetNotFound | GetFound plan

definition handleGetPlan :: "api \<Rightarrow> string \<Rightarrow> get_response" where
  "handleGetPlan a planID =
     (if planID = '''' then PlanIDRequired
      else case PS_Get (api_store a) planID of Inl _ \<Rightarrow> GetNotFound | Inr p \<Rightarrow> GetFound p)"

record strategy_request =
  sr_DesiredStrategy :: string
  sr_NumTargets :: int
  sr_HostLabels :: "string list"

datatype strategy_response = StrategyRejected string | Decided strategy_decision

definition handleDecideStrategy ::
  "guardrails \<Rightarrow> (string \<Rightarrow> string) \<Rightarrow> int \<Rightarrow> string \<Rightarrow> strategy_request option \<Rightarrow> strategy_response" where
  "handleDecideStrategy g getenv hour meth reqo =
     (if meth \<noteq> ''POST'' then StrategyRejected ''Method not allowed''
      else case reqo of
        None \<Rightarrow> StrategyRejected ''Invalid JSON''
      | Some req \<Rightarrow>
          if sr_DesiredStrategy req = '''' then StrategyRejected ''desired_strategy must be provided''
          else if sr_NumTargets req < 0 then StrategyRejected ''num_targets must be non-negative''
          else Decided (DecideStrategy g getenv hour (sr_DesiredStrategy req) (sr_NumTargets req) (sr_HostLabels req)))"

section \<open>What a created plan guarantees\<close>

lemma validateAndFallback_targets:
  "dr_Targets (validateAndFallback d f) =
     (if dr_Targets d = [] then (case as_string (map_get f ''host_id'') of Some h \<Rightarrow> [h] | None \<Rightarrow> [''unknown-host''])
      else dr_Targets d)"
  by (simp add: validateAndFallback_def Let_def)

lemma BuildPlanDraft_one_target: "length (dr_Targets (BuildPlanDraft fmt getenv client f)) = 1"
  by (simp add: BuildPlanDraft_def validateAndFallback_targets createFallbackDraft_def
      createEnhancedFallbackDraft_def Let_def split: option.splits)

lemma expand_targets_bounds:
  assumes "length (dr_Targets draft) = 1"
  shows "1 \<le> length (expand_targets pp draft f)" "length (expand_targets pp draft f) \<le> canaryLimit"
  using assms
  by (auto simp: expand_targets_def Let_def canaryLimit_def Suc_le_eq split: option.splits list.splits)

lemma handleCreatePlan_CreatedE:
  assumes "handleCreatePlan pp getenv hour now req a = (Created p, a')"
  obtains req' f cs expl where "req = Some req'" "request_finding req' = Some f"
    "p = assemble_plan (plan_id now) now f
         (DecideStrategy (api_guardrails a) getenv hour
            (mode_string (case rq_StrategyMode req' of
               None \<Rightarrow> dr_DesiredMode (BuildPlanDraft (pp_fmt_g pp) getenv (pp_client pp) f) | Some m \<Rightarrow> m))
            (int (length (expand_targets pp (BuildPlanDraft (pp_fmt_g pp) getenv (pp_client pp) f) f)))
            (finding_labels f))
         (expand_targets pp (BuildPlanDraft (pp_fmt_g pp) getenv (pp_client pp) f) f) cs expl"
    "a' = a\<lparr>api_store := PS_Store (api_store a) p, api_nats := api_nats a @ [(''plans.created'', p)]\<rparr>"
proof -
  obtain req' where req: "req = Some req'" using assms by (cases req) (auto simp: handleCreatePlan_def)
  obtain f where f: "request_finding req' = Some f"
    using assms by (cases "request_finding req'") (auto simp: handleCreatePlan_def req)
  let ?d = "BuildPlanDraft (pp_fmt_g pp) getenv (pp_client pp) f"
  let ?c = "case pp_controls pp (dr_ControlIntents ?d) of None \<Rightarrow> [] | Some cs \<Rightarrow> cs"
  obtain cs where cs: "convertToModelControls ?c = Some cs"
    using assms by (cases "convertToModelControls ?c") (simp_all add: handleCreatePlan_def req f Let_def)
  show thesis
    by (rule that [OF req f, of cs "pl_Notes p"])
       (use assms in \<open>auto simp: handleCreatePlan_def req f cs Let_def assemble_plan_def\<close>)
qed

lemma handleCreatePlan_Created:
  assumes "handleCreatePlan pp getenv hour now req a = (Created p, a')"
  shows "pl_ID p = plan_id now" "pl_Status p = StProposed" "pl_ExpiresAt p = None"
    "sy_Mode (pl_Strategy p) \<noteq> Enforce"
    "1 \<le> length (pl_Targets p)" "length (pl_Targets p) \<le> canaryLimit"
    "a' = a\<lparr>api_store := PS_Store (api_store a) p, api_nats := api_nats a @ [(''plans.created'', p)]\<rparr>"
  by (rule handleCreatePlan_CreatedE [OF assms],
      use expand_targets_bounds [OF BuildPlanDraft_one_target] in
        \<open>simp add: assemble_plan_def DecideStrategy_Strategy zero_canary_rule_not_enforce\<close>)+

lemma plan_id_not_empty: "plan_id now \<noteq> ''''"
  by (simp add: plan_id_def)


section \<open>What it does not do\<close>

lemma map_get_json_finding: "map_get (json_finding m) k = map_option DJson (map_get m k)"
  by (induction m) (auto simp: json_finding_def)

lemma json_finding_labels: "finding_labels (json_finding m) = []"
proof -
  have no: "as_strings (map_get (json_finding m') k) = None" for m' k
    by (cases "map_get m' k") (simp_all add: map_get_json_finding)
  show ?thesis
  proof (cases "as_map (map_get (json_finding m) ''context'')")
    case None
    then show ?thesis by (simp add: finding_labels_def no)
  next
    case (Some c)
    then obtain m' where "c = json_finding m'"
      by (cases "map_get m ''context''"; cases "the (map_get m ''context'')") (auto simp: map_get_json_finding)
    with Some show ?thesis by (simp add: finding_labels_def no)
  qed
qed

text \<open>
  The labels of a finding sent with the request never reach the guardrails: the decision is
  the one for a host without labels, so a protected label in the request does not cap the mode.
\<close>

lemma inline_labels_ignored:
  assumes "handleCreatePlan pp getenv hour now (Some req) a = (Created p, a')"
    and "rq_FindingID req = None" "rq_Finding req = Some m" "rq_StrategyMode req = Some mode"
  shows "sy_Mode (pl_Strategy p) =
    ds_Strategy (DecideStrategy (api_guardrails a) getenv hour (mode_string mode)
                   (int (length (pl_Targets p))) [])"
  by (rule handleCreatePlan_CreatedE [OF assms(1)])
     (use assms(2-4) in \<open>auto simp: request_finding_def assemble_plan_def json_finding_labels\<close>)

text \<open>
  Two plans created within the same second share their identifier: the second replaces the
  first in the store, although both requests are answered with a plan.
\<close>

lemma same_second_overwrites:
  assumes "ps_inv (api_store a)" "now2 div 1000000000 = now1 div 1000000000"
    and "handleCreatePlan pp getenv hour now1 req1 a = (Created p1, a1)"
    and "handleCreatePlan pp getenv hour now2 req2 a1 = (Created p2, a2)"
  shows "pl_ID p1 = pl_ID p2 \<and> handleGetPlan a2 (pl_ID p1) = GetFound p2"
proof -
  note 1 = handleCreatePlan_Created(1,7) [OF assms(3)] and 2 = handleCreatePlan_Created(1,7) [OF assms(4)]
  note ne = plan_id_not_empty [of now1]
  have same: "plan_id now2 = plan_id now1" using assms(2) by (simp add: plan_id_def)
  have "ps_inv (api_store a1)" using ps_inv_Store [OF assms(1), of p1] 1 ne by simp
  then have "PS_Get (api_store a2) (pl_ID p2) = Inr p2" by (simp add: 2(2) PS_Get_def PS_Store_plans)
  with 1(1) 2(1) ne same show ?thesis by (simp add: handleGetPlan_def)
qed

text \<open>
  A plan created through the API has no expiry time: cleaning up never removes it, whatever
  its TTL.
\<close>

lemma created_plans_never_expire:
  assumes "handleCreatePlan pp getenv hour now req a = (Created p, a')" "ps_inv (api_store a)"
  shows "PS_Get (PS_Cleanup (api_store a') t) (pl_ID p) = Inr p"
proof -
  have p: "pl_ExpiresAt p = None" "pl_ID p \<noteq> ''''" "api_store a' = PS_Store (api_store a) p"
    using handleCreatePlan_Created(1,3,7) [OF assms(1)] plan_id_not_empty by simp_all
  have inv: "ps_inv (PS_Store (api_store a) p)" by (rule ps_inv_Store [OF assms(2) p(2)])
  have "PS_Get (PS_Store (api_store a) p) (pl_ID p) = Inr p"
    by (simp add: PS_Get_def PS_Store_plans [OF assms(2)])
  with PS_Cleanup_get [OF inv] p show ?thesis by (simp add: plan_expired_def)
qed

section \<open>Examples\<close>

text \<open>A pipeline whose agents answer nothing, and a request with a finding on a production
  database for which the aggressive mode is asked.\<close>

definition ex_pipeline :: pipeline where
  "ex_pipeline = \<lparr>pp_client = True, pp_fmt_g = (\<lambda>_. ''0''), pp_controls = (\<lambda>_. None),
                  pp_related = (\<lambda>_ _. Some [''db-02'']), pp_explain = (\<lambda>_. None)\<rparr>"

definition ex_request :: create_plan_request where
  "ex_request = \<lparr>rq_FindingID = None,
     rq_Finding = Some [(''host_id'', VStr ''db-01''), (''labels'', VArr [VStr ''role:db''])],
     rq_StrategyMode = Some Aggressive\<rparr>"

definition ex_api :: api where
  "ex_api = \<lparr>api_store = NewMemoryPlanStore 10 True, api_guardrails = ex_guardrails, api_nats = []\<rparr>"

definition ex_created :: "time \<Rightarrow> plan" where
  "ex_created now = assemble_plan (plan_id now) now (json_finding (the (rq_Finding ex_request)))
     (DecideStrategy ex_guardrails (\<lambda>_. '''') 9 ''aggressive'' 2 []) [''db-01'', ''db-02''] []
     ''Plan explanation could not be generated''"

lemma ex_create:
  "api_guardrails a = ex_guardrails \<Longrightarrow>
   handleCreatePlan ex_pipeline (\<lambda>_. '''') 9 now (Some ex_request) a =
     (Created (ex_created now), a\<lparr>api_store := PS_Store (api_store a) (ex_created now),
        api_nats := api_nats a @ [(''plans.created'', ex_created now)]\<rparr>)"
proof -
  let ?f = "json_finding (the (rq_Finding ex_request))"
  have f: "request_finding ex_request = Some ?f" by (simp add: request_finding_def ex_request_def)
  have h: "as_string (map_get ?f ''host_id'') = Some ''db-01''"
    by (simp add: ex_request_def json_finding_def)
  have t: "expand_targets ex_pipeline (BuildPlanDraft (\<lambda>_. ''0'') (\<lambda>_. '''') True ?f) ?f = [''db-01'', ''db-02'']"
    by (simp add: expand_targets_def ex_pipeline_def BuildPlanDraft_def shouldUseFallback_def
        validateAndFallback_targets createFallbackDraft_def h canaryLimit_def Let_def)
  have l: "finding_labels ?f = []" by (rule json_finding_labels)
  have pp: "pp_fmt_g ex_pipeline = (\<lambda>_. ''0'')" "pp_client ex_pipeline" "pp_controls ex_pipeline = (\<lambda>_. None)"
    "pp_explain ex_pipeline = (\<lambda>_. None)" "rq_StrategyMode ex_request = Some Aggressive"
    by (simp_all add: ex_pipeline_def ex_request_def)
  assume "api_guardrails a = ex_guardrails"
  then show ?thesis
    by (simp add: handleCreatePlan_def f l t pp ex_created_def convertToModelControls_def Let_def enumerate_eq_zip)
qed

lemma ex_api_inv: "ps_inv (api_store ex_api)" "api_guardrails ex_api = ex_guardrails"
  by (simp_all add: ex_api_def NewMemoryPlanStore_def ps_inv_def)


lemma inline_labels_ignored_witness:
  "sy_Mode (pl_Strategy (ex_created 7)) = Aggressive
   \<and> hasNeverBlockLabels [''role:db''] (getNeverBlockLabels ex_guardrails (\<lambda>_. ''''))"
proof -
  have "sy_Mode (pl_Strategy (ex_created 7)) =
      ds_Strategy (DecideStrategy ex_guardrails (\<lambda>_. '''') 9 (mode_string Aggressive)
                     (int (length (pl_Targets (ex_created 7)))) [])"
    using inline_labels_ignored [OF ex_create [OF ex_api_inv(2), of 7], of
        "[(''host_id'', VStr ''db-01''), (''labels'', VArr [VStr ''role:db''])]" Aggressive]
    by (simp add: ex_request_def ex_api_inv)
  also have "\<dots> = Aggressive"
    by (simp add: DecideStrategy_Strategy hasNeverBlockLabels_def isMaintenanceWindowActive_def
        zero_canary_rule_def parseStrategy_def) code_simp
  finally show ?thesis by (rule conjI) code_simp
qed

theorem same_second_overwrites_witness:
  "let create = (\<lambda>now. handleCreatePlan ex_pipeline (\<lambda>_. '''') 9 now (Some ex_request));
       a1 = snd (create 1000000000 ex_api); a2 = snd (create 1999999999 a1)
   in handleGetPlan a2 (pl_ID (ex_created 1000000000)) = GetFound (ex_created 1999999999)
     \<and> ex_created 1000000000 \<noteq> ex_created 1999999999"
proof -
  let ?a1 = "snd (handleCreatePlan ex_pipeline (\<lambda>_. '''') 9 1000000000 (Some ex_request) ex_api)"
  have g: "api_guardrails ?a1 = ex_guardrails" by (simp add: ex_create ex_api_inv)
  have t: "(1999999999 :: int) div 1000000000 = 1000000000 div 1000000000" by simp
  have 1: "handleCreatePlan ex_pipeline (\<lambda>_. '''') 9 1000000000 (Some ex_request) ex_api
      = (Created (ex_created 1000000000), ?a1)" by (simp add: ex_create ex_api_inv)
  have 2: "handleCreatePlan ex_pipeline (\<lambda>_. '''') 9 1999999999 (Some ex_request) ?a1
      = (Created (ex_created 1999999999),
         snd (handleCreatePlan ex_pipeline (\<lambda>_. '''') 9 1999999999 (Some ex_request) ?a1))"
    by (simp add: ex_create [OF g])
  have "ex_created 1000000000 \<noteq> ex_created 1999999999"
    by (simp add: ex_created_def assemble_plan_def)
  with conjunct2 [OF same_second_overwrites [OF ex_api_inv(1) t 1 2]] show ?thesis
    unfolding Let_def by (intro conjI)
qed

lemma created_plans_never_expire_witness:
  "PS_Get (PS_Cleanup (PS_Store (api_store ex_api) (ex_created 7)) 99999999) (pl_ID (ex_created 7))
   = Inr (ex_created 7)"
  using created_plans_never_expire [OF ex_create [OF ex_api_inv(2), of 7] ex_api_inv(1), of 99999999] by simp

end
