(* ===== verification/Det_Eval.thy ===== *)
theory Det_Eval
  imports Prelude
begin

text \<open>
  The detection pipeline's rule evaluator (\<open>internal/eval/evaluator.go\<close>): lab telemetry is indexed
  into a batch, and the match clause of a proposed rule, a JSON object, is evaluated on it.
  \<open>json.Unmarshal\<close> of a payload into each of the typed structures is a field of \<open>payload_lib\<close>,
  \<^term>\<open>None\<close> for a payload that does not decode. Errors are values of \<open>eval_error\<close>.
\<close>

section \<open>Batches\<close>

record visibility_event =
  ve_EventType :: string
  ve_Payload :: string
  ve_DeviceID :: string

record process_payload =
  pp_Name :: string
  pp_CommandLine :: string
  pp_Path :: string
  pp_ParentProcessGUID :: string

record flow_payload =
  fl_ProcessGUID :: string
  fl_RemotePort :: "int option"
  fl_RemoteHostname :: string

record sase_payload =
  sa_Vendor :: string
  sa_Product :: string
  sa_Name :: string
  sa_Source :: string

record extension_payload =
  xt_ExtensionID :: string
  xt_Name :: string
  xt_Permissions :: "string list"

record batch =
  b_ProcessesByGUID :: "(string, process_payload) gomap"
  b_DNS :: "string list"
  b_Flows :: "flow_payload list"
  b_SASE :: "sase_payload list"
  b_Extensions :: "extension_payload list"

record process_json =
  pj_ProcessGUID :: string
  pj_ParentProcessGUID :: "string option"
  pj_Name :: string
  pj_Path :: "string option"
  pj_CommandLine :: "string option"

record flow_json =
  fj_ProcessGUID :: "string option"
  fj_RemotePort :: "int option"
  fj_RemoteHostname :: "string option"

record payload_lib =
  un_process :: "string \<Rightarrow> process_json option"
  un_dns :: "string \<Rightarrow> string option"
  un_flow :: "string \<Rightarrow> flow_json option"
  un_sase :: "string \<Rightarrow> sase_payload option"
  un_extension :: "string \<Rightarrow> extension_payload option"

definition str_or_empty :: "string option \<Rightarrow> string" where
  "str_or_empty s = (case s of None \<Rightarrow> '''' | Some t \<Rightarrow> t)"

definition add_event :: "payload_lib \<Rightarrow> visibility_event \<Rightarrow> batch \<Rightarrow> batch" where
  "add_event lib ev b =
     (if ve_EventType ev = ''aegis.process.started'' then
        (case un_process lib (ve_Payload ev) of
           None \<Rightarrow> b
         | Some p \<Rightarrow>
             if pj_ProcessGUID p = '''' then b
             else b\<lparr>b_ProcessesByGUID := map_set (pj_ProcessGUID p)
                      \<lparr>pp_Name = pj_Name p, pp_CommandLine = str_or_empty (pj_CommandLine p),
                       pp_Path = str_or_empty (pj_Path p),
                       pp_ParentProcessGUID = str_or_empty (pj_ParentProcessGUID p)\<rparr> (b_ProcessesByGUID b)\<rparr>)
      else if ve_EventType ev = ''aegis.dns.observed'' then
        (case un_dns lib (ve_Payload ev) of
           None \<Rightarrow> b
         | Some q \<Rightarrow> if q \<noteq> '''' then b\<lparr>b_DNS := b_DNS b @ [q]\<rparr> else b)
      else if ve_EventType ev = ''aegis.flow.started'' then
        (case un_flow lib (ve_Payload ev) of
           None \<Rightarrow> b
         | Some f \<Rightarrow> b\<lparr>b_Flows := b_Flows b @
             [\<lparr>fl_ProcessGUID = str_or_empty (fj_ProcessGUID f), fl_RemotePort = fj_RemotePort f,
               fl_RemoteHostname = str_or_empty (fj_RemoteHostname f)\<rparr>]\<rparr>)
      else if ve_EventType ev = ''aegis.sase_component.observed'' then
        (case un_sase lib (ve_Payload ev) of None \<Rightarrow> b | Some s \<Rightarrow> b\<lparr>b_SASE := b_SASE b @ [s]\<rparr>)
      else if ve_EventType ev = ''aegis.browser_extension.observed'' then
        (case un_extension lib (ve_Payload ev) of None \<Rightarrow> b | Some x \<Rightarrow> b\<lparr>b_Extensions := b_Extensions b @ [x]\<rparr>)
      else b)"

definition empty_batch :: batch where
  "empty_batch = \<lparr>b_ProcessesByGUID = [], b_DNS = [], b_Flows = [], b_SASE = [], b_Extensions = []\<rparr>"

definition BuildBatch :: "payload_lib \<Rightarrow> visibility_event list \<Rightarrow> batch" where
  "BuildBatch lib events = fold (add_event lib) events empty_batch"

section \<open>Leaves\<close>

datatype eval_error =
    RuleMissingMatch | MatchNotObject | UnknownClauseKeys "string list" | GroupMissingOf
  | GroupChildNotObject | UnknownOp string | LeafMalformed string

type_synonym jobject = "(string, gval) gomap"

fun as_arr :: "gval option \<Rightarrow> gval list option" where
  "as_arr (Some (VArr xs)) = Some xs"
| "as_arr _ = None"

fun as_obj :: "gval option \<Rightarrow> jobject option" where
  "as_obj (Some (VObj m)) = Some m"
| "as_obj _ = None"

fun as_bool :: "gval option \<Rightarrow> bool option" where
  "as_bool (Some (VBool b)) = Some b"
| "as_bool _ = None"

fun as_str :: "gval option \<Rightarrow> string option" where
  "as_str (Some (VStr s)) = Some s"
| "as_str _ = None"

text \<open>Conversion of a float64 to \<open>int\<close>: truncation; values out of range, which the language leaves
  to the implementation, become the least integer as on amd64.\<close>

fun f_to_int :: "float64 \<Rightarrow> int" where
  "f_to_int (Fin q) =
     (let n = (if q \<ge> 0 then floor q else ceiling q)
      in if - (2 ^ 63) \<le> n \<and> n < 2 ^ 63 then n else - (2 ^ 63))"
| "f_to_int _ = - (2 ^ 63)"

definition substringAny :: "string \<Rightarrow> gval list \<Rightarrow> bool \<Rightarrow> bool" where
  "substringAny s needles lowerNeedles =
     list_ex (\<lambda>n. case n of
        VStr t \<Rightarrow> (let ns = (if lowerNeedles then to_lower t else t) in ns \<noteq> '''' \<and> contains s ns)
      | _ \<Rightarrow> False) needles"

definition containsStringAny :: "string \<Rightarrow> gval list \<Rightarrow> bool \<Rightarrow> bool" where
  "containsStringAny s names ci =
     list_ex (\<lambda>n. case n of
        VStr t \<Rightarrow> (if ci then to_lower s = to_lower t else s = t)
      | _ \<Rightarrow> False) names"

fun numberToInt :: "gval \<Rightarrow> int option" where
  "numberToInt (VNum x) = Some (f_to_int x)"
| "numberToInt _ = None"

text \<open>A criterion that is present as an array has to hold.\<close>

definition crit :: "jobject \<Rightarrow> string \<Rightarrow> (gval list \<Rightarrow> bool) \<Rightarrow> bool" where
  "crit m key test = (case as_arr (map_get m key) of None \<Rightarrow> True | Some arr \<Rightarrow> test arr)"

text \<open>A criterion of which one has to be present and hold.\<close>

definition alt :: "jobject \<Rightarrow> string \<Rightarrow> (gval list \<Rightarrow> bool) \<Rightarrow> bool" where
  "alt m key test = (case as_arr (map_get m key) of None \<Rightarrow> False | Some arr \<Rightarrow> test arr)"

definition parent_name :: "batch \<Rightarrow> process_payload \<Rightarrow> string" where
  "parent_name b proc =
     (if pp_ParentProcessGUID proc \<noteq> '''' then
        (case map_get (b_ProcessesByGUID b) (pp_ParentProcessGUID proc) of None \<Rightarrow> '''' | Some par \<Rightarrow> pp_Name par)
      else '''')"

definition matchProcess :: "batch \<Rightarrow> jobject \<Rightarrow> process_payload \<Rightarrow> bool \<Rightarrow> bool" where
  "matchProcess b pm proc ci =
     (let low = (\<lambda>s. if ci then to_lower s else s);
          name = low (pp_Name proc); cmd = low (pp_CommandLine proc); path = low (pp_Path proc);
          parentName = low (parent_name b proc)
      in crit pm ''executable_names_any'' (\<lambda>arr. containsStringAny name arr ci)
         \<and> crit pm ''executable_name_contains_any'' (\<lambda>arr. substringAny name arr ci)
         \<and> crit pm ''command_line_contains_any'' (\<lambda>arr. substringAny cmd arr ci)
         \<and> crit pm ''parent_executable_names_any'' (\<lambda>arr. containsStringAny parentName arr ci)
         \<and> crit pm ''process_path_contains_any'' (\<lambda>arr. substringAny path arr ci))"

definition evalProcessLeaf :: "jobject \<Rightarrow> batch \<Rightarrow> eval_error + bool" where
  "evalProcessLeaf c b =
     (case as_obj (map_get c ''process'') of
        None \<Rightarrow> Inl (LeafMalformed ''process'')
      | Some pm \<Rightarrow>
          let ci = (case as_bool (map_get pm ''case_insensitive'') of None \<Rightarrow> True | Some v \<Rightarrow> v)
          in Inr (list_ex (\<lambda>proc. matchProcess b pm proc ci) (map_values (b_ProcessesByGUID b))))"

definition evalDNSLeaf :: "jobject \<Rightarrow> batch \<Rightarrow> eval_error + bool" where
  "evalDNSLeaf c b =
     (case as_obj (map_get c ''dns'') of
        None \<Rightarrow> Inl (LeafMalformed ''dns'')
      | Some dm \<Rightarrow>
          (case as_arr (map_get dm ''query_contains_any'') of
             None \<Rightarrow> Inr False
           | Some arr \<Rightarrow> Inr (list_ex (\<lambda>q. substringAny (to_lower q) arr True) (b_DNS b))))"

definition matchFlow :: "jobject \<Rightarrow> flow_payload \<Rightarrow> bool" where
  "matchFlow fm fl =
     (crit fm ''remote_ports_any'' (\<lambda>arr. arr = [] \<or>
        (case fl_RemotePort fl of None \<Rightarrow> False | Some port \<Rightarrow> list_ex (\<lambda>x. numberToInt x = Some port) arr))
      \<and> crit fm ''remote_host_contains_any'' (\<lambda>arr. substringAny (to_lower (fl_RemoteHostname fl)) arr True))"

definition evalFlowLeaf :: "jobject \<Rightarrow> batch \<Rightarrow> eval_error + bool" where
  "evalFlowLeaf c b =
     (case as_obj (map_get c ''flow'') of
        None \<Rightarrow> Inl (LeafMalformed ''flow'')
      | Some fm \<Rightarrow>
          if as_bool (map_get fm ''has_any_flow'') = Some True then Inr (b_Flows b \<noteq> [])
          else Inr (list_ex (matchFlow fm) (b_Flows b)))"

definition matchSASE :: "jobject \<Rightarrow> sase_payload \<Rightarrow> bool" where
  "matchSASE sm s =
     (let hay = to_lower (sa_Vendor s @ '' '' @ sa_Product s @ '' '' @ sa_Name s @ '' '' @ sa_Source s)
      in alt sm ''display_name_contains_any'' (\<lambda>arr. substringAny hay arr True)
         \<or> alt sm ''vendor_contains_any'' (\<lambda>arr. substringAny (to_lower (sa_Vendor s)) arr True))"

definition evalSASELeaf :: "jobject \<Rightarrow> batch \<Rightarrow> eval_error + bool" where
  "evalSASELeaf c b =
     (case as_obj (map_get c ''sase_component'') of
        None \<Rightarrow> Inl (LeafMalformed ''sase'')
      | Some sm \<Rightarrow> Inr (list_ex (matchSASE sm) (b_SASE b)))"

definition matchExt :: "jobject \<Rightarrow> extension_payload \<Rightarrow> bool" where
  "matchExt em x =
     (alt em ''extension_id_contains_any'' (\<lambda>arr. substringAny (to_lower (xt_ExtensionID x)) arr True)
      \<or> alt em ''name_contains_any'' (\<lambda>arr. substringAny (to_lower (xt_Name x)) arr True)
      \<or> alt em ''permissions_contains_any''
          (\<lambda>arr. substringAny (to_lower (join_with '' '' (xt_Permissions x))) arr True))"

definition evalExtLeaf :: "jobject \<Rightarrow> batch \<Rightarrow> eval_error + bool" where
  "evalExtLeaf c b =
     (case as_obj (map_get c ''browser_extension'') of
        None \<Rightarrow> Inl (LeafMalformed ''browser_extension'')
      | Some em \<Rightarrow> Inr (list_ex (matchExt em) (b_Extensions b)))"

section \<open>Clauses\<close>

text \<open>The children of a group, which all have to be objects.\<close>

fun child_objects :: "gval list \<Rightarrow> jobject list option" where
  "child_objects [] = Some []"
| "child_objects (VObj m # xs) = map_option (\<lambda>ms. m # ms) (child_objects xs)"
| "child_objects (_ # xs) = None"

text \<open>The loops over the children's results: \<open>all_of\<close> stops at the first error or failure,
  \<open>any_of\<close> counts successes and stops only at an error.\<close>

fun all_of_loop :: "(eval_error + bool) list \<Rightarrow> eval_error + bool" where
  "all_of_loop [] = Inr True"
| "all_of_loop (Inl e # rs) = Inl e"
| "all_of_loop (Inr ok # rs) = (if ok then all_of_loop rs else Inr False)"

fun any_of_loop :: "int \<Rightarrow> int \<Rightarrow> (eval_error + bool) list \<Rightarrow> eval_error + bool" where
  "any_of_loop least n [] = Inr (n \<ge> least)"
| "any_of_loop least n (Inl e # rs) = Inl e"
| "any_of_loop least n (Inr ok # rs) = any_of_loop least (if ok then n + 1 else n) rs"

definition min_match :: "jobject \<Rightarrow> int" where
  "min_match c =
     (let m = (case map_get c ''min_match'' of Some (VNum x) \<Rightarrow> f_to_int x | _ \<Rightarrow> 1)
      in if m < 1 then 1 else m)"

definition keysSample :: "jobject \<Rightarrow> string list" where
  "keysSample m = take 8 (map fst m)"

lemma map_get_size: "map_get c k = Some v \<Longrightarrow> size v < size (VObj c)"
proof (induction c)
  case Nil
  then show ?case by simp
next
  case (Cons p c)
  then show ?case by (cases p) (auto split: if_splits)
qed

lemma child_objects_size: "child_objects xs = Some ms \<Longrightarrow> m \<in> set ms \<Longrightarrow> size (VObj m) < size (VArr xs)"
  by (induction xs arbitrary: ms rule: child_objects.induct) auto

function (sequential) evalClause :: "jobject \<Rightarrow> batch \<Rightarrow> eval_error + bool" where
  "evalClause c b =
     (if map_get c ''op'' \<noteq> None then
        (case as_arr (map_get c ''of'') of
           None \<Rightarrow> Inl GroupMissingOf
         | Some rawOf \<Rightarrow>
             (case child_objects rawOf of
                None \<Rightarrow> Inl GroupChildNotObject
              | Some clauses \<Rightarrow>
                  let rs = map (\<lambda>ch. evalClause ch b) clauses;
                      op = str_or_empty (as_str (map_get c ''op''))
                  in if op = ''all_of'' then all_of_loop rs
                     else if op = ''any_of'' then any_of_loop (min_match c) 0 rs
                     else Inl (UnknownOp op)))
      else if map_get c ''process'' \<noteq> None then evalProcessLeaf c b
      else if map_get c ''dns'' \<noteq> None then evalDNSLeaf c b
      else if map_get c ''flow'' \<noteq> None then evalFlowLeaf c b
      else if map_get c ''sase_component'' \<noteq> None then evalSASELeaf c b
      else if map_get c ''browser_extension'' \<noteq> None then evalExtLeaf c b
      else Inl (UnknownClauseKeys (keysSample c)))"
  by pat_completeness auto
termination
proof (relation "measure (\<lambda>(c, b). size (VObj c))", goal_cases)
  case (2 c b rawOf clauses ch)
  then obtain v where v: "map_get c ''of'' = Some v" "as_arr (Some v) = Some rawOf"
    by (cases "map_get c ''of''") auto
  then have "v = VArr rawOf" by (cases v) auto
  with v 2 child_objects_size [of rawOf clauses ch] map_get_size [of c "''of''" v]
  show ?case by auto
qed simp

declare evalClause.simps [simp del]

definition RuleMatches :: "jobject \<Rightarrow> batch \<Rightarrow> eval_error + bool" where
  "RuleMatches r b =
     (case map_get r ''match'' of
        None \<Rightarrow> Inl RuleMissingMatch
      | Some raw \<Rightarrow> (case as_obj (Some raw) of None \<Rightarrow> Inl MatchNotObject | Some clause \<Rightarrow> evalClause clause b))"

section \<open>Well-formed clauses\<close>

text \<open>A clause all of whose groups are conjunctions or disjunctions of objects and whose leaves
  are objects.\<close>

definition leaf_keys :: "string list" where
  "leaf_keys = [''process'', ''dns'', ''flow'', ''sase_component'', ''browser_extension'']"

definition wf_leaf :: "jobject \<Rightarrow> bool" where
  "wf_leaf c = (case find (\<lambda>k. map_get c k \<noteq> None) leaf_keys of
                  None \<Rightarrow> False | Some k \<Rightarrow> as_obj (map_get c k) \<noteq> None)"

function (sequential) wf_clause :: "jobject \<Rightarrow> bool" where
  "wf_clause c =
     (if map_get c ''op'' \<noteq> None then
        (case as_arr (map_get c ''of'') of
           None \<Rightarrow> False
         | Some rawOf \<Rightarrow>
             (case child_objects rawOf of
                None \<Rightarrow> False
              | Some clauses \<Rightarrow>
                  as_str (map_get c ''op'') \<in> {Some ''all_of'', Some ''any_of''} \<and> list_all wf_clause clauses))
      else wf_leaf c)"
  by pat_completeness auto
termination
proof (relation "measure (\<lambda>c. size (VObj c))", goal_cases)
  case (2 c rawOf clauses ch)
  then obtain v where v: "map_get c ''of'' = Some v" "as_arr (Some v) = Some rawOf"
    by (cases "map_get c ''of''") auto
  then have "v = VArr rawOf" by (cases v) auto
  with v 2 child_objects_size [of rawOf clauses ch] map_get_size [of c "''of''" v]
  show ?case by auto
qed simp

declare wf_clause.simps [simp del]

lemma all_of_loop_ok:
  "\<forall>r \<in> set rs. \<exists>v. r = Inr v \<Longrightarrow> all_of_loop rs = Inr (\<forall>r \<in> set rs. r = Inr True)"
  by (induction rs rule: all_of_loop.induct) auto

lemma any_of_loop_ok:
  "\<forall>r \<in> set rs. \<exists>v. r = Inr v \<Longrightarrow>
     any_of_loop least n rs = Inr (least \<le> n + int (length (filter (\<lambda>r. r = Inr True) rs)))"
  by (induction least n rs rule: any_of_loop.induct) (auto simp: algebra_simps)

lemma leaf_cases:
  assumes "wf_leaf c" "map_get c ''op'' = None"
  shows "(\<exists>m. as_obj (map_get c ''process'') = Some m \<and> (\<forall>b. evalClause c b = evalProcessLeaf c b))
    \<or> (\<exists>m. as_obj (map_get c ''dns'') = Some m \<and> (\<forall>b. evalClause c b = evalDNSLeaf c b))
    \<or> (\<exists>m. as_obj (map_get c ''flow'') = Some m \<and> (\<forall>b. evalClause c b = evalFlowLeaf c b))
    \<or> (\<exists>m. as_obj (map_get c ''sase_component'') = Some m \<and> (\<forall>b. evalClause c b = evalSASELeaf c b))
    \<or> (\<exists>m. as_obj (map_get c ''browser_extension'') = Some m \<and> (\<forall>b. evalClause c b = evalExtLeaf c b))"
  using assms by (auto simp: wf_leaf_def leaf_keys_def evalClause.simps [of c] split: if_splits)

lemma leaf_no_error:
  assumes "wf_leaf c" "map_get c ''op'' = None"
  shows "\<exists>v. evalClause c b = Inr v"
  using leaf_cases [OF assms]
  by (auto simp: evalProcessLeaf_def evalDNSLeaf_def evalFlowLeaf_def evalSASELeaf_def evalExtLeaf_def Let_def
      split: option.splits)

text \<open>Evaluation of a well-formed group in terms of its children.\<close>

lemma group_eval:
  assumes "map_get c ''op'' \<noteq> None" "wf_clause c"
  obtains cs where "\<forall>ch \<in> set cs. wf_clause ch \<and> size (VObj ch) < size (VObj c)"
    "\<And>b. evalClause c b = (if as_str (map_get c ''op'') = Some ''all_of'' then all_of_loop (map (\<lambda>ch. evalClause ch b) cs)
                            else any_of_loop (min_match c) 0 (map (\<lambda>ch. evalClause ch b) cs))"
proof -
  from assms obtain rawOf cs where raw: "as_arr (map_get c ''of'') = Some rawOf" "child_objects rawOf = Some cs"
    and op: "as_str (map_get c ''op'') \<in> {Some ''all_of'', Some ''any_of''}" and wf: "list_all wf_clause cs"
    by (auto simp: wf_clause.simps [of c] split: option.splits)
  from raw(1) have "map_get c ''of'' = Some (VArr rawOf)"
    by (cases "map_get c ''of''"; cases "the (map_get c ''of'')") auto
  then have "size (VArr rawOf) < size (VObj c)" by (rule map_get_size)
  with child_objects_size [OF raw(2)] wf
  have "\<forall>ch \<in> set cs. wf_clause ch \<and> size (VObj ch) < size (VObj c)"
    by (auto simp: list_all_iff intro: less_trans)
  moreover have "evalClause c b = (if as_str (map_get c ''op'') = Some ''all_of'' then all_of_loop (map (\<lambda>ch. evalClause ch b) cs)
                            else any_of_loop (min_match c) 0 (map (\<lambda>ch. evalClause ch b) cs))" for b
    using assms(1) raw op by (auto simp: evalClause.simps [of c] str_or_empty_def)
  ultimately show thesis by (rule that)
qed

lemma wf_no_error: "wf_clause c \<Longrightarrow> \<exists>v. evalClause c b = Inr v"
proof (induction "size (VObj c)" arbitrary: c rule: less_induct)
  case less
  show ?case
  proof (cases "map_get c ''op''")
    case None
    with less.prems show ?thesis using leaf_no_error by (simp add: wf_clause.simps [of c])
  next
    case (Some op)
    then obtain cs where cs: "\<forall>ch \<in> set cs. wf_clause ch \<and> size (VObj ch) < size (VObj c)"
      and ev: "\<And>b. evalClause c b = (if as_str (map_get c ''op'') = Some ''all_of'' then all_of_loop (map (\<lambda>ch. evalClause ch b) cs)
                            else any_of_loop (min_match c) 0 (map (\<lambda>ch. evalClause ch b) cs))"
      using group_eval [of c] less.prems by blast
    from cs less.hyps have "\<forall>r \<in> set (map (\<lambda>ch. evalClause ch b) cs). \<exists>v. r = Inr v" by auto
    with ev [of b] all_of_loop_ok any_of_loop_ok show ?thesis by simp
  qed
qed

text \<open>
  A rule with a well-formed match clause is evaluated without error on every batch.
\<close>

lemma RuleMatches_no_error:
  assumes "map_get r ''match'' = Some (VObj c)" "wf_clause c"
  shows "\<exists>v. RuleMatches r b = Inr v"
  using wf_no_error [OF assms(2)] assms(1) by (simp add: RuleMatches_def)

section \<open>More telemetry never loses a match\<close>

definition batch_le :: "batch \<Rightarrow> batch \<Rightarrow> bool" where
  "batch_le b b' \<longleftrightarrow>
     (\<forall>p \<in> set (map_values (b_ProcessesByGUID b)).
        p \<in> set (map_values (b_ProcessesByGUID b')) \<and> parent_name b' p = parent_name b p)
     \<and> set (b_DNS b) \<subseteq> set (b_DNS b') \<and> set (b_Flows b) \<subseteq> set (b_Flows b')
     \<and> set (b_SASE b) \<subseteq> set (b_SASE b') \<and> set (b_Extensions b) \<subseteq> set (b_Extensions b')"

lemma list_ex_mono: "list_ex P xs \<Longrightarrow> set xs \<subseteq> set ys \<Longrightarrow> list_ex P ys"
  by (auto simp: list_ex_iff)

lemma leaf_mono:
  assumes "wf_leaf c" "map_get c ''op'' = None" "batch_le b b'" "evalClause c b = Inr True"
  shows "evalClause c b' = Inr True"
proof -
  note le = assms(3) [unfolded batch_le_def]
  from leaf_cases [OF assms(1,2)] show ?thesis
  proof (elim disjE exE conjE)
    fix m
    assume m: "as_obj (map_get c ''process'') = Some m" and ev: "\<forall>b. evalClause c b = evalProcessLeaf c b"
    from assms(4) obtain p ci where p: "p \<in> set (map_values (b_ProcessesByGUID b))" "matchProcess b m p ci"
      and ci: "ci = (case as_bool (map_get m ''case_insensitive'') of None \<Rightarrow> True | Some v \<Rightarrow> v)"
      by (auto simp: ev evalProcessLeaf_def m Let_def list_ex_iff)
    from le p(1) have p': "p \<in> set (map_values (b_ProcessesByGUID b'))" "parent_name b' p = parent_name b p"
      by blast+
    have "matchProcess b' m p ci" using p(2) by (simp add: matchProcess_def p'(2))
    with p'(1) have "list_ex (\<lambda>proc. matchProcess b' m proc ci) (map_values (b_ProcessesByGUID b'))"
      by (auto simp: list_ex_iff)
    then show ?thesis unfolding ci by (simp add: ev evalProcessLeaf_def m Let_def)
  next
    fix m
    assume m: "as_obj (map_get c ''dns'') = Some m" and ev: "\<forall>b. evalClause c b = evalDNSLeaf c b"
    with assms(4) le show ?thesis by (auto simp: evalDNSLeaf_def split: option.splits elim: list_ex_mono)
  next
    fix m
    assume m: "as_obj (map_get c ''flow'') = Some m" and ev: "\<forall>b. evalClause c b = evalFlowLeaf c b"
    with assms(4) le show ?thesis by (auto simp: evalFlowLeaf_def split: if_splits elim: list_ex_mono)
  next
    fix m
    assume m: "as_obj (map_get c ''sase_component'') = Some m" and ev: "\<forall>b. evalClause c b = evalSASELeaf c b"
    with assms(4) le show ?thesis by (auto simp: evalSASELeaf_def elim: list_ex_mono)
  next
    fix m
    assume m: "as_obj (map_get c ''browser_extension'') = Some m" and ev: "\<forall>b. evalClause c b = evalExtLeaf c b"
    with assms(4) le show ?thesis by (auto simp: evalExtLeaf_def elim: list_ex_mono)
  qed
qed

lemma filter_length_mono:
  "\<forall>x \<in> set xs. P x \<longrightarrow> Q x \<Longrightarrow> length (filter P xs) \<le> length (filter Q xs)"
  by (induction xs) auto

lemma clause_mono:
  "wf_clause c \<Longrightarrow> batch_le b b' \<Longrightarrow> evalClause c b = Inr True \<Longrightarrow> evalClause c b' = Inr True"
proof (induction "size (VObj c)" arbitrary: c rule: less_induct)
  case less
  show ?case
  proof (cases "map_get c ''op''")
    case None
    with less.prems show ?thesis using leaf_mono by (simp add: wf_clause.simps [of c])
  next
    case (Some op)
    then obtain cs where cs: "\<forall>ch \<in> set cs. wf_clause ch \<and> size (VObj ch) < size (VObj c)"
      and ev: "\<And>b. evalClause c b = (if as_str (map_get c ''op'') = Some ''all_of'' then all_of_loop (map (\<lambda>ch. evalClause ch b) cs)
                            else any_of_loop (min_match c) 0 (map (\<lambda>ch. evalClause ch b) cs))"
      using group_eval [of c] less.prems(1) by blast
    have ok: "\<forall>r \<in> set (map (\<lambda>ch. evalClause ch b0) cs). \<exists>v. r = Inr v" for b0
      using cs wf_no_error by auto
    have mono: "evalClause ch b' = Inr True" if "ch \<in> set cs" "evalClause ch b = Inr True" for ch
      using less.hyps [of ch] cs less.prems(2) that by blast
    have "length (filter (\<lambda>ch. evalClause ch b = Inr True) cs) \<le> length (filter (\<lambda>ch. evalClause ch b' = Inr True) cs)"
      using mono by (intro filter_length_mono) auto
    then show ?thesis
      using less.prems(3) mono ev [of b] ev [of b'] all_of_loop_ok [OF ok] any_of_loop_ok [OF ok]
      by (auto simp: filter_map comp_def split: if_splits)
  qed
qed

lemma batch_le_refl: "batch_le b b"
  by (simp add: batch_le_def)

lemma batch_le_trans:
  assumes "batch_le a b" "batch_le b c"
  shows "batch_le a c"
proof -
  note ab = assms(1) [unfolded batch_le_def] and bc = assms(2) [unfolded batch_le_def]
  have "p \<in> set (map_values (b_ProcessesByGUID c)) \<and> parent_name c p = parent_name a p"
    if "p \<in> set (map_values (b_ProcessesByGUID a))" for p
  proof -
    from ab that have "p \<in> set (map_values (b_ProcessesByGUID b))" "parent_name b p = parent_name a p" by blast+
    moreover from bc this(1) have "p \<in> set (map_values (b_ProcessesByGUID c))" "parent_name c p = parent_name b p" by blast+
    ultimately show ?thesis by simp
  qed
  moreover have "set (b_DNS a) \<subseteq> set (b_DNS c)" "set (b_Flows a) \<subseteq> set (b_Flows c)"
    "set (b_SASE a) \<subseteq> set (b_SASE c)" "set (b_Extensions a) \<subseteq> set (b_Extensions c)"
    using ab bc by (meson subset_trans)+
  ultimately show ?thesis unfolding batch_le_def by (intro conjI ballI) blast+
qed

lemma parent_name_cong: "b_ProcessesByGUID b' = b_ProcessesByGUID b \<Longrightarrow> parent_name b' p = parent_name b p"
  by (simp add: parent_name_def)

lemma batch_le_add_event:
  assumes "ve_EventType ev \<noteq> ''aegis.process.started''"
  shows "batch_le b (add_event lib ev b)"
proof -
  have p: "b_ProcessesByGUID (add_event lib ev b) = b_ProcessesByGUID b"
    using assms by (simp add: add_event_def split: option.splits)
  have "set (b_DNS b) \<subseteq> set (b_DNS (add_event lib ev b))" "set (b_Flows b) \<subseteq> set (b_Flows (add_event lib ev b))"
    "set (b_SASE b) \<subseteq> set (b_SASE (add_event lib ev b))"
    "set (b_Extensions b) \<subseteq> set (b_Extensions (add_event lib ev b))"
    by (auto simp: add_event_def split: option.splits)
  then show ?thesis by (simp add: batch_le_def p parent_name_cong [OF p])
qed

lemma batch_le_fold:
  "\<forall>ev \<in> set evs. ve_EventType ev \<noteq> ''aegis.process.started'' \<Longrightarrow> batch_le b (fold (add_event lib) evs b)"
proof (induction evs arbitrary: b)
  case Nil
  then show ?case by (simp add: batch_le_refl)
next
  case (Cons ev evs)
  then have "batch_le b (add_event lib ev b)" "batch_le (add_event lib ev b) (fold (add_event lib) evs (add_event lib ev b))"
    by (simp_all add: batch_le_add_event)
  then show ?case using batch_le_trans by simp
qed

text \<open>
  More telemetry never loses a match: a rule with a well-formed clause that matches a batch
  still matches when DNS, flow, SASE, extension or unknown events are added.
\<close>

lemma RuleMatches_more_telemetry:
  assumes "map_get r ''match'' = Some (VObj c)" "wf_clause c"
    and "RuleMatches r (BuildBatch lib evs) = Inr True"
    and "\<forall>ev \<in> set evs'. ve_EventType ev \<noteq> ''aegis.process.started''"
  shows "RuleMatches r (BuildBatch lib (evs @ evs')) = Inr True"
proof -
  have "batch_le (BuildBatch lib evs) (BuildBatch lib (evs @ evs'))"
    using batch_le_fold [OF assms(4)] by (simp add: BuildBatch_def)
  from clause_mono [OF assms(2) this] assms(1,3) show ?thesis by (simp add: RuleMatches_def)
qed

section \<open>Examples\<close>

definition ex_clause :: jobject where
  "ex_clause = [(''op'', VStr ''any_of''), (''min_match'', VNum (Fin 1)),
     (''of'', VArr [VObj [(''dns'', VObj [(''query_contains_any'', VArr [VStr ''Evil''])])],
                    VObj [(''flow'', VObj [(''has_any_flow'', VBool True)])]])]"

definition ex_lib :: payload_lib where
  "ex_lib = \<lparr>un_process = (\<lambda>_. None), un_dns = Some, un_flow = (\<lambda>_. None), un_sase = (\<lambda>_. None),
             un_extension = (\<lambda>_. None)\<rparr>"

definition ex_dns :: "string \<Rightarrow> visibility_event" where
  "ex_dns q = \<lparr>ve_EventType = ''aegis.dns.observed'', ve_Payload = q, ve_DeviceID = ''d''\<rparr>"

lemma RuleMatches_no_error_witness:
  "\<exists>v. RuleMatches [(''match'', VObj ex_clause)] empty_batch = Inr v"
proof (rule RuleMatches_no_error)
  show "map_get [(''match'', VObj ex_clause)] ''match'' = Some (VObj ex_clause)" by simp
  show "wf_clause ex_clause" by code_simp
qed

lemma RuleMatches_more_telemetry_witness:
  "RuleMatches [(''match'', VObj ex_clause)] (BuildBatch ex_lib ([ex_dns ''www.evil.org''] @ [ex_dns ''example.org''])) = Inr True"
proof (rule RuleMatches_more_telemetry)
  show "map_get [(''match'', VObj ex_clause)] ''match'' = Some (VObj ex_clause)" by simp
  show "wf_clause ex_clause" by code_simp
  show "RuleMatches [(''match'', VObj ex_clause)] (BuildBatch ex_lib [ex_dns ''www.evil.org'']) = Inr True" by code_simp
  show "\<forall>ev \<in> set [ex_dns ''example.org'']. ve_EventType ev \<noteq> ''aegis.process.started''"
    by (simp add: ex_dns_def)
qed

end
