(* ===== verification/Det_Rollout.thy ===== *)
theory Det_Rollout
  imports Prelude "HOL-Library.Product_Lexorder"
begin

text \<open>
  Rollout of signed detection packs (\<open>internal/rollout\<close>, \<open>internal/model\<close>, the read-only handlers of
  \<open>internal/api/controller_rollout.go\<close>): version comparison, pack metadata, policy and the choice
  of the artifact an agent is offered. JSON decoding, SHA-256 and the time parsers are fields of
  \<open>pack_lib\<close>.
\<close>

section \<open>Versions\<close>

type_synonym semver = "int \<times> int \<times> int"

definition before_char :: "char \<Rightarrow> string \<Rightarrow> string" where
  "before_char c s = takeWhile (\<lambda>x. x \<noteq> c) s"

text \<open>The \<open>i\<close>-th part as a number, zero when there are fewer parts.\<close>

definition semver_part :: "string list \<Rightarrow> nat \<Rightarrow> int option" where
  "semver_part parts i = (if i \<ge> length parts then Some 0 else atoi (parts ! i))"

definition parseSemver :: "string \<Rightarrow> semver option" where
  "parseSemver v0 =
     (let v = trim_space v0 in
      if v = '''' then None
      else let parts = split_on (CHR ''.'') (before_char (CHR ''+'') (before_char (CHR ''-'') v))
           in case semver_part parts 0 of
                None \<Rightarrow> None
              | Some x \<Rightarrow> (case semver_part parts 1 of
                  None \<Rightarrow> None
                | Some y \<Rightarrow> (case semver_part parts 2 of None \<Rightarrow> None | Some z \<Rightarrow> Some (x, y, z))))"

definition SemverGE :: "string \<Rightarrow> string \<Rightarrow> bool" where
  "SemverGE agentVersion minVersion =
     (if minVersion = '''' then True
      else case (parseSemver agentVersion, parseSemver minVersion) of
        (Some (a0, a1, a2), Some (b0, b1, b2)) \<Rightarrow>
          if a0 \<noteq> b0 then a0 > b0 else if a1 \<noteq> b1 then a1 > b1 else a2 \<ge> b2
      | _ \<Rightarrow> agentVersion \<ge> minVersion)"

definition SemverGT :: "string \<Rightarrow> string \<Rightarrow> bool" where
  "SemverGT a b =
     (case (parseSemver a, parseSemver b) of
        (Some (a0, a1, a2), Some (b0, b1, b2)) \<Rightarrow>
          if a0 \<noteq> b0 then a0 > b0 else if a1 \<noteq> b1 then a1 > b1 else a2 > b2
      | _ \<Rightarrow> a > b)"

section \<open>Artifacts, metadata and policy\<close>

record signed_artifact =
  sg_ID :: string
  sg_CandidateID :: string
  sg_CreatedAtMS :: int
  sg_PackJSON :: string
  sg_SignatureAlg :: string
  sg_KeyID :: string
  sg_PackID :: string
  sg_PackVersion :: string
  sg_SHA256Hex :: string

record pack_doc =
  pd_PackID :: string
  pd_PackVersion :: string
  pd_MinAgentVersion :: string
  pd_SupportedOS :: "string list"
  pd_Mode :: string

record pack_meta =
  pm_PackID :: string
  pm_PackVersion :: string
  pm_MinAgentVersion :: string
  pm_SupportedOS :: "string list"
  pm_Mode :: string
  pm_ExpiresAt :: "time option"
  pm_SHA256Hex :: string

record pack_lib =
  lib_doc :: "string \<Rightarrow> pack_doc option"
  lib_expires :: "string \<Rightarrow> gval option"
  lib_sha256 :: "string \<Rightarrow> string"
  lib_time_nano :: "string \<Rightarrow> time option"
  lib_time :: "string \<Rightarrow> time option"

definition expires_of :: "pack_lib \<Rightarrow> string \<Rightarrow> time option" where
  "expires_of lib raw =
     (case lib_expires lib raw of
        Some (VStr s) \<Rightarrow>
          if s = '''' then None
          else (case lib_time_nano lib s of Some t \<Rightarrow> Some t | None \<Rightarrow> lib_time lib s)
      | _ \<Rightarrow> None)"

definition ParsePackMeta :: "pack_lib \<Rightarrow> signed_artifact option \<Rightarrow> pack_meta option" where
  "ParsePackMeta lib art =
     (case art of
        None \<Rightarrow> None
      | Some a \<Rightarrow>
          if sg_PackJSON a = '''' then None
          else (case lib_doc lib (sg_PackJSON a) of
                  None \<Rightarrow> None
                | Some doc \<Rightarrow> Some
                    \<lparr>pm_PackID = pd_PackID doc, pm_PackVersion = pd_PackVersion doc,
                     pm_MinAgentVersion = pd_MinAgentVersion doc, pm_SupportedOS = pd_SupportedOS doc,
                     pm_Mode = pd_Mode doc, pm_ExpiresAt = expires_of lib (sg_PackJSON a),
                     pm_SHA256Hex = (if sg_SHA256Hex a \<noteq> '''' then sg_SHA256Hex a
                                     else lib_sha256 lib (sg_PackJSON a))\<rparr>))"

definition Compatible :: "time \<Rightarrow> pack_meta \<Rightarrow> string \<Rightarrow> string \<Rightarrow> bool" where
  "Compatible now m hostOS0 agentSemver =
     (let hostOS = to_lower (trim_space hostOS0) in
      if hostOS = '''' then False
      else if \<not> list_ex (\<lambda>s. equal_fold (trim_space s) hostOS) (pm_SupportedOS m) then False
      else if trim_space (pm_Mode m) \<noteq> '''' \<and> trim_space (pm_Mode m) \<noteq> ''observe'' then False
      else if (case pm_ExpiresAt m of None \<Rightarrow> False | Some t \<Rightarrow> \<not> now < t) then False
      else SemverGE (trim_space agentSemver) (trim_space (pm_MinAgentVersion m)))"

record policy =
  po_LabOnlyEnabled :: bool
  po_AllowedPackIDs :: "string list"
  po_StaleAfterMS :: int

definition LoadPolicyFromEnv :: "(string \<Rightarrow> string) \<Rightarrow> policy" where
  "LoadPolicyFromEnv getenv =
     (let lab = (trim_space (getenv ''DETECTION_ROLLOUT_LAB_ONLY'') \<noteq> ''false'');
          raw = trim_space (getenv ''DETECTION_ROLLOUT_ALLOWED_PACK_IDS'');
          ids = (if raw \<noteq> '''' then filter (\<lambda>i. i \<noteq> '''') (map trim_space (split_on (CHR '','') raw)) else []);
          v = trim_space (getenv ''DETECTION_ROLLOUT_STALE_AFTER_MS'');
          stale = (if v \<noteq> '''' then (case atoi v of Some ms \<Rightarrow> if ms > 0 then ms else 86400000 | None \<Rightarrow> 86400000)
                   else 86400000)
      in \<lparr>po_LabOnlyEnabled = lab, po_AllowedPackIDs = ids, po_StaleAfterMS = stale\<rparr>)"

definition AllowPack :: "policy \<Rightarrow> string \<Rightarrow> bool" where
  "AllowPack p packID = (po_AllowedPackIDs p = [] \<or> packID \<in> set (po_AllowedPackIDs p))"

section \<open>Choosing an artifact\<close>

text \<open>The filters of the loop, and the rule by which a candidate replaces the best one so far.\<close>

definition eligible ::
  "pack_lib \<Rightarrow> time \<Rightarrow> policy \<Rightarrow> string \<Rightarrow> string \<Rightarrow> string \<Rightarrow> signed_artifact option \<Rightarrow>
   (signed_artifact \<times> pack_meta) option" where
  "eligible lib now pol hostOS agentSemver packIDFilter art =
     (case art of
        None \<Rightarrow> None
      | Some a \<Rightarrow>
          (case ParsePackMeta lib (Some a) of
             None \<Rightarrow> None
           | Some meta \<Rightarrow>
               if \<not> AllowPack pol (pm_PackID meta) then None
               else if packIDFilter \<noteq> '''' \<and> pm_PackID meta \<noteq> packIDFilter then None
               else if \<not> Compatible now meta hostOS agentSemver then None
               else Some (a, meta)))"

definition prefer_newer ::
  "signed_artifact \<times> pack_meta \<Rightarrow> signed_artifact \<times> pack_meta \<Rightarrow> signed_artifact \<times> pack_meta" where
  "prefer_newer best new =
     (case best of (bestArt, bestMeta) \<Rightarrow> case new of (art, meta) \<Rightarrow>
        if pm_PackID meta = pm_PackID bestMeta then
          (if SemverGT (pm_PackVersion meta) (pm_PackVersion bestMeta) then new
           else if pm_PackVersion meta = pm_PackVersion bestMeta \<and> sg_CreatedAtMS art > sg_CreatedAtMS bestArt then new
           else best)
        else if sg_CreatedAtMS art > sg_CreatedAtMS bestArt then new else best)"

definition SelectLatestCompatible ::
  "pack_lib \<Rightarrow> time \<Rightarrow> signed_artifact option list \<Rightarrow> string \<Rightarrow> string \<Rightarrow> string \<Rightarrow> policy \<Rightarrow>
   (signed_artifact \<times> pack_meta) option" where
  "SelectLatestCompatible lib now artifacts hostOS agentSemver packIDFilter pol =
     fold (\<lambda>art best.
        case eligible lib now pol hostOS agentSemver packIDFilter art of
          None \<Rightarrow> best
        | Some new \<Rightarrow> (case best of None \<Rightarrow> Some new | Some b \<Rightarrow> Some (prefer_newer b new)))
       artifacts None"

fun find_exact ::
  "pack_lib \<Rightarrow> signed_artifact option list \<Rightarrow> string \<Rightarrow> string \<Rightarrow> (signed_artifact \<times> pack_meta) option" where
  "find_exact lib [] packID version = None"
| "find_exact lib (art # arts) packID version =
     (case (art, ParsePackMeta lib art) of
        (Some a, Some meta) \<Rightarrow>
          if equal_fold (pm_PackID meta) packID \<and> pm_PackVersion meta = version then Some (a, meta)
          else find_exact lib arts packID version
      | _ \<Rightarrow> find_exact lib arts packID version)"

definition newest_step ::
  "pack_lib \<Rightarrow> string \<Rightarrow> signed_artifact option \<Rightarrow> (signed_artifact \<times> pack_meta) option \<Rightarrow>
   (signed_artifact \<times> pack_meta) option" where
  "newest_step lib packID art best =
     (case (art, ParsePackMeta lib art) of
        (Some a, Some meta) \<Rightarrow>
          if \<not> equal_fold (pm_PackID meta) packID then best
          else (case best of
                  None \<Rightarrow> Some (a, meta)
                | Some (b, bm) \<Rightarrow>
                    if SemverGT (pm_PackVersion meta) (pm_PackVersion bm)
                       \<or> (pm_PackVersion meta = pm_PackVersion bm \<and> sg_CreatedAtMS a > sg_CreatedAtMS b)
                    then Some (a, meta) else best)
      | _ \<Rightarrow> best)"

definition FindArtifactByPackAndVersion ::
  "pack_lib \<Rightarrow> signed_artifact option list \<Rightarrow> string \<Rightarrow> string \<Rightarrow> (signed_artifact \<times> pack_meta) option" where
  "FindArtifactByPackAndVersion lib artifacts packID version =
     (if version \<noteq> '''' then find_exact lib artifacts packID version
      else fold (newest_step lib packID) artifacts None)"

section \<open>Read-only handlers\<close>

datatype latest_response = LForbidden | LBadRequest | LNotFound | LFound signed_artifact pack_meta

definition handleLatestPack ::
  "pack_lib \<Rightarrow> time \<Rightarrow> policy \<Rightarrow> signed_artifact option list \<Rightarrow> string \<Rightarrow> string \<Rightarrow> string \<Rightarrow> latest_response" where
  "handleLatestPack lib now pol arts qos qver qpack =
     (if \<not> po_LabOnlyEnabled pol then LForbidden
      else let osName = to_lower (trim_space qos); agentVer = trim_space qver; packIDFilter = trim_space qpack
           in if osName = '''' \<or> agentVer = '''' then LBadRequest
              else case SelectLatestCompatible lib now arts osName agentVer packIDFilter pol of
                     None \<Rightarrow> LNotFound
                   | Some (art, meta) \<Rightarrow> LFound art meta)"

datatype artifact_response = ABadRequest | ANotFound | AForbidden | ANotAcceptable | AServed signed_artifact pack_meta

definition handlePackArtifact ::
  "pack_lib \<Rightarrow> time \<Rightarrow> policy \<Rightarrow> signed_artifact option list \<Rightarrow> string \<Rightarrow> string \<Rightarrow> string \<Rightarrow> string \<Rightarrow>
   artifact_response" where
  "handlePackArtifact lib now pol arts packID qos qver qversion =
     (let osName = to_lower (trim_space qos); agentVer = trim_space qver; verFilter = trim_space qversion
      in if osName = '''' \<or> agentVer = '''' then ABadRequest
         else case FindArtifactByPackAndVersion lib arts packID verFilter of
                None \<Rightarrow> ANotFound
              | Some (art, meta) \<Rightarrow>
                  if \<not> equal_fold (pm_PackID meta) packID then ANotFound
                  else if \<not> AllowPack pol (pm_PackID meta) then AForbidden
                  else if \<not> Compatible now meta osName agentVer then ANotAcceptable
                  else AServed art meta)"

text \<open>Routing below the two prefixes of the rollout controller.\<close>

definition trim_prefix :: "string \<Rightarrow> string \<Rightarrow> string" where
  "trim_prefix p s = (if prefix p s then drop (length p) s else s)"

definition trim_slashes :: "string \<Rightarrow> string" where
  "trim_slashes s = rev (dropWhile (\<lambda>c. c = CHR ''/'') (rev (dropWhile (\<lambda>c. c = CHR ''/'') s)))"

datatype pack_route = RouteForbidden | RouteLatest | RouteArtifact string | RouteStatus string | RouteNotFound

definition handleDetectionPacksPrefix :: "policy \<Rightarrow> string \<Rightarrow> pack_route" where
  "handleDetectionPacksPrefix pol urlPath =
     (if \<not> po_LabOnlyEnabled pol then RouteForbidden
      else let path = trim_slashes (trim_prefix ''/detection-packs/'' (trim_prefix ''/v1/detection-packs/'' urlPath))
           in if path = ''latest'' then RouteLatest
              else case split_on (CHR ''/'') path of
                     packID # part # rest \<Rightarrow>
                       if part = ''artifact'' then (if rest = [] then RouteArtifact packID else RouteNotFound)
                       else if part = ''rollout-status'' then (if rest = [] then RouteStatus packID else RouteNotFound)
                       else RouteNotFound
                   | _ \<Rightarrow> RouteNotFound)"

section \<open>The version order\<close>

lemma SemverGT_parsed:
  assumes "parseSemver a = Some x" "parseSemver b = Some y"
  shows "SemverGT a b \<longleftrightarrow> y < x"
  using assms by (cases x; cases y) (auto simp: SemverGT_def)

lemma SemverGE_parsed:
  assumes "parseSemver a = Some x" "parseSemver b = Some y" "b \<noteq> ''''"
  shows "SemverGE a b \<longleftrightarrow> y \<le> x"
  using assms by (cases x; cases y) (auto simp: SemverGE_def)

lemma SemverGE_not_GT: "b \<noteq> '''' \<Longrightarrow> SemverGE a b \<longleftrightarrow> \<not> SemverGT b a"
  by (auto simp: SemverGE_def SemverGT_def not_less split: option.splits)

text \<open>
  Version comparison is consistent: for a non-empty minimum, at least and less than exclude
  each other and one holds; on versions that parse both are the lexicographic order of major,
  minor and patch number.
\<close>

lemma semver_order:
  "(b \<noteq> '''' \<longrightarrow> (SemverGE a b \<longleftrightarrow> \<not> SemverGT b a))
   \<and> (parseSemver a = Some x \<and> parseSemver b = Some y \<longrightarrow> (SemverGT a b \<longleftrightarrow> y < x))"
  using SemverGE_not_GT SemverGT_parsed by blast

lemma parseSemver_not_empty: "parseSemver v = Some x \<Longrightarrow> v \<noteq> ''''"
  by (auto simp: parseSemver_def)

section \<open>Selection\<close>

lemma select_map_filter:
  "fold (\<lambda>art best. case el art of None \<Rightarrow> best
           | Some new \<Rightarrow> (case best of None \<Rightarrow> Some new | Some b \<Rightarrow> Some (pref b new))) arts (Some b)
   = Some (foldl pref b (List.map_filter el arts))"
  by (induction arts arbitrary: b) (auto simp: List.map_filter_simps split: option.splits)

lemma Select_eq:
  "SelectLatestCompatible lib now arts hostOS ver filt pol =
     (case List.map_filter (eligible lib now pol hostOS ver filt) arts of
        [] \<Rightarrow> None | e # es \<Rightarrow> Some (foldl prefer_newer e es))"
proof (induction arts)
  case Nil
  then show ?case by (simp add: SelectLatestCompatible_def List.map_filter_simps)
next
  case (Cons art arts)
  then show ?case
    by (cases "eligible lib now pol hostOS ver filt art")
       (simp_all add: SelectLatestCompatible_def List.map_filter_simps select_map_filter)
qed

lemma prefer_newer_cases: "prefer_newer b n = b \<or> prefer_newer b n = n"
  by (auto simp: prefer_newer_def split: prod.splits)

lemma foldl_prefer_in: "foldl prefer_newer e es \<in> insert e (set es)"
proof (induction es arbitrary: e)
  case Nil
  then show ?case by simp
next
  case (Cons x es)
  from Cons [of "prefer_newer e x"] prefer_newer_cases [of e x] show ?case by auto
qed

lemma map_filter_set: "y \<in> set (List.map_filter f xs) \<longleftrightarrow> (\<exists>x \<in> set xs. f x = Some y)"
  by (induction xs) (auto simp: List.map_filter_simps split: option.splits)

lemma map_filter_Nil: "List.map_filter f xs = [] \<longleftrightarrow> (\<forall>x \<in> set xs. f x = None)"
  by (induction xs) (auto simp: List.map_filter_simps split: option.splits)

lemma eligible_props:
  assumes "eligible lib now pol hostOS ver filt art = Some (a, m)"
  shows "art = Some a" "ParsePackMeta lib (Some a) = Some m" "AllowPack pol (pm_PackID m)"
    "Compatible now m hostOS ver" "filt \<noteq> '''' \<Longrightarrow> pm_PackID m = filt"
  using assms by (auto simp: eligible_def split: option.splits if_splits)


text \<open>The parsed version of an entry.\<close>

definition entry_semver :: "signed_artifact \<times> pack_meta \<Rightarrow> semver" where
  "entry_semver e = the (parseSemver (pm_PackVersion (snd e)))"

lemma prefer_newer_ge:
  assumes "pm_PackID (snd b) = pm_PackID (snd n)"
    "parseSemver (pm_PackVersion (snd b)) \<noteq> None" "parseSemver (pm_PackVersion (snd n)) \<noteq> None"
  shows "entry_semver b \<le> entry_semver (prefer_newer b n)" "entry_semver n \<le> entry_semver (prefer_newer b n)"
proof -
  obtain x where x: "parseSemver (pm_PackVersion (snd b)) = Some x" using assms(2) by auto
  obtain y where y: "parseSemver (pm_PackVersion (snd n)) = Some y" using assms(3) by auto
  have gt: "SemverGT (pm_PackVersion (snd n)) (pm_PackVersion (snd b)) \<longleftrightarrow> x < y"
    by (rule SemverGT_parsed [OF y x])
  show "entry_semver b \<le> entry_semver (prefer_newer b n)" "entry_semver n \<le> entry_semver (prefer_newer b n)"
    using gt x y assms(1) by (auto simp: prefer_newer_def entry_semver_def split: prod.splits)
qed

lemma foldl_prefer_max:
  assumes "\<forall>x \<in> insert e (set es). pm_PackID (snd x) = pid \<and> parseSemver (pm_PackVersion (snd x)) \<noteq> None"
  shows "\<forall>x \<in> insert e (set es). entry_semver x \<le> entry_semver (foldl prefer_newer e es)"
  using assms
proof (induction es arbitrary: e)
  case Nil
  then show ?case by simp
next
  case (Cons x es)
  let ?b = "prefer_newer e x"
  have b: "pm_PackID (snd ?b) = pid \<and> parseSemver (pm_PackVersion (snd ?b)) \<noteq> None"
    using Cons.prems prefer_newer_cases [of e x] by auto
  with Cons.prems have IH: "\<forall>y \<in> insert ?b (set es). entry_semver y \<le> entry_semver (foldl prefer_newer ?b es)"
    by (intro Cons.IH) auto
  have "entry_semver e \<le> entry_semver ?b" "entry_semver x \<le> entry_semver ?b"
    using Cons.prems by (auto intro: prefer_newer_ge)
  with IH show ?case by (auto intro: order_trans)
qed

text \<open>
  With a pack filter and versions that parse, the selected artifact has the highest version
  of that pack among all eligible artifacts, whatever their order.
\<close>

lemma Select_highest_version:
  assumes "filt \<noteq> ''''" "SelectLatestCompatible lib now arts hostOS ver filt pol = Some (a, m)"
    and parse: "\<forall>art \<in> set arts. \<forall>a' m'. eligible lib now pol hostOS ver filt art = Some (a', m') \<longrightarrow>
           parseSemver (pm_PackVersion m') \<noteq> None"
    and "art \<in> set arts" "eligible lib now pol hostOS ver filt art = Some (a', m')"
  shows "\<not> SemverGT (pm_PackVersion m') (pm_PackVersion m)"
proof -
  let ?es = "List.map_filter (eligible lib now pol hostOS ver filt) arts"
  from assms(2) obtain e es where es: "?es = e # es" and r: "foldl prefer_newer e es = (a, m)"
    by (auto simp: Select_eq split: list.splits)
  have all: "\<forall>x \<in> set ?es. pm_PackID (snd x) = filt \<and> parseSemver (pm_PackVersion (snd x)) \<noteq> None"
    using parse eligible_props(5) [OF _ assms(1)] by (fastforce simp: map_filter_set)
  have in': "(a', m') \<in> set ?es" using assms(4,5) by (auto simp: map_filter_set)
  have "(a, m) \<in> set ?es" using foldl_prefer_in [of e es] by (simp add: es r)
  with all in' obtain x y where xy: "parseSemver (pm_PackVersion m) = Some x" "parseSemver (pm_PackVersion m') = Some y"
    by fastforce
  have "entry_semver (a', m') \<le> entry_semver (a, m)"
    using foldl_prefer_max [of e es filt] all in' by (auto simp: es r)
  with SemverGT_parsed [OF xy(2,1)] xy show ?thesis by (simp add: entry_semver_def)
qed

section \<open>Served artifacts\<close>

lemma find_exact_props:
  "find_exact lib arts packID v = Some (a, m) \<Longrightarrow>
     Some a \<in> set arts \<and> ParsePackMeta lib (Some a) = Some m \<and> pm_PackVersion m = v"
  by (induction arts) (auto split: option.splits if_splits)

lemma newest_step_inv:
  assumes "fold (newest_step lib packID) arts best = Some (a, m)"
  shows "best = Some (a, m) \<or> Some a \<in> set arts \<and> ParsePackMeta lib (Some a) = Some m"
  using assms
proof (induction arts arbitrary: best)
  case Nil
  then show ?case by simp
next
  case (Cons art arts)
  then have "newest_step lib packID art best = Some (a, m) \<or> Some a \<in> set arts \<and> ParsePackMeta lib (Some a) = Some m"
    by auto
  then show ?case by (auto simp: newest_step_def split: option.splits if_splits)
qed

text \<open>
  Whatever artifact the controller serves is one of the signed ones, belongs to the requested
  pack, is allowed by the policy and compatible with the requesting agent, and has the requested
  version if one was given.
\<close>

lemma handlePackArtifact_safe:
  assumes "handlePackArtifact lib now pol arts packID qos qver qversion = AServed a m"
  shows "Some a \<in> set arts \<and> ParsePackMeta lib (Some a) = Some m \<and> equal_fold (pm_PackID m) packID
    \<and> AllowPack pol (pm_PackID m) \<and> Compatible now m (to_lower (trim_space qos)) (trim_space qver)
    \<and> (trim_space qversion \<noteq> '''' \<longrightarrow> pm_PackVersion m = trim_space qversion)"
proof -
  from assms have f: "FindArtifactByPackAndVersion lib arts packID (trim_space qversion) = Some (a, m)"
    and rest: "equal_fold (pm_PackID m) packID" "AllowPack pol (pm_PackID m)"
      "Compatible now m (to_lower (trim_space qos)) (trim_space qver)"
    by (auto simp: handlePackArtifact_def Let_def split: if_splits option.splits)
  from f have "Some a \<in> set arts \<and> ParsePackMeta lib (Some a) = Some m
      \<and> (trim_space qversion \<noteq> '''' \<longrightarrow> pm_PackVersion m = trim_space qversion)"
    using find_exact_props newest_step_inv
    by (fastforce simp: FindArtifactByPackAndVersion_def split: if_splits)
  with rest show ?thesis by simp
qed

section \<open>Order of the artifacts, and advertised artifacts\<close>

text \<open>Two packs: \<open>p\<close> in versions 1.0.0 and 2.0.0 and \<open>q\<close>. A pack's JSON text is its identifier,
  version and minimal agent version, separated by spaces.\<close>

definition ex_pack_lib :: pack_lib where
  "ex_pack_lib =
     \<lparr>lib_doc = (\<lambda>raw. case go_fields raw of
         [i, v, minv] \<Rightarrow> Some \<lparr>pd_PackID = i, pd_PackVersion = v, pd_MinAgentVersion = minv,
                               pd_SupportedOS = [''linux''], pd_Mode = ''observe''\<rparr>
       | _ \<Rightarrow> None),
      lib_expires = (\<lambda>_. None), lib_sha256 = (\<lambda>_. ''00''), lib_time_nano = (\<lambda>_. None), lib_time = (\<lambda>_. None)\<rparr>"

definition ex_art :: "string \<Rightarrow> int \<Rightarrow> signed_artifact option" where
  "ex_art raw created = Some \<lparr>sg_ID = raw, sg_CandidateID = ''c'', sg_CreatedAtMS = created, sg_PackJSON = raw,
     sg_SignatureAlg = ''ed25519'', sg_KeyID = ''k'', sg_PackID = '''', sg_PackVersion = '''', sg_SHA256Hex = ''''\<rparr>"

definition ex_policy :: policy where
  "ex_policy = LoadPolicyFromEnv (\<lambda>_. '''')"

text \<open>
  Without a pack filter the answer depends on the order in which the signed artifacts are
  listed, which is the iteration order of a map: of the same three artifacts, one order yields
  version 2.0.0 of pack \<open>p\<close> and another the older version 1.0.0 of the same pack.
\<close>

lemma Select_order_dependent:
  "map_option (pm_PackVersion \<circ> snd)
     (SelectLatestCompatible ex_pack_lib 0
        [ex_art ''p 1.0.0 1.0.0'' 3, ex_art ''q 1.0.0 1.0.0'' 2, ex_art ''p 2.0.0 1.0.0'' 1]
        ''linux'' ''1.0.0'' '''' ex_policy) = Some ''2.0.0''
   \<and> map_option (pm_PackVersion \<circ> snd)
     (SelectLatestCompatible ex_pack_lib 0
        [ex_art ''q 1.0.0 1.0.0'' 2, ex_art ''p 2.0.0 1.0.0'' 1, ex_art ''p 1.0.0 1.0.0'' 3]
        ''linux'' ''1.0.0'' '''' ex_policy) = Some ''1.0.0''"
  by code_simp

text \<open>
  The artifact URL of the latest-pack answer carries no version, and the artifact handler then
  picks the highest version before it checks compatibility: an agent that is offered version 1.0.0
  because 2.0.0 needs a newer agent is refused when it fetches what it was offered.
\<close>

lemma offered_pack_refused:
  "let arts = [ex_art ''p 1.0.0 1.0.0'' 1, ex_art ''p 2.0.0 9.0.0'' 2] in
     (case handleLatestPack ex_pack_lib 0 ex_policy arts ''linux'' ''1.0.0'' '''' of
        LFound a m \<Rightarrow> pm_PackID m = ''p'' \<and> pm_PackVersion m = ''1.0.0'' | _ \<Rightarrow> False)
     \<and> handlePackArtifact ex_pack_lib 0 ex_policy arts ''p'' ''linux'' ''1.0.0'' '''' = ANotAcceptable"
  by code_simp

section \<open>Examples\<close>

lemma semver_order_witness:
  "SemverGE ''1.10.0'' ''1.9'' = (\<not> SemverGT ''1.9'' ''1.10.0'') \<and> SemverGT ''1.10.0'' ''1.9''"
proof -
  have "parseSemver ''1.10.0'' = Some (1, 10, 0)" "parseSemver ''1.9'' = Some (1, 9, 0)" by code_simp+
  with semver_order [of "''1.9''" "''1.10.0''" "(1, 10, 0)" "(1, 9, 0)"] show ?thesis by simp
qed


definition ex_two :: "signed_artifact option list" where
  "ex_two = [ex_art ''p 1.0.0 1.0.0'' 1, ex_art ''p 2.0.0 1.0.0'' 2]"

definition ex_meta :: "string \<Rightarrow> pack_meta" where
  "ex_meta v = \<lparr>pm_PackID = ''p'', pm_PackVersion = v, pm_MinAgentVersion = ''1.0.0'', pm_SupportedOS = [''linux''],
                pm_Mode = ''observe'', pm_ExpiresAt = None, pm_SHA256Hex = ''00''\<rparr>"

lemma ex_eligible:
  "eligible ex_pack_lib 0 ex_policy ''linux'' ''1.0.0'' ''p'' (ex_art ''p 1.0.0 1.0.0'' 1)
     = Some (the (ex_art ''p 1.0.0 1.0.0'' 1), ex_meta ''1.0.0'')"
  "eligible ex_pack_lib 0 ex_policy ''linux'' ''1.0.0'' ''p'' (ex_art ''p 2.0.0 1.0.0'' 2)
     = Some (the (ex_art ''p 2.0.0 1.0.0'' 2), ex_meta ''2.0.0'')"
  "SelectLatestCompatible ex_pack_lib 0 ex_two ''linux'' ''1.0.0'' ''p'' ex_policy
     = Some (the (ex_art ''p 2.0.0 1.0.0'' 2), ex_meta ''2.0.0'')"
  by code_simp+

lemma Select_highest_version_witness:
  "\<not> SemverGT (pm_PackVersion (ex_meta ''1.0.0'')) (pm_PackVersion (ex_meta ''2.0.0''))"
proof (rule Select_highest_version [OF _ ex_eligible(3)])
  have "parseSemver ''1.0.0'' \<noteq> None" "parseSemver ''2.0.0'' \<noteq> None" by code_simp+
  then show "\<forall>art \<in> set ex_two. \<forall>a' m'.
      eligible ex_pack_lib 0 ex_policy ''linux'' ''1.0.0'' ''p'' art = Some (a', m') \<longrightarrow> parseSemver (pm_PackVersion m') \<noteq> None"
    by (simp add: ex_two_def ex_eligible) (simp add: ex_meta_def)
  show "ex_art ''p 1.0.0 1.0.0'' 1 \<in> set ex_two" by (simp add: ex_two_def)
  show "eligible ex_pack_lib 0 ex_policy ''linux'' ''1.0.0'' ''p'' (ex_art ''p 1.0.0 1.0.0'' 1)
     = Some (the (ex_art ''p 1.0.0 1.0.0'' 1), ex_meta ''1.0.0'')" by (rule ex_eligible)
qed simp

lemma handlePackArtifact_safe_witness:
  "Compatible 0 (ex_meta ''2.0.0'') ''linux'' ''1.0.0'' \<and> AllowPack ex_policy ''p''"
proof -
  have "handlePackArtifact ex_pack_lib 0 ex_policy ex_two ''P'' ''Linux'' ''1.0.0'' ''2.0.0''
      = AServed (the (ex_art ''p 2.0.0 1.0.0'' 2)) (ex_meta ''2.0.0'')" by code_simp
  from handlePackArtifact_safe [OF this]
  have "Compatible 0 (ex_meta ''2.0.0'') (to_lower (trim_space ''Linux'')) (trim_space ''1.0.0'')
      \<and> AllowPack ex_policy (pm_PackID (ex_meta ''2.0.0''))" by blast
  moreover have "to_lower (trim_space ''Linux'') = ''linux''" "trim_space ''1.0.0'' = ''1.0.0''" by code_simp+
  ultimately show ?thesis by (simp add: ex_meta_def)
qed

end
