(* ===== verification/Det_Candidates.thy ===== *)
theory Det_Candidates
  imports Det_Eval Det_Rollout
begin

text \<open>
  The detection pipeline's registry (\<open>internal/store\<close>), the assembly of packs (\<open>internal/pack\<close>) and
  the lifecycle of candidate rules (\<open>internal/api/server.go\<close>, \<open>internal/api/controller_rollout.go\<close>).

  A handler maps the registry to a response and the new registry. It takes the identifiers the
  random generator returns, the clock in milliseconds and, for each write, whether persisting the
  registry to disk succeeds (\<open>ok\<close>). Handlers work on shared candidate objects: a change to one is
  visible in the registry at once, before it is persisted. Validation is modelled in two steps,
  before and after the telemetry query, because requests are served concurrently and other
  handlers may run in between; each other handler is one step. Libraries are the fields of
  \<open>det_lib\<close>: JSON decoding and encoding, the schema check (\<^term>\<open>None\<close> for a valid document),
  Ed25519 with the server's key, SHA-256, base64 and hexadecimal encoding, quoting and time formatting. The texts of
  errors that come from a library alone are left out: ''decode'' and ''persist'' stand for them.
\<close>

section \<open>Data\<close>

record research_item =
  ri_ID :: string
  ri_Title :: string
  ri_Summary :: string
  ri_SourceURL :: string
  ri_CreatedAtMS :: int

datatype candidate_status =
    CDraft | CValidating | CValidationFailed | CReadyForReview | CApproved | CRejected | CSigned | COther string

fun candidate_status_string :: "candidate_status \<Rightarrow> string" where
  "candidate_status_string CDraft = ''draft''"
| "candidate_status_string CValidating = ''validating''"
| "candidate_status_string CValidationFailed = ''validation_failed''"
| "candidate_status_string CReadyForReview = ''ready_for_review''"
| "candidate_status_string CApproved = ''approved''"
| "candidate_status_string CRejected = ''rejected''"
| "candidate_status_string CSigned = ''signed''"
| "candidate_status_string (COther t) = t"

record candidate =
  cd_ID :: string
  cd_ResearchItemID :: string
  cd_Title :: string
  cd_Description :: string
  cd_Status :: candidate_status
  cd_CreatedAtMS :: int
  cd_UpdatedAtMS :: int
  cd_RejectReason :: string
  cd_PackID :: string
  cd_PackVersion :: string
  cd_MinAgentVersion :: string
  cd_SupportedOS :: "string list"
  cd_Author :: string
  cd_Source :: string
  cd_EvaluatorLimits :: string
  cd_ProposedRules :: string
  cd_References :: string
  cd_LastValidationID :: string
  cd_SignedPackID :: string

record validation_run =
  vr_ID :: string
  vr_CandidateID :: string
  vr_StartedAtMS :: int
  vr_EndedAtMS :: int
  vr_Success :: bool
  vr_IngestURL :: string
  vr_DeviceID :: string
  vr_EventsFetched :: int
  vr_MatchedRules :: int
  vr_Details :: string
  vr_Errors :: string

datatype rollout_state =
    RNotChecked | RApplied | RRejected | RStale | RIncompatible | RExpired | RRollback

record agent_pack_status =
  as_AgentUID :: string
  as_ActivePackID :: string
  as_ActivePackVersion :: string
  as_LastCheckAtMS :: int
  as_LastAppliedAtMS :: int
  as_LastRejectedAtMS :: int
  as_LastRejectedPackID :: string
  as_LastRejectedReason :: string
  as_LastRejectedReasonCodes :: "string list"
  as_SignatureStatus :: string
  as_HashStatus :: string
  as_SchemaStatus :: string
  as_CompatibilityStatus :: string
  as_PreviousPackID :: string
  as_PreviousPackVersion :: string
  as_RolloutState :: rollout_state
  as_ReasonDetail :: string
  as_ReasonCodes :: "string list"
  as_DeviceID :: string
  as_ReportedAgentVersion :: string
  as_UpdatedAtMS :: int

section \<open>The registry\<close>

record det_store =
  dt_Research :: "(string, research_item) gomap"
  dt_Candidates :: "(string, candidate) gomap"
  dt_Validations :: "(string, validation_run) gomap"
  dt_SignedPacks :: "(string, signed_artifact) gomap"
  dt_AgentPackStatus :: "(string, agent_pack_status) gomap"

definition new_store :: det_store where
  "new_store = \<lparr>dt_Research = [], dt_Candidates = [], dt_Validations = [], dt_SignedPacks = [],
                dt_AgentPackStatus = []\<rparr>"

definition PutResearch :: "research_item \<Rightarrow> det_store \<Rightarrow> det_store" where
  "PutResearch r s = s\<lparr>dt_Research := map_set (ri_ID r) r (dt_Research s)\<rparr>"

definition PutCandidate :: "candidate \<Rightarrow> det_store \<Rightarrow> det_store" where
  "PutCandidate c s = s\<lparr>dt_Candidates := map_set (cd_ID c) c (dt_Candidates s)\<rparr>"

definition PutValidation :: "validation_run \<Rightarrow> det_store \<Rightarrow> det_store" where
  "PutValidation v s = s\<lparr>dt_Validations := map_set (vr_ID v) v (dt_Validations s)\<rparr>"

definition PutSigned :: "signed_artifact \<Rightarrow> det_store \<Rightarrow> det_store" where
  "PutSigned a s = s\<lparr>dt_SignedPacks := map_set (sg_ID a) a (dt_SignedPacks s)\<rparr>"

definition PutAgentPackStatus :: "agent_pack_status \<Rightarrow> det_store \<Rightarrow> det_store" where
  "PutAgentPackStatus st s = s\<lparr>dt_AgentPackStatus := map_set (as_AgentUID st) st (dt_AgentPackStatus s)\<rparr>"

definition RequireResearch :: "det_store \<Rightarrow> string \<Rightarrow> bool" where
  "RequireResearch s ident = (map_get (dt_Research s) ident \<noteq> None)"

definition ListValidationsForCandidate :: "det_store \<Rightarrow> string \<Rightarrow> validation_run list" where
  "ListValidationsForCandidate s candidateID =
     filter (\<lambda>v. vr_CandidateID v = candidateID) (map_values (dt_Validations s))"

definition ListAgentPackStatusesForPackID :: "det_store \<Rightarrow> string \<Rightarrow> agent_pack_status list" where
  "ListAgentPackStatusesForPackID s packID =
     (let pid = trim_space packID
      in filter (\<lambda>v. as_ActivePackID v = pid \<or> as_LastRejectedPackID v = pid) (map_values (dt_AgentPackStatus s)))"

text \<open>Writing through a candidate's pointer, then putting the object under its own identifier.\<close>

definition store_candidate :: "string \<Rightarrow> candidate \<Rightarrow> det_store \<Rightarrow> det_store" where
  "store_candidate ident c s = PutCandidate c (s\<lparr>dt_Candidates := map_set ident c (dt_Candidates s)\<rparr>)"

section \<open>Packs\<close>

record det_lib =
  dl_payload :: payload_lib
  dl_json :: "string \<Rightarrow> gval option"
  dl_rules :: "string \<Rightarrow> string + jobject list"
  dl_marshal :: "gval \<Rightarrow> string"
  dl_schema :: "gval \<Rightarrow> string option"
  dl_ed25519 :: "string \<Rightarrow> string"
  dl_base64 :: "string \<Rightarrow> string"
  dl_hex :: "string \<Rightarrow> string"
  dl_quote :: "string \<Rightarrow> string"
  dl_keyID :: string
  dl_sha256 :: "string \<Rightarrow> string"
  dl_rfc3339 :: "int \<Rightarrow> string"
  dl_fmt_g :: "float64 \<Rightarrow> string"
  dl_error :: "eval_error \<Rightarrow> string"

definition signature_obj :: "string \<Rightarrow> string \<Rightarrow> gval" where
  "signature_obj key_id value =
     VObj [(''algorithm'', VStr ''ed25519''), (''key_id'', VStr key_id), (''value_b64'', VStr value)]"

text \<open>\<open>SignPackMessage\<close> and \<open>AttachSignature\<close> of \<open>internal/sign\<close>: the hash of the message is signed
  after a domain separator.\<close>

definition SignPackMessage :: "det_lib \<Rightarrow> string \<Rightarrow> string" where
  "SignPackMessage lib canonicalJSON =
     dl_base64 lib (dl_ed25519 lib (''aegis.detection_pack.v1'' @ [CHR 0x00] @ dl_sha256 lib canonicalJSON))"

definition AttachSignature :: "det_lib \<Rightarrow> jobject \<Rightarrow> string \<Rightarrow> string \<Rightarrow> string" where
  "AttachSignature lib pack sigB64 keyID = dl_marshal lib (VObj (map_set ''signature'' (signature_obj keyID sigB64) pack))"

definition pack_base :: "det_lib \<Rightarrow> int \<Rightarrow> candidate \<Rightarrow> gval \<Rightarrow> gval \<Rightarrow> jobject" where
  "pack_base lib now c limits rules =
     [(''schema_version'', VStr ''detection_pack.v1''), (''pack_id'', VStr (cd_PackID c)),
      (''pack_version'', VStr (cd_PackVersion c)), (''created_at'', VStr (dl_rfc3339 lib now)),
      (''min_agent_version'', VStr (cd_MinAgentVersion c)), (''supported_os'', VArr (map VStr (cd_SupportedOS c))),
      (''mode'', VStr ''observe''), (''expires_at'', VNil), (''rollback_pack_version'', VNil),
      (''evaluator_limits'', limits), (''rules'', rules)]"

definition AssemblePack :: "det_lib \<Rightarrow> int \<Rightarrow> candidate \<Rightarrow> string + jobject" where
  "AssemblePack lib now c =
     (case dl_json lib (cd_ProposedRules c) of
        None \<Rightarrow> Inl ''proposed_rules''
      | Some rules \<Rightarrow>
          if cd_EvaluatorLimits c = '''' then Inl ''evaluator_limits required''
          else (case dl_json lib (cd_EvaluatorLimits c) of
                  None \<Rightarrow> Inl ''evaluator_limits''
                | Some limits \<Rightarrow>
                    let p0 = pack_base lib now c limits rules;
                        p1 = (if cd_Author c \<noteq> '''' then map_set ''author'' (VStr (cd_Author c)) p0 else p0);
                        p2 = (if cd_Source c \<noteq> '''' then map_set ''source'' (VStr (cd_Source c)) p1 else p1);
                        p3 = (if cd_References c \<noteq> '''' then
                                (case dl_json lib (cd_References c) of
                                   None \<Rightarrow> p2 | Some refs \<Rightarrow> map_set ''references'' refs p2)
                              else p2)
                    in Inr (map_set ''signature'' (signature_obj ''unsigned'' ''AA=='') p3)))"

definition ValidateProposedRules :: "det_lib \<Rightarrow> int \<Rightarrow> candidate \<Rightarrow> string option" where
  "ValidateProposedRules lib now c =
     (case dl_json lib (cd_ProposedRules c) of
        None \<Rightarrow> Some ''proposed_rules json''
      | Some rules \<Rightarrow>
          (case dl_json lib (cd_EvaluatorLimits c) of
             None \<Rightarrow> Some ''evaluator_limits json''
           | Some limits \<Rightarrow>
               let doc = map_set ''signature''
                     (signature_obj ''schema-check''
                        ''AAAAAAAAAAAAAAAAAAAAAAAAAAAAAAAAAAAAAAAAAAAAAAAAAAAAAAAAAAAAAAAAAAAAAAAAAAAAAAAAAAAAAA=='')
                     (pack_base lib now c limits rules);
                   doc' = (if cd_Author c \<noteq> '''' then map_set ''author'' (VStr (cd_Author c)) doc
                           else if cd_Source c \<noteq> '''' then map_set ''source'' (VStr (cd_Source c)) doc
                           else map_set ''author'' (VStr ''validation'') doc)
               in dl_schema lib (VObj doc')))"

definition cloneWithoutSignature :: "jobject \<Rightarrow> jobject" where
  "cloneWithoutSignature p = map_delete ''signature'' p"

section \<open>Handlers\<close>

datatype 'a http = HOk 'a | HBad string | HNotFound | HConflict string | HError string

record research_request =
  rr_Title :: string
  rr_Summary :: string
  rr_SourceURL :: string

definition handleCreateResearch ::
  "string \<Rightarrow> int \<Rightarrow> bool \<Rightarrow> research_request option \<Rightarrow> det_store \<Rightarrow> research_item http \<times> det_store" where
  "handleCreateResearch ident now ok reqo s =
     (case reqo of
        None \<Rightarrow> (HBad ''decode'', s)
      | Some req \<Rightarrow>
          if trim_space (rr_Title req) = '''' then (HBad ''title required'', s)
          else let item = \<lparr>ri_ID = ident, ri_Title = rr_Title req, ri_Summary = rr_Summary req,
                           ri_SourceURL = rr_SourceURL req, ri_CreatedAtMS = now\<rparr>
               in (if ok then HOk item else HError ''persist'', PutResearch item s))"

record create_candidate_request =
  cr_ResearchItemID :: string
  cr_Title :: string
  cr_Description :: string
  cr_PackID :: string
  cr_PackVersion :: string
  cr_MinAgentVersion :: string
  cr_SupportedOS :: "string list"
  cr_Author :: string
  cr_Source :: string
  cr_EvaluatorLimits :: string
  cr_ProposedRules :: string
  cr_References :: string

definition request_validate :: "create_candidate_request \<Rightarrow> string option" where
  "request_validate req =
     (if trim_space (cr_ResearchItemID req) = '''' \<or> trim_space (cr_Title req) = '''' then
        Some ''research_item_id and title required''
      else if trim_space (cr_PackID req) = '''' \<or> trim_space (cr_PackVersion req) = ''''
              \<or> trim_space (cr_MinAgentVersion req) = '''' then
        Some ''pack_id, pack_version, min_agent_version required''
      else if cr_SupportedOS req = [] then Some ''supported_os required''
      else if cr_EvaluatorLimits req = '''' \<or> cr_ProposedRules req = '''' then
        Some ''evaluator_limits and proposed_rules required''
      else if trim_space (cr_Author req) = '''' \<and> trim_space (cr_Source req) = '''' then
        Some ''author or source required''
      else None)"

definition candidate_of :: "string \<Rightarrow> int \<Rightarrow> create_candidate_request \<Rightarrow> candidate" where
  "candidate_of ident now req =
     \<lparr>cd_ID = ident, cd_ResearchItemID = cr_ResearchItemID req, cd_Title = cr_Title req,
      cd_Description = cr_Description req, cd_Status = CDraft, cd_CreatedAtMS = now, cd_UpdatedAtMS = now,
      cd_RejectReason = '''', cd_PackID = cr_PackID req, cd_PackVersion = cr_PackVersion req,
      cd_MinAgentVersion = cr_MinAgentVersion req, cd_SupportedOS = cr_SupportedOS req,
      cd_Author = cr_Author req, cd_Source = cr_Source req, cd_EvaluatorLimits = cr_EvaluatorLimits req,
      cd_ProposedRules = cr_ProposedRules req, cd_References = cr_References req,
      cd_LastValidationID = '''', cd_SignedPackID = ''''\<rparr>"

definition handleCreateCandidate ::
  "det_lib \<Rightarrow> string \<Rightarrow> int \<Rightarrow> bool \<Rightarrow> create_candidate_request option \<Rightarrow> det_store \<Rightarrow> candidate http \<times> det_store" where
  "handleCreateCandidate lib ident now ok reqo s =
     (case reqo of
        None \<Rightarrow> (HBad ''decode'', s)
      | Some req \<Rightarrow>
          (case request_validate req of
             Some e \<Rightarrow> (HBad e, s)
           | None \<Rightarrow>
               if \<not> RequireResearch s (cr_ResearchItemID req) then 
                 (HBad (''research_item '' @ dl_quote lib (cr_ResearchItemID req) @ '' not found''), s)
               else let c = candidate_of ident now req
                    in case ValidateProposedRules lib now c of
                         Some e \<Rightarrow> (HBad (''proposed_rules failed schema: '' @ e), s)
                       | None \<Rightarrow> (if ok then HOk c else HError ''persist'', PutCandidate c s)))"

text \<open>A validation in flight: the candidate and the run as recorded before the telemetry query.\<close>

record inflight =
  if_ident :: string
  if_vrun :: validation_run

definition validate_begin ::
  "string \<Rightarrow> int \<Rightarrow> string \<Rightarrow> string \<Rightarrow> string \<Rightarrow> det_store \<Rightarrow> inflight http \<times> det_store" where
  "validate_begin vid now ingestURL deviceID ident s =
     (case map_get (dt_Candidates s) ident of
        None \<Rightarrow> (HNotFound, s)
      | Some c \<Rightarrow>
          if cd_Status c \<notin> {CDraft, CValidationFailed, CReadyForReview}
          then (HConflict (''candidate cannot be validated from state '' @ candidate_status_string (cd_Status c)), s)
          else let c' = c\<lparr>cd_Status := CValidating, cd_UpdatedAtMS := now\<rparr>;
                   vrun = \<lparr>vr_ID = vid, vr_CandidateID = ident, vr_StartedAtMS = now, vr_EndedAtMS = 0,
                           vr_Success = False, vr_IngestURL = ingestURL, vr_DeviceID = deviceID,
                           vr_EventsFetched = 0, vr_MatchedRules = 0, vr_Details = '''', vr_Errors = ''''\<rparr>
               in (HOk \<lparr>if_ident = ident, if_vrun = vrun\<rparr>, store_candidate ident c' s))"

text \<open>The loop over the rules: the number of matches and the details, or the error of the first rule
  that fails.\<close>

fun match_rules ::
  "det_lib \<Rightarrow> batch \<Rightarrow> jobject list \<Rightarrow> int \<Rightarrow> string list \<Rightarrow> string + int \<times> string list" where
  "match_rules lib b [] matched details = Inr (matched, details)"
| "match_rules lib b (r # rs) matched details =
     (case RuleMatches r b of
        Inl e \<Rightarrow> Inl (''rule '' @ fmt_v (dl_fmt_g lib) (case map_get r ''rule_id'' of None \<Rightarrow> VNil | Some v \<Rightarrow> v)
                       @ '': '' @ dl_error lib e)
      | Inr ok \<Rightarrow>
          if ok then
            match_rules lib b rs (matched + 1)
              (case as_str (map_get r ''rule_id'') of None \<Rightarrow> details | Some rid \<Rightarrow> details @ [''matched:'' @ rid])
          else match_rules lib b rs matched details)"

definition run_validation ::
  "det_lib \<Rightarrow> int \<Rightarrow> (string + visibility_event list) \<Rightarrow> string \<Rightarrow> validation_run \<Rightarrow> validation_run" where
  "run_validation lib now events proposed vrun =
     (case events of
        Inl e \<Rightarrow> vrun\<lparr>vr_Errors := e, vr_EndedAtMS := now\<rparr>
      | Inr evs \<Rightarrow>
          let v1 = vrun\<lparr>vr_EventsFetched := int (length evs)\<rparr>;
              b = BuildBatch (dl_payload lib) evs
          in case dl_rules lib proposed of
               Inl e \<Rightarrow> v1\<lparr>vr_Errors := ''proposed_rules: '' @ e, vr_EndedAtMS := now\<rparr>
             | Inr rules \<Rightarrow>
                 (case match_rules lib b rules 0 [] of
                    Inl e \<Rightarrow> v1\<lparr>vr_Errors := e, vr_EndedAtMS := now\<rparr>
                  | Inr (matched, details) \<Rightarrow>
                      v1\<lparr>vr_MatchedRules := matched, vr_Success := True, vr_Details := join_with ''; '' details,
                         vr_EndedAtMS := now\<rparr>))"

definition validate_end ::
  "det_lib \<Rightarrow> int \<Rightarrow> (string + visibility_event list) \<Rightarrow> inflight \<Rightarrow> det_store \<Rightarrow> validation_run http \<times> det_store" where
  "validate_end lib now events fl s =
     (case map_get (dt_Candidates s) (if_ident fl) of
        None \<Rightarrow> (HNotFound, s)
      | Some c \<Rightarrow>
          let vrun = run_validation lib now events (cd_ProposedRules c) (if_vrun fl);
              c' = c\<lparr>cd_Status := (if vr_Success vrun then CReadyForReview else CValidationFailed),
                     cd_LastValidationID := vr_ID vrun, cd_UpdatedAtMS := now\<rparr>
          in (HOk vrun, store_candidate (if_ident fl) c' (PutValidation vrun s)))"

definition handleApprove :: "int \<Rightarrow> bool \<Rightarrow> string \<Rightarrow> det_store \<Rightarrow> candidate http \<times> det_store" where
  "handleApprove now ok ident s =
     (case map_get (dt_Candidates s) ident of
        None \<Rightarrow> (HNotFound, s)
      | Some c \<Rightarrow>
          if cd_Status c \<noteq> CReadyForReview then (HConflict ''approve only from ready_for_review'', s)
          else let c' = c\<lparr>cd_Status := CApproved, cd_UpdatedAtMS := now\<rparr>
               in (if ok then HOk c' else HError ''persist'', store_candidate ident c' s))"

definition handleReject :: "int \<Rightarrow> bool \<Rightarrow> string \<Rightarrow> string \<Rightarrow> det_store \<Rightarrow> candidate http \<times> det_store" where
  "handleReject now ok reason ident s =
     (case map_get (dt_Candidates s) ident of
        None \<Rightarrow> (HNotFound, s)
      | Some c \<Rightarrow>
          if cd_Status c \<notin> {CDraft, CValidating, CValidationFailed, CReadyForReview, CApproved}
          then (HConflict (''cannot reject from state '' @ candidate_status_string (cd_Status c)), s)
          else let c' = c\<lparr>cd_Status := CRejected, cd_RejectReason := reason, cd_UpdatedAtMS := now\<rparr>
               in (if ok then HOk c' else HError ''persist'', store_candidate ident c' s))"

definition make_artifact :: "det_lib \<Rightarrow> string \<Rightarrow> int \<Rightarrow> candidate \<Rightarrow> jobject \<Rightarrow> string + signed_artifact" where
  "make_artifact lib aid now c doc =
     (let sigB64 = SignPackMessage lib (dl_marshal lib (VObj (cloneWithoutSignature doc)));
          finalBytes = AttachSignature lib doc sigB64 (dl_keyID lib)
      in case dl_json lib finalBytes of
           None \<Rightarrow> Inl ''decode''
         | Some finalDoc \<Rightarrow>
             (case dl_schema lib finalDoc of
                Some e \<Rightarrow> Inl (''signed pack failed schema: '' @ e)
              | None \<Rightarrow>
                  let fld = (\<lambda>k. case as_obj (Some finalDoc) of None \<Rightarrow> ''''
                                 | Some m \<Rightarrow> str_or_empty (as_str (map_get m k)))
                  in Inr \<lparr>sg_ID = aid, sg_CandidateID = cd_ID c, sg_CreatedAtMS = now, sg_PackJSON = finalBytes,
                          sg_SignatureAlg = ''ed25519'', sg_KeyID = dl_keyID lib, sg_PackID = fld ''pack_id'',
                          sg_PackVersion = fld ''pack_version'',
                          sg_SHA256Hex = dl_hex lib (dl_sha256 lib finalBytes)\<rparr>))"

text \<open>The two writes of the handler persist separately: \<open>ok1\<close> for the artifact, \<open>ok2\<close> for the
  candidate.\<close>

definition handleSign ::
  "det_lib \<Rightarrow> string \<Rightarrow> int \<Rightarrow> bool \<Rightarrow> bool \<Rightarrow> string \<Rightarrow> det_store \<Rightarrow> signed_artifact http \<times> det_store" where
  "handleSign lib aid now ok1 ok2 ident s =
     (case map_get (dt_Candidates s) ident of
        None \<Rightarrow> (HNotFound, s)
      | Some c \<Rightarrow>
          if cd_Status c \<noteq> CApproved then (HConflict ''sign only from approved'', s)
          else (case AssemblePack lib now c of
                  Inl e \<Rightarrow> (HBad e, s)
                | Inr doc \<Rightarrow>
                    (case make_artifact lib aid now c doc of
                       Inl e \<Rightarrow> (HError e, s)
                     | Inr art \<Rightarrow>
                         let s1 = PutSigned art s
                         in if \<not> ok1 then (HError ''persist'', s1)
                            else let c' = c\<lparr>cd_Status := CSigned, cd_SignedPackID := sg_ID art, cd_UpdatedAtMS := now\<rparr>
                                 in (if ok2 then HOk art else HError ''persist'', store_candidate ident c' s1))))"

definition handleGetSignedPack :: "det_store \<Rightarrow> string \<Rightarrow> string http" where
  "handleGetSignedPack s ident =
     (case map_get (dt_Candidates s) ident of
        None \<Rightarrow> HNotFound
      | Some c \<Rightarrow>
          if cd_SignedPackID c = '''' then HNotFound
          else (case map_get (dt_SignedPacks s) (cd_SignedPackID c) of
                  None \<Rightarrow> HNotFound | Some a \<Rightarrow> HOk (sg_PackJSON a)))"

end
