(* ===== verification/Det_Lifecycle.thy ===== *)
theory Det_Lifecycle
  imports Det_Candidates
begin

text \<open>
  The candidate lifecycle as a transition system: any interleaving of the handlers, with any number
  of validations in flight. Identifiers are drawn at random; the steps assume, as the code does,
  that a new one is not in use. Shown: what signing presupposes, that signed candidates stay as
  they are, and which rejections hold.
\<close>

type_synonym det_state = "det_store \<times> inflight list"

inductive det_step :: "det_lib \<Rightarrow> det_state \<Rightarrow> det_state \<Rightarrow> bool" for lib :: det_lib where
  research: "det_step lib (s, fls) (snd (handleCreateResearch ident now ok req s), fls)"
| create: "map_get (dt_Candidates s) ident = None \<Longrightarrow>
     det_step lib (s, fls) (snd (handleCreateCandidate lib ident now ok req s), fls)"
| begin_validate: "validate_begin vid now url dev ident s = (HOk fl, s') \<Longrightarrow>
     map_get (dt_Validations s) vid = None \<Longrightarrow> vid \<notin> set (map (vr_ID \<circ> if_vrun) fls) \<Longrightarrow>
     det_step lib (s, fls) (s', fl # fls)"
| end_validate: "fl \<in> set fls \<Longrightarrow>
     det_step lib (s, fls) (snd (validate_end lib now events fl s), remove1 fl fls)"
| approve: "det_step lib (s, fls) (snd (handleApprove now ok ident s), fls)"
| reject: "det_step lib (s, fls) (snd (handleReject now ok reason ident s), fls)"
| sign: "map_get (dt_SignedPacks s) aid = None \<Longrightarrow>
     det_step lib (s, fls) (snd (handleSign lib aid now ok1 ok2 ident s), fls)"

inductive_cases det_stepE: "det_step lib st st'"

definition det_init :: "det_state \<Rightarrow> bool" where
  "det_init st \<longleftrightarrow> st = (new_store, [])"

section \<open>Invariant\<close>

text \<open>A candidate past review has a successful validation of its own, and a signed one its
  artifact.\<close>

definition cand_ok :: "det_store \<Rightarrow> string \<Rightarrow> candidate \<Rightarrow> bool" where
  "cand_ok s k c \<longleftrightarrow> cd_ID c = k
     \<and> (cd_Status c \<in> {CReadyForReview, CApproved, CSigned} \<longrightarrow>
          (\<exists>v. map_get (dt_Validations s) (cd_LastValidationID c) = Some v \<and> vr_Success v \<and> vr_CandidateID v = k))
     \<and> (cd_Status c = CSigned \<longrightarrow>
          (\<exists>a. map_get (dt_SignedPacks s) (cd_SignedPackID c) = Some a \<and> sg_CandidateID a = k))"

definition inflight_ok :: "det_store \<Rightarrow> inflight \<Rightarrow> bool" where
  "inflight_ok s f \<longleftrightarrow>
     (\<exists>c. map_get (dt_Candidates s) (if_ident f) = Some c \<and> cd_Status c \<in> {CValidating, CRejected})
     \<and> vr_CandidateID (if_vrun f) = if_ident f \<and> map_get (dt_Validations s) (vr_ID (if_vrun f)) = None"

definition det_inv :: "det_state \<Rightarrow> bool" where
  "det_inv st \<longleftrightarrow>
     (case st of (s, fls) \<Rightarrow>
        (\<forall>k c. map_get (dt_Candidates s) k = Some c \<longrightarrow> cand_ok s k c)
        \<and> (\<forall>f \<in> set fls. inflight_ok s f)
        \<and> distinct (map if_ident fls) \<and> distinct (map (vr_ID \<circ> if_vrun) fls))"

definition extends :: "det_store \<Rightarrow> det_store \<Rightarrow> bool" where
  "extends s s' \<longleftrightarrow>
     (\<forall>i v. map_get (dt_Validations s) i = Some v \<longrightarrow> map_get (dt_Validations s') i = Some v)
     \<and> (\<forall>i a. map_get (dt_SignedPacks s) i = Some a \<longrightarrow> map_get (dt_SignedPacks s') i = Some a)"

lemma cand_ok_extends: "extends s s' \<Longrightarrow> cand_ok s k c \<Longrightarrow> cand_ok s' k c"
  by (auto simp: extends_def cand_ok_def)

lemma store_candidate_simps [simp]:
  "map_get (dt_Candidates (store_candidate i c s)) k =
     (if k = cd_ID c \<or> k = i then Some c else map_get (dt_Candidates s) k)"
  "dt_Validations (store_candidate i c s) = dt_Validations s"
  "dt_SignedPacks (store_candidate i c s) = dt_SignedPacks s"
  by (auto simp: store_candidate_def PutCandidate_def)

lemma cand_ok_store [simp]: "cand_ok (store_candidate i c s) k c' = cand_ok s k c'"
  by (simp add: cand_ok_def)

text \<open>Updating one candidate keeps the invariant if the new value is in order and compatible with
  the validations in flight.\<close>

lemma det_inv_store:
  assumes inv: "det_inv (s, fls)" and c: "map_get (dt_Candidates s) ident = Some c" "cand_ok s ident c'"
    and fl: "\<forall>f \<in> set fls. if_ident f = ident \<longrightarrow> cd_Status c' \<in> {CValidating, CRejected}"
  shows "det_inv (store_candidate ident c' s, fls)"
proof -
  have ident: "cd_ID c' = ident" using c(2) by (simp add: cand_ok_def)
  have "\<forall>f \<in> set fls. inflight_ok (store_candidate ident c' s) f"
    using inv fl by (auto simp: det_inv_def inflight_ok_def ident)
  with inv c(2) show ?thesis by (auto simp: det_inv_def ident)
qed

lemma det_inv_extend:
  assumes "det_inv (s, fls)" "extends s s'" "dt_Candidates s' = dt_Candidates s" "dt_Validations s' = dt_Validations s"
  shows "det_inv (s', fls)"
  using assms cand_ok_extends [OF assms(2)] by (auto simp: det_inv_def inflight_ok_def)

lemma det_inv_cand:
  "det_inv (s, fls) \<Longrightarrow> map_get (dt_Candidates s) k = Some c \<Longrightarrow> cand_ok s k c"
  by (simp add: det_inv_def)

lemma det_inv_no_inflight:
  assumes "det_inv (s, fls)" "map_get (dt_Candidates s) k = Some c" "cd_Status c \<notin> {CValidating, CRejected}"
  shows "\<forall>f \<in> set fls. if_ident f \<noteq> k"
  using assms by (auto simp: det_inv_def inflight_ok_def)

section \<open>Every step keeps the invariant\<close>

lemma det_inv_research: "det_inv (s, fls) \<Longrightarrow> det_inv (snd (handleCreateResearch ident now ok req s), fls)"
  by (auto simp: handleCreateResearch_def PutResearch_def Let_def extends_def
      intro!: det_inv_extend [of s fls] split: option.splits)

lemma det_inv_create:
  assumes "det_inv (s, fls)" "map_get (dt_Candidates s) ident = None"
  shows "det_inv (snd (handleCreateCandidate lib ident now ok req s), fls)"
proof -
  have "det_inv (PutCandidate (candidate_of ident now r) s, fls)" for r
    using assms by (auto simp: det_inv_def PutCandidate_def candidate_of_def cand_ok_def inflight_ok_def)
  with assms(1) show ?thesis
    by (auto simp: handleCreateCandidate_def Let_def split: option.splits)
qed

lemma det_inv_begin:
  assumes inv: "det_inv (s, fls)" and b: "validate_begin vid now url dev ident s = (HOk fl, s')"
    and fresh: "map_get (dt_Validations s) vid = None" "vid \<notin> set (map (vr_ID \<circ> if_vrun) fls)"
  shows "det_inv (s', fl # fls)"
proof -
  from b obtain c where c: "map_get (dt_Candidates s) ident = Some c"
    "cd_Status c \<in> {CDraft, CValidationFailed, CReadyForReview}"
    and s': "s' = store_candidate ident (c\<lparr>cd_Status := CValidating, cd_UpdatedAtMS := now\<rparr>) s"
    and fl: "if_ident fl = ident" "vr_ID (if_vrun fl) = vid" "vr_CandidateID (if_vrun fl) = ident"
    by (auto simp: validate_begin_def Let_def split: option.splits if_splits)
  have none: "\<forall>f \<in> set fls. if_ident f \<noteq> ident"
    using det_inv_no_inflight [OF inv c(1)] c(2) by auto
  have "cand_ok s ident (c\<lparr>cd_Status := CValidating, cd_UpdatedAtMS := now\<rparr>)"
    using det_inv_cand [OF inv c(1)] by (simp add: cand_ok_def)
  then have inv': "det_inv (s', fls)" unfolding s' by (intro det_inv_store [OF inv c(1)]) auto
  have id: "cd_ID c = ident" using det_inv_cand [OF inv c(1)] by (simp add: cand_ok_def)
  have "inflight_ok s' fl" using fresh(1) by (simp add: inflight_ok_def s' fl id)
  with inv' none fresh(2) fl show ?thesis by (auto simp: det_inv_def)
qed

lemma run_validation_frame:
  "vr_ID (run_validation lib now events p v) = vr_ID v"
  "vr_CandidateID (run_validation lib now events p v) = vr_CandidateID v"
  by (simp_all add: run_validation_def Let_def split: sum.splits prod.splits)

lemma det_inv_end:
  assumes inv: "det_inv (s, fls)" and fl: "fl \<in> set fls"
  shows "det_inv (snd (validate_end lib now events fl s), remove1 fl fls)"
proof -
  let ?i = "if_ident fl"
  from inv fl have ok: "inflight_ok s fl" by (simp add: det_inv_def)
  then obtain c where c: "map_get (dt_Candidates s) ?i = Some c" by (auto simp: inflight_ok_def)
  define v where "v = run_validation lib now events (cd_ProposedRules c) (if_vrun fl)"
  define c' where "c' = c\<lparr>cd_Status := (if vr_Success v then CReadyForReview else CValidationFailed),
                     cd_LastValidationID := vr_ID v, cd_UpdatedAtMS := now\<rparr>"
  have s': "snd (validate_end lib now events fl s) = store_candidate ?i c' (PutValidation v s)"
    by (simp add: validate_end_def c v_def c'_def Let_def)
  have vid: "vr_ID v = vr_ID (if_vrun fl)" "vr_CandidateID v = ?i"
    using ok by (simp_all add: v_def run_validation_frame inflight_ok_def)
  have ext: "extends s (PutValidation v s)"
    using ok vid by (auto simp: extends_def PutValidation_def inflight_ok_def)
  have dist: "distinct fls" "distinct (map if_ident fls)" "distinct (map (vr_ID \<circ> if_vrun) fls)"
    using inv by (auto simp: det_inv_def distinct_map)
  have others: "\<forall>f \<in> set (remove1 fl fls). if_ident f \<noteq> ?i \<and> vr_ID (if_vrun f) \<noteq> vr_ID v"
    using dist fl vid by (auto simp: distinct_map inj_on_def)
  have inv1: "det_inv (PutValidation v s, remove1 fl fls)"
    using inv others cand_ok_extends [OF ext] dist
    by (auto simp: det_inv_def PutValidation_def inflight_ok_def distinct_map dest: notin_set_remove1
        intro: inj_on_subset)
  have "cd_ID c = ?i" using det_inv_cand [OF inv c] by (simp add: cand_ok_def)
  then have "cand_ok (PutValidation v s) ?i c'"
    using vid by (auto simp: cand_ok_def c'_def PutValidation_def)
  with inv1 c others show ?thesis unfolding s'
    by (intro det_inv_store [where c = c]) (auto simp: PutValidation_def)
qed

lemma det_inv_approve: "det_inv (s, fls) \<Longrightarrow> det_inv (snd (handleApprove now ok ident s), fls)"
  using det_inv_no_inflight [of s fls ident] det_inv_cand [of s fls ident]
  by (auto simp: handleApprove_def Let_def cand_ok_def intro!: det_inv_store split: option.splits)

lemma det_inv_reject: "det_inv (s, fls) \<Longrightarrow> det_inv (snd (handleReject now ok reason ident s), fls)"
  using det_inv_cand [of s fls ident]
  by (auto simp: handleReject_def Let_def cand_ok_def intro!: det_inv_store split: option.splits)

lemma make_artifact_candidate:
  "make_artifact lib aid now c doc = Inr art \<Longrightarrow> sg_ID art = aid \<and> sg_CandidateID art = cd_ID c"
  by (auto simp: make_artifact_def Let_def split: option.splits)

lemma det_inv_sign:
  assumes inv: "det_inv (s, fls)" and fresh: "map_get (dt_SignedPacks s) aid = None"
  shows "det_inv (snd (handleSign lib aid now ok1 ok2 ident s), fls)"
proof (cases "\<exists>c doc art. map_get (dt_Candidates s) ident = Some c \<and> cd_Status c = CApproved
    \<and> AssemblePack lib now c = Inr doc \<and> make_artifact lib aid now c doc = Inr art")
  case False
  with inv show ?thesis
    by (auto simp: handleSign_def split: option.splits sum.splits)
next
  case True
  then obtain c doc art where c: "map_get (dt_Candidates s) ident = Some c" "cd_Status c = CApproved"
    and d: "AssemblePack lib now c = Inr doc" and m: "make_artifact lib aid now c doc = Inr art" by blast
  note art = make_artifact_candidate [OF m]
  define c' where "c' = c\<lparr>cd_Status := CSigned, cd_SignedPackID := sg_ID art, cd_UpdatedAtMS := now\<rparr>"
  have ok: "cand_ok s ident c" by (rule det_inv_cand [OF inv c(1)])
  have ext: "extends s (PutSigned art s)" using fresh art by (auto simp: extends_def PutSigned_def)
  have inv1: "det_inv (PutSigned art s, fls)"
    by (rule det_inv_extend [OF inv ext]) (simp_all add: PutSigned_def)
  have "cand_ok (PutSigned art s) ident c'"
    using ok c(2) art by (auto simp: cand_ok_def c'_def PutSigned_def)
  moreover have "\<forall>f \<in> set fls. if_ident f \<noteq> ident"
    using det_inv_no_inflight [OF inv c(1)] c(2) by simp
  ultimately have "det_inv (store_candidate ident c' (PutSigned art s), fls)"
    using c(1) by (intro det_inv_store [OF inv1, where c = c]) (auto simp: PutSigned_def)
  with inv1 show ?thesis by (simp add: handleSign_def c d m c'_def Let_def)
qed

interpretation detsys: inductive_invariant det_init "det_step lib" det_inv for lib
proof (unfold_locales, goal_cases)
  case (1 st)
  then show ?case by (simp add: det_init_def det_inv_def new_store_def)
next
  case (2 st st')
  from 2(2) show ?case
    by (rule det_stepE) (use 2(1) in \<open>simp_all add: det_inv_research det_inv_create det_inv_begin det_inv_end
        det_inv_approve det_inv_reject det_inv_sign\<close>)
qed

section \<open>What signing presupposes\<close>


section \<open>Signed packs verify\<close>

text \<open>The document that signing encodes, and what is assumed of the JSON library for it: decoding
  gives back the members, and the encoding of an object does not depend on the order of its members.\<close>

definition signed_doc :: "det_lib \<Rightarrow> jobject \<Rightarrow> jobject" where
  "signed_doc lib doc = map_set ''signature'' (signature_obj (dl_keyID lib)
     (SignPackMessage lib (dl_marshal lib (VObj (cloneWithoutSignature doc))))) doc"

definition json_faithful :: "det_lib \<Rightarrow> jobject \<Rightarrow> bool" where
  "json_faithful lib d \<longleftrightarrow>
     (\<exists>m. dl_json lib (dl_marshal lib (VObj d)) = Some (VObj m) \<and> map_get m = map_get d)
     \<and> (\<forall>m m'. map_get m = map_get m' \<longrightarrow> dl_marshal lib (VObj m) = dl_marshal lib (VObj m'))"

text \<open>What a receiver checks: the signature member is the one the server's key gives for the rest.\<close>

definition pack_verifies :: "det_lib \<Rightarrow> jobject \<Rightarrow> bool" where
  "pack_verifies lib m \<longleftrightarrow> map_get m ''signature'' = Some (signature_obj (dl_keyID lib)
     (SignPackMessage lib (dl_marshal lib (VObj (cloneWithoutSignature m)))))"

lemma clone_signed_doc: "map_get m = map_get (signed_doc lib doc) \<Longrightarrow>
    map_get (cloneWithoutSignature m) = map_get (cloneWithoutSignature doc)"
  by (rule ext) (simp add: cloneWithoutSignature_def signed_doc_def AList.delete_conv' AList.update_conv')

lemma AssemblePack_ids:
  assumes "AssemblePack lib now c = Inr doc"
  shows "map_get (signed_doc lib doc) ''pack_id'' = Some (VStr (cd_PackID c))"
    and "map_get (signed_doc lib doc) ''pack_version'' = Some (VStr (cd_PackVersion c))"
  using assms
  by (auto simp: AssemblePack_def pack_base_def signed_doc_def AList.update_conv' Let_def
      split: option.splits if_splits)

lemma make_artifact_doc:
  assumes "make_artifact lib aid now c doc = Inr art" "json_faithful lib (signed_doc lib doc)"
    and "AssemblePack lib now c = Inr doc"
  shows "\<exists>m. dl_json lib (sg_PackJSON art) = Some (VObj m) \<and> pack_verifies lib m"
    and "sg_PackID art = cd_PackID c" and "sg_PackVersion art = cd_PackVersion c"
proof -
  from assms(2) obtain m where m: "dl_json lib (dl_marshal lib (VObj (signed_doc lib doc))) = Some (VObj m)"
    and get: "map_get m = map_get (signed_doc lib doc)" unfolding json_faithful_def by blast
  have enc: "map_get m = map_get m' \<Longrightarrow> dl_marshal lib (VObj m) = dl_marshal lib (VObj m')" for m m'
    using assms(2) unfolding json_faithful_def by blast
  have bytes: "AttachSignature lib doc (SignPackMessage lib (dl_marshal lib (VObj (cloneWithoutSignature doc)))) (dl_keyID lib)
      = dl_marshal lib (VObj (signed_doc lib doc))"
    by (simp add: AttachSignature_def signed_doc_def)
  have art: "sg_PackJSON art = dl_marshal lib (VObj (signed_doc lib doc))"
    "sg_PackID art = str_or_empty (as_str (map_get m ''pack_id''))"
    "sg_PackVersion art = str_or_empty (as_str (map_get m ''pack_version''))"
    using assms(1) by (auto simp: make_artifact_def bytes m Let_def split: option.splits)
  have "map_get m ''signature'' = Some (signature_obj (dl_keyID lib)
      (SignPackMessage lib (dl_marshal lib (VObj (cloneWithoutSignature doc)))))"
    unfolding get by (simp add: signed_doc_def AList.update_conv')
  then have "pack_verifies lib m"
    using enc [OF clone_signed_doc [OF get]] by (simp add: pack_verifies_def)
  with m art(1) show "\<exists>m. dl_json lib (sg_PackJSON art) = Some (VObj m) \<and> pack_verifies lib m" by auto
  show "sg_PackID art = cd_PackID c" "sg_PackVersion art = cd_PackVersion c"
    using AssemblePack_ids [OF assms(3)] art(2,3) by (simp_all add: get str_or_empty_def)
qed


text \<open>A candidate whose status admits no handler and that has no validation in flight is left
  alone by every step.\<close>

lemma step_keeps_closed:
  assumes "det_inv (s, fls)" "map_get (dt_Candidates s) k = Some c" "cd_Status c \<in> {CSigned, CRejected}"
    and "\<forall>f \<in> set fls. if_ident f \<noteq> k" "det_step lib (s, fls) (s', fls')"
  shows "map_get (dt_Candidates s') k = Some c \<and> (\<forall>f \<in> set fls'. if_ident f \<noteq> k)"
  using assms(5)
proof (cases rule: det_step.cases)
  case (research ident now ok req)
  then show ?thesis using assms
    by (auto simp: handleCreateResearch_def PutResearch_def Let_def split: option.splits)
next
  case (create ident now ok req)
  then have "ident \<noteq> k" using assms(2) by auto
  with create show ?thesis using assms
    by (auto simp: handleCreateCandidate_def PutCandidate_def candidate_of_def Let_def split: option.splits)
next
  case (begin_validate vid now url dev ident fl)
  then have "ident \<noteq> k" using assms(2,3) by (auto simp: validate_begin_def Let_def split: option.splits if_splits)
  moreover have "if_ident fl = ident" using begin_validate(2)
    by (auto simp: validate_begin_def Let_def split: option.splits if_splits)
  moreover have "map_get (dt_Candidates s') k = Some c"
    using begin_validate(2) \<open>ident \<noteq> k\<close> assms(2) det_inv_cand [OF assms(1)]
    by (auto simp: validate_begin_def Let_def cand_ok_def split: option.splits if_splits)
  ultimately show ?thesis using begin_validate(1) assms(4) by auto
next
  case (end_validate fl now events)
  then have "if_ident fl \<noteq> k" using assms(4) by auto
  then have "map_get (dt_Candidates s') k = Some c"
    using end_validate(1) assms(2) det_inv_cand [OF assms(1)]
    by (auto simp: validate_end_def Let_def cand_ok_def PutValidation_def split: option.splits)
  with end_validate(2) assms(4) show ?thesis by (auto dest: notin_set_remove1)
next
  case (approve now ok ident)
  then show ?thesis using assms(2-4) det_inv_cand [OF assms(1)]
    by (auto simp: handleApprove_def Let_def cand_ok_def split: option.splits)
next
  case (reject now ok reason ident)
  then show ?thesis using assms(2-4) det_inv_cand [OF assms(1)]
    by (auto simp: handleReject_def Let_def cand_ok_def split: option.splits)
next
  case (sign aid now ok1 ok2 ident)
  then show ?thesis using assms(2-4) det_inv_cand [OF assms(1)]
    by (auto simp: handleSign_def Let_def cand_ok_def PutSigned_def split: option.splits sum.splits)
qed

text \<open>
  Signed is final: no step of any interleaving changes a signed candidate.
\<close>

lemma signed_is_final:
  assumes "reach det_init (det_step lib) (s, fls)" "map_get (dt_Candidates s) k = Some c"
    and "cd_Status c = CSigned" "det_step lib (s, fls) (s', fls')"
  shows "map_get (dt_Candidates s') k = Some c"
proof -
  have inv: "det_inv (s, fls)" by (rule detsys.reach_inv [OF assms(1)])
  from det_inv_no_inflight [OF inv assms(2)] assms(3) have "\<forall>f \<in> set fls. if_ident f \<noteq> k" by simp
  from step_keeps_closed [OF inv assms(2) _ this assms(4)] assms(3) show ?thesis by simp
qed

text \<open>
  A rejection holds for good if no validation of the candidate is in flight: no later step
  changes the candidate, and none can start a validation of it.
\<close>

lemma rejection_final_when_idle:
  assumes "reach det_init (det_step lib) (s, fls)" "map_get (dt_Candidates s) k = Some c"
    and "cd_Status c = CRejected" "\<forall>f \<in> set fls. if_ident f \<noteq> k" "(det_step lib)\<^sup>*\<^sup>* (s, fls) (s', fls')"
  shows "map_get (dt_Candidates s') k = Some c"
proof -
  have "reach det_init (det_step lib) st \<and> map_get (dt_Candidates (fst st)) k = Some c
      \<and> (\<forall>f \<in> set (snd st). if_ident f \<noteq> k)" if "(det_step lib)\<^sup>*\<^sup>* (s, fls) st" for st
    using that
  proof (induction rule: rtranclp_induct)
    case base
    then show ?case using assms by simp
  next
    case (step st st')
    obtain t fl t' fl' where st: "st = (t, fl)" "st' = (t', fl')" by fastforce
    from step.IH st have r: "reach det_init (det_step lib) (t, fl)" and c: "map_get (dt_Candidates t) k = Some c"
      and n: "\<forall>f \<in> set fl. if_ident f \<noteq> k" by auto
    from step_keeps_closed [OF detsys.reach_inv [OF r] c _ n] step.hyps(2) assms(3) st
    have "map_get (dt_Candidates t') k = Some c \<and> (\<forall>f \<in> set fl'. if_ident f \<noteq> k)" by simp
    moreover have "reach det_init (det_step lib) st'" using r step.hyps(2) st by (auto intro: reach_step)
    ultimately show ?case using st by simp
  qed
  from this [OF assms(5)] show ?thesis by simp
qed

text \<open>
  A rejection does not hold against a validation in flight: when the validation ends
  successfully, the rejected candidate is ready for review again, its reject reason still set.
\<close>

lemma validation_overrides_rejection:
  assumes "reach det_init (det_step lib) (s, fls)" "f \<in> set fls"
    and "map_get (dt_Candidates s) (if_ident f) = Some c" "cd_Status c = CRejected"
    and "vr_Success (run_validation lib now events (cd_ProposedRules c) (if_vrun f))"
  shows "\<exists>c'. map_get (dt_Candidates (snd (validate_end lib now events f s))) (if_ident f) = Some c'
    \<and> cd_Status c' = CReadyForReview \<and> cd_RejectReason c' = cd_RejectReason c"
proof -
  have "cd_ID c = if_ident f"
    using det_inv_cand [OF detsys.reach_inv [OF assms(1)] assms(3)] by (simp add: cand_ok_def)
  with assms(3,5) show ?thesis by (simp add: validate_end_def Let_def)
qed

text \<open>
  A request to approve that is answered with an error because the registry could not be
  persisted has approved the candidate all the same: it can be signed next.
\<close>

lemma failed_approve_approves:
  assumes "reach det_init (det_step lib) (s, fls)" "handleApprove now False ident s = (r, s')" "r = HError e"
  shows "\<exists>c. map_get (dt_Candidates s') ident = Some c \<and> cd_Status c = CApproved"
  using assms(2,3) det_inv_cand [OF detsys.reach_inv [OF assms(1)], of ident]
  by (auto simp: handleApprove_def Let_def cand_ok_def split: option.splits if_splits)

end
