(* ===== verification/Det_Examples.thy ===== *)
theory Det_Examples
  imports Det_Lifecycle
begin

text \<open>
  Instances of the lifecycle theorems: one candidate taken through the handlers, with a library in
  which every document decodes and passes the schema check.
\<close>

definition ex_final_doc :: jobject where
  "ex_final_doc =
     [(''schema_version'', VStr ''detection_pack.v1''), (''pack_id'', VStr ''p''), (''pack_version'', VStr ''1.0.0''),
      (''created_at'', VStr ''t''), (''min_agent_version'', VStr ''1.0.0''), (''supported_os'', VArr [VStr ''linux'']),
      (''mode'', VStr ''observe''), (''expires_at'', VNil), (''rollback_pack_version'', VNil),
      (''evaluator_limits'', VNil), (''rules'', VNil), (''author'', VStr ''a''),
      (''signature'', signature_obj ''key'' ''sig'')]"

definition ex_det_lib :: det_lib where
  "ex_det_lib = \<lparr>dl_payload = ex_lib, dl_json = (\<lambda>t. Some (if t = ''pack'' then VObj ex_final_doc else VNil)), dl_rules = (\<lambda>_. Inr []),
     dl_marshal = (\<lambda>_. ''pack''), dl_schema = (\<lambda>_. None), dl_ed25519 = (\<lambda>_. ''sig''),
     dl_base64 = id, dl_hex = id, dl_quote = id, dl_keyID = ''key'',
     dl_sha256 = (\<lambda>_. ''00''), dl_rfc3339 = (\<lambda>_. ''t''), dl_fmt_g = (\<lambda>_. ''''), dl_error = (\<lambda>_. ''e'')\<rparr>"

definition ex_candidate_request :: create_candidate_request where
  "ex_candidate_request = \<lparr>cr_ResearchItemID = ''r'', cr_Title = ''t'', cr_Description = '''', cr_PackID = ''p'',
     cr_PackVersion = ''1.0.0'', cr_MinAgentVersion = ''1.0.0'', cr_SupportedOS = [''linux''], cr_Author = ''a'',
     cr_Source = '''', cr_EvaluatorLimits = ''{}'', cr_ProposedRules = ''[]'', cr_References = ''''\<rparr>"

definition ex_researched :: det_store where
  "ex_researched = snd (handleCreateResearch ''r'' 0 True
     (Some \<lparr>rr_Title = ''t'', rr_Summary = '''', rr_SourceURL = ''''\<rparr>) new_store)"

definition ex_drafted :: det_store where
  "ex_drafted = snd (handleCreateCandidate ex_det_lib ''c'' 1 True (Some ex_candidate_request) ex_researched)"

definition ex_inflight :: inflight where
  "ex_inflight = \<lparr>if_ident = ''c'', if_vrun = \<lparr>vr_ID = ''v'', vr_CandidateID = ''c'', vr_StartedAtMS = 2,
     vr_EndedAtMS = 0, vr_Success = False, vr_IngestURL = ''u'', vr_DeviceID = ''d'', vr_EventsFetched = 0,
     vr_MatchedRules = 0, vr_Details = '''', vr_Errors = ''''\<rparr>\<rparr>"

definition ex_validating :: det_store where
  "ex_validating = snd (validate_begin ''v'' 2 ''u'' ''d'' ''c'' ex_drafted)"

definition ex_rejected :: det_store where
  "ex_rejected = snd (handleReject 3 True ''no'' ''c'' ex_validating)"

definition ex_ready :: det_store where
  "ex_ready = snd (validate_end ex_det_lib 3 (Inr []) ex_inflight ex_validating)"

definition ex_approved :: det_store where
  "ex_approved = snd (handleApprove 4 True ''c'' ex_ready)"

definition ex_signed :: det_store where
  "ex_signed = snd (handleSign ex_det_lib ''s'' 5 True True ''c'' ex_approved)"

definition ex_refused :: det_store where
  "ex_refused = snd (handleReject 5 True ''no'' ''c'' ex_drafted)"

abbreviation ex_reach :: "det_store \<Rightarrow> inflight list \<Rightarrow> bool" where
  "ex_reach s fls \<equiv> reach det_init (det_step ex_det_lib) (s, fls)"

lemma reach_drafted: "ex_reach ex_drafted []"
proof -
  have "ex_reach new_store []" by (rule reach_init) (simp add: det_init_def)
  then have "ex_reach ex_researched []"
    unfolding ex_researched_def by (rule reach_step) (rule det_step.research)
  then show ?thesis unfolding ex_drafted_def
    by (rule reach_step) (rule det_step.create, code_simp)
qed

lemma reach_validating: "ex_reach ex_validating [ex_inflight]"
proof -
  have "validate_begin ''v'' 2 ''u'' ''d'' ''c'' ex_drafted = (HOk ex_inflight, ex_validating)" by code_simp
  moreover have "map_get (dt_Validations ex_drafted) ''v'' = None" by code_simp
  ultimately have "det_step ex_det_lib (ex_drafted, []) (ex_validating, [ex_inflight])"
    by (rule det_step.begin_validate) simp
  with reach_drafted show ?thesis by (rule reach_step)
qed

lemma reach_rejected: "ex_reach ex_rejected [ex_inflight]"
  unfolding ex_rejected_def using reach_validating by (rule reach_step) (rule det_step.reject)

lemma reach_ready: "ex_reach ex_ready []"
proof -
  have "det_step ex_det_lib (ex_validating, [ex_inflight]) (ex_ready, remove1 ex_inflight [ex_inflight])"
    unfolding ex_ready_def by (rule det_step.end_validate) simp
  with reach_validating have "ex_reach ex_ready (remove1 ex_inflight [ex_inflight])" by (rule reach_step)
  then show ?thesis by simp
qed

lemma reach_approved: "ex_reach ex_approved []"
  unfolding ex_approved_def using reach_ready by (rule reach_step) (rule det_step.approve)

lemma reach_signed: "ex_reach ex_signed []"
  unfolding ex_signed_def using reach_approved by (rule reach_step) (rule det_step.sign, code_simp)

lemma reach_refused: "ex_reach ex_refused []"
  unfolding ex_refused_def using reach_drafted by (rule reach_step) (rule det_step.reject)

definition ex_cand :: "det_store \<Rightarrow> candidate" where
  "ex_cand s = the (map_get (dt_Candidates s) ''c'')"


definition ex_doc :: jobject where
  "ex_doc = map_set ''signature'' (signature_obj ''unsigned'' ''AA=='') ex_final_doc"

definition ex_artifact :: signed_artifact where
  "ex_artifact = \<lparr>sg_ID = ''s'', sg_CandidateID = ''c'', sg_CreatedAtMS = 5, sg_PackJSON = ''pack'',
     sg_SignatureAlg = ''ed25519'', sg_KeyID = ''key'', sg_PackID = ''p'', sg_PackVersion = ''1.0.0'',
     sg_SHA256Hex = ''00''\<rparr>"


lemma signed_is_final_witness:
  "map_get (dt_Candidates (snd (handleReject 9 True ''late'' ''c'' ex_signed))) ''c'' = Some (ex_cand ex_signed)"
proof (rule signed_is_final [OF reach_signed])
  show "map_get (dt_Candidates ex_signed) ''c'' = Some (ex_cand ex_signed)"
    "cd_Status (ex_cand ex_signed) = CSigned" by code_simp+
qed (rule det_step.reject)

lemma rejection_final_when_idle_witness:
  "map_get (dt_Candidates (snd (handleApprove 9 True ''c'' ex_refused))) ''c'' = Some (ex_cand ex_refused)"
proof (rule rejection_final_when_idle [OF reach_refused])
  show "map_get (dt_Candidates ex_refused) ''c'' = Some (ex_cand ex_refused)"
    "cd_Status (ex_cand ex_refused) = CRejected" by code_simp+
  show "(det_step ex_det_lib)\<^sup>*\<^sup>* (ex_refused, []) (snd (handleApprove 9 True ''c'' ex_refused), [])"
    by (rule r_into_rtranclp) (rule det_step.approve)
qed simp

lemma validation_overrides_rejection_witness:
  "\<exists>c'. map_get (dt_Candidates (snd (validate_end ex_det_lib 9 (Inr []) ex_inflight ex_rejected))) ''c'' = Some c'
    \<and> cd_Status c' = CReadyForReview \<and> cd_RejectReason c' = ''no''"
proof -
  have "map_get (dt_Candidates ex_rejected) (if_ident ex_inflight) = Some (ex_cand ex_rejected)"
    "cd_Status (ex_cand ex_rejected) = CRejected" by code_simp+
  moreover have "vr_Success (run_validation ex_det_lib 9 (Inr []) (cd_ProposedRules (ex_cand ex_rejected)) (if_vrun ex_inflight))"
    by code_simp
  moreover have "if_ident ex_inflight = ''c''" "cd_RejectReason (ex_cand ex_rejected) = ''no''" by code_simp+
  ultimately show ?thesis
    using validation_overrides_rejection [OF reach_rejected, of ex_inflight "ex_cand ex_rejected" 9 "Inr []"] by simp
qed

lemma failed_approve_approves_witness:
  "\<exists>c. map_get (dt_Candidates (snd (handleApprove 9 False ''c'' ex_ready))) ''c'' = Some c \<and> cd_Status c = CApproved"
proof (rule failed_approve_approves [OF reach_ready])
  show "handleApprove 9 False ''c'' ex_ready = (HError ''persist'', snd (handleApprove 9 False ''c'' ex_ready))"
    by code_simp
qed simp

end
