(* ===== verification/Det_Status.thy ===== *)
theory Det_Status
  imports Det_Candidates "HOL-Library.Word"
begin

text \<open>
  Agent-reported rollout status (\<open>internal/api/controller_rollout.go\<close>,
  \<open>internal/api/emit_visibility.go\<close>): reports are merged into one record per agent, counted per
  pack, and optionally turned into a visibility event. The ingest service's answer to the event is
  the argument \<open>post\<close>, \<^term>\<open>None\<close> for success.
\<close>

unbundle bit_operations_syntax

section \<open>Reports\<close>

record post_status_request =
  pr_DeviceID :: string
  pr_ReportedAgentVersion :: string
  pr_RolloutState :: string
  pr_ReasonCodes :: "string list option"
  pr_ReasonDetail :: string
  pr_ActivePackID :: string
  pr_ActivePackVersion :: string
  pr_PreviousPackID :: string
  pr_PreviousPackVersion :: string
  pr_SignatureStatus :: string
  pr_HashStatus :: string
  pr_SchemaStatus :: string
  pr_CompatibilityStatus :: string
  pr_LastRejectedPackID :: string
  pr_LastRejectedReason :: string
  pr_LastRejectedReasonCodes :: "string list"
  pr_EmitVisibility :: bool

definition parse_rollout_state :: "string \<Rightarrow> rollout_state option" where
  "parse_rollout_state s = map_of
     [(''not_checked'', RNotChecked), (''applied'', RApplied), (''rejected'', RRejected), (''stale'', RStale),
      (''incompatible'', RIncompatible), (''expired'', RExpired), (''rollback'', RRollback)] s"

text \<open>The record built from the request alone, then what a rejection and the previous record add.\<close>

definition status_of_request :: "string \<Rightarrow> int \<Rightarrow> rollout_state \<Rightarrow> post_status_request \<Rightarrow> agent_pack_status" where
  "status_of_request uid now rs req =
     \<lparr>as_AgentUID = uid, as_ActivePackID = trim_space (pr_ActivePackID req),
      as_ActivePackVersion = trim_space (pr_ActivePackVersion req), as_LastCheckAtMS = now,
      as_LastAppliedAtMS = (if rs = RApplied then now else 0), as_LastRejectedAtMS = 0,
      as_LastRejectedPackID = trim_space (pr_LastRejectedPackID req),
      as_LastRejectedReason = trim_space (pr_LastRejectedReason req),
      as_LastRejectedReasonCodes = pr_LastRejectedReasonCodes req,
      as_SignatureStatus = trim_space (pr_SignatureStatus req), as_HashStatus = trim_space (pr_HashStatus req),
      as_SchemaStatus = trim_space (pr_SchemaStatus req),
      as_CompatibilityStatus = trim_space (pr_CompatibilityStatus req),
      as_PreviousPackID = trim_space (pr_PreviousPackID req),
      as_PreviousPackVersion = trim_space (pr_PreviousPackVersion req), as_RolloutState = rs,
      as_ReasonDetail = trim_space (pr_ReasonDetail req),
      as_ReasonCodes = (case pr_ReasonCodes req of None \<Rightarrow> [] | Some cs \<Rightarrow> cs),
      as_DeviceID = trim_space (pr_DeviceID req),
      as_ReportedAgentVersion = trim_space (pr_ReportedAgentVersion req), as_UpdatedAtMS = now\<rparr>"

definition add_rejection :: "int \<Rightarrow> agent_pack_status \<Rightarrow> agent_pack_status" where
  "add_rejection now st =
     (if as_RolloutState st = RRejected then
        st\<lparr>as_LastRejectedAtMS := now,
           as_LastRejectedPackID := (if as_LastRejectedPackID st = '''' then as_ActivePackID st
                                     else as_LastRejectedPackID st),
           as_LastRejectedReason := (if as_LastRejectedReason st = '''' \<and> as_ReasonDetail st \<noteq> ''''
                                     then as_ReasonDetail st else as_LastRejectedReason st),
           as_LastRejectedReasonCodes := (if as_LastRejectedReasonCodes st = [] \<and> as_ReasonCodes st \<noteq> []
                                          then as_ReasonCodes st else as_LastRejectedReasonCodes st)\<rparr>
      else st)"

definition add_previous :: "agent_pack_status option \<Rightarrow> agent_pack_status \<Rightarrow> agent_pack_status" where
  "add_previous prev st =
     (case prev of
        None \<Rightarrow> st
      | Some p \<Rightarrow>
          let st1 = (if as_PreviousPackID st = '''' then
                       st\<lparr>as_PreviousPackID := as_ActivePackID p, as_PreviousPackVersion := as_ActivePackVersion p\<rparr>
                     else st)
          in if as_LastAppliedAtMS st1 = 0 \<and> as_LastAppliedAtMS p \<noteq> 0
             then st1\<lparr>as_LastAppliedAtMS := as_LastAppliedAtMS p\<rparr> else st1)"

section \<open>Visibility events\<close>

definition fnv32a :: "string \<Rightarrow> 32 word" where
  "fnv32a s = foldl (\<lambda>h c. (h XOR of_nat (of_char c)) * 16777619) 2166136261 s"

definition event_sequence :: "string \<Rightarrow> int" where
  "event_sequence uid = uint (fnv32a uid mod 999999000) + 1"

definition nonEmptyOr :: "string \<Rightarrow> string \<Rightarrow> string" where
  "nonEmptyOr s d = (if trim_space s = '''' then d else s)"

fun rollout_state_string :: "rollout_state \<Rightarrow> string" where
  "rollout_state_string RNotChecked = ''not_checked''"
| "rollout_state_string RApplied = ''applied''"
| "rollout_state_string RRejected = ''rejected''"
| "rollout_state_string RStale = ''stale''"
| "rollout_state_string RIncompatible = ''incompatible''"
| "rollout_state_string RExpired = ''expired''"
| "rollout_state_string RRollback = ''rollback''"

definition opt_field :: "string \<Rightarrow> string \<Rightarrow> jobject" where
  "opt_field key v = (if trim_space v \<noteq> '''' then [(key, VStr v)] else [])"

definition status_event :: "agent_pack_status \<Rightarrow> string \<Rightarrow> jobject" where
  "status_event st controllerBase =
     [(''schema_version'', VStr ''visibility.v1''),
      (''event_id'', VStr (''dps-'' @ as_AgentUID st @ ''-'' @ itoa (as_UpdatedAtMS st))),
      (''event_type'', VStr ''aegis.detection_pack.status''),
      (''timestamp_ms'', VNum (Fin (of_int (as_UpdatedAtMS st)))),
      (''source'', VStr ''aegis-detection-pipeline''), (''device_id'', VStr (as_DeviceID st)),
      (''agent_id'', VStr (as_AgentUID st)),
      (''sensor_version'', VStr (let sv = trim_space (as_ReportedAgentVersion st) in if sv = '''' then ''0.0.0'' else sv)),
      (''sequence'', VNum (Fin (of_int (event_sequence (as_AgentUID st))))),
      (''payload'', VObj
        ([(''controller_endpoint'', VStr (trim_space controllerBase)),
          (''rollout_state'', VStr (rollout_state_string (as_RolloutState st))),
          (''reason_codes'', VArr (map VStr (as_ReasonCodes st))),
          (''signature_status'', VStr (nonEmptyOr (as_SignatureStatus st) ''unknown'')),
          (''hash_status'', VStr (nonEmptyOr (as_HashStatus st) ''unknown'')),
          (''schema_status'', VStr (nonEmptyOr (as_SchemaStatus st) ''unknown'')),
          (''compatibility_status'', VStr (nonEmptyOr (as_CompatibilityStatus st) ''unknown''))]
         @ opt_field ''reason_detail'' (as_ReasonDetail st)
         @ opt_field ''active_pack_id'' (as_ActivePackID st)
         @ opt_field ''active_pack_version'' (as_ActivePackVersion st)
         @ opt_field ''previous_pack_id'' (as_PreviousPackID st)
         @ opt_field ''previous_pack_version'' (as_PreviousPackVersion st)))]"

definition maybeEmitDetectionPackStatus ::
  "(jobject \<Rightarrow> string option) \<Rightarrow> agent_pack_status \<Rightarrow> string \<Rightarrow> string option" where
  "maybeEmitDetectionPackStatus post st controllerBase =
     (if as_DeviceID st = '''' \<or> as_AgentUID st = '''' then None
      else post (status_event st controllerBase))"

section \<open>Handlers\<close>

datatype post_response =
    PBadRequest string | PError | PStatus agent_pack_status | PStatusVisibilityError agent_pack_status string

definition trim_right_slash :: "string \<Rightarrow> string" where
  "trim_right_slash s = rev (dropWhile (\<lambda>c. c = CHR ''/'') (rev s))"

definition handlePostAgentPackStatus ::
  "(jobject \<Rightarrow> string option) \<Rightarrow> (string \<Rightarrow> string) \<Rightarrow> int \<Rightarrow> bool \<Rightarrow> string \<Rightarrow> post_status_request option \<Rightarrow>
   det_store \<Rightarrow> post_response \<times> det_store" where
  "handlePostAgentPackStatus post getenv now ok uid reqo s =
     (case reqo of
        None \<Rightarrow> (PBadRequest ''decode'', s)
      | Some req \<Rightarrow>
          (case parse_rollout_state (trim_space (pr_RolloutState req)) of
             None \<Rightarrow> (PBadRequest ''invalid rollout_state'', s)
           | Some rs \<Rightarrow>
               let prev = map_get (dt_AgentPackStatus s) uid;
                   st = add_previous prev (add_rejection now (status_of_request uid now rs req));
                   s' = PutAgentPackStatus st s
               in if \<not> ok then (PError, s')
                  else if pr_EmitVisibility req then
                    (let base0 = trim_right_slash (getenv ''DETECTION_PIPELINE_PUBLIC_BASE_URL'');
                         base = (if base0 = '''' then ''http://127.0.0.1:8089'' else base0)
                     in case maybeEmitDetectionPackStatus post st base of
                          None \<Rightarrow> (PStatus st, s') | Some e \<Rightarrow> (PStatusVisibilityError st e, s'))
                  else (PStatus st, s')))"

record rollout_summary =
  rs_agents :: "(agent_pack_status \<times> bool) list"
  rs_applied :: nat
  rs_rejected :: nat
  rs_incompatible :: nat
  rs_expired :: nat
  rs_stale_threshold_ms :: int

definition count_state :: "rollout_state \<Rightarrow> agent_pack_status list \<Rightarrow> nat" where
  "count_state rs list = length (filter (\<lambda>st. as_RolloutState st = rs) list)"

definition handlePackRolloutStatus :: "policy \<Rightarrow> int \<Rightarrow> det_store \<Rightarrow> string \<Rightarrow> rollout_summary option" where
  "handlePackRolloutStatus pol now s packID =
     (if \<not> po_LabOnlyEnabled pol then None
      else let list = ListAgentPackStatusesForPackID s packID
           in Some \<lparr>rs_agents = map (\<lambda>st. (st, as_LastCheckAtMS st > 0 \<and> now - as_LastCheckAtMS st > po_StaleAfterMS pol)) list,
                    rs_applied = count_state RApplied list, rs_rejected = count_state RRejected list,
                    rs_incompatible = count_state RIncompatible list, rs_expired = count_state RExpired list,
                    rs_stale_threshold_ms = po_StaleAfterMS pol\<rparr>)"

section \<open>Properties\<close>

lemma add_rejection_frame:
  "as_AgentUID (add_rejection now st) = as_AgentUID st" "as_RolloutState (add_rejection now st) = as_RolloutState st"
  "as_LastAppliedAtMS (add_rejection now st) = as_LastAppliedAtMS st"
  "as_ActivePackID (add_rejection now st) = as_ActivePackID st"
  "as_PreviousPackID (add_rejection now st) = as_PreviousPackID st"
  by (simp_all add: add_rejection_def)

lemma add_previous_frame:
  "as_AgentUID (add_previous p st) = as_AgentUID st" "as_RolloutState (add_previous p st) = as_RolloutState st"
  "as_ActivePackID (add_previous p st) = as_ActivePackID st"
  by (simp_all add: add_previous_def Let_def split: option.splits)

text \<open>The state of a report names one of the seven rollout states.\<close>

lemma parse_rollout_state_string: "parse_rollout_state (rollout_state_string rs) = Some rs"
  by (cases rs) (simp_all add: parse_rollout_state_def)

lemma parse_rollout_state_Some:
  "parse_rollout_state s = Some rs \<Longrightarrow> s = rollout_state_string rs"
  by (auto simp: parse_rollout_state_def split: if_splits)

text \<open>
  An accepted report is stored under its agent, reports the state it named, and never forgets
  when a pack was last applied: the time is the report's own for an applied pack, else the one
  recorded before.
\<close>

lemma post_status_effect:
  assumes "handlePostAgentPackStatus post getenv now ok uid (Some req) s = (r, s')"
    and "parse_rollout_state (trim_space (pr_RolloutState req)) = Some rs" "now \<noteq> 0"
  shows "\<exists>st. map_get (dt_AgentPackStatus s') uid = Some st \<and> as_RolloutState st = rs
    \<and> as_LastAppliedAtMS st = (if rs = RApplied then now
        else case map_get (dt_AgentPackStatus s) uid of None \<Rightarrow> 0 | Some p \<Rightarrow> as_LastAppliedAtMS p)"
proof -
  define st where "st = add_previous (map_get (dt_AgentPackStatus s) uid)
      (add_rejection now (status_of_request uid now rs req))"
  have "s' = PutAgentPackStatus st s"
    using assms(1,2) by (auto simp: handlePostAgentPackStatus_def st_def Let_def split: if_splits option.splits)
  moreover have "as_AgentUID st = uid" "as_RolloutState st = rs"
    by (simp_all add: st_def add_previous_frame add_rejection_frame status_of_request_def)
  moreover have "as_LastAppliedAtMS st = (if rs = RApplied then now
        else case map_get (dt_AgentPackStatus s) uid of None \<Rightarrow> 0 | Some p \<Rightarrow> as_LastAppliedAtMS p)"
    using assms(3)
    by (auto simp: st_def add_previous_def add_rejection_frame status_of_request_def Let_def split: option.splits)
  ultimately show ?thesis by (simp add: PutAgentPackStatus_def)
qed

text \<open>
  An agent that repeats a report without naming a previous pack loses the record of its
  previous pack: it is replaced by the pack that is active now.
\<close>

lemma repeated_report_loses_previous:
  assumes "handlePostAgentPackStatus post getenv now1 True uid (Some req) s = (r1, s1)"
    and "handlePostAgentPackStatus post getenv now2 True uid (Some req) s1 = (r2, s2)"
    and "parse_rollout_state (trim_space (pr_RolloutState req)) = Some rs" "trim_space (pr_PreviousPackID req) = ''''"
  shows "\<exists>st. map_get (dt_AgentPackStatus s2) uid = Some st \<and> as_PreviousPackID st = as_ActivePackID st"
proof -
  define st1 where "st1 = add_previous (map_get (dt_AgentPackStatus s) uid)
      (add_rejection now1 (status_of_request uid now1 rs req))"
  have s1: "s1 = PutAgentPackStatus st1 s"
    using assms(1,3) by (auto simp: handlePostAgentPackStatus_def st1_def Let_def split: if_splits option.splits)
  have a1: "as_AgentUID st1 = uid" "as_ActivePackID st1 = trim_space (pr_ActivePackID req)"
    by (simp_all add: st1_def add_previous_frame add_rejection_frame status_of_request_def)
  have prev: "map_get (dt_AgentPackStatus s1) uid = Some st1" by (simp add: s1 PutAgentPackStatus_def a1)
  define st2 where "st2 = add_previous (Some st1) (add_rejection now2 (status_of_request uid now2 rs req))"
  have s2: "s2 = PutAgentPackStatus st2 s1"
    using assms(2,3) prev by (auto simp: handlePostAgentPackStatus_def st2_def Let_def split: if_splits option.splits)
  have "as_AgentUID st2 = uid" "as_ActivePackID st2 = trim_space (pr_ActivePackID req)"
    by (simp_all add: st2_def add_previous_frame add_rejection_frame status_of_request_def)
  moreover have "as_PreviousPackID st2 = as_ActivePackID st1"
    using assms(4) by (simp add: st2_def add_previous_def add_rejection_frame status_of_request_def Let_def)
  ultimately show ?thesis by (simp add: s2 PutAgentPackStatus_def a1)
qed

text \<open>The sequence number of an emitted event is positive and below \<open>999999001\<close>.\<close>

lemma event_sequence_bounds: "1 \<le> event_sequence uid \<and> event_sequence uid \<le> 999999000"
proof -
  have "uint (fnv32a uid mod 999999000) = uint (fnv32a uid) mod 999999000" by (simp add: uint_mod)
  then show ?thesis
    using pos_mod_bound [of 999999000 "uint (fnv32a uid)"] pos_mod_sign [of 999999000 "uint (fnv32a uid)"]
    by (simp add: event_sequence_def)
qed

section \<open>Examples\<close>

definition ex_report :: "string \<Rightarrow> post_status_request" where
  "ex_report st = \<lparr>pr_DeviceID = ''d'', pr_ReportedAgentVersion = ''1.0.0'', pr_RolloutState = st, pr_ReasonCodes = None,
     pr_ReasonDetail = '''', pr_ActivePackID = ''p'', pr_ActivePackVersion = ''2.0.0'', pr_PreviousPackID = '''',
     pr_PreviousPackVersion = '''', pr_SignatureStatus = '''', pr_HashStatus = '''', pr_SchemaStatus = '''',
     pr_CompatibilityStatus = '''', pr_LastRejectedPackID = '''', pr_LastRejectedReason = '''',
     pr_LastRejectedReasonCodes = [], pr_EmitVisibility = False\<rparr>"

definition ex_post :: "int \<Rightarrow> string \<Rightarrow> det_store \<Rightarrow> post_response \<times> det_store" where
  "ex_post now st s = handlePostAgentPackStatus (\<lambda>_. None) (\<lambda>_. '''') now True ''u'' (Some (ex_report st)) s"

lemma ex_states: "parse_rollout_state (trim_space (pr_RolloutState (ex_report ''applied''))) = Some RApplied"
  "parse_rollout_state (trim_space (pr_RolloutState (ex_report ''stale''))) = Some RStale"
  by code_simp+

lemma post_status_effect_witness:
  "\<exists>st. map_get (dt_AgentPackStatus (snd (ex_post 9 ''stale'' (snd (ex_post 5 ''applied'' new_store))))) ''u'' = Some st
     \<and> as_RolloutState st = RStale \<and> as_LastAppliedAtMS st = 5"
proof -
  let ?s = "snd (ex_post 5 ''applied'' new_store)"
  have "handlePostAgentPackStatus (\<lambda>_. None) (\<lambda>_. '''') 9 True ''u'' (Some (ex_report ''stale'')) ?s
      = (fst (ex_post 9 ''stale'' ?s), snd (ex_post 9 ''stale'' ?s))" by (simp add: ex_post_def)
  from post_status_effect [OF this ex_states(2)]
  have "\<exists>st. map_get (dt_AgentPackStatus (snd (ex_post 9 ''stale'' ?s))) ''u'' = Some st \<and> as_RolloutState st = RStale
      \<and> as_LastAppliedAtMS st = (case map_get (dt_AgentPackStatus ?s) ''u'' of None \<Rightarrow> 0 | Some p \<Rightarrow> as_LastAppliedAtMS p)"
    by simp
  moreover have "(case map_get (dt_AgentPackStatus ?s) ''u'' of None \<Rightarrow> 0 | Some p \<Rightarrow> as_LastAppliedAtMS p) = 5"
    by code_simp
  ultimately show ?thesis by simp
qed

lemma repeated_report_loses_previous_witness:
  "\<exists>st. map_get (dt_AgentPackStatus (snd (ex_post 9 ''applied'' (snd (ex_post 5 ''applied'' new_store))))) ''u'' = Some st
     \<and> as_PreviousPackID st = as_ActivePackID st"
proof -
  have "trim_space (pr_PreviousPackID (ex_report ''applied'')) = ''''" by (simp add: ex_report_def)
  from repeated_report_loses_previous [OF _ _ ex_states(1) this] show ?thesis
    unfolding ex_post_def by (metis prod.collapse)
qed

end
