(* ===== verification/Agent_Model.thy ===== *)
theory Agent_Model
  imports Prelude
begin

text \<open>
  The local agent, \<open>agents/local-agent/internal\<close>: its data (\<open>types/types.go\<close>), its configuration
  (\<open>config/config.go\<close>), the telemetry sender (\<open>telemetry/sender.go\<close>), the program loader
  (\<open>bpf/loader.go\<close>) and the registry client's signature check (\<open>registry/client.go\<close>).

  A formatted time stamp is an argument (\<open>stamp\<close>). The decompressed archive, JSON decoding and the
  kernel's answers to loading and attaching a program are the fields of \<open>bpf_lib\<close>. A failed type
  assertion is the result \<open>LPanic\<close>.
\<close>

section \<open>Data\<close>

datatype program_status =
    PLoading | PLoaded | PRunning | PFailed | PUnloading | PUnloaded

fun program_status_string :: "program_status \<Rightarrow> string" where
  "program_status_string PLoading = ''loading''"
| "program_status_string PLoaded = ''loaded''"
| "program_status_string PRunning = ''running''"
| "program_status_string PFailed = ''failed''"
| "program_status_string PUnloading = ''unloading''"
| "program_status_string PUnloaded = ''unloaded''"

record program_telemetry =
  pt_ArtifactID :: string
  pt_HostID :: string
  pt_Timestamp :: string
  pt_Status :: string
  pt_VerifierMsg :: "string option"
  pt_CPUPercent :: float64
  pt_MemoryKB :: int
  pt_PacketsProcessed :: int
  pt_Violations :: int
  pt_Errors :: int
  pt_LatencyMs :: float64

definition zero_telemetry :: program_telemetry where
  "zero_telemetry = \<lparr>pt_ArtifactID = '''', pt_HostID = '''', pt_Timestamp = '''', pt_Status = '''',
     pt_VerifierMsg = None, pt_CPUPercent = Fin 0, pt_MemoryKB = 0, pt_PacketsProcessed = 0,
     pt_Violations = 0, pt_Errors = 0, pt_LatencyMs = Fin 0\<rparr>"

record loaded_program =
  lp_ArtifactID :: string
  lp_Name :: string
  lp_Version :: string
  lp_Status :: program_status
  lp_LoadedAt :: time
  lp_TTL :: duration
  lp_Parameters :: string
  lp_Telemetry :: program_telemetry
  lp_Error :: string

record artifact_info =
  ai_ArtifactID :: string
  ai_Name :: string
  ai_Version :: string
  ai_Signature :: string
  ai_Parameters :: string
  ai_TTLSec :: "int option"

record telemetry_event =
  te_Type :: string
  te_Timestamp :: string
  te_Data :: program_telemetry
  te_Metadata :: "(string, string) gomap"

text \<open>What an \<open>interface{}\<close> of the agent carries: the value of an exceeded threshold.\<close>

datatype rb_value = RNil | RInt int | RFloat float64 | RString string

fun fmt_rb :: "(float64 \<Rightarrow> string) \<Rightarrow> rb_value \<Rightarrow> string" where
  "fmt_rb g RNil = ''<nil>''"
| "fmt_rb g (RInt i) = itoa i"
| "fmt_rb g (RFloat x) = g x"
| "fmt_rb g (RString s) = s"

section \<open>Configuration\<close>

record agent_config =
  cfg_HostID :: string
  cfg_RegistryURL :: string
  cfg_PollInterval :: duration
  cfg_NATSURL :: string
  cfg_VaultURL :: string
  cfg_VaultToken :: string
  cfg_PublicKey :: string
  cfg_CacheDir :: string
  cfg_MaxPrograms :: int
  cfg_DefaultTTL :: duration
  cfg_LogLevel :: string
  cfg_TelemetrySubject :: string
  cfg_HTTPPort :: int
  cfg_HTTPAddress :: string
  cfg_RollbackMaxErrors :: int
  cfg_RollbackMaxViolations :: int
  cfg_RollbackMaxCPUPercent :: float64
  cfg_RollbackMaxLatencyMs :: float64
  cfg_RollbackMaxMemoryKB :: int
  cfg_RollbackVerifierFailure :: bool
  cfg_RollbackCheckInterval :: int
  cfg_RollbackDelaySec :: int

definition getEnv :: "(string \<Rightarrow> string) \<Rightarrow> string \<Rightarrow> string \<Rightarrow> string" where
  "getEnv env key defaultValue = (if env key \<noteq> '''' then env key else defaultValue)"

definition getIntEnv :: "(string \<Rightarrow> string) \<Rightarrow> string \<Rightarrow> int \<Rightarrow> int" where
  "getIntEnv env key defaultValue =
     (if env key \<noteq> '''' then (case atoi (env key) of Some n \<Rightarrow> n | None \<Rightarrow> defaultValue) else defaultValue)"

definition getDurationEnv :: "(string \<Rightarrow> string) \<Rightarrow> string \<Rightarrow> duration \<Rightarrow> duration" where
  "getDurationEnv env key defaultValue =
     (if env key \<noteq> '''' then (case atoi (env key) of Some n \<Rightarrow> seconds n | None \<Rightarrow> defaultValue)
      else defaultValue)"

definition getFloat64Env ::
  "(string \<Rightarrow> float64 option) \<Rightarrow> (string \<Rightarrow> string) \<Rightarrow> string \<Rightarrow> float64 \<Rightarrow> float64" where
  "getFloat64Env parseFloat env key defaultValue =
     (if env key \<noteq> '''' then (case parseFloat (env key) of Some x \<Rightarrow> x | None \<Rightarrow> defaultValue)
      else defaultValue)"

text \<open>\<open>strconv.ParseInt\<close> in base 10 with 64 bits accepts what \<open>Atoi\<close> accepts.\<close>

definition getInt64Env :: "(string \<Rightarrow> string) \<Rightarrow> string \<Rightarrow> int \<Rightarrow> int" where
  "getInt64Env env key defaultValue =
     (if env key \<noteq> '''' then (case atoi (env key) of Some n \<Rightarrow> n | None \<Rightarrow> defaultValue) else defaultValue)"

definition parse_bool :: "string \<Rightarrow> bool option" where
  "parse_bool s =
     (if s \<in> set [''1'', ''t'', ''T'', ''true'', ''TRUE'', ''True''] then Some True
      else if s \<in> set [''0'', ''f'', ''F'', ''false'', ''FALSE'', ''False''] then Some False
      else None)"

definition getBoolEnv :: "(string \<Rightarrow> string) \<Rightarrow> string \<Rightarrow> bool \<Rightarrow> bool" where
  "getBoolEnv env key defaultValue =
     (if env key \<noteq> '''' then (case parse_bool (env key) of Some b \<Rightarrow> b | None \<Rightarrow> defaultValue)
      else defaultValue)"

definition Config_Validate :: "agent_config \<Rightarrow> string option" where
  "Config_Validate c =
     (if cfg_HostID c = '''' then Some ''host_id cannot be empty''
      else if cfg_RegistryURL c = '''' then Some ''registry_url cannot be empty''
      else if cfg_PollInterval c \<le> 0 then Some ''poll_interval must be positive''
      else if cfg_NATSURL c = '''' then Some ''nats_url cannot be empty''
      else if cfg_CacheDir c = '''' then Some ''cache_dir cannot be empty''
      else if cfg_MaxPrograms c \<le> 0 then Some ''max_programs must be positive''
      else if cfg_DefaultTTL c \<le> 0 then Some ''default_ttl must be positive''
      else None)"

definition Config_Load :: "(string \<Rightarrow> float64 option) \<Rightarrow> (string \<Rightarrow> string) \<Rightarrow> string + agent_config" where
  "Config_Load parseFloat env =
     (let cfg = \<lparr>cfg_HostID = getEnv env ''AGENT_HOST_ID'' ''localhost'',
            cfg_RegistryURL = getEnv env ''AGENT_REGISTRY_URL'' ''http://localhost:8090'',
            cfg_PollInterval = getDurationEnv env ''AGENT_POLL_INTERVAL_SEC'' (seconds 30),
            cfg_NATSURL = getEnv env ''AGENT_NATS_URL'' ''nats://localhost:4222'',
            cfg_VaultURL = getEnv env ''AGENT_VAULT_URL'' ''http://localhost:8200'',
            cfg_VaultToken = getEnv env ''AGENT_VAULT_TOKEN'' ''dev-token'',
            cfg_PublicKey = getEnv env ''AGENT_PUBLIC_KEY'' '''',
            cfg_CacheDir = getEnv env ''AGENT_CACHE_DIR'' ''/tmp/aegisflux-agent'',
            cfg_MaxPrograms = getIntEnv env ''AGENT_MAX_PROGRAMS'' 10,
            cfg_DefaultTTL = getDurationEnv env ''AGENT_DEFAULT_TTL_SEC'' (seconds 3600),
            cfg_LogLevel = getEnv env ''AGENT_LOG_LEVEL'' ''info'',
            cfg_TelemetrySubject = getEnv env ''AGENT_TELEMETRY_SUBJECT'' ''agent.telemetry'',
            cfg_HTTPPort = getIntEnv env ''AGENT_HTTP_PORT'' 8080,
            cfg_HTTPAddress = getEnv env ''AGENT_HTTP_ADDRESS'' '''',
            cfg_RollbackMaxErrors = getIntEnv env ''AGENT_ROLLBACK_MAX_ERRORS'' 10,
            cfg_RollbackMaxViolations = getIntEnv env ''AGENT_ROLLBACK_MAX_VIOLATIONS'' 100,
            cfg_RollbackMaxCPUPercent = getFloat64Env parseFloat env ''AGENT_ROLLBACK_MAX_CPU_PERCENT'' (Fin 80),
            cfg_RollbackMaxLatencyMs = getFloat64Env parseFloat env ''AGENT_ROLLBACK_MAX_LATENCY_MS'' (Fin 1000),
            cfg_RollbackMaxMemoryKB = getInt64Env env ''AGENT_ROLLBACK_MAX_MEMORY_KB'' (100 * 1024),
            cfg_RollbackVerifierFailure = getBoolEnv env ''AGENT_ROLLBACK_VERIFIER_FAILURE'' True,
            cfg_RollbackCheckInterval = getIntEnv env ''AGENT_ROLLBACK_CHECK_INTERVAL_SEC'' 30,
            cfg_RollbackDelaySec = getIntEnv env ''AGENT_ROLLBACK_DELAY_SEC'' 5\<rparr>
      in case Config_Validate cfg of
           Some e \<Rightarrow> Inl (''configuration validation failed: '' @ e)
         | None \<Rightarrow> Inr cfg)"

section \<open>The telemetry sender\<close>

text \<open>The queue is a channel of capacity 1000; a send that would block is refused.\<close>

record sender =
  tq_subject :: string
  tq_hostID :: string
  tq_queue :: "telemetry_event list"
  tq_published :: "telemetry_event list"

definition NewSender :: "string \<Rightarrow> string \<Rightarrow> sender" where
  "NewSender subject hostID = \<lparr>tq_subject = subject, tq_hostID = hostID, tq_queue = [], tq_published = []\<rparr>"

definition send_event :: "telemetry_event \<Rightarrow> sender \<Rightarrow> string option \<times> sender" where
  "send_event ev s =
     (if length (tq_queue s) < 1000 then (None, s\<lparr>tq_queue := tq_queue s @ [ev]\<rparr>)
      else (Some ''telemetry queue is full'', s))"

definition SendTelemetry :: "string \<Rightarrow> loaded_program \<Rightarrow> sender \<Rightarrow> string option \<times> sender" where
  "SendTelemetry stamp p s =
     send_event \<lparr>te_Type = ''program_telemetry'', te_Timestamp = stamp,
       te_Data = (lp_Telemetry p)\<lparr>pt_HostID := tq_hostID s, pt_Timestamp := stamp,
                    pt_Status := program_status_string (lp_Status p)\<rparr>,
       te_Metadata = [(''host_id'', tq_hostID s), (''agent_version'', ''1.0.0'')]\<rparr> s"

definition SendProgramLoaded :: "string \<Rightarrow> loaded_program \<Rightarrow> sender \<Rightarrow> string option \<times> sender" where
  "SendProgramLoaded stamp p s =
     send_event \<lparr>te_Type = ''program_loaded'', te_Timestamp = stamp,
       te_Data = zero_telemetry\<lparr>pt_ArtifactID := lp_ArtifactID p, pt_HostID := tq_hostID s,
                    pt_Timestamp := stamp, pt_Status := program_status_string (lp_Status p)\<rparr>,
       te_Metadata = [(''host_id'', tq_hostID s), (''artifact_id'', lp_ArtifactID p),
                      (''program_name'', lp_Name p), (''program_version'', lp_Version p)]\<rparr> s"

definition SendProgramUnloaded :: "string \<Rightarrow> string \<Rightarrow> sender \<Rightarrow> string option \<times> sender" where
  "SendProgramUnloaded stamp artifactID s =
     send_event \<lparr>te_Type = ''program_unloaded'', te_Timestamp = stamp,
       te_Data = zero_telemetry\<lparr>pt_ArtifactID := artifactID, pt_HostID := tq_hostID s,
                    pt_Timestamp := stamp, pt_Status := program_status_string PUnloaded\<rparr>,
       te_Metadata = [(''host_id'', tq_hostID s), (''artifact_id'', artifactID)]\<rparr> s"

definition SendProgramError :: "string \<Rightarrow> string \<Rightarrow> string \<Rightarrow> sender \<Rightarrow> string option \<times> sender" where
  "SendProgramError stamp artifactID errorMsg s =
     send_event \<lparr>te_Type = ''program_error'', te_Timestamp = stamp,
       te_Data = zero_telemetry\<lparr>pt_ArtifactID := artifactID, pt_HostID := tq_hostID s,
                    pt_Timestamp := stamp, pt_Status := program_status_string PFailed, pt_Errors := 1\<rparr>,
       te_Metadata = [(''host_id'', tq_hostID s), (''artifact_id'', artifactID), (''error'', errorMsg)]\<rparr> s"

definition SendAgentHeartbeat :: "string \<Rightarrow> int \<Rightarrow> sender \<Rightarrow> string option \<times> sender" where
  "SendAgentHeartbeat stamp loadedPrograms s =
     send_event \<lparr>te_Type = ''agent_heartbeat'', te_Timestamp = stamp,
       te_Data = zero_telemetry\<lparr>pt_HostID := tq_hostID s, pt_Timestamp := stamp, pt_Status := ''healthy''\<rparr>,
       te_Metadata = [(''host_id'', tq_hostID s), (''loaded_programs'', itoa loadedPrograms),
                      (''agent_version'', ''1.0.0'')]\<rparr> s"

definition SendProgramRolledBack ::
  "(float64 \<Rightarrow> string) \<Rightarrow> string \<Rightarrow> string \<Rightarrow> string \<Rightarrow> string \<Rightarrow> rb_value \<Rightarrow> sender \<Rightarrow> string option \<times> sender" where
  "SendProgramRolledBack g stamp artifactID reason threshold v s =
     send_event \<lparr>te_Type = ''program_rolled_back'', te_Timestamp = stamp,
       te_Data = zero_telemetry\<lparr>pt_ArtifactID := artifactID, pt_HostID := tq_hostID s,
                    pt_Timestamp := stamp, pt_Status := ''rolled_back''\<rparr>,
       te_Metadata = [(''host_id'', tq_hostID s), (''artifact_id'', artifactID), (''rollback_reason'', reason),
                      (''threshold'', threshold), (''value'', fmt_rb g v)]\<rparr> s"

text \<open>One round of the sending loop: the next event is published, or the ticker adds a heartbeat.\<close>

datatype sender_signal = SendNext | SendTick string

fun send_loop_step :: "sender_signal \<Rightarrow> sender \<Rightarrow> sender" where
  "send_loop_step SendNext s =
     (case tq_queue s of [] \<Rightarrow> s
      | ev # q \<Rightarrow> s\<lparr>tq_queue := q, tq_published := tq_published s @ [ev]\<rparr>)"
| "send_loop_step (SendTick stamp) s = snd (SendAgentHeartbeat stamp 0 s)"

definition GetQueueSize :: "sender \<Rightarrow> nat" where
  "GetQueueSize s = length (tq_queue s)"

section \<open>The program loader\<close>

datatype tar_item = TarFile string "string option" | TarError

datatype prog_type = XDP | Tracing | OtherType

record bpf_collection =
  bc_programs :: "(string \<times> prog_type \<times> bool) list"
  bc_maps :: "string list"

record bpf_lib =
  bl_zstd :: "string \<Rightarrow> tar_item list option"
  bl_json :: "string \<Rightarrow> (string, gval) gomap option"
  bl_collection :: "string \<Rightarrow> string + bpf_collection"

record extracted_artifact =
  xa_Name :: string
  xa_Version :: string
  xa_ObjectData :: "string option"

datatype 'a loaded = LPanic | LErr string | LOk 'a

fun extract_loop :: "bpf_lib \<Rightarrow> tar_item list \<Rightarrow> extracted_artifact \<Rightarrow> extracted_artifact loaded" where
  "extract_loop lib [] r = LOk r"
| "extract_loop lib (TarError # items) r = LErr ''failed to read tar header''"
| "extract_loop lib (TarFile name content # items) r =
     (if name = ''metadata.json'' then
        (case content of
           None \<Rightarrow> LErr ''failed to read metadata''
         | Some d \<Rightarrow>
             (case bl_json lib d of
                None \<Rightarrow> LErr ''failed to parse metadata''
              | Some meta \<Rightarrow>
                  (case (map_get meta ''name'', map_get meta ''version'') of
                     (Some (VStr n), Some (VStr v)) \<Rightarrow>
                       extract_loop lib items (r\<lparr>xa_Name := n, xa_Version := v\<rparr>)
                   | _ \<Rightarrow> LPanic)))
      else if name = ''program.o'' then
        (case content of
           None \<Rightarrow> LErr ''failed to read BPF object''
         | Some d \<Rightarrow> extract_loop lib items (r\<lparr>xa_ObjectData := Some d\<rparr>))
      else extract_loop lib items r)"

definition extractArtifact :: "bpf_lib \<Rightarrow> string \<Rightarrow> extracted_artifact loaded" where
  "extractArtifact lib data =
     (case bl_zstd lib data of
        None \<Rightarrow> LErr ''failed to create zstd reader''
      | Some items \<Rightarrow>
          (case extract_loop lib items \<lparr>xa_Name = '''', xa_Version = '''', xa_ObjectData = None\<rparr> of
             LOk r \<Rightarrow> if xa_ObjectData r = None then LErr ''no BPF object found in artifact'' else LOk r
           | other \<Rightarrow> other))"

text \<open>Values are never written to the maps: \<open>setMapValue\<close> succeeds without effect, so that only the
  decoding of the parameters can fail.\<close>

definition applyParameters :: "bpf_lib \<Rightarrow> string \<Rightarrow> string option" where
  "applyParameters lib parameters =
     (if parameters = '''' then None
      else case bl_json lib parameters of None \<Rightarrow> Some ''failed to parse parameters'' | Some _ \<Rightarrow> None)"

fun attachPrograms :: "(string \<times> prog_type \<times> bool) list \<Rightarrow> string option" where
  "attachPrograms [] = None"
| "attachPrograms ((name, t, attaches) # ps) =
     (if t = XDP \<and> \<not> attaches then Some (''failed to attach XDP program '' @ name) else attachPrograms ps)"

text \<open>\<open>LoadProgram\<close> without the registration in the loader's table, which \<open>Agent_Runtime\<close> adds on the
  shared heap of programs.\<close>

definition new_program ::
  "string \<Rightarrow> string \<Rightarrow> time \<Rightarrow> string \<Rightarrow> string \<Rightarrow> duration \<Rightarrow> extracted_artifact \<Rightarrow> loaded_program" where
  "new_program hostEnv stamp now artifactID parameters ttl x =
     \<lparr>lp_ArtifactID = artifactID, lp_Name = xa_Name x, lp_Version = xa_Version x, lp_Status = PRunning,
      lp_LoadedAt = now, lp_TTL = ttl, lp_Parameters = parameters,
      lp_Telemetry = zero_telemetry\<lparr>pt_ArtifactID := artifactID, pt_HostID := hostEnv, pt_Timestamp := stamp,
                       pt_Status := program_status_string PLoaded\<rparr>,
      lp_Error = ''''\<rparr>"

definition LoadProgram ::
  "bpf_lib \<Rightarrow> string \<Rightarrow> string \<Rightarrow> time \<Rightarrow> string \<Rightarrow> string \<Rightarrow> string \<Rightarrow> duration \<Rightarrow> loaded_program loaded" where
  "LoadProgram lib hostEnv stamp now artifactID data parameters ttl =
     (case extractArtifact lib data of
        LPanic \<Rightarrow> LPanic
      | LErr e \<Rightarrow> LErr (''failed to extract artifact: '' @ e)
      | LOk x \<Rightarrow>
          (case bl_collection lib (the (xa_ObjectData x)) of
             Inl e \<Rightarrow> LErr e
           | Inr coll \<Rightarrow>
               (case applyParameters lib parameters of
                  Some e \<Rightarrow> LErr e
                | None \<Rightarrow>
                    (case attachPrograms (bc_programs coll) of
                       Some e \<Rightarrow> LErr e
                     | None \<Rightarrow> LOk (new_program hostEnv stamp now artifactID parameters ttl x)))))"

section \<open>The signature check\<close>

definition VerifySignature :: "string \<Rightarrow> string \<Rightarrow> string \<Rightarrow> string option" where
  "VerifySignature data signature publicKey =
     (if signature = '''' then Some ''empty signature'' else None)"

section \<open>Facts\<close>

lemma Config_Load_valid:
  assumes "Config_Load parseFloat env = Inr cfg"
  shows "cfg_HostID cfg \<noteq> ''''" "0 < cfg_PollInterval cfg" "0 < cfg_MaxPrograms cfg" "0 < cfg_DefaultTTL cfg"
proof -
  from assms have "Config_Validate cfg = None"
    unfolding Config_Load_def Let_def by (auto split: option.splits)
  then show "cfg_HostID cfg \<noteq> ''''" "0 < cfg_PollInterval cfg" "0 < cfg_MaxPrograms cfg" "0 < cfg_DefaultTTL cfg"
    by (auto simp: Config_Validate_def split: if_splits)
qed

lemma LoadProgram_fields:
  assumes "LoadProgram lib hostEnv stamp now aid data parameters ttl = LOk p"
  shows "lp_ArtifactID p = aid" "lp_Status p = PRunning" "lp_TTL p = ttl" "lp_LoadedAt p = now"
    "pt_Errors (lp_Telemetry p) = 0"
  using assms
  by (auto simp: LoadProgram_def new_program_def zero_telemetry_def split: loaded.splits sum.splits option.splits)

lemma send_event_bound: "length (tq_queue s) \<le> 1000 \<Longrightarrow> length (tq_queue (snd (send_event ev s))) \<le> 1000"
  by (simp add: send_event_def)

end
