(* ===== verification/Agent_Rollback.thy ===== *)
theory Agent_Rollback
  imports Agent_Model
begin

text \<open>
  The local agent's rollback manager (\<open>rollback/manager.go\<close>) and telemetry monitor
  (\<open>telemetry/monitor.go\<close>).

  The tables of programs hold addresses of a heap of programs, since the agent, the manager and the
  loader share them: a change through one table is visible in all. Callbacks run in goroutines of
  their own; the operations return the tasks they start. A rollback queue is a channel of
  capacity 100, and a send that would block is dropped.
\<close>

section \<open>Data\<close>

datatype rollback_reason =
    TelemetryThreshold | VerifierFailure | HighCPU | OrchestratorSignal | Manual | TTLExpired

fun reason_string :: "rollback_reason \<Rightarrow> string" where
  "reason_string TelemetryThreshold = ''telemetry_threshold''"
| "reason_string VerifierFailure = ''verifier_failure''"
| "reason_string HighCPU = ''high_cpu''"
| "reason_string OrchestratorSignal = ''orchestrator_signal''"
| "reason_string Manual = ''manual''"
| "reason_string TTLExpired = ''ttl_expired''"

record rollback_thresholds =
  th_MaxErrors :: int
  th_MaxViolations :: int
  th_MaxCPUPercent :: float64
  th_MaxLatencyMs :: float64
  th_MaxMemoryKB :: int
  th_VerifierFailure :: bool
  th_CheckIntervalSec :: int
  th_RollbackDelaySec :: int

text \<open>The monitor has a type of its own with the same fields.\<close>

type_synonym telemetry_thresholds = rollback_thresholds

record rollback_event =
  re_Type :: string
  re_ArtifactID :: string
  re_HostID :: string
  re_Reason :: rollback_reason
  re_Threshold :: string
  re_Value :: rb_value
  re_Timestamp :: string
  re_Status :: string
  re_Error :: string
  re_Metadata :: "(string, string) gomap"

datatype rollback_callback = HandleRollbackEvent
datatype telemetry_callback = HandleTelemetryThreshold

text \<open>The goroutines the agent's components start.\<close>

datatype task =
    RunRollback rollback_event
  | RunThreshold string program_telemetry string rb_value
  | RunUnload string

type_synonym heap = "loaded_program list"

record rollback_manager =
  rm_hostID :: string
  rm_thresholds :: rollback_thresholds
  rm_loadedPrograms :: "(string, nat) gomap"
  rm_rollbackQueue :: "rollback_event list"
  rm_callbacks :: "rollback_callback list"
  rm_published :: "rollback_event list"

definition NewRollbackManager :: "string \<Rightarrow> rollback_thresholds \<Rightarrow> rollback_manager" where
  "NewRollbackManager hostID thresholds =
     \<lparr>rm_hostID = hostID, rm_thresholds = thresholds, rm_loadedPrograms = [], rm_rollbackQueue = [],
      rm_callbacks = [], rm_published = []\<rparr>"

section \<open>Thresholds\<close>

definition verifier_failed :: "rollback_thresholds \<Rightarrow> program_telemetry \<Rightarrow> bool" where
  "verifier_failed th t = (th_VerifierFailure th \<and> pt_VerifierMsg t \<noteq> None \<and> pt_VerifierMsg t \<noteq> Some '''')"

definition shouldRollback :: "rollback_thresholds \<Rightarrow> loaded_program \<Rightarrow> bool" where
  "shouldRollback th program =
     (let t = lp_Telemetry program in
      if pt_Errors t > th_MaxErrors th then True
      else if pt_Violations t > th_MaxViolations th then True
      else if f_greater (pt_CPUPercent t) (th_MaxCPUPercent th) then True
      else if f_greater (pt_LatencyMs t) (th_MaxLatencyMs th) then True
      else if pt_MemoryKB t > th_MaxMemoryKB th then True
      else if verifier_failed th t then True
      else False)"

definition getRollbackReason :: "rollback_thresholds \<Rightarrow> loaded_program \<Rightarrow> rollback_reason \<times> string \<times> rb_value" where
  "getRollbackReason th program =
     (let t = lp_Telemetry program in
      if pt_Errors t > th_MaxErrors th then (TelemetryThreshold, ''max_errors'', RInt (pt_Errors t))
      else if pt_Violations t > th_MaxViolations th then (TelemetryThreshold, ''max_violations'', RInt (pt_Violations t))
      else if f_greater (pt_CPUPercent t) (th_MaxCPUPercent th) then (HighCPU, ''max_cpu_percent'', RFloat (pt_CPUPercent t))
      else if f_greater (pt_LatencyMs t) (th_MaxLatencyMs th) then
        (TelemetryThreshold, ''max_latency_ms'', RFloat (pt_LatencyMs t))
      else if pt_MemoryKB t > th_MaxMemoryKB th then (TelemetryThreshold, ''max_memory_kb'', RInt (pt_MemoryKB t))
      else if verifier_failed th t then (VerifierFailure, ''verifier_failure'', RString (the (pt_VerifierMsg t)))
      else (TelemetryThreshold, ''unknown'', RNil))"

definition checkThresholds :: "telemetry_thresholds \<Rightarrow> program_telemetry \<Rightarrow> bool" where
  "checkThresholds th t =
     (if pt_Errors t > th_MaxErrors th then True
      else if pt_Violations t > th_MaxViolations th then True
      else if f_greater (pt_CPUPercent t) (th_MaxCPUPercent th) then True
      else if f_greater (pt_LatencyMs t) (th_MaxLatencyMs th) then True
      else if pt_MemoryKB t > th_MaxMemoryKB th then True
      else if verifier_failed th t then True
      else False)"

definition getExceededThreshold :: "telemetry_thresholds \<Rightarrow> program_telemetry \<Rightarrow> string \<times> rb_value" where
  "getExceededThreshold th t =
     (if pt_Errors t > th_MaxErrors th then (''max_errors'', RInt (pt_Errors t))
      else if pt_Violations t > th_MaxViolations th then (''max_violations'', RInt (pt_Violations t))
      else if f_greater (pt_CPUPercent t) (th_MaxCPUPercent th) then (''max_cpu_percent'', RFloat (pt_CPUPercent t))
      else if f_greater (pt_LatencyMs t) (th_MaxLatencyMs th) then (''max_latency_ms'', RFloat (pt_LatencyMs t))
      else if pt_MemoryKB t > th_MaxMemoryKB th then (''max_memory_kb'', RInt (pt_MemoryKB t))
      else if verifier_failed th t then (''verifier_failure'', RString (the (pt_VerifierMsg t)))
      else (''unknown'', RNil))"

section \<open>The rollback manager\<close>

definition triggerRollback ::
  "string \<Rightarrow> string \<Rightarrow> rollback_reason \<Rightarrow> string \<Rightarrow> rb_value \<Rightarrow> rollback_manager \<Rightarrow> rollback_manager" where
  "triggerRollback stamp artifactID reason threshold v rm =
     (let event = \<lparr>re_Type = '''', re_ArtifactID = artifactID, re_HostID = rm_hostID rm, re_Reason = reason,
            re_Threshold = threshold, re_Value = v, re_Timestamp = stamp, re_Status = ''initiated'', re_Error = '''',
            re_Metadata = [(''host_id'', rm_hostID rm), (''agent_version'', ''1.0.0'')]\<rparr>
      in if length (rm_rollbackQueue rm) < 100 then rm\<lparr>rm_rollbackQueue := rm_rollbackQueue rm @ [event]\<rparr> else rm)"

definition RegisterProgram :: "string \<Rightarrow> nat \<Rightarrow> rollback_manager \<Rightarrow> rollback_manager" where
  "RegisterProgram artifactID addr rm =
     rm\<lparr>rm_loadedPrograms := map_set artifactID addr (rm_loadedPrograms rm)\<rparr>"

definition UnregisterProgram :: "string \<Rightarrow> rollback_manager \<Rightarrow> rollback_manager" where
  "UnregisterProgram artifactID rm = rm\<lparr>rm_loadedPrograms := map_delete artifactID (rm_loadedPrograms rm)\<rparr>"

definition trigger_if :: "string \<Rightarrow> string \<Rightarrow> loaded_program \<Rightarrow> rollback_manager \<Rightarrow> rollback_manager" where
  "trigger_if stamp artifactID program rm =
     (if shouldRollback (rm_thresholds rm) program
      then (case getRollbackReason (rm_thresholds rm) program of
              (reason, threshold, v) \<Rightarrow> triggerRollback stamp artifactID reason threshold v rm)
      else rm)"

definition RM_UpdateTelemetry ::
  "string \<Rightarrow> string \<Rightarrow> program_telemetry \<Rightarrow> rollback_manager \<times> heap \<Rightarrow> rollback_manager \<times> heap" where
  "RM_UpdateTelemetry stamp artifactID telemetry st =
     (case st of (rm, hp) \<Rightarrow>
        (case map_get (rm_loadedPrograms rm) artifactID of
           None \<Rightarrow> (rm, hp)
         | Some a \<Rightarrow>
             let program = (hp ! a)\<lparr>lp_Telemetry := telemetry\<rparr>
             in (trigger_if stamp artifactID program rm, hp[a := program])))"

definition RM_RequestRollback ::
  "string \<Rightarrow> string \<Rightarrow> rollback_reason \<Rightarrow> rollback_manager \<Rightarrow> string option \<times> rollback_manager" where
  "RM_RequestRollback stamp artifactID reason rm =
     (case map_get (rm_loadedPrograms rm) artifactID of
        None \<Rightarrow> (Some (''program not found: '' @ artifactID), rm)
      | Some _ \<Rightarrow> (None, triggerRollback stamp artifactID reason '''' RNil rm))"

definition RM_checkAllPrograms :: "string \<Rightarrow> heap \<Rightarrow> rollback_manager \<Rightarrow> rollback_manager" where
  "RM_checkAllPrograms stamp hp rm =
     fold (\<lambda>a. trigger_if stamp (lp_ArtifactID (hp ! a)) (hp ! a)) (map_values (rm_loadedPrograms rm)) rm"

definition emitRollbackStatus :: "rollback_event \<Rightarrow> rollback_manager \<Rightarrow> rollback_manager" where
  "emitRollbackStatus event rm =
     rm\<lparr>rm_published := rm_published rm @ [event\<lparr>re_Type := ''rollback_status'', re_HostID := rm_hostID rm\<rparr>]\<rparr>"

definition RM_notifyCallbacks :: "rollback_event \<Rightarrow> rollback_manager \<Rightarrow> task list" where
  "RM_notifyCallbacks event rm = map (\<lambda>cb. case cb of HandleRollbackEvent \<Rightarrow> RunRollback event) (rm_callbacks rm)"

definition processRollbackEvent :: "rollback_event \<Rightarrow> rollback_manager \<Rightarrow> rollback_manager \<times> task list" where
  "processRollbackEvent event0 rm =
     (let event = event0\<lparr>re_Status := ''in_progress''\<rparr> in
      case map_get (rm_loadedPrograms rm) (re_ArtifactID event) of
        None \<Rightarrow> (emitRollbackStatus (event\<lparr>re_Status := ''failed'', re_Error := ''program not found''\<rparr>) rm, [])
      | Some _ \<Rightarrow> (emitRollbackStatus (event\<lparr>re_Status := ''completed''\<rparr>) rm, RM_notifyCallbacks event rm))"

text \<open>One round of \<open>rollbackProcessingLoop\<close>: the next event of the queue.\<close>

definition rollback_loop_step :: "rollback_manager \<Rightarrow> rollback_manager \<times> task list" where
  "rollback_loop_step rm =
     (case rm_rollbackQueue rm of
        [] \<Rightarrow> (rm, [])
      | event # q \<Rightarrow> processRollbackEvent event (rm\<lparr>rm_rollbackQueue := q\<rparr>))"

text \<open>A signal that carries no string under \<open>reason\<close> makes the handler panic (\<^term>\<open>None\<close>).\<close>

definition handleOrchestratorSignal ::
  "string \<Rightarrow> (string, gval) gomap option \<Rightarrow> rollback_manager \<Rightarrow> rollback_manager option" where
  "handleOrchestratorSignal stamp signal rm =
     (case signal of
        None \<Rightarrow> Some rm
      | Some m \<Rightarrow>
          (case map_get m ''artifact_id'' of
             Some (VStr artifactID) \<Rightarrow>
               (case map_get m ''reason'' of
                  Some (VStr _) \<Rightarrow> Some (triggerRollback stamp artifactID OrchestratorSignal '''' RNil rm)
                | _ \<Rightarrow> None)
           | _ \<Rightarrow> Some rm))"

definition RM_AddCallback :: "rollback_callback \<Rightarrow> rollback_manager \<Rightarrow> rollback_manager" where
  "RM_AddCallback cb rm = rm\<lparr>rm_callbacks := rm_callbacks rm @ [cb]\<rparr>"

definition RM_UpdateThresholds :: "rollback_thresholds \<Rightarrow> rollback_manager \<Rightarrow> rollback_manager" where
  "RM_UpdateThresholds th rm = rm\<lparr>rm_thresholds := th\<rparr>"

definition GetRollbackHistory :: "rollback_manager \<Rightarrow> rollback_event list" where
  "GetRollbackHistory rm = []"

section \<open>The telemetry monitor\<close>

record telemetry_monitor =
  tm_thresholds :: telemetry_thresholds
  tm_monitoringData :: "(string, program_telemetry) gomap"
  tm_callbacks :: "telemetry_callback list"

definition NewTelemetryMonitor :: "telemetry_thresholds \<Rightarrow> telemetry_monitor" where
  "NewTelemetryMonitor th = \<lparr>tm_thresholds = th, tm_monitoringData = [], tm_callbacks = []\<rparr>"

definition TM_AddCallback :: "telemetry_callback \<Rightarrow> telemetry_monitor \<Rightarrow> telemetry_monitor" where
  "TM_AddCallback cb tm = tm\<lparr>tm_callbacks := tm_callbacks tm @ [cb]\<rparr>"

definition TM_notifyCallbacks ::
  "string \<Rightarrow> program_telemetry \<Rightarrow> string \<Rightarrow> rb_value \<Rightarrow> telemetry_monitor \<Rightarrow> task list" where
  "TM_notifyCallbacks artifactID t threshold v tm =
     map (\<lambda>cb. case cb of HandleTelemetryThreshold \<Rightarrow> RunThreshold artifactID t threshold v) (tm_callbacks tm)"

definition TM_triggerRollback ::
  "string \<Rightarrow> string \<Rightarrow> program_telemetry \<Rightarrow> string \<Rightarrow> rb_value \<Rightarrow> telemetry_monitor \<Rightarrow> rollback_manager \<Rightarrow>
   rollback_manager \<times> task list" where
  "TM_triggerRollback stamp artifactID t threshold v tm rm =
     (let reason = (if threshold = ''max_cpu_percent'' then HighCPU
                    else if threshold = ''verifier_failure'' then VerifierFailure else TelemetryThreshold)
      in (snd (RM_RequestRollback stamp artifactID reason rm), TM_notifyCallbacks artifactID t threshold v tm))"

definition check_telemetry ::
  "string \<Rightarrow> string \<Rightarrow> program_telemetry \<Rightarrow> telemetry_monitor \<Rightarrow> rollback_manager \<Rightarrow> rollback_manager \<times> task list" where
  "check_telemetry stamp artifactID t tm rm =
     (if checkThresholds (tm_thresholds tm) t
      then (case getExceededThreshold (tm_thresholds tm) t of
              (threshold, v) \<Rightarrow> TM_triggerRollback stamp artifactID t threshold v tm rm)
      else (rm, []))"

definition TM_UpdateTelemetry ::
  "string \<Rightarrow> string \<Rightarrow> program_telemetry \<Rightarrow> telemetry_monitor \<Rightarrow> rollback_manager \<times> heap \<Rightarrow>
   telemetry_monitor \<times> (rollback_manager \<times> heap) \<times> task list" where
  "TM_UpdateTelemetry stamp artifactID t tm st =
     (let tm' = tm\<lparr>tm_monitoringData := map_set artifactID t (tm_monitoringData tm)\<rparr>
      in case check_telemetry stamp artifactID t tm' (fst st) of
           (rm, tasks) \<Rightarrow> (tm', RM_UpdateTelemetry stamp artifactID t (rm, snd st), tasks))"

definition TM_checkAllPrograms :: "string \<Rightarrow> telemetry_monitor \<Rightarrow> rollback_manager \<Rightarrow> rollback_manager \<times> task list" where
  "TM_checkAllPrograms stamp tm rm =
     fold (\<lambda>(artifactID, t) (rm, tasks).
             case check_telemetry stamp artifactID t tm rm of (rm', ts) \<Rightarrow> (rm', tasks @ ts))
       (tm_monitoringData tm) (rm, [])"

definition handleTelemetryEvent ::
  "string \<Rightarrow> telemetry_event option \<Rightarrow> telemetry_monitor \<Rightarrow> rollback_manager \<times> heap \<Rightarrow>
   telemetry_monitor \<times> (rollback_manager \<times> heap) \<times> task list" where
  "handleTelemetryEvent stamp evo tm st =
     (case evo of
        None \<Rightarrow> (tm, st, [])
      | Some ev \<Rightarrow>
          if te_Type ev = ''program_telemetry''
          then TM_UpdateTelemetry stamp (pt_ArtifactID (te_Data ev)) (te_Data ev) tm st
          else (tm, st, []))"

definition TM_UpdateThresholds :: "telemetry_thresholds \<Rightarrow> telemetry_monitor \<Rightarrow> telemetry_monitor" where
  "TM_UpdateThresholds th tm = tm\<lparr>tm_thresholds := th\<rparr>"

section \<open>The two checks agree\<close>

lemma shouldRollback_check: "shouldRollback th p = checkThresholds th (lp_Telemetry p)"
  by (simp add: shouldRollback_def checkThresholds_def Let_def)

lemma checkThresholds_iff:
  "checkThresholds th t \<longleftrightarrow>
     pt_Errors t > th_MaxErrors th \<or> pt_Violations t > th_MaxViolations th
     \<or> f_greater (pt_CPUPercent t) (th_MaxCPUPercent th) \<or> f_greater (pt_LatencyMs t) (th_MaxLatencyMs th)
     \<or> pt_MemoryKB t > th_MaxMemoryKB th \<or> verifier_failed th t"
  by (simp add: checkThresholds_def)

lemma getRollbackReason_exceeded:
  "getRollbackReason th p =
     (case getExceededThreshold th (lp_Telemetry p) of
        (threshold, v) \<Rightarrow>
          (if threshold = ''max_cpu_percent'' then HighCPU
           else if threshold = ''verifier_failure'' then VerifierFailure else TelemetryThreshold, threshold, v))"
  by (simp add: getRollbackReason_def getExceededThreshold_def Let_def)

lemma exceeded_unknown_iff: "fst (getExceededThreshold th t) = ''unknown'' \<longleftrightarrow> \<not> checkThresholds th t"
  by (simp add: getExceededThreshold_def checkThresholds_def)

text \<open>
  The manager and the monitor, which check telemetry separately, agree: with equal thresholds
  they both ask for a rollback exactly when some limit is exceeded, and then they name the same
  reason, and the limit named is one that is exceeded.
\<close>

lemma threshold_checks_agree:
  "(shouldRollback th p \<longleftrightarrow> checkThresholds th (lp_Telemetry p))
   \<and> (checkThresholds th (lp_Telemetry p) \<longleftrightarrow>
        (let t = lp_Telemetry p in
         pt_Errors t > th_MaxErrors th \<or> pt_Violations t > th_MaxViolations th
         \<or> f_greater (pt_CPUPercent t) (th_MaxCPUPercent th) \<or> f_greater (pt_LatencyMs t) (th_MaxLatencyMs th)
         \<or> pt_MemoryKB t > th_MaxMemoryKB th \<or> verifier_failed th t))
   \<and> (case getRollbackReason th p of (reason, threshold, v) \<Rightarrow>
        (threshold, v) = getExceededThreshold th (lp_Telemetry p)
        \<and> (reason = HighCPU \<longleftrightarrow> threshold = ''max_cpu_percent'')
        \<and> (reason = VerifierFailure \<longleftrightarrow> threshold = ''verifier_failure'')
        \<and> (threshold = ''unknown'' \<longleftrightarrow> \<not> shouldRollback th p))"
proof -
  obtain threshold v where e: "getExceededThreshold th (lp_Telemetry p) = (threshold, v)" by fastforce
  then have "threshold = ''unknown'' \<longleftrightarrow> \<not> checkThresholds th (lp_Telemetry p)"
    using exceeded_unknown_iff [of th "lp_Telemetry p"] by simp
  then show ?thesis
    by (simp add: getRollbackReason_exceeded shouldRollback_check e checkThresholds_iff Let_def)
qed

section \<open>Frame facts\<close>

lemma triggerRollback_frame [simp]:
  "rm_loadedPrograms (triggerRollback stamp a r th v rm) = rm_loadedPrograms rm"
  "rm_callbacks (triggerRollback stamp a r th v rm) = rm_callbacks rm"
  "rm_thresholds (triggerRollback stamp a r th v rm) = rm_thresholds rm"
  "rm_hostID (triggerRollback stamp a r th v rm) = rm_hostID rm"
  by (simp_all add: triggerRollback_def Let_def)

lemma triggerRollback_bound:
  "length (rm_rollbackQueue rm) \<le> 100 \<Longrightarrow> length (rm_rollbackQueue (triggerRollback stamp a r th v rm)) \<le> 100"
  by (simp add: triggerRollback_def Let_def)

lemma trigger_if_frame [simp]:
  "rm_loadedPrograms (trigger_if stamp a p rm) = rm_loadedPrograms rm"
  "rm_callbacks (trigger_if stamp a p rm) = rm_callbacks rm"
  "rm_thresholds (trigger_if stamp a p rm) = rm_thresholds rm"
  by (simp_all add: trigger_if_def split: prod.splits)

lemma trigger_if_bound:
  "length (rm_rollbackQueue rm) \<le> 100 \<Longrightarrow> length (rm_rollbackQueue (trigger_if stamp a p rm)) \<le> 100"
  by (simp add: trigger_if_def triggerRollback_bound split: prod.splits)

lemma RM_checkAll_frame:
  "rm_loadedPrograms (RM_checkAllPrograms stamp hp rm) = rm_loadedPrograms rm
   \<and> rm_callbacks (RM_checkAllPrograms stamp hp rm) = rm_callbacks rm
   \<and> (length (rm_rollbackQueue rm) \<le> 100 \<longrightarrow> length (rm_rollbackQueue (RM_checkAllPrograms stamp hp rm)) \<le> 100)"
proof -
  have "rm_loadedPrograms (fold (\<lambda>a. trigger_if stamp (f a) (g a)) as rm) = rm_loadedPrograms rm
     \<and> rm_callbacks (fold (\<lambda>a. trigger_if stamp (f a) (g a)) as rm) = rm_callbacks rm
     \<and> (length (rm_rollbackQueue rm) \<le> 100 \<longrightarrow>
          length (rm_rollbackQueue (fold (\<lambda>a. trigger_if stamp (f a) (g a)) as rm)) \<le> 100)" for f g and as :: "nat list"
    by (induction as arbitrary: rm) (simp_all add: trigger_if_bound)
  then show ?thesis by (simp add: RM_checkAllPrograms_def)
qed

lemma RM_Request_frame [simp]:
  "rm_loadedPrograms (snd (RM_RequestRollback stamp a r rm)) = rm_loadedPrograms rm"
  "rm_callbacks (snd (RM_RequestRollback stamp a r rm)) = rm_callbacks rm"
  by (simp_all add: RM_RequestRollback_def split: option.splits)

lemma RM_Request_bound:
  "length (rm_rollbackQueue rm) \<le> 100 \<Longrightarrow> length (rm_rollbackQueue (snd (RM_RequestRollback stamp a r rm))) \<le> 100"
  by (simp add: RM_RequestRollback_def triggerRollback_bound split: option.splits)

lemma check_telemetry_frame:
  assumes "check_telemetry stamp a t tm rm = (rm', ts)"
  shows "rm_loadedPrograms rm' = rm_loadedPrograms rm" "rm_callbacks rm' = rm_callbacks rm"
    "length (rm_rollbackQueue rm) \<le> 100 \<Longrightarrow> length (rm_rollbackQueue rm') \<le> 100"
  using assms
  by (auto simp: check_telemetry_def TM_triggerRollback_def Let_def RM_Request_bound split: if_splits prod.splits)

lemma TM_checkAll_frame:
  assumes "TM_checkAllPrograms stamp tm rm = (rm', ts)"
  shows "rm_loadedPrograms rm' = rm_loadedPrograms rm \<and> rm_callbacks rm' = rm_callbacks rm
    \<and> (length (rm_rollbackQueue rm) \<le> 100 \<longrightarrow> length (rm_rollbackQueue rm') \<le> 100)"
proof -
  let ?f = "\<lambda>(artifactID, t) (rm, tasks).
      case check_telemetry stamp artifactID t tm rm of (rm', ts) \<Rightarrow> (rm', tasks @ ts)"
  have "fold ?f ds (rm, ts0) = (rm', ts) \<Longrightarrow>
      rm_loadedPrograms rm' = rm_loadedPrograms rm \<and> rm_callbacks rm' = rm_callbacks rm
      \<and> (length (rm_rollbackQueue rm) \<le> 100 \<longrightarrow> length (rm_rollbackQueue rm') \<le> 100)" for ds rm ts0
  proof (induction ds arbitrary: rm ts0)
    case Nil
    then show ?case by simp
  next
    case (Cons d ds)
    obtain a t where d: "d = (a, t)" by (cases d)
    obtain rm1 ts1 where c: "check_telemetry stamp a t tm rm = (rm1, ts1)" by fastforce
    from Cons.prems have "fold ?f ds (rm1, ts0 @ ts1) = (rm', ts)" by (simp add: d c)
    from Cons.IH [OF this] check_telemetry_frame [OF c] show ?case by simp
  qed
  from this [OF assms [unfolded TM_checkAllPrograms_def]] show ?thesis .
qed

lemma RM_Update_heap:
  assumes "RM_UpdateTelemetry stamp a t (rm, hp) = (rm', hp')" "\<And>p. f (p\<lparr>lp_Telemetry := t\<rparr>) = f p"
  shows "map f hp' = map f hp"
proof -
  have "map f (hp[i := p]) = map f hp" if "f p = f (hp ! i)" for i p
    using that by (cases "i < length hp") (auto simp: map_update list_update_same_conv list_update_beyond)
  with assms show ?thesis by (auto simp: RM_UpdateTelemetry_def Let_def split: option.splits)
qed

lemma RM_Update_frame:
  assumes "RM_UpdateTelemetry stamp a t (rm, hp) = (rm', hp')"
  shows "rm_loadedPrograms rm' = rm_loadedPrograms rm" "rm_callbacks rm' = rm_callbacks rm"
    "length (rm_rollbackQueue rm) \<le> 100 \<Longrightarrow> length (rm_rollbackQueue rm') \<le> 100"
  using assms by (auto simp: RM_UpdateTelemetry_def Let_def trigger_if_bound split: option.splits)

lemma TM_Update_obtain:
  assumes "TM_UpdateTelemetry stamp a t tm (rm, hp) = (tm', (rm', hp'), ts)"
  obtains rm1 where "check_telemetry stamp a t tm' rm = (rm1, ts)" "RM_UpdateTelemetry stamp a t (rm1, hp) = (rm', hp')"
    "tm' = tm\<lparr>tm_monitoringData := map_set a t (tm_monitoringData tm)\<rparr>"
  using assms by (auto simp: TM_UpdateTelemetry_def Let_def split: prod.splits)

lemma TM_Update_heap:
  assumes "TM_UpdateTelemetry stamp a t tm (rm, hp) = (tm', (rm', hp'), ts)" "\<And>p. f (p\<lparr>lp_Telemetry := t\<rparr>) = f p"
  shows "map f hp' = map f hp"
  by (rule TM_Update_obtain [OF assms(1)]) (rule RM_Update_heap [where f = f], assumption, rule assms(2))

lemma TM_Update_frame:
  assumes "TM_UpdateTelemetry stamp a t tm (rm, hp) = (tm', (rm', hp'), ts)"
  shows "rm_loadedPrograms rm' = rm_loadedPrograms rm" "rm_callbacks rm' = rm_callbacks rm"
    "tm_callbacks tm' = tm_callbacks tm" "tm_thresholds tm' = tm_thresholds tm"
    "length (rm_rollbackQueue rm) \<le> 100 \<Longrightarrow> length (rm_rollbackQueue rm') \<le> 100"
proof -
  obtain rm1 where c: "check_telemetry stamp a t tm' rm = (rm1, ts)"
    and u: "RM_UpdateTelemetry stamp a t (rm1, hp) = (rm', hp')"
    and tm': "tm' = tm\<lparr>tm_monitoringData := map_set a t (tm_monitoringData tm)\<rparr>"
    by (rule TM_Update_obtain [OF assms])
  note 1 = check_telemetry_frame [OF c] and 2 = RM_Update_frame [OF u]
  show "rm_loadedPrograms rm' = rm_loadedPrograms rm" "rm_callbacks rm' = rm_callbacks rm"
    "tm_callbacks tm' = tm_callbacks tm" "tm_thresholds tm' = tm_thresholds tm"
    "length (rm_rollbackQueue rm) \<le> 100 \<Longrightarrow> length (rm_rollbackQueue rm') \<le> 100"
    using 1 2 by (simp_all add: tm')
qed

end
