(* ===== verification/Agent_Runtime.thy ===== *)
theory Agent_Runtime
  imports Agent_Rollback
begin

text \<open>
  The local agent itself, \<open>agent/agent.go\<close>: polling, loading, unloading, time-to-live and rollback,
  as a transition system over the interleavings of its goroutines.

  An artifact is processed in two steps: the checks, and the load after the download, since other
  goroutines may run while the artifact is downloaded. A timer is its deadline. The loader's table
  (\<open>bpf.Loader.programs\<close>) is a field of the agent, as are the goroutines that have been started and
  have not run. The step relation is labelled by what runs.
\<close>

section \<open>State\<close>

record agent =
  ag_config :: agent_config
  ag_sender :: sender
  ag_tm :: telemetry_monitor
  ag_rm :: rollback_manager
  ag_loadedPrograms :: "(string, nat) gomap"
  ag_loader :: "(string, nat) gomap"
  ag_heap :: heap
  ag_ttlTimers :: "(string, time) gomap"
  ag_pending :: "artifact_info list"
  ag_tasks :: "task list"

definition config_thresholds :: "agent_config \<Rightarrow> rollback_thresholds" where
  "config_thresholds cfg =
     \<lparr>th_MaxErrors = cfg_RollbackMaxErrors cfg, th_MaxViolations = cfg_RollbackMaxViolations cfg,
      th_MaxCPUPercent = cfg_RollbackMaxCPUPercent cfg, th_MaxLatencyMs = cfg_RollbackMaxLatencyMs cfg,
      th_MaxMemoryKB = cfg_RollbackMaxMemoryKB cfg, th_VerifierFailure = cfg_RollbackVerifierFailure cfg,
      th_CheckIntervalSec = cfg_RollbackCheckInterval cfg, th_RollbackDelaySec = cfg_RollbackDelaySec cfg\<rparr>"

text \<open>\<open>New\<close>, and the callbacks that \<open>Run\<close> registers before its loop.\<close>

definition New_Agent :: "agent_config \<Rightarrow> agent" where
  "New_Agent cfg =
     \<lparr>ag_config = cfg, ag_sender = NewSender (cfg_TelemetrySubject cfg) (cfg_HostID cfg),
      ag_tm = NewTelemetryMonitor (config_thresholds cfg),
      ag_rm = NewRollbackManager (cfg_HostID cfg) (config_thresholds cfg),
      ag_loadedPrograms = [], ag_loader = [], ag_heap = [], ag_ttlTimers = [], ag_pending = [], ag_tasks = []\<rparr>"

definition Run_callbacks :: "agent \<Rightarrow> agent" where
  "Run_callbacks a =
     a\<lparr>ag_rm := RM_AddCallback HandleRollbackEvent (ag_rm a),
       ag_tm := TM_AddCallback HandleTelemetryThreshold (ag_tm a)\<rparr>"

section \<open>Operations\<close>

definition getLoadedProgramCount :: "agent \<Rightarrow> int" where
  "getLoadedProgramCount a = int (length (ag_loadedPrograms a))"

definition process_check :: "artifact_info \<Rightarrow> agent \<Rightarrow> bool" where
  "process_check artifact a =
     (if map_get (ag_loadedPrograms a) (ai_ArtifactID artifact) \<noteq> None then False
      else if getLoadedProgramCount a \<ge> cfg_MaxPrograms (ag_config a) then False
      else True)"

definition setTTLTimer :: "time \<Rightarrow> string \<Rightarrow> duration \<Rightarrow> agent \<Rightarrow> agent" where
  "setTTLTimer now artifactID ttl a = a\<lparr>ag_ttlTimers := map_set artifactID (time_add now ttl) (ag_ttlTimers a)\<rparr>"

definition artifact_ttl :: "artifact_info \<Rightarrow> agent \<Rightarrow> duration" where
  "artifact_ttl artifact a =
     (case ai_TTLSec artifact of None \<Rightarrow> cfg_DefaultTTL (ag_config a) | Some n \<Rightarrow> seconds n)"

definition store_program :: "time \<Rightarrow> string \<Rightarrow> string \<Rightarrow> duration \<Rightarrow> loaded_program \<Rightarrow> agent \<Rightarrow> agent" where
  "store_program now stamp artifactID ttl p a =
     (let addr = length (ag_heap a);
          a1 = a\<lparr>ag_heap := ag_heap a @ [p], ag_loader := map_set artifactID addr (ag_loader a),
                 ag_loadedPrograms := map_set artifactID addr (ag_loadedPrograms a),
                 ag_rm := RegisterProgram artifactID addr (ag_rm a)\<rparr>;
          a2 = setTTLTimer now artifactID ttl a1
      in a2\<lparr>ag_sender := snd (SendProgramLoaded stamp p (ag_sender a2))\<rparr>)"

text \<open>The rest of \<open>processArtifact\<close>, from the download on; \<^term>\<open>None\<close> if the loader panics, which ends
  the process.\<close>

definition process_load ::
  "bpf_lib \<Rightarrow> string \<Rightarrow> string \<Rightarrow> time \<Rightarrow> string option \<Rightarrow> artifact_info \<Rightarrow> agent \<Rightarrow> agent option" where
  "process_load lib hostEnv stamp now download artifact a =
     (case download of
        None \<Rightarrow> Some a
      | Some data \<Rightarrow>
          (case VerifySignature data (ai_Signature artifact) (cfg_PublicKey (ag_config a)) of
             Some _ \<Rightarrow> Some a
           | None \<Rightarrow>
               let ttl = artifact_ttl artifact a
               in case LoadProgram lib hostEnv stamp now (ai_ArtifactID artifact) data (ai_Parameters artifact) ttl of
                    LPanic \<Rightarrow> None
                  | LErr e \<Rightarrow> Some (a\<lparr>ag_sender := snd (SendProgramError stamp (ai_ArtifactID artifact) e (ag_sender a))\<rparr>)
                  | LOk p \<Rightarrow> Some (store_program now stamp (ai_ArtifactID artifact) ttl p a)))"

definition Loader_UnloadProgram :: "string \<Rightarrow> agent \<Rightarrow> string option \<times> agent" where
  "Loader_UnloadProgram artifactID a =
     (case map_get (ag_loader a) artifactID of
        None \<Rightarrow> (Some (''program not found: '' @ artifactID), a)
      | Some addr \<Rightarrow>
          (None, a\<lparr>ag_heap := (ag_heap a)[addr := (ag_heap a ! addr)\<lparr>lp_Status := PUnloaded\<rparr>],
                   ag_loader := map_delete artifactID (ag_loader a)\<rparr>))"

definition unloadProgram :: "string \<Rightarrow> string \<Rightarrow> agent \<Rightarrow> string option \<times> agent" where
  "unloadProgram stamp artifactID a =
     (case map_get (ag_loadedPrograms a) artifactID of
        None \<Rightarrow> (Some (''program not found: '' @ artifactID), a)
      | Some _ \<Rightarrow>
          let a1 = a\<lparr>ag_loadedPrograms := map_delete artifactID (ag_loadedPrograms a),
                     ag_rm := UnregisterProgram artifactID (ag_rm a)\<rparr>
          in case Loader_UnloadProgram artifactID a1 of
               (Some e, a2) \<Rightarrow> (Some (''failed to unload BPF program: '' @ e), a2)
             | (None, a2) \<Rightarrow>
                 let a3 = a2\<lparr>ag_ttlTimers := map_delete artifactID (ag_ttlTimers a2)\<rparr>
                 in (None, a3\<lparr>ag_sender := snd (SendProgramUnloaded stamp artifactID (ag_sender a3))\<rparr>))"

definition checkTTLExpiration :: "time \<Rightarrow> agent \<Rightarrow> agent" where
  "checkTTLExpiration now a =
     a\<lparr>ag_tasks := ag_tasks a @
         map (\<lambda>addr. RunUnload (lp_ArtifactID (ag_heap a ! addr)))
           (filter (\<lambda>addr. time_sub now (lp_LoadedAt (ag_heap a ! addr)) > lp_TTL (ag_heap a ! addr))
             (map_values (ag_loadedPrograms a)))\<rparr>"

definition handleRollbackEvent :: "(float64 \<Rightarrow> string) \<Rightarrow> string \<Rightarrow> rollback_event \<Rightarrow> agent \<Rightarrow> agent" where
  "handleRollbackEvent g stamp event a =
     (case unloadProgram stamp (re_ArtifactID event) a of
        (Some e, a1) \<Rightarrow> a1\<lparr>ag_sender := snd (SendProgramError stamp (re_ArtifactID event) e (ag_sender a1))\<rparr>
      | (None, a1) \<Rightarrow>
          a1\<lparr>ag_sender := snd (SendProgramRolledBack g stamp (re_ArtifactID event) (reason_string (re_Reason event))
                               (re_Threshold event) (re_Value event) (ag_sender a1))\<rparr>)"

definition update_telemetry :: "string \<Rightarrow> string \<Rightarrow> program_telemetry \<Rightarrow> agent \<Rightarrow> agent" where
  "update_telemetry stamp artifactID t a =
     (case TM_UpdateTelemetry stamp artifactID t (ag_tm a) (ag_rm a, ag_heap a) of
        (tm, (rm, hp), ts) \<Rightarrow> a\<lparr>ag_tm := tm, ag_rm := rm, ag_heap := hp, ag_tasks := ag_tasks a @ ts\<rparr>)"

text \<open>The handler of an exceeded threshold hands the telemetry back to the monitor.\<close>

definition handleTelemetryThreshold :: "string \<Rightarrow> string \<Rightarrow> program_telemetry \<Rightarrow> agent \<Rightarrow> agent" where
  "handleTelemetryThreshold stamp artifactID t a = update_telemetry stamp artifactID t a"

definition agent_reason :: "string \<Rightarrow> rollback_reason" where
  "agent_reason reason =
     (if reason = ''telemetry_threshold'' then TelemetryThreshold
      else if reason = ''verifier_failure'' then VerifierFailure
      else if reason = ''high_cpu'' then HighCPU
      else if reason = ''orchestrator_signal'' then OrchestratorSignal
      else if reason = ''ttl_expired'' then TTLExpired
      else Manual)"

definition Agent_RequestRollback :: "string \<Rightarrow> string \<Rightarrow> string \<Rightarrow> agent \<Rightarrow> string option \<times> agent" where
  "Agent_RequestRollback stamp artifactID reason a =
     (case RM_RequestRollback stamp artifactID (agent_reason reason) (ag_rm a) of (e, rm) \<Rightarrow> (e, a\<lparr>ag_rm := rm\<rparr>))"

definition UpdateRollbackThresholds :: "rollback_thresholds \<Rightarrow> agent \<Rightarrow> agent" where
  "UpdateRollbackThresholds th a = a\<lparr>ag_rm := RM_UpdateThresholds th (ag_rm a)\<rparr>"

definition Agent_SendTelemetry :: "string \<Rightarrow> agent \<Rightarrow> agent" where
  "Agent_SendTelemetry stamp a =
     a\<lparr>ag_sender := fold (\<lambda>addr s. snd (SendTelemetry stamp (ag_heap a ! addr) s))
                      (map_values (ag_loadedPrograms a)) (ag_sender a)\<rparr>"

definition shutdown :: "string \<Rightarrow> agent \<Rightarrow> agent" where
  "shutdown stamp a = fold (\<lambda>artifactID a. snd (unloadProgram stamp artifactID a)) (map fst (ag_loadedPrograms a)) a"

fun run_task :: "(float64 \<Rightarrow> string) \<Rightarrow> string \<Rightarrow> task \<Rightarrow> agent \<Rightarrow> agent" where
  "run_task g stamp (RunRollback ev) a = handleRollbackEvent g stamp ev a"
| "run_task g stamp (RunThreshold artifactID t _ _) a = handleTelemetryThreshold stamp artifactID t a"
| "run_task g stamp (RunUnload artifactID) a = snd (unloadProgram stamp artifactID a)"

definition drop_task :: "task \<Rightarrow> agent \<Rightarrow> agent" where
  "drop_task t a = a\<lparr>ag_tasks := remove1 t (ag_tasks a)\<rparr>"

definition rollback_round :: "agent \<Rightarrow> agent" where
  "rollback_round a =
     (case rollback_loop_step (ag_rm a) of (rm, ts) \<Rightarrow> a\<lparr>ag_rm := rm, ag_tasks := ag_tasks a @ ts\<rparr>)"

section \<open>The transition system\<close>

datatype label =
    LBegin string | LFinish string | LTimer string | LTask task | LShutdown | LOther

inductive agent_step :: "bpf_lib \<Rightarrow> (float64 \<Rightarrow> string) \<Rightarrow> label \<Rightarrow> agent \<Rightarrow> agent \<Rightarrow> bool"
  for lib :: bpf_lib and g :: "float64 \<Rightarrow> string" where
  begin_artifact: "process_check artifact a \<Longrightarrow>
     agent_step lib g (LBegin (ai_ArtifactID artifact)) a (a\<lparr>ag_pending := artifact # ag_pending a\<rparr>)"
| finish_artifact: "artifact \<in> set (ag_pending a) \<Longrightarrow>
     process_load lib hostEnv stamp now download artifact
       (a\<lparr>ag_pending := remove1 artifact (ag_pending a)\<rparr>) = Some a' \<Longrightarrow>
     agent_step lib g (LFinish (ai_ArtifactID artifact)) a a'"
| timer: "map_get (ag_ttlTimers a) artifactID = Some deadline \<Longrightarrow> deadline \<le> now \<Longrightarrow>
     agent_step lib g (LTimer artifactID) a (snd (unloadProgram stamp artifactID a))"
| ttl_check: "agent_step lib g LOther a (checkTTLExpiration now a)"
| telemetry: "handleTelemetryEvent stamp evo (ag_tm a) (ag_rm a, ag_heap a) = (tm, (rm, hp), ts) \<Longrightarrow>
     agent_step lib g LOther a (a\<lparr>ag_tm := tm, ag_rm := rm, ag_heap := hp, ag_tasks := ag_tasks a @ ts\<rparr>)"
| monitor_tick: "TM_checkAllPrograms stamp (ag_tm a) (ag_rm a) = (rm, ts) \<Longrightarrow>
     agent_step lib g LOther a (a\<lparr>ag_rm := rm, ag_tasks := ag_tasks a @ ts\<rparr>)"
| manager_tick: "agent_step lib g LOther a (a\<lparr>ag_rm := RM_checkAllPrograms stamp (ag_heap a) (ag_rm a)\<rparr>)"
| rollback_loop: "agent_step lib g LOther a (rollback_round a)"
| signal: "handleOrchestratorSignal stamp sig (ag_rm a) = Some rm \<Longrightarrow> agent_step lib g LOther a (a\<lparr>ag_rm := rm\<rparr>)"
| run: "t \<in> set (ag_tasks a) \<Longrightarrow> agent_step lib g (LTask t) a (run_task g stamp t (drop_task t a))"
| request: "agent_step lib g LOther a (snd (Agent_RequestRollback stamp artifactID reason a))"
| thresholds: "agent_step lib g LOther a (UpdateRollbackThresholds th a)"
| send_telemetry: "agent_step lib g LOther a (Agent_SendTelemetry stamp a)"
| send_loop: "agent_step lib g LOther a (a\<lparr>ag_sender := send_loop_step sig (ag_sender a)\<rparr>)"
| stop: "agent_step lib g LShutdown a (shutdown stamp a)"

definition agent_init :: "agent \<Rightarrow> bool" where
  "agent_init a \<longleftrightarrow> (\<exists>cfg. a = Run_callbacks (New_Agent cfg))"

section \<open>Invariant\<close>

text \<open>The three tables agree, every entry points to a running program with the entry's identifier,
  exactly the loaded programs have a timer, the channels keep their capacity, and the two callbacks
  are registered once.\<close>

definition agent_inv :: "agent \<Rightarrow> bool" where
  "agent_inv a \<longleftrightarrow>
     map_ok (ag_loadedPrograms a) \<and> map_ok (ag_loader a) \<and> map_ok (rm_loadedPrograms (ag_rm a))
     \<and> map_ok (ag_ttlTimers a)
     \<and> map_get (ag_loader a) = map_get (ag_loadedPrograms a)
     \<and> map_get (rm_loadedPrograms (ag_rm a)) = map_get (ag_loadedPrograms a)
     \<and> (\<forall>k addr. map_get (ag_loadedPrograms a) k = Some addr \<longrightarrow>
          addr < length (ag_heap a) \<and> lp_ArtifactID (ag_heap a ! addr) = k \<and> lp_Status (ag_heap a ! addr) = PRunning)
     \<and> (\<forall>k. map_get (ag_ttlTimers a) k = None \<longleftrightarrow> map_get (ag_loadedPrograms a) k = None)
     \<and> length (rm_rollbackQueue (ag_rm a)) \<le> 100 \<and> length (tq_queue (ag_sender a)) \<le> 1000
     \<and> rm_callbacks (ag_rm a) = [HandleRollbackEvent] \<and> tm_callbacks (ag_tm a) = [HandleTelemetryThreshold]"

lemma agent_inv_init: "agent_init a \<Longrightarrow> agent_inv a"
  by (auto simp: agent_init_def agent_inv_def New_Agent_def Run_callbacks_def NewRollbackManager_def
      NewTelemetryMonitor_def NewSender_def RM_AddCallback_def TM_AddCallback_def)

text \<open>What the invariant reads of a state; a step that leaves this alone, up to the channels and the
  programs' telemetry, keeps the invariant.\<close>

lemma agent_inv_frame:
  assumes "agent_inv a"
    and "ag_loadedPrograms a' = ag_loadedPrograms a" "ag_loader a' = ag_loader a" "ag_ttlTimers a' = ag_ttlTimers a"
    and "rm_loadedPrograms (ag_rm a') = rm_loadedPrograms (ag_rm a)" "rm_callbacks (ag_rm a') = rm_callbacks (ag_rm a)"
    and "tm_callbacks (ag_tm a') = tm_callbacks (ag_tm a)"
    and "map lp_ArtifactID (ag_heap a') = map lp_ArtifactID (ag_heap a)"
    and "map lp_Status (ag_heap a') = map lp_Status (ag_heap a)"
    and "length (rm_rollbackQueue (ag_rm a')) \<le> 100" "length (tq_queue (ag_sender a')) \<le> 1000"
  shows "agent_inv a'"
proof -
  have len: "length (ag_heap a') = length (ag_heap a)" using assms(8) by (rule map_eq_imp_length_eq)
  have "lp_ArtifactID (ag_heap a' ! i) = lp_ArtifactID (ag_heap a ! i)"
    "lp_Status (ag_heap a' ! i) = lp_Status (ag_heap a ! i)" if "i < length (ag_heap a)" for i
    using that len arg_cong [OF assms(8), of "\<lambda>xs. xs ! i"] arg_cong [OF assms(9), of "\<lambda>xs. xs ! i"] by simp_all
  with assms len show ?thesis unfolding agent_inv_def by simp
qed

lemma agent_inv_channels:
  "agent_inv a \<Longrightarrow> length (rm_rollbackQueue (ag_rm a)) \<le> 100"
  "agent_inv a \<Longrightarrow> length (tq_queue (ag_sender a)) \<le> 1000"
  by (simp_all add: agent_inv_def)

lemma agent_inv_sender: "agent_inv a \<Longrightarrow> length (tq_queue s) \<le> 1000 \<Longrightarrow> agent_inv (a\<lparr>ag_sender := s\<rparr>)"
  by (rule agent_inv_frame) (simp_all add: agent_inv_channels)

lemma agent_inv_other [simp]:
  "agent_inv (a\<lparr>ag_tasks := ts\<rparr>) = agent_inv a" "agent_inv (a\<lparr>ag_pending := ps\<rparr>) = agent_inv a"
  by (simp_all add: agent_inv_def)

lemmas send_bounds = send_event_bound
  SendTelemetry_def SendProgramLoaded_def SendProgramUnloaded_def SendProgramError_def
  SendAgentHeartbeat_def SendProgramRolledBack_def

lemma agent_inv_entry:
  assumes "agent_inv a" "map_get (ag_loadedPrograms a) k = Some addr"
  shows "addr < length (ag_heap a)" "lp_ArtifactID (ag_heap a ! addr) = k" "lp_Status (ag_heap a ! addr) = PRunning"
  using assms unfolding agent_inv_def by blast+

lemma agent_inv_store_program:
  assumes inv: "agent_inv a" and p: "lp_ArtifactID p = k" "lp_Status p = PRunning"
  shows "agent_inv (store_program now stamp k ttl p a)"
proof -
  have "length (tq_queue (snd (SendProgramLoaded stamp p (ag_sender a)))) \<le> 1000"
    using agent_inv_channels(2) [OF inv] by (simp add: send_bounds)
  with inv p show ?thesis
    by (auto simp: agent_inv_def store_program_def setTTLTimer_def RegisterProgram_def Let_def map_get_set_fun nth_append
        distinct_update less_Suc_eq simp del: map_of_eq_Some_iff)
qed

lemma unloadProgram_ok:
  assumes inv: "agent_inv a" and k: "map_get (ag_loadedPrograms a) k = Some addr"
  shows "unloadProgram stamp k a = (None, a\<lparr>ag_loadedPrograms := map_delete k (ag_loadedPrograms a),
      ag_rm := UnregisterProgram k (ag_rm a),
      ag_heap := (ag_heap a)[addr := (ag_heap a ! addr)\<lparr>lp_Status := PUnloaded\<rparr>],
      ag_loader := map_delete k (ag_loader a), ag_ttlTimers := map_delete k (ag_ttlTimers a),
      ag_sender := snd (SendProgramUnloaded stamp k (ag_sender a))\<rparr>)"
proof -
  have "map_get (ag_loader a) k = Some addr" using inv k by (simp add: agent_inv_def)
  with k show ?thesis by (simp add: unloadProgram_def Loader_UnloadProgram_def Let_def)
qed

lemma unloadProgram_absent:
  "map_get (ag_loadedPrograms a) k = None \<Longrightarrow> unloadProgram stamp k a = (Some (''program not found: '' @ k), a)"
  by (simp add: unloadProgram_def)

lemma agent_inv_unload:
  assumes inv: "agent_inv a"
  shows "agent_inv (snd (unloadProgram stamp k a))"
proof (cases "map_get (ag_loadedPrograms a) k")
  case None
  with inv show ?thesis by (simp add: unloadProgram_absent)
next
  case (Some addr)
  have "map_get (ag_loadedPrograms a) k' = Some b \<Longrightarrow> k' \<noteq> k \<Longrightarrow> b \<noteq> addr" for k' b
    using agent_inv_entry(2) [OF inv] Some by metis
  then have addr: "map_get (ag_loadedPrograms a) k' = Some b \<Longrightarrow> k' \<noteq> k \<Longrightarrow> (ag_heap a)[addr := x] ! b = ag_heap a ! b"
    for k' b x by (metis nth_list_update_neq)
  have "length (tq_queue (snd (SendProgramUnloaded stamp k (ag_sender a)))) \<le> 1000"
    using agent_inv_channels(2) [OF inv] by (simp add: send_bounds)
  with inv addr show ?thesis unfolding unloadProgram_ok [OF inv Some]
    by (auto simp: agent_inv_def UnregisterProgram_def map_get_delete_fun distinct_delete
        simp del: map_of_eq_Some_iff)
qed

section \<open>Every step keeps the invariant\<close>

lemma agent_inv_load:
  assumes "agent_inv a" "process_load lib hostEnv stamp now download artifact a = Some a'"
  shows "agent_inv a'"
proof (cases "download = None \<or> VerifySignature (the download) (ai_Signature artifact) (cfg_PublicKey (ag_config a)) \<noteq> None")
  case True
  with assms show ?thesis by (auto simp: process_load_def split: option.splits)
next
  case False
  then obtain data where d: "download = Some data"
    "VerifySignature data (ai_Signature artifact) (cfg_PublicKey (ag_config a)) = None" by auto
  show ?thesis
  proof (cases "LoadProgram lib hostEnv stamp now (ai_ArtifactID artifact) data (ai_Parameters artifact)
      (artifact_ttl artifact a)")
    case LPanic
    with assms(2) d show ?thesis by (simp add: process_load_def)
  next
    case (LErr e)
    have "length (tq_queue (snd (SendProgramError stamp (ai_ArtifactID artifact) e (ag_sender a)))) \<le> 1000"
      using agent_inv_channels(2) [OF assms(1)] by (simp add: send_bounds)
    with LErr assms d show ?thesis by (auto simp: process_load_def intro: agent_inv_sender)
  next
    case (LOk p)
    from LoadProgram_fields(1,2) [OF LOk] agent_inv_store_program [OF assms(1)] LOk assms(2) d
    show ?thesis by (auto simp: process_load_def)
  qed
qed

lemma agent_inv_update_telemetry:
  assumes inv: "agent_inv a"
  shows "agent_inv (update_telemetry stamp k t a)"
proof -
  obtain tm rm hp ts where u: "TM_UpdateTelemetry stamp k t (ag_tm a) (ag_rm a, ag_heap a) = (tm, (rm, hp), ts)"
    by (metis prod_cases3 surj_pair)
  note f = TM_Update_frame [OF u]
  have "agent_inv (a\<lparr>ag_tm := tm, ag_rm := rm, ag_heap := hp, ag_tasks := ag_tasks a @ ts\<rparr>)"
    by (rule agent_inv_frame [OF inv]) (simp_all add: f TM_Update_heap [OF u] agent_inv_channels [OF inv])
  then show ?thesis by (simp add: update_telemetry_def u)
qed

lemma agent_inv_handleRollback: "agent_inv a \<Longrightarrow> agent_inv (handleRollbackEvent g stamp ev a)"
proof -
  assume "agent_inv a"
  then have "agent_inv (snd (unloadProgram stamp (re_ArtifactID ev) a))" by (rule agent_inv_unload)
  then show ?thesis unfolding handleRollbackEvent_def
    by (auto simp: send_bounds agent_inv_channels split: prod.splits option.splits intro!: agent_inv_sender)
qed

lemma agent_inv_task: "agent_inv a \<Longrightarrow> agent_inv (run_task g stamp t a)"
  by (cases t) (simp_all add: agent_inv_handleRollback handleTelemetryThreshold_def agent_inv_update_telemetry
      agent_inv_unload)

lemma agent_inv_rm:
  assumes "agent_inv a" "rm_loadedPrograms rm = rm_loadedPrograms (ag_rm a)" "rm_callbacks rm = rm_callbacks (ag_rm a)"
    and "length (rm_rollbackQueue rm) \<le> 100"
  shows "agent_inv (a\<lparr>ag_rm := rm\<rparr>)"
  by (rule agent_inv_frame [OF assms(1)]) (simp_all add: assms agent_inv_channels)

lemma rollback_loop_frame:
  assumes "rollback_loop_step rm = (rm', ts)"
  shows "rm_loadedPrograms rm' = rm_loadedPrograms rm" "rm_callbacks rm' = rm_callbacks rm"
    "rm_rollbackQueue rm' = tl (rm_rollbackQueue rm)"
  using assms
  by (auto simp: rollback_loop_step_def processRollbackEvent_def emitRollbackStatus_def Let_def
      split: list.splits option.splits)

lemma agent_inv_round: "agent_inv a \<Longrightarrow> agent_inv (rollback_round a)"
proof -
  assume inv: "agent_inv a"
  obtain rm ts where r: "rollback_loop_step (ag_rm a) = (rm, ts)" by fastforce
  have "agent_inv (a\<lparr>ag_rm := rm\<rparr>)"
    by (rule agent_inv_rm [OF inv]) (use rollback_loop_frame [OF r] agent_inv_channels(1) [OF inv] in auto)
  then have "agent_inv (a\<lparr>ag_rm := rm, ag_tasks := ag_tasks a @ ts\<rparr>)" by simp
  then show ?thesis by (simp add: rollback_round_def r)
qed

lemma signal_frame:
  assumes "handleOrchestratorSignal stamp sig rm = Some rm'"
  shows "rm_loadedPrograms rm' = rm_loadedPrograms rm" "rm_callbacks rm' = rm_callbacks rm"
    "length (rm_rollbackQueue rm) \<le> 100 \<Longrightarrow> length (rm_rollbackQueue rm') \<le> 100"
  using assms
  by (auto simp: handleOrchestratorSignal_def triggerRollback_bound split: option.splits gval.splits)

lemma agent_inv_shutdown: "agent_inv a \<Longrightarrow> agent_inv (shutdown stamp a)"
proof -
  have "agent_inv a \<Longrightarrow> agent_inv (fold (\<lambda>k a. snd (unloadProgram stamp k a)) ks a)" for ks
    by (induction ks arbitrary: a) (simp_all add: agent_inv_unload)
  then show "agent_inv a \<Longrightarrow> agent_inv (shutdown stamp a)" by (simp add: shutdown_def)
qed

lemma send_telemetry_bound:
  "length (tq_queue s) \<le> 1000 \<Longrightarrow> length (tq_queue (fold (\<lambda>addr s. snd (SendTelemetry stamp (f addr) s)) as s)) \<le> 1000"
  by (induction as arbitrary: s) (simp_all add: send_bounds)

lemma send_loop_bound: "length (tq_queue s) \<le> 1000 \<Longrightarrow> length (tq_queue (send_loop_step sig s)) \<le> 1000"
  by (cases sig) (auto simp: send_bounds split: list.splits)

lemma agent_inv_step:
  assumes inv: "agent_inv a" and "agent_step lib g l a a'"
  shows "agent_inv a'"
  using assms(2)
proof (cases rule: agent_step.cases)
  case (finish_artifact artifact hostEnv stamp now download)
  from inv show ?thesis by (intro agent_inv_load [OF _ finish_artifact(3)]) simp
next
  case (telemetry stamp evo tm rm hp ts)
  show ?thesis
  proof (cases "\<exists>ev. evo = Some ev \<and> te_Type ev = ''program_telemetry''")
    case True
    then obtain ev where "evo = Some ev" "te_Type ev = ''program_telemetry''" by auto
    with telemetry(3) have "TM_UpdateTelemetry stamp (pt_ArtifactID (te_Data ev)) (te_Data ev) (ag_tm a) (ag_rm a, ag_heap a)
        = (tm, (rm, hp), ts)" by (simp add: handleTelemetryEvent_def)
    then show ?thesis using agent_inv_update_telemetry [OF inv, of stamp "pt_ArtifactID (te_Data ev)" "te_Data ev"] telemetry(2)
      by (simp add: update_telemetry_def)
  next
    case False
    with telemetry(2,3) inv show ?thesis by (auto simp: handleTelemetryEvent_def split: option.splits if_splits)
  qed
next
  case (monitor_tick stamp rm ts)
  have "agent_inv (a\<lparr>ag_rm := rm\<rparr>)"
    by (rule agent_inv_rm [OF inv]) (use TM_checkAll_frame [OF monitor_tick(3)] agent_inv_channels(1) [OF inv] in auto)
  then have "agent_inv ((a\<lparr>ag_rm := rm\<rparr>)\<lparr>ag_tasks := ag_tasks a @ ts\<rparr>)" by (simp only: agent_inv_other)
  with monitor_tick(2) show ?thesis by simp
next
  case (manager_tick stamp)
  then show ?thesis using RM_checkAll_frame [of stamp "ag_heap a" "ag_rm a"] agent_inv_channels(1) [OF inv]
    by (auto intro: agent_inv_rm [OF inv])
next
  case (signal stamp sig rm)
  then show ?thesis using signal_frame [OF signal(3)] agent_inv_channels(1) [OF inv]
    by (auto intro: agent_inv_rm [OF inv])
next
  case (run t stamp)
  with inv show ?thesis by (auto simp: drop_task_def intro!: agent_inv_task)
next
  case (request stamp k reason)
  then show ?thesis using RM_Request_bound [OF agent_inv_channels(1) [OF inv], of stamp k "agent_reason reason"]
    by (auto simp: Agent_RequestRollback_def split: prod.splits intro!: agent_inv_rm [OF inv])
      (metis RM_Request_frame snd_conv)+
next
  case (thresholds th)
  then show ?thesis using agent_inv_channels(1) [OF inv]
    by (auto simp: UpdateRollbackThresholds_def RM_UpdateThresholds_def intro: agent_inv_rm [OF inv])
next
  case (send_telemetry stamp)
  then show ?thesis using agent_inv_channels(2) [OF inv]
    by (auto simp: Agent_SendTelemetry_def send_telemetry_bound intro: agent_inv_sender [OF inv])
next
  case (send_loop sig)
  then show ?thesis using agent_inv_channels(2) [OF inv]
    by (auto simp: send_loop_bound intro: agent_inv_sender [OF inv])
qed (use inv in \<open>simp_all add: agent_inv_unload checkTTLExpiration_def agent_inv_round agent_inv_shutdown\<close>)

interpretation agentsys: inductive_invariant agent_init "\<lambda>a a'. \<exists>l. agent_step lib g l a a'" agent_inv for lib g
  by unfold_locales (auto intro: agent_inv_init agent_inv_step)

end
