(* ===== verification/Agent_Properties.thy ===== *)
theory Agent_Properties
  imports Agent_Runtime
begin

text \<open>
  What the local agent guarantees: it refines a table of loaded programs in which programs appear by
  loading only and disappear by a timer, an expired time to live, a rollback or shutdown; a program
  whose telemetry exceeds a limit is unloaded once the rollback queue has been worked off; and which
  of its tasks never come to an end.
\<close>

section \<open>The abstract table of programs\<close>

type_synonym program_view = "string \<times> string \<times> time \<times> duration"

definition prog_view :: "loaded_program \<Rightarrow> program_view" where
  "prog_view p = (lp_Name p, lp_Version p, lp_LoadedAt p, lp_TTL p)"

definition agent_view :: "agent \<Rightarrow> string \<Rightarrow> program_view option" where
  "agent_view a k = map_option (\<lambda>addr. prog_view (ag_heap a ! addr)) (map_get (ag_loadedPrograms a) k)"

fun view_step :: "label \<Rightarrow> (string \<Rightarrow> program_view option) \<Rightarrow> (string \<Rightarrow> program_view option) \<Rightarrow> bool" where
  "view_step (LFinish k) m m' \<longleftrightarrow> m' = m \<or> (\<exists>v. m' = m(k \<mapsto> v))"
| "view_step (LTimer k) m m' \<longleftrightarrow> m' = m(k := None)"
| "view_step (LTask (RunUnload k)) m m' \<longleftrightarrow> m' = m(k := None)"
| "view_step (LTask (RunRollback ev)) m m' \<longleftrightarrow> m' = m(re_ArtifactID ev := None)"
| "view_step LShutdown m m' \<longleftrightarrow> m' = (\<lambda>_. None)"
| "view_step _ m m' \<longleftrightarrow> m' = m"

lemma agent_view_frame:
  assumes "agent_inv a" "ag_loadedPrograms a' = ag_loadedPrograms a"
    "map prog_view (ag_heap a') = map prog_view (ag_heap a)"
  shows "agent_view a' = agent_view a"
proof
  fix k
  have len: "length (ag_heap a') = length (ag_heap a)" using assms(3) by (rule map_eq_imp_length_eq)
  have "prog_view (ag_heap a' ! i) = prog_view (ag_heap a ! i)" if "i < length (ag_heap a)" for i
    using that len arg_cong [OF assms(3), of "\<lambda>xs. xs ! i"] by simp
  with agent_inv_entry(1) [OF assms(1)] show "agent_view a' k = agent_view a k"
    by (cases "map_get (ag_loadedPrograms a) k") (auto simp: agent_view_def assms(2))
qed

lemma agent_view_other [simp]:
  "agent_view (a\<lparr>ag_tasks := ts\<rparr>) = agent_view a" "agent_view (a\<lparr>ag_pending := ps\<rparr>) = agent_view a"
  "agent_view (a\<lparr>ag_rm := rm\<rparr>) = agent_view a" "agent_view (a\<lparr>ag_sender := snd'\<rparr>) = agent_view a"
  "agent_view (a\<lparr>ag_tm := tm\<rparr>) = agent_view a"
  by (simp_all add: agent_view_def fun_eq_iff)

lemma agent_view_unload:
  assumes inv: "agent_inv a"
  shows "agent_view (snd (unloadProgram stamp k a)) = (agent_view a)(k := None)"
proof (cases "map_get (ag_loadedPrograms a) k")
  case None
  then show ?thesis by (auto simp: unloadProgram_absent agent_view_def fun_eq_iff)
next
  case (Some addr)
  show ?thesis
  proof
    fix k'
    have "map_get (ag_loadedPrograms a) k' = Some b \<Longrightarrow> prog_view ((ag_heap a)[addr := (ag_heap a ! addr)\<lparr>lp_Status := PUnloaded\<rparr>] ! b)
        = prog_view (ag_heap a ! b)" for b
      using agent_inv_entry(1) [OF inv] by (cases "b = addr") (auto simp: prog_view_def)
    then show "agent_view (snd (unloadProgram stamp k a)) k' = ((agent_view a)(k := None)) k'"
      unfolding unloadProgram_ok [OF inv Some]
      by (cases "map_get (ag_loadedPrograms a) k'") (auto simp: agent_view_def map_get_delete_fun)
  qed
qed

lemma agent_view_load:
  assumes inv: "agent_inv a" and l: "process_load lib hostEnv stamp now download artifact a = Some a'"
  shows "agent_view a' = agent_view a \<or> (\<exists>v. agent_view a' = (agent_view a)(ai_ArtifactID artifact \<mapsto> v))"
proof -
  have "agent_view (store_program now stamp k ttl p a) = (agent_view a)(k \<mapsto> prog_view p)" for k ttl p
  proof
    fix k'
    show "agent_view (store_program now stamp k ttl p a) k' = ((agent_view a)(k \<mapsto> prog_view p)) k'"
      using agent_inv_entry(1) [OF inv, of k']
      by (cases "map_get (ag_loadedPrograms a) k'")
        (auto simp: agent_view_def store_program_def setTTLTimer_def Let_def nth_append)
  qed
  with l show ?thesis
    by (auto simp: process_load_def Let_def simp del: split_paired_Ex split: option.splits loaded.splits)
qed

lemma agent_view_update_telemetry:
  assumes inv: "agent_inv a"
  shows "agent_view (update_telemetry stamp k t a) = agent_view a"
proof -
  obtain tm rm hp ts where u: "TM_UpdateTelemetry stamp k t (ag_tm a) (ag_rm a, ag_heap a) = (tm, (rm, hp), ts)"
    by (metis prod_cases3 surj_pair)
  have "map prog_view hp = map prog_view (ag_heap a)"
    by (rule TM_Update_heap [OF u]) (simp add: prog_view_def)
  then have "agent_view (a\<lparr>ag_tm := tm, ag_rm := rm, ag_heap := hp, ag_tasks := ag_tasks a @ ts\<rparr>) = agent_view a"
    by (intro agent_view_frame [OF inv]) simp_all
  then show ?thesis by (simp add: update_telemetry_def u)
qed

lemma agent_view_rollback:
  "agent_inv a \<Longrightarrow> agent_view (handleRollbackEvent g stamp ev a) = (agent_view a)(re_ArtifactID ev := None)"
  using agent_view_unload [of a stamp "re_ArtifactID ev"]
  by (auto simp: handleRollbackEvent_def split: prod.splits option.splits)

lemma agent_view_shutdown:
  assumes "agent_inv a"
  shows "agent_view (shutdown stamp a) = (\<lambda>_. None)"
proof -
  have "agent_inv a \<Longrightarrow> agent_view (fold (\<lambda>k a. snd (unloadProgram stamp k a)) ks a) k =
      (if k \<in> set ks then None else agent_view a k)" for ks k and a
    by (induction ks arbitrary: a) (auto simp: agent_inv_unload agent_view_unload)
  from this [OF assms] show ?thesis
    by (auto simp: shutdown_def fun_eq_iff agent_view_def map_of_eq_None_iff)
qed

text \<open>
  C26. Refinement: seen from outside, the agent with all its tables, timers, queues and goroutines is
  a table of programs that changes only as the label of the step says. In particular a program
  is removed only by its timer, by an expired time to live, by a rollback or by shutdown.
\<close>

theorem agent_refines_view:
  assumes "reach agent_init (\<lambda>a a'. \<exists>l. agent_step lib g l a a') a" "agent_step lib g l a a'"
  shows "view_step l (agent_view a) (agent_view a')"
proof -
  have inv: "agent_inv a" by (rule agentsys.reach_inv [OF assms(1)])
  from assms(2) show ?thesis
  proof (cases rule: agent_step.cases)
    case (finish_artifact artifact hostEnv stamp now download)
    have "agent_inv (a\<lparr>ag_pending := remove1 artifact (ag_pending a)\<rparr>)" using inv by simp
    from agent_view_load [OF this finish_artifact(3)] finish_artifact(1) show ?thesis by simp
  next
    case (telemetry stamp evo tm rm hp ts)
    show ?thesis
    proof (cases "\<exists>ev. evo = Some ev \<and> te_Type ev = ''program_telemetry''")
      case True
      then obtain ev where "evo = Some ev" "te_Type ev = ''program_telemetry''" by auto
      with telemetry have "a' = update_telemetry stamp (pt_ArtifactID (te_Data ev)) (te_Data ev) a"
        by (simp add: handleTelemetryEvent_def update_telemetry_def)
      with telemetry(1) agent_view_update_telemetry [OF inv] show ?thesis by simp
    next
      case False
      with telemetry show ?thesis by (auto simp: handleTelemetryEvent_def split: option.splits if_splits)
    qed
  next
    case (monitor_tick stamp rm ts)
    have "agent_view ((a\<lparr>ag_rm := rm\<rparr>)\<lparr>ag_tasks := ag_tasks a @ ts\<rparr>) = agent_view a" by (simp only: agent_view_other)
    with monitor_tick show ?thesis by simp
  next
    case (run t stamp)
    have "agent_inv (drop_task t a)" "agent_view (drop_task t a) = agent_view a"
      using inv by (simp_all add: drop_task_def)
    with run show ?thesis
      by (cases t) (simp_all add: agent_view_rollback agent_view_unload handleTelemetryThreshold_def
          agent_view_update_telemetry)
  qed (use inv in \<open>auto simp: agent_view_unload checkTTLExpiration_def rollback_round_def
      Agent_RequestRollback_def UpdateRollbackThresholds_def Agent_SendTelemetry_def agent_view_shutdown
      split: prod.splits\<close>)
qed


section \<open>Rollbacks take effect\<close>

fun is_rollback :: "task \<Rightarrow> bool" where
  "is_rollback (RunRollback _) = True"
| "is_rollback _ = False"

text \<open>The processing loop works the queue off, then the callbacks it has started run.\<close>

definition drain :: "(float64 \<Rightarrow> string) \<Rightarrow> string \<Rightarrow> agent \<Rightarrow> agent" where
  "drain g stamp a =
     (let b = (rollback_round ^^ length (rm_rollbackQueue (ag_rm a))) a
      in fold (run_task g stamp) (filter is_rollback (ag_tasks b)) b)"

lemma rollback_round_event:
  assumes inv: "agent_inv a" and q: "rm_rollbackQueue (ag_rm a) = ev # q"
  shows "rm_rollbackQueue (ag_rm (rollback_round a)) = q"
    and "ag_loadedPrograms (rollback_round a) = ag_loadedPrograms a"
    and "set (ag_tasks a) \<subseteq> set (ag_tasks (rollback_round a))"
    and "map_get (ag_loadedPrograms a) (re_ArtifactID ev) \<noteq> None \<Longrightarrow>
      RunRollback (ev\<lparr>re_Status := ''in_progress''\<rparr>) \<in> set (ag_tasks (rollback_round a))"
proof -
  have cb: "rm_callbacks (ag_rm a) = [HandleRollbackEvent]"
    and same: "map_get (rm_loadedPrograms (ag_rm a)) = map_get (ag_loadedPrograms a)"
    using inv by (simp_all add: agent_inv_def)
  show "rm_rollbackQueue (ag_rm (rollback_round a)) = q"
    and "ag_loadedPrograms (rollback_round a) = ag_loadedPrograms a"
    and "set (ag_tasks a) \<subseteq> set (ag_tasks (rollback_round a))"
    by (auto simp: rollback_round_def rollback_loop_step_def q processRollbackEvent_def emitRollbackStatus_def Let_def
        split: option.splits)
  show "RunRollback (ev\<lparr>re_Status := ''in_progress''\<rparr>) \<in> set (ag_tasks (rollback_round a))"
    if "map_get (ag_loadedPrograms a) (re_ArtifactID ev) \<noteq> None"
    using that same cb
    by (auto simp: rollback_round_def rollback_loop_step_def q processRollbackEvent_def RM_notifyCallbacks_def Let_def
        simp del: map_of_eq_Some_iff)
qed

lemma rollback_rounds:
  assumes "agent_inv a" "rm_rollbackQueue (ag_rm a) = q"
  defines "b \<equiv> (rollback_round ^^ length q) a"
  shows "agent_inv b \<and> ag_loadedPrograms b = ag_loadedPrograms a \<and> set (ag_tasks a) \<subseteq> set (ag_tasks b)
    \<and> (\<forall>ev \<in> set q. map_get (ag_loadedPrograms a) (re_ArtifactID ev) \<noteq> None \<longrightarrow>
         RunRollback (ev\<lparr>re_Status := ''in_progress''\<rparr>) \<in> set (ag_tasks b))"
  using assms(1,2) unfolding b_def
proof (induction q arbitrary: a)
  case Nil
  then show ?case by simp
next
  case (Cons ev q)
  note r = rollback_round_event [OF Cons.prems]
  note IH = Cons.IH [OF agent_inv_round [OF Cons.prems(1)] r(1)]
  have "(rollback_round ^^ length (ev # q)) a = (rollback_round ^^ length q) (rollback_round a)"
    by (simp only: length_Cons funpow_Suc_right o_apply)
  with IH r(2-4) show ?case by (auto simp del: map_of_eq_Some_iff funpow.simps)
qed

lemma fold_rollbacks:
  assumes "agent_inv b" "\<forall>t \<in> set ts. is_rollback t"
  shows "agent_view (fold (run_task g stamp) ts b) k = None \<longleftrightarrow>
    agent_view b k = None \<or> (\<exists>ev. RunRollback ev \<in> set ts \<and> re_ArtifactID ev = k)"
  using assms
proof (induction ts arbitrary: b)
  case Nil
  then show ?case by simp
next
  case (Cons t ts)
  then obtain ev where t: "t = RunRollback ev" by (cases t) auto
  have "agent_view (fold (run_task g stamp) ts (handleRollbackEvent g stamp ev b)) k = None \<longleftrightarrow>
      agent_view (handleRollbackEvent g stamp ev b) k = None \<or> (\<exists>ev. RunRollback ev \<in> set ts \<and> re_ArtifactID ev = k)"
    using Cons.IH [OF agent_inv_handleRollback [OF Cons.prems(1)]] Cons.prems(2) by simp
  then show ?case using agent_view_rollback [OF Cons.prems(1), of g stamp ev] t by auto
qed

lemma drain_unloads:
  assumes inv: "agent_inv a" and ev: "ev \<in> set (rm_rollbackQueue (ag_rm a))"
  shows "agent_view (drain g stamp a) (re_ArtifactID ev) = None"
proof -
  define b where "b = (rollback_round ^^ length (rm_rollbackQueue (ag_rm a))) a"
  note r = rollback_rounds [OF inv refl, folded b_def]
  have d: "drain g stamp a = fold (run_task g stamp) (filter is_rollback (ag_tasks b)) b"
    by (simp add: drain_def b_def Let_def)
  show ?thesis
  proof (cases "map_get (ag_loadedPrograms a) (re_ArtifactID ev)")
    case None
    with r have "agent_view b (re_ArtifactID ev) = None" by (simp add: agent_view_def)
    with r show ?thesis unfolding d by (subst fold_rollbacks) auto
  next
    case (Some addr)
    with r ev have "RunRollback (ev\<lparr>re_Status := ''in_progress''\<rparr>) \<in> set (ag_tasks b)" by blast
    then have "\<exists>ev'. RunRollback ev' \<in> set (filter is_rollback (ag_tasks b)) \<and> re_ArtifactID ev' = re_ArtifactID ev"
      by (intro exI [of _ "ev\<lparr>re_Status := ''in_progress''\<rparr>"]) simp
    with r show ?thesis unfolding d by (subst fold_rollbacks) auto
  qed
qed

lemma exceeded_enqueued:
  assumes inv: "agent_inv a" and k: "map_get (ag_loadedPrograms a) k \<noteq> None"
    and t: "checkThresholds (tm_thresholds (ag_tm a)) t" and q: "length (rm_rollbackQueue (ag_rm a)) < 100"
  shows "\<exists>ev \<in> set (rm_rollbackQueue (ag_rm (update_telemetry stamp k t a))). re_ArtifactID ev = k"
proof -
  obtain tm rm hp ts where u: "TM_UpdateTelemetry stamp k t (ag_tm a) (ag_rm a, ag_heap a) = (tm, (rm, hp), ts)"
    by (metis prod_cases3 surj_pair)
  then obtain rm1 where c: "check_telemetry stamp k t tm (ag_rm a) = (rm1, ts)"
    and r: "RM_UpdateTelemetry stamp k t (rm1, ag_heap a) = (rm, hp)"
    and tm: "tm = (ag_tm a)\<lparr>tm_monitoringData := map_set k t (tm_monitoringData (ag_tm a))\<rparr>"
    by (rule TM_Update_obtain)
  have same: "map_get (rm_loadedPrograms (ag_rm a)) k \<noteq> None" using inv k by (simp add: agent_inv_def)
  have "\<exists>ev \<in> set (rm_rollbackQueue rm1). re_ArtifactID ev = k"
    using c t q same
    by (auto simp: check_telemetry_def tm TM_triggerRollback_def RM_RequestRollback_def triggerRollback_def Let_def
        split: prod.splits option.splits)
  moreover have "set (rm_rollbackQueue rm1) \<subseteq> set (rm_rollbackQueue rm)"
    using r by (auto simp: RM_UpdateTelemetry_def trigger_if_def triggerRollback_def Let_def
        split: option.splits prod.splits if_splits)
  ultimately show ?thesis by (auto simp: update_telemetry_def u)
qed

text \<open>
  C27. A loaded program whose telemetry exceeds one of the monitor's limits is unloaded, unless
  the rollback queue is full: once the queue has been worked off and the callbacks have run, the
  agent no longer holds it.
\<close>

theorem exceeded_program_is_unloaded:
  assumes "reach agent_init (\<lambda>a a'. \<exists>l. agent_step lib g l a a') a"
    and "map_get (ag_loadedPrograms a) k \<noteq> None" "checkThresholds (tm_thresholds (ag_tm a)) t"
    and "length (rm_rollbackQueue (ag_rm a)) < 100"
  shows "agent_view (drain g stamp' (update_telemetry stamp k t a)) k = None"
proof -
  have inv: "agent_inv a" by (rule agentsys.reach_inv [OF assms(1)])
  from exceeded_enqueued [OF inv assms(2-4)]
  obtain ev where "ev \<in> set (rm_rollbackQueue (ag_rm (update_telemetry stamp k t a)))" "re_ArtifactID ev = k" by blast
  with drain_unloads [OF agent_inv_update_telemetry [OF inv], of ev stamp k t g stamp'] show ?thesis by simp
qed

section \<open>The threshold callback starts itself again\<close>

text \<open>
  The callback for an exceeded limit hands the telemetry back to the monitor, which starts the
  callback again: as long as the limits stay the same, the agent is never without that task, and
  the number of its tasks does not go down.
\<close>

lemma threshold_callback_never_ends:
  assumes "reach agent_init (\<lambda>a a'. \<exists>l. agent_step lib g l a a') a"
    and "RunThreshold k t th v \<in> set (ag_tasks a)" "checkThresholds (tm_thresholds (ag_tm a)) t"
    and "a' = run_task g stamp (RunThreshold k t th v) (drop_task (RunThreshold k t th v) a)"
  shows "(\<exists>th' v'. RunThreshold k t th' v' \<in> set (ag_tasks a')) \<and> length (ag_tasks a') = length (ag_tasks a)
    \<and> tm_thresholds (ag_tm a') = tm_thresholds (ag_tm a)"
proof -
  let ?b = "drop_task (RunThreshold k t th v) a"
  have cb: "tm_callbacks (ag_tm a) = [HandleTelemetryThreshold]"
    using agentsys.reach_inv [OF assms(1)] by (simp add: agent_inv_def)
  obtain tm rm hp ts where u: "TM_UpdateTelemetry stamp k t (ag_tm a) (ag_rm a, ag_heap a) = (tm, (rm, hp), ts)"
    by (metis prod_cases3 surj_pair)
  have "\<exists>th' v'. ts = [RunThreshold k t th' v']"
    using u assms(3) cb
    by (auto simp: TM_UpdateTelemetry_def check_telemetry_def TM_triggerRollback_def TM_notifyCallbacks_def Let_def
        split: prod.splits)
  then obtain th' v' where ts: "ts = [RunThreshold k t th' v']" by blast
  have "ag_tasks a' = remove1 (RunThreshold k t th v) (ag_tasks a) @ ts" "ag_tm a' = tm"
    unfolding assms(4) by (simp_all add: handleTelemetryThreshold_def update_telemetry_def drop_task_def u)
  moreover have "0 < length (ag_tasks a)" using assms(2) by (cases "ag_tasks a") auto
  ultimately show ?thesis using assms(2) TM_Update_frame(4) [OF u]
    by (intro conjI exI [of _ th'] exI [of _ v']) (simp_all add: ts length_remove1)
qed

section \<open>The limit on programs\<close>

lemma program_limit_sequential:
  assumes "process_check artifact a" "process_load lib hostEnv stamp now download artifact a = Some a'"
    and "getLoadedProgramCount a \<le> cfg_MaxPrograms (ag_config a)"
  shows "getLoadedProgramCount a' \<le> cfg_MaxPrograms (ag_config a)"
  using assms
  by (auto simp: process_check_def process_load_def getLoadedProgramCount_def store_program_def setTTLTimer_def
      length_map_set Let_def split: option.splits loaded.splits if_splits)

end
