(* ===== verification/Agent_Examples.thy ===== *)
theory Agent_Examples
  imports Agent_Properties
begin

text \<open>
  Instances of the agent's theorems: an agent limited to one program, two artifacts processed at the
  same time, and telemetry with too many errors.
\<close>

definition ex_bpf :: bpf_lib where
  "ex_bpf = \<lparr>bl_zstd = (\<lambda>_. Some [TarFile ''program.o'' (Some ''obj'')]), bl_json = (\<lambda>_. Some []),
     bl_collection = (\<lambda>_. Inr \<lparr>bc_programs = [(''p'', Tracing, True)], bc_maps = []\<rparr>)\<rparr>"

definition ex_env_limit :: "string \<Rightarrow> string" where
  "ex_env_limit k = (if k = ''AGENT_MAX_PROGRAMS'' then ''1'' else '''')"

definition ex_cfg :: agent_config where
  "ex_cfg = (case Config_Load (\<lambda>_. None) ex_env_limit of Inr c \<Rightarrow> c)"

definition ex_artifact_info :: "string \<Rightarrow> artifact_info" where
  "ex_artifact_info k = \<lparr>ai_ArtifactID = k, ai_Name = ''n'', ai_Version = ''1'', ai_Signature = ''s'',
     ai_Parameters = '''', ai_TTLSec = Some 60\<rparr>"

definition ex_g :: "float64 \<Rightarrow> string" where
  "ex_g x = ''0''"

definition ex_start :: agent where
  "ex_start = Run_callbacks (New_Agent ex_cfg)"

definition ex_begun :: agent where
  "ex_begun = ex_start\<lparr>ag_pending := [ex_artifact_info ''y'', ex_artifact_info ''x'']\<rparr>"

definition ex_finish :: "string \<Rightarrow> agent \<Rightarrow> agent" where
  "ex_finish k a = (case process_load ex_bpf ''h'' ''t'' 0 (Some ''d'') (ex_artifact_info k)
     (a\<lparr>ag_pending := remove1 (ex_artifact_info k) (ag_pending a)\<rparr>) of None \<Rightarrow> a | Some a' \<Rightarrow> a')"

definition ex_one :: agent where
  "ex_one = ex_finish ''x'' ex_begun"

definition ex_two_loaded :: agent where
  "ex_two_loaded = ex_finish ''y'' ex_one"

definition ex_errors :: program_telemetry where
  "ex_errors = zero_telemetry\<lparr>pt_ArtifactID := ''x'', pt_Errors := 11\<rparr>"

definition ex_alarmed :: agent where
  "ex_alarmed = update_telemetry ''t'' ''x'' ex_errors ex_one"

abbreviation ex_agent_reach :: "agent \<Rightarrow> bool" where
  "ex_agent_reach a \<equiv> reach agent_init (\<lambda>a a'. \<exists>l. agent_step ex_bpf ex_g l a a') a"

lemma ex_agent_reach_step: "ex_agent_reach a \<Longrightarrow> agent_step ex_bpf ex_g l a a' \<Longrightarrow> ex_agent_reach a'"
  by (erule reach_step) blast

lemma ex_reach_start: "ex_agent_reach ex_start"
  by (rule reach_init) (auto simp: agent_init_def ex_start_def)

lemma ex_reach_begun: "ex_agent_reach ex_begun"
proof -
  have c: "process_check (ex_artifact_info ''x'') ex_start"
    "process_check (ex_artifact_info ''y'') (ex_start\<lparr>ag_pending := ex_artifact_info ''x'' # ag_pending ex_start\<rparr>)"
    by code_simp+
  have "ex_agent_reach (ex_start\<lparr>ag_pending := ex_artifact_info ''x'' # ag_pending ex_start\<rparr>)"
    by (rule ex_agent_reach_step [OF ex_reach_start]) (rule agent_step.begin_artifact [OF c(1)])
  from ex_agent_reach_step [OF this agent_step.begin_artifact [OF c(2)]]
  show ?thesis by (simp add: ex_begun_def ex_start_def Run_callbacks_def New_Agent_def)
qed

lemma ex_finish_step:
  assumes "ex_agent_reach a" "ex_artifact_info k \<in> set (ag_pending a)"
    and "process_load ex_bpf ''h'' ''t'' 0 (Some ''d'') (ex_artifact_info k)
     (a\<lparr>ag_pending := remove1 (ex_artifact_info k) (ag_pending a)\<rparr>) = Some (ex_finish k a)"
  shows "ex_agent_reach (ex_finish k a)"
  by (rule ex_agent_reach_step [OF assms(1)]) (rule agent_step.finish_artifact [OF assms(2,3)])

lemma ex_reach_one: "ex_agent_reach ex_one"
  unfolding ex_one_def by (rule ex_finish_step [OF ex_reach_begun]; code_simp)

lemma ex_reach_two: "ex_agent_reach ex_two_loaded"
  unfolding ex_two_loaded_def by (rule ex_finish_step [OF ex_reach_one]; code_simp)

text \<open>The limit on programs is checked before the download only: two artifacts processed at the same
  time both pass the check, and an agent configured for one program holds two.\<close>

lemma program_limit_exceeded:
  "\<exists>a. ex_agent_reach a \<and> cfg_MaxPrograms (ag_config a) = 1 \<and> getLoadedProgramCount a = 2"
proof -
  have "cfg_MaxPrograms (ag_config ex_two_loaded) = 1" "getLoadedProgramCount ex_two_loaded = 2" by code_simp+
  with ex_reach_two show ?thesis by blast
qed

lemma ex_reach_alarmed: "ex_agent_reach ex_alarmed"
proof -
  define ev where "ev = \<lparr>te_Type = ''program_telemetry'', te_Timestamp = ''t'', te_Data = ex_errors, te_Metadata = []\<rparr>"
  obtain tm rm hp ts where u: "TM_UpdateTelemetry ''t'' ''x'' ex_errors (ag_tm ex_one) (ag_rm ex_one, ag_heap ex_one)
      = (tm, (rm, hp), ts)" by (metis prod_cases3 surj_pair)
  have "handleTelemetryEvent ''t'' (Some ev) (ag_tm ex_one) (ag_rm ex_one, ag_heap ex_one) = (tm, (rm, hp), ts)"
    using u by (simp add: handleTelemetryEvent_def ev_def ex_errors_def)
  from ex_agent_reach_step [OF ex_reach_one agent_step.telemetry [OF this]]
  show ?thesis by (simp add: ex_alarmed_def update_telemetry_def u)
qed


theorem agent_refines_view_witness:
  "agent_view (snd (unloadProgram ''t'' ''x'' ex_one)) = (agent_view ex_one)(''x'' := None)
   \<and> agent_view ex_one ''x'' \<noteq> None"
proof -
  have t: "map_get (ag_ttlTimers ex_one) ''x'' = Some 60000000000" by code_simp
  have "agent_step ex_bpf ex_g (LTimer ''x'') ex_one (snd (unloadProgram ''t'' ''x'' ex_one))"
    by (rule agent_step.timer [OF t, of 60000000000]) simp
  from agent_refines_view [OF ex_reach_one this]
  have "agent_view (snd (unloadProgram ''t'' ''x'' ex_one)) = (agent_view ex_one)(''x'' := None)" by simp
  moreover have "agent_view ex_one ''x'' \<noteq> None" by code_simp
  ultimately show ?thesis ..
qed

theorem exceeded_program_is_unloaded_witness:
  "agent_view (drain ex_g ''u'' (update_telemetry ''t'' ''x'' ex_errors ex_one)) ''x'' = None"
proof (rule exceeded_program_is_unloaded [OF ex_reach_one])
  show "map_get (ag_loadedPrograms ex_one) ''x'' \<noteq> None" by code_simp
  show "checkThresholds (tm_thresholds (ag_tm ex_one)) ex_errors" by code_simp
  show "length (rm_rollbackQueue (ag_rm ex_one)) < 100" by code_simp
qed

lemma threshold_callback_never_ends_witness:
  "let t = RunThreshold ''x'' ex_errors ''max_errors'' (RInt 11) in
   \<exists>th' v'. RunThreshold ''x'' ex_errors th' v' \<in> set (ag_tasks (run_task ex_g ''u'' t (drop_task t ex_alarmed)))"
proof -
  have "RunThreshold ''x'' ex_errors ''max_errors'' (RInt 11) \<in> set (ag_tasks ex_alarmed)" by code_simp
  moreover have "checkThresholds (tm_thresholds (ag_tm ex_alarmed)) ex_errors" by code_simp
  ultimately show ?thesis using threshold_callback_never_ends [OF ex_reach_alarmed _ _ refl] by (simp add: Let_def)
qed

end
