(* ===== verification/Gw_Model.thy ===== *)
theory Gw_Model
  imports Prelude
begin

text \<open>
  The websocket gateway, \<open>backend/websocket-gateway/internal\<close>: its messages and connections
  (\<open>types/messages.go\<close>), the authentication service (\<open>auth/service.go\<close>), the connection manager
  (\<open>gateway/connection.go\<close>) and the message router (\<open>gateway/router.go\<close>).

  JSON, base64, Ed25519, JWT, SHA-256 and ChaCha20-Poly1305 are the fields of \<open>ws_lib\<close>. A connection
  is an address in a heap, since tables, channels and goroutines share it. A write succeeds when the
  connection is open and the network takes it, which is an argument. A result of type \<open>option\<close> is
  \<^term>\<open>None\<close> when the code panics or blocks forever.
\<close>

section \<open>Data\<close>

record secure_message =
  sm_ID :: string
  sm_Type :: string
  sm_Channel :: string
  sm_Payload :: string
  sm_Timestamp :: int
  sm_Nonce :: string
  sm_Signature :: string
  sm_Headers :: "(string, string) gomap"

record authentication_request =
  aq_AgentID :: string
  aq_PublicKey :: string
  aq_Timestamp :: int
  aq_Nonce :: string
  aq_Signature :: string

record authentication_response =
  ar_Success :: bool
  ar_BackendKey :: string
  ar_SessionToken :: string
  ar_ExpiresAt :: int
  ar_Message :: string

text \<open>Where the goroutine of a connection stands: created and not yet in the table, in its loop, ended.\<close>

datatype stage = Accepted | Serving | Ended

record agent_connection =
  ac_AgentID :: string
  ac_PublicKey :: string
  ac_SessionToken :: string
  ac_LastSeen :: time
  ac_ConnectedAt :: time
  ac_IsAuthenticated :: bool
  ac_Channels :: "string list"
  ac_Metadata :: "(string, gval) gomap"
  ac_stage :: stage
  ac_open :: bool
  ac_deadline :: time
  ac_written :: "(int \<times> string) list"

record configuration =
  gc_Port :: int
  gc_MaxConnections :: int
  gc_HeartbeatInterval :: duration
  gc_ConnectionTimeout :: duration
  gc_SessionTimeout :: duration
  gc_ActionsAPIURL :: string

record connection_metrics =
  cm_TotalConnections :: int
  cm_ActiveConnections :: int
  cm_MessagesReceived :: int
  cm_MessagesSent :: int
  cm_AuthenticationFailures :: int
  cm_ConnectionErrors :: int
  cm_LastReset :: time

record queued_message =
  qm_Message :: secure_message
  qm_AgentID :: string
  qm_Priority :: int
  qm_CreatedAt :: time
  qm_RetryCount :: int
  qm_MaxRetries :: int

record channel =
  ch_Name :: string
  ch_Subscribers :: "(string, nat) gomap"
  ch_MessageQueue :: "queued_message list"

text \<open>A message of the actions API; \<^term>\<open>None\<close> is the nil map of headers.\<close>

record websocket_gateway_message =
  wm_ID :: string
  wm_Type :: string
  wm_Channel :: string
  wm_Payload :: string
  wm_Timestamp :: int
  wm_Headers :: "(string, string) gomap option"
  wm_TargetAgent :: string

record ws_lib =
  wl_b64dec :: "string \<Rightarrow> string option"
  wl_b64enc :: "string \<Rightarrow> string"
  wl_dec_message :: "string \<Rightarrow> secure_message option"
  wl_enc_message :: "secure_message \<Rightarrow> string"
  wl_dec_auth :: "string \<Rightarrow> authentication_request option"
  wl_enc_auth :: "authentication_response \<Rightarrow> string"
  wl_dec_object :: "string \<Rightarrow> (string, gval) gomap option"
  wl_dec_gateway :: "string \<Rightarrow> websocket_gateway_message option"
  wl_verify :: "string \<Rightarrow> string \<Rightarrow> string \<Rightarrow> bool"
  wl_sign :: "string \<Rightarrow> string \<Rightarrow> string"
  wl_jwt :: "string \<Rightarrow> (string, gval) gomap \<Rightarrow> string option"
  wl_sha256 :: "string \<Rightarrow> string"
  wl_seal :: "string \<Rightarrow> string \<Rightarrow> string \<Rightarrow> string"

definition unix :: "time \<Rightarrow> int" where
  "unix t = t div 1000000000"

definition VInt :: "int \<Rightarrow> gval" where
  "VInt n = VNum (Fin (rat_of_int n))"

text \<open>A type assertion to \<open>string\<close> whose result is not checked.\<close>

definition get_str :: "(string, gval) gomap \<Rightarrow> string \<Rightarrow> string" where
  "get_str m k = (case map_get m k of Some (VStr s) \<Rightarrow> s | _ \<Rightarrow> '''')"

definition get_val :: "(string, gval) gomap \<Rightarrow> string \<Rightarrow> gval" where
  "get_val m k = (case map_get m k of Some v \<Rightarrow> v | None \<Rightarrow> VNil)"

section \<open>The authentication service\<close>

record auth_service =
  as_privateKey :: string
  as_publicKey :: string
  as_SessionTimeout :: duration

definition DecryptAuthenticationRequest :: "ws_lib \<Rightarrow> secure_message \<Rightarrow> string + authentication_request" where
  "DecryptAuthenticationRequest lib message =
     (case wl_b64dec lib (sm_Payload message) of
        None \<Rightarrow> Inl ''failed to decode payload''
      | Some payload \<Rightarrow>
          (case wl_dec_auth lib payload of
             None \<Rightarrow> Inl ''failed to unmarshal authentication request''
           | Some req \<Rightarrow> Inr req))"

definition auth_data :: "authentication_request \<Rightarrow> string" where
  "auth_data req =
     aq_AgentID req @ '':'' @ aq_PublicKey req @ '':'' @ itoa (aq_Timestamp req) @ '':'' @ aq_Nonce req"

text \<open>\<open>ed25519.Verify\<close> panics on a public key that is not 32 bytes long.\<close>

definition verifySignature :: "ws_lib \<Rightarrow> authentication_request \<Rightarrow> string \<Rightarrow> bool option" where
  "verifySignature lib req publicKey =
     (case wl_b64dec lib (aq_Signature req) of
        None \<Rightarrow> Some False
      | Some sig \<Rightarrow> if length publicKey \<noteq> 32 then None else Some (wl_verify lib publicKey (auth_data req) sig))"

definition session_secret :: string where
  "session_secret = ''aegisflux-websocket-secret''"

definition generateSessionToken :: "ws_lib \<Rightarrow> auth_service \<Rightarrow> time \<Rightarrow> string \<Rightarrow> string option" where
  "generateSessionToken lib as now agentID =
     wl_jwt lib session_secret
       [(''agent_id'', VStr agentID), (''issued_at'', VInt (unix now)),
        (''expires_at'', VInt (unix (time_add now (as_SessionTimeout as)))), (''type'', VStr ''session'')]"

definition auth_refused :: "string \<Rightarrow> authentication_response" where
  "auth_refused msg =
     \<lparr>ar_Success = False, ar_BackendKey = '''', ar_SessionToken = '''', ar_ExpiresAt = 0, ar_Message = msg\<rparr>"

text \<open>Every failure is a response with \<open>Success\<close> false; the error result is always nil.\<close>

definition AuthenticateAgent ::
  "ws_lib \<Rightarrow> auth_service \<Rightarrow> time \<Rightarrow> authentication_request \<Rightarrow> string \<Rightarrow> authentication_response option" where
  "AuthenticateAgent lib as now req agentPublicKey =
     (case wl_b64dec lib (aq_PublicKey req) of
        None \<Rightarrow> Some (auth_refused ''Invalid public key format'')
      | Some reqPublicKey \<Rightarrow>
          if reqPublicKey \<noteq> agentPublicKey then Some (auth_refused ''Public key mismatch'')
          else
            (case verifySignature lib req agentPublicKey of
               None \<Rightarrow> None
             | Some False \<Rightarrow> Some (auth_refused ''Invalid signature'')
             | Some True \<Rightarrow>
                 (case generateSessionToken lib as now (aq_AgentID req) of
                    None \<Rightarrow> Some (auth_refused ''Failed to generate session token'')
                  | Some token \<Rightarrow>
                      Some \<lparr>ar_Success = True, ar_BackendKey = wl_b64enc lib (as_publicKey as),
                            ar_SessionToken = token,
                            ar_ExpiresAt = unix (time_add now (as_SessionTimeout as)),
                            ar_Message = ''Authentication successful''\<rparr>)))"

definition sign_data :: "secure_message \<Rightarrow> string" where
  "sign_data m =
     sm_ID m @ '':'' @ sm_Type m @ '':'' @ sm_Channel m @ '':'' @ itoa (sm_Timestamp m) @ '':'' @ sm_Payload m"

definition signMessage :: "ws_lib \<Rightarrow> auth_service \<Rightarrow> secure_message \<Rightarrow> string" where
  "signMessage lib as m = wl_b64enc lib (wl_sign lib (as_privateKey as) (sign_data m))"

definition EncryptAuthenticationResponse ::
  "ws_lib \<Rightarrow> auth_service \<Rightarrow> time \<Rightarrow> authentication_response \<Rightarrow> secure_message" where
  "EncryptAuthenticationResponse lib as now resp =
     (let message = \<lparr>sm_ID = '''', sm_Type = '''', sm_Channel = '''',
            sm_Payload = wl_b64enc lib (wl_enc_auth lib resp), sm_Timestamp = unix now,
            sm_Nonce = wl_b64enc lib (replicate 12 (CHR 0x00)), sm_Signature = '''', sm_Headers = []\<rparr>
      in message\<lparr>sm_Signature := signMessage lib as message\<rparr>)"

definition DeriveSharedKey :: "ws_lib \<Rightarrow> auth_service \<Rightarrow> string \<Rightarrow> string" where
  "DeriveSharedKey lib as agentPublicKey = wl_sha256 lib (as_privateKey as @ agentPublicKey)"

section \<open>Writing to connections\<close>

definition write_conn :: "bool \<Rightarrow> int \<Rightarrow> string \<Rightarrow> agent_connection \<Rightarrow> bool \<times> agent_connection" where
  "write_conn net typ data c =
     (if ac_open c \<and> net then (True, c\<lparr>ac_written := ac_written c @ [(typ, data)]\<rparr>) else (False, c))"

definition close_conn :: "agent_connection \<Rightarrow> agent_connection" where
  "close_conn c = c\<lparr>ac_open := False\<rparr>"

definition TextMessage :: int where "TextMessage = 1"
definition BinaryMessage :: int where "BinaryMessage = 2"
definition CloseMessage :: int where "CloseMessage = 8"
definition PingMessage :: int where "PingMessage = 9"
definition PongMessage :: int where "PongMessage = 10"

type_synonym conns = "agent_connection list"

section \<open>The connection manager\<close>

text \<open>Its table and the heap it points into.\<close>

record connection_manager =
  mg_Connections :: "(string, nat) gomap"
  mg_heap :: conns

definition NewConnectionManager :: "conns \<Rightarrow> connection_manager" where
  "NewConnectionManager hp = \<lparr>mg_Connections = [], mg_heap = hp\<rparr>"

definition mg_close :: "string \<Rightarrow> connection_manager \<Rightarrow> connection_manager" where
  "mg_close agentID m =
     (case map_get (mg_Connections m) agentID of
        None \<Rightarrow> m
      | Some i \<Rightarrow> m\<lparr>mg_heap := (mg_heap m)[i := close_conn (mg_heap m ! i)]\<rparr>)"

definition RegisterConnection :: "string \<Rightarrow> nat \<Rightarrow> connection_manager \<Rightarrow> connection_manager" where
  "RegisterConnection agentID i m =
     (let m1 = mg_close agentID m in m1\<lparr>mg_Connections := map_set agentID i (mg_Connections m1)\<rparr>)"

definition UnregisterConnection :: "string \<Rightarrow> connection_manager \<Rightarrow> connection_manager" where
  "UnregisterConnection agentID m =
     (let m1 = mg_close agentID m in m1\<lparr>mg_Connections := map_delete agentID (mg_Connections m1)\<rparr>)"

definition GetConnection :: "string \<Rightarrow> connection_manager \<Rightarrow> nat option" where
  "GetConnection agentID m = map_get (mg_Connections m) agentID"

definition SendToAgent :: "bool \<Rightarrow> string \<Rightarrow> string \<Rightarrow> connection_manager \<Rightarrow> string option \<times> connection_manager" where
  "SendToAgent net agentID message m =
     (case GetConnection agentID m of
        None \<Rightarrow> (Some (''agent '' @ agentID @ '' not connected''), m)
      | Some i \<Rightarrow>
          (case write_conn net TextMessage message (mg_heap m ! i) of
             (ok, c) \<Rightarrow> (if ok then None else Some ''write failed'', m\<lparr>mg_heap := (mg_heap m)[i := c]\<rparr>)))"

fun broadcast_loop :: "(nat \<Rightarrow> bool) \<Rightarrow> string \<Rightarrow> (string \<times> nat) list \<Rightarrow> string list \<Rightarrow> conns \<Rightarrow> string list \<times> conns" where
  "broadcast_loop net message [] errs hp = (errs, hp)"
| "broadcast_loop net message ((agentID, i) # rest) errs hp =
     (case write_conn (net i) TextMessage message (hp ! i) of
        (ok, c) \<Rightarrow> broadcast_loop net message rest
          (if ok then errs else errs @ [''failed to send to agent '' @ agentID]) (hp[i := c]))"

definition BroadcastToAllAgents ::
  "(nat \<Rightarrow> bool) \<Rightarrow> string \<Rightarrow> connection_manager \<Rightarrow> string option \<times> connection_manager" where
  "BroadcastToAllAgents net message m =
     (case broadcast_loop net message (mg_Connections m) [] (mg_heap m) of
        (errs, hp) \<Rightarrow> (if errs \<noteq> [] then Some (''broadcast failed: ['' @ join_with '' '' errs @ '']'') else None,
                      m\<lparr>mg_heap := hp\<rparr>))"

definition GetConnectionCount :: "connection_manager \<Rightarrow> nat" where
  "GetConnectionCount m = length (mg_Connections m)"

definition GetConnectionStats :: "connection_manager \<Rightarrow> nat \<times> nat \<times> nat" where
  "GetConnectionStats m =
     fold (\<lambda>i (total, auth, unauth).
             if ac_IsAuthenticated (mg_heap m ! i) then (total, auth + 1, unauth) else (total, auth, unauth + 1))
       (map_values (mg_Connections m)) (length (mg_Connections m), 0, 0)"

section \<open>The message router\<close>

text \<open>The handlers that the gateway registers.\<close>

datatype ws_handler =
    HandleHeartbeat | HandleRegistration | HandleRegistrationComplete | HandlePolicies | HandleAnomalies
  | HandleThreats | HandleProcesses | HandleStatus | HandleLogs

record message_router =
  mr_handlers :: "(string, ws_handler) gomap"
  mr_channels :: "(string, channel) gomap"

definition NewMessageRouter :: message_router where
  "NewMessageRouter = \<lparr>mr_handlers = [], mr_channels = []\<rparr>"

definition RegisterHandler :: "string \<Rightarrow> ws_handler \<Rightarrow> message_router \<Rightarrow> message_router" where
  "RegisterHandler ch h r = r\<lparr>mr_handlers := map_set ch h (mr_handlers r)\<rparr>"

definition UnregisterHandler :: "string \<Rightarrow> message_router \<Rightarrow> message_router" where
  "UnregisterHandler ch r = r\<lparr>mr_handlers := map_delete ch (mr_handlers r)\<rparr>"

definition getHandlerForChannel :: "message_router \<Rightarrow> string \<Rightarrow> ws_handler option" where
  "getHandlerForChannel r ch =
     (case map_get (mr_handlers r) ch of
        Some h \<Rightarrow> Some h
      | None \<Rightarrow>
          let parts = split_on (CHR ''.'') ch
          in if length parts \<ge> 3 then map_get (mr_handlers r) (parts ! 0 @ ''.*.'' @ parts ! 2) else None)"

definition RouteMessage ::
  "message_router \<Rightarrow> (ws_handler \<Rightarrow> secure_message \<Rightarrow> 's \<Rightarrow> string option \<times> 's) \<Rightarrow> secure_message \<Rightarrow> 's
   \<Rightarrow> string option \<times> 's" where
  "RouteMessage r run message s =
     (case getHandlerForChannel r (sm_Channel message) of
        None \<Rightarrow> (Some (''no handler for channel: '' @ sm_Channel message), s)
      | Some h \<Rightarrow> run h message s)"

definition CreateChannel :: "string \<Rightarrow> message_router \<Rightarrow> message_router" where
  "CreateChannel nm r =
     r\<lparr>mr_channels := map_set nm \<lparr>ch_Name = nm, ch_Subscribers = [], ch_MessageQueue = []\<rparr> (mr_channels r)\<rparr>"

text \<open>For a missing channel the code calls \<open>CreateChannel\<close>, which takes the lock the caller already
  holds: the call does not return.\<close>

definition SubscribeToChannel :: "string \<Rightarrow> string \<Rightarrow> nat \<Rightarrow> message_router \<Rightarrow> message_router option" where
  "SubscribeToChannel agentID channelName i r =
     (case map_get (mr_channels r) channelName of
        None \<Rightarrow> None
      | Some c \<Rightarrow>
          Some (r\<lparr>mr_channels := map_set channelName
                   (c\<lparr>ch_Subscribers := map_set agentID i (ch_Subscribers c)\<rparr>) (mr_channels r)\<rparr>))"

definition UnsubscribeFromChannel :: "string \<Rightarrow> string \<Rightarrow> message_router \<Rightarrow> string option \<times> message_router" where
  "UnsubscribeFromChannel agentID channelName r =
     (case map_get (mr_channels r) channelName of
        None \<Rightarrow> (Some (''channel '' @ channelName @ '' does not exist''), r)
      | Some c \<Rightarrow>
          (None, r\<lparr>mr_channels := map_set channelName
                   (c\<lparr>ch_Subscribers := map_delete agentID (ch_Subscribers c)\<rparr>) (mr_channels r)\<rparr>))"

text \<open>\<open>sendToAgent\<close> logs the message and sends nothing, so that a broadcast reaches no one.\<close>

definition BroadcastToChannel :: "string \<Rightarrow> message_router \<Rightarrow> string option" where
  "BroadcastToChannel channelName r =
     (case map_get (mr_channels r) channelName of
        None \<Rightarrow> Some (''channel '' @ channelName @ '' not found'')
      | Some _ \<Rightarrow> None)"

definition GetChannelStats :: "message_router \<Rightarrow> nat \<times> nat \<times> (string, nat \<times> nat) gomap" where
  "GetChannelStats r =
     (length (mr_channels r), length (mr_handlers r),
      map (\<lambda>(nm, c). (nm, (length (ch_Subscribers c), length (ch_MessageQueue c)))) (mr_channels r))"

section \<open>Facts\<close>

lemma write_conn_simps [simp]:
  "ac_AgentID (snd (write_conn net t d c)) = ac_AgentID c"
  "ac_PublicKey (snd (write_conn net t d c)) = ac_PublicKey c"
  "ac_stage (snd (write_conn net t d c)) = ac_stage c"
  "ac_open (snd (write_conn net t d c)) = ac_open c"
  "ac_IsAuthenticated (snd (write_conn net t d c)) = ac_IsAuthenticated c"
  by (simp_all add: write_conn_def)

lemma close_conn_simps [simp]:
  "ac_AgentID (close_conn c) = ac_AgentID c" "ac_PublicKey (close_conn c) = ac_PublicKey c"
  "ac_stage (close_conn c) = ac_stage c" "ac_IsAuthenticated (close_conn c) = ac_IsAuthenticated c"
  "ac_written (close_conn c) = ac_written c" "\<not> ac_open (close_conn c)"
  by (simp_all add: close_conn_def)

lemma getHandler_direct: "map_get (mr_handlers r) ch = Some h \<Longrightarrow> getHandlerForChannel r ch = Some h"
  by (simp add: getHandlerForChannel_def)

text \<open>A successful authentication presupposes a valid signature by the key of the connection over the
  request, and a key of the right length.\<close>

lemma AuthenticateAgent_success:
  assumes "AuthenticateAgent lib as now req pk = Some resp" "ar_Success resp"
  shows "wl_b64dec lib (aq_PublicKey req) = Some pk" "length pk = 32"
    "\<exists>sig. wl_b64dec lib (aq_Signature req) = Some sig \<and> wl_verify lib pk (auth_data req) sig"
  using assms
  by (auto simp: AuthenticateAgent_def verifySignature_def auth_refused_def
      split: option.splits if_splits bool.splits)

end
