(* ===== verification/Gw_Gateway.thy ===== *)
theory Gw_Gateway
  imports Gw_Model
begin

text \<open>
  The gateway itself, \<open>gateway/server.go\<close> and \<open>gateway/http_handlers.go\<close>: upgrading, the loop that
  serves a connection, authentication, registration, messages from NATS, and the transition system
  of all connections.

  The answer of the actions API is an argument (\<open>api_answer\<close>), and the requests sent to it are
  recorded. The arguments \<open>net\<close> say which writes the network takes. A handler runs within one step;
  goroutines interleave between the messages they read.
\<close>

section \<open>State\<close>

record gateway =
  gw_agentConnections :: "(string, nat) gomap"
  gw_heap :: conns
  gw_authService :: auth_service
  gw_messageRouter :: message_router
  gw_config :: configuration
  gw_metrics :: connection_metrics
  gw_calls :: "(string \<times> (string, gval) gomap) list"
  gw_heartbeats :: "string list"
  gw_stopped :: bool

datatype api_answer = ApiError string | ApiReadError string | ApiReply int string

abbreviation upd_metrics :: "(connection_metrics \<Rightarrow> connection_metrics) \<Rightarrow> gateway \<Rightarrow> gateway" where
  "upd_metrics f g \<equiv> g\<lparr>gw_metrics := f (gw_metrics g)\<rparr>"

definition upd_conn :: "nat \<Rightarrow> (agent_connection \<Rightarrow> agent_connection) \<Rightarrow> gateway \<Rightarrow> gateway" where
  "upd_conn i f g = g\<lparr>gw_heap := (gw_heap g)[i := f (gw_heap g ! i)]\<rparr>"

definition write_to :: "bool \<Rightarrow> nat \<Rightarrow> string \<Rightarrow> gateway \<Rightarrow> bool \<times> gateway" where
  "write_to net i data g =
     (fst (write_conn net TextMessage data (gw_heap g ! i)),
      upd_conn i (\<lambda>c. snd (write_conn net TextMessage data c)) g)"

definition default_handlers :: "message_router \<Rightarrow> message_router" where
  "default_handlers r =
     (RegisterHandler ''agent.*.logs'' HandleLogs
     (RegisterHandler ''agent.*.status'' HandleStatus
     (RegisterHandler ''agent.*.processes'' HandleProcesses
     (RegisterHandler ''agent.*.threats'' HandleThreats
     (RegisterHandler ''agent.*.anomalies'' HandleAnomalies
     (RegisterHandler ''agent.*.policies'' HandlePolicies
     (RegisterHandler ''agent.registration.complete'' HandleRegistrationComplete
     (RegisterHandler ''agent.registration'' HandleRegistration
     (RegisterHandler ''agent.*.heartbeat'' HandleHeartbeat r)))))))))"

text \<open>\<open>NewWebSocketGateway\<close>, with the generated key pair as an argument.\<close>

definition NewWebSocketGateway :: "string \<Rightarrow> string \<Rightarrow> time \<Rightarrow> configuration \<Rightarrow> gateway" where
  "NewWebSocketGateway publicKey privateKey now config =
     \<lparr>gw_agentConnections = [], gw_heap = [],
      gw_authService = \<lparr>as_privateKey = privateKey, as_publicKey = publicKey,
                        as_SessionTimeout = gc_SessionTimeout config\<rparr>,
      gw_messageRouter = default_handlers NewMessageRouter, gw_config = config,
      gw_metrics = \<lparr>cm_TotalConnections = 0, cm_ActiveConnections = 0, cm_MessagesReceived = 0, cm_MessagesSent = 0,
                    cm_AuthenticationFailures = 0, cm_ConnectionErrors = 0, cm_LastReset = now\<rparr>,
      gw_calls = [], gw_heartbeats = [], gw_stopped = False\<rparr>"

definition trim_right :: "char \<Rightarrow> string \<Rightarrow> string" where
  "trim_right c s = rev (dropWhile (\<lambda>x. x = c) (rev s))"

definition actionsAPIEndpoint :: "configuration \<Rightarrow> string \<Rightarrow> string" where
  "actionsAPIEndpoint config path =
     (let baseURL = (if gc_ActionsAPIURL config = '''' then ''http://actions-api:8083'' else gc_ActionsAPIURL config)
      in trim_right (CHR ''/'') baseURL @ path)"

section \<open>Upgrading\<close>

definition new_connection :: "string \<Rightarrow> string \<Rightarrow> time \<Rightarrow> agent_connection" where
  "new_connection agentID publicKey now =
     \<lparr>ac_AgentID = agentID, ac_PublicKey = publicKey, ac_SessionToken = '''', ac_LastSeen = now, ac_ConnectedAt = now,
      ac_IsAuthenticated = False, ac_Channels = [], ac_Metadata = [], ac_stage = Accepted, ac_open = True,
      ac_deadline = zero_time, ac_written = []\<rparr>"

definition handleWebSocketUpgrade ::
  "ws_lib \<Rightarrow> time \<Rightarrow> bool \<Rightarrow> string \<Rightarrow> string \<Rightarrow> string \<Rightarrow> gateway \<Rightarrow> (int \<times> string) option \<times> gateway" where
  "handleWebSocketUpgrade lib now upgraded agentID publicKeyStr userAgent g =
     (if agentID = '''' \<or> publicKeyStr = '''' then
        (Some (400, ''Missing required headers: X-Agent-ID and X-Agent-Public-Key''), g)
      else if userAgent \<noteq> ''Aegis-Agent/1.0'' then (Some (400, ''Invalid user agent''), g)
      else case wl_b64dec lib publicKeyStr of
        None \<Rightarrow> (Some (400, ''Invalid public key format''), g)
      | Some publicKey \<Rightarrow>
          if int (length (gw_agentConnections g)) \<ge> gc_MaxConnections (gw_config g) then
            (Some (503, ''Maximum connections reached''), g)
          else if \<not> upgraded then
            (None, upd_metrics (\<lambda>m. m\<lparr>cm_ConnectionErrors := cm_ConnectionErrors m + 1\<rparr>) g)
          else (None, upd_metrics (\<lambda>m. m\<lparr>cm_TotalConnections := cm_TotalConnections m + 1\<rparr>)
                        (g\<lparr>gw_heap := gw_heap g @ [new_connection agentID publicKey now]\<rparr>)))"

section \<open>Handlers of messages\<close>

definition handleAuthentication ::
  "ws_lib \<Rightarrow> time \<Rightarrow> string \<Rightarrow> bool \<Rightarrow> nat \<Rightarrow> secure_message \<Rightarrow> gateway \<Rightarrow> (string option \<times> gateway) option" where
  "handleAuthentication lib now nano net i message g =
     (case DecryptAuthenticationRequest lib message of
        Inl e \<Rightarrow> Some (Some (''failed to decrypt authentication request: '' @ e),
                       upd_metrics (\<lambda>m. m\<lparr>cm_AuthenticationFailures := cm_AuthenticationFailures m + 1\<rparr>) g)
      | Inr authReq \<Rightarrow>
          (case AuthenticateAgent lib (gw_authService g) now authReq (ac_PublicKey (gw_heap g ! i)) of
             None \<Rightarrow> None
           | Some authResp \<Rightarrow>
               let g1 = upd_conn i (\<lambda>c. c\<lparr>ac_IsAuthenticated := True, ac_SessionToken := ar_SessionToken authResp\<rparr>) g;
                   enc = EncryptAuthenticationResponse lib (gw_authService g) now authResp;
                   response = \<lparr>sm_ID = ''auth_resp_'' @ nano, sm_Type = ''response'', sm_Channel = ''auth'',
                     sm_Payload = sm_Payload enc, sm_Timestamp = unix now, sm_Nonce = sm_Nonce enc,
                     sm_Signature = sm_Signature enc, sm_Headers = []\<rparr>
               in (case write_to net i (wl_enc_message lib response) g1 of
                     (ok, g2) \<Rightarrow>
                       if ok then Some (None, upd_metrics (\<lambda>m. m\<lparr>cm_MessagesSent := cm_MessagesSent m + 1\<rparr>) g2)
                       else Some (Some ''failed to send authentication response'', g2))))"

definition sendErrorResponse ::
  "ws_lib \<Rightarrow> time \<Rightarrow> string \<Rightarrow> bool \<Rightarrow> nat \<Rightarrow> string \<Rightarrow> string \<Rightarrow> int \<Rightarrow> int \<Rightarrow> gateway \<Rightarrow> gateway" where
  "sendErrorResponse lib now nano net i errorType message code retryAfter g =
     snd (write_to net i (wl_enc_message lib
       \<lparr>sm_ID = ''error_'' @ nano, sm_Type = ''response'', sm_Channel = ''error'',
        sm_Payload = ''{\"error\":\"'' @ errorType @ ''\",\"message\":\"'' @ message @ ''\",\"code\":'' @ itoa code
                     @ '',\"retry_after\":'' @ itoa retryAfter @ ''}'',
        sm_Timestamp = unix now, sm_Nonce = '''', sm_Signature = '''', sm_Headers = []\<rparr>) g)"

definition handleAgentHeartbeat :: "time \<Rightarrow> string \<Rightarrow> gateway \<Rightarrow> string option \<times> gateway" where
  "handleAgentHeartbeat now agentID g =
     (let g1 = (case map_get (gw_agentConnections g) agentID of
                  Some i \<Rightarrow> upd_conn i (\<lambda>c. c\<lparr>ac_LastSeen := now\<rparr>) g
                | None \<Rightarrow> g)
      in (None, g1\<lparr>gw_heartbeats := gw_heartbeats g1 @ [agentID]\<rparr>))"

text \<open>What the goroutine started by a heartbeat sends; its answer is only logged.\<close>

definition updateActionsAPIHeartbeat :: "string \<Rightarrow> string \<Rightarrow> gateway \<Rightarrow> gateway" where
  "updateActionsAPIHeartbeat stamp agentID g =
     g\<lparr>gw_calls := gw_calls g @ [(actionsAPIEndpoint (gw_config g) ''/agents/heartbeat'',
          [(''agent_uid'', VStr agentID), (''last_seen'', VStr stamp), (''status'', VStr ''active'')])]\<rparr>"

text \<open>The connection moves from its key to the identifier that the actions API has given to the agent.\<close>

definition rekey :: "string \<Rightarrow> string \<Rightarrow> gateway \<Rightarrow> string \<times> gateway" where
  "rekey agentID agentUID g =
     (if agentUID \<noteq> '''' \<and> agentUID \<noteq> agentID then
        (agentUID,
         case map_get (gw_agentConnections g) agentID of
           None \<Rightarrow> g
         | Some i \<Rightarrow>
             upd_conn i (\<lambda>c. c\<lparr>ac_AgentID := agentUID\<rparr>)
               (g\<lparr>gw_agentConnections := map_set agentUID i (map_delete agentID (gw_agentConnections g))\<rparr>))
      else (agentID, g))"

text \<open>The common end of both registration handlers: the answer of the actions API, the change of the
  key and the response to the agent.\<close>

definition finish_registration ::
  "ws_lib \<Rightarrow> time \<Rightarrow> bool \<Rightarrow> string \<Rightarrow> string \<Rightarrow> string \<Rightarrow> api_answer \<Rightarrow> string \<Rightarrow> gateway \<Rightarrow> string option \<times> gateway" where
  "finish_registration lib now net respID respChannel what api agentID g =
     (case api of
        ApiError e \<Rightarrow> (Some (''failed to call Actions API: '' @ e), g)
      | ApiReadError e \<Rightarrow> (Some (''failed to read Actions API response: '' @ e), g)
      | ApiReply code body \<Rightarrow>
          if code \<noteq> 200 then (Some (''Actions API error: '' @ itoa code @ '' '' @ body), g)
          else case wl_dec_object lib body of
            None \<Rightarrow> (Some ''failed to parse Actions API response'', g)
          | Some resp \<Rightarrow>
              (case rekey agentID (get_str resp ''agent_uid'') g of
                 (agentID', g1) \<Rightarrow>
                   let response = \<lparr>sm_ID = respID, sm_Type = ''response'', sm_Channel = respChannel, sm_Payload = body,
                         sm_Timestamp = unix now, sm_Nonce = '''', sm_Signature = '''', sm_Headers = []\<rparr>
                   in (case map_get (gw_agentConnections g1) agentID' of
                         None \<Rightarrow> (None, g1)
                       | Some i \<Rightarrow>
                           (case write_to net i (wl_enc_message lib response) g1 of
                              (ok, g2) \<Rightarrow> (if ok then None else Some (''failed to send '' @ what @ '' response''), g2)))))"

definition or_default :: "string \<Rightarrow> string \<Rightarrow> string" where
  "or_default s d = (if s = '''' then d else s)"

definition decode_payload :: "ws_lib \<Rightarrow> secure_message \<Rightarrow> string + (string, gval) gomap" where
  "decode_payload lib message =
     (case wl_b64dec lib (sm_Payload message) of
        None \<Rightarrow> Inl ''invalid base64 payload''
      | Some d \<Rightarrow> (case wl_dec_object lib d of None \<Rightarrow> Inl ''invalid JSON payload'' | Some m \<Rightarrow> Inr m))"

definition registration_request :: "string \<Rightarrow> (string, gval) gomap \<Rightarrow> (string, gval) gomap" where
  "registration_request agentID d =
     [(''org_id'', VStr (or_default (get_str d ''org_id'') ''default-org'')),
      (''host_id'', VStr (or_default (get_str d ''host_id'') agentID)),
      (''agent_pubkey'', VStr (get_str d ''agent_pubkey'')),
      (''machine_id_hash'', get_val d ''machine_id_hash''),
      (''agent_version'', VStr (or_default (get_str d ''agent_version'') ''1.0.0'')),
      (''capabilities'', get_val d ''capabilities''), (''platform'', get_val d ''platform''),
      (''network'', get_val d ''network'')]"

definition api_call :: "string \<Rightarrow> (string, gval) gomap \<Rightarrow> gateway \<Rightarrow> gateway" where
  "api_call path req g = g\<lparr>gw_calls := gw_calls g @ [(actionsAPIEndpoint (gw_config g) path, req)]\<rparr>"

definition handleAgentRegistration ::
  "ws_lib \<Rightarrow> time \<Rightarrow> string \<Rightarrow> bool \<Rightarrow> api_answer \<Rightarrow> string \<Rightarrow> secure_message \<Rightarrow> gateway \<Rightarrow> string option \<times> gateway" where
  "handleAgentRegistration lib now nano net api agentID message g =
     (case decode_payload lib message of
        Inl e \<Rightarrow> (Some e, g)
      | Inr d \<Rightarrow>
          if get_str d ''agent_pubkey'' = '''' then (Some ''missing agent_pubkey in registration data'', g)
          else finish_registration lib now net (''reg_resp_'' @ nano) ''agent.registration'' ''registration'' api agentID
                 (api_call ''/agents/register/init'' (registration_request agentID d) g))"

definition handleAgentRegistrationComplete ::
  "ws_lib \<Rightarrow> time \<Rightarrow> string \<Rightarrow> bool \<Rightarrow> api_answer \<Rightarrow> string \<Rightarrow> secure_message \<Rightarrow> gateway \<Rightarrow> string option \<times> gateway" where
  "handleAgentRegistrationComplete lib now nano net api agentID message g =
     (case decode_payload lib message of
        Inl e \<Rightarrow> (Some e, g)
      | Inr d \<Rightarrow>
          let registrationID = get_str d ''registration_id''; hostID = get_str d ''host_id'';
              sig = get_str d ''signature''
          in if registrationID = '''' \<or> hostID = '''' \<or> sig = '''' then
               (Some ''missing required fields: registration_id, host_id, or signature'', g)
             else finish_registration lib now net (''reg_complete_resp_'' @ nano) ''agent.registration.complete''
                    ''registration complete'' api agentID
                    (api_call ''/agents/register/complete''
                      [(''registration_id'', VStr registrationID), (''host_id'', VStr hostID), (''signature'', VStr sig)] g))"

text \<open>The handlers of policies, anomalies, threats, processes, status and logs only write to the log.\<close>

fun run_handler ::
  "ws_lib \<Rightarrow> time \<Rightarrow> string \<Rightarrow> bool \<Rightarrow> api_answer \<Rightarrow> string \<Rightarrow> ws_handler \<Rightarrow> secure_message \<Rightarrow> gateway
   \<Rightarrow> string option \<times> gateway" where
  "run_handler lib now nano net api agentID HandleHeartbeat message g = handleAgentHeartbeat now agentID g"
| "run_handler lib now nano net api agentID HandleRegistration message g =
     handleAgentRegistration lib now nano net api agentID message g"
| "run_handler lib now nano net api agentID HandleRegistrationComplete message g =
     handleAgentRegistrationComplete lib now nano net api agentID message g"
| "run_handler lib now nano net api agentID _ message g = (None, g)"

definition handleTextMessage ::
  "ws_lib \<Rightarrow> time \<Rightarrow> string \<Rightarrow> bool \<Rightarrow> api_answer \<Rightarrow> nat \<Rightarrow> string \<Rightarrow> gateway \<Rightarrow> (string option \<times> gateway) option" where
  "handleTextMessage lib now nano net api i data g =
     (case wl_dec_message lib data of
        None \<Rightarrow> Some (Some ''failed to parse message'', g)
      | Some message \<Rightarrow>
          let c = gw_heap g ! i in
          if sm_Type message = ''request'' \<and> sm_Channel message = ''auth'' then
            handleAuthentication lib now nano net i message g
          else if sm_Type message = ''request'' \<and> sm_Channel message = ''registration.complete'' then
            Some (handleAgentRegistrationComplete lib now nano net api (ac_AgentID c) message g)
          else if \<not> ac_IsAuthenticated c then Some (Some ''agent not authenticated'', g)
          else Some (RouteMessage (gw_messageRouter g) (run_handler lib now nano net api (ac_AgentID c)) message g))"

section \<open>Serving a connection\<close>

definition begin_serving :: "time \<Rightarrow> nat \<Rightarrow> gateway \<Rightarrow> gateway" where
  "begin_serving now i g =
     upd_conn i (\<lambda>c. c\<lparr>ac_stage := Serving, ac_deadline := time_add now (seconds 300)\<rparr>)
       (upd_metrics (\<lambda>m. m\<lparr>cm_ActiveConnections := cm_ActiveConnections m + 1\<rparr>)
         (g\<lparr>gw_agentConnections := map_set (ac_AgentID (gw_heap g ! i)) i (gw_agentConnections g)\<rparr>))"

text \<open>The deferred clean-up: the entry under the connection's identifier is removed, whichever
  connection it holds.\<close>

definition end_serving :: "nat \<Rightarrow> gateway \<Rightarrow> gateway" where
  "end_serving i g =
     upd_metrics (\<lambda>m. m\<lparr>cm_ActiveConnections := cm_ActiveConnections m - 1\<rparr>)
       (upd_conn i (\<lambda>c. close_conn (c\<lparr>ac_stage := Ended\<rparr>))
         (g\<lparr>gw_agentConnections := map_delete (ac_AgentID (gw_heap g ! i)) (gw_agentConnections g)\<rparr>))"

definition read_failed :: "nat \<Rightarrow> gateway \<Rightarrow> gateway" where
  "read_failed i g =
     end_serving i (upd_metrics (\<lambda>m. m\<lparr>cm_ConnectionErrors := cm_ConnectionErrors m + 1\<rparr>) g)"

definition dispatch ::
  "ws_lib \<Rightarrow> time \<Rightarrow> string \<Rightarrow> bool \<Rightarrow> bool \<Rightarrow> api_answer \<Rightarrow> nat \<Rightarrow> int \<Rightarrow> string \<Rightarrow> gateway \<Rightarrow> gateway option" where
  "dispatch lib now nano net net' api i typ data g =
     (if typ = TextMessage then
        (case handleTextMessage lib now nano net api i data g of
           None \<Rightarrow> None
         | Some (Some e, g1) \<Rightarrow> Some (sendErrorResponse lib now nano net' i ''message_processing_error'' e 4002 1 g1)
         | Some (None, g1) \<Rightarrow> Some g1)
      else if typ = PingMessage then Some (upd_conn i (\<lambda>c. snd (write_conn net PongMessage data c)) g)
      else Some g)"

text \<open>One round of the loop for a message that was read; \<^term>\<open>None\<close> when the process panics.\<close>

definition serve_message ::
  "ws_lib \<Rightarrow> time \<Rightarrow> string \<Rightarrow> bool \<Rightarrow> bool \<Rightarrow> api_answer \<Rightarrow> nat \<Rightarrow> int \<Rightarrow> string \<Rightarrow> gateway \<Rightarrow> gateway option" where
  "serve_message lib now nano net net' api i typ data g =
     (let g1 = upd_conn i (\<lambda>c. c\<lparr>ac_LastSeen := now\<rparr>) g in
      if typ = CloseMessage then Some (end_serving i g1)
      else case dispatch lib now nano net net' api i typ data g1 of
        None \<Rightarrow> None
      | Some g2 \<Rightarrow> Some (upd_conn i (\<lambda>c. c\<lparr>ac_deadline := time_add now (gc_ConnectionTimeout (gw_config g2))\<rparr>) g2))"

section \<open>Messages from NATS\<close>

definition parseWebSocketGatewayMessage :: "ws_lib \<Rightarrow> string \<Rightarrow> string + websocket_gateway_message" where
  "parseWebSocketGatewayMessage lib data =
     (case wl_dec_gateway lib data of
        None \<Rightarrow> Inl ''failed to parse NATS message''
      | Some m \<Rightarrow>
          if wm_ID m = '''' then Inl ''message id is required''
          else if wm_TargetAgent m = '''' then Inl ''target_agent is required''
          else if wm_Channel m = '''' then Inl ''channel is required''
          else
            let m1 = (if wm_Type m = '''' then m\<lparr>wm_Type := ''event''\<rparr> else m) in
            if wm_Payload m1 = '''' then Inl ''payload is required''
            else Inr (if wm_Headers m1 = None then m1\<lparr>wm_Headers := Some []\<rparr> else m1))"

definition message_nonce :: string where
  "message_nonce = ''message_nonc''"

definition shared_key :: "ws_lib \<Rightarrow> string \<Rightarrow> string \<Rightarrow> string" where
  "shared_key lib agentKey backendKey = wl_sha256 lib (agentKey @ backendKey)"

definition secure_form :: "ws_lib \<Rightarrow> string \<Rightarrow> string \<Rightarrow> websocket_gateway_message \<Rightarrow> secure_message" where
  "secure_form lib agentKey backendKey m =
     \<lparr>sm_ID = wm_ID m, sm_Type = wm_Type m, sm_Channel = wm_Channel m,
      sm_Payload = wl_b64enc lib (wl_seal lib (shared_key lib agentKey backendKey) message_nonce (wm_Payload m)),
      sm_Timestamp = wm_Timestamp m, sm_Nonce = wl_b64enc lib message_nonce, sm_Signature = '''',
      sm_Headers = (case wm_Headers m of None \<Rightarrow> [] | Some h \<Rightarrow> h)\<rparr>"

definition sendMessageToAgent :: "ws_lib \<Rightarrow> bool \<Rightarrow> websocket_gateway_message \<Rightarrow> gateway \<Rightarrow> string option \<times> gateway" where
  "sendMessageToAgent lib net m g =
     (case map_get (gw_agentConnections g) (wm_TargetAgent m) of
        None \<Rightarrow> (Some (''agent '' @ wm_TargetAgent m @ '' not connected''), g)
      | Some i \<Rightarrow>
          (case write_to net i (wl_enc_message lib
                  (secure_form lib (ac_PublicKey (gw_heap g ! i)) (as_publicKey (gw_authService g)) m)) g of
             (ok, g1) \<Rightarrow> (if ok then None else Some ''failed to send message'', g1)))"

definition handleNATSMessage :: "ws_lib \<Rightarrow> bool \<Rightarrow> string \<Rightarrow> gateway \<Rightarrow> gateway" where
  "handleNATSMessage lib net data g =
     (case parseWebSocketGatewayMessage lib data of
        Inl _ \<Rightarrow> g
      | Inr m \<Rightarrow> snd (sendMessageToAgent lib net m g))"

section \<open>Health, metrics and shutdown\<close>

definition ping_conn :: "bool \<Rightarrow> agent_connection \<Rightarrow> agent_connection" where
  "ping_conn net c =
     (case write_conn net PingMessage ''ping'' c of (ok, c') \<Rightarrow> if ok then c' else close_conn c')"

fun health_loop :: "(nat \<Rightarrow> bool) \<Rightarrow> time \<Rightarrow> nat list \<Rightarrow> gateway \<Rightarrow> gateway" where
  "health_loop net now [] g = g"
| "health_loop net now (i # is) g =
     (let c = gw_heap g ! i in
      if time_sub now (ac_LastSeen c) > gc_ConnectionTimeout (gw_config g) then
        health_loop net now is (upd_conn i close_conn g)
      else health_loop net now is (upd_conn i (ping_conn (net i)) g))"

definition performHealthCheck :: "(nat \<Rightarrow> bool) \<Rightarrow> time \<Rightarrow> gateway \<Rightarrow> gateway" where
  "performHealthCheck net now g = health_loop net now (map_values (gw_agentConnections g)) g"

definition GetMetrics :: "gateway \<Rightarrow> connection_metrics" where
  "GetMetrics g = (gw_metrics g)\<lparr>cm_ActiveConnections := int (length (gw_agentConnections g))\<rparr>"

definition handleHealthCheck :: "time \<Rightarrow> gateway \<Rightarrow> (string, gval) gomap" where
  "handleHealthCheck now g =
     (let m = GetMetrics g in
      [(''status'', VStr ''healthy''), (''timestamp'', VInt (unix now)),
       (''total_connections'', VInt (cm_TotalConnections m)), (''active_connections'', VInt (cm_ActiveConnections m)),
       (''messages_received'', VInt (cm_MessagesReceived m)), (''messages_sent'', VInt (cm_MessagesSent m)),
       (''uptime'', VNum (Fin (rat_of_int (time_sub now (cm_LastReset m)) / 1000000000)))])"

definition Stop :: "gateway \<Rightarrow> gateway" where
  "Stop g = (fold (\<lambda>i g. upd_conn i close_conn g) (map_values (gw_agentConnections g)) g)\<lparr>gw_stopped := True\<rparr>"

section \<open>The HTTP handlers\<close>

datatype http_response = HttpError int string | HttpJson "(string, gval) gomap" | HttpRaw string

definition handleRegisterInit ::
  "ws_lib \<Rightarrow> api_answer \<Rightarrow> string \<Rightarrow> (string, gval) gomap option \<Rightarrow> gateway \<Rightarrow> http_response \<times> gateway" where
  "handleRegisterInit lib api httpMethod body g =
     (if httpMethod \<noteq> ''POST'' then (HttpError 405 ''Method not allowed'', g)
      else case body of
        None \<Rightarrow> (HttpError 400 ''Invalid JSON'', g)
      | Some req \<Rightarrow>
          let g1 = api_call ''/agents/register/init''
                [(''org_id'', VStr (or_default (get_str req ''org_id'') ''default-org'')),
                 (''host_id'', VStr (or_default (get_str req ''host_id'') ''unknown-host'')),
                 (''agent_pubkey'', VStr (get_str req ''agent_pubkey'')),
                 (''machine_id_hash'', get_val req ''machine_id_hash''),
                 (''agent_version'', VStr (or_default (get_str req ''agent_version'') ''1.0.0'')),
                 (''capabilities'', get_val req ''capabilities''),
                 (''platform'', VObj [(''os'', VStr ''linux''), (''arch'', VStr ''arm64'')]),
                 (''network'', VObj [(''interface'', VStr ''eth0'')])] g
          in case api of
               ApiError _ \<Rightarrow> (HttpError 500 ''Failed to register with backend'', g1)
             | ApiReadError _ \<Rightarrow> (HttpError 500 ''Failed to read backend response'', g1)
             | ApiReply code resp \<Rightarrow>
                 if code \<noteq> 200 then (HttpError 400 (''Backend registration failed: '' @ itoa code), g1)
                 else case wl_dec_object lib resp of
                   None \<Rightarrow> (HttpError 500 ''Invalid backend response'', g1)
                 | Some r \<Rightarrow> (HttpJson r, g1))"

definition handleRegisterComplete ::
  "api_answer \<Rightarrow> string \<Rightarrow> (string, gval) gomap option \<Rightarrow> gateway \<Rightarrow> http_response \<times> gateway" where
  "handleRegisterComplete api httpMethod body g =
     (if httpMethod \<noteq> ''POST'' then (HttpError 405 ''Method not allowed'', g)
      else case body of
        None \<Rightarrow> (HttpError 400 ''Invalid JSON'', g)
      | Some req \<Rightarrow>
          let g1 = api_call ''/agents/register/complete'' req g
          in case api of
               ApiError _ \<Rightarrow> (HttpError 500 ''Failed to complete registration with backend'', g1)
             | ApiReadError _ \<Rightarrow> (HttpError 500 ''Failed to read backend response'', g1)
             | ApiReply code resp \<Rightarrow>
                 if code \<noteq> 200 then (HttpError 400 (''Backend completion failed: '' @ itoa code), g1)
                 else (HttpRaw resp, g1))"

section \<open>The transition system\<close>

inductive gw_step :: "ws_lib \<Rightarrow> gateway \<Rightarrow> gateway \<Rightarrow> bool" for lib :: ws_lib where
  upgrade: "gw_step lib g (snd (handleWebSocketUpgrade lib now upgraded agentID publicKeyStr userAgent g))"
| begin_conn: "i < length (gw_heap g) \<Longrightarrow> ac_stage (gw_heap g ! i) = Accepted \<Longrightarrow>
     gw_step lib g (begin_serving now i g)"
| message: "i < length (gw_heap g) \<Longrightarrow> ac_stage (gw_heap g ! i) = Serving \<Longrightarrow>
     serve_message lib now nano net net' api i typ data g = Some g' \<Longrightarrow> gw_step lib g g'"
| read_error: "i < length (gw_heap g) \<Longrightarrow> ac_stage (gw_heap g ! i) = Serving \<Longrightarrow> gw_step lib g (read_failed i g)"
| shut: "i < length (gw_heap g) \<Longrightarrow> ac_stage (gw_heap g ! i) = Serving \<Longrightarrow> gw_stopped g \<Longrightarrow>
     gw_step lib g (end_serving i g)"
| nats: "gw_step lib g (handleNATSMessage lib net data g)"
| heartbeat: "agentID \<in> set (gw_heartbeats g) \<Longrightarrow>
     gw_step lib g (updateActionsAPIHeartbeat stamp agentID (g\<lparr>gw_heartbeats := remove1 agentID (gw_heartbeats g)\<rparr>))"
| register_init: "gw_step lib g (snd (handleRegisterInit lib api httpMethod body g))"
| register_complete: "gw_step lib g (snd (handleRegisterComplete api httpMethod body g))"
| stop: "gw_step lib g (Stop g)"

definition gw_init :: "gateway \<Rightarrow> bool" where
  "gw_init g \<longleftrightarrow> (\<exists>publicKey privateKey now config. g = NewWebSocketGateway publicKey privateKey now config)"

end
