(* ===== verification/Gw_Properties.thy ===== *)
theory Gw_Properties
  imports Gw_Gateway
begin

text \<open>
  What the gateway guarantees: the invariant of the connection table, routing, delivery of messages
  from the actions API, what an unauthenticated connection can reach, and where authentication fails
  to protect.
\<close>

section \<open>The invariant\<close>

text \<open>Entries of the table are connections being served, under their own identifier; the counters
  count; the handlers stay the ones registered at the start; a connection that has not been
  authenticated carries no session token, and an ended one is closed.\<close>

definition conn_ok :: "agent_connection \<Rightarrow> bool" where
  "conn_ok c \<longleftrightarrow> (\<not> ac_IsAuthenticated c \<longrightarrow> ac_SessionToken c = '''') \<and> (ac_stage c = Ended \<longrightarrow> \<not> ac_open c)"

definition table_ok :: "(string, nat) gomap \<Rightarrow> string list \<Rightarrow> stage list \<Rightarrow> bool" where
  "table_ok T ids stages \<longleftrightarrow> map_ok T \<and> length ids = length stages \<and>
     (\<forall>k i. map_get T k = Some i \<longrightarrow> i < length ids \<and> ids ! i = k \<and> stages ! i = Serving)"

definition gw_inv :: "gateway \<Rightarrow> bool" where
  "gw_inv g \<longleftrightarrow>
     table_ok (gw_agentConnections g) (map ac_AgentID (gw_heap g)) (map ac_stage (gw_heap g))
     \<and> cm_TotalConnections (gw_metrics g) = int (length (gw_heap g))
     \<and> cm_ActiveConnections (gw_metrics g) = int (count_list (map ac_stage (gw_heap g)) Serving)
     \<and> gw_messageRouter g = default_handlers NewMessageRouter
     \<and> list_all conn_ok (gw_heap g)"

lemma count_list_update:
  assumes "i < length xs"
  shows "count_list (xs[i := y]) x + of_bool (xs ! i = x) = count_list xs x + of_bool (y = x)"
proof -
  have "xs ! i \<in># mset xs" using assms by simp
  then have "count (mset xs) (xs ! i) > 0" by (simp only: count_greater_zero_iff)
  with assms show ?thesis by (auto simp: mset_update simp flip: count_mset)
qed

lemma table_ok_entry:
  "table_ok T ids stages \<Longrightarrow> map_get T k = Some i \<Longrightarrow> i < length ids \<and> ids ! i = k \<and> stages ! i = Serving"
  by (auto simp: table_ok_def)

lemma table_ok_begin:
  assumes "table_ok T ids stages" "i < length ids" "stages ! i = Accepted"
  shows "table_ok (map_set (ids ! i) i T) ids (stages[i := Serving])"
  using assms unfolding table_ok_def by (auto simp: nth_list_update distinct_update simp del: map_of_eq_Some_iff)

lemma table_ok_end:
  assumes "table_ok T ids stages" "i < length ids"
  shows "table_ok (map_delete (ids ! i) T) ids (stages[i := Ended])"
  using assms unfolding table_ok_def by (auto simp: nth_list_update distinct_delete simp del: map_of_eq_Some_iff split: if_splits)

lemma table_ok_append: "table_ok T ids stages \<Longrightarrow> table_ok T (ids @ [k]) (stages @ [Accepted])"
  unfolding table_ok_def by (auto simp: nth_append simp del: map_of_eq_Some_iff)

lemma table_ok_rekey:
  assumes "table_ok T ids stages" "map_get T k = Some i" "k' \<noteq> k"
  shows "table_ok (map_set k' i (map_delete k T)) (ids[i := k']) stages"
proof -
  have "j \<noteq> i" if "map_get T j' = Some j" "j' \<noteq> k" for j j'
    using that table_ok_entry [OF assms(1)] assms(2) by blast
  moreover have "i < length stages" "stages ! i = Serving" "map_ok T" "length ids = length stages"
    using assms(1) table_ok_entry [OF assms(1,2)] by (auto simp: table_ok_def)
  ultimately show ?thesis
    using table_ok_entry [OF assms(1)] unfolding table_ok_def
    by (auto simp: nth_list_update distinct_delete distinct_update simp del: map_of_eq_Some_iff split: if_splits)
qed

lemma gw_inv_entry:
  assumes "gw_inv g" "map_get (gw_agentConnections g) k = Some i"
  shows "i < length (gw_heap g)" "ac_AgentID (gw_heap g ! i) = k" "ac_stage (gw_heap g ! i) = Serving"
  using table_ok_entry [of "gw_agentConnections g" "map ac_AgentID (gw_heap g)" "map ac_stage (gw_heap g)" k i] assms
  by (auto simp: gw_inv_def)

lemma gw_inv_frame:
  assumes "gw_inv g" "gw_agentConnections g' = gw_agentConnections g"
    and "map ac_AgentID (gw_heap g') = map ac_AgentID (gw_heap g)" "map ac_stage (gw_heap g') = map ac_stage (gw_heap g)"
    and "cm_TotalConnections (gw_metrics g') = cm_TotalConnections (gw_metrics g)"
    and "cm_ActiveConnections (gw_metrics g') = cm_ActiveConnections (gw_metrics g)"
    and "gw_messageRouter g' = gw_messageRouter g" "list_all conn_ok (gw_heap g')"
  shows "gw_inv g'"
proof -
  have "length (gw_heap g') = length (gw_heap g)" using assms(3) by (rule map_eq_imp_length_eq)
  with assms show ?thesis unfolding gw_inv_def by simp
qed

lemma gw_inv_conns: "gw_inv g \<Longrightarrow> list_all conn_ok (gw_heap g)"
  by (simp add: gw_inv_def)

lemma gw_inv_other [simp]:
  "gw_inv (g\<lparr>gw_calls := cs\<rparr>) = gw_inv g" "gw_inv (g\<lparr>gw_heartbeats := hs\<rparr>) = gw_inv g"
  "gw_inv (g\<lparr>gw_stopped := b\<rparr>) = gw_inv g"
  by (simp_all add: gw_inv_def)

text \<open>An update of one connection that keeps its identifier and its stage keeps the invariant.\<close>

definition harmless :: "(agent_connection \<Rightarrow> agent_connection) \<Rightarrow> bool" where
  "harmless f \<longleftrightarrow> (\<forall>c. ac_AgentID (f c) = ac_AgentID c \<and> ac_stage (f c) = ac_stage c \<and> (conn_ok c \<longrightarrow> conn_ok (f c)))"

lemma map_update_same: "(i < length xs \<Longrightarrow> h (f (xs ! i)) = h (xs ! i)) \<Longrightarrow> map h (xs[i := f (xs ! i)]) = map h xs"
  by (cases "i < length xs") (auto simp: map_update list_update_same_conv list_update_beyond)

lemma list_all_update: "list_all P xs \<Longrightarrow> (i < length xs \<Longrightarrow> P (xs ! i) \<Longrightarrow> P y) \<Longrightarrow> list_all P (xs[i := y])"
  by (cases "i < length xs") (auto simp: list_all_length nth_list_update)

lemma gw_inv_upd_conn:
  assumes "gw_inv g" "harmless f"
  shows "gw_inv (upd_conn i f g)"
proof (rule gw_inv_frame [OF assms(1)])
  show "map ac_AgentID (gw_heap (upd_conn i f g)) = map ac_AgentID (gw_heap g)"
    "map ac_stage (gw_heap (upd_conn i f g)) = map ac_stage (gw_heap g)"
    using assms(2) by (simp_all add: upd_conn_def harmless_def map_update_same)
  show "list_all conn_ok (gw_heap (upd_conn i f g))"
    using gw_inv_conns [OF assms(1)] assms(2) by (simp add: upd_conn_def harmless_def list_all_update)
qed (simp_all add: upd_conn_def)

lemma harmless_simps [simp]:
  "harmless (\<lambda>c. snd (write_conn net t d c))" "harmless close_conn"
  "harmless (\<lambda>c. c\<lparr>ac_LastSeen := now\<rparr>)" "harmless (\<lambda>c. c\<lparr>ac_deadline := t'\<rparr>)"
  "harmless (\<lambda>c. c\<lparr>ac_IsAuthenticated := True, ac_SessionToken := tok\<rparr>)"
  by (simp_all add: harmless_def conn_ok_def write_conn_def close_conn_def)

lemma gw_inv_metrics:
  "gw_inv g \<Longrightarrow> (\<And>m. cm_TotalConnections (f m) = cm_TotalConnections m \<and> cm_ActiveConnections (f m) = cm_ActiveConnections m)
   \<Longrightarrow> gw_inv (upd_metrics f g)"
  by (simp add: gw_inv_def)

lemma gw_inv_write_to: "gw_inv g \<Longrightarrow> gw_inv (snd (write_to net i d g))"
  by (simp add: write_to_def gw_inv_upd_conn)

lemma write_to_inv: "gw_inv g \<Longrightarrow> write_to net i d g = (ok, g') \<Longrightarrow> gw_inv g'"
  using gw_inv_write_to [of g net i d] by simp

lemma gw_inv_error_response: "gw_inv g \<Longrightarrow> gw_inv (sendErrorResponse lib now nano net i et msg code ra g)"
  by (simp add: sendErrorResponse_def gw_inv_write_to)

lemma gw_inv_api_call [simp]: "gw_inv (api_call path req g) = gw_inv g"
  by (simp add: api_call_def)

lemma gw_inv_upgrade: "gw_inv g \<Longrightarrow> gw_inv (snd (handleWebSocketUpgrade lib now up a p u g))"
  by (auto simp: handleWebSocketUpgrade_def gw_inv_def new_connection_def conn_ok_def
      split: option.splits intro: table_ok_append)

lemma gw_inv_begin:
  assumes "gw_inv g" "i < length (gw_heap g)" "ac_stage (gw_heap g ! i) = Accepted"
  shows "gw_inv (begin_serving now i g)"
proof -
  have "count_list ((map ac_stage (gw_heap g))[i := Serving]) Serving = count_list (map ac_stage (gw_heap g)) Serving + 1"
    using count_list_update [of i "map ac_stage (gw_heap g)" Serving Serving] assms by simp
  moreover have "table_ok (map_set (ac_AgentID (gw_heap g ! i)) i (gw_agentConnections g))
      (map ac_AgentID (gw_heap g)) ((map ac_stage (gw_heap g))[i := Serving])"
    using table_ok_begin [of "gw_agentConnections g" "map ac_AgentID (gw_heap g)" "map ac_stage (gw_heap g)" i] assms
    by (simp add: gw_inv_def)
  moreover have "map ac_AgentID ((gw_heap g)[i := (gw_heap g ! i)\<lparr>ac_stage := Serving, ac_deadline := t\<rparr>])
      = map ac_AgentID (gw_heap g)" for t by (rule map_update_same [where f = "\<lambda>c. c\<lparr>ac_stage := Serving, ac_deadline := t\<rparr>"]) simp
  moreover have "list_all conn_ok ((gw_heap g)[i := (gw_heap g ! i)\<lparr>ac_stage := Serving, ac_deadline := t\<rparr>])" for t
    by (rule list_all_update [OF gw_inv_conns [OF assms(1)]]) (simp add: conn_ok_def)
  ultimately show ?thesis using assms by (simp add: gw_inv_def begin_serving_def upd_conn_def map_update)
qed

lemma gw_inv_end:
  assumes "gw_inv g" "i < length (gw_heap g)" "ac_stage (gw_heap g ! i) = Serving"
  shows "gw_inv (end_serving i g)"
proof -
  let ?f = "\<lambda>c. close_conn (c\<lparr>ac_stage := Ended\<rparr>)"
  have "count_list ((map ac_stage (gw_heap g))[i := Ended]) Serving + 1 = count_list (map ac_stage (gw_heap g)) Serving"
    using count_list_update [of i "map ac_stage (gw_heap g)" Ended Serving] assms by simp
  moreover have "table_ok (map_delete (ac_AgentID (gw_heap g ! i)) (gw_agentConnections g))
      (map ac_AgentID (gw_heap g)) ((map ac_stage (gw_heap g))[i := Ended])"
    using table_ok_end [of "gw_agentConnections g" "map ac_AgentID (gw_heap g)" "map ac_stage (gw_heap g)" i] assms
    by (simp add: gw_inv_def)
  moreover have "map ac_AgentID ((gw_heap g)[i := ?f (gw_heap g ! i)]) = map ac_AgentID (gw_heap g)"
    by (rule map_update_same [where f = ?f]) simp
  moreover have "list_all conn_ok ((gw_heap g)[i := ?f (gw_heap g ! i)])"
    by (rule list_all_update [OF gw_inv_conns [OF assms(1)]]) (simp add: conn_ok_def close_conn_def)
  ultimately show ?thesis using assms by (simp add: gw_inv_def end_serving_def upd_conn_def map_update)
qed

lemma gw_inv_rekey:
  assumes "gw_inv g"
  shows "gw_inv (snd (rekey k k' g))"
proof (cases "k' \<noteq> '''' \<and> k' \<noteq> k \<and> map_get (gw_agentConnections g) k \<noteq> None")
  case True
  then obtain i where i: "map_get (gw_agentConnections g) k = Some i" by auto
  have "table_ok (map_set k' i (map_delete k (gw_agentConnections g)))
      ((map ac_AgentID (gw_heap g))[i := k']) (map ac_stage (gw_heap g))"
    by (rule table_ok_rekey) (use assms i True in \<open>auto simp: gw_inv_def\<close>)
  moreover have "map ac_stage ((gw_heap g)[i := (gw_heap g ! i)\<lparr>ac_AgentID := k'\<rparr>]) = map ac_stage (gw_heap g)"
    by (rule map_update_same [where f = "\<lambda>c. c\<lparr>ac_AgentID := k'\<rparr>"]) simp
  moreover have "list_all conn_ok ((gw_heap g)[i := (gw_heap g ! i)\<lparr>ac_AgentID := k'\<rparr>])"
    by (rule list_all_update [OF gw_inv_conns [OF assms]]) (simp add: conn_ok_def)
  ultimately show ?thesis
    using True i assms by (simp add: rekey_def gw_inv_def upd_conn_def map_update)
next
  case False
  with assms show ?thesis by (auto simp: rekey_def)
qed

lemma rekey_inv: "gw_inv g \<Longrightarrow> rekey k k' g = (k'', g') \<Longrightarrow> gw_inv g'"
  using gw_inv_rekey [of g k k'] by simp

lemma gw_inv_finish_registration: "gw_inv g \<Longrightarrow> gw_inv (snd (finish_registration lib now net rid rch what api k g))"
  by (auto simp: finish_registration_def write_to_def Let_def gw_inv_upd_conn rekey_inv split: api_answer.split option.split prod.split)

lemma gw_inv_heartbeat: "gw_inv g \<Longrightarrow> gw_inv (snd (handleAgentHeartbeat now k g))"
  by (simp add: handleAgentHeartbeat_def Let_def gw_inv_upd_conn split: option.split)

lemma gw_inv_registration: "gw_inv g \<Longrightarrow> gw_inv (snd (handleAgentRegistration lib now nano net api k message g))"
  by (simp add: handleAgentRegistration_def gw_inv_finish_registration split: sum.split)

lemma gw_inv_registration_complete:
  "gw_inv g \<Longrightarrow> gw_inv (snd (handleAgentRegistrationComplete lib now nano net api k message g))"
  by (simp add: handleAgentRegistrationComplete_def Let_def gw_inv_finish_registration split: sum.split)

lemma gw_inv_handler: "gw_inv g \<Longrightarrow> gw_inv (snd (run_handler lib now nano net api k h message g))"
  by (cases h) (simp_all add: gw_inv_heartbeat gw_inv_registration gw_inv_registration_complete)

lemma gw_inv_authentication:
  assumes "gw_inv g" "handleAuthentication lib now nano net i message g = Some (e, g')"
  shows "gw_inv g'"
  using assms
  by (auto simp: handleAuthentication_def Let_def gw_inv_metrics gw_inv_upd_conn split: sum.splits option.splits prod.splits if_splits
      intro!: gw_inv_metrics intro: write_to_inv [rotated])

lemma gw_inv_text:
  assumes "gw_inv g" "handleTextMessage lib now nano net api i data g = Some (e, g')"
  shows "gw_inv g'"
proof -
  have "gw_inv (snd (handleAgentRegistrationComplete lib now nano net api k m g))" for k m
    by (rule gw_inv_registration_complete [OF assms(1)])
  moreover have "gw_inv (snd (RouteMessage r (run_handler lib now nano net api k) m g))" for r k m
    using gw_inv_handler [OF assms(1)] assms(1) by (auto simp: RouteMessage_def split: option.splits)
  ultimately show ?thesis
    using assms gw_inv_authentication [OF assms(1)]
    by (auto simp: handleTextMessage_def Let_def split: option.splits if_splits) (metis snd_conv)+
qed

lemma gw_inv_dispatch:
  assumes "gw_inv g" "dispatch lib now nano net net' api i typ data g = Some g'"
  shows "gw_inv g'"
  using assms gw_inv_text [OF assms(1)]
  by (auto simp: dispatch_def gw_inv_upd_conn gw_inv_error_response split: if_splits option.splits)

lemma upd_conn_stage:
  "(\<And>c. ac_stage (f c) = ac_stage c) \<Longrightarrow> map ac_stage (gw_heap (upd_conn i f g)) = map ac_stage (gw_heap g)"
  by (simp add: upd_conn_def map_update_same)

lemma gw_inv_serve:
  assumes "gw_inv g" "i < length (gw_heap g)" "ac_stage (gw_heap g ! i) = Serving"
    "serve_message lib now nano net net' api i typ data g = Some g'"
  shows "gw_inv g'"
proof (cases "typ = CloseMessage")
  case True
  let ?g1 = "upd_conn i (\<lambda>c. c\<lparr>ac_LastSeen := now\<rparr>) g"
  have "gw_inv ?g1" using assms(1) by (simp add: gw_inv_upd_conn)
  moreover have "i < length (gw_heap ?g1)" "ac_stage (gw_heap ?g1 ! i) = Serving"
    using assms(2,3) by (simp_all add: upd_conn_def)
  ultimately have "gw_inv (end_serving i ?g1)" by (rule gw_inv_end)
  with True assms(4) show ?thesis by (simp add: serve_message_def)
next
  case False
  with assms(1,4) show ?thesis
    by (auto simp: serve_message_def Let_def gw_inv_upd_conn split: option.splits dest!: gw_inv_dispatch [rotated])
qed

lemma gw_inv_close_all: "gw_inv g \<Longrightarrow> gw_inv (fold (\<lambda>i g. upd_conn i close_conn g) is g)"
  by (induction "is" arbitrary: g) (simp_all add: gw_inv_upd_conn)

lemma gw_inv_nats: "gw_inv g \<Longrightarrow> gw_inv (handleNATSMessage lib net data g)"
  by (auto simp: handleNATSMessage_def sendMessageToAgent_def split: sum.splits option.splits prod.splits dest: write_to_inv)

lemma harmless_ping [simp]: "harmless (ping_conn net)"
  by (auto simp: harmless_def ping_conn_def write_conn_def conn_ok_def close_conn_def)

lemma gw_inv_health_loop: "gw_inv g \<Longrightarrow> gw_inv (health_loop net now is g)"
  by (induction "is" arbitrary: g) (simp_all add: Let_def gw_inv_upd_conn)

lemma gw_inv_health: "gw_inv g \<Longrightarrow> gw_inv (performHealthCheck net now g)"
  by (simp add: performHealthCheck_def gw_inv_health_loop)

lemma gw_inv_step:
  assumes "gw_inv g" "gw_step lib g g'"
  shows "gw_inv g'"
  using assms(2)
proof cases
  case (read_error i)
  have "gw_inv (upd_metrics (\<lambda>m. m\<lparr>cm_ConnectionErrors := cm_ConnectionErrors m + 1\<rparr>) g)"
    by (rule gw_inv_metrics [OF assms(1)]) simp
  from gw_inv_end [OF this] read_error show ?thesis by (simp add: read_failed_def)
next
  case (register_init api httpMethod body)
  then show ?thesis using assms(1)
    by (auto simp: handleRegisterInit_def Let_def split: option.splits api_answer.splits)
next
  case (register_complete api httpMethod body)
  then show ?thesis using assms(1)
    by (auto simp: handleRegisterComplete_def Let_def split: option.splits api_answer.splits)
qed (use assms(1) in \<open>auto simp: gw_inv_upgrade gw_inv_begin gw_inv_serve gw_inv_end gw_inv_nats Stop_def
      gw_inv_close_all updateActionsAPIHeartbeat_def\<close>)

lemma gw_inv_init: "gw_init g \<Longrightarrow> gw_inv g"
  by (auto simp: gw_init_def gw_inv_def NewWebSocketGateway_def table_ok_def)

interpretation gwsys: inductive_invariant gw_init "gw_step lib" gw_inv
  by unfold_locales (erule gw_inv_init, erule (1) gw_inv_step)


section \<open>Routing\<close>

definition topic_handler :: "string \<Rightarrow> ws_handler option" where
  "topic_handler topic = map_of [(''heartbeat'', HandleHeartbeat), (''policies'', HandlePolicies),
     (''anomalies'', HandleAnomalies), (''threats'', HandleThreats), (''processes'', HandleProcesses),
     (''status'', HandleStatus), (''logs'', HandleLogs)] topic"

text \<open>Where the messages of a channel go, read off the parts between its dots.\<close>

definition routed :: "string \<Rightarrow> ws_handler option" where
  "routed ch =
     (case split_on (CHR ''.'') ch of
        [a, b] \<Rightarrow> if a = ''agent'' \<and> b = ''registration'' then Some HandleRegistration else None
      | a # b # c # rest \<Rightarrow>
          if a = ''agent'' \<and> b = ''registration'' \<and> c = ''complete'' \<and> rest = [] then Some HandleRegistrationComplete
          else if a = ''agent'' then topic_handler c else None
      | _ \<Rightarrow> None)"

lemma dotted_inj:
  assumes "CHR ''.'' \<notin> set a" "CHR ''.'' \<notin> set a'"
  shows "a @ CHR ''.'' # b = a' @ CHR ''.'' # b' \<longleftrightarrow> a = a' \<and> b = b'"
  using assms by (auto simp: append_eq_append_conv2 append_eq_Cons_conv Cons_eq_append_conv)

lemma split_on_dotted: "c \<notin> set a \<Longrightarrow> split_on c (a @ c # b) = a # split_on c b"
  by (induction a) auto

lemma split_on_plain: "c \<notin> set a \<Longrightarrow> split_on c a = [a]"
  by (induction a) auto

lemma default_lookup:
  "map_get (mr_handlers (default_handlers NewMessageRouter)) ch =
     map_of [(''agent.*.heartbeat'', HandleHeartbeat), (''agent.registration'', HandleRegistration),
       (''agent.registration.complete'', HandleRegistrationComplete), (''agent.*.policies'', HandlePolicies),
       (''agent.*.anomalies'', HandleAnomalies), (''agent.*.threats'', HandleThreats),
       (''agent.*.processes'', HandleProcesses), (''agent.*.status'', HandleStatus), (''agent.*.logs'', HandleLogs)] ch"
  by (simp add: default_handlers_def RegisterHandler_def NewMessageRouter_def)

lemma pattern_lookup:
  assumes "CHR ''.'' \<notin> set a"
  shows "map_get (mr_handlers (default_handlers NewMessageRouter)) (a @ ''.*.'' @ c) =
    (if a = ''agent'' then topic_handler c else None)"
proof -
  have "a @ ''.*.'' @ c = ''agent.*.'' @ x \<longleftrightarrow> a = ''agent'' \<and> c = x" for x
    using dotted_inj [OF assms, of "''agent''" "''*.'' @ c" "''*.'' @ x"] by simp
  moreover have "a @ ''.*.'' @ c \<noteq> ''agent.registration''" "a @ ''.*.'' @ c \<noteq> ''agent.registration.complete''"
    by (auto dest!: arg_cong [where f = "\<lambda>s. CHR ''*'' \<in> set s"])
  ultimately show ?thesis by (simp add: default_lookup topic_handler_def)
qed

lemma routed_direct:
  assumes "map_get (mr_handlers (default_handlers NewMessageRouter)) ch = Some h"
  shows "routed ch = Some h"
  using assms unfolding default_lookup by (auto split: if_splits simp: routed_def topic_handler_def)

lemma default_routing: "getHandlerForChannel (default_handlers NewMessageRouter) ch = routed ch"
proof (cases "map_get (mr_handlers (default_handlers NewMessageRouter)) ch")
  case (Some h)
  then show ?thesis by (simp add: getHandler_direct routed_direct)
next
  case None
  obtain a ps where p: "split_on (CHR ''.'') ch = a # ps" by (cases "split_on (CHR ''.'') ch") auto
  then have a: "CHR ''.'' \<notin> set a" using split_on_no_sep [of a "CHR ''.''" ch] by simp
  have j: "join_with ''.'' (a # ps) = ch" using join_split [of "CHR ''.''" ch] p by simp
  have "\<not> (a = ''agent'' \<and> ps = [''registration''])" "\<not> (a = ''agent'' \<and> ps = [''registration'', ''complete''])"
    using None j by (auto simp: default_lookup)
  with None p pattern_lookup [OF a] show ?thesis
    by (cases ps; cases "tl ps") (auto simp: getHandlerForChannel_def routed_def)
qed

text \<open>
  In every reachable state a message goes to the handler its channel names: registration and
  its completion by their exact names, and every channel whose first part is \<open>agent\<close> and whose third
  is a known topic to the handler of that topic, whatever the second part and any further parts
  are; all other channels have no handler.
\<close>

lemma gateway_routing:
  assumes "reach gw_init (gw_step lib) g"
  shows "getHandlerForChannel (gw_messageRouter g) ch = routed ch"
  using gwsys.reach_inv [OF assms] by (simp add: gw_inv_def default_routing)

section \<open>Delivery of messages from the actions API\<close>

lemma write_to_open:
  "i < length (gw_heap g) \<Longrightarrow> ac_open (gw_heap g ! i) \<Longrightarrow>
   write_to True i text g = (True, upd_conn i (\<lambda>c. c\<lparr>ac_written := ac_written c @ [(TextMessage, text)]\<rparr>) g)"
  by (simp add: write_to_def write_conn_def upd_conn_def)

lemma nats_written:
  assumes "gw_inv g" "parseWebSocketGatewayMessage lib data = Inr m"
    "map_get (gw_agentConnections g) (wm_TargetAgent m) = Some i" "ac_open (gw_heap g ! i)"
  shows "handleNATSMessage lib True data g = upd_conn i (\<lambda>c. c\<lparr>ac_written := ac_written c @ [(TextMessage,
      wl_enc_message lib (secure_form lib (ac_PublicKey (gw_heap g ! i)) (as_publicKey (gw_authService g)) m))]\<rparr>) g"
  using assms(2,3) write_to_open [OF gw_inv_entry(1) [OF assms(1,3)] assms(4)]
  by (simp add: handleNATSMessage_def sendMessageToAgent_def)

text \<open>
  C15. A message from the actions API that passes validation, for an agent in the connection table
  whose connection is open, is written to that connection and to no other, and nothing else
  changes. The connection carries the identifier of the target, and an agent that derives the
  shared key from the two public keys recovers identifier, channel, type and payload of the message,
  provided JSON and base64 decode what they encoded and the cipher opens what it sealed.
\<close>

theorem nats_delivery:
  assumes "reach gw_init (gw_step lib) g"
    and "parseWebSocketGatewayMessage lib data = Inr m" "map_get (gw_agentConnections g) (wm_TargetAgent m) = Some i"
    and "ac_open (gw_heap g ! i)"
    and "sm = secure_form lib (ac_PublicKey (gw_heap g ! i)) (as_publicKey (gw_authService g)) m"
    and json: "wl_dec_message lib (wl_enc_message lib sm) = Some sm"
    and b64: "\<And>x. wl_b64dec lib (wl_b64enc lib x) = Some x"
    and cipher: "\<And>k n p. open_sealed k n (wl_seal lib k n p) = Some p"
  shows "handleNATSMessage lib True data g =
      upd_conn i (\<lambda>c. c\<lparr>ac_written := ac_written c @ [(TextMessage, wl_enc_message lib sm)]\<rparr>) g
    \<and> ac_AgentID (gw_heap g ! i) = wm_TargetAgent m
    \<and> (\<exists>sm' ct. wl_dec_message lib (wl_enc_message lib sm) = Some sm' \<and> sm_ID sm' = wm_ID m
      \<and> sm_Channel sm' = wm_Channel m \<and> sm_Type sm' = wm_Type m \<and> wl_b64dec lib (sm_Payload sm') = Some ct
      \<and> open_sealed (shared_key lib (ac_PublicKey (gw_heap g ! i)) (as_publicKey (gw_authService g))) message_nonce ct
          = Some (wm_Payload m))"
proof -
  have inv: "gw_inv g" by (rule gwsys.reach_inv [OF assms(1)])
  from nats_written [OF inv assms(2-4)] gw_inv_entry(2) [OF inv assms(3)] json b64 cipher
  show ?thesis by (simp add: assms(5) secure_form_def)
qed

section \<open>Authentication\<close>

text \<open>A message that asks for authentication and whose payload decodes.\<close>

definition asks_auth :: "ws_lib \<Rightarrow> string \<Rightarrow> bool" where
  "asks_auth lib data \<longleftrightarrow>
     (\<exists>m req. wl_dec_message lib data = Some m \<and> sm_Type m = ''request'' \<and> sm_Channel m = ''auth''
        \<and> DecryptAuthenticationRequest lib m = Inr req)"

definition flags :: "gateway \<Rightarrow> bool list" where
  "flags g = map ac_IsAuthenticated (gw_heap g)"

lemma flags_upd_conn: "(\<And>c. ac_IsAuthenticated (f c) = ac_IsAuthenticated c) \<Longrightarrow> flags (upd_conn i f g) = flags g"
  by (simp add: flags_def upd_conn_def map_update_same)

lemma flags_other [simp]:
  "flags (g\<lparr>gw_calls := cs\<rparr>) = flags g" "flags (g\<lparr>gw_heartbeats := hs\<rparr>) = flags g"
  "flags (g\<lparr>gw_metrics := ms\<rparr>) = flags g" "flags (g\<lparr>gw_agentConnections := T\<rparr>) = flags g"
  "flags (api_call p r g) = flags g"
  by (simp_all add: flags_def api_call_def)

lemma flags_write_to [simp]: "flags (snd (write_to net i d g)) = flags g"
  by (simp add: write_to_def flags_upd_conn)

lemma flags_write_to_eq: "write_to net i d g = (ok, g') \<Longrightarrow> flags g' = flags g"
  using flags_write_to [of net i d g] by simp

lemma flags_rekey: "rekey k k' g = (k'', g') \<Longrightarrow> flags g' = flags g"
  by (auto simp: rekey_def flags_upd_conn split: if_splits option.splits)

lemma flags_finish_registration [simp]: "flags (snd (finish_registration lib now net rid rch what api k g)) = flags g"
  by (auto simp: finish_registration_def Let_def flags_write_to_eq flags_rekey split: api_answer.split option.split prod.split)

lemma flags_registration_complete [simp]: "flags (snd (handleAgentRegistrationComplete lib now nano net api k m g)) = flags g"
  by (simp add: handleAgentRegistrationComplete_def Let_def split: sum.split)

lemma flags_handler [simp]: "flags (snd (run_handler lib now nano net api k h m g)) = flags g"
  by (cases h) (simp_all add: handleAgentHeartbeat_def handleAgentRegistration_def Let_def flags_upd_conn
      split: sum.split option.split)

lemma flags_route [simp]: "flags (snd (RouteMessage r (run_handler lib now nano net api k) m g)) = flags g"
  by (simp add: RouteMessage_def split: option.split)

lemma flags_error_response [simp]: "flags (sendErrorResponse lib now nano net i et msg code ra g) = flags g"
  by (simp add: sendErrorResponse_def)

lemma flags_authentication:
  assumes "handleAuthentication lib now nano net i m g = Some (e, g')"
  shows "flags g' = (case DecryptAuthenticationRequest lib m of Inl _ \<Rightarrow> flags g | Inr _ \<Rightarrow> (flags g)[i := True])"
proof -
  have "flags (upd_conn i (\<lambda>c. c\<lparr>ac_IsAuthenticated := True, ac_SessionToken := t\<rparr>) g) = (flags g)[i := True]" for t
    by (simp add: flags_def upd_conn_def map_update)
  with assms show ?thesis
    by (auto simp: handleAuthentication_def Let_def flags_write_to_eq split: sum.splits option.splits prod.splits if_splits)
qed

lemma flags_text:
  assumes "handleTextMessage lib now nano net api i data g = Some (e, g')"
  shows "flags g' = (if asks_auth lib data then (flags g)[i := True] else flags g)"
proof (cases "wl_dec_message lib data")
  case None
  with assms show ?thesis by (simp add: handleTextMessage_def asks_auth_def)
next
  case (Some m)
  show ?thesis
  proof (cases "sm_Type m = ''request'' \<and> sm_Channel m = ''auth''")
    case True
    with Some assms flags_authentication show ?thesis
      by (fastforce simp: handleTextMessage_def asks_auth_def split: sum.splits)
  next
    case False
    from False Some assms consider
      "(e, g') = handleAgentRegistrationComplete lib now nano net api (ac_AgentID (gw_heap g ! i)) m g" | "g' = g"
      | "(e, g') = RouteMessage (gw_messageRouter g) (run_handler lib now nano net api (ac_AgentID (gw_heap g ! i))) m g"
      by (auto simp: handleTextMessage_def Let_def split: if_splits)
    then have "flags g' = flags g"
      by cases (simp_all add: prod_eq_iff)
    with False Some show ?thesis by (auto simp: asks_auth_def)
  qed
qed

text \<open>
  Serving a message changes whether connections count as authenticated in one case only: a text
  message of type request on the channel \<open>auth\<close> whose payload decodes marks its own connection. The
  outcome of the authentication does not matter: a wrong key, an invalid signature or the name of
  another agent are answered with a refusal, and the connection counts as authenticated all the
  same.
\<close>

lemma authentication_needs_no_proof:
  assumes "i < length (gw_heap g)" "serve_message lib now nano net net' api i typ data g = Some g'"
  shows "map ac_IsAuthenticated (gw_heap g') =
    (if typ = TextMessage \<and> asks_auth lib data then (map ac_IsAuthenticated (gw_heap g))[i := True]
     else map ac_IsAuthenticated (gw_heap g))"
proof -
  let ?g1 = "upd_conn i (\<lambda>c. c\<lparr>ac_LastSeen := now\<rparr>) g"
  have 1: "flags ?g1 = flags g" by (rule flags_upd_conn) simp
  have 2: "flags (end_serving i h) = flags h" for h by (simp add: end_serving_def flags_upd_conn)
  have 3: "flags g2 = (if typ = TextMessage \<and> asks_auth lib data then (flags ?g1)[i := True] else flags ?g1)"
    if "dispatch lib now nano net net' api i typ data ?g1 = Some g2" for g2
    using that flags_text
    by (auto simp: dispatch_def flags_upd_conn PingMessage_def TextMessage_def split: if_splits option.splits)
  have "flags g' = (if typ = TextMessage \<and> asks_auth lib data then (flags g)[i := True] else flags g)"
    using assms(2) 1 2 3
    by (auto simp: serve_message_def Let_def flags_upd_conn CloseMessage_def TextMessage_def split: if_splits option.splits)
  then show ?thesis by (simp add: flags_def)
qed

text \<open>A text message that is neither an authentication request nor the completion of a registration.\<close>

definition ordinary :: "ws_lib \<Rightarrow> string \<Rightarrow> bool" where
  "ordinary lib data \<longleftrightarrow>
     (\<forall>m. wl_dec_message lib data = Some m \<longrightarrow>
        \<not> (sm_Type m = ''request'' \<and> sm_Channel m \<in> {''auth'', ''registration.complete''}))"

lemma unauthenticated_text:
  assumes "ordinary lib data" "\<not> ac_IsAuthenticated (gw_heap g ! i)"
  shows "\<exists>e. handleTextMessage lib now nano net api i data g = Some (Some e, g)"
  using assms by (auto simp: handleTextMessage_def ordinary_def Let_def split: option.splits)

text \<open>
  C16. A connection that is not authenticated reaches no handler with ordinary messages: such a
  message changes nothing but the connection it came on, which gets an error response if the write
  succeeds, stays unauthenticated and keeps its identifier. The table, the other connections, the
  requests to the actions API, the heartbeats and the metrics are as before.
\<close>

theorem unauthenticated_confined:
  assumes "i < length (gw_heap g)" "\<not> ac_IsAuthenticated (gw_heap g ! i)" "ordinary lib data"
  shows "\<exists>c. serve_message lib now nano net net' api i TextMessage data g = Some (g\<lparr>gw_heap := (gw_heap g)[i := c]\<rparr>)
    \<and> \<not> ac_IsAuthenticated c \<and> ac_AgentID c = ac_AgentID (gw_heap g ! i)
    \<and> (ac_open (gw_heap g ! i) \<and> net' \<longrightarrow> (\<exists>text. ac_written c = ac_written (gw_heap g ! i) @ [(TextMessage, text)]))"
proof -
  let ?c1 = "(gw_heap g ! i)\<lparr>ac_LastSeen := now\<rparr>" and ?d = "time_add now (gc_ConnectionTimeout (gw_config g))"
  let ?g1 = "g\<lparr>gw_heap := (gw_heap g)[i := ?c1]\<rparr>"
  have g1: "upd_conn i (\<lambda>c. c\<lparr>ac_LastSeen := now\<rparr>) g = ?g1" "gw_heap ?g1 ! i = ?c1" "gw_config ?g1 = gw_config g"
    using assms(1) by (simp_all add: upd_conn_def)
  have "\<not> ac_IsAuthenticated (gw_heap ?g1 ! i)" using assms(1,2) by simp
  from unauthenticated_text [OF assms(3) this]
  obtain e where e: "handleTextMessage lib now nano net api i data ?g1 = Some (Some e, ?g1)" by blast
  obtain reply where t: "sendErrorResponse lib now nano net' i ''message_processing_error'' e 4002 1 ?g1
      = ?g1\<lparr>gw_heap := (gw_heap ?g1)[i := snd (write_conn net' TextMessage reply ?c1)]\<rparr>"
    using g1(2) by (simp add: sendErrorResponse_def write_to_def upd_conn_def)
  have "serve_message lib now nano net net' api i TextMessage data g =
      Some (g\<lparr>gw_heap := (gw_heap g)[i := (snd (write_conn net' TextMessage reply ?c1))\<lparr>ac_deadline := ?d\<rparr>]\<rparr>)"
    using assms(1) g1(1) e t
    by (simp add: serve_message_def dispatch_def CloseMessage_def TextMessage_def upd_conn_def)
  with assms(2) show ?thesis by (auto simp: write_conn_def)
qed

text \<open>
  Serving a message makes the gateway process panic in exactly one situation: an authentication
  request that carries the public key of its connection and a signature in base64, on a connection
  whose key is not 32 bytes long. The key is taken from a request header without a check of its
  length, so that any client can end the process.
\<close>

lemma gateway_panics_iff:
  assumes "i < length (gw_heap g)"
  shows "serve_message lib now nano net net' api i typ data g = None \<longleftrightarrow>
    typ = TextMessage \<and>
    (\<exists>m req sig. wl_dec_message lib data = Some m \<and> sm_Type m = ''request'' \<and> sm_Channel m = ''auth''
       \<and> DecryptAuthenticationRequest lib m = Inr req
       \<and> wl_b64dec lib (aq_PublicKey req) = Some (ac_PublicKey (gw_heap g ! i))
       \<and> wl_b64dec lib (aq_Signature req) = Some sig \<and> length (ac_PublicKey (gw_heap g ! i)) \<noteq> 32)"
proof -
  let ?g1 = "upd_conn i (\<lambda>c. c\<lparr>ac_LastSeen := now\<rparr>) g"
  have key: "ac_PublicKey (gw_heap ?g1 ! i) = ac_PublicKey (gw_heap g ! i)" using assms by (simp add: upd_conn_def)
  have auth: "handleAuthentication lib now nano net i m ?g1 = None \<longleftrightarrow>
      (\<exists>req sig. DecryptAuthenticationRequest lib m = Inr req
         \<and> wl_b64dec lib (aq_PublicKey req) = Some (ac_PublicKey (gw_heap g ! i))
         \<and> wl_b64dec lib (aq_Signature req) = Some sig \<and> length (ac_PublicKey (gw_heap g ! i)) \<noteq> 32)" for m
    by (auto simp: handleAuthentication_def AuthenticateAgent_def verifySignature_def key Let_def
        split: sum.split option.split bool.split prod.split)
  have "handleTextMessage lib now nano net api i data ?g1 = None \<longleftrightarrow>
      (\<exists>m. wl_dec_message lib data = Some m \<and> sm_Type m = ''request'' \<and> sm_Channel m = ''auth''
        \<and> handleAuthentication lib now nano net i m ?g1 = None)"
    by (auto simp: handleTextMessage_def Let_def split: option.split)
  with auth show ?thesis
    by (auto simp: serve_message_def dispatch_def Let_def CloseMessage_def TextMessage_def PingMessage_def split: option.splits)
qed

section \<open>Connections that share an identifier\<close>

text \<open>
  A client that names an agent in its upgrade request takes over the messages for that agent:
  whatever connections there are, after the upgrade and the start of the connection the table leads
  to the new connection although it is not authenticated, and the next message of the actions API
  for the agent is written to it alone, sealed under a key that the client can compute from its own
  public key and the gateway's.
\<close>

lemma connection_takeover:
  assumes "reach gw_init (gw_step lib) g"
    and "int (length (gw_agentConnections g)) < gc_MaxConnections (gw_config g)"
    and "agentID \<noteq> ''''" "publicKeyStr \<noteq> ''''" "wl_b64dec lib publicKeyStr = Some key"
    and "g1 = snd (handleWebSocketUpgrade lib now True agentID publicKeyStr ''Aegis-Agent/1.0'' g)"
    and "i = length (gw_heap g)" "g2 = begin_serving now i g1"
    and "parseWebSocketGatewayMessage lib data = Inr m" "wm_TargetAgent m = agentID"
  shows "reach gw_init (gw_step lib) g2 \<and> \<not> ac_IsAuthenticated (gw_heap g2 ! i)
    \<and> map_get (gw_agentConnections g2) agentID = Some i
    \<and> handleNATSMessage lib True data g2 = upd_conn i (\<lambda>c. c\<lparr>ac_written := [(TextMessage,
          wl_enc_message lib (secure_form lib key (as_publicKey (gw_authService g)) m))]\<rparr>) g2"
proof -
  have g1: "gw_heap g1 = gw_heap g @ [new_connection agentID key now]" "gw_agentConnections g1 = gw_agentConnections g"
    "gw_authService g1 = gw_authService g"
    using assms(2-6) by (simp_all add: handleWebSocketUpgrade_def)
  have r1: "reach gw_init (gw_step lib) g1" unfolding assms(6) by (rule reach.reach_step [OF assms(1) gw_step.upgrade])
  have i1: "i < length (gw_heap g1)" "ac_stage (gw_heap g1 ! i) = Accepted"
    using g1 assms(7) by (simp_all add: new_connection_def)
  have r2: "reach gw_init (gw_step lib) g2"
    unfolding assms(8) by (rule reach.reach_step [OF r1 gw_step.begin_conn [OF i1]])
  have g2: "map_get (gw_agentConnections g2) agentID = Some i" "gw_authService g2 = gw_authService g"
    "i < length (gw_heap g2)" "\<not> ac_IsAuthenticated (gw_heap g2 ! i)" "ac_open (gw_heap g2 ! i)"
    "ac_PublicKey (gw_heap g2 ! i) = key" "ac_written (gw_heap g2 ! i) = []"
    using g1 i1(1) assms(7,8) by (simp_all add: begin_serving_def upd_conn_def new_connection_def)
  have "handleNATSMessage lib True data g2 = upd_conn i (\<lambda>c. c\<lparr>ac_written := [(TextMessage,
          wl_enc_message lib (secure_form lib key (as_publicKey (gw_authService g)) m))]\<rparr>) g2"
    using assms(9,10) g2 write_to_open [OF g2(3,5)]
    by (simp add: handleNATSMessage_def sendMessageToAgent_def upd_conn_def)
  with r2 g2 show ?thesis by blast
qed

text \<open>When a connection ends, the entry under its identifier is removed, also if it belongs to a newer
  connection of the same agent: that one is served and no longer found.\<close>

lemma end_serving_removes_newer:
  assumes "gw_inv g" "map_get (gw_agentConnections g) k = Some j"
    and "i < length (gw_heap g)" "i \<noteq> j" "ac_AgentID (gw_heap g ! i) = k"
  shows "map_get (gw_agentConnections (end_serving i g)) k = None \<and> ac_stage (gw_heap (end_serving i g) ! j) = Serving"
  using assms gw_inv_entry [OF assms(1,2)]
  by (simp add: end_serving_def upd_conn_def map_get_delete_fun)

end
