(* ===== verification/Gw_Examples.thy ===== *)
theory Gw_Examples
  imports Gw_Properties
begin

text \<open>
  Concrete runs of the gateway: the theorems of \<open>Gw_Properties\<close> at inputs where their hypotheses hold.
  The library is instantiated by simple functions: base64 and SHA-256 as the identity, a cipher that
  appends a byte.
\<close>

definition ex_auth_msg :: secure_message where
  "ex_auth_msg = \<lparr>sm_ID = ''1'', sm_Type = ''request'', sm_Channel = ''auth'', sm_Payload = ''login'', sm_Timestamp = 0,
     sm_Nonce = '''', sm_Signature = '''', sm_Headers = []\<rparr>"

definition ex_note_msg :: secure_message where
  "ex_note_msg = ex_auth_msg\<lparr>sm_Channel := ''agent.a.status''\<rparr>"

definition ex_sm :: secure_message where
  "ex_sm = \<lparr>sm_ID = ''7'', sm_Type = ''event'', sm_Channel = ''agent.a.policies'', sm_Payload = ''block!'',
     sm_Timestamp = 0, sm_Nonce = ''message_nonc'', sm_Signature = '''', sm_Headers = []\<rparr>"

definition ex_gm :: websocket_gateway_message where
  "ex_gm = \<lparr>wm_ID = ''7'', wm_Type = '''', wm_Channel = ''agent.a.policies'', wm_Payload = ''block'', wm_Timestamp = 0,
     wm_Headers = None, wm_TargetAgent = ''a''\<rparr>"

text \<open>What the actions API publishes for an operator's message.\<close>

definition ex_gm2 :: websocket_gateway_message where
  "ex_gm2 = \<lparr>wm_ID = ''msg_1'', wm_Type = ''event'', wm_Channel = ''agent.a.policies'', wm_Payload = ''block'',
     wm_Timestamp = 0, wm_Headers = Some [], wm_TargetAgent = ''a''\<rparr>"

definition ex_ws :: ws_lib where
  "ex_ws = \<lparr>wl_b64dec = Some, wl_b64enc = (\<lambda>s. s),
     wl_dec_message = (\<lambda>s. if s = ''auth'' then Some ex_auth_msg else if s = ''note'' then Some ex_note_msg
        else if s = ''#block!'' then Some ex_sm else None),
     wl_enc_message = (\<lambda>m. ''#'' @ sm_Payload m),
     wl_dec_auth = (\<lambda>s. Some \<lparr>aq_AgentID = ''someone'', aq_PublicKey = ''x'', aq_Timestamp = 0, aq_Nonce = '''', aq_Signature = ''y''\<rparr>),
     wl_enc_auth = (\<lambda>r. ar_Message r), wl_dec_object = (\<lambda>s. Some []), wl_dec_gateway = (\<lambda>s. Some (if s = ''d'' then ex_gm else ex_gm2)),
     wl_verify = (\<lambda>k d s. False), wl_sign = (\<lambda>k d. d), wl_jwt = (\<lambda>k c. Some ''token''), wl_sha256 = (\<lambda>s. s),
     wl_seal = (\<lambda>k n p. p @ ''!'')\<rparr>"

definition ex_gw_cfg :: configuration where
  "ex_gw_cfg = \<lparr>gc_Port = 8080, gc_MaxConnections = 10, gc_HeartbeatInterval = 30, gc_ConnectionTimeout = 60,
     gc_SessionTimeout = 3600, gc_ActionsAPIURL = ''''\<rparr>"

definition ex_gw0 :: gateway where
  "ex_gw0 = NewWebSocketGateway ''pub'' ''priv'' 0 ex_gw_cfg"

definition ex_gw_up :: "string \<Rightarrow> gateway \<Rightarrow> gateway" where
  "ex_gw_up key g = snd (handleWebSocketUpgrade ex_ws 0 True ''a'' key ''Aegis-Agent/1.0'' g)"

definition ex_gw1 :: gateway where
  "ex_gw1 = begin_serving 0 0 (ex_gw_up ''k'' ex_gw0)"

text \<open>A second client names the same agent.\<close>

definition ex_gw2 :: gateway where
  "ex_gw2 = begin_serving 0 1 (ex_gw_up ''x'' ex_gw1)"

lemma ex_gw_start:
  assumes "reach gw_init (gw_step ex_ws) g" "length (gw_heap (ex_gw_up key g)) = Suc i"
    "ac_stage (gw_heap (ex_gw_up key g) ! i) = Accepted"
  shows "reach gw_init (gw_step ex_ws) (begin_serving 0 i (ex_gw_up key g))"
proof -
  have "reach gw_init (gw_step ex_ws) (ex_gw_up key g)"
    unfolding ex_gw_up_def by (rule reach.reach_step [OF assms(1) gw_step.upgrade])
  then show ?thesis by (rule reach.reach_step) (rule gw_step.begin_conn, use assms in auto)
qed

lemma ex_gw_reach: "reach gw_init (gw_step ex_ws) ex_gw0" "reach gw_init (gw_step ex_ws) ex_gw1"
  "reach gw_init (gw_step ex_ws) ex_gw2"
proof -
  show 0: "reach gw_init (gw_step ex_ws) ex_gw0"
    by (rule reach.reach_init) (auto simp: gw_init_def ex_gw0_def)
  show 1: "reach gw_init (gw_step ex_ws) ex_gw1"
    unfolding ex_gw1_def by (rule ex_gw_start [OF 0]; code_simp)
  show "reach gw_init (gw_step ex_ws) ex_gw2"
    unfolding ex_gw2_def by (rule ex_gw_start [OF 1]; code_simp)
qed


lemma gateway_routing_witness:
  "getHandlerForChannel (gw_messageRouter ex_gw1) ''agent.17.heartbeat.x'' = Some HandleHeartbeat
   \<and> getHandlerForChannel (gw_messageRouter ex_gw1) ''agent.status'' = None"
  unfolding gateway_routing [OF ex_gw_reach(2)] by code_simp

theorem nats_delivery_witness:
  "ac_AgentID (gw_heap ex_gw1 ! 0) = ''a''
   \<and> handleNATSMessage ex_ws True ''d'' ex_gw1 =
       upd_conn 0 (\<lambda>c. c\<lparr>ac_written := ac_written c @ [(TextMessage, ''#block!'')]\<rparr>) ex_gw1"
proof -
  define m where "m = ex_gm\<lparr>wm_Type := ''event'', wm_Headers := Some []\<rparr>"
  define sm where "sm = secure_form ex_ws (ac_PublicKey (gw_heap ex_gw1 ! 0)) (as_publicKey (gw_authService ex_gw1)) m"
  have p: "parseWebSocketGatewayMessage ex_ws ''d'' = Inr m" unfolding m_def by code_simp
  have "map_get (gw_agentConnections ex_gw1) ''a'' = Some 0" by code_simp
  moreover have tg: "wm_TargetAgent m = ''a''" unfolding m_def by code_simp
  ultimately have t: "map_get (gw_agentConnections ex_gw1) (wm_TargetAgent m) = Some 0" by simp
  have o: "ac_open (gw_heap ex_gw1 ! 0)" by code_simp
  have s: "sm = ex_sm" unfolding sm_def m_def by code_simp
  have j: "wl_dec_message ex_ws (wl_enc_message ex_ws sm) = Some sm" "wl_enc_message ex_ws sm = ''#block!''"
    unfolding s by code_simp+
  have b: "wl_b64dec ex_ws (wl_b64enc ex_ws x) = Some x" for x by (simp add: ex_ws_def)
  have c: "Some (butlast (wl_seal ex_ws k n p)) = Some p" for k n p by (simp add: ex_ws_def)
  from nats_delivery [OF ex_gw_reach(2) p t o sm_def j(1) b, of "\<lambda>k n c. Some (butlast c)"] c tg j(2)
  show ?thesis by simp
qed

lemma authentication_needs_no_proof_witness:
  "map_option (\<lambda>g. map ac_IsAuthenticated (gw_heap g))
     (serve_message ex_ws 1 ''1'' True True (ApiError '''') 0 TextMessage ''auth'' ex_gw1) = Some [True]
   \<and> map_option ar_Message (AuthenticateAgent ex_ws (gw_authService ex_gw1) 1
       (the (wl_dec_auth ex_ws ''login'')) (ac_PublicKey (gw_heap ex_gw1 ! 0))) = Some ''Public key mismatch''"
proof -
  have i: "0 < length (gw_heap ex_gw1)" by code_simp
  have "serve_message ex_ws 1 ''1'' True True (ApiError '''') 0 TextMessage ''auth'' ex_gw1 \<noteq> None" by code_simp
  then obtain g' where g': "serve_message ex_ws 1 ''1'' True True (ApiError '''') 0 TextMessage ''auth'' ex_gw1 = Some g'" by blast
  have "asks_auth ex_ws ''auth''"
    by (simp add: asks_auth_def DecryptAuthenticationRequest_def ex_ws_def ex_auth_msg_def)
  moreover have "map ac_IsAuthenticated (gw_heap ex_gw1) = [False]" by code_simp
  ultimately have "map ac_IsAuthenticated (gw_heap g') = [True]"
    using authentication_needs_no_proof [OF i g'] by simp
  moreover have "map_option ar_Message (AuthenticateAgent ex_ws (gw_authService ex_gw1) 1
       (the (wl_dec_auth ex_ws ''login'')) (ac_PublicKey (gw_heap ex_gw1 ! 0))) = Some ''Public key mismatch''"
    by code_simp
  ultimately show ?thesis using g' by simp
qed

theorem unauthenticated_confined_witness:
  "\<exists>c. serve_message ex_ws 1 ''1'' True True (ApiError '''') 0 TextMessage ''note'' ex_gw1 =
         Some (ex_gw1\<lparr>gw_heap := (gw_heap ex_gw1)[0 := c]\<rparr>) \<and> \<not> ac_IsAuthenticated c"
proof -
  have "0 < length (gw_heap ex_gw1)" "\<not> ac_IsAuthenticated (gw_heap ex_gw1 ! 0)" by code_simp+
  moreover have "ordinary ex_ws ''note''" by (simp add: ordinary_def ex_ws_def ex_note_msg_def ex_auth_msg_def)
  ultimately show ?thesis
    using unauthenticated_confined [of 0 ex_gw1 ex_ws "''note''" 1 "''1''" True True "ApiError ''''"] by blast
qed

text \<open>The second client of \<^const>\<open>ex_gw2\<close> has a key of one byte.\<close>

lemma gateway_panics_iff_witness:
  "serve_message ex_ws 1 ''1'' True True (ApiError '''') 1 TextMessage ''auth'' ex_gw2 = None"
proof -
  have i: "1 < length (gw_heap ex_gw2)" and k: "ac_PublicKey (gw_heap ex_gw2 ! 1) = ''x''" by code_simp+
  have "\<exists>m req sig. wl_dec_message ex_ws ''auth'' = Some m \<and> sm_Type m = ''request'' \<and> sm_Channel m = ''auth''
       \<and> DecryptAuthenticationRequest ex_ws m = Inr req \<and> wl_b64dec ex_ws (aq_PublicKey req) = Some ''x''
       \<and> wl_b64dec ex_ws (aq_Signature req) = Some sig"
    by (simp add: DecryptAuthenticationRequest_def ex_ws_def ex_auth_msg_def)
  with k gateway_panics_iff [OF i] show ?thesis by simp
qed

lemma connection_takeover_witness:
  "map_get (gw_agentConnections ex_gw2) ''a'' = Some 1 \<and> \<not> ac_IsAuthenticated (gw_heap ex_gw2 ! 1)"
proof -
  have l: "int (length (gw_agentConnections ex_gw1)) < gc_MaxConnections (gw_config ex_gw1)" by code_simp
  have k: "wl_b64dec ex_ws ''x'' = Some ''x''" by code_simp
  have i: "1 = length (gw_heap ex_gw1)" by code_simp
  have p: "parseWebSocketGatewayMessage ex_ws ''d'' = Inr (ex_gm\<lparr>wm_Type := ''event'', wm_Headers := Some []\<rparr>)" by code_simp
  show ?thesis
    using connection_takeover [OF ex_gw_reach(2) l _ _ k, of "''a''" _ 0 1 ex_gw2 "''d''", OF _ _ refl i _ p]
    by (simp add: ex_gw2_def ex_gw_up_def ex_gm_def)
qed

end
