(* ===== verification/Act_Agents.thy ===== *)
theory Act_Agents
  imports Gw_Gateway "HOL-Library.Product_Lexorder"
begin

text \<open>
  The agents of the actions API, \<open>backend/actions-api/internal/api\<close>: the store (\<open>store.go\<close>), registration
  (\<open>agents.go\<close>), heartbeats, labels, listing and messages (\<open>agents_api.go\<close>, \<open>agents_fleet_scale.go\<close>).

  An agent object is reached only through the table of agents and is stored there once, under its
  identifier, so that the table \<open>byHost\<close> of pointers is a table of identifiers. Random bytes, fresh
  identifiers and times are arguments; base64, JSON, SHA-256, Ed25519 and the parsing of times are the
  fields of \<open>act_lib\<close>. The store is locked during each part of a handler that uses it; the two parts
  of the completion of a registration are separate definitions.
\<close>

section \<open>Data\<close>

text \<open>A decoded JSON object, or nil.\<close>

type_synonym anymap = "(string, gval) gomap option"

record pending =
  pd_RegistrationID :: string
  pd_OrgID :: string
  pd_HostID :: string
  pd_PubKey :: string
  pd_Nonce :: string
  pd_Created :: time
  pd_ServerTime :: string
  pd_MachineIDHash :: string
  pd_AgentVersion :: string
  pd_Capabilities :: anymap
  pd_Platform :: anymap
  pd_Network :: anymap

record api_agent =
  aa_AgentUID :: string
  aa_OrgID :: string
  aa_HostID :: string
  aa_PubKey :: string
  aa_Created :: time
  aa_LastSeen :: time
  aa_Hostname :: string
  aa_MachineIDHash :: string
  aa_AgentVersion :: string
  aa_Capabilities :: anymap
  aa_Platform :: anymap
  aa_Network :: anymap
  aa_Labels :: "(string, bool) gomap"
  aa_Note :: string

record agent_store =
  st_pending :: "(string, pending) gomap"
  st_agents :: "(string, api_agent) gomap"
  st_byHost :: "(string, string) gomap"
  st_heartbeats :: nat
  st_published :: "string list"

definition NewStore :: agent_store where
  "NewStore = \<lparr>st_pending = [], st_agents = [], st_byHost = [], st_heartbeats = 0, st_published = []\<rparr>"

record act_lib =
  al_b64dec :: "string \<Rightarrow> string option"
  al_b64enc :: "string \<Rightarrow> string"
  al_sha256 :: "string \<Rightarrow> string"
  al_verify :: "string \<Rightarrow> string \<Rightarrow> string \<Rightarrow> bool"
  al_parse_time :: "string \<Rightarrow> time option"
  al_enc_object :: "(string, gval) gomap \<Rightarrow> string option"
  al_enc_gateway :: "websocket_gateway_message \<Rightarrow> string"

datatype 'a reply = Refused int string | Answer 'a

section \<open>Registration\<close>

definition hex_digit :: "nat \<Rightarrow> char" where
  "hex_digit n = (if n < 10 then char_of (48 + n) else char_of (87 + n))"

definition hex_encode :: "string \<Rightarrow> string" where
  "hex_encode s = concat (map (\<lambda>c. let n = of_char c in [hex_digit (n div 16), hex_digit (n mod 16)]) s)"

definition generateDeterministicAgentUID :: "act_lib \<Rightarrow> string \<Rightarrow> string" where
  "generateDeterministicAgentUID lib publicKey = ''agent-'' @ hex_encode (take 8 (al_sha256 lib publicKey))"

record register_init_req =
  ri_OrgID :: string
  ri_HostID :: string
  ri_AgentPubKey :: string
  ri_MachineIDHash :: string
  ri_AgentVersion :: string
  ri_Capabilities :: anymap
  ri_Platform :: anymap
  ri_Network :: anymap

definition postRegisterInit ::
  "act_lib \<Rightarrow> time \<Rightarrow> string \<Rightarrow> string \<Rightarrow> string \<Rightarrow> register_init_req option \<Rightarrow> agent_store
   \<Rightarrow> (string \<times> string \<times> string) reply \<times> agent_store" where
  "postRegisterInit lib now serverTime uuid nonce body s =
     (case body of
        None \<Rightarrow> (Refused 400 ''invalid JSON'', s)
      | Some req \<Rightarrow>
          (case al_b64dec lib (ri_AgentPubKey req) of
             None \<Rightarrow> (Refused 400 ''bad pubkey'', s)
           | Some pub \<Rightarrow>
               if length pub \<noteq> 32 then (Refused 400 ''bad pubkey'', s)
               else
                 let pend = \<lparr>pd_RegistrationID = uuid, pd_OrgID = ri_OrgID req, pd_HostID = ri_HostID req, pd_PubKey = pub,
                       pd_Nonce = nonce, pd_Created = now, pd_ServerTime = serverTime,
                       pd_MachineIDHash = ri_MachineIDHash req, pd_AgentVersion = ri_AgentVersion req,
                       pd_Capabilities = ri_Capabilities req, pd_Platform = ri_Platform req, pd_Network = ri_Network req\<rparr>
                 in (Answer (uuid, al_b64enc lib nonce, serverTime),
                     s\<lparr>st_pending := map_set uuid pend (st_pending s)\<rparr>)))"

record register_complete_req =
  rc_RegistrationID :: string
  rc_HostID :: string
  rc_Signature :: string

text \<open>The checks, which read the pending registration under the lock and verify without it.\<close>

definition complete_check :: "act_lib \<Rightarrow> register_complete_req \<Rightarrow> agent_store \<Rightarrow> (int \<times> string) + pending" where
  "complete_check lib req s =
     (case map_get (st_pending s) (rc_RegistrationID req) of
        None \<Rightarrow> Inl (404, ''unknown registration'')
      | Some pend \<Rightarrow>
          let msg = pd_Nonce pend @ pd_ServerTime pend @ rc_HostID req
          in case al_b64dec lib (rc_Signature req) of
               None \<Rightarrow> Inl (400, ''bad signature'')
             | Some sig \<Rightarrow>
                 if \<not> al_verify lib (pd_PubKey pend) msg sig then Inl (401, ''signature verify failed'')
                 else Inr pend)"

text \<open>The second locked part: an existing agent is updated, or a new one stored.\<close>

definition complete_store :: "act_lib \<Rightarrow> time \<Rightarrow> pending \<Rightarrow> agent_store \<Rightarrow> string \<times> agent_store" where
  "complete_store lib now pend s =
     (let agentUID = generateDeterministicAgentUID lib (pd_PubKey pend);
          s1 = s\<lparr>st_pending := map_delete (pd_RegistrationID pend) (st_pending s)\<rparr>
      in case map_get (st_agents s) agentUID of
           Some a \<Rightarrow>
             let a' = a\<lparr>aa_LastSeen := now, aa_PubKey := pd_PubKey pend, aa_HostID := pd_HostID pend,
                        aa_MachineIDHash := pd_MachineIDHash pend, aa_AgentVersion := pd_AgentVersion pend,
                        aa_Capabilities := pd_Capabilities pend, aa_Platform := pd_Platform pend,
                        aa_Network := pd_Network pend\<rparr>;
                 hosts = (if aa_HostID a \<noteq> pd_HostID pend then map_delete (aa_HostID a) (st_byHost s) else st_byHost s)
             in (agentUID, s1\<lparr>st_agents := map_set agentUID a' (st_agents s),
                              st_byHost := map_set (pd_HostID pend) agentUID hosts\<rparr>)
         | None \<Rightarrow>
             let a = \<lparr>aa_AgentUID = agentUID, aa_OrgID = pd_OrgID pend, aa_HostID = pd_HostID pend,
                   aa_PubKey = pd_PubKey pend, aa_Created = now, aa_LastSeen = now, aa_Hostname = '''',
                   aa_MachineIDHash = pd_MachineIDHash pend, aa_AgentVersion = pd_AgentVersion pend,
                   aa_Capabilities = pd_Capabilities pend, aa_Platform = pd_Platform pend,
                   aa_Network = pd_Network pend, aa_Labels = [], aa_Note = ''''\<rparr>
             in (agentUID, s1\<lparr>st_agents := map_set agentUID a (st_agents s),
                              st_byHost := map_set (pd_HostID pend) agentUID (st_byHost s)\<rparr>))"

definition postRegisterComplete ::
  "act_lib \<Rightarrow> time \<Rightarrow> string \<Rightarrow> register_complete_req option \<Rightarrow> agent_store \<Rightarrow> (string \<times> string) reply \<times> agent_store" where
  "postRegisterComplete lib now uuid body s =
     (case body of
        None \<Rightarrow> (Refused 400 ''invalid JSON'', s)
      | Some req \<Rightarrow>
          (case complete_check lib req s of
             Inl (code, msg) \<Rightarrow> (Refused code msg, s)
           | Inr pend \<Rightarrow>
               (case complete_store lib now pend s of (agentUID, s') \<Rightarrow> (Answer (agentUID, ''dev-'' @ uuid), s'))))"

section \<open>Heartbeats\<close>

record heartbeat_payload =
  hb_AgentUID :: string
  hb_OrgID :: string
  hb_HostID :: string
  hb_Hostname :: string
  hb_MachineIDHash :: string
  hb_AgentVersion :: string
  hb_LastSeen :: string
  hb_Status :: string
  hb_Capabilities :: anymap
  hb_Platform :: anymap
  hb_Network :: anymap
  hb_Labels :: "string list"
  hb_Note :: string

definition labelsToMap :: "string list \<Rightarrow> (string, bool) gomap" where
  "labelsToMap labels =
     fold (\<lambda>l m. let l' = trim_space l in if l' \<noteq> '''' then map_set l' True m else m) labels []"

definition newAgentFromHeartbeat :: "time \<Rightarrow> heartbeat_payload \<Rightarrow> api_agent" where
  "newAgentFromHeartbeat lastSeen hb =
     (let hostID = or_default (hb_HostID hb) (hb_AgentUID hb);
          hostname = or_default (hb_Hostname hb) hostID
      in \<lparr>aa_AgentUID = hb_AgentUID hb, aa_OrgID = or_default (hb_OrgID hb) ''default-org'', aa_HostID = hostID,
          aa_PubKey = '''', aa_Created = lastSeen, aa_LastSeen = lastSeen, aa_Hostname = hostname,
          aa_MachineIDHash = hb_MachineIDHash hb, aa_AgentVersion = or_default (hb_AgentVersion hb) ''unknown'',
          aa_Capabilities = (case hb_Capabilities hb of None \<Rightarrow> Some [(''visibility'', VBool True)] | c \<Rightarrow> c),
          aa_Platform = (case hb_Platform hb of
             None \<Rightarrow> Some [(''hostname'', VStr hostname), (''os'', VStr ''unknown'')] | p \<Rightarrow> p),
          aa_Network = (case hb_Network hb of None \<Rightarrow> Some [] | n \<Rightarrow> n),
          aa_Labels = labelsToMap (hb_Labels hb),
          aa_Note = or_default (hb_Note hb) ''Registered from lab agent heartbeat''\<rparr>)"

definition keep_if_empty :: "string \<Rightarrow> string \<Rightarrow> string" where
  "keep_if_empty new old = (if new \<noteq> '''' then new else old)"

definition keep_if_nil :: "anymap \<Rightarrow> anymap \<Rightarrow> anymap" where
  "keep_if_nil new old = (if new \<noteq> None then new else old)"

definition merge_heartbeat :: "time \<Rightarrow> heartbeat_payload \<Rightarrow> api_agent \<Rightarrow> api_agent" where
  "merge_heartbeat lastSeen hb a =
     a\<lparr>aa_LastSeen := lastSeen, aa_OrgID := keep_if_empty (hb_OrgID hb) (aa_OrgID a),
       aa_HostID := keep_if_empty (hb_HostID hb) (aa_HostID a),
       aa_Hostname := keep_if_empty (hb_Hostname hb) (aa_Hostname a),
       aa_MachineIDHash := keep_if_empty (hb_MachineIDHash hb) (aa_MachineIDHash a),
       aa_AgentVersion := keep_if_empty (hb_AgentVersion hb) (aa_AgentVersion a),
       aa_Capabilities := keep_if_nil (hb_Capabilities hb) (aa_Capabilities a),
       aa_Platform := keep_if_nil (hb_Platform hb) (aa_Platform a),
       aa_Network := keep_if_nil (hb_Network hb) (aa_Network a),
       aa_Labels := (if hb_Labels hb \<noteq> [] then labelsToMap (hb_Labels hb) else aa_Labels a),
       aa_Note := keep_if_empty (hb_Note hb) (aa_Note a)\<rparr>"

definition applyHeartbeat :: "time \<Rightarrow> heartbeat_payload \<Rightarrow> string \<Rightarrow> api_agent \<Rightarrow> agent_store \<Rightarrow> agent_store" where
  "applyHeartbeat lastSeen hb uid a s =
     (let a' = merge_heartbeat lastSeen hb a;
          hosts1 = (if aa_HostID a \<noteq> '''' \<and> aa_HostID a \<noteq> aa_HostID a' then map_delete (aa_HostID a) (st_byHost s)
                    else st_byHost s);
          hosts2 = (if aa_HostID a' \<noteq> '''' then map_set (aa_HostID a') uid hosts1 else hosts1)
      in s\<lparr>st_agents := map_set uid a' (st_agents s), st_byHost := hosts2\<rparr>)"

definition store_new_agent :: "api_agent \<Rightarrow> agent_store \<Rightarrow> agent_store" where
  "store_new_agent a s =
     s\<lparr>st_agents := map_set (aa_AgentUID a) a (st_agents s),
       st_byHost := (if aa_HostID a \<noteq> '''' then map_set (aa_HostID a) (aa_AgentUID a) (st_byHost s) else st_byHost s)\<rparr>"

text \<open>The counter is a 64-bit unsigned integer.\<close>

definition incHeartbeatAccepted :: "agent_store \<Rightarrow> agent_store" where
  "incHeartbeatAccepted s = s\<lparr>st_heartbeats := (st_heartbeats s + 1) mod 2 ^ 64\<rparr>"

datatype heartbeat_outcome = Updated | Registered

definition handleHeartbeat ::
  "act_lib \<Rightarrow> heartbeat_payload option \<Rightarrow> agent_store \<Rightarrow> (heartbeat_outcome \<times> string) reply \<times> agent_store" where
  "handleHeartbeat lib body s =
     (case body of
        None \<Rightarrow> (Refused 400 ''Invalid JSON'', s)
      | Some hb \<Rightarrow>
          if hb_AgentUID hb = '''' then (Refused 400 ''Agent UID required'', s)
          else case al_parse_time lib (hb_LastSeen hb) of
            None \<Rightarrow> (Refused 400 ''Invalid timestamp format'', s)
          | Some lastSeen \<Rightarrow>
              (case map_get (st_agents s) (hb_AgentUID hb) of
                 Some a \<Rightarrow> (Answer (Updated, hb_AgentUID hb),
                            incHeartbeatAccepted (applyHeartbeat lastSeen hb (hb_AgentUID hb) a s))
               | None \<Rightarrow>
                   (case find (\<lambda>(uid, a). aa_HostID a = hb_AgentUID hb) (st_agents s) of
                      Some (uid, a) \<Rightarrow> (Answer (Updated, uid), incHeartbeatAccepted (applyHeartbeat lastSeen hb uid a s))
                    | None \<Rightarrow>
                        (Answer (Registered, hb_AgentUID hb),
                         incHeartbeatAccepted (store_new_agent (newAgentFromHeartbeat lastSeen hb) s)))))"

fun batch_loop ::
  "act_lib \<Rightarrow> heartbeat_payload list \<Rightarrow> nat \<times> nat \<times> nat \<Rightarrow> agent_store \<Rightarrow> (nat \<times> nat \<times> nat) \<times> agent_store" where
  "batch_loop lib [] counts s = (counts, s)"
| "batch_loop lib (hb # hbs) (updated, registered, failed) s =
     (if hb_AgentUID hb = '''' then batch_loop lib hbs (updated, registered, failed + 1) s
      else case al_parse_time lib (hb_LastSeen hb) of
        None \<Rightarrow> batch_loop lib hbs (updated, registered, failed + 1) s
      | Some lastSeen \<Rightarrow>
          (case map_get (st_agents s) (hb_AgentUID hb) of
             Some a \<Rightarrow> batch_loop lib hbs (updated + 1, registered, failed) (applyHeartbeat lastSeen hb (hb_AgentUID hb) a s)
           | None \<Rightarrow> batch_loop lib hbs (updated, registered + 1, failed)
                        (store_new_agent (newAgentFromHeartbeat lastSeen hb) s)))"

definition handleBatchHeartbeats ::
  "act_lib \<Rightarrow> heartbeat_payload list option \<Rightarrow> agent_store \<Rightarrow> (nat \<times> nat \<times> nat) reply \<times> agent_store" where
  "handleBatchHeartbeats lib body s =
     (case body of
        None \<Rightarrow> (Refused 400 ''Invalid JSON'', s)
      | Some hbs \<Rightarrow>
          if hbs = [] then (Refused 400 ''heartbeats array required'', s)
          else if length hbs > 500 then (Refused 400 ''too many heartbeats in one request'', s)
          else case batch_loop lib hbs (0, 0, 0) s of
            ((updated, registered, failed), s') \<Rightarrow>
              (Answer (updated, registered, failed), (incHeartbeatAccepted ^^ (updated + registered)) s'))"

section \<open>Labels and notes\<close>

definition updateAgentLabels ::
  "(string list \<times> string list) option \<Rightarrow> string \<Rightarrow> agent_store \<Rightarrow> string list reply \<times> agent_store" where
  "updateAgentLabels body agentUID s =
     (case body of
        None \<Rightarrow> (Refused 400 ''Invalid JSON'', s)
      | Some (add, remove) \<Rightarrow>
          (case map_get (st_agents s) agentUID of
             None \<Rightarrow> (Refused 404 ''Agent not found'', s)
           | Some a \<Rightarrow>
               let added = fold (\<lambda>l m. if l \<noteq> '''' then map_set l True m else m) add (aa_Labels a);
                   labels = fold (\<lambda>l m. if l \<noteq> '''' then map_delete l m else m) remove added
               in (Answer (map fst labels), s\<lparr>st_agents := map_set agentUID (a\<lparr>aa_Labels := labels\<rparr>) (st_agents s)\<rparr>)))"

definition updateAgentNote :: "string option \<Rightarrow> string \<Rightarrow> agent_store \<Rightarrow> string reply \<times> agent_store" where
  "updateAgentNote body agentUID s =
     (case body of
        None \<Rightarrow> (Refused 400 ''Invalid JSON'', s)
      | Some note \<Rightarrow>
          (case map_get (st_agents s) agentUID of
             None \<Rightarrow> (Refused 404 ''Agent not found'', s)
           | Some a \<Rightarrow> (Answer note, s\<lparr>st_agents := map_set agentUID (a\<lparr>aa_Note := note\<rparr>) (st_agents s)\<rparr>)))"

section \<open>Listing\<close>

record 'p agent_info =
  ai_UID :: string
  ai_OrgID :: string
  ai_HostID :: string
  ai_Hostname :: string
  ai_MachineIDHash :: string
  ai_AgentVersion :: string
  ai_Platform :: anymap
  ai_Network :: anymap
  ai_Labels :: "string list"
  ai_Note :: string
  ai_Created :: time
  ai_LastSeen :: time
  ai_Status :: string
  ai_PackStatus :: "'p option"

definition agentConnectionStatus :: "time \<Rightarrow> time \<Rightarrow> string" where
  "agentConnectionStatus now lastSeen =
     (let age = time_sub now lastSeen
      in if age < seconds 180 then ''online'' else if age < seconds 900 then ''stale'' else ''offline'')"

definition to_info :: "time \<Rightarrow> 'p option \<Rightarrow> api_agent \<Rightarrow> 'p agent_info" where
  "to_info now pack a =
     \<lparr>ai_UID = aa_AgentUID a, ai_OrgID = aa_OrgID a, ai_HostID = aa_HostID a, ai_Hostname = aa_Hostname a,
      ai_MachineIDHash = aa_MachineIDHash a, ai_AgentVersion = aa_AgentVersion a, ai_Platform = aa_Platform a,
      ai_Network = aa_Network a, ai_Labels = map fst (aa_Labels a), ai_Note = aa_Note a, ai_Created = aa_Created a,
      ai_LastSeen = aa_LastSeen a, ai_Status = agentConnectionStatus now (aa_LastSeen a), ai_PackStatus = pack\<rparr>"

definition parseAgentListLimit :: "string \<Rightarrow> int" where
  "parseAgentListLimit raw =
     (if raw = '''' then 100
      else case atoi raw of
        None \<Rightarrow> 100
      | Some n \<Rightarrow> if n \<le> 0 then 100 else if n > 1000 then 1000 else n)"

definition parseAgentListOffset :: "string \<Rightarrow> int" where
  "parseAgentListOffset raw =
     (if raw = '''' then 0 else case atoi raw of None \<Rightarrow> 0 | Some n \<Rightarrow> if n < 0 then 0 else n)"

definition queryBoolDefaultFalse :: "string \<Rightarrow> bool" where
  "queryBoolDefaultFalse raw =
     (let v = trim_space raw in v = ''1'' \<or> equal_fold v ''true'' \<or> equal_fold v ''yes'')"

definition value_has_ip :: "string \<Rightarrow> gval \<Rightarrow> bool" where
  "value_has_ip ip v =
     (case v of VStr t \<Rightarrow> t = ip | VArr vs \<Rightarrow> VStr ip \<in> set vs | VObj kvs \<Rightarrow> VStr ip \<in> set (map snd kvs) | _ \<Rightarrow> False)"

definition agentHasIP :: "api_agent \<Rightarrow> string \<Rightarrow> bool" where
  "agentHasIP a ip =
     (case aa_Network a of None \<Rightarrow> False | Some m \<Rightarrow> list_ex (\<lambda>(k, v). value_has_ip ip v) m)"

definition agent_selected :: "string \<Rightarrow> string \<Rightarrow> string \<Rightarrow> string \<Rightarrow> api_agent \<Rightarrow> bool" where
  "agent_selected label hostname hostID ip a \<longleftrightarrow>
     (label = '''' \<or> map_get (aa_Labels a) label = Some True) \<and> (hostname = '''' \<or> aa_Hostname a = hostname)
     \<and> (hostID = '''' \<or> aa_HostID a = hostID) \<and> (ip = '''' \<or> agentHasIP a ip)"

definition sortAgentsByLastSeen :: "'p agent_info list \<Rightarrow> 'p agent_info list" where
  "sortAgentsByLastSeen xs = sort_key (\<lambda>a. (- ai_LastSeen a, ai_UID a)) xs"

definition paginateAgents :: "'a list \<Rightarrow> int \<Rightarrow> int \<Rightarrow> 'a list" where
  "paginateAgents xs offset limit =
     (if offset \<ge> int (length xs) then []
      else let end0 = offset + limit; end1 = (if end0 > int (length xs) then int (length xs) else end0)
           in take (nat (end1 - offset)) (drop (nat offset) xs))"

record agent_query =
  aq_label :: string
  aq_hostname :: string
  aq_host_id :: string
  aq_ip :: string
  aq_limit :: string
  aq_offset :: string
  aq_include :: string

definition getAgents ::
  "time \<Rightarrow> (string \<Rightarrow> 'p option) \<Rightarrow> agent_query \<Rightarrow> agent_store \<Rightarrow> 'p agent_info list \<times> nat" where
  "getAgents now packs q s =
     (let filtered = map (\<lambda>a. to_info now
               (if queryBoolDefaultFalse (aq_include q) then packs (aa_AgentUID a) else None) a)
            (filter (agent_selected (aq_label q) (aq_hostname q) (aq_host_id q) (aq_ip q)) (map_values (st_agents s)))
      in (paginateAgents (sortAgentsByLastSeen filtered) (parseAgentListOffset (aq_offset q))
            (parseAgentListLimit (aq_limit q)), length filtered))"

definition getAgent :: "time \<Rightarrow> (string \<Rightarrow> 'p option) \<Rightarrow> string \<Rightarrow> agent_store \<Rightarrow> 'p agent_info reply" where
  "getAgent now packs agentUID s =
     (case map_get (st_agents s) agentUID of
        None \<Rightarrow> Refused 404 ''Agent not found''
      | Some a \<Rightarrow> Answer (to_info now (packs (aa_AgentUID a)) a))"

datatype agent_route =
    RouteAgent string | RouteLabels string | RouteNote string | RouteStatus string | RouteConfig string | RouteSend string
  | RouteError int string

definition agentDispatch :: "string \<Rightarrow> agent_route" where
  "agentDispatch urlPath =
     (let path = (if prefix ''/agents/'' urlPath then drop 8 urlPath else urlPath);
          parts = split_on (CHR ''/'') path
      in if parts = [] \<or> hd parts = '''' then RouteError 400 ''Agent UID required''
         else case parts of
           [uid] \<Rightarrow> RouteAgent uid
         | [uid, sub] \<Rightarrow>
             if sub = ''labels'' then RouteLabels uid
             else if sub = ''note'' then RouteNote uid
             else if sub = ''status'' then RouteStatus uid
             else if sub = ''config'' then RouteConfig uid
             else if sub = ''send'' then RouteSend uid
             else RouteError 404 ''Invalid endpoint''
         | _ \<Rightarrow> RouteError 404 ''Invalid path'')"

section \<open>Messages to agents\<close>

definition agent_connected :: "time \<Rightarrow> api_agent \<Rightarrow> bool" where
  "agent_connected now a \<longleftrightarrow> time_sub now (aa_LastSeen a) < seconds 300"

record agent_status_response =
  sp_AgentID :: string
  sp_Connected :: bool
  sp_LastSeen :: time
  sp_SessionExpires :: time
  sp_Uptime :: duration

definition getAgentStatus :: "time \<Rightarrow> string \<Rightarrow> agent_store \<Rightarrow> agent_status_response reply" where
  "getAgentStatus now agentUID s =
     (case map_get (st_agents s) agentUID of
        None \<Rightarrow> Refused 404 ''Agent not found''
      | Some a \<Rightarrow>
          Answer \<lparr>sp_AgentID = agentUID, sp_Connected = agent_connected now a, sp_LastSeen = aa_LastSeen a,
            sp_SessionExpires = time_add (aa_LastSeen a) (seconds 86400), sp_Uptime = time_sub now (aa_Created a)\<rparr>)"

text \<open>The configuration is echoed in the answer and not stored.\<close>

definition updateAgentConfig :: "'c option \<Rightarrow> string \<Rightarrow> agent_store \<Rightarrow> ('c \<times> string) reply \<times> agent_store" where
  "updateAgentConfig body agentUID s =
     (case body of
        None \<Rightarrow> (Refused 400 ''Invalid JSON'', s)
      | Some req \<Rightarrow>
          (case map_get (st_agents s) agentUID of
             None \<Rightarrow> (Refused 404 ''Agent not found'', s)
           | Some _ \<Rightarrow> (Answer (req, ''configuration_updated''), s)))"

definition buildWebSocketGatewayMessage ::
  "act_lib \<Rightarrow> string \<Rightarrow> string \<Rightarrow> anymap \<Rightarrow> string \<Rightarrow> string \<Rightarrow> time \<Rightarrow> string + string" where
  "buildWebSocketGatewayMessage lib agentUID ch message messageType messageID now =
     (if agentUID = '''' then Inl ''agent UID is required''
      else if ch = '''' then Inl ''channel is required''
      else if messageID = '''' then Inl ''message ID is required''
      else case al_enc_object lib (case message of None \<Rightarrow> [] | Some m \<Rightarrow> m) of
        None \<Rightarrow> Inl ''failed to marshal message payload''
      | Some json \<Rightarrow>
          Inr (al_enc_gateway lib
            \<lparr>wm_ID = messageID, wm_Type = or_default messageType ''event'', wm_Channel = ch,
             wm_Payload = al_b64enc lib json, wm_Timestamp = unix now, wm_Headers = Some [], wm_TargetAgent = agentUID\<rparr>))"

text \<open>The arguments \<open>natsUp\<close> and \<open>taken\<close>: whether there is a NATS connection, and whether it takes the
  message.\<close>

definition sendMessageToWebSocketGateway ::
  "act_lib \<Rightarrow> bool \<Rightarrow> bool \<Rightarrow> string \<Rightarrow> string \<Rightarrow> anymap \<Rightarrow> string \<Rightarrow> string \<Rightarrow> time \<Rightarrow> agent_store
   \<Rightarrow> string option \<times> agent_store" where
  "sendMessageToWebSocketGateway lib natsUp taken agentUID ch message messageType messageID now s =
     (if \<not> natsUp then (Some ''NATS not connected'', s)
      else case buildWebSocketGatewayMessage lib agentUID ch message messageType messageID now of
        Inl e \<Rightarrow> (Some e, s)
      | Inr data \<Rightarrow>
          if taken then (None, s\<lparr>st_published := st_published s @ [data]\<rparr>) else (Some ''failed to publish to NATS'', s))"

record send_message_request =
  sr_Channel :: string
  sr_Message :: anymap
  sr_MessageType :: string

definition Api_sendMessageToAgent ::
  "act_lib \<Rightarrow> bool \<Rightarrow> bool \<Rightarrow> time \<Rightarrow> string \<Rightarrow> send_message_request option \<Rightarrow> string \<Rightarrow> agent_store
   \<Rightarrow> (string \<times> string \<times> string) reply \<times> agent_store" where
  "Api_sendMessageToAgent lib natsUp taken now nano body agentUID s =
     (case body of
        None \<Rightarrow> (Refused 400 ''Invalid JSON'', s)
      | Some req \<Rightarrow>
          (case map_get (st_agents s) agentUID of
             None \<Rightarrow> (Refused 404 ''Agent not found'', s)
           | Some a \<Rightarrow>
               let messageID = ''msg_'' @ nano in
               if agent_connected now a then
                 (case sendMessageToWebSocketGateway lib natsUp taken agentUID (sr_Channel req) (sr_Message req)
                         (sr_MessageType req) messageID now s of
                    (Some e, s') \<Rightarrow> (Answer (messageID, ''failed'', ''Failed to send to WebSocket Gateway: '' @ e), s')
                  | (None, s') \<Rightarrow> (Answer (messageID, ''sent'', ''''), s'))
               else (Answer (messageID, ''queued'', ''''), s)))"

fun broadcast_agents ::
  "act_lib \<Rightarrow> bool \<Rightarrow> (string \<Rightarrow> bool) \<Rightarrow> time \<Rightarrow> string \<Rightarrow> send_message_request \<Rightarrow> string list
   \<Rightarrow> (string \<times> api_agent) list \<Rightarrow> string list \<times> string list \<Rightarrow> agent_store \<Rightarrow> (string list \<times> string list) \<times> agent_store" where
  "broadcast_agents lib natsUp taken now messageID req flt [] acc s = (acc, s)"
| "broadcast_agents lib natsUp taken now messageID req flt ((uid, a) # rest) (sent, failed) s =
     (if flt \<noteq> [] \<and> uid \<notin> set flt then broadcast_agents lib natsUp taken now messageID req flt rest (sent, failed) s
      else if \<not> agent_connected now a then
        broadcast_agents lib natsUp taken now messageID req flt rest (sent, failed @ [uid]) s
      else
        (case sendMessageToWebSocketGateway lib natsUp (taken uid) uid (sr_Channel req) (sr_Message req)
                (sr_MessageType req) messageID now s of
           (Some e, s') \<Rightarrow> broadcast_agents lib natsUp taken now messageID req flt rest (sent, failed @ [uid]) s'
         | (None, s') \<Rightarrow> broadcast_agents lib natsUp taken now messageID req flt rest (sent @ [uid], failed) s'))"

definition broadcastToAgents ::
  "act_lib \<Rightarrow> bool \<Rightarrow> (string \<Rightarrow> bool) \<Rightarrow> time \<Rightarrow> string \<Rightarrow> (send_message_request \<times> string list) option \<Rightarrow> agent_store
   \<Rightarrow> (string \<times> string list \<times> string list \<times> nat) reply \<times> agent_store" where
  "broadcastToAgents lib natsUp taken now nano body s =
     (case body of
        None \<Rightarrow> (Refused 400 ''Invalid JSON'', s)
      | Some (req, flt) \<Rightarrow>
          (case broadcast_agents lib natsUp taken now (''broadcast_'' @ nano) req flt (st_agents s) ([], []) s of
             ((sent, failed), s') \<Rightarrow> (Answer (''broadcast_'' @ nano, sent, failed, length sent), s')))"

end
