(* ===== verification/Act_Properties.thy ===== *)
theory Act_Properties
  imports Act_Agents Gw_Properties
begin

text \<open>
  What the agent part of the actions API guarantees: the invariant of the store over all
  interleavings of handlers, that a registered key was proved, that the pages of a listing are the
  list, and that a message it sends reaches the agent's connection in the gateway.
\<close>

section \<open>The transition system\<close>

text \<open>Besides the store: the completions between their two locked parts, and every challenge that was
  issued.\<close>

record act_sys =
  sy_store :: agent_store
  sy_checked :: "pending list"
  sy_issued :: "pending list"

inductive act_step :: "act_lib \<Rightarrow> act_sys \<Rightarrow> act_sys \<Rightarrow> bool" for lib :: act_lib where
  register_init: "postRegisterInit lib now serverTime uuid nonce body (sy_store y) = (r, s') \<Longrightarrow>
     act_step lib y (y\<lparr>sy_store := s', sy_issued := map_values (st_pending s') @ sy_issued y\<rparr>)"
| check: "complete_check lib req (sy_store y) = Inr p \<Longrightarrow> act_step lib y (y\<lparr>sy_checked := p # sy_checked y\<rparr>)"
| store: "p \<in> set (sy_checked y) \<Longrightarrow>
     act_step lib y (y\<lparr>sy_store := snd (complete_store lib now p (sy_store y)), sy_checked := remove1 p (sy_checked y)\<rparr>)"
| heartbeat: "act_step lib y (y\<lparr>sy_store := snd (handleHeartbeat lib hb (sy_store y))\<rparr>)"
| batch: "act_step lib y (y\<lparr>sy_store := snd (handleBatchHeartbeats lib hbs (sy_store y))\<rparr>)"
| labels: "act_step lib y (y\<lparr>sy_store := snd (updateAgentLabels body uid (sy_store y))\<rparr>)"
| set_note: "act_step lib y (y\<lparr>sy_store := snd (updateAgentNote nt uid (sy_store y))\<rparr>)"
| send: "act_step lib y (y\<lparr>sy_store := snd (Api_sendMessageToAgent lib up taken now nano req uid (sy_store y))\<rparr>)"
| broadcast: "act_step lib y (y\<lparr>sy_store := snd (broadcastToAgents lib up takes now nano breq (sy_store y))\<rparr>)"

definition act_init :: "act_sys \<Rightarrow> bool" where
  "act_init y \<longleftrightarrow> y = \<lparr>sy_store = NewStore, sy_checked = [], sy_issued = []\<rparr>"

section \<open>The invariant of the tables\<close>

definition agents_ok :: "(string, api_agent) gomap \<Rightarrow> (string, string) gomap \<Rightarrow> bool" where
  "agents_ok A H \<longleftrightarrow> map_ok A \<and> map_ok H
     \<and> (\<forall>uid a. map_get A uid = Some a \<longrightarrow> aa_AgentUID a = uid \<and> uid \<noteq> '''')
     \<and> (\<forall>h uid. h \<noteq> '''' \<longrightarrow> map_get H h = Some uid \<longrightarrow> (\<exists>a. map_get A uid = Some a \<and> aa_HostID a = h))"

text \<open>A key was proved when a challenge was issued for it and a signature over that challenge verifies.\<close>

definition key_proved :: "act_lib \<Rightarrow> pending list \<Rightarrow> string \<Rightarrow> bool" where
  "key_proved lib issued key \<longleftrightarrow>
     (\<exists>p host sig. p \<in> set issued \<and> pd_PubKey p = key \<and> length key = 32
        \<and> al_verify lib key (pd_Nonce p @ pd_ServerTime p @ host) sig)"

definition act_inv :: "act_lib \<Rightarrow> act_sys \<Rightarrow> bool" where
  "act_inv lib y \<longleftrightarrow>
     agents_ok (st_agents (sy_store y)) (st_byHost (sy_store y))
     \<and> map_ok (st_pending (sy_store y))
     \<and> (\<forall>rid p. map_get (st_pending (sy_store y)) rid = Some p \<longrightarrow>
          pd_RegistrationID p = rid \<and> length (pd_PubKey p) = 32 \<and> p \<in> set (sy_issued y))
     \<and> (\<forall>p \<in> set (sy_checked y). key_proved lib (sy_issued y) (pd_PubKey p))
     \<and> (\<forall>uid a. map_get (st_agents (sy_store y)) uid = Some a \<longrightarrow> aa_PubKey a \<noteq> '''' \<longrightarrow>
          uid = generateDeterministicAgentUID lib (aa_PubKey a) \<and> key_proved lib (sy_issued y) (aa_PubKey a))
     \<and> st_heartbeats (sy_store y) < 2 ^ 64"

lemma agents_ok_entry:
  "agents_ok A H \<Longrightarrow> map_get A uid = Some a \<Longrightarrow> aa_AgentUID a = uid"
  "agents_ok A H \<Longrightarrow> map_get A uid = Some a \<Longrightarrow> uid \<noteq> ''''"
  "agents_ok A H \<Longrightarrow> h \<noteq> '''' \<Longrightarrow> map_get H h = Some uid \<Longrightarrow> \<exists>a. map_get A uid = Some a \<and> aa_HostID a = h"
  unfolding agents_ok_def by blast+

lemma agents_ok_put:
  assumes ok: "agents_ok A H" and a': "aa_AgentUID a' = uid" "uid \<noteq> ''''" and H': "map_ok H'"
    and new: "\<And>h u. h \<noteq> '''' \<Longrightarrow> map_get H' h = Some u \<Longrightarrow> (u \<noteq> uid \<and> map_get H h = Some u) \<or> (u = uid \<and> aa_HostID a' = h)"
  shows "agents_ok (map_set uid a' A) H'"
proof -
  have "\<exists>a. map_get (map_set uid a' A) u = Some a \<and> aa_HostID a = h" if "h \<noteq> ''''" "map_get H' h = Some u" for h u
    using new [OF that] agents_ok_entry(3) [OF ok that(1)] by auto
  moreover have "map_ok (map_set uid a' A)" using ok by (simp add: agents_ok_def distinct_update)
  ultimately show ?thesis using ok a' H' unfolding agents_ok_def by (simp add: distinct_update)
qed

text \<open>The tables after an agent moved to a host: its old entry goes, its new one comes.\<close>

lemma agents_ok_move:
  assumes ok: "agents_ok A H" and a: "map_get A uid = Some a" and a': "aa_AgentUID a' = uid"
    and "H1 = (if aa_HostID a \<noteq> '''' \<and> aa_HostID a \<noteq> aa_HostID a' then map_delete (aa_HostID a) H else H)
      \<or> H1 = (if aa_HostID a \<noteq> aa_HostID a' then map_delete (aa_HostID a) H else H)"
    and "H2 = map_set (aa_HostID a') uid H1 \<or> H2 = H1 \<and> aa_HostID a' = ''''"
  shows "agents_ok (map_set uid a' A) H2"
proof (rule agents_ok_put [OF ok a'])
  have H: "map_ok H" using ok by (simp add: agents_ok_def)
  show "uid \<noteq> ''''" using agents_ok_entry(2) [OF ok a] .
  have "map_ok H1" using assms(4) H by (auto simp: distinct_delete)
  then show "map_ok H2" using assms(5) by (auto simp: distinct_update)
  fix h u assume h: "h \<noteq> ''''" "map_get H2 h = Some u"
  have del: "map_get H1 h = (if aa_HostID a = h \<and> aa_HostID a' \<noteq> h then None else map_get H h)"
    using assms(4) h(1) H by (auto simp del: map_of_eq_Some_iff)
  have "u = uid \<and> aa_HostID a' = h \<or> map_get H1 h = Some u"
    using assms(5) h by (auto simp del: map_of_eq_Some_iff split: if_splits)
  moreover have "aa_HostID a = h" if "map_get H h = Some uid"
    using agents_ok_entry(3) [OF ok h(1) that] a by auto
  ultimately show "(u \<noteq> uid \<and> map_get H h = Some u) \<or> (u = uid \<and> aa_HostID a' = h)"
    using del by (auto simp del: map_of_eq_Some_iff split: if_splits)
qed

lemma agents_ok_new:
  assumes ok: "agents_ok A H" and "map_get A uid = None" "aa_AgentUID a' = uid" "uid \<noteq> ''''"
    and "H2 = map_set (aa_HostID a') uid H \<or> H2 = H"
  shows "agents_ok (map_set uid a' A) H2"
proof (rule agents_ok_put [OF ok])
  show "map_ok H2" using assms(5) ok by (auto simp: agents_ok_def distinct_update)
  fix h u assume h: "h \<noteq> ''''" "map_get H2 h = Some u"
  have "u \<noteq> uid" if "map_get H h = Some u" using agents_ok_entry(3) [OF ok h(1) that] assms(2) by auto
  with h(2) assms(5) show "(u \<noteq> uid \<and> map_get H h = Some u) \<or> (u = uid \<and> aa_HostID a' = h)"
    by (auto simp del: map_of_eq_Some_iff split: if_splits)
qed (use assms in auto)

section \<open>Preservation\<close>

lemma generated_not_empty [simp]: "generateDeterministicAgentUID lib key \<noteq> ''''"
  by (simp add: generateDeterministicAgentUID_def)

lemma agents_ok_complete:
  assumes ok: "agents_ok (st_agents s) (st_byHost s)"
  shows "agents_ok (st_agents (snd (complete_store lib now p s))) (st_byHost (snd (complete_store lib now p s)))"
proof (cases "map_get (st_agents s) (generateDeterministicAgentUID lib (pd_PubKey p))")
  case None
  with ok show ?thesis by (auto simp: complete_store_def Let_def intro!: agents_ok_new)
next
  case (Some a)
  define H1 where "H1 = (if aa_HostID a \<noteq> pd_HostID p then map_delete (aa_HostID a) (st_byHost s) else st_byHost s)"
  show ?thesis
    unfolding complete_store_def Let_def Some
    by (simp add: H1_def [symmetric])
      (rule agents_ok_move [where ?H1.0 = H1, OF ok Some],
        use agents_ok_entry(1) [OF ok Some] in \<open>auto simp: H1_def\<close>)
qed

lemma merge_heartbeat_simps [simp]:
  "aa_AgentUID (merge_heartbeat t hb a) = aa_AgentUID a" "aa_PubKey (merge_heartbeat t hb a) = aa_PubKey a"
  by (simp_all add: merge_heartbeat_def)

lemma agents_ok_heartbeat:
  assumes ok: "agents_ok (st_agents s) (st_byHost s)" and a: "map_get (st_agents s) uid = Some a"
  shows "agents_ok (st_agents (applyHeartbeat t hb uid a s)) (st_byHost (applyHeartbeat t hb uid a s))"
proof -
  let ?a' = "merge_heartbeat t hb a"
  define H1 where "H1 = (if aa_HostID a \<noteq> '''' \<and> aa_HostID a \<noteq> aa_HostID ?a' then map_delete (aa_HostID a) (st_byHost s) else st_byHost s)"
  have "agents_ok (map_set uid ?a' (st_agents s)) (if aa_HostID ?a' \<noteq> '''' then map_set (aa_HostID ?a') uid H1 else H1)"
    by (rule agents_ok_move [where ?H1.0 = H1, OF ok a]) (use agents_ok_entry(1) [OF ok a] in \<open>auto simp: H1_def\<close>)
  moreover have "applyHeartbeat t hb uid a s = s\<lparr>st_agents := map_set uid ?a' (st_agents s),
      st_byHost := if aa_HostID ?a' \<noteq> '''' then map_set (aa_HostID ?a') uid H1 else H1\<rparr>"
    by (simp add: applyHeartbeat_def Let_def H1_def)
  ultimately show ?thesis by simp
qed

lemma new_agent_simps [simp]:
  "aa_AgentUID (newAgentFromHeartbeat t hb) = hb_AgentUID hb" "aa_PubKey (newAgentFromHeartbeat t hb) = ''''"
  by (simp_all add: newAgentFromHeartbeat_def Let_def)

lemma agents_ok_store_new:
  assumes "agents_ok (st_agents s) (st_byHost s)" "map_get (st_agents s) (hb_AgentUID hb) = None" "hb_AgentUID hb \<noteq> ''''"
  shows "agents_ok (st_agents (store_new_agent (newAgentFromHeartbeat t hb) s))
    (st_byHost (store_new_agent (newAgentFromHeartbeat t hb) s))"
  using agents_ok_new [OF assms(1,2) _ assms(3), of "newAgentFromHeartbeat t hb"]
  by (simp add: store_new_agent_def)

text \<open>The keys of the stored agents: heartbeats, labels and notes do not touch them.\<close>

definition keys_ok :: "act_lib \<Rightarrow> pending list \<Rightarrow> (string, api_agent) gomap \<Rightarrow> bool" where
  "keys_ok lib issued A \<longleftrightarrow>
     (\<forall>uid a. map_get A uid = Some a \<longrightarrow> aa_PubKey a \<noteq> '''' \<longrightarrow>
        uid = generateDeterministicAgentUID lib (aa_PubKey a) \<and> key_proved lib issued (aa_PubKey a))"

lemma keys_ok_put:
  assumes "keys_ok lib issued A" "aa_PubKey a' \<noteq> '''' \<Longrightarrow>
    uid = generateDeterministicAgentUID lib (aa_PubKey a') \<and> key_proved lib issued (aa_PubKey a')"
  shows "keys_ok lib issued (map_set uid a' A)"
  using assms by (simp add: keys_ok_def)

lemma keys_ok_same:
  assumes "keys_ok lib issued A" "map_get A uid = Some a" "aa_PubKey a' = aa_PubKey a"
  shows "keys_ok lib issued (map_set uid a' A)"
  using assms by (auto intro!: keys_ok_put simp: keys_ok_def)

text \<open>What the invariant says of the store alone, given the challenges.\<close>

definition store_ok :: "act_lib \<Rightarrow> pending list \<Rightarrow> agent_store \<Rightarrow> bool" where
  "store_ok lib issued s \<longleftrightarrow>
     agents_ok (st_agents s) (st_byHost s) \<and> keys_ok lib issued (st_agents s) \<and> map_ok (st_pending s)
     \<and> (\<forall>rid p. map_get (st_pending s) rid = Some p \<longrightarrow>
          pd_RegistrationID p = rid \<and> length (pd_PubKey p) = 32 \<and> p \<in> set issued)
     \<and> st_heartbeats s < 2 ^ 64"

lemma act_inv_store:
  "act_inv lib y \<longleftrightarrow> store_ok lib (sy_issued y) (sy_store y) \<and> (\<forall>p \<in> set (sy_checked y). key_proved lib (sy_issued y) (pd_PubKey p))"
  unfolding act_inv_def store_ok_def keys_ok_def by blast

lemma store_ok_agents:
  assumes "store_ok lib issued s" "agents_ok (st_agents s') (st_byHost s')" "keys_ok lib issued (st_agents s')"
    "st_pending s' = st_pending s" "st_heartbeats s' = st_heartbeats s"
  shows "store_ok lib issued s'"
  using assms by (simp add: store_ok_def)

lemma store_ok_apply:
  assumes "store_ok lib issued s" "map_get (st_agents s) uid = Some a"
  shows "store_ok lib issued (applyHeartbeat t hb uid a s)"
proof (rule store_ok_agents [OF assms(1)])
  show "agents_ok (st_agents (applyHeartbeat t hb uid a s)) (st_byHost (applyHeartbeat t hb uid a s))"
    using assms by (simp add: store_ok_def agents_ok_heartbeat)
  show "keys_ok lib issued (st_agents (applyHeartbeat t hb uid a s))"
    using keys_ok_same [OF _ assms(2), of lib issued "merge_heartbeat t hb a"] assms(1)
    by (simp add: applyHeartbeat_def Let_def store_ok_def)
qed (simp_all add: applyHeartbeat_def Let_def)

lemma store_ok_new:
  assumes "store_ok lib issued s" "map_get (st_agents s) (hb_AgentUID hb) = None" "hb_AgentUID hb \<noteq> ''''"
  shows "store_ok lib issued (store_new_agent (newAgentFromHeartbeat t hb) s)"
proof (rule store_ok_agents [OF assms(1)])
  show "agents_ok (st_agents (store_new_agent (newAgentFromHeartbeat t hb) s)) (st_byHost (store_new_agent (newAgentFromHeartbeat t hb) s))"
    using assms by (simp add: store_ok_def agents_ok_store_new)
  show "keys_ok lib issued (st_agents (store_new_agent (newAgentFromHeartbeat t hb) s))"
    using assms(1) by (auto simp: store_new_agent_def store_ok_def intro: keys_ok_put)
qed (simp_all add: store_new_agent_def)

lemma store_ok_count [simp]: "store_ok lib issued s \<Longrightarrow> store_ok lib issued (incHeartbeatAccepted s)"
  by (simp add: store_ok_def incHeartbeatAccepted_def)

lemma store_ok_handle_heartbeat:
  assumes "store_ok lib issued s"
  shows "store_ok lib issued (snd (handleHeartbeat lib' body s))"
proof -
  have "map_get (st_agents s) uid = Some a" if "find P (st_agents s) = Some (uid, a)" for uid a P
    using that assms by (auto simp: find_Some_iff store_ok_def agents_ok_def)
  then show ?thesis
    using assms by (auto simp: handleHeartbeat_def store_ok_apply store_ok_new simp del: map_of_eq_Some_iff split: option.split)
qed

lemma store_ok_batch_loop: "store_ok lib issued s \<Longrightarrow> store_ok lib issued (snd (batch_loop lib' hbs counts s))"
  by (induction lib' hbs counts s rule: batch_loop.induct)
    (auto simp: store_ok_apply store_ok_new simp del: map_of_eq_Some_iff split: option.split)

lemma store_ok_batch: "store_ok lib issued s \<Longrightarrow> store_ok lib issued (snd (handleBatchHeartbeats lib' body s))"
proof -
  have count: "store_ok lib issued ((incHeartbeatAccepted ^^ n) s)" if "store_ok lib issued s" for n s
    using that by (induction n) auto
  assume "store_ok lib issued s"
  then show ?thesis
    using store_ok_batch_loop [of lib issued s lib' _ "(0, 0, 0)"]
    by (auto simp: handleBatchHeartbeats_def count split: option.split prod.split) (metis count snd_conv)+
qed

lemma store_ok_set_agent:
  assumes "store_ok lib issued s" "map_get (st_agents s) uid = Some a"
    "aa_PubKey a' = aa_PubKey a" "aa_HostID a' = aa_HostID a" "aa_AgentUID a' = aa_AgentUID a"
  shows "store_ok lib issued (s\<lparr>st_agents := map_set uid a' (st_agents s)\<rparr>)"
proof (rule store_ok_agents [OF assms(1)])
  have ok: "agents_ok (st_agents s) (st_byHost s)" using assms(1) by (simp add: store_ok_def)
  have uid: "aa_AgentUID a' = uid" "uid \<noteq> ''''" using agents_ok_entry(1,2) [OF ok assms(2)] assms(5) by auto
  have "agents_ok (map_set uid a' (st_agents s)) (st_byHost s)"
  proof (rule agents_ok_put [OF ok uid])
    show "map_ok (st_byHost s)" using ok by (simp add: agents_ok_def)
    show "(u \<noteq> uid \<and> map_get (st_byHost s) h = Some u) \<or> (u = uid \<and> aa_HostID a' = h)"
      if "h \<noteq> ''''" "map_get (st_byHost s) h = Some u" for h u
      using agents_ok_entry(3) [OF ok that] that(2) assms(2,4) by auto
  qed
  then show "agents_ok (st_agents (s\<lparr>st_agents := map_set uid a' (st_agents s)\<rparr>))
      (st_byHost (s\<lparr>st_agents := map_set uid a' (st_agents s)\<rparr>))" by simp
  show "keys_ok lib issued (st_agents (s\<lparr>st_agents := map_set uid a' (st_agents s)\<rparr>))"
    using keys_ok_same [OF _ assms(2,3)] assms(1) by (simp add: store_ok_def)
qed simp_all

lemma store_ok_labels: "store_ok lib issued s \<Longrightarrow> store_ok lib issued (snd (updateAgentLabels body uid s))"
  by (auto simp: updateAgentLabels_def Let_def store_ok_set_agent simp del: map_of_eq_Some_iff split: option.split)

lemma store_ok_note: "store_ok lib issued s \<Longrightarrow> store_ok lib issued (snd (updateAgentNote body uid s))"
  by (auto simp: updateAgentNote_def store_ok_set_agent simp del: map_of_eq_Some_iff split: option.split)

lemma store_ok_published [simp]: "store_ok lib issued (s\<lparr>st_published := ps\<rparr>) = store_ok lib issued s"
  by (simp add: store_ok_def)

lemma store_ok_publish:
  "store_ok lib issued s \<Longrightarrow> store_ok lib issued (snd (sendMessageToWebSocketGateway lib' up taken uid ch msg ty mid now s))"
  by (auto simp: sendMessageToWebSocketGateway_def split: sum.split)

lemma store_ok_send: "store_ok lib issued s \<Longrightarrow> store_ok lib issued (snd (Api_sendMessageToAgent lib' up taken now nano req uid s))"
  using store_ok_publish [of lib issued s]
  by (auto simp: Api_sendMessageToAgent_def Let_def split: option.split prod.split) (metis snd_conv)+

lemma store_ok_broadcast_loop:
  "store_ok lib issued s \<Longrightarrow> store_ok lib issued (snd (broadcast_agents lib' up taken now mid req flt agents acc s))"
proof (induction lib' up taken now mid req flt agents acc s rule: broadcast_agents.induct)
  case (2 lib' up taken now mid req flt uid a rest sent failed s)
  have "store_ok lib issued s'" if "sendMessageToWebSocketGateway lib' up (taken uid) uid (sr_Channel req) (sr_Message req)
      (sr_MessageType req) mid now s = (e, s')" for e s'
    using store_ok_publish [OF "2.prems"] that by (metis snd_conv)
  with 2 show ?case by (auto split: prod.split option.split)
qed simp

lemma store_ok_broadcast: "store_ok lib issued s \<Longrightarrow> store_ok lib issued (snd (broadcastToAgents lib' up takes now nano req s))"
  using store_ok_broadcast_loop [of lib issued s]
  by (auto simp: broadcastToAgents_def split: option.split prod.split) (metis snd_conv)+

lemma key_proved_mono: "key_proved lib issued key \<Longrightarrow> set issued \<subseteq> set issued' \<Longrightarrow> key_proved lib issued' key"
  unfolding key_proved_def by blast

lemma store_ok_mono:
  assumes "store_ok lib issued s" "set issued \<subseteq> set issued'"
  shows "store_ok lib issued' s"
proof -
  have "keys_ok lib issued' (st_agents s)"
    using assms key_proved_mono unfolding store_ok_def keys_ok_def by blast
  with assms show ?thesis unfolding store_ok_def by blast
qed

lemma store_ok_complete:
  assumes "store_ok lib issued s" "key_proved lib issued (pd_PubKey p)"
  shows "store_ok lib issued (snd (complete_store lib now p s))"
proof -
  have "keys_ok lib issued (st_agents (snd (complete_store lib now p s)))"
    using assms by (auto simp: complete_store_def Let_def store_ok_def intro!: keys_ok_put split: option.split)
  moreover have "st_pending (snd (complete_store lib now p s)) = map_delete (pd_RegistrationID p) (st_pending s)"
    "st_heartbeats (snd (complete_store lib now p s)) = st_heartbeats s"
    by (simp_all add: complete_store_def Let_def split: option.split)
  ultimately show ?thesis
    using assms(1) agents_ok_complete
    by (auto simp: store_ok_def distinct_delete simp del: map_of_eq_Some_iff)
qed

lemma complete_check_proved:
  assumes "store_ok lib issued s" "complete_check lib req s = Inr p"
  shows "key_proved lib issued (pd_PubKey p)"
  using assms unfolding store_ok_def key_proved_def
  by (auto simp: complete_check_def Let_def simp del: map_of_eq_Some_iff split: option.splits if_splits)

lemma store_ok_register_init:
  assumes "store_ok lib issued s" "postRegisterInit lib' now t uuid nonce body s = (r, s')"
  shows "store_ok lib (map_values (st_pending s') @ issued) s'"
proof -
  let ?issued = "map_values (st_pending s') @ issued"
  have same: "st_agents s' = st_agents s" "st_byHost s' = st_byHost s" "st_heartbeats s' = st_heartbeats s"
    using assms(2) by (auto simp: postRegisterInit_def Let_def split: option.splits if_splits)
  have "map_ok (st_pending s')" "\<forall>rid p. map_get (st_pending s') rid = Some p \<longrightarrow> pd_RegistrationID p = rid \<and> length (pd_PubKey p) = 32"
    using assms
    by (auto simp: store_ok_def postRegisterInit_def Let_def distinct_update simp del: map_of_eq_Some_iff
        split: option.splits if_splits)
  moreover have "p \<in> set ?issued" if "map_get (st_pending s') rid = Some p" for rid p
    using map_of_SomeD [OF that] by force
  moreover have "store_ok lib ?issued s" by (rule store_ok_mono [OF assms(1)]) simp
  ultimately show ?thesis using same unfolding store_ok_def by simp
qed

lemma act_inv_init: "act_init y \<Longrightarrow> act_inv lib y"
  by (simp add: act_init_def act_inv_def NewStore_def agents_ok_def)

lemma act_inv_step:
  assumes "act_inv lib y" "act_step lib y y'"
  shows "act_inv lib y'"
proof -
  have inv: "store_ok lib (sy_issued y) (sy_store y)" "\<forall>p \<in> set (sy_checked y). key_proved lib (sy_issued y) (pd_PubKey p)"
    using assms(1) by (simp_all add: act_inv_store)
  from assms(2) show ?thesis
  proof cases
    case (register_init now serverTime uuid nonce body r s')
    from store_ok_register_init [OF inv(1) register_init(2)] inv(2) register_init(1) key_proved_mono show ?thesis
      by (fastforce simp: act_inv_store)
  next
    case (check req p)
    with complete_check_proved [OF inv(1)] inv show ?thesis by (simp add: act_inv_store)
  next
    case (store p now)
    with store_ok_complete [OF inv(1)] inv show ?thesis by (auto simp: act_inv_store dest: notin_set_remove1)
  qed (use inv in \<open>simp_all add: act_inv_store store_ok_handle_heartbeat store_ok_batch store_ok_labels store_ok_note
      store_ok_send store_ok_broadcast\<close>)
qed

interpretation actsys: inductive_invariant act_init "act_step lib" "act_inv lib"
  by unfold_locales (erule act_inv_init, erule (1) act_inv_step)

text \<open>
  In every reachable state of the agent store each agent is stored under its own identifier,
  each entry of the table of hosts for a non-empty host leads to an agent of that host, and
  pending registrations hold keys of 32 bytes, so that verifying a signature never panics.
\<close>

lemma agent_store_invariant:
  assumes "reach act_init (act_step lib) y"
  shows "act_inv lib y"
  by (rule actsys.reach_inv [OF assms])


text \<open>A registration can be completed once: afterwards its identifier is unknown.\<close>

lemma registration_single_use:
  assumes "map_ok (st_pending s)" "postRegisterComplete lib now tok (Some req) s = (Answer r, s')"
    and "\<And>p. map_get (st_pending s) (rc_RegistrationID req) = Some p \<Longrightarrow> pd_RegistrationID p = rc_RegistrationID req"
  shows "fst (postRegisterComplete lib now' tok' (Some req) s') = Refused 404 ''unknown registration''"
proof -
  obtain p where p: "map_get (st_pending s) (rc_RegistrationID req) = Some p" "s' = snd (complete_store lib now p s)"
    using assms(2)
    by (auto simp: postRegisterComplete_def complete_check_def Let_def split: sum.splits prod.splits option.splits if_splits)
  have "st_pending s' = map_delete (rc_RegistrationID req) (st_pending s)"
    using assms(3) [OF p(1)] p(2) by (simp add: complete_store_def Let_def split: option.split)
  with assms(1) show ?thesis by (simp add: postRegisterComplete_def complete_check_def)
qed

section \<open>Listing\<close>

lemma paginate_take_drop: "0 \<le> off \<Longrightarrow> 0 \<le> l \<Longrightarrow> paginateAgents xs off l = take (nat l) (drop (nat off) xs)"
  by (auto simp: paginateAgents_def Let_def nat_diff_distrib nat_add_distrib)

lemma concat_pages:
  "concat (map (\<lambda>k. take l (drop (k * l) xs)) [0..<n]) = take (n * l) xs"
proof (induction n)
  case (Suc n)
  have "take (n * l) xs @ take l (drop (n * l) xs) = take (n * l + l) xs" by (rule take_add [symmetric])
  with Suc show ?case by (simp add: add.commute)
qed simp

lemma parseAgentListLimit_bounds: "1 \<le> parseAgentListLimit raw \<and> parseAgentListLimit raw \<le> 1000"
  by (auto simp: parseAgentListLimit_def split: option.split)

lemma parseAgentListOffset_itoa: "int n < 2 ^ 63 \<Longrightarrow> parseAgentListOffset (itoa (int n)) = int n"
  by (simp add: parseAgentListOffset_def atoi_itoa)


section \<open>A message from the API to the agent\<close>

lemma parse_built:
  assumes "buildWebSocketGatewayMessage alib uid ch msg ty mid now = Inr data"
    and "al_enc_object alib (case msg of None \<Rightarrow> [] | Some m \<Rightarrow> m) = Some json" "al_b64enc alib json \<noteq> ''''"
    and "m = \<lparr>wm_ID = mid, wm_Type = or_default ty ''event'', wm_Channel = ch,
      wm_Payload = al_b64enc alib json, wm_Timestamp = unix now, wm_Headers = Some [], wm_TargetAgent = uid\<rparr>"
    and "wl_dec_gateway glib (al_enc_gateway alib m) = Some m"
  shows "parseWebSocketGatewayMessage glib data = Inr m"
  using assms
  by (auto simp: buildWebSocketGatewayMessage_def parseWebSocketGatewayMessage_def or_default_def split: if_splits)


end
