(* ===== verification/Act_Readiness.thy ===== *)
theory Act_Readiness
  imports Act_Agents
begin

text \<open>
  Readiness of agents, \<open>actions-api/internal/api/agent_readiness.go\<close> and the merge of agents with the
  devices that ingest has seen (\<open>ingest_devices.go\<close>, \<open>workbench_summary.go\<close>).

  The answers of the ingest and detection services are arguments. The longer explanations of a
  dimension are kept, since the summary quotes them; an em dash in them is written as a hyphen.
\<close>

section \<open>Data\<close>

record visibility_device_record =
  vd_DeviceID :: string
  vd_AgentID :: string
  vd_LastSeenMS :: int
  vd_EventCount :: int
  vd_EventTypeCount :: "(string, int) gomap"

record detection_pack_status =
  dp_RolloutState :: string
  dp_LastAppliedAtMS :: int
  dp_LastRejectedReason :: string

type_synonym info = "detection_pack_status agent_info"

datatype readiness_state = RGood | RWarn | RBad | RUnknown

datatype readiness_bucket = BReady | BNeedsAttention | BStale | BDegraded | BUnknown

record readiness_dimension =
  rd_ID :: string
  rd_Label :: string
  rd_State :: readiness_state
  rd_Value :: string
  rd_Detail :: string
  rd_Weight :: nat

record agent_readiness =
  ar_Bucket :: readiness_bucket
  ar_Score :: nat
  ar_Summary :: string
  ar_FixFirst :: string
  ar_Dimensions :: "readiness_dimension list"

section \<open>Dimensions\<close>

definition firstNonEmpty :: "string list \<Rightarrow> string" where
  "firstNonEmpty vs = (case find (\<lambda>v. trim_space v \<noteq> '''') vs of Some v \<Rightarrow> v | None \<Rightarrow> '''')"

definition humanizeDuration :: "duration \<Rightarrow> string" where
  "humanizeDuration d0 =
     (let d = (if d0 < 0 then 0 else d0)
      in if d < seconds 60 then itoa (d div seconds 1) @ ''s''
         else if d < seconds 3600 then itoa (d div seconds 60) @ ''m''
         else if d < seconds 86400 then itoa (d div seconds 3600) @ ''h''
         else itoa (d div seconds 86400) @ ''d'')"

definition dim :: "string \<Rightarrow> string \<Rightarrow> nat \<Rightarrow> readiness_state \<Rightarrow> string \<Rightarrow> string \<Rightarrow> readiness_dimension" where
  "dim i l w st v d = \<lparr>rd_ID = i, rd_Label = l, rd_State = st, rd_Value = v, rd_Detail = d, rd_Weight = w\<rparr>"

definition dimensionHeartbeat :: "info \<Rightarrow> time \<Rightarrow> readiness_dimension" where
  "dimensionHeartbeat agent now =
     (let mk = dim ''heartbeat'' ''Heartbeat freshness'' 25 in
      if ai_LastSeen agent = zero_time then
        mk RUnknown ''never reported'' ''Agent has no recorded heartbeat. It may not have completed registration.''
      else
        let age = time_sub now (ai_LastSeen agent); v = humanizeDuration age @ '' ago''
        in if age < seconds 300 then mk RGood v ''Heartbeat is recent - agent is alive.''
           else if age < seconds 1800 then
             mk RWarn v ''Heartbeat is delayed. Check the agent or network path before trusting decisions.''
           else mk RBad v ''Heartbeat is stale. The agent is likely offline; treat the device as untrusted for new evidence.'')"

definition unix_milli :: "int \<Rightarrow> time" where
  "unix_milli ms = ms * 1000000"

definition dimensionEventIngestion :: "visibility_device_record option \<Rightarrow> time \<Rightarrow> readiness_dimension" where
  "dimensionEventIngestion vis now =
     (let mk = dim ''event_ingestion'' ''Event ingestion recency'' 20 in
      case vis of
        None \<Rightarrow> mk RUnknown ''no visibility record''
                 ''Ingest has no visibility record for this host. Confirm that the agent is sending telemetry.''
      | Some d \<Rightarrow>
          if vd_LastSeenMS d = 0 then mk RBad ''no events'' ''Visibility record exists but no events have been ingested.''
          else
            let age = time_sub now (unix_milli (vd_LastSeenMS d)); v = humanizeDuration age @ '' ago''
            in if age < seconds 600 then mk RGood v ''Telemetry is fresh - evidence from this host is current.''
               else if age < seconds 3600 then mk RWarn v ''Telemetry is slowing. Verify collectors are running.''
               else mk RBad v
                 ''Telemetry has gone stale. Findings against this host should be treated as historical only.'')"

definition dimensionDetectionPack :: "info \<Rightarrow> time \<Rightarrow> readiness_dimension" where
  "dimensionDetectionPack agent now =
     (let mk = dim ''detection_pack'' ''Detection pack freshness'' 15 in
      case ai_PackStatus agent of
        None \<Rightarrow> mk RUnknown ''no rollout record'' ''No detection pack rollout is recorded for this agent yet.''
      | Some p \<Rightarrow>
          let state = to_lower (trim_space (dp_RolloutState p)) in
          if state \<in> set [''applied'', ''active'', ''ok''] then
            (if dp_LastAppliedAtMS p = 0 then
               mk RWarn state ''Pack reported applied but no apply timestamp available.''
             else if time_sub now (unix_milli (dp_LastAppliedAtMS p)) > seconds 604800 then
               mk RWarn state ''Pack has not been refreshed in over a week. Check rollout pipeline.''
             else mk RGood state ''Pack is applied and recent.'')
          else if state = ''rejected'' then
            mk RBad state (firstNonEmpty [dp_LastRejectedReason p, ''Pack was rejected - investigate signature/hash/schema.''])
          else if state \<in> set [''pending'', ''queued''] then
            mk RWarn state ''Pack rollout is in flight. Detection coverage may be incomplete.''
          else mk RWarn state ''Unrecognized rollout state. Confirm rollout pipeline health.'')"

definition dimensionAgentVersion :: "info \<Rightarrow> string \<Rightarrow> readiness_dimension" where
  "dimensionAgentVersion agent currentVersion =
     (let mk = dim ''agent_version'' ''Agent version'' 10; current = trim_space currentVersion;
          have_v = trim_space (ai_AgentVersion agent)
      in if have_v = '''' then mk RUnknown ''unreported'' ''Agent did not report its version on heartbeat.''
         else if current = '''' then mk RGood have_v ''No fleet baseline configured - accepting reported version.''
         else if have_v = current then mk RGood have_v ''Agent matches fleet baseline.''
         else mk RWarn have_v (''Agent drift detected: fleet baseline is '' @ current @ ''.''))"

definition dimensionCollectorHealth :: "visibility_device_record option \<Rightarrow> readiness_dimension" where
  "dimensionCollectorHealth vis =
     (let mk = dim ''collectors'' ''Collector coverage'' 15 in
      case vis of
        None \<Rightarrow> mk RUnknown ''no visibility record'' ''Cannot estimate collector coverage without ingest data.''
      | Some d \<Rightarrow>
          let types = length (vd_EventTypeCount d) in
          if vd_EventCount d = 0 then
            mk RBad ''no events'' ''Ingest sees this agent but has not received any events yet.''
          else if types \<le> 1 then
            mk RWarn (itoa (int types) @ '' type(s)'') ''Only a single event type is reported. Collector(s) likely partial.''
          else mk RGood (itoa (int types) @ '' type(s)'')
            (itoa (vd_EventCount d) @ '' events across '' @ itoa (int types) @ '' event types.''))"

definition dimensionConnectivity :: "info \<Rightarrow> readiness_dimension" where
  "dimensionConnectivity agent =
     (let mk = dim ''connectivity'' ''Tunnel/connectivity'' 15; st = to_lower (trim_space (ai_Status agent)) in
      if st = ''online'' then mk RGood ''online'' ''Agent is actively connected.''
      else if st = ''stale'' then mk RWarn ''stale''
        ''Agent heartbeat is delayed. Check tunnel, agent process, and network path before trusting new evidence.''
      else if st = ''offline'' then mk RBad ''offline'' ''Agent is offline. Treat as untrusted for new evidence.''
      else mk RUnknown ''unknown'' ''Connection status is unknown.'')"

section \<open>Score and bucket\<close>

record tally =
  ta_total :: nat
  ta_good :: nat
  ta_bad :: nat
  ta_warn :: nat
  ta_unknown :: nat
  ta_stale :: bool

definition tally_dimension :: "readiness_dimension \<Rightarrow> tally \<Rightarrow> tally" where
  "tally_dimension d t =
     (let w = (if rd_Weight d = 0 then 10 else rd_Weight d);
          t1 = t\<lparr>ta_total := ta_total t + w\<rparr>;
          t2 = (case rd_State d of
                  RGood \<Rightarrow> t1\<lparr>ta_good := ta_good t1 + w\<rparr>
                | RWarn \<Rightarrow> t1\<lparr>ta_warn := ta_warn t1 + 1, ta_good := ta_good t1 + w div 2\<rparr>
                | RBad \<Rightarrow> t1\<lparr>ta_bad := ta_bad t1 + 1\<rparr>
                | RUnknown \<Rightarrow> t1\<lparr>ta_unknown := ta_unknown t1 + 1\<rparr>)
      in if rd_ID d = ''heartbeat'' \<and> rd_State d = RBad then t2\<lparr>ta_stale := True\<rparr> else t2)"

definition bucketize :: "readiness_dimension list \<Rightarrow> nat \<times> readiness_bucket" where
  "bucketize dims =
     (let t = fold tally_dimension dims \<lparr>ta_total = 0, ta_good = 0, ta_bad = 0, ta_warn = 0, ta_unknown = 0, ta_stale = False\<rparr>;
          score = (if ta_total t > 0 then (ta_good t * 100) div ta_total t else 0);
          bucket = (if ta_stale t then BStale
                    else if ta_bad t \<ge> 2 then BDegraded
                    else if ta_bad t = 1 \<or> ta_warn t \<ge> 2 then BNeedsAttention
                    else if ta_warn t = 1 then BNeedsAttention
                    else if ta_unknown t = length dims then BUnknown
                    else BReady)
      in (score, if bucket = BReady \<and> score < 80 then BNeedsAttention else bucket))"

definition summarizeReadiness :: "readiness_bucket \<Rightarrow> info \<Rightarrow> string" where
  "summarizeReadiness bucket agent =
     (let host = firstNonEmpty [ai_Hostname agent, ai_HostID agent, ai_UID agent] in
      case bucket of
        BReady \<Rightarrow> host @ '' is ready: heartbeat, telemetry, detection pack, and connectivity all green.''
      | BNeedsAttention \<Rightarrow> host @ '' needs attention before relying on its evidence for new control decisions.''
      | BStale \<Rightarrow> host @ '' is stale. Heartbeat is too old to trust live evidence from this endpoint.''
      | BDegraded \<Rightarrow> host @ '' is degraded across multiple readiness dimensions.''
      | BUnknown \<Rightarrow> host @ '' readiness is unknown - confirm registration and telemetry before relying on its data.'')"

definition first_in_state :: "readiness_state \<Rightarrow> readiness_dimension list \<Rightarrow> readiness_dimension option" where
  "first_in_state st dims = find (\<lambda>d. rd_State d = st) dims"

definition pickFixFirst :: "readiness_dimension list \<Rightarrow> readiness_bucket \<Rightarrow> string" where
  "pickFixFirst dims bucket =
     (if bucket = BReady then ''''
      else case first_in_state RBad dims of
        Some d \<Rightarrow> rd_Label d @ '': '' @ rd_Detail d
      | None \<Rightarrow>
          (case first_in_state RWarn dims of
             Some d \<Rightarrow> rd_Label d @ '': '' @ rd_Detail d
           | None \<Rightarrow>
               (case first_in_state RUnknown dims of
                  Some d \<Rightarrow> rd_Label d @ '': '' @ rd_Detail d
                | None \<Rightarrow> '''')))"

definition agent_dimensions ::
  "info \<Rightarrow> visibility_device_record option \<Rightarrow> string \<Rightarrow> time \<Rightarrow> readiness_dimension list" where
  "agent_dimensions agent vis currentVersion now =
     [dimensionHeartbeat agent now, dimensionEventIngestion vis now, dimensionDetectionPack agent now,
      dimensionAgentVersion agent currentVersion, dimensionCollectorHealth vis, dimensionConnectivity agent]"

definition computeAgentReadiness ::
  "info \<Rightarrow> visibility_device_record option \<Rightarrow> string \<Rightarrow> time \<Rightarrow> agent_readiness" where
  "computeAgentReadiness agent vis currentVersion now =
     (let dims = agent_dimensions agent vis currentVersion now; (score, bucket) = bucketize dims
      in \<lparr>ar_Bucket = bucket, ar_Score = score, ar_Summary = summarizeReadiness bucket agent,
          ar_FixFirst = pickFixFirst dims bucket, ar_Dimensions = dims\<rparr>)"

section \<open>The fleet\<close>

text \<open>The devices of the ingest service by device and by agent identifier.\<close>

definition devices_by_host :: "visibility_device_record list \<Rightarrow> (string, visibility_device_record) gomap" where
  "devices_by_host ds =
     fold (\<lambda>d m. let m1 = map_set (vd_DeviceID d) d m
                  in if vd_AgentID d \<noteq> '''' then map_set (vd_AgentID d) d m1 else m1) ds []"

definition agent_visibility ::
  "(string, visibility_device_record) gomap \<Rightarrow> info \<Rightarrow> visibility_device_record option" where
  "agent_visibility byHost agent =
     (case map_get byHost (ai_HostID agent) of Some v \<Rightarrow> Some v | None \<Rightarrow> map_get byHost (ai_UID agent))"

definition collectAgentInfos ::
  "time \<Rightarrow> (string \<Rightarrow> detection_pack_status option) \<Rightarrow> visibility_device_record list \<Rightarrow> agent_store
   \<Rightarrow> (info \<times> visibility_device_record option) list" where
  "collectAgentInfos now packs devices s =
     map (\<lambda>a. let i = to_info now (packs (aa_AgentUID a)) a in (i, agent_visibility (devices_by_host devices) i))
       (map_values (st_agents s))"

definition bucket_order :: "readiness_bucket \<Rightarrow> nat" where
  "bucket_order b = (case b of BStale \<Rightarrow> 0 | BDegraded \<Rightarrow> 1 | BNeedsAttention \<Rightarrow> 2 | BUnknown \<Rightarrow> 3 | BReady \<Rightarrow> 4)"

record fleet_summary =
  fs_Total :: nat
  fs_Buckets :: "(readiness_bucket, nat) gomap"
  fs_AverageScore :: nat
  fs_Agents :: "(string \<times> agent_readiness) list"
  fs_FixFirst :: "(string \<times> string \<times> readiness_bucket) list"

definition count_bucket :: "readiness_bucket \<Rightarrow> (readiness_bucket, nat) gomap \<Rightarrow> (readiness_bucket, nat) gomap" where
  "count_bucket b m = map_set b ((case map_get m b of None \<Rightarrow> 0 | Some n \<Rightarrow> n) + 1) m"

definition handleAgentReadinessFleet ::
  "string \<Rightarrow> time \<Rightarrow> (info \<times> visibility_device_record option) list \<Rightarrow> fleet_summary" where
  "handleAgentReadinessFleet baseline now agents =
     (let rs = map (\<lambda>(i, v). (ai_UID i, computeAgentReadiness i v (trim_space baseline) now)) agents;
          hot = map (\<lambda>(u, r). (u, ar_FixFirst r, ar_Bucket r))
                  (filter (\<lambda>(u, r). ar_Bucket r \<noteq> BReady \<and> ar_FixFirst r \<noteq> '''') rs)
      in \<lparr>fs_Total = length agents, fs_Buckets = fold (\<lambda>(u, r). count_bucket (ar_Bucket r)) rs [],
          fs_AverageScore = (if length agents > 0 then sum_list (map (ar_Score \<circ> snd) rs) div length agents else 0),
          fs_Agents = sort_key (\<lambda>(u, r). ar_Score r) rs,
          fs_FixFirst = take 8 (sort_key (\<lambda>(u, f, b). bucket_order b) hot)\<rparr>)"

section \<open>Properties\<close>

definition dim_weight :: "readiness_dimension \<Rightarrow> nat" where
  "dim_weight d = (if rd_Weight d = 0 then 10 else rd_Weight d)"

definition dim_good :: "readiness_dimension \<Rightarrow> nat" where
  "dim_good d = (case rd_State d of RGood \<Rightarrow> dim_weight d | RWarn \<Rightarrow> dim_weight d div 2 | _ \<Rightarrow> 0)"

definition in_state :: "readiness_state \<Rightarrow> readiness_dimension list \<Rightarrow> nat" where
  "in_state st dims = length (filter (\<lambda>d. rd_State d = st) dims)"

lemma fold_tally:
  "fold tally_dimension dims t = \<lparr>ta_total = ta_total t + sum_list (map dim_weight dims),
     ta_good = ta_good t + sum_list (map dim_good dims), ta_bad = ta_bad t + in_state RBad dims,
     ta_warn = ta_warn t + in_state RWarn dims, ta_unknown = ta_unknown t + in_state RUnknown dims,
     ta_stale = (ta_stale t \<or> (\<exists>d \<in> set dims. rd_ID d = ''heartbeat'' \<and> rd_State d = RBad))\<rparr>"
  by (induction dims arbitrary: t)
    (auto simp: tally_dimension_def Let_def dim_weight_def dim_good_def in_state_def split: readiness_state.splits)

lemma bucketize_score:
  "fst (bucketize dims) = (if sum_list (map dim_weight dims) > 0
     then (sum_list (map dim_good dims) * 100) div sum_list (map dim_weight dims) else 0)"
  unfolding bucketize_def fold_tally Let_def by (simp del: sum_list_eq_0_iff)

lemma dim_good_le: "dim_good d \<le> dim_weight d"
  by (simp add: dim_good_def split: readiness_state.split)

lemma score_le_100: "fst (bucketize dims) \<le> 100"
proof -
  have "sum_list (map dim_good dims) \<le> sum_list (map dim_weight dims)" by (rule sum_list_mono) (rule dim_good_le)
  then have "sum_list (map dim_good dims) * 100 \<le> 100 * sum_list (map dim_weight dims)" by simp
  then have "sum_list (map dim_good dims) * 100 div sum_list (map dim_weight dims)
      \<le> 100 * sum_list (map dim_weight dims) div sum_list (map dim_weight dims)" by (rule div_le_mono)
  also have "\<dots> \<le> 100" by simp
  finally show ?thesis by (simp add: bucketize_score)
qed

lemma dimension_weights [simp]:
  "rd_Weight (dimensionHeartbeat agent now) = 25" "rd_Weight (dimensionEventIngestion vis now) = 20"
  "rd_Weight (dimensionDetectionPack agent now) = 15" "rd_Weight (dimensionAgentVersion agent cur) = 10"
  "rd_Weight (dimensionCollectorHealth vis) = 15" "rd_Weight (dimensionConnectivity agent) = 15"
  by (simp_all add: dim_def dimensionHeartbeat_def dimensionEventIngestion_def dimensionDetectionPack_def
      dimensionAgentVersion_def dimensionCollectorHealth_def dimensionConnectivity_def Let_def split: option.split)

lemma dim_weights [simp]:
  "dim_weight (dimensionHeartbeat agent now) = 25" "dim_weight (dimensionEventIngestion vis now) = 20"
  "dim_weight (dimensionDetectionPack agent now) = 15" "dim_weight (dimensionAgentVersion agent cur) = 10"
  "dim_weight (dimensionCollectorHealth vis) = 15" "dim_weight (dimensionConnectivity agent) = 15"
  by (simp_all add: dim_weight_def)

lemma heartbeat_id [simp]: "rd_ID (dimensionHeartbeat agent now) = ''heartbeat''"
  by (simp add: dim_def dimensionHeartbeat_def Let_def)

lemma dimension_states:
  "rd_State (dimensionConnectivity agent) = RGood \<longleftrightarrow> to_lower (trim_space (ai_Status agent)) = ''online''"
  "rd_State (dimensionHeartbeat agent now) = RGood \<Longrightarrow> time_sub now (ai_LastSeen agent) < seconds 300"
  "rd_State (dimensionEventIngestion vis now) = RUnknown \<longleftrightarrow> vis = None"
  "rd_State (dimensionCollectorHealth vis) = RUnknown \<longleftrightarrow> vis = None"
  "rd_State (dimensionEventIngestion (Some d) now) = RGood \<Longrightarrow> time_sub now (unix_milli (vd_LastSeenMS d)) < seconds 600"
  "rd_State (dimensionCollectorHealth (Some d)) = RGood \<Longrightarrow> vd_EventCount d \<noteq> 0 \<and> length (vd_EventTypeCount d) \<ge> 2"
  by (auto simp: dim_def dimensionHeartbeat_def dimensionEventIngestion_def dimensionCollectorHealth_def
      dimensionConnectivity_def Let_def split: option.splits if_splits)

lemma agent_score: "fst (bucketize (agent_dimensions agent vis cur now)) = sum_list (map dim_good (agent_dimensions agent vis cur now))"
  by (simp add: bucketize_score agent_dimensions_def)

lemma bucketize_ready:
  assumes "snd (bucketize dims) = BReady"
  shows "in_state RBad dims = 0" "in_state RWarn dims = 0" "80 \<le> fst (bucketize dims)"
  using assms by (auto simp: bucketize_def fold_tally Let_def simp del: sum_list_eq_0_iff split: if_splits)

lemma in_state_0: "in_state st dims = 0 \<Longrightarrow> d \<in> set dims \<Longrightarrow> rd_State d \<noteq> st"
  by (auto simp: in_state_def filter_empty_conv)

text \<open>Every agent carries one of the three words of \<^const>\<open>agentConnectionStatus\<close>.\<close>

lemma connection_words: "to_lower (trim_space (agentConnectionStatus now t)) = agentConnectionStatus now t"
proof -
  have "to_lower (trim_space ''online'') = ''online''" "to_lower (trim_space ''stale'') = ''stale''"
    "to_lower (trim_space ''offline'') = ''offline''" by code_simp+
  then show ?thesis by (simp add: agentConnectionStatus_def Let_def)
qed

text \<open>
  An agent that is reported as ready is one whose evidence is current: its last heartbeat is less
  than three minutes old, ingest knows its device, the device's last event is less than ten minutes
  old, and there are events of at least two types. Its score is at least 80, and no dimension is in
  a warning or bad state.
\<close>

lemma ready_agent_is_current:
  assumes "r = computeAgentReadiness (to_info now pack a) vis cur now" "ar_Bucket r = BReady"
  shows "time_sub now (aa_LastSeen a) < seconds 180 \<and> 80 \<le> ar_Score r
    \<and> (\<forall>d \<in> set (ar_Dimensions r). rd_State d \<in> {RGood, RUnknown})
    \<and> (\<exists>d. vis = Some d \<and> time_sub now (unix_milli (vd_LastSeenMS d)) < seconds 600 \<and> length (vd_EventTypeCount d) \<ge> 2)"
proof -
  let ?i = "to_info now pack a"
  let ?dims = "agent_dimensions ?i vis cur now"
  have r: "ar_Bucket r = snd (bucketize ?dims)" "ar_Score r = fst (bucketize ?dims)" "ar_Dimensions r = ?dims"
    by (simp_all add: assms(1) computeAgentReadiness_def Let_def split_beta)
  have b: "snd (bucketize ?dims) = BReady" using assms(2) r by simp
  note rdy = bucketize_ready [OF b]
  have st: "rd_State d = RGood \<or> rd_State d = RUnknown" if "d \<in> set ?dims" for d
    using in_state_0 [OF rdy(1) that] in_state_0 [OF rdy(2) that] by (cases "rd_State d") auto
  have score: "80 \<le> sum_list (map dim_good ?dims)" using rdy(3) by (simp only: agent_score)
  have good: "dim_good d = (if rd_State d = RGood then dim_weight d else 0)" if "d \<in> set ?dims" for d
    using st [OF that] by (auto simp: dim_good_def)
  let ?g = "\<lambda>d. rd_State d = RGood"
  have "80 \<le> (if ?g (dimensionHeartbeat ?i now) then 25 else 0) + (if ?g (dimensionEventIngestion vis now) then 20 else 0)
      + (if ?g (dimensionDetectionPack ?i now) then 15 else 0) + (if ?g (dimensionAgentVersion ?i cur) then 10 else 0)
      + (if ?g (dimensionCollectorHealth vis) then 15 else 0) + (if ?g (dimensionConnectivity ?i) then 15 else (0 :: nat))"
  proof -
    have "map dim_good ?dims = map (\<lambda>d. if ?g d then dim_weight d else 0) ?dims" by (rule map_cong) (simp_all only: good)
    with score show ?thesis by (simp add: agent_dimensions_def add.assoc cong: if_cong split del: if_split)
  qed
  moreover have vis: "?g (dimensionEventIngestion vis now) \<longleftrightarrow> vis \<noteq> None" "?g (dimensionCollectorHealth vis) \<longleftrightarrow> vis \<noteq> None"
    using st [of "dimensionEventIngestion vis now"] st [of "dimensionCollectorHealth vis"]
      dimension_states(3) [of vis now] dimension_states(4) [of vis]
    by (auto simp: agent_dimensions_def simp del: not_None_eq)
  ultimately obtain d where d: "vis = Some d" by (auto split: if_splits)
  have "?g (dimensionConnectivity ?i)"
  proof (rule ccontr)
    assume "\<not> ?g (dimensionConnectivity ?i)"
    then have u: "rd_State (dimensionConnectivity ?i) = RUnknown" using st [of "dimensionConnectivity ?i"] by (simp add: agent_dimensions_def)
    have "ai_Status ?i \<in> {''online'', ''stale'', ''offline''}" by (simp add: to_info_def agentConnectionStatus_def Let_def)
    with u show False
      using connection_words [of now "aa_LastSeen a"]
      by (auto simp: dimensionConnectivity_def dim_def Let_def to_info_def split: if_splits)
  qed
  then have "agentConnectionStatus now (aa_LastSeen a) = ''online''"
    using dimension_states(1) connection_words by (simp add: to_info_def)
  then have "time_sub now (aa_LastSeen a) < seconds 180"
    by (auto simp: agentConnectionStatus_def Let_def split: if_splits)
  moreover have "time_sub now (unix_milli (vd_LastSeenMS d)) < seconds 600" "length (vd_EventTypeCount d) \<ge> 2"
    using vis d dimension_states(5,6) by auto
  ultimately show ?thesis using d st rdy(3) r by auto
qed

lemma sum_counts: "sum_list (map snd (count_bucket b m)) = sum_list (map snd m) + 1" if "distinct (map fst m)"
proof (cases "map_get m b")
  case None
  then show ?thesis by (simp add: count_bucket_def map_set_absent)
next
  case (Some n)
  have "sum_list (map snd (map_set b (Suc n) m)) = sum_list (map snd m) + 1"
    using that Some by (induction m) auto
  with Some show ?thesis by (simp add: count_bucket_def)
qed

lemma sum_fold_counts:
  "distinct (map fst m) \<Longrightarrow> sum_list (map snd (fold (\<lambda>(u, r). count_bucket (ar_Bucket r)) rs m)) = sum_list (map snd m) + length rs"
proof (induction rs arbitrary: m)
  case (Cons p rs)
  have "distinct (map fst (count_bucket b m))" for b using Cons.prems by (simp add: count_bucket_def distinct_update)
  with Cons show ?case by (simp add: split_beta sum_counts)
qed simp

text \<open>
  The fleet summary is within its bounds: every score and their average lie between 0 and 100,
  the bucket counts add up to the number of agents, the agents are listed by ascending score, and
  at most eight agents are named to be fixed first.
\<close>

lemma fleet_summary_bounds:
  "let f = handleAgentReadinessFleet baseline now agents in
   (\<forall>(u, r) \<in> set (fs_Agents f). ar_Score r \<le> 100) \<and> fs_AverageScore f \<le> 100
   \<and> fs_Total f = length agents \<and> length (fs_Agents f) = length agents
   \<and> sum_list (map snd (fs_Buckets f)) = length agents
   \<and> sorted (map (\<lambda>(u, r). ar_Score r) (fs_Agents f)) \<and> length (fs_FixFirst f) \<le> 8"
proof -
  define rs where "rs = map (\<lambda>(i, v). (ai_UID i, computeAgentReadiness i v (trim_space baseline) now)) agents"
  have score: "ar_Score r \<le> 100" if "(u, r) \<in> set rs" for u r
    using that score_le_100 by (auto simp: rs_def computeAgentReadiness_def Let_def split_beta)
  have "sum_list (map (ar_Score \<circ> snd) rs) \<le> sum_list (map (\<lambda>_. 100) rs)"
    by (rule sum_list_mono) (use score in auto)
  also have "\<dots> = 100 * length rs" by (simp add: sum_list_triv)
  also have "length rs = length agents" by (simp add: rs_def)
  finally have "sum_list (map (ar_Score \<circ> snd) rs) \<le> 100 * length agents" .
  then have "sum_list (map (ar_Score \<circ> snd) rs) div length agents \<le> 100 * length agents div length agents" by (rule div_le_mono)
  then have avg: "sum_list (map (ar_Score \<circ> snd) rs) div length agents \<le> 100" if "length agents > 0" using that by simp
  show ?thesis
    using score avg sum_fold_counts [of "[]" rs]
    by (auto simp: handleAgentReadinessFleet_def Let_def rs_def [symmetric]) (simp_all add: rs_def)
qed

end
