(* ===== verification/Act_Examples.thy ===== *)
theory Act_Examples
  imports Act_Properties Act_Readiness Gw_Examples
begin

text \<open>
  Concrete runs of the agent part of the actions API: the theorems of \<open>Act_Properties\<close> and
  \<open>Act_Readiness\<close> at inputs where their hypotheses hold.
\<close>

definition ex_key :: string where
  "ex_key = replicate 32 (CHR ''k'')"

definition ex_act :: act_lib where
  "ex_act = \<lparr>al_b64dec = Some, al_b64enc = (\<lambda>s. s), al_sha256 = (\<lambda>s. s), al_verify = (\<lambda>k m s. m = s),
     al_parse_time = (\<lambda>s. Some 0), al_enc_object = (\<lambda>m. Some ''block''), al_enc_gateway = (\<lambda>m. ''e'')\<rparr>"

definition ex_init_req :: register_init_req where
  "ex_init_req = \<lparr>ri_OrgID = ''o'', ri_HostID = ''h'', ri_AgentPubKey = ex_key, ri_MachineIDHash = '''',
     ri_AgentVersion = ''1'', ri_Capabilities = None, ri_Platform = None, ri_Network = None\<rparr>"

definition ex_complete_req :: register_complete_req where
  "ex_complete_req = \<lparr>rc_RegistrationID = ''r'', rc_HostID = ''h'', rc_Signature = ''nth''\<rparr>"

definition ex_act0 :: act_sys where
  "ex_act0 = \<lparr>sy_store = NewStore, sy_checked = [], sy_issued = []\<rparr>"

definition ex_issue :: "agent_store" where
  "ex_issue = snd (postRegisterInit ex_act 0 ''t'' ''r'' ''n'' (Some ex_init_req) NewStore)"

definition ex_pending :: pending where
  "ex_pending = hd (map snd (st_pending ex_issue))"

definition ex_act1 :: act_sys where
  "ex_act1 = ex_act0\<lparr>sy_store := ex_issue, sy_issued := map_values (st_pending ex_issue) @ []\<rparr>"

definition ex_registered :: agent_store where
  "ex_registered = snd (complete_store ex_act 0 ex_pending ex_issue)"

definition ex_act2 :: act_sys where
  "ex_act2 = ex_act1\<lparr>sy_store := ex_registered\<rparr>"

lemma ex_act_reach: "reach act_init (act_step ex_act) ex_act2"
proof -
  have 0: "reach act_init (act_step ex_act) ex_act0"
    by (rule reach.reach_init) (simp add: act_init_def ex_act0_def)
  have "postRegisterInit ex_act 0 ''t'' ''r'' ''n'' (Some ex_init_req) (sy_store ex_act0) =
      (fst (postRegisterInit ex_act 0 ''t'' ''r'' ''n'' (Some ex_init_req) NewStore), ex_issue)"
    by (simp add: ex_act0_def ex_issue_def)
  from reach.reach_step [OF 0 act_step.register_init [OF this]]
  have 1: "reach act_init (act_step ex_act) ex_act1" by (simp add: ex_act1_def ex_act0_def)
  have "complete_check ex_act ex_complete_req ex_issue = Inr ex_pending" by code_simp
  then have "complete_check ex_act ex_complete_req (sy_store ex_act1) = Inr ex_pending" by (simp add: ex_act1_def)
  from reach.reach_step [OF 1 act_step.check [OF this]]
  have 2: "reach act_init (act_step ex_act) (ex_act1\<lparr>sy_checked := ex_pending # sy_checked ex_act1\<rparr>)" .
  have "ex_pending \<in> set (sy_checked (ex_act1\<lparr>sy_checked := ex_pending # sy_checked ex_act1\<rparr>))" by simp
  from reach.reach_step [OF 2 act_step.store [OF this, of _ 0]] show ?thesis
    by (simp add: ex_act2_def ex_registered_def ex_act1_def ex_act0_def)
qed

definition ex_uid :: string where
  "ex_uid = generateDeterministicAgentUID ex_act ex_key"

definition ex_agent :: api_agent where
  "ex_agent = the (map_get (st_agents ex_registered) ex_uid)"

lemma ex_agent_stored: "map_get (st_agents (sy_store ex_act2)) ex_uid = Some ex_agent" "aa_PubKey ex_agent = ex_key"
  by code_simp+

lemma agent_store_invariant_witness: "act_inv ex_act ex_act2 \<and> length (st_agents (sy_store ex_act2)) = 1"
proof -
  have "length (st_agents (sy_store ex_act2)) = 1" by code_simp
  with agent_store_invariant [OF ex_act_reach] show ?thesis by blast
qed


definition ex_query :: agent_query where
  "ex_query = \<lparr>aq_label = '''', aq_hostname = '''', aq_host_id = '''', aq_ip = '''', aq_limit = ''1'', aq_offset = '''',
     aq_include = ''''\<rparr>"

definition ex_two :: agent_store where
  "ex_two = ex_registered\<lparr>st_agents := st_agents ex_registered @ [(''z'', ex_agent\<lparr>aa_AgentUID := ''z'', aa_LastSeen := 5\<rparr>)]\<rparr>"


text \<open>The gateway of \<^const>\<open>ex_gw1\<close> holds a connection of the agent \<open>a\<close>.\<close>

definition ex_send :: send_message_request where
  "ex_send = \<lparr>sr_Channel = ''agent.a.policies'', sr_Message = None, sr_MessageType = ''''\<rparr>"

definition ex_known :: agent_store where
  "ex_known = NewStore\<lparr>st_agents := [(''a'', ex_agent\<lparr>aa_AgentUID := ''a''\<rparr>)]\<rparr>"


section \<open>Readiness\<close>

definition ex_device :: visibility_device_record where
  "ex_device = \<lparr>vd_DeviceID = ''h'', vd_AgentID = '''', vd_LastSeenMS = 1, vd_EventCount = 7,
     vd_EventTypeCount = [(''process'', 4), (''flow'', 3)]\<rparr>"

text \<open>An agent without any record of a detection pack is ready, and the summary says that its detection
  pack is green.\<close>

lemma ex_agent_states:
  "rd_State (dimensionHeartbeat (to_info 1 None ex_agent) 1) = RGood"
  "rd_State (dimensionEventIngestion (Some ex_device) 1) = RGood"
  "rd_State (dimensionDetectionPack (to_info 1 None ex_agent) 1) = RUnknown"
  "rd_State (dimensionAgentVersion (to_info 1 None ex_agent) '''') = RGood"
  "rd_State (dimensionCollectorHealth (Some ex_device)) = RGood"
  "rd_State (dimensionConnectivity (to_info 1 None ex_agent)) = RGood"
proof -
  have a: "aa_LastSeen ex_agent = 0" "aa_AgentVersion ex_agent = ''1''" by code_simp+
  have s: "agentConnectionStatus 1 0 = ''online''" "to_lower (trim_space ''online'') = ''online''"
    "trim_space ''1'' = ''1''" "seconds 300 = 300000000000" "seconds 600 = 600000000000" by code_simp+
  show "rd_State (dimensionHeartbeat (to_info 1 None ex_agent) 1) = RGood"
    using s by (simp add: dimensionHeartbeat_def to_info_def a dim_def zero_time_def time_sub_def Let_def)
  show "rd_State (dimensionEventIngestion (Some ex_device) 1) = RGood"
    using s by (simp add: dimensionEventIngestion_def ex_device_def dim_def unix_milli_def time_sub_def Let_def)
  show "rd_State (dimensionDetectionPack (to_info 1 None ex_agent) 1) = RUnknown"
    by (simp add: dimensionDetectionPack_def to_info_def dim_def Let_def)
  show "rd_State (dimensionAgentVersion (to_info 1 None ex_agent) '''') = RGood"
    using s by (simp add: dimensionAgentVersion_def to_info_def a dim_def Let_def)
  show "rd_State (dimensionCollectorHealth (Some ex_device)) = RGood"
    by (simp add: dimensionCollectorHealth_def ex_device_def dim_def Let_def)
  show "rd_State (dimensionConnectivity (to_info 1 None ex_agent)) = RGood"
    using s by (simp add: dimensionConnectivity_def to_info_def a dim_def Let_def)
qed

lemma ready_without_pack:
  "ar_Bucket (computeAgentReadiness (to_info 1 None ex_agent) (Some ex_device) '''' 1) = BReady"
  "ar_Score (computeAgentReadiness (to_info 1 None ex_agent) (Some ex_device) '''' 1) = 85"
proof -
  have "bucketize (agent_dimensions (to_info 1 None ex_agent) (Some ex_device) '''' 1) = (85, BReady)"
    unfolding bucketize_def fold_tally Let_def
    by (simp add: agent_dimensions_def in_state_def dim_good_def ex_agent_states)
  then show "ar_Bucket (computeAgentReadiness (to_info 1 None ex_agent) (Some ex_device) '''' 1) = BReady"
    "ar_Score (computeAgentReadiness (to_info 1 None ex_agent) (Some ex_device) '''' 1) = 85"
    by (simp_all add: computeAgentReadiness_def Let_def)
qed

lemma ready_agent_is_current_witness:
  "time_sub 1 (aa_LastSeen ex_agent) < seconds 180
   \<and> 80 \<le> ar_Score (computeAgentReadiness (to_info 1 None ex_agent) (Some ex_device) '''' 1)"
  using ready_agent_is_current [OF refl ready_without_pack(1)] by blast

lemma fleet_summary_bounds_witness:
  "fs_AverageScore (handleAgentReadinessFleet '''' 1 [(to_info 1 None ex_agent, Some ex_device)]) \<le> 100
   \<and> fs_AverageScore (handleAgentReadinessFleet '''' 1 [(to_info 1 None ex_agent, Some ex_device)]) = 85"
proof -
  have "fs_AverageScore (handleAgentReadinessFleet '''' 1 [(to_info 1 None ex_agent, Some ex_device)]) = 85"
    using ready_without_pack by (simp add: handleAgentReadinessFleet_def Let_def)
  with fleet_summary_bounds [of "''''" 1 "[(to_info 1 None ex_agent, Some ex_device)]"] show ?thesis
    by (simp add: Let_def)
qed

end
