(* ===== verification/Ing_Store.thy ===== *)
theory Ing_Store
  imports Prelude "HOL-Library.Product_Lexorder"
begin

text \<open>
  The visibility stores of the ingest service: \<open>visibility_store.go\<close>, \<open>visibility_scale.go\<close> and
  \<open>visibility_store_sqlite.go\<close> under \<open>src/backend/ingest/internal/server\<close>. Both stores keep a log of events and an
  index of the devices that sent them. The file store is a JSONL file with the set of event
  identifiers in memory; the other store is an SQLite database.

  The file system is the record \<open>disk\<close>; what its operations answer is the record \<open>file_io\<close>, one for each
  append, so that an operation can fail at every place where the code checks for an error. A table of the
  database is the list of its rows in the order of their identifiers, and each SQL statement is the
  function on rows that it denotes. JSON is a parameter.
\<close>

section \<open>Events and devices\<close>

record visibilityEvent =
  ve_SchemaVersion :: string
  ve_EventID :: string
  ve_EventType :: string
  ve_TimestampMS :: int
  ve_Source :: string
  ve_TenantID :: string
  ve_DeviceID :: string
  ve_AgentID :: string
  ve_SensorVersion :: string
  ve_Sequence :: int
  ve_Payload :: string
  ve_ReceivedAtMS :: int

record visibilityQueryFilter =
  qf_EventID :: string
  qf_TenantID :: string
  qf_DeviceID :: string
  qf_AgentID :: string
  qf_EventType :: string
  qf_Limit :: int

record visibilityDeviceFilter =
  df_TenantID :: string
  df_Limit :: int

record visibilityDeviceRecord =
  dr_DeviceID :: string
  dr_AgentID :: string
  dr_Source :: string
  dr_TenantID :: string
  dr_SensorVersion :: string
  dr_FirstSeenMS :: int
  dr_LastSeenMS :: int
  dr_LastEventType :: string
  dr_LastSequence :: int
  dr_EventCount :: int
  dr_EventTypeCount :: "(string, int) gomap"

type_synonym devices = "(string, visibilityDeviceRecord) gomap"

definition defaultVisibilityQueryLimit :: int where
  "defaultVisibilityQueryLimit = 100"

definition maxVisibilityQueryLimit :: int where
  "maxVisibilityQueryLimit = 1000"

definition maxVisibilityLineBytes :: nat where
  "maxVisibilityLineBytes = 1048576"

definition fileStoreSyncEvery :: int where
  "fileStoreSyncEvery = 64"

definition query_limit :: "int \<Rightarrow> nat" where
  "query_limit l =
     (let l1 = (if l \<le> 0 then defaultVisibilityQueryLimit else l)
      in nat (if l1 > maxVisibilityQueryLimit then maxVisibilityQueryLimit else l1))"

definition matches_filter :: "visibilityQueryFilter \<Rightarrow> visibilityEvent \<Rightarrow> bool" where
  "matches_filter f e \<longleftrightarrow>
     \<not> (qf_EventID f \<noteq> [] \<and> ve_EventID e \<noteq> qf_EventID f) \<and>
     \<not> (qf_TenantID f \<noteq> [] \<and> ve_TenantID e \<noteq> qf_TenantID f) \<and>
     \<not> (qf_DeviceID f \<noteq> [] \<and> ve_DeviceID e \<noteq> qf_DeviceID f) \<and>
     \<not> (qf_AgentID f \<noteq> [] \<and> ve_AgentID e \<noteq> qf_AgentID f) \<and>
     \<not> (qf_EventType f \<noteq> [] \<and> ve_EventType e \<noteq> qf_EventType f)"

text \<open>An event without a time of receipt is stamped with the current time.\<close>

definition stamp :: "int \<Rightarrow> visibilityEvent \<Rightarrow> visibilityEvent" where
  "stamp nowMS e = (if ve_ReceivedAtMS e = 0 then e\<lparr>ve_ReceivedAtMS := nowMS\<rparr> else e)"

definition event_seenMS :: "visibilityEvent \<Rightarrow> int" where
  "event_seenMS e = (if ve_ReceivedAtMS e = 0 then ve_TimestampMS e else ve_ReceivedAtMS e)"

definition count_inc :: "string \<Rightarrow> (string, int) gomap \<Rightarrow> (string, int) gomap" where
  "count_inc t m = map_set t ((case map_get m t of None \<Rightarrow> 0 | Some n \<Rightarrow> n) + 1) m"

definition new_device :: "visibilityEvent \<Rightarrow> visibilityDeviceRecord" where
  "new_device e =
     \<lparr>dr_DeviceID = ve_DeviceID e, dr_AgentID = ve_AgentID e, dr_Source = ve_Source e,
      dr_TenantID = ve_TenantID e, dr_SensorVersion = ve_SensorVersion e,
      dr_FirstSeenMS = event_seenMS e, dr_LastSeenMS = event_seenMS e,
      dr_LastEventType = ve_EventType e, dr_LastSequence = ve_Sequence e,
      dr_EventCount = 0, dr_EventTypeCount = []\<rparr>"

definition touch_device :: "visibilityEvent \<Rightarrow> visibilityDeviceRecord \<Rightarrow> visibilityDeviceRecord" where
  "touch_device e r =
     (let seenMS = event_seenMS e;
          r1 = (if seenMS < dr_FirstSeenMS r \<or> dr_FirstSeenMS r = 0
                then r\<lparr>dr_FirstSeenMS := seenMS\<rparr> else r);
          r2 = (if seenMS \<ge> dr_LastSeenMS r1
                then r1\<lparr>dr_LastSeenMS := seenMS, dr_LastEventType := ve_EventType e,
                        dr_LastSequence := ve_Sequence e, dr_AgentID := ve_AgentID e,
                        dr_Source := ve_Source e, dr_SensorVersion := ve_SensorVersion e,
                        dr_TenantID := ve_TenantID e\<rparr>
                else r1);
          r3 = r2\<lparr>dr_EventCount := dr_EventCount r2 + 1\<rparr>
      in if ve_EventType e \<noteq> []
         then r3\<lparr>dr_EventTypeCount := count_inc (ve_EventType e) (dr_EventTypeCount r3)\<rparr>
         else r3)"

definition upsertDeviceRecord :: "visibilityEvent \<Rightarrow> devices \<Rightarrow> devices" where
  "upsertDeviceRecord e byDevice =
     (if ve_DeviceID e = [] then byDevice
      else let r = (case map_get byDevice (ve_DeviceID e) of None \<Rightarrow> new_device e | Some r \<Rightarrow> r)
           in map_set (ve_DeviceID e) (touch_device e r) byDevice)"

text \<open>\<open>sort.Slice\<close> by the last time seen, newest first, then by the device identifier.\<close>

definition sort_devices :: "visibilityDeviceRecord list \<Rightarrow> visibilityDeviceRecord list" where
  "sort_devices rs = sort_key (\<lambda>r. (- dr_LastSeenMS r, dr_DeviceID r)) rs"

section \<open>The configuration read from the environment\<close>

definition positive_or :: "int \<Rightarrow> string \<Rightarrow> int" where
  "positive_or d raw0 =
     (let raw = trim_space raw0
      in if raw = [] then d
         else case atoi raw of None \<Rightarrow> d | Some n \<Rightarrow> if n \<le> 0 then d else n)"

definition ingestDedupeLimitFromEnv :: "string \<Rightarrow> int" where
  "ingestDedupeLimitFromEnv raw = positive_or 100000 raw"

definition visibilityRetentionDuration :: "string \<Rightarrow> duration" where
  "visibilityRetentionDuration raw = wrap64 (positive_or 168 raw * 3600000000000)"

definition jsonlMaxBytesFromEnv :: "string \<Rightarrow> int" where
  "jsonlMaxBytesFromEnv raw = positive_or (512 * 2 ^ 20) raw"

section \<open>Reading lines\<close>

text \<open>
  \<open>bufio.Scanner\<close> splits its input at line feeds, drops a carriage return at the end of a line and gives no
  token for an empty rest. A line that does not fit the buffer ends the scan with an error.
\<close>

definition drop_cr :: "string \<Rightarrow> string" where
  "drop_cr l = (if l \<noteq> [] \<and> List.last l = CHR 0x0D then butlast l else l)"

definition raw_lines :: "string \<Rightarrow> string list" where
  "raw_lines s = (let ls = split_on (CHR 0x0A) s in if List.last ls = [] then butlast ls else ls)"

definition scanner_lines :: "nat \<Rightarrow> string \<Rightarrow> string list \<times> bool" where
  "scanner_lines maxlen s =
     (let ls = raw_lines s; ok = takeWhile (\<lambda>l. length l < maxlen) ls
      in (map drop_cr ok, length ok = length ls))"

definition keep_tail :: "nat \<Rightarrow> string list \<Rightarrow> string \<Rightarrow> string list" where
  "keep_tail maxLines ls l =
     (if l = [] then ls
      else if length ls \<ge> maxLines then tl ls @ [l]
      else ls @ [l])"

definition readTailLines :: "string \<Rightarrow> int \<Rightarrow> string + string list" where
  "readTailLines content m =
     (let maxLines = nat (if m \<le> 0 then defaultVisibilityQueryLimit else m);
          (ls, ok) = scanner_lines maxVisibilityLineBytes content;
          kept = foldl (keep_tail maxLines) [] ls
      in if ok then Inr kept else Inl ''failed to scan visibility store'')"

section \<open>The file store\<close>

record store_json =
  sj_event :: "visibilityEvent \<Rightarrow> string option"
  sj_parse :: "string \<Rightarrow> visibilityEvent option"
  sj_devices :: "visibilityDeviceRecord list \<Rightarrow> string option"
  sj_parse_devices :: "string \<Rightarrow> visibilityDeviceRecord list option"

record disk =
  dk_file :: "string option"
  dk_index :: "string option"
  dk_rotated :: "(string \<times> string) list"

datatype fhandle = FNil | FClosed | FOpen

record file_store =
  fs_disk :: disk
  fs_handle :: fhandle
  fs_seen :: "string list"
  fs_devices :: devices
  fs_writesSinceSync :: int
  fs_maxBytes :: int

text \<open>
  What the file system and the clock answer during one append. A write that fails can have written a
  prefix of its data.
\<close>

record file_io =
  io_cancelled :: bool
  io_nowMS :: int
  io_stamp :: string
  io_stat :: bool
  io_close :: bool
  io_rename :: bool
  io_reopen :: bool
  io_write :: "nat option"
  io_sync :: bool
  io_index_write :: bool
  io_index_rename :: bool

definition file_content :: "file_store \<Rightarrow> string" where
  "file_content s = (case dk_file (fs_disk s) of None \<Rightarrow> [] | Some c \<Rightarrow> c)"

definition set_file :: "string option \<Rightarrow> file_store \<Rightarrow> file_store" where
  "set_file c s = s\<lparr>fs_disk := (fs_disk s)\<lparr>dk_file := c\<rparr>\<rparr>"

fun seen_from_lines :: "store_json \<Rightarrow> string list \<Rightarrow> string list \<Rightarrow> string list option" where
  "seen_from_lines lib [] seen = Some seen"
| "seen_from_lines lib (l # ls) seen =
     (if l = [] then seen_from_lines lib ls seen
      else case sj_parse lib l of
        None \<Rightarrow> None
      | Some e \<Rightarrow> seen_from_lines lib ls
          (if ve_EventID e \<noteq> [] then List.insert (ve_EventID e) seen else seen))"

text \<open>Whether the directory, the log and the index can be created, read and opened at the start.\<close>

record load_io =
  li_mkdir :: bool
  li_read :: bool
  li_read_index :: bool
  li_open :: bool

definition loadSeenIDs :: "store_json \<Rightarrow> load_io \<Rightarrow> disk \<Rightarrow> string + string list" where
  "loadSeenIDs lib io d =
     (case dk_file d of
        None \<Rightarrow> Inr []
      | Some c \<Rightarrow>
          if \<not> li_read io then Inl ''failed to read visibility store'' else
          (let (ls, ok) = scanner_lines maxVisibilityLineBytes c
           in case seen_from_lines lib ls [] of
                None \<Rightarrow> Inl ''failed to parse visibility store record''
              | Some seen \<Rightarrow> if ok then Inr seen else Inl ''failed to scan visibility store''))"

definition index_devices :: "visibilityDeviceRecord list \<Rightarrow> devices" where
  "index_devices rs =
     fold (\<lambda>r m. if dr_DeviceID r = [] then m else map_set (dr_DeviceID r) r m) rs []"

definition loadDevicesIndex :: "store_json \<Rightarrow> load_io \<Rightarrow> disk \<Rightarrow> string + devices" where
  "loadDevicesIndex lib io d =
     (case dk_index d of
        None \<Rightarrow> Inr []
      | Some raw \<Rightarrow>
          if \<not> li_read_index io then Inl ''failed to read visibility devices index'' else
          (case sj_parse_devices lib raw of
             None \<Rightarrow> Inl ''failed to parse visibility devices index''
           | Some rs \<Rightarrow> Inr (index_devices rs)))"

definition newFileVisibilityStore :: "store_json \<Rightarrow> load_io \<Rightarrow> string \<Rightarrow> disk \<Rightarrow> string + file_store" where
  "newFileVisibilityStore lib io maxBytesEnv d =
     (if \<not> li_mkdir io then Inl ''failed to create visibility store directory''
      else case loadSeenIDs lib io d of
        Inl err \<Rightarrow> Inl err
      | Inr seen \<Rightarrow>
          (case loadDevicesIndex lib io d of
             Inl err \<Rightarrow> Inl err
           | Inr devs \<Rightarrow>
               if \<not> li_open io then Inl ''failed to open visibility store'' else
               Inr \<lparr>fs_disk = d\<lparr>dk_file := Some (case dk_file d of None \<Rightarrow> [] | Some c \<Rightarrow> c)\<rparr>,
                    fs_handle = FOpen, fs_seen = seen, fs_devices = devs,
                    fs_writesSinceSync = 0, fs_maxBytes = jsonlMaxBytesFromEnv maxBytesEnv\<rparr>))"

definition persistDevicesIndexLocked :: "store_json \<Rightarrow> file_io \<Rightarrow> file_store \<Rightarrow> string option \<times> file_store" where
  "persistDevicesIndexLocked lib io s =
     (case sj_devices lib (sort_devices (map_values (fs_devices s))) of
        None \<Rightarrow> (Some ''failed to encode visibility devices index'', s)
      | Some raw \<Rightarrow>
          if \<not> io_index_write io then (Some ''failed to write visibility devices index'', s)
          else if \<not> io_index_rename io then (Some ''rename'', s)
          else (None, s\<lparr>fs_disk := (fs_disk s)\<lparr>dk_index := Some raw\<rparr>\<rparr>))"

definition maybeRotateLocked :: "file_io \<Rightarrow> file_store \<Rightarrow> string option \<times> file_store" where
  "maybeRotateLocked io s =
     (if fs_maxBytes s \<le> 0 then (None, s)
      else if fs_handle s \<noteq> FOpen \<or> \<not> io_stat io then (Some ''stat'', s)
      else if int (length (file_content s)) < fs_maxBytes s then (None, s)
      else if \<not> io_close io then (Some ''close'', s\<lparr>fs_handle := FClosed\<rparr>)
      else
        let s1 = s\<lparr>fs_handle := FClosed\<rparr>
        in if \<not> io_rename io then (Some ''failed to rotate visibility store'', s1)
           else
             let d = fs_disk s1;
                 s2 = s1\<lparr>fs_disk := d\<lparr>dk_file := None,
                           dk_rotated := dk_rotated d @ [(io_stamp io, file_content s1)]\<rparr>,
                         fs_seen := []\<rparr>
             in if \<not> io_reopen io then (Some ''failed to reopen visibility store'', s2)
                else (None, (set_file (Some []) s2)\<lparr>fs_handle := FOpen, fs_writesSinceSync := 0\<rparr>))"

definition Has :: "bool \<Rightarrow> file_store \<Rightarrow> string \<Rightarrow> string + bool" where
  "Has cancelled s eventID =
     (if eventID = [] then Inr False
      else if cancelled then Inl ''context canceled''
      else Inr (eventID \<in> set (fs_seen s)))"

definition write_line :: "file_io \<Rightarrow> string \<Rightarrow> file_store \<Rightarrow> string option \<times> file_store" where
  "write_line io encoded s =
     (let line = encoded @ [CHR 0x0A]
      in if fs_handle s \<noteq> FOpen then (Some ''failed to write visibility event'', s)
         else case io_write io of
           Some n \<Rightarrow> (Some ''failed to write visibility event'',
                      set_file (Some (file_content s @ take n line)) s)
         | None \<Rightarrow> (None, set_file (Some (file_content s @ line)) s))"

definition count_write :: "file_io \<Rightarrow> file_store \<Rightarrow> string option \<times> file_store" where
  "count_write io s =
     (let s1 = s\<lparr>fs_writesSinceSync := fs_writesSinceSync s + 1\<rparr>
      in if fs_writesSinceSync s1 \<ge> fileStoreSyncEvery
         then (if \<not> io_sync io then (Some ''failed to sync visibility event'', s1)
               else (None, s1\<lparr>fs_writesSinceSync := 0\<rparr>))
         else (None, s1))"

definition remember :: "visibilityEvent \<Rightarrow> file_store \<Rightarrow> file_store" where
  "remember e s =
     s\<lparr>fs_seen := (if ve_EventID e \<noteq> [] then List.insert (ve_EventID e) (fs_seen s) else fs_seen s),
       fs_devices := upsertDeviceRecord e (fs_devices s)\<rparr>"

definition Append :: "store_json \<Rightarrow> file_io \<Rightarrow> visibilityEvent \<Rightarrow> file_store \<Rightarrow> string option \<times> file_store" where
  "Append lib io event0 s =
     (if io_cancelled io then (Some ''context canceled'', s)
      else if ve_EventID event0 \<noteq> [] \<and> ve_EventID event0 \<in> set (fs_seen s) then (None, s)
      else
        let event = stamp (io_nowMS io) event0
        in case sj_event lib event of
             None \<Rightarrow> (Some ''failed to encode visibility event'', s)
           | Some encoded \<Rightarrow>
               (case maybeRotateLocked io s of
                  (Some err, s1) \<Rightarrow> (Some err, s1)
                | (None, s1) \<Rightarrow>
                    (case write_line io encoded s1 of
                       (Some err, s2) \<Rightarrow> (Some err, s2)
                     | (None, s2) \<Rightarrow>
                         (case count_write io s2 of
                            (Some err, s3) \<Rightarrow> (Some err, s3)
                          | (None, s3) \<Rightarrow> persistDevicesIndexLocked lib io (remember event s3)))))"

fun AppendBatch :: "store_json \<Rightarrow> (nat \<Rightarrow> file_io) \<Rightarrow> visibilityEvent list \<Rightarrow> file_store \<Rightarrow> string option \<times> file_store" where
  "AppendBatch lib io [] s = (None, s)"
| "AppendBatch lib io (e # es) s =
     (case Append lib (io 0) e s of
        (Some err, s1) \<Rightarrow> (Some err, s1)
      | (None, s1) \<Rightarrow> AppendBatch lib (\<lambda>n. io (Suc n)) es s1)"

text \<open>The loop over the lines from the newest to the oldest, until there are enough results.\<close>

fun query_loop :: "store_json \<Rightarrow> visibilityQueryFilter \<Rightarrow> nat \<Rightarrow> string list \<Rightarrow> visibilityEvent list \<Rightarrow> visibilityEvent list" where
  "query_loop lib f limit [] results = results"
| "query_loop lib f limit (l # ls) results =
     (if length results \<ge> limit then results
      else if l = [] then query_loop lib f limit ls results
      else case sj_parse lib l of
        None \<Rightarrow> query_loop lib f limit ls results
      | Some e \<Rightarrow>
          if \<not> matches_filter f e then query_loop lib f limit ls results
          else query_loop lib f limit ls (results @ [e]))"

definition Query :: "store_json \<Rightarrow> bool \<Rightarrow> bool \<Rightarrow> visibilityQueryFilter \<Rightarrow> file_store \<Rightarrow> string + visibilityEvent list" where
  "Query lib cancelled readable f s =
     (if cancelled then Inl ''context canceled''
      else
        let limit = query_limit (qf_Limit f)
        in case dk_file (fs_disk s) of
             None \<Rightarrow> Inr []
           | Some content \<Rightarrow>
               if \<not> readable then Inl ''failed to read visibility store'' else
               (case readTailLines content (int limit * 8) of
                  Inl err \<Rightarrow> Inl err
                | Inr ls \<Rightarrow> Inr (query_loop lib f limit (rev ls) [])))"

definition ListDevices :: "bool \<Rightarrow> visibilityDeviceFilter \<Rightarrow> file_store \<Rightarrow> string + visibilityDeviceRecord list" where
  "ListDevices cancelled f s =
     (if cancelled then Inl ''context canceled''
      else Inr (take (query_limit (df_Limit f))
        (sort_devices (filter (\<lambda>r. \<not> (df_TenantID f \<noteq> [] \<and> dr_TenantID r \<noteq> df_TenantID f))
           (map_values (fs_devices s))))))"

definition Close_file :: "bool \<Rightarrow> bool \<Rightarrow> file_store \<Rightarrow> string option \<times> file_store" where
  "Close_file sync_ok close_ok s =
     (if fs_handle s = FNil then (None, s)
      else if fs_handle s = FClosed \<or> \<not> sync_ok then (Some ''sync'', s)
      else (if close_ok then None else Some ''close'', s\<lparr>fs_handle := FNil\<rparr>))"

section \<open>The database store\<close>

record event_row =
  er_event_id :: string
  er_device_id :: string
  er_agent_id :: string
  er_tenant_id :: string
  er_event_type :: string
  er_received_at_ms :: int
  er_timestamp_ms :: int
  er_envelope_json :: string

text \<open>A row of the device table has the counts of the event types as a JSON text.\<close>

record device_row =
  dv_agent_id :: string
  dv_source :: string
  dv_tenant_id :: string
  dv_sensor_version :: string
  dv_first_seen_ms :: int
  dv_last_seen_ms :: int
  dv_last_event_type :: string
  dv_last_sequence :: int
  dv_event_count :: int
  dv_event_type_counts_json :: string

record database =
  db_events :: "event_row list"
  db_devices :: "(string, device_row) gomap"

record sqlite_store =
  sq_db :: database
  sq_retention :: duration

record sql_json = store_json +
  sj_counts :: "(string, int) gomap \<Rightarrow> string option"
  sj_parse_counts :: "string \<Rightarrow> (string, int) gomap option"

text \<open>
  What the database engine and the clock answer during one batch; the insertions are numbered by the
  position of the event in the batch.
\<close>

record sql_io =
  qi_begin :: bool
  qi_prepare :: bool
  qi_insert :: "nat \<Rightarrow> bool"
  qi_device :: "nat \<Rightarrow> bool"
  qi_commit :: bool
  qi_prune :: bool
  qi_nowMS :: int
  qi_now :: time

definition mergeDeviceTypeCounts :: "(string, int) gomap \<Rightarrow> (string, int) gomap \<Rightarrow> (string, int) gomap" where
  "mergeDeviceTypeCounts dst src =
     fold (\<lambda>(k, v) m. map_set k ((case map_get m k of None \<Rightarrow> 0 | Some n \<Rightarrow> n) + v) m) src dst"

definition deviceTypeCountsJSON :: "sql_json \<Rightarrow> (string, int) gomap \<Rightarrow> string" where
  "deviceTypeCountsJSON lib counts =
     (if counts = [] then ''{}''
      else case sj_counts lib counts of None \<Rightarrow> ''{}'' | Some raw \<Rightarrow> raw)"

definition parseDeviceTypeCountsJSON :: "sql_json \<Rightarrow> string \<Rightarrow> (string, int) gomap" where
  "parseDeviceTypeCountsJSON lib raw0 =
     (let raw = trim_space raw0
      in if raw = [] then []
         else case sj_parse_counts lib raw of None \<Rightarrow> [] | Some m \<Rightarrow> m)"

definition deviceRecordFromEvent :: "visibilityEvent \<Rightarrow> visibilityDeviceRecord" where
  "deviceRecordFromEvent e =
     \<lparr>dr_DeviceID = ve_DeviceID e, dr_AgentID = ve_AgentID e, dr_Source = ve_Source e,
      dr_TenantID = ve_TenantID e, dr_SensorVersion = ve_SensorVersion e,
      dr_FirstSeenMS = event_seenMS e, dr_LastSeenMS = event_seenMS e,
      dr_LastEventType = ve_EventType e, dr_LastSequence = ve_Sequence e, dr_EventCount = 1,
      dr_EventTypeCount = (if ve_EventType e \<noteq> [] then [(ve_EventType e, 1)] else [])\<rparr>"

definition insert_device_row :: "sql_json \<Rightarrow> visibilityDeviceRecord \<Rightarrow> device_row" where
  "insert_device_row lib r =
     \<lparr>dv_agent_id = dr_AgentID r, dv_source = dr_Source r, dv_tenant_id = dr_TenantID r,
      dv_sensor_version = dr_SensorVersion r, dv_first_seen_ms = dr_FirstSeenMS r,
      dv_last_seen_ms = dr_LastSeenMS r, dv_last_event_type = dr_LastEventType r,
      dv_last_sequence = dr_LastSequence r, dv_event_count = dr_EventCount r,
      dv_event_type_counts_json = deviceTypeCountsJSON lib (dr_EventTypeCount r)\<rparr>"

definition update_device_row :: "sql_json \<Rightarrow> visibilityDeviceRecord \<Rightarrow> device_row \<Rightarrow> device_row" where
  "update_device_row lib r d =
     (let counts = mergeDeviceTypeCounts (parseDeviceTypeCountsJSON lib (dv_event_type_counts_json d))
                     (dr_EventTypeCount r);
          d1 = (if dr_FirstSeenMS r > 0 \<and> (dv_first_seen_ms d = 0 \<or> dr_FirstSeenMS r < dv_first_seen_ms d)
                then d\<lparr>dv_first_seen_ms := dr_FirstSeenMS r\<rparr> else d);
          d2 = (if dr_LastSeenMS r \<ge> dv_last_seen_ms d
                then d1\<lparr>dv_last_seen_ms := dr_LastSeenMS r, dv_last_event_type := dr_LastEventType r,
                        dv_last_sequence := dr_LastSequence r, dv_agent_id := dr_AgentID r,
                        dv_source := dr_Source r, dv_tenant_id := dr_TenantID r,
                        dv_sensor_version := dr_SensorVersion r\<rparr>
                else d1)
      in d2\<lparr>dv_event_count := dv_event_count d2 + dr_EventCount r,
            dv_event_type_counts_json := deviceTypeCountsJSON lib counts\<rparr>)"

definition upsertDeviceTx :: "sql_json \<Rightarrow> visibilityDeviceRecord \<Rightarrow> database \<Rightarrow> database" where
  "upsertDeviceTx lib incoming db =
     (if dr_DeviceID incoming = [] then db
      else db\<lparr>db_devices := map_set (dr_DeviceID incoming)
               (case map_get (db_devices db) (dr_DeviceID incoming) of
                  None \<Rightarrow> insert_device_row lib incoming
                | Some d \<Rightarrow> update_device_row lib incoming d) (db_devices db)\<rparr>)"

definition row_of :: "visibilityEvent \<Rightarrow> string \<Rightarrow> event_row" where
  "row_of e raw =
     \<lparr>er_event_id = ve_EventID e, er_device_id = ve_DeviceID e, er_agent_id = ve_AgentID e,
      er_tenant_id = ve_TenantID e, er_event_type = ve_EventType e,
      er_received_at_ms = ve_ReceivedAtMS e, er_timestamp_ms = ve_TimestampMS e,
      er_envelope_json = raw\<rparr>"

text \<open>
  \<open>INSERT OR IGNORE\<close> into a table whose event identifiers are unique. The loop over the batch gives the database
  to commit, or an error after which the transaction is rolled back.
\<close>

fun insert_loop :: "sql_json \<Rightarrow> sql_io \<Rightarrow> nat \<Rightarrow> visibilityEvent list \<Rightarrow> database \<Rightarrow> string + database" where
  "insert_loop lib io i [] db = Inr db"
| "insert_loop lib io i (e0 # es) db =
     (let e = stamp (qi_nowMS io) e0
      in case sj_event lib e of
           None \<Rightarrow> Inl ''sqlite marshal event''
         | Some raw \<Rightarrow>
             if \<not> qi_insert io i then Inl ''sqlite insert''
             else if ve_EventID e \<in> er_event_id ` set (db_events db) then insert_loop lib io (Suc i) es db
             else if ve_DeviceID e \<noteq> [] \<and> \<not> qi_device io i then Inl ''sqlite device''
             else insert_loop lib io (Suc i) es
                    (upsertDeviceTx lib (deviceRecordFromEvent e)
                      (db\<lparr>db_events := db_events db @ [row_of e raw]\<rparr>)))"

definition cutoff_milli :: "time \<Rightarrow> int" where
  "cutoff_milli t = t div 1000000"

definition maybePrune :: "sql_io \<Rightarrow> sqlite_store \<Rightarrow> string option \<times> sqlite_store" where
  "maybePrune io s =
     (if sq_retention s \<le> 0 then (None, s)
      else
        let cutoff = cutoff_milli (time_add (qi_now io) (- sq_retention s))
        in if \<not> qi_prune io then (Some ''sqlite prune'', s)
           else (None, s\<lparr>sq_db := (sq_db s)\<lparr>db_events :=
                   filter (\<lambda>r. \<not> (er_received_at_ms r > 0 \<and> er_received_at_ms r < cutoff))
                     (db_events (sq_db s))\<rparr>\<rparr>))"

definition sqlite_AppendBatch :: "sql_json \<Rightarrow> sql_io \<Rightarrow> visibilityEvent list \<Rightarrow> sqlite_store \<Rightarrow> string option \<times> sqlite_store" where
  "sqlite_AppendBatch lib io events s =
     (if events = [] then (None, s)
      else if \<not> qi_begin io then (Some ''sqlite begin'', s)
      else if \<not> qi_prepare io then (Some ''sqlite prepare insert'', s)
      else case insert_loop lib io 0 events (sq_db s) of
        Inl err \<Rightarrow> (Some err, s)
      | Inr db \<Rightarrow>
          if \<not> qi_commit io then (Some ''sqlite commit'', s)
          else maybePrune io (s\<lparr>sq_db := db\<rparr>))"

definition sqlite_Append :: "sql_json \<Rightarrow> sql_io \<Rightarrow> visibilityEvent \<Rightarrow> sqlite_store \<Rightarrow> string option \<times> sqlite_store" where
  "sqlite_Append lib io e s = sqlite_AppendBatch lib io [e] s"

text \<open>The answer of \<open>HasMany\<close>, a map from identifiers to true, is the list of its keys.\<close>

definition sqlite_HasMany :: "bool \<Rightarrow> string list \<Rightarrow> sqlite_store \<Rightarrow> string + string list" where
  "sqlite_HasMany query_ok eventIDs s =
     (let ids = filter (\<lambda>i. i \<noteq> []) eventIDs
      in if ids = [] then Inr []
         else if \<not> query_ok then Inl ''sqlite query''
         else Inr (filter (\<lambda>i. i \<in> set ids) (map er_event_id (db_events (sq_db s)))))"

definition sqlite_Has :: "bool \<Rightarrow> sqlite_store \<Rightarrow> string \<Rightarrow> string + bool" where
  "sqlite_Has query_ok s eventID =
     (if eventID = [] then Inr False
      else case sqlite_HasMany query_ok [eventID] s of
        Inl err \<Rightarrow> Inl err
      | Inr seen \<Rightarrow> Inr (eventID \<in> set seen))"

definition row_matches :: "visibilityQueryFilter \<Rightarrow> event_row \<Rightarrow> bool" where
  "row_matches f r \<longleftrightarrow>
     (qf_EventID f \<noteq> [] \<longrightarrow> er_event_id r = qf_EventID f) \<and>
     (qf_TenantID f \<noteq> [] \<longrightarrow> er_tenant_id r = qf_TenantID f) \<and>
     (qf_DeviceID f \<noteq> [] \<longrightarrow> er_device_id r = qf_DeviceID f) \<and>
     (qf_AgentID f \<noteq> [] \<longrightarrow> er_agent_id r = qf_AgentID f) \<and>
     (qf_EventType f \<noteq> [] \<longrightarrow> er_event_type r = qf_EventType f)"

fun parse_rows :: "sql_json \<Rightarrow> event_row list \<Rightarrow> string + visibilityEvent list" where
  "parse_rows lib [] = Inr []"
| "parse_rows lib (r # rs) =
     (case sj_parse lib (er_envelope_json r) of
        None \<Rightarrow> Inl ''sqlite unmarshal''
      | Some e \<Rightarrow>
          (case parse_rows lib rs of
             Inl err \<Rightarrow> Inl err
           | Inr es \<Rightarrow> Inr (e # es)))"

definition sqlite_Query :: "sql_json \<Rightarrow> bool \<Rightarrow> bool \<Rightarrow> visibilityQueryFilter \<Rightarrow> sqlite_store \<Rightarrow> string + visibilityEvent list" where
  "sqlite_Query lib cancelled query_ok f s =
     (if cancelled then Inl ''context canceled''
      else if \<not> query_ok then Inl ''sqlite query''
      else parse_rows lib
        (take (query_limit (qf_Limit f)) (filter (row_matches f) (rev (db_events (sq_db s))))))"

definition device_of_row :: "sql_json \<Rightarrow> string \<times> device_row \<Rightarrow> visibilityDeviceRecord" where
  "device_of_row lib = (\<lambda>(i, d).
     \<lparr>dr_DeviceID = i, dr_AgentID = dv_agent_id d, dr_Source = dv_source d,
      dr_TenantID = dv_tenant_id d, dr_SensorVersion = dv_sensor_version d,
      dr_FirstSeenMS = dv_first_seen_ms d, dr_LastSeenMS = dv_last_seen_ms d,
      dr_LastEventType = dv_last_event_type d, dr_LastSequence = dv_last_sequence d,
      dr_EventCount = dv_event_count d,
      dr_EventTypeCount = parseDeviceTypeCountsJSON lib (dv_event_type_counts_json d)\<rparr>)"

definition sqlite_ListDevices :: "sql_json \<Rightarrow> bool \<Rightarrow> bool \<Rightarrow> visibilityDeviceFilter \<Rightarrow> sqlite_store \<Rightarrow> string + visibilityDeviceRecord list" where
  "sqlite_ListDevices lib cancelled query_ok f s =
     (if cancelled then Inl ''context canceled''
      else if \<not> query_ok then Inl ''sqlite list devices''
      else Inr (sort_devices (map (device_of_row lib)
        (take (query_limit (df_Limit f))
          (sort_key (\<lambda>(i, d). (- dv_last_seen_ms d, i))
            (filter (\<lambda>(i, d). df_TenantID f \<noteq> [] \<longrightarrow> dv_tenant_id d = df_TenantID f)
              (db_devices (sq_db s))))))))"

text \<open>
  The rebuild of the device table from the rows of the events. The source, the sensor version and the
  sequence of a row are in its envelope; \<open>json_extract\<close> fails on an envelope that is not JSON.
\<close>

definition event_of_row :: "sql_json \<Rightarrow> event_row \<Rightarrow> visibilityEvent option" where
  "event_of_row lib r =
     (case sj_parse lib (er_envelope_json r) of
        None \<Rightarrow> None
      | Some v \<Rightarrow>
          Some \<lparr>ve_SchemaVersion = [], ve_EventID = [], ve_EventType = er_event_type r,
                ve_TimestampMS = er_timestamp_ms r, ve_Source = ve_Source v,
                ve_TenantID = er_tenant_id r, ve_DeviceID = er_device_id r,
                ve_AgentID = er_agent_id r, ve_SensorVersion = ve_SensorVersion v,
                ve_Sequence = ve_Sequence v, ve_Payload = [],
                ve_ReceivedAtMS = (if er_received_at_ms r = 0 then er_timestamp_ms r
                                   else er_received_at_ms r)\<rparr>)"

fun rebuild_scan :: "sql_json \<Rightarrow> event_row list \<Rightarrow> devices \<Rightarrow> string + devices" where
  "rebuild_scan lib [] byDevice = Inr byDevice"
| "rebuild_scan lib (r # rs) byDevice =
     (if er_device_id r = [] then rebuild_scan lib rs byDevice
      else case event_of_row lib r of
        None \<Rightarrow> Inl ''sqlite rebuild devices scan''
      | Some e \<Rightarrow> rebuild_scan lib rs (upsertDeviceRecord e byDevice))"

text \<open>
  The old index is deleted before the rows are read, outside of the transaction that writes the new
  one.
\<close>

definition rebuildDeviceIndex :: "sql_json \<Rightarrow> bool \<Rightarrow> database \<Rightarrow> string option \<times> database" where
  "rebuildDeviceIndex lib write_ok db =
     (let db1 = db\<lparr>db_devices := []\<rparr>
      in case rebuild_scan lib (db_events db1) [] of
           Inl err \<Rightarrow> (Some err, db1)
         | Inr byDevice \<Rightarrow>
             if \<not> write_ok then (Some ''sqlite upsert'', db1)
             else (None, fold (upsertDeviceTx lib) (map_values byDevice) db1))"

end
