(* ===== verification/Ing_Server.thy ===== *)
theory Ing_Server
  imports Ing_Store
begin

text \<open>
  The ingest service between its HTTP and gRPC entry points, the stream of events on NATS and the
  visibility store: \<open>dedupe.go\<close>, \<open>http.go\<close>, \<open>grpc.go\<close> and \<open>device_query.go\<close> under \<open>src/backend/ingest/internal/server\<close>,
  \<open>validate/schema.go\<close> and \<open>nats/publish.go\<close>. The store is the record \<open>store_ops\<close> of the operations that the Go
  interface \<open>visibilityStore\<close> has. The JSON schema library and the NATS client are parameters.
\<close>

section \<open>The tracker of duplicates\<close>

record duplicateTracker =
  dt_limit :: int
  dt_seen :: "string list"
  dt_order :: "string list"

definition newDuplicateTracker :: "int \<Rightarrow> duplicateTracker" where
  "newDuplicateTracker limit =
     \<lparr>dt_limit = (if limit \<le> 0 then 10000 else limit), dt_seen = [], dt_order = []\<rparr>"

definition dt_has :: "string \<Rightarrow> duplicateTracker \<Rightarrow> bool" where
  "dt_has eventID d \<longleftrightarrow> eventID \<noteq> [] \<and> eventID \<in> set (dt_seen d)"

definition dt_add :: "string \<Rightarrow> duplicateTracker \<Rightarrow> duplicateTracker" where
  "dt_add eventID d =
     (if eventID = [] \<or> eventID \<in> set (dt_seen d) then d
      else
        let d1 = d\<lparr>dt_seen := List.insert eventID (dt_seen d), dt_order := dt_order d @ [eventID]\<rparr>
        in if int (length (dt_order d1)) > dt_limit d1
           then d1\<lparr>dt_seen := removeAll (hd (dt_order d1)) (dt_seen d1), dt_order := tl (dt_order d1)\<rparr>
           else d1)"

section \<open>Events on the stream\<close>

record proto_event =
  pe_Id :: string
  pe_Type :: string
  pe_Source :: string
  pe_Timestamp :: int
  pe_Metadata :: "(string, string) gomap"
  pe_Payload :: string

definition toProtoEvent :: "visibilityEvent \<Rightarrow> string + proto_event" where
  "toProtoEvent e =
     (if ve_EventID e = [] then Inl ''visibility event missing event_id''
      else if ve_EventType e = [] then Inl ''visibility event missing event_type''
      else if ve_Source e = [] then Inl ''visibility event missing source''
      else if ve_TimestampMS e \<le> 0 then Inl ''visibility event timestamp_ms must be positive''
      else
        let payload = (if ve_Payload e = [] then ''{}'' else ve_Payload e);
            metadata = [(''schema_version'', ve_SchemaVersion e), (''tenant_id'', ve_TenantID e),
                        (''device_id'', ve_DeviceID e), (''agent_id'', ve_AgentID e),
                        (''sensor_version'', ve_SensorVersion e),
                        (''sequence'', itoa (ve_Sequence e))];
            metadata1 = (if ve_DeviceID e \<noteq> [] then map_set ''host_id'' (ve_DeviceID e) metadata
                         else metadata)
        in Inr \<lparr>pe_Id = ve_EventID e, pe_Type = ve_EventType e, pe_Source = ve_Source e,
                pe_Timestamp = ve_TimestampMS e, pe_Metadata = metadata1, pe_Payload = payload\<rparr>)"

text \<open>The value that is checked against the schema.\<close>

record event_map =
  em_id :: string
  em_type :: string
  em_source :: string
  em_timestamp :: int
  em_metadata :: "(string, string) gomap option"
  em_payload :: "string option"

definition eventToMap :: "proto_event \<Rightarrow> event_map" where
  "eventToMap e =
     \<lparr>em_id = pe_Id e, em_type = pe_Type e, em_source = pe_Source e, em_timestamp = pe_Timestamp e,
      em_metadata = (if pe_Metadata e \<noteq> [] then Some (pe_Metadata e) else None),
      em_payload = (if pe_Payload e \<noteq> [] then Some (pe_Payload e) else None)\<rparr>"

definition ValidateEvent :: "(event_map \<Rightarrow> bool) \<Rightarrow> proto_event \<Rightarrow> string option" where
  "ValidateEvent schema e = (if schema (eventToMap e) then None else Some ''validation failed'')"

section \<open>The publisher\<close>

record publisher =
  pb_connected :: bool
  pb_subject :: string
  pb_ready :: bool

record nats_msg =
  nm_subject :: string
  nm_data :: string
  nm_header :: "(string, string) gomap"

definition NewPublisher :: "bool \<Rightarrow> string \<Rightarrow> publisher option" where
  "NewPublisher connect_ok subject =
     (if \<not> connect_ok then None
      else Some \<lparr>pb_connected = True, pb_subject = (if subject = [] then ''events.raw'' else subject),
                 pb_ready = True\<rparr>)"

definition event_header :: "proto_event \<Rightarrow> (string, string) gomap" where
  "event_header e =
     (case map_get (pe_Metadata e) ''host_id'' of None \<Rightarrow> [] | Some h \<Rightarrow> [(''x-host-id'', h)]) @
     [(''x-event-id'', pe_Id e), (''x-event-type'', pe_Type e), (''x-event-source'', pe_Source e),
      (''x-timestamp'', itoa (pe_Timestamp e))]"

text \<open>
  The message that \<open>PublishEvent\<close> hands to the client, if it gets there; the client accepts it or answers an
  error.
\<close>

definition PublishEvent :: "(proto_event \<Rightarrow> string option) \<Rightarrow> bool \<Rightarrow> bool \<Rightarrow> publisher \<Rightarrow> proto_event \<Rightarrow> string + nats_msg" where
  "PublishEvent marshal timed_out accepted p e =
     (if \<not> pb_ready p \<or> \<not> pb_connected p then Inl ''NATS publisher not ready''
      else case marshal e of
        None \<Rightarrow> Inl ''failed to marshal event to JSON''
      | Some dat \<Rightarrow>
          if timed_out then Inl ''publish timeout''
          else if \<not> accepted then Inl ''failed to publish event''
          else Inr \<lparr>nm_subject = pb_subject p, nm_data = dat, nm_header = event_header e\<rparr>)"

definition Close_publisher :: "publisher \<Rightarrow> publisher" where
  "Close_publisher p = p\<lparr>pb_connected := False, pb_ready := False\<rparr>"

section \<open>The server\<close>

text \<open>
  The operations of the interface \<open>visibilityStore\<close> that the server calls, with whatever the store asks of
  its surroundings already given.
\<close>

record 's store_ops =
  so_HasMany :: "string list \<Rightarrow> 's \<Rightarrow> string + string list"
  so_AppendBatch :: "visibilityEvent list \<Rightarrow> 's \<Rightarrow> string option \<times> 's"
  so_Query :: "visibilityQueryFilter \<Rightarrow> 's \<Rightarrow> string + visibilityEvent list"
  so_ListDevices :: "visibilityDeviceFilter \<Rightarrow> 's \<Rightarrow> string + visibilityDeviceRecord list"

text \<open>\<open>HasMany\<close> for a store that has only \<open>Has\<close>: the loop, which stops at the first error.\<close>

fun has_loop :: "('s \<Rightarrow> string \<Rightarrow> string + bool) \<Rightarrow> 's \<Rightarrow> string list \<Rightarrow> string list \<Rightarrow> string + string list" where
  "has_loop has s [] seen = Inr seen"
| "has_loop has s (i # ids) seen =
     (if i = [] then has_loop has s ids seen
      else case has s i of
        Inl err \<Rightarrow> Inl err
      | Inr present \<Rightarrow> has_loop has s ids (if present then List.insert i seen else seen))"

definition file_ops :: "store_json \<Rightarrow> bool \<Rightarrow> bool \<Rightarrow> (nat \<Rightarrow> file_io) \<Rightarrow> file_store store_ops" where
  "file_ops lib cancelled readable io =
     \<lparr>so_HasMany = (\<lambda>ids s. has_loop (Has cancelled) s ids []),
      so_AppendBatch = AppendBatch lib io,
      so_Query = Query lib cancelled readable,
      so_ListDevices = ListDevices cancelled\<rparr>"

definition sqlite_ops :: "sql_json \<Rightarrow> bool \<Rightarrow> bool \<Rightarrow> sql_io \<Rightarrow> sqlite_store store_ops" where
  "sqlite_ops lib cancelled query_ok io =
     \<lparr>so_HasMany = sqlite_HasMany query_ok,
      so_AppendBatch = sqlite_AppendBatch lib io,
      so_Query = sqlite_Query lib cancelled query_ok,
      so_ListDevices = sqlite_ListDevices lib cancelled query_ok\<rparr>"

text \<open>
  The state of the server. \<open>is_published\<close> are the messages that were handed to NATS, and \<open>is_attempts\<close> counts the calls of the
  publisher.
\<close>

record 's ingest_server =
  is_dedupe :: "duplicateTracker option"
  is_store :: "'s option"
  is_publisher :: publisher
  is_published :: "(proto_event \<times> nats_msg) list"
  is_attempts :: nat
  is_EventsTotal :: nat
  is_EventsInvalid :: nat
  is_NatsPublishErrors :: nat
  is_EventsDeduped :: nat

text \<open>
  The libraries and the surroundings: the schema, the encoding of an event, and for each call of the
  publisher whether its time ran out and whether the client accepted the message.
\<close>

record ingest_env =
  ie_schema :: "event_map \<Rightarrow> bool"
  ie_marshal :: "proto_event \<Rightarrow> string option"
  ie_timed_out :: "nat \<Rightarrow> bool"
  ie_accepted :: "nat \<Rightarrow> bool"

datatype ingest_error = ErrEventValidation string | ErrEventPublish string | ErrOther string

definition publish :: "ingest_env \<Rightarrow> proto_event \<Rightarrow> 's ingest_server \<Rightarrow> string option \<times> 's ingest_server" where
  "publish env e s =
     (let n = is_attempts s; s1 = s\<lparr>is_attempts := Suc n\<rparr>
      in case PublishEvent (ie_marshal env) (ie_timed_out env n) (ie_accepted env n) (is_publisher s) e of
           Inl err \<Rightarrow> (Some err, s1)
         | Inr m \<Rightarrow> (None, s1\<lparr>is_published := is_published s1 @ [(e, m)]\<rparr>))"

text \<open>
  \<open>processEvent\<close> looks the identifier up and adds it after the publication, under two separate locks: its two
  halves are two definitions, so that the halves of concurrent calls can be put in any order.
\<close>

definition event_check :: "ingest_env \<Rightarrow> proto_event \<Rightarrow> 's ingest_server \<Rightarrow> ingest_error option \<times> bool" where
  "event_check env e s =
     (case ValidateEvent (ie_schema env) e of
        Some err \<Rightarrow> (Some (ErrEventValidation err), False)
      | None \<Rightarrow> (None, case is_dedupe s of None \<Rightarrow> False | Some d \<Rightarrow> dt_has (pe_Id e) d))"

definition event_publish :: "ingest_env \<Rightarrow> proto_event \<Rightarrow> 's ingest_server \<Rightarrow> ingest_error option \<times> 's ingest_server" where
  "event_publish env e s =
     (case publish env e s of
        (Some err, s1) \<Rightarrow>
          (Some (ErrEventPublish err), s1\<lparr>is_NatsPublishErrors := is_NatsPublishErrors s1 + 1\<rparr>)
      | (None, s1) \<Rightarrow>
          let s2 = (case is_dedupe s1 of
                      None \<Rightarrow> s1
                    | Some d \<Rightarrow> s1\<lparr>is_dedupe := Some (dt_add (pe_Id e) d)\<rparr>)
          in (None, s2\<lparr>is_EventsTotal := is_EventsTotal s2 + 1\<rparr>))"

definition processEvent :: "ingest_env \<Rightarrow> proto_event \<Rightarrow> 's ingest_server \<Rightarrow> ingest_error option \<times> 's ingest_server" where
  "processEvent env e s =
     (case event_check env e s of
        (Some err, _) \<Rightarrow> (Some err, s\<lparr>is_EventsInvalid := is_EventsInvalid s + 1\<rparr>)
      | (None, True) \<Rightarrow> (None, s)
      | (None, False) \<Rightarrow> event_publish env e s)"

definition HasMany :: "'s store_ops \<Rightarrow> 's option \<Rightarrow> string list \<Rightarrow> string + string list" where
  "HasMany ops store eventIDs =
     (case store of
        None \<Rightarrow> Inr []
      | Some st \<Rightarrow> if eventIDs = [] then Inr [] else so_HasMany ops eventIDs st)"

text \<open>
  The loop over the events of a request: how many were accepted, the events that are to be stored, and
  the error that ended the loop.
\<close>

fun accept_loop :: "ingest_env \<Rightarrow> string list \<Rightarrow> visibilityEvent list \<Rightarrow> visibilityEvent list \<Rightarrow> 's ingest_server \<Rightarrow> visibilityEvent list \<times> ingest_error option \<times> 's ingest_server" where
  "accept_loop env existing [] pending s = (pending, None, s)"
| "accept_loop env existing (e # es) pending s =
     (if ve_EventID e \<noteq> [] \<and> ve_EventID e \<in> set existing
      then accept_loop env existing es pending (s\<lparr>is_EventsDeduped := is_EventsDeduped s + 1\<rparr>)
      else case toProtoEvent e of
        Inl err \<Rightarrow> (pending, Some (ErrOther err), s\<lparr>is_EventsInvalid := is_EventsInvalid s + 1\<rparr>)
      | Inr p \<Rightarrow>
          (case processEvent env p s of
             (Some err, s1) \<Rightarrow> (pending, Some err, s1)
           | (None, s1) \<Rightarrow> accept_loop env existing es (pending @ [e]) s1))"

definition ingestVisibilityEvents :: "'s store_ops \<Rightarrow> ingest_env \<Rightarrow> visibilityEvent list \<Rightarrow> 's ingest_server \<Rightarrow> nat \<times> ingest_error option \<times> 's ingest_server" where
  "ingestVisibilityEvents ops env events s =
     (if events = [] then (0, None, s)
      else
        let eventIDs = filter (\<lambda>i. i \<noteq> []) (map ve_EventID events)
        in case HasMany ops (is_store s) eventIDs of
             Inl err \<Rightarrow> (0, Some (ErrOther err), s)
           | Inr existing \<Rightarrow>
               (case accept_loop env existing events [] s of
                  (pending, Some err, s1) \<Rightarrow> (length pending, Some err, s1)
                | (pending, None, s1) \<Rightarrow>
                    (case is_store s1 of
                       None \<Rightarrow> (length pending, None, s1)
                     | Some st \<Rightarrow>
                         if pending = [] then (length pending, None, s1)
                         else case so_AppendBatch ops pending st of
                           (Some err, st1) \<Rightarrow>
                             (length pending, Some (ErrOther err), s1\<lparr>is_store := Some st1\<rparr>)
                         | (None, st1) \<Rightarrow> (length pending, None, s1\<lparr>is_store := Some st1\<rparr>))))"

definition processVisibilityEvent :: "'s store_ops \<Rightarrow> ingest_env \<Rightarrow> visibilityEvent \<Rightarrow> 's ingest_server \<Rightarrow> ingest_error option \<times> 's ingest_server" where
  "processVisibilityEvent ops env event s =
     (case ingestVisibilityEvents ops env [event] s of
        (accepted, Some err, s1) \<Rightarrow> (Some err, s1)
      | (accepted, None, s1) \<Rightarrow>
          (None, if accepted = 0 then s1\<lparr>is_EventsDeduped := is_EventsDeduped s1 + 1\<rparr> else s1))"

definition NewIngestServer :: "bool \<Rightarrow> bool \<Rightarrow> string + 's \<Rightarrow> string \<Rightarrow> string + 's ingest_server" where
  "NewIngestServer schema_ok connect_ok store dedupeEnv =
     (if \<not> schema_ok then Inl ''schema''
      else case NewPublisher connect_ok ''events.raw'' of
        None \<Rightarrow> Inl ''failed to connect to NATS''
      | Some p \<Rightarrow>
          (case store of
             Inl err \<Rightarrow> Inl err
           | Inr st \<Rightarrow>
               Inr \<lparr>is_dedupe = Some (newDuplicateTracker (ingestDedupeLimitFromEnv dedupeEnv)),
                    is_store = Some st, is_publisher = p, is_published = [], is_attempts = 0,
                    is_EventsTotal = 0, is_EventsInvalid = 0, is_NatsPublishErrors = 0,
                    is_EventsDeduped = 0\<rparr>))"

definition Close_server :: "('s \<Rightarrow> string option \<times> 's) \<Rightarrow> 's ingest_server \<Rightarrow> string option \<times> 's ingest_server" where
  "Close_server close_store s =
     (let s1 = s\<lparr>is_publisher := Close_publisher (is_publisher s)\<rparr>
      in case is_store s1 of
           None \<Rightarrow> (None, s1)
         | Some st \<Rightarrow> (case close_store st of (err, st1) \<Rightarrow> (err, s1\<lparr>is_store := Some st1\<rparr>)))"

section \<open>HTTP\<close>

definition maxVisibilityRequestBytes :: nat where
  "maxVisibilityRequestBytes = 10485760"

record ingest_json =
  ij_events :: "string \<Rightarrow> visibilityEvent list option"
  ij_event :: "string \<Rightarrow> visibilityEvent option"

fun parse_lines :: "ingest_json \<Rightarrow> string list \<Rightarrow> string + visibilityEvent list" where
  "parse_lines lib [] = Inr []"
| "parse_lines lib (l0 # ls) =
     (let l = trim_space l0
      in if l = [] then parse_lines lib ls
         else case ij_event lib l of
           None \<Rightarrow> Inl ''invalid visibility event JSONL record''
         | Some e \<Rightarrow>
             (case parse_lines lib ls of Inl err \<Rightarrow> Inl err | Inr es \<Rightarrow> Inr (e # es)))"

definition readVisibilityEvents :: "ingest_json \<Rightarrow> string \<Rightarrow> string + visibilityEvent list" where
  "readVisibilityEvents lib body =
     (if length body > maxVisibilityRequestBytes then Inl ''failed to read request body''
      else
        let trimmed = trim_space body
        in if trimmed = [] then Inr []
           else if hd trimmed = CHR ''['' then
             (case ij_events lib trimmed of
                None \<Rightarrow> Inl ''invalid visibility event array''
              | Some es \<Rightarrow> Inr es)
           else
             (let (ls, ok) = scanner_lines maxVisibilityLineBytes trimmed
              in case parse_lines lib ls of
                   Inl err \<Rightarrow> Inl err
                 | Inr es \<Rightarrow> if ok then Inr es else Inl ''failed to scan visibility event JSONL''))"

datatype http_method = GET | POST | OTHER

datatype ingest_response =
    RError nat string
  | RAccepted nat
  | REvents "visibilityEvent list"
  | RDevices "visibilityDeviceRecord list"

record event_query =
  eq_limit :: string
  eq_event_id :: string
  eq_tenant_id :: string
  eq_device_id :: string
  eq_agent_id :: string
  eq_event_type :: string

definition parseQueryLimit :: "string \<Rightarrow> string + int" where
  "parseQueryLimit raw =
     (if raw = [] then Inr defaultVisibilityQueryLimit
      else case atoi raw of
        None \<Rightarrow> Inl ''limit must be an integer''
      | Some limit \<Rightarrow>
          if limit \<le> 0 then Inl ''limit must be positive''
          else if limit > maxVisibilityQueryLimit then Inr maxVisibilityQueryLimit
          else Inr limit)"

definition handleVisibilityEventQuery :: "'s store_ops \<Rightarrow> event_query \<Rightarrow> 's ingest_server \<Rightarrow> ingest_response" where
  "handleVisibilityEventQuery ops q s =
     (case is_store s of
        None \<Rightarrow> RError 503 ''visibility store is not configured''
      | Some st \<Rightarrow>
          (case parseQueryLimit (eq_limit q) of
             Inl err \<Rightarrow> RError 400 err
           | Inr limit \<Rightarrow>
               (case so_Query ops \<lparr>qf_EventID = eq_event_id q, qf_TenantID = eq_tenant_id q,
                       qf_DeviceID = eq_device_id q, qf_AgentID = eq_agent_id q,
                       qf_EventType = eq_event_type q, qf_Limit = limit\<rparr> st of
                  Inl err \<Rightarrow> RError 503 err
                | Inr events \<Rightarrow> REvents events)))"

definition handleVisibilityEvents :: "'s store_ops \<Rightarrow> ingest_env \<Rightarrow> ingest_json \<Rightarrow> http_method \<Rightarrow> event_query \<Rightarrow> string \<Rightarrow> 's ingest_server \<Rightarrow> ingest_response \<times> 's ingest_server" where
  "handleVisibilityEvents ops env lib m q body s =
     (case m of
        OTHER \<Rightarrow> (RError 405 ''method not allowed'', s)
      | GET \<Rightarrow> (handleVisibilityEventQuery ops q s, s)
      | POST \<Rightarrow>
          (case readVisibilityEvents lib body of
             Inl err \<Rightarrow> (RError 400 err, s\<lparr>is_EventsInvalid := is_EventsInvalid s + 1\<rparr>)
           | Inr events \<Rightarrow>
               if events = [] then
                 (RError 400 ''request did not contain any visibility events'',
                  s\<lparr>is_EventsInvalid := is_EventsInvalid s + 1\<rparr>)
               else case ingestVisibilityEvents ops env events s of
                 (accepted, Some (ErrEventValidation err), s1) \<Rightarrow> (RError 400 err, s1)
               | (accepted, Some (ErrEventPublish err), s1) \<Rightarrow> (RError 503 err, s1)
               | (accepted, Some (ErrOther err), s1) \<Rightarrow> (RError 503 err, s1)
               | (accepted, None, s1) \<Rightarrow> (RAccepted accepted, s1)))"

definition handleVisibilityDevices :: "'s store_ops \<Rightarrow> http_method \<Rightarrow> string \<Rightarrow> string \<Rightarrow> 's ingest_server \<Rightarrow> ingest_response" where
  "handleVisibilityDevices ops m limit_q tenant_q s =
     (if m \<noteq> GET then RError 405 ''method not allowed''
      else case is_store s of
        None \<Rightarrow> RError 503 ''visibility store is not configured''
      | Some st \<Rightarrow>
          (case parseQueryLimit limit_q of
             Inl err \<Rightarrow> RError 400 err
           | Inr limit \<Rightarrow>
               (case so_ListDevices ops \<lparr>df_TenantID = tenant_q, df_Limit = limit\<rparr> st of
                  Inl err \<Rightarrow> RError 503 err
                | Inr devs \<Rightarrow> RDevices devs)))"

section \<open>gRPC\<close>

datatype recv = Received proto_event | EndOfStream | ReceiveError

datatype grpc_status = GAck | GReceiveError | GUnavailable string | GInvalidArgument string

fun PostEvents :: "ingest_env \<Rightarrow> recv list \<Rightarrow> 's ingest_server \<Rightarrow> grpc_status \<times> 's ingest_server" where
  "PostEvents env [] s = (GReceiveError, s)"
| "PostEvents env (r # rs) s =
     (case r of
        EndOfStream \<Rightarrow> (GAck, s)
      | ReceiveError \<Rightarrow> (GReceiveError, s)
      | Received e \<Rightarrow>
          (case processEvent env e s of
             (Some (ErrEventPublish err), s1) \<Rightarrow> (GUnavailable err, s1)
           | (Some (ErrEventValidation err), s1) \<Rightarrow> (GInvalidArgument err, s1)
           | (Some (ErrOther err), s1) \<Rightarrow> (GInvalidArgument err, s1)
           | (None, s1) \<Rightarrow> PostEvents env rs s1))"

end
