(* ===== verification/Ing_Log.thy ===== *)
theory Ing_Log
  imports Ing_Server
begin

text \<open>
  The contract of a visibility store and its two implementations. The abstract store is a log of events with
  distinct identifiers; an append adds the events whose identifier is new, and a query selects
  from the newest event on. The contract is the locale \<open>visibility_log\<close>, what the server needs of it is proved there, and it is
  interpreted by the file store and by the database store.
\<close>

section \<open>The abstract log\<close>

definition log_ids :: "visibilityEvent list \<Rightarrow> string set" where
  "log_ids L = ve_EventID ` set L"

fun log_append_all :: "(nat \<Rightarrow> int) \<Rightarrow> visibilityEvent list \<Rightarrow> visibilityEvent list \<Rightarrow> visibilityEvent list" where
  "log_append_all now [] L = L"
| "log_append_all now (e # es) L =
     log_append_all (\<lambda>n. now (Suc n)) es
       (if ve_EventID e \<in> log_ids L then L else L @ [stamp (now 0) e])"

definition log_query :: "visibilityQueryFilter \<Rightarrow> visibilityEvent list \<Rightarrow> visibilityEvent list" where
  "log_query f L = take (query_limit (qf_Limit f)) (filter (matches_filter f) (rev L))"

lemma stamp_id [simp]: "ve_EventID (stamp t e) = ve_EventID e"
  by (simp add: stamp_def)

lemma stamp_device [simp]: "ve_DeviceID (stamp t e) = ve_DeviceID e"
  by (simp add: stamp_def)

lemma log_ids_append: "log_ids (log_append_all now es L) = log_ids L \<union> ve_EventID ` set es"
proof (induction es arbitrary: now L)
  case (Cons e es)
  show ?case by (simp add: Cons.IH) (auto simp: log_ids_def)
qed simp

lemma log_append_distinct:
  "distinct (map ve_EventID L) \<Longrightarrow> distinct (map ve_EventID (log_append_all now es L))"
proof (induction es arbitrary: now L)
  case (Cons e es)
  then show ?case by (auto simp: log_ids_def)
qed simp

lemma log_append_prefix: "prefix L (log_append_all now es L)"
proof (induction es arbitrary: now L)
  case (Cons e es)
  then show ?case
    by (auto intro: prefix_order.trans [OF _ Cons.IH])
qed simp

lemma log_append_known: "ve_EventID ` set es \<subseteq> log_ids L \<Longrightarrow> log_append_all now es L = L"
  by (induction es arbitrary: now) (auto simp: log_ids_def)

lemma log_append_all_append:
  "log_append_all now (es @ fs) L =
     log_append_all (\<lambda>n. now (n + length es)) fs (log_append_all now es L)"
  by (induction es arbitrary: now L) simp_all

lemma log_query_sound:
  "e \<in> set (log_query f L) \<Longrightarrow> e \<in> set L \<and> matches_filter f e"
  by (auto simp: log_query_def dest: in_set_takeD)

lemma query_limit_bounds: "1 \<le> query_limit l \<and> query_limit l \<le> 1000"
  by (auto simp: query_limit_def defaultVisibilityQueryLimit_def maxVisibilityQueryLimit_def Let_def)

section \<open>The loop of a request\<close>

lemma processEvent_store: "processEvent env e s = (r, s') \<Longrightarrow> is_store s' = is_store s"
  by (auto simp: processEvent_def event_publish_def publish_def Let_def
      split: prod.splits option.splits bool.splits sum.splits)

lemma toProtoEvent_id: "toProtoEvent e = Inr p \<Longrightarrow> pe_Id p = ve_EventID e \<and> ve_EventID e \<noteq> []"
  by (auto simp: toProtoEvent_def Let_def split: if_splits)

lemma accept_loop_pending:
  "accept_loop env existing es pending s = (pending', None, s') \<Longrightarrow>
     is_store s' = is_store s \<and>
     pending' = pending @ filter (\<lambda>e. \<not> (ve_EventID e \<noteq> [] \<and> ve_EventID e \<in> set existing)) es \<and>
     (\<forall>e \<in> set es. ve_EventID e \<noteq> [])"
proof (induction es arbitrary: pending s)
  case (Cons e es)
  show ?case
  proof (cases "ve_EventID e \<noteq> [] \<and> ve_EventID e \<in> set existing")
    case True
    then show ?thesis using Cons.prems Cons.IH [of pending] by auto
  next
    case False
    with Cons.prems obtain p s1 where "toProtoEvent e = Inr p" "processEvent env p s = (None, s1)"
      "accept_loop env existing es (pending @ [e]) s1 = (pending', None, s')"
      by (auto split: sum.splits prod.splits option.splits)
    then show ?thesis
      using Cons.IH [of "pending @ [e]" s1] False by (auto dest!: processEvent_store toProtoEvent_id)
  qed
qed simp

section \<open>The contract\<close>

locale visibility_log =
  fixes ops :: "'s store_ops"
    and alog :: "'s \<Rightarrow> visibilityEvent list"
    and inv :: "'s \<Rightarrow> bool"
    and admits :: "'s \<Rightarrow> visibilityEvent list \<Rightarrow> bool"
    and now :: "nat \<Rightarrow> int"
  assumes has_many:
      "inv s \<Longrightarrow> so_HasMany ops ids s = Inr xs \<Longrightarrow> set xs = {i \<in> set ids. i \<noteq> [] \<and> i \<in> log_ids (alog s)}"
    and append_batch:
      "inv s \<Longrightarrow> admits s es \<Longrightarrow> so_AppendBatch ops es s = (None, s') \<Longrightarrow>
         inv s' \<and> alog s' = log_append_all now es (alog s)"
begin

text \<open>
  A request that the server answers without an error leaves every one of its events in the log, and the
  log differs from the old one by new events only.
\<close>

lemma accepted_stored:
  assumes "ingestVisibilityEvents ops env es s = (n, None, s')"
    and "is_store s = Some st" and "inv st"
    and "admits st (filter (\<lambda>e. ve_EventID e \<notin> log_ids (alog st)) es)"
  shows "\<exists>st'. is_store s' = Some st' \<and> inv st' \<and>
           alog st' = log_append_all now (filter (\<lambda>e. ve_EventID e \<notin> log_ids (alog st)) es) (alog st)"
proof (cases "es = []")
  case True
  then show ?thesis using assms by (simp add: ingestVisibilityEvents_def)
next
  case False
  let ?ids = "filter (\<lambda>i. i \<noteq> []) (map ve_EventID es)"
  let ?new = "filter (\<lambda>e. ve_EventID e \<notin> log_ids (alog st)) es"
  obtain existing pending s1 where ex: "HasMany ops (is_store s) ?ids = Inr existing"
    and loop: "accept_loop env existing es [] s = (pending, None, s1)"
    and rest: "(case is_store s1 of None \<Rightarrow> (length pending, None, s1)
       | Some st \<Rightarrow> if pending = [] then (length pending, None, s1)
           else case so_AppendBatch ops pending st of
             (Some err, st1) \<Rightarrow> (length pending, Some (ErrOther err), s1\<lparr>is_store := Some st1\<rparr>)
           | (None, st1) \<Rightarrow> (length pending, None, s1\<lparr>is_store := Some st1\<rparr>)) = (n, None, s')"
    using assms(1) False
    by (auto simp: ingestVisibilityEvents_def Let_def split: sum.splits prod.splits option.splits)
  have st1: "is_store s1 = Some st"
    and pend: "pending = filter (\<lambda>e. \<not> (ve_EventID e \<noteq> [] \<and> ve_EventID e \<in> set existing)) es"
    and ne: "\<And>e. e \<in> set es \<Longrightarrow> ve_EventID e \<noteq> []"
    using accept_loop_pending [OF loop] assms(2) by auto
  have "set existing = {i \<in> set ?ids. i \<noteq> [] \<and> i \<in> log_ids (alog st)}"
    using ex assms(2) False ne has_many [OF assms(3)]
    by (auto simp: HasMany_def split: if_splits)
  then have pn: "pending = ?new"
    unfolding pend using ne by (auto intro!: filter_cong)
  show ?thesis
  proof (cases "?new = []")
    case True
    then show ?thesis using rest st1 pn assms(3) by simp
  next
    case False
    then have "?new \<noteq> []" .
    with rest st1 pn obtain st' where ab: "so_AppendBatch ops ?new st = (None, st')"
      and s': "s' = s1\<lparr>is_store := Some st'\<rparr>"
      by (auto split: prod.splits option.splits)
    show ?thesis using append_batch [OF assms(3,4) ab] unfolding s' by simp
  qed
qed

lemma accepted_ids:
  assumes "ingestVisibilityEvents ops env es s = (n, None, s')"
    and "is_store s = Some st" and "inv st"
    and "admits st (filter (\<lambda>e. ve_EventID e \<notin> log_ids (alog st)) es)"
  shows "\<exists>st'. is_store s' = Some st' \<and> inv st' \<and> prefix (alog st) (alog st') \<and>
           log_ids (alog st') = log_ids (alog st) \<union> ve_EventID ` set es"
proof -
  let ?new = "filter (\<lambda>e. ve_EventID e \<notin> log_ids (alog st)) es"
  obtain st' where "is_store s' = Some st'" "inv st'" "alog st' = log_append_all now ?new (alog st)"
    using accepted_stored [OF assms] by blast
  moreover have "log_ids (alog st) \<union> ve_EventID ` set ?new = log_ids (alog st) \<union> ve_EventID ` set es"
    by auto
  ultimately show ?thesis by (simp add: log_ids_append log_append_prefix)
qed

end

section \<open>Lines\<close>

abbreviation newline :: char where
  "newline \<equiv> CHR 0x0A"

definition render :: "string list \<Rightarrow> string" where
  "render ls = concat (map (\<lambda>l. l @ [newline]) ls)"

lemma split_on_line: "c \<notin> set l \<Longrightarrow> split_on c (l @ c # r) = l # split_on c r"
  by (induction l) auto

lemma split_render: "\<forall>l \<in> set ls. newline \<notin> set l \<Longrightarrow> split_on newline (render ls) = ls @ [[]]"
  by (induction ls) (simp_all add: render_def split_on_line)

lemma raw_lines_render: "\<forall>l \<in> set ls. newline \<notin> set l \<Longrightarrow> raw_lines (render ls) = ls"
  by (simp add: raw_lines_def split_render)

lemma render_snoc: "render (ls @ [l]) = render ls @ l @ [newline]"
  by (simp add: render_def)

text \<open>A line as the encoder of JSON writes it, short enough to be read back.\<close>

definition good_line :: "string \<Rightarrow> bool" where
  "good_line l \<longleftrightarrow> l \<noteq> [] \<and> newline \<notin> set l \<and> List.last l \<noteq> CHR 0x0D \<and> length l < maxVisibilityLineBytes"

lemma scanner_render:
  assumes "\<forall>l \<in> set ls. good_line l"
  shows "scanner_lines maxVisibilityLineBytes (render ls) = (ls, True)"
proof -
  have tw: "takeWhile (\<lambda>l. length l < maxVisibilityLineBytes) ls = ls"
    using assms by (auto simp: good_line_def takeWhile_eq_all_conv)
  have cr: "map drop_cr ls = ls"
    using assms by (auto simp: good_line_def drop_cr_def intro!: map_idI)
  have rl: "raw_lines (render ls) = ls"
    using assms by (simp add: raw_lines_render good_line_def)
  show ?thesis
    unfolding scanner_lines_def rl Let_def tw cr by simp
qed

text \<open>The window of lines that \<open>readTailLines\<close> slides over the file is the end of the file.\<close>

lemma keep_tail_fold:
  assumes "m > 0" and "\<forall>l \<in> set ls. l \<noteq> []"
  shows "foldl (keep_tail m) (drop (length xs - m) xs) ls = drop (length (xs @ ls) - m) (xs @ ls)"
  using assms(2)
proof (induction ls arbitrary: xs)
  case (Cons l ls)
  have "keep_tail m (drop (length xs - m) xs) l = drop (length (xs @ [l]) - m) (xs @ [l])"
    using Cons.prems assms(1) by (auto simp: keep_tail_def drop_Suc [symmetric] tl_drop Suc_diff_le not_le)
  with Cons.IH [of "xs @ [l]"] Cons.prems show ?case by simp
qed simp

lemma readTailLines_render:
  assumes "\<forall>l \<in> set ls. good_line l" and "m > 0"
  shows "readTailLines (render ls) m = Inr (drop (length ls - nat m) ls)"
  using keep_tail_fold [of "nat m" ls "[]"] assms
  by (simp add: readTailLines_def scanner_render good_line_def)

section \<open>The file store as a log\<close>

text \<open>What the JSON library does with an event of the log: it writes a line and reads the event back.\<close>

definition codec_ok :: "('a) store_json_scheme \<Rightarrow> visibilityEvent \<Rightarrow> bool" where
  "codec_ok lib e \<longleftrightarrow>
     (case sj_event lib e of None \<Rightarrow> False | Some l \<Rightarrow> good_line l \<and> sj_parse lib l = Some e)"

definition encode_line :: "('a) store_json_scheme \<Rightarrow> visibilityEvent \<Rightarrow> string" where
  "encode_line lib e = (case sj_event lib e of None \<Rightarrow> [] | Some l \<Rightarrow> l)"

lemma codec_okD:
  "codec_ok lib e \<Longrightarrow> sj_event lib e = Some (encode_line lib e) \<and> good_line (encode_line lib e) \<and>
     sj_parse lib (encode_line lib e) = Some e"
  by (auto simp: codec_ok_def encode_line_def split: option.splits)

definition file_log :: "store_json \<Rightarrow> file_store \<Rightarrow> visibilityEvent list" where
  "file_log lib s = List.map_filter (sj_parse lib) (raw_lines (file_content s))"

definition file_inv :: "store_json \<Rightarrow> file_store \<Rightarrow> bool" where
  "file_inv lib s \<longleftrightarrow>
     (\<exists>L. file_content s = render (map (encode_line lib) L) \<and> dk_file (fs_disk s) \<noteq> None \<and>
        (\<forall>e \<in> set L. codec_ok lib e \<and> ve_EventID e \<noteq> []) \<and>
        distinct (map ve_EventID L) \<and> set (fs_seen s) = log_ids L)"

lemma map_filter_encode:
  "\<forall>e \<in> set L. codec_ok lib e \<Longrightarrow> List.map_filter (sj_parse lib) (map (encode_line lib) L) = L"
  by (induction L) (auto simp: List.map_filter_simps dest!: codec_okD)

lemma file_log_render:
  assumes "file_content s = render (map (encode_line lib) L)" and "\<forall>e \<in> set L. codec_ok lib e"
  shows "file_log lib s = L"
proof -
  have "\<forall>l \<in> set (map (encode_line lib) L). newline \<notin> set l"
    using assms(2) by (auto dest!: codec_okD simp: good_line_def)
  then show ?thesis
    using assms by (simp add: file_log_def raw_lines_render map_filter_encode)
qed

lemma file_invI:
  assumes "dk_file (fs_disk s) = Some (render (map (encode_line lib) L))"
    and "\<forall>e \<in> set L. codec_ok lib e \<and> ve_EventID e \<noteq> []" and "distinct (map ve_EventID L)"
    and "set (fs_seen s) = log_ids L"
  shows "file_inv lib s \<and> file_log lib s = L"
proof -
  have "file_content s = render (map (encode_line lib) L)"
    using assms(1) by (simp add: file_content_def)
  then show ?thesis
    using assms file_log_render [of s lib L] unfolding file_inv_def by (intro conjI exI [of _ L]) simp_all
qed

lemma file_invE:
  assumes "file_inv lib s"
  obtains "file_content s = render (map (encode_line lib) (file_log lib s))"
    "dk_file (fs_disk s) = Some (file_content s)"
    "\<forall>e \<in> set (file_log lib s). codec_ok lib e \<and> ve_EventID e \<noteq> []"
    "distinct (map ve_EventID (file_log lib s))"
    "set (fs_seen s) = log_ids (file_log lib s)"
  using assms file_log_render unfolding file_inv_def
  by (metis (no_types, lifting) file_content_def not_None_eq option.case(2))

text \<open>The file is not rotated by the next append.\<close>

definition has_room :: "file_store \<Rightarrow> bool" where
  "has_room s \<longleftrightarrow> fs_maxBytes s \<le> 0 \<or> int (length (file_content s)) < fs_maxBytes s"

fun file_admits :: "store_json \<Rightarrow> (nat \<Rightarrow> file_io) \<Rightarrow> file_store \<Rightarrow> visibilityEvent list \<Rightarrow> bool" where
  "file_admits lib io s [] = True"
| "file_admits lib io s (e # es) \<longleftrightarrow>
     ve_EventID e \<noteq> [] \<and> codec_ok lib (stamp (io_nowMS (io 0)) e) \<and> has_room s \<and>
     file_admits lib (\<lambda>n. io (Suc n)) (snd (Append lib (io 0) e s)) es"

lemma write_steps:
  "write_line io l s = (None, s1) \<Longrightarrow> s1 = set_file (Some (file_content s @ l @ [newline])) s"
  "count_write io s = (None, s1) \<Longrightarrow> \<exists>n. s1 = s\<lparr>fs_writesSinceSync := n\<rparr>"
  "persistDevicesIndexLocked lib io s = (None, s1) \<Longrightarrow>
     \<exists>raw. s1 = s\<lparr>fs_disk := (fs_disk s)\<lparr>dk_index := Some raw\<rparr>\<rparr>"
  by (auto simp: write_line_def count_write_def persistDevicesIndexLocked_def Let_def
      split: if_splits option.splits)

text \<open>
  A successful append of a new event, whatever the state of the store: the file ends with the new line,
  and the identifier is remembered. The file is the old one or, after a rotation, an empty one.
\<close>

lemma Append_new:
  assumes ok: "Append lib io e s = (None, s')" and new: "ve_EventID e \<notin> set (fs_seen s)" and ne: "ve_EventID e \<noteq> []"
  shows "\<exists>l c seen. sj_event lib (stamp (io_nowMS io) e) = Some l \<and>
     dk_file (fs_disk s') = Some (c @ l @ [newline]) \<and>
     fs_seen s' = List.insert (ve_EventID e) seen \<and>
     fs_devices s' = upsertDeviceRecord (stamp (io_nowMS io) e) (fs_devices s) \<and>
     (has_room s \<longrightarrow> c = file_content s \<and> seen = fs_seen s) \<and>
     (\<not> has_room s \<longrightarrow> c = [] \<and> seen = [])"
proof -
  obtain l s1 s2 s3 where l: "sj_event lib (stamp (io_nowMS io) e) = Some l"
    and rot: "maybeRotateLocked io s = (None, s1)"
    and wr: "write_line io l s1 = (None, s2)" and cw: "count_write io s2 = (None, s3)"
    and pd: "persistDevicesIndexLocked lib io (remember (stamp (io_nowMS io) e) s3) = (None, s')"
    using ok new ne by (auto simp: Append_def Let_def split: if_splits option.splits prod.splits)
  have s1: "if has_room s then s1 = s
            else file_content s1 = [] \<and> fs_seen s1 = [] \<and> fs_devices s1 = fs_devices s"
    using rot by (auto simp: maybeRotateLocked_def has_room_def set_file_def file_content_def Let_def
        split: if_splits)
  obtain n raw where "s2 = set_file (Some (file_content s1 @ l @ [newline])) s1"
    "s3 = s2\<lparr>fs_writesSinceSync := n\<rparr>"
    "s' = (remember (stamp (io_nowMS io) e) s3)\<lparr>fs_disk := (fs_disk s3)\<lparr>dk_index := Some raw\<rparr>\<rparr>"
    using write_steps(1) [OF wr] write_steps(2) [OF cw] write_steps(3) [OF pd] by (auto simp: remember_def)
  with l s1 ne show ?thesis
    by (auto simp: remember_def set_file_def split: if_splits)
qed

lemma Append_log:
  assumes inv: "file_inv lib s" and ne: "ve_EventID e \<noteq> []"
    and codec: "codec_ok lib (stamp (io_nowMS io) e)" and room: "has_room s"
    and ok: "Append lib io e s = (None, s')"
  shows "file_inv lib s' \<and>
    file_log lib s' = (if ve_EventID e \<in> log_ids (file_log lib s) then file_log lib s
                       else file_log lib s @ [stamp (io_nowMS io) e])"
proof (rule file_invE [OF inv])
  assume c: "file_content s = render (map (encode_line lib) (file_log lib s))"
    and codecs: "\<forall>e \<in> set (file_log lib s). codec_ok lib e \<and> ve_EventID e \<noteq> []"
    and dist: "distinct (map ve_EventID (file_log lib s))"
    and seen: "set (fs_seen s) = log_ids (file_log lib s)"
  show ?thesis
  proof (cases "ve_EventID e \<in> set (fs_seen s)")
    case True
    then have "s' = s" using ok ne by (simp add: Append_def split: if_splits)
    then show ?thesis using True inv seen by simp
  next
    case False
    let ?e = "stamp (io_nowMS io) e" and ?L = "file_log lib s"
    have c': "dk_file (fs_disk s') = Some (render (map (encode_line lib) (?L @ [?e])))"
      and s': "set (fs_seen s') = log_ids (?L @ [?e])"
      using Append_new [OF ok False ne] room seen codec_okD [OF codec]
      by (auto simp: render_snoc c log_ids_def)
    have "\<forall>x \<in> set (?L @ [?e]). codec_ok lib x \<and> ve_EventID x \<noteq> []"
      using codecs codec ne by simp
    moreover have "distinct (map ve_EventID (?L @ [?e]))"
      using dist False seen by (auto simp: log_ids_def)
    ultimately have "file_inv lib s' \<and> file_log lib s' = ?L @ [?e]"
      by (rule file_invI [OF c' _ _ s'])
    then show ?thesis using False seen by simp
  qed
qed

lemma AppendBatch_log:
  "file_inv lib s \<Longrightarrow> file_admits lib io s es \<Longrightarrow> AppendBatch lib io es s = (None, s') \<Longrightarrow>
     file_inv lib s' \<and> file_log lib s' = log_append_all (\<lambda>n. io_nowMS (io n)) es (file_log lib s)"
proof (induction es arbitrary: io s)
  case (Cons e es)
  obtain s1 where s1: "Append lib (io 0) e s = (None, s1)"
    and rest: "AppendBatch lib (\<lambda>n. io (Suc n)) es s1 = (None, s')"
    using Cons.prems(3) by (auto split: prod.splits option.splits)
  from Append_log [OF Cons.prems(1) _ _ _ s1] Cons.prems(2)
  have "file_inv lib s1" and log: "file_log lib s1 =
      (if ve_EventID e \<in> log_ids (file_log lib s) then file_log lib s
       else file_log lib s @ [stamp (io_nowMS (io 0)) e])"
    by auto
  with Cons.IH [OF this(1) _ rest] Cons.prems(2) s1 show ?case by simp
qed simp

lemma has_loop_file:
  "has_loop (Has c) s ids seen = Inr xs \<Longrightarrow>
     set xs = set seen \<union> {i \<in> set ids. i \<noteq> [] \<and> i \<in> set (fs_seen s)}"
proof (induction ids arbitrary: seen)
  case (Cons i ids)
  then show ?case by (auto simp: Has_def split: if_splits)
qed simp

interpretation filelog: visibility_log "file_ops lib c r io" "file_log lib" "file_inv lib" "file_admits lib io"
  "\<lambda>n. io_nowMS (io n)" for lib c r io
proof unfold_locales
  fix s ids xs
  assume "file_inv lib s" "so_HasMany (file_ops lib c r io) ids s = Inr xs"
  then show "set xs = {i \<in> set ids. i \<noteq> [] \<and> i \<in> log_ids (file_log lib s)}"
    by (auto simp: file_ops_def dest!: has_loop_file elim!: file_invE)
next
  fix s es s'
  assume "file_inv lib s" "file_admits lib io s es" "so_AppendBatch (file_ops lib c r io) es s = (None, s')"
  then show "file_inv lib s' \<and> file_log lib s' = log_append_all (\<lambda>n. io_nowMS (io n)) es (file_log lib s)"
    by (intro AppendBatch_log) (simp_all add: file_ops_def)
qed

section \<open>The database store as a log\<close>

definition sqlite_log :: "sql_json \<Rightarrow> sqlite_store \<Rightarrow> visibilityEvent list" where
  "sqlite_log lib s = List.map_filter (\<lambda>r. sj_parse lib (er_envelope_json r)) (db_events (sq_db s))"

definition rows_of :: "sql_json \<Rightarrow> visibilityEvent list \<Rightarrow> event_row list" where
  "rows_of lib L = map (\<lambda>e. row_of e (encode_line lib e)) L"

definition sqlite_inv :: "sql_json \<Rightarrow> sqlite_store \<Rightarrow> bool" where
  "sqlite_inv lib s \<longleftrightarrow>
     (\<exists>L. db_events (sq_db s) = rows_of lib L \<and>
        (\<forall>e \<in> set L. codec_ok lib e \<and> ve_EventID e \<noteq> []) \<and> distinct (map ve_EventID L))"

definition survives :: "sql_io \<Rightarrow> sqlite_store \<Rightarrow> visibilityEvent \<Rightarrow> bool" where
  "survives io s e \<longleftrightarrow>
     sq_retention s \<le> 0 \<or> ve_ReceivedAtMS e \<le> 0 \<or>
     cutoff_milli (time_add (qi_now io) (- sq_retention s)) \<le> ve_ReceivedAtMS e"

definition sqlite_admits :: "sql_json \<Rightarrow> sql_io \<Rightarrow> sqlite_store \<Rightarrow> visibilityEvent list \<Rightarrow> bool" where
  "sqlite_admits lib io s es \<longleftrightarrow>
     list_all (\<lambda>e. ve_EventID e \<noteq> [] \<and> codec_ok lib (stamp (qi_nowMS io) e) \<and>
                   survives io s (stamp (qi_nowMS io) e)) es \<and>
     list_all (survives io s) (sqlite_log lib s)"

lemma map_filter_rows:
  "\<forall>e \<in> set L. codec_ok lib e \<Longrightarrow>
     List.map_filter (\<lambda>r. sj_parse lib (er_envelope_json r)) (rows_of lib L) = L"
  by (induction L) (auto simp: List.map_filter_simps rows_of_def row_of_def dest!: codec_okD)

lemma sqlite_invE:
  assumes "sqlite_inv lib s"
  obtains "db_events (sq_db s) = rows_of lib (sqlite_log lib s)"
    "\<forall>e \<in> set (sqlite_log lib s). codec_ok lib e \<and> ve_EventID e \<noteq> []"
    "distinct (map ve_EventID (sqlite_log lib s))"
  using assms map_filter_rows unfolding sqlite_inv_def sqlite_log_def by metis

lemma rows_ids: "er_event_id ` set (rows_of lib L) = log_ids L"
  by (auto simp: rows_of_def row_of_def log_ids_def image_iff)

lemma upsertDeviceTx_events [simp]: "db_events (upsertDeviceTx lib r db) = db_events db"
  by (simp add: upsertDeviceTx_def)

lemma insert_loop_log:
  "insert_loop lib io i es db = Inr db' \<Longrightarrow> db_events db = rows_of lib L \<Longrightarrow>
     \<forall>e \<in> set es. codec_ok lib (stamp (qi_nowMS io) e) \<Longrightarrow>
     db_events db' = rows_of lib (log_append_all (\<lambda>_. qi_nowMS io) es L)"
proof (induction es arbitrary: i db L)
  case (Cons e es)
  let ?e = "stamp (qi_nowMS io) e"
  have enc: "sj_event lib ?e = Some (encode_line lib ?e)"
    using Cons.prems(3) codec_okD [of lib ?e] by simp
  show ?case
  proof (cases "ve_EventID e \<in> log_ids L")
    case True
    then show ?thesis
      using Cons.prems enc by (auto simp: Let_def rows_ids split: if_splits intro: Cons.IH)
  next
    case False
    let ?db = "upsertDeviceTx lib (deviceRecordFromEvent ?e)
                 (db\<lparr>db_events := db_events db @ [row_of ?e (encode_line lib ?e)]\<rparr>)"
    have "insert_loop lib io (Suc i) es ?db = Inr db'"
      using Cons.prems(1,2) enc False by (auto simp: Let_def rows_ids split: if_splits)
    moreover have "db_events ?db = rows_of lib (L @ [?e])"
      using Cons.prems(2) by (simp add: rows_of_def)
    ultimately show ?thesis using Cons.IH [of "Suc i" ?db "L @ [?e]"] Cons.prems(3) False by simp
  qed
qed simp

lemma log_append_mem:
  "e \<in> set (log_append_all now es L) \<Longrightarrow> e \<in> set L \<or> (\<exists>n < length es. e = stamp (now n) (es ! n))"
proof (induction es arbitrary: now L)
  case (Cons x es)
  then show ?case
    by (force dest!: Cons.IH split: if_splits)
qed simp

lemma sqlite_AppendBatch_log:
  assumes inv: "sqlite_inv lib s" and adm: "sqlite_admits lib io s es"
    and ok: "sqlite_AppendBatch lib io es s = (None, s')"
  shows "sqlite_inv lib s' \<and> sqlite_log lib s' = log_append_all (\<lambda>_. qi_nowMS io) es (sqlite_log lib s)"
proof (rule sqlite_invE [OF inv])
  let ?L = "sqlite_log lib s" and ?M = "log_append_all (\<lambda>_. qi_nowMS io) es (sqlite_log lib s)"
  assume rows: "db_events (sq_db s) = rows_of lib ?L"
    and codecs: "\<forall>e \<in> set ?L. codec_ok lib e \<and> ve_EventID e \<noteq> []"
    and dist: "distinct (map ve_EventID ?L)"
  have ok_M: "\<forall>e \<in> set ?M. codec_ok lib e \<and> ve_EventID e \<noteq> [] \<and> survives io s e"
    using codecs adm by (auto dest!: log_append_mem simp: sqlite_admits_def list_all_iff)
  show ?thesis
  proof (cases "es = []")
    case True
    then show ?thesis using ok inv by (simp add: sqlite_AppendBatch_def)
  next
    case False
    then obtain db where ins: "insert_loop lib io 0 es (sq_db s) = Inr db"
      and pr: "maybePrune io (s\<lparr>sq_db := db\<rparr>) = (None, s')"
      using ok by (auto simp: sqlite_AppendBatch_def split: if_splits sum.splits)
    have "db_events db = rows_of lib ?M"
      using insert_loop_log [OF ins rows] adm by (simp add: sqlite_admits_def list_all_iff)
    moreover have "filter (\<lambda>r. \<not> (er_received_at_ms r > 0 \<and>
        er_received_at_ms r < cutoff_milli (time_add (qi_now io) (- sq_retention s)))) (rows_of lib ?M)
        = rows_of lib ?M" if "sq_retention s > 0"
      using ok_M that by (auto simp: filter_id_conv rows_of_def row_of_def survives_def)
    ultimately have "db_events (sq_db s') = rows_of lib ?M"
      using pr by (auto simp: maybePrune_def Let_def split: if_splits)
    then show ?thesis
      using ok_M log_append_distinct [OF dist] map_filter_rows [of ?M lib]
      by (auto simp: sqlite_inv_def sqlite_log_def)
  qed
qed

interpretation sqlitelog: visibility_log "sqlite_ops lib c q io" "sqlite_log lib" "sqlite_inv lib"
  "sqlite_admits lib io" "\<lambda>_. qi_nowMS io" for lib c q io
proof unfold_locales
  fix s ids xs
  assume inv: "sqlite_inv lib s" and h: "so_HasMany (sqlite_ops lib c q io) ids s = Inr xs"
  have "er_event_id ` set (db_events (sq_db s)) = log_ids (sqlite_log lib s)"
    using inv by (rule sqlite_invE) (simp add: rows_ids)
  with h show "set xs = {i \<in> set ids. i \<noteq> [] \<and> i \<in> log_ids (sqlite_log lib s)}"
    by (auto simp: sqlite_ops_def sqlite_HasMany_def Let_def filter_empty_conv split: if_splits)
next
  fix s es s'
  assume "sqlite_inv lib s" "sqlite_admits lib io s es" "so_AppendBatch (sqlite_ops lib c q io) es s = (None, s')"
  then show "sqlite_inv lib s' \<and> sqlite_log lib s' = log_append_all (\<lambda>_. qi_nowMS io) es (sqlite_log lib s)"
    by (intro sqlite_AppendBatch_log) (simp_all add: sqlite_ops_def)
qed

end
