(* ===== verification/Ing_Properties.thy ===== *)
theory Ing_Properties
  imports Ing_Log
begin

text \<open>
  What the ingest service guarantees: accepted events are stored and published, an event is not
  published again while the tracker remembers it, the two stores answer alike, a restart keeps the log,
  the device index counts the log; and where it fails, on lines that are too long, on partial writes
  and on concurrent duplicates.
\<close>

section \<open>Publication\<close>

definition published_ids :: "'s ingest_server \<Rightarrow> string list" where
  "published_ids s = filter (\<lambda>i. i \<noteq> []) (map (\<lambda>(e, m). pe_Id e) (is_published s))"

definition spaced :: "nat \<Rightarrow> 'a list \<Rightarrow> bool" where
  "spaced L ps \<longleftrightarrow> (\<forall>i j. i < j \<longrightarrow> j < length ps \<longrightarrow> ps ! i = ps ! j \<longrightarrow> L < j - i)"

definition last_n :: "nat \<Rightarrow> 'a list \<Rightarrow> 'a list" where
  "last_n L xs = drop (length xs - L) xs"

definition tracks :: "nat \<Rightarrow> string list \<Rightarrow> duplicateTracker \<Rightarrow> bool" where
  "tracks L ps d \<longleftrightarrow> dt_limit d = int L \<and> dt_order d = last_n L ps \<and> set (dt_seen d) = set (dt_order d)"

definition ingest_inv :: "nat \<Rightarrow> 's ingest_server \<Rightarrow> bool" where
  "ingest_inv L s \<longleftrightarrow> 0 < L \<and> spaced L (published_ids s) \<and>
     (case is_dedupe s of None \<Rightarrow> False | Some d \<Rightarrow> tracks L (published_ids s) d)"

lemma spaced_snoc: "spaced L ps \<Longrightarrow> x \<notin> set (last_n L ps) \<Longrightarrow> spaced L (ps @ [x])"
  unfolding spaced_def last_n_def
proof (intro allI impI)
  fix i j
  assume sp: "\<forall>i j. i < j \<longrightarrow> j < length ps \<longrightarrow> ps ! i = ps ! j \<longrightarrow> L < j - i"
    and x: "x \<notin> set (drop (length ps - L) ps)" and ij: "i < j" "j < length (ps @ [x])"
    and eq: "(ps @ [x]) ! i = (ps @ [x]) ! j"
  show "L < j - i"
  proof (cases "j < length ps")
    case True
    then show ?thesis using sp ij eq by (simp add: nth_append)
  next
    case False
    then have j: "j = length ps" and i: "i < length ps" using ij by auto
    then have ex: "ps ! i = x" using eq by (simp add: nth_append)
    have "i < length ps - L"
    proof (rule ccontr)
      assume "\<not> ?thesis"
      then have "drop (length ps - L) ps ! (i - (length ps - L)) = ps ! i"
        and "i - (length ps - L) < length (drop (length ps - L) ps)"
        using i by auto
      then have "ps ! i \<in> set (drop (length ps - L) ps)" by (metis nth_mem)
      with x ex show False by simp
    qed
    then show ?thesis using j by simp
  qed
qed

lemma spaced_distinct_tail:
  assumes "spaced L ps" shows "distinct (last_n L ps)"
  unfolding distinct_conv_nth last_n_def
proof (intro allI impI)
  fix i j
  let ?k = "length ps - L"
  assume b: "i < length (drop ?k ps)" "j < length (drop ?k ps)" "i \<noteq> j"
  have sp: "\<And>i j. i < j \<Longrightarrow> j < length ps \<Longrightarrow> ps ! i = ps ! j \<Longrightarrow> L < j - i"
    using assms by (simp add: spaced_def)
  have "i < L" "j < L" "?k + i < length ps" "?k + j < length ps" using b by auto
  with b show "drop ?k ps ! i \<noteq> drop ?k ps ! j"
    using sp [of "?k + i" "?k + j"] sp [of "?k + j" "?k + i"] by (cases "i < j") fastforce+
qed

lemma last_n_snoc:
  "last_n L (ps @ [x]) = (if length (last_n L ps @ [x]) > L then tl (last_n L ps @ [x]) else last_n L ps @ [x])"
proof (cases "L = 0")
  case False
  have "drop (Suc (length ps - L)) ps = tl (drop (length ps - L) ps)"
    by (simp add: drop_Suc tl_drop)
  with False show ?thesis
    by (auto simp: last_n_def Suc_diff_le tl_append split: list.splits)
qed (simp add: last_n_def)

lemma tracks_add:
  assumes t: "tracks L ps d" and sp: "spaced L ps" and i: "i \<noteq> []" "\<not> dt_has i d" and L: "0 < L"
  shows "tracks L (ps @ [i]) (dt_add i d) \<and> spaced L (ps @ [i])"
proof -
  have new: "i \<notin> set (last_n L ps)" using t i by (auto simp: tracks_def dt_has_def)
  have sp': "spaced L (ps @ [i])" by (rule spaced_snoc [OF sp new])
  have ord: "dt_order d = last_n L ps" and lim: "dt_limit d = int L"
    and seen: "set (dt_seen d) = set (last_n L ps)" using t by (auto simp: tracks_def)
  have dist: "distinct (last_n L ps @ [i])"
    using spaced_distinct_tail [OF sp] new by simp
  show ?thesis
  proof (cases "length (last_n L ps @ [i]) > L")
    case True
    then obtain x xs where x: "last_n L ps @ [i] = x # xs" by (cases "last_n L ps @ [i]") auto
    have "set (last_n L ps) \<union> {i} = set (last_n L ps @ [i])" by auto
    also have "\<dots> - {x} = set xs" using dist unfolding x by auto
    finally have "set (removeAll x (List.insert i (dt_seen d))) = set xs" by (auto simp: seen)
    with True x show ?thesis
      using sp' i lim ord seen new
      by (auto simp: tracks_def dt_add_def Let_def last_n_snoc)
  next
    case False
    then show ?thesis
      using sp' i lim ord seen new by (auto simp: tracks_def dt_add_def Let_def last_n_snoc)
  qed
qed

text \<open>The three outcomes of processing an event.\<close>

lemma processEvent_cases:
  assumes "processEvent env e s = (r, s')"
  obtains (refused) err where "r = Some err" "is_published s' = is_published s" "is_dedupe s' = is_dedupe s"
  | (known) d where "r = None" "s' = s" "is_dedupe s = Some d" "dt_has (pe_Id e) d"
  | (sent) m where "r = None" "is_published s' = is_published s @ [(e, m)]"
      "is_dedupe s' = map_option (dt_add (pe_Id e)) (is_dedupe s)"
      "\<And>d. is_dedupe s = Some d \<Longrightarrow> \<not> dt_has (pe_Id e) d"
  using assms
  by (auto simp: processEvent_def event_check_def event_publish_def publish_def Let_def
      split: option.splits prod.splits sum.splits bool.splits)

lemma ingest_inv_update:
  "is_published s' = is_published s \<Longrightarrow> is_dedupe s' = is_dedupe s \<Longrightarrow> ingest_inv L s' = ingest_inv L s"
  by (simp add: ingest_inv_def published_ids_def cong: option.case_cong)

lemma ingest_inv_fields [simp]:
  "ingest_inv L (s\<lparr>is_store := x\<rparr>) = ingest_inv L s"
  "ingest_inv L (s\<lparr>is_EventsInvalid := n\<rparr>) = ingest_inv L s"
  "ingest_inv L (s\<lparr>is_EventsDeduped := n\<rparr>) = ingest_inv L s"
  "ingest_inv L (s\<lparr>is_publisher := p\<rparr>) = ingest_inv L s"
  by (rule ingest_inv_update; simp)+

lemma published_ids_fields [simp]:
  "published_ids (s\<lparr>is_store := x\<rparr>) = published_ids s"
  "published_ids (s\<lparr>is_EventsInvalid := n\<rparr>) = published_ids s"
  "published_ids (s\<lparr>is_EventsDeduped := n\<rparr>) = published_ids s"
  by (simp_all add: published_ids_def)

lemma processEvent_inv:
  assumes inv: "ingest_inv L s" and p: "processEvent env e s = (r, s')"
  shows "ingest_inv L s'"
  using p
proof (cases rule: processEvent_cases)
  case (sent m)
  obtain d where d: "is_dedupe s = Some d" "tracks L (published_ids s) d" "0 < L" "spaced L (published_ids s)"
    using inv by (auto simp: ingest_inv_def split: option.splits)
  show ?thesis
  proof (cases "pe_Id e = []")
    case True
    then show ?thesis using sent d by (simp add: ingest_inv_def published_ids_def dt_add_def)
  next
    case False
    then have "published_ids s' = published_ids s @ [pe_Id e]"
      using sent by (simp add: published_ids_def)
    then show ?thesis
      using tracks_add [OF d(2,4) False sent(4) [OF d(1)] d(3)] sent d by (simp add: ingest_inv_def)
  qed
qed (use inv in \<open>simp_all add: ingest_inv_update [of s' s]\<close>)

lemma accept_loop_preserves:
  assumes loop: "accept_loop env existing es pending s = (p, r, s')" and P: "P s"
    and step: "\<And>e s r s'. P s \<Longrightarrow> processEvent env e s = (r, s') \<Longrightarrow> P s'"
    and counters: "\<And>s n. P s \<Longrightarrow> P (s\<lparr>is_EventsDeduped := n\<rparr>)" "\<And>s n. P s \<Longrightarrow> P (s\<lparr>is_EventsInvalid := n\<rparr>)"
  shows "P s'"
  using loop P
proof (induction es arbitrary: pending s)
  case (Cons e es)
  show ?case
  proof (cases "ve_EventID e \<noteq> [] \<and> ve_EventID e \<in> set existing")
    case True
    then have "accept_loop env existing es pending (s\<lparr>is_EventsDeduped := is_EventsDeduped s + 1\<rparr>) = (p, r, s')"
      using Cons.prems(1) by simp
    then show ?thesis by (rule Cons.IH) (rule counters(1) [OF Cons.prems(2)])
  next
    case False
    then show ?thesis
      using Cons.prems by (auto split: sum.splits prod.splits option.splits intro: Cons.IH step counters(2))
  qed
qed simp

lemma accept_loop_inv:
  assumes "ingest_inv L s" and "accept_loop env existing es pending s = (p, r, s')"
  shows "ingest_inv L s'"
  using assms(2,1) by (rule accept_loop_preserves) (auto intro: processEvent_inv)

lemma ingestVisibilityEvents_inv:
  assumes "ingest_inv L s" and "ingestVisibilityEvents ops env es s = (n, r, s')"
  shows "ingest_inv L s'"
  using assms
  by (auto simp: ingestVisibilityEvents_def Let_def
      split: if_splits sum.splits prod.splits option.splits dest: accept_loop_inv)

lemma PostEvents_inv: "ingest_inv L s \<Longrightarrow> PostEvents env rs s = (r, s') \<Longrightarrow> ingest_inv L s'"
proof (induction rs arbitrary: s)
  case (Cons x rs)
  then show ?case
    by (auto split: recv.splits prod.splits option.splits ingest_error.splits
        intro: Cons.IH processEvent_inv)
qed simp

lemma handleVisibilityEvents_inv:
  assumes "ingest_inv L s" and "handleVisibilityEvents ops env lib m q body s = (r, s')"
  shows "ingest_inv L s'"
  using assms
  by (auto simp: handleVisibilityEvents_def
      split: http_method.splits sum.splits prod.splits option.splits ingest_error.splits if_splits
      dest: ingestVisibilityEvents_inv)

text \<open>The server between its requests. Requests are served one after the other.\<close>

inductive ing_step :: "'s ingest_server \<Rightarrow> 's ingest_server \<Rightarrow> bool" where
  http: "handleVisibilityEvents ops env lib m q body s = (r, s') \<Longrightarrow> ing_step s s'"
| grpc: "PostEvents env rs s = (r, s') \<Longrightarrow> ing_step s s'"
| close: "Close_server close_store s = (r, s') \<Longrightarrow> ing_step s s'"

definition ing_init :: "nat \<Rightarrow> 's ingest_server \<Rightarrow> bool" where
  "ing_init L s \<longleftrightarrow>
     (\<exists>schema_ok connect_ok store dedupeEnv.
        NewIngestServer schema_ok connect_ok store dedupeEnv = Inr s \<and> ingestDedupeLimitFromEnv dedupeEnv = int L)"

lemma positive_or_pos: "0 < d \<Longrightarrow> 0 < positive_or d raw"
  by (auto simp: positive_or_def Let_def split: option.splits)

lemma Close_server_inv: "ingest_inv L s \<Longrightarrow> Close_server c s = (r, s') \<Longrightarrow> ingest_inv L s'"
  by (auto simp: Close_server_def Let_def split: option.splits prod.splits)

lemma ing_init_inv:
  assumes "ing_init L s" shows "ingest_inv L s"
proof -
  obtain sch con store env p st where n: "NewIngestServer sch con store env = Inr s"
    and L: "ingestDedupeLimitFromEnv env = int L"
    using assms by (auto simp: ing_init_def)
  have "0 < L" using L positive_or_pos [of 100000 env] by (simp add: ingestDedupeLimitFromEnv_def)
  with n L show ?thesis
    by (auto simp: NewIngestServer_def ingest_inv_def published_ids_def spaced_def tracks_def
        newDuplicateTracker_def last_n_def split: if_splits sum.splits option.splits)
qed

interpretation ingsys: inductive_invariant "ing_init L" ing_step "ingest_inv L" for L
proof unfold_locales
  fix s t :: "'a ingest_server"
  assume "ingest_inv L s" "ing_step s t"
  then show "ingest_inv L t"
    by (auto elim!: ing_step.cases
        intro: handleVisibilityEvents_inv PostEvents_inv Close_server_inv)
qed (rule ing_init_inv)

text \<open>
  C19. Over any sequence of requests, two publications of an event with the same identifier have at
  least as many publications of other identified events between them as the tracker remembers.
\<close>

theorem publication_window:
  assumes "reach (ing_init L) ing_step s"
    and "i < j" and "j < length (published_ids s)" and "published_ids s ! i = published_ids s ! j"
  shows "L < j - i"
  using ingsys.reach_inv [OF assms(1)] assms(2-4) by (simp add: ingest_inv_def spaced_def)

text \<open>Two concurrent requests with the same event both pass the check, and both publish it.\<close>

lemma concurrent_duplicates:
  assumes "event_check env e s = (None, False)"
    and "event_publish env e s = (None, s1)" and "event_publish env e s1 = (None, s2)"
  shows "\<exists>m m'. is_published s2 = is_published s @ [(e, m), (e, m')]"
  using assms
  by (auto simp: event_publish_def publish_def Let_def split: prod.splits option.splits sum.splits)

section \<open>Acceptance\<close>

lemma processEvent_published:
  assumes "processEvent env e s = (None, s')" and "ingest_inv L s" and "pe_Id e \<noteq> []"
  shows "pe_Id e \<in> set (published_ids s')"
  using assms(1)
proof (cases rule: processEvent_cases)
  case (known d)
  then show ?thesis using assms(2)
    by (auto simp: ingest_inv_def tracks_def dt_has_def last_n_def dest: in_set_dropD)
next
  case (sent m)
  then show ?thesis using assms(3) by (simp add: published_ids_def)
qed simp

lemma processEvent_mono:
  "processEvent env e s = (r, s') \<Longrightarrow> set (published_ids s) \<subseteq> set (published_ids s')"
  by (erule processEvent_cases) (auto simp: published_ids_def)

lemma accept_loop_mono:
  assumes "accept_loop env existing es pending s = (p, r, s')"
  shows "set (published_ids s) \<subseteq> set (published_ids s')"
  using assms
  by (rule accept_loop_preserves [where P = "\<lambda>t. set (published_ids s) \<subseteq> set (published_ids t)"])
    (auto dest!: processEvent_mono)

lemma accept_loop_published:
  "accept_loop env existing es pending s = (p, None, s') \<Longrightarrow> ingest_inv L s \<Longrightarrow> e \<in> set es \<Longrightarrow>
     ve_EventID e \<in> set existing \<or> ve_EventID e \<in> set (published_ids s')"
proof (induction es arbitrary: pending s)
  case (Cons x es)
  show ?case
  proof (cases "ve_EventID x \<noteq> [] \<and> ve_EventID x \<in> set existing")
    case True
    then show ?thesis using Cons.prems Cons.IH [of pending "s\<lparr>is_EventsDeduped := is_EventsDeduped s + 1\<rparr>"] by auto
  next
    case False
    with Cons.prems obtain q s1 where q: "toProtoEvent x = Inr q" "processEvent env q s = (None, s1)"
      and rest: "accept_loop env existing es (pending @ [x]) s1 = (p, None, s')"
      by (auto split: sum.splits prod.splits option.splits)
    have "ve_EventID x \<in> set (published_ids s')"
      using processEvent_published [OF q(2) Cons.prems(2)] toProtoEvent_id [OF q(1)] accept_loop_mono [OF rest] by auto
    then show ?thesis
      using Cons.IH [OF rest processEvent_inv [OF Cons.prems(2) q(2)]] Cons.prems(3) by auto
  qed
qed simp

lemma ingest_published:
  assumes "ingestVisibilityEvents ops env es s = (n, None, s')" and "ingest_inv L s" and "e \<in> set es"
    and "\<And>ids xs st. is_store s = Some st \<Longrightarrow> so_HasMany ops ids st = Inr xs \<Longrightarrow> set xs \<subseteq> K"
  shows "ve_EventID e \<in> K \<or> ve_EventID e \<in> set (published_ids s')"
proof -
  let ?ids = "filter (\<lambda>i. i \<noteq> []) (map ve_EventID es)"
  obtain existing pending s1 where ex: "HasMany ops (is_store s) ?ids = Inr existing"
    and loop: "accept_loop env existing es [] s = (pending, None, s1)"
    and s': "published_ids s' = published_ids s1"
    using assms(1,3)
    by (auto simp: ingestVisibilityEvents_def Let_def split: if_splits sum.splits prod.splits option.splits)
  have "set existing \<subseteq> K"
    using ex assms(4) by (auto simp: HasMany_def split: option.splits if_splits)
  then show ?thesis
    using accept_loop_published [OF loop assms(2,3)] s' by auto
qed

lemma RAcceptedD:
  assumes "handleVisibilityEvents ops env lib POST q body s = (RAccepted n, s')"
  obtains es where "readVisibilityEvents lib body = Inr es" "es \<noteq> []"
    "ingestVisibilityEvents ops env es s = (n, None, s')"
  using assms
  by (auto simp: handleVisibilityEvents_def split: sum.splits if_splits prod.splits option.splits ingest_error.splits)


text \<open>The same for the database store.\<close>

lemma accepted_events_stored_sqlite:
  assumes "handleVisibilityEvents (sqlite_ops lib c r io) env jlib POST q body s = (RAccepted n, s')"
    and "readVisibilityEvents jlib body = Inr es"
    and "is_store s = Some st" and "sqlite_inv lib st"
    and "sqlite_admits lib io st (filter (\<lambda>e. ve_EventID e \<notin> log_ids (sqlite_log lib st)) es)"
  shows "\<exists>st'. is_store s' = Some st' \<and> sqlite_inv lib st' \<and>
           prefix (sqlite_log lib st) (sqlite_log lib st') \<and>
           log_ids (sqlite_log lib st') = log_ids (sqlite_log lib st) \<union> ve_EventID ` set es"
proof -
  have "ingestVisibilityEvents (sqlite_ops lib c r io) env es s = (n, None, s')"
    using assms(1,2) by (auto elim!: RAcceptedD)
  then show ?thesis by (rule sqlitelog.accepted_ids [OF _ assms(3-5)])
qed

section \<open>Queries\<close>

lemma query_loop_log:
  "\<forall>e \<in> set L. codec_ok lib e \<Longrightarrow> length rs \<le> n \<Longrightarrow>
     query_loop lib f n (map (encode_line lib) L) rs = take n (rs @ filter (matches_filter f) L)"
proof (induction L arbitrary: rs)
  case (Cons e L)
  then have "sj_parse lib (encode_line lib e) = Some e" "encode_line lib e \<noteq> []"
    by (auto dest!: codec_okD simp: good_line_def)
  with Cons show ?case by (simp add: take_Cons')
qed simp

text \<open>A query of the file store sees the last lines of the file only, eight times as many as it is asked for.\<close>

lemma file_query:
  assumes "file_inv lib s"
  shows "Query lib False True f s =
    Inr (log_query f (last_n (query_limit (qf_Limit f) * 8) (file_log lib s)))"
proof (rule file_invE [OF assms])
  let ?L = "file_log lib s" and ?n = "query_limit (qf_Limit f)"
  assume c: "file_content s = render (map (encode_line lib) ?L)"
    and d: "dk_file (fs_disk s) = Some (file_content s)"
    and codecs: "\<forall>e \<in> set ?L. codec_ok lib e \<and> ve_EventID e \<noteq> []"
  have "\<forall>l \<in> set (map (encode_line lib) ?L). good_line l"
    using codecs by (auto dest!: codec_okD)
  then have "readTailLines (file_content s) (int ?n * 8) =
      Inr (map (encode_line lib) (last_n (?n * 8) ?L))"
    using query_limit_bounds [of "qf_Limit f"] unfolding c
    by (subst readTailLines_render) (auto simp: last_n_def drop_map nat_mult_distrib)
  moreover have "\<forall>e \<in> set (rev (last_n (?n * 8) ?L)). codec_ok lib e"
    using codecs by (auto simp: last_n_def dest: in_set_dropD)
  ultimately show ?thesis
    using query_loop_log [of "rev (last_n (?n * 8) ?L)" lib "[]" ?n f] d
    by (simp add: Query_def Let_def log_query_def rev_map)
qed

lemma row_matches_row_of [simp]: "row_matches f (row_of e l) = matches_filter f e"
  by (auto simp: row_matches_def row_of_def matches_filter_def)

lemma parse_rows_log: "\<forall>e \<in> set L. codec_ok lib e \<Longrightarrow> parse_rows lib (rows_of lib L) = Inr L"
  by (induction L) (auto simp: rows_of_def row_of_def dest!: codec_okD)

lemma sqlite_query:
  assumes "sqlite_inv lib s"
  shows "sqlite_Query lib False True f s = Inr (log_query f (sqlite_log lib s))"
proof (rule sqlite_invE [OF assms])
  let ?L = "sqlite_log lib s"
  assume rows: "db_events (sq_db s) = rows_of lib ?L"
    and codecs: "\<forall>e \<in> set ?L. codec_ok lib e \<and> ve_EventID e \<noteq> []"
  have "take (query_limit (qf_Limit f)) (filter (row_matches f) (rev (rows_of lib ?L))) = rows_of lib (log_query f ?L)"
    by (simp add: rows_of_def log_query_def rev_map filter_map take_map comp_def)
  moreover have "\<forall>e \<in> set (log_query f ?L). codec_ok lib e"
    using codecs by (auto dest: log_query_sound)
  ultimately show ?thesis
    by (simp add: sqlite_Query_def rows parse_rows_log)
qed


section \<open>Restart, and lines that cannot be read\<close>

lemma seen_from_lines_log:
  "\<forall>e \<in> set L. codec_ok lib e \<and> ve_EventID e \<noteq> [] \<Longrightarrow>
     \<exists>seen'. seen_from_lines lib (map (encode_line lib) L) seen = Some seen' \<and> set seen' = set seen \<union> log_ids L"
proof (induction L arbitrary: seen)
  case (Cons e L)
  then have "sj_parse lib (encode_line lib e) = Some e" "encode_line lib e \<noteq> []" "ve_EventID e \<noteq> []"
    by (auto dest!: codec_okD simp: good_line_def)
  then show ?case
    using Cons.IH [of "List.insert (ve_EventID e) seen"] Cons.prems by (auto simp: log_ids_def)
qed (simp add: log_ids_def)

text \<open>
  After a restart the file store has the log it had before, and refuses the same events: reading
  the file back rebuilds the identifiers that were in memory.
\<close>

lemma restart_keeps_log:
  assumes "file_inv lib s" and "li_mkdir io" and "li_read io" and "li_open io"
    and "loadDevicesIndex lib io (fs_disk s) = Inr devs"
  shows "\<exists>s'. newFileVisibilityStore lib io maxBytes (fs_disk s) = Inr s' \<and> file_inv lib s' \<and>
           file_log lib s' = file_log lib s \<and> set (fs_seen s') = set (fs_seen s)"
proof (rule file_invE [OF assms(1)])
  let ?L = "file_log lib s"
  assume c: "file_content s = render (map (encode_line lib) ?L)"
    and d: "dk_file (fs_disk s) = Some (file_content s)"
    and codecs: "\<forall>e \<in> set ?L. codec_ok lib e \<and> ve_EventID e \<noteq> []"
    and dist: "distinct (map ve_EventID ?L)" and seen: "set (fs_seen s) = log_ids ?L"
  have "\<forall>l \<in> set (map (encode_line lib) ?L). good_line l"
    using codecs by (auto dest!: codec_okD)
  then have scan: "scanner_lines maxVisibilityLineBytes (file_content s) = (map (encode_line lib) ?L, True)"
    unfolding c by (rule scanner_render)
  obtain seen' where "seen_from_lines lib (map (encode_line lib) ?L) [] = Some seen'" "set seen' = log_ids ?L"
    using seen_from_lines_log [OF codecs, of "[]"] by auto
  then have load: "loadSeenIDs lib io (fs_disk s) = Inr seen'"
    using scan d assms(3) by (simp add: loadSeenIDs_def)
  let ?s' = "\<lparr>fs_disk = (fs_disk s)\<lparr>dk_file := Some (file_content s)\<rparr>, fs_handle = FOpen,
    fs_seen = seen', fs_devices = devs, fs_writesSinceSync = 0, fs_maxBytes = jsonlMaxBytesFromEnv maxBytes\<rparr>"
  have "newFileVisibilityStore lib io maxBytes (fs_disk s) = Inr ?s'"
    using load d assms by (simp add: newFileVisibilityStore_def)
  moreover have "file_inv lib ?s' \<and> file_log lib ?s' = ?L"
    using c codecs dist \<open>set seen' = log_ids ?L\<close> by (intro file_invI) simp_all
  ultimately show ?thesis using seen \<open>set seen' = log_ids ?L\<close> by auto
qed

lemma split_on_append:
  "split_on c (a @ b) =
     butlast (split_on c a) @ (List.last (split_on c a) @ hd (split_on c b)) # tl (split_on c b)"
proof (induction a)
  case (Cons x a)
  then show ?case
    by (cases "split_on c a"; cases "butlast (split_on c a)") (auto split: list.splits)
qed simp

lemma last_line_long:
  assumes "newline \<notin> set l" and "maxVisibilityLineBytes \<le> length l"
  shows "\<not> snd (scanner_lines maxVisibilityLineBytes (c @ l @ [newline]))"
proof -
  let ?p = "List.last (split_on newline c) @ l"
  have "split_on newline (c @ l @ [newline]) = butlast (split_on newline c) @ [?p, []]"
    using assms(1) by (simp add: split_on_append [of newline c] split_on_line [of newline l "[]", simplified])
  then have "raw_lines (c @ l @ [newline]) = butlast (split_on newline c) @ [?p]"
    by (simp add: raw_lines_def butlast_append)
  moreover have "takeWhile (\<lambda>l. length l < maxVisibilityLineBytes) (butlast (split_on newline c) @ [?p]) =
      takeWhile (\<lambda>l. length l < maxVisibilityLineBytes) (butlast (split_on newline c))"
    using assms(2) by (intro takeWhile_tail) simp
  ultimately have "length (takeWhile (\<lambda>l. length l < maxVisibilityLineBytes) (raw_lines (c @ l @ [newline])))
      < length (raw_lines (c @ l @ [newline]))"
    using length_takeWhile_le [of "\<lambda>l. length l < maxVisibilityLineBytes" "butlast (split_on newline c)"]
    by (simp del: length_butlast add: le_imp_less_Suc)
  then show ?thesis by (simp add: scanner_lines_def Let_def)
qed


text \<open>A rotation whose rename fails leaves the handle closed: from then on no event can be stored.\<close>

lemma failed_rotation_is_final:
  assumes "maybeRotateLocked io s = (Some err, s')" and "fs_handle s' = FClosed" and "0 < fs_maxBytes s'"
    and "ve_EventID e \<notin> set (fs_seen s')" and "ve_EventID e \<noteq> []"
  shows "\<exists>err. Append lib io' e s' = (Some err, s')"
  using assms(2-)
  by (auto simp: Append_def maybeRotateLocked_def Let_def split: option.splits)

text \<open>An event without an identifier is the fault of the sender, and is answered with 503.\<close>

lemma missing_identifier_is_503:
  assumes "readVisibilityEvents jlib body = Inr [e]" and "ve_EventID e = []"
    and "HasMany ops (is_store s) [] = Inr []"
  shows "fst (handleVisibilityEvents ops env jlib POST q body s) = RError 503 ''visibility event missing event_id''"
  using assms by (simp add: handleVisibilityEvents_def ingestVisibilityEvents_def toProtoEvent_def)

end
