(* ===== verification/Ing_Devices.thy ===== *)
theory Ing_Devices
  imports Ing_Log
begin

text \<open>
  The device index of the two visibility stores. What it says of a device is determined by the
  events of that device: how many there are, of which types, when the first and the last were seen. The
  update inside the database transaction computes the same as the update of the map in memory.
\<close>

definition device_events :: "string \<Rightarrow> visibilityEvent list \<Rightarrow> visibilityEvent list" where
  "device_events d L = filter (\<lambda>e. ve_DeviceID e = d) L"

definition index_of :: "visibilityEvent list \<Rightarrow> devices" where
  "index_of L = fold upsertDeviceRecord L []"

lemma index_of_snoc: "index_of (L @ [e]) = upsertDeviceRecord e (index_of L)"
  by (simp add: index_of_def)

definition type_count :: "visibilityDeviceRecord \<Rightarrow> string \<Rightarrow> int" where
  "type_count r t = (case map_get (dr_EventTypeCount r) t of None \<Rightarrow> 0 | Some n \<Rightarrow> n)"

lemma count_inc_get:
  "(case map_get (count_inc t m) u of None \<Rightarrow> 0 | Some n \<Rightarrow> n) =
     (case map_get m u of None \<Rightarrow> 0 | Some n \<Rightarrow> n) + (if u = t then 1 else (0 :: int))"
  by (auto simp: count_inc_def map_get_set_fun)

lemma touch_fields:
  "dr_EventCount (touch_device e r) = dr_EventCount r + 1"
  "dr_LastSeenMS (touch_device e r) = max (dr_LastSeenMS r) (event_seenMS e)"
  "type_count (touch_device e r) t =
     type_count r t + (if ve_EventType e = t \<and> t \<noteq> [] then 1 else 0)"
  by (auto simp: touch_device_def Let_def max_def type_count_def count_inc_get)

lemma touch_first:
  "0 < event_seenMS e \<Longrightarrow> 0 < dr_FirstSeenMS r \<Longrightarrow>
     dr_FirstSeenMS (touch_device e r) = min (dr_FirstSeenMS r) (event_seenMS e)"
  by (auto simp: touch_device_def Let_def min_def)

lemma touch_new_first: "dr_FirstSeenMS (touch_device e (new_device e)) = event_seenMS e"
  by (simp add: touch_device_def Let_def new_device_def)

definition describes :: "visibilityDeviceRecord \<Rightarrow> visibilityEvent list \<Rightarrow> bool" where
  "describes r es \<longleftrightarrow>
     dr_EventCount r = int (length es) \<and>
     (\<forall>t. t \<noteq> [] \<longrightarrow> type_count r t = int (length (filter (\<lambda>e. ve_EventType e = t) es))) \<and>
     dr_LastSeenMS r = Max (event_seenMS ` set es) \<and>
     ((\<forall>e \<in> set es. 0 < event_seenMS e) \<longrightarrow> dr_FirstSeenMS r = Min (event_seenMS ` set es))"

lemma describes_new: "describes (touch_device e (new_device e)) [e]"
  using touch_fields [of e "new_device e"] touch_new_first [of e]
  by (simp add: describes_def) (simp add: new_device_def type_count_def)

lemma describes_touch:
  assumes d: "describes r es" and ne: "es \<noteq> []"
  shows "describes (touch_device e r) (es @ [e])"
proof -
  have fin: "finite (event_seenMS ` set es)" "event_seenMS ` set es \<noteq> {}" using ne by auto
  have "0 < Min (event_seenMS ` set es)" if "\<forall>e \<in> set es. 0 < event_seenMS e"
    using that fin by simp
  then have "dr_FirstSeenMS (touch_device e r) = Min (event_seenMS ` set (es @ [e]))"
    if "\<forall>e \<in> set (es @ [e]). 0 < event_seenMS e"
    using that d fin touch_first [of e r] by (simp add: describes_def min.commute)
  moreover have "dr_LastSeenMS (touch_device e r) = Max (event_seenMS ` set (es @ [e]))"
    using d fin by (simp add: describes_def touch_fields max.commute)
  ultimately show ?thesis
    using d by (simp add: describes_def touch_fields)
qed

text \<open>
  The index that the file store builds describes the log: a device is listed exactly if it sent an
  event, with the number of its events, the number of them of each type, and the times of the
  last and (for times after the epoch) of the first event.
\<close>

lemma device_index_correct:
  assumes "d \<noteq> []"
  shows "case map_get (index_of L) d of
           None \<Rightarrow> device_events d L = []
         | Some r \<Rightarrow> device_events d L \<noteq> [] \<and> describes r (device_events d L)"
proof (induction L rule: rev_induct)
  case Nil
  then show ?case by (simp add: index_of_def device_events_def)
next
  case (snoc e L)
  show ?case
  proof (cases "ve_DeviceID e = d")
    case False
    with snoc show ?thesis
      by (simp add: index_of_snoc upsertDeviceRecord_def Let_def device_events_def map_get_set_fun
          split: option.splits)
  next
    case True
    show ?thesis
    proof (cases "map_get (index_of L) d")
      case None
      then have "map_get (index_of (L @ [e])) d = Some (touch_device e (new_device e))"
        using True assms by (simp add: index_of_snoc upsertDeviceRecord_def Let_def map_get_set_fun)
      then show ?thesis using snoc None True describes_new by (simp add: device_events_def)
    next
      case (Some r)
      then have "map_get (index_of (L @ [e])) d = Some (touch_device e r)"
        using True assms by (simp add: index_of_snoc upsertDeviceRecord_def Let_def map_get_set_fun)
      then show ?thesis
        using snoc Some True describes_touch [of r "device_events d L" e] by (simp add: device_events_def)
    qed
  qed
qed

text \<open>The file store keeps the index of its log.\<close>

lemma AppendBatch_index:
  "file_inv lib s \<Longrightarrow> file_admits lib io s es \<Longrightarrow> AppendBatch lib io es s = (None, s') \<Longrightarrow>
     fs_devices s = index_of (file_log lib s) \<Longrightarrow> fs_devices s' = index_of (file_log lib s')"
proof (induction es arbitrary: io s)
  case (Cons e es)
  obtain s1 where s1: "Append lib (io 0) e s = (None, s1)"
    and rest: "AppendBatch lib (\<lambda>n. io (Suc n)) es s1 = (None, s')"
    using Cons.prems(3) by (auto split: prod.splits option.splits)
  have adm: "ve_EventID e \<noteq> []" "codec_ok lib (stamp (io_nowMS (io 0)) e)" "has_room s"
    "file_admits lib (\<lambda>n. io (Suc n)) s1 es"
    using Cons.prems(2) s1 by auto
  have log: "file_inv lib s1" "file_log lib s1 =
      (if ve_EventID e \<in> log_ids (file_log lib s) then file_log lib s
       else file_log lib s @ [stamp (io_nowMS (io 0)) e])"
    using Append_log [OF Cons.prems(1) adm(1-3) s1] by auto
  have seen: "set (fs_seen s) = log_ids (file_log lib s)"
    using Cons.prems(1) by (rule file_invE)
  have "fs_devices s1 = index_of (file_log lib s1)"
  proof (cases "ve_EventID e \<in> set (fs_seen s)")
    case True
    then have "s1 = s" using s1 adm(1) by (simp add: Append_def split: if_splits)
    then show ?thesis using Cons.prems(4) by simp
  next
    case False
    then show ?thesis
      using Append_new [OF s1 False adm(1)] Cons.prems(4) log(2) seen by (auto simp: index_of_snoc)
  qed
  then show ?case by (rule Cons.IH [OF log(1) adm(4) rest])
qed simp

section \<open>The index of the database\<close>

definition sql_index :: "sql_json \<Rightarrow> database \<Rightarrow> devices" where
  "sql_index lib db = map (\<lambda>(i, d). (i, device_of_row lib (i, d))) (db_devices db)"

definition counts_ok :: "sql_json \<Rightarrow> (string, int) gomap \<Rightarrow> bool" where
  "counts_ok lib m \<longleftrightarrow> parseDeviceTypeCountsJSON lib (deviceTypeCountsJSON lib m) = m"

lemma map_of_map_keyed: "map_of (map (\<lambda>(i, d). (i, f i d)) m) k = map_option (f k) (map_of m k)"
  by (induction m) auto

lemma map_get_sql_index:
  "map_get (sql_index lib db) d = map_option (\<lambda>r. device_of_row lib (d, r)) (map_get (db_devices db) d)"
  by (simp add: sql_index_def map_of_map_keyed)

lemma map_set_sql_index:
  "map_set d (device_of_row lib (d, r)) (map (\<lambda>(i, d). (i, device_of_row lib (i, d))) m) =
     map (\<lambda>(i, d). (i, device_of_row lib (i, d))) (map_set d r m)"
  by (induction m) auto

lemma merge_counts [simp]:
  "mergeDeviceTypeCounts m [(t, 1)] = count_inc t m" "mergeDeviceTypeCounts m [] = m"
  by (simp_all add: mergeDeviceTypeCounts_def count_inc_def)

lemma insert_agrees:
  assumes "counts_ok lib (dr_EventTypeCount (touch_device e (new_device e)))"
  shows "device_of_row lib (ve_DeviceID e, insert_device_row lib (deviceRecordFromEvent e)) =
           touch_device e (new_device e)"
  using assms
  by (cases "event_seenMS e = 0"; cases "ve_EventType e = []")
    (simp_all add: device_of_row_def insert_device_row_def deviceRecordFromEvent_def touch_device_def
      new_device_def count_inc_def counts_ok_def Let_def)

lemma update_agrees:
  assumes "counts_ok lib (dr_EventTypeCount (touch_device e (device_of_row lib (d, r))))"
    and "0 < event_seenMS e"
  shows "device_of_row lib (d, update_device_row lib (deviceRecordFromEvent e) r) =
           touch_device e (device_of_row lib (d, r))"
  using assms
  by (cases "event_seenMS e < dv_first_seen_ms r \<or> dv_first_seen_ms r = 0";
      cases "dv_last_seen_ms r \<le> event_seenMS e"; cases "ve_EventType e = []")
    (simp_all add: device_of_row_def update_device_row_def deviceRecordFromEvent_def touch_device_def
      counts_ok_def disj_commute Let_def)

text \<open>
  C21. The update of a device inside a database transaction is the update that the file store makes in
  memory, for an event seen after the epoch and counts that survive their encoding as JSON.
\<close>

theorem device_update_refines:
  assumes "0 < event_seenMS e"
    and "\<And>r. map_get (upsertDeviceRecord e (sql_index lib db)) (ve_DeviceID e) = Some r \<Longrightarrow>
           counts_ok lib (dr_EventTypeCount r)"
  shows "sql_index lib (upsertDeviceTx lib (deviceRecordFromEvent e) db) =
           upsertDeviceRecord e (sql_index lib db)"
proof (cases "ve_DeviceID e = []")
  case True
  then show ?thesis
    by (simp add: upsertDeviceTx_def upsertDeviceRecord_def deviceRecordFromEvent_def)
next
  case False
  let ?d = "ve_DeviceID e"
  have id: "dr_DeviceID (deviceRecordFromEvent e) = ?d" by (simp add: deviceRecordFromEvent_def)
  show ?thesis
  proof (cases "map_get (db_devices db) ?d")
    case None
    then have m: "map_get (sql_index lib db) ?d = None" by (simp add: map_get_sql_index)
    then have "counts_ok lib (dr_EventTypeCount (touch_device e (new_device e)))"
      using assms(2) False by (simp add: upsertDeviceRecord_def map_get_set_fun)
    from insert_agrees [OF this] show ?thesis
      using None m False id map_set_sql_index [of ?d lib "insert_device_row lib (deviceRecordFromEvent e)"]
      by (simp add: upsertDeviceTx_def upsertDeviceRecord_def sql_index_def)
  next
    case (Some r)
    then have m: "map_get (sql_index lib db) ?d = Some (device_of_row lib (?d, r))"
      by (simp add: map_get_sql_index)
    then have "counts_ok lib (dr_EventTypeCount (touch_device e (device_of_row lib (?d, r))))"
      using assms(2) False by (simp add: upsertDeviceRecord_def map_get_set_fun)
    from update_agrees [OF this assms(1)] show ?thesis
      using Some m False id map_set_sql_index [of ?d lib "update_device_row lib (deviceRecordFromEvent e) r"]
      by (simp add: upsertDeviceTx_def upsertDeviceRecord_def sql_index_def)
  qed
qed

end
