(* ===== verification/Ing_Examples.thy ===== *)
theory Ing_Examples
  imports Ing_Properties Ing_Devices
begin

text \<open>Concrete instances of the properties of the ingest service: two events, a codec for them, runs of the server.\<close>

definition ex_e1 :: visibilityEvent where
  "ex_e1 = \<lparr>ve_SchemaVersion = ''1'', ve_EventID = ''a'', ve_EventType = ''t'', ve_TimestampMS = 5,
            ve_Source = ''s'', ve_TenantID = [], ve_DeviceID = ''d'', ve_AgentID = ''g'',
            ve_SensorVersion = ''v'', ve_Sequence = 1, ve_Payload = ''{}'', ve_ReceivedAtMS = 7\<rparr>"

definition ex_e2 :: visibilityEvent where
  "ex_e2 = ex_e1\<lparr>ve_EventID := ''b'', ve_ReceivedAtMS := 9\<rparr>"

definition ex_lib :: store_json where
  "ex_lib = \<lparr>sj_event = (\<lambda>e. if e = ex_e1 then Some ''1'' else if e = ex_e2 then Some ''2'' else None),
             sj_parse = (\<lambda>l. if l = ''1'' then Some ex_e1 else if l = ''2'' then Some ex_e2 else None),
             sj_devices = (\<lambda>_. Some ''[]''), sj_parse_devices = (\<lambda>_. Some [])\<rparr>"

definition ex_sql_lib :: sql_json where
  "ex_sql_lib = \<lparr>sj_event = sj_event ex_lib, sj_parse = sj_parse ex_lib, sj_devices = sj_devices ex_lib,
                 sj_parse_devices = sj_parse_devices ex_lib,
                 sj_counts = (\<lambda>m. if m = [(''t'', 1)] then Some ''c'' else None),
                 sj_parse_counts = (\<lambda>l. if l = ''c'' then Some [(''t'', 1)] else None)\<rparr>"

definition ex_io :: file_io where
  "ex_io = \<lparr>io_cancelled = False, io_nowMS = 8, io_stamp = [], io_stat = True, io_close = True,
            io_rename = True, io_reopen = True, io_write = None, io_sync = True,
            io_index_write = True, io_index_rename = True\<rparr>"

definition ex_qio :: sql_io where
  "ex_qio = \<lparr>qi_begin = True, qi_prepare = True, qi_insert = (\<lambda>_. True), qi_device = (\<lambda>_. True),
             qi_commit = True, qi_prune = True, qi_nowMS = 8, qi_now = 0\<rparr>"

definition ex_fs :: file_store where
  "ex_fs = \<lparr>fs_disk = \<lparr>dk_file = Some [CHR ''1'', newline], dk_index = None, dk_rotated = []\<rparr>, fs_handle = FOpen,
            fs_seen = [''a''], fs_devices = [], fs_writesSinceSync = 0, fs_maxBytes = 1000\<rparr>"

definition ex_sq :: sqlite_store where
  "ex_sq = \<lparr>sq_db = \<lparr>db_events = [row_of ex_e1 ''1''], db_devices = []\<rparr>, sq_retention = 0\<rparr>"

definition ex_env :: ingest_env where
  "ex_env = \<lparr>ie_schema = (\<lambda>_. True), ie_marshal = (\<lambda>_. Some ''m''), ie_timed_out = (\<lambda>_. False),
             ie_accepted = (\<lambda>_. True)\<rparr>"

lemma ex_neq [simp]: "ex_e1 \<noteq> ex_e2" "ex_e2 \<noteq> ex_e1"
  by (simp_all add: ex_e1_def ex_e2_def)

lemma ex_stamp [simp]: "stamp n ex_e1 = ex_e1" "stamp n ex_e2 = ex_e2"
  by (simp_all add: stamp_def ex_e1_def ex_e2_def)

lemma ex_ids [simp]: "ve_EventID ex_e1 = ''a''" "ve_EventID ex_e2 = ''b''"
  by (simp_all add: ex_e1_def ex_e2_def)

lemma ex_codec [simp]: "codec_ok ex_lib ex_e1" "codec_ok ex_lib ex_e2"
  "codec_ok ex_sql_lib ex_e1" "codec_ok ex_sql_lib ex_e2"
  by (simp_all add: codec_ok_def ex_lib_def ex_sql_lib_def good_line_def maxVisibilityLineBytes_def)

lemma ex_encode [simp]: "encode_line ex_lib ex_e1 = ''1''" "encode_line ex_lib ex_e2 = ''2''"
  "encode_line ex_sql_lib ex_e1 = ''1''"
  by (simp_all add: encode_line_def ex_lib_def ex_sql_lib_def)

lemma ex_fs_inv: "file_inv ex_lib ex_fs \<and> file_log ex_lib ex_fs = [ex_e1]"
  by (rule file_invI) (simp_all add: ex_fs_def render_def log_ids_def)

lemma ex_sq_inv: "sqlite_inv ex_sql_lib ex_sq" "sqlite_log ex_sql_lib ex_sq = [ex_e1]"
  by (auto simp: sqlite_inv_def ex_sq_def rows_of_def intro!: exI [of _ "[ex_e1]"])
    (simp add: sqlite_log_def ex_sq_def row_of_def ex_sql_lib_def ex_lib_def List.map_filter_simps)

lemma ex_room: "has_room ex_fs"
  by (simp add: has_room_def ex_fs_def file_content_def)

definition ex_fs2 :: file_store where
  "ex_fs2 = snd (AppendBatch ex_lib (\<lambda>_. ex_io) [ex_e2] ex_fs)"

definition ex_sq2 :: sqlite_store where
  "ex_sq2 = snd (sqlite_AppendBatch ex_sql_lib ex_qio [ex_e2] ex_sq)"

lemmas ex_append_defs = Append_def maybeRotateLocked_def write_line_def count_write_def remember_def
  persistDevicesIndexLocked_def set_file_def file_content_def fileStoreSyncEvery_def

lemma ex_fs_append: "AppendBatch ex_lib (\<lambda>_. ex_io) [ex_e2] ex_fs = (None, ex_fs2)"
  by (simp add: ex_fs2_def ex_append_defs ex_fs_def ex_io_def ex_lib_def)

lemma ex_sq_append: "sqlite_AppendBatch ex_sql_lib ex_qio [ex_e2] ex_sq = (None, ex_sq2)"
  by (simp add: ex_sq2_def sqlite_AppendBatch_def ex_qio_def ex_sq_def ex_sql_lib_def ex_lib_def maybePrune_def
      row_of_def)

lemma ex_fs_admits: "file_admits ex_lib (\<lambda>_. ex_io) ex_fs [ex_e2]"
  by (simp add: ex_room)

lemma ex_sq_admits: "sqlite_admits ex_sql_lib ex_qio ex_sq [ex_e2]"
  by (simp add: sqlite_admits_def survives_def ex_sq_inv) (simp add: ex_sq_def)

definition ex_filter :: visibilityQueryFilter where
  "ex_filter = \<lparr>qf_EventID = [], qf_TenantID = [], qf_DeviceID = [], qf_AgentID = [], qf_EventType = [],
                qf_Limit = 1\<rparr>"


definition ex_load :: load_io where
  "ex_load = \<lparr>li_mkdir = True, li_read = True, li_read_index = True, li_open = True\<rparr>"

lemma restart_keeps_log_witness:
  "\<exists>s'. newFileVisibilityStore ex_lib ex_load [] (fs_disk ex_fs) = Inr s' \<and> file_inv ex_lib s' \<and>
     file_log ex_lib s' = [ex_e1] \<and> set (fs_seen s') = {''a''}"
  using restart_keeps_log [of ex_lib ex_fs ex_load "[]" "[]"] ex_fs_inv
  by (simp add: ex_load_def loadDevicesIndex_def ex_fs_def)

definition ex_long_lib :: store_json where
  "ex_long_lib = ex_lib\<lparr>sj_event := (\<lambda>_. Some (replicate maxVisibilityLineBytes (CHR ''x'')))\<rparr>"


definition ex_publisher :: publisher where
  "ex_publisher = \<lparr>pb_connected = True, pb_subject = ''events.raw'', pb_ready = True\<rparr>"

definition ex_server :: "file_store ingest_server" where
  "ex_server =
     \<lparr>is_dedupe = Some (newDuplicateTracker 5), is_store = Some ex_fs, is_publisher = ex_publisher,
      is_published = [], is_attempts = 0, is_EventsTotal = 0, is_EventsInvalid = 0,
      is_NatsPublishErrors = 0, is_EventsDeduped = 0\<rparr>"

definition ex_jlib :: ingest_json where
  "ex_jlib = \<lparr>ij_events = (\<lambda>_. Some [ex_e1, ex_e2]), ij_event = (\<lambda>_. None)\<rparr>"

definition ex_query :: event_query where
  "ex_query = \<lparr>eq_limit = [], eq_event_id = [], eq_tenant_id = [], eq_device_id = [], eq_agent_id = [],
               eq_event_type = []\<rparr>"

lemma ex_read: "readVisibilityEvents ex_jlib ''['' = Inr [ex_e1, ex_e2]"
  by (simp add: readVisibilityEvents_def maxVisibilityRequestBytes_def ex_jlib_def trim_space_def
      trim_left_def is_space_def)

lemma ex_server_inv: "ingest_inv 5 ex_server"
  by (simp add: ingest_inv_def ex_server_def published_ids_def spaced_def tracks_def newDuplicateTracker_def
      last_n_def)

lemma ex_toProto: "\<exists>p. toProtoEvent ex_e2 = Inr p \<and> pe_Id p = ''b''"
  by (simp add: toProtoEvent_def ex_e2_def ex_e1_def Let_def)

lemma ex_process:
  "\<exists>s'. processEvent ex_env p (ex_server\<lparr>is_EventsDeduped := n\<rparr>) = (None, s') \<and> is_store s' = Some ex_fs"
  by (auto simp: processEvent_def event_check_def event_publish_def publish_def ValidateEvent_def
      ex_env_def ex_server_def ex_publisher_def PublishEvent_def dt_has_def newDuplicateTracker_def)

lemma ex_accept:
  "\<exists>s'. accept_loop ex_env [''a''] [ex_e1, ex_e2] [] ex_server = ([ex_e2], None, s') \<and> is_store s' = Some ex_fs"
proof -
  obtain p where p: "toProtoEvent ex_e2 = Inr p" using ex_toProto by blast
  obtain s' where "processEvent ex_env p (ex_server\<lparr>is_EventsDeduped := Suc 0\<rparr>) = (None, s')" "is_store s' = Some ex_fs"
    using ex_process by blast
  moreover have "is_EventsDeduped ex_server = 0" by (simp add: ex_server_def)
  ultimately show ?thesis using p by simp
qed

lemma ex_handle:
  "\<exists>s'. handleVisibilityEvents (file_ops ex_lib False True (\<lambda>_. ex_io)) ex_env ex_jlib POST ex_query ''['' ex_server
     = (RAccepted 1, s')"
proof -
  let ?ops = "file_ops ex_lib False True (\<lambda>_. ex_io)"
  obtain s1 where s1: "accept_loop ex_env [''a''] [ex_e1, ex_e2] [] ex_server = ([ex_e2], None, s1)" "is_store s1 = Some ex_fs"
    using ex_accept by blast
  have "HasMany ?ops (is_store ex_server) [''a'', ''b''] = Inr [''a'']"
    by (simp add: HasMany_def ex_server_def file_ops_def Has_def ex_fs_def)
  moreover have "so_AppendBatch ?ops [ex_e2] ex_fs = (None, ex_fs2)"
    using ex_fs_append by (simp add: file_ops_def)
  ultimately show ?thesis
    using s1 by (simp add: handleVisibilityEvents_def ex_read ingestVisibilityEvents_def del: accept_loop.simps)
qed


text \<open>A tracker that remembers one event: the events a, b and a again are all published.\<close>

definition ex_proto :: "string \<Rightarrow> proto_event" where
  "ex_proto i = \<lparr>pe_Id = i, pe_Type = ''t'', pe_Source = ''s'', pe_Timestamp = 5, pe_Metadata = [],
                 pe_Payload = ''{}''\<rparr>"

definition ex_start :: "file_store ingest_server" where
  "ex_start = ex_server\<lparr>is_dedupe := Some (newDuplicateTracker 1)\<rparr>"

definition ex_stream :: "file_store ingest_server" where
  "ex_stream = snd (PostEvents ex_env
     [Received (ex_proto ''a''), Received (ex_proto ''b''), Received (ex_proto ''a''), EndOfStream] ex_start)"

lemma ex_limit: "ingestDedupeLimitFromEnv ''1'' = 1"
  by (simp add: ingestDedupeLimitFromEnv_def positive_or_def trim_space_def trim_left_def is_space_def
      atoi_def digits_value_def)

lemma ex_start_init: "ing_init 1 ex_start"
  unfolding ing_init_def
  by (rule exI [of _ True], rule exI [of _ True], rule exI [of _ "Inr ex_fs"], rule exI [of _ "''1''"])
    (simp add: ex_limit NewIngestServer_def NewPublisher_def ex_start_def ex_server_def ex_publisher_def)

lemma ex_stream_ids: "published_ids ex_stream = [''a'', ''b'', ''a'']"
  by (simp add: ex_stream_def processEvent_def event_check_def event_publish_def publish_def ValidateEvent_def
      ex_env_def ex_start_def ex_server_def ex_publisher_def PublishEvent_def dt_has_def dt_add_def
      newDuplicateTracker_def ex_proto_def published_ids_def)

lemma ex_stream_reach: "reach (ing_init 1) ing_step ex_stream"
proof -
  have "ing_step ex_start ex_stream"
    unfolding ex_stream_def by (rule ing_step.grpc) (rule prod.collapse [symmetric])
  then show ?thesis
    by (metis ex_start_init reach.intros)
qed

theorem publication_window_witness:
  "published_ids ex_stream ! 0 = published_ids ex_stream ! 2 \<and> (1 :: nat) < 2 - 0"
  using publication_window [OF ex_stream_reach, of 0 2] by (simp add: ex_stream_ids)

lemma device_index_correct_witness:
  "case map_get (index_of [ex_e1, ex_e2]) ''d'' of
     None \<Rightarrow> False | Some r \<Rightarrow> describes r [ex_e1, ex_e2]"
proof -
  have "device_events ''d'' [ex_e1, ex_e2] = [ex_e1, ex_e2]"
    by (simp add: device_events_def ex_e1_def ex_e2_def)
  then show ?thesis
    using device_index_correct [of "''d''" "[ex_e1, ex_e2]"] by (simp split: option.splits)
qed

theorem device_update_refines_witness:
  "sql_index ex_sql_lib (upsertDeviceTx ex_sql_lib (deviceRecordFromEvent ex_e1) (sq_db ex_sq)) =
     upsertDeviceRecord ex_e1 []"
proof -
  have empty: "sql_index ex_sql_lib (sq_db ex_sq) = []" by (simp add: sql_index_def ex_sq_def)
  have "dr_EventTypeCount (touch_device ex_e1 (new_device ex_e1)) = [(''t'', 1)]"
    by (simp add: touch_device_def new_device_def ex_e1_def event_seenMS_def count_inc_def)
  moreover have "counts_ok ex_sql_lib [(''t'', 1)]"
    by (simp add: counts_ok_def deviceTypeCountsJSON_def parseDeviceTypeCountsJSON_def ex_sql_lib_def
        trim_space_def trim_left_def is_space_def)
  moreover have "0 < event_seenMS ex_e1" by (simp add: event_seenMS_def ex_e1_def)
  moreover have "upsertDeviceRecord ex_e1 [] = [(ve_DeviceID ex_e1, touch_device ex_e1 (new_device ex_e1))]"
    by (simp add: upsertDeviceRecord_def) (simp add: ex_e1_def)
  ultimately show ?thesis
    using device_update_refines [of ex_e1 ex_sql_lib "sq_db ex_sq"] unfolding empty by simp
qed

end
