(* ===== verification/Common_Budget.thy ===== *)
theory Common_Budget
  imports Prelude
begin

text \<open>
  Budgets for calls of language models and the routing of roles to clients: \<open>budget.go\<close> and \<open>router.go\<close> under
  \<open>src/backend/common/agents\<close>. The formatting of times is a parameter; costs are rationals, and the limit is a float, as
  the environment can set it to an infinity or to NaN.
\<close>

section \<open>The budget manager\<close>

record token_cost =
  tc_InputTokens :: rat
  tc_OutputTokens :: rat

record budget_manager =
  bm_maxCostPerHour :: float64
  bm_rateLimitRPM :: int
  bm_tokenCosts :: "(string, token_cost) gomap"
  bm_hourlyCosts :: "(string, rat) gomap"
  bm_requestCounts :: "(string, int) gomap"
  bm_currentHour :: string
  bm_currentMinute :: string

datatype budget_error = BudgetExceeded | RateLimitExceeded

text \<open>The layouts of an hour and of a minute, which the code passes to \<open>Format\<close>.\<close>

record clock_format =
  cf_hour :: "time \<Rightarrow> string"
  cf_minute :: "time \<Rightarrow> string"

definition bm_loadConfig :: "(string \<Rightarrow> float64 option) \<Rightarrow> string \<Rightarrow> string \<Rightarrow> budget_manager \<Rightarrow> string + budget_manager" where
  "bm_loadConfig parseFloat maxCostStr rpmStr bm =
     (case (if maxCostStr \<noteq> [] then parseFloat maxCostStr else Some (Fin 10)) of
        None \<Rightarrow> Inl ''invalid AGENT_MAX_COST_USD_PER_HOUR''
      | Some maxCost \<Rightarrow>
          (case (if rpmStr \<noteq> [] then atoi rpmStr else Some 100) of
             None \<Rightarrow> Inl ''invalid AGENT_RATE_RPM''
           | Some rpm \<Rightarrow> Inr (bm\<lparr>bm_maxCostPerHour := maxCost, bm_rateLimitRPM := rpm\<rparr>)))"

definition initializeDefaultCosts :: "budget_manager \<Rightarrow> budget_manager" where
  "initializeDefaultCosts bm =
     bm\<lparr>bm_tokenCosts := fold (\<lambda>(k, c). map_set k c)
       [(''openai:gpt-4'', \<lparr>tc_InputTokens = 3 / 100, tc_OutputTokens = 6 / 100\<rparr>),
        (''openai:gpt-4-turbo'', \<lparr>tc_InputTokens = 1 / 100, tc_OutputTokens = 3 / 100\<rparr>),
        (''openai:gpt-3.5-turbo'', \<lparr>tc_InputTokens = 15 / 10000, tc_OutputTokens = 2 / 1000\<rparr>),
        (''local:llama2'', \<lparr>tc_InputTokens = 0, tc_OutputTokens = 0\<rparr>),
        (''local:codellama'', \<lparr>tc_InputTokens = 0, tc_OutputTokens = 0\<rparr>),
        (''local:mistral'', \<lparr>tc_InputTokens = 0, tc_OutputTokens = 0\<rparr>)] (bm_tokenCosts bm)\<rparr>"

definition updateTimeWindows :: "clock_format \<Rightarrow> time \<Rightarrow> budget_manager \<Rightarrow> budget_manager" where
  "updateTimeWindows cf now bm =
     bm\<lparr>bm_currentHour := cf_hour cf now, bm_currentMinute := cf_minute cf now\<rparr>"

definition NewBudgetManager :: "clock_format \<Rightarrow> (string \<Rightarrow> float64 option) \<Rightarrow> string \<Rightarrow> string \<Rightarrow> time \<Rightarrow> string + budget_manager" where
  "NewBudgetManager cf parseFloat maxCostStr rpmStr now =
     (case bm_loadConfig parseFloat maxCostStr rpmStr
         \<lparr>bm_maxCostPerHour = Fin 0, bm_rateLimitRPM = 0, bm_tokenCosts = [], bm_hourlyCosts = [],
          bm_requestCounts = [], bm_currentHour = [], bm_currentMinute = []\<rparr> of
        Inl err \<Rightarrow> Inl err
      | Inr bm \<Rightarrow> Inr (updateTimeWindows cf now (initializeDefaultCosts bm)))"

definition map_val :: "'v \<Rightarrow> (string, 'v) gomap \<Rightarrow> string \<Rightarrow> 'v" where
  "map_val d m k = (case map_get m k of None \<Rightarrow> d | Some v \<Rightarrow> v)"

definition cost_key :: "string \<Rightarrow> string \<Rightarrow> string" where
  "cost_key provider model = provider @ '':'' @ model"

definition estimateCost :: "string \<Rightarrow> string \<Rightarrow> int \<Rightarrow> int \<Rightarrow> budget_manager \<Rightarrow> rat" where
  "estimateCost provider model inputTokens outputTokens bm =
     (let cost = (case map_get (bm_tokenCosts bm) (cost_key provider model) of
                    None \<Rightarrow> \<lparr>tc_InputTokens = 1 / 100, tc_OutputTokens = 2 / 100\<rparr>
                  | Some c \<Rightarrow> c)
      in (of_int inputTokens / 1000) * tc_InputTokens cost +
         (of_int outputTokens / 1000) * tc_OutputTokens cost)"

definition checkRateLimit :: "budget_manager \<Rightarrow> budget_error option" where
  "checkRateLimit bm =
     (if map_val 0 (bm_requestCounts bm) (bm_currentMinute bm) \<ge> bm_rateLimitRPM bm
      then Some RateLimitExceeded else None)"

definition checkCostBudget :: "rat \<Rightarrow> budget_manager \<Rightarrow> budget_error option" where
  "checkCostBudget cost bm =
     (if cost = 0 then None
      else if f_greater (Fin (map_val 0 (bm_hourlyCosts bm) (bm_currentHour bm) + cost)) (bm_maxCostPerHour bm)
      then Some BudgetExceeded
      else None)"

definition recordRequest :: "rat \<Rightarrow> budget_manager \<Rightarrow> budget_manager" where
  "recordRequest cost bm =
     (let m = bm_currentMinute bm; h = bm_currentHour bm;
          bm1 = bm\<lparr>bm_requestCounts := map_set m (map_val 0 (bm_requestCounts bm) m + 1) (bm_requestCounts bm)\<rparr>
      in if cost > 0
         then bm1\<lparr>bm_hourlyCosts := map_set h (map_val 0 (bm_hourlyCosts bm1) h + cost) (bm_hourlyCosts bm1)\<rparr>
         else bm1)"

definition CheckBudget :: "clock_format \<Rightarrow> time \<Rightarrow> string \<Rightarrow> string \<Rightarrow> int \<Rightarrow> int \<Rightarrow> budget_manager \<Rightarrow> budget_error option \<times> budget_manager" where
  "CheckBudget cf now provider model inputTokens outputTokens bm0 =
     (let bm = updateTimeWindows cf now bm0;
          cost = estimateCost provider model inputTokens outputTokens bm
      in case checkRateLimit bm of
           Some e \<Rightarrow> (Some e, bm)
         | None \<Rightarrow>
             (case checkCostBudget cost bm of
                Some e \<Rightarrow> (Some e, bm)
              | None \<Rightarrow> (None, recordRequest cost bm)))"

definition hours :: "int \<Rightarrow> duration" where
  "hours n = n * 3600000000000"

definition cleanup :: "clock_format \<Rightarrow> time \<Rightarrow> budget_manager \<Rightarrow> budget_manager" where
  "cleanup cf now bm =
     (let cutoffHour = cf_hour cf (time_add now (- hours 24));
          cutoffMinute = cf_minute cf (time_add now (- hours 1))
      in bm\<lparr>bm_hourlyCosts := filter (\<lambda>(h, c). \<not> h < cutoffHour) (bm_hourlyCosts bm),
            bm_requestCounts := filter (\<lambda>(m, c). \<not> m < cutoffMinute) (bm_requestCounts bm)\<rparr>)"

record budget_stats =
  bs_max_cost_per_hour :: float64
  bs_rate_limit_rpm :: int
  bs_current_hour_cost :: rat
  bs_current_minute_requests :: int

text \<open>\<open>GetStats\<close> holds the read lock only, but moves the windows too. The two ratios it reports are left out.\<close>

definition GetStats :: "clock_format \<Rightarrow> time \<Rightarrow> budget_manager \<Rightarrow> budget_stats \<times> budget_manager" where
  "GetStats cf now bm0 =
     (let bm = updateTimeWindows cf now bm0
      in (\<lparr>bs_max_cost_per_hour = bm_maxCostPerHour bm, bs_rate_limit_rpm = bm_rateLimitRPM bm,
           bs_current_hour_cost = map_val 0 (bm_hourlyCosts bm) (bm_currentHour bm),
           bs_current_minute_requests = map_val 0 (bm_requestCounts bm) (bm_currentMinute bm)\<rparr>, bm))"

definition SetTokenCost :: "string \<Rightarrow> string \<Rightarrow> token_cost \<Rightarrow> budget_manager \<Rightarrow> budget_manager" where
  "SetTokenCost provider model c bm =
     bm\<lparr>bm_tokenCosts := map_set (cost_key provider model) c (bm_tokenCosts bm)\<rparr>"

section \<open>The router\<close>

record provider_config =
  pc_Provider :: string
  pc_APIKey :: string
  pc_BaseURL :: string
  pc_MaxTokens :: int
  pc_Temperature :: float64
  pc_Model :: string

record role_config =
  rc_Role :: string
  rc_Provider :: string
  rc_MaxTokens :: int
  rc_Temperature :: float64
  rc_Providers :: "provider_config list"

datatype llm_client =
    OpenAIClient (oc_apiKey: string) (cl_model: string) (cl_maxTokens: int) (cl_temperature: float64)
  | LocalClient (lc_baseURL: string) (cl_model: string) (cl_maxTokens: int) (cl_temperature: float64)

record router =
  rt_config :: "role_config list"
  rt_clients :: "(string, llm_client) gomap"
  rt_providers :: "(string, provider_config) gomap"

definition default_role :: "string \<Rightarrow> int \<Rightarrow> rat \<Rightarrow> string \<Rightarrow> role_config" where
  "default_role role maxTokens temperature model =
     \<lparr>rc_Role = role, rc_Provider = ''openai'', rc_MaxTokens = maxTokens, rc_Temperature = Fin temperature,
      rc_Providers =
        [\<lparr>pc_Provider = ''openai'', pc_APIKey = [], pc_BaseURL = [], pc_MaxTokens = maxTokens,
          pc_Temperature = Fin temperature, pc_Model = model\<rparr>,
         \<lparr>pc_Provider = ''local'', pc_APIKey = [], pc_BaseURL = ''http://localhost:11434'',
          pc_MaxTokens = maxTokens, pc_Temperature = Fin temperature, pc_Model = []\<rparr>]\<rparr>"

definition getDefaultConfig :: "role_config list" where
  "getDefaultConfig =
     [default_role ''planner'' 4000 (7 / 10) ''gpt-4'',
      default_role ''explainer'' 2000 (5 / 10) ''gpt-3.5-turbo'',
      default_role ''policy-writer'' 3000 (3 / 10) ''gpt-4'',
      default_role ''segmenter'' 1500 (4 / 10) ''gpt-3.5-turbo'']"

definition rt_loadConfig :: "(string \<Rightarrow> string option) \<Rightarrow> (string \<Rightarrow> role_config list option) \<Rightarrow> string \<Rightarrow> string + role_config list" where
  "rt_loadConfig readFile parse configPath =
     (if configPath = [] then Inr getDefaultConfig
      else case readFile configPath of
        None \<Rightarrow> Inl ''failed to read config file''
      | Some dat \<Rightarrow> (case parse dat of None \<Rightarrow> Inl ''failed to parse config file'' | Some c \<Rightarrow> Inr c))"

definition createOpenAIClient :: "string \<Rightarrow> provider_config \<Rightarrow> role_config \<Rightarrow> string + llm_client" where
  "createOpenAIClient apiKey provider role =
     (if apiKey = [] then Inl ''OPENAI_API_KEY environment variable not set''
      else Inr (OpenAIClient apiKey (pc_Model provider) (rc_MaxTokens role) (rc_Temperature role)))"

definition createLocalClient :: "provider_config \<Rightarrow> role_config \<Rightarrow> string + llm_client" where
  "createLocalClient provider role =
     (let baseURL = (if pc_BaseURL provider = [] then ''http://localhost:11434'' else pc_BaseURL provider)
      in Inr (LocalClient baseURL (pc_Model provider) (rc_MaxTokens role) (rc_Temperature role)))"

definition createClient :: "string \<Rightarrow> provider_config \<Rightarrow> role_config \<Rightarrow> string + llm_client" where
  "createClient apiKey provider role =
     (if pc_Provider provider = ''openai'' then createOpenAIClient apiKey provider role
      else if pc_Provider provider = ''local'' then createLocalClient provider role
      else Inl (''unsupported provider: '' @ pc_Provider provider))"

definition client_key :: "string \<Rightarrow> string \<Rightarrow> string" where
  "client_key role provider = role @ '':'' @ provider"

definition add_provider :: "string \<Rightarrow> role_config \<Rightarrow> provider_config \<Rightarrow> router \<Rightarrow> router" where
  "add_provider apiKey role provider r =
     (let r1 = r\<lparr>rt_providers := map_set (pc_Provider provider) provider (rt_providers r)\<rparr>
      in case createClient apiKey provider role of
           Inl err \<Rightarrow> r1
         | Inr c \<Rightarrow> r1\<lparr>rt_clients := map_set (client_key (rc_Role role) (pc_Provider provider)) c (rt_clients r1)\<rparr>)"

definition add_role :: "string \<Rightarrow> role_config \<Rightarrow> router \<Rightarrow> router" where
  "add_role apiKey role r = fold (add_provider apiKey role) (rc_Providers role) r"

definition initializeProviders :: "string \<Rightarrow> router \<Rightarrow> string + router" where
  "initializeProviders apiKey r =
     (let r1 = fold (add_role apiKey) (rt_config r) r
      in if rt_clients r1 = [] then Inl ''no clients could be initialized - check your configuration and API keys''
         else Inr r1)"

definition NewRouter :: "(string \<Rightarrow> string option) \<Rightarrow> (string \<Rightarrow> role_config list option) \<Rightarrow> string \<Rightarrow> string \<Rightarrow> string + router" where
  "NewRouter readFile parse configPath apiKey =
     (case rt_loadConfig readFile parse configPath of
        Inl err \<Rightarrow> Inl err
      | Inr c \<Rightarrow> initializeProviders apiKey \<lparr>rt_config = c, rt_clients = [], rt_providers = []\<rparr>)"

fun first_client :: "(string, llm_client) gomap \<Rightarrow> string \<Rightarrow> string list \<Rightarrow> llm_client option" where
  "first_client cs role [] = None"
| "first_client cs role (p # ps) =
     (case map_get cs (client_key role p) of Some c \<Rightarrow> Some c | None \<Rightarrow> first_client cs role ps)"

definition GetRoleConfig :: "string \<Rightarrow> router \<Rightarrow> string + role_config" where
  "GetRoleConfig role r =
     (case List.find (\<lambda>c. rc_Role c = role) (rt_config r) of
        None \<Rightarrow> Inl (''role not found: '' @ role)
      | Some c \<Rightarrow> Inr c)"

definition ClientFor :: "string \<Rightarrow> router \<Rightarrow> string + llm_client" where
  "ClientFor role r =
     (case GetRoleConfig role r of
        Inl err \<Rightarrow> Inl err
      | Inr c \<Rightarrow>
          (case map_get (rt_clients r) (client_key role (rc_Provider c)) of
             Some cl \<Rightarrow> Inr cl
           | None \<Rightarrow>
               (case first_client (rt_clients r) role (map pc_Provider (rc_Providers c)) of
                  Some cl \<Rightarrow> Inr cl
                | None \<Rightarrow> Inl (''no client available for role: '' @ role))))"

definition GetAvailableRoles :: "router \<Rightarrow> string list" where
  "GetAvailableRoles r = map rc_Role (rt_config r)"

end
