(* ===== verification/Common_Properties.thy ===== *)
theory Common_Properties
  imports Common_Budget
begin

text \<open>
  What the budget manager and the router guarantee. The budget manager is a transition system over its
  operations at times that do not decrease, with a log of the accepted requests: the cost that was
  accepted in an hour stays within the limit although the tables are cleaned up. The router
  finds a client for a role exactly if one of the role's providers could be set up.
\<close>

section \<open>Budgets\<close>

record accepted =
  ac_hour :: string
  ac_minute :: string
  ac_cost :: rat

record budget_sys =
  bs_bm :: budget_manager
  bs_last :: time
  bs_log :: "accepted list"

definition spent :: "string \<Rightarrow> accepted list \<Rightarrow> rat" where
  "spent h L = sum_list (map ac_cost (filter (\<lambda>a. ac_hour a = h \<and> ac_cost a > 0) L))"

definition requests :: "string \<Rightarrow> accepted list \<Rightarrow> int" where
  "requests m L = int (length (filter (\<lambda>a. ac_minute a = m) L))"

inductive budget_step :: "clock_format \<Rightarrow> budget_sys \<Rightarrow> budget_sys \<Rightarrow> bool" for cf where
  accept: "bs_last s \<le> now \<Longrightarrow> CheckBudget cf now p m i out (bs_bm s) = (None, bm') \<Longrightarrow>
     budget_step cf s \<lparr>bs_bm = bm', bs_last = now, bs_log = bs_log s @
       [\<lparr>ac_hour = cf_hour cf now, ac_minute = cf_minute cf now,
         ac_cost = estimateCost p m i out (bs_bm s)\<rparr>]\<rparr>"
| refuse: "bs_last s \<le> now \<Longrightarrow> CheckBudget cf now p m i out (bs_bm s) = (Some e, bm') \<Longrightarrow>
     budget_step cf s (s\<lparr>bs_bm := bm', bs_last := now\<rparr>)"
| clean: "bs_last s \<le> now \<Longrightarrow> budget_step cf s (s\<lparr>bs_bm := cleanup cf now (bs_bm s), bs_last := now\<rparr>)"
| stats: "bs_last s \<le> now \<Longrightarrow> GetStats cf now (bs_bm s) = (r, bm') \<Longrightarrow>
     budget_step cf s (s\<lparr>bs_bm := bm', bs_last := now\<rparr>)"
| set_cost: "budget_step cf s (s\<lparr>bs_bm := SetTokenCost p m c (bs_bm s)\<rparr>)"

definition budget_init :: "clock_format \<Rightarrow> budget_sys \<Rightarrow> bool" where
  "budget_init cf s \<longleftrightarrow>
     (\<exists>parseFloat maxCostStr rpmStr. NewBudgetManager cf parseFloat maxCostStr rpmStr (bs_last s) = Inr (bs_bm s)) \<and>
     bs_log s = []"

text \<open>Later times have later (or equal) names.\<close>

definition clock_ok :: "clock_format \<Rightarrow> bool" where
  "clock_ok cf \<longleftrightarrow> mono (cf_hour cf) \<and> mono (cf_minute cf)"

text \<open>A table agrees with the log, except for old entries that were deleted.\<close>

definition table_ok :: "string \<Rightarrow> (string \<Rightarrow> 'v::zero) \<Rightarrow> (string, 'v) gomap \<Rightarrow> bool" where
  "table_ok current tot m \<longleftrightarrow>
     (\<forall>k v. map_of m k = Some v \<longrightarrow> v = tot k) \<and>
     (\<forall>k. map_of m k = None \<longrightarrow> tot k = 0 \<or> k < current)"

definition budget_inv :: "clock_format \<Rightarrow> budget_sys \<Rightarrow> bool" where
  "budget_inv cf s \<longleftrightarrow>
     table_ok (cf_hour cf (bs_last s)) (\<lambda>h. spent h (bs_log s)) (bm_hourlyCosts (bs_bm s)) \<and>
     table_ok (cf_minute cf (bs_last s)) (\<lambda>m. requests m (bs_log s)) (bm_requestCounts (bs_bm s)) \<and>
     (\<forall>h. spent h (bs_log s) = 0 \<or> \<not> f_greater (Fin (spent h (bs_log s))) (bm_maxCostPerHour (bs_bm s))) \<and>
     (\<forall>m. requests m (bs_log s) = 0 \<or> requests m (bs_log s) \<le> bm_rateLimitRPM (bs_bm s))"

lemma table_ok_val: "table_ok k tot m \<Longrightarrow> map_val 0 m k = tot k"
  by (cases "map_of m k") (auto simp: table_ok_def map_val_def)

lemma table_ok_mono: "table_ok k tot m \<Longrightarrow> k \<le> k' \<Longrightarrow> table_ok k' tot m"
  unfolding table_ok_def by (meson less_le_trans)

lemma table_ok_set:
  "table_ok k tot m \<Longrightarrow> (\<And>j. tot' j = (if j = k then v else tot j)) \<Longrightarrow> table_ok k tot' (map_set k v m)"
  unfolding table_ok_def map_get_set_fun by (auto split: if_splits)

lemma table_ok_filter:
  assumes "table_ok k tot m" and "c \<le> k"
  shows "table_ok k tot (filter (\<lambda>(j, v). \<not> j < c) m)"
proof -
  have "map_of (filter (\<lambda>(j, v). \<not> j < c) m) j = (if j < c then None else map_of m j)" for j
    by (induction m) auto
  then show ?thesis
    using assms by (auto simp: table_ok_def split: if_splits)
qed

lemma spent_snoc:
  "spent h (L @ [a]) = (if h = ac_hour a \<and> ac_cost a > 0 then spent h L + ac_cost a else spent h L)"
  by (auto simp: spent_def)

lemma requests_snoc: "requests m (L @ [a]) = (if m = ac_minute a then requests m L + 1 else requests m L)"
  by (auto simp: requests_def)

lemma estimate_windows [simp]:
  "estimateCost p m i out (updateTimeWindows cf now bm) = estimateCost p m i out bm"
  by (simp add: estimateCost_def updateTimeWindows_def)

lemma window_fields [simp]:
  "bm_requestCounts (updateTimeWindows cf now bm) = bm_requestCounts bm"
  "bm_hourlyCosts (updateTimeWindows cf now bm) = bm_hourlyCosts bm"
  "bm_maxCostPerHour (updateTimeWindows cf now bm) = bm_maxCostPerHour bm"
  "bm_rateLimitRPM (updateTimeWindows cf now bm) = bm_rateLimitRPM bm"
  "bm_currentHour (updateTimeWindows cf now bm) = cf_hour cf now"
  "bm_currentMinute (updateTimeWindows cf now bm) = cf_minute cf now"
  by (simp_all add: updateTimeWindows_def)

lemma CheckBudget_refused:
  "CheckBudget cf now p m i out bm = (Some e, bm') \<Longrightarrow> bm' = updateTimeWindows cf now bm"
  by (auto simp: CheckBudget_def Let_def split: option.splits)

lemma CheckBudget_accepted:
  assumes "CheckBudget cf now p m i out bm = (None, bm')"
  shows "bm' = recordRequest (estimateCost p m i out bm) (updateTimeWindows cf now bm)"
    and "map_val 0 (bm_requestCounts bm) (cf_minute cf now) < bm_rateLimitRPM bm"
    and "estimateCost p m i out bm = 0 \<or>
      \<not> f_greater (Fin (map_val 0 (bm_hourlyCosts bm) (cf_hour cf now) + estimateCost p m i out bm))
          (bm_maxCostPerHour bm)"
  using assms
  by (auto simp: CheckBudget_def Let_def checkRateLimit_def checkCostBudget_def
      split: option.splits if_splits)

lemma budget_inv_accept:
  assumes inv: "budget_inv cf s" and clk: "clock_ok cf" and t: "bs_last s \<le> now"
    and acc: "CheckBudget cf now p m i out (bs_bm s) = (None, bm')"
  shows "budget_inv cf \<lparr>bs_bm = bm', bs_last = now, bs_log = bs_log s @
       [\<lparr>ac_hour = cf_hour cf now, ac_minute = cf_minute cf now,
         ac_cost = estimateCost p m i out (bs_bm s)\<rparr>]\<rparr>" (is "budget_inv cf ?s'")
proof -
  let ?h = "cf_hour cf now" and ?m = "cf_minute cf now" and ?c = "estimateCost p m i out (bs_bm s)"
  note bm' = CheckBudget_accepted [OF acc]
  have le: "cf_hour cf (bs_last s) \<le> ?h" "cf_minute cf (bs_last s) \<le> ?m"
    using clk t by (auto simp: clock_ok_def dest: monoD)
  have th: "table_ok ?h (\<lambda>h. spent h (bs_log s)) (bm_hourlyCosts (bs_bm s))"
    and tm: "table_ok ?m (\<lambda>m. requests m (bs_log s)) (bm_requestCounts (bs_bm s))"
    using inv le by (auto simp: budget_inv_def intro: table_ok_mono)
  note vh = table_ok_val [OF th] and vm = table_ok_val [OF tm]
  have hc: "bm_hourlyCosts bm' =
      (if ?c > 0 then map_set ?h (spent ?h (bs_log s) + ?c) (bm_hourlyCosts (bs_bm s)) else bm_hourlyCosts (bs_bm s))"
    and rc: "bm_requestCounts bm' = map_set ?m (requests ?m (bs_log s) + 1) (bm_requestCounts (bs_bm s))"
    and lim: "bm_maxCostPerHour bm' = bm_maxCostPerHour (bs_bm s)" "bm_rateLimitRPM bm' = bm_rateLimitRPM (bs_bm s)"
    using vh vm by (simp_all add: bm'(1) recordRequest_def Let_def)
  have "table_ok ?h (\<lambda>h. spent h (bs_log ?s')) (bm_hourlyCosts bm')"
    unfolding hc using th by (auto simp: spent_snoc intro: table_ok_set)
  moreover have "table_ok ?m (\<lambda>m. requests m (bs_log ?s')) (bm_requestCounts bm')"
    unfolding rc using tm by (auto simp: requests_snoc intro: table_ok_set)
  moreover have "spent h (bs_log ?s') = 0 \<or> \<not> f_greater (Fin (spent h (bs_log ?s'))) (bm_maxCostPerHour bm')" for h
    using inv bm'(3) vh lim by (auto simp: spent_snoc budget_inv_def)
  moreover have "requests k (bs_log ?s') = 0 \<or> requests k (bs_log ?s') \<le> bm_rateLimitRPM bm'" for k
    using inv bm'(2) vm lim by (auto simp: requests_snoc budget_inv_def)
  ultimately show ?thesis by (simp add: budget_inv_def)
qed

text \<open>Steps that accept nothing only move time on or delete old entries.\<close>

lemma budget_inv_idle:
  assumes inv: "budget_inv cf s" and clk: "clock_ok cf" and t: "bs_last s \<le> now"
    and bm: "bm_hourlyCosts bm' \<in> {bm_hourlyCosts (bs_bm s), bm_hourlyCosts (cleanup cf now (bs_bm s))}"
      "bm_requestCounts bm' \<in> {bm_requestCounts (bs_bm s), bm_requestCounts (cleanup cf now (bs_bm s))}"
      "bm_maxCostPerHour bm' = bm_maxCostPerHour (bs_bm s)" "bm_rateLimitRPM bm' = bm_rateLimitRPM (bs_bm s)"
  shows "budget_inv cf (s\<lparr>bs_bm := bm', bs_last := now\<rparr>)"
proof -
  have le: "cf_hour cf (bs_last s) \<le> cf_hour cf now" "cf_minute cf (bs_last s) \<le> cf_minute cf now"
    and past: "cf_hour cf (time_add now (- hours 24)) \<le> cf_hour cf now"
      "cf_minute cf (time_add now (- hours 1)) \<le> cf_minute cf now"
    using clk t by (auto simp: clock_ok_def time_add_def hours_def intro: monoD)
  have th: "table_ok (cf_hour cf now) (\<lambda>h. spent h (bs_log s)) (bm_hourlyCosts (bs_bm s))"
    and tm: "table_ok (cf_minute cf now) (\<lambda>m. requests m (bs_log s)) (bm_requestCounts (bs_bm s))"
    using inv le by (auto simp: budget_inv_def intro: table_ok_mono)
  have "table_ok (cf_hour cf now) (\<lambda>h. spent h (bs_log s)) (bm_hourlyCosts bm')"
    using bm(1) th table_ok_filter [OF th past(1)] by (auto simp: cleanup_def Let_def)
  moreover have "table_ok (cf_minute cf now) (\<lambda>m. requests m (bs_log s)) (bm_requestCounts bm')"
    using bm(2) tm table_ok_filter [OF tm past(2)] by (auto simp: cleanup_def Let_def)
  ultimately show ?thesis using inv bm(3,4) by (simp add: budget_inv_def)
qed

lemma budget_inv_step: "clock_ok cf \<Longrightarrow> budget_inv cf s \<Longrightarrow> budget_step cf s t \<Longrightarrow> budget_inv cf t"
proof (erule budget_step.cases, goal_cases)
  case (1 s now p m i out bm')
  then show ?case by (auto intro: budget_inv_accept)
next
  case (2 s now p m i out e bm')
  then show ?case
    by (auto dest!: CheckBudget_refused intro!: budget_inv_idle)
next
  case (3 s now)
  then show ?case by (auto intro!: budget_inv_idle) (simp_all add: cleanup_def Let_def)
next
  case (4 s now r bm')
  then show ?case by (auto simp: GetStats_def Let_def intro!: budget_inv_idle)
next
  case (5 s p m c)
  then show ?case by (simp add: budget_inv_def SetTokenCost_def)
qed

lemma NewBudgetManager_empty:
  "NewBudgetManager cf parseFloat c r now = Inr bm \<Longrightarrow> bm_hourlyCosts bm = [] \<and> bm_requestCounts bm = []"
  by (auto simp: NewBudgetManager_def bm_loadConfig_def initializeDefaultCosts_def
      split: sum.splits option.splits)

lemma budget_init_inv: "budget_init cf s \<Longrightarrow> budget_inv cf s"
  by (auto simp: budget_init_def budget_inv_def table_ok_def spent_def requests_def dest: NewBudgetManager_empty)

text \<open>The system on the clocks whose names of hours and minutes grow with time.\<close>

interpretation budgetsys: inductive_invariant "budget_init cf" "\<lambda>s t. clock_ok cf \<and> budget_step cf s t" "budget_inv cf" for cf
  by unfold_locales (auto intro: budget_init_inv budget_inv_step)

text \<open>
  C24. Whatever requests are made and whenever the tables are cleaned up, the cost accepted within one
  hour does not exceed the limit, and neither does the number of requests within one minute.
\<close>

theorem budget_respected:
  assumes "reach (budget_init cf) (\<lambda>s t. clock_ok cf \<and> budget_step cf s t) s"
    and "bm_maxCostPerHour (bs_bm s) = Fin limit" and "0 \<le> limit" and "0 \<le> bm_rateLimitRPM (bs_bm s)"
  shows "spent h (bs_log s) \<le> limit \<and> requests m (bs_log s) \<le> bm_rateLimitRPM (bs_bm s)"
proof -
  have "spent h (bs_log s) = 0 \<or> \<not> limit < spent h (bs_log s)"
    and "requests m (bs_log s) = 0 \<or> requests m (bs_log s) \<le> bm_rateLimitRPM (bs_bm s)"
    using budgetsys.reach_inv [OF assms(1)] assms(2) by (auto simp: budget_inv_def f_greater_def)
  then show ?thesis using assms(3,4) by auto
qed

text \<open>A limit that is not a number is no limit.\<close>

lemma NaN_disables_budget: "bm_maxCostPerHour bm = NaN \<Longrightarrow> checkCostBudget cost bm = None"
  by (simp add: checkCostBudget_def f_greater_def)

section \<open>Routing\<close>

definition supported :: "string \<Rightarrow> provider_config \<Rightarrow> bool" where
  "supported apiKey p \<longleftrightarrow>
     pc_Provider p = ''local'' \<or> pc_Provider p = ''openai'' \<and> apiKey \<noteq> []"

lemma createClient_supported: "(\<exists>c. createClient apiKey p role = Inr c) \<longleftrightarrow> supported apiKey p"
  by (auto simp: createClient_def createOpenAIClient_def createLocalClient_def supported_def Let_def)

text \<open>The clients that a router has are those of the supported providers of its roles.\<close>

definition has_client :: "router \<Rightarrow> string \<Rightarrow> bool" where
  "has_client r k \<longleftrightarrow> map_get (rt_clients r) k \<noteq> None"

definition offers :: "string \<Rightarrow> role_config \<Rightarrow> string \<Rightarrow> bool" where
  "offers apiKey role k \<longleftrightarrow>
     (\<exists>p \<in> set (rc_Providers role). supported apiKey p \<and> k = client_key (rc_Role role) (pc_Provider p))"

lemma add_provider_clients:
  "has_client (add_provider apiKey role p r) k \<longleftrightarrow>
     has_client r k \<or> supported apiKey p \<and> k = client_key (rc_Role role) (pc_Provider p)"
  using createClient_supported [of apiKey p role]
  by (auto simp: has_client_def add_provider_def Let_def map_get_set_fun split: sum.splits)

lemma add_role_clients: "has_client (add_role apiKey role r) k \<longleftrightarrow> has_client r k \<or> offers apiKey role k"
proof -
  have "has_client (fold (add_provider apiKey role) ps r) k \<longleftrightarrow>
     has_client r k \<or> (\<exists>p \<in> set ps. supported apiKey p \<and> k = client_key (rc_Role role) (pc_Provider p))" for ps
    by (induction ps arbitrary: r) (auto simp: add_provider_clients)
  then show ?thesis by (simp add: add_role_def offers_def)
qed

lemma add_roles_clients:
  "has_client (fold (add_role apiKey) roles r) k \<longleftrightarrow>
     has_client r k \<or> (\<exists>role \<in> set roles. offers apiKey role k)"
  by (induction roles arbitrary: r) (auto simp: add_role_clients)

text \<open>Every client has the settings of a role with the key it is stored under.\<close>

definition settings_ok :: "role_config list \<Rightarrow> router \<Rightarrow> bool" where
  "settings_ok roles r \<longleftrightarrow>
     (\<forall>k c. map_get (rt_clients r) k = Some c \<longrightarrow>
        (\<exists>role \<in> set roles. \<exists>p. k = client_key (rc_Role role) p \<and>
           cl_maxTokens c = rc_MaxTokens role \<and> cl_temperature c = rc_Temperature role))"

lemma createClient_settings:
  "createClient apiKey p role = Inr c \<Longrightarrow> cl_maxTokens c = rc_MaxTokens role \<and> cl_temperature c = rc_Temperature role"
  by (auto simp: createClient_def createOpenAIClient_def createLocalClient_def Let_def split: if_splits)

lemma add_provider_settings:
  assumes "settings_ok roles r" and "role \<in> set roles"
  shows "settings_ok roles (add_provider apiKey role p r)"
proof (cases "createClient apiKey p role")
  case (Inl err)
  then show ?thesis using assms(1) by (simp add: settings_ok_def add_provider_def)
next
  case (Inr c)
  then show ?thesis
    using assms createClient_settings [OF Inr]
    unfolding settings_ok_def add_provider_def Let_def by (auto simp: map_get_set_fun)
qed

lemma fold_preserves: "(\<And>x s. x \<in> set xs \<Longrightarrow> P s \<Longrightarrow> P (f x s)) \<Longrightarrow> P s \<Longrightarrow> P (fold f xs s)"
  by (induction xs arbitrary: s) auto

lemma add_roles_settings: "settings_ok roles r \<Longrightarrow> settings_ok roles (fold (add_role apiKey) roles r)"
  by (rule fold_preserves) (auto simp: add_role_def intro: fold_preserves add_provider_settings)

lemma add_provider_config [simp]: "rt_config (add_provider apiKey role p r) = rt_config r"
  by (simp add: add_provider_def Let_def split: sum.splits)

lemma add_roles_config [simp]: "rt_config (fold (add_role apiKey) roles r) = rt_config r"
proof -
  have "rt_config (fold (add_provider apiKey role) ps r) = rt_config r" for role ps r
    by (induction ps arbitrary: r) simp_all
  then show ?thesis by (induction roles arbitrary: r) (simp_all add: add_role_def)
qed

lemma client_key_inject:
  assumes "CHR '':'' \<notin> set role" and "CHR '':'' \<notin> set role'"
  shows "client_key role p = client_key role' p' \<longleftrightarrow> role = role' \<and> p = p'"
  using assms by (auto simp: client_key_def append_eq_append_conv2 append_eq_Cons_conv Cons_eq_append_conv)

lemma find_role:
  "distinct (map rc_Role roles) \<Longrightarrow> rc \<in> set roles \<Longrightarrow> List.find (\<lambda>c. rc_Role c = rc_Role rc) roles = Some rc"
  by (induction roles) auto

lemma first_client_Some:
  "first_client cs role ps = Some c \<Longrightarrow> \<exists>p \<in> set ps. map_get cs (client_key role p) = Some c"
  by (induction ps) (auto split: option.splits)

lemma first_client_None:
  "first_client cs role ps = None \<longleftrightarrow> (\<forall>p \<in> set ps. map_get cs (client_key role p) = None)"
  by (induction ps) (auto split: option.splits)

text \<open>
  Where roles have distinct names without a colon, the router has a client for a role exactly if
  one of the role's providers is supported, and the client has the role's settings.
\<close>

lemma ClientFor_serves_role:
  assumes new: "NewRouter readFile parse configPath apiKey = Inr r" and rc: "rc \<in> set (rt_config r)"
    and dist: "distinct (map rc_Role (rt_config r))"
    and colon: "\<And>c. c \<in> set (rt_config r) \<Longrightarrow> CHR '':'' \<notin> set (rc_Role c)"
  shows "((\<exists>c. ClientFor (rc_Role rc) r = Inr c) \<longleftrightarrow> (\<exists>p \<in> set (rc_Providers rc). supported apiKey p)) \<and>
    (\<forall>c. ClientFor (rc_Role rc) r = Inr c \<longrightarrow> cl_maxTokens c = rc_MaxTokens rc \<and> cl_temperature c = rc_Temperature rc)"
proof (rule conjI)
  let ?role = "rc_Role rc"
  obtain roles where r: "r = fold (add_role apiKey) roles \<lparr>rt_config = roles, rt_clients = [], rt_providers = []\<rparr>"
    using new by (auto simp: NewRouter_def initializeProviders_def Let_def split: sum.splits if_splits)
  have roles: "rt_config r = roles" unfolding r by simp
  have inject: "client_key ?role p = client_key (rc_Role c) p' \<longleftrightarrow> rc = c \<and> p = p'" if "c \<in> set roles" for c p p'
    using client_key_inject [of ?role "rc_Role c" p p'] colon rc dist that unfolding roles
    by (auto simp: distinct_map dest: inj_onD)
  have get: "GetRoleConfig ?role r = Inr rc"
    using find_role [OF dist rc] by (simp add: GetRoleConfig_def)
  have has: "has_client r (client_key ?role p) \<longleftrightarrow> (\<exists>q \<in> set (rc_Providers rc). supported apiKey q \<and> p = pc_Provider q)" for p
    unfolding r add_roles_clients
    using rc inject unfolding roles by (auto simp: has_client_def offers_def)
  have settings: "settings_ok roles r"
    unfolding r by (rule add_roles_settings) (simp add: settings_ok_def)
  show "(\<exists>c. ClientFor ?role r = Inr c) \<longleftrightarrow> (\<exists>p \<in> set (rc_Providers rc). supported apiKey p)"
  proof (cases "has_client r (client_key ?role (rc_Provider rc))")
    case True
    then show ?thesis using has [of "rc_Provider rc"] by (auto simp: ClientFor_def get has_client_def)
  next
    case False
    have "first_client (rt_clients r) ?role (map pc_Provider (rc_Providers rc)) = None \<longleftrightarrow>
        (\<forall>p \<in> set (rc_Providers rc). \<not> has_client r (client_key ?role (pc_Provider p)))"
      by (simp add: first_client_None has_client_def)
    also have "\<dots> \<longleftrightarrow> \<not> (\<exists>p \<in> set (rc_Providers rc). supported apiKey p)"
      using has by blast
    finally have "first_client (rt_clients r) ?role (map pc_Provider (rc_Providers rc)) = None \<longleftrightarrow>
        \<not> (\<exists>p \<in> set (rc_Providers rc). supported apiKey p)" .
    with False show ?thesis by (auto simp: ClientFor_def get has_client_def split: option.splits)
  qed
  show "\<forall>c. ClientFor ?role r = Inr c \<longrightarrow> cl_maxTokens c = rc_MaxTokens rc \<and> cl_temperature c = rc_Temperature rc"
  proof (intro allI impI)
    fix c assume "ClientFor ?role r = Inr c"
    then obtain p where "map_get (rt_clients r) (client_key ?role p) = Some c"
    by (auto simp: ClientFor_def get split: option.splits dest!: first_client_Some)
    with settings obtain role' p' where "role' \<in> set roles" "client_key ?role p = client_key (rc_Role role') p'"
    "cl_maxTokens c = rc_MaxTokens role' \<and> cl_temperature c = rc_Temperature role'"
      unfolding settings_ok_def by blast
    then show "cl_maxTokens c = rc_MaxTokens rc \<and> cl_temperature c = rc_Temperature rc"
      using inject by auto
  qed
qed

section \<open>Instances\<close>

definition ex_clock :: clock_format where
  "ex_clock = \<lparr>cf_hour = (\<lambda>_. ''h''), cf_minute = (\<lambda>_. ''m'')\<rparr>"

definition ex_bm :: budget_manager where
  "ex_bm = updateTimeWindows ex_clock 0 (initializeDefaultCosts
     \<lparr>bm_maxCostPerHour = Fin 10, bm_rateLimitRPM = 100, bm_tokenCosts = [], bm_hourlyCosts = [],
      bm_requestCounts = [], bm_currentHour = [], bm_currentMinute = []\<rparr>)"

definition ex_request :: budget_sys where
  "ex_request = \<lparr>bs_bm = snd (CheckBudget ex_clock 1 ''openai'' ''gpt-4'' 1000 0 ex_bm), bs_last = 1,
     bs_log = [\<lparr>ac_hour = ''h'', ac_minute = ''m'', ac_cost = estimateCost ''openai'' ''gpt-4'' 1000 0 ex_bm\<rparr>]\<rparr>"

lemma ex_cost: "estimateCost ''openai'' ''gpt-4'' 1000 0 ex_bm = 3 / 100"
  by (simp add: estimateCost_def ex_bm_def initializeDefaultCosts_def updateTimeWindows_def cost_key_def)

lemma ex_check: "fst (CheckBudget ex_clock 1 ''openai'' ''gpt-4'' 1000 0 ex_bm) = None"
  by (simp add: CheckBudget_def Let_def checkRateLimit_def checkCostBudget_def ex_cost f_greater_def)
    (simp add: ex_bm_def initializeDefaultCosts_def map_val_def)

lemma ex_request_reach: "reach (budget_init ex_clock) (\<lambda>s t. clock_ok ex_clock \<and> budget_step ex_clock s t) ex_request"
proof (rule reach_step)
  let ?s = "\<lparr>bs_bm = ex_bm, bs_last = 0, bs_log = []\<rparr>"
  have "NewBudgetManager ex_clock (\<lambda>_. None) [] [] 0 = Inr ex_bm"
    by (simp add: NewBudgetManager_def bm_loadConfig_def ex_bm_def)
  then show "reach (budget_init ex_clock) (\<lambda>s t. clock_ok ex_clock \<and> budget_step ex_clock s t) ?s"
    by (intro reach_init) (auto simp: budget_init_def)
  have "CheckBudget ex_clock 1 ''openai'' ''gpt-4'' 1000 0 (bs_bm ?s) =
      (None, snd (CheckBudget ex_clock 1 ''openai'' ''gpt-4'' 1000 0 ex_bm))"
    using ex_check by (simp add: prod_eq_iff)
  from budget_step.accept [OF _ this] show "clock_ok ex_clock \<and> budget_step ex_clock ?s ex_request"
    by (simp add: ex_request_def clock_ok_def ex_clock_def mono_def)
qed

theorem budget_respected_witness: "spent ''h'' (bs_log ex_request) \<le> 10 \<and> requests ''m'' (bs_log ex_request) \<le> 100"
proof -
  have "bm_maxCostPerHour (bs_bm ex_request) = Fin 10" "bm_rateLimitRPM (bs_bm ex_request) = 100"
    by (simp_all add: ex_request_def CheckBudget_def Let_def recordRequest_def split: option.splits)
      (simp_all add: ex_bm_def initializeDefaultCosts_def)
  then show ?thesis using budget_respected [OF ex_request_reach] by simp
qed

definition ex_router :: router where
  "ex_router = fold (add_role []) getDefaultConfig \<lparr>rt_config = getDefaultConfig, rt_clients = [], rt_providers = []\<rparr>"

lemmas ex_role_defs = getDefaultConfig_def default_role_def

lemma ex_router_new: "NewRouter (\<lambda>_. None) (\<lambda>_. None) [] [] = Inr ex_router"
proof -
  have "has_client ex_router (client_key ''planner'' ''local'')"
    unfolding ex_router_def add_roles_clients by (simp add: ex_role_defs offers_def supported_def)
  then have "rt_clients ex_router \<noteq> []" by (auto simp: has_client_def)
  then show ?thesis by (simp add: NewRouter_def rt_loadConfig_def initializeProviders_def ex_router_def)
qed

lemma ClientFor_serves_role_witness:
  "\<exists>c. ClientFor ''planner'' ex_router = Inr c \<and> cl_maxTokens c = 4000"
proof -
  let ?rc = "default_role ''planner'' 4000 (7 / 10) ''gpt-4''"
  have cfg: "rt_config ex_router = getDefaultConfig" by (simp add: ex_router_def)
  have rc: "?rc \<in> set (rt_config ex_router)" unfolding cfg by (simp add: getDefaultConfig_def)
  have dist: "distinct (map rc_Role (rt_config ex_router))" unfolding cfg by (simp add: ex_role_defs)
  have colon: "\<And>c. c \<in> set (rt_config ex_router) \<Longrightarrow> CHR '':'' \<notin> set (rc_Role c)"
    unfolding cfg by (auto simp: ex_role_defs)
  note * = ClientFor_serves_role [OF ex_router_new rc dist colon]
  have role: "rc_Role ?rc = ''planner''" by (simp add: default_role_def)
  have "\<exists>p \<in> set (rc_Providers ?rc). supported [] p" by (simp add: default_role_def supported_def)
  with * obtain c where "ClientFor (rc_Role ?rc) ex_router = Inr c" by auto
  with * role show ?thesis by (auto simp: default_role_def)
qed

end
