(* ===== verification/Ing_Views.thy ===== *)
theory Ing_Views
  imports Ing_Server
begin

text \<open>
  The views of the stored telemetry under \<open>src/backend/ingest/internal/server\<close>: \<open>process_query.go\<close>, \<open>flow_query.go\<close>,
  \<open>dns_query.go\<close>, \<open>finding_query.go\<close>, \<open>investigation_query.go\<close>, \<open>draft_control_query.go\<close> and \<open>clarion_export.go\<close>. The decoding of the payloads
  is a parameter; a payload is the record of its fields, a null pointer is \<^const>\<open>None\<close>.
\<close>

section \<open>Records\<close>

record processPayload =
  pp_ProcessGUID :: string
  pp_ParentProcessGUID :: "string option"
  pp_PID :: int
  pp_PPID :: "int option"
  pp_Name :: "string option"
  pp_Path :: "string option"
  pp_CommandLine :: "string option"
  pp_User :: "string option"
  pp_CollectionMethod :: "string option"
  pp_ExitCode :: "int option"
  pp_DurationMS :: "int option"

record flowPayload =
  fp_FlowID :: string
  fp_ProcessGUID :: "string option"
  fp_PID :: "int option"
  fp_ProcessName :: "string option"
  fp_ProcessPath :: "string option"
  fp_User :: "string option"
  fp_Protocol :: "string option"
  fp_Direction :: "string option"
  fp_LocalIP :: "string option"
  fp_LocalPort :: "int option"
  fp_RemoteIP :: "string option"
  fp_RemotePort :: "int option"
  fp_RemoteHostname :: "string option"
  fp_AttributionMethod :: "string option"
  fp_AttributionConfidence :: "float64 option"
  fp_BytesSent :: "int option"
  fp_BytesReceived :: "int option"
  fp_DurationMS :: "int option"
  fp_ConnectionState :: "string option"
  fp_CollectionMethod :: "string option"

record dnsPayload =
  np_Query :: string
  np_QueryType :: "string option"
  np_Answers :: "string list"
  np_Resolver :: "string option"
  np_ProcessGUID :: "string option"
  np_PID :: "int option"
  np_CorrelationMethod :: string
  np_CorrelationConfidence :: float64

record findingPayload =
  gp_DetectionID :: "string option"
  gp_FindingID :: "string option"
  gp_Severity :: "string option"
  gp_Title :: "string option"
  gp_Description :: "string option"
  gp_Classification :: "string option"
  gp_ApplicationCategory :: "string option"
  gp_RiskSignal :: "string option"
  gp_AgentLikelihood :: "float64 option"
  gp_Confidence :: "float64 option"
  gp_RiskScore :: int
  gp_ProcessGUID :: "string option"
  gp_FlowID :: "string option"
  gp_DetectedPatterns :: "string list"
  gp_Evidence :: string
  gp_RecommendedAction :: string

text \<open>What every record takes from its event; a record is that and the fields of its payload.\<close>

record event_head =
  eh_EventID :: string
  eh_EventType :: string
  eh_TimestampMS :: int
  eh_DeviceID :: string
  eh_AgentID :: string
  eh_Payload :: string

record processRecord = event_head +
  pr :: processPayload

record flowRecord = event_head +
  fl :: flowPayload

record dnsRecord = event_head +
  dn :: dnsPayload

record findingRecord = event_head +
  fg :: findingPayload

definition head_of :: "visibilityEvent \<Rightarrow> event_head" where
  "head_of e = \<lparr>eh_EventID = ve_EventID e, eh_EventType = ve_EventType e,
     eh_TimestampMS = ve_TimestampMS e, eh_DeviceID = ve_DeviceID e, eh_AgentID = ve_AgentID e,
     eh_Payload = ve_Payload e\<rparr>"

text \<open>The decoders of payloads. An empty payload is the zero value, given by \<open>vj_*0\<close>.\<close>

record view_json =
  vj_process :: "string \<Rightarrow> processPayload option"
  vj_flow :: "string \<Rightarrow> flowPayload option"
  vj_dns :: "string \<Rightarrow> dnsPayload option"
  vj_finding :: "string \<Rightarrow> findingPayload option"

definition zero_process :: processPayload where
  "zero_process = \<lparr>pp_ProcessGUID = [], pp_ParentProcessGUID = None, pp_PID = 0, pp_PPID = None,
     pp_Name = None, pp_Path = None, pp_CommandLine = None, pp_User = None, pp_CollectionMethod = None,
     pp_ExitCode = None, pp_DurationMS = None\<rparr>"

definition zero_flow :: flowPayload where
  "zero_flow = \<lparr>fp_FlowID = [], fp_ProcessGUID = None, fp_PID = None, fp_ProcessName = None,
     fp_ProcessPath = None, fp_User = None, fp_Protocol = None, fp_Direction = None, fp_LocalIP = None,
     fp_LocalPort = None, fp_RemoteIP = None, fp_RemotePort = None, fp_RemoteHostname = None,
     fp_AttributionMethod = None, fp_AttributionConfidence = None, fp_BytesSent = None,
     fp_BytesReceived = None, fp_DurationMS = None, fp_ConnectionState = None,
     fp_CollectionMethod = None\<rparr>"

definition zero_dns :: dnsPayload where
  "zero_dns = \<lparr>np_Query = [], np_QueryType = None, np_Answers = [], np_Resolver = None,
     np_ProcessGUID = None, np_PID = None, np_CorrelationMethod = [], np_CorrelationConfidence = Fin 0\<rparr>"

definition zero_finding :: findingPayload where
  "zero_finding = \<lparr>gp_DetectionID = None, gp_FindingID = None, gp_Severity = None, gp_Title = None,
     gp_Description = None, gp_Classification = None, gp_ApplicationCategory = None,
     gp_RiskSignal = None, gp_AgentLikelihood = None, gp_Confidence = None, gp_RiskScore = 0,
     gp_ProcessGUID = None, gp_FlowID = None, gp_DetectedPatterns = [], gp_Evidence = [],
     gp_RecommendedAction = []\<rparr>"

definition decode :: "(string \<Rightarrow> 'p option) \<Rightarrow> 'p \<Rightarrow> visibilityEvent \<Rightarrow> 'p option" where
  "decode parse zero e = (if ve_Payload e \<noteq> [] then parse (ve_Payload e) else Some zero)"

definition toProcessRecord :: "view_json \<Rightarrow> visibilityEvent \<Rightarrow> processRecord option" where
  "toProcessRecord lib e =
     map_option (\<lambda>p. event_head.extend (head_of e) (processRecord.fields p)) (decode (vj_process lib) zero_process e)"

definition toFlowRecord :: "view_json \<Rightarrow> visibilityEvent \<Rightarrow> flowRecord option" where
  "toFlowRecord lib e =
     map_option (\<lambda>p. event_head.extend (head_of e) (flowRecord.fields p)) (decode (vj_flow lib) zero_flow e)"

definition toDNSRecord :: "view_json \<Rightarrow> visibilityEvent \<Rightarrow> dnsRecord option" where
  "toDNSRecord lib e =
     map_option (\<lambda>p. event_head.extend (head_of e) (dnsRecord.fields p)) (decode (vj_dns lib) zero_dns e)"

definition toFindingRecord :: "view_json \<Rightarrow> visibilityEvent \<Rightarrow> findingRecord option" where
  "toFindingRecord lib e =
     map_option (\<lambda>p. event_head.extend (head_of e) (findingRecord.fields
         (if gp_Evidence p = [] then p\<lparr>gp_Evidence := ''[]''\<rparr> else p)))
       (decode (vj_finding lib) zero_finding e)"

definition isProcessEventType :: "string \<Rightarrow> bool" where
  "isProcessEventType t \<longleftrightarrow> t = ''aegis.process.started'' \<or> t = ''aegis.process.ended''"

definition isFlowEventType :: "string \<Rightarrow> bool" where
  "isFlowEventType t \<longleftrightarrow> t = ''aegis.flow.started'' \<or> t = ''aegis.flow.ended''"

definition isDNSEventType :: "string \<Rightarrow> bool" where
  "isDNSEventType t \<longleftrightarrow> t = ''aegis.dns.observed''"

definition isFindingEventType :: "string \<Rightarrow> bool" where
  "isFindingEventType t \<longleftrightarrow> t = ''aegis.agent.detected'' \<or> t = ''aegis.risk_finding.created''"

definition stringValue :: "string option \<Rightarrow> string" where
  "stringValue v = (case v of None \<Rightarrow> [] | Some s \<Rightarrow> s)"

definition containsString :: "string list \<Rightarrow> string \<Rightarrow> bool" where
  "containsString values expected \<longleftrightarrow> expected \<in> set values"

section \<open>The four list views\<close>

definition parseOptionalInt :: "string \<Rightarrow> string \<Rightarrow> string + int option" where
  "parseOptionalInt raw name =
     (if raw = [] then Inr None
      else case atoi raw of
        None \<Rightarrow> Inl (name @ '' must be an integer'')
      | Some n \<Rightarrow> Inr (Some n))"

text \<open>
  The loop that all four share: events of other types, malformed ones and ones that the filters exclude are
  skipped, and it stops as soon as there are \<open>limit\<close> records.
\<close>

fun view_loop :: "(string \<Rightarrow> bool) \<Rightarrow> (visibilityEvent \<Rightarrow> 'r option) \<Rightarrow> ('r \<Rightarrow> bool) \<Rightarrow> nat \<Rightarrow> visibilityEvent list \<Rightarrow> 'r list \<Rightarrow> 'r list" where
  "view_loop ty conv keep limit [] rs = rs"
| "view_loop ty conv keep limit (e # es) rs =
     (if \<not> ty (ve_EventType e) then view_loop ty conv keep limit es rs
      else case conv e of
        None \<Rightarrow> view_loop ty conv keep limit es rs
      | Some r \<Rightarrow>
          if \<not> keep r then view_loop ty conv keep limit es rs
          else if length (rs @ [r]) \<ge> limit then rs @ [r]
          else view_loop ty conv keep limit es (rs @ [r]))"

record view_query =
  vq_limit :: string
  vq_pid :: string
  vq_device_id :: string
  vq_agent_id :: string
  vq_process_guid :: string
  vq_flow_id :: string
  vq_remote_ip :: string
  vq_remote_hostname :: string
  vq_query :: string
  vq_answer :: string
  vq_detection_id :: string
  vq_finding_id :: string
  vq_severity :: string

text \<open>An optional filter: an empty value of the request excludes nothing.\<close>

definition wants :: "string \<Rightarrow> string \<Rightarrow> bool" where
  "wants wanted actual \<longleftrightarrow> \<not> (wanted \<noteq> [] \<and> actual \<noteq> wanted)"

definition keep_process :: "view_query \<Rightarrow> int option \<Rightarrow> processRecord \<Rightarrow> bool" where
  "keep_process q pid r \<longleftrightarrow>
     wants (vq_process_guid q) (pp_ProcessGUID (pr r)) \<and>
     (case pid of None \<Rightarrow> True | Some n \<Rightarrow> pp_PID (pr r) = n)"

definition keep_flow :: "view_query \<Rightarrow> int option \<Rightarrow> flowRecord \<Rightarrow> bool" where
  "keep_flow q pid r \<longleftrightarrow>
     wants (vq_flow_id q) (fp_FlowID (fl r)) \<and>
     wants (vq_process_guid q) (stringValue (fp_ProcessGUID (fl r))) \<and>
     (case pid of None \<Rightarrow> True | Some n \<Rightarrow> fp_PID (fl r) = Some n) \<and>
     wants (vq_remote_ip q) (stringValue (fp_RemoteIP (fl r))) \<and>
     wants (vq_remote_hostname q) (stringValue (fp_RemoteHostname (fl r)))"

definition keep_dns :: "view_query \<Rightarrow> int option \<Rightarrow> dnsRecord \<Rightarrow> bool" where
  "keep_dns q pid r \<longleftrightarrow>
     wants (vq_query q) (np_Query (dn r)) \<and>
     \<not> (vq_answer q \<noteq> [] \<and> \<not> containsString (np_Answers (dn r)) (vq_answer q)) \<and>
     wants (vq_process_guid q) (stringValue (np_ProcessGUID (dn r))) \<and>
     (case pid of None \<Rightarrow> True | Some n \<Rightarrow> np_PID (dn r) = Some n)"

definition keep_finding :: "view_query \<Rightarrow> findingRecord \<Rightarrow> bool" where
  "keep_finding q r \<longleftrightarrow>
     wants (vq_process_guid q) (stringValue (gp_ProcessGUID (fg r))) \<and>
     wants (vq_flow_id q) (stringValue (gp_FlowID (fg r))) \<and>
     wants (vq_detection_id q) (stringValue (gp_DetectionID (fg r))) \<and>
     wants (vq_finding_id q) (stringValue (gp_FindingID (fg r))) \<and>
     wants (vq_severity q) (stringValue (gp_Severity (fg r)))"

text \<open>What precedes the loops: the method, the store, the parameters and the query.\<close>

definition view_events :: "'s store_ops \<Rightarrow> string \<Rightarrow> string \<Rightarrow> 's \<Rightarrow> string + visibilityEvent list" where
  "view_events ops device_id agent_id st =
     so_Query ops \<lparr>qf_EventID = [], qf_TenantID = [], qf_DeviceID = device_id, qf_AgentID = agent_id,
       qf_EventType = [], qf_Limit = maxVisibilityQueryLimit\<rparr> st"

definition view_start :: "'s store_ops \<Rightarrow> http_method \<Rightarrow> bool \<Rightarrow> view_query \<Rightarrow> 's ingest_server \<Rightarrow> (nat \<times> string) + nat \<times> int option \<times> visibilityEvent list" where
  "view_start ops m with_pid q s =
     (if m \<noteq> GET then Inl (405, ''method not allowed'')
      else case is_store s of
        None \<Rightarrow> Inl (503, ''visibility store is not configured'')
      | Some st \<Rightarrow>
          (case parseQueryLimit (vq_limit q) of
             Inl err \<Rightarrow> Inl (400, err)
           | Inr limit \<Rightarrow>
               (case (if with_pid then parseOptionalInt (vq_pid q) ''pid'' else Inr None) of
                  Inl err \<Rightarrow> Inl (400, err)
                | Inr pid \<Rightarrow>
                    (case view_events ops (vq_device_id q) (vq_agent_id q) st of
                       Inl err \<Rightarrow> Inl (503, err)
                     | Inr events \<Rightarrow> Inr (nat limit, pid, events)))))"

definition handleVisibilityProcesses :: "'s store_ops \<Rightarrow> view_json \<Rightarrow> http_method \<Rightarrow> view_query \<Rightarrow> 's ingest_server \<Rightarrow> (nat \<times> string) + processRecord list" where
  "handleVisibilityProcesses ops lib m q s =
     (case view_start ops m True q s of
        Inl err \<Rightarrow> Inl err
      | Inr (limit, pid, events) \<Rightarrow>
          Inr (view_loop isProcessEventType (toProcessRecord lib) (keep_process q pid) limit events []))"

definition handleVisibilityFlows :: "'s store_ops \<Rightarrow> view_json \<Rightarrow> http_method \<Rightarrow> view_query \<Rightarrow> 's ingest_server \<Rightarrow> (nat \<times> string) + flowRecord list" where
  "handleVisibilityFlows ops lib m q s =
     (case view_start ops m True q s of
        Inl err \<Rightarrow> Inl err
      | Inr (limit, pid, events) \<Rightarrow>
          Inr (view_loop isFlowEventType (toFlowRecord lib) (keep_flow q pid) limit events []))"

definition handleVisibilityDNS :: "'s store_ops \<Rightarrow> view_json \<Rightarrow> http_method \<Rightarrow> view_query \<Rightarrow> 's ingest_server \<Rightarrow> (nat \<times> string) + dnsRecord list" where
  "handleVisibilityDNS ops lib m q s =
     (case view_start ops m True q s of
        Inl err \<Rightarrow> Inl err
      | Inr (limit, pid, events) \<Rightarrow>
          Inr (view_loop isDNSEventType (toDNSRecord lib) (keep_dns q pid) limit events []))"

definition handleVisibilityFindings :: "'s store_ops \<Rightarrow> view_json \<Rightarrow> http_method \<Rightarrow> view_query \<Rightarrow> 's ingest_server \<Rightarrow> (nat \<times> string) + findingRecord list" where
  "handleVisibilityFindings ops lib m q s =
     (case view_start ops m False q s of
        Inl err \<Rightarrow> Inl err
      | Inr (limit, pid, events) \<Rightarrow>
          Inr (view_loop isFindingEventType (toFindingRecord lib) (keep_finding q) limit events []))"

end
