(* ===== verification/Ing_Investigation.thy ===== *)
theory Ing_Investigation
  imports Ing_Views
begin

text \<open>
  The investigation of a device and the draft controls it proposes: \<open>investigation_query.go\<close> and
  \<open>draft_control_query.go\<close>, and the export of events in \<open>clarion_export.go\<close>, all under \<open>src/backend/ingest/internal/server\<close>.
\<close>

record investigationFilters =
  if_ProcessGUID :: string
  if_PID :: "int option"

record draftControlRecord =
  dc_ControlID :: string
  dc_Title :: string
  dc_Mode :: string
  dc_Status :: string
  dc_Action :: string
  dc_Target :: string
  dc_Scope :: string
  dc_Reason :: string
  dc_Evidence :: "string list"
  dc_BlastRadius :: "string list"
  dc_Rollback :: "string list"

section \<open>Texts\<close>

definition defaultString :: "string \<Rightarrow> string \<Rightarrow> string" where
  "defaultString value fallback = (if value = [] then fallback else value)"

definition socketText :: "string option \<Rightarrow> int option \<Rightarrow> string" where
  "socketText ip port =
     (case port of
        Some p \<Rightarrow> if p > 0 then defaultString (stringValue ip) ''unknown'' @ '':'' @ itoa p
                  else defaultString (stringValue ip) ''unknown''
      | None \<Rightarrow> defaultString (stringValue ip) ''unknown'')"

definition findingTitleText :: "findingRecord \<Rightarrow> string" where
  "findingTitleText f =
     (case filter (\<lambda>v. v \<noteq> []) [stringValue (gp_Title (fg f)), stringValue (gp_Classification (fg f)), eh_EventType f] of
        v # _ \<Rightarrow> v
      | [] \<Rightarrow> ''linked endpoint evidence'')"

definition processScopeText :: "processRecord option \<Rightarrow> investigationFilters \<Rightarrow> string" where
  "processScopeText process filters =
     (case process of
        Some p \<Rightarrow>
          let scope = defaultString (stringValue (pp_Name (pr p))) ''unknown process'' @ '' pid '' @ itoa (pp_PID (pr p));
              path = stringValue (pp_Path (pr p))
          in if path \<noteq> [] then scope @ '' at '' @ path else scope
      | None \<Rightarrow>
          if if_ProcessGUID filters \<noteq> [] then if_ProcessGUID filters
          else case if_PID filters of Some n \<Rightarrow> ''pid '' @ itoa n | None \<Rightarrow> ''device activity'')"

definition processTargetText :: "processRecord option \<Rightarrow> investigationFilters \<Rightarrow> string" where
  "processTargetText process filters =
     (if (case process of Some p \<Rightarrow> stringValue (pp_Path (pr p)) \<noteq> [] | None \<Rightarrow> False)
      then stringValue (pp_Path (pr (the process)))
      else if if_ProcessGUID filters \<noteq> [] then if_ProcessGUID filters
      else case if_PID filters of Some n \<Rightarrow> ''pid '' @ itoa n | None \<Rightarrow> ''device activity'')"

text \<open>\<open>hash\<close> stands for the first six bytes of SHA-1, in hexadecimal.\<close>

definition draftControlID :: "(string \<Rightarrow> string) \<Rightarrow> string list \<Rightarrow> string" where
  "draftControlID hash parts = ''draft-'' @ hash (join_with ''|'' parts)"

section \<open>Draft controls\<close>

definition head_opt :: "'a list \<Rightarrow> 'a option" where
  "head_opt xs = (case xs of [] \<Rightarrow> None | x # _ \<Rightarrow> Some x)"

definition draft_process_name :: "processRecord option \<Rightarrow> flowRecord option \<Rightarrow> string" where
  "draft_process_name process flow =
     (if (case process of Some p \<Rightarrow> stringValue (pp_Name (pr p)) \<noteq> [] | None \<Rightarrow> False)
      then stringValue (pp_Name (pr (the process)))
      else if (case flow of Some f \<Rightarrow> stringValue (fp_ProcessName (fl f)) \<noteq> [] | None \<Rightarrow> False)
      then stringValue (fp_ProcessName (fl (the flow)))
      else ''selected activity'')"

definition draft_evidence :: "investigationFilters \<Rightarrow> string \<Rightarrow> string \<Rightarrow> string \<Rightarrow> processRecord option \<Rightarrow> flowRecord option \<Rightarrow> dnsRecord option \<Rightarrow> findingRecord option \<Rightarrow> string list" where
  "draft_evidence filters processName remoteTarget findingTitle process flow dns finding =
     (case process of
        Some p \<Rightarrow>
          (''Process: '' @ processName @ '' pid '' @ itoa (pp_PID (pr p))) #
          (let cl = stringValue (pp_CommandLine (pr p)) in if cl \<noteq> [] then [''Command line: '' @ cl] else [])
      | None \<Rightarrow> if if_ProcessGUID filters \<noteq> [] then [''Selection: '' @ if_ProcessGUID filters] else []) @
     (case flow of
        Some f \<Rightarrow> [''Flow: '' @ defaultString (stringValue (fp_Direction (fl f))) ''unknown'' @ '' '' @
                    defaultString (stringValue (fp_Protocol (fl f))) ''tcp'' @ '' to '' @ remoteTarget]
      | None \<Rightarrow> []) @
     (case dns of
        Some d \<Rightarrow>
          (let answer0 = join_with '', '' (np_Answers (dn d));
               answer = (if answer0 = [] then defaultString (stringValue (np_Resolver (dn d))) ''unknown'' else answer0)
           in [''DNS: '' @ np_Query (dn d) @ '' resolved to '' @ answer])
      | None \<Rightarrow> []) @
     (case finding of
        Some g \<Rightarrow> [''Finding: '' @ findingTitle @ '' risk '' @ itoa (gp_RiskScore (fg g))]
      | None \<Rightarrow> [])"

definition flow_draft :: "(string \<Rightarrow> string) \<Rightarrow> string \<Rightarrow> string \<Rightarrow> string \<Rightarrow> string \<Rightarrow> string \<Rightarrow> string list \<Rightarrow> flowRecord \<Rightarrow> draftControlRecord" where
  "flow_draft hash deviceID processName processScope remoteTarget findingTitle evidence flow =
     \<lparr>dc_ControlID = draftControlID hash [deviceID, processScope, remoteTarget],
      dc_Title = ''Observe outbound access for '' @ processName,
      dc_Mode = ''observe-only'', dc_Status = ''draft'',
      dc_Action = ''Stage a monitor rule that records matches before deny or restrict is considered.'',
      dc_Target = remoteTarget,
      dc_Scope = processScope @ ''; '' @ defaultString (stringValue (fp_Protocol (fl flow))) ''tcp'' @ '' '' @
        defaultString (stringValue (fp_Direction (fl flow))) ''outbound'' @ '' traffic to '' @ remoteTarget,
      dc_Reason = ''Aegis linked '' @ findingTitle @ '' to a concrete process and network destination. The next safe step is to measure repeat matches and affected activity before enforcement.'',
      dc_Evidence = evidence,
      dc_BlastRadius = [''Count historical matches for the same process, destination, port, and protocol.'',
        ''Check whether other processes on the device use the same destination.'',
        ''Require DNS and process evidence before expanding beyond this endpoint.''],
      dc_Rollback = [''Disable the staged monitor rule.'',
        ''Clear any pending enforcement candidate for this process and destination.'',
        ''Keep collected evidence for audit and future simulation.'']\<rparr>"

definition process_draft :: "(string \<Rightarrow> string) \<Rightarrow> string \<Rightarrow> investigationFilters \<Rightarrow> string \<Rightarrow> string \<Rightarrow> string \<Rightarrow> string list \<Rightarrow> processRecord option \<Rightarrow> draftControlRecord" where
  "process_draft hash deviceID filters processName processScope remoteTarget evidence process =
     \<lparr>dc_ControlID = draftControlID hash [deviceID, processScope, remoteTarget],
      dc_Title = ''Observe process behavior for '' @ processName,
      dc_Mode = ''observe-only'', dc_Status = ''draft'',
      dc_Action = ''Stage a process watch that records future flows, DNS, and findings before control design.'',
      dc_Target = processTargetText process filters,
      dc_Scope = processScope,
      dc_Reason = ''Aegis has process or finding evidence but not enough linked network evidence for a network control. The next safe step is richer observation.'',
      dc_Evidence = evidence,
      dc_BlastRadius = [''Wait for at least one linked flow or DNS record before proposing a restrict or deny rule.'',
        ''Compare command-line markers to avoid matching unrelated processes.'',
        ''Keep scope limited to this device until cross-device evidence exists.''],
      dc_Rollback = [''Remove the process watch candidate.'',
        ''Keep the investigation record available for review.'',
        ''Return the device to passive collection only.'']\<rparr>"

definition buildDraftControls :: "(string \<Rightarrow> string) \<Rightarrow> string \<Rightarrow> investigationFilters \<Rightarrow> processRecord list \<Rightarrow> flowRecord list \<Rightarrow> dnsRecord list \<Rightarrow> findingRecord list \<Rightarrow> draftControlRecord list" where
  "buildDraftControls hash deviceID filters processes flows dns findings =
     (if processes = [] \<and> flows = [] \<and> findings = [] then []
      else
        let process = head_opt processes; flow = head_opt flows; finding = head_opt findings;
            processName = draft_process_name process flow;
            processScope = processScopeText process filters;
            remoteTarget = (case flow of None \<Rightarrow> ''remote destination not yet linked''
              | Some f \<Rightarrow> socketText (fp_RemoteIP (fl f)) (fp_RemotePort (fl f)));
            findingTitle = (case finding of None \<Rightarrow> ''linked endpoint evidence'' | Some g \<Rightarrow> findingTitleText g);
            evidence = draft_evidence filters processName remoteTarget findingTitle process flow (head_opt dns) finding
        in case flow of
             Some f \<Rightarrow> [flow_draft hash deviceID processName processScope remoteTarget findingTitle evidence f]
           | None \<Rightarrow> [process_draft hash deviceID filters processName processScope remoteTarget evidence process])"

section \<open>The investigation\<close>

definition matchesInvestigationProcess :: "string \<Rightarrow> int \<Rightarrow> string \<Rightarrow> int option \<Rightarrow> bool" where
  "matchesInvestigationProcess recordGUID recordPID filterGUID filterPID \<longleftrightarrow>
     wants filterGUID recordGUID \<and> (case filterPID of None \<Rightarrow> True | Some n \<Rightarrow> recordPID = n)"

definition matchesInvestigationOptionalProcess :: "string option \<Rightarrow> int option \<Rightarrow> string \<Rightarrow> int option \<Rightarrow> bool" where
  "matchesInvestigationOptionalProcess recordGUID recordPID filterGUID filterPID \<longleftrightarrow>
     wants filterGUID (stringValue recordGUID) \<and>
     (case filterPID of None \<Rightarrow> True | Some n \<Rightarrow> recordPID = Some n)"

definition matchesInvestigationFinding :: "findingRecord \<Rightarrow> string \<Rightarrow> int option \<Rightarrow> bool" where
  "matchesInvestigationFinding r filterGUID filterPID \<longleftrightarrow>
     wants filterGUID (stringValue (gp_ProcessGUID (fg r))) \<and> \<not> (filterPID \<noteq> None \<and> filterGUID = [])"

record evidence_rows =
  ev_processes :: "processRecord list"
  ev_flows :: "flowRecord list"
  ev_dns :: "dnsRecord list"
  ev_findings :: "findingRecord list"

definition no_rows :: evidence_rows where
  "no_rows = \<lparr>ev_processes = [], ev_flows = [], ev_dns = [], ev_findings = []\<rparr>"

text \<open>The selection of records that an investigation or an evidence path makes.\<close>

record row_filter =
  rf_process :: "processRecord \<Rightarrow> bool"
  rf_flow :: "flowRecord \<Rightarrow> bool"
  rf_dns :: "dnsRecord \<Rightarrow> bool"
  rf_finding :: "findingRecord \<Rightarrow> bool"

definition push :: "nat \<Rightarrow> 'a option \<Rightarrow> ('a \<Rightarrow> bool) \<Rightarrow> 'a list \<Rightarrow> 'a list" where
  "push limit r keep rs =
     (case r of
        None \<Rightarrow> rs
      | Some x \<Rightarrow> if \<not> keep x then rs else if length rs < limit then rs @ [x] else rs)"

definition collect_event :: "view_json \<Rightarrow> row_filter \<Rightarrow> nat \<Rightarrow> visibilityEvent \<Rightarrow> evidence_rows \<Rightarrow> evidence_rows" where
  "collect_event lib rf limit e rows =
     (if isProcessEventType (ve_EventType e)
      then rows\<lparr>ev_processes := push limit (toProcessRecord lib e) (rf_process rf) (ev_processes rows)\<rparr>
      else if isFlowEventType (ve_EventType e)
      then rows\<lparr>ev_flows := push limit (toFlowRecord lib e) (rf_flow rf) (ev_flows rows)\<rparr>
      else if isDNSEventType (ve_EventType e)
      then rows\<lparr>ev_dns := push limit (toDNSRecord lib e) (rf_dns rf) (ev_dns rows)\<rparr>
      else if isFindingEventType (ve_EventType e)
      then rows\<lparr>ev_findings := push limit (toFindingRecord lib e) (rf_finding rf) (ev_findings rows)\<rparr>
      else rows)"

definition investigation_filter :: "string \<Rightarrow> int option \<Rightarrow> row_filter" where
  "investigation_filter guid pid =
     \<lparr>rf_process = (\<lambda>r. matchesInvestigationProcess (pp_ProcessGUID (pr r)) (pp_PID (pr r)) guid pid),
      rf_flow = (\<lambda>r. matchesInvestigationOptionalProcess (fp_ProcessGUID (fl r)) (fp_PID (fl r)) guid pid),
      rf_dns = (\<lambda>r. matchesInvestigationOptionalProcess (np_ProcessGUID (dn r)) (np_PID (dn r)) guid pid),
      rf_finding = (\<lambda>r. matchesInvestigationFinding r guid pid)\<rparr>"

record investigationResponse =
  ir_DeviceID :: string
  ir_AgentID :: string
  ir_Filters :: investigationFilters
  ir_Rows :: evidence_rows
  ir_Drafts :: "draftControlRecord list"

definition collectInvestigation :: "'s store_ops \<Rightarrow> view_json \<Rightarrow> (string \<Rightarrow> string) \<Rightarrow> string \<Rightarrow> string \<Rightarrow> string \<Rightarrow> int option \<Rightarrow> nat \<Rightarrow> 's \<Rightarrow> string + investigationResponse" where
  "collectInvestigation ops lib hash deviceID agentID guid pid limit st =
     (case view_events ops deviceID agentID st of
        Inl err \<Rightarrow> Inl err
      | Inr events \<Rightarrow>
          let rows = fold (collect_event lib (investigation_filter guid pid) limit) events no_rows;
              filters = \<lparr>if_ProcessGUID = guid, if_PID = pid\<rparr>;
              drafts = buildDraftControls hash deviceID filters (ev_processes rows) (ev_flows rows)
                         (ev_dns rows) (ev_findings rows)
          in Inr \<lparr>ir_DeviceID = deviceID, ir_AgentID = agentID, ir_Filters = filters,
                  ir_Rows = rows, ir_Drafts = drafts\<rparr>)"

definition handleVisibilityInvestigation :: "'s store_ops \<Rightarrow> view_json \<Rightarrow> (string \<Rightarrow> string) \<Rightarrow> http_method \<Rightarrow> view_query \<Rightarrow> 's ingest_server \<Rightarrow> (nat \<times> string) + investigationResponse" where
  "handleVisibilityInvestigation ops lib hash m q s =
     (if m \<noteq> GET then Inl (405, ''method not allowed'')
      else case is_store s of
        None \<Rightarrow> Inl (503, ''visibility store is not configured'')
      | Some st \<Rightarrow>
          if vq_device_id q = [] then Inl (400, ''device_id is required'')
          else case parseQueryLimit (vq_limit q) of
            Inl err \<Rightarrow> Inl (400, err)
          | Inr limit \<Rightarrow>
              (case parseOptionalInt (vq_pid q) ''pid'' of
                 Inl err \<Rightarrow> Inl (400, err)
               | Inr pid \<Rightarrow>
                   (case collectInvestigation ops lib hash (vq_device_id q) (vq_agent_id q)
                           (vq_process_guid q) pid (nat limit) st of
                      Inl err \<Rightarrow> Inl (503, err)
                    | Inr i \<Rightarrow> Inr i)))"

definition handleVisibilityDraftControls :: "'s store_ops \<Rightarrow> view_json \<Rightarrow> (string \<Rightarrow> string) \<Rightarrow> http_method \<Rightarrow> view_query \<Rightarrow> 's ingest_server \<Rightarrow> (nat \<times> string) + draftControlRecord list" where
  "handleVisibilityDraftControls ops lib hash m q s =
     (case handleVisibilityInvestigation ops lib hash m q s of
        Inl err \<Rightarrow> Inl err
      | Inr i \<Rightarrow> Inr (ir_Drafts i))"

section \<open>The export of events\<close>

record clarionEventExport =
  ce_ContractVersion :: string
  ce_Event :: visibilityEvent
  ce_ClarionContextObjects :: "string list"

definition clarionContextObjectsForEventType :: "string \<Rightarrow> string list" where
  "clarionContextObjectsForEventType t =
     (if t = ''aegis.agent.registered'' \<or> t = ''aegis.agent.heartbeat'' then [''Device'', ''Agent'']
      else if t = ''aegis.process.started'' \<or> t = ''aegis.process.exited''
      then [''Device'', ''Agent'', ''User'', ''Session'', ''Process'', ''Process lineage edge'']
      else if t = ''aegis.flow.started'' \<or> t = ''aegis.flow.ended''
      then [''Device'', ''Agent'', ''User'', ''Process'', ''Flow'', ''Destination'']
      else if t = ''aegis.dns.observed''
      then [''Device'', ''Agent'', ''Process'', ''DNS observation'', ''Destination'']
      else if t = ''aegis.application.classified'' then [''Device'', ''Agent'', ''Process'', ''Application'']
      else if t = ''aegis.agent.detected'' \<or> t = ''aegis.risk_finding.created''
      then [''Device'', ''Agent'', ''Process'', ''Flow'', ''Destination'',
            ''AI-agent or automation finding'', ''Evidence bundle'']
      else [''Device'', ''Agent'', ''Evidence bundle''])"

definition toClarionEventExport :: "string \<Rightarrow> visibilityEvent \<Rightarrow> clarionEventExport" where
  "toClarionEventExport version e =
     \<lparr>ce_ContractVersion = version, ce_Event = e,
      ce_ClarionContextObjects = clarionContextObjectsForEventType (ve_EventType e)\<rparr>"

definition handleClarionEventExport :: "'s store_ops \<Rightarrow> string \<Rightarrow> http_method \<Rightarrow> event_query \<Rightarrow> 's ingest_server \<Rightarrow> (nat \<times> string) + clarionEventExport list" where
  "handleClarionEventExport ops version m q s =
     (if m \<noteq> GET then Inl (405, ''method not allowed'')
      else case handleVisibilityEventQuery ops q s of
        RError code err \<Rightarrow> Inl (code, err)
      | REvents events \<Rightarrow> Inr (map (toClarionEventExport version) events)
      | RAccepted _ \<Rightarrow> Inr []
      | RDevices _ \<Rightarrow> Inr [])"

section \<open>What an investigation contains\<close>

definition rows_with :: "(string \<Rightarrow> bool) \<Rightarrow> (visibilityEvent \<Rightarrow> 'r option) \<Rightarrow> ('r \<Rightarrow> bool) \<Rightarrow> visibilityEvent list \<Rightarrow> 'r list" where
  "rows_with ty conv keep es = filter keep (List.map_filter conv (filter (\<lambda>e. ty (ve_EventType e)) es))"

lemma rows_with_simps:
  "rows_with ty conv keep [] = []"
  "rows_with ty conv keep (e # es) =
     (if ty (ve_EventType e)
      then (case conv e of None \<Rightarrow> [] | Some r \<Rightarrow> if keep r then [r] else []) @ rows_with ty conv keep es
      else rows_with ty conv keep es)"
  by (auto simp: rows_with_def List.map_filter_simps split: option.splits)

lemma view_loop_rows:
  "length rs < limit \<Longrightarrow>
     view_loop ty conv keep limit es rs = take limit (rs @ rows_with ty conv keep es)"
proof (induction es arbitrary: rs)
  case (Cons e es)
  then show ?case
    by (auto simp: rows_with_simps split: option.splits)
qed (simp add: rows_with_simps)

lemma push_take: "push limit r keep (take limit xs) =
    take limit (xs @ (case r of None \<Rightarrow> [] | Some x \<Rightarrow> if keep x then [x] else []))"
  by (auto simp: push_def min_def split: option.splits)

lemma event_types_disjoint:
  "isProcessEventType t \<Longrightarrow> \<not> isFlowEventType t \<and> \<not> isDNSEventType t \<and> \<not> isFindingEventType t"
  "isFlowEventType t \<Longrightarrow> \<not> isDNSEventType t \<and> \<not> isFindingEventType t"
  "isDNSEventType t \<Longrightarrow> \<not> isFindingEventType t"
  by (auto simp: isProcessEventType_def isFlowEventType_def isDNSEventType_def isFindingEventType_def)

definition all_rows :: "view_json \<Rightarrow> row_filter \<Rightarrow> nat \<Rightarrow> visibilityEvent list \<Rightarrow> evidence_rows" where
  "all_rows lib rf limit es =
     \<lparr>ev_processes = take limit (rows_with isProcessEventType (toProcessRecord lib) (rf_process rf) es),
      ev_flows = take limit (rows_with isFlowEventType (toFlowRecord lib) (rf_flow rf) es),
      ev_dns = take limit (rows_with isDNSEventType (toDNSRecord lib) (rf_dns rf) es),
      ev_findings = take limit (rows_with isFindingEventType (toFindingRecord lib) (rf_finding rf) es)\<rparr>"

lemma rows_with_snoc:
  "rows_with ty conv keep (es @ [e]) =
     rows_with ty conv keep es @
     (if ty (ve_EventType e) then (case conv e of None \<Rightarrow> [] | Some r \<Rightarrow> if keep r then [r] else []) else [])"
  by (simp add: rows_with_def List.map_filter_def split: option.splits)

lemma collect_all_rows: "fold (collect_event lib rf limit) es no_rows = all_rows lib rf limit es"
proof (induction es rule: rev_induct)
  case Nil
  then show ?case by (simp add: no_rows_def all_rows_def rows_with_simps)
next
  case (snoc e es)
  then show ?case
    using event_types_disjoint [of "ve_EventType e"]
    by (auto simp: collect_event_def all_rows_def rows_with_snoc push_take)
qed

end
