(* ===== verification/Ing_Evidence.thy ===== *)
theory Ing_Evidence
  imports Ing_Investigation
begin

text \<open>
  The evidence path of a finding or a device: \<open>src/backend/ingest/internal/server/evidence_path_query.go\<close>. It picks one
  finding, process, flow and DNS answer out of the telemetry of a device and presents them as a small
  graph with a narrative. Quoting (\<open>%q\<close>) and the patterns of the bill of materials are parameters.
\<close>

section \<open>Nodes and edges\<close>

datatype confidence = High | Medium | Low

record evidenceNode =
  en_ID :: string
  en_Type :: string
  en_Label :: string
  en_OperatorLabel :: string
  en_Detail :: string
  en_EvidenceID :: string
  en_Confidence :: confidence
  en_ConfidenceReason :: string
  en_Attributes :: "(string, string) gomap"
  en_Missing :: bool
  en_RelatedABOMID :: string
  en_RelatedABOMLabel :: string

record evidenceEdge =
  ee_From :: string
  ee_To :: string
  ee_Label :: string
  ee_Confidence :: confidence

definition middle_dot :: string where
  "middle_dot = [CHR '' '', CHR 0xC2, CHR 0xB7, CHR '' '']"

definition em_dash :: string where
  "em_dash = [CHR '' '', CHR 0xE2, CHR 0x80, CHR 0x94, CHR '' '']"

definition defaultStringEv :: "string \<Rightarrow> string \<Rightarrow> string" where
  "defaultStringEv value fallback = (if trim_space value = [] then fallback else value)"

definition node :: "string \<Rightarrow> string \<Rightarrow> string \<Rightarrow> string \<Rightarrow> string \<Rightarrow> confidence \<Rightarrow> evidenceNode" where
  "node i ty label detail evidence conf =
     \<lparr>en_ID = i, en_Type = ty, en_Label = label, en_OperatorLabel = [], en_Detail = detail,
      en_EvidenceID = evidence, en_Confidence = conf, en_ConfidenceReason = [], en_Attributes = [],
      en_Missing = False, en_RelatedABOMID = [], en_RelatedABOMLabel = []\<rparr>"

definition missing_node :: "string \<Rightarrow> string \<Rightarrow> evidenceNode" where
  "missing_node i label = (node i i label [] [] Low)\<lparr>en_Missing := True\<rparr>"

definition edge :: "string \<Rightarrow> string \<Rightarrow> string \<Rightarrow> confidence \<Rightarrow> evidenceEdge" where
  "edge a b label conf = \<lparr>ee_From = a, ee_To = b, ee_Label = label, ee_Confidence = conf\<rparr>"

section \<open>The choice of the evidence\<close>

text \<open>The finding with the highest score, the first of them where several have it.\<close>

definition highest_finding :: "findingRecord list \<Rightarrow> findingRecord option" where
  "highest_finding fs =
     (case fs of
        [] \<Rightarrow> None
      | f # rest \<Rightarrow>
          Some (foldl (\<lambda>h f. if gp_RiskScore (fg f) > gp_RiskScore (fg h) then f else h) f rest))"

text \<open>The head of the list after a stable sort, newest first.\<close>

definition newest :: "('r \<Rightarrow> int) \<Rightarrow> 'r list \<Rightarrow> 'r option" where
  "newest t rs = head_opt (sort_key (\<lambda>r. - t r) rs)"

definition pickLeadProcess :: "findingRecord option \<Rightarrow> processRecord list \<Rightarrow> processRecord option" where
  "pickLeadProcess finding processes =
     (let linked = (case finding of
            None \<Rightarrow> None
          | Some f \<Rightarrow>
              (case gp_ProcessGUID (fg f) of
                 None \<Rightarrow> None
               | Some g \<Rightarrow> if g \<noteq> [] then List.find (\<lambda>p. pp_ProcessGUID (pr p) = g) processes else None))
      in case linked of Some p \<Rightarrow> Some p | None \<Rightarrow> newest eh_TimestampMS processes)"

definition pickLeadFlow :: "processRecord option \<Rightarrow> flowRecord list \<Rightarrow> flowRecord option" where
  "pickLeadFlow process flows =
     (case (case process of
              None \<Rightarrow> None
            | Some p \<Rightarrow> List.find (\<lambda>f. stringValue (fp_ProcessGUID (fl f)) = pp_ProcessGUID (pr p)) flows) of
        Some f \<Rightarrow> Some f
      | None \<Rightarrow> newest eh_TimestampMS flows)"

definition pickLeadDNS :: "processRecord option \<Rightarrow> dnsRecord list \<Rightarrow> dnsRecord option" where
  "pickLeadDNS process rows =
     (case (case process of
              None \<Rightarrow> None
            | Some p \<Rightarrow> List.find (\<lambda>d. stringValue (np_ProcessGUID (dn d)) = pp_ProcessGUID (pr p)) rows) of
        Some d \<Rightarrow> Some d
      | None \<Rightarrow> newest eh_TimestampMS rows)"

definition parent_guid :: "processRecord option \<Rightarrow> string option" where
  "parent_guid process =
     (case process of
        None \<Rightarrow> None
      | Some p \<Rightarrow>
          (case pp_ParentProcessGUID (pr p) of None \<Rightarrow> None | Some g \<Rightarrow> if g \<noteq> [] then Some g else None))"

definition opt_attr :: "string \<Rightarrow> string option \<Rightarrow> (string, string) gomap" where
  "opt_attr k v = (case v of None \<Rightarrow> [] | Some s \<Rightarrow> if s \<noteq> [] then [(k, s)] else [])"

section \<open>The nodes of the path\<close>

definition endpoint_node :: "string \<Rightarrow> string \<Rightarrow> evidenceNode" where
  "endpoint_node deviceID agentID =
     node ''endpoint'' ''endpoint'' (defaultStringEv deviceID ''unknown endpoint'')
       (''Agent '' @ defaultStringEv agentID ''unknown'') (''device:'' @ deviceID)
       (if deviceID = [] then Low else High)"

definition parent_node :: "processRecord option \<Rightarrow> evidenceNode" where
  "parent_node process =
     (case parent_guid process of
        Some g \<Rightarrow> node ''parent_process'' ''parent_process'' (''parent guid '' @ g) [] (''process_guid:'' @ g) Medium
      | None \<Rightarrow> missing_node ''parent_process'' ''parent process not linked'')"

definition process_node :: "processRecord option \<Rightarrow> evidenceNode" where
  "process_node process =
     (case process of
        Some p \<Rightarrow>
          (node ''process'' ''process''
             (defaultStringEv (stringValue (pp_Name (pr p))) ''process'' @ '' pid '' @ itoa (pp_PID (pr p)))
             (stringValue (pp_Path (pr p))) (''process_guid:'' @ pp_ProcessGUID (pr p)) High)
          \<lparr>en_Attributes := opt_attr ''command_line'' (pp_CommandLine (pr p)) @ opt_attr ''user'' (pp_User (pr p))\<rparr>
      | None \<Rightarrow> missing_node ''process'' ''no process linked'')"

definition flow_node :: "flowRecord option \<Rightarrow> evidenceNode" where
  "flow_node flow =
     (case flow of
        Some f \<Rightarrow>
          (let dest = socketText (fp_RemoteIP (fl f)) (fp_RemotePort (fl f))
           in node ''flow'' ''flow''
                (defaultStringEv (stringValue (fp_Protocol (fl f))) ''tcp'' @ '' '' @
                 defaultStringEv (stringValue (fp_Direction (fl f))) ''outbound'' @ '' to '' @ dest)
                (defaultStringEv (stringValue (fp_RemoteHostname (fl f))) dest)
                (''flow_id:'' @ fp_FlowID (fl f)) High)
      | None \<Rightarrow> missing_node ''flow'' ''no network flow linked'')"

definition dns_node :: "dnsRecord option \<Rightarrow> evidenceNode" where
  "dns_node dns =
     (case dns of
        Some d \<Rightarrow> node ''dns'' ''dns'' (np_Query (dn d)) (join_with '', '' (np_Answers (dn d)))
                    (''event:'' @ eh_EventID d) Medium
      | None \<Rightarrow> missing_node ''dns'' ''no DNS evidence linked'')"

definition finding_title :: "findingRecord \<Rightarrow> string" where
  "finding_title f =
     (let t1 = stringValue (gp_Title (fg f));
          t2 = (if t1 = [] then stringValue (gp_Classification (fg f)) else t1)
      in if t2 = [] then eh_EventType f else t2)"

definition finding_node :: "findingRecord option \<Rightarrow> evidenceNode" where
  "finding_node finding =
     (case finding of
        Some f \<Rightarrow>
          (node ''finding'' ''finding'' (finding_title f) (stringValue (gp_Description (fg f)))
             (''finding:'' @ defaultStringEv (stringValue (gp_FindingID (fg f))) (eh_EventID f))
             (if gp_RiskScore (fg f) \<ge> 60 then High else Medium))
          \<lparr>en_Attributes := (''risk_score'', itoa (gp_RiskScore (fg f))) # opt_attr ''severity'' (gp_Severity (fg f))\<rparr>
      | None \<Rightarrow> missing_node ''finding'' ''no finding anchored'')"

definition detection_id :: "findingRecord option \<Rightarrow> string option" where
  "detection_id finding =
     (case finding of
        None \<Rightarrow> None
      | Some f \<Rightarrow> (case gp_DetectionID (fg f) of None \<Rightarrow> None | Some d \<Rightarrow> if d \<noteq> [] then Some d else None))"

definition detection_node :: "string \<Rightarrow> evidenceNode" where
  "detection_node d =
     node ''detection_pack'' ''detection_pack'' (''Detection '' @ d) [] (''detection:'' @ d) Medium"

definition draft_node :: "nat \<Rightarrow> draftControlRecord \<Rightarrow> evidenceNode" where
  "draft_node i d =
     node (''draft_control_'' @ itoa (int i)) ''draft_control'' (dc_Title d) (dc_Action d) (''draft:'' @ dc_ControlID d) Medium"

definition path_nodes :: "string \<Rightarrow> string \<Rightarrow> findingRecord option \<Rightarrow> processRecord option \<Rightarrow> flowRecord option \<Rightarrow> dnsRecord option \<Rightarrow> draftControlRecord list \<Rightarrow> evidenceNode list" where
  "path_nodes deviceID agentID finding process flow dns drafts =
     [endpoint_node deviceID agentID, parent_node process, process_node process, flow_node flow,
      dns_node dns, finding_node finding] @
     (case detection_id finding of Some d \<Rightarrow> [detection_node d] | None \<Rightarrow> []) @
     map (\<lambda>(i, d). draft_node i d) (enumerate 0 (take 2 drafts))"

definition path_edges :: "findingRecord option \<Rightarrow> processRecord option \<Rightarrow> flowRecord option \<Rightarrow> dnsRecord option \<Rightarrow> draftControlRecord list \<Rightarrow> evidenceEdge list" where
  "path_edges finding process flow dns drafts =
     [edge ''parent_process'' ''process'' ''launched'' (if parent_guid process \<noteq> None then Medium else Low),
      edge ''process'' ''endpoint'' ''observed_on'' (if process \<noteq> None then High else Low),
      edge ''process'' ''flow'' ''connected'' (if flow \<noteq> None \<and> process \<noteq> None then Medium else Low),
      edge ''dns'' ''flow'' ''resolved'' (if dns \<noteq> None \<and> flow \<noteq> None then Medium else Low),
      edge ''finding'' ''process'' ''matched''
        (case finding of
           None \<Rightarrow> Low
         | Some f \<Rightarrow>
             if (case process of None \<Rightarrow> False | Some p \<Rightarrow> gp_ProcessGUID (fg f) = Some (pp_ProcessGUID (pr p)))
             then High else Medium)] @
     (case detection_id finding of
        Some d \<Rightarrow> [edge ''detection_pack'' ''finding'' ''matched'' Medium]
      | None \<Rightarrow> []) @
     map (\<lambda>(i, d). edge ''finding'' (''draft_control_'' @ itoa (int i)) ''supports_control''
            (if finding \<noteq> None then Medium else Low)) (enumerate 0 (take 2 drafts))"

text \<open>The names of what is missing, as the sorted keys of a map.\<close>

definition path_missing :: "findingRecord option \<Rightarrow> processRecord option \<Rightarrow> flowRecord option \<Rightarrow> dnsRecord option \<Rightarrow> string list" where
  "path_missing finding process flow dns =
     (if detection_id finding = None then [''detection_pack''] else []) @
     (if dns = None then [''dns''] else []) @
     (if finding = None then [''finding''] else []) @
     (if flow = None then [''flow''] else []) @
     (if parent_guid process = None then [''parent_process''] else []) @
     (if process = None then [''process''] else [])"

definition overallConfidence :: "evidenceNode list \<Rightarrow> confidence" where
  "overallConfidence nodes =
     (let high = length (filter (\<lambda>n. en_Confidence n = High) nodes);
          medium = length (filter (\<lambda>n. en_Confidence n = Medium) nodes);
          low = length (filter (\<lambda>n. en_Confidence n = Low) nodes)
      in if high > 0 \<and> low \<le> 1 \<and> medium \<ge> 1 then High
         else if high + medium \<ge> 3 then Medium
         else Low)"

definition buildSummary :: "(string \<Rightarrow> string) \<Rightarrow> string \<Rightarrow> findingRecord option \<Rightarrow> processRecord option \<Rightarrow> flowRecord option \<Rightarrow> dnsRecord option \<Rightarrow> draftControlRecord list \<Rightarrow> string list \<Rightarrow> string" where
  "buildSummary quote deviceID finding process flow dns drafts missing =
     (let parts =
        [case finding of
           Some f \<Rightarrow> ''Finding '' @ quote (finding_title f) @ '' (risk '' @ itoa (gp_RiskScore (fg f)) @ '') on '' @
             defaultStringEv deviceID ''unknown endpoint''
         | None \<Rightarrow> ''Activity on '' @ defaultStringEv deviceID ''unknown endpoint''] @
        (case process of
           Some p \<Rightarrow> [''linked to process '' @ defaultStringEv (stringValue (pp_Name (pr p))) ''process'' @ '' pid '' @ itoa (pp_PID (pr p))]
         | None \<Rightarrow> []) @
        (case flow of
           Some f \<Rightarrow> [''connecting to '' @ socketText (fp_RemoteIP (fl f)) (fp_RemotePort (fl f))]
         | None \<Rightarrow> []) @
        (case dns of Some d \<Rightarrow> [''via DNS '' @ np_Query (dn d)] | None \<Rightarrow> []) @
        (case drafts of d # _ \<Rightarrow> [''supports draft control '' @ dc_ControlID d] | [] \<Rightarrow> []);
          summary = join_with middle_dot parts
      in if missing \<noteq> [] then summary @ middle_dot @ ''missing: '' @ join_with '', '' missing else summary)"

type_synonym evidence_path = "evidenceNode list \<times> evidenceEdge list \<times> string list \<times> confidence \<times> string"

definition buildEvidencePath :: "(string \<Rightarrow> string) \<Rightarrow> string \<Rightarrow> string \<Rightarrow> findingRecord option \<Rightarrow> evidence_rows \<Rightarrow> draftControlRecord list \<Rightarrow> evidence_path" where
  "buildEvidencePath quote deviceID agentID anchorFinding rows drafts =
     (if deviceID = [] \<and> anchorFinding = None \<and> ev_processes rows = [] \<and> ev_flows rows = [] \<and> ev_findings rows = []
      then ([], [], [''endpoint'', ''process'', ''flow'', ''dns'', ''finding''], Low, [])
      else
        let finding = (case anchorFinding of Some f \<Rightarrow> Some f | None \<Rightarrow> highest_finding (ev_findings rows));
            process = pickLeadProcess finding (ev_processes rows);
            flow = pickLeadFlow process (ev_flows rows);
            dns = pickLeadDNS process (ev_dns rows);
            nodes = path_nodes deviceID agentID finding process flow dns drafts;
            missing = path_missing finding process flow dns
        in (nodes, path_edges finding process flow dns drafts, missing, overallConfidence nodes,
            buildSummary quote deviceID finding process flow dns drafts missing))"

section \<open>The narrative\<close>

text \<open>
  What the narrative takes from elsewhere: quoting, lower case of a whole text, the entry of the bill
  of materials for a process and for a DNS name, and whether a name is that of a local model runtime.
\<close>

record evidence_lib =
  el_quote :: "string \<Rightarrow> string"
  el_abom_process :: "processRecord \<Rightarrow> string \<times> string"
  el_abom_dns :: "dnsRecord \<Rightarrow> string \<times> string"
  el_local_runtime :: "string \<Rightarrow> bool"

record evidenceNarrative =
  na_WhatHappened :: string
  na_WhyItMatters :: string
  na_WhatWeKnow :: "string list"
  na_WhatIsMissing :: "string list"
  na_RecommendedNextStep :: string

definition endpoint_reason :: "evidenceNode \<Rightarrow> string" where
  "endpoint_reason n =
     (if en_Missing n then ''No endpoint id resolved'' @ em_dash @ ''cannot anchor evidence to a single device.''
      else ''Endpoint id confirmed by direct telemetry from the agent.'')"

definition process_reason :: "evidence_lib \<Rightarrow> processRecord \<Rightarrow> string" where
  "process_reason lib p =
     ''Process '' @ el_quote lib (defaultStringEv (stringValue (pp_Name (pr p))) ''process'') @ '' (pid '' @
     itoa (pp_PID (pr p)) @ '') observed by the agent. command_line and user attributes are present.''"

definition flow_reason :: "flowRecord \<Rightarrow> string" where
  "flow_reason f =
     ''Flow telemetry confirms '' @ defaultStringEv (stringValue (fp_Direction (fl f))) ''outbound'' @
     '' connecting to '' @ socketText (fp_RemoteIP (fl f)) (fp_RemotePort (fl f)) @ ''.''"

definition dns_reason :: "evidence_lib \<Rightarrow> dnsRecord \<Rightarrow> string" where
  "dns_reason lib d =
     ''DNS query '' @ el_quote lib (np_Query (dn d)) @ '' resolved to '' @
     defaultStringEv (join_with '', '' (np_Answers (dn d))) ''no answers recorded'' @ em_dash @
     ''confirms the destination domain in plain text.''"

definition finding_reason :: "findingRecord \<Rightarrow> string" where
  "finding_reason f =
     ''Detection scored '' @ itoa (gp_RiskScore (fg f)) @ '' (severity '' @
     defaultStringEv (stringValue (gp_Severity (fg f))) ''unknown'' @ ''). The reason this row exists in the path.''"

text \<open>The label and the reason of one node; a node keeps its empty reason where there is nothing to tell.\<close>

definition enrich_node :: "evidence_lib \<Rightarrow> findingRecord option \<Rightarrow> processRecord option \<Rightarrow> flowRecord option \<Rightarrow> dnsRecord option \<Rightarrow> evidenceNode \<Rightarrow> evidenceNode" where
  "enrich_node lib leadFinding leadProcess leadFlow leadDNS n =
     (if en_Type n = ''endpoint'' then
        n\<lparr>en_OperatorLabel := ''Computer where this happened'', en_ConfidenceReason := endpoint_reason n\<rparr>
      else if en_Type n = ''parent_process'' then
        n\<lparr>en_OperatorLabel := ''Program that started it'', en_ConfidenceReason :=
          (if en_Missing n then ''No parent process linked. The agent did not report parent_process_guid for this run.''
           else ''Parent process id linked through process telemetry.'')\<rparr>
      else if en_Type n = ''process'' then
        (let n1 = n\<lparr>en_OperatorLabel := ''Program that ran''\<rparr>
         in if en_Missing n then n1\<lparr>en_ConfidenceReason := ''No process record linked. Without a process, this finding cannot be tied to a binary or command.''\<rparr>
            else case leadProcess of
              None \<Rightarrow> n1
            | Some p \<Rightarrow>
                let n2 = n1\<lparr>en_ConfidenceReason := process_reason lib p\<rparr>; (i, label) = el_abom_process lib p
                in if i \<noteq> [] then n2\<lparr>en_RelatedABOMID := i, en_RelatedABOMLabel := label\<rparr> else n2)
      else if en_Type n = ''flow'' then
        (let n1 = n\<lparr>en_OperatorLabel := ''Where it talked to''\<rparr>
         in if en_Missing n then n1\<lparr>en_ConfidenceReason := ''No matching network flow linked. Either the program made no outbound traffic or the flow telemetry is not yet aggregated.''\<rparr>
            else case leadFlow of None \<Rightarrow> n1 | Some f \<Rightarrow> n1\<lparr>en_ConfidenceReason := flow_reason f\<rparr>)
      else if en_Type n = ''dns'' then
        (let n1 = n\<lparr>en_OperatorLabel := ''How it resolved the destination''\<rparr>
         in if en_Missing n then n1\<lparr>en_ConfidenceReason := ''No DNS lookup linked. The flow may be IP-only or DNS telemetry is not yet captured for this window.''\<rparr>
            else case leadDNS of
              None \<Rightarrow> n1
            | Some d \<Rightarrow>
                let n2 = n1\<lparr>en_ConfidenceReason := dns_reason lib d\<rparr>; (i, label) = el_abom_dns lib d
                in if i \<noteq> [] then n2\<lparr>en_RelatedABOMID := i, en_RelatedABOMLabel := label\<rparr> else n2)
      else if en_Type n = ''finding'' then
        (let n1 = n\<lparr>en_OperatorLabel := ''Why we flagged this''\<rparr>
         in if en_Missing n then n1\<lparr>en_ConfidenceReason := ''No finding anchored. Without a finding, the path is observation only'' @ em_dash @ ''no detection rule fired.''\<rparr>
            else case leadFinding of None \<Rightarrow> n1 | Some f \<Rightarrow> n1\<lparr>en_ConfidenceReason := finding_reason f\<rparr>)
      else if en_Type n = ''detection_pack'' then
        n\<lparr>en_OperatorLabel := ''Detection that matched'',
          en_ConfidenceReason := ''Detection id supplied by the finding'' @ em_dash @ ''links this evidence to the rule that fired.''\<rparr>
      else if en_Type n = ''draft_control'' then
        n\<lparr>en_OperatorLabel := ''Suggested observe-only response'',
          en_ConfidenceReason := ''Synthesized from this evidence by the finding-to-control workflow. No enforcement until you promote it.''\<rparr>
      else n)"

definition narrativeWhatHappened :: "evidence_lib \<Rightarrow> string \<Rightarrow> findingRecord option \<Rightarrow> processRecord option \<Rightarrow> flowRecord option \<Rightarrow> dnsRecord option \<Rightarrow> string" where
  "narrativeWhatHappened lib deviceID finding process flow dns =
     (let subject = defaultStringEv deviceID ''an endpoint''
      in join_with '' ''
        ([case finding of
            Some f \<Rightarrow>
              (let t1 = stringValue (gp_Title (fg f));
                   t2 = (if t1 = [] then stringValue (gp_Classification (fg f)) else t1);
                   title = (if t2 = [] then ''a finding'' else t2)
               in ''On '' @ subject @ '', '' @ to_lower title @ ''.'')
          | None \<Rightarrow> ''Activity observed on '' @ subject @ ''.''] @
         (case process of
            Some p \<Rightarrow> [''Program '' @ el_quote lib (defaultStringEv (stringValue (pp_Name (pr p))) ''process'') @
              '' (pid '' @ itoa (pp_PID (pr p)) @ '') ran the activity.'']
          | None \<Rightarrow> []) @
         (case flow of
            Some f \<Rightarrow> [''It talked outbound to '' @ socketText (fp_RemoteIP (fl f)) (fp_RemotePort (fl f)) @ ''.'']
          | None \<Rightarrow> []) @
         (case dns of
            Some d \<Rightarrow> [''DNS lookup '' @ el_quote lib (np_Query (dn d)) @ '' confirms the destination domain.'']
          | None \<Rightarrow> [])))"

definition narrativeWhyItMatters :: "evidence_lib \<Rightarrow> findingRecord option \<Rightarrow> processRecord option \<Rightarrow> string" where
  "narrativeWhyItMatters lib finding process =
     (case finding of
        Some f \<Rightarrow>
          (let title = to_lower (stringValue (gp_Title (fg f)))
           in if contains title ''ai'' \<or> contains title ''agent'' \<or> contains title ''model''
              then ''An AI-related signal is interesting because it lives outside the normal SaaS perimeter'' @ em_dash @ ''programs talking to model providers can carry secrets and code in real time.''
              else if (case process of None \<Rightarrow> False | Some p \<Rightarrow> el_local_runtime lib (to_lower (stringValue (pp_Name (pr p)))))
              then ''Local model runtimes can expose APIs to other devices on the same network without authentication. The risk is lateral abuse, not crash damage.''
              else ''A detection at risk '' @ itoa (gp_RiskScore (fg f)) @ '' is enough to warrant operator attention before drift becomes the norm.'')
      | None \<Rightarrow>
          (if process \<noteq> None
           then ''Without a finding this is observation only, but the program path provides starting context for review.''
           else ''Without a finding or a strong process link, this row is informational only.''))"

definition narrativeNextStep :: "findingRecord option \<Rightarrow> processRecord option \<Rightarrow> draftControlRecord list \<Rightarrow> string list \<Rightarrow> string" where
  "narrativeNextStep finding process drafts missing =
     (if length missing > 2
      then ''Confirm telemetry coverage on this endpoint (process, flow, DNS) before treating the path as authoritative. The missing-evidence list points to the gaps.''
      else case drafts of
        d # _ \<Rightarrow> ''Open the finding-to-control designer with this finding and review draft control '' @ dc_ControlID d @ '' as an observe-only response.''
      | [] \<Rightarrow>
          (if finding \<noteq> None \<and> process \<noteq> None
           then ''Open the finding-to-control designer with this finding to draft an observe-only response with scope and rollback.''
           else if process \<noteq> None
           then ''Cross-link the program to the Agent Bill of Materials. If it is not in ABOM yet, consider whether it should be sanctioned or reviewed.''
           else ''Investigate adjacent telemetry on this endpoint to build enough evidence for a draft control.''))"

definition missingExplanation :: "string \<Rightarrow> string" where
  "missingExplanation name =
     (if name = ''endpoint'' then ''No endpoint id linked'' @ em_dash @ ''open the device record manually to verify telemetry.''
      else if name = ''process'' then ''No process linked'' @ em_dash @ ''without a process this row cannot be tied to a binary or command.''
      else if name = ''parent_process'' then ''Parent process not linked'' @ em_dash @ ''the spawning chain is incomplete.''
      else if name = ''flow'' then ''No matching outbound flow'' @ em_dash @ ''the program may be local-only or flow telemetry is missing.''
      else if name = ''dns'' then ''No DNS lookup linked'' @ em_dash @ ''confirm DNS collector status before treating the destination as ground truth.''
      else if name = ''finding'' then ''No finding anchored'' @ em_dash @ ''the path is observation only, no detection has fired.''
      else if name = ''detection_pack'' then ''Finding does not reference a detection id'' @ em_dash @ ''pack lineage cannot be verified.''
      else name)"

definition or_fallback :: "string \<Rightarrow> string list \<Rightarrow> string list" where
  "or_fallback d xs = (if xs = [] then [d] else xs)"

definition buildEvidenceNarrativeBlock :: "evidence_lib \<Rightarrow> string \<Rightarrow> findingRecord option \<Rightarrow> processRecord option \<Rightarrow> flowRecord option \<Rightarrow> dnsRecord option \<Rightarrow> draftControlRecord list \<Rightarrow> string list \<Rightarrow> evidenceNarrative" where
  "buildEvidenceNarrativeBlock lib deviceID finding process flow dns drafts missing =
     \<lparr>na_WhatHappened = narrativeWhatHappened lib deviceID finding process flow dns,
      na_WhyItMatters = narrativeWhyItMatters lib finding process,
      na_WhatWeKnow = or_fallback ''Telemetry has not yet attached strong evidence to this subject.''
        ((case finding of Some f \<Rightarrow> [''Detection fired with risk score '' @ itoa (gp_RiskScore (fg f)) @ ''.''] | None \<Rightarrow> []) @
         (case process of
            Some p \<Rightarrow> [''Program '' @ el_quote lib (defaultStringEv (stringValue (pp_Name (pr p))) ''process'') @
              '' ran on '' @ defaultStringEv deviceID ''this endpoint'' @ ''.'']
          | None \<Rightarrow> []) @
         (case flow of
            Some f \<Rightarrow> [''Outbound flow to '' @ socketText (fp_RemoteIP (fl f)) (fp_RemotePort (fl f)) @ '' recorded.'']
          | None \<Rightarrow> []) @
         (case dns of
            Some d \<Rightarrow> [''DNS query '' @ el_quote lib (np_Query (dn d)) @ '' resolved to '' @
              defaultStringEv (join_with '', '' (np_Answers (dn d))) ''no answers'' @ ''.'']
          | None \<Rightarrow> [])),
      na_WhatIsMissing = or_fallback (''Nothing critical missing in this window'' @ em_dash @ ''confidence is not bounded by gaps.'')
        (map missingExplanation missing @
         (if ''parent_process'' \<in> set missing \<and> process \<noteq> None
          then [''Parent process is unknown'' @ em_dash @ ''verify the agent reports parent_process_guid for richer attribution.'']
          else [])),
      na_RecommendedNextStep = narrativeNextStep finding process drafts missing\<rparr>"

definition buildOverallConfidenceReason :: "confidence \<Rightarrow> string list \<Rightarrow> processRecord option \<Rightarrow> flowRecord option \<Rightarrow> dnsRecord option \<Rightarrow> findingRecord option \<Rightarrow> string" where
  "buildOverallConfidenceReason overall missing process flow dns finding =
     (let have_text = join_with '', ''
        ((if finding \<noteq> None then [''finding''] else []) @ (if process \<noteq> None then [''process''] else []) @
         (if flow \<noteq> None then [''flow''] else []) @ (if dns \<noteq> None then [''dns''] else []));
          missing_text = join_with '', '' missing
      in case overall of
           High \<Rightarrow> ''High confidence: '' @ have_text @ '' aligned without major gaps.''
         | Medium \<Rightarrow>
             if missing \<noteq> [] then ''Medium confidence: anchored by '' @ have_text @ '' but missing '' @ missing_text @ ''.''
             else ''Medium confidence: '' @ have_text @ '' present but evidence is shallow.''
         | Low \<Rightarrow> ''Low confidence: limited anchors ('' @ have_text @ '') and missing '' @ missing_text @ ''.'')"

text \<open>
  The narrative chooses its finding, process, flow and DNS answer itself: without an anchor it takes
  the first finding of the list, and no finding to link the process with.
\<close>

definition enrichEvidenceForOperator :: "evidence_lib \<Rightarrow> evidenceNode list \<Rightarrow> string list \<Rightarrow> confidence \<Rightarrow> string \<Rightarrow> findingRecord option \<Rightarrow> evidence_rows \<Rightarrow> draftControlRecord list \<Rightarrow> evidenceNode list \<times> evidenceNarrative \<times> string" where
  "enrichEvidenceForOperator lib nodes missing overall deviceID finding rows drafts =
     (let leadProcess = pickLeadProcess finding (ev_processes rows);
          leadFlow = pickLeadFlow leadProcess (ev_flows rows);
          leadDNS = pickLeadDNS leadProcess (ev_dns rows);
          leadFinding = (case finding of Some f \<Rightarrow> Some f | None \<Rightarrow> head_opt (ev_findings rows))
      in (map (enrich_node lib leadFinding leadProcess leadFlow leadDNS) nodes,
          buildEvidenceNarrativeBlock lib deviceID leadFinding leadProcess leadFlow leadDNS drafts missing,
          buildOverallConfidenceReason overall missing leadProcess leadFlow leadDNS leadFinding))"

section \<open>The handler\<close>

definition finding_matches :: "string \<Rightarrow> findingRecord \<Rightarrow> bool" where
  "finding_matches findingID r \<longleftrightarrow>
     stringValue (gp_FindingID (fg r)) = findingID \<or> eh_EventID r = findingID"

definition findFindingByID :: "'s store_ops \<Rightarrow> view_json \<Rightarrow> string \<Rightarrow> 's \<Rightarrow> string + findingRecord option" where
  "findFindingByID ops lib findingID st =
     (case view_events ops [] [] st of
        Inl err \<Rightarrow> Inl err
      | Inr events \<Rightarrow>
          Inr (head_opt (view_loop isFindingEventType (toFindingRecord lib) (finding_matches findingID) 1 events [])))"

definition loosely_linked :: "string \<Rightarrow> string option \<Rightarrow> bool" where
  "loosely_linked guid g \<longleftrightarrow> \<not> (guid \<noteq> [] \<and> stringValue g \<noteq> guid \<and> stringValue g \<noteq> [])"

definition path_filter :: "string \<Rightarrow> row_filter" where
  "path_filter guid =
     \<lparr>rf_process = (\<lambda>r. wants guid (pp_ProcessGUID (pr r))),
      rf_flow = (\<lambda>r. loosely_linked guid (fp_ProcessGUID (fl r))),
      rf_dns = (\<lambda>r. loosely_linked guid (np_ProcessGUID (dn r))),
      rf_finding = (\<lambda>r. loosely_linked guid (gp_ProcessGUID (fg r)))\<rparr>"

definition collectEvidencePathInputs :: "'s store_ops \<Rightarrow> view_json \<Rightarrow> (string \<Rightarrow> string) \<Rightarrow> string \<Rightarrow> string \<Rightarrow> string \<Rightarrow> nat \<Rightarrow> 's \<Rightarrow> string + evidence_rows \<times> draftControlRecord list" where
  "collectEvidencePathInputs ops lib hash deviceID agentID guid limit st =
     (case view_events ops deviceID agentID st of
        Inl err \<Rightarrow> Inl err
      | Inr events \<Rightarrow>
          let rows = fold (collect_event lib (path_filter guid) limit) events no_rows
          in Inr (rows, buildDraftControls hash deviceID \<lparr>if_ProcessGUID = guid, if_PID = None\<rparr>
                    (ev_processes rows) (ev_flows rows) (ev_dns rows) (ev_findings rows)))"

record evidencePathSubject =
  es_Type :: string
  es_ID :: string
  es_DeviceID :: string
  es_AgentID :: string

record evidencePathResponse =
  ep_Subject :: evidencePathSubject
  ep_Summary :: string
  ep_Narrative :: evidenceNarrative
  ep_Nodes :: "evidenceNode list"
  ep_Edges :: "evidenceEdge list"
  ep_MissingEvidence :: "string list"
  ep_ConfidenceOverall :: confidence
  ep_ConfidenceReason :: string
  ep_DraftControls :: "draftControlRecord list"
  ep_Rows :: evidence_rows
  ep_EmptyHelp :: string

record path_query =
  pq_finding_id :: string
  pq_device_id :: string
  pq_process_guid :: string
  pq_agent_id :: string

definition anchor_or :: "string \<Rightarrow> string \<Rightarrow> string" where
  "anchor_or asked anchored = (if asked = [] then anchored else asked)"

definition with_anchor :: "findingRecord option \<Rightarrow> evidence_rows \<Rightarrow> evidence_rows" where
  "with_anchor anchor rows =
     (case anchor of
        None \<Rightarrow> rows
      | Some a \<Rightarrow>
          if eh_EventID a \<in> eh_EventID ` set (ev_findings rows) then rows
          else rows\<lparr>ev_findings := a # ev_findings rows\<rparr>)"

definition path_subject :: "string \<Rightarrow> string \<Rightarrow> string \<Rightarrow> findingRecord option \<Rightarrow> evidencePathSubject" where
  "path_subject deviceID agentID guid anchor =
     (let s = \<lparr>es_Type = ''endpoint'', es_ID = deviceID, es_DeviceID = deviceID, es_AgentID = agentID\<rparr>
      in case anchor of
           Some a \<Rightarrow> s\<lparr>es_Type := ''finding'',
             es_ID := (if stringValue (gp_FindingID (fg a)) = [] then eh_EventID a else stringValue (gp_FindingID (fg a)))\<rparr>
         | None \<Rightarrow> if guid \<noteq> [] then s\<lparr>es_Type := ''process'', es_ID := guid\<rparr> else s)"

definition path_response :: "evidence_lib \<Rightarrow> string \<Rightarrow> string \<Rightarrow> string \<Rightarrow> findingRecord option \<Rightarrow> evidence_rows \<Rightarrow> draftControlRecord list \<Rightarrow> evidencePathResponse" where
  "path_response el deviceID agentID guid anchor rows0 drafts =
     (let rows = with_anchor anchor rows0;
          (nodes, edges, missing, overall, summary) = buildEvidencePath (el_quote el) deviceID agentID anchor rows drafts;
          (enriched, narrative, reason) = enrichEvidenceForOperator el nodes missing overall deviceID anchor rows drafts
      in \<lparr>ep_Subject = path_subject deviceID agentID guid anchor, ep_Summary = summary,
          ep_Narrative = narrative, ep_Nodes = enriched, ep_Edges = edges, ep_MissingEvidence = missing,
          ep_ConfidenceOverall = overall, ep_ConfidenceReason = reason, ep_DraftControls = drafts, ep_Rows = rows,
          ep_EmptyHelp = (if nodes = [] then ''No process, flow, DNS, or finding evidence yet for this device. The path populates as the agent reports telemetry.'' else [])\<rparr>)"

definition handleEvidencePath :: "'s store_ops \<Rightarrow> view_json \<Rightarrow> (string \<Rightarrow> string) \<Rightarrow> evidence_lib \<Rightarrow> http_method \<Rightarrow> path_query \<Rightarrow> 's ingest_server \<Rightarrow> (nat \<times> string) + evidencePathResponse" where
  "handleEvidencePath ops lib hash el m q s =
     (if m \<noteq> GET then Inl (405, ''method not allowed'')
      else case is_store s of
        None \<Rightarrow> Inl (503, ''visibility store is not configured'')
      | Some st \<Rightarrow>
          let findingID = trim_space (pq_finding_id q); device0 = trim_space (pq_device_id q);
              guid0 = trim_space (pq_process_guid q); agent0 = trim_space (pq_agent_id q)
          in if findingID = [] \<and> device0 = [] then Inl (400, ''finding_id or device_id is required'')
             else case (if findingID \<noteq> [] then findFindingByID ops lib findingID st else Inr None) of
               Inl err \<Rightarrow> Inl (503, err)
             | Inr anchor \<Rightarrow>
                 let deviceID = (case anchor of None \<Rightarrow> device0 | Some a \<Rightarrow> anchor_or device0 (eh_DeviceID a));
                     agentID = (case anchor of None \<Rightarrow> agent0 | Some a \<Rightarrow> anchor_or agent0 (eh_AgentID a));
                     guid = (case anchor of None \<Rightarrow> guid0 | Some a \<Rightarrow> anchor_or guid0 (stringValue (gp_ProcessGUID (fg a))))
                 in if deviceID = [] then Inl (404, ''could not resolve device for evidence path'')
                    else case collectEvidencePathInputs ops lib hash deviceID agentID guid 60 st of
                      Inl err \<Rightarrow> Inl (503, err)
                    | Inr (rows, drafts) \<Rightarrow> Inr (path_response el deviceID agentID guid anchor rows drafts))"

end
