(* ===== verification/Ing_ViewProperties.thy ===== *)
theory Ing_ViewProperties
  imports Ing_Evidence Ing_Examples
begin

text \<open>
  What the views show: an investigation consists of decoded events of the requested device in the
  store's log; an evidence path is a well-formed graph whose gaps are exactly the evidence it reports as
  missing, and high confidence leaves room for one gap; its narrative can be about another finding.
\<close>

section \<open>Investigations\<close>

lemma rows_with_sound:
  "r \<in> set (rows_with ty conv keep es) \<Longrightarrow> \<exists>e \<in> set es. ty (ve_EventType e) \<and> conv e = Some r \<and> keep r"
  by (induction es) (auto simp: rows_with_simps split: if_splits option.splits)

lemma last_n_set: "set (last_n n xs) \<subseteq> set xs"
  by (auto simp: last_n_def dest: in_set_dropD)

definition device_filter :: "string \<Rightarrow> string \<Rightarrow> visibilityQueryFilter" where
  "device_filter device_id agent_id =
     \<lparr>qf_EventID = [], qf_TenantID = [], qf_DeviceID = device_id, qf_AgentID = agent_id,
      qf_EventType = [], qf_Limit = maxVisibilityQueryLimit\<rparr>"

lemma view_events_file:
  assumes "file_inv lib st"
  shows "view_events (file_ops lib False True io) d a st =
    Inr (log_query (device_filter d a) (last_n 8000 (file_log lib st)))"
  using file_query [OF assms, of "device_filter d a"]
  by (simp add: view_events_def file_ops_def device_filter_def query_limit_def maxVisibilityQueryLimit_def
      defaultVisibilityQueryLimit_def)

lemma log_query_device:
  "e \<in> set (log_query (device_filter d a) L) \<Longrightarrow> d \<noteq> [] \<Longrightarrow> e \<in> set L \<and> ve_DeviceID e = d"
  by (auto dest!: log_query_sound simp: matches_filter_def device_filter_def)

lemma parseQueryLimit_bound: "parseQueryLimit raw = Inr l \<Longrightarrow> 1 \<le> l \<and> l \<le> 1000"
  by (auto simp: parseQueryLimit_def maxVisibilityQueryLimit_def defaultVisibilityQueryLimit_def Let_def
      split: if_splits option.splits)

lemma InvestigationD:
  assumes "handleVisibilityInvestigation ops vj hash GET q s = Inr i" and "is_store s = Some st"
  obtains limit pid events where "limit \<le> 1000" "vq_device_id q \<noteq> []"
    "view_events ops (vq_device_id q) (vq_agent_id q) st = Inr events"
    "ir_Rows i = all_rows vj (investigation_filter (vq_process_guid q) pid) limit events"
proof -
  from assms obtain l pid events where l: "parseQueryLimit (vq_limit q) = Inr l" and "vq_device_id q \<noteq> []"
    and "view_events ops (vq_device_id q) (vq_agent_id q) st = Inr events"
    and "ir_Rows i = all_rows vj (investigation_filter (vq_process_guid q) pid) (nat l) events"
    by (auto simp: handleVisibilityInvestigation_def collectInvestigation_def collect_all_rows Let_def
        split: if_splits sum.splits option.splits)
  moreover have "nat l \<le> 1000" using parseQueryLimit_bound [OF l] by (simp add: nat_le_iff)
  ultimately show ?thesis using that by blast
qed

text \<open>
  Every process, flow, DNS answer and finding that an investigation over the file store shows is
  the decoding of an event of the requested device in the store's log, and there are at most a
  thousand of each kind.
\<close>

lemma investigation_of_log:
  assumes "handleVisibilityInvestigation (file_ops lib False True io) vj hash GET q s = Inr i"
    and "is_store s = Some st" and "file_inv lib st"
  defines "E \<equiv> {e \<in> set (file_log lib st). ve_DeviceID e = vq_device_id q}"
  shows "Some ` set (ev_processes (ir_Rows i)) \<subseteq> toProcessRecord vj ` E \<and>
         Some ` set (ev_flows (ir_Rows i)) \<subseteq> toFlowRecord vj ` E \<and>
         Some ` set (ev_dns (ir_Rows i)) \<subseteq> toDNSRecord vj ` E \<and>
         Some ` set (ev_findings (ir_Rows i)) \<subseteq> toFindingRecord vj ` E \<and>
         length (ev_processes (ir_Rows i)) \<le> 1000 \<and> length (ev_flows (ir_Rows i)) \<le> 1000 \<and>
         length (ev_dns (ir_Rows i)) \<le> 1000 \<and> length (ev_findings (ir_Rows i)) \<le> 1000"
proof (intro conjI)
  obtain limit pid events where lim: "limit \<le> 1000" and d: "vq_device_id q \<noteq> []"
    and ev: "view_events (file_ops lib False True io) (vq_device_id q) (vq_agent_id q) st = Inr events"
    and rows: "ir_Rows i = all_rows vj (investigation_filter (vq_process_guid q) pid) limit events"
    by (rule InvestigationD [OF assms(1,2)])
  have E: "set events \<subseteq> E"
    using ev view_events_file [OF assms(3)] d last_n_set [of 8000 "file_log lib st"]
    by (auto simp: E_def dest!: log_query_device)
  have sub: "Some ` set (take limit (rows_with ty conv keep events)) \<subseteq> conv ` E" for ty keep
    and conv :: "visibilityEvent \<Rightarrow> 'r option"
  proof
    fix x assume "x \<in> Some ` set (take limit (rows_with ty conv keep events))"
    then obtain r where "x = Some r" "r \<in> set (rows_with ty conv keep events)" by (auto dest: in_set_takeD)
    then show "x \<in> conv ` E" using rows_with_sound E by (metis imageI subsetD)
  qed
  show "Some ` set (ev_processes (ir_Rows i)) \<subseteq> toProcessRecord vj ` E"
    and "Some ` set (ev_flows (ir_Rows i)) \<subseteq> toFlowRecord vj ` E"
    and "Some ` set (ev_dns (ir_Rows i)) \<subseteq> toDNSRecord vj ` E"
    and "Some ` set (ev_findings (ir_Rows i)) \<subseteq> toFindingRecord vj ` E"
    using sub by (simp_all add: rows all_rows_def)
  show "length (ev_processes (ir_Rows i)) \<le> 1000" "length (ev_flows (ir_Rows i)) \<le> 1000"
    "length (ev_dns (ir_Rows i)) \<le> 1000" "length (ev_findings (ir_Rows i)) \<le> 1000"
    using lim by (simp_all add: rows all_rows_def min.coboundedI2)
qed

section \<open>Evidence paths\<close>

definition node_ids :: "evidenceNode list \<Rightarrow> string set" where
  "node_ids nodes = en_ID ` set nodes"

text \<open>The fields of the nodes that matter for the shape of the graph.\<close>

lemma node_fields [simp]:
  "en_ID (node i t l d e c) = i" "en_Missing (node i t l d e c) = False" "en_Confidence (node i t l d e c) = c"
  "en_Type (node i t l d e c) = t"
  "en_ID (missing_node i l) = i" "en_Missing (missing_node i l)" "en_Confidence (missing_node i l) = Low"
  by (simp_all add: node_def missing_node_def)

lemma path_node_ids [simp]:
  "en_ID (endpoint_node d a) = ''endpoint''" "en_ID (parent_node p) = ''parent_process''"
  "en_ID (process_node p) = ''process''" "en_ID (flow_node f) = ''flow''" "en_ID (dns_node n) = ''dns''"
  "en_ID (finding_node g) = ''finding''" "en_ID (detection_node i) = ''detection_pack''"
  by (simp_all add: endpoint_node_def parent_node_def process_node_def flow_node_def dns_node_def
      finding_node_def detection_node_def Let_def split: option.splits)

lemma path_node_missing [simp]:
  "\<not> en_Missing (endpoint_node d a)" "en_Missing (parent_node p) \<longleftrightarrow> parent_guid p = None"
  "en_Missing (process_node p) \<longleftrightarrow> p = None" "en_Missing (flow_node f) \<longleftrightarrow> f = None"
  "en_Missing (dns_node n) \<longleftrightarrow> n = None" "en_Missing (finding_node g) \<longleftrightarrow> g = None"
  "\<not> en_Missing (detection_node i)" "\<not> en_Missing (draft_node j c)"
  by (simp_all add: endpoint_node_def parent_node_def process_node_def flow_node_def dns_node_def
      finding_node_def detection_node_def draft_node_def Let_def split: option.splits)

definition gap_is_low :: "evidenceNode \<Rightarrow> bool" where
  "gap_is_low n \<longleftrightarrow> (en_Missing n \<longrightarrow> en_Confidence n = Low)"

lemma nodes_gap_is_low:
  "gap_is_low (endpoint_node d a)" "gap_is_low (parent_node p)" "gap_is_low (process_node p)" "gap_is_low (flow_node f)"
  "gap_is_low (dns_node x)" "gap_is_low (finding_node g)" "gap_is_low (detection_node i)" "gap_is_low (draft_node j c)"
  by (simp_all add: gap_is_low_def)
    (simp_all add: parent_node_def process_node_def flow_node_def dns_node_def finding_node_def)

lemma path_gap_is_low: "list_all gap_is_low (path_nodes d a g p f x ds)"
proof -
  have "list_all gap_is_low (map (\<lambda>(i, c). draft_node i c) cs)" for cs
    by (induction cs) (auto simp: nodes_gap_is_low)
  then show ?thesis by (simp add: path_nodes_def nodes_gap_is_low split: option.split)
qed

lemma missing_is_low: "n \<in> set (path_nodes d a g p f x ds) \<Longrightarrow> en_Missing n \<Longrightarrow> en_Confidence n = Low"
  using path_gap_is_low [of d a g p f x ds] by (simp add: list_all_iff gap_is_low_def)

lemma enumerate_take2:
  "enumerate 0 (take 2 ds) = (case ds of [] \<Rightarrow> [] | [x] \<Rightarrow> [(0, x)] | x # y # _ \<Rightarrow> [(0, x), (1, y)])"
  by (auto simp: numeral_2_eq_2 split: list.splits)

lemma itoa_01: "itoa 0 = ''0''" "itoa 1 = ''1''"
proof -
  have "nat_digits 0 = ''0''" "nat_digits 1 = ''1''" by code_simp+
  then show "itoa 0 = ''0''" "itoa 1 = ''1''" by (simp_all add: itoa_def)
qed

lemma draft_ids: "en_ID (draft_node 0 c) = ''draft_control_0''" "en_ID (draft_node (Suc 0) c) = ''draft_control_1''"
  by (simp_all add: draft_node_def itoa_01)

lemma path_nodes_ids:
  "map en_ID (path_nodes d a g p f x ds) =
     [''endpoint'', ''parent_process'', ''process'', ''flow'', ''dns'', ''finding''] @
     (if detection_id g = None then [] else [''detection_pack'']) @
     take (length ds) [''draft_control_0'', ''draft_control_1'']"
  by (cases ds; cases "tl ds") (simp_all add: path_nodes_def enumerate_take2 draft_ids split: option.splits)

lemma path_nodes_distinct: "distinct (map en_ID (path_nodes d a g p f x ds))"
  unfolding path_nodes_ids by (cases ds; cases "tl ds") simp_all

lemma path_nodes_gaps:
  "map en_ID (filter en_Missing (path_nodes d a g p f x ds)) =
     (if parent_guid p = None then [''parent_process''] else []) @ (if p = None then [''process''] else []) @
     (if f = None then [''flow''] else []) @ (if x = None then [''dns''] else []) @
     (if g = None then [''finding''] else [])"
proof -
  have "filter en_Missing (map (\<lambda>(i, c). draft_node i c) cs) = []" for cs
    by (induction cs) auto
  then show ?thesis by (simp add: path_nodes_def split: option.splits)
qed

lemma path_nodes_missing:
  "en_ID ` {n \<in> set (path_nodes d a g p f x ds). en_Missing n} \<union>
     ({''detection_pack''} - node_ids (path_nodes d a g p f x ds)) = set (path_missing g p f x)"
proof -
  have 1: "en_ID ` {n \<in> set (path_nodes d a g p f x ds). en_Missing n} =
      set (map en_ID (filter en_Missing (path_nodes d a g p f x ds)))" by simp
  have "''detection_pack'' \<in> node_ids (path_nodes d a g p f x ds) \<longleftrightarrow> detection_id g \<noteq> None"
    using arg_cong [OF path_nodes_ids [of d a g p f x ds], of set]
    by (cases ds; cases "tl ds") (simp_all add: node_ids_def)
  then have 2: "{''detection_pack''} - node_ids (path_nodes d a g p f x ds) =
      set (if detection_id g = None then [''detection_pack''] else [])" by (cases "detection_id g") auto
  show ?thesis unfolding 1 2 path_nodes_gaps path_missing_def set_append by blast
qed

lemma path_missing_sorted: "sorted (path_missing g p f x) \<and> distinct (path_missing g p f x)"
proof -
  let ?all = "[(''detection_pack'', detection_id g = None), (''dns'', x = None), (''finding'', g = None),
    (''flow'', f = None), (''parent_process'', parent_guid p = None), (''process'', p = None)]"
  have "sorted [''detection_pack'', ''dns'', ''finding'', ''flow'', ''parent_process'', ''process'']" by code_simp
  then have "sorted (map fst (filter snd ?all)) \<and> distinct (map fst (filter snd ?all))"
    by (intro conjI sorted_filter distinct_map_filter) simp_all
  moreover have "path_missing g p f x = map fst (filter snd ?all)" by (simp add: path_missing_def)
  ultimately show ?thesis by simp
qed

lemma path_edges_closed:
  "ee_From ` set (path_edges g p f x ds) \<union> ee_To ` set (path_edges g p f x ds) \<subseteq> node_ids (path_nodes d a g p f x ds)"
proof -
  have "node_ids (path_nodes d a g p f x ds) = set (map en_ID (path_nodes d a g p f x ds))"
    by (simp add: node_ids_def)
  moreover have "''draft_control_'' @ itoa (int 0) = ''draft_control_0''" "''draft_control_'' @ itoa (int 1) = ''draft_control_1''"
    by (simp_all add: itoa_01)
  ultimately show ?thesis
    unfolding path_nodes_ids
    by (cases ds; cases "tl ds"; cases "detection_id g") (simp_all add: path_edges_def edge_def enumerate_take2)
qed

lemma buildEvidencePathD:
  assumes "buildEvidencePath quote d a anchor rows drafts = (nodes, edges, missing, overall, summary)"
    and "d \<noteq> []"
  obtains g p f x where "nodes = path_nodes d a g p f x drafts" "edges = path_edges g p f x drafts"
    "missing = path_missing g p f x" "overall = overallConfidence nodes"
  using assms by (auto simp: buildEvidencePath_def Let_def)

text \<open>
  C23. An evidence path is a graph: its nodes have distinct identifiers and its edges connect nodes of
  the path. What it lists as missing, in order, are the nodes that are placeholders, and the
  detection if it has no node.
\<close>

theorem evidence_path_wellformed:
  assumes "buildEvidencePath quote d a anchor rows drafts = (nodes, edges, missing, overall, summary)"
    and "d \<noteq> []"
  shows "distinct (map en_ID nodes) \<and>
    ee_From ` set edges \<union> ee_To ` set edges \<subseteq> node_ids nodes \<and>
    set missing = en_ID ` {n \<in> set nodes. en_Missing n} \<union> ({''detection_pack''} - node_ids nodes) \<and>
    sorted missing \<and> distinct missing"
proof (intro conjI)
  obtain g p f x where eqs: "nodes = path_nodes d a g p f x drafts" "edges = path_edges g p f x drafts"
    "missing = path_missing g p f x" by (rule buildEvidencePathD [OF assms])
  show "distinct (map en_ID nodes)" unfolding eqs by (rule path_nodes_distinct)
  show "ee_From ` set edges \<union> ee_To ` set edges \<subseteq> node_ids nodes" unfolding eqs by (rule path_edges_closed)
  show "set missing = en_ID ` {n \<in> set nodes. en_Missing n} \<union> ({''detection_pack''} - node_ids nodes)"
    unfolding eqs by (rule path_nodes_missing [symmetric])
  show "sorted missing" "distinct missing"
    unfolding eqs using path_missing_sorted by blast+
qed

text \<open>
  A path that is reported with high confidence has at most one placeholder among its nodes.
\<close>

lemma high_confidence_path:
  assumes "buildEvidencePath quote d a anchor rows drafts = (nodes, edges, missing, High, summary)"
    and "d \<noteq> []"
  shows "length (filter en_Missing nodes) \<le> 1"
proof -
  obtain g p f x where n: "nodes = path_nodes d a g p f x drafts" and o: "High = overallConfidence nodes"
    by (rule buildEvidencePathD [OF assms])
  have "length (filter en_Missing nodes) \<le> length (filter (\<lambda>n. en_Confidence n = Low) nodes)"
  proof -
    have "filter en_Missing nodes = filter en_Missing (filter (\<lambda>n. en_Confidence n = Low) nodes)"
      unfolding n filter_filter by (rule filter_cong) (auto dest: missing_is_low)
    then show ?thesis by (metis length_filter_le)
  qed
  also have "\<dots> \<le> 1"
    using o by (auto simp: overallConfidence_def Let_def split: if_splits)
  finally show ?thesis .
qed

text \<open>With an anchor, the graph and the narrative are about the same finding, process, flow and answer.\<close>

lemma anchored_narrative:
  assumes "d \<noteq> []" and "p = pickLeadProcess (Some g) (ev_processes rows)"
  shows "\<exists>edges missing overall summary.
    buildEvidencePath quote d a (Some g) rows drafts =
      (path_nodes d a (Some g) p (pickLeadFlow p (ev_flows rows)) (pickLeadDNS p (ev_dns rows)) drafts,
       edges, missing, overall, summary) \<and>
    fst (snd (enrichEvidenceForOperator el nodes missing' overall' d (Some g) rows drafts)) =
      buildEvidenceNarrativeBlock el d (Some g) p (pickLeadFlow p (ev_flows rows))
        (pickLeadDNS p (ev_dns rows)) drafts missing'"
  using assms by (simp add: buildEvidencePath_def enrichEvidenceForOperator_def Let_def)

text \<open>A path always has its six basic nodes, so the help text for an empty path is never sent.\<close>

lemma help_is_never_sent: "d \<noteq> [] \<Longrightarrow> ep_EmptyHelp (path_response el d a guid anchor rows drafts) = []"
  by (auto simp: path_response_def Let_def buildEvidencePath_def enrichEvidenceForOperator_def path_nodes_def
      split: prod.splits)

section \<open>A narrative about another finding\<close>

definition ex_finding :: "string \<Rightarrow> int \<Rightarrow> findingRecord" where
  "ex_finding i score = \<lparr>eh_EventID = i, eh_EventType = ''aegis.risk_finding.created'', eh_TimestampMS = 1,
     eh_DeviceID = ''d'', eh_AgentID = [], eh_Payload = [], fg = zero_finding\<lparr>gp_RiskScore := score\<rparr>\<rparr>"

definition ex_rows :: evidence_rows where
  "ex_rows = no_rows\<lparr>ev_findings := [ex_finding ''f1'' 10, ex_finding ''f2'' 90]\<rparr>"

definition ex_el :: evidence_lib where
  "ex_el = \<lparr>el_quote = (\<lambda>s. s), el_abom_process = (\<lambda>_. ([], [])), el_abom_dns = (\<lambda>_. ([], [])),
            el_local_runtime = (\<lambda>_. False)\<rparr>"

lemma ex_highest: "highest_finding [ex_finding ''f1'' 10, ex_finding ''f2'' 90] = Some (ex_finding ''f2'' 90)"
  by (simp add: highest_finding_def ex_finding_def)

text \<open>
  Without an anchor, the node of the finding shows the finding with the highest score, while its
  reason and the narrative speak of the newest finding: the node of a finding scored 90 is
  explained by a score of 10.
\<close>

lemma narrative_about_other_finding:
  "\<exists>n \<in> set (ep_Nodes (path_response ex_el ''d'' [] [] None ex_rows [])).
     en_ID n = ''finding'' \<and> en_EvidenceID n = ''finding:f2'' \<and>
     en_ConfidenceReason n = finding_reason (ex_finding ''f1'' 10)"
proof -
  let ?g = "Some (ex_finding ''f2'' 90)" and ?lead = "Some (ex_finding ''f1'' 10)"
  let ?n = "enrich_node ex_el ?lead None None None (finding_node ?g)"
  have none: "pickLeadProcess x (ev_processes ex_rows) = None" "pickLeadFlow None (ev_flows ex_rows) = None"
    "pickLeadDNS None (ev_dns ex_rows) = None" for x
    by (simp_all add: ex_rows_def no_rows_def pickLeadProcess_def pickLeadFlow_def pickLeadDNS_def newest_def
        head_opt_def split: option.splits)
  have "ev_findings ex_rows = [ex_finding ''f1'' 10, ex_finding ''f2'' 90]" by (simp add: ex_rows_def)
  then have "?n \<in> set (ep_Nodes (path_response ex_el ''d'' [] [] None ex_rows []))"
    by (simp add: path_response_def with_anchor_def buildEvidencePath_def enrichEvidenceForOperator_def none
        ex_highest head_opt_def path_nodes_def Let_def)
  moreover have "en_ID ?n = ''finding'' \<and> en_EvidenceID ?n = ''finding:f2'' \<and>
      en_ConfidenceReason ?n = finding_reason (ex_finding ''f1'' 10)"
    by (simp add: enrich_node_def finding_node_def node_def Let_def)
      (simp add: ex_finding_def zero_finding_def stringValue_def defaultStringEv_def trim_space_def trim_left_def)
  ultimately show ?thesis by blast
qed

section \<open>Instances\<close>

definition ex_pe :: visibilityEvent where
  "ex_pe = ex_e1\<lparr>ve_EventType := ''aegis.process.started''\<rparr>"

definition ex_view_lib :: store_json where
  "ex_view_lib = \<lparr>sj_event = (\<lambda>_. Some ''1''), sj_parse = (\<lambda>_. Some ex_pe),
                  sj_devices = (\<lambda>_. Some ''[]''), sj_parse_devices = (\<lambda>_. Some [])\<rparr>"

definition ex_vj :: view_json where
  "ex_vj = \<lparr>vj_process = (\<lambda>_. Some zero_process), vj_flow = (\<lambda>_. None), vj_dns = (\<lambda>_. None), vj_finding = (\<lambda>_. None)\<rparr>"

definition ex_vq :: view_query where
  "ex_vq = \<lparr>vq_limit = [], vq_pid = [], vq_device_id = ''d'', vq_agent_id = [], vq_process_guid = [], vq_flow_id = [],
     vq_remote_ip = [], vq_remote_hostname = [], vq_query = [], vq_answer = [], vq_detection_id = [],
     vq_finding_id = [], vq_severity = []\<rparr>"

lemma ex_view_codec [simp]:
  "codec_ok ex_view_lib ex_pe" "encode_line ex_view_lib ex_pe = ''1''" "ve_EventID ex_pe = ''a''"
  by (simp_all add: codec_ok_def encode_line_def ex_view_lib_def good_line_def maxVisibilityLineBytes_def)
    (simp_all add: ex_pe_def stamp_def ex_e1_def)

lemma ex_view_inv: "file_inv ex_view_lib ex_fs \<and> file_log ex_view_lib ex_fs = [ex_pe]"
  by (rule file_invI) (simp_all add: ex_fs_def render_def log_ids_def)

lemma ex_view_query:
  "view_events (file_ops ex_view_lib False True (\<lambda>_. ex_io)) ''d'' [] ex_fs = Inr [ex_pe]"
  using view_events_file [of ex_view_lib ex_fs "\<lambda>_. ex_io" "''d''" "[]"] ex_view_inv
  by (simp add: last_n_def log_query_def device_filter_def matches_filter_def ex_pe_def ex_e1_def
      query_limit_def maxVisibilityQueryLimit_def)

lemma investigation_of_log_witness:
  "\<exists>i. handleVisibilityInvestigation (file_ops ex_view_lib False True (\<lambda>_. ex_io)) ex_vj id GET ex_vq ex_server = Inr i \<and>
     length (ev_processes (ir_Rows i)) = 1 \<and>
     Some ` set (ev_processes (ir_Rows i)) \<subseteq> toProcessRecord ex_vj ` {ex_pe}"
proof -
  let ?ops = "file_ops ex_view_lib False True (\<lambda>_. ex_io)"
  have st: "is_store ex_server = Some ex_fs" by (simp add: ex_server_def)
  have q: "vq_device_id ex_vq = ''d''" "vq_agent_id ex_vq = []" "vq_limit ex_vq = []" "vq_pid ex_vq = []"
    "vq_process_guid ex_vq = []" by (simp_all add: ex_vq_def)
  obtain i where i: "handleVisibilityInvestigation ?ops ex_vj id GET ex_vq ex_server = Inr i"
    and rows: "ir_Rows i = all_rows ex_vj (investigation_filter [] None) 100 [ex_pe]"
    by (simp add: handleVisibilityInvestigation_def st q parseQueryLimit_def parseOptionalInt_def
        collectInvestigation_def ex_view_query collect_all_rows Let_def defaultVisibilityQueryLimit_def
        del: fold.simps fold_simps)
  have "length (ev_processes (ir_Rows i)) = 1"
    by (simp add: rows all_rows_def rows_with_simps isProcessEventType_def toProcessRecord_def decode_def
        ex_vj_def investigation_filter_def matchesInvestigationProcess_def wants_def)
      (simp add: ex_pe_def ex_e1_def)
  moreover have "Some ` set (ev_processes (ir_Rows i)) \<subseteq> toProcessRecord ex_vj ` {ex_pe}"
    using investigation_of_log [OF i st conjunct1 [OF ex_view_inv]] ex_view_inv by auto
  ultimately show ?thesis using i by blast
qed

definition ex_process :: processRecord where
  "ex_process = event_head.extend (head_of ex_pe) (processRecord.fields
     (zero_process\<lparr>pp_ProcessGUID := ''p'', pp_ParentProcessGUID := Some ''q''\<rparr>))"

definition ex_dns :: dnsRecord where
  "ex_dns = event_head.extend (head_of ex_pe) (dnsRecord.fields (zero_dns\<lparr>np_Query := ''host''\<rparr>))"

definition ex_path_rows :: evidence_rows where
  "ex_path_rows = \<lparr>ev_processes = [ex_process], ev_flows = [], ev_dns = [ex_dns], ev_findings = [ex_finding ''f1'' 70]\<rparr>"

definition ex_path_nodes :: "evidenceNode list" where
  "ex_path_nodes = path_nodes ''d'' [] (Some (ex_finding ''f1'' 70)) (Some ex_process) None (Some ex_dns) []"

lemma ex_path_pick:
  "highest_finding (ev_findings ex_path_rows) = Some (ex_finding ''f1'' 70)"
  "pickLeadProcess (Some (ex_finding ''f1'' 70)) (ev_processes ex_path_rows) = Some ex_process"
  "pickLeadFlow (Some ex_process) (ev_flows ex_path_rows) = None"
  "pickLeadDNS (Some ex_process) (ev_dns ex_path_rows) = Some ex_dns"
  by (simp_all add: ex_path_rows_def highest_finding_def pickLeadProcess_def pickLeadFlow_def pickLeadDNS_def
      newest_def head_opt_def split: option.split)

lemma ex_path:
  "\<exists>edges summary. buildEvidencePath id ''d'' [] None ex_path_rows [] =
     (ex_path_nodes, edges, [''detection_pack'', ''flow''], High, summary)"
proof -
  have "parent_guid (Some ex_process) = Some ''q''"
    by (simp add: parent_guid_def ex_process_def processRecord.defs event_head.defs)
  moreover have "detection_id (Some (ex_finding ''f1'' 70)) = None"
    by (simp add: detection_id_def ex_finding_def zero_finding_def)
  ultimately have "path_missing (Some (ex_finding ''f1'' 70)) (Some ex_process) None (Some ex_dns) = [''detection_pack'', ''flow'']"
    and "overallConfidence ex_path_nodes = High"
    by (simp_all add: path_missing_def overallConfidence_def ex_path_nodes_def path_nodes_def endpoint_node_def
        parent_node_def process_node_def flow_node_def dns_node_def finding_node_def Let_def)
  then show ?thesis
    by (simp add: buildEvidencePath_def Let_def ex_path_pick ex_path_nodes_def)
qed

theorem evidence_path_wellformed_witness:
  "distinct (map en_ID ex_path_nodes) \<and>
   {''detection_pack'', ''flow''} =
     en_ID ` {n \<in> set ex_path_nodes. en_Missing n} \<union> ({''detection_pack''} - node_ids ex_path_nodes)"
proof -
  obtain edges summary where "buildEvidencePath id ''d'' [] None ex_path_rows [] =
     (ex_path_nodes, edges, [''detection_pack'', ''flow''], High, summary)" using ex_path by blast
  from evidence_path_wellformed [OF this] show ?thesis by auto
qed

lemma high_confidence_path_witness: "length (filter en_Missing ex_path_nodes) \<le> 1"
proof -
  obtain edges summary where "buildEvidencePath id ''d'' [] None ex_path_rows [] =
     (ex_path_nodes, edges, [''detection_pack'', ''flow''], High, summary)" using ex_path by blast
  from high_confidence_path [OF this] show ?thesis by simp
qed

end
