(* ===== verification/Go_Regexp.thy ===== *)
theory Go_Regexp
  imports Prelude
begin

text \<open>
  The part of Go's \<open>regexp\<close> package the sources use: whether a pattern matches somewhere in a text. A pattern
  is built from classes of characters, anchors, word boundaries, sequence, choice, option and the
  iteration of a class; all of them carry the flag \<open>(?i)\<close>, so literals ignore case.
\<close>

section \<open>Patterns and the matcher\<close>

datatype regexp =
    REps
  | RClass "char \<Rightarrow> bool"
  | RMany "char \<Rightarrow> bool"
  | RBegin
  | REnd
  | RBoundary
  | RSeq regexp regexp
  | RAlt regexp regexp

text \<open>A position in a text: the character before it and the rest of the text.\<close>

type_synonym position = "char option \<times> string"

definition is_word :: "char \<Rightarrow> bool" where
  "is_word c = (is_digit c \<or> c = CHR ''_'' \<or> (let n = (of_char (lower_char c) :: nat) in 97 \<le> n \<and> n \<le> 122))"

definition at_boundary :: "position \<Rightarrow> bool" where
  "at_boundary p =
     ((case fst p of None \<Rightarrow> False | Some c \<Rightarrow> is_word c) \<noteq> (case snd p of [] \<Rightarrow> False | c # _ \<Rightarrow> is_word c))"

fun many_ends :: "(char \<Rightarrow> bool) \<Rightarrow> char option \<Rightarrow> string \<Rightarrow> position list" where
  "many_ends P p [] = [(p, [])]"
| "many_ends P p (c # cs) = (p, c # cs) # (if P c then many_ends P (Some c) cs else [])"

text \<open>The positions at which a match that starts at a position can end.\<close>

primrec ends :: "regexp \<Rightarrow> position \<Rightarrow> position list" where
  "ends REps p = [p]"
| "ends (RClass P) p = (case snd p of [] \<Rightarrow> [] | c # cs \<Rightarrow> if P c then [(Some c, cs)] else [])"
| "ends (RMany P) p = many_ends P (fst p) (snd p)"
| "ends RBegin p = (if fst p = None then [p] else [])"
| "ends REnd p = (if snd p = [] then [p] else [])"
| "ends RBoundary p = (if at_boundary p then [p] else [])"
| "ends (RSeq r s) p = concat (map (ends s) (ends r p))"
| "ends (RAlt r s) p = ends r p @ ends s p"

fun match_from :: "regexp \<Rightarrow> char option \<Rightarrow> string \<Rightarrow> bool" where
  "match_from r p [] = (ends r (p, []) \<noteq> [])"
| "match_from r p (c # cs) = (ends r (p, c # cs) \<noteq> [] \<or> match_from r (Some c) cs)"

definition re_match :: "regexp \<Rightarrow> string \<Rightarrow> bool" where
  "re_match r s = match_from r None s"

section \<open>Patterns as they are written\<close>

definition re_chars :: "string \<Rightarrow> regexp" where
  "re_chars cs = RClass (\<lambda>c. lower_char c \<in> set cs)"

primrec re_lit :: "string \<Rightarrow> regexp" where
  "re_lit [] = REps"
| "re_lit (c # cs) = RSeq (RClass (\<lambda>d. lower_char d = c)) (re_lit cs)"

definition re_opt :: "regexp \<Rightarrow> regexp" where
  "re_opt r = RAlt r REps"

fun re_alts :: "regexp list \<Rightarrow> regexp" where
  "re_alts [] = RClass (\<lambda>_. False)"
| "re_alts [r] = r"
| "re_alts (r # rs) = RAlt r (re_alts rs)"

fun re_seqs :: "regexp list \<Rightarrow> regexp" where
  "re_seqs [] = REps"
| "re_seqs [r] = r"
| "re_seqs (r # rs) = RSeq r (re_seqs rs)"

text \<open>The class \<open>\s\<close>, without the vertical tab.\<close>

definition re_space :: "char \<Rightarrow> bool" where
  "re_space c = (c = CHR '' '' \<or> c = CHR 0x09 \<or> c = CHR 0x0A \<or> c = CHR 0x0C \<or> c = CHR 0x0D)"

text \<open>Two words with \<open>(\s|-)?\<close> between them.\<close>

definition re_words :: "string \<Rightarrow> string \<Rightarrow> regexp" where
  "re_words a b = re_seqs [re_lit a, re_opt (RClass (\<lambda>c. re_space c \<or> c = CHR ''-'')), re_lit b]"

text \<open>\<open>\b(...)\b\<close>.\<close>

definition re_bounded :: "regexp list \<Rightarrow> regexp" where
  "re_bounded rs = re_seqs [RBoundary, re_alts rs, RBoundary]"

section \<open>What the matcher accepts\<close>

text \<open>Matches as a relation on positions.\<close>

inductive matches :: "regexp \<Rightarrow> position \<Rightarrow> position \<Rightarrow> bool" where
  m_eps: "matches REps p p"
| m_class: "P c \<Longrightarrow> matches (RClass P) (p, c # cs) (Some c, cs)"
| m_stop: "matches (RMany P) p p"
| m_step: "P c \<Longrightarrow> matches (RMany P) (Some c, cs) q \<Longrightarrow> matches (RMany P) (p, c # cs) q"
| m_begin: "matches RBegin (None, s) (None, s)"
| m_end: "matches REnd (p, []) (p, [])"
| m_boundary: "at_boundary p \<Longrightarrow> matches RBoundary p p"
| m_seq: "matches r p q \<Longrightarrow> matches s q t \<Longrightarrow> matches (RSeq r s) p t"
| m_left: "matches r p q \<Longrightarrow> matches (RAlt r s) p q"
| m_right: "matches s p q \<Longrightarrow> matches (RAlt r s) p q"

inductive_simps matches_many_nil: "matches (RMany P) (p, []) q"
inductive_simps matches_many_cons: "matches (RMany P) (p, c # cs) q"

lemma many_ends_iff: "q \<in> set (many_ends P p s) \<longleftrightarrow> matches (RMany P) (p, s) q"
  by (induction P p s rule: many_ends.induct) (auto simp: matches_many_nil matches_many_cons)

lemma ends_sound: "matches r p q \<Longrightarrow> q \<in> set (ends r p)"
  by (induction rule: matches.induct)
    (auto simp: many_ends_iff intro: m_stop m_step split: list.splits)

lemma ends_complete: "q \<in> set (ends r p) \<Longrightarrow> matches r p q"
proof (induction r arbitrary: p q)
  case (RMany P)
  then show ?case by (cases p) (auto simp: many_ends_iff)
next
  case (RSeq r s)
  then obtain t where "t \<in> set (ends r p)" "q \<in> set (ends s t)" by auto
  with RSeq.IH show ?case by (blast intro: m_seq)
qed (auto intro: matches.intros split: list.splits if_splits prod.splits)

lemma ends_iff: "q \<in> set (ends r p) \<longleftrightarrow> matches r p q"
  using ends_sound ends_complete by blast

text \<open>Choices and literals.\<close>

lemma match_from_alt: "match_from (RAlt r s) p t \<longleftrightarrow> match_from r p t \<or> match_from s p t"
  by (induction "RAlt r s" p t rule: match_from.induct) auto

lemma re_match_alts:
  "rs \<noteq> [] \<Longrightarrow> re_match (re_alts rs) s \<longleftrightarrow> (\<exists>r \<in> set rs. re_match r s)"
  by (induction rs rule: re_alts.induct) (auto simp: re_match_def match_from_alt)

lemma ends_lit: "ends (re_lit w) (p, s) \<noteq> [] \<longleftrightarrow> prefix w (to_lower s)"
proof (induction w arbitrary: p s)
  case (Cons c w)
  then show ?case by (cases s) (auto simp: to_lower_def)
qed simp

lemma re_match_lit: "re_match (re_lit w) s \<longleftrightarrow> contains (to_lower s) w"
proof -
  have "match_from (re_lit w) p s \<longleftrightarrow> sublist w (to_lower s)" for p
  proof (induction s arbitrary: p)
    case Nil
    then show ?case using ends_lit [of w p "[]"] by (simp add: to_lower_def)
  next
    case (Cons c s)
    then show ?case using ends_lit [of w p "c # s"]
      by (simp add: to_lower_def sublist_Cons_right)
  qed
  then show ?thesis by (simp add: re_match_def contains_def)
qed

end
