(* ===== verification/Ing_Abom.thy ===== *)
theory Ing_Abom
  imports Ing_Evidence Go_Regexp
begin

text \<open>
  \<open>src/backend/ingest/internal/server/abom_query.go\<close>: the inventory of AI tools that is aggregated from processes, DNS
  lookups, browser extensions, network components and findings. The SHA-1 digest in the identifier
  of an item and the decoding of a payload to an object are parameters.
\<close>

section \<open>Detection patterns\<close>

definition abomDesktopAppPattern :: regexp where
  "abomDesktopAppPattern = re_bounded
     [re_words ''chatgpt'' ''desktop'', re_words ''claude'' ''desktop'', re_words ''copilot'' ''desktop'',
      re_words ''gemini'' ''desktop'', re_words ''perplexity'' ''desktop'']"

definition abomCodingAgentPattern :: regexp where
  "abomCodingAgentPattern = re_bounded
     [re_lit ''cursor'', re_lit ''cursoragent'', re_lit ''aider'', re_lit ''continue.dev'', re_lit ''continue'',
      re_lit ''tabnine'', re_lit ''sweep'', re_words ''github'' ''copilot'', re_lit ''cody'']"

definition abomCLIAgentPattern :: regexp where
  "abomCLIAgentPattern = re_bounded
     [re_lit ''codex'', re_words ''claude'' ''code'', re_lit ''claudecode'', re_words ''gpt'' ''cli'',
      re_words ''gemini'' ''cli'', RSeq (re_lit ''llm'') (RClass re_space),
      re_seqs [RBegin, re_lit ''llm'', REnd], re_lit ''aichat'', re_lit ''aider'']"

definition abomMCPPattern :: regexp where
  "abomMCPPattern = re_alts
     [re_lit ''modelcontextprotocol'', re_seqs [RBegin, re_lit ''mcp'', re_chars ''-_'', re_lit ''server''],
      re_seqs [re_lit ''/mcp'', re_chars ''-_'', re_lit ''server''], re_lit ''mcp.'']"

definition abomLocalRuntimePattern :: regexp where
  "abomLocalRuntimePattern = re_bounded
     [re_lit ''ollama'', re_lit ''llama.cpp'', re_lit ''llamacpp'', re_lit ''vllm'', re_lit ''llamafile'',
      re_lit ''localai'', re_lit ''gpt4all'', re_seqs [re_lit ''lm'', re_opt (RClass re_space), re_lit ''studio''],
      re_lit ''lmstudio'', re_lit ''llama-server'']"

definition domain_chars :: string where
  "domain_chars = ''abcdefghijklmnopqrstuvwxyz0123456789-''"

definition abomGatewayDomainPattern :: regexp where
  "abomGatewayDomainPattern = re_alts
     [re_lit ''api.openai.com'', re_lit ''api.anthropic.com'', re_lit ''api.cohere.ai'', re_lit ''api.mistral.ai'',
      re_lit ''generativelanguage.googleapis.com'', re_lit ''api.perplexity.ai'',
      re_seqs [re_lit ''bedrock.'', re_chars domain_chars, RMany (\<lambda>c. lower_char c \<in> set domain_chars),
               re_lit ''.amazonaws.com''],
      re_lit ''api.together.xyz'', re_lit ''api.groq.com'', re_lit ''portkey.ai'', re_lit ''litellm'']"

definition abomBrowserAIPattern :: regexp where
  "abomBrowserAIPattern = re_alts
     [re_lit ''chatgpt'', re_lit ''openai'', re_lit ''claude'', re_lit ''anthropic'', re_lit ''gemini'', re_lit ''copilot'',
      re_lit ''perplexity'', re_lit ''monica'', RSeq (re_lit ''ai'') RBoundary]"

definition abomCLIBinaryHints :: regexp where
  "abomCLIBinaryHints = re_seqs
     [re_lit ''/'', re_alts [re_lit ''usr'', re_lit ''opt'', re_lit ''home'', re_lit ''root''], re_lit ''/'',
      RMany (\<lambda>c. c \<noteq> CHR 0x0A), re_lit ''/'',
      re_alts [re_lit ''codex'', re_lit ''cursor'', re_lit ''aider'', RSeq (re_lit ''claude'') (re_opt (re_lit ''-code'')),
               re_lit ''gemini'', re_lit ''llm'', re_lit ''aichat'', re_lit ''continue'', re_lit ''cody''],
      REnd]"

section \<open>Helpers\<close>

definition appendUnique :: "string list \<Rightarrow> string \<Rightarrow> string list" where
  "appendUnique values v = (if v \<in> set values then values else values @ [v])"

definition uniqueStrings :: "string list \<Rightarrow> string list" where
  "uniqueStrings values = fold (\<lambda>v out. if v = [] then out else appendUnique out v) values []"

fun conf_rank :: "confidence \<Rightarrow> nat" where
  "conf_rank High = 3"
| "conf_rank Medium = 2"
| "conf_rank Low = 1"

definition mergeConfidence :: "confidence \<Rightarrow> confidence \<Rightarrow> confidence" where
  "mergeConfidence current incoming = (if conf_rank incoming > conf_rank current then incoming else current)"

definition evidenceRefForProcess :: "processRecord \<Rightarrow> string" where
  "evidenceRefForProcess p =
     (let name = stringValue (pp_Name (pr p))
      in ''process:'' @ (if name = [] then ''process'' else name) @ '' pid='' @ itoa (pp_PID (pr p))
         @ '' device='' @ eh_DeviceID p)"

definition evidenceRefForDNS :: "dnsRecord \<Rightarrow> string" where
  "evidenceRefForDNS r =
     ''dns:'' @ np_Query (dn r) @ '' answers='' @ join_with '','' (np_Answers (dn r)) @ '' device='' @ eh_DeviceID r"

fun stringFromAny :: "gval \<Rightarrow> string" where
  "stringFromAny (VStr s) = s"
| "stringFromAny _ = []"

fun joinStringSlice :: "gval \<Rightarrow> string" where
  "joinStringSlice (VArr vs) = join_with '' '' (map stringFromAny vs)"
| "joinStringSlice _ = []"

text \<open>The value of a key of a decoded object, nil when it is absent.\<close>

definition obj_get :: "(string, gval) gomap \<Rightarrow> string \<Rightarrow> gval" where
  "obj_get m k = (case map_get m k of None \<Rightarrow> VNil | Some v \<Rightarrow> v)"

definition eventTimestamp :: "visibilityEvent \<Rightarrow> int" where
  "eventTimestamp e = (if ve_ReceivedAtMS e > 0 then ve_ReceivedAtMS e else ve_TimestampMS e)"

definition after_last_slash :: "string \<Rightarrow> string" where
  "after_last_slash s = rev (takeWhile (\<lambda>c. c \<noteq> CHR ''/'') (rev s))"

definition productNameForProcess :: "string \<Rightarrow> string \<Rightarrow> string \<Rightarrow> string" where
  "productNameForProcess name path fallback =
     (if trim_space name \<noteq> [] then trim_space name
      else if trim_space path \<noteq> [] then trim_space (after_last_slash path)
      else fallback)"

definition gatewayProductForHost :: "string \<Rightarrow> string" where
  "gatewayProductForHost host =
     (let clean = to_lower (trim_space host)
      in if contains clean ''openai'' then ''OpenAI API''
         else if contains clean ''anthropic'' then ''Anthropic API''
         else if contains clean ''googleapis'' then ''Google AI API''
         else if contains clean ''cohere'' then ''Cohere API''
         else if contains clean ''mistral'' then ''Mistral API''
         else if contains clean ''perplexity'' then ''Perplexity API''
         else if contains clean ''bedrock'' then ''AWS Bedrock''
         else if contains clean ''together'' then ''Together AI''
         else if contains clean ''groq'' then ''Groq''
         else if contains clean ''portkey'' \<or> contains clean ''litellm'' then ''LLM Gateway''
         else clean)"

section \<open>The bag of items\<close>

record abomItem =
  ai_ID :: string
  ai_Category :: string
  ai_Product :: string
  ai_CapabilityTags :: "string list"
  ai_Confidence :: confidence
  ai_DeviceIDs :: "string list"
  ai_EvidenceRefs :: "string list"
  ai_FirstSeenMS :: int
  ai_LastSeenMS :: int
  ai_RecommendedReview :: string

type_synonym abomBag = "(string, abomItem) gomap"

definition newABOMBag :: abomBag where
  "newABOMBag = []"

text \<open>The arguments of one call of \<open>upsert\<close>.\<close>

record abom_signal =
  as_Category :: string
  as_Product :: string
  as_Tags :: "string list"
  as_Confidence :: confidence
  as_Device :: string
  as_Evidence :: string
  as_Review :: string
  as_Time :: int

definition abomItemID :: "(string \<Rightarrow> string) \<Rightarrow> string \<Rightarrow> string \<Rightarrow> string" where
  "abomItemID sha category product = ''abom-'' @ sha (category @ ''|'' @ to_lower (trim_space product))"

definition abom_key :: "string \<Rightarrow> string \<Rightarrow> string" where
  "abom_key category product = category @ ''::'' @ to_lower (trim_space product)"

definition new_item :: "(string \<Rightarrow> string) \<Rightarrow> abom_signal \<Rightarrow> abomItem" where
  "new_item sha a =
     \<lparr>ai_ID = abomItemID sha (as_Category a) (as_Product a), ai_Category = as_Category a, ai_Product = as_Product a,
      ai_CapabilityTags = uniqueStrings (as_Tags a), ai_Confidence = as_Confidence a, ai_DeviceIDs = [],
      ai_EvidenceRefs = [], ai_FirstSeenMS = as_Time a, ai_LastSeenMS = as_Time a,
      ai_RecommendedReview = as_Review a\<rparr>"

definition see_at :: "int \<Rightarrow> abomItem \<Rightarrow> abomItem" where
  "see_at ts i =
     (if ts > 0 then
        i\<lparr>ai_FirstSeenMS := (if ai_FirstSeenMS i = 0 \<or> ts < ai_FirstSeenMS i then ts else ai_FirstSeenMS i),
          ai_LastSeenMS := (if ts > ai_LastSeenMS i then ts else ai_LastSeenMS i)\<rparr>
      else i)"

definition observe :: "abom_signal \<Rightarrow> abomItem \<Rightarrow> abomItem" where
  "observe a i0 =
     (let i1 = (if as_Device a \<noteq> [] then i0\<lparr>ai_DeviceIDs := appendUnique (ai_DeviceIDs i0) (as_Device a)\<rparr> else i0);
          i2 = (if as_Evidence a \<noteq> []
                then i1\<lparr>ai_EvidenceRefs := take 16 (appendUnique (ai_EvidenceRefs i1) (as_Evidence a))\<rparr> else i1);
          i3 = (if as_Tags a \<noteq> []
                then i2\<lparr>ai_CapabilityTags := uniqueStrings (ai_CapabilityTags i2 @ as_Tags a)\<rparr> else i2);
          i4 = see_at (as_Time a) i3;
          i5 = i4\<lparr>ai_Confidence := mergeConfidence (ai_Confidence i4) (as_Confidence a)\<rparr>
      in if length (ai_DeviceIDs i5) \<ge> 3 \<and> ai_Confidence i5 \<noteq> High then i5\<lparr>ai_Confidence := High\<rparr> else i5)"

definition bag_upsert :: "(string \<Rightarrow> string) \<Rightarrow> abom_signal \<Rightarrow> abomBag \<Rightarrow> abomBag" where
  "bag_upsert sha a b =
     (let key = abom_key (as_Category a) (as_Product a);
          existing = (case map_get b key of Some i \<Rightarrow> i | None \<Rightarrow> new_item sha a)
      in map_set key (observe a existing) b)"

text \<open>An optional call of \<open>upsert\<close>.\<close>

definition bag_add :: "(string \<Rightarrow> string) \<Rightarrow> abom_signal option \<Rightarrow> abomBag \<Rightarrow> abomBag" where
  "bag_add sha s b = (case s of None \<Rightarrow> b | Some a \<Rightarrow> bag_upsert sha a b)"

section \<open>What each kind of telemetry adds\<close>

definition process_signal :: "processRecord \<Rightarrow> abom_signal option" where
  "process_signal p =
     (let name = stringValue (pp_Name (pr p)); path = stringValue (pp_Path (pr p));
          cmd = stringValue (pp_CommandLine (pr p));
          hay = to_lower (name @ '' '' @ path @ '' '' @ cmd);
          mk = (\<lambda>category fallback tags conf review.
                  \<lparr>as_Category = category, as_Product = productNameForProcess name path fallback, as_Tags = tags,
                   as_Confidence = conf, as_Device = eh_DeviceID p, as_Evidence = evidenceRefForProcess p,
                   as_Review = review, as_Time = eh_TimestampMS p\<rparr>)
      in if re_match abomMCPPattern hay then
           Some (mk ''mcp_endpoint'' ''MCP server'' [''protocol:mcp'', ''tool-call''] Medium
             ''Confirm whether this MCP server is approved by platform/security and what tools it exposes.'')
         else if re_match abomLocalRuntimePattern hay then
           Some (mk ''local_model_runtime'' ''Local model runtime'' [''local-llm''] High
             ''Verify approved use, model provenance, and whether the runtime exposes a local API.'')
         else if re_match abomDesktopAppPattern hay then
           Some (mk ''ai_desktop_app'' ''AI desktop app'' [''chat'', ''vendor-cloud''] High
             ''Confirm enterprise approval and tenant boundary configuration.'')
         else if re_match abomCodingAgentPattern hay then
           Some (mk ''coding_agent'' ''Coding agent'' [''code-edit'', ''vendor-cloud''] Medium
             ''Verify repo scope, output review process, and any data sent to a model provider.'')
         else if re_match abomCLIAgentPattern hay \<or> (path \<noteq> [] \<and> re_match abomCLIBinaryHints path) then
           Some (mk ''cli_agent'' ''AI CLI agent'' [''shell'', ''tool-call''] Medium
             ''Review what the CLI agent can run, whether shell automation is approved, and where output goes.'')
         else None)"

definition dns_signal :: "dnsRecord \<Rightarrow> abom_signal option" where
  "dns_signal r =
     (let q = np_Query (dn r); hay = to_lower q;
          mk = (\<lambda>category product tags conf review.
                  \<lparr>as_Category = category, as_Product = product, as_Tags = tags, as_Confidence = conf,
                   as_Device = eh_DeviceID r, as_Evidence = evidenceRefForDNS r, as_Review = review,
                   as_Time = eh_TimestampMS r\<rparr>)
      in if q = [] then None
         else if re_match abomGatewayDomainPattern hay then
           Some (mk ''model_gateway'' (gatewayProductForHost q) [''egress'', ''vendor-cloud''] High
             ''Confirm allowed model providers and whether traffic should route through an enterprise gateway.'')
         else if re_match abomBrowserAIPattern hay then
           Some (mk ''unknown_ai_automation'' (''AI-related DNS: '' @ q) [''egress''] Low
             ''Investigate which process initiated this lookup and whether the destination is enterprise-approved.'')
         else None)"

type_synonym object_decoder = "string \<Rightarrow> (string, gval) gomap option"

definition extension_signal :: "object_decoder \<Rightarrow> visibilityEvent \<Rightarrow> abom_signal option" where
  "extension_signal obj e =
     (case obj (ve_Payload e) of
        None \<Rightarrow> None
      | Some payload \<Rightarrow>
          let name0 = stringFromAny (obj_get payload ''name'');
              name = (if trim_space name0 = [] then stringFromAny (obj_get payload ''extension_id'') else name0);
              hay = to_lower (name @ '' '' @ stringFromAny (obj_get payload ''description''));
              broad = contains (to_lower (joinStringSlice (obj_get payload ''host_permissions''))) ''*://*/*''
          in if \<not> re_match abomBrowserAIPattern hay then None
             else Some \<lparr>as_Category = ''browser_ai_extension'', as_Product = trim_space name,
                    as_Tags = ''browser'' # (if broad then [''broad-host-access''] else []),
                    as_Confidence = (if broad then High else Medium), as_Device = ve_DeviceID e,
                    as_Evidence = ''event:'' @ ve_EventID e,
                    as_Review = ''Review extension permissions and which sites it can access on managed browsers.'',
                    as_Time = eventTimestamp e\<rparr>)"

definition sase_signal :: "object_decoder \<Rightarrow> visibilityEvent \<Rightarrow> abom_signal option" where
  "sase_signal obj e =
     (case obj (ve_Payload e) of
        None \<Rightarrow> None
      | Some payload \<Rightarrow>
          let component = stringFromAny (obj_get payload ''component_type'');
              product = trim_space (stringFromAny (obj_get payload ''vendor'') @ '' '' @ stringFromAny (obj_get payload ''product''))
          in if \<not> equal_fold component ''model_gateway'' \<and> \<not> equal_fold component ''ai_gateway'' then None
             else Some \<lparr>as_Category = ''model_gateway'',
                    as_Product = (if product = [] then ''Enterprise model gateway'' else product),
                    as_Tags = [''vendor-cloud'', ''control-point''], as_Confidence = High, as_Device = ve_DeviceID e,
                    as_Evidence = ''event:'' @ ve_EventID e,
                    as_Review = ''Confirm the gateway is the documented enforcement point and audit which providers are allowed.'',
                    as_Time = eventTimestamp e\<rparr>)"

definition finding_signal :: "findingRecord \<Rightarrow> abom_signal option" where
  "finding_signal r =
     (let title = stringValue (gp_Title (fg r)); classification = stringValue (gp_Classification (fg r));
          hay = to_lower (title @ '' '' @ classification @ '' '' @ join_with '' '' (gp_DetectedPatterns (fg r)))
      in if \<not> re_match abomBrowserAIPattern hay then None
         else if eh_DeviceID r = [] then None
         else Some \<lparr>as_Category = ''unknown_ai_automation'', as_Product = ''AI-related finding: '' @ trim_space title,
                as_Tags = [''finding''], as_Confidence = Low, as_Device = eh_DeviceID r,
                as_Evidence = ''finding:'' @ stringValue (gp_FindingID (fg r)),
                as_Review = ''Open the finding to confirm whether AI activity caused the alert.'',
                as_Time = eh_TimestampMS r\<rparr>)"

definition addProcess :: "(string \<Rightarrow> string) \<Rightarrow> processRecord \<Rightarrow> abomBag \<Rightarrow> abomBag" where
  "addProcess sha p = bag_add sha (process_signal p)"

definition addDNS :: "(string \<Rightarrow> string) \<Rightarrow> dnsRecord \<Rightarrow> abomBag \<Rightarrow> abomBag" where
  "addDNS sha r = bag_add sha (dns_signal r)"

definition addExtension :: "(string \<Rightarrow> string) \<Rightarrow> object_decoder \<Rightarrow> visibilityEvent \<Rightarrow> abomBag \<Rightarrow> abomBag" where
  "addExtension sha obj e = bag_add sha (extension_signal obj e)"

definition addSase :: "(string \<Rightarrow> string) \<Rightarrow> object_decoder \<Rightarrow> visibilityEvent \<Rightarrow> abomBag \<Rightarrow> abomBag" where
  "addSase sha obj e = bag_add sha (sase_signal obj e)"

definition addFinding_abom :: "(string \<Rightarrow> string) \<Rightarrow> findingRecord \<Rightarrow> abomBag \<Rightarrow> abomBag" where
  "addFinding_abom sha r = bag_add sha (finding_signal r)"

section \<open>The inventory\<close>

definition toItems :: "abomBag \<Rightarrow> abomItem list" where
  "toItems b = map_values b"

text \<open>\<open>sort.SliceStable\<close> by category, product and the last time seen, newest first.\<close>

definition sort_items :: "abomItem list \<Rightarrow> abomItem list" where
  "sort_items is = sort_key (\<lambda>i. (ai_Category i, ai_Product i, - ai_LastSeenMS i)) is"

record abom_input =
  ab_processes :: "processRecord list"
  ab_dns :: "dnsRecord list"
  ab_findings :: "findingRecord list"
  ab_extensions :: "visibilityEvent list"
  ab_sase :: "visibilityEvent list"

definition fill_bag :: "(string \<Rightarrow> string) \<Rightarrow> object_decoder \<Rightarrow> abom_input \<Rightarrow> abomBag" where
  "fill_bag sha obj t =
     (let b1 = fold (addProcess sha) (ab_processes t) newABOMBag;
          b2 = fold (addDNS sha) (ab_dns t) b1;
          b3 = fold (addExtension sha obj) (ab_extensions t) b2;
          b4 = fold (addSase sha obj) (ab_sase t) b3
      in fold (addFinding_abom sha) (ab_findings t) b4)"

definition buildABOMItems :: "(string \<Rightarrow> string) \<Rightarrow> object_decoder \<Rightarrow> abom_input \<Rightarrow> abomItem list" where
  "buildABOMItems sha obj t = sort_items (toItems (fill_bag sha obj t))"

section \<open>The handlers\<close>

text \<open>The rows of a query whose error is ignored.\<close>

fun or_none :: "string + 'a list \<Rightarrow> 'a list" where
  "or_none (Inl e) = []"
| "or_none (Inr xs) = xs"

definition typed_events :: "'s store_ops \<Rightarrow> string \<Rightarrow> string \<Rightarrow> int \<Rightarrow> 's \<Rightarrow> string + visibilityEvent list" where
  "typed_events ops device ty limit st =
     so_Query ops \<lparr>qf_EventID = [], qf_TenantID = [], qf_DeviceID = device, qf_AgentID = [], qf_EventType = ty,
       qf_Limit = limit\<rparr> st"

definition collectProcesses :: "'s store_ops \<Rightarrow> view_json \<Rightarrow> string \<Rightarrow> nat \<Rightarrow> 's \<Rightarrow> string + processRecord list" where
  "collectProcesses ops lib device cap st =
     (case typed_events ops device [] maxVisibilityQueryLimit st of
        Inl e \<Rightarrow> Inl e
      | Inr events \<Rightarrow> Inr (view_loop isProcessEventType (toProcessRecord lib) (\<lambda>_. True) cap events []))"

definition collectDNS :: "'s store_ops \<Rightarrow> view_json \<Rightarrow> string \<Rightarrow> nat \<Rightarrow> 's \<Rightarrow> string + dnsRecord list" where
  "collectDNS ops lib device cap st =
     (case typed_events ops device ''aegis.dns.observed'' maxVisibilityQueryLimit st of
        Inl e \<Rightarrow> Inl e
      | Inr events \<Rightarrow> Inr (view_loop isDNSEventType (toDNSRecord lib) (\<lambda>_. True) cap events []))"

definition collectFindingRecords :: "'s store_ops \<Rightarrow> view_json \<Rightarrow> string \<Rightarrow> nat \<Rightarrow> 's \<Rightarrow> findingRecord list" where
  "collectFindingRecords ops lib device cap st =
     (case typed_events ops device [] maxVisibilityQueryLimit st of
        Inl e \<Rightarrow> []
      | Inr events \<Rightarrow> view_loop isFindingEventType (toFindingRecord lib) (\<lambda>_. True) cap events [])"

definition abom_rows :: "'s store_ops \<Rightarrow> view_json \<Rightarrow> string \<Rightarrow> 's \<Rightarrow> abom_input" where
  "abom_rows ops lib device st =
     \<lparr>ab_processes = or_none (collectProcesses ops lib device (nat maxVisibilityQueryLimit) st),
      ab_dns = or_none (collectDNS ops lib device (nat maxVisibilityQueryLimit) st),
      ab_findings = collectFindingRecords ops lib device 200 st,
      ab_extensions = or_none (typed_events ops device ''aegis.browser_extension.observed'' 220 st),
      ab_sase = or_none (typed_events ops device ''aegis.sase_component.observed'' 220 st)\<rparr>"

definition abomEmptyHelp :: "nat \<Rightarrow> string" where
  "abomEmptyHelp deviceCount =
     (if deviceCount = 0 then
        ''No reporting endpoints yet. Connect at least one lab agent so ABOM can populate from process, DNS, browser extension, and finding evidence.''
      else
        ''No AI-capable signals observed yet. ABOM populates from process, DNS, browser extension, SASE/SSE, and finding evidence as agents report.'')"

record abomFleetResponse =
  af_TotalItems :: nat
  af_CategoryCount :: "(string, int) gomap"
  af_Items :: "abomItem list"
  af_EmptyHelp :: string

definition handleABOMFleet :: "'s store_ops \<Rightarrow> view_json \<Rightarrow> (string \<Rightarrow> string) \<Rightarrow> object_decoder \<Rightarrow> http_method \<Rightarrow> 's ingest_server \<Rightarrow> (nat \<times> string) + abomFleetResponse" where
  "handleABOMFleet ops lib sha obj m s =
     (if m \<noteq> GET then Inl (405, ''method not allowed'')
      else case is_store s of
        None \<Rightarrow> Inl (503, ''visibility store is not configured'')
      | Some st \<Rightarrow>
          (case so_ListDevices ops \<lparr>df_TenantID = [], df_Limit = 220\<rparr> st of
             Inl err \<Rightarrow> Inl (503, err)
           | Inr devices \<Rightarrow>
               let items = buildABOMItems sha obj (abom_rows ops lib [] st)
               in Inr \<lparr>af_TotalItems = length items,
                       af_CategoryCount = fold (\<lambda>i. count_inc (ai_Category i)) items [],
                       af_Items = items,
                       af_EmptyHelp = (if items = [] then abomEmptyHelp (length devices) else [])\<rparr>))"

record abomDeviceResponse =
  ad_DeviceID :: string
  ad_TotalItems :: nat
  ad_Items :: "abomItem list"
  ad_EmptyHelp :: string

definition handleABOMDevice :: "'s store_ops \<Rightarrow> view_json \<Rightarrow> (string \<Rightarrow> string) \<Rightarrow> object_decoder \<Rightarrow> http_method \<Rightarrow> string \<Rightarrow> 's ingest_server \<Rightarrow> (nat \<times> string) + abomDeviceResponse" where
  "handleABOMDevice ops lib sha obj m device_q s =
     (if m \<noteq> GET then Inl (405, ''method not allowed'')
      else case is_store s of
        None \<Rightarrow> Inl (503, ''visibility store is not configured'')
      | Some st \<Rightarrow>
          let deviceID = trim_space device_q
          in if deviceID = [] then Inl (400, ''device_id is required'')
             else
               let items = filter (\<lambda>i. containsString (ai_DeviceIDs i) deviceID)
                             (buildABOMItems sha obj (abom_rows ops lib deviceID st))
               in Inr \<lparr>ad_DeviceID = deviceID, ad_TotalItems = length items, ad_Items = items,
                       ad_EmptyHelp = (if items = [] then ''No AI-capable signals observed for this endpoint yet. ABOM populates from process, browser extension, SASE/SSE, DNS, and finding evidence.'' else [])\<rparr>)"

end
