(* ===== verification/Ing_Insights.thy ===== *)
theory Ing_Insights
  imports Ing_Abom
begin

text \<open>
  \<open>src/backend/ingest/internal/server/abom_insights.go\<close>: what the inventory shows an operator, in six sections, and the
  endpoints with most items.
\<close>

section \<open>Times in words\<close>

definition abomDefaultNewSinceMS :: int where
  "abomDefaultNewSinceMS = 24 * 60 * 60 * 1000"

definition abomDefaultStaleMS :: int where
  "abomDefaultStaleMS = 7 * 24 * 60 * 60 * 1000"

definition formatDurationMS :: "int \<Rightarrow> string" where
  "formatDurationMS ms =
     (if ms < 60 * 1000 then itoa (ms div 1000) @ ''s''
      else if ms < 60 * 60 * 1000 then itoa (ms div (60 * 1000)) @ ''m''
      else if ms < 24 * 60 * 60 * 1000 then itoa (ms div (60 * 60 * 1000)) @ ''h''
      else itoa (ms div (24 * 60 * 60 * 1000)) @ ''d'')"

definition relativeMS :: "int \<Rightarrow> int \<Rightarrow> string" where
  "relativeMS now ts =
     (if ts \<le> 0 \<or> now < ts then ''moments ago'' else formatDurationMS (now - ts) @ '' ago'')"

definition parsePositiveDuration :: "string \<Rightarrow> int \<Rightarrow> int" where
  "parsePositiveDuration raw fallback = positive_or fallback raw"

section \<open>Rows and sections\<close>

record abomInsightItem =
  ii_ID :: string
  ii_Category :: string
  ii_Product :: string
  ii_Confidence :: confidence
  ii_DeviceIDs :: "string list"
  ii_DeviceCount :: nat
  ii_FirstSeenMS :: int
  ii_LastSeenMS :: int
  ii_Reason :: string
  ii_HighAttention :: bool

record abomInsightSection =
  sc_ID :: string
  sc_Title :: string
  sc_Detail :: string
  sc_Threshold :: string
  sc_Items :: "abomInsightItem list"
  sc_Total :: nat

definition anyDeviceInSet :: "string list \<Rightarrow> string list \<Rightarrow> bool" where
  "anyDeviceInSet devices high = list_ex (\<lambda>d. d \<in> set high) devices"

definition insight_entry :: "string list \<Rightarrow> abomItem \<Rightarrow> abomInsightItem" where
  "insight_entry high i =
     \<lparr>ii_ID = ai_ID i, ii_Category = ai_Category i, ii_Product = ai_Product i, ii_Confidence = ai_Confidence i,
      ii_DeviceIDs = ai_DeviceIDs i, ii_DeviceCount = length (ai_DeviceIDs i), ii_FirstSeenMS = ai_FirstSeenMS i,
      ii_LastSeenMS = ai_LastSeenMS i, ii_Reason = [], ii_HighAttention = anyDeviceInSet (ai_DeviceIDs i) high\<rparr>"

definition sortInsightsNewestFirst :: "abomInsightItem list \<Rightarrow> abomInsightItem list" where
  "sortInsightsNewestFirst rows = take 24 (sort_key (\<lambda>r. - ii_FirstSeenMS r) rows)"

definition sortInsightsByDeviceCount :: "abomInsightItem list \<Rightarrow> abomInsightItem list" where
  "sortInsightsByDeviceCount rows = take 24 (sort_key (\<lambda>r. (- int (ii_DeviceCount r), - ii_LastSeenMS r)) rows)"

definition sortInsightsByLastSeen :: "abomInsightItem list \<Rightarrow> abomInsightItem list" where
  "sortInsightsByLastSeen rows = take 24 (sort_key ii_LastSeenMS rows)"

record abomInsightOptions =
  op_Now :: int
  op_WindowMS :: int
  op_StaleMS :: int

text \<open>The options with their defaults, and the devices an item must be on to be widespread.\<close>

definition insight_options :: "int \<Rightarrow> abomInsightOptions \<Rightarrow> abomInsightOptions" where
  "insight_options wall op =
     \<lparr>op_Now = (if op_Now op = 0 then wall else op_Now op),
      op_WindowMS = (if op_WindowMS op \<le> 0 then abomDefaultNewSinceMS else op_WindowMS op),
      op_StaleMS = (if op_StaleMS op \<le> 0 then abomDefaultStaleMS else op_StaleMS op)\<rparr>"

definition widespread_threshold :: "nat \<Rightarrow> nat" where
  "widespread_threshold fleetSize =
     (if fleetSize > 0 then max 3 (nat \<lfloor>(3 / 10 :: rat) * of_nat fleetSize + 1 / 2\<rfloor>) else 3)"

definition is_new :: "abomInsightOptions \<Rightarrow> abomItem \<Rightarrow> bool" where
  "is_new op i \<longleftrightarrow> ai_FirstSeenMS i > 0 \<and> ai_FirstSeenMS i \<ge> op_Now op - op_WindowMS op"

definition is_stale :: "abomInsightOptions \<Rightarrow> abomItem \<Rightarrow> bool" where
  "is_stale op i \<longleftrightarrow> ai_LastSeenMS i > 0 \<and> ai_LastSeenMS i \<le> op_Now op - op_StaleMS op"

definition new_entry :: "abomInsightOptions \<Rightarrow> string list \<Rightarrow> abomItem \<Rightarrow> abomInsightItem" where
  "new_entry op high i =
     (insight_entry high i)\<lparr>ii_Reason := ''First seen '' @ relativeMS (op_Now op) (ai_FirstSeenMS i) @ em_dash
        @ ''within the last '' @ formatDurationMS (op_WindowMS op) @ ''.''\<rparr>"

definition new_high_entry :: "abomInsightOptions \<Rightarrow> string list \<Rightarrow> abomItem \<Rightarrow> abomInsightItem" where
  "new_high_entry op high i =
     (new_entry op high i)\<lparr>ii_Reason := ''Newly observed on an endpoint with open findings'' @ em_dash
        @ ''review before drift becomes the norm.''\<rparr>"

definition high_conf_entry :: "string list \<Rightarrow> abomItem \<Rightarrow> abomInsightItem" where
  "high_conf_entry high i =
     (insight_entry high i)\<lparr>ii_Reason := ''High-confidence ABOM row'' @ em_dash @ itoa (int (length (ai_EvidenceRefs i)))
        @ '' evidence ref(s) across '' @ itoa (int (length (ai_DeviceIDs i))) @ '' device(s).''\<rparr>"

definition low_conf_entry :: "string list \<Rightarrow> abomItem \<Rightarrow> abomInsightItem" where
  "low_conf_entry high i =
     (insight_entry high i)\<lparr>ii_Reason := ''Low confidence'' @ em_dash
        @ ''needs additional evidence before treating as inventory truth.''\<rparr>"

definition widespread_entry :: "string list \<Rightarrow> abomItem \<Rightarrow> abomInsightItem" where
  "widespread_entry high i =
     (insight_entry high i)\<lparr>ii_Reason := ''Observed on '' @ itoa (int (length (ai_DeviceIDs i))) @ '' device(s)'' @ em_dash
        @ ''widespread across the fleet.''\<rparr>"

definition stale_entry :: "abomInsightOptions \<Rightarrow> string list \<Rightarrow> abomItem \<Rightarrow> abomInsightItem" where
  "stale_entry op high i =
     (insight_entry high i)\<lparr>ii_Reason := ''Last seen '' @ relativeMS (op_Now op) (ai_LastSeenMS i) @ em_dash
        @ ''older than '' @ formatDurationMS (op_StaleMS op) @ ''.''\<rparr>"

text \<open>The six lists that the loop over the items fills.\<close>

record insight_rows =
  ir_new :: "abomInsightItem list"
  ir_newHigh :: "abomInsightItem list"
  ir_highConf :: "abomInsightItem list"
  ir_lowConf :: "abomInsightItem list"
  ir_widespread :: "abomInsightItem list"
  ir_stale :: "abomInsightItem list"

definition insight_step :: "abomInsightOptions \<Rightarrow> string list \<Rightarrow> nat \<Rightarrow> abomItem \<Rightarrow> insight_rows \<Rightarrow> insight_rows" where
  "insight_step op high threshold i r0 =
     (let r1 = (if is_new op i then
                  let r = r0\<lparr>ir_new := ir_new r0 @ [new_entry op high i]\<rparr>
                  in if ii_HighAttention (new_entry op high i)
                     then r\<lparr>ir_newHigh := ir_newHigh r @ [new_high_entry op high i]\<rparr> else r
                else r0);
          r2 = (case ai_Confidence i of
                  High \<Rightarrow> r1\<lparr>ir_highConf := ir_highConf r1 @ [high_conf_entry high i]\<rparr>
                | Low \<Rightarrow> r1\<lparr>ir_lowConf := ir_lowConf r1 @ [low_conf_entry high i]\<rparr>
                | Medium \<Rightarrow> r1);
          r3 = (if length (ai_DeviceIDs i) \<ge> threshold
                then r2\<lparr>ir_widespread := ir_widespread r2 @ [widespread_entry high i]\<rparr> else r2)
      in if is_stale op i then r3\<lparr>ir_stale := ir_stale r3 @ [stale_entry op high i]\<rparr> else r3)"

definition no_insights :: insight_rows where
  "no_insights = \<lparr>ir_new = [], ir_newHigh = [], ir_highConf = [], ir_lowConf = [], ir_widespread = [], ir_stale = []\<rparr>"

definition insight_sections :: "abomInsightOptions \<Rightarrow> nat \<Rightarrow> insight_rows \<Rightarrow> abomInsightSection list" where
  "insight_sections op threshold r =
     [\<lparr>sc_ID = ''newly_observed'', sc_Title = ''New since last review'',
       sc_Detail = ''AI capabilities first observed in the selected window.'',
       sc_Threshold = ''first_seen within last '' @ formatDurationMS (op_WindowMS op),
       sc_Items = sortInsightsNewestFirst (ir_new r), sc_Total = length (ir_new r)\<rparr>,
      \<lparr>sc_ID = ''newly_observed_high_attention'', sc_Title = ''New on endpoints with open findings'',
       sc_Detail = ''Newly observed AI capability on an endpoint that already has investigation activity. Treat as priority.'',
       sc_Threshold = ''first_seen within last '' @ formatDurationMS (op_WindowMS op) @ '' AND device has open finding'',
       sc_Items = sortInsightsNewestFirst (ir_newHigh r), sc_Total = length (ir_newHigh r)\<rparr>,
      \<lparr>sc_ID = ''widespread'', sc_Title = ''Widespread capabilities'',
       sc_Detail = ''AI capabilities observed across many endpoints. Decide whether they should be sanctioned, scoped, or restricted.'',
       sc_Threshold = ''>= '' @ itoa (int threshold) @ '' devices'',
       sc_Items = sortInsightsByDeviceCount (ir_widespread r), sc_Total = length (ir_widespread r)\<rparr>,
      \<lparr>sc_ID = ''high_confidence'', sc_Title = ''High-confidence inventory'',
       sc_Detail = ''Items where the platform has enough evidence to trust the row without manual review.'',
       sc_Threshold = ''confidence == high'',
       sc_Items = sortInsightsByDeviceCount (ir_highConf r), sc_Total = length (ir_highConf r)\<rparr>,
      \<lparr>sc_ID = ''low_confidence_needs_review'', sc_Title = ''Needs review'',
       sc_Detail = ''Items the platform is not yet confident about. Confirm or refute before they become inventory truth.'',
       sc_Threshold = ''confidence == low'',
       sc_Items = sortInsightsByDeviceCount (ir_lowConf r), sc_Total = length (ir_lowConf r)\<rparr>,
      \<lparr>sc_ID = ''stale'', sc_Title = ''Stale capabilities'',
       sc_Detail = ''Items that have not been observed recently. Confirm whether the tool was uninstalled or the agent stopped reporting.'',
       sc_Threshold = ''last_seen older than '' @ formatDurationMS (op_StaleMS op),
       sc_Items = sortInsightsByLastSeen (ir_stale r), sc_Total = length (ir_stale r)\<rparr>]"

section \<open>Hotspots\<close>

record hotspot_acc =
  ha_highConf :: nat
  ha_lowConf :: nat
  ha_categories :: "string list"
  ha_lastSeen :: int
  ha_count :: nat

definition new_acc :: hotspot_acc where
  "new_acc = \<lparr>ha_highConf = 0, ha_lowConf = 0, ha_categories = [], ha_lastSeen = 0, ha_count = 0\<rparr>"

definition count_item :: "abomItem \<Rightarrow> hotspot_acc \<Rightarrow> hotspot_acc" where
  "count_item i a =
     a\<lparr>ha_count := ha_count a + 1,
       ha_categories := List.insert (ai_Category i) (ha_categories a),
       ha_highConf := (if ai_Confidence i = High then ha_highConf a + 1 else ha_highConf a),
       ha_lowConf := (if ai_Confidence i = Low then ha_lowConf a + 1 else ha_lowConf a),
       ha_lastSeen := (if ai_LastSeenMS i > ha_lastSeen a then ai_LastSeenMS i else ha_lastSeen a)\<rparr>"

definition count_device :: "abomItem \<Rightarrow> string \<Rightarrow> (string, hotspot_acc) gomap \<Rightarrow> (string, hotspot_acc) gomap" where
  "count_device i dev m =
     (if dev = [] then m
      else map_set dev (count_item i (case map_get m dev of None \<Rightarrow> new_acc | Some a \<Rightarrow> a)) m)"

record abomEndpointHotspot =
  hs_DeviceID :: string
  hs_ItemCount :: nat
  hs_HighConfidence :: nat
  hs_LowConfidence :: nat
  hs_Categories :: "string list"
  hs_LastSeenMS :: int
  hs_HighAttention :: bool
  hs_Reason :: string

definition hotspotReason :: "nat \<Rightarrow> nat \<Rightarrow> bool \<Rightarrow> string" where
  "hotspotReason n low highAttention =
     (if highAttention then
        ''High-attention endpoint (open finding) with '' @ itoa (int n) @ '' ABOM rows; '' @ itoa (int low)
        @ '' still need review.''
      else if low \<ge> 2 then
        ''Endpoint has '' @ itoa (int n) @ '' ABOM rows but '' @ itoa (int low) @ '' need review'' @ em_dash
        @ ''confirm before trusting the inventory.''
      else ''Dense AI footprint'' @ em_dash @ itoa (int n) @ '' ABOM rows observed on this endpoint.'')"

definition hotspot_of :: "string list \<Rightarrow> string \<times> hotspot_acc \<Rightarrow> abomEndpointHotspot" where
  "hotspot_of high e =
     (case e of (dev, a) \<Rightarrow>
        \<lparr>hs_DeviceID = dev, hs_ItemCount = ha_count a, hs_HighConfidence = ha_highConf a,
         hs_LowConfidence = ha_lowConf a, hs_Categories = sort (ha_categories a), hs_LastSeenMS = ha_lastSeen a,
         hs_HighAttention = (dev \<in> set high), hs_Reason = hotspotReason (ha_count a) (ha_lowConf a) (dev \<in> set high)\<rparr>)"

definition count_devices :: "abomItem list \<Rightarrow> (string, hotspot_acc) gomap" where
  "count_devices items = fold (\<lambda>i. fold (count_device i) (ai_DeviceIDs i)) items []"

definition buildABOMHotspots :: "abomItem list \<Rightarrow> string list \<Rightarrow> abomEndpointHotspot list" where
  "buildABOMHotspots items high =
     take 12 (sort_key (\<lambda>h. (\<not> hs_HighAttention h, - int (hs_ItemCount h), - int (hs_LowConfidence h), - hs_LastSeenMS h))
       (map (hotspot_of high) (count_devices items)))"

section \<open>The insights and their handler\<close>

definition highAttentionDeviceIDs :: "findingRecord list \<Rightarrow> string list" where
  "highAttentionDeviceIDs findings = sort (remdups (filter (\<lambda>d. d \<noteq> []) (map eh_DeviceID findings)))"

record abomInsightsBundle =
  ib_HighAttentionDevices :: "string list"
  ib_Sections :: "abomInsightSection list"
  ib_Hotspots :: "abomEndpointHotspot list"

definition insight_rows_of :: "abomInsightOptions \<Rightarrow> string list \<Rightarrow> nat \<Rightarrow> abomItem list \<Rightarrow> insight_rows" where
  "insight_rows_of op high threshold items = fold (insight_step op high threshold) items no_insights"

definition buildABOMInsights :: "int \<Rightarrow> abomItem list \<Rightarrow> nat \<Rightarrow> string list \<Rightarrow> abomInsightOptions \<Rightarrow> abomInsightsBundle" where
  "buildABOMInsights wall items fleetSize highDevices op0 =
     (let op = insight_options wall op0;
          high = remdups (filter (\<lambda>d. d \<noteq> []) highDevices);
          threshold = widespread_threshold fleetSize
      in \<lparr>ib_HighAttentionDevices = sort high,
          ib_Sections = insight_sections op threshold (insight_rows_of op high threshold items),
          ib_Hotspots = buildABOMHotspots items high\<rparr>)"

record abomInsightsResponse =
  ar_GeneratedAtMS :: int
  ar_WindowMS :: int
  ar_StaleAfterMS :: int
  ar_FleetSize :: nat
  ar_Insights :: abomInsightsBundle
  ar_EmptyHelp :: string

definition handleABOMInsights :: "'s store_ops \<Rightarrow> view_json \<Rightarrow> (string \<Rightarrow> string) \<Rightarrow> object_decoder \<Rightarrow> int \<Rightarrow> http_method \<Rightarrow> string \<Rightarrow> string \<Rightarrow> 's ingest_server \<Rightarrow> (nat \<times> string) + abomInsightsResponse" where
  "handleABOMInsights ops lib sha obj now m since_q stale_q s =
     (if m \<noteq> GET then Inl (405, ''method not allowed'')
      else case is_store s of
        None \<Rightarrow> Inl (503, ''visibility store is not configured'')
      | Some st \<Rightarrow>
          let windowMS = parsePositiveDuration since_q abomDefaultNewSinceMS;
              staleMS = parsePositiveDuration stale_q abomDefaultStaleMS
          in (case so_ListDevices ops \<lparr>df_TenantID = [], df_Limit = 220\<rparr> st of
                Inl err \<Rightarrow> Inl (503, err)
              | Inr devices \<Rightarrow>
                  let rows = abom_rows ops lib [] st; items = buildABOMItems sha obj rows
                  in Inr \<lparr>ar_GeneratedAtMS = now, ar_WindowMS = windowMS, ar_StaleAfterMS = staleMS,
                          ar_FleetSize = length devices,
                          ar_Insights = buildABOMInsights now items (length devices) (highAttentionDeviceIDs (ab_findings rows))
                            \<lparr>op_Now = now, op_WindowMS = windowMS, op_StaleMS = staleMS\<rparr>,
                          ar_EmptyHelp = (if items = [] then abomEmptyHelp (length devices) else [])\<rparr>))"

end
