(* ===== verification/Ing_Summary.thy ===== *)
theory Ing_Summary
  imports Ing_Abom
begin

text \<open>
  \<open>src/backend/ingest/internal/server/summary_handlers.go\<close>: the bundles of telemetry for the dashboard, for a device and
  for the inventory. A payload that fails to decode leaves what the decoder has filled in; a number in
  JSON is finite, so the samples are rationals.
\<close>

section \<open>The dashboard\<close>

definition aiFindingHint :: regexp where
  "aiFindingHint = re_alts [re_lit ''ai'', re_lit ''agent'', re_lit ''browser'', re_lit ''model'']"

record collectorPayload =
  cp_Collector :: string
  cp_Status :: string
  cp_Message :: string

record perfPayload =
  ff_OS :: string
  ff_ProcessCPUPercent :: "rat option"
  ff_ProcessMemoryRSSMb :: "rat option"
  ff_CollectorRuntimeMS :: int
  ff_CollectorName :: string
  ff_EventQueueDepth :: int
  ff_SpoolBytes :: int
  ff_PackEvalRuntimeMS :: "rat option"

record summary_json =
  sj_object :: "string \<Rightarrow> (string, gval) gomap"
  sj_collector :: "string \<Rightarrow> collectorPayload"
  sj_perf :: "string \<Rightarrow> perfPayload"

record collectorStatusSnapshot =
  cs_DeviceID :: string
  cs_Collector :: string
  cs_Status :: string
  cs_Message :: string
  cs_ReceivedAtMS :: int

record performanceSnapshot =
  ps_DeviceID :: string
  ps_Payload :: perfPayload
  ps_ReceivedAtMS :: int

record dashboardModel =
  dm_TotalDevices :: nat
  dm_OnlineDevices :: nat
  dm_OfflineDevices :: int
  dm_MaxRisk :: int
  dm_AISignals :: nat
  dm_EventCount :: nat
  dm_ExtensionCount :: nat
  dm_SaseCount :: nat
  dm_Extensions :: "(string, gval) gomap list"
  dm_Sase :: "(string, gval) gomap list"
  dm_HealthyCollectorPairs :: nat
  dm_MaxCPUPercent :: "rat option"
  dm_AvgCPUPercent :: "rat option"
  dm_MaxMemoryRSSMb :: "rat option"
  dm_CollectorStatuses :: "collectorStatusSnapshot list"
  dm_Performance :: "performanceSnapshot list"

text \<open>
  The events of several queries, each once, in the order of receipt, newest first. \<open>sort.Slice\<close> leaves
  open how events of the same time are ordered; here that is the order of the map.
\<close>

definition events_by_id :: "visibilityEvent list list \<Rightarrow> (string, visibilityEvent) gomap" where
  "events_by_id batches =
     fold (\<lambda>batch m. fold (\<lambda>e m. if ve_EventID e = [] then m else map_set (ve_EventID e) e m) batch m) batches []"

definition uniqueEventsRecentFirst :: "visibilityEvent list list \<Rightarrow> visibilityEvent list" where
  "uniqueEventsRecentFirst batches = sort_key (\<lambda>e. - event_seenMS e) (map_values (events_by_id batches))"

definition aiShapedFinding :: "findingRecord \<Rightarrow> bool" where
  "aiShapedFinding f =
     re_match aiFindingHint
       (to_lower (stringValue (gp_Title (fg f)) @ '' '' @ stringValue (gp_Classification (fg f)) @ '' ''
          @ join_with '' '' (gp_DetectedPatterns (fg f))))"

text \<open>The rows that the loop over the events collects.\<close>

record dashboard_rows =
  dw_extensions :: "(string, gval) gomap list"
  dw_sase :: "(string, gval) gomap list"
  dw_collectors :: "collectorStatusSnapshot list"
  dw_performance :: "performanceSnapshot list"
  dw_healthy :: "string list"
  dw_cpu :: "rat list"
  dw_mem :: "rat list"

definition no_dashboard :: dashboard_rows where
  "no_dashboard = \<lparr>dw_extensions = [], dw_sase = [], dw_collectors = [], dw_performance = [], dw_healthy = [], dw_cpu = [], dw_mem = []\<rparr>"

text \<open>The fields of a payload beside the device; a field of the payload with that name replaces it.\<close>

definition object_row :: "summary_json \<Rightarrow> visibilityEvent \<Rightarrow> (string, gval) gomap" where
  "object_row lib e =
     fold (\<lambda>(k, v). map_set k v) (sj_object lib (ve_Payload e)) [(''device_id'', VStr (ve_DeviceID e))]"

definition collector_row :: "summary_json \<Rightarrow> visibilityEvent \<Rightarrow> collectorStatusSnapshot" where
  "collector_row lib e =
     (let p = sj_collector lib (ve_Payload e)
      in \<lparr>cs_DeviceID = ve_DeviceID e, cs_Collector = cp_Collector p, cs_Status = cp_Status p, cs_Message = cp_Message p,
          cs_ReceivedAtMS = event_seenMS e\<rparr>)"

definition dashboard_step :: "summary_json \<Rightarrow> visibilityEvent \<Rightarrow> dashboard_rows \<Rightarrow> dashboard_rows" where
  "dashboard_step lib e r =
     (if ve_EventType e = ''aegis.browser_extension.observed'' then
        r\<lparr>dw_extensions := dw_extensions r @ [object_row lib e]\<rparr>
      else if ve_EventType e = ''aegis.sase_component.observed'' then
        r\<lparr>dw_sase := dw_sase r @ [object_row lib e]\<rparr>
      else if ve_EventType e = ''aegis.collector.status'' then
        let row = collector_row lib e; r1 = r\<lparr>dw_collectors := dw_collectors r @ [row]\<rparr>
        in if equal_fold (trim_space (cs_Status row)) ''healthy''
           then r1\<lparr>dw_healthy := List.insert (ve_DeviceID e @ '':'' @ cs_Collector row) (dw_healthy r1)\<rparr>
           else r1
      else if ve_EventType e = ''aegis.agent.performance'' then
        let p = sj_perf lib (ve_Payload e);
            r1 = r\<lparr>dw_performance := dw_performance r
                     @ [\<lparr>ps_DeviceID = ve_DeviceID e, ps_Payload = p, ps_ReceivedAtMS = event_seenMS e\<rparr>]\<rparr>;
            r2 = (case ff_ProcessCPUPercent p of None \<Rightarrow> r1 | Some x \<Rightarrow> r1\<lparr>dw_cpu := dw_cpu r1 @ [x]\<rparr>)
        in (case ff_ProcessMemoryRSSMb p of None \<Rightarrow> r2 | Some x \<Rightarrow> r2\<lparr>dw_mem := dw_mem r2 @ [x]\<rparr>)
      else r)"

definition largest :: "rat list \<Rightarrow> rat option" where
  "largest xs = (case xs of [] \<Rightarrow> None | x # ys \<Rightarrow> Some (foldl (\<lambda>m v. if v > m then v else m) x (x # ys)))"

definition average :: "rat list \<Rightarrow> rat option" where
  "average xs = (if xs = [] then None else Some (sum_list xs / of_nat (length xs)))"

definition buildDashboardModelDTO :: "summary_json \<Rightarrow> visibilityDeviceRecord list \<Rightarrow> visibilityEvent list \<Rightarrow> findingRecord list \<Rightarrow> int \<Rightarrow> dashboardModel" where
  "buildDashboardModelDTO lib devices merged findings nowMS =
     (let online = length (filter (\<lambda>d. wrap64 (nowMS - dr_LastSeenMS d) < 5 * 60 * 1000) devices);
          r = fold (dashboard_step lib) merged no_dashboard
      in \<lparr>dm_TotalDevices = length devices, dm_OnlineDevices = online,
          dm_OfflineDevices = max 0 (int (length devices) - int online),
          dm_MaxRisk = foldl (\<lambda>m f. if gp_RiskScore (fg f) > m then gp_RiskScore (fg f) else m) 0 findings,
          dm_AISignals = length (filter aiShapedFinding findings), dm_EventCount = length merged,
          dm_ExtensionCount = length (dw_extensions r), dm_SaseCount = length (dw_sase r),
          dm_Extensions = dw_extensions r, dm_Sase = dw_sase r,
          dm_HealthyCollectorPairs = length (dw_healthy r), dm_MaxCPUPercent = largest (dw_cpu r),
          dm_AvgCPUPercent = average (dw_cpu r), dm_MaxMemoryRSSMb = largest (dw_mem r),
          dm_CollectorStatuses = dw_collectors r, dm_Performance = dw_performance r\<rparr>)"

record dashboardResponse =
  hr_GeneratedAtMS :: int
  hr_Devices :: "visibilityDeviceRecord list"
  hr_Model :: dashboardModel

definition handleSummaryDashboard :: "'s store_ops \<Rightarrow> view_json \<Rightarrow> summary_json \<Rightarrow> int \<Rightarrow> http_method \<Rightarrow> string \<Rightarrow> 's ingest_server \<Rightarrow> (nat \<times> string) + dashboardResponse" where
  "handleSummaryDashboard ops lib sj now m limit_q s =
     (if m \<noteq> GET then Inl (405, ''method not allowed'')
      else case is_store s of
        None \<Rightarrow> Inl (503, ''visibility store is not configured'')
      | Some st \<Rightarrow>
          (case parseQueryLimit limit_q of
             Inl err \<Rightarrow> Inl (400, err)
           | Inr limit \<Rightarrow>
               (case so_ListDevices ops \<lparr>df_TenantID = [], df_Limit = (if limit_q = [] then 80 else limit)\<rparr> st of
                  Inl err \<Rightarrow> Inl (503, err)
                | Inr devices \<Rightarrow>
                    let merged = uniqueEventsRecentFirst
                          [or_none (typed_events ops [] [] 120 st),
                           or_none (typed_events ops [] ''aegis.browser_extension.observed'' 80 st),
                           or_none (typed_events ops [] ''aegis.sase_component.observed'' 80 st),
                           or_none (typed_events ops [] ''aegis.collector.status'' 120 st),
                           or_none (typed_events ops [] ''aegis.agent.performance'' 120 st)];
                        findings = collectFindingRecords ops lib [] 80 st
                    in Inr \<lparr>hr_GeneratedAtMS = now, hr_Devices = devices,
                            hr_Model = buildDashboardModelDTO sj devices merged findings now\<rparr>)))"

section \<open>A device\<close>

definition filterProcesses :: "view_json \<Rightarrow> visibilityEvent list \<Rightarrow> nat \<Rightarrow> processRecord list" where
  "filterProcesses lib events limit = view_loop isProcessEventType (toProcessRecord lib) (\<lambda>_. True) limit events []"

definition filterFlows :: "view_json \<Rightarrow> visibilityEvent list \<Rightarrow> nat \<Rightarrow> flowRecord list" where
  "filterFlows lib events limit = view_loop isFlowEventType (toFlowRecord lib) (\<lambda>_. True) limit events []"

definition filterDNS :: "view_json \<Rightarrow> visibilityEvent list \<Rightarrow> nat \<Rightarrow> dnsRecord list" where
  "filterDNS lib events limit = view_loop isDNSEventType (toDNSRecord lib) (\<lambda>_. True) limit events []"

record deviceSummaryResponse =
  ds_Devices :: "visibilityDeviceRecord list"
  ds_Events :: "visibilityEvent list"
  ds_Processes :: "processRecord list"
  ds_Flows :: "flowRecord list"
  ds_DNS :: "dnsRecord list"
  ds_Findings :: "findingRecord list"
  ds_ExtensionEvents :: "visibilityEvent list"
  ds_SaseEvents :: "visibilityEvent list"
  ds_CollectorEvents :: "visibilityEvent list"
  ds_PerformanceEvents :: "visibilityEvent list"

definition handleSummaryDevice :: "'s store_ops \<Rightarrow> view_json \<Rightarrow> http_method \<Rightarrow> string \<Rightarrow> 's ingest_server \<Rightarrow> (nat \<times> string) + deviceSummaryResponse" where
  "handleSummaryDevice ops lib m device_q s =
     (if m \<noteq> GET then Inl (405, ''method not allowed'')
      else case is_store s of
        None \<Rightarrow> Inl (503, ''visibility store is not configured'')
      | Some st \<Rightarrow>
          let deviceID = trim_space device_q
          in if deviceID = [] then Inl (400, ''device_id is required'')
             else (case so_ListDevices ops \<lparr>df_TenantID = [], df_Limit = 120\<rparr> st of
               Inl err \<Rightarrow> Inl (503, err)
             | Inr devices \<Rightarrow>
                 let all = or_none (typed_events ops deviceID [] maxVisibilityQueryLimit st);
                     typed = (\<lambda>ty. or_none (typed_events ops deviceID ty 80 st))
                 in Inr \<lparr>ds_Devices = devices, ds_Events = or_none (typed_events ops deviceID [] 120 st),
                         ds_Processes = filterProcesses lib all 80, ds_Flows = filterFlows lib all 80,
                         ds_DNS = filterDNS lib all 80, ds_Findings = collectFindingRecords ops lib deviceID 80 st,
                         ds_ExtensionEvents = typed ''aegis.browser_extension.observed'',
                         ds_SaseEvents = typed ''aegis.sase_component.observed'',
                         ds_CollectorEvents = typed ''aegis.collector.status'',
                         ds_PerformanceEvents = typed ''aegis.agent.performance''\<rparr>))"

section \<open>The inventory\<close>

record inventoryDeviceSummaryRow =
  iv_DeviceID :: string
  iv_Source :: string
  iv_LastSeenMS :: int
  iv_AgentID :: string
  iv_SensorVersion :: string

record inventorySummaryResponse =
  is_Devices :: "inventoryDeviceSummaryRow list"
  is_EventsExt :: "visibilityEvent list"
  is_EventsSase :: "visibilityEvent list"
  is_DNS :: "dnsRecord list"
  is_Processes :: "processRecord list"
  is_Findings :: "findingRecord list"

definition inventory_row :: "visibilityDeviceRecord \<Rightarrow> inventoryDeviceSummaryRow" where
  "inventory_row d =
     \<lparr>iv_DeviceID = dr_DeviceID d, iv_Source = dr_Source d, iv_LastSeenMS = dr_LastSeenMS d, iv_AgentID = dr_AgentID d,
      iv_SensorVersion = dr_SensorVersion d\<rparr>"

definition handleSummaryInventory :: "'s store_ops \<Rightarrow> view_json \<Rightarrow> http_method \<Rightarrow> 's ingest_server \<Rightarrow> (nat \<times> string) + inventorySummaryResponse" where
  "handleSummaryInventory ops lib m s =
     (if m \<noteq> GET then Inl (405, ''method not allowed'')
      else case is_store s of
        None \<Rightarrow> Inl (503, ''visibility store is not configured'')
      | Some st \<Rightarrow>
          (case so_ListDevices ops \<lparr>df_TenantID = [], df_Limit = 180\<rparr> st of
             Inl err \<Rightarrow> Inl (503, err)
           | Inr devices \<Rightarrow>
               let all = or_none (typed_events ops [] [] maxVisibilityQueryLimit st)
               in Inr \<lparr>is_Devices = map inventory_row devices,
                       is_EventsExt = or_none (typed_events ops [] ''aegis.browser_extension.observed'' 220 st),
                       is_EventsSase = or_none (typed_events ops [] ''aegis.sase_component.observed'' 220 st),
                       is_DNS = filterDNS lib all 220, is_Processes = filterProcesses lib all 220,
                       is_Findings = collectFindingRecords ops lib [] 120 st\<rparr>))"

end
