(* ===== verification/Ing_AbomProperties.thy ===== *)
theory Ing_AbomProperties
  imports Ing_Insights Ing_Summary "HOL-Library.Multiset"
begin

text \<open>
  The inventory against a reference definition that summarises the signals of each item, whatever the order in which
  Go iterates over its map; what the sections of the insights and the hotspots count; the counters of
  the dashboard; and what the detection patterns match.
\<close>

section \<open>Unique strings\<close>

lemma appendUnique_facts [simp]:
  "set (appendUnique xs v) = insert v (set xs)" "distinct (appendUnique xs v) = distinct xs"
  by (auto simp: appendUnique_def)

definition add_string :: "string \<Rightarrow> string list \<Rightarrow> string list" where
  "add_string v out = (if v = [] then out else appendUnique out v)"

lemma uniqueStrings_snoc [simp]: "uniqueStrings (xs @ [v]) = add_string v (uniqueStrings xs)"
  by (simp add: uniqueStrings_def add_string_def)

lemma uniqueStrings_Nil [simp]: "uniqueStrings [] = []"
  by (simp add: uniqueStrings_def)

lemma uniqueStrings_set: "set (uniqueStrings xs) = set xs - {[]}"
  by (induction xs rule: rev_induct) (auto simp: add_string_def)

lemma uniqueStrings_distinct: "distinct (uniqueStrings xs)"
  by (induction xs rule: rev_induct) (auto simp: add_string_def)

lemma uniqueStrings_same: "distinct xs \<Longrightarrow> [] \<notin> set xs \<Longrightarrow> uniqueStrings xs = xs"
  by (induction xs rule: rev_induct) (auto simp: add_string_def appendUnique_def)

lemma uniqueStrings_absorb: "uniqueStrings (uniqueStrings xs @ ys) = uniqueStrings (xs @ ys)"
proof (induction ys rule: rev_induct)
  case Nil
  show ?case by (simp add: uniqueStrings_same uniqueStrings_distinct uniqueStrings_set)
next
  case (snoc y ys)
  then show ?case by (simp flip: append_assoc)
qed

lemma take_appendUnique: "take n (appendUnique (take n xs) v) = take n (appendUnique xs v)"
proof (cases "v \<in> set (take n xs)")
  case True
  then show ?thesis using set_take_subset [of n xs] by (auto simp: appendUnique_def)
next
  case False
  show ?thesis
  proof (cases "length xs \<le> n")
    case True
    then show ?thesis using False by (simp add: appendUnique_def)
  next
    case longer: False
    with False show ?thesis by (simp add: appendUnique_def min_absorb2)
  qed
qed

section \<open>The summary of an item's signals\<close>

abbreviation signal_key :: "abom_signal \<Rightarrow> string" where
  "signal_key a \<equiv> abom_key (as_Category a) (as_Product a)"

definition of_key :: "string \<Rightarrow> abom_signal list \<Rightarrow> abom_signal list" where
  "of_key k sigs = filter (\<lambda>a. signal_key a = k) sigs"

definition positive_times :: "abom_signal list \<Rightarrow> int list" where
  "positive_times S = filter (\<lambda>t. t > 0) (map as_Time S)"

text \<open>
  Devices, evidence and tags are those of the signals without repetition, of the evidence the first
  sixteen; an item is trusted when one of its signals is or when three devices show it; times that are
  not positive only count when they come first.
\<close>

definition summary_of :: "(string \<Rightarrow> string) \<Rightarrow> abom_signal list \<Rightarrow> abomItem" where
  "summary_of sha S =
     (let a = hd S; devices = uniqueStrings (map as_Device S); ts = positive_times S
      in \<lparr>ai_ID = abomItemID sha (as_Category a) (as_Product a), ai_Category = as_Category a, ai_Product = as_Product a,
          ai_CapabilityTags = uniqueStrings (concat (map as_Tags S)),
          ai_Confidence = (if High \<in> as_Confidence ` set S \<or> length devices \<ge> 3 then High
                           else if Medium \<in> as_Confidence ` set S then Medium else Low),
          ai_DeviceIDs = devices, ai_EvidenceRefs = take 16 (uniqueStrings (map as_Evidence S)),
          ai_FirstSeenMS = (if as_Time a < 0 \<or> ts = [] then as_Time a else Min (set ts)),
          ai_LastSeenMS = (if ts = [] then as_Time a else Max (set ts)),
          ai_RecommendedReview = as_Review a\<rparr>)"

lemma observe_fields:
  "ai_ID (observe a i) = ai_ID i" "ai_Category (observe a i) = ai_Category i" "ai_Product (observe a i) = ai_Product i"
  "ai_RecommendedReview (observe a i) = ai_RecommendedReview i"
  "ai_DeviceIDs (observe a i) = add_string (as_Device a) (ai_DeviceIDs i)"
  "ai_EvidenceRefs (observe a i) = (if as_Evidence a = [] then ai_EvidenceRefs i
     else take 16 (appendUnique (ai_EvidenceRefs i) (as_Evidence a)))"
  "ai_CapabilityTags (observe a i) = (if as_Tags a = [] then ai_CapabilityTags i
     else uniqueStrings (ai_CapabilityTags i @ as_Tags a))"
  "ai_FirstSeenMS (observe a i) = ai_FirstSeenMS (see_at (as_Time a) i)"
  "ai_LastSeenMS (observe a i) = ai_LastSeenMS (see_at (as_Time a) i)"
  "ai_Confidence (observe a i) = (if length (add_string (as_Device a) (ai_DeviceIDs i)) \<ge> 3 then High
     else mergeConfidence (ai_Confidence i) (as_Confidence a))"
  by (simp_all add: observe_def Let_def see_at_def add_string_def)

lemma item_eqI:
  fixes i j :: abomItem
  assumes "ai_ID i = ai_ID j" "ai_Category i = ai_Category j" "ai_Product i = ai_Product j"
    "ai_RecommendedReview i = ai_RecommendedReview j" "ai_DeviceIDs i = ai_DeviceIDs j"
    "ai_EvidenceRefs i = ai_EvidenceRefs j" "ai_CapabilityTags i = ai_CapabilityTags j"
    "ai_FirstSeenMS i = ai_FirstSeenMS j" "ai_LastSeenMS i = ai_LastSeenMS j" "ai_Confidence i = ai_Confidence j"
  shows "i = j"
  using assms by simp

lemma summary_fields:
  "ai_ID (summary_of sha S) = abomItemID sha (as_Category (hd S)) (as_Product (hd S))"
  "ai_Category (summary_of sha S) = as_Category (hd S)" "ai_Product (summary_of sha S) = as_Product (hd S)"
  "ai_RecommendedReview (summary_of sha S) = as_Review (hd S)"
  "ai_DeviceIDs (summary_of sha S) = uniqueStrings (map as_Device S)"
  "ai_EvidenceRefs (summary_of sha S) = take 16 (uniqueStrings (map as_Evidence S))"
  "ai_CapabilityTags (summary_of sha S) = uniqueStrings (concat (map as_Tags S))"
  "ai_FirstSeenMS (summary_of sha S) =
     (if as_Time (hd S) < 0 \<or> positive_times S = [] then as_Time (hd S) else Min (set (positive_times S)))"
  "ai_LastSeenMS (summary_of sha S) =
     (if positive_times S = [] then as_Time (hd S) else Max (set (positive_times S)))"
  "ai_Confidence (summary_of sha S) =
     (if High \<in> as_Confidence ` set S \<or> length (uniqueStrings (map as_Device S)) \<ge> 3 then High
      else if Medium \<in> as_Confidence ` set S then Medium else Low)"
  by (simp_all add: summary_of_def Let_def)

lemma merged_confidence:
  "mergeConfidence c d = (if c = High \<or> d = High then High else if c = Medium \<or> d = Medium then Medium else Low)"
  by (cases c; cases d) (simp_all add: mergeConfidence_def)

lemma add_string_length: "length out \<le> length (add_string v out)" "length (add_string v []) \<le> 1"
  by (simp_all add: add_string_def appendUnique_def)

lemma uniqueStrings_single: "uniqueStrings [v] = add_string v []"
  using uniqueStrings_snoc [of "[]" v] by simp

lemma positive_times_snoc:
  "positive_times (S @ [a]) = positive_times S @ (if as_Time a > 0 then [as_Time a] else [])"
  by (simp add: positive_times_def)

lemma observe_new: "observe a (new_item sha a) = summary_of sha [a]"
proof (rule item_eqI)
  show "ai_Confidence (observe a (new_item sha a)) = ai_Confidence (summary_of sha [a])"
    using add_string_length(2) [of "as_Device a"]
    by (cases "as_Confidence a") (simp_all add: observe_fields summary_fields new_item_def uniqueStrings_single merged_confidence)
  show "ai_CapabilityTags (observe a (new_item sha a)) = ai_CapabilityTags (summary_of sha [a])"
  proof -
    have "uniqueStrings (xs @ xs) = uniqueStrings xs" for xs :: "string list"
    proof -
      have "uniqueStrings (xs @ ys) = uniqueStrings xs" if "set ys \<subseteq> set xs" for ys
        using that by (induction ys rule: rev_induct)
          (auto simp: add_string_def appendUnique_def uniqueStrings_set simp flip: append_assoc)
      then show ?thesis by simp
    qed
    then show ?thesis by (simp add: observe_fields summary_fields new_item_def uniqueStrings_absorb)
  qed
  show "ai_EvidenceRefs (observe a (new_item sha a)) = ai_EvidenceRefs (summary_of sha [a])"
    by (simp add: observe_fields summary_fields new_item_def uniqueStrings_single add_string_def)
qed (simp_all add: observe_fields summary_fields new_item_def see_at_def positive_times_def uniqueStrings_single)

lemma observe_summary:
  assumes "S \<noteq> []"
  shows "observe a (summary_of sha S) = summary_of sha (S @ [a])"
proof (rule item_eqI)
  have h: "hd (S @ [a]) = hd S" using assms by simp
  show "ai_Confidence (observe a (summary_of sha S)) = ai_Confidence (summary_of sha (S @ [a]))"
    using add_string_length(1) [of "uniqueStrings (map as_Device S)" "as_Device a"]
    by (auto simp: observe_fields summary_fields merged_confidence)
  show "ai_CapabilityTags (observe a (summary_of sha S)) = ai_CapabilityTags (summary_of sha (S @ [a]))"
    by (simp add: observe_fields summary_fields uniqueStrings_absorb)
  show "ai_EvidenceRefs (observe a (summary_of sha S)) = ai_EvidenceRefs (summary_of sha (S @ [a]))"
    by (simp add: observe_fields summary_fields take_appendUnique add_string_def)
  show "ai_FirstSeenMS (observe a (summary_of sha S)) = ai_FirstSeenMS (summary_of sha (S @ [a]))"
  proof (cases "positive_times S = []")
    case True
    then have "\<not> 0 < as_Time (hd S)" using assms by (cases S) (auto simp: positive_times_def)
    with True show ?thesis by (auto simp: observe_fields summary_fields see_at_def h positive_times_snoc)
  next
    case False
    define m where "m = Min (set (positive_times S))"
    have "m \<in> set (positive_times S)" unfolding m_def using False by (intro Min_in) auto
    then have p: "m > 0" by (auto simp: positive_times_def)
    have i: "Min (insert t (set (positive_times S))) = min t m" for t
      using False by (simp add: m_def)
    from False p show ?thesis
      by (simp add: observe_fields summary_fields see_at_def h positive_times_snoc i flip: m_def)
  qed
  show "ai_LastSeenMS (observe a (summary_of sha S)) = ai_LastSeenMS (summary_of sha (S @ [a]))"
  proof (cases "positive_times S = []")
    case True
    then have "\<not> 0 < as_Time (hd S)" using assms by (cases S) (auto simp: positive_times_def)
    with True show ?thesis by (auto simp: observe_fields summary_fields see_at_def h positive_times_snoc)
  next
    case False
    define m where "m = Max (set (positive_times S))"
    have i: "Max (insert t (set (positive_times S))) = max t m" for t
      using False by (simp add: m_def)
    from False show ?thesis
      by (simp add: observe_fields summary_fields see_at_def h positive_times_snoc i flip: m_def)
  qed
qed (use assms in \<open>simp_all add: observe_fields summary_fields\<close>)

section \<open>The bag\<close>

lemma of_key_snoc: "of_key k (sigs @ [a]) = of_key k sigs @ (if signal_key a = k then [a] else [])"
  by (simp add: of_key_def)

lemma bag_lookup:
  "map_get (fold (bag_upsert sha) sigs []) k = (if of_key k sigs = [] then None else Some (summary_of sha (of_key k sigs)))"
proof (induction sigs rule: rev_induct)
  case Nil
  then show ?case by (simp add: of_key_def)
next
  case (snoc a sigs)
  let ?b = "fold (bag_upsert sha) sigs []"
  have run: "fold (bag_upsert sha) (sigs @ [a]) [] = bag_upsert sha a ?b" by simp
  show ?case
  proof (cases "signal_key a = k")
    case False
    then have "map_get (bag_upsert sha a ?b) k = map_get ?b k" by (simp add: bag_upsert_def Let_def)
    with False show ?thesis unfolding run using snoc by (simp add: of_key_snoc)
  next
    case True
    then have "map_get (bag_upsert sha a ?b) k =
        Some (observe a (case map_get ?b k of Some i \<Rightarrow> i | None \<Rightarrow> new_item sha a))"
      by (simp add: bag_upsert_def Let_def)
    with True show ?thesis unfolding run using snoc by (simp add: of_key_snoc observe_new observe_summary)
  qed
qed

lemma bag_keys:
  "map_ok (fold (bag_upsert sha) sigs [])" "fst ` set (fold (bag_upsert sha) sigs []) = signal_key ` set sigs"
  by (induction sigs rule: rev_induct) (auto simp: bag_upsert_def Let_def dom_update distinct_update)

text \<open>The signals of the telemetry, in the order in which the code adds them.\<close>

definition abom_signals :: "object_decoder \<Rightarrow> abom_input \<Rightarrow> abom_signal list" where
  "abom_signals obj t =
     List.map_filter process_signal (ab_processes t) @ List.map_filter dns_signal (ab_dns t)
     @ List.map_filter (extension_signal obj) (ab_extensions t) @ List.map_filter (sase_signal obj) (ab_sase t)
     @ List.map_filter finding_signal (ab_findings t)"

lemma fold_bag_add:
  "fold (\<lambda>x. bag_add sha (f x)) xs b = fold (bag_upsert sha) (List.map_filter f xs) b"
  by (induction xs arbitrary: b) (simp_all add: bag_add_def List.map_filter_simps split: option.split)

lemma fill_bag_signals: "fill_bag sha obj t = fold (bag_upsert sha) (abom_signals obj t) []"
proof -
  have "addProcess sha = (\<lambda>x. bag_add sha (process_signal x))" "addDNS sha = (\<lambda>x. bag_add sha (dns_signal x))"
    "addExtension sha obj = (\<lambda>x. bag_add sha (extension_signal obj x))"
    "addSase sha obj = (\<lambda>x. bag_add sha (sase_signal obj x))"
    "addFinding_abom sha = (\<lambda>x. bag_add sha (finding_signal x))"
    by (simp_all add: fun_eq_iff addProcess_def addDNS_def addExtension_def addSase_def addFinding_abom_def)
  then show ?thesis by (simp add: fill_bag_def newABOMBag_def abom_signals_def fold_bag_add)
qed

lemma toItems_summaries:
  assumes "distinct ks" "set ks = signal_key ` set (abom_signals obj t)"
  shows "mset (toItems (fill_bag sha obj t)) = mset (map (\<lambda>k. summary_of sha (of_key k (abom_signals obj t))) ks)"
proof -
  let ?b = "fill_bag sha obj t" and ?s = "\<lambda>k. summary_of sha (of_key k (abom_signals obj t))"
  have ok: "map_ok ?b" and keys: "fst ` set ?b = set ks"
    using bag_keys [of sha "abom_signals obj t"] assms(2) by (simp_all add: fill_bag_signals)
  have "snd e = ?s (fst e)" if "e \<in> set ?b" for e
    using that ok bag_lookup [of sha "abom_signals obj t" "fst e"] map_of_eq_Some_iff [OF ok, of "fst e" "snd e"]
    by (auto simp: fill_bag_signals split: if_splits)
  then have "map snd ?b = map ?s (map fst ?b)" by simp
  then have "mset (toItems ?b) = image_mset ?s (mset (map fst ?b))" by (simp only: toItems_def mset_map)
  also have "mset (map fst ?b) = mset ks"
    using ok assms(1) keys set_eq_iff_mset_eq_distinct [of "map fst ?b" ks] by simp
  finally show ?thesis by simp
qed

lemma of_key_hd: "of_key k sigs \<noteq> [] \<Longrightarrow> signal_key (hd (of_key k sigs)) = k"
  using hd_in_set [of "of_key k sigs"] by (simp add: of_key_def)

text \<open>Category and product of an item tell its key, so the order of the items is total.\<close>

lemma sort_items_perm:
  assumes "mset xs = mset ys" "inj_on (\<lambda>i. (ai_Category i, ai_Product i)) (set xs)"
  shows "sort_items xs = sort_items ys"
proof -
  have "inj_on (\<lambda>i. (ai_Category i, ai_Product i, - ai_LastSeenMS i)) (set xs)"
    using assms(2) by (auto simp: inj_on_def)
  moreover have "set xs = set ys" using assms(1) by (rule mset_eq_setD)
  ultimately show ?thesis unfolding sort_items_def
    by (intro sort_key_inj_key_eq) (simp_all add: assms(1))
qed

text \<open>
  C22. In whatever order Go iterates over the map of items, the inventory is the same: one item for each pair of category
  and product that a signal of the telemetry has (products compared without case and outer spaces),
  with the devices, evidence, tags, confidence and times that the reference definition computes from
  the signals of that pair, sorted by category and product.
\<close>

theorem inventory_summarises:
  assumes "mset is = mset (toItems (fill_bag sha obj t))"
  shows "sort_items is = sort_items (map (\<lambda>k. summary_of sha (of_key k (abom_signals obj t)))
           (sorted_list_of_set (signal_key ` set (abom_signals obj t))))"
proof (rule sort_items_perm)
  let ?sigs = "abom_signals obj t"
  have m: "mset is = mset (map (\<lambda>k. summary_of sha (of_key k ?sigs)) (sorted_list_of_set (signal_key ` set ?sigs)))"
    using toItems_summaries [of "sorted_list_of_set (signal_key ` set ?sigs)" obj t sha] assms by simp
  then show "mset is = mset (map (\<lambda>k. summary_of sha (of_key k ?sigs)) (sorted_list_of_set (signal_key ` set ?sigs)))" .
  from mset_eq_setD [OF m] have s: "set is = (\<lambda>k. summary_of sha (of_key k ?sigs)) ` signal_key ` set ?sigs"
    by simp
  have k: "abom_key (ai_Category (summary_of sha (of_key k ?sigs))) (ai_Product (summary_of sha (of_key k ?sigs))) = k"
    if "k \<in> signal_key ` set ?sigs" for k
  proof -
    from that have "of_key k ?sigs \<noteq> []" by (auto simp: of_key_def filter_empty_conv)
    then show ?thesis by (simp add: summary_fields of_key_hd)
  qed
  show "inj_on (\<lambda>i. (ai_Category i, ai_Product i)) (set is)"
  proof (rule inj_onI)
    fix i j
    assume "i \<in> set is" "j \<in> set is" and e: "(ai_Category i, ai_Product i) = (ai_Category j, ai_Product j)"
    then obtain a b where ab: "a \<in> signal_key ` set ?sigs" "b \<in> signal_key ` set ?sigs"
      and ij: "i = summary_of sha (of_key a ?sigs)" "j = summary_of sha (of_key b ?sigs)"
      unfolding s by blast
    have "abom_key (ai_Category i) (ai_Product i) = a" unfolding ij(1) by (rule k [OF ab(1)])
    moreover have "abom_key (ai_Category j) (ai_Product j) = b" unfolding ij(2) by (rule k [OF ab(2)])
    ultimately have "a = b" using e by simp
    then show "i = j" by (simp add: ij)
  qed
qed

section \<open>Insights\<close>

text \<open>The lists of the sections, as selections of the items.\<close>

lemma insight_rows_select:
  "insight_rows_of op high n items =
     \<lparr>ir_new = map (new_entry op high) (filter (is_new op) items),
      ir_newHigh = map (new_high_entry op high) (filter (\<lambda>i. is_new op i \<and> anyDeviceInSet (ai_DeviceIDs i) high) items),
      ir_highConf = map (high_conf_entry high) (filter (\<lambda>i. ai_Confidence i = High) items),
      ir_lowConf = map (low_conf_entry high) (filter (\<lambda>i. ai_Confidence i = Low) items),
      ir_widespread = map (widespread_entry high) (filter (\<lambda>i. length (ai_DeviceIDs i) \<ge> n) items),
      ir_stale = map (stale_entry op high) (filter (is_stale op) items)\<rparr>"
proof (induction items rule: rev_induct)
  case Nil
  show ?case by (simp add: insight_rows_of_def no_insights_def)
next
  case (snoc i items)
  have "insight_rows_of op high n (items @ [i]) = insight_step op high n i (insight_rows_of op high n items)"
    by (simp add: insight_rows_of_def)
  moreover have "ii_HighAttention (new_entry op high i) = anyDeviceInSet (ai_DeviceIDs i) high"
    by (simp add: new_entry_def insight_entry_def)
  ultimately show ?case using snoc
    by (cases "ai_Confidence i") (simp_all add: insight_step_def Let_def)
qed

text \<open>How often a device is counted in the hotspots: once for each item that lists it.\<close>

lemma count_items_on:
  assumes "\<And>i. i \<in> set items \<Longrightarrow> distinct (ai_DeviceIDs i)" "d \<noteq> []"
  shows "map_option ha_count (map_get (count_devices items) d) =
     (let n = length (filter (\<lambda>i. d \<in> set (ai_DeviceIDs i)) items) in if n = 0 then None else Some n)"
proof -
  have step: "map_get (fold (count_device i) ds m) d =
      (if d \<in> set ds then Some (count_item i (case map_get m d of None \<Rightarrow> new_acc | Some a \<Rightarrow> a)) else map_get m d)"
    if "distinct ds" for i ds m
    using that assms(2) by (induction ds arbitrary: m) (auto simp: count_device_def)
  show ?thesis using assms(1)
  proof (induction items rule: rev_induct)
    case Nil
    show ?case by (simp add: count_devices_def)
  next
    case (snoc i items)
    have run: "count_devices (items @ [i]) = fold (count_device i) (ai_DeviceIDs i) (count_devices items)"
      by (simp add: count_devices_def)
    show ?case unfolding run using snoc
      by (auto simp: step Let_def count_item_def new_acc_def split: if_splits option.splits)
  qed
qed

section \<open>The dashboard\<close>

text \<open>The merged events: each identifier of the batches once, newest first.\<close>

lemma events_by_id_facts:
  "map_ok (events_by_id batches)
   \<and> fst ` set (events_by_id batches) = ve_EventID ` set (concat batches) - {[]}
   \<and> (\<forall>(k, e) \<in> set (events_by_id batches). ve_EventID e = k \<and> e \<in> set (concat batches))"
proof -
  define add :: "visibilityEvent \<Rightarrow> (string, visibilityEvent) gomap \<Rightarrow> (string, visibilityEvent) gomap"
    where "add = (\<lambda>e m. if ve_EventID e = [] then m else map_set (ve_EventID e) e m)"
  have flat: "fold (\<lambda>batch m. fold add batch m) bs m = fold add (concat bs) m" for bs m
    by (induction bs arbitrary: m) simp_all
  have ok: "map_ok (fold add es [])" for es
    by (induction es rule: rev_induct) (simp_all add: add_def distinct_update)
  have ids: "fst ` set (fold add es []) = ve_EventID ` set es - {[]}" for es
    by (induction es rule: rev_induct) (auto simp: add_def dom_update)
  have own: "map_get (fold add es []) k = Some e \<Longrightarrow> ve_EventID e = k \<and> e \<in> set es" for es k e
    by (induction es rule: rev_induct) (auto simp: add_def split: if_splits)
  have "events_by_id batches = fold add (concat batches) []"
    unfolding flat [symmetric] by (simp add: events_by_id_def add_def)
  then show ?thesis by (auto simp: ok ids split: prod.splits dest: own [OF map_of_is_SomeI [OF ok]])
qed

lemma merged_events:
  "sorted (map (\<lambda>e. - event_seenMS e) (uniqueEventsRecentFirst batches))"
  "distinct (map ve_EventID (uniqueEventsRecentFirst batches))"
  "set (map ve_EventID (uniqueEventsRecentFirst batches)) = ve_EventID ` set (concat batches) - {[]}"
proof -
  let ?m = "events_by_id batches"
  have e: "map ve_EventID (map_values ?m) = map fst ?m"
    using events_by_id_facts [of batches] by auto
  show "sorted (map (\<lambda>e. - event_seenMS e) (uniqueEventsRecentFirst batches))"
    by (simp add: uniqueEventsRecentFirst_def)
  have "mset (map ve_EventID (uniqueEventsRecentFirst batches)) = mset (map fst ?m)"
    unfolding e [symmetric] by (simp add: uniqueEventsRecentFirst_def multiset.map_comp)
  note m = this
  show "distinct (map ve_EventID (uniqueEventsRecentFirst batches))"
    using mset_eq_imp_distinct_iff [OF m] events_by_id_facts [of batches] by blast
  show "set (map ve_EventID (uniqueEventsRecentFirst batches)) = ve_EventID ` set (concat batches) - {[]}"
    unfolding mset_eq_setD [OF m] using events_by_id_facts [of batches] by (simp only: list.set_map)
qed

section \<open>What the patterns match\<close>

text \<open>A finding counts as an AI signal when the letters \<open>ai\<close> occur anywhere in it, as in \<open>failed\<close>.\<close>

lemma ai_hint_letters:
  "re_match aiFindingHint s \<longleftrightarrow> (\<exists>w \<in> {''ai'', ''agent'', ''browser'', ''model''}. contains (to_lower s) w)"
  unfolding aiFindingHint_def by (subst re_match_alts) (simp_all add: re_match_lit del: re_lit.simps)

lemma anchored_literal: "re_match (re_seqs [RBegin, re_lit w, REnd]) s \<longleftrightarrow> to_lower s = w"
proof -
  have lit: "(\<exists>q \<in> set (ends (re_lit w) (p, t)). snd q = []) \<longleftrightarrow> to_lower t = w" for p t
  proof (induction w arbitrary: p t)
    case Nil
    show ?case by (simp add: to_lower_def)
  next
    case (Cons c w)
    then show ?case by (cases t) (auto simp: to_lower_def)
  qed
  have "\<not> match_from (re_seqs [RBegin, re_lit w, REnd]) (Some c) t" for c t
    by (induction t arbitrary: c) simp_all
  moreover have "ends (re_seqs [RBegin, re_lit w, REnd]) (None, s) \<noteq> [] \<longleftrightarrow> to_lower s = w"
    using lit [of None s] by (auto split: if_splits)
  ultimately show ?thesis unfolding re_match_def by (cases s) auto
qed

text \<open>
  The text that is searched for processes always has the spaces between name, path and command line, so the
  alternative \<open>^llm$\<close> of the pattern for command-line agents never matches.
\<close>

lemma llm_alone_missed:
  "\<not> re_match (re_seqs [RBegin, re_lit ''llm'', REnd]) (to_lower (name @ '' '' @ path @ '' '' @ cmd))"
proof
  assume "re_match (re_seqs [RBegin, re_lit ''llm'', REnd]) (to_lower (name @ '' '' @ path @ '' '' @ cmd))"
  then have "to_lower (to_lower (name @ '' '' @ path @ '' '' @ cmd)) = ''llm''"
    unfolding anchored_literal .
  then have "lower_char (lower_char (CHR '' '')) \<in> set ''llm''"
    by (metis list.set_map to_lower_def image_eqI in_set_conv_decomp append_Cons append_Nil)
  then show False by (simp add: lower_char_def)
qed

section \<open>An inventory\<close>

definition ex_lookup :: "string \<Rightarrow> string \<Rightarrow> int \<Rightarrow> dnsRecord" where
  "ex_lookup dev q t = event_head.extend
     \<lparr>eh_EventID = ''e'', eh_EventType = ''aegis.dns.observed'', eh_TimestampMS = t, eh_DeviceID = dev,
      eh_AgentID = ''g'', eh_Payload = []\<rparr> (dnsRecord.fields (zero_dns\<lparr>np_Query := q\<rparr>))"

definition ex_telemetry :: abom_input where
  "ex_telemetry =
     \<lparr>ab_processes = [],
      ab_dns = [ex_lookup ''b'' ''api.groq.com'' 9, ex_lookup ''a'' ''API.groq.com'' 4, ex_lookup ''b'' ''x.ai'' 7],
      ab_findings = [], ab_extensions = [], ab_sase = []\<rparr>"

theorem inventory_summarises_witness:
  "(\<lambda>i. (ai_Product i, ai_DeviceIDs i, ai_FirstSeenMS i, ai_LastSeenMS i)) `
     set (buildABOMItems id (\<lambda>_. None) ex_telemetry)
   = {(''Groq'', [''b'', ''a''], 4, 9), (''AI-related DNS: x.ai'', [''b''], 7, 7)}"
proof -
  let ?sigs = "abom_signals (\<lambda>_. None) ex_telemetry"
  have "map (\<lambda>a. (signal_key a, as_Product a, as_Device a, as_Time a)) ?sigs =
      [(''model_gateway::groq'', ''Groq'', ''b'', 9), (''model_gateway::groq'', ''Groq'', ''a'', 4),
       (''unknown_ai_automation::ai-related dns: x.ai'', ''AI-related DNS: x.ai'', ''b'', 7)]"
    by code_simp
  then obtain a b c where sigs: "?sigs = [a, b, c]"
    and keys: "signal_key a = ''model_gateway::groq''" "signal_key b = ''model_gateway::groq''"
      "signal_key c = ''unknown_ai_automation::ai-related dns: x.ai''"
    and fields: "as_Product a = ''Groq''" "as_Device a = ''b''" "as_Time a = 9" "as_Device b = ''a''" "as_Time b = 4"
      "as_Product c = ''AI-related DNS: x.ai''" "as_Device c = ''b''" "as_Time c = 7"
    by (auto simp: map_eq_Cons_conv)
  have "of_key ''model_gateway::groq'' ?sigs = [a, b]"
    "of_key ''unknown_ai_automation::ai-related dns: x.ai'' ?sigs = [c]"
    "signal_key ` set ?sigs = {''model_gateway::groq'', ''unknown_ai_automation::ai-related dns: x.ai''}"
    unfolding sigs of_key_def by (simp_all add: keys)
  note groups = this
  have "set (buildABOMItems id (\<lambda>_. None) ex_telemetry) = {summary_of id [a, b], summary_of id [c]}"
    unfolding buildABOMItems_def inventory_summarises [OF refl, of id "\<lambda>_. None" ex_telemetry]
    by (auto simp: sort_items_def groups)
  then show ?thesis
    by (simp add: summary_fields positive_times_def fields uniqueStrings_def appendUnique_def)
qed

end
