(* ===== verification/Orch_Rollout.thy ===== *)
theory Orch_Rollout
  imports Prelude
begin

text \<open>
  Canary rollouts of the orchestrator: \<open>ebpf.go\<close> under \<open>src/backend/orchestrator/internal/rollout\<close>. A deployment runs
  in its own goroutine; it is a program counter with its local variables, and a step is
  one of its calls to the outside or one locked section. Latencies and rates are exact rationals.
\<close>

section \<open>Data\<close>

record telemetryData =
  od_Violations :: int
  od_Errors :: int
  od_Latency :: rat
  od_LastUpdate :: time
  od_AgentVersion :: string
  od_BPFLoadTime :: rat
  od_PacketCount :: int
  od_BlockCount :: int

record applyRequest =
  oq_PlanID :: string
  oq_Targets :: "string list"
  oq_ArtifactID :: string
  oq_TTL :: int
  oq_Canary :: bool

record targetStatus =
  ot_TargetID :: string
  ot_Status :: string
  ot_AppliedAt :: time
  ot_Error :: string
  ot_Telemetry :: "telemetryData option"

text \<open>The field for metrics is never set and left out.\<close>

record applyResponse =
  op_RequestID :: string
  op_PlanID :: string
  op_Status :: string
  op_Targets :: "targetStatus list"
  op_AppliedAt :: time
  op_CompletedAt :: "time option"
  op_Error :: string

record violationThreshold =
  oh_MaxViolations :: int
  oh_MaxErrorRate :: rat
  oh_MaxLatency :: rat
  oh_MinSuccessRate :: rat

text \<open>The two messages on NATS.\<close>

datatype rollout_action =
    ApplyEBPF (ra_request: string) (ra_targets: "string list") (ra_artifact: string) (ra_ttl: int)
  | RollbackEBPF (ra_request: string) (ra_targets: "string list")

text \<open>The sums over the messages of an observation.\<close>

record observation =
  ob_totalViolations :: int
  ob_totalErrors :: int
  ob_totalLatency :: rat
  ob_messageCount :: nat

text \<open>
  Where a deployment is in \<open>executeCanaryDeployment\<close>: \<open>Observing final until obs\<close> waits for telemetry until its
  deadline, and \<open>final\<close> tells the last observation from that of the canary.
\<close>

datatype dep_pc =
    ApplyingCanary
  | ApplyingRest
  | Subscribing bool
  | Observing bool time observation
  | RollingBack "string list" string
  | Ending string string
  | Completing string
  | Finished string

text \<open>
  A deployment. \<open>dy_verdicts\<close> is history: the thresholds, the totals and the outcome of its completed
  observations.
\<close>

record deployment =
  dy_requestID :: string
  dy_req :: applyRequest
  dy_cancelled :: bool
  dy_pc :: dep_pc
  dy_verdicts :: "(violationThreshold \<times> observation \<times> bool) list"

text \<open>The manager. Published messages carry the number of the deployment that sent them.\<close>

record rollout_manager =
  ro_activeRollouts :: "(string, applyResponse) gomap"
  ro_thresholds :: violationThreshold
  ro_observationWindow :: duration
  ro_published :: "(nat \<times> rollout_action) list"
  ro_deployments :: "deployment list"

section \<open>Operations\<close>

definition NewBPFRolloutManager :: rollout_manager where
  "NewBPFRolloutManager =
     \<lparr>ro_activeRollouts = [],
      ro_thresholds = \<lparr>oh_MaxViolations = 5, oh_MaxErrorRate = 1 / 10, oh_MaxLatency = 1000,
                       oh_MinSuccessRate = 95 / 100\<rparr>,
      ro_observationWindow = 300000000000, ro_published = [], ro_deployments = []\<rparr>"

definition unix_second :: "time \<Rightarrow> int" where
  "unix_second t = t div 1000000000"

definition rollout_id :: "string \<Rightarrow> time \<Rightarrow> string" where
  "rollout_id planID now = planID @ ''-'' @ itoa (unix_second now)"

definition pending_target :: "time \<Rightarrow> string \<Rightarrow> targetStatus" where
  "pending_target now target =
     \<lparr>ot_TargetID = target, ot_Status = ''pending'', ot_AppliedAt = now, ot_Error = [], ot_Telemetry = None\<rparr>"

definition pending_rollout :: "applyRequest \<Rightarrow> time \<Rightarrow> applyResponse" where
  "pending_rollout req now =
     \<lparr>op_RequestID = rollout_id (oq_PlanID req) now, op_PlanID = oq_PlanID req, op_Status = ''pending'',
      op_Targets = map (pending_target now) (oq_Targets req), op_AppliedAt = now,
      op_CompletedAt = None, op_Error = []\<rparr>"

definition ApplyCanary :: "applyRequest \<Rightarrow> time \<Rightarrow> rollout_manager \<Rightarrow> applyResponse \<times> rollout_manager" where
  "ApplyCanary req now rm =
     (let response = pending_rollout req now; requestID = op_RequestID response
      in (response,
          rm\<lparr>ro_activeRollouts := map_set requestID response (ro_activeRollouts rm),
             ro_deployments := ro_deployments rm @
               [\<lparr>dy_requestID = requestID, dy_req = req, dy_cancelled = False, dy_pc = ApplyingCanary,
                 dy_verdicts = []\<rparr>]\<rparr>))"

definition canaryCount :: "string list \<Rightarrow> nat" where
  "canaryCount targets =
     (let n0 = length targets div 10;
          n1 = (if n0 < 1 then 1 else n0)
      in if n1 > length targets then length targets else n1)"

definition canaryTargets :: "applyRequest \<Rightarrow> string list" where
  "canaryTargets req = take (canaryCount (oq_Targets req)) (oq_Targets req)"

definition remainingTargets :: "applyRequest \<Rightarrow> string list" where
  "remainingTargets req = drop (canaryCount (oq_Targets req)) (oq_Targets req)"

text \<open>Publishing either works or fails with an error.\<close>

definition publish_action :: "nat \<Rightarrow> rollout_action \<Rightarrow> rollout_manager \<Rightarrow> rollout_manager" where
  "publish_action i a rm = rm\<lparr>ro_published := ro_published rm @ [(i, a)]\<rparr>"

definition applyToTargets :: "string option \<Rightarrow> nat \<Rightarrow> string \<Rightarrow> string list \<Rightarrow> string \<Rightarrow> int \<Rightarrow> rollout_manager \<Rightarrow> string option \<times> rollout_manager" where
  "applyToTargets outcome i requestID targets artifactID ttl rm =
     (case outcome of
        Some err \<Rightarrow> (Some (''failed to publish action: '' @ err), rm)
      | None \<Rightarrow> (None, publish_action i (ApplyEBPF requestID targets artifactID ttl) rm))"

definition rollbackTargets :: "string option \<Rightarrow> nat \<Rightarrow> string \<Rightarrow> string list \<Rightarrow> rollout_manager \<Rightarrow> rollout_manager" where
  "rollbackTargets outcome i requestID targets rm =
     (case outcome of
        Some err \<Rightarrow> rm
      | None \<Rightarrow> publish_action i (RollbackEBPF requestID targets) rm)"

definition evaluateSuccess :: "violationThreshold \<Rightarrow> observation \<Rightarrow> bool" where
  "evaluateSuccess th ob =
     (if ob_messageCount ob = 0 then False
      else
        let n = of_nat (ob_messageCount ob);
            avgLatency = ob_totalLatency ob / n;
            errorRate = of_int (ob_totalErrors ob) / n;
            successRate = 1 - errorRate
        in if ob_totalViolations ob > oh_MaxViolations th then False
           else if errorRate > oh_MaxErrorRate th then False
           else if avgLatency > oh_MaxLatency th then False
           else if successRate < oh_MinSuccessRate th then False
           else True)"

definition no_observation :: observation where
  "no_observation = \<lparr>ob_totalViolations = 0, ob_totalErrors = 0, ob_totalLatency = 0, ob_messageCount = 0\<rparr>"

definition observe_message :: "telemetryData \<Rightarrow> observation \<Rightarrow> observation" where
  "observe_message t ob =
     ob\<lparr>ob_totalViolations := wrap64 (ob_totalViolations ob + od_Violations t),
        ob_totalErrors := wrap64 (ob_totalErrors ob + od_Errors t),
        ob_totalLatency := ob_totalLatency ob + od_Latency t,
        ob_messageCount := Suc (ob_messageCount ob)\<rparr>"

definition update_rollout :: "string \<Rightarrow> (applyResponse \<Rightarrow> applyResponse) \<Rightarrow> rollout_manager \<Rightarrow> rollout_manager" where
  "update_rollout requestID f rm =
     (case map_get (ro_activeRollouts rm) requestID of
        None \<Rightarrow> rm
      | Some r \<Rightarrow> rm\<lparr>ro_activeRollouts := map_set requestID (f r) (ro_activeRollouts rm)\<rparr>)"

definition updateRolloutStatus :: "string \<Rightarrow> string \<Rightarrow> string \<Rightarrow> rollout_manager \<Rightarrow> rollout_manager" where
  "updateRolloutStatus requestID status errorMsg rm =
     update_rollout requestID
       (\<lambda>r. let r1 = r\<lparr>op_Status := status\<rparr>
            in if errorMsg \<noteq> [] then r1\<lparr>op_Error := errorMsg\<rparr> else r1) rm"

definition updateTargetTelemetry :: "string \<Rightarrow> telemetryData \<Rightarrow> rollout_manager \<Rightarrow> rollout_manager" where
  "updateTargetTelemetry requestID t rm =
     update_rollout requestID
       (\<lambda>r. r\<lparr>op_Targets := map (\<lambda>x. x\<lparr>ot_Telemetry := Some t\<rparr>) (op_Targets r)\<rparr>) rm"

definition set_completed :: "string \<Rightarrow> time \<Rightarrow> rollout_manager \<Rightarrow> rollout_manager" where
  "set_completed requestID now rm = update_rollout requestID (\<lambda>r. r\<lparr>op_CompletedAt := Some now\<rparr>) rm"

definition GetRolloutStatus :: "string \<Rightarrow> rollout_manager \<Rightarrow> string + applyResponse" where
  "GetRolloutStatus requestID rm =
     (case map_get (ro_activeRollouts rm) requestID of
        None \<Rightarrow> Inl (''rollout not found: '' @ requestID)
      | Some r \<Rightarrow> Inr r)"

definition ListActiveRollouts :: "rollout_manager \<Rightarrow> applyResponse list" where
  "ListActiveRollouts rm = map_values (ro_activeRollouts rm)"

definition SetViolationThresholds :: "violationThreshold \<Rightarrow> rollout_manager \<Rightarrow> rollout_manager" where
  "SetViolationThresholds th rm = rm\<lparr>ro_thresholds := th\<rparr>"

definition SetObservationWindow :: "duration \<Rightarrow> rollout_manager \<Rightarrow> rollout_manager" where
  "SetObservationWindow w rm = rm\<lparr>ro_observationWindow := w\<rparr>"

section \<open>The deployment goroutine\<close>

text \<open>What happens to a deployment: the outcome of a call, a message, the end of its window, or a local step.\<close>

datatype dep_event =
    Published "string option"
  | Subscribed "string option" time
  | Telemetry telemetryData
  | Ticked
  | WindowOver time
  | Local time

definition goto :: "dep_pc \<Rightarrow> deployment \<Rightarrow> deployment" where
  "goto pc d = d\<lparr>dy_pc := pc\<rparr>"

definition apply_then :: "string option \<Rightarrow> nat \<Rightarrow> string list \<Rightarrow> dep_pc \<Rightarrow> deployment \<Rightarrow> rollout_manager \<Rightarrow> deployment \<times> rollout_manager" where
  "apply_then outcome i targets next_pc d rm =
     (case applyToTargets outcome i (dy_requestID d) targets (oq_ArtifactID (dy_req d)) (oq_TTL (dy_req d)) rm of
        (Some err, rm1) \<Rightarrow> (goto (Ending ''failed'' err) d, rm1)
      | (None, rm1) \<Rightarrow> (goto next_pc d, rm1))"

text \<open>What follows an observation with the given outcome.\<close>

definition after_observation :: "bool \<Rightarrow> bool \<Rightarrow> applyRequest \<Rightarrow> dep_pc" where
  "after_observation final success req =
     (if \<not> final then
        if \<not> success then RollingBack (canaryTargets req) ''Canary validation failed''
        else if remainingTargets req \<noteq> [] then ApplyingRest else Subscribing True
      else if success then Ending ''success'' []
      else RollingBack (oq_Targets req) ''Final validation failed'')"

text \<open>The observation: its subscription, its loop, and the verdict when the window is over.\<close>

definition observeCanaryTargets :: "dep_event \<Rightarrow> deployment \<Rightarrow> rollout_manager \<Rightarrow> (deployment \<times> rollout_manager) option" where
  "observeCanaryTargets e d rm =
     (case dy_pc d of
        Subscribing final \<Rightarrow>
          (case e of
             Subscribed None now \<Rightarrow>
               Some (goto (Observing final (time_add now (ro_observationWindow rm)) no_observation) d, rm)
           | Subscribed (Some err) now \<Rightarrow> Some (goto (after_observation final False (dy_req d)) d, rm)
           | _ \<Rightarrow> None)
      | Observing final deadline ob \<Rightarrow>
          (case e of
             Telemetry t \<Rightarrow>
               Some (goto (Observing final deadline (observe_message t ob)) d,
                     updateTargetTelemetry (dy_requestID d) t rm)
           | Ticked \<Rightarrow> Some (d, rm)
           | WindowOver now \<Rightarrow>
               if dy_cancelled d \<or> deadline \<le> now then
                 let success = evaluateSuccess (ro_thresholds rm) ob
                 in Some (goto (after_observation final success (dy_req d))
                            (d\<lparr>dy_verdicts := dy_verdicts d @ [(ro_thresholds rm, ob, success)]\<rparr>), rm)
               else None
           | _ \<Rightarrow> None)
      | _ \<Rightarrow> None)"

definition deployment_step :: "dep_event \<Rightarrow> nat \<Rightarrow> deployment \<Rightarrow> rollout_manager \<Rightarrow> (deployment \<times> rollout_manager) option" where
  "deployment_step e i d rm =
     (case dy_pc d of
        ApplyingCanary \<Rightarrow>
          (case e of Published outcome \<Rightarrow> Some (apply_then outcome i (canaryTargets (dy_req d)) (Subscribing False) d rm)
           | _ \<Rightarrow> None)
      | ApplyingRest \<Rightarrow>
          (case e of Published outcome \<Rightarrow> Some (apply_then outcome i (remainingTargets (dy_req d)) (Subscribing True) d rm)
           | _ \<Rightarrow> None)
      | Subscribing final \<Rightarrow> observeCanaryTargets e d rm
      | Observing final deadline ob \<Rightarrow> observeCanaryTargets e d rm
      | RollingBack targets reason \<Rightarrow>
          (case e of
             Published outcome \<Rightarrow>
               Some (goto (Ending ''rollback'' reason) d, rollbackTargets outcome i (dy_requestID d) targets rm)
           | _ \<Rightarrow> None)
      | Ending status errorMsg \<Rightarrow>
          (case e of
             Local now \<Rightarrow> Some (goto (Completing status) d, updateRolloutStatus (dy_requestID d) status errorMsg rm)
           | _ \<Rightarrow> None)
      | Completing status \<Rightarrow>
          (case e of
             Local now \<Rightarrow> Some (goto (Finished status) d, set_completed (dy_requestID d) now rm)
           | _ \<Rightarrow> None)
      | Finished status \<Rightarrow> None)"

text \<open>A step of one deployment of the manager.\<close>

definition run_deployment :: "dep_event \<Rightarrow> nat \<Rightarrow> rollout_manager \<Rightarrow> rollout_manager option" where
  "run_deployment e i rm =
     (if i < length (ro_deployments rm) then
        case deployment_step e i (ro_deployments rm ! i) rm of
          None \<Rightarrow> None
        | Some (d, rm1) \<Rightarrow> Some (rm1\<lparr>ro_deployments := (ro_deployments rm1)[i := d]\<rparr>)
      else None)"

definition cancel_deployment :: "nat \<Rightarrow> rollout_manager \<Rightarrow> rollout_manager" where
  "cancel_deployment i rm =
     rm\<lparr>ro_deployments := (ro_deployments rm)[i := (ro_deployments rm ! i)\<lparr>dy_cancelled := True\<rparr>]\<rparr>"

inductive rollout_step :: "rollout_manager \<Rightarrow> rollout_manager \<Rightarrow> bool" where
  start: "ApplyCanary req now rm = (response, rm') \<Longrightarrow> rollout_step rm rm'"
| run: "run_deployment e i rm = Some rm' \<Longrightarrow> rollout_step rm rm'"
| cancel: "i < length (ro_deployments rm) \<Longrightarrow> rollout_step rm (cancel_deployment i rm)"
| set_thresholds: "rollout_step rm (SetViolationThresholds th rm)"
| set_window: "rollout_step rm (SetObservationWindow w rm)"

inductive_cases rollout_stepE: "rollout_step rm rm'"

section \<open>The HTTP interface\<close>

datatype rollout_reply =
    RolloutAccepted applyResponse
  | RolloutShown applyResponse
  | RolloutList "applyResponse list"
  | RollbackInitiated string "string list"
  | RolloutError nat string

text \<open>
  The context of a request ends when its handler has returned, so the deployment it started is
  cancelled by then.
\<close>

definition handleApplyEBPF :: "applyRequest option \<Rightarrow> time \<Rightarrow> rollout_manager \<Rightarrow> rollout_reply \<times> rollout_manager" where
  "handleApplyEBPF body now rm =
     (case body of
        None \<Rightarrow> (RolloutError 400 ''Invalid JSON request body'', rm)
      | Some req0 \<Rightarrow>
          if oq_PlanID req0 = [] \<or> oq_Targets req0 = [] \<or> oq_ArtifactID req0 = []
          then (RolloutError 400 ''Missing required fields: plan_id, targets, artifact_id'', rm)
          else
            let req = (if oq_TTL req0 \<le> 0 then req0\<lparr>oq_TTL := 3600\<rparr> else req0);
                (response, rm1) = ApplyCanary req now rm
            in (RolloutAccepted response, cancel_deployment (length (ro_deployments rm)) rm1))"

definition handleGetRolloutStatus :: "string \<Rightarrow> rollout_manager \<Rightarrow> rollout_reply" where
  "handleGetRolloutStatus requestID rm =
     (case GetRolloutStatus requestID rm of
        Inl err \<Rightarrow> RolloutError 404 ''Rollout not found''
      | Inr r \<Rightarrow> RolloutShown r)"

definition handleListRollouts :: "rollout_manager \<Rightarrow> rollout_reply" where
  "handleListRollouts rm = RolloutList (ListActiveRollouts rm)"

text \<open>The handler for rollbacks only answers: it changes nothing.\<close>

definition handleRollback :: "string \<Rightarrow> rollout_manager \<Rightarrow> rollout_reply \<times> rollout_manager" where
  "handleRollback requestID rm =
     (case GetRolloutStatus requestID rm of
        Inl err \<Rightarrow> (RolloutError 404 ''Rollout not found'', rm)
      | Inr r \<Rightarrow> (RollbackInitiated requestID (map ot_TargetID (op_Targets r)), rm))"

definition handleGetThresholds :: violationThreshold where
  "handleGetThresholds =
     \<lparr>oh_MaxViolations = 5, oh_MaxErrorRate = 1 / 10, oh_MaxLatency = 1000, oh_MinSuccessRate = 95 / 100\<rparr>"

definition handleSetThresholds :: "violationThreshold option \<Rightarrow> rollout_manager \<Rightarrow> (nat \<times> string) option \<times> rollout_manager" where
  "handleSetThresholds body rm =
     (case body of
        None \<Rightarrow> (Some (400, ''Invalid JSON request body''), rm)
      | Some th \<Rightarrow> (None, SetViolationThresholds th rm))"

definition handleSetObservationWindow :: "(string \<Rightarrow> duration option) \<Rightarrow> string option \<Rightarrow> rollout_manager \<Rightarrow> (nat \<times> string) option \<times> rollout_manager" where
  "handleSetObservationWindow parseDuration body rm =
     (case body of
        None \<Rightarrow> (Some (400, ''Invalid JSON request body''), rm)
      | Some w \<Rightarrow>
          (case parseDuration w of
             None \<Rightarrow> (Some (400, ''Invalid duration format''), rm)
           | Some d \<Rightarrow> (None, SetObservationWindow d rm)))"

end
