(* ===== verification/Orch_RolloutProperties.thy ===== *)
theory Orch_RolloutProperties
  imports Orch_Rollout
begin

text \<open>
  The protocol of a canary rollout, over all interleavings of deployments: what has been sent at
  each point, that the rest follows a canary that passed, what the final status means, and that every deployment ends.
\<close>

section \<open>What a deployment has sent\<close>

definition actions_of :: "nat \<Rightarrow> rollout_manager \<Rightarrow> rollout_action list" where
  "actions_of i rm = map snd (filter (\<lambda>p. fst p = i) (ro_published rm))"

definition canary_action :: "deployment \<Rightarrow> rollout_action" where
  "canary_action d = ApplyEBPF (dy_requestID d) (canaryTargets (dy_req d)) (oq_ArtifactID (dy_req d)) (oq_TTL (dy_req d))"

definition rest_action :: "deployment \<Rightarrow> rollout_action" where
  "rest_action d = ApplyEBPF (dy_requestID d) (remainingTargets (dy_req d)) (oq_ArtifactID (dy_req d)) (oq_TTL (dy_req d))"

definition apply_actions :: "deployment \<Rightarrow> rollout_action list" where
  "apply_actions d = canary_action d # (if remainingTargets (dy_req d) = [] then [] else [rest_action d])"

definition outcomes :: "deployment \<Rightarrow> bool list" where
  "outcomes d = map (\<lambda>(th, ob, b). b) (dy_verdicts d)"

text \<open>What a final status means: the messages sent and the outcomes of the observations.\<close>

definition ended :: "string \<Rightarrow> deployment \<Rightarrow> rollout_action list \<Rightarrow> bool" where
  "ended st d acts \<longleftrightarrow>
     (st = ''success'' \<and> acts = apply_actions d \<and> outcomes d = [True, True]) \<or>
     (st = ''failed'' \<and>
        (acts = [] \<and> outcomes d = [] \<or>
         acts = [canary_action d] \<and> outcomes d = [True] \<and> remainingTargets (dy_req d) \<noteq> [])) \<or>
     (st = ''rollback'' \<and>
        (outcomes d \<in> {[], [False]} \<and>
         acts \<in> {[canary_action d], [canary_action d, RollbackEBPF (dy_requestID d) (canaryTargets (dy_req d))]} \<or>
         outcomes d \<in> {[True], [True, False]} \<and>
         acts \<in> {apply_actions d, apply_actions d @ [RollbackEBPF (dy_requestID d) (oq_Targets (dy_req d))]}))"

fun sent_ok :: "dep_pc \<Rightarrow> deployment \<Rightarrow> rollout_action list \<Rightarrow> bool" where
  "sent_ok ApplyingCanary d acts \<longleftrightarrow> acts = [] \<and> outcomes d = []"
| "sent_ok ApplyingRest d acts \<longleftrightarrow> acts = [canary_action d] \<and> outcomes d = [True] \<and> remainingTargets (dy_req d) \<noteq> []"
| "sent_ok (Subscribing final) d acts \<longleftrightarrow>
     acts = (if final then apply_actions d else [canary_action d]) \<and> outcomes d = (if final then [True] else [])"
| "sent_ok (Observing final deadline ob) d acts \<longleftrightarrow>
     acts = (if final then apply_actions d else [canary_action d]) \<and> outcomes d = (if final then [True] else [])"
| "sent_ok (RollingBack ts reason) d acts \<longleftrightarrow>
     (ts = canaryTargets (dy_req d) \<and> acts = [canary_action d] \<and> outcomes d \<in> {[], [False]}) \<or>
     (ts = oq_Targets (dy_req d) \<and> acts = apply_actions d \<and> outcomes d \<in> {[True], [True, False]})"
| "sent_ok (Ending st msg) d acts \<longleftrightarrow> ended st d acts"
| "sent_ok (Completing st) d acts \<longleftrightarrow> ended st d acts"
| "sent_ok (Finished st) d acts \<longleftrightarrow> ended st d acts"

definition verdict_ok :: "violationThreshold \<times> observation \<times> bool \<Rightarrow> bool" where
  "verdict_ok = (\<lambda>(th, ob, b). b = evaluateSuccess th ob)"

definition dep_ok :: "deployment \<Rightarrow> rollout_action list \<Rightarrow> bool" where
  "dep_ok d acts \<longleftrightarrow> sent_ok (dy_pc d) d acts \<and> list_all verdict_ok (dy_verdicts d)"

lemma goto_simps [simp]:
  "dy_pc (goto pc d) = pc" "dy_requestID (goto pc d) = dy_requestID d" "dy_req (goto pc d) = dy_req d"
  "dy_verdicts (goto pc d) = dy_verdicts d" "outcomes (goto pc d) = outcomes d" "dy_cancelled (goto pc d) = dy_cancelled d"
  "canary_action (goto pc d) = canary_action d" "rest_action (goto pc d) = rest_action d"
  "apply_actions (goto pc d) = apply_actions d"
  by (simp_all add: goto_def outcomes_def canary_action_def apply_actions_def rest_action_def)

lemma ended_goto [simp]: "ended st (goto pc d) acts = ended st d acts"
  by (simp add: ended_def)

lemma verdict_simps:
  "outcomes (d\<lparr>dy_verdicts := vs\<rparr>) = map (\<lambda>(th, ob, b). b) vs"
  "canary_action (d\<lparr>dy_verdicts := vs\<rparr>) = canary_action d" "rest_action (d\<lparr>dy_verdicts := vs\<rparr>) = rest_action d" "apply_actions (d\<lparr>dy_verdicts := vs\<rparr>) = apply_actions d"
  by (simp_all add: outcomes_def canary_action_def apply_actions_def rest_action_def)

lemma update_rollout_frame [simp]:
  "ro_published (update_rollout r f rm) = ro_published rm"
  "ro_deployments (update_rollout r f rm) = ro_deployments rm"
  "ro_thresholds (update_rollout r f rm) = ro_thresholds rm"
  "ro_observationWindow (update_rollout r f rm) = ro_observationWindow rm"
  by (simp_all add: update_rollout_def split: option.splits)

lemma publish_action_simps [simp]:
  "ro_deployments (publish_action i a rm) = ro_deployments rm"
  "ro_activeRollouts (publish_action i a rm) = ro_activeRollouts rm"
  "ro_published (publish_action i a rm) = ro_published rm @ [(i, a)]"
  by (simp_all add: publish_action_def)

lemma actions_of_publish [simp]:
  "actions_of j (publish_action i a rm) = actions_of j rm @ (if j = i then [a] else [])"
  by (simp add: actions_of_def)

lemma actions_of_update [simp]: "actions_of j (update_rollout r f rm) = actions_of j rm"
  by (simp add: actions_of_def)

lemmas update_defs = updateRolloutStatus_def updateTargetTelemetry_def set_completed_def

text \<open>A step keeps the identity of its deployment and sends under its number only.\<close>

lemma deployment_step_frame:
  assumes "deployment_step e i d rm = Some (d', rm')"
  shows "dy_req d' = dy_req d \<and> dy_requestID d' = dy_requestID d \<and> ro_deployments rm' = ro_deployments rm \<and>
    (\<exists>new. ro_published rm' = ro_published rm @ map (Pair i) new)"
proof (intro conjI)
  note defs = deployment_step_def observeCanaryTargets_def apply_then_def applyToTargets_def rollbackTargets_def update_defs Let_def
  show "dy_req d' = dy_req d" "dy_requestID d' = dy_requestID d" "ro_deployments rm' = ro_deployments rm"
    using assms by (auto simp: defs split: dep_pc.splits dep_event.splits option.splits if_splits)
  have "ro_published rm' = ro_published rm \<or> (\<exists>a. ro_published rm' = ro_published rm @ [(i, a)])"
    using assms by (auto simp: defs split: dep_pc.splits dep_event.splits option.splits if_splits)
  then show "\<exists>new. ro_published rm' = ro_published rm @ map (Pair i) new"
    by (metis append_Nil2 list.simps(8,9))
qed

lemma actions_of_frame:
  "ro_published rm' = ro_published rm @ map (Pair i) new \<Longrightarrow>
     actions_of j rm' = actions_of j rm @ (if j = i then new else [])"
  by (induction new arbitrary: rm rm' rule: rev_induct) (auto simp: actions_of_def filter_map o_def)

lemma deployment_step_ok:
  assumes "deployment_step e i d rm = Some (d', rm')" and "dep_ok d (actions_of i rm)"
  shows "dep_ok d' (actions_of i rm')"
proof (cases "dy_pc d")
  case ApplyingCanary
  then show ?thesis using assms
    by (auto simp: deployment_step_def observeCanaryTargets_def apply_then_def applyToTargets_def dep_ok_def ended_def canary_action_def
        split: dep_event.splits option.splits)
next
  case ApplyingRest
  then show ?thesis using assms
    by (auto simp: deployment_step_def observeCanaryTargets_def apply_then_def applyToTargets_def dep_ok_def ended_def apply_actions_def
        rest_action_def split: dep_event.splits option.splits)
next
  case (Subscribing final)
  then show ?thesis using assms
    by (cases final) (auto simp: deployment_step_def observeCanaryTargets_def dep_ok_def after_observation_def
        split: dep_event.splits option.splits)
next
  case (Observing final deadline ob)
  show ?thesis
  proof (cases e)
    case (WindowOver now)
    then show ?thesis using assms Observing
      by (cases final)
        (auto simp: deployment_step_def observeCanaryTargets_def dep_ok_def after_observation_def Let_def verdict_simps verdict_ok_def
          ended_def apply_actions_def outcomes_def split: if_splits)
  qed (use assms Observing in \<open>auto simp: deployment_step_def observeCanaryTargets_def dep_ok_def update_defs\<close>)
next
  case (RollingBack ts reason)
  then show ?thesis using assms
    by (auto simp: deployment_step_def observeCanaryTargets_def dep_ok_def rollbackTargets_def ended_def
        split: dep_event.splits option.splits)
next
  case (Ending st msg)
  then show ?thesis using assms
    by (auto simp: deployment_step_def observeCanaryTargets_def dep_ok_def update_defs split: dep_event.splits)
next
  case (Completing st)
  then show ?thesis using assms
    by (auto simp: deployment_step_def observeCanaryTargets_def dep_ok_def update_defs split: dep_event.splits)
next
  case (Finished st)
  then show ?thesis using assms by (simp add: deployment_step_def observeCanaryTargets_def)
qed

section \<open>The record of a deployment\<close>

fun recorded_status :: "dep_pc \<Rightarrow> string" where
  "recorded_status (Completing st) = st"
| "recorded_status (Finished st) = st"
| "recorded_status _ = ''pending''"

text \<open>What the table says of a deployment: its targets, its status once it is set, and its end.\<close>

definition record_ok :: "deployment \<Rightarrow> rollout_manager \<Rightarrow> bool" where
  "record_ok d rm \<longleftrightarrow>
     (\<exists>r. map_get (ro_activeRollouts rm) (dy_requestID d) = Some r \<and>
        map ot_TargetID (op_Targets r) = oq_Targets (dy_req d) \<and>
        op_Status r = recorded_status (dy_pc d) \<and>
        (op_CompletedAt r \<noteq> None \<longleftrightarrow> (\<exists>st. dy_pc d = Finished st)))"

definition own_id :: "nat \<Rightarrow> rollout_manager \<Rightarrow> bool" where
  "own_id i rm \<longleftrightarrow>
     (\<forall>j < length (ro_deployments rm). j \<noteq> i \<longrightarrow>
        dy_requestID (ro_deployments rm ! j) \<noteq> dy_requestID (ro_deployments rm ! i))"

definition rollout_inv :: "rollout_manager \<Rightarrow> bool" where
  "rollout_inv rm \<longleftrightarrow>
     (\<forall>i < length (ro_deployments rm). dep_ok (ro_deployments rm ! i) (actions_of i rm)) \<and>
     (\<forall>(i, a) \<in> set (ro_published rm). i < length (ro_deployments rm)) \<and>
     (\<forall>i < length (ro_deployments rm). own_id i rm \<longrightarrow> record_ok (ro_deployments rm ! i) rm)"

lemma update_rollout_other:
  "r \<noteq> k \<Longrightarrow> map_get (ro_activeRollouts (update_rollout r f rm)) k = map_get (ro_activeRollouts rm) k"
  by (simp add: update_rollout_def split: option.splits)

lemma update_rollout_same:
  "map_get (ro_activeRollouts rm) r = Some x \<Longrightarrow> map_get (ro_activeRollouts (update_rollout r f rm)) r = Some (f x)"
  by (simp add: update_rollout_def)

lemma deployment_step_others:
  assumes "deployment_step e i d rm = Some (d', rm')" and "k \<noteq> dy_requestID d"
  shows "map_get (ro_activeRollouts rm') k = map_get (ro_activeRollouts rm) k"
  using assms
  by (auto simp: deployment_step_def observeCanaryTargets_def apply_then_def applyToTargets_def rollbackTargets_def update_defs update_rollout_other Let_def
      split: dep_pc.splits dep_event.splits option.splits if_splits)

lemma deployment_step_record:
  assumes "deployment_step e i d rm = Some (d', rm')" and "record_ok d rm"
  shows "record_ok d' rm'"
proof -
  obtain r where r: "map_get (ro_activeRollouts rm) (dy_requestID d) = Some r"
    "map ot_TargetID (op_Targets r) = oq_Targets (dy_req d)" "op_Status r = recorded_status (dy_pc d)"
    "op_CompletedAt r \<noteq> None \<longleftrightarrow> (\<exists>st. dy_pc d = Finished st)"
    using assms(2) unfolding record_ok_def by blast
  have "map ot_TargetID (map (\<lambda>x. x\<lparr>ot_Telemetry := t\<rparr>) (op_Targets r)) = oq_Targets (dy_req d)" for t
    using r(2) by (simp add: o_def)
  then show ?thesis using assms(1) r
    by (auto simp: deployment_step_def observeCanaryTargets_def apply_then_def applyToTargets_def rollbackTargets_def update_defs
        record_ok_def after_observation_def update_rollout_same Let_def
        split: dep_pc.splits dep_event.splits option.splits if_splits)
qed

section \<open>The invariant\<close>

lemma rollout_inv_new: "rollout_inv NewBPFRolloutManager"
  by (simp add: rollout_inv_def NewBPFRolloutManager_def)

lemma actions_of_fresh:
  "\<forall>(i, a) \<in> set (ro_published rm). i < n \<Longrightarrow> actions_of n rm = []"
  by (auto simp: actions_of_def filter_empty_conv)

lemma own_id_snoc:
  assumes "ro_deployments rm' = ro_deployments rm @ [d]" and "own_id i rm'" and "i < length (ro_deployments rm)"
  shows "own_id i rm" and "dy_requestID (ro_deployments rm ! i) \<noteq> dy_requestID d"
  using assms by (auto simp: own_id_def nth_append split: if_splits)
    (metis less_SucI less_irrefl)+

lemma rollout_inv_start:
  assumes inv: "rollout_inv rm" and s: "ApplyCanary req now rm = (response, rm')"
  shows "rollout_inv rm'"
proof -
  let ?r = "pending_rollout req now" and ?ds = "ro_deployments rm"
  let ?d = "\<lparr>dy_requestID = op_RequestID ?r, dy_req = req, dy_cancelled = False, dy_pc = ApplyingCanary, dy_verdicts = []\<rparr>"
  have rm': "rm' = rm\<lparr>ro_activeRollouts := map_set (op_RequestID ?r) ?r (ro_activeRollouts rm), ro_deployments := ?ds @ [?d]\<rparr>"
    using s by (auto simp: ApplyCanary_def Let_def)
  have acts: "actions_of i rm' = actions_of i rm" for i by (simp add: rm' actions_of_def)
  have fresh: "actions_of (length ?ds) rm = []"
    using inv by (intro actions_of_fresh) (simp add: rollout_inv_def)
  have "dep_ok ?d []" by (simp add: dep_ok_def outcomes_def)
  then have 1: "\<forall>i < length (ro_deployments rm'). dep_ok (ro_deployments rm' ! i) (actions_of i rm')"
    using inv fresh unfolding acts by (auto simp: rm' rollout_inv_def nth_append less_Suc_eq)
  have "record_ok ?d rm'"
    by (simp add: record_ok_def rm' pending_rollout_def pending_target_def o_def)
  moreover have "record_ok (?ds ! i) rm'" if i: "i < length ?ds" and own: "own_id i rm'" for i
  proof -
    have "own_id i rm" and "dy_requestID (?ds ! i) \<noteq> op_RequestID ?r"
      using own_id_snoc [of rm' rm ?d] own i by (simp_all add: rm')
    then have "record_ok (?ds ! i) rm" "dy_requestID (?ds ! i) \<noteq> op_RequestID ?r"
      using inv i by (simp_all add: rollout_inv_def)
    then show ?thesis by (simp add: record_ok_def rm')
  qed
  ultimately have "\<forall>i < length (ro_deployments rm'). own_id i rm' \<longrightarrow> record_ok (ro_deployments rm' ! i) rm'"
    by (auto simp: rm' nth_append less_Suc_eq)
  moreover have "\<forall>(i, a) \<in> set (ro_published rm'). i < length (ro_deployments rm')"
    using inv by (fastforce simp: rm' rollout_inv_def)
  ultimately show ?thesis using 1 by (simp add: rollout_inv_def)
qed

lemma rollout_inv_update:
  assumes inv: "rollout_inv rm" and i: "i < length (ro_deployments rm)"
    and deps: "ro_deployments rm' = (ro_deployments rm)[i := d]"
    and same: "dy_requestID d = dy_requestID (ro_deployments rm ! i)"
    and pub: "ro_published rm' = ro_published rm @ map (Pair i) new"
    and ok: "dep_ok d (actions_of i rm')"
    and others: "\<And>k. k \<noteq> dy_requestID d \<Longrightarrow> map_get (ro_activeRollouts rm') k = map_get (ro_activeRollouts rm) k"
    and rec: "record_ok (ro_deployments rm ! i) rm \<Longrightarrow> record_ok d rm'"
  shows "rollout_inv rm'"
proof -
  let ?ds = "ro_deployments rm"
  have id: "dy_requestID (ro_deployments rm' ! j) = dy_requestID (?ds ! j)" if "j < length ?ds" for j
    using that same by (cases "j = i") (simp_all add: deps i)
  then have own: "own_id j rm' \<longleftrightarrow> own_id j rm" if "j < length ?ds" for j
    using that by (simp add: own_id_def deps)
  have "dep_ok (ro_deployments rm' ! j) (actions_of j rm')" if "j < length ?ds" for j
    using that inv ok actions_of_frame [OF pub, of j] by (cases "j = i") (simp_all add: deps rollout_inv_def)
  moreover have "record_ok (ro_deployments rm' ! j) rm'" if j: "j < length ?ds" and "own_id j rm'" for j
  proof (cases "j = i")
    case True
    then show ?thesis using that own inv rec i by (simp add: deps rollout_inv_def)
  next
    case False
    have "own_id j rm" using that own by simp
    then have "dy_requestID (?ds ! j) \<noteq> dy_requestID d" "record_ok (?ds ! j) rm"
      using False i inv j same unfolding own_id_def rollout_inv_def by (metis, blast)
    then show ?thesis using False by (simp add: deps record_ok_def others)
  qed
  moreover have "\<forall>(j, a) \<in> set (ro_published rm'). j < length ?ds"
    using inv i by (auto simp: pub rollout_inv_def)
  ultimately show ?thesis by (simp add: rollout_inv_def deps)
qed

lemma run_deploymentE:
  assumes "run_deployment e i rm = Some rm'"
  obtains d rm1 where "i < length (ro_deployments rm)"
    "deployment_step e i (ro_deployments rm ! i) rm = Some (d, rm1)"
    "rm' = rm1\<lparr>ro_deployments := (ro_deployments rm)[i := d]\<rparr>"
  using assms deployment_step_frame by (fastforce simp: run_deployment_def split: if_splits option.splits)

lemma actions_of_deployments [simp]: "actions_of i (rm\<lparr>ro_deployments := ds\<rparr>) = actions_of i rm"
  by (simp add: actions_of_def)

lemma record_ok_deployments [simp]: "record_ok d (rm\<lparr>ro_deployments := ds\<rparr>) = record_ok d rm"
  by (simp add: record_ok_def)

lemma rollout_inv_run:
  assumes inv: "rollout_inv rm" and s: "run_deployment e i rm = Some rm'"
  shows "rollout_inv rm'"
proof -
  obtain d rm1 where i: "i < length (ro_deployments rm)"
    and d: "deployment_step e i (ro_deployments rm ! i) rm = Some (d, rm1)"
    and rm': "rm' = rm1\<lparr>ro_deployments := (ro_deployments rm)[i := d]\<rparr>"
    using run_deploymentE [OF s] by blast
  have ok: "dep_ok (ro_deployments rm ! i) (actions_of i rm)" using inv i by (simp add: rollout_inv_def)
  obtain new where "dy_requestID d = dy_requestID (ro_deployments rm ! i)"
    "ro_published rm1 = ro_published rm @ map (Pair i) new"
    using deployment_step_frame [OF d] by blast
  then show ?thesis
    using rollout_inv_update [OF inv i, of rm' d new] deployment_step_ok [OF d ok]
      deployment_step_others [OF d] deployment_step_record [OF d] by (simp add: rm')
qed

lemma rollout_inv_cancel:
  assumes inv: "rollout_inv rm" and i: "i < length (ro_deployments rm)"
  shows "rollout_inv (cancel_deployment i rm)"
proof -
  let ?d = "(ro_deployments rm ! i)\<lparr>dy_cancelled := True\<rparr>"
  have same: "sent_ok pc ?d acts = sent_ok pc (ro_deployments rm ! i) acts" for pc acts
    by (cases pc) (simp_all add: ended_def outcomes_def canary_action_def apply_actions_def rest_action_def)
  then have "dep_ok ?d (actions_of i rm)" using inv i by (simp add: rollout_inv_def dep_ok_def)
  moreover have "record_ok (ro_deployments rm ! i) rm \<Longrightarrow> record_ok ?d rm" by (simp add: record_ok_def)
  ultimately show ?thesis
    using rollout_inv_update [OF inv i, of "cancel_deployment i rm" ?d "[]"]
    by (simp add: cancel_deployment_def)
qed

lemma rollout_inv_config:
  "rollout_inv rm \<Longrightarrow> rollout_inv (SetViolationThresholds th rm)"
  "rollout_inv rm \<Longrightarrow> rollout_inv (SetObservationWindow w rm)"
  by (simp_all add: rollout_inv_def SetViolationThresholds_def SetObservationWindow_def own_id_def record_ok_def
      actions_of_def)

interpretation rosys: inductive_invariant "\<lambda>rm. rm = NewBPFRolloutManager" rollout_step rollout_inv
  by unfold_locales
    (auto intro: rollout_inv_new elim!: rollout_stepE dest: rollout_inv_start rollout_inv_run
      intro!: rollout_inv_cancel rollout_inv_config)

abbreviation rollout_reach :: "rollout_manager \<Rightarrow> bool" where
  "rollout_reach \<equiv> reach (\<lambda>rm. rm = NewBPFRolloutManager) rollout_step"

section \<open>The canary comes first\<close>

lemma rollout_dep_ok:
  "rollout_reach rm \<Longrightarrow> i < length (ro_deployments rm) \<Longrightarrow> dep_ok (ro_deployments rm ! i) (actions_of i rm)"
  using rosys.reach_inv by (fastforce simp: rollout_inv_def)

lemma passed_observation:
  "evaluateSuccess th ob \<Longrightarrow> 0 < ob_messageCount ob \<and> ob_totalViolations ob \<le> oh_MaxViolations th \<and>
     of_int (ob_totalErrors ob) \<le> oh_MaxErrorRate th * of_nat (ob_messageCount ob) \<and>
     ob_totalLatency ob \<le> oh_MaxLatency th * of_nat (ob_messageCount ob)"
  by (auto simp: evaluateSuccess_def Let_def field_simps split: if_splits)

text \<open>Beyond the canary nothing is sent before the first observation has passed.\<close>

lemma sent_beyond_canary:
  assumes ok: "dep_ok d acts" and a: "ApplyEBPF r ts art ttl \<in> set acts" and t: "t \<in> set ts"
    and rest: "t \<notin> set (canaryTargets (dy_req d))"
  shows "\<exists>th ob vs. dy_verdicts d = (th, ob, True) # vs \<and> evaluateSuccess th ob"
proof -
  have "ApplyEBPF r ts art ttl \<noteq> canary_action d" using t rest by (auto simp: canary_action_def)
  then have "\<exists>os. outcomes d = True # os"
    using ok a unfolding dep_ok_def by (cases "dy_pc d") (auto simp: ended_def split: if_splits)
  moreover have "list_all verdict_ok (dy_verdicts d)" using ok by (simp add: dep_ok_def)
  ultimately show ?thesis by (cases "dy_verdicts d") (auto simp: outcomes_def verdict_ok_def)
qed

text \<open>
  C32. However deployments interleave, the program is sent to a target outside the canary only after
  an observation that got at least one message and stayed within the thresholds of the
  time for violations, error rate and latency.
\<close>

theorem canary_before_rest:
  assumes "rollout_reach rm" and "i < length (ro_deployments rm)"
    and "(i, ApplyEBPF r ts art ttl) \<in> set (ro_published rm)" and "t \<in> set ts"
    and "t \<notin> set (canaryTargets (dy_req (ro_deployments rm ! i)))"
  shows "\<exists>th ob vs. dy_verdicts (ro_deployments rm ! i) = (th, ob, True) # vs \<and>
    0 < ob_messageCount ob \<and> ob_totalViolations ob \<le> oh_MaxViolations th \<and>
    of_int (ob_totalErrors ob) \<le> oh_MaxErrorRate th * of_nat (ob_messageCount ob) \<and>
    ob_totalLatency ob \<le> oh_MaxLatency th * of_nat (ob_messageCount ob)"
proof -
  have "ApplyEBPF r ts art ttl \<in> set (actions_of i rm)" using assms(3) by (force simp: actions_of_def)
  from sent_beyond_canary [OF rollout_dep_ok [OF assms(1,2)] this assms(4,5)]
  show ?thesis using passed_observation by blast
qed

section \<open>What a final status means\<close>

lemma canary_rest_append: "canaryTargets req @ remainingTargets req = oq_Targets req"
  by (simp add: canaryTargets_def remainingTargets_def)

definition applied_targets :: "rollout_action list \<Rightarrow> string list" where
  "applied_targets acts = concat (map (\<lambda>a. case a of ApplyEBPF _ ts _ _ \<Rightarrow> ts | RollbackEBPF _ _ \<Rightarrow> []) acts)"

definition rolled_back_targets :: "rollout_action list \<Rightarrow> string list" where
  "rolled_back_targets acts = concat (map (\<lambda>a. case a of ApplyEBPF _ _ _ _ \<Rightarrow> [] | RollbackEBPF _ ts \<Rightarrow> ts) acts)"

lemma applied_apply_actions: "applied_targets (apply_actions d) = oq_Targets (dy_req d)"
  using canary_rest_append [of "dy_req d"]
  by (cases "remainingTargets (dy_req d) = []")
    (simp_all add: applied_targets_def apply_actions_def canary_action_def rest_action_def)

text \<open>
  C33. A deployment that ended and shares its request identifier with no other has a completed record
  with its final status. Success means that every target got the program exactly once and none was rolled
  back, after two observations that passed; rolled back means that whatever the rollback message named
  is what was applied; and after a failure nothing is rolled back.
\<close>

theorem rollout_outcome:
  assumes "rollout_reach rm" and "i < length (ro_deployments rm)" and "dy_pc (ro_deployments rm ! i) = Finished st"
    and "own_id i rm"
  defines "d \<equiv> ro_deployments rm ! i" and "acts \<equiv> actions_of i rm"
  shows "(\<exists>r. GetRolloutStatus (dy_requestID d) rm = Inr r \<and> op_Status r = st \<and> op_CompletedAt r \<noteq> None) \<and>
    (st = ''success'' \<and> applied_targets acts = oq_Targets (dy_req d) \<and> rolled_back_targets acts = [] \<and>
       map (snd \<circ> snd) (dy_verdicts d) = [True, True] \<or>
     st = ''failed'' \<and> applied_targets acts \<in> {[], canaryTargets (dy_req d)} \<and> rolled_back_targets acts = [] \<or>
     st = ''rollback'' \<and> applied_targets acts \<in> {canaryTargets (dy_req d), oq_Targets (dy_req d)} \<and>
       rolled_back_targets acts \<in> {[], applied_targets acts})"
proof (rule conjI)
  have rec: "record_ok d rm" using rosys.reach_inv [OF assms(1)] assms(2,4) by (simp add: rollout_inv_def d_def)
  then show "\<exists>r. GetRolloutStatus (dy_requestID d) rm = Inr r \<and> op_Status r = st \<and> op_CompletedAt r \<noteq> None"
    using assms(3) by (auto simp: record_ok_def GetRolloutStatus_def d_def)
  have e: "ended st d acts" and v: "outcomes d = map (snd \<circ> snd) (dy_verdicts d)"
    using rollout_dep_ok [OF assms(1,2)] assms(3)
    by (simp_all add: dep_ok_def d_def acts_def outcomes_def case_prod_beta comp_def)
  have no_rollback: "rolled_back_targets (apply_actions d) = []" "rolled_back_targets [canary_action d] = []"
    "applied_targets [canary_action d] = canaryTargets (dy_req d)"
    by (simp_all add: rolled_back_targets_def applied_targets_def apply_actions_def canary_action_def rest_action_def)
  have app: "applied_targets (xs @ [RollbackEBPF r ts]) = applied_targets xs"
    "rolled_back_targets (xs @ [RollbackEBPF r ts]) = rolled_back_targets xs @ ts" for xs r ts
    by (simp_all add: applied_targets_def rolled_back_targets_def)
  note two = app [of "[canary_action d]", simplified]
  have nil: "applied_targets [] = []" "rolled_back_targets [] = []"
    by (simp_all add: applied_targets_def rolled_back_targets_def)
  show "st = ''success'' \<and> applied_targets acts = oq_Targets (dy_req d) \<and> rolled_back_targets acts = [] \<and>
       map (snd \<circ> snd) (dy_verdicts d) = [True, True] \<or>
     st = ''failed'' \<and> applied_targets acts \<in> {[], canaryTargets (dy_req d)} \<and> rolled_back_targets acts = [] \<or>
     st = ''rollback'' \<and> applied_targets acts \<in> {canaryTargets (dy_req d), oq_Targets (dy_req d)} \<and>
       rolled_back_targets acts \<in> {[], applied_targets acts}"
    using e unfolding ended_def v
    by (elim disjE conjE insertE emptyE; simp add: applied_apply_actions no_rollback app two nil)
qed

section \<open>Every deployment ends\<close>

fun stages_left :: "dep_pc \<Rightarrow> nat" where
  "stages_left ApplyingCanary = 9"
| "stages_left (Subscribing final) = (if final then 5 else 8)"
| "stages_left (Observing final deadline ob) = (if final then 4 else 7)"
| "stages_left ApplyingRest = 6"
| "stages_left (RollingBack ts reason) = 3"
| "stages_left (Ending st msg) = 2"
| "stages_left (Completing st) = 1"
| "stages_left (Finished st) = 0"

text \<open>Waiting for telemetry or for the ticker.\<close>

definition waiting :: "dep_event \<Rightarrow> bool" where
  "waiting e \<longleftrightarrow> (\<exists>t. e = Telemetry t) \<or> e = Ticked"

text \<open>A run of the manager: the events of the deployments with their numbers, and other steps in between.\<close>

inductive rollout_run :: "rollout_manager \<Rightarrow> (nat \<times> dep_event) list \<Rightarrow> rollout_manager \<Rightarrow> bool" for rm where
  run_Nil: "rollout_run rm [] rm"
| run_event: "rollout_run rm es rm1 \<Longrightarrow> run_deployment e i rm1 = Some rm2 \<Longrightarrow> rollout_run rm (es @ [(i, e)]) rm2"
| run_other: "rollout_run rm es rm1 \<Longrightarrow> rollout_step rm1 rm2 \<Longrightarrow> (\<nexists>e i. run_deployment e i rm1 = Some rm2) \<Longrightarrow>
    rollout_run rm es rm2"

lemma deployment_step_rank:
  assumes "deployment_step e i d rm = Some (d', rm')"
  shows "stages_left (dy_pc d') + (if waiting e then 0 else 1) \<le> stages_left (dy_pc d)"
  using assms
  by (auto simp: deployment_step_def observeCanaryTargets_def apply_then_def applyToTargets_def rollbackTargets_def after_observation_def
      waiting_def Let_def split: dep_pc.splits dep_event.splits option.splits if_splits)

definition left_of :: "nat \<Rightarrow> rollout_manager \<Rightarrow> nat" where
  "left_of i rm = (if i < length (ro_deployments rm) then stages_left (dy_pc (ro_deployments rm ! i)) else 9)"

lemma left_of_run:
  "run_deployment e j rm = Some rm' \<Longrightarrow> left_of i rm' + (if j = i \<and> \<not> waiting e then 1 else 0) \<le> left_of i rm"
  by (erule run_deploymentE) (use deployment_step_rank in \<open>fastforce simp: left_of_def nth_list_update split: if_splits\<close>)

lemma left_of_other:
  assumes "rollout_step rm rm'" and "\<nexists>e i. run_deployment e i rm = Some rm'"
  shows "left_of i rm' \<le> left_of i rm"
  using assms(1)
proof (cases rule: rollout_step.cases)
  case (start req now response)
  then show ?thesis by (auto simp: left_of_def ApplyCanary_def Let_def nth_append)
next
  case (run e j)
  then show ?thesis using assms(2) by blast
qed (auto simp: left_of_def cancel_deployment_def SetViolationThresholds_def SetObservationWindow_def nth_list_update)

text \<open>
  C34. Every deployment comes to its end: in any run at most nine of its events are other than waiting for
  telemetry or for the ticker, and until it has ended one such event is possible: the window of an observation
  is over as soon as its deadline has passed.
\<close>

theorem rollout_terminates:
  assumes "rollout_run NewBPFRolloutManager es rm" and "i < length (ro_deployments rm)"
  shows "length (filter (\<lambda>(j, e). j = i \<and> \<not> waiting e) es) \<le> 9 \<and>
    ((\<exists>st. dy_pc (ro_deployments rm ! i) = Finished st) \<or>
     (\<exists>e rm'. \<not> waiting e \<and> run_deployment e i rm = Some rm'))"
proof (rule conjI)
  have "length (filter (\<lambda>(j, e). j = i \<and> \<not> waiting e) es) + left_of i rm \<le> left_of i NewBPFRolloutManager"
    using assms(1)
  proof (induction rule: rollout_run.induct)
    case (run_event es rm1 e j rm2)
    then show ?case using left_of_run [OF run_event.hyps(2), of i] by (auto split: if_splits)
  next
    case (run_other es rm1 rm2)
    then show ?case using left_of_other [OF run_other.hyps(2,3), of i] by linarith
  qed simp
  then show "length (filter (\<lambda>(j, e). j = i \<and> \<not> waiting e) es) \<le> 9"
    by (simp add: left_of_def NewBPFRolloutManager_def)
  let ?d = "ro_deployments rm ! i"
  define can where "can e \<longleftrightarrow> \<not> waiting e \<and> deployment_step e i ?d rm \<noteq> None" for e
  have "(\<exists>st. dy_pc ?d = Finished st) \<or> (\<exists>e. can e)"
  proof (cases "dy_pc ?d")
    case (Subscribing final)
    then have "can (Subscribed None 0)" by (simp add: can_def waiting_def deployment_step_def observeCanaryTargets_def)
    then show ?thesis by blast
  next
    case (Observing final deadline ob)
    then have "can (WindowOver deadline)" by (simp add: can_def waiting_def deployment_step_def observeCanaryTargets_def Let_def)
    then show ?thesis by blast
  next
    case (Ending st msg)
    then have "can (Local 0)" by (simp add: can_def waiting_def deployment_step_def observeCanaryTargets_def)
    then show ?thesis by blast
  next
    case (Completing st)
    then have "can (Local 0)" by (simp add: can_def waiting_def deployment_step_def observeCanaryTargets_def)
    then show ?thesis by blast
  next
    case (Finished st)
    then show ?thesis by simp
  qed (rule disjI2, rule exI [of _ "Published None"], simp add: can_def waiting_def deployment_step_def observeCanaryTargets_def)+
  then show "(\<exists>st. dy_pc ?d = Finished st) \<or> (\<exists>e rm'. \<not> waiting e \<and> run_deployment e i rm = Some rm')"
    using assms(2) unfolding can_def by (fastforce simp: run_deployment_def)
qed

section \<open>Rollouts over HTTP, and two in one second\<close>

fun run_events :: "dep_event list \<Rightarrow> nat \<Rightarrow> rollout_manager \<Rightarrow> rollout_manager option" where
  "run_events [] i rm = Some rm"
| "run_events (e # es) i rm =
     (case run_deployment e i rm of None \<Rightarrow> None | Some rm1 \<Rightarrow> run_events es i rm1)"

lemma run_events_reach: "run_events es i rm = Some rm' \<Longrightarrow> rollout_reach rm \<Longrightarrow> rollout_reach rm'"
proof (induction es arbitrary: rm)
  case (Cons e es)
  then obtain rm1 where rm1: "run_deployment e i rm = Some rm1" "run_events es i rm1 = Some rm'"
    by (auto split: option.splits)
  then have "rollout_reach rm1" using reach_step [OF Cons.prems(2) rollout_step.run] by blast
  with Cons.IH rm1(2) show ?case by blast
qed simp

lemma run_events_run:
  "run_events es i rm = Some rm' \<Longrightarrow> rollout_run rm0 es0 rm \<Longrightarrow> rollout_run rm0 (es0 @ map (Pair i) es) rm'"
proof (induction es arbitrary: rm es0)
  case (Cons e es)
  then show ?case
    using Cons.IH [of _ "es0 @ [(i, e)]"] by (auto split: option.splits intro: run_event)
qed simp

text \<open>
  The context of an HTTP request ends with its handler, so the observation of a rollout that was
  requested over HTTP can end at any moment, whatever the window. Without a message by then the
  rollout is rolled back, possibly in the moment it was accepted.
\<close>

lemma http_rollout_rolled_back:
  assumes "handleApplyEBPF (Some req) now rm = (RolloutAccepted response, rm1)"
  shows "\<exists>rm2. run_events [Published None, Subscribed None now, WindowOver now, Published None, Local now, Local now]
      (length (ro_deployments rm)) rm1 = Some rm2 \<and>
    dy_pc (ro_deployments rm2 ! length (ro_deployments rm)) = Finished ''rollback'' \<and>
    (\<exists>r. GetRolloutStatus (op_RequestID response) rm2 = Inr r \<and> op_Status r = ''rollback'' \<and>
       op_Error r = ''Canary validation failed'')"
  using assms
  by (auto simp: handleApplyEBPF_def ApplyCanary_def Let_def run_deployment_def deployment_step_def observeCanaryTargets_def cancel_deployment_def
      apply_then_def applyToTargets_def rollbackTargets_def evaluateSuccess_def no_observation_def after_observation_def
      update_defs update_rollout_def GetRolloutStatus_def goto_def publish_action_def split: if_splits)

text \<open>Two rollouts of a plan within one second share an identifier: the record of the first is replaced.\<close>

lemma rollouts_in_one_second:
  assumes "unix_second t1 = unix_second t2" and "oq_PlanID req1 = oq_PlanID req2"
    and "ApplyCanary req1 t1 rm = (r1, rm1)" and "ApplyCanary req2 t2 rm1 = (r2, rm2)"
  shows "op_RequestID r1 = op_RequestID r2 \<and> GetRolloutStatus (op_RequestID r1) rm2 = Inr r2 \<and>
    length (ro_deployments rm2) = length (ro_deployments rm) + 2 \<and>
    length (ro_activeRollouts rm2) = length (ro_activeRollouts rm1)"
  using assms
  by (auto simp: ApplyCanary_def Let_def pending_rollout_def rollout_id_def GetRolloutStatus_def length_map_set)

text \<open>With the default thresholds the error rate is decided by the success rate alone.\<close>

lemma default_error_rate:
  "evaluateSuccess (ro_thresholds NewBPFRolloutManager) ob \<longleftrightarrow>
     0 < ob_messageCount ob \<and> ob_totalViolations ob \<le> 5 \<and>
     20 * of_int (ob_totalErrors ob) \<le> (of_nat (ob_messageCount ob) :: rat) \<and>
     ob_totalLatency ob \<le> 1000 * of_nat (ob_messageCount ob)"
  by (auto simp: evaluateSuccess_def NewBPFRolloutManager_def Let_def field_simps)

end
