(* ===== verification/Orch_Rollback.thy ===== *)
theory Orch_Rollback
  imports Prelude
begin

text \<open>
  Rollbacks of the orchestrator: \<open>rollback.go\<close> under \<open>src/backend/orchestrator/internal/rollout\<close>. A result is shared by
  its goroutine and the table of active rollbacks, and the goroutine updates the status through the
  table: results are cells of a heap, and the table maps an identifier to a cell.
\<close>

section \<open>Data\<close>

record targetRollback =
  ox_TargetID :: string
  ox_Status :: string
  ox_StartTime :: time
  ox_EndTime :: "time option"
  ox_Error :: string
  ox_ArtifactID :: string

record rollbackRequest =
  oy_RequestID :: string
  oy_Strategy :: int
  oy_Targets :: "string list"
  oy_Reason :: string
  oy_Force :: bool
  oy_Timeout :: duration

record rollbackResult =
  oz_RequestID :: string
  oz_Status :: string
  oz_Strategy :: int
  oz_TargetResults :: "targetRollback list"
  oz_StartTime :: time
  oz_EndTime :: "time option"
  oz_Reason :: string
  oz_ErrorMessage :: string

definition RollbackStrategyImmediate :: int where "RollbackStrategyImmediate = 0"
definition RollbackStrategyGradual :: int where "RollbackStrategyGradual = 1"
definition RollbackStrategySelective :: int where "RollbackStrategySelective = 2"

text \<open>
  Where the goroutine of a rollback is. In \<open>RBatch i\<close> the targets of the batch that starts at \<open>i\<close> are rolled
  back by goroutines of their own; \<open>rw_sent\<close> are those whose message is out.
\<close>

datatype rb_pc = RStart | RBatch nat | RPause nat | RCheck | REnd | RDone

record rollback_task =
  rw_cell :: nat
  rw_id :: string
  rw_batch :: nat
  rw_sent :: "nat list"
  rw_pc :: rb_pc

text \<open>Notifications are the calls of callbacks: the number of the callback, the identifier and the cell.\<close>

record orch_rollbacks =
  rk_heap :: "rollbackResult list"
  rk_active :: "(string, nat) gomap"
  rk_tasks :: "rollback_task list"
  rk_published :: "(string \<times> string) list"
  rk_callbacks :: nat
  rk_notified :: "(nat \<times> string \<times> nat) list"

definition NewRollbackManager_orch :: orch_rollbacks where
  "NewRollbackManager_orch =
     \<lparr>rk_heap = [], rk_active = [], rk_tasks = [], rk_published = [], rk_callbacks = 0, rk_notified = []\<rparr>"

section \<open>Operations\<close>

definition new_result :: "rollbackRequest \<Rightarrow> time \<Rightarrow> rollbackResult" where
  "new_result req now =
     \<lparr>oz_RequestID = oy_RequestID req, oz_Status = ''initiated'', oz_Strategy = oy_Strategy req,
      oz_TargetResults = map (\<lambda>t. \<lparr>ox_TargetID = t, ox_Status = ''pending'', ox_StartTime = now,
        ox_EndTime = None, ox_Error = [], ox_ArtifactID = []\<rparr>) (oy_Targets req),
      oz_StartTime = now, oz_EndTime = None, oz_Reason = oy_Reason req, oz_ErrorMessage = []\<rparr>"

text \<open>The goroutine of a rollback, one for each strategy.\<close>

definition start_task :: "nat \<Rightarrow> rollbackRequest \<Rightarrow> nat \<Rightarrow> rollback_task" where
  "start_task cell req batch =
     \<lparr>rw_cell = cell, rw_id = oy_RequestID req, rw_batch = batch, rw_sent = [], rw_pc = RStart\<rparr>"

definition executeImmediateRollback :: "nat \<Rightarrow> rollbackRequest \<Rightarrow> rollback_task" where
  "executeImmediateRollback cell req = start_task cell req (length (oy_Targets req))"

definition executeGradualRollback :: "nat \<Rightarrow> rollbackRequest \<Rightarrow> rollback_task" where
  "executeGradualRollback cell req =
     start_task cell req (if length (oy_Targets req) < 3 then length (oy_Targets req) else 3)"

definition executeSelectiveRollback :: "nat \<Rightarrow> rollbackRequest \<Rightarrow> rollback_task" where
  "executeSelectiveRollback cell req = start_task cell req (length (oy_Targets req))"

definition InitiateRollback :: "rollbackRequest \<Rightarrow> time \<Rightarrow> orch_rollbacks \<Rightarrow> (string + nat) \<times> orch_rollbacks" where
  "InitiateRollback req now rm =
     (let cell = length (rk_heap rm);
          rm1 = rm\<lparr>rk_heap := rk_heap rm @ [new_result req now],
                   rk_active := map_set (oy_RequestID req) cell (rk_active rm)\<rparr>;
          go = (\<lambda>t. (Inr cell, rm1\<lparr>rk_tasks := rk_tasks rm1 @ [t]\<rparr>))
      in if oy_Strategy req = RollbackStrategyImmediate then go (executeImmediateRollback cell req)
         else if oy_Strategy req = RollbackStrategyGradual then go (executeGradualRollback cell req)
         else if oy_Strategy req = RollbackStrategySelective then go (executeSelectiveRollback cell req)
         else (Inl (''unknown rollback strategy: '' @ itoa (oy_Strategy req)), rm1))"

definition notifyCallbacks :: "string \<Rightarrow> nat \<Rightarrow> orch_rollbacks \<Rightarrow> orch_rollbacks" where
  "notifyCallbacks requestID cell rm =
     rm\<lparr>rk_notified := rk_notified rm @ map (\<lambda>k. (k, requestID, cell)) [0..<rk_callbacks rm]\<rparr>"

definition upd_result :: "nat \<Rightarrow> (rollbackResult \<Rightarrow> rollbackResult) \<Rightarrow> orch_rollbacks \<Rightarrow> orch_rollbacks" where
  "upd_result cell f rm = rm\<lparr>rk_heap := (rk_heap rm)[cell := f (rk_heap rm ! cell)]\<rparr>"

definition upd_active :: "string \<Rightarrow> (rollbackResult \<Rightarrow> rollbackResult) \<Rightarrow> orch_rollbacks \<Rightarrow> orch_rollbacks" where
  "upd_active requestID f rm =
     (case map_get (rk_active rm) requestID of
        None \<Rightarrow> rm
      | Some cell \<Rightarrow> notifyCallbacks requestID cell (upd_result cell f rm))"

definition updateRollbackStatus :: "string \<Rightarrow> string \<Rightarrow> orch_rollbacks \<Rightarrow> orch_rollbacks" where
  "updateRollbackStatus requestID status rm = upd_active requestID (\<lambda>r. r\<lparr>oz_Status := status\<rparr>) rm"

definition setRollbackEndTime :: "string \<Rightarrow> time \<Rightarrow> orch_rollbacks \<Rightarrow> orch_rollbacks" where
  "setRollbackEndTime requestID endTime rm = upd_active requestID (\<lambda>r. r\<lparr>oz_EndTime := Some endTime\<rparr>) rm"

definition AddCallback_rollback :: "orch_rollbacks \<Rightarrow> orch_rollbacks" where
  "AddCallback_rollback rm = rm\<lparr>rk_callbacks := Suc (rk_callbacks rm)\<rparr>"

definition GetRollbackStatus :: "string \<Rightarrow> orch_rollbacks \<Rightarrow> string + rollbackResult" where
  "GetRollbackStatus requestID rm =
     (case map_get (rk_active rm) requestID of
        None \<Rightarrow> Inl (''rollback not found: '' @ requestID)
      | Some cell \<Rightarrow> Inr (rk_heap rm ! cell))"

definition ListActiveRollbacks :: "orch_rollbacks \<Rightarrow> rollbackResult list" where
  "ListActiveRollbacks rm = map (\<lambda>c. rk_heap rm ! c) (map_values (rk_active rm))"

definition CleanupCompletedRollbacks :: "duration \<Rightarrow> time \<Rightarrow> orch_rollbacks \<Rightarrow> orch_rollbacks" where
  "CleanupCompletedRollbacks olderThan now rm =
     (let cutoffTime = time_add now (- olderThan);
          old = (\<lambda>r. oz_Status r = ''completed'' \<and> (case oz_EndTime r of None \<Rightarrow> False | Some t \<Rightarrow> t < cutoffTime))
      in rm\<lparr>rk_active := filter (\<lambda>(i, c). \<not> old (rk_heap rm ! c)) (rk_active rm)\<rparr>)"

section \<open>The goroutines of a rollback\<close>

datatype rb_event =
    Begin
  | TargetStart nat
  | TargetPublish nat "string option"
  | TargetWake nat time
  | BatchOver
  | PauseOver
  | Check
  | End time

definition upd_target :: "nat \<Rightarrow> (targetRollback \<Rightarrow> targetRollback) \<Rightarrow> rollbackResult \<Rightarrow> rollbackResult" where
  "upd_target j f r = r\<lparr>oz_TargetResults := (oz_TargetResults r)[j := f (oz_TargetResults r ! j)]\<rparr>"

definition target_done :: "targetRollback \<Rightarrow> bool" where
  "target_done t \<longleftrightarrow> ox_Status t = ''completed'' \<or> ox_Status t = ''failed''"

text \<open>\<open>rollbackTarget\<close> in three steps: the new status, the message, and five seconds later the end.\<close>

definition target_step :: "rb_event \<Rightarrow> rollback_task \<Rightarrow> orch_rollbacks \<Rightarrow> (rollback_task \<times> orch_rollbacks) option" where
  "target_step e t rm =
     (let r = rk_heap rm ! rw_cell t;
          status = (\<lambda>j. ox_Status (oz_TargetResults r ! j))
      in case e of
           TargetStart j \<Rightarrow>
             if status j = ''pending''
             then Some (t, upd_result (rw_cell t) (upd_target j (\<lambda>x. x\<lparr>ox_Status := ''rolling_back''\<rparr>)) rm)
             else None
         | TargetPublish j (Some err) \<Rightarrow>
             if status j = ''rolling_back'' \<and> j \<notin> set (rw_sent t)
             then Some (t, upd_result (rw_cell t) (upd_target j (\<lambda>x. x\<lparr>ox_Status := ''failed'',
                    ox_Error := ''Failed to publish rollback action: '' @ err\<rparr>)) rm)
             else None
         | TargetPublish j None \<Rightarrow>
             if status j = ''rolling_back'' \<and> j \<notin> set (rw_sent t)
             then Some (t\<lparr>rw_sent := j # rw_sent t\<rparr>,
                    rm\<lparr>rk_published := rk_published rm @ [(rw_id t, ox_TargetID (oz_TargetResults r ! j))]\<rparr>)
             else None
         | TargetWake j now \<Rightarrow>
             if status j = ''rolling_back'' \<and> j \<in> set (rw_sent t)
             then Some (t, upd_result (rw_cell t) (upd_target j (\<lambda>x. x\<lparr>ox_Status := ''completed'',
                    ox_EndTime := Some now\<rparr>)) rm)
             else None
         | _ \<Rightarrow> None)"

fun event_target :: "rb_event \<Rightarrow> nat option" where
  "event_target (TargetStart j) = Some j"
| "event_target (TargetPublish j err) = Some j"
| "event_target (TargetWake j now) = Some j"
| "event_target _ = None"

definition to_pc :: "rb_pc \<Rightarrow> rollback_task \<Rightarrow> rollback_task" where
  "to_pc pc t = t\<lparr>rw_pc := pc\<rparr>"

definition rollback_task_step :: "rb_event \<Rightarrow> rollback_task \<Rightarrow> orch_rollbacks \<Rightarrow> (rollback_task \<times> orch_rollbacks) option" where
  "rollback_task_step e t rm =
     (let results = oz_TargetResults (rk_heap rm ! rw_cell t); n = length results
      in case rw_pc t of
           RStart \<Rightarrow>
             if e = Begin
             then Some (to_pc (if n = 0 then RCheck else RBatch 0) t, updateRollbackStatus (rw_id t) ''in_progress'' rm)
             else None
         | RBatch i \<Rightarrow>
             let stop = (if i + rw_batch t > n then n else i + rw_batch t)
             in if e = BatchOver then
                  if list_all target_done (take (stop - i) (drop i results))
                  then Some (to_pc (if stop < n then RPause stop else RCheck) t, rm)
                  else None
                else (case event_target e of
                        None \<Rightarrow> None
                      | Some j \<Rightarrow> if i \<le> j \<and> j < stop then target_step e t rm else None)
         | RPause i \<Rightarrow> if e = PauseOver then Some (to_pc (RBatch i) t, rm) else None
         | RCheck \<Rightarrow>
             if e = Check
             then Some (to_pc REnd t, updateRollbackStatus (rw_id t)
                    (if list_all (\<lambda>x. ox_Status x = ''completed'') results then ''completed'' else ''failed'') rm)
             else None
         | REnd \<Rightarrow>
             (case e of End now \<Rightarrow> Some (to_pc RDone t, setRollbackEndTime (rw_id t) now rm) | _ \<Rightarrow> None)
         | RDone \<Rightarrow> None)"

definition run_rollback :: "rb_event \<Rightarrow> nat \<Rightarrow> orch_rollbacks \<Rightarrow> orch_rollbacks option" where
  "run_rollback e k rm =
     (if k < length (rk_tasks rm) then
        case rollback_task_step e (rk_tasks rm ! k) rm of
          None \<Rightarrow> None
        | Some (t, rm1) \<Rightarrow> Some (rm1\<lparr>rk_tasks := (rk_tasks rm1)[k := t]\<rparr>)
      else None)"

inductive rollbacks_step :: "orch_rollbacks \<Rightarrow> orch_rollbacks \<Rightarrow> bool" where
  initiate: "InitiateRollback req now rm = (res, rm') \<Longrightarrow> rollbacks_step rm rm'"
| run: "run_rollback e k rm = Some rm' \<Longrightarrow> rollbacks_step rm rm'"
| clean: "rollbacks_step rm (CleanupCompletedRollbacks olderThan now rm)"
| callback: "rollbacks_step rm (AddCallback_rollback rm)"

end
