(* ===== verification/Orch_RollbackProperties.thy ===== *)
theory Orch_RollbackProperties
  imports Orch_Rollback
begin

text \<open>
  What a rollback guarantees under all interleavings of the goroutines of its targets and of other
  rollbacks: a gradual rollback works on at most three targets at a time, and one that is
  reported as completed has rolled back every target.
\<close>

text \<open>How many targets a strategy rolls back at a time.\<close>

definition batch_size :: "int \<Rightarrow> nat \<Rightarrow> nat" where
  "batch_size strategy n =
     (if strategy = RollbackStrategyGradual then (if n < 3 then n else 3) else n)"

definition known_strategy :: "int \<Rightarrow> bool" where
  "known_strategy s \<longleftrightarrow> s = RollbackStrategyImmediate \<or> s = RollbackStrategyGradual \<or> s = RollbackStrategySelective"

lemma InitiateRollback_known:
  "known_strategy (oy_Strategy req) \<Longrightarrow> InitiateRollback req now rm =
     (Inr (length (rk_heap rm)),
      rm\<lparr>rk_heap := rk_heap rm @ [new_result req now],
         rk_active := map_set (oy_RequestID req) (length (rk_heap rm)) (rk_active rm),
         rk_tasks := rk_tasks rm @ [\<lparr>rw_cell = length (rk_heap rm), rw_id = oy_RequestID req,
           rw_batch = batch_size (oy_Strategy req) (length (oy_Targets req)), rw_sent = [], rw_pc = RStart\<rparr>]\<rparr>)"
  by (auto simp: InitiateRollback_def Let_def known_strategy_def batch_size_def start_task_def executeImmediateRollback_def
        executeGradualRollback_def executeSelectiveRollback_def RollbackStrategyImmediate_def
        RollbackStrategyGradual_def RollbackStrategySelective_def)

lemma InitiateRollback_unknown:
  "\<not> known_strategy (oy_Strategy req) \<Longrightarrow> InitiateRollback req now rm =
     (Inl (''unknown rollback strategy: '' @ itoa (oy_Strategy req)),
      rm\<lparr>rk_heap := rk_heap rm @ [new_result req now],
         rk_active := map_set (oy_RequestID req) (length (rk_heap rm)) (rk_active rm)\<rparr>)"
  by (simp add: InitiateRollback_def Let_def known_strategy_def)

section \<open>The progress of a rollback\<close>

definition statuses :: "orch_rollbacks \<Rightarrow> rollback_task \<Rightarrow> string list" where
  "statuses rm t = map ox_Status (oz_TargetResults (rk_heap rm ! rw_cell t))"

abbreviation is_done :: "string \<Rightarrow> bool" where
  "is_done s \<equiv> s = ''completed'' \<or> s = ''failed''"

definition split_at :: "nat \<Rightarrow> nat \<Rightarrow> string list \<Rightarrow> bool" where
  "split_at i stop ss \<longleftrightarrow>
     (\<forall>j < length ss. (j < i \<longrightarrow> is_done (ss ! j)) \<and> (stop \<le> j \<longrightarrow> ss ! j = ''pending''))"

fun progress_ok :: "rb_pc \<Rightarrow> nat \<Rightarrow> string list \<Rightarrow> bool" where
  "progress_ok RStart b ss \<longleftrightarrow> split_at 0 0 ss"
| "progress_ok (RBatch i) b ss \<longleftrightarrow> split_at i (i + b) ss"
| "progress_ok (RPause i) b ss \<longleftrightarrow> split_at i i ss"
| "progress_ok _ b ss \<longleftrightarrow> split_at (length ss) (length ss) ss"

definition task_ok :: "orch_rollbacks \<Rightarrow> rollback_task \<Rightarrow> bool" where
  "task_ok rm t \<longleftrightarrow>
     rw_cell t < length (rk_heap rm) \<and>
     oz_RequestID (rk_heap rm ! rw_cell t) = rw_id t \<and>
     rw_batch t = batch_size (oz_Strategy (rk_heap rm ! rw_cell t)) (length (statuses rm t)) \<and>
     progress_ok (rw_pc t) (rw_batch t) (statuses rm t) \<and>
     (\<forall>j < length (statuses rm t). statuses rm t ! j = ''completed'' \<longrightarrow> j \<in> set (rw_sent t)) \<and>
     (\<forall>j \<in> set (rw_sent t). (rw_id t, ox_TargetID (oz_TargetResults (rk_heap rm ! rw_cell t) ! j)) \<in> set (rk_published rm))"

fun status_of :: "rb_pc \<Rightarrow> string list \<Rightarrow> string" where
  "status_of RStart ss = ''initiated''"
| "status_of REnd ss = (if list_all (\<lambda>s. s = ''completed'') ss then ''completed'' else ''failed'')"
| "status_of RDone ss = (if list_all (\<lambda>s. s = ''completed'') ss then ''completed'' else ''failed'')"
| "status_of _ ss = ''in_progress''"

definition sole_cell :: "orch_rollbacks \<Rightarrow> nat \<Rightarrow> bool" where
  "sole_cell rm c \<longleftrightarrow>
     (\<forall>c' < length (rk_heap rm). c' \<noteq> c \<longrightarrow> oz_RequestID (rk_heap rm ! c') \<noteq> oz_RequestID (rk_heap rm ! c))"

definition status_ok :: "orch_rollbacks \<Rightarrow> rollback_task \<Rightarrow> bool" where
  "status_ok rm t \<longleftrightarrow>
     oz_Status (rk_heap rm ! rw_cell t) = status_of (rw_pc t) (statuses rm t) \<and>
     (oz_EndTime (rk_heap rm ! rw_cell t) \<noteq> None \<longleftrightarrow> rw_pc t = RDone) \<and>
     (rw_pc t \<noteq> RDone \<longrightarrow> map_get (rk_active rm) (rw_id t) = Some (rw_cell t))"

definition table_sound :: "orch_rollbacks \<Rightarrow> bool" where
  "table_sound rm \<longleftrightarrow> distinct (map fst (rk_active rm)) \<and>
     (\<forall>i c. map_get (rk_active rm) i = Some c \<longrightarrow> c < length (rk_heap rm) \<and> oz_RequestID (rk_heap rm ! c) = i)"

definition rollbacks_inv :: "orch_rollbacks \<Rightarrow> bool" where
  "rollbacks_inv rm \<longleftrightarrow>
     table_sound rm \<and> distinct (map rw_cell (rk_tasks rm)) \<and> list_all (task_ok rm) (rk_tasks rm) \<and>
     (\<forall>t \<in> set (rk_tasks rm). sole_cell rm (rw_cell t) \<longrightarrow> status_ok rm t)"

section \<open>What updates leave alone\<close>

text \<open>Nothing but the status and the end of results differs, and no message is lost.\<close>

definition same_results :: "orch_rollbacks \<Rightarrow> orch_rollbacks \<Rightarrow> bool" where
  "same_results rm rm' \<longleftrightarrow>
     length (rk_heap rm') = length (rk_heap rm) \<and> set (rk_published rm) \<subseteq> set (rk_published rm') \<and>
     (\<forall>c < length (rk_heap rm). oz_RequestID (rk_heap rm' ! c) = oz_RequestID (rk_heap rm ! c) \<and>
        oz_Strategy (rk_heap rm' ! c) = oz_Strategy (rk_heap rm ! c) \<and>
        oz_TargetResults (rk_heap rm' ! c) = oz_TargetResults (rk_heap rm ! c))"

lemma task_ok_same:
  assumes "same_results rm rm'" and "task_ok rm t"
  shows "task_ok rm' t"
  using assms unfolding same_results_def task_ok_def statuses_def by auto

lemma statuses_same: "same_results rm rm' \<Longrightarrow> rw_cell t < length (rk_heap rm) \<Longrightarrow> statuses rm' t = statuses rm t"
  by (simp add: same_results_def statuses_def)

lemma sole_cell_same: "same_results rm rm' \<Longrightarrow> c < length (rk_heap rm) \<Longrightarrow> sole_cell rm' c = sole_cell rm c"
  by (simp add: same_results_def sole_cell_def)

lemma upd_active_simps [simp]:
  "rk_tasks (upd_active i f rm) = rk_tasks rm" "rk_active (upd_active i f rm) = rk_active rm"
  "rk_published (upd_active i f rm) = rk_published rm" "length (rk_heap (upd_active i f rm)) = length (rk_heap rm)"
  by (simp_all add: upd_active_def notifyCallbacks_def upd_result_def split: option.splits)

lemma upd_active_heap:
  "c < length (rk_heap rm) \<Longrightarrow> rk_heap (upd_active i f rm) ! c =
     (if map_get (rk_active rm) i = Some c then f (rk_heap rm ! c) else rk_heap rm ! c)"
  by (simp add: upd_active_def notifyCallbacks_def upd_result_def nth_list_update split: option.splits)

lemma upd_active_same:
  assumes "\<And>r. oz_RequestID (f r) = oz_RequestID r \<and> oz_Strategy (f r) = oz_Strategy r \<and> oz_TargetResults (f r) = oz_TargetResults r"
  shows "same_results rm (upd_active i f rm)"
  using assms by (simp add: same_results_def upd_active_heap)

text \<open>A status is written through the table, so it reaches a sole cell of another rollback never.\<close>

lemma upd_active_other:
  assumes "table_sound rm" and "sole_cell rm c" and "c < length (rk_heap rm)"
    and "c' < length (rk_heap rm)" and "c' \<noteq> c"
  shows "rk_heap (upd_active (oz_RequestID (rk_heap rm ! c')) f rm) ! c = rk_heap rm ! c"
  using assms by (auto simp: upd_active_heap table_sound_def sole_cell_def)

section \<open>Steps of a rollback\<close>

lemma table_sound_heap:
  assumes "table_sound rm" and "rk_active rm' = rk_active rm" and "length (rk_heap rm') = length (rk_heap rm)"
    and "\<And>c. c < length (rk_heap rm) \<Longrightarrow> oz_RequestID (rk_heap rm' ! c) = oz_RequestID (rk_heap rm ! c)"
  shows "table_sound rm'"
  using assms by (auto simp: table_sound_def)

lemma sole_cell_heap:
  assumes "length (rk_heap rm') = length (rk_heap rm)" and "c < length (rk_heap rm)"
    and "\<And>c. c < length (rk_heap rm) \<Longrightarrow> oz_RequestID (rk_heap rm' ! c) = oz_RequestID (rk_heap rm ! c)"
  shows "sole_cell rm' c = sole_cell rm c"
  using assms by (simp add: sole_cell_def)

lemma status_ok_tasks [simp]: "status_ok (rm\<lparr>rk_tasks := ts\<rparr>) t = status_ok rm t"
  by (simp add: status_ok_def statuses_def)

lemma task_ok_tasks [simp]: "task_ok (rm\<lparr>rk_tasks := ts\<rparr>) t = task_ok rm t"
  by (simp add: task_ok_def statuses_def)

lemma sole_cell_tasks [simp]: "sole_cell (rm\<lparr>rk_tasks := ts\<rparr>) c = sole_cell rm c"
  by (simp add: sole_cell_def)

lemma table_sound_tasks [simp]: "table_sound (rm\<lparr>rk_tasks := ts\<rparr>) = table_sound rm"
  by (simp add: table_sound_def)

text \<open>
  One lemma for all steps: the invariant holds again if the step is right for its own rollback, and leaves the
  targets of every other one alone, and also its status where its identifier is not shared.
\<close>

lemma rollbacks_inv_step:
  assumes inv: "rollbacks_inv rm" and k: "k < length (rk_tasks rm)"
    and cell: "rw_cell t = rw_cell (rk_tasks rm ! k)" and active: "rk_active rm' = rk_active rm"
    and len: "length (rk_heap rm') = length (rk_heap rm)" and pub: "set (rk_published rm) \<subseteq> set (rk_published rm')"
    and ids: "\<And>c. c < length (rk_heap rm) \<Longrightarrow> oz_RequestID (rk_heap rm' ! c) = oz_RequestID (rk_heap rm ! c)"
    and others: "\<And>c. c < length (rk_heap rm) \<Longrightarrow> c \<noteq> rw_cell t \<Longrightarrow>
      oz_Strategy (rk_heap rm' ! c) = oz_Strategy (rk_heap rm ! c) \<and>
      oz_TargetResults (rk_heap rm' ! c) = oz_TargetResults (rk_heap rm ! c)"
    and sole: "\<And>c. c < length (rk_heap rm) \<Longrightarrow> c \<noteq> rw_cell t \<Longrightarrow> sole_cell rm c \<Longrightarrow> rk_heap rm' ! c = rk_heap rm ! c"
    and own: "task_ok rm' t" "sole_cell rm (rw_cell t) \<Longrightarrow> status_ok rm' t"
  shows "rollbacks_inv (rm'\<lparr>rk_tasks := (rk_tasks rm)[k := t]\<rparr>)"
proof -
  let ?ts = "rk_tasks rm"
  have cells: "map rw_cell (?ts[k := t]) = map rw_cell ?ts"
    using cell k by (simp add: map_update list_update_same_conv)
  have ok: "task_ok rm u" and lt: "rw_cell u < length (rk_heap rm)" if "u \<in> set ?ts" for u
    using inv that by (auto simp: rollbacks_inv_def list_all_iff task_ok_def)
  have other: "rw_cell (?ts ! j) \<noteq> rw_cell t" if "j < length ?ts" "j \<noteq> k" for j
    using inv that k cell by (auto simp: rollbacks_inv_def distinct_conv_nth)
  have task: "task_ok rm' (?ts ! j)" if "j < length ?ts" "j \<noteq> k" for j
    using ok [of "?ts ! j"] that others [OF lt other [OF that]] ids [OF lt] len pub
    by (auto simp: task_ok_def statuses_def)
  have status: "status_ok rm' (?ts ! j)" if j: "j < length ?ts" "j \<noteq> k" and s: "sole_cell rm (rw_cell (?ts ! j))" for j
  proof -
    have "status_ok rm (?ts ! j)" using inv j s by (simp add: rollbacks_inv_def)
    moreover have "rk_heap rm' ! rw_cell (?ts ! j) = rk_heap rm ! rw_cell (?ts ! j)"
      using sole [OF lt other [OF j] s] j by simp
    ultimately show ?thesis by (simp add: status_ok_def statuses_def active)
  qed
  have solecell: "sole_cell rm' c = sole_cell rm c" if "c < length (rk_heap rm)" for c
    using sole_cell_heap [OF len that ids] .
  have "\<forall>j < length ?ts. task_ok rm' (?ts[k := t] ! j) \<and>
      (sole_cell rm' (rw_cell (?ts[k := t] ! j)) \<longrightarrow> status_ok rm' (?ts[k := t] ! j))"
  proof (intro allI impI)
    fix j assume j: "j < length ?ts"
    show "task_ok rm' (?ts[k := t] ! j) \<and>
      (sole_cell rm' (rw_cell (?ts[k := t] ! j)) \<longrightarrow> status_ok rm' (?ts[k := t] ! j))"
    proof (cases "j = k")
      case True
      then show ?thesis using own solecell lt cell k by auto
    next
      case False
      then show ?thesis using task status solecell lt j by auto
    qed
  qed
  then show ?thesis
    using inv table_sound_heap [OF _ active len ids] cells
    unfolding rollbacks_inv_def list_all_length all_set_conv_all_nth by simp
qed

lemma split_at_update: "split_at i stop ss \<Longrightarrow> i \<le> j \<Longrightarrow> j < stop \<Longrightarrow> split_at i stop (ss[j := s])"
  by (simp add: split_at_def nth_list_update)

lemma split_at_stop:
  assumes "split_at i stop ss" and "list_all is_done (take (stop' - i) (drop i ss))" and "i \<le> stop'" and "stop' \<le> stop"
    and "stop' < stop \<Longrightarrow> length ss \<le> stop'"
  shows "split_at stop' stop' ss"
  unfolding split_at_def
proof (intro allI impI conjI)
  fix j assume j: "j < length ss"
  show "is_done (ss ! j)" if "j < stop'"
  proof (cases "j < i")
    case True
    then show ?thesis using assms(1) j by (simp add: split_at_def)
  next
    case False
    then have "take (stop' - i) (drop i ss) ! (j - i) = ss ! j" "j - i < length (take (stop' - i) (drop i ss))"
      using that j assms(3) False by (simp_all add: diff_less_mono)
    then show ?thesis using assms(2) unfolding list_all_length by metis
  qed
  show "ss ! j = ''pending''" if "stop' \<le> j"
    using that j assms(1,4,5) by (cases "stop' < stop") (auto simp: split_at_def)
qed

text \<open>The steps that write a status through the table.\<close>

lemma rollbacks_inv_status:
  assumes inv: "rollbacks_inv rm" and k: "k < length (rk_tasks rm)" and t: "t = rk_tasks rm ! k"
    and f: "\<And>r. oz_RequestID (f r) = oz_RequestID r \<and> oz_Strategy (f r) = oz_Strategy r \<and>
      oz_TargetResults (f r) = oz_TargetResults r"
    and pc: "rw_pc t \<noteq> RDone" and ok: "progress_ok pc' (rw_batch t) (statuses rm t)"
    and status: "\<And>r. oz_Status r = status_of (rw_pc t) (statuses rm t) \<Longrightarrow> oz_EndTime r = None \<Longrightarrow>
      oz_Status (f r) = status_of pc' (statuses rm t) \<and> (oz_EndTime (f r) \<noteq> None \<longleftrightarrow> pc' = RDone)"
  shows "rollbacks_inv ((upd_active (rw_id t) f rm)\<lparr>rk_tasks := (rk_tasks rm)[k := to_pc pc' t]\<rparr>)"
proof -
  let ?rm = "upd_active (rw_id t) f rm"
  have mem: "t \<in> set (rk_tasks rm)" using k t by simp
  have tok: "task_ok rm t" and table: "table_sound rm"
    using inv mem by (auto simp: rollbacks_inv_def list_all_iff)
  have cell: "rw_cell t < length (rk_heap rm)" "oz_RequestID (rk_heap rm ! rw_cell t) = rw_id t"
    using tok by (simp_all add: task_ok_def)
  have same: "same_results rm ?rm" by (rule upd_active_same) (rule f)
  have st: "statuses ?rm (to_pc pc' t) = statuses rm t"
    using statuses_same [OF same cell(1)] by (simp add: statuses_def to_pc_def)
  have own: "task_ok ?rm (to_pc pc' t)"
    using task_ok_same [OF same tok] ok st statuses_same [OF same cell(1)]
    by (simp add: task_ok_def to_pc_def)
  have own_status: "status_ok ?rm (to_pc pc' t)" if "sole_cell rm (rw_cell t)"
  proof -
    have old: "status_ok rm t" using inv mem that by (simp add: rollbacks_inv_def)
    then have act: "map_get (rk_active rm) (rw_id t) = Some (rw_cell t)" using pc by (simp add: status_ok_def)
    have "oz_Status (rk_heap rm ! rw_cell t) = status_of (rw_pc t) (statuses rm t)"
      "oz_EndTime (rk_heap rm ! rw_cell t) = None" using old pc by (simp_all add: status_ok_def)
    from status [OF this] show ?thesis
      using act st by (simp add: status_ok_def upd_active_heap [OF cell(1)] to_pc_def)
  qed
  show ?thesis
  proof (rule rollbacks_inv_step [OF inv k])
    show "rk_heap ?rm ! c = rk_heap rm ! c" if "c < length (rk_heap rm)" "c \<noteq> rw_cell (to_pc pc' t)" "sole_cell rm c" for c
      using upd_active_other [OF table that(3,1) cell(1)] that(2) cell(2) by (simp add: to_pc_def)
  qed (use same own own_status t in \<open>auto simp: same_results_def to_pc_def\<close>)
qed

text \<open>The steps that only move on.\<close>

lemma rollbacks_inv_move:
  assumes inv: "rollbacks_inv rm" and k: "k < length (rk_tasks rm)" and t: "t = rk_tasks rm ! k"
    and ok: "progress_ok pc' (rw_batch t) (statuses rm t)" and pc: "rw_pc t \<noteq> RDone" "pc' \<noteq> RDone"
    and status: "status_of pc' (statuses rm t) = status_of (rw_pc t) (statuses rm t)"
  shows "rollbacks_inv (rm\<lparr>rk_tasks := (rk_tasks rm)[k := to_pc pc' t]\<rparr>)"
proof (rule rollbacks_inv_step [OF inv k])
  have mem: "t \<in> set (rk_tasks rm)" using k t by simp
  have st: "statuses rm (to_pc pc' t) = statuses rm t" by (simp add: statuses_def to_pc_def)
  have "task_ok rm t" using inv mem by (auto simp: rollbacks_inv_def list_all_iff)
  then show "task_ok rm (to_pc pc' t)" using ok st by (simp add: task_ok_def to_pc_def)
  show "status_ok rm (to_pc pc' t)" if "sole_cell rm (rw_cell (to_pc pc' t))"
    using inv mem that pc status st by (auto simp: rollbacks_inv_def status_ok_def to_pc_def)
qed (simp_all add: to_pc_def t)

text \<open>The steps of a target.\<close>

lemma target_step_cases:
  assumes "target_step e t rm = Some (t', rm')"
  obtains (update) j f where "t' = t" "rm' = upd_result (rw_cell t) (upd_target j f) rm" "event_target e = Some j"
      "\<And>x. ox_TargetID (f x) = ox_TargetID x"
      "\<And>x. ox_Status (f x) = ''completed'' \<Longrightarrow> j \<in> set (rw_sent t)"
    | (sent) j where "t' = t\<lparr>rw_sent := j # rw_sent t\<rparr>" "event_target e = Some j"
      "rm' = rm\<lparr>rk_published := rk_published rm @ [(rw_id t, ox_TargetID (oz_TargetResults (rk_heap rm ! rw_cell t) ! j))]\<rparr>"
proof (cases e)
  case (TargetStart j)
  then show thesis using assms update [of j "\<lambda>x. x\<lparr>ox_Status := ''rolling_back''\<rparr>"]
    by (auto simp: target_step_def Let_def split: if_splits)
next
  case (TargetPublish j err)
  then show thesis using assms sent [of j]
      update [of j "\<lambda>x. x\<lparr>ox_Status := ''failed'', ox_Error := ''Failed to publish rollback action: '' @ the err\<rparr>"]
    by (cases err) (auto simp: target_step_def Let_def split: if_splits)
next
  case (TargetWake j now)
  then show thesis using assms update [of j "\<lambda>x. x\<lparr>ox_Status := ''completed'', ox_EndTime := Some now\<rparr>"]
    by (auto simp: target_step_def Let_def split: if_splits)
qed (use assms in \<open>simp_all add: target_step_def\<close>)

lemma rollbacks_inv_target:
  assumes inv: "rollbacks_inv rm" and k: "k < length (rk_tasks rm)" and t: "t = rk_tasks rm ! k"
    and pc: "rw_pc t = RBatch i" and s: "target_step e t rm = Some (t', rm')" and j: "event_target e = Some j"
    and range: "i \<le> j" "j < i + rw_batch t" "j < length (statuses rm t)"
  shows "rollbacks_inv (rm'\<lparr>rk_tasks := (rk_tasks rm)[k := t']\<rparr>)"
proof -
  have mem: "t \<in> set (rk_tasks rm)" using k t by simp
  have tok: "task_ok rm t" using inv mem by (auto simp: rollbacks_inv_def list_all_iff)
  then have cell: "rw_cell t < length (rk_heap rm)" by (simp add: task_ok_def)
  have "progress_ok (rw_pc t) (rw_batch t) (statuses rm t)" using tok unfolding task_ok_def by blast
  then have prog: "split_at i (i + rw_batch t) (statuses rm t)" using pc by simp
  show ?thesis using s
  proof (cases rule: target_step_cases)
    case (sent j')
    have st: "statuses rm' t' = statuses rm t" by (simp add: statuses_def sent)
    show ?thesis
    proof (rule rollbacks_inv_step [OF inv k])
      show "task_ok rm' t'" using tok st by (auto simp: task_ok_def sent)
      show "status_ok rm' t'" if "sole_cell rm (rw_cell t')"
        using inv mem that st by (auto simp: rollbacks_inv_def status_ok_def sent)
    qed (auto simp: sent t)
  next
    case (update j' f)
    let ?r = "rk_heap rm ! rw_cell t"
    have heap: "rk_heap rm' ! c = (if c = rw_cell t then upd_target j' f ?r else rk_heap rm ! c)"
      if "c < length (rk_heap rm)" for c using that cell by (simp add: update upd_result_def)
    have st: "statuses rm' t = (statuses rm t)[j' := ox_Status (f (oz_TargetResults ?r ! j'))]"
      using heap [OF cell] by (simp add: statuses_def upd_target_def map_update)
    have targets: "ox_TargetID (oz_TargetResults (rk_heap rm' ! rw_cell t) ! l) = ox_TargetID (oz_TargetResults ?r ! l)" for l
      using heap [OF cell] update(4) by (cases "l < length (oz_TargetResults ?r)"; cases "l = j'")
        (simp_all add: upd_target_def list_update_beyond)
    have len: "length (rk_heap rm') = length (rk_heap rm)" "rk_active rm' = rk_active rm" "rk_published rm' = rk_published rm"
      by (simp_all add: update upd_result_def)
    have jj: "j' = j" using j update(3) by simp
    show ?thesis
    proof (rule rollbacks_inv_step [OF inv k])
      have "split_at i (i + rw_batch t) (statuses rm' t)"
        unfolding st jj by (rule split_at_update [OF prog range(1,2)])
      then show "task_ok rm' t'"
        using tok targets heap [OF cell] pc update(5) range(3)
        by (auto simp: task_ok_def update(1) len st upd_target_def nth_list_update jj split: if_splits)
      show "status_ok rm' t'" if "sole_cell rm (rw_cell t')"
        using inv mem that heap [OF cell] pc
        by (auto simp: rollbacks_inv_def status_ok_def update(1) len upd_target_def)
    qed (use heap len t in \<open>auto simp: update(1) upd_target_def\<close>)
  qed
qed

section \<open>The invariant\<close>

lemma rollbacks_inv_run:
  assumes inv: "rollbacks_inv rm" and s: "run_rollback e k rm = Some rm'"
  shows "rollbacks_inv rm'"
proof -
  obtain t where k: "k < length (rk_tasks rm)" and t: "t = rk_tasks rm ! k" by (metis option.simps(3) run_rollback_def s)
  then obtain t' rm1 where step: "rollback_task_step e t rm = Some (t', rm1)"
    and rm': "rm' = rm1\<lparr>rk_tasks := (rk_tasks rm1)[k := t']\<rparr>"
    using s by (auto simp: run_rollback_def split: option.splits)
  have mem: "t \<in> set (rk_tasks rm)" using k t by simp
  have tok: "task_ok rm t" using inv mem by (auto simp: rollbacks_inv_def list_all_iff)
  then have prog: "progress_ok (rw_pc t) (rw_batch t) (statuses rm t)" unfolding task_ok_def by blast
  let ?rs = "oz_TargetResults (rk_heap rm ! rw_cell t)"
  have n: "length (statuses rm t) = length ?rs" by (simp add: statuses_def)
  have all_done: "list_all is_done (take m (drop i (statuses rm t))) \<longleftrightarrow> list_all target_done (take m (drop i ?rs))" for m i
    by (simp add: statuses_def target_done_def [abs_def] take_map drop_map list.pred_map o_def)
  show ?thesis
  proof (cases "rw_pc t")
    case RStart
    then have eq: "t' = to_pc (if length ?rs = 0 then RCheck else RBatch 0) t"
      "rm1 = upd_active (rw_id t) (\<lambda>r. r\<lparr>oz_Status := ''in_progress''\<rparr>) rm"
      using step by (auto simp: rollback_task_step_def updateRollbackStatus_def Let_def split: if_splits)
    show ?thesis unfolding rm' eq upd_active_simps
      by (rule rollbacks_inv_status [OF inv k t])
        (use RStart prog in \<open>auto simp: split_at_def n\<close>)
  next
    case (RBatch i)
    define stop where "stop = (if i + rw_batch t > length ?rs then length ?rs else i + rw_batch t)"
    show ?thesis
    proof (cases "e = BatchOver")
      case True
      then have eq: "t' = to_pc (if stop < length ?rs then RPause stop else RCheck) t" "rm1 = rm"
        and batch: "list_all is_done (take (stop - i) (drop i (statuses rm t)))"
        using step RBatch unfolding all_done by (auto simp: rollback_task_step_def Let_def stop_def split: if_splits)
      have split: "split_at i (i + rw_batch t) (statuses rm t)" using prog RBatch by simp
      have at_stop: "split_at stop stop (statuses rm t)"
      proof (cases "i \<le> length ?rs")
        case True
        then show ?thesis using split_at_stop [OF split batch] by (simp add: stop_def n split: if_splits)
      next
        case False
        then show ?thesis using split by (auto simp: split_at_def stop_def n)
      qed
      have "stop \<le> length ?rs" by (simp add: stop_def)
      then show ?thesis unfolding rm' eq
        by (intro rollbacks_inv_move [OF inv k t]) (use at_stop RBatch n in auto)
    next
      case False
      then obtain j where j: "event_target e = Some j" "i \<le> j" "j < stop" and "target_step e t rm = Some (t', rm1)"
        using step RBatch by (auto simp: rollback_task_step_def Let_def stop_def split: option.splits if_splits)
      then have "rollbacks_inv (rm1\<lparr>rk_tasks := (rk_tasks rm)[k := t']\<rparr>)"
        using rollbacks_inv_target [OF inv k t RBatch, of e t' rm1 j] by (simp add: stop_def n split: if_splits)
      moreover have "rk_tasks rm1 = rk_tasks rm"
        using \<open>target_step e t rm = Some (t', rm1)\<close>
        by (cases rule: target_step_cases) (simp_all add: upd_result_def)
      ultimately show ?thesis by (simp add: rm')
    qed
  next
    case (RPause i)
    then have eq: "t' = to_pc (RBatch i) t" "rm1 = rm"
      using step by (auto simp: rollback_task_step_def Let_def split: if_splits)
    show ?thesis unfolding rm' eq
      by (rule rollbacks_inv_move [OF inv k t]) (use RPause prog in \<open>auto simp: split_at_def\<close>)
  next
    case RCheck
    define st where "st = (if list_all (\<lambda>x. ox_Status x = ''completed'') ?rs then ''completed'' else ''failed'')"
    have eq: "t' = to_pc REnd t" "rm1 = upd_active (rw_id t) (\<lambda>r. r\<lparr>oz_Status := st\<rparr>) rm"
      using step RCheck by (auto simp: rollback_task_step_def updateRollbackStatus_def Let_def st_def split: if_splits)
    have "st = status_of REnd (statuses rm t)" by (simp add: st_def statuses_def list.pred_map o_def)
    then show ?thesis unfolding rm' eq upd_active_simps
      by (intro rollbacks_inv_status [OF inv k t]) (use RCheck prog in auto)
  next
    case REnd
    then obtain now where eq: "t' = to_pc RDone t" "rm1 = upd_active (rw_id t) (\<lambda>r. r\<lparr>oz_EndTime := Some now\<rparr>) rm"
      using step by (auto simp: rollback_task_step_def setRollbackEndTime_def Let_def split: rb_event.splits)
    show ?thesis unfolding rm' eq upd_active_simps
      by (intro rollbacks_inv_status [OF inv k t]) (use REnd prog in auto)
  next
    case RDone
    then show ?thesis using step by (simp add: rollback_task_step_def)
  qed
qed

lemma rollbacks_inv_initiate:
  assumes inv: "rollbacks_inv rm" and s: "InitiateRollback req now rm = (res, rm')"
  shows "rollbacks_inv rm'"
proof -
  let ?c = "length (rk_heap rm)" and ?r = "new_result req now"
  let ?t = "\<lparr>rw_cell = ?c, rw_id = oy_RequestID req, rw_batch = batch_size (oy_Strategy req) (length (oy_Targets req)),
    rw_sent = [], rw_pc = RStart\<rparr>"
  define ts where "ts = (if known_strategy (oy_Strategy req) then [?t] else [])"
  have rm': "rm' = rm\<lparr>rk_heap := rk_heap rm @ [?r], rk_active := map_set (oy_RequestID req) ?c (rk_active rm),
      rk_tasks := rk_tasks rm @ ts\<rparr>"
    using s by (cases "known_strategy (oy_Strategy req)") (auto simp: InitiateRollback_known InitiateRollback_unknown ts_def)
  have r: "oz_RequestID ?r = oy_RequestID req" "oz_Status ?r = ''initiated''" "oz_EndTime ?r = None"
    "oz_Strategy ?r = oy_Strategy req" "map ox_Status (oz_TargetResults ?r) = map (\<lambda>_. ''pending'') (oy_Targets req)"
    "length (oz_TargetResults ?r) = length (oy_Targets req)"
    by (simp_all add: new_result_def o_def)
  have lt: "rw_cell t < ?c" and ok: "task_ok rm t" if "t \<in> set (rk_tasks rm)" for t
    using inv that by (auto simp: rollbacks_inv_def list_all_iff task_ok_def)
  have st: "statuses rm' t = statuses rm t" if "rw_cell t < ?c" for t
    using that by (simp add: statuses_def rm' nth_append)
  have new: "statuses rm' ?t = map (\<lambda>_. ''pending'') (oy_Targets req)"
    using r by (simp add: statuses_def rm')
  have "task_ok rm' t" if t: "t \<in> set (rk_tasks rm)" for t
  proof -
    have heap: "rk_heap rm' ! rw_cell t = rk_heap rm ! rw_cell t" and pub: "rk_published rm' = rk_published rm"
      and "rw_cell t < length (rk_heap rm')" using lt [OF t] by (simp_all add: rm' nth_append)
    then show ?thesis using ok [OF t] unfolding task_ok_def st [OF lt [OF t]] heap pub by blast
  qed
  then have "list_all (task_ok rm') (rk_tasks rm)" by (simp add: list_all_iff)
  moreover have "list_all (task_ok rm') ts"
    using r new by (auto simp: ts_def task_ok_def split_at_def) (simp_all add: rm')
  moreover have "status_ok rm' t" if t: "t \<in> set (rk_tasks rm)" and sole: "sole_cell rm' (rw_cell t)" for t
  proof -
    have own: "oz_RequestID (rk_heap rm' ! rw_cell t) = rw_id t" "oz_RequestID (rk_heap rm ! rw_cell t) = rw_id t"
      using ok [OF t] lt [OF t] by (auto simp: task_ok_def rm' nth_append)
    have others: "oz_RequestID (rk_heap rm' ! c') \<noteq> rw_id t" if "c' \<le> ?c" "c' \<noteq> rw_cell t" for c'
      using sole that own unfolding sole_cell_def by (simp add: rm')
    have id: "oy_RequestID req \<noteq> rw_id t"
      using others [of ?c] lt [OF t] r by (simp add: rm')
    have "oz_RequestID (rk_heap rm ! c') \<noteq> rw_id t" if "c' < ?c" "c' \<noteq> rw_cell t" for c'
      using others [of c'] that by (simp add: rm' nth_append)
    then have "sole_cell rm (rw_cell t)" by (simp add: sole_cell_def own)
    then have "status_ok rm t" using inv t by (simp add: rollbacks_inv_def)
    then show ?thesis using lt [OF t] st [OF lt [OF t]] id by (simp add: status_ok_def rm' nth_append)
  qed
  moreover have "status_ok rm' ?t"
    using r new by (simp add: status_ok_def) (simp add: rm')
  moreover have "table_sound rm'"
    using inv r by (auto simp: table_sound_def rollbacks_inv_def rm' nth_append distinct_update less_SucI)
  moreover have "distinct (map rw_cell (rk_tasks rm @ ts))"
  proof -
    have "?c \<notin> rw_cell ` set (rk_tasks rm)" using lt by fastforce
    then show ?thesis using inv by (simp add: rollbacks_inv_def ts_def)
  qed
  ultimately show ?thesis by (auto simp: rollbacks_inv_def rm' ts_def)
qed

lemma rollbacks_inv_clean:
  assumes inv: "rollbacks_inv rm"
  shows "rollbacks_inv (CleanupCompletedRollbacks d now rm)"
proof -
  define keep where "keep p \<longleftrightarrow> \<not> (oz_Status (rk_heap rm ! snd p) = ''completed'' \<and>
    (case oz_EndTime (rk_heap rm ! snd p) of None \<Rightarrow> False | Some t \<Rightarrow> t < time_add now (- d)))" for p :: "string \<times> nat"
  let ?rm = "rm\<lparr>rk_active := filter keep (rk_active rm)\<rparr>"
  have eq: "CleanupCompletedRollbacks d now rm = ?rm"
    by (simp add: CleanupCompletedRollbacks_def Let_def keep_def [abs_def] case_prod_unfold)
  have dist: "distinct (map fst (rk_active rm))" using inv by (simp add: rollbacks_inv_def table_sound_def)
  note get = map_of_filter_vals [OF dist, of keep]
  have "status_ok ?rm t" if "t \<in> set (rk_tasks rm)" "sole_cell rm (rw_cell t)" for t
  proof -
    have "status_ok rm t" using inv that by (simp add: rollbacks_inv_def)
    then show ?thesis by (auto simp: status_ok_def statuses_def get keep_def split: option.splits)
  qed
  moreover have "table_sound ?rm"
    using inv dist by (auto simp: rollbacks_inv_def table_sound_def get distinct_map_filter split: option.splits if_splits)
  ultimately show ?thesis
    using inv unfolding eq rollbacks_inv_def by (auto simp: list_all_iff task_ok_def statuses_def sole_cell_def)
qed

lemma rollbacks_inv_callback: "rollbacks_inv rm \<Longrightarrow> rollbacks_inv (AddCallback_rollback rm)"
proof -
  have "task_ok (AddCallback_rollback rm) = task_ok rm" "status_ok (AddCallback_rollback rm) = status_ok rm"
    "sole_cell (AddCallback_rollback rm) = sole_cell rm" "table_sound (AddCallback_rollback rm) = table_sound rm"
    by (intro ext; simp add: AddCallback_rollback_def task_ok_def status_ok_def sole_cell_def statuses_def)+
      (simp add: AddCallback_rollback_def table_sound_def)
  moreover have "rk_tasks (AddCallback_rollback rm) = rk_tasks rm" by (simp add: AddCallback_rollback_def)
  ultimately show "rollbacks_inv rm \<Longrightarrow> rollbacks_inv (AddCallback_rollback rm)" by (simp add: rollbacks_inv_def)
qed

lemma rollbacks_inv_new: "rollbacks_inv NewRollbackManager_orch"
  by (simp add: NewRollbackManager_orch_def rollbacks_inv_def table_sound_def)

interpretation rbsys: inductive_invariant "\<lambda>rm. rm = NewRollbackManager_orch" rollbacks_step rollbacks_inv
  by unfold_locales
    (auto elim!: rollbacks_step.cases dest: rollbacks_inv_initiate rollbacks_inv_run
      intro: rollbacks_inv_new rollbacks_inv_clean rollbacks_inv_callback)

abbreviation rollbacks_reach :: "orch_rollbacks \<Rightarrow> bool" where
  "rollbacks_reach \<equiv> reach (\<lambda>rm. rm = NewRollbackManager_orch) rollbacks_step"

section \<open>What a rollback guarantees\<close>

text \<open>
  C35. A gradual rollback never works on more than three targets at a time.
\<close>

theorem gradual_rollback_bounded:
  assumes "rollbacks_reach rm" and "t \<in> set (rk_tasks rm)"
    and "oz_Strategy (rk_heap rm ! rw_cell t) = RollbackStrategyGradual"
  shows "length (filter (\<lambda>x. ox_Status x = ''rolling_back'') (oz_TargetResults (rk_heap rm ! rw_cell t))) \<le> 3"
proof -
  let ?ss = "statuses rm t"
  have "task_ok rm t" using rbsys.reach_inv [OF assms(1)] assms(2) by (auto simp: rollbacks_inv_def list_all_iff)
  then have prog: "progress_ok (rw_pc t) (rw_batch t) ?ss"
    and "rw_batch t = batch_size (oz_Strategy (rk_heap rm ! rw_cell t)) (length ?ss)"
    unfolding task_ok_def by blast+
  then have b: "rw_batch t \<le> 3" using assms(3) by (simp add: batch_size_def)
  have few: "length (filter (\<lambda>s. s = ''rolling_back'') ?ss) \<le> stop - i" if "split_at i stop ?ss" for i stop
  proof -
    have "{j. j < length ?ss \<and> ?ss ! j = ''rolling_back''} \<subseteq> {i..<stop}"
      using that by (force simp: split_at_def)
    then have "card {j. j < length ?ss \<and> ?ss ! j = ''rolling_back''} \<le> stop - i"
      using card_mono [of "{i..<stop}"] by simp
    then show ?thesis by (simp add: length_filter_conv_card)
  qed
  have "\<exists>i stop. split_at i stop ?ss \<and> stop - i \<le> 3"
    using prog b by (cases "rw_pc t") (fastforce intro: exI [of _ "0 :: nat"])+
  then have "length (filter (\<lambda>s. s = ''rolling_back'') ?ss) \<le> 3" using few le_trans by blast
  then show ?thesis by (simp add: statuses_def filter_map o_def)
qed

text \<open>
  C38. A rollback whose identifier is not used again and that is reported as completed has rolled back every
  target, and sent each its message; one that is reported as failed has failed for a target. Before that
  its status is initiated or in progress.
\<close>

theorem rollback_status_true:
  assumes "rollbacks_reach rm" and "t \<in> set (rk_tasks rm)" and "sole_cell rm (rw_cell t)"
  defines "r \<equiv> rk_heap rm ! rw_cell t"
  shows "(oz_Status r = ''completed'' \<longrightarrow>
      (\<forall>x \<in> set (oz_TargetResults r). ox_Status x = ''completed'' \<and> (rw_id t, ox_TargetID x) \<in> set (rk_published rm))) \<and>
    (oz_Status r = ''failed'' \<longrightarrow> (\<exists>x \<in> set (oz_TargetResults r). ox_Status x = ''failed'')) \<and>
    oz_Status r \<in> {''initiated'', ''in_progress'', ''completed'', ''failed''}"
proof -
  let ?ss = "statuses rm t"
  have ok: "task_ok rm t" and st: "status_ok rm t"
    using rbsys.reach_inv [OF assms(1)] assms(2,3) by (auto simp: rollbacks_inv_def list_all_iff)
  have status: "oz_Status r = status_of (rw_pc t) ?ss" using st by (simp add: status_ok_def r_def)
  have prog: "progress_ok (rw_pc t) (rw_batch t) ?ss" using ok unfolding task_ok_def by blast
  have sent: "(rw_id t, ox_TargetID (oz_TargetResults r ! j)) \<in> set (rk_published rm)"
    if "j < length ?ss" "?ss ! j = ''completed''" for j
    using ok that by (auto simp: task_ok_def r_def)
  have len: "length ?ss = length (oz_TargetResults r)" "?ss = map ox_Status (oz_TargetResults r)"
    by (simp_all add: statuses_def r_def)
  have "\<forall>x \<in> set (oz_TargetResults r). ox_Status x = ''completed'' \<and> (rw_id t, ox_TargetID x) \<in> set (rk_published rm)"
    if c: "oz_Status r = ''completed''"
  proof
    fix x assume "x \<in> set (oz_TargetResults r)"
    then obtain j where j: "j < length (oz_TargetResults r)" "x = oz_TargetResults r ! j" by (auto simp: in_set_conv_nth)
    have "list_all (\<lambda>s. s = ''completed'') ?ss" using c status by (cases "rw_pc t") (auto split: if_splits)
    then have "?ss ! j = ''completed''" using j len by (simp add: list_all_length)
    then show "ox_Status x = ''completed'' \<and> (rw_id t, ox_TargetID x) \<in> set (rk_published rm)"
      using sent [of j] j len by simp
  qed
  moreover have "\<exists>x \<in> set (oz_TargetResults r). ox_Status x = ''failed''" if f: "oz_Status r = ''failed''"
  proof -
    have "\<not> list_all (\<lambda>s. s = ''completed'') ?ss" "split_at (length ?ss) (length ?ss) ?ss"
      using f status prog by (cases "rw_pc t"; auto split: if_splits)+
    then obtain j where "j < length ?ss" "?ss ! j = ''failed''" by (auto simp: list_all_length split_at_def)
    then have "oz_TargetResults r ! j \<in> set (oz_TargetResults r)" "ox_Status (oz_TargetResults r ! j) = ''failed''"
      using len by auto
    then show ?thesis by blast
  qed
  moreover have "oz_Status r \<in> {''initiated'', ''in_progress'', ''completed'', ''failed''}"
    unfolding status by (cases "rw_pc t") auto
  ultimately show ?thesis by blast
qed

text \<open>An unknown strategy leaves a result in the table whose status never changes.\<close>

lemma unknown_strategy_stays:
  assumes "\<not> known_strategy (oy_Strategy req)"
  shows "InitiateRollback req now rm =
    (Inl (''unknown rollback strategy: '' @ itoa (oy_Strategy req)),
     rm\<lparr>rk_heap := rk_heap rm @ [new_result req now],
        rk_active := map_set (oy_RequestID req) (length (rk_heap rm)) (rk_active rm)\<rparr>)"
  using assms by (rule InitiateRollback_unknown)

text \<open>The selective strategy rolls back every target, like the immediate one.\<close>

lemma selective_is_immediate: "batch_size RollbackStrategySelective n = n" "batch_size RollbackStrategyImmediate n = n"
  by (simp_all add: batch_size_def RollbackStrategySelective_def RollbackStrategyImmediate_def RollbackStrategyGradual_def)

end
