(* ===== verification/Orch_Examples.thy ===== *)
theory Orch_Examples
  imports Orch_RolloutProperties Orch_RollbackProperties
begin

text \<open>Concrete instances of the properties of the orchestrator.\<close>

section \<open>A rollout to two hosts\<close>

definition ex_apply :: applyRequest where
  "ex_apply = \<lparr>oq_PlanID = ''p'', oq_Targets = [''a'', ''b''], oq_ArtifactID = ''x'', oq_TTL = 60, oq_Canary = True\<rparr>"

definition ex_healthy :: telemetryData where
  "ex_healthy = \<lparr>od_Violations = 1, od_Errors = 0, od_Latency = 10, od_LastUpdate = 0, od_AgentVersion = [],
     od_BPFLoadTime = 0, od_PacketCount = 0, od_BlockCount = 0\<rparr>"

definition ex_rollout_events :: "dep_event list" where
  "ex_rollout_events =
     [Published None, Subscribed None 0, Telemetry ex_healthy, WindowOver 300000000000,
      Published None, Subscribed None 0, Telemetry ex_healthy, Ticked, WindowOver 300000000000, Local 1, Local 1]"

definition ex_rollout_started :: rollout_manager where
  "ex_rollout_started = snd (ApplyCanary ex_apply 0 NewBPFRolloutManager)"

definition ex_rollout_done :: rollout_manager where
  "ex_rollout_done = the (run_events ex_rollout_events 0 ex_rollout_started)"

lemmas ex_rollout_defs = run_deployment_def deployment_step_def observeCanaryTargets_def apply_then_def applyToTargets_def publish_action_def
  evaluateSuccess_def no_observation_def observe_message_def after_observation_def updateTargetTelemetry_def
  updateRolloutStatus_def set_completed_def update_rollout_def goto_def canaryTargets_def remainingTargets_def
  canaryCount_def wrap64_def time_add_def

lemma ex_rollout_run:
  "run_events ex_rollout_events 0 ex_rollout_started = Some ex_rollout_done \<and>
   length (ro_deployments ex_rollout_done) = 1 \<and>
   dy_pc (ro_deployments ex_rollout_done ! 0) = Finished ''success'' \<and>
   dy_req (ro_deployments ex_rollout_done ! 0) = ex_apply \<and>
   ro_published ex_rollout_done =
     [(0, ApplyEBPF (rollout_id ''p'' 0) [''a''] ''x'' 60), (0, ApplyEBPF (rollout_id ''p'' 0) [''b''] ''x'' 60)]"
proof -
  have "(case run_events ex_rollout_events 0 ex_rollout_started of None \<Rightarrow> False | Some rm \<Rightarrow>
      length (ro_deployments rm) = 1 \<and>
      dy_pc (ro_deployments rm ! 0) = Finished ''success'' \<and>
      dy_req (ro_deployments rm ! 0) = ex_apply \<and>
      ro_published rm =
        [(0, ApplyEBPF (rollout_id ''p'' 0) [''a''] ''x'' 60), (0, ApplyEBPF (rollout_id ''p'' 0) [''b''] ''x'' 60)])"
    by code_simp
  then show ?thesis by (auto simp: ex_rollout_done_def split: option.splits)
qed

lemma ex_rollout_started: "rollout_step NewBPFRolloutManager ex_rollout_started"
  by (rule rollout_step.start [of ex_apply 0 _ "fst (ApplyCanary ex_apply 0 NewBPFRolloutManager)"])
    (simp add: ex_rollout_started_def)

lemma ex_rollout_reach: "rollout_reach ex_rollout_done"
proof -
  have "rollout_reach NewBPFRolloutManager" by (rule reach_init) simp
  then have "rollout_reach ex_rollout_started" using ex_rollout_started by (rule reach_step)
  then show ?thesis using run_events_reach ex_rollout_run by blast
qed

lemma ex_rollout_trace: "rollout_run NewBPFRolloutManager (map (Pair 0) ex_rollout_events) ex_rollout_done"
proof -
  have "\<nexists>e i. run_deployment e i NewBPFRolloutManager = Some ex_rollout_started"
    by (simp add: run_deployment_def NewBPFRolloutManager_def)
  from run_other [OF run_Nil ex_rollout_started this] show ?thesis
    using run_events_run ex_rollout_run by fastforce
qed

theorem canary_before_rest_witness:
  "\<exists>th ob vs. dy_verdicts (ro_deployments ex_rollout_done ! 0) = (th, ob, True) # vs \<and> 0 < ob_messageCount ob"
proof -
  have "''b'' \<notin> set (canaryTargets (dy_req (ro_deployments ex_rollout_done ! 0)))"
    using ex_rollout_run by (simp add: canaryTargets_def canaryCount_def ex_apply_def)
  from canary_before_rest [OF ex_rollout_reach _ _ _ this, of "rollout_id ''p'' 0" "[''b'']" "''x''" 60]
  show ?thesis using ex_rollout_run by auto
qed

theorem rollout_outcome_witness:
  "\<exists>r. GetRolloutStatus (dy_requestID (ro_deployments ex_rollout_done ! 0)) ex_rollout_done = Inr r \<and>
     op_Status r = ''success'' \<and> op_CompletedAt r \<noteq> None"
  using rollout_outcome [OF ex_rollout_reach, of 0] ex_rollout_run by (simp add: own_id_def)

theorem rollout_terminates_witness:
  "length (filter (\<lambda>(j, e). j = (0 :: nat) \<and> \<not> waiting e) (map (Pair 0) ex_rollout_events)) \<le> 9"
  using rollout_terminates [OF ex_rollout_trace, of 0] ex_rollout_run by simp

lemma http_rollout_rolled_back_witness:
  "\<exists>rm2. run_events [Published None, Subscribed None 0, WindowOver 0, Published None, Local 0, Local 0] 0
      (snd (handleApplyEBPF (Some ex_apply) 0 NewBPFRolloutManager)) = Some rm2 \<and>
    dy_pc (ro_deployments rm2 ! 0) = Finished ''rollback''"
proof -
  have "\<exists>r. handleApplyEBPF (Some ex_apply) 0 NewBPFRolloutManager =
      (RolloutAccepted r, snd (handleApplyEBPF (Some ex_apply) 0 NewBPFRolloutManager))"
    by (simp add: handleApplyEBPF_def ex_apply_def Let_def ApplyCanary_def)
  then obtain r where "handleApplyEBPF (Some ex_apply) 0 NewBPFRolloutManager =
      (RolloutAccepted r, snd (handleApplyEBPF (Some ex_apply) 0 NewBPFRolloutManager))" by blast
  from http_rollout_rolled_back [OF this] show ?thesis by (auto simp: NewBPFRolloutManager_def)
qed

section \<open>A gradual rollback of four hosts\<close>

definition ex_rollback_request :: rollbackRequest where
  "ex_rollback_request = \<lparr>oy_RequestID = ''r'', oy_Strategy = RollbackStrategyGradual,
     oy_Targets = [''a'', ''b'', ''c'', ''d''], oy_Reason = [], oy_Force = False, oy_Timeout = 0\<rparr>"

fun run_rollback_events :: "rb_event list \<Rightarrow> nat \<Rightarrow> orch_rollbacks \<Rightarrow> orch_rollbacks option" where
  "run_rollback_events [] k rm = Some rm"
| "run_rollback_events (e # es) k rm =
     (case run_rollback e k rm of None \<Rightarrow> None | Some rm1 \<Rightarrow> run_rollback_events es k rm1)"

definition ex_rollback_started :: orch_rollbacks where
  "ex_rollback_started = snd (InitiateRollback ex_rollback_request 0 NewRollbackManager_orch)"

definition ex_rollback_batch :: "rb_event list" where
  "ex_rollback_batch = [Begin, TargetStart 0, TargetStart 1, TargetStart 2, TargetPublish 1 None]"

definition ex_rollback_rest :: "rb_event list" where
  "ex_rollback_rest = [TargetPublish 0 None, TargetPublish 2 None, TargetWake 0 5, TargetWake 1 5, TargetWake 2 5,
     BatchOver, PauseOver, TargetStart 3, TargetPublish 3 (Some ''down''), BatchOver, Check, End 9]"

lemma run_rollback_events_reach:
  "run_rollback_events es k rm = Some rm' \<Longrightarrow> rollbacks_reach rm \<Longrightarrow> rollbacks_reach rm'"
proof (induction es arbitrary: rm)
  case (Cons e es)
  then obtain rm1 where "run_rollback e k rm = Some rm1" "run_rollback_events es k rm1 = Some rm'"
    by (auto split: option.splits)
  then show ?case using Cons.IH [OF _ reach_step [OF Cons.prems(2) rollbacks_step.run]] by blast
qed simp

lemma ex_rollback_reach: "rollbacks_reach ex_rollback_started"
proof -
  have "rollbacks_reach NewRollbackManager_orch" by (rule reach_init) simp
  moreover have "rollbacks_step NewRollbackManager_orch ex_rollback_started"
    by (rule rollbacks_step.initiate [of ex_rollback_request 0 _
        "fst (InitiateRollback ex_rollback_request 0 NewRollbackManager_orch)"]) (simp add: ex_rollback_started_def)
  ultimately show ?thesis by (rule reach_step)
qed

definition ex_rollback_busy :: orch_rollbacks where
  "ex_rollback_busy = the (run_rollback_events ex_rollback_batch 0 ex_rollback_started)"

definition ex_rollback_over :: orch_rollbacks where
  "ex_rollback_over = the (run_rollback_events (ex_rollback_batch @ ex_rollback_rest) 0 ex_rollback_started)"

lemma ex_rollback_busy_run:
  "run_rollback_events ex_rollback_batch 0 ex_rollback_started = Some ex_rollback_busy \<and>
   length (rk_tasks ex_rollback_busy) = 1 \<and> rw_cell (rk_tasks ex_rollback_busy ! 0) = 0 \<and>
   oz_Strategy (rk_heap ex_rollback_busy ! 0) = RollbackStrategyGradual"
proof -
  have "(case run_rollback_events ex_rollback_batch 0 ex_rollback_started of None \<Rightarrow> False | Some rm \<Rightarrow>
      length (rk_tasks rm) = 1 \<and> rw_cell (rk_tasks rm ! 0) = 0 \<and>
      oz_Strategy (rk_heap rm ! 0) = RollbackStrategyGradual)"
    by code_simp
  then show ?thesis by (auto simp: ex_rollback_busy_def split: option.splits)
qed

lemma ex_rollback_over_run:
  "run_rollback_events (ex_rollback_batch @ ex_rollback_rest) 0 ex_rollback_started = Some ex_rollback_over \<and>
   length (rk_tasks ex_rollback_over) = 1 \<and> rw_cell (rk_tasks ex_rollback_over ! 0) = 0 \<and>
   length (rk_heap ex_rollback_over) = 1 \<and> oz_Status (rk_heap ex_rollback_over ! 0) = ''failed''"
proof -
  have "(case run_rollback_events (ex_rollback_batch @ ex_rollback_rest) 0 ex_rollback_started of None \<Rightarrow> False
    | Some rm \<Rightarrow> length (rk_tasks rm) = 1 \<and> rw_cell (rk_tasks rm ! 0) = 0 \<and> length (rk_heap rm) = 1 \<and>
        oz_Status (rk_heap rm ! 0) = ''failed'')"
    by code_simp
  then show ?thesis by (auto simp: ex_rollback_over_def split: option.splits)
qed

theorem gradual_rollback_bounded_witness:
  "length (filter (\<lambda>x. ox_Status x = ''rolling_back'') (oz_TargetResults (rk_heap ex_rollback_busy ! 0))) \<le> 3"
  using gradual_rollback_bounded [of ex_rollback_busy "rk_tasks ex_rollback_busy ! 0"] ex_rollback_busy_run
    run_rollback_events_reach [OF _ ex_rollback_reach] by auto

theorem rollback_status_true_witness:
  "\<exists>x \<in> set (oz_TargetResults (rk_heap ex_rollback_over ! 0)). ox_Status x = ''failed''"
proof -
  have "rollbacks_reach ex_rollback_over"
    using ex_rollback_over_run run_rollback_events_reach [OF _ ex_rollback_reach] by blast
  moreover have "rk_tasks ex_rollback_over ! 0 \<in> set (rk_tasks ex_rollback_over)"
    "sole_cell ex_rollback_over (rw_cell (rk_tasks ex_rollback_over ! 0))"
    using ex_rollback_over_run by (auto simp: sole_cell_def)
  ultimately show ?thesis
    using rollback_status_true [of ex_rollback_over "rk_tasks ex_rollback_over ! 0"] ex_rollback_over_run by auto
qed

end
