(* ===== verification/Orch_Telemetry.thy ===== *)
theory Orch_Telemetry
  imports Orch_Rollout
begin

text \<open>
  The telemetry monitor of the orchestrator: \<open>telemetry.go\<close> under
  \<open>src/backend/orchestrator/internal/rollout\<close>, and the handlers of \<open>api.go\<close> that read it. Which
  subscriptions a subject reaches is decided by NATS and is the argument \<open>matches\<close>.
\<close>

section \<open>Decoding a message\<close>

definition zero_telemetryData :: telemetryData where
  "zero_telemetryData =
     \<lparr>od_Violations = 0, od_Errors = 0, od_Latency = 0, od_LastUpdate = zero_time, od_AgentVersion = [],
      od_BPFLoadTime = 0, od_PacketCount = 0, od_BlockCount = 0\<rparr>"

text \<open>
  What \<open>json.Unmarshal\<close> puts into a field: null leaves it as it is, another type than the field's is
  an error. An integral number is taken to be written without fraction or exponent.
\<close>

fun int_field :: "gval \<Rightarrow> int \<Rightarrow> int option" where
  "int_field VNil old = Some old"
| "int_field (VNum (Fin q)) old =
     (if snd (quotient_of q) = 1 \<and> - (2 ^ 63) \<le> q \<and> q < 2 ^ 63 then Some (fst (quotient_of q)) else None)"
| "int_field _ old = None"

fun float_field :: "gval \<Rightarrow> rat \<Rightarrow> rat option" where
  "float_field VNil old = Some old"
| "float_field (VNum (Fin q)) old = Some q"
| "float_field _ old = None"

fun string_field :: "gval \<Rightarrow> string \<Rightarrow> string option" where
  "string_field VNil old = Some old"
| "string_field (VStr s) old = Some s"
| "string_field _ old = None"

fun time_field :: "(string \<Rightarrow> time option) \<Rightarrow> gval \<Rightarrow> time \<Rightarrow> time option" where
  "time_field parse VNil old = Some old"
| "time_field parse (VStr s) old = parse s"
| "time_field parse _ old = None"

definition telemetry_field :: "(string \<Rightarrow> time option) \<Rightarrow> string \<times> gval \<Rightarrow> telemetryData \<Rightarrow> telemetryData option" where
  "telemetry_field parse kv d =
     (let k = fst kv; v = snd kv
      in if equal_fold k ''violations'' then map_option (\<lambda>x. d\<lparr>od_Violations := x\<rparr>) (int_field v (od_Violations d))
         else if equal_fold k ''errors'' then map_option (\<lambda>x. d\<lparr>od_Errors := x\<rparr>) (int_field v (od_Errors d))
         else if equal_fold k ''latency_ms'' then map_option (\<lambda>x. d\<lparr>od_Latency := x\<rparr>) (float_field v (od_Latency d))
         else if equal_fold k ''last_update''
         then map_option (\<lambda>x. d\<lparr>od_LastUpdate := x\<rparr>) (time_field parse v (od_LastUpdate d))
         else if equal_fold k ''agent_version''
         then map_option (\<lambda>x. d\<lparr>od_AgentVersion := x\<rparr>) (string_field v (od_AgentVersion d))
         else if equal_fold k ''bpf_load_time_ms''
         then map_option (\<lambda>x. d\<lparr>od_BPFLoadTime := x\<rparr>) (float_field v (od_BPFLoadTime d))
         else if equal_fold k ''packet_count''
         then map_option (\<lambda>x. d\<lparr>od_PacketCount := x\<rparr>) (int_field v (od_PacketCount d))
         else if equal_fold k ''block_count''
         then map_option (\<lambda>x. d\<lparr>od_BlockCount := x\<rparr>) (int_field v (od_BlockCount d))
         else Some d)"

fun telemetry_fields :: "(string \<Rightarrow> time option) \<Rightarrow> (string \<times> gval) list \<Rightarrow> telemetryData \<Rightarrow> telemetryData option" where
  "telemetry_fields parse [] d = Some d"
| "telemetry_fields parse (kv # kvs) d =
     (case telemetry_field parse kv d of None \<Rightarrow> None | Some d1 \<Rightarrow> telemetry_fields parse kvs d1)"

text \<open>A message that is not JSON is \<^const>\<open>None\<close>.\<close>

fun telemetry_of :: "(string \<Rightarrow> time option) \<Rightarrow> gval option \<Rightarrow> telemetryData option" where
  "telemetry_of parse (Some (VObj kvs)) = telemetry_fields parse kvs zero_telemetryData"
| "telemetry_of parse (Some VNil) = Some zero_telemetryData"
| "telemetry_of parse _ = None"

section \<open>The monitor\<close>

text \<open>The callbacks the package adds itself, and those of others.\<close>

datatype watch =
    WatchForViolations int
  | WatchForErrors int
  | WatchForLatency rat
  | OtherCallback

datatype watch_notice =
    ViolationsSeen string int
  | ErrorsSeen string int
  | LatencySeen string rat

fun watch_report :: "watch \<Rightarrow> string \<Rightarrow> telemetryData \<Rightarrow> watch_notice option" where
  "watch_report (WatchForViolations threshold) target d =
     (if od_Violations d \<ge> threshold then Some (ViolationsSeen target (od_Violations d)) else None)"
| "watch_report (WatchForErrors threshold) target d =
     (if od_Errors d \<ge> threshold then Some (ErrorsSeen target (od_Errors d)) else None)"
| "watch_report (WatchForLatency threshold) target d =
     (if od_Latency d \<ge> threshold then Some (LatencySeen target (od_Latency d)) else None)"
| "watch_report OtherCallback target d = None"

text \<open>The state; \<open>tm_calls\<close> are the goroutines started for callbacks.\<close>

record orch_telemetry =
  tm_subscriptions :: "string list"
  tm_data :: "(string, telemetryData) gomap"
  tm_callbacks :: "watch list"
  tm_calls :: "(watch \<times> string \<times> telemetryData) list"

record telemetryFilter =
  of_TargetIDs :: "string list"
  of_MinViolations :: int
  of_MaxLatency :: float64
  of_MinPacketCount :: int
  of_AgentVersion :: string

record telemetryAggregation =
  og_TargetID :: string
  og_TotalViolations :: int
  og_TotalErrors :: int
  og_TotalPackets :: int
  og_TotalBlocks :: int
  og_AverageLatency :: rat
  og_MaxLatency :: rat
  og_MinLatency :: rat
  og_LastUpdate :: time
  og_DataPoints :: int

definition NewTelemetryMonitor_orch :: orch_telemetry where
  "NewTelemetryMonitor_orch = \<lparr>tm_subscriptions = [], tm_data = [], tm_callbacks = [], tm_calls = []\<rparr>"

text \<open>The outcomes of the two calls of \<open>Subscribe\<close> are arguments.\<close>

definition StartMonitoring :: "string option \<Rightarrow> string option \<Rightarrow> orch_telemetry \<Rightarrow> string option \<times> orch_telemetry" where
  "StartMonitoring outcome1 outcome2 tm =
     (case outcome1 of
        Some err \<Rightarrow> (Some (''failed to subscribe to telemetry: '' @ err), tm)
      | None \<Rightarrow>
          let tm1 = tm\<lparr>tm_subscriptions := tm_subscriptions tm @ [''agent.telemetry'']\<rparr>
          in case outcome2 of
               Some err \<Rightarrow> (Some (''failed to subscribe to specific telemetry: '' @ err), tm1)
             | None \<Rightarrow> (None, tm1\<lparr>tm_subscriptions := tm_subscriptions tm1 @ [''agent.telemetry.*'']\<rparr>))"

text \<open>An error of \<open>Unsubscribe\<close> is logged; the table of subscriptions is emptied all the same.\<close>

definition StopMonitoring :: "orch_telemetry \<Rightarrow> orch_telemetry" where
  "StopMonitoring tm = tm\<lparr>tm_subscriptions := []\<rparr>"

definition extractTargetID :: "string \<Rightarrow> string" where
  "extractTargetID subject =
     (let parts = split_on (CHR ''.'') subject
      in if length parts \<ge> 3 \<and> parts ! 2 \<noteq> [] then parts ! 2 else [])"

definition message_target :: "string \<Rightarrow> string" where
  "message_target subject = (let t = extractTargetID subject in if t = [] then ''unknown'' else t)"

definition handleTelemetryMessage :: "(string \<Rightarrow> time option) \<Rightarrow> string \<times> gval option \<Rightarrow> orch_telemetry \<Rightarrow> orch_telemetry" where
  "handleTelemetryMessage parse msg tm =
     (case telemetry_of parse (snd msg) of
        None \<Rightarrow> tm
      | Some d \<Rightarrow>
          let targetID = message_target (fst msg)
          in tm\<lparr>tm_data := map_set targetID d (tm_data tm),
                tm_calls := tm_calls tm @ map (\<lambda>c. (c, targetID, d)) (tm_callbacks tm)\<rparr>)"

text \<open>NATS calls the handler once for every subscription that the subject matches.\<close>

definition deliver_telemetry ::
    "(string \<Rightarrow> string \<Rightarrow> bool) \<Rightarrow> (string \<Rightarrow> time option) \<Rightarrow> string \<times> gval option \<Rightarrow> orch_telemetry \<Rightarrow> orch_telemetry" where
  "deliver_telemetry matches parse msg tm =
     fold (\<lambda>_. handleTelemetryMessage parse msg) (filter (\<lambda>s. matches s (fst msg)) (tm_subscriptions tm)) tm"

definition AddCallback_telemetry :: "watch \<Rightarrow> orch_telemetry \<Rightarrow> orch_telemetry" where
  "AddCallback_telemetry c tm = tm\<lparr>tm_callbacks := tm_callbacks tm @ [c]\<rparr>"

definition GetTelemetryData :: "string \<Rightarrow> orch_telemetry \<Rightarrow> string + telemetryData" where
  "GetTelemetryData targetID tm =
     (case map_get (tm_data tm) targetID of
        None \<Rightarrow> Inl (''no telemetry data for target: '' @ targetID)
      | Some d \<Rightarrow> Inr d)"

definition GetAllTelemetryData :: "orch_telemetry \<Rightarrow> (string, telemetryData) gomap" where
  "GetAllTelemetryData tm = tm_data tm"

text \<open>The duration is not used: the aggregation is that of the last message.\<close>

definition GetTelemetryAggregation :: "string \<Rightarrow> duration \<Rightarrow> orch_telemetry \<Rightarrow> string + telemetryAggregation" where
  "GetTelemetryAggregation targetID dur tm =
     (case map_get (tm_data tm) targetID of
        None \<Rightarrow> Inl (''no telemetry data for target: '' @ targetID)
      | Some d \<Rightarrow> Inr
          \<lparr>og_TargetID = targetID, og_TotalViolations = od_Violations d, og_TotalErrors = od_Errors d,
           og_TotalPackets = od_PacketCount d, og_TotalBlocks = od_BlockCount d,
           og_AverageLatency = od_Latency d, og_MaxLatency = od_Latency d, og_MinLatency = od_Latency d,
           og_LastUpdate = od_LastUpdate d, og_DataPoints = 1\<rparr>)"

definition matchesFilter :: "string \<Rightarrow> telemetryData \<Rightarrow> telemetryFilter \<Rightarrow> bool" where
  "matchesFilter targetID d f =
     (if of_TargetIDs f \<noteq> [] \<and> \<not> list_ex (\<lambda>i. i = targetID) (of_TargetIDs f) then False
      else if of_MinViolations f > 0 \<and> od_Violations d < of_MinViolations f then False
      else if f_greater (of_MaxLatency f) (Fin 0) \<and> f_greater (Fin (od_Latency d)) (of_MaxLatency f) then False
      else if of_MinPacketCount f > 0 \<and> od_PacketCount d < of_MinPacketCount f then False
      else if of_AgentVersion f \<noteq> [] \<and> od_AgentVersion d \<noteq> of_AgentVersion f then False
      else True)"

definition FilterTelemetryData :: "telemetryFilter \<Rightarrow> orch_telemetry \<Rightarrow> (string, telemetryData) gomap" where
  "FilterTelemetryData f tm = filter (\<lambda>(targetID, d). matchesFilter targetID d f) (tm_data tm)"

text \<open>The message of \<open>PublishTelemetryRequest\<close>; the text of a time is the argument \<open>fmt_time\<close>.\<close>

definition telemetry_request :: "(time \<Rightarrow> string) \<Rightarrow> string list \<Rightarrow> string \<Rightarrow> time \<Rightarrow> time \<Rightarrow> string \<times> gval option" where
  "telemetry_request fmt_time targets requestType now1 now2 =
     (''agent.telemetry.request'', Some (VObj
       [(''type'', VStr requestType), (''targets'', VArr (map VStr targets)),
        (''timestamp'', VStr (fmt_time now1)), (''request_id'', VStr (''req-'' @ itoa now2))]))"

definition PublishTelemetryRequest ::
    "(time \<Rightarrow> string) \<Rightarrow> string option \<Rightarrow> string list \<Rightarrow> string \<Rightarrow> time \<Rightarrow> time \<Rightarrow> string + (string \<times> gval option)" where
  "PublishTelemetryRequest fmt_time outcome targets requestType now1 now2 =
     (case outcome of
        Some err \<Rightarrow> Inl (''failed to publish telemetry request: '' @ err)
      | None \<Rightarrow> Inr (telemetry_request fmt_time targets requestType now1 now2))"

section \<open>Handlers\<close>

datatype telemetry_reply =
    TelemetryError nat string
  | TelemetryShown "(string, telemetryData) gomap"
  | TelemetryOne telemetryData
  | TelemetryAggregated telemetryAggregation

definition no_filter :: telemetryFilter where
  "no_filter = \<lparr>of_TargetIDs = [], of_MinViolations = 0, of_MaxLatency = Fin 0, of_MinPacketCount = 0,
     of_AgentVersion = []\<rparr>"

definition handleGetTelemetry ::
    "(string \<Rightarrow> float64 option) \<Rightarrow> string \<Rightarrow> string \<Rightarrow> string \<Rightarrow> orch_telemetry \<Rightarrow> telemetry_reply" where
  "handleGetTelemetry parse_float targetID minViolations maxLatency tm =
     (let filters = minViolations \<noteq> [] \<or> maxLatency \<noteq> [];
          f0 = no_filter;
          f1 = (if minViolations \<noteq> [] then case atoi minViolations of Some v \<Rightarrow> f0\<lparr>of_MinViolations := v\<rparr> | None \<Rightarrow> f0
                else f0);
          f2 = (if maxLatency \<noteq> [] then case parse_float maxLatency of Some v \<Rightarrow> f1\<lparr>of_MaxLatency := v\<rparr> | None \<Rightarrow> f1
                else f1);
          found = (if targetID \<noteq> [] then
                     case GetTelemetryData targetID tm of
                       Inl err \<Rightarrow> None
                     | Inr d \<Rightarrow> Some [(targetID, d)]
                   else Some (GetAllTelemetryData tm))
      in case found of
           None \<Rightarrow> TelemetryError 404 ''Telemetry data not found''
         | Some shown \<Rightarrow> TelemetryShown (if filters then FilterTelemetryData f2 tm else shown))"

definition handleGetTargetTelemetry :: "string \<Rightarrow> orch_telemetry \<Rightarrow> telemetry_reply" where
  "handleGetTargetTelemetry targetID tm =
     (case GetTelemetryData targetID tm of
        Inl err \<Rightarrow> TelemetryError 404 ''Telemetry data not found''
      | Inr d \<Rightarrow> TelemetryOne d)"

definition handleGetTelemetryAggregation ::
    "(string \<Rightarrow> duration option) \<Rightarrow> string \<Rightarrow> string \<Rightarrow> orch_telemetry \<Rightarrow> telemetry_reply" where
  "handleGetTelemetryAggregation parseDuration targetID durationStr tm =
     (let dur = (if durationStr \<noteq> [] then case parseDuration durationStr of Some d \<Rightarrow> d | None \<Rightarrow> 3600000000000
                 else 3600000000000)
      in case GetTelemetryAggregation targetID dur tm of
           Inl err \<Rightarrow> TelemetryError 404 ''Aggregation data not found''
         | Inr a \<Rightarrow> TelemetryAggregated a)"

record rollout_metrics =
  oc_total :: nat
  oc_successful :: nat
  oc_failed :: nat
  oc_rollback :: nat
  oc_targets :: nat
  oc_violations :: int
  oc_errors :: int

definition handleGetMetrics :: "rollout_manager \<Rightarrow> orch_telemetry \<Rightarrow> rollout_metrics" where
  "handleGetMetrics rm tm =
     (let rollouts = ListActiveRollouts rm;
          count = (\<lambda>s. length (filter (\<lambda>r. op_Status r = s) rollouts));
          targets = map_values (GetAllTelemetryData tm);
          total_of = (\<lambda>f. foldl (\<lambda>acc d. wrap64 (acc + f d)) 0 targets)
      in \<lparr>oc_total = length rollouts, oc_successful = count ''success'', oc_failed = count ''failed'',
          oc_rollback = count ''rollback'', oc_targets = length targets,
          oc_violations = total_of od_Violations, oc_errors = total_of od_Errors\<rparr>)"

end
