(* ===== verification/Orch_TelemetryProperties.thy ===== *)
theory Orch_TelemetryProperties
  imports Orch_Telemetry
begin

text \<open>
  What the telemetry monitor shows: for every target the last message that was decoded for it, and what
  the filters, the watches and the request for telemetry do with that.
\<close>

section \<open>The last message of a target\<close>

definition received :: "(string \<Rightarrow> string \<Rightarrow> bool) \<Rightarrow> orch_telemetry \<Rightarrow> string \<times> gval option \<Rightarrow> bool" where
  "received matches tm msg \<longleftrightarrow> list_ex (\<lambda>s. matches s (fst msg)) (tm_subscriptions tm)"

text \<open>The specification: the last decodable message whose subject names the target.\<close>

definition last_telemetry :: "(string \<Rightarrow> time option) \<Rightarrow> string \<Rightarrow> (string \<times> gval option) list \<Rightarrow> telemetryData option" where
  "last_telemetry parse target msgs =
     foldl (\<lambda>acc msg. case telemetry_of parse (snd msg) of
              None \<Rightarrow> acc
            | Some d \<Rightarrow> if message_target (fst msg) = target then Some d else acc) None msgs"

lemma handle_telemetry_simps [simp]:
  "tm_subscriptions (handleTelemetryMessage parse msg tm) = tm_subscriptions tm"
  "tm_callbacks (handleTelemetryMessage parse msg tm) = tm_callbacks tm"
  "map_get (tm_data (handleTelemetryMessage parse msg tm)) t =
     (case telemetry_of parse (snd msg) of
        None \<Rightarrow> map_get (tm_data tm) t
      | Some d \<Rightarrow> if message_target (fst msg) = t then Some d else map_get (tm_data tm) t)"
  by (auto simp: handleTelemetryMessage_def Let_def split: option.split)

lemma handle_telemetry_repeat:
  "tm_subscriptions (fold (\<lambda>_. handleTelemetryMessage parse msg) xs tm) = tm_subscriptions tm \<and>
   map_get (tm_data (fold (\<lambda>_. handleTelemetryMessage parse msg) xs tm)) t =
     (if xs = [] then map_get (tm_data tm) t else map_get (tm_data (handleTelemetryMessage parse msg tm)) t)"
  by (induction xs arbitrary: tm) (auto split: option.split)

lemma deliver_telemetry_simps [simp]:
  "tm_subscriptions (deliver_telemetry matches parse msg tm) = tm_subscriptions tm"
  "map_get (tm_data (deliver_telemetry matches parse msg tm)) t =
     (if received matches tm msg then map_get (tm_data (handleTelemetryMessage parse msg tm)) t
      else map_get (tm_data tm) t)"
  by (simp_all add: deliver_telemetry_def handle_telemetry_repeat received_def list_ex_iff filter_empty_conv
        del: handle_telemetry_simps)

lemma received_deliver [simp]:
  "received matches (deliver_telemetry matches' parse msg tm) = received matches tm"
  by (intro ext) (simp add: received_def)

lemma last_telemetry_snoc:
  "last_telemetry parse t (msgs @ [msg]) =
     (case telemetry_of parse (snd msg) of
        None \<Rightarrow> last_telemetry parse t msgs
      | Some d \<Rightarrow> if message_target (fst msg) = t then Some d else last_telemetry parse t msgs)"
  unfolding last_telemetry_def by simp

lemma deliver_all_subscriptions:
  "tm_subscriptions (fold (deliver_telemetry matches parse) msgs tm) = tm_subscriptions tm"
  by (induction msgs arbitrary: tm) auto

lemma received_all [simp]:
  "received matches (fold (deliver_telemetry matches' parse) msgs tm) = received matches tm"
  by (intro ext) (simp add: received_def deliver_all_subscriptions)

text \<open>
  After any sequence of messages the monitor shows for a target the last decodable message, among
  those its subscriptions match, whose subject names the target; a message that matches several
  subscriptions, or cannot be decoded, makes no difference to what is shown.
\<close>

lemma telemetry_current:
  "map_get (tm_data (fold (deliver_telemetry matches parse) msgs tm)) t =
     (case last_telemetry parse t (filter (received matches tm) msgs) of
        None \<Rightarrow> map_get (tm_data tm) t
      | Some d \<Rightarrow> Some d)"
proof (induction msgs rule: rev_induct)
  case Nil
  then show ?case by (simp add: last_telemetry_def)
next
  case (snoc msg msgs)
  then show ?case by (auto simp: last_telemetry_snoc split: option.splits)
qed

section \<open>The request for telemetry\<close>

lemma request_decodes:
  "telemetry_of parse (snd (telemetry_request fmt_time targets ty now1 now2)) = Some zero_telemetryData"
  by (simp add: telemetry_request_def telemetry_field_def equal_fold_def to_lower_def lower_char_def Let_def)

lemma request_target: "message_target ''agent.telemetry.request'' = ''request''"
  by code_simp

text \<open>
  A request for telemetry comes back to the monitor that published it: its subject matches the
  monitor's own subscription, and the monitor records a target called request without violations or
  errors.
\<close>

lemma telemetry_request_recorded:
  assumes "''agent.telemetry.*'' \<in> set (tm_subscriptions tm)"
    and "matches ''agent.telemetry.*'' ''agent.telemetry.request''"
    and "PublishTelemetryRequest fmt_time None targets ty now1 now2 = Inr msg"
  shows "GetTelemetryData ''request'' (deliver_telemetry matches parse msg tm) = Inr zero_telemetryData"
proof -
  have msg: "msg = telemetry_request fmt_time targets ty now1 now2"
    using assms(3) by (simp add: PublishTelemetryRequest_def)
  then have "fst msg = ''agent.telemetry.request''" by (simp add: telemetry_request_def)
  moreover from this have "received matches tm msg" using assms(1,2) by (auto simp: received_def list_ex_iff)
  ultimately show ?thesis
    using request_decodes [of parse fmt_time targets ty now1 now2] request_target
    by (simp add: GetTelemetryData_def msg [symmetric])
qed

definition ex_matches :: "string \<Rightarrow> string \<Rightarrow> bool" where
  "ex_matches pattern subject \<longleftrightarrow>
     (let ps = split_on (CHR ''.'') pattern; ss = split_on (CHR ''.'') subject
      in length ps = length ss \<and> list_all2 (\<lambda>p s. p = ''*'' \<or> p = s) ps ss)"

lemma telemetry_request_recorded_witness:
  "GetTelemetryData ''request''
     (deliver_telemetry ex_matches (\<lambda>_. None) (telemetry_request (\<lambda>_. []) [''h''] ''all'' 0 0)
       (snd (StartMonitoring None None NewTelemetryMonitor_orch))) = Inr zero_telemetryData"
proof (rule telemetry_request_recorded)
  show "''agent.telemetry.*'' \<in> set (tm_subscriptions (snd (StartMonitoring None None NewTelemetryMonitor_orch)))"
    by (simp add: StartMonitoring_def NewTelemetryMonitor_orch_def)
  show "ex_matches ''agent.telemetry.*'' ''agent.telemetry.request''" by code_simp
  show "PublishTelemetryRequest (\<lambda>_. []) None [''h''] ''all'' 0 0 = Inr (telemetry_request (\<lambda>_. []) [''h''] ''all'' 0 0)"
    by (simp add: PublishTelemetryRequest_def)
qed

section \<open>Filters, watches and handlers\<close>

lemma matchesFilter_iff:
  "matchesFilter t d f \<longleftrightarrow>
     (of_TargetIDs f = [] \<or> t \<in> set (of_TargetIDs f)) \<and>
     (of_MinViolations f \<le> 0 \<or> of_MinViolations f \<le> od_Violations d) \<and>
     (\<not> f_greater (of_MaxLatency f) (Fin 0) \<or> \<not> f_greater (Fin (od_Latency d)) (of_MaxLatency f)) \<and>
     (of_MinPacketCount f \<le> 0 \<or> of_MinPacketCount f \<le> od_PacketCount d) \<and>
     (of_AgentVersion f = [] \<or> od_AgentVersion d = of_AgentVersion f)"
  by (auto simp: matchesFilter_def list_ex_iff)

text \<open>With a filter, the target of the request only decides whether the answer is an error.\<close>

lemma filters_ignore_target:
  assumes "minViolations \<noteq> [] \<or> maxLatency \<noteq> []" and "GetTelemetryData targetID tm = Inr d"
  shows "handleGetTelemetry pf targetID minViolations maxLatency tm = handleGetTelemetry pf [] minViolations maxLatency tm"
  using assms by (simp add: handleGetTelemetry_def Let_def)

text \<open>A watch reports a decoded message exactly when it reaches the threshold.\<close>

lemma watch_calls:
  assumes "telemetry_of parse (snd msg) = Some d" and "c \<in> set (tm_callbacks tm)"
  shows "(c, message_target (fst msg), d) \<in> set (tm_calls (handleTelemetryMessage parse msg tm))"
  using assms by (simp add: handleTelemetryMessage_def Let_def)

lemma violation_watch:
  "watch_report (WatchForViolations n) t d \<noteq> None \<longleftrightarrow> n \<le> od_Violations d"
  "watch_report (WatchForErrors n) t d \<noteq> None \<longleftrightarrow> n \<le> od_Errors d"
  "watch_report (WatchForLatency x) t d \<noteq> None \<longleftrightarrow> x \<le> od_Latency d"
  by simp_all

lemma metrics_consistent:
  "oc_successful (handleGetMetrics rm tm) + oc_failed (handleGetMetrics rm tm) + oc_rollback (handleGetMetrics rm tm)
     \<le> oc_total (handleGetMetrics rm tm)"
proof -
  have "length (filter (\<lambda>r. op_Status r = ''success'') rs) + length (filter (\<lambda>r. op_Status r = ''failed'') rs) +
      length (filter (\<lambda>r. op_Status r = ''rollback'') rs) \<le> length rs" for rs
    by (induction rs) auto
  then show ?thesis by (simp add: handleGetMetrics_def Let_def)
qed

end
