(* ===== verification/Orch_Render.thy ===== *)
theory Orch_Render
  imports Prelude
begin

text \<open>
  Rendering of eBPF templates: \<open>render.go\<close> and \<open>errors.go\<close> under \<open>src/backend/orchestrator/internal/ebpf\<close>, on a
  file system of directories and regular files. What the operating system can refuse is the argument
  \<open>io\<close>: the error, if any, of an operation on a path. The compiler run is the argument \<open>runMake\<close>. A walk sees
  the directory as it was when it began; patterns are the directory names without special characters
  that the service makes.
\<close>

section \<open>Paths\<close>

definition rooted :: "string \<Rightarrow> bool" where
  "rooted p \<longleftrightarrow> p \<noteq> [] \<and> hd p = CHR ''/''"

definition clean_step :: "bool \<Rightarrow> string list \<Rightarrow> string \<Rightarrow> string list" where
  "clean_step r acc s =
     (if s = [] \<or> s = ''.'' then acc
      else if s = ''..'' then
        if acc \<noteq> [] \<and> last acc \<noteq> ''..'' then butlast acc
        else if r then acc else acc @ [s]
      else acc @ [s])"

definition path_parts :: "string \<Rightarrow> string list" where
  "path_parts p = foldl (clean_step (rooted p)) [] (split_on (CHR ''/'') p)"

definition path_clean :: "string \<Rightarrow> string" where
  "path_clean p =
     (let s = (if rooted p then ''/'' else []) @ join_with ''/'' (path_parts p) in if s = [] then ''.'' else s)"

definition path_join :: "string list \<Rightarrow> string" where
  "path_join es =
     (let ne = filter (\<lambda>e. e \<noteq> []) es in if ne = [] then [] else path_clean (join_with ''/'' ne))"

definition path_dir :: "string \<Rightarrow> string" where
  "path_dir p = path_clean (rev (dropWhile (\<lambda>c. c \<noteq> CHR ''/'') (rev p)))"

definition path_abs :: "string \<Rightarrow> string \<Rightarrow> string" where
  "path_abs cwd p = (if rooted p then path_clean p else path_join [cwd, p])"

section \<open>The file system\<close>

datatype fs_node =
    DirNode nat
  | FileNode nat string time

type_synonym file_system = "(string, fs_node) gomap"
type_synonym io_faults = "string \<Rightarrow> string \<Rightarrow> string option"

record ebpf_env =
  ev_fs :: file_system
  ev_cwd :: string

definition fs_lookup :: "ebpf_env \<Rightarrow> string \<Rightarrow> fs_node option" where
  "fs_lookup env p = map_get (ev_fs env) (path_abs (ev_cwd env) p)"

definition fs_set :: "string \<Rightarrow> fs_node \<Rightarrow> ebpf_env \<Rightarrow> ebpf_env" where
  "fs_set p n env = env\<lparr>ev_fs := map_set (path_abs (ev_cwd env) p) n (ev_fs env)\<rparr>"

definition node_mode :: "fs_node \<Rightarrow> nat" where
  "node_mode n = (case n of DirNode m \<Rightarrow> m | FileNode m c t \<Rightarrow> m)"

definition is_dir :: "fs_node \<Rightarrow> bool" where
  "is_dir n = (case n of DirNode m \<Rightarrow> True | FileNode m c t \<Rightarrow> False)"

text \<open>The paths from the root to an absolute path.\<close>

definition path_prefixes :: "string \<Rightarrow> string list" where
  "path_prefixes p =
     (let cs = path_parts p in map (\<lambda>k. ''/'' @ join_with ''/'' (take (Suc k) cs)) [0..<length cs])"

fun make_dirs :: "nat \<Rightarrow> string list \<Rightarrow> ebpf_env \<Rightarrow> string option \<times> ebpf_env" where
  "make_dirs mode [] env = (None, env)"
| "make_dirs mode (p # ps) env =
     (case fs_lookup env p of
        Some n \<Rightarrow> if is_dir n then make_dirs mode ps env else (Some (''mkdir '' @ p @ '': not a directory''), env)
      | None \<Rightarrow> make_dirs mode ps (fs_set p (DirNode mode) env))"

definition MkdirAll :: "io_faults \<Rightarrow> nat \<Rightarrow> string \<Rightarrow> ebpf_env \<Rightarrow> string option \<times> ebpf_env" where
  "MkdirAll io mode p env =
     (case io ''mkdir'' p of
        Some err \<Rightarrow> (Some err, env)
      | None \<Rightarrow> make_dirs mode (path_prefixes (path_abs (ev_cwd env) p)) env)"

definition ReadFile :: "io_faults \<Rightarrow> string \<Rightarrow> ebpf_env \<Rightarrow> string + string" where
  "ReadFile io p env =
     (case io ''read'' p of
        Some err \<Rightarrow> Inl err
      | None \<Rightarrow>
          (case fs_lookup env p of
             Some (FileNode m c t) \<Rightarrow> Inr c
           | Some (DirNode m) \<Rightarrow> Inl (''read '' @ p @ '': is a directory'')
           | None \<Rightarrow> Inl (''open '' @ p @ '': no such file or directory'')))"

text \<open>A file is created or truncated; one that exists keeps its mode.\<close>

definition WriteFile :: "io_faults \<Rightarrow> nat \<Rightarrow> time \<Rightarrow> string \<Rightarrow> string \<Rightarrow> ebpf_env \<Rightarrow> string option \<times> ebpf_env" where
  "WriteFile io mode now p content env =
     (case io ''write'' p of
        Some err \<Rightarrow> (Some err, env)
      | None \<Rightarrow>
          (case fs_lookup env (path_dir (path_abs (ev_cwd env) p)) of
             Some (DirNode m) \<Rightarrow>
               (case fs_lookup env p of
                  Some (DirNode m') \<Rightarrow> (Some (''open '' @ p @ '': is a directory''), env)
                | Some (FileNode m' c t) \<Rightarrow> (None, fs_set p (FileNode m' content now) env)
                | None \<Rightarrow> (None, fs_set p (FileNode mode content now) env))
           | _ \<Rightarrow> (Some (''open '' @ p @ '': no such file or directory''), env)))"

text \<open>
  \<open>filepath.Walk\<close>: the root, called \<open>.\<close>, and all below it with their paths relative to the root, in the
  lexical order of their components.
\<close>

definition below :: "string \<Rightarrow> string \<Rightarrow> bool" where
  "below base p \<longleftrightarrow> prefix (if base = ''/'' then base else base @ ''/'') p \<and> p \<noteq> base"

definition fs_walk :: "ebpf_env \<Rightarrow> string \<Rightarrow> (string \<times> fs_node) list" where
  "fs_walk env base =
     (let r = path_abs (ev_cwd env) base; start = length (if r = ''/'' then r else r @ ''/'')
      in case fs_lookup env base of
           None \<Rightarrow> []
         | Some n \<Rightarrow>
             (''.'', n) #
             (if is_dir n then
                sort_key (\<lambda>e. split_on (CHR ''/'') (fst e))
                  (map (\<lambda>(p, m). (drop start p, m)) (filter (\<lambda>(p, m). below r p) (ev_fs env)))
              else []))"

section \<open>Rendering\<close>

record renderParams =
  rp_TemplateName :: string
  rp_Parameters :: "(string, string) gomap"
  rp_TargetArch :: string
  rp_KernelVer :: string
  rp_BuildID :: string

record renderResult =
  rr_ObjectPath :: string
  rr_BuildLog :: string
  rr_BuildTime :: duration
  rr_Metadata :: "(string, string) gomap"
  rr_CompiledSize :: nat

record renderer =
  rn_templatesDir :: string
  rn_outputDir :: string
  rn_registryURL :: string

text \<open>
  The compiler: directory, environment and files to its output, its error and the files it leaves.
\<close>

type_synonym make_run = "string \<Rightarrow> (string \<times> string) list \<Rightarrow> file_system \<Rightarrow> (string \<times> string option) \<times> file_system"

definition placeholder :: "string \<Rightarrow> string" where
  "placeholder key = ''{{'' @ key @ ''}}''"

definition substituteParams :: "string \<Rightarrow> (string, string) gomap \<Rightarrow> string" where
  "substituteParams content params =
     foldl (\<lambda>result (key, val). replace_all result (placeholder key) val) content params"

text \<open>The walk of \<open>copyTemplate\<close>; it stops at the first error.\<close>

fun copy_entries ::
    "io_faults \<Rightarrow> time \<Rightarrow> string \<Rightarrow> string \<Rightarrow> (string, string) gomap \<Rightarrow> (string \<times> fs_node) list \<Rightarrow> ebpf_env \<Rightarrow> string option \<times> ebpf_env" where
  "copy_entries io now srcDir dstDir params [] env = (None, env)"
| "copy_entries io now srcDir dstDir params ((rel, n) # es) env =
     (case io ''walk'' (path_join [srcDir, rel]) of
        Some err \<Rightarrow> (Some err, env)
      | None \<Rightarrow>
          let dstPath = path_join [dstDir, rel]
          in if is_dir n then
               (case MkdirAll io (node_mode n) dstPath env of
                  (Some err, env1) \<Rightarrow> (Some err, env1)
                | (None, env1) \<Rightarrow> copy_entries io now srcDir dstDir params es env1)
             else
               (case ReadFile io (path_join [srcDir, rel]) env of
                  Inl err \<Rightarrow> (Some err, env)
                | Inr content \<Rightarrow>
                    (case WriteFile io (node_mode n) now dstPath (substituteParams content params) env of
                       (Some err, env1) \<Rightarrow> (Some err, env1)
                     | (None, env1) \<Rightarrow> copy_entries io now srcDir dstDir params es env1)))"

definition copyTemplate ::
    "io_faults \<Rightarrow> time \<Rightarrow> string \<Rightarrow> string \<Rightarrow> (string, string) gomap \<Rightarrow> ebpf_env \<Rightarrow> string option \<times> ebpf_env" where
  "copyTemplate io now srcDir dstDir params env =
     (case fs_lookup env srcDir of
        None \<Rightarrow> (Some (''lstat '' @ srcDir @ '': no such file or directory''), env)
      | Some n \<Rightarrow> copy_entries io now srcDir dstDir params (fs_walk env srcDir) env)"

text \<open>\<open>filepath.Glob\<close> for the objects of a directory.\<close>

definition glob_objects :: "ebpf_env \<Rightarrow> string \<Rightarrow> string list" where
  "glob_objects env dir =
     (let d = path_abs (ev_cwd env) dir
      in map (\<lambda>name. path_join [dir, name])
           (sort (filter (\<lambda>name. CHR ''/'' \<notin> set name \<and> suffix ''.bpf.o'' name)
             (map (\<lambda>(p, n). drop (Suc (length d)) p) (filter (\<lambda>(p, n). below d p) (ev_fs env))))))"

definition make_env :: "renderParams \<Rightarrow> (string \<times> string) list" where
  "make_env params =
     (if rp_TargetArch params \<noteq> [] then [(''ARCH'', rp_TargetArch params)] else []) @
     (if rp_KernelVer params \<noteq> [] then [(''KERNEL_VERSION'', rp_KernelVer params)] else [])"

text \<open>
  The working directory is changed to the render directory before the compiler runs in that directory,
  and changed back at the end; a relative name is resolved against the working directory each time.
\<close>

definition compileBPF ::
    "io_faults \<Rightarrow> make_run \<Rightarrow> string \<Rightarrow> renderParams \<Rightarrow> ebpf_env \<Rightarrow> (string + (string \<times> string)) \<times> ebpf_env" where
  "compileBPF io runMake renderDir params env =
     (case io ''getwd'' [] of
        Some err \<Rightarrow> (Inl (''failed to get current directory: '' @ err), env)
      | None \<Rightarrow>
          (case fs_lookup env renderDir of
             Some (DirNode m) \<Rightarrow>
               (case io ''chdir'' renderDir of
                  Some err \<Rightarrow> (Inl (''failed to change to render directory: '' @ err), env)
                | None \<Rightarrow>
                    let env1 = env\<lparr>ev_cwd := path_abs (ev_cwd env) renderDir\<rparr>
                    in case fs_lookup env1 renderDir of
                         Some (DirNode m') \<Rightarrow>
                           (case runMake (path_abs (ev_cwd env1) renderDir) (make_env params) (ev_fs env1) of
                              ((buildLog, Some err), fs) \<Rightarrow> (Inl (''make failed: '' @ err), env\<lparr>ev_fs := fs\<rparr>)
                            | ((buildLog, None), fs) \<Rightarrow>
                                (case glob_objects (env1\<lparr>ev_fs := fs\<rparr>) renderDir of
                                   [] \<Rightarrow> (Inl ''no compiled object found'', env\<lparr>ev_fs := fs\<rparr>)
                                 | object # rest \<Rightarrow> (Inr (object, buildLog), env\<lparr>ev_fs := fs\<rparr>)))
                       | _ \<Rightarrow> (Inl (''make failed: chdir '' @ renderDir @ '': no such file or directory''), env))
           | _ \<Rightarrow> (Inl (''failed to change to render directory: chdir '' @ renderDir @ '': no such file or directory''), env)))"

definition render_id :: "renderParams \<Rightarrow> time \<Rightarrow> string" where
  "render_id params now = rp_TemplateName params @ ''_'' @ itoa (now div 1000000000)"

definition render_metadata :: "(duration \<Rightarrow> string) \<Rightarrow> renderParams \<Rightarrow> string \<Rightarrow> duration \<Rightarrow> (string, string) gomap" where
  "render_metadata fmt_duration params renderID buildTime =
     foldl (\<lambda>m (key, val). map_set (''param_'' @ key) val m)
       [(''template_name'', rp_TemplateName params), (''render_id'', renderID), (''target_arch'', rp_TargetArch params),
        (''kernel_ver'', rp_KernelVer params), (''build_id'', rp_BuildID params), (''build_time'', fmt_duration buildTime)]
       (rp_Parameters params)"

text \<open>\<open>now0\<close> is the start, \<open>now1\<close> the time of the render directory's name, \<open>now2\<close> the end.\<close>

definition Render ::
    "io_faults \<Rightarrow> make_run \<Rightarrow> (duration \<Rightarrow> string) \<Rightarrow> renderer \<Rightarrow> renderParams \<Rightarrow> time \<Rightarrow> time \<Rightarrow> time \<Rightarrow> ebpf_env \<Rightarrow> (string + renderResult) \<times> ebpf_env" where
  "Render io runMake fmt_duration rn params now0 now1 now2 env =
     (let templatePath = path_join [rn_templatesDir rn, rp_TemplateName params];
          renderID = render_id params now1;
          renderDir = path_join [rn_outputDir rn, renderID]
      in if fs_lookup env templatePath = None
         then (Inl (''template not found: '' @ rp_TemplateName params), env)
         else
           (case MkdirAll io 493 renderDir env of
              (Some err, env1) \<Rightarrow> (Inl (''failed to create render directory: '' @ err), env1)
            | (None, env1) \<Rightarrow>
                (case copyTemplate io now1 templatePath renderDir (rp_Parameters params) env1 of
                   (Some err, env2) \<Rightarrow> (Inl (''failed to copy template: '' @ err), env2)
                 | (None, env2) \<Rightarrow>
                     (case compileBPF io runMake renderDir params env2 of
                        (Inl err, env3) \<Rightarrow> (Inl (''failed to compile BPF object: '' @ err), env3)
                      | (Inr (objectPath, buildLog), env3) \<Rightarrow>
                          (case fs_lookup env3 objectPath of
                             None \<Rightarrow> (Inl (''failed to stat compiled object: stat '' @ objectPath @
                                          '': no such file or directory''), env3)
                           | Some n \<Rightarrow>
                               let buildTime = time_sub now2 now0
                               in (Inr \<lparr>rr_ObjectPath = objectPath, rr_BuildLog = buildLog, rr_BuildTime = buildTime,
                                        rr_Metadata = render_metadata fmt_duration params renderID buildTime,
                                        rr_CompiledSize = (case n of FileNode m c t \<Rightarrow> length c | DirNode m \<Rightarrow> 0)\<rparr>,
                                   env3))))))"

text \<open>A directory below the templates that has a makefile is a template, at any depth.\<close>

definition GetAvailableTemplates :: "renderer \<Rightarrow> ebpf_env \<Rightarrow> string list" where
  "GetAvailableTemplates rn env =
     map fst (filter (\<lambda>(rel, n). is_dir n \<and> rel \<noteq> ''.'' \<and>
       fs_lookup env (path_join [rn_templatesDir rn, rel, ''Makefile'']) \<noteq> None) (fs_walk env (rn_templatesDir rn)))"

definition ValidateTemplate :: "(string \<Rightarrow> string option) \<Rightarrow> renderer \<Rightarrow> string \<Rightarrow> ebpf_env \<Rightarrow> string option" where
  "ValidateTemplate make_dry rn templateName env =
     (let templatePath = path_join [rn_templatesDir rn, templateName];
          missing = (\<lambda>file. fs_lookup env (path_join [templatePath, file]) = None)
      in if fs_lookup env templatePath = None then Some (''template not found: '' @ templateName)
         else if missing ''Makefile'' then Some (''required file not found: '' @ templateName @ ''/Makefile'')
         else if missing ''src'' then Some (''required file not found: '' @ templateName @ ''/src'')
         else (case make_dry templatePath of
                 Some err \<Rightarrow> Some (''invalid Makefile in template '' @ templateName @ '': '' @ err)
               | None \<Rightarrow> None))"

section \<open>Errors with a code\<close>

text \<open>A nil map is \<^const>\<open>None\<close>.\<close>

datatype orch_error =
    PlainError string
  | OrchestrationError string string "orch_error option" "(string, gval) gomap option"

fun error_text :: "orch_error \<Rightarrow> string" where
  "error_text (PlainError s) = s"
| "error_text (OrchestrationError ty msg (Some cause) ctx) = ty @ '': '' @ msg @ '' (caused by: '' @ error_text cause @ '')''"
| "error_text (OrchestrationError ty msg None ctx) = ty @ '': '' @ msg"

fun error_unwrap :: "orch_error \<Rightarrow> orch_error option" where
  "error_unwrap (OrchestrationError ty msg cause ctx) = cause"
| "error_unwrap (PlainError s) = None"

definition NewRenderError :: "string \<Rightarrow> orch_error option \<Rightarrow> (string, gval) gomap option \<Rightarrow> orch_error" where
  "NewRenderError message cause ctx = OrchestrationError ''RenderError'' message cause ctx"

definition NewPackError :: "string \<Rightarrow> orch_error option \<Rightarrow> (string, gval) gomap option \<Rightarrow> orch_error" where
  "NewPackError message cause ctx = OrchestrationError ''PackError'' message cause ctx"

definition NewRegistryError :: "string \<Rightarrow> orch_error option \<Rightarrow> (string, gval) gomap option \<Rightarrow> orch_error" where
  "NewRegistryError message cause ctx = OrchestrationError ''RegistryError'' message cause ctx"

definition NewValidationError :: "string \<Rightarrow> orch_error option \<Rightarrow> (string, gval) gomap option \<Rightarrow> orch_error" where
  "NewValidationError message cause ctx = OrchestrationError ''ValidationError'' message cause ctx"

fun GetErrorCode :: "orch_error \<Rightarrow> string" where
  "GetErrorCode (OrchestrationError ty msg cause (Some ctx)) =
     (case map_get ctx ''error_code'' of Some (VStr code) \<Rightarrow> code | _ \<Rightarrow> ''UNKNOWN_ERROR'')"
| "GetErrorCode _ = ''UNKNOWN_ERROR''"

definition IsRetryableError :: "orch_error \<Rightarrow> bool" where
  "IsRetryableError err = list_ex (\<lambda>c. c = GetErrorCode err) [''REGISTRY_UNAVAILABLE'', ''TIMEOUT'', ''AUTHENTICATION_FAILED'']"

definition merge_context :: "(string, gval) gomap \<Rightarrow> (string, gval) gomap \<Rightarrow> (string, gval) gomap" where
  "merge_context old new = foldl (\<lambda>m (k, v). map_set k v m) old new"

fun WrapError :: "orch_error option \<Rightarrow> string \<Rightarrow> (string, gval) gomap option \<Rightarrow> orch_error option" where
  "WrapError None message ctx = None"
| "WrapError (Some (OrchestrationError ty msg cause old)) message ctx =
     Some (OrchestrationError ty (message @ '': '' @ msg) cause
       (Some (merge_context (case old of None \<Rightarrow> [] | Some m \<Rightarrow> m) (case ctx of None \<Rightarrow> [] | Some m \<Rightarrow> m))))"
| "WrapError (Some (PlainError s)) message ctx =
     Some (OrchestrationError ''WrappedError'' message (Some (PlainError s)) ctx)"

end
