(* ===== verification/Orch_Package.thy ===== *)
theory Orch_Package
  imports Orch_Render
begin

text \<open>
  Packages of rendered programs, their upload and the whole orchestration: \<open>pack.go\<close>, \<open>registry.go\<close> and
  \<open>orchestrator.go\<close> under \<open>src/backend/orchestrator/internal/ebpf\<close>. The archive format with its compression
  is the arguments \<open>encode\<close> and \<open>decode\<close>, the JSON of the metadata \<open>marshal\<close> and \<open>unmarshal\<close>.
\<close>

section \<open>Packages\<close>

record buildInfo =
  bi_BuildTime :: duration
  bi_BuildLog :: string
  bi_Compiler :: string
  bi_CompilerVer :: string
  bi_BuildFlags :: "string list"
  bi_ObjectSize :: nat

record packageMetadata =
  pm_TemplateName :: string
  pm_Version :: string
  pm_Architecture :: string
  pm_KernelVersion :: string
  pm_BuildID :: string
  pm_CreatedAt :: time
  pm_Parameters :: "(string, string) gomap"
  pm_BuildInfo :: buildInfo
  pm_Checksums :: "(string, string) gomap"

record packageResult =
  pr_PackagePath :: string
  pr_PackageSize :: nat
  pr_Metadata :: packageMetadata
  pr_Files :: "string list"
  pr_Checksum :: string

record tar_entry =
  te_Name :: string
  te_Mode :: nat
  te_Data :: string

text \<open>
  The archive: \<open>encode\<close> is the finished file, and \<open>flushed\<close> how much of it is written while the archive and
  the compressor are still open. Reading gives the entries up to the first error.
\<close>

record archive =
  ar_encode :: "tar_entry list \<Rightarrow> string"
  ar_flushed :: "tar_entry list \<Rightarrow> nat"
  ar_decode :: "string \<Rightarrow> tar_entry list \<times> string option"
  ar_marshal :: "packageMetadata \<Rightarrow> string"
  ar_unmarshal :: "string \<Rightarrow> packageMetadata + string"

fun nat_hex :: "nat \<Rightarrow> string" where
  "nat_hex n = (let d = (\<lambda>k. char_of (if k < 10 then 48 + k else 87 + k))
                in if n < 16 then [d n] else nat_hex (n div 16) @ [d (n mod 16)])"

declare nat_hex.simps [simp del]

text \<open>The checksum of a file is the length of its contents.\<close>

definition calculateChecksum :: "string \<Rightarrow> string" where
  "calculateChecksum contents = nat_hex (length contents)"

text \<open>The calls that put one file into the archive, in their order.\<close>

datatype pack_stage = OpenStage | StatStage | ChecksumStage | SeekStage | TarStage

fun stage_name :: "pack_stage \<Rightarrow> string" where
  "stage_name OpenStage = ''open''"
| "stage_name StatStage = ''stat''"
| "stage_name ChecksumStage = ''read''"
| "stage_name SeekStage = ''seek''"
| "stage_name TarStage = ''tar''"

fun first_fault :: "io_faults \<Rightarrow> string \<Rightarrow> pack_stage list \<Rightarrow> (pack_stage \<times> string) option" where
  "first_fault io p [] = None"
| "first_fault io p (s # ss) = (case io (stage_name s) p of Some err \<Rightarrow> Some (s, err) | None \<Rightarrow> first_fault io p ss)"

definition pack_file :: "io_faults \<Rightarrow> string \<Rightarrow> string \<Rightarrow> ebpf_env \<Rightarrow> (pack_stage \<times> string) + tar_entry" where
  "pack_file io p name env =
     (case fs_lookup env p of
        None \<Rightarrow> Inl (OpenStage, ''open '' @ p @ '': no such file or directory'')
      | Some n \<Rightarrow>
          (case first_fault io p [OpenStage, StatStage, ChecksumStage, SeekStage, TarStage] of
             Some f \<Rightarrow> Inl f
           | None \<Rightarrow>
               (case n of
                  DirNode m \<Rightarrow> Inl (ChecksumStage, ''read '' @ p @ '': is a directory'')
                | FileNode m c t \<Rightarrow> Inr \<lparr>te_Name = name, te_Mode = m, te_Data = c\<rparr>)))"

fun object_message :: "pack_stage \<times> string \<Rightarrow> string" where
  "object_message (OpenStage, err) = ''failed to open BPF object: '' @ err"
| "object_message (StatStage, err) = ''failed to stat BPF object: '' @ err"
| "object_message (ChecksumStage, err) = ''failed to calculate object checksum: '' @ err"
| "object_message (SeekStage, err) = ''failed to reset file pointer: '' @ err"
| "object_message (TarStage, err) = ''failed to add BPF object to tar: '' @ err"

fun skeleton_message :: "pack_stage \<times> string \<Rightarrow> string" where
  "skeleton_message (OpenStage, err) = ''failed to open skeleton file: '' @ err"
| "skeleton_message (StatStage, err) = ''failed to stat skeleton file: '' @ err"
| "skeleton_message (ChecksumStage, err) = ''failed to calculate skeleton checksum: '' @ err"
| "skeleton_message (SeekStage, err) = ''failed to reset skeleton file pointer: '' @ err"
| "skeleton_message (TarStage, err) = ''failed to add skeleton to tar: '' @ err"

definition trim_suffix :: "string \<Rightarrow> string \<Rightarrow> string" where
  "trim_suffix s suf = (if suffix suf s then take (length s - length suf) s else s)"

definition skeleton_path :: "string \<Rightarrow> string" where
  "skeleton_path objectPath = trim_suffix objectPath ''.bpf.o'' @ ''.skel.h''"

text \<open>The walk over the sources; the entries packed before an error are in the archive.\<close>

fun pack_sources ::
    "io_faults \<Rightarrow> string \<Rightarrow> ebpf_env \<Rightarrow> (string \<times> fs_node) list \<Rightarrow> tar_entry list \<Rightarrow> string option \<times> tar_entry list" where
  "pack_sources io srcDir env [] acc = (None, acc)"
| "pack_sources io srcDir env ((rel, n) # es) acc =
     (case io ''walk'' (path_join [srcDir, rel]) of
        Some err \<Rightarrow> (Some err, acc)
      | None \<Rightarrow>
          if is_dir n then pack_sources io srcDir env es acc
          else (case pack_file io (path_join [srcDir, rel]) (''src/'' @ rel) env of
                  Inl (s, err) \<Rightarrow> (Some err, acc)
                | Inr e \<Rightarrow> pack_sources io srcDir env es (acc @ [e])))"

text \<open>The entries before the metadata: the program, its skeleton, its sources.\<close>

definition pack_entries :: "io_faults \<Rightarrow> string \<Rightarrow> ebpf_env \<Rightarrow> string option \<times> tar_entry list" where
  "pack_entries io objectPath env =
     (case pack_file io objectPath ''program.o'' env of
        Inl f \<Rightarrow> (Some (object_message f), [])
      | Inr object \<Rightarrow>
          let skel = skeleton_path objectPath;
              with_skeleton =
                (if fs_lookup env skel = None then (None, [object])
                 else (case pack_file io skel ''program.skel.h'' env of
                         Inl f \<Rightarrow> (Some (skeleton_message f), [object])
                       | Inr e \<Rightarrow> (None, [object, e])));
              srcDir = path_join [path_dir objectPath, ''src'']
          in case with_skeleton of
               (Some err, acc) \<Rightarrow> (Some err, acc)
             | (None, acc) \<Rightarrow>
                 if fs_lookup env srcDir = None then (None, acc)
                 else (case pack_sources io srcDir env (fs_walk env srcDir) acc of
                         (Some err, acc1) \<Rightarrow> (Some (''failed to add source files: '' @ err), acc1)
                       | (None, acc1) \<Rightarrow> (None, acc1)))"

definition entry_checksums :: "tar_entry list \<Rightarrow> (string, string) gomap" where
  "entry_checksums es = foldl (\<lambda>m e. map_set (te_Name e) (calculateChecksum (te_Data e)) m) [] es"

definition pack_metadata :: "renderResult \<Rightarrow> packageMetadata \<Rightarrow> (string, string) gomap \<Rightarrow> time \<Rightarrow> packageMetadata" where
  "pack_metadata rendered meta checksums now =
     meta\<lparr>pm_Checksums := checksums, pm_CreatedAt := now,
          pm_BuildInfo := \<lparr>bi_BuildTime = rr_BuildTime rendered, bi_BuildLog = rr_BuildLog rendered,
            bi_Compiler = ''clang'', bi_CompilerVer = ''unknown'', bi_BuildFlags = [],
            bi_ObjectSize = rr_CompiledSize rendered\<rparr>\<rparr>"

text \<open>
  The package file is finished by the deferred calls when \<open>Pack\<close> returns, with or without an error; its
  size and checksum are taken before.
\<close>

definition Pack ::
    "io_faults \<Rightarrow> archive \<Rightarrow> renderResult \<Rightarrow> packageMetadata \<Rightarrow> string \<Rightarrow> time \<Rightarrow> ebpf_env \<Rightarrow> (string + packageResult) \<times> ebpf_env" where
  "Pack io ar rendered meta outputPath now env =
     (case MkdirAll io 493 (path_dir outputPath) env of
        (Some err, env1) \<Rightarrow> (Inl (''failed to create output directory: '' @ err), env1)
      | (None, env1) \<Rightarrow>
          (case WriteFile io 438 now outputPath [] env1 of
             (Some err, env2) \<Rightarrow> (Inl (''failed to create package file: '' @ err), env2)
           | (None, env2) \<Rightarrow>
               let finish = (\<lambda>es. snd (WriteFile (\<lambda>_ _. None) 438 now outputPath (ar_encode ar es) env2))
               in case io ''zstd'' outputPath of
                    Some err \<Rightarrow> (Inl (''failed to create zstd writer: '' @ err), env2)
                  | None \<Rightarrow>
                      (case pack_entries io (rr_ObjectPath rendered) env2 of
                         (Some err, es) \<Rightarrow> (Inl err, finish es)
                       | (None, es) \<Rightarrow>
                           let meta1 = pack_metadata rendered meta (entry_checksums es) now;
                               es1 = es @ [\<lparr>te_Name = ''metadata.json'', te_Mode = 420, te_Data = ar_marshal ar meta1\<rparr>];
                               written = take (ar_flushed ar es1) (ar_encode ar es1)
                           in case io ''tar'' ''metadata.json'' of
                                Some err \<Rightarrow> (Inl (''failed to add metadata to tar: '' @ err), finish es)
                              | None \<Rightarrow>
                                  (case first_fault io outputPath [StatStage, SeekStage, ChecksumStage] of
                                     Some (StatStage, err) \<Rightarrow> (Inl (''failed to stat package file: '' @ err), finish es1)
                                   | Some (SeekStage, err) \<Rightarrow>
                                       (Inl (''failed to reset package file pointer: '' @ err), finish es1)
                                   | Some (_, err) \<Rightarrow> (Inl (''failed to calculate package checksum: '' @ err), finish es1)
                                   | None \<Rightarrow>
                                       (Inr \<lparr>pr_PackagePath = outputPath, pr_PackageSize = length written,
                                             pr_Metadata = meta1, pr_Files = map te_Name es1,
                                             pr_Checksum = calculateChecksum written\<rparr>, finish es1)))))"

section \<open>Extraction and validation\<close>

definition zero_metadata :: packageMetadata where
  "zero_metadata =
     \<lparr>pm_TemplateName = [], pm_Version = [], pm_Architecture = [], pm_KernelVersion = [], pm_BuildID = [],
      pm_CreatedAt = zero_time, pm_Parameters = [],
      pm_BuildInfo = \<lparr>bi_BuildTime = 0, bi_BuildLog = [], bi_Compiler = [], bi_CompilerVer = [], bi_BuildFlags = [],
        bi_ObjectSize = 0\<rparr>, pm_Checksums = []\<rparr>"

text \<open>
  One entry. The metadata are read to their end before the entry is copied to its file: nothing is left
  to copy.
\<close>

definition extract_entry ::
    "io_faults \<Rightarrow> archive \<Rightarrow> time \<Rightarrow> string \<Rightarrow> tar_entry \<Rightarrow> packageMetadata \<Rightarrow> ebpf_env \<Rightarrow> (string + packageMetadata) \<times> ebpf_env" where
  "extract_entry io ar now extractDir e meta env =
     (let is_meta = (te_Name e = ''metadata.json'');
          extractPath = path_join [extractDir, te_Name e];
          read = (if is_meta then
                    case io ''read'' ''metadata.json'' of
                      Some err \<Rightarrow> Inl (''failed to read metadata: '' @ err)
                    | None \<Rightarrow>
                        (case ar_unmarshal ar (te_Data e) of
                           Inr err \<Rightarrow> Inl (''failed to unmarshal metadata: '' @ err)
                         | Inl m \<Rightarrow> Inr m)
                  else Inr meta)
      in case read of
           Inl err \<Rightarrow> (Inl err, env)
         | Inr meta1 \<Rightarrow>
             (case MkdirAll io 493 (path_dir extractPath) env of
                (Some err, env1) \<Rightarrow> (Inl (''failed to create extract subdirectory: '' @ err), env1)
              | (None, env1) \<Rightarrow>
                  (case WriteFile io (te_Mode e) now extractPath (if is_meta then [] else te_Data e) env1 of
                     (Some err, env2) \<Rightarrow> (Inl (''failed to create extract file: '' @ err), env2)
                   | (None, env2) \<Rightarrow>
                       (case io ''copy'' extractPath of
                          Some err \<Rightarrow> (Inl (''failed to extract file: '' @ err), env2)
                        | None \<Rightarrow> (Inr meta1, env2)))))"

fun extract_entries ::
    "io_faults \<Rightarrow> archive \<Rightarrow> time \<Rightarrow> string \<Rightarrow> tar_entry list \<Rightarrow> string option \<Rightarrow> packageMetadata \<Rightarrow> ebpf_env \<Rightarrow> (string + packageMetadata) \<times> ebpf_env" where
  "extract_entries io ar now extractDir [] None meta env = (Inr meta, env)"
| "extract_entries io ar now extractDir [] (Some err) meta env = (Inl (''failed to read tar header: '' @ err), env)"
| "extract_entries io ar now extractDir (e # es) stop meta env =
     (case extract_entry io ar now extractDir e meta env of
        (Inl err, env1) \<Rightarrow> (Inl err, env1)
      | (Inr meta1, env1) \<Rightarrow> extract_entries io ar now extractDir es stop meta1 env1)"

definition ExtractPackage ::
    "io_faults \<Rightarrow> archive \<Rightarrow> time \<Rightarrow> string \<Rightarrow> string \<Rightarrow> ebpf_env \<Rightarrow> (string + packageMetadata) \<times> ebpf_env" where
  "ExtractPackage io ar now packagePath extractDir env =
     (case MkdirAll io 493 extractDir env of
        (Some err, env1) \<Rightarrow> (Inl (''failed to create extract directory: '' @ err), env1)
      | (None, env1) \<Rightarrow>
          (case ReadFile io packagePath env1 of
             Inl err \<Rightarrow> (Inl (''failed to open package: '' @ err), env1)
           | Inr contents \<Rightarrow>
               (case io ''zstd'' packagePath of
                  Some err \<Rightarrow> (Inl (''failed to create zstd reader: '' @ err), env1)
                | None \<Rightarrow>
                    (case ar_decode ar contents of
                       (es, stop) \<Rightarrow> extract_entries io ar now extractDir es stop zero_metadata env1))))"

fun validate_entries :: "io_faults \<Rightarrow> archive \<Rightarrow> tar_entry list \<Rightarrow> string option \<Rightarrow> string option" where
  "validate_entries io ar [] None = Some ''metadata.json not found in package''"
| "validate_entries io ar [] (Some err) = Some (''failed to read tar header: '' @ err)"
| "validate_entries io ar (e # es) stop =
     (if te_Name e = ''metadata.json'' then
        (case io ''read'' ''metadata.json'' of
           Some err \<Rightarrow> Some (''failed to read metadata: '' @ err)
         | None \<Rightarrow>
             (case ar_unmarshal ar (te_Data e) of
                Inr err \<Rightarrow> Some (''failed to unmarshal metadata: '' @ err)
              | Inl m \<Rightarrow> if pm_TemplateName m = [] then Some ''invalid metadata: missing template name'' else None))
      else validate_entries io ar es stop)"

definition ValidatePackage :: "io_faults \<Rightarrow> archive \<Rightarrow> string \<Rightarrow> ebpf_env \<Rightarrow> string option" where
  "ValidatePackage io ar packagePath env =
     (if fs_lookup env packagePath = None then Some (''package not found: '' @ packagePath)
      else (case ReadFile io packagePath env of
              Inl err \<Rightarrow> Some (''failed to open package: '' @ err)
            | Inr contents \<Rightarrow>
                (case io ''zstd'' packagePath of
                   Some err \<Rightarrow> Some (''failed to create zstd reader: '' @ err)
                 | None \<Rightarrow> (case ar_decode ar contents of (es, stop) \<Rightarrow> validate_entries io ar es stop))))"

section \<open>The registry\<close>

record artifactReference =
  af_ArtifactID :: string
  af_Signature :: string
  af_URL :: string
  af_Checksum :: string

record createArtifactRequest =
  cq_Name :: string
  cq_Version :: string
  cq_Type :: string
  cq_Data :: string
  cq_Metadata :: packageMetadata
  cq_Description :: string
  cq_Tags :: "string list"

record registry_client =
  rg_baseURL :: string
  rg_authToken :: string

text \<open>The registry: URL, authorization and request to an error or the status and the body of its answer.\<close>

type_synonym registry_post = "string \<Rightarrow> string option \<Rightarrow> createArtifactRequest \<Rightarrow> string + (nat \<times> string)"

definition readPackageData :: "string \<Rightarrow> string" where
  "readPackageData packagePath = ''base64_encoded_package_data''"

definition createArtifact ::
    "registry_post \<Rightarrow> (string \<Rightarrow> string + artifactReference) \<Rightarrow> registry_client \<Rightarrow> createArtifactRequest \<Rightarrow> string + artifactReference" where
  "createArtifact post parse rg req =
     (case post (rg_baseURL rg @ ''/artifacts'')
             (if rg_authToken rg \<noteq> [] then Some (''Bearer '' @ rg_authToken rg) else None) req of
        Inl err \<Rightarrow> Inl (''failed to send request: '' @ err)
      | Inr (status, body) \<Rightarrow>
          if status \<noteq> 201 then Inl (''registry returned status '' @ itoa (int status) @ '': '' @ body)
          else (case parse body of
                  Inl err \<Rightarrow> Inl (''failed to unmarshal response: '' @ err)
                | Inr r \<Rightarrow> Inr r))"

definition artifact_request :: "packageResult \<Rightarrow> string \<Rightarrow> string \<Rightarrow> string \<Rightarrow> createArtifactRequest" where
  "artifact_request pkg name version description =
     \<lparr>cq_Name = name, cq_Version = version, cq_Type = ''bpf-program'', cq_Data = readPackageData (pr_PackagePath pkg),
      cq_Metadata = pr_Metadata pkg, cq_Description = description,
      cq_Tags = [''bpf'', ''security'', pm_TemplateName (pr_Metadata pkg)]\<rparr>"

definition SignAndUpload ::
    "registry_post \<Rightarrow> (string \<Rightarrow> string + artifactReference) \<Rightarrow> registry_client \<Rightarrow> packageResult \<Rightarrow> string \<Rightarrow> string \<Rightarrow> string \<Rightarrow> string + artifactReference" where
  "SignAndUpload post parse rg pkg name version description =
     (case createArtifact post parse rg (artifact_request pkg name version description) of
        Inl err \<Rightarrow> Inl (''failed to create artifact: '' @ err)
      | Inr r \<Rightarrow> Inr r)"

text \<open>Verification always succeeds.\<close>

definition VerifyArtifact :: "artifactReference \<Rightarrow> string option" where
  "VerifyArtifact ref = None"

section \<open>Orchestration\<close>

record orchestrationRequest =
  oo_TemplateName :: string
  oo_Parameters :: "(string, string) gomap"
  oo_TargetArch :: string
  oo_KernelVer :: string
  oo_Name :: string
  oo_Version :: string
  oo_Description :: string

record orchestrationResult =
  ou_ArtifactRef :: artifactReference
  ou_RenderResult :: renderResult
  ou_PackageResult :: packageResult

text \<open>What the orchestration is given from outside.\<close>

record orch_world =
  ow_io :: io_faults
  ow_make :: make_run
  ow_fmt_duration :: "duration \<Rightarrow> string"
  ow_archive :: archive
  ow_post :: registry_post
  ow_parse :: "string \<Rightarrow> string + artifactReference"
  ow_now :: "nat \<Rightarrow> time"

record orchestrator =
  os_templatesDir :: string
  os_outputDir :: string
  os_registryURL :: string
  os_authToken :: string

definition render_params :: "orchestrationRequest \<Rightarrow> renderParams" where
  "render_params req =
     \<lparr>rp_TemplateName = oo_TemplateName req, rp_Parameters = oo_Parameters req, rp_TargetArch = oo_TargetArch req,
      rp_KernelVer = oo_KernelVer req, rp_BuildID = oo_Name req @ ''-'' @ oo_Version req\<rparr>"

definition package_metadata :: "orchestrationRequest \<Rightarrow> packageMetadata" where
  "package_metadata req =
     zero_metadata\<lparr>pm_TemplateName := oo_TemplateName req, pm_Version := oo_Version req,
       pm_Architecture := oo_TargetArch req, pm_KernelVersion := oo_KernelVer req,
       pm_BuildID := oo_Name req @ ''-'' @ oo_Version req, pm_Parameters := oo_Parameters req\<rparr>"

definition package_path :: "orchestrator \<Rightarrow> orchestrationRequest \<Rightarrow> string" where
  "package_path os req =
     path_join [os_outputDir os, ''packages'',
       oo_Name req @ ''-'' @ oo_Version req @ ''-'' @ oo_TargetArch req @ ''.tar.zst'']"

definition Orchestrate ::
    "orch_world \<Rightarrow> orchestrator \<Rightarrow> orchestrationRequest \<Rightarrow> ebpf_env \<Rightarrow> (string + orchestrationResult) \<times> ebpf_env" where
  "Orchestrate w os req env =
     (let rn = \<lparr>rn_templatesDir = os_templatesDir os, rn_outputDir = os_outputDir os, rn_registryURL = os_registryURL os\<rparr>;
          rg = \<lparr>rg_baseURL = os_registryURL os, rg_authToken = os_authToken os\<rparr>
      in case Render (ow_io w) (ow_make w) (ow_fmt_duration w) rn (render_params req) (ow_now w 0) (ow_now w 1) (ow_now w 2) env of
           (Inl err, env1) \<Rightarrow> (Inl (''rendering failed: '' @ err), env1)
         | (Inr rendered, env1) \<Rightarrow>
             (case Pack (ow_io w) (ow_archive w) rendered (package_metadata req) (package_path os req) (ow_now w 3) env1 of
                (Inl err, env2) \<Rightarrow> (Inl (''packing failed: '' @ err), env2)
              | (Inr pkg, env2) \<Rightarrow>
                  (case SignAndUpload (ow_post w) (ow_parse w) rg pkg (oo_Name req) (oo_Version req) (oo_Description req) of
                     Inl err \<Rightarrow> (Inl (''signing and upload failed: '' @ err), env2)
                   | Inr ref \<Rightarrow>
                       (Inr \<lparr>ou_ArtifactRef = ref, ou_RenderResult = rendered, ou_PackageResult = pkg\<rparr>, env2))))"

definition Health_orch :: "(string \<Rightarrow> string option) \<Rightarrow> orchestrator \<Rightarrow> ebpf_env \<Rightarrow> string option" where
  "Health_orch registry_health os env =
     (case registry_health (os_registryURL os @ ''/healthz'') of
        Some err \<Rightarrow> Some (''registry health check failed: '' @ err)
      | None \<Rightarrow>
          if fs_lookup env (os_templatesDir os) = None then Some (''templates directory not found: '' @ os_templatesDir os)
          else if fs_lookup env (os_outputDir os) = None then Some (''output directory not found: '' @ os_outputDir os)
          else None)"

text \<open>The files directly in a directory that are older than a time are removed; directories stay.\<close>

definition cleanupDirectory :: "io_faults \<Rightarrow> string \<Rightarrow> time \<Rightarrow> ebpf_env \<Rightarrow> string option \<times> ebpf_env" where
  "cleanupDirectory io dir cutoffTime env =
     (if fs_lookup env dir = None then (None, env)
      else (case io ''readdir'' dir of
              Some err \<Rightarrow> (Some err, env)
            | None \<Rightarrow>
                let d = path_abs (ev_cwd env) dir;
                    old = (\<lambda>(p, n). below d p \<and> CHR ''/'' \<notin> set (drop (Suc (length d)) p) \<and>
                             (case n of DirNode m \<Rightarrow> False | FileNode m c t \<Rightarrow> t < cutoffTime) \<and>
                             io ''stat'' p = None \<and> io ''remove'' p = None)
                in (None, env\<lparr>ev_fs := filter (\<lambda>e. \<not> old e) (ev_fs env)\<rparr>)))"

definition Cleanup_orch :: "io_faults \<Rightarrow> orchestrator \<Rightarrow> duration \<Rightarrow> time \<Rightarrow> ebpf_env \<Rightarrow> ebpf_env" where
  "Cleanup_orch io os olderThan now env =
     (let cutoffTime = time_add now (- olderThan)
      in snd (cleanupDirectory io (path_join [os_outputDir os, ''packages'']) cutoffTime
           (snd (cleanupDirectory io (path_join [os_outputDir os, ''renders'']) cutoffTime env))))"

end
