(* ===== verification/Orch_PackageProperties.thy ===== *)
theory Orch_PackageProperties
  imports Orch_Package
begin

text \<open>
  What a package keeps of the rendered program: paths and the file system, the round trip of packing and
  extracting, and what the upload and the checksums do not cover.
\<close>

section \<open>Clean paths\<close>

definition normal_comp :: "string \<Rightarrow> bool" where
  "normal_comp c \<longleftrightarrow> c \<noteq> [] \<and> c \<noteq> ''.'' \<and> c \<noteq> ''..'' \<and> CHR ''/'' \<notin> set c"

definition normal_name :: "string \<Rightarrow> bool" where
  "normal_name n \<longleftrightarrow> list_all normal_comp (split_on (CHR ''/'') n)"

definition clean_key :: "string \<Rightarrow> bool" where
  "clean_key k \<longleftrightarrow> (\<exists>cs. k = CHR ''/'' # join_with ''/'' cs \<and> list_all normal_comp cs)"

definition clean_fs :: "ebpf_env \<Rightarrow> bool" where
  "clean_fs env \<longleftrightarrow> map_ok (ev_fs env) \<and> (\<forall>k \<in> fst ` set (ev_fs env). clean_key k) \<and> rooted (ev_cwd env)"

lemma split_on_sep_append: "split_on c (a @ c # b) = split_on c a @ split_on c b"
proof (induction a)
  case (Cons x a)
  then show ?case by (cases "split_on c a") auto
qed simp

lemma split_on_free: "c \<notin> set s \<Longrightarrow> split_on c s = [s]"
  by (induction s) auto

lemma split_join: "list_all (\<lambda>w. c \<notin> set w) cs \<Longrightarrow> cs \<noteq> [] \<Longrightarrow> split_on c (join_with [c] cs) = cs"
proof (induction cs)
  case (Cons w ws)
  then show ?case
    by (cases ws) (auto simp: split_on_free split_on_sep_append)
qed simp

lemma normal_free: "list_all normal_comp cs \<Longrightarrow> list_all (\<lambda>w. CHR ''/'' \<notin> set w) cs"
  by (auto simp: list_all_iff normal_comp_def)

lemma clean_fold_normal: "list_all normal_comp cs \<Longrightarrow> foldl (clean_step r) acc cs = acc @ cs"
  by (induction cs arbitrary: acc) (auto simp: clean_step_def normal_comp_def)

lemma clean_fold_rooted:
  "list_all normal_comp acc \<Longrightarrow> list_all (\<lambda>w. CHR ''/'' \<notin> set w) cs \<Longrightarrow>
    list_all normal_comp (foldl (clean_step True) acc cs)"
proof (induction cs arbitrary: acc)
  case (Cons c cs)
  have "list_all normal_comp (clean_step True acc c)"
    using Cons.prems by (auto simp: clean_step_def normal_comp_def list_all_iff dest: in_set_butlastD)
  then show ?case using Cons by simp
qed simp

lemma path_parts_normal: "rooted p \<Longrightarrow> list_all normal_comp (path_parts p)"
  using clean_fold_rooted [of "[]" "split_on (CHR ''/'') p"] split_on_no_sep [of _ "CHR ''/''" p]
  by (auto simp: path_parts_def list_all_iff)

lemma path_clean_rooted: "rooted p \<Longrightarrow> path_clean p = CHR ''/'' # join_with ''/'' (path_parts p)"
  by (simp add: path_clean_def Let_def)

lemma path_parts_clean:
  assumes "list_all normal_comp cs"
  shows "path_parts (CHR ''/'' # join_with ''/'' cs) = cs"
proof (cases "cs = []")
  case True
  then show ?thesis by (simp add: path_parts_def clean_step_def)
next
  case False
  then have "split_on (CHR ''/'') (CHR ''/'' # join_with ''/'' cs) = [] # cs"
    using split_join [OF normal_free [OF assms]] by simp
  moreover have "clean_step True [] [] = []" by (simp add: clean_step_def)
  ultimately show ?thesis
    using clean_fold_normal [OF assms, of True "[]"] by (simp add: path_parts_def rooted_def)
qed

lemma clean_key_path: "rooted p \<Longrightarrow> clean_key (path_clean p)"
  using path_parts_normal [of p] by (auto simp: clean_key_def path_clean_rooted)

lemma rooted_clean: "rooted p \<Longrightarrow> rooted (path_clean p)"
  by (simp add: path_clean_rooted rooted_def)

lemma clean_key_abs: "rooted cwd \<Longrightarrow> clean_key (path_abs cwd p)"
  by (cases cwd) (auto simp: path_abs_def path_join_def rooted_def Let_def intro!: clean_key_path)

lemma clean_key_same: "clean_key k \<Longrightarrow> path_clean k = k"
  unfolding clean_key_def using path_parts_clean by (auto simp: path_clean_rooted rooted_def)

lemma clean_key_rooted: "clean_key k \<Longrightarrow> rooted k"
  by (auto simp: clean_key_def rooted_def)

lemma rooted_abs: "rooted cwd \<Longrightarrow> rooted (path_abs cwd p)"
  using clean_key_abs clean_key_rooted by blast

text \<open>
  Where an entry is extracted to: entries whose names have different components, dots left out, are
  different files.
\<close>

definition name_parts :: "string \<Rightarrow> string list" where
  "name_parts n = filter (\<lambda>c. c \<noteq> ''.'') (split_on (CHR ''/'') n)"

definition tame_name :: "string \<Rightarrow> bool" where
  "tame_name n \<longleftrightarrow> list_all normal_comp (name_parts n) \<and> name_parts n \<noteq> []"

lemma clean_fold_tame:
  "list_all normal_comp (filter (\<lambda>c. c \<noteq> ''.'') cs) \<Longrightarrow> foldl (clean_step r) acc cs = acc @ filter (\<lambda>c. c \<noteq> ''.'') cs"
  by (induction cs arbitrary: acc) (auto simp: clean_step_def normal_comp_def)

lemma normal_tame:
  assumes "normal_name n"
  shows "name_parts n = split_on (CHR ''/'') n" and "tame_name n"
proof -
  have "filter (\<lambda>c. c \<noteq> ''.'') (split_on (CHR ''/'') n) = split_on (CHR ''/'') n"
    using assms by (intro filter_True) (auto simp: normal_name_def normal_comp_def list_all_iff)
  then show "name_parts n = split_on (CHR ''/'') n" and "tame_name n"
    using assms by (auto simp: name_parts_def tame_name_def normal_name_def)
qed

lemma extract_path:
  assumes "rooted dir" and "tame_name n"
  shows "path_abs cwd (path_join [dir, n]) = CHR ''/'' # join_with ''/'' (path_parts dir @ name_parts n)"
proof -
  have ne: "n \<noteq> []" and dne: "dir \<noteq> []"
    using assms by (auto simp: tame_name_def name_parts_def normal_comp_def rooted_def)
  let ?p = "dir @ CHR ''/'' # n"
  have r: "rooted ?p" using assms by (simp add: rooted_def)
  have parts: "path_parts ?p = path_parts dir @ name_parts n"
    using assms r by (simp add: path_parts_def split_on_sep_append clean_fold_tame tame_name_def name_parts_def)
  have "path_join [dir, n] = path_clean ?p" using ne dne by (simp add: path_join_def)
  then have j: "path_join [dir, n] = CHR ''/'' # join_with ''/'' (path_parts dir @ name_parts n)"
    by (simp add: path_clean_rooted [OF r] parts)
  have "clean_key (path_join [dir, n])"
    unfolding clean_key_def j using path_parts_normal [OF assms(1)] assms(2) by (auto simp: tame_name_def)
  then show ?thesis using j clean_key_same clean_key_rooted by (simp add: path_abs_def)
qed

lemma extract_path_inj:
  assumes "rooted dir" and "tame_name n" and "tame_name n'"
    and "path_abs cwd (path_join [dir, n]) = path_abs cwd (path_join [dir, n'])"
  shows "name_parts n = name_parts n'"
proof -
  let ?l = "\<lambda>n. path_parts dir @ name_parts n"
  have normal: "list_all normal_comp (?l n)" "list_all normal_comp (?l n')"
    using assms path_parts_normal by (auto simp: tame_name_def)
  have ne: "?l n \<noteq> []" "?l n' \<noteq> []" using assms by (auto simp: tame_name_def)
  have "join_with ''/'' (?l n) = join_with ''/'' (?l n')"
    using assms(4) by (simp add: extract_path [OF assms(1)] assms(2,3))
  then have "?l n = ?l n'"
    using split_join [OF normal_free [OF normal(1)] ne(1)] split_join [OF normal_free [OF normal(2)] ne(2)] by metis
  then show ?thesis by simp
qed

lemma rooted_dir:
  assumes "rooted p"
  shows "rooted (path_dir p)"
proof -
  let ?q = "rev (dropWhile (\<lambda>c. c \<noteq> CHR ''/'') (rev p))"
  have pre: "prefix ?q p" by (metis suffix_dropWhile suffix_to_prefix rev_rev_ident)
  have "CHR ''/'' \<in> set p" using assms by (cases p) (auto simp: rooted_def)
  then have "?q \<noteq> []" by (auto simp: dropWhile_eq_Nil_conv)
  then have "rooted ?q" using pre assms unfolding prefix_def rooted_def by (metis hd_append2)
  then show ?thesis unfolding path_dir_def by (rule rooted_clean)
qed

section \<open>Files that stay\<close>

definition file_at :: "ebpf_env \<Rightarrow> string \<Rightarrow> string \<Rightarrow> bool" where
  "file_at env k c \<longleftrightarrow> (\<exists>m t. map_get (ev_fs env) k = Some (FileNode m c t))"

lemma fs_set_simps [simp]:
  "ev_cwd (fs_set p n env) = ev_cwd env"
  "map_get (ev_fs (fs_set p n env)) k = (if k = path_abs (ev_cwd env) p then Some n else map_get (ev_fs env) k)"
  by (simp_all add: fs_set_def)

lemma fs_set_clean: "clean_fs env \<Longrightarrow> clean_fs (fs_set p n env)"
  using set_map_set [of "ev_fs env" "path_abs (ev_cwd env) p" n] clean_key_abs [of "ev_cwd env" p]
  by (auto simp: clean_fs_def fs_set_def distinct_update)

lemma make_dirs_frame:
  "make_dirs mode ps env = (r, env1) \<Longrightarrow> ev_cwd env1 = ev_cwd env \<and> (clean_fs env \<longrightarrow> clean_fs env1) \<and>
     (file_at env k c \<longrightarrow> file_at env1 k c)"
proof (induction ps arbitrary: env)
  case (Cons p ps)
  show ?case
  proof (cases "fs_lookup env p")
    case None
    then have "make_dirs mode ps (fs_set p (DirNode mode) env) = (r, env1)" using Cons.prems by simp
    note IH = Cons.IH [OF this]
    have "file_at env k c \<Longrightarrow> file_at (fs_set p (DirNode mode) env) k c"
      using None by (auto simp: file_at_def fs_lookup_def)
    then show ?thesis using IH fs_set_clean [of env p] by simp
  next
    case (Some n)
    then show ?thesis using Cons by (auto split: if_splits)
  qed
qed auto

lemma MkdirAll_frame:
  "MkdirAll io mode p env = (r, env1) \<Longrightarrow> ev_cwd env1 = ev_cwd env \<and> (clean_fs env \<longrightarrow> clean_fs env1) \<and>
     (file_at env k c \<longrightarrow> file_at env1 k c)"
  using make_dirs_frame by (auto simp: MkdirAll_def split: option.splits)

lemma WriteFile_frame:
  assumes "WriteFile io mode now p content env = (None, env1)"
  shows "ev_cwd env1 = ev_cwd env \<and> (clean_fs env \<longrightarrow> clean_fs env1) \<and>
    file_at env1 (path_abs (ev_cwd env) p) content \<and>
    (k \<noteq> path_abs (ev_cwd env) p \<longrightarrow> map_get (ev_fs env1) k = map_get (ev_fs env) k)"
  using assms by (auto simp: WriteFile_def file_at_def fs_set_clean split: option.splits fs_node.splits)

section \<open>Extraction\<close>

definition entry_path :: "string \<Rightarrow> string \<Rightarrow> tar_entry \<Rightarrow> string" where
  "entry_path cwd dir e = path_abs cwd (path_join [dir, te_Name e])"

definition extracted_data :: "tar_entry \<Rightarrow> string" where
  "extracted_data e = (if te_Name e = ''metadata.json'' then [] else te_Data e)"

lemma extract_entry_frame:
  assumes "extract_entry io ar now dir e meta env = (Inr meta1, env1)"
  shows "ev_cwd env1 = ev_cwd env \<and> file_at env1 (entry_path (ev_cwd env) dir e) (extracted_data e) \<and>
    (k \<noteq> entry_path (ev_cwd env) dir e \<longrightarrow> file_at env k c \<longrightarrow> file_at env1 k c) \<and>
    (te_Name e \<noteq> ''metadata.json'' \<longrightarrow> meta1 = meta) \<and>
    (te_Name e = ''metadata.json'' \<longrightarrow> ar_unmarshal ar (te_Data e) = Inl meta1)"
proof -
  obtain env2 where mk: "MkdirAll io 493 (path_dir (path_join [dir, te_Name e])) env = (None, env2)"
    and wr: "WriteFile io (te_Mode e) now (path_join [dir, te_Name e]) (extracted_data e) env2 = (None, env1)"
    using assms by (auto simp: extract_entry_def extracted_data_def Let_def split: option.splits sum.splits prod.splits if_splits)
  have meta: "(te_Name e \<noteq> ''metadata.json'' \<longrightarrow> meta1 = meta) \<and>
      (te_Name e = ''metadata.json'' \<longrightarrow> ar_unmarshal ar (te_Data e) = Inl meta1)"
    using assms by (auto simp: extract_entry_def Let_def split: option.splits sum.splits prod.splits if_splits)
  show ?thesis
    using MkdirAll_frame [OF mk, of k c] WriteFile_frame [OF wr, of k] meta
    by (auto simp: entry_path_def file_at_def)
qed

lemma extract_entries_files:
  assumes "extract_entries io ar now dir es stop meta env = (Inr meta1, env1)"
    and "distinct (map (entry_path (ev_cwd env) dir) es)"
  shows "(\<forall>e \<in> set es. file_at env1 (entry_path (ev_cwd env) dir e) (extracted_data e)) \<and>
    (\<forall>k c. k \<notin> entry_path (ev_cwd env) dir ` set es \<longrightarrow> file_at env k c \<longrightarrow> file_at env1 k c)"
  using assms
proof (induction es arbitrary: meta env)
  case Nil
  then show ?case by (cases stop) auto
next
  case (Cons e es)
  then obtain meta2 env2 where e: "extract_entry io ar now dir e meta env = (Inr meta2, env2)"
    and es: "extract_entries io ar now dir es stop meta2 env2 = (Inr meta1, env1)"
    by (auto split: sum.splits prod.splits)
  have cwd: "ev_cwd env2 = ev_cwd env" using extract_entry_frame [OF e] by blast
  from Cons.IH [OF es] Cons.prems(2) have IH:
    "\<forall>e \<in> set es. file_at env1 (entry_path (ev_cwd env) dir e) (extracted_data e)"
    "\<forall>k c. k \<notin> entry_path (ev_cwd env) dir ` set es \<longrightarrow> file_at env2 k c \<longrightarrow> file_at env1 k c"
    by (simp_all add: cwd)
  show ?case
    using IH extract_entry_frame [OF e] Cons.prems(2) by auto
qed

lemma extract_entries_meta:
  assumes "extract_entries io ar now dir (es @ [e]) stop meta env = (Inr meta1, env1)"
    and "te_Name e = ''metadata.json''"
  shows "ar_unmarshal ar (te_Data e) = Inl meta1"
  using assms
proof (induction es arbitrary: meta env)
  case Nil
  then obtain env2 meta2 where "extract_entry io ar now dir e meta env = (Inr meta2, env2)" "meta2 = meta1"
    by (cases stop) (auto split: sum.splits prod.splits)
  then show ?case using extract_entry_frame Nil by blast
next
  case (Cons x es)
  then show ?case by (auto split: sum.splits prod.splits)
qed

section \<open>The entries of a package\<close>

lemma pack_file_entry:
  "pack_file io p name env = Inr e \<Longrightarrow> te_Name e = name \<and> file_at env (path_abs (ev_cwd env) p) (te_Data e)"
  by (auto simp: pack_file_def fs_lookup_def file_at_def split: option.splits fs_node.splits)

lemma pack_sources_names:
  assumes "pack_sources io srcDir env es acc = (None, acc')"
  shows "\<exists>new. acc' = acc @ new \<and> map te_Name new = map (\<lambda>e. ''src/'' @ fst e) (filter (\<lambda>e. \<not> is_dir (snd e)) es)"
  using assms
proof (induction es arbitrary: acc)
  case (Cons x es)
  obtain rel n where x: "x = (rel, n)" by (cases x)
  show ?case
  proof (cases "is_dir n")
    case True
    then show ?thesis using Cons x by (auto split: option.splits)
  next
    case False
    then obtain e where e: "pack_file io (path_join [srcDir, rel]) (''src/'' @ rel) env = Inr e"
      "pack_sources io srcDir env es (acc @ [e]) = (None, acc')"
      using Cons.prems x by (auto split: option.splits sum.splits)
    obtain new where "acc' = (acc @ [e]) @ new"
      "map te_Name new = map (\<lambda>e. ''src/'' @ fst e) (filter (\<lambda>e. \<not> is_dir (snd e)) es)"
      using Cons.IH [OF e(2)] by blast
    then show ?thesis using x False pack_file_entry [OF e(1)] by (intro exI [of _ "e # new"]) simp
  qed
qed simp

text \<open>The names below a directory are different and normal.\<close>

lemma normal_suffix:
  assumes "clean_key (r @ CHR ''/'' # rel)" and "rel \<noteq> []"
  shows "normal_name rel"
proof -
  obtain cs where cs: "r @ CHR ''/'' # rel = CHR ''/'' # join_with ''/'' cs" "list_all normal_comp cs"
    using assms(1) by (auto simp: clean_key_def)
  show ?thesis
  proof (cases "cs = []")
    case True
    then show ?thesis using cs assms(2) by (auto simp: append_eq_Cons_conv)
  next
    case False
    have "split_on (CHR ''/'') (r @ CHR ''/'' # rel) = [] # cs"
      unfolding cs(1) using split_join [OF normal_free [OF cs(2)] False] by simp
    then have "split_on (CHR ''/'') r @ split_on (CHR ''/'') rel = [] # cs" by (simp add: split_on_sep_append)
    then have "set (split_on (CHR ''/'') rel) \<subseteq> set cs"
      by (cases "split_on (CHR ''/'') r") (auto simp: split_on_not_Nil)
    then show ?thesis using cs(2) by (auto simp: normal_name_def list_all_iff)
  qed
qed

lemma walk_names:
  assumes "clean_fs env" and "fs_lookup env base = Some n"
  shows "distinct (map fst (tl (fs_walk env base))) \<and>
    (path_abs (ev_cwd env) base \<noteq> ''/'' \<longrightarrow> (\<forall>e \<in> set (tl (fs_walk env base)). normal_name (fst e)))"
proof -
  let ?r = "path_abs (ev_cwd env) base"
  let ?pre = "if ?r = ''/'' then ?r else ?r @ ''/''"
  let ?found = "filter (\<lambda>(p, m). below ?r p) (ev_fs env)"
  have rel: "p = ?pre @ drop (length ?pre) p" if "(p, m) \<in> set ?found" for p m
    using that by (auto simp: below_def prefix_def split: if_splits)
  have "distinct (map fst ?found)" using assms(1) by (simp add: clean_fs_def distinct_map_filter)
  moreover have "inj_on (drop (length ?pre)) (fst ` set ?found)"
  proof (rule inj_onI)
    fix p p' assume p: "p \<in> fst ` set ?found" "p' \<in> fst ` set ?found" "drop (length ?pre) p = drop (length ?pre) p'"
    obtain m m' where "(p, m) \<in> set ?found" "(p', m') \<in> set ?found" using p(1,2) by auto
    then show "p = p'" using rel p(3) by metis
  qed
  ultimately have dist: "distinct (map (drop (length ?pre)) (map fst ?found))"
    unfolding distinct_map [of "drop (length ?pre)" "map fst ?found"] list.set_map by blast
  have "normal_name (drop (length ?pre) p)" if "(p, m) \<in> set ?found" "?r \<noteq> ''/''" for p m
  proof (rule normal_suffix)
    have "clean_key p" using that assms(1) by (auto simp: clean_fs_def)
    then show "clean_key (?r @ CHR ''/'' # drop (length ?pre) p)" using rel [OF that(1)] that(2) by simp
    have "\<not> clean_key (?r @ ''/'')"
    proof
      assume "clean_key (?r @ ''/'')"
      then obtain cs where cs: "?r @ ''/'' = CHR ''/'' # join_with ''/'' cs" "list_all normal_comp cs"
        by (auto simp: clean_key_def)
      show False
      proof (cases "cs = []")
        case True
        then have "?r = []" using cs by (cases ?r) auto
        then show False using rooted_abs [of "ev_cwd env" base] assms(1) by (simp add: clean_fs_def rooted_def)
      next
        case False
        have "split_on (CHR ''/'') (?r @ ''/'') = [] # cs"
          unfolding cs(1) using split_join [OF normal_free [OF cs(2)] False] by simp
        then have "split_on (CHR ''/'') ?r @ [[]] = [] # cs" using split_on_sep_append [of "CHR ''/''" ?r "[]"] by simp
        then have "[] \<in> set cs" using False by (cases "split_on (CHR ''/'') ?r") auto
        then show False using cs(2) by (auto simp: list_all_iff normal_comp_def)
      qed
    qed
    then show "drop (length ?pre) p \<noteq> []" using rel [OF that(1)] that(2) \<open>clean_key p\<close> by auto
  qed
  then have normal: "?r \<noteq> ''/'' \<longrightarrow> (\<forall>e \<in> set (map (\<lambda>(p, m). (drop (length ?pre) p, m)) ?found). normal_name (fst e))"
    by auto
  have map: "map fst (map (\<lambda>(p, m). (drop (length ?pre) p, m)) ?found) = map (drop (length ?pre)) (map fst ?found)"
    by (simp add: case_prod_unfold)
  show ?thesis
  proof (cases "is_dir n")
    case True
    then have "tl (fs_walk env base) = sort_key (\<lambda>e. split_on (CHR ''/'') (fst e)) (map (\<lambda>(p, m). (drop (length ?pre) p, m)) ?found)"
      using assms(2) by (simp add: fs_walk_def Let_def)
    moreover have "distinct (map fst (sort_key f xs)) \<longleftrightarrow> distinct (map fst xs)" for f :: "_ \<Rightarrow> string list" and xs :: "(string \<times> fs_node) list"
      by (metis mset_map mset_sort mset_eq_imp_distinct_iff)
    ultimately show ?thesis using dist normal by (simp only: map set_sort)
  next
    case False
    then show ?thesis using assms(2) by (simp add: fs_walk_def Let_def)
  qed
qed

text \<open>The names of a package: different files wherever it is extracted.\<close>

definition good_names :: "tar_entry list \<Rightarrow> bool" where
  "good_names es \<longleftrightarrow> distinct (map (name_parts \<circ> te_Name) es) \<and> (\<forall>e \<in> set es. tame_name (te_Name e))"

lemma src_parts: "name_parts (''src/'' @ rel) = ''src'' # name_parts rel"
  using split_on_sep_append [of "CHR ''/''" "''src''" rel] by (simp add: name_parts_def)

lemma join_snoc: "c \<noteq> [] \<Longrightarrow> join_with sep (cs @ [c]) \<noteq> []"
  by (induction sep cs rule: join_with.induct) (auto simp: neq_Nil_conv)

lemma dot_parts: "name_parts ''.'' = []"
  by (simp add: name_parts_def)

lemma src_tame: "list_all normal_comp (name_parts rel) \<Longrightarrow> tame_name (''src/'' @ rel)"
  unfolding tame_name_def src_parts by (simp add: normal_comp_def)

lemma source_names:
  assumes "clean_fs env" and "fs_lookup env srcDir = Some n" and "path_abs (ev_cwd env) srcDir \<noteq> ''/''"
  shows "distinct (map (name_parts \<circ> fst) (fs_walk env srcDir)) \<and>
    (\<forall>e \<in> set (fs_walk env srcDir). list_all normal_comp (name_parts (fst e)))"
proof -
  obtain rest where w: "fs_walk env srcDir = (''.'', n) # rest" and rest: "rest = tl (fs_walk env srcDir)"
    using assms(2) by (simp add: fs_walk_def Let_def)
  have d: "distinct (map fst rest)" and nn: "\<forall>e \<in> set rest. normal_name (fst e)"
    using walk_names [OF assms(1,2)] assms(3) by (simp_all add: rest)
  have "inj_on name_parts (fst ` set rest)"
  proof (rule inj_onI)
    fix a b assume "a \<in> fst ` set rest" "b \<in> fst ` set rest" "name_parts a = name_parts b"
    moreover from this have "normal_name a" "normal_name b" using nn by auto
    ultimately have "split_on (CHR ''/'') a = split_on (CHR ''/'') b" using normal_tame(1) by simp
    then show "a = b" by (metis join_split)
  qed
  then have "distinct (map name_parts (map fst rest))"
    using d unfolding distinct_map [of name_parts "map fst rest"] list.set_map by blast
  moreover have tame: "\<forall>e \<in> set rest. name_parts (fst e) \<noteq> [] \<and> list_all normal_comp (name_parts (fst e))"
    using nn normal_tame(2) by (auto simp: tame_name_def)
  moreover from tame have "[] \<notin> name_parts ` fst ` set rest" by fastforce
  ultimately show ?thesis unfolding w by (simp add: dot_parts comp_def image_image)
qed

lemma pack_entries_good:
  assumes clean: "clean_fs env" and root: "rooted objectPath" and ok: "pack_entries io objectPath env = (None, es)"
  shows "good_names (es @ [\<lparr>te_Name = ''metadata.json'', te_Mode = m, te_Data = d\<rparr>]) \<and>
    (\<exists>object rest. es = object # rest \<and> te_Name object = ''program.o'' \<and>
       file_at env (path_abs (ev_cwd env) objectPath) (te_Data object))"
proof -
  let ?src = "path_join [path_dir objectPath, ''src'']"
  obtain object where object: "pack_file io objectPath ''program.o'' env = Inr object"
    using ok by (auto simp: pack_entries_def split: sum.splits)
  define skel where "skel =
    (if fs_lookup env (skeleton_path objectPath) = None then []
     else case pack_file io (skeleton_path objectPath) ''program.skel.h'' env of Inl f \<Rightarrow> [] | Inr e \<Rightarrow> [e])"
  have skel: "map te_Name skel \<in> {[], [''program.skel.h'']}"
    using pack_file_entry by (auto simp: skel_def split: sum.splits)
  have cases: "fs_lookup env ?src = None \<and> es = object # skel \<or>
      (\<exists>n. fs_lookup env ?src = Some n \<and> pack_sources io ?src env (fs_walk env ?src) (object # skel) = (None, es))"
    using ok object by (auto simp: pack_entries_def skel_def Let_def split: sum.splits if_splits option.splits prod.splits)
  note obj = pack_file_entry [OF object]
  have names: "name_parts ''program.o'' = [''program.o'']" "name_parts ''program.skel.h'' = [''program.skel.h'']"
    "name_parts ''metadata.json'' = [''metadata.json'']" "name_parts ''src'' = [''src'']"
    by code_simp+
  have comps: "normal_comp ''program.o''" "normal_comp ''program.skel.h''" "normal_comp ''metadata.json''" "normal_comp ''src''"
    by code_simp+
  obtain new :: "tar_entry list" and ws :: "(string \<times> fs_node) list" where es: "es = object # skel @ new" and new: "map te_Name new = map (\<lambda>e. ''src/'' @ fst e) ws"
    and ws: "distinct (map (name_parts \<circ> fst) ws)" "\<forall>e \<in> set ws. list_all normal_comp (name_parts (fst e))"
  proof (cases "fs_lookup env ?src")
    case None
    then show ?thesis using cases that [of "[]" "[]"] by simp
  next
    case (Some n)
    have "tame_name ''src''" using comps names by (simp add: tame_name_def)
    from extract_path [OF rooted_dir [OF root] this, of "ev_cwd env"]
    have "path_abs (ev_cwd env) ?src \<noteq> ''/''"
      using names join_snoc by simp
    note walk = source_names [OF clean Some this]
    let ?ws = "filter (\<lambda>e. \<not> is_dir (snd e)) (fs_walk env ?src)"
    from cases Some have "pack_sources io ?src env (fs_walk env ?src) (object # skel) = (None, es)" by simp
    from pack_sources_names [OF this] obtain new where new: "es = (object # skel) @ new"
      "map te_Name new = map (\<lambda>e. ''src/'' @ fst e) ?ws" by blast
    have "distinct (map (name_parts \<circ> fst) ?ws)" using walk by (intro distinct_map_filter) blast
    moreover have "\<forall>e \<in> set ?ws. list_all normal_comp (name_parts (fst e))" using walk by simp
    ultimately show ?thesis using that [of new ?ws] new by simp
  qed
  have parts: "map (name_parts \<circ> te_Name) new = map (\<lambda>e. ''src'' # name_parts (fst e)) ws"
  proof -
    have "map name_parts (map te_Name new) = map name_parts (map (\<lambda>e. ''src/'' @ fst e) ws)" by (simp only: new)
    then show ?thesis by (simp only: list.map_comp comp_def src_parts)
  qed
  have "distinct (map (\<lambda>e. ''src'' # name_parts (fst e)) ws)" using ws(1) by (auto simp: distinct_map inj_on_def)
  then have dn: "distinct (map (name_parts \<circ> te_Name) new)" and hn: "\<forall>x \<in> set (map (name_parts \<circ> te_Name) new). hd x = ''src''"
    unfolding parts by auto
  have tn: "\<forall>e \<in> set new. tame_name (te_Name e)"
  proof
    fix e assume "e \<in> set new"
    then have "te_Name e \<in> set (map (\<lambda>e. ''src/'' @ fst e) ws)" using new [symmetric] by simp
    then show "tame_name (te_Name e)" using ws(2) src_tame by auto
  qed
  have sk: "skel = [] \<or> (\<exists>s. skel = [s] \<and> te_Name s = ''program.skel.h'')" using skel by auto
  have "good_names (es @ [\<lparr>te_Name = ''metadata.json'', te_Mode = m, te_Data = d\<rparr>])"
  proof -
    have o: "name_parts (te_Name object) = [''program.o'']" "tame_name (te_Name object)"
      using obj names comps by (simp_all add: tame_name_def)
    have t: "tame_name ''program.skel.h''" "tame_name ''metadata.json''"
      by code_simp+
    have hd: "hd x = ''src''" if "x \<in> (\<lambda>e. name_parts (te_Name e)) ` set new" for x
      using hn that by auto
    have free: "[''program.o''] \<notin> (\<lambda>e. name_parts (te_Name e)) ` set new"
        "[''program.skel.h''] \<notin> (\<lambda>e. name_parts (te_Name e)) ` set new"
        "[''metadata.json''] \<notin> (\<lambda>e. name_parts (te_Name e)) ` set new"
      using hd [of "[''program.o'']"] hd [of "[''program.skel.h'']"] hd [of "[''metadata.json'']"] by auto
    have dn': "distinct (map (\<lambda>e. name_parts (te_Name e)) new)" using dn by (simp add: comp_def)
    from sk show ?thesis
    proof (elim disjE exE conjE)
      assume "skel = []"
      then show ?thesis using o t tn free dn' names(3) by (simp add: good_names_def es comp_def)
    next
      fix s assume "skel = [s]" "te_Name s = ''program.skel.h''"
      then show ?thesis using o t tn free dn' names(2,3) by (simp add: good_names_def es comp_def)
    qed
  qed
  then show ?thesis using es obj by blast
qed

lemma good_paths:
  assumes "good_names es" and "rooted dir"
  shows "distinct (map (entry_path cwd dir) es) \<and> distinct (map te_Name es)"
proof -
  have "inj_on name_parts (te_Name ` set es)" and d: "distinct (map te_Name es)" and t: "\<forall>e \<in> set es. tame_name (te_Name e)"
    using assms(1) by (auto simp: good_names_def distinct_map inj_on_def)
  note inj = this(1)
  have "inj_on (\<lambda>n. path_abs cwd (path_join [dir, n])) (te_Name ` set es)"
  proof (rule inj_onI)
    fix n n' assume n: "n \<in> te_Name ` set es" "n' \<in> te_Name ` set es"
      "path_abs cwd (path_join [dir, n]) = path_abs cwd (path_join [dir, n'])"
    then have "tame_name n" "tame_name n'" using t by auto
    from extract_path_inj [OF assms(2) this n(3)] show "n = n'" using inj n(1,2) by (auto dest: inj_onD)
  qed
  then have "distinct (map (\<lambda>n. path_abs cwd (path_join [dir, n])) (map te_Name es))"
    using d unfolding distinct_map [of "\<lambda>n. path_abs cwd (path_join [dir, n])" "map te_Name es"] list.set_map by blast
  then show ?thesis using d by (simp add: entry_path_def [abs_def] comp_def)
qed

lemma entry_checksums_get:
  "distinct (map te_Name es) \<Longrightarrow> e \<in> set es \<Longrightarrow>
     map_get (entry_checksums es) (te_Name e) = Some (calculateChecksum (te_Data e))"
proof (induction es rule: rev_induct)
  case (snoc x es)
  then show ?case by (cases "e = x") (auto simp: entry_checksums_def rev_image_eqI)
qed simp

text \<open>What a successful \<open>Pack\<close> did.\<close>

lemma Pack_elim:
  assumes "Pack io ar rendered meta out now env = (Inr pkg, env1)"
  obtains env0 es where "pack_entries io (rr_ObjectPath rendered) env0 = (None, es)"
    and "pr_Metadata pkg = pack_metadata rendered meta (entry_checksums es) now"
    and "pr_Files pkg = map te_Name es @ [''metadata.json'']"
    and "file_at env1 (path_abs (ev_cwd env) out)
      (ar_encode ar (es @ [\<lparr>te_Name = ''metadata.json'', te_Mode = 420, te_Data = ar_marshal ar (pr_Metadata pkg)\<rparr>]))"
    and "ev_cwd env0 = ev_cwd env" and "ev_cwd env1 = ev_cwd env" and "clean_fs env \<Longrightarrow> clean_fs env0"
    and "\<And>k c. k \<noteq> path_abs (ev_cwd env) out \<Longrightarrow> file_at env k c \<Longrightarrow> file_at env0 k c"
proof -
  obtain enva envb where mk: "MkdirAll io 493 (path_dir out) env = (None, enva)"
    and wr: "WriteFile io 438 now out [] enva = (None, envb)"
    using assms by (auto simp: Pack_def split: prod.splits option.splits)
  obtain es where pe: "pack_entries io (rr_ObjectPath rendered) envb = (None, es)"
    using assms mk wr by (auto simp: Pack_def Let_def split: prod.splits option.splits)
  have frame: "ev_cwd envb = ev_cwd env" "clean_fs env \<Longrightarrow> clean_fs envb"
      "\<And>k c. k \<noteq> path_abs (ev_cwd env) out \<Longrightarrow> file_at env k c \<Longrightarrow> file_at envb k c"
    using MkdirAll_frame [OF mk] WriteFile_frame [OF wr] by (simp_all add: file_at_def)
  let ?m = "pack_metadata rendered meta (entry_checksums es) now"
  let ?es = "es @ [\<lparr>te_Name = ''metadata.json'', te_Mode = 420, te_Data = ar_marshal ar ?m\<rparr>]"
  have r: "pr_Metadata pkg = ?m" "pr_Files pkg = map te_Name ?es"
    "env1 = snd (WriteFile (\<lambda>_ _. None) 438 now out (ar_encode ar ?es) envb)"
    using assms mk wr pe by (auto simp: Pack_def Let_def split: option.splits pack_stage.splits prod.splits)
  obtain m m' where dir: "fs_lookup enva (path_dir (path_abs (ev_cwd enva) out)) = Some (DirNode m)"
    and no_dir: "\<forall>d. fs_lookup enva out \<noteq> Some (DirNode d)" and envb: "envb = fs_set out (FileNode m' [] now) enva"
    using wr by (auto simp: WriteFile_def split: option.splits fs_node.splits)
  have "path_abs (ev_cwd enva) (path_dir (path_abs (ev_cwd enva) out)) \<noteq> path_abs (ev_cwd enva) out"
    using dir no_dir by (auto simp: fs_lookup_def)
  then have "fs_lookup envb (path_dir (path_abs (ev_cwd envb) out)) = Some (DirNode m)"
    "fs_lookup envb out = Some (FileNode m' [] now)"
    using dir by (simp_all add: envb fs_lookup_def)
  then have fin: "WriteFile (\<lambda>_ _. None) 438 now out (ar_encode ar ?es) envb = (None, env1)"
    unfolding r(3) by (simp add: WriteFile_def)
  show thesis
    using that [OF pe r(1)] r(2) WriteFile_frame [OF fin] frame by (simp add: r(1))
qed

lemma file_at_fun: "file_at env k c \<Longrightarrow> file_at env k c' \<Longrightarrow> c = c'"
  by (auto simp: file_at_def)

lemma ExtractPackage_elim:
  assumes "ExtractPackage io ar now path dir env = (Inr m, env1)"
    and "file_at env (path_abs (ev_cwd env) path) contents" and "ar_decode ar contents = (es, stop)"
  obtains env0 where "extract_entries io ar now dir es stop zero_metadata env0 = (Inr m, env1)"
    and "ev_cwd env0 = ev_cwd env"
proof -
  obtain env0 where mk: "MkdirAll io 493 dir env = (None, env0)"
    using assms(1) by (auto simp: ExtractPackage_def split: prod.splits option.splits)
  have f: "file_at env0 (path_abs (ev_cwd env) path) contents" and cwd: "ev_cwd env0 = ev_cwd env"
    using MkdirAll_frame [OF mk] assms(2) by auto
  obtain c where rd: "ReadFile io path env0 = Inr c"
    using assms(1) mk by (auto simp: ExtractPackage_def split: sum.splits)
  then have "file_at env0 (path_abs (ev_cwd env0) path) c"
    by (auto simp: ReadFile_def fs_lookup_def file_at_def split: option.splits fs_node.splits)
  then have "c = contents" using f cwd file_at_fun by metis
  then have "extract_entries io ar now dir es stop zero_metadata env0 = (Inr m, env1)"
    using assms(1,3) mk rd by (auto simp: ExtractPackage_def split: option.splits)
  then show thesis using that cwd by blast
qed

text \<open>
  C39. Extracting a package gives back what was packed: the metadata returned are those of the package, and
  every file has contents with the checksum the metadata record for it, the program the contents of the
  object. The one exception is \<open>metadata.json\<close>, which is extracted as an empty file.
\<close>

theorem package_roundtrip:
  assumes fs: "clean_fs env" and root: "rooted (rr_ObjectPath rendered)" "rooted dir"
    and codec: "\<And>es. ar_decode ar (ar_encode ar es) = (es, None)" "\<And>m. ar_unmarshal ar (ar_marshal ar m) = Inl m"
    and pack: "Pack io ar rendered meta out now env = (Inr pkg, env1)"
    and extr: "ExtractPackage io' ar now' out dir env1 = (Inr m, env2)"
  shows "m = pr_Metadata pkg \<and>
    file_at env2 (path_abs (ev_cwd env) (path_join [dir, ''metadata.json''])) [] \<and>
    (\<forall>name \<in> set (pr_Files pkg). name \<noteq> ''metadata.json'' \<longrightarrow>
      (\<exists>c. file_at env2 (path_abs (ev_cwd env) (path_join [dir, name])) c \<and>
           map_get (pm_Checksums m) name = Some (calculateChecksum c))) \<and>
    (\<forall>c. file_at env (path_abs (ev_cwd env) (rr_ObjectPath rendered)) c \<longrightarrow>
      path_abs (ev_cwd env) (rr_ObjectPath rendered) \<noteq> path_abs (ev_cwd env) out \<longrightarrow>
      file_at env2 (path_abs (ev_cwd env) (path_join [dir, ''program.o''])) c)"
proof -
  obtain env0 es where pe: "pack_entries io (rr_ObjectPath rendered) env0 = (None, es)"
    and meta: "pr_Metadata pkg = pack_metadata rendered meta (entry_checksums es) now"
    and files: "pr_Files pkg = map te_Name es @ [''metadata.json'']"
    and out: "file_at env1 (path_abs (ev_cwd env) out)
      (ar_encode ar (es @ [\<lparr>te_Name = ''metadata.json'', te_Mode = 420, te_Data = ar_marshal ar (pr_Metadata pkg)\<rparr>]))"
    and cwd: "ev_cwd env0 = ev_cwd env" "ev_cwd env1 = ev_cwd env" and fs0: "clean_fs env \<Longrightarrow> clean_fs env0"
    and kept: "\<And>k c. k \<noteq> path_abs (ev_cwd env) out \<Longrightarrow> file_at env k c \<Longrightarrow> file_at env0 k c"
    by (rule Pack_elim [OF pack]) (rule that)
  let ?meta = "\<lparr>te_Name = ''metadata.json'', te_Mode = 420, te_Data = ar_marshal ar (pr_Metadata pkg)\<rparr>"
  let ?path = "\<lambda>name. path_abs (ev_cwd env) (path_join [dir, name])"
  have good: "good_names (es @ [?meta])"
    and "\<exists>object rest. es = object # rest \<and> te_Name object = ''program.o'' \<and>
       file_at env0 (path_abs (ev_cwd env0) (rr_ObjectPath rendered)) (te_Data object)"
    using pack_entries_good [OF fs0 [OF fs] root(1) pe] by auto
  then obtain object where object: "object \<in> set es" "te_Name object = ''program.o''"
    "file_at env0 (path_abs (ev_cwd env) (rr_ObjectPath rendered)) (te_Data object)"
    unfolding cwd by (metis list.set_intros(1))
  note dist = good_paths [OF good root(2), of "ev_cwd env"]
  obtain env1' where ex: "extract_entries io' ar now' dir (es @ [?meta]) None zero_metadata env1' = (Inr m, env2)"
    and "ev_cwd env1' = ev_cwd env1"
    using ExtractPackage_elim [OF extr out [folded cwd(2)] codec(1)] by blast
  then have cwd': "ev_cwd env1' = ev_cwd env" by (simp add: cwd)
  have m: "m = pr_Metadata pkg" using extract_entries_meta [OF ex] codec(2) by simp
  have at: "file_at env2 (?path (te_Name e)) (extracted_data e)" if "e \<in> set (es @ [?meta])" for e
    using extract_entries_files [OF ex] dist that unfolding cwd' entry_path_def [abs_def] by blast
  have notmeta: "te_Name e \<noteq> ''metadata.json''" if "e \<in> set es" for e
    using dist that by (auto simp: rev_image_eqI)
  have "file_at env2 (?path ''metadata.json'') []" using at [of ?meta] by (simp add: extracted_data_def)
  moreover have "\<exists>c. file_at env2 (?path name) c \<and> map_get (pm_Checksums m) name = Some (calculateChecksum c)"
    if name: "name \<in> set (pr_Files pkg)" "name \<noteq> ''metadata.json''" for name
  proof -
    obtain e where e: "e \<in> set es" "name = te_Name e" using name files by auto
    have "map_get (pm_Checksums m) name = Some (calculateChecksum (te_Data e))"
      using entry_checksums_get [OF _ e(1)] dist by (simp add: m meta pack_metadata_def e(2))
    then show ?thesis using at [of e] e notmeta [OF e(1)] by (auto simp: extracted_data_def)
  qed
  moreover have "file_at env2 (?path ''program.o'') c"
    if "file_at env (path_abs (ev_cwd env) (rr_ObjectPath rendered)) c"
      "path_abs (ev_cwd env) (rr_ObjectPath rendered) \<noteq> path_abs (ev_cwd env) out" for c
    using at [of object] object notmeta [OF object(1)] file_at_fun [OF kept [OF that(2,1)] object(3)]
    by (simp add: extracted_data_def)
  ultimately show ?thesis using m by blast
qed

text \<open>The checksums see the length of a file only, and the upload nothing of its contents.\<close>

lemma checksum_is_length: "length a = length b \<Longrightarrow> calculateChecksum a = calculateChecksum b"
  by (simp add: calculateChecksum_def)

lemma upload_ignores_contents:
  "pr_Metadata pkg = pr_Metadata pkg' \<Longrightarrow> artifact_request pkg n v d = artifact_request pkg' n v d"
  by (simp add: artifact_request_def readPackageData_def)

text \<open>An entry can leave the directory of the extraction.\<close>

lemma extraction_escapes:
  "path_abs ''/'' (path_join [''/data/extract'', ''../../etc/passwd'']) = ''/etc/passwd''"
  by code_simp

text \<open>A value that contains a placeholder is substituted again if its key comes later in the iteration.\<close>

lemma substitution_order:
  "substituteParams ''{{a}}'' [(''a'', ''{{b}}''), (''b'', ''1'')] = ''1''"
  "substituteParams ''{{a}}'' [(''b'', ''1''), (''a'', ''{{b}}'')] = ''{{b}}''"
  by (code_simp)+

text \<open>With a relative output directory the render directory is looked for inside itself.\<close>

lemma relative_directory_fails:
  assumes "io ''getwd'' [] = None" and "io ''chdir'' dir = None"
    and "fs_lookup (env\<lparr>ev_cwd := path_abs (ev_cwd env) dir\<rparr>) dir = None"
  shows "\<exists>err env1. compileBPF io run dir params env = (Inl err, env1)"
  using assms by (auto simp: compileBPF_def Let_def split: option.splits fs_node.splits)

text \<open>Cleaning up removes nothing below a render directory.\<close>

lemma cleanupDirectory_keeps:
  assumes "\<not> below (path_abs (ev_cwd env) dir) p \<or> CHR ''/'' \<in> set (drop (Suc (length (path_abs (ev_cwd env) dir))) p)"
    and "(p, n) \<in> set (ev_fs env)"
  shows "(p, n) \<in> set (ev_fs (snd (cleanupDirectory io dir cutoff env)))"
  using assms by (auto simp: cleanupDirectory_def Let_def split: option.splits)

end
