(* ===== verification/Orch_PackageExamples.thy ===== *)
theory Orch_PackageExamples
  imports Orch_PackageProperties
begin

text \<open>A concrete archive format that can be read back, and a package in it.\<close>

section \<open>A format\<close>

fun enc_strings :: "string list \<Rightarrow> string" where
  "enc_strings [] = []"
| "enc_strings (s # ss) = concat (map (\<lambda>c. [CHR ''x'', c]) s) @ CHR ''e'' # enc_strings ss"

fun dec_strings :: "string \<Rightarrow> string \<Rightarrow> string list" where
  "dec_strings acc (t # r) =
     (if t = CHR ''e'' then rev acc # dec_strings [] r
      else case r of [] \<Rightarrow> [] | c # r' \<Rightarrow> dec_strings (c # acc) r')"
| "dec_strings acc [] = []"

lemma dec_string: "dec_strings acc (concat (map (\<lambda>c. [CHR ''x'', c]) s) @ CHR ''e'' # r) = (rev acc @ s) # dec_strings [] r"
  by (induction s arbitrary: acc) auto

lemma dec_enc: "dec_strings [] (enc_strings ss) = ss"
  by (induction ss) (auto simp: dec_string)

definition enc_nat :: "nat \<Rightarrow> string" where "enc_nat n = replicate n (CHR ''1'')"

definition enc_int :: "int \<Rightarrow> string" where
  "enc_int i = (if i < 0 then CHR ''-'' # enc_nat (nat (- i)) else enc_nat (nat i))"

definition dec_int :: "string \<Rightarrow> int" where
  "dec_int s = (if s \<noteq> [] \<and> hd s = CHR ''-'' then - int (length s - 1) else int (length s))"

lemma dec_nat: "length (enc_nat n) = n"
  by (simp add: enc_nat_def)

lemma dec_int: "dec_int (enc_int i) = i"
  by (cases "nat i") (auto simp: dec_int_def enc_int_def enc_nat_def)

definition enc_pairs :: "(string \<times> string) list \<Rightarrow> string" where
  "enc_pairs m = enc_strings (concat (map (\<lambda>(k, v). [k, v]) m))"

fun pairs :: "string list \<Rightarrow> (string \<times> string) list" where
  "pairs (k # v # r) = (k, v) # pairs r"
| "pairs _ = []"

lemma dec_pairs: "pairs (dec_strings [] (enc_pairs m)) = m"
  unfolding enc_pairs_def dec_enc by (induction m) auto

fun entry_triples :: "string list \<Rightarrow> tar_entry list" where
  "entry_triples (n # m # d # r) = \<lparr>te_Name = n, te_Mode = length m, te_Data = d\<rparr> # entry_triples r"
| "entry_triples _ = []"

definition enc_entries :: "tar_entry list \<Rightarrow> string" where
  "enc_entries es = enc_strings (concat (map (\<lambda>e. [te_Name e, enc_nat (te_Mode e), te_Data e]) es))"

lemma dec_entries: "entry_triples (dec_strings [] (enc_entries es)) = es"
  unfolding enc_entries_def dec_enc by (induction es) (auto simp: dec_nat)

definition enc_meta :: "packageMetadata \<Rightarrow> string" where
  "enc_meta m = (let b = pm_BuildInfo m in enc_strings
     [pm_TemplateName m, pm_Version m, pm_Architecture m, pm_KernelVersion m, pm_BuildID m, enc_int (pm_CreatedAt m),
      enc_pairs (pm_Parameters m), enc_int (bi_BuildTime b), bi_BuildLog b, bi_Compiler b, bi_CompilerVer b,
      enc_strings (bi_BuildFlags b), enc_nat (bi_ObjectSize b), enc_pairs (pm_Checksums m)])"

fun dec_meta :: "string list \<Rightarrow> packageMetadata + string" where
  "dec_meta [a, b, c, d, e, f, g, h, i, j, k, l, m, n] = Inl
     \<lparr>pm_TemplateName = a, pm_Version = b, pm_Architecture = c, pm_KernelVersion = d, pm_BuildID = e,
      pm_CreatedAt = dec_int f, pm_Parameters = pairs (dec_strings [] g),
      pm_BuildInfo = \<lparr>bi_BuildTime = dec_int h, bi_BuildLog = i, bi_Compiler = j, bi_CompilerVer = k,
        bi_BuildFlags = dec_strings [] l, bi_ObjectSize = length m\<rparr>,
      pm_Checksums = pairs (dec_strings [] n)\<rparr>"
| "dec_meta _ = Inr ''unexpected end''"

definition ex_archive :: archive where
  "ex_archive = \<lparr>ar_encode = enc_entries, ar_flushed = length, ar_decode = \<lambda>s. (entry_triples (dec_strings [] s), None),
     ar_marshal = enc_meta, ar_unmarshal = \<lambda>s. dec_meta (dec_strings [] s)\<rparr>"

lemma ex_archive_codec:
  "ar_decode ex_archive (ar_encode ex_archive es) = (es, None)"
  "ar_unmarshal ex_archive (ar_marshal ex_archive m) = Inl m"
  by (simp_all add: ex_archive_def dec_entries enc_meta_def Let_def dec_enc dec_int dec_pairs dec_nat del: enc_strings.simps)

section \<open>A package\<close>

definition ex_env :: ebpf_env where
  "ex_env = \<lparr>ev_fs = [(''/r'', DirNode 2), (''/r/a.bpf.o'', FileNode 2 ''ELF'' 0), (''/r/src'', DirNode 2),
     (''/r/src/a.c'', FileNode 2 ''int'' 0)], ev_cwd = ''/''\<rparr>"

definition ex_rendered :: renderResult where
  "ex_rendered = \<lparr>rr_ObjectPath = ''/r/a.bpf.o'', rr_BuildLog = [], rr_BuildTime = 0, rr_Metadata = [], rr_CompiledSize = 3\<rparr>"

definition ex_packed :: "(string + packageResult) \<times> ebpf_env" where
  "ex_packed = Pack (\<lambda>_ _. None) ex_archive ex_rendered (zero_metadata\<lparr>pm_CreatedAt := 0\<rparr>) ''/p/a'' 1 ex_env"

definition ex_extracted :: "(string + packageMetadata) \<times> ebpf_env" where
  "ex_extracted = ExtractPackage (\<lambda>_ _. None) ex_archive 2 ''/p/a'' ''/x'' (snd ex_packed)"

text \<open>The steps of packing and extracting; \<open>d\<close> stands for the contents of the archive.\<close>

definition ex_entry1 :: tar_entry where
  "ex_entry1 = \<lparr>te_Name = ''program.o'', te_Mode = 2, te_Data = ''ELF''\<rparr>"

definition ex_entry2 :: tar_entry where
  "ex_entry2 = \<lparr>te_Name = ''src/a.c'', te_Mode = 2, te_Data = ''int''\<rparr>"

definition ex_env1 :: "string \<Rightarrow> ebpf_env" where
  "ex_env1 d = \<lparr>ev_fs = ev_fs ex_env @ [(''/p'', DirNode 493), (''/p/a'', FileNode 438 d 1)], ev_cwd = ''/''\<rparr>"

definition ex_env2 :: "string \<Rightarrow> (string \<times> fs_node) list \<Rightarrow> ebpf_env" where
  "ex_env2 d new = \<lparr>ev_fs = ev_fs (ex_env1 d) @ (''/x'', DirNode 493) # new, ev_cwd = ''/''\<rparr>"

lemma ex_mkdir: "MkdirAll (\<lambda>_ _. None) 493 (path_dir ''/p/a'') ex_env =
    (None, \<lparr>ev_fs = ev_fs ex_env @ [(''/p'', DirNode 493)], ev_cwd = ''/''\<rparr>)"
  by code_simp

lemma ex_create_package: "WriteFile (\<lambda>_ _. None) 438 1 ''/p/a'' [] \<lparr>ev_fs = ev_fs ex_env @ [(''/p'', DirNode 493)], ev_cwd = ''/''\<rparr> =
    (None, ex_env1 [])"
  by code_simp

lemma ex_entries: "pack_entries (\<lambda>_ _. None) ''/r/a.bpf.o'' (ex_env1 []) = (None, [ex_entry1, ex_entry2])"
  by code_simp

lemma ex_finish: "WriteFile (\<lambda>_ _. None) 438 1 ''/p/a'' d (ex_env1 []) = (None, ex_env1 d)"
  by code_simp

lemma ex_mkdir_x: "MkdirAll (\<lambda>_ _. None) 493 ''/x'' (ex_env1 d) = (None, ex_env2 d [])"
  by code_simp

lemma ex_read_package: "ReadFile (\<lambda>_ _. None) ''/p/a'' (ex_env2 d []) = Inr d"
  by code_simp

lemma ex_extract1: "extract_entry (\<lambda>_ _. None) ar 2 ''/x'' ex_entry1 m (ex_env2 d []) =
    (Inr m, ex_env2 d [(''/x/program.o'', FileNode 2 ''ELF'' 2)])"
  by code_simp

lemma ex_extract2: "extract_entry (\<lambda>_ _. None) ar 2 ''/x'' ex_entry2 m (ex_env2 d [(''/x/program.o'', FileNode 2 ''ELF'' 2)]) =
    (Inr m, ex_env2 d [(''/x/program.o'', FileNode 2 ''ELF'' 2), (''/x/src'', DirNode 493), (''/x/src/a.c'', FileNode 2 ''int'' 2)])"
  by code_simp

abbreviation ex_files :: "(string \<times> fs_node) list" where
  "ex_files \<equiv> [(''/x/program.o'', FileNode 2 ''ELF'' 2), (''/x/src'', DirNode 493), (''/x/src/a.c'', FileNode 2 ''int'' 2)]"

lemma ex_mkdir_meta: "MkdirAll (\<lambda>_ _. None) 493 (path_dir (path_join [''/x'', ''metadata.json''])) (ex_env2 d ex_files) =
    (None, ex_env2 d ex_files)"
  by code_simp

lemma ex_write_meta: "WriteFile (\<lambda>_ _. None) 420 2 (path_join [''/x'', ''metadata.json'']) [] (ex_env2 d ex_files) =
    (None, ex_env2 d (ex_files @ [(''/x/metadata.json'', FileNode 420 [] 2)]))"
  by code_simp

definition ex_meta :: packageMetadata where
  "ex_meta = pack_metadata ex_rendered zero_metadata (entry_checksums [ex_entry1, ex_entry2]) 1"

definition ex_contents :: string where
  "ex_contents = enc_entries [ex_entry1, ex_entry2,
     \<lparr>te_Name = ''metadata.json'', te_Mode = 420, te_Data = ar_marshal ex_archive ex_meta\<rparr>]"

definition ex_package :: packageResult where
  "ex_package = (let written = take (length [ex_entry1, ex_entry2, ex_entry1]) ex_contents in
     \<lparr>pr_PackagePath = ''/p/a'', pr_PackageSize = length written, pr_Metadata = ex_meta,
      pr_Files = [''program.o'', ''src/a.c'', ''metadata.json''], pr_Checksum = calculateChecksum written\<rparr>)"

lemma ex_packed: "Pack (\<lambda>_ _. None) ex_archive ex_rendered zero_metadata ''/p/a'' 1 ex_env = (Inr ex_package, ex_env1 ex_contents)"
proof -
  have "rr_ObjectPath ex_rendered = ''/r/a.bpf.o''" by (simp add: ex_rendered_def)
  moreover have "ar_encode ex_archive = enc_entries" "ar_flushed ex_archive = length" by (simp_all add: ex_archive_def)
  moreover have "te_Name ex_entry1 = ''program.o''" "te_Name ex_entry2 = ''src/a.c''"
    by (simp_all add: ex_entry1_def ex_entry2_def)
  ultimately show ?thesis
    by (simp add: Pack_def ex_mkdir ex_create_package ex_entries ex_finish Let_def ex_package_def ex_contents_def ex_meta_def)
qed

lemma ex_extracted: "ExtractPackage (\<lambda>_ _. None) ex_archive 2 ''/p/a'' ''/x'' (ex_env1 ex_contents) =
    (Inr ex_meta, ex_env2 ex_contents (ex_files @ [(''/x/metadata.json'', FileNode 420 [] 2)]))"
proof -
  let ?e = "\<lparr>te_Name = ''metadata.json'', te_Mode = 420, te_Data = ar_marshal ex_archive ex_meta\<rparr>"
  have dec: "ar_decode ex_archive ex_contents = ([ex_entry1, ex_entry2, ?e], None)"
    using ex_archive_codec(1) [of "[ex_entry1, ex_entry2, ?e]"] by (simp add: ex_contents_def ex_archive_def)
  have "extract_entry (\<lambda>_ _. None) ex_archive 2 ''/x'' ?e zero_metadata (ex_env2 ex_contents ex_files) =
      (Inr ex_meta, ex_env2 ex_contents (ex_files @ [(''/x/metadata.json'', FileNode 420 [] 2)]))"
    unfolding extract_entry_def Let_def using ex_archive_codec(2) ex_mkdir_meta [of ex_contents] ex_write_meta [of ex_contents]
    by simp
  then show ?thesis
    by (simp add: ExtractPackage_def ex_mkdir_x ex_read_package dec ex_extract1 ex_extract2)
qed

lemma ex_env_clean: "clean_fs ex_env"
proof -
  have keys: "fst ` set (ev_fs ex_env) = path_clean ` {''/r'', ''/r/a.bpf.o'', ''/r/src'', ''/r/src/a.c''}"
    by code_simp
  have "rooted p" if "p \<in> {''/r'', ''/r/a.bpf.o'', ''/r/src'', ''/r/src/a.c''}" for p
    using that by (auto simp: rooted_def)
  then have "\<forall>k \<in> fst ` set (ev_fs ex_env). clean_key k" unfolding keys by (auto intro!: clean_key_path)
  moreover have "map_ok (ev_fs ex_env)" "rooted (ev_cwd ex_env)" by code_simp+
  ultimately show ?thesis by (simp add: clean_fs_def)
qed

theorem package_roundtrip_witness:
  "ex_meta = pr_Metadata ex_package \<and>
   file_at (ex_env2 ex_contents (ex_files @ [(''/x/metadata.json'', FileNode 420 [] 2)])) ''/x/program.o'' ''ELF''"
proof -
  have "file_at ex_env ''/r/a.bpf.o'' ''ELF''" by (simp add: file_at_def ex_env_def)
  moreover have "path_abs (ev_cwd ex_env) (rr_ObjectPath ex_rendered) = ''/r/a.bpf.o''"
    "path_abs (ev_cwd ex_env) ''/p/a'' = ''/p/a''" "path_abs (ev_cwd ex_env) (path_join [''/x'', ''program.o'']) = ''/x/program.o''"
    by code_simp+
  moreover have "rooted (rr_ObjectPath ex_rendered)" "rooted ''/x''"
    by (simp_all add: rooted_def ex_rendered_def)
  ultimately show ?thesis
    using package_roundtrip [OF ex_env_clean _ _ ex_archive_codec ex_packed ex_extracted] by simp
qed

end
