(* ===== verification/Orch_Decision.thy ===== *)
theory Orch_Decision
  imports Orch_Rollout Orch_Package
begin

text \<open>
  The decision side of the orchestrator: \<open>types.go\<close> and \<open>processor.go\<close> under
  \<open>src/backend/orchestrator/internal/decision\<close>. Plans are not stored: the processor works on the plan
  \<open>getPlan\<close> makes up.
\<close>

section \<open>Data\<close>

record plan_control =
  dc_ID :: string
  dc_Type :: string
  dc_Target :: string
  dc_Parameters :: "(string, gval) gomap"
  dc_ArtifactID :: string
  dc_Status :: string
  dc_DeployedAt :: "time option"
  dc_ActivatedAt :: "time option"
  dc_Error :: string
  dc_Metadata :: "(string, gval) gomap"

record orch_plan =
  dp_ID :: string
  dp_Name :: string
  dp_Description :: string
  dp_Priority :: int
  dp_Status :: string
  dp_CreatedAt :: time
  dp_UpdatedAt :: time
  dp_Controls :: "plan_control list"
  dp_Metadata :: "(string, gval) gomap"

record planUpdateResponse =
  du_PlanID :: string
  du_Status :: string
  du_UpdatedControls :: "plan_control list"
  du_ArtifactIDs :: "string list"
  du_DeploymentIDs :: "string list"
  du_UpdatedAt :: time
  du_Error :: string

record deploymentRequest =
  dq_PlanID :: string
  dq_ControlIDs :: "string list"
  dq_DeploymentType :: string
  dq_Targets :: "string list"
  dq_TTL :: int
  dq_Reason :: string

record deploymentResponse =
  dr_PlanID :: string
  dr_DeploymentID :: string
  dr_Status :: string
  dr_DeployedControls :: "string list"
  dr_Targets :: "string list"
  dr_DeployedAt :: time
  dr_Error :: string

record controlStatus =
  ds_ControlID :: string
  ds_Status :: string
  ds_ArtifactID :: string
  ds_LastUpdate :: time
  ds_Error :: string

record orch_planStatus =
  dt_PlanID :: string
  dt_Status :: string
  dt_TotalControls :: nat
  dt_ActiveControls :: nat
  dt_FailedControls :: nat
  dt_RollbackControls :: nat
  dt_Controls :: "controlStatus list"
  dt_LastUpdate :: time

definition EBPFControlTypes :: "string list" where
  "EBPFControlTypes =
     [''ebpf_drop_egress_by_cgroup'', ''ebpf_deny_syscall_for_cgroup'', ''ebpf_drop_egress_by_process'',
      ''ebpf_deny_syscall_for_process'', ''ebpf_rate_limit'', ''ebpf_traffic_monitor'']"

definition IsEBPFControl :: "string \<Rightarrow> bool" where
  "IsEBPFControl controlType = list_ex (\<lambda>t. t = controlType) EBPFControlTypes"

definition EBPFControlTemplate :: "(string, string) gomap" where
  "EBPFControlTemplate =
     [(''ebpf_drop_egress_by_cgroup'', ''drop_egress_by_cgroup''),
      (''ebpf_deny_syscall_for_cgroup'', ''deny_syscall_for_cgroup''),
      (''ebpf_drop_egress_by_process'', ''drop_egress_by_cgroup''),
      (''ebpf_deny_syscall_for_process'', ''deny_syscall_for_cgroup''),
      (''ebpf_rate_limit'', ''rate_limit''), (''ebpf_traffic_monitor'', ''traffic_monitor'')]"

definition GetEBPFTemplate :: "string \<Rightarrow> string" where
  "GetEBPFTemplate controlType = (case map_get EBPFControlTemplate controlType of Some t \<Rightarrow> t | None \<Rightarrow> [])"

section \<open>Processing a plan\<close>

definition metadata_string :: "string \<Rightarrow> string \<Rightarrow> plan_control \<Rightarrow> string" where
  "metadata_string key other c = (case map_get (dc_Metadata c) key of Some (VStr s) \<Rightarrow> s | _ \<Rightarrow> other)"

definition getTargetArch :: "plan_control \<Rightarrow> string" where
  "getTargetArch c = metadata_string ''target_arch'' ''x86_64'' c"

definition getKernelVersion :: "plan_control \<Rightarrow> string" where
  "getKernelVersion c = metadata_string ''kernel_version'' [] c"

definition control_parameters :: "(float64 \<Rightarrow> string) \<Rightarrow> plan_control \<Rightarrow> (string, string) gomap" where
  "control_parameters g c =
     foldl (\<lambda>m (k, v). map_set k (case v of VStr s \<Rightarrow> s | _ \<Rightarrow> fmt_v g v) m) [] (dc_Parameters c)"

definition control_request :: "(float64 \<Rightarrow> string) \<Rightarrow> string \<Rightarrow> plan_control \<Rightarrow> orchestrationRequest" where
  "control_request g planID c =
     \<lparr>oo_TemplateName = GetEBPFTemplate (dc_Type c), oo_Parameters = control_parameters g c,
      oo_TargetArch = getTargetArch c, oo_KernelVer = getKernelVersion c,
      oo_Name = planID @ ''-'' @ dc_ID c, oo_Version = ''1.0.0'',
      oo_Description = ''eBPF control '' @ dc_Type c @ '' for plan '' @ planID\<rparr>"

definition processEBPFControl ::
    "(float64 \<Rightarrow> string) \<Rightarrow> orch_world \<Rightarrow> orchestrator \<Rightarrow> string \<Rightarrow> plan_control \<Rightarrow> ebpf_env \<Rightarrow> (string + string) \<times> ebpf_env" where
  "processEBPFControl g w os planID c env =
     (if GetEBPFTemplate (dc_Type c) = [] then (Inl (''unknown eBPF control type: '' @ dc_Type c), env)
      else (case Orchestrate w os (control_request g planID c) env of
              (Inl err, env1) \<Rightarrow> (Inl (''orchestration failed: '' @ err), env1)
            | (Inr res, env1) \<Rightarrow> (Inr (af_ArtifactID (ou_ArtifactRef res)), env1)))"

text \<open>
  The loop of \<open>ProcessPlan\<close>: the controls of the answer, the controls the plan is left with and the
  artifacts. A control that fails is marked in the answer, not in the plan.
\<close>

fun process_controls ::
    "(float64 \<Rightarrow> string) \<Rightarrow> orch_world \<Rightarrow> orchestrator \<Rightarrow> time \<Rightarrow> string \<Rightarrow> plan_control list \<Rightarrow> ebpf_env \<Rightarrow>
      (plan_control list \<times> plan_control list \<times> string list) \<times> ebpf_env" where
  "process_controls g w os now planID [] env = (([], [], []), env)"
| "process_controls g w os now planID (c # cs) env =
     (if IsEBPFControl (dc_Type c) then
        (case processEBPFControl g w os planID c env of
           (Inl err, env1) \<Rightarrow>
             (case process_controls g w os now planID cs env1 of
                ((updated, kept, artifacts), env2) \<Rightarrow>
                  ((c\<lparr>dc_Status := ''failed'', dc_Error := err\<rparr> # updated, c # kept, artifacts), env2))
         | (Inr artifact, env1) \<Rightarrow>
             let c1 = c\<lparr>dc_ArtifactID := artifact, dc_Status := ''artifact_ready'', dc_DeployedAt := Some now\<rparr>
             in case process_controls g w os now planID cs env1 of
                  ((updated, kept, artifacts), env2) \<Rightarrow> ((c1 # updated, c1 # kept, artifact # artifacts), env2))
      else
        (case process_controls g w os now planID cs env of
           ((updated, kept, artifacts), env2) \<Rightarrow> ((c # updated, c # kept, artifacts), env2)))"

definition ProcessPlan ::
    "(float64 \<Rightarrow> string) \<Rightarrow> orch_world \<Rightarrow> orchestrator \<Rightarrow> time \<Rightarrow> orch_plan \<Rightarrow> ebpf_env \<Rightarrow> planUpdateResponse \<times> orch_plan \<times> ebpf_env" where
  "ProcessPlan g w os now plan env =
     (case process_controls g w os now (dp_ID plan) (dp_Controls plan) env of
        ((updated, kept, artifacts), env1) \<Rightarrow>
          (\<lparr>du_PlanID = dp_ID plan, du_Status = ''completed'', du_UpdatedControls = updated, du_ArtifactIDs = artifacts,
            du_DeploymentIDs = [], du_UpdatedAt = now, du_Error = []\<rparr>,
           plan\<lparr>dp_Controls := kept\<rparr>, env1))"

section \<open>Deploying a plan\<close>

definition placeholder_control :: plan_control where
  "placeholder_control =
     \<lparr>dc_ID = ''control-1'', dc_Type = ''ebpf_drop_egress_by_cgroup'', dc_Target = ''host-1'',
      dc_Parameters = [(''dst_ip'', VStr ''8.8.8.8''), (''dst_port'', VStr ''53''), (''cgroup_id'', VStr ''12345''),
        (''ttl'', VStr ''3600'')],
      dc_ArtifactID = [], dc_Status = ''pending'', dc_DeployedAt = None, dc_ActivatedAt = None, dc_Error = [],
      dc_Metadata = []\<rparr>"

definition getPlan :: "string \<Rightarrow> string + orch_plan" where
  "getPlan planID =
     Inr \<lparr>dp_ID = planID, dp_Name = [], dp_Description = [], dp_Priority = 0, dp_Status = ''active'',
          dp_CreatedAt = zero_time, dp_UpdatedAt = zero_time, dp_Controls = [placeholder_control], dp_Metadata = []\<rparr>"

definition controls_to_deploy :: "string list \<Rightarrow> plan_control list \<Rightarrow> plan_control list" where
  "controls_to_deploy ids cs =
     (if ids \<noteq> [] then concat (map (\<lambda>i. filter (\<lambda>c. dc_ID c = i \<and> IsEBPFControl (dc_Type c)) cs) ids)
      else filter (\<lambda>c. IsEBPFControl (dc_Type c)) cs)"

text \<open>\<open>rollbackControl\<close> builds a message and drops it.\<close>

definition rollbackControl :: "string \<Rightarrow> string \<Rightarrow> string list \<Rightarrow> string option" where
  "rollbackControl planID controlID targets = None"

fun deploy_controls ::
    "deploymentRequest \<Rightarrow> time \<Rightarrow> plan_control list \<Rightarrow> rollout_manager \<Rightarrow> string list \<times> rollout_manager" where
  "deploy_controls req now [] rm = ([], rm)"
| "deploy_controls req now (c # cs) rm =
     (if dc_ArtifactID c = [] then deploy_controls req now cs rm
      else
        let targets = (if dq_Targets req = [] then [dc_Target c] else dq_Targets req);
            ttl = (if dq_TTL req = 0 then 3600 else dq_TTL req);
            rollout = (\<lambda>canary. \<lparr>oq_PlanID = dq_PlanID req, oq_Targets = targets, oq_ArtifactID = dc_ArtifactID c,
                                oq_TTL = ttl, oq_Canary = canary\<rparr>);
            deployed = (\<lambda>rm1. case deploy_controls req now cs rm1 of (ids, rm2) \<Rightarrow> (dc_ID c # ids, rm2))
        in if dq_DeploymentType req = ''canary'' then deployed (snd (ApplyCanary (rollout True) now rm))
           else if dq_DeploymentType req = ''enforce'' then deployed (snd (ApplyCanary (rollout False) now rm))
           else if dq_DeploymentType req = ''rollback'' then
             (case rollbackControl (dq_PlanID req) (dc_ID c) targets of
                Some err \<Rightarrow> deploy_controls req now cs rm
              | None \<Rightarrow> deployed rm)
           else deploy_controls req now cs rm)"

definition new_deployment :: "deploymentRequest \<Rightarrow> time \<Rightarrow> deploymentResponse" where
  "new_deployment req now =
     \<lparr>dr_PlanID = dq_PlanID req, dr_DeploymentID = ''deploy-'' @ dq_PlanID req @ ''-'' @ itoa (unix_second now),
      dr_Status = ''initiated'', dr_DeployedControls = [], dr_Targets = dq_Targets req, dr_DeployedAt = now,
      dr_Error = []\<rparr>"

definition DeployPlan :: "deploymentRequest \<Rightarrow> time \<Rightarrow> rollout_manager \<Rightarrow> (deploymentResponse \<times> string option) \<times> rollout_manager" where
  "DeployPlan req now rm =
     (let response = new_deployment req now
      in case getPlan (dq_PlanID req) of
           Inl err \<Rightarrow> ((response\<lparr>dr_Status := ''failed'', dr_Error := ''Failed to get plan: '' @ err\<rparr>, Some err), rm)
         | Inr plan \<Rightarrow>
             (case deploy_controls req now (controls_to_deploy (dq_ControlIDs req) (dp_Controls plan)) rm of
                (ids, rm1) \<Rightarrow> ((response\<lparr>dr_DeployedControls := ids, dr_Status := ''deployed''\<rparr>, None), rm1)))"

section \<open>Status and update\<close>

definition GetPlanStatus :: "string \<Rightarrow> time \<Rightarrow> string + orch_planStatus" where
  "GetPlanStatus planID now =
     (case getPlan planID of
        Inl err \<Rightarrow> Inl (''failed to get plan: '' @ err)
      | Inr plan \<Rightarrow>
          let cs = dp_Controls plan; count = (\<lambda>P. length (filter (\<lambda>c. P (dc_Status c)) cs))
          in Inr \<lparr>dt_PlanID = planID, dt_Status = dp_Status plan, dt_TotalControls = length cs,
                  dt_ActiveControls = count (\<lambda>s. s = ''active'' \<or> s = ''deployed''),
                  dt_FailedControls = count (\<lambda>s. s = ''failed''), dt_RollbackControls = count (\<lambda>s. s = ''rollback''),
                  dt_Controls = map (\<lambda>c. \<lparr>ds_ControlID = dc_ID c, ds_Status = dc_Status c,
                    ds_ArtifactID = dc_ArtifactID c, ds_LastUpdate = now, ds_Error = dc_Error c\<rparr>) cs,
                  dt_LastUpdate = now\<rparr>)"

definition UpdatePlanControl ::
    "(float64 \<Rightarrow> string) \<Rightarrow> orch_world \<Rightarrow> orchestrator \<Rightarrow> string \<Rightarrow> plan_control \<Rightarrow> ebpf_env \<Rightarrow> (string + plan_control) \<times> ebpf_env" where
  "UpdatePlanControl g w os planID c env =
     (if IsEBPFControl (dc_Type c) then
        (case processEBPFControl g w os planID c env of
           (Inl err, env1) \<Rightarrow> (Inl (''failed to reprocess eBPF control: '' @ err), env1)
         | (Inr artifact, env1) \<Rightarrow> (Inr (c\<lparr>dc_ArtifactID := artifact, dc_Status := ''updated''\<rparr>), env1))
      else (Inr c, env))"

end
