(* ===== verification/Orch_Integration.thy ===== *)
theory Orch_Integration
  imports Orch_Decision
begin

text \<open>
  How the orchestrator listens to the decision engine and rolls back on its behalf:
  \<open>rollout_integration.go\<close> and \<open>rollback_handler.go\<close> under \<open>src/backend/orchestrator/internal/decision\<close>.
\<close>

section \<open>Messages\<close>

text \<open>What \<open>notifyDecisionEngine\<close> publishes.\<close>

datatype decision_event =
    PlanProcessed string
  | ControlDeploymentFailed string string
  | RolloutStatusUpdated string string string
  | DeploymentFailed string string string string

record integration =
  di_rollouts :: rollout_manager
  di_activeDeployments :: "(string, deploymentResponse) gomap"
  di_events :: "decision_event list"

definition NewDecisionRolloutIntegration :: "rollout_manager \<Rightarrow> integration" where
  "NewDecisionRolloutIntegration rm = \<lparr>di_rollouts = rm, di_activeDeployments = [], di_events = []\<rparr>"

text \<open>Whether the message can be published is an argument; a failure is only logged.\<close>

definition notifyDecisionEngine :: "bool \<Rightarrow> decision_event \<Rightarrow> integration \<Rightarrow> integration" where
  "notifyDecisionEngine sent e di = (if sent then di\<lparr>di_events := di_events di @ [e]\<rparr> else di)"

record planUpdateRequest =
  dn_PlanID :: string
  dn_Controls :: "plan_control list"
  dn_UpdateType :: string
  dn_Reason :: string

text \<open>A body that cannot be decoded is \<^const>\<open>None\<close>. The controls of an update are only looked at.\<close>

definition handlePlanUpdate :: "bool \<Rightarrow> planUpdateRequest option \<Rightarrow> integration \<Rightarrow> integration" where
  "handlePlanUpdate sent body di =
     (case body of None \<Rightarrow> di | Some u \<Rightarrow> notifyDecisionEngine sent (PlanProcessed (dn_PlanID u)) di)"

text \<open>
  The handlers that can panic answer \<^const>\<open>None\<close> then. A type assertion to a string holds of strings; an
  assertion to \<open>int\<close> holds of nothing that JSON decodes to, since its numbers are float64.
\<close>

fun assert_string :: "gval option \<Rightarrow> string option" where
  "assert_string (Some (VStr s)) = Some s"
| "assert_string _ = None"

fun assert_int :: "gval option \<Rightarrow> int option" where
  "assert_int (Some VNil) = None"
| "assert_int (Some (VBool b)) = None"
| "assert_int (Some (VNum x)) = None"
| "assert_int (Some (VStr s)) = None"
| "assert_int (Some (VArr vs)) = None"
| "assert_int (Some (VObj kvs)) = None"
| "assert_int None = None"

definition handleControlDeploy :: "time \<Rightarrow> plan_control \<Rightarrow> integration \<Rightarrow> integration option" where
  "handleControlDeploy now c di =
     (if dc_ArtifactID c = [] then Some di
      else
        (case assert_string (map_get (dc_Metadata c) ''plan_id'') of
           None \<Rightarrow> None
         | Some planID \<Rightarrow>
             Some (di\<lparr>di_rollouts := snd (ApplyCanary \<lparr>oq_PlanID = planID, oq_Targets = [dc_Target c],
               oq_ArtifactID = dc_ArtifactID c, oq_TTL = 3600, oq_Canary = True\<rparr> now (di_rollouts di))\<rparr>)))"

text \<open>The two other requests for a control are logged.\<close>

definition handleControlRollback :: "plan_control \<Rightarrow> integration \<Rightarrow> integration" where
  "handleControlRollback c di = di"

definition handleControlUpdateRequest :: "plan_control \<Rightarrow> integration \<Rightarrow> integration" where
  "handleControlUpdateRequest c di = di"

definition handleControlUpdate :: "time \<Rightarrow> plan_control option \<Rightarrow> integration \<Rightarrow> integration option" where
  "handleControlUpdate now body di =
     (case body of
        None \<Rightarrow> Some di
      | Some c \<Rightarrow>
          if \<not> IsEBPFControl (dc_Type c) then Some di
          else if dc_Status c = ''deploy'' then handleControlDeploy now c di
          else if dc_Status c = ''rollback'' then Some (handleControlRollback c di)
          else if dc_Status c = ''update'' then Some (handleControlUpdateRequest c di)
          else Some di)"

definition handleDeploymentFailure :: "bool \<Rightarrow> applyResponse \<Rightarrow> integration \<Rightarrow> integration" where
  "handleDeploymentFailure sent u di =
     notifyDecisionEngine sent (DeploymentFailed (op_PlanID u) (op_RequestID u) (op_Status u) (op_Error u)) di"

definition tracked_deployment :: "applyResponse \<Rightarrow> deploymentResponse" where
  "tracked_deployment u =
     \<lparr>dr_PlanID = op_PlanID u, dr_DeploymentID = op_RequestID u, dr_Status = op_Status u, dr_DeployedControls = [],
      dr_Targets = [], dr_DeployedAt = op_AppliedAt u, dr_Error = op_Error u\<rparr>"

definition handleRolloutStatusUpdate :: "bool \<Rightarrow> bool \<Rightarrow> applyResponse option \<Rightarrow> integration \<Rightarrow> integration" where
  "handleRolloutStatusUpdate sent1 sent2 body di =
     (case body of
        None \<Rightarrow> di
      | Some u \<Rightarrow>
          let di1 = di\<lparr>di_activeDeployments := map_set (op_RequestID u) (tracked_deployment u) (di_activeDeployments di)\<rparr>;
              di2 = notifyDecisionEngine sent1 (RolloutStatusUpdated (op_PlanID u) (op_RequestID u) (op_Status u)) di1
          in if op_Status u = ''rollback'' \<or> op_Status u = ''failed'' then handleDeploymentFailure sent2 u di2 else di2)"

text \<open>The automatic rollbacks a violation would trigger: deployment, target and number of violations.\<close>

definition automatic_rollbacks :: "string \<Rightarrow> int \<Rightarrow> integration \<Rightarrow> (string \<times> string \<times> int) list" where
  "automatic_rollbacks targetID violations di =
     concat (map (\<lambda>d. map (\<lambda>t. (dr_DeploymentID d, targetID, violations))
         (filter (\<lambda>t. t = targetID \<and> dr_Status d = ''active'') (dr_Targets d))) (map_values (di_activeDeployments di)))"

text \<open>\<open>triggerAutomaticRollback\<close> builds a request and logs it.\<close>

definition triggerAutomaticRollback :: "string \<Rightarrow> string \<Rightarrow> int \<Rightarrow> integration \<Rightarrow> integration" where
  "triggerAutomaticRollback deploymentID targetID violations di = di"

definition handleHighViolations :: "(string, gval) gomap option \<Rightarrow> integration \<Rightarrow> integration option" where
  "handleHighViolations body di =
     (case body of
        None \<Rightarrow> Some di
      | Some event \<Rightarrow>
          (case assert_string (map_get event ''target_id'') of
             None \<Rightarrow> None
           | Some targetID \<Rightarrow>
               (case assert_int (map_get event ''violations'') of
                  None \<Rightarrow> None
                | Some violations \<Rightarrow>
                    Some (foldl (\<lambda>d (i, t, v). triggerAutomaticRollback i t v d) di
                      (automatic_rollbacks targetID violations di)))))"

definition handleHighErrors :: "(string, gval) gomap option \<Rightarrow> integration \<Rightarrow> integration option" where
  "handleHighErrors body di =
     (case body of
        None \<Rightarrow> Some di
      | Some event \<Rightarrow>
          (case assert_string (map_get event ''target_id'') of
             None \<Rightarrow> None
           | Some targetID \<Rightarrow>
               (case assert_int (map_get event ''errors'') of None \<Rightarrow> None | Some errors \<Rightarrow> Some di)))"

definition GetActiveDeployments :: "integration \<Rightarrow> deploymentResponse list" where
  "GetActiveDeployments di = map_values (di_activeDeployments di)"

definition GetDeploymentStatus :: "string \<Rightarrow> integration \<Rightarrow> string + deploymentResponse" where
  "GetDeploymentStatus deploymentID di =
     (case map_get (di_activeDeployments di) deploymentID of
        None \<Rightarrow> Inl (''deployment not found: '' @ deploymentID)
      | Some d \<Rightarrow> Inr d)"

section \<open>The rollback handler\<close>

record planRollbackRequest =
  dk_PlanID :: string
  dk_ControlIDs :: "string list"
  dk_Reason :: string
  dk_Strategy :: string
  dk_Force :: bool

record rollbackOperation =
  dx_OperationID :: string
  dx_PlanID :: string
  dx_Status :: string
  dx_Strategy :: string
  dx_Reason :: string
  dx_InitiatedAt :: time
  dx_CompletedAt :: "time option"
  dx_Error :: string

text \<open>
  Operations are shared by their goroutine and the table: cells of a heap, like the rollbacks of the
  rollback manager. A goroutine begins, sleeps while it works, writes the outcome and ends.
\<close>

datatype op_pc = OpStart | OpWorking | OpEnding | OpDone

record rollback_handler =
  rh_heap :: "rollbackOperation list"
  rh_active :: "(string, nat) gomap"
  rh_tasks :: "(nat \<times> planRollbackRequest \<times> op_pc) list"
  rh_callbacks :: nat
  rh_notified :: "(nat \<times> string \<times> nat) list"

definition NewRollbackHandler :: rollback_handler where
  "NewRollbackHandler = \<lparr>rh_heap = [], rh_active = [], rh_tasks = [], rh_callbacks = 0, rh_notified = []\<rparr>"

definition operation_id :: "string \<Rightarrow> time \<Rightarrow> string" where
  "operation_id planID now = ''rollback-'' @ planID @ ''-'' @ itoa (unix_second now)"

definition RH_InitiateRollback :: "planRollbackRequest \<Rightarrow> time \<Rightarrow> rollback_handler \<Rightarrow> nat \<times> rollback_handler" where
  "RH_InitiateRollback req now rh =
     (let cell = length (rh_heap rh); operationID = operation_id (dk_PlanID req) now
      in (cell, rh\<lparr>rh_heap := rh_heap rh @ [\<lparr>dx_OperationID = operationID, dx_PlanID = dk_PlanID req,
             dx_Status = ''initiated'', dx_Strategy = dk_Strategy req, dx_Reason = dk_Reason req,
             dx_InitiatedAt = now, dx_CompletedAt = None, dx_Error = []\<rparr>],
           rh_active := map_set operationID cell (rh_active rh),
           rh_tasks := rh_tasks rh @ [(cell, req, OpStart)]\<rparr>))"

definition getActiveDeploymentsForPlan :: "string \<Rightarrow> time \<Rightarrow> string + deploymentResponse list" where
  "getActiveDeploymentsForPlan planID now =
     Inr [\<lparr>dr_PlanID = planID, dr_DeploymentID = ''deploy-1'', dr_Status = ''active'', dr_DeployedControls = [],
           dr_Targets = [''host-1'', ''host-2''], dr_DeployedAt = time_add now (- 3600000000000), dr_Error = []\<rparr>,
          \<lparr>dr_PlanID = planID, dr_DeploymentID = ''deploy-2'', dr_Status = ''failed'', dr_DeployedControls = [],
           dr_Targets = [''host-3''], dr_DeployedAt = time_add now (- 1800000000000), dr_Error = []\<rparr>]"

definition filterDeploymentsByControls :: "deploymentResponse list \<Rightarrow> string list \<Rightarrow> deploymentResponse list" where
  "filterDeploymentsByControls ds controlIDs = ds"

text \<open>The rollback of a deployment is simulated: two seconds of sleep.\<close>

definition rollbackDeployment :: "deploymentResponse \<Rightarrow> string option" where
  "rollbackDeployment d = None"

definition rollback_errors :: "deploymentResponse list \<Rightarrow> string list" where
  "rollback_errors ds =
     concat (map (\<lambda>d. case rollbackDeployment d of
         None \<Rightarrow> []
       | Some err \<Rightarrow> [''failed to rollback deployment '' @ dr_DeploymentID d @ '': '' @ err]) ds)"

definition errors_message :: "string \<Rightarrow> string list \<Rightarrow> string option" where
  "errors_message what errs =
     (if errs \<noteq> [] then Some (what @ '' failed with '' @ itoa (int (length errs)) @ '' errors: ['' @ join_with '' '' errs @ '']'')
      else None)"

definition RH_executeImmediateRollback :: "deploymentResponse list \<Rightarrow> string option" where
  "RH_executeImmediateRollback ds = errors_message ''rollback'' (rollback_errors ds)"

fun RH_executeGradualRollback :: "deploymentResponse list \<Rightarrow> string option" where
  "RH_executeGradualRollback [] = None"
| "RH_executeGradualRollback (d # ds) =
     (case errors_message ''batch rollback'' (rollback_errors (take 3 (d # ds))) of
        Some err \<Rightarrow> Some err
      | None \<Rightarrow> RH_executeGradualRollback (drop 2 ds))"

definition RH_executeSelectiveRollback :: "deploymentResponse list \<Rightarrow> string option" where
  "RH_executeSelectiveRollback ds =
     (let failed = filter (\<lambda>d. dr_Status d = ''failed'' \<or> dr_Status d = ''rollback'') ds
      in if failed = [] then None else errors_message ''selective rollback'' (rollback_errors failed))"

text \<open>The outcome of \<open>executeRollback\<close>: status and error.\<close>

definition rollback_outcome :: "planRollbackRequest \<Rightarrow> time \<Rightarrow> string \<times> string" where
  "rollback_outcome req now =
     (case getActiveDeploymentsForPlan (dk_PlanID req) now of
        Inl err \<Rightarrow> (''failed'', ''Failed to get deployments: '' @ err)
      | Inr ds \<Rightarrow>
          if ds = [] then (''completed'', ''No active deployments found'')
          else
            let ds1 = (if dk_ControlIDs req \<noteq> [] then filterDeploymentsByControls ds (dk_ControlIDs req) else ds);
                err = (if dk_Strategy req = ''immediate'' then RH_executeImmediateRollback ds1
                       else if dk_Strategy req = ''gradual'' then RH_executeGradualRollback ds1
                       else if dk_Strategy req = ''selective'' then RH_executeSelectiveRollback ds1
                       else Some (''unknown rollback strategy: '' @ dk_Strategy req))
            in (case err of Some e \<Rightarrow> (''failed'', e) | None \<Rightarrow> (''completed'', [])))"

definition RH_notifyCallbacks :: "string \<Rightarrow> nat \<Rightarrow> rollback_handler \<Rightarrow> rollback_handler" where
  "RH_notifyCallbacks operationID cell rh =
     rh\<lparr>rh_notified := rh_notified rh @ map (\<lambda>k. (k, operationID, cell)) [0..<rh_callbacks rh]\<rparr>"

definition upd_operation :: "nat \<Rightarrow> (rollbackOperation \<Rightarrow> rollbackOperation) \<Rightarrow> rollback_handler \<Rightarrow> rollback_handler" where
  "upd_operation cell f rh = rh\<lparr>rh_heap := (rh_heap rh)[cell := f (rh_heap rh ! cell)]\<rparr>"

definition updateOperationStatus :: "string \<Rightarrow> string \<Rightarrow> rollback_handler \<Rightarrow> rollback_handler" where
  "updateOperationStatus operationID status rh =
     (case map_get (rh_active rh) operationID of
        None \<Rightarrow> rh
      | Some cell \<Rightarrow> RH_notifyCallbacks operationID cell (upd_operation cell (\<lambda>x. x\<lparr>dx_Status := status\<rparr>) rh))"

definition executeRollback_step :: "time \<Rightarrow> nat \<Rightarrow> rollback_handler \<Rightarrow> rollback_handler option" where
  "executeRollback_step now k rh =
     (if k < length (rh_tasks rh) then
        case rh_tasks rh ! k of
          (cell, req, pc) \<Rightarrow>
            let operationID = dx_OperationID (rh_heap rh ! cell);
                goto = (\<lambda>pc' rh1. rh1\<lparr>rh_tasks := (rh_tasks rh1)[k := (cell, req, pc')]\<rparr>)
            in case pc of
                 OpStart \<Rightarrow> Some (goto OpWorking (updateOperationStatus operationID ''in_progress'' rh))
               | OpWorking \<Rightarrow>
                   (case rollback_outcome req now of
                      (status, err) \<Rightarrow>
                        Some (goto OpEnding (upd_operation cell
                          (\<lambda>x. let y = x\<lparr>dx_Status := status\<rparr> in if err \<noteq> [] then y\<lparr>dx_Error := err\<rparr> else y) rh)))
               | OpEnding \<Rightarrow>
                   Some (goto OpDone (RH_notifyCallbacks operationID cell
                     (upd_operation cell (\<lambda>x. x\<lparr>dx_CompletedAt := Some now\<rparr>) rh)))
               | OpDone \<Rightarrow> None
      else None)"

definition RH_AddCallback :: "rollback_handler \<Rightarrow> rollback_handler" where
  "RH_AddCallback rh = rh\<lparr>rh_callbacks := Suc (rh_callbacks rh)\<rparr>"

definition GetRollbackOperation :: "string \<Rightarrow> rollback_handler \<Rightarrow> string + rollbackOperation" where
  "GetRollbackOperation operationID rh =
     (case map_get (rh_active rh) operationID of
        None \<Rightarrow> Inl (''rollback operation not found: '' @ operationID)
      | Some cell \<Rightarrow> Inr (rh_heap rh ! cell))"

definition ListRollbackOperations :: "rollback_handler \<Rightarrow> rollbackOperation list" where
  "ListRollbackOperations rh = map (\<lambda>c. rh_heap rh ! c) (map_values (rh_active rh))"

definition CleanupCompletedOperations :: "duration \<Rightarrow> time \<Rightarrow> rollback_handler \<Rightarrow> rollback_handler" where
  "CleanupCompletedOperations olderThan now rh =
     (let cutoffTime = time_add now (- olderThan);
          old = (\<lambda>x. dx_Status x = ''completed'' \<and> (case dx_CompletedAt x of None \<Rightarrow> False | Some t \<Rightarrow> t < cutoffTime))
      in rh\<lparr>rh_active := filter (\<lambda>(i, c). \<not> old (rh_heap rh ! c)) (rh_active rh)\<rparr>)"

end
