(* ===== verification/Orch_DecisionApi.thy ===== *)
theory Orch_DecisionApi
  imports Orch_Integration
begin

text \<open>
  The HTTP interface of the orchestrator's decision side, \<open>api.go\<close> under
  \<open>src/backend/orchestrator/internal/decision\<close>, and the map snapshots of \<open>seg_maps_http.go\<close> and \<open>server.go\<close> under
  \<open>src/backend/orchestrator/internal/api\<close>. A body that cannot be decoded is \<^const>\<open>None\<close>.
\<close>

datatype decision_reply =
    DecisionError nat string
  | Healthy
  | PlanCreated string
  | PlanShown orch_plan
  | PlanUpdated string
  | PlanStatusShown orch_planStatus
  | PlanProcessedReply planUpdateResponse
  | ControlCreated string string
  | ControlShown plan_control
  | ControlUpdated string string
  | ControlDeleted string string
  | DeploymentAccepted deploymentResponse
  | DeploymentList string "deploymentResponse list"
  | DeploymentShown deploymentResponse
  | DeploymentRollback string
  | RolloutsListed "applyResponse list"
  | RolloutStatusShown applyResponse
  | RolloutRollback string "string list"
  | PlanTelemetry string
  | ControlTelemetry string

definition dec_handleHealth :: decision_reply where
  "dec_handleHealth = Healthy"

definition dec_handleCreatePlan :: "orch_plan option \<Rightarrow> decision_reply" where
  "dec_handleCreatePlan body =
     (case body of
        None \<Rightarrow> DecisionError 400 ''Invalid JSON request body''
      | Some plan \<Rightarrow>
          if dp_ID plan = [] \<or> dp_Name plan = [] then DecisionError 400 ''Missing required fields: id, name''
          else PlanCreated (dp_ID plan))"

definition dec_handleGetPlan :: "string \<Rightarrow> decision_reply" where
  "dec_handleGetPlan planID =
     PlanShown \<lparr>dp_ID = planID, dp_Name = ''Example Plan'', dp_Description = [], dp_Priority = 0, dp_Status = ''active'',
       dp_CreatedAt = zero_time, dp_UpdatedAt = zero_time, dp_Controls = [placeholder_control], dp_Metadata = []\<rparr>"

definition dec_handleUpdatePlan :: "string \<Rightarrow> orch_plan option \<Rightarrow> decision_reply" where
  "dec_handleUpdatePlan planID body =
     (case body of None \<Rightarrow> DecisionError 400 ''Invalid JSON request body'' | Some plan \<Rightarrow> PlanUpdated planID)"

definition dec_handleGetPlanStatus :: "string \<Rightarrow> time \<Rightarrow> decision_reply" where
  "dec_handleGetPlanStatus planID now =
     (case GetPlanStatus planID now of
        Inl err \<Rightarrow> DecisionError 404 ''Plan not found''
      | Inr s \<Rightarrow> PlanStatusShown s)"

definition dec_handleProcessPlan ::
    "(float64 \<Rightarrow> string) \<Rightarrow> orch_world \<Rightarrow> orchestrator \<Rightarrow> time \<Rightarrow> string \<Rightarrow> ebpf_env \<Rightarrow> decision_reply \<times> ebpf_env" where
  "dec_handleProcessPlan g w os now planID env =
     (case getPlan planID of
        Inl err \<Rightarrow> (DecisionError 404 ''Plan not found'', env)
      | Inr plan \<Rightarrow> (case ProcessPlan g w os now plan env of (response, plan1, env1) \<Rightarrow> (PlanProcessedReply response, env1)))"

definition dec_handleCreateControl :: "string \<Rightarrow> plan_control option \<Rightarrow> decision_reply" where
  "dec_handleCreateControl planID body =
     (case body of
        None \<Rightarrow> DecisionError 400 ''Invalid JSON request body''
      | Some c \<Rightarrow>
          if dc_ID c = [] \<or> dc_Type c = [] \<or> dc_Target c = []
          then DecisionError 400 ''Missing required fields: id, type, target''
          else ControlCreated planID (dc_ID c))"

definition dec_handleGetControl :: "string \<Rightarrow> string \<Rightarrow> decision_reply" where
  "dec_handleGetControl planID controlID = ControlShown (placeholder_control\<lparr>dc_ID := controlID\<rparr>)"

definition dec_handleUpdateControl ::
    "(float64 \<Rightarrow> string) \<Rightarrow> orch_world \<Rightarrow> orchestrator \<Rightarrow> string \<Rightarrow> string \<Rightarrow> plan_control option \<Rightarrow> ebpf_env \<Rightarrow> decision_reply \<times> ebpf_env" where
  "dec_handleUpdateControl g w os planID controlID body env =
     (case body of
        None \<Rightarrow> (DecisionError 400 ''Invalid JSON request body'', env)
      | Some c \<Rightarrow>
          (case UpdatePlanControl g w os planID (c\<lparr>dc_ID := controlID\<rparr>) env of
             (Inl err, env1) \<Rightarrow> (DecisionError 500 ''Failed to update control'', env1)
           | (Inr c1, env1) \<Rightarrow> (ControlUpdated planID controlID, env1)))"

definition dec_handleDeleteControl :: "string \<Rightarrow> string \<Rightarrow> decision_reply" where
  "dec_handleDeleteControl planID controlID = ControlDeleted planID controlID"

definition dec_handleDeployPlan ::
    "string \<Rightarrow> deploymentRequest option \<Rightarrow> time \<Rightarrow> rollout_manager \<Rightarrow> decision_reply \<times> rollout_manager" where
  "dec_handleDeployPlan planID body now rm =
     (case body of
        None \<Rightarrow> (DecisionError 400 ''Invalid JSON request body'', rm)
      | Some req0 \<Rightarrow>
          let req1 = req0\<lparr>dq_PlanID := planID\<rparr>;
              req = (if dq_DeploymentType req1 = [] then req1\<lparr>dq_DeploymentType := ''canary''\<rparr> else req1)
          in case DeployPlan req now rm of
               ((response, Some err), rm1) \<Rightarrow> (DecisionError 500 ''Failed to deploy plan'', rm1)
             | ((response, None), rm1) \<Rightarrow> (DeploymentAccepted response, rm1))"

definition dec_handleListDeployments :: "string \<Rightarrow> integration \<Rightarrow> decision_reply" where
  "dec_handleListDeployments planID di =
     DeploymentList planID (filter (\<lambda>d. dr_PlanID d = planID) (GetActiveDeployments di))"

definition dec_handleGetDeploymentStatus :: "string \<Rightarrow> integration \<Rightarrow> decision_reply" where
  "dec_handleGetDeploymentStatus deploymentID di =
     (case GetDeploymentStatus deploymentID di of
        Inl err \<Rightarrow> DecisionError 404 ''Deployment not found''
      | Inr d \<Rightarrow> DeploymentShown d)"

text \<open>The two handlers for rollbacks answer and change nothing.\<close>

definition dec_handleRollbackDeployment :: "string \<Rightarrow> integration \<Rightarrow> decision_reply \<times> integration" where
  "dec_handleRollbackDeployment deploymentID di =
     (case GetDeploymentStatus deploymentID di of
        Inl err \<Rightarrow> (DecisionError 404 ''Deployment not found'', di)
      | Inr d \<Rightarrow> (DeploymentRollback deploymentID, di))"

definition dec_handleListActiveRollouts :: "rollout_manager \<Rightarrow> decision_reply" where
  "dec_handleListActiveRollouts rm = RolloutsListed (ListActiveRollouts rm)"

definition dec_handleGetRolloutStatus :: "string \<Rightarrow> rollout_manager \<Rightarrow> decision_reply" where
  "dec_handleGetRolloutStatus requestID rm =
     (case GetRolloutStatus requestID rm of
        Inl err \<Rightarrow> DecisionError 404 ''Rollout not found''
      | Inr r \<Rightarrow> RolloutStatusShown r)"

definition dec_handleRollbackRollout :: "string \<Rightarrow> rollout_manager \<Rightarrow> decision_reply \<times> rollout_manager" where
  "dec_handleRollbackRollout requestID rm =
     (case GetRolloutStatus requestID rm of
        Inl err \<Rightarrow> (DecisionError 404 ''Rollout not found'', rm)
      | Inr r \<Rightarrow> (RolloutRollback requestID (map ot_TargetID (op_Targets r)), rm))"

text \<open>The telemetry of plans and controls is all zero.\<close>

definition dec_handleGetPlanTelemetry :: "string \<Rightarrow> decision_reply" where
  "dec_handleGetPlanTelemetry planID = PlanTelemetry planID"

definition dec_handleGetControlTelemetry :: "string \<Rightarrow> decision_reply" where
  "dec_handleGetControlTelemetry controlID = ControlTelemetry controlID"

section \<open>Map snapshots\<close>

record seg_edge =
  se_DstCIDR :: string
  se_Proto :: string
  se_Port :: int

record map_snapshot =
  ms_Version :: int
  ms_ServiceID :: nat
  ms_Edges :: "seg_edge list"
  ms_AllowCIDRs :: "seg_edge list"
  ms_TTLSeconds :: int
  ms_Meta :: "(string, string) gomap"

text \<open>The schema: an error of the validation, or the violations.\<close>

type_synonym snapshot_schema = "map_snapshot \<Rightarrow> string + string list"

definition validateMapSnapshot :: "snapshot_schema \<Rightarrow> map_snapshot \<Rightarrow> string option" where
  "validateMapSnapshot schema snap =
     (case schema snap of
        Inl err \<Rightarrow> Some (''schema validation error: '' @ err)
      | Inr [] \<Rightarrow> None
      | Inr errs \<Rightarrow> Some (''validation failed: ['' @ join_with '' '' errs @ '']''))"

text \<open>What is published on \<open>actions.seg.maps\<close>.\<close>

definition publishToNATS ::
    "string option \<Rightarrow> time \<Rightarrow> map_snapshot \<Rightarrow> string list \<Rightarrow> (map_snapshot \<times> string list \<times> string) list \<Rightarrow>
      string option \<times> (map_snapshot \<times> string list \<times> string) list" where
  "publishToNATS outcome now snap targetHosts published =
     (case outcome of
        Some err \<Rightarrow> (Some (''failed to publish to NATS: '' @ err), published)
      | None \<Rightarrow> (None, published @ [(snap, targetHosts, itoa (unix_second now))]))"

datatype seg_reply =
    SegError nat string
  | SegAccepted nat "string list" int
  | SegStub string

text \<open>The body is an error of reading, an error of decoding, or a snapshot.\<close>

datatype seg_body = SegUnreadable | SegInvalid string | SegSnapshot map_snapshot

definition PostSegMapsHandler ::
    "snapshot_schema \<Rightarrow> string \<Rightarrow> seg_body \<Rightarrow> string list \<Rightarrow> string option \<Rightarrow> time \<Rightarrow> (map_snapshot \<times> string list \<times> string) list \<Rightarrow>
      seg_reply \<times> (map_snapshot \<times> string list \<times> string) list" where
  "PostSegMapsHandler schema httpMethod body hosts outcome now published =
     (if httpMethod \<noteq> ''POST'' then (SegError 405 ''Method not allowed'', published)
      else (case body of
          SegUnreadable \<Rightarrow> (SegError 400 ''Failed to read request body'', published)
        | SegInvalid err \<Rightarrow> (SegError 400 (''Invalid JSON: '' @ err), published)
        | SegSnapshot snap \<Rightarrow>
            (case validateMapSnapshot schema snap of
               Some err \<Rightarrow> (SegError 400 (''Validation failed: '' @ err), published)
             | None \<Rightarrow>
                 let targetHosts = (if hosts = [] then [''localhost''] else hosts)
                 in (case publishToNATS outcome now snap targetHosts published of
                       (Some err, p) \<Rightarrow> (SegError 500 (''Failed to publish to NATS: '' @ err), p)
                     | (None, p) \<Rightarrow> (SegAccepted (ms_ServiceID snap) targetHosts (unix_second now), p)))))"

definition promoteHandler :: "string \<Rightarrow> seg_reply" where
  "promoteHandler httpMethod =
     (if httpMethod \<noteq> ''POST'' then SegError 405 ''Method not allowed'' else SegStub ''promote_stub'')"

definition rollbackHandler :: "string \<Rightarrow> seg_reply" where
  "rollbackHandler httpMethod =
     (if httpMethod \<noteq> ''POST'' then SegError 405 ''Method not allowed'' else SegStub ''rollback_stub'')"

end
