(* ===== verification/Orch_DecisionProperties.thy ===== *)
theory Orch_DecisionProperties
  imports Orch_DecisionApi
begin

text \<open>
  What the decision side of the orchestrator does: the outcome of processing a plan for every control, and
  the requests that have no effect.
\<close>

section \<open>Processing\<close>

text \<open>The three outcomes for a control: as it was, failed in the answer only, or with its artifact.\<close>

definition control_outcome :: "time \<Rightarrow> plan_control \<Rightarrow> plan_control \<times> plan_control \<Rightarrow> bool" where
  "control_outcome now c p \<longleftrightarrow>
     (if \<not> IsEBPFControl (dc_Type c) then p = (c, c)
      else (\<exists>err. p = (c\<lparr>dc_Status := ''failed'', dc_Error := err\<rparr>, c)) \<or>
        (\<exists>a. let c1 = c\<lparr>dc_ArtifactID := a, dc_Status := ''artifact_ready'', dc_DeployedAt := Some now\<rparr> in p = (c1, c1)))"

lemma control_outcomes:
  "\<not> IsEBPFControl (dc_Type c) \<Longrightarrow> control_outcome now c (c, c)"
  "IsEBPFControl (dc_Type c) \<Longrightarrow> control_outcome now c (c\<lparr>dc_Status := ''failed'', dc_Error := err\<rparr>, c)"
  "IsEBPFControl (dc_Type c) \<Longrightarrow> c1 = c\<lparr>dc_ArtifactID := a, dc_Status := ''artifact_ready'', dc_DeployedAt := Some now\<rparr> \<Longrightarrow>
     control_outcome now c (c1, c1)"
  by (auto simp: control_outcome_def Let_def)

lemma process_controls_outcome:
  assumes "process_controls g w os now planID cs env = ((updated, kept, artifacts), env1)"
  shows "length updated = length cs \<and> length kept = length cs \<and>
    list_all2 (control_outcome now) cs (zip updated kept) \<and> length artifacts \<le> length cs \<and>
    set artifacts \<subseteq> dc_ArtifactID ` set kept"
  using assms
proof (induction cs arbitrary: env updated kept artifacts env1)
  case (Cons c cs)
  show ?case
  proof (cases "IsEBPFControl (dc_Type c)")
    case True
    obtain r env2 where p: "processEBPFControl g w os planID c env = (r, env2)" by fastforce
    obtain u k a env3 where q: "process_controls g w os now planID cs env2 = ((u, k, a), env3)"
      using prod_cases3 by (metis surj_pair)
    from Cons.IH [OF q] Cons.prems p q True show ?thesis
      by (cases r) (auto simp: control_outcomes Let_def)
  next
    case False
    obtain u k a env3 where q: "process_controls g w os now planID cs env = ((u, k, a), env3)"
      using prod_cases3 by (metis surj_pair)
    from Cons.IH [OF q] Cons.prems q False show ?thesis by (auto simp: control_outcomes)
  qed
qed simp

text \<open>
  Processing a plan answers with one control for each control of the plan, in order: a control that is
  not an eBPF control is unchanged; an eBPF control has its artifact and is ready, in the answer and in the
  plan, or it is failed with its error in the answer and unchanged in the plan. Every artifact reported
  is that of a control of the plan.
\<close>

lemma process_plan_outcome:
  "case ProcessPlan g w os now plan env of
     (response, plan1, env1) \<Rightarrow>
       list_all2 (control_outcome now) (dp_Controls plan) (zip (du_UpdatedControls response) (dp_Controls plan1)) \<and>
       length (du_UpdatedControls response) = length (dp_Controls plan) \<and>
       length (dp_Controls plan1) = length (dp_Controls plan) \<and>
       length (du_ArtifactIDs response) \<le> length (dp_Controls plan) \<and>
       set (du_ArtifactIDs response) \<subseteq> dc_ArtifactID ` set (dp_Controls plan1) \<and>
       du_Status response = ''completed''"
proof -
  obtain u k a env1 where q: "process_controls g w os now (dp_ID plan) (dp_Controls plan) env = ((u, k, a), env1)"
    using prod_cases3 by (metis surj_pair)
  from process_controls_outcome [OF q] show ?thesis by (simp add: ProcessPlan_def q)
qed

section \<open>Deploying\<close>

text \<open>
  Deploying a plan deploys nothing and says it is deployed: the plan the processor works on has one
  control without an artifact, whatever was requested.
\<close>

lemma deploy_plan_deploys_nothing:
  "DeployPlan req now rm =
     (((new_deployment req now)\<lparr>dr_DeployedControls := [], dr_Status := ''deployed''\<rparr>, None), rm)"
proof -
  have "deploy_controls req now cs rm = ([], rm)" if "\<forall>c \<in> set cs. dc_ArtifactID c = []" for cs
    using that by (induction cs) auto
  moreover have "\<forall>c \<in> set (controls_to_deploy ids [placeholder_control]). dc_ArtifactID c = []" for ids
    by (auto simp: controls_to_deploy_def placeholder_control_def)
  ultimately show ?thesis by (simp add: DeployPlan_def getPlan_def Let_def)
qed

text \<open>A deployment of type rollback changes no rollout.\<close>

lemma rollback_deploys_nothing:
  "snd (deploy_controls (req\<lparr>dq_DeploymentType := ''rollback''\<rparr>) now cs rm) = rm"
  by (induction cs) (auto simp: rollbackControl_def Let_def split: prod.splits)

section \<open>The integration\<close>

inductive integration_step :: "integration \<Rightarrow> integration \<Rightarrow> bool" where
  plan: "integration_step di (handlePlanUpdate sent body di)"
| control: "handleControlUpdate now body' di = Some di' \<Longrightarrow> integration_step di di'"
| status: "integration_step di (handleRolloutStatusUpdate sent sent' body'' di)"
| violations: "handleHighViolations event di = Some di' \<Longrightarrow> integration_step di di'"
| errors: "handleHighErrors event di = Some di' \<Longrightarrow> integration_step di di'"
| rollout: "rollout_step (di_rollouts di) rm \<Longrightarrow> integration_step di (di\<lparr>di_rollouts := rm\<rparr>)"

definition no_targets :: "integration \<Rightarrow> bool" where
  "no_targets di \<longleftrightarrow> list_all (\<lambda>d. dr_Targets d = []) (map_values (di_activeDeployments di))"

lemma no_int: "assert_int v = None"
  by (cases v rule: assert_int.cases) auto

lemma notify_active [simp]: "di_activeDeployments (notifyDecisionEngine sent e di) = di_activeDeployments di"
  by (simp add: notifyDecisionEngine_def)

lemma set_values_update: "set (map snd (AList.update k v m)) \<subseteq> insert v (set (map snd m))"
  by (induction m) (auto split: if_splits)

lemma no_targets_step: "integration_step di di' \<Longrightarrow> no_targets di \<Longrightarrow> no_targets di'"
proof (induction rule: integration_step.induct)
  case (plan di sent body)
  then show ?case by (auto simp: no_targets_def handlePlanUpdate_def split: option.splits)
next
  case (control now body' di di')
  then show ?case
    by (auto simp: no_targets_def handleControlUpdate_def handleControlDeploy_def handleControlRollback_def
        handleControlUpdateRequest_def split: option.splits if_splits)
next
  case (status di sent sent' body'')
  show ?case
  proof (cases body'')
    case None
    then show ?thesis using status by (simp add: handleRolloutStatusUpdate_def)
  next
    case (Some u)
    have "no_targets (di\<lparr>di_activeDeployments := map_set (op_RequestID u) (tracked_deployment u) (di_activeDeployments di)\<rparr>)"
      using status set_values_update [of "op_RequestID u" "tracked_deployment u" "di_activeDeployments di"]
      by (fastforce simp: no_targets_def list_all_iff tracked_deployment_def)
    then show ?thesis using Some
      by (simp add: handleRolloutStatusUpdate_def handleDeploymentFailure_def no_targets_def Let_def)
  qed
next
  case (violations event di di')
  then show ?case by (auto simp: handleHighViolations_def no_int split: option.splits)
next
  case (errors event di di')
  then show ?case by (auto simp: handleHighErrors_def no_int split: option.splits)
next
  case (rollout di rm)
  then show ?case by (simp add: no_targets_def)
qed

interpretation intsys: inductive_invariant "\<lambda>di. \<exists>rm. di = NewDecisionRolloutIntegration rm" integration_step no_targets
proof unfold_locales
  show "no_targets di" if "\<exists>rm. di = NewDecisionRolloutIntegration rm" for di
    using that by (auto simp: no_targets_def NewDecisionRolloutIntegration_def)
qed (rule no_targets_step)

text \<open>
  C40. No violation is ever answered by a rollback: an event that can be decoded makes the handler panic, since
  JSON numbers are no ints; and the deployments the integration tracks have no targets, so that none
  would be found for it.
\<close>

theorem integration_never_rolls_back:
  assumes "reach (\<lambda>di. \<exists>rm. di = NewDecisionRolloutIntegration rm) integration_step di"
  shows "handleHighViolations (Some event) di = None \<and> handleHighErrors (Some event) di = None \<and>
    automatic_rollbacks targetID n di = []"
proof -
  have "no_targets di" using intsys.reach_inv [OF assms] .
  then have "filter (\<lambda>t. t = targetID \<and> dr_Status d = ''active'') (dr_Targets d) = []"
    if "d \<in> set (map_values (di_activeDeployments di))" for d
    using that by (auto simp: no_targets_def list_all_iff)
  then have "automatic_rollbacks targetID n di = []" by (auto simp: automatic_rollbacks_def filter_empty_conv)
  then show ?thesis by (simp add: handleHighViolations_def handleHighErrors_def no_int split: option.split)
qed

theorem integration_never_rolls_back_witness:
  "handleHighViolations (Some [(''target_id'', VStr ''h''), (''violations'', VNum (Fin 9))])
     (NewDecisionRolloutIntegration NewBPFRolloutManager) = None"
proof -
  have "reach (\<lambda>di. \<exists>rm. di = NewDecisionRolloutIntegration rm) integration_step
      (NewDecisionRolloutIntegration NewBPFRolloutManager)"
    by (rule reach_init) blast
  from integration_never_rolls_back [OF this, of "[(''target_id'', VStr ''h''), (''violations'', VNum (Fin 9))]" "[]" 0]
  show ?thesis by simp
qed

text \<open>A deployment request for a control panics without the identifier of its plan.\<close>

lemma deploy_without_plan:
  assumes "dc_ArtifactID c \<noteq> []" and "map_get (dc_Metadata c) ''plan_id'' = None"
  shows "handleControlDeploy now c di = None"
  using assms by (simp add: handleControlDeploy_def)

section \<open>The rollback handler\<close>

lemma no_errors: "rollback_errors ds = []" "errors_message what [] = None"
  by (simp_all add: rollback_errors_def rollbackDeployment_def errors_message_def)

lemma gradual_succeeds: "RH_executeGradualRollback ds = None"
  by (induction ds rule: RH_executeGradualRollback.induct) (simp_all add: no_errors)

text \<open>
  The outcome depends on the strategy alone: the three known ones complete without any target being
  rolled back, and a rollback with the strategy canary, which the types offer, fails.
\<close>

lemma rollback_outcome_by_strategy:
  "rollback_outcome req now =
     (if dk_Strategy req \<in> {''immediate'', ''gradual'', ''selective''} then (''completed'', [])
      else (''failed'', ''unknown rollback strategy: '' @ dk_Strategy req))"
  by (simp add: rollback_outcome_def getActiveDeploymentsForPlan_def RH_executeImmediateRollback_def
      RH_executeSelectiveRollback_def gradual_succeeds no_errors Let_def)

section \<open>Map snapshots\<close>

text \<open>Only snapshots that the schema accepts are published, each once, to the hosts of the request.\<close>

lemma published_snapshots_valid:
  assumes "PostSegMapsHandler schema m body hosts outcome now pub = (reply, pub')"
  shows "pub' = pub \<and> (\<exists>code msg. reply = SegError code msg) \<or>
    (\<exists>snap. body = SegSnapshot snap \<and> schema snap = Inr [] \<and> m = ''POST'' \<and>
       pub' = pub @ [(snap, if hosts = [] then [''localhost''] else hosts, itoa (unix_second now))])"
  using assms
  by (auto simp: PostSegMapsHandler_def validateMapSnapshot_def publishToNATS_def Let_def
      split: if_splits seg_body.splits option.splits sum.splits list.splits)

end
