(* ===== verification/Seg_Segmenter.thy ===== *)
theory Seg_Segmenter
  imports Go_Net
begin

text \<open>
  The segmenter service: \<open>internal/types\<close>, \<open>internal/network\<close>, \<open>internal/segmenter/segmenter.go\<close>. From the hosts and
  the traffic of a network to proposals for its segmentation. The pointers of a decoded request may be
  null, so its hosts and flows are options; \<^term>\<open>None\<close> as a result is the panic of their dereference.
\<close>

section \<open>Types\<close>

datatype criticality = CritHigh | CritMedium | CritLow
datatype trust = TrustHigh | TrustMedium | TrustLow
datatype risk_level = RiskHigh | RiskMedium | RiskLow
datatype security_level = SecHigh | SecMedium | SecLow
datatype seg_strategy = NoStrategy | Microsegmentation | ZeroTrust | Traditional | Hybrid

record seg_host =
  sh_ID :: string
  sh_IP :: string
  sh_Labels :: "string list"
  sh_Services :: "string list"

record traffic_flow =
  tf_SourceHost :: string
  tf_DestinationHost :: string
  tf_DestinationPort :: int
  tf_Protocol :: string
  tf_BytesTransferred :: int
  tf_PacketCount :: int
  tf_Timestamp :: time

record net_host =
  nh_ID :: string
  nh_IP :: string
  nh_Labels :: "string list"
  nh_Services :: "string list"
  nh_Criticality :: criticality
  nh_TrustLevel :: trust
  nh_InboundConnections :: nat
  nh_OutboundConnections :: nat
  nh_TotalTraffic :: int

record net_connection =
  cn_SourceHost :: string
  cn_DestinationHost :: string
  cn_Port :: int
  cn_Protocol :: string
  cn_TrafficVolume :: int
  cn_PacketCount :: int
  cn_FirstSeen :: int
  cn_LastSeen :: int
  cn_RiskLevel :: risk_level

record topology =
  tp_Hosts :: "(string, net_host) gomap"
  tp_Connections :: "(string, net_connection) gomap"

record network_segment =
  ns_ID :: string
  ns_Name :: string
  ns_Description :: string
  ns_Hosts :: "seg_host list"
  ns_SecurityLevel :: security_level

record firewall_rule =
  fr_ID :: string
  fr_Source :: string
  fr_Destination :: string
  fr_Action :: string

record seg_proposal =
  sp_ID :: string
  sp_Name :: string
  sp_Description :: string
  sp_Strategy :: seg_strategy
  sp_Segments :: "network_segment list"
  sp_FirewallRules :: "firewall_rule list"
  sp_RiskReduction :: rat
  sp_Complexity :: int

record proposal_request =
  sr_Hosts :: "seg_host option list"
  sr_TrafficData :: "traffic_flow option list"
  sr_Goals :: "string list"

record risk_assessment =
  ra_OverallRisk :: string
  ra_RiskFactors :: "string list"

record proposal_response =
  sr_ProposalID :: string
  sr_GeneratedAt :: time
  sr_TopologyHosts :: "seg_host list"
  sr_TopologyConnections :: "net_connection list"
  sr_Proposals :: "seg_proposal list"
  sr_RiskAssessment :: risk_assessment

section \<open>Assessing hosts\<close>

definition label_contains :: "string list \<Rightarrow> string \<Rightarrow> bool" where
  "label_contains words label = list_ex (\<lambda>w. contains (to_lower label) w) words"

definition criticalLabels :: "string list" where
  "criticalLabels = [''role:db'', ''role:control-plane'', ''role:monitoring'', ''critical'', ''production'']"

definition assessCriticality :: "seg_host \<Rightarrow> criticality" where
  "assessCriticality h =
     (if list_ex (label_contains criticalLabels) (sh_Labels h) then CritHigh
      else if list_ex (label_contains [''database'', ''db'']) (sh_Services h) then CritHigh
      else if list_ex (label_contains [''http'', ''web'']) (sh_Services h) then CritMedium
      else CritLow)"

definition assessTrustLevel :: "seg_host \<Rightarrow> trust" where
  "assessTrustLevel h =
     (if list_ex (label_contains [''secure'', ''trusted'', ''internal'']) (sh_Labels h) then TrustHigh
      else if list_ex (label_contains [''external'', ''dmz'', ''public'']) (sh_Labels h) then TrustLow
      else TrustMedium)"

definition assessed_host :: "seg_host \<Rightarrow> net_host" where
  "assessed_host h =
     \<lparr>nh_ID = sh_ID h, nh_IP = sh_IP h, nh_Labels = sh_Labels h, nh_Services = sh_Services h,
      nh_Criticality = assessCriticality h, nh_TrustLevel = assessTrustLevel h,
      nh_InboundConnections = 0, nh_OutboundConnections = 0, nh_TotalTraffic = 0\<rparr>"

section \<open>Topology\<close>

definition isExternalIP :: "string \<Rightarrow> bool" where
  "isExternalIP ip = (case ParseIP ip of None \<Rightarrow> True | Some a \<Rightarrow> \<not> in_private_range a)"

definition assessConnectionRisk :: "traffic_flow \<Rightarrow> risk_level" where
  "assessConnectionRisk f =
     (if isExternalIP (tf_DestinationHost f) then RiskHigh
      else if tf_BytesTransferred f > 100 * 1024 * 1024 then RiskMedium
      else RiskLow)"

definition connectionKey :: "traffic_flow \<Rightarrow> string" where
  "connectionKey f =
     tf_SourceHost f @ ''->'' @ tf_DestinationHost f @ '':'' @ itoa (tf_DestinationPort f)"

text \<open>\<open>Time.Unix\<close>: whole seconds, rounded down.\<close>

definition unix_seconds :: "time \<Rightarrow> int" where
  "unix_seconds t = t div 1000000000"

definition flow_connection :: "traffic_flow \<Rightarrow> net_connection" where
  "flow_connection f =
     \<lparr>cn_SourceHost = tf_SourceHost f, cn_DestinationHost = tf_DestinationHost f,
      cn_Port = tf_DestinationPort f, cn_Protocol = tf_Protocol f,
      cn_TrafficVolume = tf_BytesTransferred f, cn_PacketCount = tf_PacketCount f,
      cn_FirstSeen = unix_seconds (tf_Timestamp f), cn_LastSeen = unix_seconds (tf_Timestamp f),
      cn_RiskLevel = assessConnectionRisk f\<rparr>"

definition add_flow :: "traffic_flow \<Rightarrow> (string, net_connection) gomap \<Rightarrow> (string, net_connection) gomap" where
  "add_flow f m =
     (case map_get m (connectionKey f) of
        Some c \<Rightarrow>
          map_set (connectionKey f)
            (c\<lparr>cn_TrafficVolume := wrap64 (cn_TrafficVolume c + tf_BytesTransferred f),
               cn_PacketCount := wrap64 (cn_PacketCount c + tf_PacketCount f),
               cn_LastSeen := unix_seconds (tf_Timestamp f)\<rparr>) m
      | None \<Rightarrow> map_set (connectionKey f) (flow_connection f) m)"

definition countConnections :: "(string, net_connection) gomap \<Rightarrow> string \<Rightarrow> bool \<Rightarrow> nat" where
  "countConnections m hostID inbound =
     length (filter (\<lambda>c. if inbound then cn_DestinationHost c = hostID else cn_SourceHost c = hostID)
       (map_values m))"

definition calculateHostTraffic :: "(string, net_connection) gomap \<Rightarrow> string \<Rightarrow> int" where
  "calculateHostTraffic m hostID =
     foldl (\<lambda>t c. if cn_SourceHost c = hostID \<or> cn_DestinationHost c = hostID
                  then wrap64 (t + cn_TrafficVolume c) else t) 0 (map_values m)"

definition host_metrics :: "(string, net_connection) gomap \<Rightarrow> net_host \<Rightarrow> net_host" where
  "host_metrics conns h =
     h\<lparr>nh_InboundConnections := countConnections conns (nh_ID h) True,
       nh_OutboundConnections := countConnections conns (nh_ID h) False,
       nh_TotalTraffic := calculateHostTraffic conns (nh_ID h)\<rparr>"

definition analyzeTopology :: "net_host list \<Rightarrow> traffic_flow list \<Rightarrow> topology" where
  "analyzeTopology hosts trafficData =
     (let hs = fold (\<lambda>h m. map_set (nh_ID h) h m) hosts [];
          conns = fold add_flow trafficData []
      in \<lparr>tp_Hosts = map (\<lambda>(k, h). (k, host_metrics conns h)) hs, tp_Connections = conns\<rparr>)"

section \<open>Proposals\<close>

fun crit_text :: "criticality \<Rightarrow> string" where
  "crit_text CritHigh = ''high''"
| "crit_text CritMedium = ''medium''"
| "crit_text CritLow = ''low''"

fun crit_title :: "criticality \<Rightarrow> string" where
  "crit_title CritHigh = ''High''"
| "crit_title CritMedium = ''Medium''"
| "crit_title CritLow = ''Low''"

fun mapCriticalityToSecurityLevel :: "criticality \<Rightarrow> security_level" where
  "mapCriticalityToSecurityLevel CritHigh = SecHigh"
| "mapCriticalityToSecurityLevel CritMedium = SecMedium"
| "mapCriticalityToSecurityLevel CritLow = SecLow"

definition convertHost :: "net_host \<Rightarrow> seg_host" where
  "convertHost h = \<lparr>sh_ID = nh_ID h, sh_IP = nh_IP h, sh_Labels = nh_Labels h, sh_Services = nh_Services h\<rparr>"

definition convertHosts :: "net_host list \<Rightarrow> seg_host list" where
  "convertHosts hs = map convertHost hs"

definition group_host :: "net_host \<Rightarrow> (criticality, net_host list) gomap \<Rightarrow> (criticality, net_host list) gomap" where
  "group_host h m =
     map_set (nh_Criticality h)
       ((case map_get m (nh_Criticality h) of None \<Rightarrow> [] | Some hs \<Rightarrow> hs) @ [h]) m"

definition criticality_segment :: "criticality \<times> net_host list \<Rightarrow> network_segment" where
  "criticality_segment g =
     (case g of (c, hosts) \<Rightarrow>
        \<lparr>ns_ID = ''criticality-'' @ crit_text c, ns_Name = crit_title c @ '' Criticality Segment'',
         ns_Description = ''Hosts with '' @ crit_text c @ '' criticality'', ns_Hosts = convertHosts hosts,
         ns_SecurityLevel = mapCriticalityToSecurityLevel c\<rparr>)"

definition microsegments :: "net_host list \<Rightarrow> network_segment list" where
  "microsegments hosts =
     (let groups = fold group_host hosts [];
          dmzHosts = filter (\<lambda>h. nh_TrustLevel h = TrustLow) hosts
      in map criticality_segment (filter (\<lambda>(c, hs). hs \<noteq> []) groups)
         @ (if dmzHosts \<noteq> [] then
              [\<lparr>ns_ID = ''dmz'', ns_Name = ''DMZ Segment'',
                ns_Description = ''External-facing services and untrusted hosts'',
                ns_Hosts = convertHosts dmzHosts, ns_SecurityLevel = SecLow\<rparr>]
            else []))"

definition generateMicrosegmentationRules :: "network_segment list \<Rightarrow> firewall_rule list" where
  "generateMicrosegmentationRules segments = []"

definition generateZeroTrustRules :: "network_segment list \<Rightarrow> firewall_rule list" where
  "generateZeroTrustRules segments = []"

definition generateMicrosegmentationProposal :: "time \<Rightarrow> topology \<Rightarrow> seg_proposal" where
  "generateMicrosegmentationProposal now tp =
     (let segments = microsegments (map_values (tp_Hosts tp))
      in \<lparr>sp_ID = ''microseg-'' @ itoa (unix_seconds now), sp_Name = ''Microsegmentation Proposal'',
          sp_Description = ''Fine-grained segmentation based on host criticality and trust levels'',
          sp_Strategy = Microsegmentation, sp_Segments = segments,
          sp_FirewallRules = generateMicrosegmentationRules segments, sp_RiskReduction = 0, sp_Complexity = 0\<rparr>)"

text \<open>The segment of a host; its services are not copied.\<close>

definition host_segment :: "net_host \<Rightarrow> network_segment" where
  "host_segment h =
     \<lparr>ns_ID = ''host-'' @ nh_ID h, ns_Name = ''Host '' @ nh_ID h @ '' Segment'',
      ns_Description = ''Isolated segment for host '' @ nh_ID h,
      ns_Hosts = [\<lparr>sh_ID = nh_ID h, sh_IP = nh_IP h, sh_Labels = nh_Labels h, sh_Services = []\<rparr>],
      ns_SecurityLevel = SecHigh\<rparr>"

definition generateZeroTrustProposal :: "time \<Rightarrow> topology \<Rightarrow> seg_proposal" where
  "generateZeroTrustProposal now tp =
     (let segments = map host_segment (map_values (tp_Hosts tp))
      in \<lparr>sp_ID = ''zerotrust-'' @ itoa (unix_seconds now), sp_Name = ''Zero Trust Proposal'',
          sp_Description = ''Maximum isolation with individual segments for each host'',
          sp_Strategy = ZeroTrust, sp_Segments = segments,
          sp_FirewallRules = generateZeroTrustRules segments, sp_RiskReduction = 0, sp_Complexity = 0\<rparr>)"

definition empty_proposal :: seg_proposal where
  "empty_proposal =
     \<lparr>sp_ID = '''', sp_Name = '''', sp_Description = '''', sp_Strategy = NoStrategy, sp_Segments = [],
      sp_FirewallRules = [], sp_RiskReduction = 0, sp_Complexity = 0\<rparr>"

definition generateComplianceProposal :: "topology \<Rightarrow> seg_proposal" where
  "generateComplianceProposal tp = empty_proposal"

definition generatePerformanceProposal :: "topology \<Rightarrow> seg_proposal" where
  "generatePerformanceProposal tp = empty_proposal"

definition hasGoal :: "string list \<Rightarrow> string \<Rightarrow> bool" where
  "hasGoal goals target = list_ex (\<lambda>g. g = target) goals"

definition generateProposals :: "time \<Rightarrow> topology \<Rightarrow> string list \<Rightarrow> seg_proposal list" where
  "generateProposals now tp goals =
     (if hasGoal goals ''reduce_lateral_movement'' then
        [generateMicrosegmentationProposal now tp, generateZeroTrustProposal now tp] else [])
     @ (if hasGoal goals ''compliance'' then [generateComplianceProposal tp] else [])
     @ (if hasGoal goals ''performance'' then [generatePerformanceProposal tp] else [])"

definition calculateRiskReduction :: "topology \<Rightarrow> seg_proposal \<Rightarrow> rat" where
  "calculateRiskReduction tp p = 75 / 100"

definition calculateComplexity :: "seg_proposal \<Rightarrow> int" where
  "calculateComplexity p = int (length (sp_Segments p)) * 2"

definition rate_proposal :: "topology \<Rightarrow> seg_proposal \<Rightarrow> seg_proposal" where
  "rate_proposal tp p =
     (let p1 = p\<lparr>sp_RiskReduction := calculateRiskReduction tp p\<rparr>
      in p1\<lparr>sp_Complexity := calculateComplexity p1\<rparr>)"

text \<open>The quotient of two float64; dividing by zero gives an infinity or NaN.\<close>

definition proposal_score :: "seg_proposal \<Rightarrow> float64" where
  "proposal_score p =
     (if sp_Complexity p = 0 then
        (if sp_RiskReduction p > 0 then PosInf else if sp_RiskReduction p < 0 then NegInf else NaN)
      else Fin (sp_RiskReduction p / of_int (sp_Complexity p)))"

text \<open>\<open>sort.Slice\<close> sorts up to twelve elements by insertion; there are at most four.\<close>

fun sink :: "('a \<Rightarrow> 'a \<Rightarrow> bool) \<Rightarrow> 'a \<Rightarrow> 'a list \<Rightarrow> 'a list" where
  "sink lt x [] = [x]"
| "sink lt x (y # ys) = (if lt x y then y # sink lt x ys else x # y # ys)"

text \<open>The sorted prefix is kept in reverse, so that the new element moves from its end to the front.\<close>

definition insertion_sort :: "('a \<Rightarrow> 'a \<Rightarrow> bool) \<Rightarrow> 'a list \<Rightarrow> 'a list" where
  "insertion_sort lt xs = rev (foldl (\<lambda>acc x. sink lt x acc) [] xs)"

definition better_score :: "seg_proposal \<Rightarrow> seg_proposal \<Rightarrow> bool" where
  "better_score p q = f_greater (proposal_score p) (proposal_score q)"

definition generateRiskAssessment :: "topology \<Rightarrow> risk_assessment" where
  "generateRiskAssessment tp =
     \<lparr>ra_OverallRisk = ''Medium'', ra_RiskFactors = [''High traffic volume'', ''External connections'']\<rparr>"

definition ranked_proposals :: "time \<Rightarrow> topology \<Rightarrow> string list \<Rightarrow> seg_proposal list" where
  "ranked_proposals now tp goals =
     insertion_sort better_score (map (rate_proposal tp) (generateProposals now tp goals))"

fun pointers :: "'a option list \<Rightarrow> 'a list option" where
  "pointers [] = Some []"
| "pointers (None # xs) = None"
| "pointers (Some x # xs) = map_option ((#) x) (pointers xs)"

definition ProposeSegmentation :: "time \<Rightarrow> proposal_request \<Rightarrow> proposal_response option" where
  "ProposeSegmentation now req =
     (case pointers (sr_Hosts req) of
        None \<Rightarrow> None
      | Some hs \<Rightarrow>
          (case pointers (sr_TrafficData req) of
             None \<Rightarrow> None
           | Some flows \<Rightarrow>
               let tp = analyzeTopology (map assessed_host hs) flows
               in Some \<lparr>sr_ProposalID = ''proposal-'' @ itoa (unix_seconds now), sr_GeneratedAt = now,
                        sr_TopologyHosts = convertHosts (map_values (tp_Hosts tp)),
                        sr_TopologyConnections = map_values (tp_Connections tp),
                        sr_Proposals = ranked_proposals now tp (sr_Goals req),
                        sr_RiskAssessment = generateRiskAssessment tp\<rparr>))"

section \<open>Plans and the HTTP interface\<close>

record plan_request =
  lr_ProposalID :: string
  lr_Proposal :: "seg_proposal option"
  lr_Mode :: string

text \<open>A step of a plan; no code creates one.\<close>

record plan_step_info =
  pi_ID :: string
  pi_Order :: int
  pi_Duration :: duration

record plan_response =
  ls_PlanID :: string
  ls_ProposalID :: string
  ls_CreatedAt :: time
  ls_Mode :: string
  ls_Steps :: "plan_step_info list"
  ls_RollbackSteps :: "plan_step_info list"
  ls_EstimatedDuration :: duration
  ls_RiskLevel :: string

definition generateImplementationSteps :: "seg_proposal \<Rightarrow> string \<Rightarrow> plan_step_info list" where
  "generateImplementationSteps p mode = []"

definition estimateDuration :: "plan_step_info list \<Rightarrow> duration" where
  "estimateDuration steps = seconds (2 * 3600)"

definition assessPlanRisk :: "plan_step_info list \<Rightarrow> string" where
  "assessPlanRisk steps = ''Medium''"

definition CreateSegmentationPlan :: "time \<Rightarrow> plan_request \<Rightarrow> string + plan_response" where
  "CreateSegmentationPlan now req =
     (case lr_Proposal req of
        None \<Rightarrow> Inl ''proposal is required''
      | Some p \<Rightarrow>
          let steps = generateImplementationSteps p (lr_Mode req)
          in Inr \<lparr>ls_PlanID = ''plan-'' @ itoa (unix_seconds now), ls_ProposalID = lr_ProposalID req, ls_CreatedAt = now,
                  ls_Mode = lr_Mode req, ls_Steps = steps, ls_RollbackSteps = [],
                  ls_EstimatedDuration = estimateDuration steps, ls_RiskLevel = assessPlanRisk steps\<rparr>)"

datatype seg_answer =
    SegError int string
  | SegProposals proposal_response
  | SegPlan plan_response
  | SegPanic

text \<open>A request as the handlers see it: its method and its body, \<^term>\<open>None\<close> when decoding failed.\<close>

definition handleProposeSegmentation :: "time \<Rightarrow> string \<Rightarrow> proposal_request option \<Rightarrow> seg_answer" where
  "handleProposeSegmentation now method body =
     (if method \<noteq> ''POST'' then SegError 405 ''Method not allowed''
      else (case body of
              None \<Rightarrow> SegError 400 ''Invalid JSON''
            | Some req \<Rightarrow>
                if sr_Hosts req = [] then SegError 400 ''At least one host is required''
                else if sr_Goals req = [] then SegError 400 ''At least one segmentation goal is required''
                else (case ProposeSegmentation now req of
                        None \<Rightarrow> SegPanic
                      | Some r \<Rightarrow> SegProposals r)))"

definition handleCreateSegmentationPlan :: "time \<Rightarrow> string \<Rightarrow> plan_request option \<Rightarrow> seg_answer" where
  "handleCreateSegmentationPlan now method body =
     (if method \<noteq> ''POST'' then SegError 405 ''Method not allowed''
      else (case body of
              None \<Rightarrow> SegError 400 ''Invalid JSON''
            | Some req \<Rightarrow>
                if lr_ProposalID req = '''' then SegError 400 ''Proposal ID is required''
                else if lr_Proposal req = None then SegError 400 ''Proposal is required''
                else (case CreateSegmentationPlan now req of
                        Inl e \<Rightarrow> SegError 500 ''Failed to create plan''
                      | Inr r \<Rightarrow> SegPlan r)))"

end
