(* ===== verification/Seg_Properties.thy ===== *)
theory Seg_Properties
  imports Seg_Segmenter
begin

text \<open>
  What a segmentation proposal contains: which hosts are in which segments, what the connections of
  the topology add up to, and which proposal comes first.
\<close>

section \<open>The hosts of the topology\<close>

lemma fold_hosts_keys:
  "(\<forall>(k, h) \<in> set m. k = nh_ID h \<and> P h) \<Longrightarrow> map_ok m \<Longrightarrow> \<forall>h \<in> set hs. P h \<Longrightarrow>
     (\<forall>(k, h) \<in> set (fold (\<lambda>h m. map_set (nh_ID h) h m) hs m). k = nh_ID h \<and> P h)
     \<and> map_ok (fold (\<lambda>h m. map_set (nh_ID h) h m) hs m)
     \<and> fst ` set (fold (\<lambda>h m. map_set (nh_ID h) h m) hs m) = fst ` set m \<union> nh_ID ` set hs"
proof (induction hs arbitrary: m)
  case Nil
  then show ?case by simp
next
  case (Cons h hs)
  let ?m = "map_set (nh_ID h) h m"
  have "\<forall>(k, h) \<in> set ?m. k = nh_ID h \<and> P h" "map_ok ?m"
    using Cons.prems by (auto simp: set_map_set distinct_update)
  from Cons.IH [OF this] Cons.prems(3) show ?case
    by (auto simp: dom_update set_map_set [OF Cons.prems(2)] image_iff)
qed

text \<open>The hosts are those of the request, once for each identifier, with their assessments.\<close>

definition host_ok :: "net_host \<Rightarrow> bool" where
  "host_ok h = (nh_TrustLevel h = assessTrustLevel (convertHost h)
                \<and> nh_Criticality h = assessCriticality (convertHost h))"

lemma host_ok_assessed: "host_ok (assessed_host h)"
  by (simp add: host_ok_def assessed_host_def convertHost_def assessTrustLevel_def assessCriticality_def)

lemma host_metrics_same:
  "nh_ID (host_metrics c h) = nh_ID h" "convertHost (host_metrics c h) = convertHost h"
  "nh_TrustLevel (host_metrics c h) = nh_TrustLevel h" "nh_Criticality (host_metrics c h) = nh_Criticality h"
  "host_ok (host_metrics c h) = host_ok h"
  by (simp_all add: host_metrics_def convertHost_def host_ok_def)

lemma topology_hosts:
  fixes hs fs
  defines "vs \<equiv> map_values (tp_Hosts (analyzeTopology (map assessed_host hs) fs))"
  shows "distinct (map nh_ID vs)" "\<forall>h \<in> set vs. host_ok h" "nh_ID ` set vs = sh_ID ` set hs"
proof -
  define m where "m = fold (\<lambda>h m. map_set (nh_ID h) h m) (map assessed_host hs) []"
  have "\<forall>h \<in> set (map assessed_host hs). host_ok h" by (auto simp: host_ok_assessed)
  from fold_hosts_keys [of "[]" host_ok, OF _ _ this]
  have m: "\<forall>(k, h) \<in> set m. k = nh_ID h \<and> host_ok h" "map_ok m" "fst ` set m = nh_ID ` set (map assessed_host hs)"
    by (simp_all add: m_def)
  have vs: "vs = map (host_metrics (fold add_flow fs []) \<circ> snd) m"
    by (simp add: vs_def analyzeTopology_def Let_def m_def case_prod_beta comp_def)
  have ids: "map nh_ID vs = map fst m"
    using m(1) by (auto simp: vs host_metrics_same)
  then show "distinct (map nh_ID vs)" using m(2) by simp
  show "\<forall>h \<in> set vs. host_ok h" using m(1) by (auto simp: vs host_metrics_same)
  have "nh_ID ` set vs = set (map nh_ID vs)" by simp
  also have "\<dots> = nh_ID ` set (map assessed_host hs)" unfolding ids using m(3) by simp
  finally show "nh_ID ` set vs = sh_ID ` set hs" by (simp add: image_image assessed_host_def)
qed

section \<open>Segments\<close>

definition segments_with :: "network_segment list \<Rightarrow> string \<Rightarrow> nat" where
  "segments_with segs i = length (filter (\<lambda>s. i \<in> sh_ID ` set (ns_Hosts s)) segs)"

lemma segments_with_append [simp]: "segments_with (a @ b) i = segments_with a i + segments_with b i"
  by (simp add: segments_with_def)

lemma group_hosts:
  "map_ok m \<Longrightarrow>
     map_ok (fold group_host hs m)
     \<and> map_get (fold group_host hs m) c =
         (case filter (\<lambda>h. nh_Criticality h = c) hs of
            [] \<Rightarrow> map_get m c
          | xs \<Rightarrow> Some ((case map_get m c of None \<Rightarrow> [] | Some ys \<Rightarrow> ys) @ xs))"
proof (induction hs arbitrary: m)
  case Nil
  then show ?case by simp
next
  case (Cons h hs)
  have "map_ok (group_host h m)" using Cons.prems by (simp add: group_host_def distinct_update)
  from Cons.IH [OF this] show ?case
    by (auto simp: group_host_def split: list.splits option.splits)
qed

lemma unique_key_count:
  assumes "map_ok m" "\<And>k v. (k, v) \<in> set m \<Longrightarrow> P (k, v) \<longleftrightarrow> k = k0"
  shows "length (filter P m) = (if k0 \<in> fst ` set m then 1 else 0)"
  using assms
proof (induction m)
  case Nil
  then show ?case by simp
next
  case (Cons p m)
  obtain k v where p: "p = (k, v)" by (cases p)
  from Cons.prems have "P p \<longleftrightarrow> k = k0" unfolding p by auto
  moreover have "length (filter P m) = (if k0 \<in> fst ` set m then 1 else 0)"
    using Cons by auto
  moreover have "k \<notin> fst ` set m" using Cons.prems(1) p by auto
  ultimately show ?case by (auto simp: p)
qed

lemma in_converted: "i \<in> sh_ID ` set (convertHosts hs) \<longleftrightarrow> i \<in> nh_ID ` set hs"
  by (auto simp: convertHosts_def convertHost_def image_image)

lemma microsegments_count:
  assumes "distinct (map nh_ID hosts)" "h \<in> set hosts"
  shows "segments_with (microsegments hosts) (nh_ID h) = (if nh_TrustLevel h = TrustLow then 2 else 1)"
proof -
  define g where "g = fold group_host hosts []"
  have ok: "map_ok g" and get: "\<And>c. map_get g c = (case filter (\<lambda>h. nh_Criticality h = c) hosts of [] \<Rightarrow> None | xs \<Rightarrow> Some xs)"
    using group_hosts [of "[]" hosts] by (auto simp: g_def split: list.splits)
  have member: "hs = filter (\<lambda>h. nh_Criticality h = c) hosts \<and> hs \<noteq> []" if "(c, hs) \<in> set g" for c hs
    using map_of_is_SomeI [OF ok that] get [of c] by (auto split: list.splits)
  have uniq: "x = h" if "x \<in> set hosts" "nh_ID x = nh_ID h" for x
    using assms that by (auto simp: distinct_map inj_on_def)
  have all: "filter (\<lambda>(c, hs). hs \<noteq> []) g = g"
    by (rule filter_True) (use member in auto)
  have "length (filter (\<lambda>p. nh_ID h \<in> sh_ID ` set (ns_Hosts (criticality_segment p))) g)
      = (if nh_Criticality h \<in> fst ` set g then 1 else 0)"
  proof (rule unique_key_count [OF ok])
    fix c hs assume "(c, hs) \<in> set g"
    with member have hs: "hs = filter (\<lambda>h. nh_Criticality h = c) hosts" by blast
    show "nh_ID h \<in> sh_ID ` set (ns_Hosts (criticality_segment (c, hs))) \<longleftrightarrow> c = nh_Criticality h"
      unfolding criticality_segment_def prod.case network_segment.simps in_converted hs
      using assms(2) by (auto dest: uniq)
  qed
  moreover have "nh_Criticality h \<in> fst ` set g"
  proof -
    have "map_get g (nh_Criticality h) \<noteq> None" using assms(2) get [of "nh_Criticality h"]
      by (auto split: list.splits simp: filter_empty_conv)
    then show ?thesis by (simp add: map_of_eq_None_iff)
  qed
  ultimately have crit: "segments_with (map criticality_segment (filter (\<lambda>(c, hs). hs \<noteq> []) g)) (nh_ID h) = 1"
    unfolding all by (simp add: segments_with_def filter_map comp_def)
  have dmz: "nh_ID h \<in> nh_ID ` set (filter (\<lambda>h. nh_TrustLevel h = TrustLow) hosts) \<longleftrightarrow> nh_TrustLevel h = TrustLow"
    using assms(2) by (auto dest: uniq)
  show ?thesis
  proof (cases "filter (\<lambda>h. nh_TrustLevel h = TrustLow) hosts = []")
    case True
    with assms(2) have "nh_TrustLevel h \<noteq> TrustLow" by (auto simp: filter_empty_conv)
    with True crit show ?thesis by (simp add: microsegments_def Let_def g_def [symmetric])
  next
    case False
    with crit dmz show ?thesis
      by (simp add: microsegments_def Let_def g_def [symmetric] segments_with_def in_converted)
  qed
qed

lemma zero_trust_count:
  assumes "distinct (map nh_ID hosts)" "h \<in> set hosts"
  shows "segments_with (map host_segment hosts) (nh_ID h) = 1"
proof -
  have "segments_with (map host_segment hosts) (nh_ID h) = length (filter (\<lambda>x. nh_ID h = nh_ID x) hosts)"
    by (simp add: segments_with_def filter_map comp_def host_segment_def)
  also have "\<dots> = 1"
    using assms
  proof (induction hosts)
    case (Cons x xs)
    show ?case
    proof (cases "nh_ID x = nh_ID h")
      case True
      with Cons.prems have "filter (\<lambda>x. nh_ID h = nh_ID x) xs = []" by (auto simp: filter_empty_conv)
      with True show ?thesis by simp
    next
      case False
      with Cons show ?thesis by auto
    qed
  qed simp
  finally show ?thesis .
qed

section \<open>Ranking\<close>

lemma set_sink: "set (sink lt x xs) = insert x (set xs)"
  by (induction xs) auto

lemma set_insertion_sort: "set (insertion_sort lt xs) = set xs"
proof -
  have "set (foldl (\<lambda>acc x. sink lt x acc) acc xs) = set acc \<union> set xs" for acc
    by (induction xs arbitrary: acc) (auto simp: set_sink)
  then show ?thesis by (simp add: insertion_sort_def)
qed

lemma rated_same: "sp_Segments (rate_proposal tp p) = sp_Segments p" "sp_Strategy (rate_proposal tp p) = sp_Strategy p"
  by (simp_all add: rate_proposal_def Let_def)

lemma rated_score:
  "proposal_score (rate_proposal tp p) =
     (if sp_Segments p = [] then PosInf else Fin (3 / (8 * of_nat (length (sp_Segments p)))))"
  by (auto simp: proposal_score_def rate_proposal_def Let_def calculateRiskReduction_def calculateComplexity_def field_simps)

text \<open>A proposal without segments beats every other one and is beaten by none.\<close>

lemma better_iff:
  "better_score (rate_proposal tp p) (rate_proposal tp q) \<longleftrightarrow>
     (sp_Segments p = [] \<and> sp_Segments q \<noteq> [])
     \<or> (sp_Segments p \<noteq> [] \<and> sp_Segments q \<noteq> [] \<and> length (sp_Segments p) < length (sp_Segments q))"
proof -
  have "(3 / (8 * of_nat n) :: rat) > 3 / (8 * of_nat m) \<longleftrightarrow> n < m" if "0 < n" "0 < m" for n m :: nat
    using that by (simp add: field_simps)
  then show ?thesis by (auto simp: better_score_def f_greater_def rated_score)
qed


lemma pointers_map: "pointers xs = Some ys \<Longrightarrow> xs = map Some ys"
  by (induction xs arbitrary: ys rule: pointers.induct) auto

lemma proposal_strategies:
  "sp_Strategy (generateMicrosegmentationProposal now tp) = Microsegmentation"
  "sp_Strategy (generateZeroTrustProposal now tp) = ZeroTrust"
  by (simp_all add: generateMicrosegmentationProposal_def generateZeroTrustProposal_def Let_def)

lemma propose_cases:
  assumes "ProposeSegmentation now req = Some r"
  obtains hs fs tp where "sr_Hosts req = map Some hs" "sr_TrafficData req = map Some fs"
    "tp = analyzeTopology (map assessed_host hs) fs"
    "sr_TopologyHosts r = convertHosts (map_values (tp_Hosts tp))"
    "sr_TopologyConnections r = map_values (tp_Connections tp)"
    "sr_Proposals r = ranked_proposals now tp (sr_Goals req)"
proof -
  from assms obtain hs fs where p: "pointers (sr_Hosts req) = Some hs" "pointers (sr_TrafficData req) = Some fs"
    by (auto simp: ProposeSegmentation_def split: option.splits)
  show thesis
    by (rule that [OF pointers_map [OF p(1)] pointers_map [OF p(2)] refl])
      (use assms p in \<open>auto simp: ProposeSegmentation_def Let_def\<close>)
qed

text \<open>
  C36. The topology of an answer has one host for every identifier in the request. If the goal is to reduce
  lateral movement, a host is in exactly one segment of the zero-trust proposal, and in one of
  the microsegmentation proposal, or in two when its labels make it untrusted: then the segment of
  its criticality and the DMZ overlap. No proposal has firewall rules.
\<close>

theorem proposed_segments_cover_hosts:
  assumes "ProposeSegmentation now req = Some r" "hasGoal (sr_Goals req) ''reduce_lateral_movement''"
  shows "distinct (map sh_ID (sr_TopologyHosts r))
    \<and> Some ` sh_ID ` set (sr_TopologyHosts r) = map_option sh_ID ` set (sr_Hosts req)
    \<and> (\<exists>p \<in> set (sr_Proposals r). sp_Strategy p = Microsegmentation
         \<and> (\<forall>h \<in> set (sr_TopologyHosts r). segments_with (sp_Segments p) (sh_ID h)
              = (if assessTrustLevel h = TrustLow then 2 else 1)))
    \<and> (\<exists>p \<in> set (sr_Proposals r). sp_Strategy p = ZeroTrust
         \<and> (\<forall>h \<in> set (sr_TopologyHosts r). segments_with (sp_Segments p) (sh_ID h) = 1))
    \<and> (\<forall>p \<in> set (sr_Proposals r). sp_FirewallRules p = [])"
proof -
  obtain hs fs tp where q: "sr_Hosts req = map Some hs" "tp = analyzeTopology (map assessed_host hs) fs"
    "sr_TopologyHosts r = convertHosts (map_values (tp_Hosts tp))"
    "sr_Proposals r = ranked_proposals now tp (sr_Goals req)"
    by (rule propose_cases [OF assms(1)])
  define vs where "vs = map_values (tp_Hosts tp)"
  note t = topology_hosts [of hs fs, folded q(2), folded vs_def]
  have ids: "map sh_ID (sr_TopologyHosts r) = map nh_ID vs"
    by (simp add: q(3) vs_def convertHosts_def convertHost_def)
  have in_hosts: "\<exists>v \<in> set vs. sh_ID h = nh_ID v \<and> (assessTrustLevel h = TrustLow \<longleftrightarrow> nh_TrustLevel v = TrustLow)"
    if h: "h \<in> set (sr_TopologyHosts r)" for h
  proof -
    obtain v where v: "v \<in> set vs" "h = convertHost v"
      using h by (auto simp: q(3) vs_def convertHosts_def)
    with t(2) have "nh_TrustLevel v = assessTrustLevel h" by (simp add: host_ok_def)
    moreover from v have "sh_ID h = nh_ID v" by (simp add: convertHost_def)
    ultimately show ?thesis using v(1) by auto
  qed
  have props: "set (sr_Proposals r) = rate_proposal tp ` set (generateProposals now tp (sr_Goals req))"
    by (simp add: q(4) ranked_proposals_def set_insertion_sort)
  have m: "rate_proposal tp (generateMicrosegmentationProposal now tp) \<in> set (sr_Proposals r)"
    "rate_proposal tp (generateZeroTrustProposal now tp) \<in> set (sr_Proposals r)"
    using assms(2) by (auto simp: props generateProposals_def)
  have segs: "sp_Segments (generateMicrosegmentationProposal now tp) = microsegments vs"
    "sp_Segments (generateZeroTrustProposal now tp) = map host_segment vs"
    by (simp_all add: generateMicrosegmentationProposal_def generateZeroTrustProposal_def Let_def vs_def)
  have "Some ` sh_ID ` set (sr_TopologyHosts r) = map_option sh_ID ` set (sr_Hosts req)"
    using t(3) arg_cong [OF ids, of set] by (simp add: q(1) image_image)
  moreover have "\<exists>p \<in> set (sr_Proposals r). sp_Strategy p = Microsegmentation
         \<and> (\<forall>h \<in> set (sr_TopologyHosts r). segments_with (sp_Segments p) (sh_ID h)
              = (if assessTrustLevel h = TrustLow then 2 else 1))"
    by (rule bexI [OF _ m(1)])
      (use in_hosts microsegments_count [OF t(1)] in
        \<open>fastforce simp: rated_same segs proposal_strategies\<close>)
  moreover have "\<exists>p \<in> set (sr_Proposals r). sp_Strategy p = ZeroTrust
         \<and> (\<forall>h \<in> set (sr_TopologyHosts r). segments_with (sp_Segments p) (sh_ID h) = 1)"
    by (rule bexI [OF _ m(2)])
      (use in_hosts zero_trust_count [OF t(1)] in
        \<open>fastforce simp: rated_same segs proposal_strategies\<close>)
  moreover have "\<forall>p \<in> set (sr_Proposals r). sp_FirewallRules p = []"
    by (auto simp: props generateProposals_def rate_proposal_def Let_def generateMicrosegmentationProposal_def
        generateZeroTrustProposal_def generateMicrosegmentationRules_def generateZeroTrustRules_def
        generateComplianceProposal_def generatePerformanceProposal_def empty_proposal_def split: if_splits)
  ultimately show ?thesis using t(1) by (simp add: ids)
qed

lemma topology_nonempty:
  "hs \<noteq> [] \<Longrightarrow> map_values (tp_Hosts (analyzeTopology (map assessed_host hs) fs)) \<noteq> []"
  using topology_hosts(3) [of hs fs] by (metis empty_is_image list.set(1) set_empty)

text \<open>
  C37. If compliance or performance is among the goals, the first proposal of an answer about at least one host is
  empty: it has no segments, hence complexity zero, hence an infinite score. Nothing is proposed for
  these goals.
\<close>

theorem placeholder_ranks_first:
  assumes "ProposeSegmentation now req = Some r" "sr_Hosts req \<noteq> []"
    "hasGoal (sr_Goals req) ''compliance'' \<or> hasGoal (sr_Goals req) ''performance''"
  shows "sr_Proposals r \<noteq> [] \<and> sp_Segments (hd (sr_Proposals r)) = []
    \<and> sp_Strategy (hd (sr_Proposals r)) = NoStrategy \<and> sp_RiskReduction (hd (sr_Proposals r)) = 3 / 4"
proof -
  obtain hs fs tp where q: "sr_Hosts req = map Some hs" "tp = analyzeTopology (map assessed_host hs) fs"
    "sr_Proposals r = ranked_proposals now tp (sr_Goals req)"
    by (rule propose_cases [OF assms(1)])
  let ?m = "generateMicrosegmentationProposal now tp" and ?z = "generateZeroTrustProposal now tp"
  have ne: "map_values (tp_Hosts tp) \<noteq> []" using topology_nonempty [of hs fs] assms(2) q(1,2) by auto
  then obtain v where v: "v \<in> set (map_values (tp_Hosts tp))" by (meson list.set_sel(1))
  have "segments_with (sp_Segments ?m) (nh_ID v) \<noteq> 0"
    using microsegments_count [OF _ v] topology_hosts(1) [of hs fs, folded q(2)]
    by (simp add: generateMicrosegmentationProposal_def Let_def split: if_splits)
  then have m: "sp_Segments ?m \<noteq> []" by (auto simp: segments_with_def)
  have z: "sp_Segments ?z \<noteq> []" using ne by (simp add: generateZeroTrustProposal_def Let_def)
  have e: "sp_Segments empty_proposal = []" "sp_Strategy empty_proposal = NoStrategy"
    by (simp_all add: empty_proposal_def)
  have r: "sp_RiskReduction (rate_proposal tp p) = 3 / 4" for p
    by (simp add: rate_proposal_def Let_def calculateRiskReduction_def)
  show ?thesis
    unfolding q(3) ranked_proposals_def generateProposals_def generateComplianceProposal_def
      generatePerformanceProposal_def insertion_sort_def
    using assms(3) by (auto simp: better_iff m z e r rated_same)
qed


section \<open>Traffic\<close>

definition flows_of :: "string \<Rightarrow> traffic_flow list \<Rightarrow> traffic_flow list" where
  "flows_of k fs = filter (\<lambda>f. connectionKey f = k) fs"

lemma wrap64_add_left: "wrap64 (wrap64 a + b) = wrap64 (a + b)"
proof -
  have "(wrap64 a + b + 2 ^ 63) mod 2 ^ 64 = ((a + 2 ^ 63) mod 2 ^ 64 + b) mod 2 ^ 64"
    by (simp add: wrap64_def algebra_simps)
  then show ?thesis unfolding wrap64_def by (simp add: mod_simps algebra_simps)
qed

text \<open>
  A connection adds up the flows between its hosts and port, in the arithmetic of \<open>int64\<close>, and keeps
  the times of the first and of the last one in the order of the request.
\<close>

lemma connection_totals:
  "(case map_get (fold add_flow fs []) k of
      None \<Rightarrow> flows_of k fs = []
    | Some c \<Rightarrow> flows_of k fs \<noteq> []
        \<and> wrap64 (cn_TrafficVolume c) = wrap64 (sum_list (map tf_BytesTransferred (flows_of k fs)))
        \<and> wrap64 (cn_PacketCount c) = wrap64 (sum_list (map tf_PacketCount (flows_of k fs)))
        \<and> cn_FirstSeen c = unix_seconds (tf_Timestamp (hd (flows_of k fs)))
        \<and> cn_LastSeen c = unix_seconds (tf_Timestamp (last (flows_of k fs))))"
proof (induction fs rule: rev_induct)
  case Nil
  then show ?case by (simp add: flows_of_def)
next
  case (snoc f fs)
  let ?m = "fold add_flow fs []"
  have run: "fold add_flow (fs @ [f]) [] = add_flow f ?m" by simp
  have flows: "flows_of k (fs @ [f]) = flows_of k fs @ (if connectionKey f = k then [f] else [])"
    by (simp add: flows_of_def)
  show ?case
  proof (cases "connectionKey f = k")
    case False
    then have g: "map_get (add_flow f ?m) k = map_get ?m k" by (auto simp: add_flow_def split: option.splits)
    from False have fl: "flows_of k (fs @ [f]) = flows_of k fs" by (simp add: flows)
    show ?thesis unfolding run g fl by (rule snoc)
  next
    case True
    show ?thesis
    proof (cases "map_get ?m k")
      case None
      with True have "map_get (add_flow f ?m) k = Some (flow_connection f)" by (simp add: add_flow_def)
      with snoc None True show ?thesis unfolding run flows by (simp add: flow_connection_def)
    next
      case (Some c)
      with True have s: "map_get (add_flow f ?m) k = Some (c\<lparr>
          cn_TrafficVolume := wrap64 (cn_TrafficVolume c + tf_BytesTransferred f),
          cn_PacketCount := wrap64 (cn_PacketCount c + tf_PacketCount f),
          cn_LastSeen := unix_seconds (tf_Timestamp f)\<rparr>)" by (simp add: add_flow_def)
      from snoc Some have i: "flows_of k fs \<noteq> []"
        "wrap64 (cn_TrafficVolume c) = wrap64 (sum_list (map tf_BytesTransferred (flows_of k fs)))"
        "wrap64 (cn_PacketCount c) = wrap64 (sum_list (map tf_PacketCount (flows_of k fs)))"
        "cn_FirstSeen c = unix_seconds (tf_Timestamp (hd (flows_of k fs)))" by simp_all
      have w: "wrap64 (wrap64 (a + x)) = wrap64 (b + x)" if "wrap64 a = wrap64 b" for a b x
        using that wrap64_add_left [of a x] wrap64_add_left [of b x] wrap64_add_left [of "a + x" 0] by simp
      show ?thesis unfolding run flows s
        using i True w [OF i(2), of "tf_BytesTransferred f"] w [OF i(3), of "tf_PacketCount f"] by simp
    qed
  qed
qed

text \<open>
  The key of a connection is ambiguous: flows between different hosts are added up when the names
  contain the arrow.
\<close>

lemma key_ambiguous:
  "connectionKey \<lparr>tf_SourceHost = ''a'', tf_DestinationHost = ''b->c'', tf_DestinationPort = 1, tf_Protocol = p,
                  tf_BytesTransferred = x, tf_PacketCount = y, tf_Timestamp = t\<rparr>
   = connectionKey \<lparr>tf_SourceHost = ''a->b'', tf_DestinationHost = ''c'', tf_DestinationPort = 1, tf_Protocol = p',
                    tf_BytesTransferred = x', tf_PacketCount = y', tf_Timestamp = t'\<rparr>"
  by (simp add: connectionKey_def)

text \<open>A destination that is named by the identifier of its host counts as external.\<close>

lemma named_destination_is_external:
  "ParseIP (tf_DestinationHost f) = None \<Longrightarrow> assessConnectionRisk f = RiskHigh"
  by (simp add: assessConnectionRisk_def isExternalIP_def)

section \<open>A request\<close>

definition ex_seg_request :: "string list \<Rightarrow> proposal_request" where
  "ex_seg_request goals =
     \<lparr>sr_Hosts = [Some \<lparr>sh_ID = ''a'', sh_IP = ''10.0.0.1'', sh_Labels = [''role:db''], sh_Services = []\<rparr>,
                  Some \<lparr>sh_ID = ''b'', sh_IP = ''10.0.0.2'', sh_Labels = [''DMZ''], sh_Services = [''web'']\<rparr>],
      sr_TrafficData = [Some \<lparr>tf_SourceHost = ''a'', tf_DestinationHost = ''b'', tf_DestinationPort = 80,
                              tf_Protocol = ''tcp'', tf_BytesTransferred = 7, tf_PacketCount = 2, tf_Timestamp = 0\<rparr>],
      sr_Goals = goals\<rparr>"

theorem proposed_segments_cover_hosts_witness:
  "\<exists>r. ProposeSegmentation 0 (ex_seg_request [''reduce_lateral_movement'']) = Some r
     \<and> (\<exists>p \<in> set (sr_Proposals r). sp_Strategy p = ZeroTrust
          \<and> (\<forall>h \<in> set (sr_TopologyHosts r). segments_with (sp_Segments p) (sh_ID h) = 1))"
proof -
  have "ProposeSegmentation 0 (ex_seg_request [''reduce_lateral_movement'']) \<noteq> None"
    by (simp add: ProposeSegmentation_def ex_seg_request_def Let_def)
  then obtain r where r: "ProposeSegmentation 0 (ex_seg_request [''reduce_lateral_movement'']) = Some r" by blast
  have g: "hasGoal (sr_Goals (ex_seg_request [''reduce_lateral_movement''])) ''reduce_lateral_movement''"
    by (simp add: ex_seg_request_def hasGoal_def)
  from proposed_segments_cover_hosts [OF r g] r show ?thesis by blast
qed

theorem placeholder_ranks_first_witness:
  "\<exists>r. ProposeSegmentation 0 (ex_seg_request [''reduce_lateral_movement'', ''compliance'']) = Some r
     \<and> length (sr_Proposals r) = 3 \<and> sp_Segments (hd (sr_Proposals r)) = []"
proof -
  let ?q = "ex_seg_request [''reduce_lateral_movement'', ''compliance'']"
  have "map_option (\<lambda>r. length (sr_Proposals r)) (ProposeSegmentation 0 ?q) = Some 3" by code_simp
  then obtain r where r: "ProposeSegmentation 0 ?q = Some r" "length (sr_Proposals r) = 3" by auto
  have "sr_Hosts ?q \<noteq> []" "hasGoal (sr_Goals ?q) ''compliance'' \<or> hasGoal (sr_Goals ?q) ''performance''"
    by (simp_all add: ex_seg_request_def hasGoal_def)
  from placeholder_ranks_first [OF r(1) this] r show ?thesis by blast
qed

end
